(* ===== verification/Prelude.thy ===== *)
theory Prelude
  imports Complex_Main "HOL-Library.Multiset" "HOL-Library.Char_ord" "HOL-Library.List_Lexorder"
    "HOL-Library.Code_Target_Nat"
begin

text \<open>
  Prelude: what the components share of the JavaScript language and library.
  \<^item> strings are lists of code units in the range 0 to 255 (the type \<open>string\<close>);
    \<open><\<close> and \<open>\<le>\<close> on strings are the code-unit order of JavaScript's \<open><\<close> and of
    \<open>Array.prototype.sort()\<close> without a comparator;
  \<^item> \<open>trim\<close>, \<open>toLowerCase\<close>, \<open>startsWith\<close>, \<open>endsWith\<close>, \<open>includes\<close>, \<open>join\<close>;
  \<^item> \<open>Set\<close> as a list without duplicates in insertion order (\<open>dedup\<close>);
  \<^item> \<open>Map\<close> as an association list in insertion order (\<open>map_get\<close>, \<open>map_set\<close>), with its
    laws stated once as the locale \<open>keyed_map\<close>;
  \<^item> \<open>Array.prototype.sort(cmp)\<close>, the stable sort, as insertion (\<open>sort_by\<close>), with the
    locale \<open>comparator\<close> for what a consistent comparator promises;
  \<^item> an absent value (\<open>undefined\<close>) is \<open>None\<close>; \<open>a ?? b\<close> is \<open>nullish a b\<close>.
\<close>

named_theorems js_map_simps "laws of insertion-ordered maps"
named_theorems unique_simps "laws of the uniqueStrings family"

section \<open>Strings\<close>

definition is_ws :: "char \<Rightarrow> bool" where
  "is_ws c = (of_char c \<in> {9, 10, 11, 12, 13, 32, 160 :: nat})"

definition trim :: "string \<Rightarrow> string" where
  "trim s = rev (dropWhile is_ws (rev (dropWhile is_ws s)))"

definition blank :: "string \<Rightarrow> bool" where
  "blank s = (trim s = '''')"

definition lower_char :: "char \<Rightarrow> char" where
  "lower_char c =
     (let n = (of_char c :: nat)
      in if 65 \<le> n \<and> n \<le> 90 \<or> 192 \<le> n \<and> n \<le> 222 \<and> n \<noteq> 215 then char_of (n + 32) else c)"

definition to_lower :: "string \<Rightarrow> string" where
  "to_lower s = map lower_char s"

fun starts_with :: "string \<Rightarrow> string \<Rightarrow> bool" where
  "starts_with s [] = True"
| "starts_with [] (p # ps) = False"
| "starts_with (c # s) (p # ps) = (c = p \<and> starts_with s ps)"

definition ends_with :: "string \<Rightarrow> string \<Rightarrow> bool" where
  "ends_with s p = starts_with (rev s) (rev p)"

fun str_includes :: "string \<Rightarrow> string \<Rightarrow> bool" where
  "str_includes [] p = (p = [])"
| "str_includes (c # s) p = (starts_with (c # s) p \<or> str_includes s p)"

fun join :: "string \<Rightarrow> string list \<Rightarrow> string" where
  "join sep [] = ''''"
| "join sep [x] = x"
| "join sep (x # y # xs) = x @ sep @ join sep (y # xs)"

lemma blank_iff: "blank s \<longleftrightarrow> (\<forall>c \<in> set s. is_ws c)"
proof
  assume "blank s"
  then have e: "dropWhile is_ws (rev (dropWhile is_ws s)) = []"
    by (simp add: blank_def trim_def)
  then have "\<forall>c \<in> set (rev (dropWhile is_ws s)). is_ws c"
    by (simp only: dropWhile_eq_Nil_conv)
  then have "\<forall>c \<in> set (dropWhile is_ws s). is_ws c" by simp
  moreover have "\<forall>c \<in> set (takeWhile is_ws s). is_ws c"
    by (auto dest: set_takeWhileD)
  moreover have "set s = set (takeWhile is_ws s) \<union> set (dropWhile is_ws s)"
    by (metis set_append takeWhile_dropWhile_id)
  ultimately show "\<forall>c \<in> set s. is_ws c" by auto
next
  assume "\<forall>c \<in> set s. is_ws c"
  then show "blank s" by (auto simp: blank_def trim_def dest: set_dropWhileD)
qed

lemma blank_Nil [simp]: "blank ''''"
  by (simp add: blank_def trim_def)

section \<open>Absent values\<close>

definition nullish :: "'a option \<Rightarrow> 'a \<Rightarrow> 'a" where
  "nullish x d = (case x of None \<Rightarrow> d | Some v \<Rightarrow> v)"

definition or_else :: "'a option \<Rightarrow> 'a option \<Rightarrow> 'a option" where
  "or_else x y = (case x of None \<Rightarrow> y | Some v \<Rightarrow> Some v)"

lemma nullish_simps [simp]: "nullish None d = d" "nullish (Some v) d = v"
  by (simp_all add: nullish_def)

lemma or_else_simps [simp]: "or_else None y = y" "or_else (Some v) y = Some v"
  by (simp_all add: or_else_def)

text \<open>A string that is defined and not empty: what \<open>if (s)\<close> tests.\<close>

definition truthy :: "string option \<Rightarrow> bool" where
  "truthy x = (case x of None \<Rightarrow> False | Some s \<Rightarrow> s \<noteq> '''')"

lemma truthy_simps [simp]: "truthy None = False" "truthy (Some s) = (s \<noteq> '''')"
  by (simp_all add: truthy_def)

section \<open>Set, and the uniqueStrings family\<close>

fun dedup :: "'a list \<Rightarrow> 'a list" where
  "dedup [] = []"
| "dedup (x # xs) = x # filter (\<lambda>y. y \<noteq> x) (dedup xs)"

definition unique_strings :: "string list \<Rightarrow> string list" where
  "unique_strings xs = dedup (filter (\<lambda>x. \<not> blank x) xs)"

definition unique_sorted :: "string list \<Rightarrow> string list" where
  "unique_sorted xs = sort (dedup (filter (\<lambda>x. \<not> blank x) xs))"

lemma set_dedup [simp]: "set (dedup xs) = set xs"
  by (induction xs) auto

lemma distinct_dedup [simp]: "distinct (dedup xs)"
  by (induction xs) auto

lemma dedup_eq_Nil [simp]: "dedup xs = [] \<longleftrightarrow> xs = []"
  by (cases xs) auto

lemma dedup_id: "distinct xs \<Longrightarrow> dedup xs = xs"
  by (induction xs) (auto simp: filter_id_conv)

lemma set_unique_strings [simp, unique_simps]:
  "set (unique_strings xs) = {x \<in> set xs. \<not> blank x}"
  by (auto simp: unique_strings_def)

lemma set_unique_sorted [simp, unique_simps]:
  "set (unique_sorted xs) = {x \<in> set xs. \<not> blank x}"
  by (auto simp: unique_sorted_def)

lemma distinct_unique_strings [simp]: "distinct (unique_strings xs)"
  by (simp add: unique_strings_def)

lemma distinct_unique_sorted [simp]: "distinct (unique_sorted xs)"
  by (simp add: unique_sorted_def)

lemma sorted_unique_sorted [simp]: "sorted (unique_sorted xs)"
  by (simp add: unique_sorted_def)

lemma unique_sorted_ext: "set xs = set ys \<Longrightarrow> unique_sorted xs = unique_sorted ys"
  by (rule sorted_distinct_set_unique) auto

lemma unique_sorted_idem [simp]: "unique_sorted (unique_sorted xs) = unique_sorted xs"
  by (rule sorted_distinct_set_unique) auto

lemma unique_sorted_Nil [simp]: "unique_sorted [] = []"
  by (simp add: unique_sorted_def)

section \<open>Stable sorting with a comparator\<close>

text \<open>\<open>le x y\<close> stands for \<open>cmp(x, y) <= 0\<close>.\<close>

fun insort_by :: "('a \<Rightarrow> 'a \<Rightarrow> bool) \<Rightarrow> 'a \<Rightarrow> 'a list \<Rightarrow> 'a list" where
  "insort_by le x [] = [x]"
| "insort_by le x (y # ys) = (if le x y then x # y # ys else y # insort_by le x ys)"

definition sort_by :: "('a \<Rightarrow> 'a \<Rightarrow> bool) \<Rightarrow> 'a list \<Rightarrow> 'a list" where
  "sort_by le xs = foldr (insort_by le) xs []"

lemma sort_by_Nil [simp]: "sort_by le [] = []"
  by (simp add: sort_by_def)

lemma sort_by_Cons: "sort_by le (x # xs) = insort_by le x (sort_by le xs)"
  by (simp add: sort_by_def)

lemma mset_insort_by [simp]: "mset (insort_by le x xs) = add_mset x (mset xs)"
  by (induction xs) auto

lemma mset_sort_by [simp]: "mset (sort_by le xs) = mset xs"
  by (induction xs) (simp_all add: sort_by_Cons)

lemma set_sort_by [simp]: "set (sort_by le xs) = set xs"
  by (metis mset_sort_by set_mset_mset)

lemma length_sort_by [simp]: "length (sort_by le xs) = length xs"
  by (metis mset_sort_by size_mset)

lemma distinct_sort_by [simp]: "distinct (sort_by le xs) = distinct xs"
  by (metis mset_eq_imp_distinct_iff mset_sort_by)

lemma sort_by_eq_Nil [simp]: "sort_by le xs = [] \<longleftrightarrow> xs = []"
  by (metis length_0_conv length_sort_by)

lemma length_filter_sort_by [simp]:
  "length (filter P (sort_by le xs)) = length (filter P xs)"
  by (metis mset_filter mset_sort_by size_mset)

locale comparator =
  fixes le :: "'a \<Rightarrow> 'a \<Rightarrow> bool"
  assumes total: "le x y \<or> le y x"
    and trans: "le x y \<Longrightarrow> le y z \<Longrightarrow> le x z"
begin

lemma sorted_insort_by: "sorted_wrt le xs \<Longrightarrow> sorted_wrt le (insort_by le x xs)"
proof (induction xs)
  case Nil
  then show ?case by simp
next
  case (Cons y ys)
  have "set (insort_by le x ys) = insert x (set ys)"
    by (metis mset_insort_by set_mset_add_mset_insert set_mset_mset)
  with Cons total trans show ?case by auto
qed

lemma sorted_sort_by: "sorted_wrt le (sort_by le xs)"
  by (induction xs) (simp_all add: sort_by_Cons sorted_insort_by)

lemma hd_sort_by_least: "x \<in> set xs \<Longrightarrow> le (hd (sort_by le xs)) x"
proof -
  assume x: "x \<in> set xs"
  then have ne: "sort_by le xs \<noteq> []" by auto
  then obtain h t where ht: "sort_by le xs = h # t" by (cases "sort_by le xs") auto
  from x have "x \<in> set (h # t)" by (metis ht set_sort_by)
  moreover have "sorted_wrt le (h # t)" using sorted_sort_by [of xs] by (simp add: ht)
  moreover have "le h h" using total [of h h] by simp
  ultimately show ?thesis by (auto simp: ht)
qed

end

lemma hd_sort_by_in: "xs \<noteq> [] \<Longrightarrow> hd (sort_by le xs) \<in> set xs"
  by (metis hd_in_set set_sort_by sort_by_eq_Nil)

text \<open>\<open>localeCompare\<close> depends on the collation of the runtime: it is a parameter
  \<open>lc\<close> of the definitions that call it. \<open>code_unit_compare\<close> is one such collation.\<close>

type_synonym collation = "string \<Rightarrow> string \<Rightarrow> int"

definition code_unit_compare :: collation where
  "code_unit_compare a b = (if a < b then -1 else if a = b then 0 else 1)"

interpretation code_units: comparator "\<lambda>a b. code_unit_compare a b \<le> 0"
  by unfold_locales (auto simp: code_unit_compare_def split: if_splits)

section \<open>Insertion-ordered maps\<close>

type_synonym ('k, 'v) jsmap = "('k \<times> 'v) list"

abbreviation map_get :: "('k, 'v) jsmap \<Rightarrow> 'k \<Rightarrow> 'v option" where
  "map_get m k \<equiv> map_of m k"

fun map_set :: "'k \<Rightarrow> 'v \<Rightarrow> ('k, 'v) jsmap \<Rightarrow> ('k, 'v) jsmap" where
  "map_set k v [] = [(k, v)]"
| "map_set k v ((k', v') # m) = (if k = k' then (k, v) # m else (k', v') # map_set k v m)"

definition map_values :: "('k, 'v) jsmap \<Rightarrow> 'v list" where
  "map_values m = map snd m"

definition map_from :: "('a \<Rightarrow> 'k) \<Rightarrow> 'a list \<Rightarrow> ('k, 'a) jsmap" where
  "map_from key xs = foldl (\<lambda>m x. map_set (key x) x m) [] xs"

text \<open>The idiom \<open>m.set(key, [...(m.get(key) ?? []), x])\<close> over a list.\<close>

definition group_by :: "('a \<Rightarrow> 'k) \<Rightarrow> 'a list \<Rightarrow> ('k, 'a list) jsmap" where
  "group_by key xs =
     foldl (\<lambda>m x. map_set (key x) (nullish (map_get m (key x)) [] @ [x]) m) [] xs"

locale keyed_map =
  fixes get :: "'m \<Rightarrow> 'k \<Rightarrow> 'v option"
    and put :: "'k \<Rightarrow> 'v \<Rightarrow> 'm \<Rightarrow> 'm"
    and keys :: "'m \<Rightarrow> 'k list"
  assumes get_put: "get (put k v m) = (get m)(k \<mapsto> v)"
    and keys_put: "keys (put k v m) = (if k \<in> set (keys m) then keys m else keys m @ [k])"
    and keys_dom: "set (keys m) = dom (get m)"
begin

lemma get_put_same: "get (put k v m) k = Some v"
  by (simp add: get_put)

lemma get_put_other: "k \<noteq> k' \<Longrightarrow> get (put k v m) k' = get m k'"
  by (simp add: get_put)

lemma distinct_keys_put: "distinct (keys m) \<Longrightarrow> distinct (keys (put k v m))"
  by (simp add: keys_put)

lemma distinct_keys_foldl:
  "distinct (keys m) \<Longrightarrow> distinct (keys (foldl (\<lambda>m x. put (f x) (g x m) m) m xs))"
  by (induction xs arbitrary: m) (simp_all add: distinct_keys_put)

lemma set_keys_foldl:
  "set (keys (foldl (\<lambda>m x. put (f x) (g x m) m) m xs)) = set (keys m) \<union> f ` set xs"
  by (induction xs arbitrary: m) (auto simp: keys_put)

lemma get_foldl_notin:
  "k \<notin> f ` set xs \<Longrightarrow> get (foldl (\<lambda>m x. put (f x) (g x m) m) m xs) k = get m k"
  by (induction xs arbitrary: m) (auto simp: get_put)

end

lemma map_of_map_set [simp, js_map_simps]: "map_of (map_set k v m) = (map_of m)(k \<mapsto> v)"
  by (induction k v m rule: map_set.induct) auto

lemma keys_map_set [js_map_simps]:
  "map fst (map_set k v m) = (if k \<in> set (map fst m) then map fst m else map fst m @ [k])"
  by (induction k v m rule: map_set.induct) auto

interpretation js_map: keyed_map map_of map_set "map fst"
  by unfold_locales (auto simp: keys_map_set dom_map_of_conv_image_fst)

lemma map_set_fresh: "k \<notin> set (map fst m) \<Longrightarrow> map_set k v m = m @ [(k, v)]"
  by (induction k v m rule: map_set.induct) auto

lemma map_set_split:
  "distinct (map fst m) \<Longrightarrow> map_get m k = Some w \<Longrightarrow>
   \<exists>a b. m = a @ (k, w) # b \<and> map_set k v m = a @ (k, v) # b \<and> k \<notin> set (map fst a)"
proof (induction k v m rule: map_set.induct)
  case (1 k v)
  then show ?case by simp
next
  case (2 k v k' v' m)
  show ?case
  proof (cases "k = k'")
    case True
    with 2 show ?thesis by (intro exI [of _ "[]"] exI [of _ m]) auto
  next
    case False
    with 2 obtain a b where "m = a @ (k, w) # b" "map_set k v m = a @ (k, v) # b"
      "k \<notin> set (map fst a)" by auto
    with False show ?thesis
      by (intro exI [of _ "(k', v') # a"] exI [of _ b]) auto
  qed
qed

lemma set_map_set_subset: "set (map_set k v m) \<subseteq> insert (k, v) (set m)"
  by (induction k v m rule: map_set.induct) auto

lemma map_from_mem:
  "(k, x) \<in> set (map_from key xs) \<Longrightarrow> x \<in> set xs \<and> k = key x"
proof -
  have "(k, x) \<in> set (foldl (\<lambda>m x. map_set (key x) x m) m xs)
      \<Longrightarrow> (k, x) \<in> set m \<or> (x \<in> set xs \<and> k = key x)" for m
    using set_map_set_subset by (induction xs arbitrary: m) fastforce+
  then show "(k, x) \<in> set (map_from key xs) \<Longrightarrow> x \<in> set xs \<and> k = key x"
    by (fastforce simp: map_from_def)
qed

lemma distinct_map_from [simp]: "distinct (map fst (map_from key xs))"
  unfolding map_from_def by (rule js_map.distinct_keys_foldl) simp

lemma keys_map_from: "set (map fst (map_from key xs)) = key ` set xs"
  unfolding map_from_def by (subst js_map.set_keys_foldl) simp

lemma map_from_values_subset: "set (map_values (map_from key xs)) \<subseteq> set xs"
  using map_from_mem by (fastforce simp: map_values_def)

text \<open>Over a list without repeated keys, a map is the list, and \<open>put\<close> of an item with the
  key of an entry replaces that entry alone.\<close>

lemma map_from_distinct:
  "distinct (map key xs) \<Longrightarrow> map_from key xs = map (\<lambda>x. (key x, x)) xs"
proof (induction xs rule: rev_induct)
  case Nil
  then show ?case by (simp add: map_from_def)
next
  case (snoc x xs)
  then have "map_from key (xs @ [x]) = map_set (key x) x (map (\<lambda>x. (key x, x)) xs)"
    by (simp add: map_from_def)
  with snoc.prems show ?case by (subst (asm) map_set_fresh) (auto simp: comp_def)
qed

lemma map_from_get:
  "map_get (map_from key xs) k = Some x \<Longrightarrow> x \<in> set xs \<and> key x = k"
  using map_from_mem by (fastforce dest: map_of_SomeD)

lemma distinct_group_by: "distinct (map fst (group_by key xs))"
  unfolding group_by_def by (rule js_map.distinct_keys_foldl) simp

lemma keys_group_by: "set (map fst (group_by key xs)) = key ` set xs"
  unfolding group_by_def by (subst js_map.set_keys_foldl) simp

lemma group_by_get_aux:
  "map_get (foldl (\<lambda>m x. map_set (key x) (nullish (map_get m (key x)) [] @ [x]) m) m xs) k =
     (if k \<in> key ` set xs \<or> k \<in> dom (map_get m)
      then Some (nullish (map_get m k) [] @ filter (\<lambda>x. key x = k) xs) else None)"
proof (induction xs arbitrary: m)
  case Nil
  then show ?case by (cases "map_get m k") auto
next
  case (Cons x xs)
  show ?case by (cases "map_get m k") (auto simp: Cons.IH)
qed

lemma group_by_get:
  "map_get (group_by key xs) k =
     (if k \<in> key ` set xs then Some (filter (\<lambda>x. key x = k) xs) else None)"
  by (simp add: group_by_def group_by_get_aux)

lemma group_by_mem:
  "(k, ys) \<in> set (group_by key xs) \<Longrightarrow> ys = filter (\<lambda>x. key x = k) xs \<and> ys \<noteq> []"
proof -
  assume "(k, ys) \<in> set (group_by key xs)"
  then have "map_get (group_by key xs) k = Some ys"
    by (simp add: distinct_group_by)
  then show ?thesis by (auto simp: group_by_get filter_empty_conv split: if_splits)
qed

section \<open>Sums of optional numbers\<close>

text \<open>
  \<open>add_opt\<close> is the helper \<open>add\<close> of src/src/aggregation/tokenMeasurement.ts: absent
  values count as 0 unless all are absent. \<open>opt_sum\<close> folds it over a list; it is what
  \<open>sumOptionalNanoUsd\<close> of the attribution ledger computes.
\<close>

definition add_opt :: "rat option \<Rightarrow> rat option \<Rightarrow> rat option" where
  "add_opt a b = (if a = None \<and> b = None then None else Some (nullish a 0 + nullish b 0))"

definition opt_sum :: "rat option list \<Rightarrow> rat option" where
  "opt_sum xs = foldr add_opt xs None"

lemma add_opt_None [simp]: "add_opt None b = b" "add_opt a None = a"
  by (cases a; cases b; simp add: add_opt_def)+

lemma add_opt_Some [simp]: "add_opt (Some x) (Some y) = Some (x + y)"
  by (simp add: add_opt_def)

lemma add_opt_comm: "add_opt a b = add_opt b a"
  by (cases a; cases b) simp_all

lemma add_opt_assoc: "add_opt (add_opt a b) c = add_opt a (add_opt b c)"
  by (cases a; cases b; cases c) simp_all

lemma add_opt_left_comm: "add_opt b (add_opt a c) = add_opt a (add_opt b c)"
  by (metis add_opt_assoc add_opt_comm)

lemmas add_opt_ac = add_opt_assoc add_opt_comm add_opt_left_comm

lemma add_opt_eq_None [simp]: "add_opt a b = None \<longleftrightarrow> a = None \<and> b = None"
  by (cases a; cases b) simp_all

lemma opt_sum_simps [simp]:
  "opt_sum [] = None" "opt_sum (x # xs) = add_opt x (opt_sum xs)"
  by (simp_all add: opt_sum_def)

lemma opt_sum_append [simp]: "opt_sum (xs @ ys) = add_opt (opt_sum xs) (opt_sum ys)"
  by (induction xs) (simp_all add: add_opt_assoc)

lemma opt_sum_foldl: "foldl (\<lambda>a x. add_opt a (f x)) z xs = add_opt z (opt_sum (map f xs))"
  by (induction xs arbitrary: z) (simp_all add: add_opt_assoc)

lemma opt_sum_nullish: "nullish (opt_sum xs) 0 = sum_list (map (\<lambda>x. nullish x 0) xs)"
proof (induction xs)
  case Nil
  then show ?case by simp
next
  case (Cons x xs)
  then show ?case by (cases x; cases "opt_sum xs") simp_all
qed

lemma opt_sum_eq_None: "opt_sum xs = None \<longleftrightarrow> (\<forall>x \<in> set xs. x = None)"
  by (induction xs) auto

lemma opt_sum_unfold:
  "opt_sum xs = (if \<forall>x \<in> set xs. x = None then None
                 else Some (sum_list (map (\<lambda>x. nullish x 0) xs)))"
proof (cases "opt_sum xs")
  case None
  then show ?thesis by (simp add: opt_sum_eq_None)
next
  case (Some v)
  then have "\<not> (\<forall>x \<in> set xs. x = None)" by (metis opt_sum_eq_None option.distinct(1))
  moreover have "v = sum_list (map (\<lambda>x. nullish x 0) xs)"
    using Some opt_sum_nullish [of xs] by simp
  ultimately show ?thesis using Some by auto
qed

lemma opt_sum_mset: "mset xs = mset ys \<Longrightarrow> opt_sum xs = opt_sum ys"
proof -
  assume e: "mset xs = mset ys"
  then have "set xs = set ys" by (metis set_mset_mset)
  moreover have "sum_list (map (\<lambda>x. nullish x 0) xs) = sum_list (map (\<lambda>x. nullish x 0) ys)"
    using e by (metis mset_map sum_mset_sum_list)
  ultimately show ?thesis by (simp add: opt_sum_unfold)
qed

lemma opt_sum_sort_by [simp]: "opt_sum (map f (sort_by le xs)) = opt_sum (map f xs)"
  by (rule opt_sum_mset) simp

lemma opt_sum_filter_None:
  "(\<And>x. x \<in> set xs \<Longrightarrow> \<not> P x \<Longrightarrow> f x = None) \<Longrightarrow>
   opt_sum (map f (filter P xs)) = opt_sum (map f xs)"
  by (induction xs) auto

text \<open>
  A map that accumulates an amount under a key keeps the total: the loop
  \<open>for (x of xs) m.set(key(x), g(m.get(key(x)), x))\<close>, where \<open>g\<close> adds the amount of \<open>x\<close>
  to what is stored.
\<close>

lemma opt_sum_map_set:
  assumes "distinct (map fst m)"
  shows "add_opt (opt_sum (map f (map_values (map_set k v m)))) (Option.bind (map_get m k) f)
       = add_opt (opt_sum (map f (map_values m))) (f v)"
proof (cases "map_get m k")
  case None
  then have "k \<notin> set (map fst m)" by (simp add: map_of_eq_None_iff)
  then show ?thesis by (simp add: None map_set_fresh map_values_def add_opt_ac)
next
  case (Some w)
  then obtain a b where "m = a @ (k, w) # b" "map_set k v m = a @ (k, v) # b"
    using map_set_split [OF assms, of k w v] by blast
  then show ?thesis using Some by (simp add: map_values_def add_opt_ac)
qed

lemma opt_sum_accumulate_step:
  assumes d: "distinct (map fst m)"
    and g: "f (g (map_get m k) x) = add_opt (Option.bind (map_get m k) f) a"
  shows "opt_sum (map f (map_values (map_set k (g (map_get m k) x) m)))
       = add_opt (opt_sum (map f (map_values m))) a"
proof (cases "map_get m k")
  case None
  then show ?thesis
    using opt_sum_map_set [OF d, of f k "g (map_get m k) x"] g by simp
next
  case (Some w)
  then obtain l r where "m = l @ (k, w) # r"
    "map_set k (g (map_get m k) x) m = l @ (k, g (map_get m k) x) # r"
    using map_set_split [OF d, of k w "g (map_get m k) x"] by blast
  then show ?thesis using Some g by (simp add: map_values_def add_opt_ac)
qed

lemma opt_sum_accumulate:
  assumes "distinct (map fst m)"
    and "\<And>o' x. f (g o' x) = add_opt (Option.bind o' f) (h x)"
  shows "opt_sum (map f (map_values (foldl (\<lambda>m x. map_set (key x) (g (map_get m (key x)) x) m) m xs)))
       = add_opt (opt_sum (map f (map_values m))) (opt_sum (map h xs))"
  using assms(1)
proof (induction xs arbitrary: m)
  case Nil
  then show ?case by simp
next
  case (Cons x xs)
  have "distinct (map fst (map_set (key x) (g (map_get m (key x)) x) m))"
    using Cons.prems by (rule js_map.distinct_keys_put)
  moreover have "opt_sum (map f (map_values (map_set (key x) (g (map_get m (key x)) x) m)))
      = add_opt (opt_sum (map f (map_values m))) (h x)"
    using Cons.prems assms(2) by (rule opt_sum_accumulate_step)
  ultimately show ?case
    using Cons.IH by (simp add: add_opt_assoc)
qed

end
