(* ===== verification/JsValue.thy ===== *)
theory JsValue
  imports Prelude
begin

text \<open>
  JavaScript values and numbers.
  \<^item> \<open>js\<close>: the values of type \<open>unknown\<close> that telemetry attributes carry;
  \<^item> numbers are exact rationals (\<open>JNum\<close>); \<open>NaN\<close> and the infinities are \<open>JNonFinite\<close>.
    The rounding of a result to the nearest IEEE double is not modelled;
  \<^item> \<open>string_to_number\<close> is \<open>Number(s)\<close> on a string, \<open>num_to_string\<close> is
    \<open>String(n)\<close> on a finite number, \<open>js_round\<close> is \<open>Math.round\<close>, \<open>to_fixed2\<close> is
    \<open>n.toFixed(2)\<close>;
  \<^item> \<open>isRecord\<close> and \<open>toNumber\<close> of src/src/normalization/otelValues.ts, which read
    an unknown value as an object and as a finite number.
\<close>

datatype js =
    JUndefined
  | JNull
  | JBool bool
  | JNum rat
  | JNonFinite
  | JBigInt int
  | JStr string
  | JArr "js list"
  | JObj "(string \<times> js) list"

type_synonym js_record = "(string, js) jsmap"

definition js_prop :: "js_record \<Rightarrow> string \<Rightarrow> js" where
  "js_prop r k = nullish (map_get r k) JUndefined"

definition has_prop :: "js_record \<Rightarrow> string \<Rightarrow> bool" where
  "has_prop r k = (map_get r k \<noteq> None)"

fun is_nullish :: "js \<Rightarrow> bool" where
  "is_nullish JUndefined = True"
| "is_nullish JNull = True"
| "is_nullish _ = False"

section \<open>Decimal digits\<close>

definition is_digit :: "char \<Rightarrow> bool" where
  "is_digit c = (48 \<le> (of_char c :: nat) \<and> (of_char c :: nat) \<le> 57)"

definition digit_char :: "nat \<Rightarrow> char" where
  "digit_char d = char_of (48 + d)"

fun nat_to_string :: "nat \<Rightarrow> string" where
  "nat_to_string n = (if n < 10 then [digit_char n]
                      else nat_to_string (n div 10) @ [digit_char (n mod 10)])"

declare nat_to_string.simps [simp del]

definition int_to_string :: "int \<Rightarrow> string" where
  "int_to_string i = (if i < 0 then ''-'' @ nat_to_string (nat (- i)) else nat_to_string (nat i))"

definition digits_val :: "string \<Rightarrow> nat" where
  "digits_val ds = foldl (\<lambda>n c. 10 * n + (of_char c - 48)) 0 ds"

lemma digits_val_snoc: "digits_val (ds @ [c]) = 10 * digits_val ds + (of_char c - 48)"
  by (simp add: digits_val_def)

lemma of_char_digit_char: "d < 10 \<Longrightarrow> of_char (digit_char d) = 48 + d"
  by (simp add: digit_char_def)

lemma digits_val_nat_to_string [simp]: "digits_val (nat_to_string n) = n"
proof (induction n rule: nat_to_string.induct)
  case (1 n)
  show ?case
  proof (cases "n < 10")
    case True
    then show ?thesis
      by (simp add: nat_to_string.simps [of n] digits_val_def of_char_digit_char)
  next
    case False
    with 1 show ?thesis
      by (simp add: nat_to_string.simps [of n] digits_val_snoc of_char_digit_char)
  qed
qed

lemma nat_to_string_digits: "\<forall>c \<in> set (nat_to_string n). is_digit c"
proof (induction n rule: nat_to_string.induct)
  case (1 n)
  then show ?case
    by (subst nat_to_string.simps) (auto simp: is_digit_def of_char_digit_char)
qed

lemma nat_to_string_not_Nil [simp]: "nat_to_string n \<noteq> []"
  by (subst nat_to_string.simps) simp

lemma nat_to_string_inj: "nat_to_string m = nat_to_string n \<Longrightarrow> m = n"
  by (metis digits_val_nat_to_string)

section \<open>Number(s)\<close>

text \<open>The grammar of \<open>StrUnsignedDecimalLiteral\<close>: digits, an optional fraction, an
  optional exponent; at least one digit before the exponent.\<close>

definition parse_exponent :: "string \<Rightarrow> int option" where
  "parse_exponent s =
     (let neg = (s \<noteq> [] \<and> hd s = CHR ''-'');
          body = (if s \<noteq> [] \<and> (hd s = CHR ''-'' \<or> hd s = CHR ''+'') then tl s else s)
      in if body \<noteq> [] \<and> list_all is_digit body
         then Some (if neg then - int (digits_val body) else int (digits_val body)) else None)"

definition pow10 :: "int \<Rightarrow> rat" where
  "pow10 e = (if 0 \<le> e then 10 ^ nat e else 1 / 10 ^ nat (- e))"

definition parse_decimal :: "string \<Rightarrow> rat option" where
  "parse_decimal s =
     (let ip = takeWhile is_digit s; r = dropWhile is_digit s;
          dot = (r \<noteq> [] \<and> hd r = CHR ''.'');
          fp = (if dot then takeWhile is_digit (tl r) else []);
          r2 = (if dot then dropWhile is_digit (tl r) else r);
          m = of_nat (digits_val (ip @ fp)) / 10 ^ length fp
      in if ip = [] \<and> fp = [] then None
         else if r2 = [] then Some m
         else if hd r2 = CHR ''e'' \<or> hd r2 = CHR ''E''
         then map_option (\<lambda>e. m * pow10 e) (parse_exponent (tl r2))
         else None)"

definition radix_digit :: "char \<Rightarrow> nat" where
  "radix_digit c =
     (let n = (of_char c :: nat)
      in if is_digit c then n - 48
         else if 97 \<le> n \<and> n \<le> 102 then n - 87
         else if 65 \<le> n \<and> n \<le> 70 then n - 55 else 99)"

definition parse_radix :: "nat \<Rightarrow> string \<Rightarrow> rat option" where
  "parse_radix b ds =
     (if ds \<noteq> [] \<and> list_all (\<lambda>c. radix_digit c < b) ds
      then Some (of_nat (foldl (\<lambda>n c. b * n + radix_digit c) 0 ds)) else None)"

text \<open>Above the largest double (after rounding) the result is an infinity.\<close>

definition finite_double :: "rat \<Rightarrow> bool" where
  "finite_double x = (\<bar>x\<bar> < of_int (2 ^ 1024 - 2 ^ 970))"

lemma finite_double_code [code]:
  "finite_double x = (\<bar>x\<bar> < of_int
     179769313486231580793728971405303415079934132710037826936173778980444968292764750946649017977587207096330286416692887910946555547851940402630657488671505820681908902000708383676273854845817711531764475730270069855571366959622842914819860834936475292719074168444365510704342711559699508093042880177904174497792)"
  by (simp add: finite_double_def)

definition string_to_number :: "string \<Rightarrow> rat option" where
  "string_to_number str =
     (let s = trim str; p = to_lower (take 2 s);
          sgn_body = (if s \<noteq> [] \<and> hd s = CHR ''-''
                      then map_option uminus (parse_decimal (tl s))
                      else if s \<noteq> [] \<and> hd s = CHR ''+'' then parse_decimal (tl s)
                      else parse_decimal s);
          v = (if s = [] then Some 0
               else if p = ''0x'' then parse_radix 16 (drop 2 s)
               else if p = ''0o'' then parse_radix 8 (drop 2 s)
               else if p = ''0b'' then parse_radix 2 (drop 2 s)
               else sgn_body)
      in case v of None \<Rightarrow> None | Some x \<Rightarrow> if finite_double x then Some x else None)"

definition toNumber :: "js \<Rightarrow> rat option" where
  "toNumber v =
     (case v of
        JNum n \<Rightarrow> Some n
      | JBigInt i \<Rightarrow> Some (of_int i)
      | JStr s \<Rightarrow> if trim s \<noteq> '''' then string_to_number s else None
      | _ \<Rightarrow> None)"

fun isRecord :: "js \<Rightarrow> bool" where
  "isRecord (JObj r) = True"
| "isRecord _ = False"

section \<open>String(n)\<close>

definition is_integer :: "rat \<Rightarrow> bool" where
  "is_integer q = (snd (quotient_of q) = 1)"

text \<open>The number of decimals of \<open>q\<close>, at most \<open>fuel\<close>; a double has at most 1074.\<close>

fun decimals :: "nat \<Rightarrow> rat \<Rightarrow> nat" where
  "decimals 0 q = 0"
| "decimals (Suc fuel) q = (if is_integer q then 0 else Suc (decimals fuel (q * 10)))"

definition strip_zeros :: "string \<Rightarrow> string" where
  "strip_zeros s = rev (dropWhile (\<lambda>c. c = CHR ''0'') (rev s))"

text \<open>\<open>Number::toString\<close> of a positive number with significant digits \<open>s\<close> and
  value \<open>s * 10 ^ (n - length s)\<close>.\<close>

definition format_digits :: "string \<Rightarrow> int \<Rightarrow> string" where
  "format_digits s n =
     (let k = int (length s); e = n - 1;
          esign = (if e < 0 then ''-'' else ''+'')
      in if k \<le> n \<and> n \<le> 21 then s @ replicate (nat (n - k)) (CHR ''0'')
         else if 0 < n \<and> n \<le> 21 then take (nat n) s @ ''.'' @ drop (nat n) s
         else if -6 < n \<and> n \<le> 0 then ''0.'' @ replicate (nat (- n)) (CHR ''0'') @ s
         else if k = 1 then s @ ''e'' @ esign @ nat_to_string (nat \<bar>e\<bar>)
         else take 1 s @ ''.'' @ drop 1 s @ ''e'' @ esign @ nat_to_string (nat \<bar>e\<bar>))"

definition num_to_string :: "rat \<Rightarrow> string" where
  "num_to_string q =
     (if q = 0 then ''0''
      else let a = \<bar>q\<bar>; f = decimals 1074 a;
               ds = nat_to_string (nat \<lfloor>a * 10 ^ f\<rfloor>);
               body = format_digits (strip_zeros ds) (int (length ds) - int f)
           in if q < 0 then ''-'' @ body else body)"

definition js_round :: "rat \<Rightarrow> rat" where
  "js_round x = of_int \<lfloor>x + 1 / 2\<rfloor>"

definition to_fixed2 :: "rat \<Rightarrow> string" where
  "to_fixed2 x =
     (let n = nat \<lfloor>\<bar>x\<bar> * 100 + 1 / 2\<rfloor>; r = nat_to_string (n mod 100)
      in (if x < 0 then ''-'' else '''') @ nat_to_string (n div 100) @ ''.''
         @ (if length r < 2 then ''0'' @ r else r))"

text \<open>\<open>String(v)\<close> where the program calls it: on strings, numbers, booleans and absent
  values (an array or an object never reaches it with a text the program reads).\<close>

fun js_to_string :: "js \<Rightarrow> string" where
  "js_to_string JUndefined = ''undefined''"
| "js_to_string JNull = ''null''"
| "js_to_string (JBool b) = (if b then ''true'' else ''false'')"
| "js_to_string (JNum n) = num_to_string n"
| "js_to_string JNonFinite = ''NaN''"
| "js_to_string (JBigInt i) = int_to_string i"
| "js_to_string (JStr s) = s"
| "js_to_string (JArr vs) = join '','' (map js_to_string vs)"
| "js_to_string (JObj r) = ''[object Object]''"

lemma js_round_int [simp]: "js_round (of_int i) = of_int i"
  by (simp add: js_round_def floor_unique)

lemma js_round_mono: "x \<le> y \<Longrightarrow> js_round x \<le> js_round y"
  by (simp add: js_round_def floor_mono)

lemma js_round_nonneg: "0 \<le> x \<Longrightarrow> 0 \<le> js_round x"
  using js_round_mono [of 0 x] js_round_int [of 0] by simp

lemma js_round_bounds: "x - 1 / 2 < js_round x \<and> js_round x \<le> x + 1 / 2"
  unfolding js_round_def by linarith

lemma toNumber_simps [simp]:
  "toNumber JUndefined = None" "toNumber JNull = None" "toNumber (JNum n) = Some n"
  by (simp_all add: toNumber_def)

end
