(* ===== verification/JsRegex.thy ===== *)
theory JsRegex
  imports Prelude
begin

text \<open>
  The regular expressions of the program: \<open>new RegExp(pattern, flags).test(s)\<close>.
  \<^item> \<open>rx\<close> is the abstract syntax; \<open>rx_compile\<close> parses a pattern. The grammar is the
    part of JavaScript's that the patterns of src/ use: anchors, literals, escapes of
    punctuation, \<open>.\<close>, the classes \<open>\d\<close>, \<open>\s\<close> and \<open>\w\<close>, bracket classes
    with ranges and negation, groups, alternation, and \<open>?\<close>, \<open>*\<close>, \<open>+\<close>.
    \<open>None\<close> is a pattern that is outside it (a \<open>SyntaxError\<close> for the program);
  \<^item> \<open>rx_rests\<close> lists the rests of the input after a match at its start, and
    \<open>rx_test\<close> searches for a match from every position.
\<close>

datatype rx =
    Eps
  | Bol
  | Eol
  | Chr char
  | AnyChr
  | Cls bool "char list"
  | SeqR rx rx
  | AltR rx rx
  | OptR rx
  | StarR rx

section \<open>Matching\<close>

fun star_close :: "nat \<Rightarrow> (string \<Rightarrow> string list) \<Rightarrow> string \<Rightarrow> string list" where
  "star_close 0 f s = [s]"
| "star_close (Suc n) f s =
     s # concat (map (star_close n f) (filter (\<lambda>t. length t < length s) (f s)))"

definition same_char :: "bool \<Rightarrow> char \<Rightarrow> char \<Rightarrow> bool" where
  "same_char ci c d = (if ci then lower_char c = lower_char d else c = d)"

text \<open>\<open>n\<close> is the length of the whole input: \<open>s\<close> is at its start when it has length \<open>n\<close>.\<close>

primrec rx_rests :: "bool \<Rightarrow> nat \<Rightarrow> rx \<Rightarrow> string \<Rightarrow> string list" where
  "rx_rests ci n Eps s = [s]"
| "rx_rests ci n Bol s = (if length s = n then [s] else [])"
| "rx_rests ci n Eol s = (if s = [] then [s] else [])"
| "rx_rests ci n (Chr c) s = (if s \<noteq> [] \<and> same_char ci c (hd s) then [tl s] else [])"
| "rx_rests ci n AnyChr s =
     (if s \<noteq> [] \<and> hd s \<noteq> CHR 0x0A \<and> hd s \<noteq> CHR 0x0D then [tl s] else [])"
| "rx_rests ci n (Cls neg cs) s =
     (if s \<noteq> [] \<and> list_ex (\<lambda>c. same_char ci c (hd s)) cs \<noteq> neg then [tl s] else [])"
| "rx_rests ci n (SeqR a b) s = concat (map (rx_rests ci n b) (rx_rests ci n a s))"
| "rx_rests ci n (AltR a b) s = rx_rests ci n a s @ rx_rests ci n b s"
| "rx_rests ci n (OptR a) s = rx_rests ci n a s @ [s]"
| "rx_rests ci n (StarR a) s = star_close (length s) (rx_rests ci n a) s"

fun suffixes_from :: "string \<Rightarrow> string list" where
  "suffixes_from [] = [[]]"
| "suffixes_from (c # s) = (c # s) # suffixes_from s"

definition rx_test :: "bool \<Rightarrow> rx \<Rightarrow> string \<Rightarrow> bool" where
  "rx_test ci r s = list_ex (\<lambda>t. rx_rests ci (length s) r t \<noteq> []) (suffixes_from s)"

section \<open>Parsing a pattern\<close>

definition backslash :: char where
  "backslash = CHR 0x5C"

text \<open>A literal of the logic cannot hold a backslash: \<open>pat\<close> writes one for each \<open>~\<close>.\<close>

definition pat :: "string \<Rightarrow> string" where
  "pat s = map (\<lambda>c. if c = CHR ''~'' then backslash else c) s"

definition char_range :: "char \<Rightarrow> char \<Rightarrow> char list" where
  "char_range a b = map char_of [of_char a ..< Suc (of_char b)]"

definition ws_chars :: "char list" where
  "ws_chars = map char_of [9, 10, 11, 12, 13, 32, 160 :: nat]"

definition word_chars :: "char list" where
  "word_chars = char_range CHR ''0'' CHR ''9'' @ char_range CHR ''A'' CHR ''Z''
     @ char_range CHR ''a'' CHR ''z'' @ ''_''"

definition is_alnum :: "char \<Rightarrow> bool" where
  "is_alnum c = (c \<in> set word_chars \<and> c \<noteq> CHR ''_'')"

text \<open>An escape: the characters it stands for.\<close>

definition escape_chars :: "char \<Rightarrow> char list option" where
  "escape_chars c =
     (if c = CHR ''d'' then Some (char_range CHR ''0'' CHR ''9'')
      else if c = CHR ''s'' then Some ws_chars
      else if c = CHR ''w'' then Some word_chars
      else if c = CHR ''n'' then Some [CHR 0x0A]
      else if c = CHR ''r'' then Some [CHR 0x0D]
      else if c = CHR ''t'' then Some [CHR 0x09]
      else if is_alnum c then None
      else Some [c])"

fun parse_class :: "string \<Rightarrow> char list \<Rightarrow> (char list \<times> string) option" where
  "parse_class [] acc = None"
| "parse_class [c] acc = (if c = CHR '']'' then Some (acc, []) else None)"
| "parse_class [c, d] acc =
     (if c = CHR '']'' then Some (acc, [d])
      else if c = backslash then None
      else parse_class [d] (acc @ [c]))"
| "parse_class (c # d # e # s) acc =
     (if c = CHR '']'' then Some (acc, d # e # s)
      else if c = backslash
      then (case escape_chars d of None \<Rightarrow> None | Some cs \<Rightarrow> parse_class (e # s) (acc @ cs))
      else if d = CHR ''-'' \<and> e \<noteq> CHR '']'' \<and> e \<noteq> backslash
      then if (of_char c :: nat) \<le> of_char e then parse_class s (acc @ char_range c e) else None
      else parse_class (d # e # s) (acc @ [c]))"

definition parse_quant :: "rx \<Rightarrow> string \<Rightarrow> (rx \<times> string) option" where
  "parse_quant a s =
     (if s = [] then Some (a, s)
      else if hd s = CHR ''?'' then Some (OptR a, tl s)
      else if hd s = CHR ''*'' then Some (StarR a, tl s)
      else if hd s = CHR ''+'' then Some (SeqR a (StarR a), tl s)
      else if hd s = CHR ''{'' then None
      else Some (a, s))"

fun parse_alt :: "nat \<Rightarrow> string \<Rightarrow> (rx \<times> string) option"
  and parse_seq :: "nat \<Rightarrow> string \<Rightarrow> (rx \<times> string) option"
  and parse_atom :: "nat \<Rightarrow> string \<Rightarrow> (rx \<times> string) option" where
  "parse_alt 0 s = None"
| "parse_alt (Suc n) s =
     (case parse_seq n s of
        None \<Rightarrow> None
      | Some (a, r) \<Rightarrow>
          if r \<noteq> [] \<and> hd r = CHR ''|''
          then map_option (\<lambda>(b, r'). (AltR a b, r')) (parse_alt n (tl r))
          else Some (a, r))"
| "parse_seq 0 s = None"
| "parse_seq (Suc n) s =
     (if s = [] \<or> hd s = CHR ''|'' \<or> hd s = CHR '')'' then Some (Eps, s)
      else case parse_atom n s of
        None \<Rightarrow> None
      | Some (a, r) \<Rightarrow>
          (case parse_quant a r of
             None \<Rightarrow> None
           | Some (q, r') \<Rightarrow> map_option (\<lambda>(b, r''). (SeqR q b, r'')) (parse_seq n r')))"
| "parse_atom 0 s = None"
| "parse_atom (Suc n) s =
     (if s = [] then None
      else let c = hd s; r = tl s
      in if c = CHR ''^'' then Some (Bol, r)
         else if c = CHR ''$'' then Some (Eol, r)
         else if c = CHR ''.'' then Some (AnyChr, r)
         else if c = CHR ''('' then
           (let body = (if starts_with r ''?:'' then Some (drop 2 r)
                        else if starts_with r ''?'' then None else Some r)
            in case body of
                 None \<Rightarrow> None
               | Some b \<Rightarrow>
                   (case parse_alt n b of
                      None \<Rightarrow> None
                    | Some (a, r') \<Rightarrow> if r' \<noteq> [] \<and> hd r' = CHR '')'' then Some (a, tl r') else None))
         else if c = CHR ''['' then
           (if r \<noteq> [] \<and> hd r = CHR ''^''
            then map_option (\<lambda>(cs, r'). (Cls True cs, r')) (parse_class (tl r) [])
            else map_option (\<lambda>(cs, r'). (Cls False cs, r')) (parse_class r []))
         else if c = backslash then
           (if r = [] then None
            else map_option (\<lambda>cs. (Cls False cs, tl r)) (escape_chars (hd r)))
         else if c = CHR ''?'' \<or> c = CHR ''*'' \<or> c = CHR ''+'' \<or> c = CHR ''{'' \<or> c = CHR '')'' then None
         else Some (Chr c, r))"

text \<open>Each call consumes a character or descends from \<open>parse_alt\<close> to \<open>parse_seq\<close> to
  \<open>parse_atom\<close>, so three units of fuel for each character are enough.\<close>

definition rx_compile :: "string \<Rightarrow> rx option" where
  "rx_compile p =
     (case parse_alt (3 * length p + 3) p of
        Some (r, []) \<Rightarrow> Some r
      | _ \<Rightarrow> None)"

end
