(* ===== verification/Types.thy ===== *)
theory Types
  imports JsValue JsRegex
begin

text \<open>
  The data of src/src/types.ts that token measurement, pricing and budgets use.
  An object type is a record, an intersection \<open>A & {...}\<close> a record that extends \<open>A\<close>, a
  union of string literals a datatype, an optional property an \<open>option\<close>. Field names are
  those of the source behind a short prefix of the record (\<open>sp_\<close> for a span, \<open>au_\<close> for
  an attributed usage unit and so on); the fields of \<open>TokenBreakdown\<close> keep their names.
\<close>

section \<open>Telemetry records\<close>

record span_record =
  sp_traceId :: string
  sp_spanId :: string
  sp_parentSpanId :: "string option"
  sp_name :: string
  sp_startTimeUnixNano :: "string option"
  sp_endTimeUnixNano :: "string option"
  sp_attributes :: js_record
  sp_resourceAttributes :: js_record
  sp_status :: "string option"

record event_record =
  ev_traceId :: "string option"
  ev_spanId :: "string option"
  ev_name :: string
  ev_timeUnixNano :: "string option"
  ev_attributes :: js_record
  ev_resourceAttributes :: js_record

record metric_record =
  me_name :: string
  me_traceId :: "string option"
  me_spanId :: "string option"
  me_timeUnixNano :: "string option"
  me_value :: "rat option"
  me_attributes :: js_record
  me_resourceAttributes :: js_record

datatype otel_record = Span span_record | Event event_record | Metric metric_record

fun rec_attributes :: "otel_record \<Rightarrow> js_record" where
  "rec_attributes (Span s) = sp_attributes s"
| "rec_attributes (Event e) = ev_attributes e"
| "rec_attributes (Metric m) = me_attributes m"

fun rec_resourceAttributes :: "otel_record \<Rightarrow> js_record" where
  "rec_resourceAttributes (Span s) = sp_resourceAttributes s"
| "rec_resourceAttributes (Event e) = ev_resourceAttributes e"
| "rec_resourceAttributes (Metric m) = me_resourceAttributes m"

fun rec_kind :: "otel_record \<Rightarrow> string" where
  "rec_kind (Span s) = ''span''"
| "rec_kind (Event e) = ''event''"
| "rec_kind (Metric m) = ''metric''"

fun rec_traceId :: "otel_record \<Rightarrow> string option" where
  "rec_traceId (Span s) = Some (sp_traceId s)"
| "rec_traceId (Event e) = ev_traceId e"
| "rec_traceId (Metric m) = me_traceId m"

fun rec_spanId :: "otel_record \<Rightarrow> string option" where
  "rec_spanId (Span s) = Some (sp_spanId s)"
| "rec_spanId (Event e) = ev_spanId e"
| "rec_spanId (Metric m) = me_spanId m"

fun rec_name :: "otel_record \<Rightarrow> string" where
  "rec_name (Span s) = sp_name s"
| "rec_name (Event e) = ev_name e"
| "rec_name (Metric m) = me_name m"

section \<open>Tokens, coverage and accounting\<close>

datatype token_usage_source =
  Invoke_agent | Chat_spans | Events | Metrics | Not_reported | Legacy

datatype cost_coverage = Complete | Partial | Unavailable

datatype coverage_reason =
    Source_not_reported
  | Source_ambiguous
  | Duplicate_overlap_discarded
  | Model_not_reported
  | Model_unpriced
  | Pricing_rate_missing
  | Long_context_rate_unpublished
  | Missing_model_attribution
  | Missing_tool_attribution
  | Span_cost_unavailable
  | Metrics_only_trace
  | Event_only_trace
  | Legacy_schema
  | Invariant_failed
  | Tool_call_id_missing
  | Not_applicable_reason

fun reason_str :: "coverage_reason \<Rightarrow> string" where
  "reason_str Source_not_reported = ''source_not_reported''"
| "reason_str Source_ambiguous = ''source_ambiguous''"
| "reason_str Duplicate_overlap_discarded = ''duplicate_overlap_discarded''"
| "reason_str Model_not_reported = ''model_not_reported''"
| "reason_str Model_unpriced = ''model_unpriced''"
| "reason_str Pricing_rate_missing = ''pricing_rate_missing''"
| "reason_str Long_context_rate_unpublished = ''long_context_rate_unpublished''"
| "reason_str Missing_model_attribution = ''missing_model_attribution''"
| "reason_str Missing_tool_attribution = ''missing_tool_attribution''"
| "reason_str Span_cost_unavailable = ''span_cost_unavailable''"
| "reason_str Metrics_only_trace = ''metrics_only_trace''"
| "reason_str Event_only_trace = ''event_only_trace''"
| "reason_str Legacy_schema = ''legacy_schema''"
| "reason_str Invariant_failed = ''invariant_failed''"
| "reason_str Tool_call_id_missing = ''tool_call_id_missing''"
| "reason_str Not_applicable_reason = ''not_applicable''"

record accounting_coverage =
  cov_state :: cost_coverage
  cov_reasons :: "coverage_reason list"

record token_breakdown =
  inputTokens :: "rat option"
  outputTokens :: "rat option"
  cacheReadInputTokens :: "rat option"
  cacheCreationInputTokens :: "rat option"
  cachedTokens :: "rat option"
  reasoningOutputTokens :: "rat option"
  totalTokens :: "rat option"

definition no_tokens :: token_breakdown where
  "no_tokens = \<lparr>inputTokens = None, outputTokens = None, cacheReadInputTokens = None,
     cacheCreationInputTokens = None, cachedTokens = None, reasoningOutputTokens = None,
     totalTokens = None\<rparr>"

lemma no_tokens_fields [simp]:
  "inputTokens no_tokens = None" "outputTokens no_tokens = None"
  "cacheReadInputTokens no_tokens = None" "cacheCreationInputTokens no_tokens = None"
  "cachedTokens no_tokens = None" "reasoningOutputTokens no_tokens = None"
  "totalTokens no_tokens = None"
  by (simp_all add: no_tokens_def)

datatype billing_context = Github_copilot | Openai_direct | Anthropic_direct | Cursor_billing

fun billing_context_str :: "billing_context \<Rightarrow> string" where
  "billing_context_str Github_copilot = ''github-copilot''"
| "billing_context_str Openai_direct = ''openai-direct''"
| "billing_context_str Anthropic_direct = ''anthropic-direct''"
| "billing_context_str Cursor_billing = ''cursor''"

datatype billing_unit = AiCredits | Usd

datatype pricing_state = Priced | Partially_priced | Unpriced

record pricing_coverage =
  pc_state :: pricing_state
  pc_reasons :: "coverage_reason list"
  pc_pricedModels :: "string list"
  pc_unpricedModels :: "string list"
  pc_missingModelSlices :: nat
  pc_pricingVersions :: "string list"
  pc_pricingEffectiveFrom :: "string list"

record pricing_match =
  pm_billingContext :: "billing_context option"
  pm_provider :: "string option"
  pm_model :: "string option"
  pm_matchedModel :: "string option"
  pm_pricingVersion :: string
  pm_effectiveFrom :: "string option"
  pm_sourceUrl :: "string option"
  pm_notes :: "string list"

definition costCoverageFromPricingCoverage :: "pricing_coverage option \<Rightarrow> cost_coverage" where
  "costCoverageFromPricingCoverage pc =
     (case map_option pc_state pc of
        Some Priced \<Rightarrow> Complete
      | Some Partially_priced \<Rightarrow> Partial
      | _ \<Rightarrow> Unavailable)"

datatype invariant_name =
    Attributed_input_matches_run
  | Attributed_output_matches_run
  | Attributed_total_matches_run
  | Model_totals_match_run
  | Tool_totals_match_run
  | Priced_nano_usd_matches_run

datatype invariant_status = Passed | Failed | Not_applicable

record accounting_invariant =
  ai_name :: invariant_name
  ai_status :: invariant_status
  ai_message :: "string option"
  ai_expected :: "token_breakdown option"
  ai_actual :: "token_breakdown option"

datatype unit_kind = Kind_model | Kind_tool | Kind_span | Kind_trace

datatype span_kind = Kind_root | Kind_llm | Kind_tool_span | Kind_event | Kind_metric | Kind_unknown

record model_usage = token_breakdown +
  mu_model :: string
  mu_provider :: "string option"
  mu_notes :: "string list"

record usage_unit = token_breakdown +
  au_attributionId :: string
  au_kind :: unit_kind
  au_name :: string
  au_traceId :: string
  au_spanId :: "string option"
  au_parentSpanId :: "string option"
  au_spanKind :: span_kind
  au_model :: "string option"
  au_provider :: "string option"
  au_tokenUsageSource :: token_usage_source
  au_recordKeys :: "string list"
  au_discardedRecordKeys :: "string list"
  au_coverage :: accounting_coverage
  au_warnings :: "string list"

record source_selection =
  ss_selectedTokenUsageSource :: token_usage_source
  ss_corroboratingSources :: "token_usage_source list"
  ss_dedupedRecordCount :: nat
  ss_discardedOverlapReasons :: "coverage_reason list"

record token_usage = token_breakdown +
  tu_source :: token_usage_source
  tu_sourceSelection :: "source_selection option"
  tu_attributedUsageUnits :: "usage_unit list"
  tu_modelUsages :: "model_usage list"
  tu_coverage :: accounting_coverage
  tu_invariants :: "accounting_invariant list"
  tu_warnings :: "string list"

record assembled_trace =
  tr_traceId :: string
  tr_rootSpan :: "span_record option"
  tr_spans :: "span_record list"
  tr_events :: "event_record list"
  tr_metrics :: "metric_record list"
  tr_firstSeenAt :: string
  tr_lastUpdatedAt :: string

section \<open>Prices\<close>

record model_pricing =
  mp_provider :: "string option"
  mp_modelPattern :: string
  mp_inputUsdPerMillion :: rat
  mp_outputUsdPerMillion :: rat
  mp_cachedInputUsdPerMillion :: "rat option"
  mp_cacheCreationUsdPerMillion :: "rat option"
  mp_reasoningOutputUsdPerMillion :: "rat option"
  mp_minInputTokens :: "rat option"
  mp_maxInputTokens :: "rat option"
  mp_longContextInputThreshold :: "rat option"
  mp_longContextNote :: "string option"
  mp_effectiveFrom :: string
  mp_pricingVersion :: "string option"
  mp_sourceUrl :: "string option"
  mp_notes :: "string option"

record pricing_catalog =
  cat_billingContext :: billing_context
  cat_primaryBillingUnit :: billing_unit
  cat_pricingVersions :: "string list"
  cat_pricingTable :: "model_pricing list"

record cost_estimate =
  ce_billingContext :: "billing_context option"
  ce_estimatedNanoUsd :: rat
  ce_estimatedUsd :: rat
  ce_estimatedAiCredits :: rat
  ce_pricingVersion :: string
  ce_matchedModel :: string
  ce_pricingMatch :: "pricing_match option"
  ce_pricingCoverage :: pricing_coverage
  ce_notes :: "string list"

definition NANO_USD_PER_USD :: rat where
  "NANO_USD_PER_USD = 1000000000"

definition NANO_USD_PER_AI_CREDIT :: rat where
  "NANO_USD_PER_AI_CREDIT = 10000000"

definition nanoUsdFromUsd :: "rat option \<Rightarrow> rat option" where
  "nanoUsdFromUsd usd = map_option (\<lambda>u. js_round (u * NANO_USD_PER_USD)) usd"

definition usdFromNanoUsd :: "rat option \<Rightarrow> rat option" where
  "usdFromNanoUsd nano = map_option (\<lambda>n. n / NANO_USD_PER_USD) nano"

definition aiCreditsFromNanoUsd :: "rat option \<Rightarrow> rat option" where
  "aiCreditsFromNanoUsd nano = map_option (\<lambda>n. n / NANO_USD_PER_AI_CREDIT) nano"

section \<open>Providers\<close>

definition normalizeProvider :: "string option \<Rightarrow> string option" where
  "normalizeProvider provider =
     (case provider of
        None \<Rightarrow> None
      | Some p \<Rightarrow>
          if p = '''' then None
          else let normalized = to_lower (trim p)
               in if normalized = '''' then None else Some normalized)"

definition rx_matches :: "bool \<Rightarrow> string \<Rightarrow> string \<Rightarrow> bool" where
  "rx_matches ci p s = (case rx_compile p of None \<Rightarrow> False | Some r \<Rightarrow> rx_test ci r s)"

definition cursor_model_pattern :: string where
  "cursor_model_pattern = ''^(?:cursor[./:-])?(?:auto|composer)(?:[ ./:-]|$)''"

definition inferProviderFromModel :: "string option \<Rightarrow> string option" where
  "inferProviderFromModel model =
     (case model of
        None \<Rightarrow> None
      | Some m \<Rightarrow>
          if m = '''' then None
          else let n = to_lower (trim m)
          in if n = '''' then None
             else if str_includes n ''claude'' \<or> str_includes n ''anthropic'' then Some ''anthropic''
             else if str_includes n ''gemini'' \<or> str_includes n ''google'' then Some ''google''
             else if str_includes n ''mai-code'' \<or> str_includes n ''microsoft'' then Some ''microsoft''
             else if str_includes n ''raptor'' \<or> str_includes n ''github'' then Some ''github''
             else if rx_matches False cursor_model_pattern n then Some ''cursor''
             else if starts_with n ''gpt-'' \<or> starts_with n ''gpt '' \<or> starts_with n ''o3''
                  \<or> starts_with n ''o4'' \<or> n = ''chat-latest'' \<or> str_includes n ''openai''
             then Some ''openai''
             else None)"

lemma usd_credits_same_amount:
  "usdFromNanoUsd (Some n) = Some u \<Longrightarrow> aiCreditsFromNanoUsd (Some n) = Some c \<Longrightarrow> c = u * 100"
  by (auto simp: usdFromNanoUsd_def aiCreditsFromNanoUsd_def NANO_USD_PER_USD_def
      NANO_USD_PER_AI_CREDIT_def)

lemma nano_usd_roundtrip:
  "nanoUsdFromUsd (usdFromNanoUsd (Some (of_int n))) = Some (of_int n)"
  by (simp add: nanoUsdFromUsd_def usdFromNanoUsd_def NANO_USD_PER_USD_def)

end
