(* ===== verification/JsDate.thy ===== *)
theory JsDate
  imports JsValue "HOL-Library.Monad_Syntax"
begin

text \<open>
  JavaScript dates as the program uses them: \<open>new Date(s).getTime()\<close> is \<open>date_ms s\<close>
  (\<open>None\<close> for \<open>NaN\<close>) and \<open>new Date(ms).toISOString()\<close> is \<open>iso_of_ms ms\<close>.
  \<^item> \<open>date_ms\<close> reads the ISO formats of ECMA-262: a year, year-month or date (in UTC),
    or a date and time with \<open>Z\<close> or an offset. A time without an offset depends on the
    time zone of the host and is \<open>None\<close> here, as is every text outside the format;
  \<^item> a comparison of two times is false when one of them is \<open>NaN\<close>
    (\<open>ms_less\<close>, \<open>ms_le\<close>), and so is a test on their difference (\<open>ms_gap_exceeds\<close>).
\<close>

section \<open>The calendar\<close>

definition days_from_civil :: "int \<Rightarrow> int \<Rightarrow> int \<Rightarrow> int" where
  "days_from_civil y m d =
     (let y' = (if m \<le> 2 then y - 1 else y);
          era = y' div 400;
          yoe = y' - era * 400;
          doy = (153 * (if m > 2 then m - 3 else m + 9) + 2) div 5 + d - 1;
          doe = yoe * 365 + yoe div 4 - yoe div 100 + doy
      in era * 146097 + doe - 719468)"

definition civil_from_days :: "int \<Rightarrow> int \<times> int \<times> int" where
  "civil_from_days z0 =
     (let z = z0 + 719468;
          era = z div 146097;
          doe = z - era * 146097;
          yoe = (doe - doe div 1460 + doe div 36524 - doe div 146096) div 365;
          doy = doe - (365 * yoe + yoe div 4 - yoe div 100);
          mp = (5 * doy + 2) div 153;
          d = doy - (153 * mp + 2) div 5 + 1;
          m = (if mp < 10 then mp + 3 else mp - 9);
          y = yoe + era * 400
      in (if m \<le> 2 then y + 1 else y, m, d))"

section \<open>Reading a date\<close>

definition fixed_digits :: "nat \<Rightarrow> string \<Rightarrow> (int \<times> string) option" where
  "fixed_digits n s =
     (if n \<le> length s \<and> list_all is_digit (take n s)
      then Some (int (digits_val (take n s)), drop n s) else None)"

definition expect :: "char \<Rightarrow> string \<Rightarrow> string option" where
  "expect c s = (if s \<noteq> [] \<and> hd s = c then Some (tl s) else None)"

definition in_range :: "int \<Rightarrow> int \<Rightarrow> int \<Rightarrow> unit option" where
  "in_range lo hi x = (if lo \<le> x \<and> x \<le> hi then Some () else None)"

definition read_year :: "string \<Rightarrow> (int \<times> string) option" where
  "read_year s =
     (if s \<noteq> [] \<and> hd s = CHR ''+'' then fixed_digits 6 (tl s)
      else if s \<noteq> [] \<and> hd s = CHR ''-''
      then do { (y, r) \<leftarrow> fixed_digits 6 (tl s); if y = 0 then None else Some (- y, r) }
      else fixed_digits 4 s)"

definition read_month_day :: "string \<Rightarrow> (int \<times> int \<times> string) option" where
  "read_month_day s =
     (if s \<noteq> [] \<and> hd s = CHR ''-''
      then do {
        (m, r) \<leftarrow> fixed_digits 2 (tl s);
        in_range 1 12 m;
        if r \<noteq> [] \<and> hd r = CHR ''-''
        then do { (d, r') \<leftarrow> fixed_digits 2 (tl r); in_range 1 31 d; Some (m, d, r') }
        else Some (m, 1, r) }
      else Some (1, 1, s))"

text \<open>Milliseconds: the first three digits of the fraction, padded with zeros.\<close>

definition read_fraction :: "string \<Rightarrow> (int \<times> string) option" where
  "read_fraction s =
     (if s \<noteq> [] \<and> hd s = CHR ''.''
      then let ds = takeWhile is_digit (tl s)
           in if ds = [] then None
              else Some (int (digits_val (take 3 (ds @ ''00''))), dropWhile is_digit (tl s))
      else Some (0, s))"

definition read_seconds :: "string \<Rightarrow> (int \<times> string) option" where
  "read_seconds s =
     (if s \<noteq> [] \<and> hd s = CHR '':''
      then do {
        (sec, r) \<leftarrow> fixed_digits 2 (tl s);
        in_range 0 59 sec;
        (ms, r') \<leftarrow> read_fraction r;
        Some (sec * 1000 + ms, r') }
      else Some (0, s))"

definition read_offset :: "string \<Rightarrow> int option" where
  "read_offset s =
     (if s = ''Z'' then Some 0
      else if s \<noteq> [] \<and> (hd s = CHR ''+'' \<or> hd s = CHR ''-'')
      then do {
        (h, r) \<leftarrow> fixed_digits 2 (tl s);
        r' \<leftarrow> expect (CHR '':'') r;
        (m, r'') \<leftarrow> fixed_digits 2 r';
        in_range 0 23 h;
        in_range 0 59 m;
        if r'' = [] then Some ((if hd s = CHR ''-'' then -1 else 1) * (h * 60 + m) * 60000) else None }
      else None)"

definition read_time :: "string \<Rightarrow> int option" where
  "read_time s = do {
     (h, r) \<leftarrow> fixed_digits 2 s;
     r1 \<leftarrow> expect (CHR '':'') r;
     (mi, r2) \<leftarrow> fixed_digits 2 r1;
     in_range 0 24 h;
     in_range 0 59 mi;
     (sms, r3) \<leftarrow> read_seconds r2;
     off \<leftarrow> read_offset r3;
     if h = 24 \<and> (mi \<noteq> 0 \<or> sms \<noteq> 0) then None
     else Some (h * 3600000 + mi * 60000 + sms - off) }"

definition date_ms :: "string \<Rightarrow> int option" where
  "date_ms s = do {
     (y, r) \<leftarrow> read_year s;
     (m, d, r') \<leftarrow> read_month_day r;
     t \<leftarrow> (if r' = [] then Some 0 else Option.bind (expect (CHR ''T'') r') read_time);
     let ms = days_from_civil y m d * 86400000 + t;
     if \<bar>ms\<bar> \<le> 8640000000000000 then Some ms else None }"

section \<open>Writing a date\<close>

definition pad :: "nat \<Rightarrow> int \<Rightarrow> string" where
  "pad n i = (let s = nat_to_string (nat i) in replicate (n - length s) (CHR ''0'') @ s)"

text \<open>For times in the years 0 to 9999; other years use the expanded format.\<close>

definition iso_of_ms :: "int \<Rightarrow> string" where
  "iso_of_ms ms =
     (let days = ms div 86400000; t = ms mod 86400000; (y, m, d) = civil_from_days days
      in (if 0 \<le> y \<and> y \<le> 9999 then pad 4 y
          else if y < 0 then ''-'' @ pad 6 (- y) else ''+'' @ pad 6 y)
         @ ''-'' @ pad 2 m @ ''-'' @ pad 2 d
         @ ''T'' @ pad 2 (t div 3600000) @ '':'' @ pad 2 (t div 60000 mod 60)
         @ '':'' @ pad 2 (t div 1000 mod 60) @ ''.'' @ pad 3 (t mod 1000) @ ''Z'')"

section \<open>Comparing times\<close>

definition ms_less :: "int option \<Rightarrow> int option \<Rightarrow> bool" where
  "ms_less a b = (case (a, b) of (Some x, Some y) \<Rightarrow> x < y | _ \<Rightarrow> False)"

definition ms_le :: "int option \<Rightarrow> int option \<Rightarrow> bool" where
  "ms_le a b = (case (a, b) of (Some x, Some y) \<Rightarrow> x \<le> y | _ \<Rightarrow> False)"

text \<open>\<open>b - a > limit\<close> on times.\<close>

definition ms_gap_exceeds :: "int option \<Rightarrow> int option \<Rightarrow> int \<Rightarrow> bool" where
  "ms_gap_exceeds a b limit = (case (a, b) of (Some x, Some y) \<Rightarrow> y - x > limit | _ \<Rightarrow> False)"

lemma ms_less_simps [simp]:
  "ms_less (Some x) (Some y) = (x < y)" "ms_less None b = False" "ms_less a None = False"
  by (simp_all add: ms_less_def split: option.splits)

lemma ms_le_simps [simp]:
  "ms_le (Some x) (Some y) = (x \<le> y)" "ms_le None b = False" "ms_le a None = False"
  by (simp_all add: ms_le_def split: option.splits)

lemma ms_gap_exceeds_simps [simp]:
  "ms_gap_exceeds (Some x) (Some y) l = (y - x > l)"
  "ms_gap_exceeds None b l = False" "ms_gap_exceeds a None l = False"
  by (simp_all add: ms_gap_exceeds_def split: option.splits)

end
