(* ===== verification/OtelSemantics.thy ===== *)
theory OtelSemantics
  imports Types JsDate
begin

text \<open>
  Reading OpenTelemetry values and records: src/src/normalization/otelValues.ts (unwrapping
  of protocol values, times and durations) and src/src/aggregation/otelSemantics.ts (the
  names, models, providers, identifiers and outcomes of spans and events).
  The lemmas say what a name test accepts, that unwrapping terminates on any nesting, and
  that an extracted identifier is never blank.
\<close>

section \<open>Protocol values (otelValues.ts)\<close>

lemma size_map_of: "map_of r k = Some v \<Longrightarrow> size v < size (JObj r)"
  by (induction r) (auto split: if_splits)

lemma size_js_prop: "size (js_prop r k) < size (JObj r)"
  by (cases "map_of r k") (auto simp: js_prop_def dest: size_map_of)

lemma size_list_member: "v \<in> set vs \<Longrightarrow> size v < size (JArr vs)"
  by (induction vs) auto

fun js_truthy :: "js \<Rightarrow> bool" where
  "js_truthy JUndefined = False"
| "js_truthy JNull = False"
| "js_truthy (JBool b) = b"
| "js_truthy (JNum n) = (n \<noteq> 0)"
| "js_truthy JNonFinite = True"
| "js_truthy (JBigInt i) = (i \<noteq> 0)"
| "js_truthy (JStr s) = (s \<noteq> '''')"
| "js_truthy (JArr vs) = True"
| "js_truthy (JObj r) = True"

definition number_or_self :: "js \<Rightarrow> js" where
  "number_or_self v = (case toNumber v of None \<Rightarrow> v | Some n \<Rightarrow> JNum n)"

text \<open>An item \<open>{ key, value }\<close> of an attribute list.\<close>

fun keyed_item :: "js \<Rightarrow> (string \<times> js) option" where
  "keyed_item (JObj r) =
     (case js_prop r ''key'' of JStr k \<Rightarrow> Some (k, js_prop r ''value'') | _ \<Rightarrow> None)"
| "keyed_item _ = None"

lemma keyed_item_size: "keyed_item item = Some (k, v) \<Longrightarrow> size v < size item"
  by (cases item) (auto split: js.splits simp del: js.size intro: size_js_prop)

lemma prop_prop_smaller: "js_prop r k = JObj kv \<Longrightarrow> size (js_prop kv k') < size (JObj r)"
  using size_js_prop [of kv k'] size_js_prop [of r k] by simp

lemma prop_prop_item_smaller:
  "js_prop r k = JObj av \<Longrightarrow> js_prop av k' = JArr vs \<Longrightarrow> x \<in> set vs \<Longrightarrow> size x < size (JObj r)"
  using size_list_member [of x vs] prop_prop_smaller [of r k av k'] by simp

lemma keyed_item_smaller:
  "item \<in> set items \<Longrightarrow> keyed_item item = Some kv \<Longrightarrow> (k, v) = kv \<Longrightarrow> size v < size (JArr items)"
  using keyed_item_size [of item k v] size_list_member [of item items] by simp

function unwrapOtelValue :: "js \<Rightarrow> js" and otelAttributesToRecord :: "js \<Rightarrow> js_record" where
  "unwrapOtelValue jv =
     (case jv of
        JObj r \<Rightarrow>
          if has_prop r ''stringValue'' then js_prop r ''stringValue''
          else if has_prop r ''intValue'' then number_or_self (js_prop r ''intValue'')
          else if has_prop r ''doubleValue'' then number_or_self (js_prop r ''doubleValue'')
          else if has_prop r ''boolValue'' then JBool (js_truthy (js_prop r ''boolValue''))
          else if has_prop r ''bytesValue'' then js_prop r ''bytesValue''
          else (case js_prop r ''kvlistValue'' of
                  JObj kv \<Rightarrow> JObj (otelAttributesToRecord (js_prop kv ''values''))
                | _ \<Rightarrow>
                  (case js_prop r ''arrayValue'' of
                     JObj av \<Rightarrow>
                       (case js_prop av ''values'' of
                          JArr vs \<Rightarrow> JArr (map unwrapOtelValue vs)
                        | _ \<Rightarrow> jv)
                   | _ \<Rightarrow> jv))
      | _ \<Rightarrow> jv)"
| "otelAttributesToRecord jv =
     (case jv of
        JArr items \<Rightarrow>
          fold (\<lambda>item attributes.
                  case keyed_item item of
                    None \<Rightarrow> attributes
                  | Some (k, v) \<Rightarrow> map_set k (unwrapOtelValue v) attributes) items []
      | JObj r \<Rightarrow> r
      | _ \<Rightarrow> [])"
  by pat_completeness auto
termination
  by (relation "measure (\<lambda>x. case x of Inl v \<Rightarrow> size v | Inr v \<Rightarrow> size v)")
    (simp_all only: in_measure sum.case wf_measure prop_prop_smaller prop_prop_item_smaller
      keyed_item_smaller)

declare unwrapOtelValue.simps [simp del] otelAttributesToRecord.simps [simp del]

definition js_trunc :: "rat \<Rightarrow> rat" where
  "js_trunc x = (if x < 0 then of_int \<lceil>x\<rceil> else of_int \<lfloor>x\<rfloor>)"

definition hrTimeToUnixNano :: "js \<Rightarrow> string option" where
  "hrTimeToUnixNano jv =
     (case jv of
        JArr (v0 # v1 # _) \<Rightarrow>
          (case (toNumber v0, toNumber v1) of
             (Some seconds, Some nanos) \<Rightarrow>
               Some (num_to_string (js_trunc (seconds * 1000000000 + nanos)))
           | _ \<Rightarrow> None)
      | _ \<Rightarrow> None)"

definition non_blank_string :: "js \<Rightarrow> string option" where
  "non_blank_string v = (case v of JStr s \<Rightarrow> if trim s \<noteq> '''' then Some s else None | _ \<Rightarrow> None)"

fun firstString :: "js list \<Rightarrow> string option" where
  "firstString [] = None"
| "firstString (v # vs) = or_else (non_blank_string v) (firstString vs)"

definition unixNanoToIso :: "js \<Rightarrow> string option" where
  "unixNanoToIso jv =
     (case toNumber jv of
        None \<Rightarrow> None
      | Some n \<Rightarrow>
          if n \<le> 0 then None
          else let millis = \<lfloor>n / 1000000\<rfloor>
               in if millis \<le> 8640000000000000 then Some (iso_of_ms millis) else None)"

definition string_js :: "string option \<Rightarrow> js" where
  "string_js s = (case s of None \<Rightarrow> JUndefined | Some t \<Rightarrow> JStr t)"

definition durationMs :: "string option \<Rightarrow> string option \<Rightarrow> rat option" where
  "durationMs startUnixNano endUnixNano =
     (case (toNumber (string_js startUnixNano), toNumber (string_js endUnixNano)) of
        (Some s, Some e) \<Rightarrow> if e < s then None else Some (js_round ((e - s) / 1000000))
      | _ \<Rightarrow> None)"

section \<open>Names of spans\<close>

text \<open>\<open>replace(/\s+/g, "_")\<close>: each maximal run of white space becomes one underscore.\<close>

fun collapse_ws :: "bool \<Rightarrow> string \<Rightarrow> string" where
  "collapse_ws inside [] = []"
| "collapse_ws inside (c # s) =
     (if is_ws c then (if inside then collapse_ws True s else CHR ''_'' # collapse_ws True s)
      else c # collapse_ws False s)"

definition normalizeName :: "string \<Rightarrow> string" where
  "normalizeName name = collapse_ws False (to_lower (trim name))"

definition isInvokeAgentName :: "string \<Rightarrow> bool" where
  "isInvokeAgentName name = starts_with (normalizeName name) ''invoke_agent''"

definition isChatName :: "string \<Rightarrow> bool" where
  "isChatName name = starts_with (normalizeName name) ''chat''"

definition isExecuteToolName :: "string \<Rightarrow> bool" where
  "isExecuteToolName name = starts_with (normalizeName name) ''execute_tool''"

definition isUserMessageEvent :: "otel_record \<Rightarrow> bool" where
  "isUserMessageEvent r = (case r of Event e \<Rightarrow> ev_name e = ''user_message'' | _ \<Rightarrow> False)"

definition isErrorStatus :: "string option \<Rightarrow> bool" where
  "isErrorStatus st = (st = Some ''STATUS_CODE_ERROR'' \<or> st = Some ''ERROR'')"

definition isTerminalSpan :: "span_record \<Rightarrow> bool" where
  "isTerminalSpan sp =
     (if truthy (sp_endTimeUnixNano sp) then True else isErrorStatus (sp_status sp))"

fun recordTimestamp :: "otel_record \<Rightarrow> string option" where
  "recordTimestamp (Span s) = or_else (sp_startTimeUnixNano s) (sp_endTimeUnixNano s)"
| "recordTimestamp (Event e) = ev_timeUnixNano e"
| "recordTimestamp (Metric m) = me_timeUnixNano m"

section \<open>Attributes of a record\<close>

definition attr :: "otel_record \<Rightarrow> string \<Rightarrow> js" where
  "attr r k = js_prop (rec_attributes r) k"

definition extractModel :: "otel_record \<Rightarrow> string option" where
  "extractModel r = firstString (map (attr r)
     [''gen_ai.request.model'', ''gen_ai.response.model'', ''gen_ai.system'', ''llm.model_name'',
      ''model'', ''model.name'', ''copilot.model''])"

definition stringOrNumber :: "js \<Rightarrow> string option" where
  "stringOrNumber v =
     (case v of
        JStr s \<Rightarrow> if trim s \<noteq> '''' then Some s else None
      | JNum n \<Rightarrow> Some (num_to_string n)
      | _ \<Rightarrow> None)"

fun firstStringAttribute :: "otel_record \<Rightarrow> string list \<Rightarrow> string option" where
  "firstStringAttribute r [] = None"
| "firstStringAttribute r (k # ks) =
     or_else (stringOrNumber (attr r k))
       (or_else (stringOrNumber (js_prop (rec_resourceAttributes r) k)) (firstStringAttribute r ks))"

definition isKnownProvider :: "string \<Rightarrow> bool" where
  "isKnownProvider p = (p \<in> set [''openai'', ''anthropic'', ''google'', ''microsoft'', ''github''])"

fun pickProvider :: "string option \<Rightarrow> string option list \<Rightarrow> string option" where
  "pickProvider modelProvider [] = modelProvider"
| "pickProvider modelProvider (c # cs) =
     (case normalizeProvider c of
        Some normalized \<Rightarrow>
          if isKnownProvider normalized
          then if normalized = ''github'' \<and> modelProvider \<noteq> None \<and> modelProvider \<noteq> Some ''github''
               then modelProvider else Some normalized
          else pickProvider modelProvider cs
      | None \<Rightarrow> pickProvider modelProvider cs)"

definition extractProvider :: "otel_record \<Rightarrow> string option" where
  "extractProvider r =
     pickProvider (inferProviderFromModel (extractModel r))
       [firstStringAttribute r [''gen_ai.provider.name''],
        firstStringAttribute r [''provider_name''],
        firstStringAttribute r [''provider.name''],
        firstStringAttribute r [''llm.provider''],
        firstStringAttribute r [''gen_ai.system'']]"

definition extractConversationId :: "otel_record \<Rightarrow> string option" where
  "extractConversationId r = firstStringAttribute r
     [''gen_ai.conversation.id'', ''github.copilot.conversation.id'',
      ''copilot_chat.conversation.id'', ''conversation.id'', ''session.id'']"

definition extractTurnId :: "otel_record \<Rightarrow> string option" where
  "extractTurnId r = firstStringAttribute r
     [''gen_ai.turn.id'', ''github.copilot.turn.id'', ''copilot_chat.turn.id'', ''turn.id'',
      ''turn.index'', ''request.id'', ''gen_ai.message.id'']"

definition extractInitialQueryText :: "otel_record \<Rightarrow> string option" where
  "extractInitialQueryText r = firstStringAttribute r [''tirion.initial_user_query'']"

definition extractCopilotSessionId :: "otel_record \<Rightarrow> string option" where
  "extractCopilotSessionId r = firstStringAttribute r
     [''copilot_chat.session_id'', ''gen_ai.conversation.id'', ''session.id'']"

definition extractCopilotChatSessionId :: "otel_record \<Rightarrow> string option" where
  "extractCopilotChatSessionId r = firstStringAttribute r [''copilot_chat.chat_session_id'']"

definition isSpawnedHelperTraceRoot :: "otel_record \<Rightarrow> bool" where
  "isSpawnedHelperTraceRoot r =
     (case (extractCopilotSessionId r, extractCopilotChatSessionId r) of
        (Some s, Some c) \<Rightarrow> s \<noteq> c
      | _ \<Rightarrow> False)"

definition extractSessionId :: "otel_record \<Rightarrow> string option" where
  "extractSessionId r = firstStringAttribute r [''session.id'']"

definition extractServiceName :: "otel_record \<Rightarrow> string option" where
  "extractServiceName r =
     (let v = js_prop (rec_resourceAttributes r) ''service.name'';
          w = (if is_nullish v then attr r ''service.name'' else v)
      in case w of JStr s \<Rightarrow> Some s | _ \<Rightarrow> None)"

definition stripExecuteTool :: "string \<Rightarrow> string" where
  "stripExecuteTool name =
     (if starts_with (to_lower name) ''execute_tool''
      then dropWhile is_ws (drop (length ''execute_tool'') name) else name)"

definition extractToolName :: "span_record \<Rightarrow> string" where
  "extractToolName sp =
     (case firstString (map (js_prop (sp_attributes sp))
             [''gen_ai.tool.name'', ''tool.name'', ''copilot.tool.name'', ''name'']) of
        Some v \<Rightarrow> v
      | None \<Rightarrow>
          let s = trim (stripExecuteTool (sp_name sp)) in if s = '''' then ''unknown'' else s)"

definition extractToolCallId :: "otel_record \<Rightarrow> string option" where
  "extractToolCallId r = firstStringAttribute r
     [''gen_ai.tool.call.id'', ''tool.call.id'', ''github.copilot.tool.call.id'',
      ''copilot.tool.call.id'']"

definition extractSpanDurationMs :: "span_record \<Rightarrow> rat option" where
  "extractSpanDurationMs sp =
     (case (toNumber (string_js (sp_startTimeUnixNano sp)),
            toNumber (string_js (sp_endTimeUnixNano sp))) of
        (Some s, Some e) \<Rightarrow> if e < s then None else Some (js_round ((e - s) / 1000000))
      | _ \<Rightarrow> None)"

datatype span_status = Span_completed | Span_error | Span_unknown

definition extractStatus :: "span_record option \<Rightarrow> span_status" where
  "extractStatus sp =
     (case sp of
        None \<Rightarrow> Span_unknown
      | Some s \<Rightarrow>
          if isErrorStatus (sp_status s) then Span_error
          else if truthy (sp_endTimeUnixNano s) then Span_completed
          else Span_unknown)"

section \<open>Lemmas\<close>

lemma firstString_not_blank: "firstString vs = Some s \<Longrightarrow> trim s \<noteq> ''''"
  by (induction vs) (auto simp: non_blank_string_def or_else_def split: js.splits option.splits if_splits)

lemma extractModel_not_blank: "extractModel r = Some m \<Longrightarrow> trim m \<noteq> ''''"
  unfolding extractModel_def by (rule firstString_not_blank)

lemma extractModel_truthy: "truthy (extractModel r) = (extractModel r \<noteq> None)"
  by (cases "extractModel r") (auto dest: extractModel_not_blank simp: trim_def)

lemma pickProvider_known:
  "pickProvider mp cs = Some p \<Longrightarrow> isKnownProvider p \<or> mp = Some p"
  by (induction mp cs rule: pickProvider.induct) (auto split: option.splits if_splits)

lemma durationMs_nonneg: "durationMs s e = Some d \<Longrightarrow> 0 \<le> d"
  by (auto simp: durationMs_def intro!: js_round_nonneg split: option.splits if_splits)

lemma terminal_span_has_status: "isTerminalSpan s \<longleftrightarrow> extractStatus (Some s) \<noteq> Span_unknown"
  by (auto simp: isTerminalSpan_def extractStatus_def)

end
