(* ===== verification/TokenSources.thy ===== *)
theory TokenSources
  imports OtelSemantics
begin

text \<open>
  src/src/aggregation/tokenMeasurement.ts, first part: the token counts of a record and the
  four candidate sources of a trace (the root span, chat spans, events, metrics) with their
  attributed usage units.
  \<^item> \<open>tokensFromAttributes\<close>, \<open>sumTokenUsage\<close>, \<open>finalizeTokenBreakdown\<close>: token counts;
  \<^item> \<open>createUsageUnit\<close>: one attributed unit with its model, provider and coverage;
  \<^item> \<open>invokeAgentCandidate\<close>, \<open>chatSpanCandidate\<close>, \<open>eventCandidate\<close>,
    \<open>metricsCandidate\<close>: the sources, events being deduplicated by turn.
  The lemmas show that each count of a sum is the sum of that count, and that deduplication
  keeps one unit for each turn and accounts for every event record.
\<close>

section \<open>Token counts\<close>

fun numberFromAny :: "js_record \<Rightarrow> string list \<Rightarrow> rat option" where
  "numberFromAny attributes [] = None"
| "numberFromAny attributes (k # ks) =
     or_else (toNumber (js_prop attributes k)) (numberFromAny attributes ks)"

definition tokensFromAttributes :: "js_record \<Rightarrow> token_breakdown" where
  "tokensFromAttributes attributes = no_tokens\<lparr>
     inputTokens := numberFromAny attributes
       [''gen_ai.usage.input_tokens'', ''gen_ai.usage.prompt_tokens'', ''llm.usage.prompt_tokens'',
        ''input_tokens'', ''prompt_tokens''],
     outputTokens := numberFromAny attributes
       [''gen_ai.usage.output_tokens'', ''gen_ai.usage.completion_tokens'',
        ''llm.usage.completion_tokens'', ''output_tokens'', ''completion_tokens''],
     cacheReadInputTokens := numberFromAny attributes
       [''gen_ai.usage.cache_read.input_tokens'', ''gen_ai.usage.cached_tokens'',
        ''cache_read_input_tokens'', ''cached_tokens''],
     cacheCreationInputTokens := numberFromAny attributes
       [''gen_ai.usage.cache_creation.input_tokens'', ''cache_creation_input_tokens''],
     reasoningOutputTokens := numberFromAny attributes
       [''gen_ai.usage.reasoning.output_tokens'', ''reasoning_output_tokens'']\<rparr>"

definition addTokenUsage :: "token_breakdown \<Rightarrow> token_breakdown \<Rightarrow> token_breakdown" where
  "addTokenUsage acc usage = no_tokens\<lparr>
     inputTokens := add_opt (inputTokens acc) (inputTokens usage),
     outputTokens := add_opt (outputTokens acc) (outputTokens usage),
     cacheReadInputTokens := add_opt (cacheReadInputTokens acc) (cacheReadInputTokens usage),
     cacheCreationInputTokens :=
       add_opt (cacheCreationInputTokens acc) (cacheCreationInputTokens usage),
     reasoningOutputTokens := add_opt (reasoningOutputTokens acc) (reasoningOutputTokens usage)\<rparr>"

definition sumTokenUsage :: "token_breakdown list \<Rightarrow> token_breakdown" where
  "sumTokenUsage usages = foldl addTokenUsage no_tokens usages"

definition finalizeTokenBreakdown :: "token_breakdown \<Rightarrow> token_breakdown" where
  "finalizeTokenBreakdown usage = usage\<lparr>
     cachedTokens := add_opt (cacheReadInputTokens usage) (cacheCreationInputTokens usage),
     totalTokens := add_opt (inputTokens usage) (outputTokens usage)\<rparr>"

definition hasTokenData :: "'a token_breakdown_scheme \<Rightarrow> bool" where
  "hasTokenData usage =
     (inputTokens usage \<noteq> None \<or> outputTokens usage \<noteq> None \<or> cacheReadInputTokens usage \<noteq> None
      \<or> cacheCreationInputTokens usage \<noteq> None \<or> reasoningOutputTokens usage \<noteq> None)"

definition metricTokenType :: "metric_record \<Rightarrow> string" where
  "metricTokenType m =
     (let v = js_prop (me_attributes m) ''gen_ai.token.type'';
          w = (if is_nullish v then js_prop (me_attributes m) ''type'' else v)
      in to_lower (if is_nullish w then '''' else js_to_string w))"

definition metricTokens :: "metric_record \<Rightarrow> token_breakdown" where
  "metricTokens m =
     (let t = metricTokenType m
      in if str_includes t ''input'' \<or> str_includes t ''prompt''
         then no_tokens\<lparr>inputTokens := me_value m\<rparr>
         else if str_includes t ''output'' \<or> str_includes t ''completion''
         then no_tokens\<lparr>outputTokens := me_value m\<rparr>
         else if str_includes t ''cache''
         then no_tokens\<lparr>cacheReadInputTokens := me_value m\<rparr>
         else no_tokens)"

definition isUsageMetric :: "metric_record \<Rightarrow> bool" where
  "isUsageMetric m = (me_name m = ''gen_ai.client.token.usage'')"

definition tokensFromMetrics :: "metric_record list \<Rightarrow> token_breakdown" where
  "tokensFromMetrics metrics = sumTokenUsage (map metricTokens (filter isUsageMetric metrics))"

definition countDefinedTokenFields :: "token_breakdown \<Rightarrow> nat" where
  "countDefinedTokenFields usage =
     length (filter (\<lambda>v. v \<noteq> None)
       [inputTokens usage, outputTokens usage, cacheReadInputTokens usage,
        cacheCreationInputTokens usage, reasoningOutputTokens usage])"

definition matchingBreakdownValue :: "rat option \<Rightarrow> rat option \<Rightarrow> bool" where
  "matchingBreakdownValue expected actual =
     (if expected = None \<and> actual = None then True
      else if expected = None \<or> actual = None then False
      else the expected = the actual)"

definition sameUsage :: "token_breakdown \<Rightarrow> token_breakdown \<Rightarrow> bool" where
  "sameUsage a b =
     (matchingBreakdownValue (inputTokens a) (inputTokens b)
      \<and> matchingBreakdownValue (outputTokens a) (outputTokens b)
      \<and> matchingBreakdownValue (cacheReadInputTokens a) (cacheReadInputTokens b)
      \<and> matchingBreakdownValue (cacheCreationInputTokens a) (cacheCreationInputTokens b)
      \<and> matchingBreakdownValue (reasoningOutputTokens a) (reasoningOutputTokens b))"

section \<open>Attributed usage units\<close>

definition coverageStateFromReasons :: "coverage_reason list \<Rightarrow> cost_coverage" where
  "coverageStateFromReasons reasons =
     (if Source_not_reported \<in> set reasons then Unavailable
      else if list_ex (\<lambda>r. r \<in> set reasons)
        [Source_ambiguous, Model_not_reported, Missing_model_attribution,
         Missing_tool_attribution, Metrics_only_trace, Span_cost_unavailable, Invariant_failed]
      then Partial else Complete)"

definition canonicalRecordKey :: "otel_record \<Rightarrow> string" where
  "canonicalRecordKey r = join '':''
     [rec_kind r, nullish (rec_traceId r) ''no-trace'', nullish (rec_spanId r) ''no-span'',
      rec_name r, nullish (recordTimestamp r) ''no-time'']"

definition fallbackRecord :: "string option \<Rightarrow> string option \<Rightarrow> otel_record" where
  "fallbackRecord traceId model = Event
     \<lparr>ev_traceId = traceId, ev_spanId = None, ev_name = ''provider_inference'',
      ev_timeUnixNano = None,
      ev_attributes = (if truthy model then [(''gen_ai.request.model'', string_js model)] else []),
      ev_resourceAttributes = []\<rparr>"

record unit_input =
  ui_source :: token_usage_source
  ui_usage :: token_breakdown
  ui_attributionId :: string
  ui_name :: string
  ui_kind :: unit_kind
  ui_spanKind :: span_kind
  ui_record :: "otel_record option"
  ui_traceId :: "string option"
  ui_model :: "string option"
  ui_recordKeys :: "string list option"
  ui_discardedRecordKeys :: "string list option"
  ui_warnings :: "string list"
  ui_extraCoverageReasons :: "coverage_reason list"

definition unitReasons :: "unit_input \<Rightarrow> coverage_reason list" where
  "unitReasons input = dedup
     (ui_extraCoverageReasons input
      @ (if truthy (ui_model input) then [] else [Missing_model_attribution])
      @ (if ui_source input = Metrics then [Metrics_only_trace] else []))"

definition createUsageUnit :: "unit_input \<Rightarrow> usage_unit" where
  "createUsageUnit input = token_breakdown.extend (finalizeTokenBreakdown (ui_usage input))
     (usage_unit.fields
        (ui_attributionId input)
        (ui_kind input)
        (ui_name input)
        (nullish (or_else (ui_traceId input) (Option.bind (ui_record input) rec_traceId)) ''unknown'')
        (Option.bind (ui_record input) rec_spanId)
        (case ui_record input of Some (Span s) \<Rightarrow> sp_parentSpanId s | _ \<Rightarrow> None)
        (ui_spanKind input)
        (ui_model input)
        (or_else (extractProvider (nullish (ui_record input)
                    (fallbackRecord (ui_traceId input) (ui_model input))))
           (inferProviderFromModel (ui_model input)))
        (ui_source input)
        (nullish (ui_recordKeys input)
           (case ui_record input of None \<Rightarrow> [] | Some r \<Rightarrow> [canonicalRecordKey r]))
        (nullish (ui_discardedRecordKeys input) [])
        \<lparr>cov_state = coverageStateFromReasons (unitReasons input), cov_reasons = unitReasons input\<rparr>
        (ui_warnings input))"

section \<open>The four candidate sources\<close>

record source_candidate =
  sc_source :: token_usage_source
  sc_units :: "usage_unit list"
  sc_warnings :: "string list"
  sc_discardedOverlapReasons :: "coverage_reason list"

definition invokeAgentCandidate :: "assembled_trace \<Rightarrow> source_candidate option" where
  "invokeAgentCandidate tr =
     (case tr_rootSpan tr of
        None \<Rightarrow> None
      | Some rootSpan \<Rightarrow>
          let usage = tokensFromAttributes (sp_attributes rootSpan)
          in if \<not> hasTokenData usage then None
             else let u = createUsageUnit
                    \<lparr>ui_source = Invoke_agent, ui_usage = usage,
                     ui_attributionId = ''trace:'' @ tr_traceId tr @ '':invoke_agent:'' @ sp_spanId rootSpan,
                     ui_name = sp_name rootSpan, ui_kind = Kind_trace, ui_spanKind = Kind_root,
                     ui_record = Some (Span rootSpan), ui_traceId = None,
                     ui_model = extractModel (Span rootSpan), ui_recordKeys = None,
                     ui_discardedRecordKeys = None, ui_warnings = [], ui_extraCoverageReasons = []\<rparr>
                  in Some \<lparr>sc_source = Invoke_agent, sc_units = [u], sc_warnings = au_warnings u,
                       sc_discardedOverlapReasons = []\<rparr>)"

definition spansWithTokenUsage :: "span_record list \<Rightarrow> span_record list" where
  "spansWithTokenUsage rs = filter (\<lambda>r. hasTokenData (tokensFromAttributes (sp_attributes r))) rs"

definition chatSpanUnit :: "assembled_trace \<Rightarrow> span_record \<Rightarrow> usage_unit" where
  "chatSpanUnit tr r = createUsageUnit
     \<lparr>ui_source = Chat_spans, ui_usage = tokensFromAttributes (sp_attributes r),
      ui_attributionId = ''span:'' @ tr_traceId tr @ '':'' @ sp_spanId r,
      ui_name = sp_name r, ui_kind = Kind_model, ui_spanKind = Kind_llm,
      ui_record = Some (Span r), ui_traceId = None, ui_model = extractModel (Span r),
      ui_recordKeys = None, ui_discardedRecordKeys = None, ui_warnings = [],
      ui_extraCoverageReasons = []\<rparr>"

definition chatSpanCandidate :: "assembled_trace \<Rightarrow> source_candidate option" where
  "chatSpanCandidate tr =
     (let chatRecords = spansWithTokenUsage (filter (\<lambda>s. isChatName (sp_name s)) (tr_spans tr));
          units = map (chatSpanUnit tr) chatRecords
      in if chatRecords = [] then None
         else Some \<lparr>sc_source = Chat_spans, sc_units = units,
                sc_warnings = concat (map au_warnings units), sc_discardedOverlapReasons = []\<rparr>)"

definition isEventTokenRecord :: "event_record \<Rightarrow> bool" where
  "isEventTokenRecord e =
     (ev_name e = ''copilot_chat.agent.turn''
      \<or> ev_name e = ''gen_ai.client.inference.operation.details'')"

definition eventsWithTokenUsage :: "event_record list \<Rightarrow> event_record list" where
  "eventsWithTokenUsage es = filter (\<lambda>e. hasTokenData (tokensFromAttributes (ev_attributes e))) es"

definition tokenText :: "rat option \<Rightarrow> string" where
  "tokenText v = (case v of None \<Rightarrow> ''na'' | Some n \<Rightarrow> num_to_string n)"

definition eventAttributionKey :: "event_record \<Rightarrow> string" where
  "eventAttributionKey e =
     (let c = extractConversationId (Event e); t = extractTurnId (Event e);
          usage = tokensFromAttributes (ev_attributes e)
      in if truthy c \<or> truthy t
         then ''turn:'' @ nullish c ''unknown'' @ '':'' @ nullish (or_else t (ev_spanId e)) ''unknown''
         else join '':''
           [nullish (ev_spanId e) ''no-span'', tokenText (inputTokens usage),
            tokenText (outputTokens usage), tokenText (cacheReadInputTokens usage),
            tokenText (cacheCreationInputTokens usage), tokenText (reasoningOutputTokens usage)])"

definition eventCompletenessScore :: "event_record \<Rightarrow> nat" where
  "eventCompletenessScore e =
     countDefinedTokenFields (tokensFromAttributes (ev_attributes e)) * 10
     + (if truthy (extractModel (Event e)) then 100 else 0)
     + (if ev_name e = ''copilot_chat.agent.turn'' then 1 else 0)"

text \<open>
  Event records are compared by identity (\<open>record !== preferred\<close>), so each carries its
  position among the token-bearing events of the trace.
\<close>

type_synonym indexed_event = "nat \<times> event_record"

definition indexed :: "'a list \<Rightarrow> (nat \<times> 'a) list" where
  "indexed xs = zip [0 ..< length xs] xs"

definition eventPreferred :: "indexed_event list \<Rightarrow> indexed_event" where
  "eventPreferred records =
     hd (sort_by (\<lambda>a b. eventCompletenessScore (snd b) \<le> eventCompletenessScore (snd a)) records)"

definition eventDiscarded :: "indexed_event list \<Rightarrow> indexed_event list" where
  "eventDiscarded records = filter (\<lambda>r. fst r \<noteq> fst (eventPreferred records)) records"

definition eventConflict :: "indexed_event list \<Rightarrow> bool" where
  "eventConflict records =
     (let preferredUsage = tokensFromAttributes (ev_attributes (snd (eventPreferred records)));
          models = unique_strings (concat (map (\<lambda>r. case extractModel (Event (snd r)) of
                     None \<Rightarrow> [] | Some m \<Rightarrow> [m]) records))
      in list_ex (\<lambda>r. \<not> sameUsage preferredUsage (tokensFromAttributes (ev_attributes (snd r))))
           (eventDiscarded records)
         \<or> length models > 1)"

definition eventOverlapReasons :: "indexed_event list \<Rightarrow> coverage_reason list" where
  "eventOverlapReasons records =
     (if eventDiscarded records \<noteq> [] then [Duplicate_overlap_discarded] else [])
     @ (if eventConflict records then [Source_ambiguous] else [])"

definition eventWarnings :: "indexed_event list \<Rightarrow> string list" where
  "eventWarnings records =
     (if eventDiscarded records \<noteq> []
      then [''Discarded overlapping event token records while deduplicating event-derived call units.'']
      else [])
     @ (if eventConflict records
        then [''Overlapping event token records disagreed; selected the most complete event record for attribution.'']
        else [])"

definition eventUnit :: "assembled_trace \<Rightarrow> string \<Rightarrow> indexed_event list \<Rightarrow> usage_unit" where
  "eventUnit tr key records =
     (let preferred = snd (eventPreferred records)
      in createUsageUnit
        \<lparr>ui_source = Events, ui_usage = tokensFromAttributes (ev_attributes preferred),
         ui_attributionId = ''event:'' @ tr_traceId tr @ '':'' @ key,
         ui_name = ev_name preferred, ui_kind = Kind_model, ui_spanKind = Kind_event,
         ui_record = Some (Event preferred), ui_traceId = None,
         ui_model = extractModel (Event preferred), ui_recordKeys = None,
         ui_discardedRecordKeys =
           Some (map (\<lambda>r. canonicalRecordKey (Event (snd r))) (eventDiscarded records)),
         ui_warnings = eventWarnings records,
         ui_extraCoverageReasons = (if eventConflict records then [Source_ambiguous] else [])\<rparr>)"

definition eventGroups :: "assembled_trace \<Rightarrow> (string, indexed_event list) jsmap" where
  "eventGroups tr =
     group_by (\<lambda>r. eventAttributionKey (snd r))
       (indexed (eventsWithTokenUsage (filter isEventTokenRecord (tr_events tr))))"

definition eventCandidate :: "assembled_trace \<Rightarrow> source_candidate option" where
  "eventCandidate tr =
     (if eventsWithTokenUsage (filter isEventTokenRecord (tr_events tr)) = [] then None
      else let groups = eventGroups tr
      in Some \<lparr>sc_source = Events,
               sc_units = map (\<lambda>(key, records). eventUnit tr key records) groups,
               sc_warnings = concat (map (\<lambda>(key, records). eventWarnings records) groups),
               sc_discardedOverlapReasons =
                 dedup (concat (map (\<lambda>(key, records). eventOverlapReasons records) groups))\<rparr>)"

definition metricsCandidate :: "assembled_trace \<Rightarrow> source_candidate option" where
  "metricsCandidate tr =
     (let usageMetrics = filter isUsageMetric (tr_metrics tr); usage = tokensFromMetrics usageMetrics
      in if \<not> hasTokenData usage then None
         else let u = createUsageUnit
                \<lparr>ui_source = Metrics, ui_usage = usage,
                 ui_attributionId = ''metric:'' @ tr_traceId tr @ '':gen_ai.client.token.usage'',
                 ui_name = ''gen_ai.client.token.usage'', ui_kind = Kind_trace,
                 ui_spanKind = Kind_metric, ui_record = None, ui_traceId = Some (tr_traceId tr),
                 ui_model = None,
                 ui_recordKeys = Some (map (\<lambda>m. canonicalRecordKey (Metric m)) usageMetrics),
                 ui_discardedRecordKeys = None,
                 ui_warnings = [''Metric token usage may be aggregate telemetry when trace correlation is incomplete.''],
                 ui_extraCoverageReasons = [Metrics_only_trace]\<rparr>
              in Some \<lparr>sc_source = Metrics, sc_units = [u], sc_warnings = au_warnings u,
                   sc_discardedOverlapReasons = []\<rparr>)"

definition classifySourceCandidates :: "assembled_trace \<Rightarrow> source_candidate list" where
  "classifySourceCandidates tr =
     concat (map (\<lambda>c. case c of None \<Rightarrow> [] | Some x \<Rightarrow> [x])
       [invokeAgentCandidate tr, chatSpanCandidate tr, eventCandidate tr, metricsCandidate tr])"

section \<open>Lemmas\<close>

named_theorems token_sums "each count of a sum is the sum of that count"

lemma foldl_addTokenUsage:
  "inputTokens (foldl addTokenUsage z us) = add_opt (inputTokens z) (opt_sum (map inputTokens us))"
  "outputTokens (foldl addTokenUsage z us) = add_opt (outputTokens z) (opt_sum (map outputTokens us))"
  "cacheReadInputTokens (foldl addTokenUsage z us) =
     add_opt (cacheReadInputTokens z) (opt_sum (map cacheReadInputTokens us))"
  "cacheCreationInputTokens (foldl addTokenUsage z us) =
     add_opt (cacheCreationInputTokens z) (opt_sum (map cacheCreationInputTokens us))"
  "reasoningOutputTokens (foldl addTokenUsage z us) =
     add_opt (reasoningOutputTokens z) (opt_sum (map reasoningOutputTokens us))"
  by (induction us arbitrary: z) (simp_all add: addTokenUsage_def add_opt_assoc)

lemma sumTokenUsage_fields [token_sums]:
  "inputTokens (sumTokenUsage us) = opt_sum (map inputTokens us)"
  "outputTokens (sumTokenUsage us) = opt_sum (map outputTokens us)"
  "cacheReadInputTokens (sumTokenUsage us) = opt_sum (map cacheReadInputTokens us)"
  "cacheCreationInputTokens (sumTokenUsage us) = opt_sum (map cacheCreationInputTokens us)"
  "reasoningOutputTokens (sumTokenUsage us) = opt_sum (map reasoningOutputTokens us)"
  by (simp_all add: sumTokenUsage_def foldl_addTokenUsage)

lemma finalizeTokenBreakdown_fields [simp]:
  "inputTokens (finalizeTokenBreakdown u) = inputTokens u"
  "outputTokens (finalizeTokenBreakdown u) = outputTokens u"
  "cacheReadInputTokens (finalizeTokenBreakdown u) = cacheReadInputTokens u"
  "cacheCreationInputTokens (finalizeTokenBreakdown u) = cacheCreationInputTokens u"
  "reasoningOutputTokens (finalizeTokenBreakdown u) = reasoningOutputTokens u"
  "cachedTokens (finalizeTokenBreakdown u) =
     add_opt (cacheReadInputTokens u) (cacheCreationInputTokens u)"
  "totalTokens (finalizeTokenBreakdown u) = add_opt (inputTokens u) (outputTokens u)"
  by (simp_all add: finalizeTokenBreakdown_def)

lemma truncate_fields [simp]:
  "inputTokens (token_breakdown.truncate r) = inputTokens r"
  "outputTokens (token_breakdown.truncate r) = outputTokens r"
  "cacheReadInputTokens (token_breakdown.truncate r) = cacheReadInputTokens r"
  "cacheCreationInputTokens (token_breakdown.truncate r) = cacheCreationInputTokens r"
  "reasoningOutputTokens (token_breakdown.truncate r) = reasoningOutputTokens r"
  by (simp_all add: token_breakdown.defs)

lemma createUsageUnit_tokens [simp]:
  "inputTokens (createUsageUnit i) = inputTokens (ui_usage i)"
  "outputTokens (createUsageUnit i) = outputTokens (ui_usage i)"
  "cacheReadInputTokens (createUsageUnit i) = cacheReadInputTokens (ui_usage i)"
  "cacheCreationInputTokens (createUsageUnit i) = cacheCreationInputTokens (ui_usage i)"
  "reasoningOutputTokens (createUsageUnit i) = reasoningOutputTokens (ui_usage i)"
  "totalTokens (createUsageUnit i) = add_opt (inputTokens (ui_usage i)) (outputTokens (ui_usage i))"
  by (simp_all add: createUsageUnit_def token_breakdown.defs usage_unit.defs finalizeTokenBreakdown_def)

lemma createUsageUnit_discarded [simp]:
  "au_discardedRecordKeys (createUsageUnit i) = nullish (ui_discardedRecordKeys i) []"
  "au_attributionId (createUsageUnit i) = ui_attributionId i"
  "au_model (createUsageUnit i) = ui_model i"
  by (simp_all add: createUsageUnit_def token_breakdown.defs usage_unit.defs)

lemma matchingBreakdownValue_iff [simp]: "matchingBreakdownValue a b \<longleftrightarrow> a = b"
  by (cases a; cases b) (simp_all add: matchingBreakdownValue_def)

subsection \<open>Deduplication of events\<close>

lemma indexed_distinct: "distinct (map fst (indexed xs))"
  by (simp add: indexed_def)

lemma length_indexed [simp]: "length (indexed xs) = length xs"
  by (simp add: indexed_def)

interpretation completeness_order: comparator
  "\<lambda>a b :: indexed_event. eventCompletenessScore (snd b) \<le> eventCompletenessScore (snd a)"
  by unfold_locales auto

lemma eventPreferred_in: "records \<noteq> [] \<Longrightarrow> eventPreferred records \<in> set records"
  unfolding eventPreferred_def by (rule hd_sort_by_in)

lemma eventPreferred_most_complete:
  "r \<in> set records \<Longrightarrow>
   eventCompletenessScore (snd r) \<le> eventCompletenessScore (snd (eventPreferred records))"
  unfolding eventPreferred_def by (rule completeness_order.hd_sort_by_least)

lemma length_filter_neq_distinct:
  "distinct (map f xs) \<Longrightarrow> x \<in> set xs \<Longrightarrow> Suc (length (filter (\<lambda>y. f y \<noteq> f x) xs)) = length xs"
proof (induction xs)
  case Nil
  then show ?case by simp
next
  case (Cons a xs)
  show ?case
  proof (cases "a = x")
    case True
    then have "f x \<notin> f ` set xs" using Cons.prems by simp
    then have "filter (\<lambda>y. f y \<noteq> f x) xs = xs"
      by (simp add: filter_id_conv) (metis imageI)
    with True show ?thesis by simp
  next
    case False
    then have "x \<in> set xs" "f a \<noteq> f x" using Cons.prems by auto
    with Cons show ?thesis by simp
  qed
qed

lemma length_eventDiscarded:
  "distinct (map fst records) \<Longrightarrow> records \<noteq> [] \<Longrightarrow>
   Suc (length (eventDiscarded records)) = length records"
  unfolding eventDiscarded_def by (rule length_filter_neq_distinct) (auto intro: eventPreferred_in)

lemma sum_length_group_by_step:
  "distinct (map fst m) \<Longrightarrow>
   sum_list (map length (map_values (map_set k (nullish (map_get m k) [] @ [x]) m)))
   = Suc (sum_list (map length (map_values m)))"
proof (cases "map_get m k")
  case None
  then have "k \<notin> set (map fst m)" by (simp add: map_of_eq_None_iff)
  then show ?thesis by (simp add: None map_set_fresh map_values_def)
next
  assume d: "distinct (map fst m)"
  case (Some w)
  then obtain a b where "m = a @ (k, w) # b"
    "map_set k (nullish (map_get m k) [] @ [x]) m = a @ (k, nullish (map_get m k) [] @ [x]) # b"
    using map_set_split [OF d, of k w "nullish (map_get m k) [] @ [x]"] by blast
  then show ?thesis using Some by (simp add: map_values_def)
qed

lemma sum_length_group_by_aux:
  "distinct (map fst m) \<Longrightarrow>
   sum_list (map length (map_values
     (foldl (\<lambda>m x. map_set (key x) (nullish (map_get m (key x)) [] @ [x]) m) m xs)))
   = sum_list (map length (map_values m)) + length xs"
  by (induction xs arbitrary: m) (simp_all add: sum_length_group_by_step js_map.distinct_keys_put)

lemma sum_length_group_by: "sum_list (map (\<lambda>(k, ys). length ys) (group_by key xs)) = length xs"
  using sum_length_group_by_aux [of "[]" key xs]
  by (simp add: group_by_def map_values_def comp_def case_prod_unfold)

lemma sum_Suc: "(\<And>x. x \<in> set xs \<Longrightarrow> Suc (f x) = g x) \<Longrightarrow>
  sum_list (map f xs) + length xs = sum_list (map g xs)" for f g :: "'a \<Rightarrow> nat"
  by (induction xs) (auto, metis add.assoc add.commute add_Suc)

text \<open>A group of events: its records are events of the trace, each at most once.\<close>

lemma event_group:
  assumes "(key, records) \<in> set (eventGroups tr)"
  shows "records \<noteq> []" and "distinct (map fst records)"
    and "r \<in> set records \<Longrightarrow> eventAttributionKey (snd r) = key"
proof -
  let ?es = "indexed (eventsWithTokenUsage (filter isEventTokenRecord (tr_events tr)))"
  have e: "records = filter (\<lambda>r. eventAttributionKey (snd r) = key) ?es \<and> records \<noteq> []"
    using assms unfolding eventGroups_def by (rule group_by_mem)
  then show "records \<noteq> []" by blast
  show "distinct (map fst records)"
    using e indexed_distinct [of "eventsWithTokenUsage (filter isEventTokenRecord (tr_events tr))"]
    by (auto simp: distinct_map intro: inj_on_subset)
  show "r \<in> set records \<Longrightarrow> eventAttributionKey (snd r) = key"
    using e by auto
qed

lemma eventCandidate_units:
  "eventCandidate tr = Some c \<Longrightarrow> sc_units c = map (\<lambda>(key, records). eventUnit tr key records) (eventGroups tr)"
  by (auto simp: eventCandidate_def Let_def split: if_splits)

lemma eventUnit_discarded [simp]:
  "length (au_discardedRecordKeys (eventUnit tr key records)) = length (eventDiscarded records)"
  by (simp add: eventUnit_def Let_def)

lemma event_records_accounted:
  assumes "eventCandidate tr = Some c"
  shows "sum_list (map (\<lambda>u. length (au_discardedRecordKeys u)) (sc_units c)) + length (sc_units c)
       = length (eventsWithTokenUsage (filter isEventTokenRecord (tr_events tr)))"
proof -
  have "sum_list (map (\<lambda>(key, records). length (eventDiscarded records)) (eventGroups tr))
        + length (eventGroups tr) = sum_list (map (\<lambda>(key, records). length records) (eventGroups tr))"
    by (rule sum_Suc) (auto intro!: length_eventDiscarded dest: event_group(1) event_group(2))
  also have "\<dots> = length (eventsWithTokenUsage (filter isEventTokenRecord (tr_events tr)))"
    by (simp add: eventGroups_def sum_length_group_by)
  finally show ?thesis
    by (simp add: eventCandidate_units [OF assms] comp_def case_prod_unfold)
qed

lemma event_attribution_ids_distinct:
  assumes "eventCandidate tr = Some c"
  shows "distinct (map au_attributionId (sc_units c))"
proof -
  have "map au_attributionId (sc_units c)
      = map (\<lambda>k. ''event:'' @ tr_traceId tr @ '':'' @ k) (map fst (eventGroups tr))"
    by (simp add: eventCandidate_units [OF assms] eventUnit_def Let_def comp_def case_prod_beta)
  moreover have "distinct (map fst (eventGroups tr))"
    unfolding eventGroups_def by (rule distinct_group_by)
  ultimately show ?thesis
    by (simp only: distinct_map) (auto simp: inj_on_def)
qed

end
