(* ===== verification/TokenMeasurement.thy ===== *)
theory TokenMeasurement
  imports TokenSources
begin

text \<open>
  src/src/aggregation/tokenMeasurement.ts, second part: the first candidate source that
  reports tokens is selected, a missing reasoning count is borrowed from corroborating chat
  spans (\<open>enrichSelectedReasoning\<close>), the units are summed and split by model
  (\<open>selectedModelUsages\<close>), checked against the accounting invariants
  (\<open>buildInvariants\<close>) and labelled with a coverage (\<open>deriveCoverage\<close>); \<open>measure\<close>
  is the method of that name. The collation \<open>lc\<close> stands for \<open>localeCompare\<close>.
  The lemmas show that the split by model keeps every total, so that no invariant can
  fail, that borrowing changes the reasoning count only, and which source is selected.
\<close>

definition sumUsageUnits :: "usage_unit list \<Rightarrow> token_breakdown" where
  "sumUsageUnits units = sumTokenUsage (map token_breakdown.truncate units)"

section \<open>Split by model\<close>

record model_selection =
  ms_modelUsages :: "model_usage list"
  ms_coverage :: accounting_coverage
  ms_warnings :: "string list"

definition modelProviderKey :: "string \<Rightarrow> string option \<Rightarrow> string" where
  "modelProviderKey model provider = nullish provider '''' @ ''::'' @ model"

definition unitProvider :: "usage_unit \<Rightarrow> string option" where
  "unitProvider u =
     or_else (normalizeProvider (au_provider u)) (inferProviderFromModel (au_model u))"

definition unitKey :: "usage_unit \<Rightarrow> string" where
  "unitKey u = modelProviderKey (nullish (au_model u) '''') (unitProvider u)"

definition usageOfModel :: "string \<Rightarrow> string option \<Rightarrow> token_breakdown \<Rightarrow> model_usage" where
  "usageOfModel model provider t = token_breakdown.extend t (model_usage.fields model provider [])"

definition accumulateModel :: "model_usage option \<Rightarrow> usage_unit \<Rightarrow> model_usage" where
  "accumulateModel current u =
     usageOfModel (nullish (au_model u) '''') (unitProvider u)
       (sumTokenUsage
          [case current of None \<Rightarrow> no_tokens | Some m \<Rightarrow> token_breakdown.truncate m,
           token_breakdown.truncate u])"

definition modelUsagesByKey :: "usage_unit list \<Rightarrow> (string, model_usage) jsmap" where
  "modelUsagesByKey units =
     foldl (\<lambda>m u. map_set (unitKey u) (accumulateModel (map_get m (unitKey u)) u) m) [] units"

definition finalizeModelUsage :: "model_usage \<Rightarrow> model_usage" where
  "finalizeModelUsage m =
     usageOfModel (mu_model m) (mu_provider m) (finalizeTokenBreakdown (token_breakdown.truncate m))"

text \<open>\<open>b.totalTokens - a.totalTokens || localeCompare(model) || localeCompare(provider)\<close>.\<close>

definition modelUsageLe :: "collation \<Rightarrow> model_usage \<Rightarrow> model_usage \<Rightarrow> bool" where
  "modelUsageLe lc a b =
     (let d = nullish (totalTokens b) 0 - nullish (totalTokens a) 0;
          c = lc (mu_model a) (mu_model b)
      in if d \<noteq> 0 then d \<le> 0 else if c \<noteq> 0 then c \<le> 0
         else lc (nullish (mu_provider a) '''') (nullish (mu_provider b) '''') \<le> 0)"

definition complete_coverage :: accounting_coverage where
  "complete_coverage = \<lparr>cov_state = Complete, cov_reasons = []\<rparr>"

definition selectedModelUsages :: "collation \<Rightarrow> usage_unit list \<Rightarrow> model_selection" where
  "selectedModelUsages lc units =
     (let tokenUnits = filter hasTokenData units
      in if tokenUnits = []
         then \<lparr>ms_modelUsages = [], ms_coverage = complete_coverage, ms_warnings = []\<rparr>
         else if list_ex (\<lambda>u. \<not> truthy (au_model u)) tokenUnits
         then \<lparr>ms_modelUsages = [],
               ms_coverage = \<lparr>cov_state = Partial, cov_reasons = [Missing_model_attribution]\<rparr>,
               ms_warnings = [''Per-model token usage is unavailable because the selected token source did not report a model for every attributed unit.'']\<rparr>
         else \<lparr>ms_modelUsages = sort_by (modelUsageLe lc)
                 (map finalizeModelUsage (map_values (modelUsagesByKey tokenUnits))),
               ms_coverage = complete_coverage, ms_warnings = []\<rparr>)"

section \<open>Accounting invariants\<close>

datatype token_field = F_inputTokens | F_outputTokens | F_totalTokens

fun field_name :: "token_field \<Rightarrow> string" where
  "field_name F_inputTokens = ''inputTokens''"
| "field_name F_outputTokens = ''outputTokens''"
| "field_name F_totalTokens = ''totalTokens''"

fun only_field :: "token_field \<Rightarrow> rat option \<Rightarrow> token_breakdown" where
  "only_field F_inputTokens v = no_tokens\<lparr>inputTokens := v\<rparr>"
| "only_field F_outputTokens v = no_tokens\<lparr>outputTokens := v\<rparr>"
| "only_field F_totalTokens v = no_tokens\<lparr>totalTokens := v\<rparr>"

definition textOrNa :: "rat option \<Rightarrow> string" where
  "textOrNa v = (case v of None \<Rightarrow> ''n/a'' | Some n \<Rightarrow> num_to_string n)"

definition tokenInvariant ::
  "invariant_name \<Rightarrow> token_field \<Rightarrow> rat option \<Rightarrow> rat option \<Rightarrow> accounting_invariant" where
  "tokenInvariant name field expected actual =
     (if matchingBreakdownValue expected actual
      then \<lparr>ai_name = name, ai_status = Passed, ai_message = None,
            ai_expected = Some (only_field field expected), ai_actual = Some (only_field field actual)\<rparr>
      else \<lparr>ai_name = name, ai_status = Failed,
            ai_message = Some (''Expected '' @ field_name field @ '' '' @ textOrNa expected
              @ '' but measured '' @ textOrNa actual @ ''.''),
            ai_expected = Some (only_field field expected), ai_actual = Some (only_field field actual)\<rparr>)"

definition modelInvariant :: "token_breakdown \<Rightarrow> model_selection \<Rightarrow> accounting_invariant" where
  "modelInvariant totals sel =
     (if cov_state (ms_coverage sel) \<noteq> Complete
      then \<lparr>ai_name = Model_totals_match_run, ai_status = Not_applicable,
            ai_message = Some ''Per-model attribution was not fully reported by the selected token source.'',
            ai_expected = None, ai_actual = None\<rparr>
      else let modelTotals = finalizeTokenBreakdown
                 (sumTokenUsage (map token_breakdown.truncate (ms_modelUsages sel)));
               passed = (matchingBreakdownValue (inputTokens totals) (inputTokens modelTotals)
                 \<and> matchingBreakdownValue (outputTokens totals) (outputTokens modelTotals)
                 \<and> matchingBreakdownValue (totalTokens totals) (totalTokens modelTotals))
      in if passed
         then \<lparr>ai_name = Model_totals_match_run, ai_status = Passed, ai_message = None,
               ai_expected = Some totals, ai_actual = Some modelTotals\<rparr>
         else \<lparr>ai_name = Model_totals_match_run, ai_status = Failed,
               ai_message = Some ''Per-model totals did not reconcile with the selected run totals.'',
               ai_expected = Some totals, ai_actual = Some modelTotals\<rparr>)"

definition buildInvariants ::
  "token_breakdown \<Rightarrow> usage_unit list \<Rightarrow> model_selection \<Rightarrow> accounting_invariant list" where
  "buildInvariants totals units sel =
     (let attributed = finalizeTokenBreakdown (sumUsageUnits units)
      in [tokenInvariant Attributed_input_matches_run F_inputTokens
            (inputTokens totals) (inputTokens attributed),
          tokenInvariant Attributed_output_matches_run F_outputTokens
            (outputTokens totals) (outputTokens attributed),
          tokenInvariant Attributed_total_matches_run F_totalTokens
            (totalTokens totals) (totalTokens attributed),
          modelInvariant totals sel,
          \<lparr>ai_name = Tool_totals_match_run, ai_status = Not_applicable,
           ai_message = Some ''Tool attribution is computed outside TokenMeasurement.'',
           ai_expected = None, ai_actual = None\<rparr>,
          \<lparr>ai_name = Priced_nano_usd_matches_run, ai_status = Not_applicable,
           ai_message = Some ''Pricing is applied after TokenMeasurement.'',
           ai_expected = None, ai_actual = None\<rparr>])"

section \<open>The measurement\<close>

definition chatModels :: "source_candidate \<Rightarrow> string list" where
  "chatModels c = unique_strings (concat (map (\<lambda>u. case au_model u of None \<Rightarrow> [] | Some m \<Rightarrow> [m])
     (sc_units c)))"

definition enrichSelectedReasoning ::
  "source_candidate \<Rightarrow> source_candidate list \<Rightarrow> source_candidate" where
  "enrichSelectedReasoning selected candidates =
     (case sc_units selected of
        [u] \<Rightarrow>
          if sc_source selected \<noteq> Invoke_agent \<or> reasoningOutputTokens u \<noteq> None then selected
          else (case find (\<lambda>c. sc_source c = Chat_spans) candidates of
             None \<Rightarrow> selected
           | Some chat \<Rightarrow>
               let selectedBreakdown = finalizeTokenBreakdown (sumUsageUnits (sc_units selected));
                   chatBreakdown = finalizeTokenBreakdown (sumUsageUnits (sc_units chat));
                   models = chatModels chat
               in if reasoningOutputTokens chatBreakdown = None then selected
                  else if \<not> matchingBreakdownValue (inputTokens selectedBreakdown) (inputTokens chatBreakdown)
                       \<or> \<not> matchingBreakdownValue (outputTokens selectedBreakdown) (outputTokens chatBreakdown)
                  then selected
                  else if length models > 1 then selected
                  else if truthy (au_model u) \<and> length models = 1 \<and> Some (hd models) \<noteq> au_model u
                  then selected
                  else selected\<lparr>sc_units :=
                         [u\<lparr>reasoningOutputTokens := reasoningOutputTokens chatBreakdown\<rparr>]\<rparr>)
      | _ \<Rightarrow> selected)"

definition deriveCoverage ::
  "assembled_trace \<Rightarrow> token_usage_source \<Rightarrow> accounting_coverage \<Rightarrow> accounting_invariant list
   \<Rightarrow> coverage_reason list \<Rightarrow> bool \<Rightarrow> accounting_coverage" where
  "deriveCoverage tr source modelCoverage invariants discarded cachedTokenMismatch =
     (let reasons = dedup
            (discarded @ cov_reasons modelCoverage
             @ (if source = Metrics then [Metrics_only_trace] else [])
             @ (if source = Events \<and> tr_rootSpan tr = None \<and> tr_spans tr = []
                then [Event_only_trace] else [])
             @ (if cachedTokenMismatch \<or> list_ex (\<lambda>i. ai_status i = Failed) invariants
                then [Invariant_failed] else []))
      in \<lparr>cov_state = coverageStateFromReasons reasons, cov_reasons = reasons\<rparr>)"

definition buildSourceSelection ::
  "source_candidate \<Rightarrow> source_candidate list \<Rightarrow> source_selection" where
  "buildSourceSelection selected candidates =
     \<lparr>ss_selectedTokenUsageSource = sc_source selected,
      ss_corroboratingSources =
        map sc_source (filter (\<lambda>c. sc_source c \<noteq> sc_source selected) candidates),
      ss_dedupedRecordCount =
        sum_list (map (\<lambda>u. length (au_discardedRecordKeys u)) (sc_units selected)),
      ss_discardedOverlapReasons = dedup (sc_discardedOverlapReasons selected)\<rparr>"

definition missingTokenUsage :: "assembled_trace \<Rightarrow> token_usage" where
  "missingTokenUsage tr = token_breakdown.extend no_tokens (token_usage.fields
     Not_reported None [] []
     \<lparr>cov_state = Unavailable, cov_reasons = [Source_not_reported]\<rparr>
     []
     (if list_ex (\<lambda>s. isInvokeAgentName (sp_name s) \<or> isChatName (sp_name s)) (tr_spans tr)
      then [''Token usage was not reported in Copilot telemetry for this run.''] else []))"

definition cachedTokenMismatch :: "token_breakdown \<Rightarrow> bool" where
  "cachedTokenMismatch b =
     (case (cachedTokens b, inputTokens b) of (Some c, Some i) \<Rightarrow> c > i | _ \<Rightarrow> False)"

definition measureSelected ::
  "collation \<Rightarrow> assembled_trace \<Rightarrow> source_candidate list \<Rightarrow> source_candidate \<Rightarrow> token_usage" where
  "measureSelected lc tr candidates selected =
     (let breakdown = finalizeTokenBreakdown (sumUsageUnits (sc_units selected));
          mismatch = cachedTokenMismatch breakdown;
          modelSelection = selectedModelUsages lc (sc_units selected);
          warnings = sc_warnings selected
            @ (if mismatch
               then [''Cached input tokens exceed input tokens; treating cached tokens as reported metadata only.'']
               else [])
            @ ms_warnings modelSelection;
          invariants = buildInvariants breakdown (sc_units selected) modelSelection;
          coverage = deriveCoverage tr (sc_source selected) (ms_coverage modelSelection) invariants
            (sc_discardedOverlapReasons selected) mismatch
      in token_breakdown.extend breakdown (token_usage.fields
           (sc_source selected) (Some (buildSourceSelection selected candidates))
           (sc_units selected) (ms_modelUsages modelSelection) coverage invariants
           (unique_strings warnings)))"

definition measure_trace :: "collation \<Rightarrow> assembled_trace \<Rightarrow> token_usage" where
  "measure_trace lc tr =
     (case classifySourceCandidates tr of
        [] \<Rightarrow> missingTokenUsage tr
      | selected # _ \<Rightarrow>
          let candidates = classifySourceCandidates tr
          in measureSelected lc tr candidates (enrichSelectedReasoning selected candidates))"

section \<open>Lemmas\<close>

lemma sumUsageUnits_fields [token_sums]:
  "inputTokens (sumUsageUnits us) = opt_sum (map inputTokens us)"
  "outputTokens (sumUsageUnits us) = opt_sum (map outputTokens us)"
  "cacheReadInputTokens (sumUsageUnits us) = opt_sum (map cacheReadInputTokens us)"
  "cacheCreationInputTokens (sumUsageUnits us) = opt_sum (map cacheCreationInputTokens us)"
  "reasoningOutputTokens (sumUsageUnits us) = opt_sum (map reasoningOutputTokens us)"
  by (simp_all add: sumUsageUnits_def token_sums comp_def)

lemma usageOfModel_fields [simp]:
  "inputTokens (usageOfModel m p t) = inputTokens t"
  "outputTokens (usageOfModel m p t) = outputTokens t"
  "cacheReadInputTokens (usageOfModel m p t) = cacheReadInputTokens t"
  "cacheCreationInputTokens (usageOfModel m p t) = cacheCreationInputTokens t"
  "reasoningOutputTokens (usageOfModel m p t) = reasoningOutputTokens t"
  "totalTokens (usageOfModel m p t) = totalTokens t"
  "mu_model (usageOfModel m p t) = m" "mu_provider (usageOfModel m p t) = p"
  by (simp_all add: usageOfModel_def token_breakdown.defs model_usage.defs)

lemma accumulateModel_fields:
  "inputTokens (accumulateModel o' u) = add_opt (Option.bind o' inputTokens) (inputTokens u)"
  "outputTokens (accumulateModel o' u) = add_opt (Option.bind o' outputTokens) (outputTokens u)"
  by (cases o'; simp add: accumulateModel_def token_sums)+

lemma modelUsagesByKey_sums:
  "opt_sum (map inputTokens (map_values (modelUsagesByKey us))) = opt_sum (map inputTokens us)"
  "opt_sum (map outputTokens (map_values (modelUsagesByKey us))) = opt_sum (map outputTokens us)"
  unfolding modelUsagesByKey_def
  by (simp_all add: opt_sum_accumulate accumulateModel_fields map_values_def [of "[]"])

lemma finalizeModelUsage_fields [simp]:
  "inputTokens (finalizeModelUsage m) = inputTokens m"
  "outputTokens (finalizeModelUsage m) = outputTokens m"
  by (simp_all add: finalizeModelUsage_def)

lemma token_units_sums:
  "opt_sum (map inputTokens (filter hasTokenData us)) = opt_sum (map inputTokens us)"
  "opt_sum (map outputTokens (filter hasTokenData us)) = opt_sum (map outputTokens us)"
  by (rule opt_sum_filter_None, simp add: hasTokenData_def)+

text \<open>A complete split by model keeps the input and output totals.\<close>

lemma selectedModelUsages_sums:
  assumes "cov_state (ms_coverage (selectedModelUsages lc us)) = Complete"
  shows "opt_sum (map inputTokens (ms_modelUsages (selectedModelUsages lc us)))
         = opt_sum (map inputTokens us)"
    and "opt_sum (map outputTokens (ms_modelUsages (selectedModelUsages lc us)))
         = opt_sum (map outputTokens us)"
proof -
  let ?t = "filter hasTokenData us"
  have "opt_sum (map inputTokens (ms_modelUsages (selectedModelUsages lc us)))
        = opt_sum (map inputTokens ?t)
      \<and> opt_sum (map outputTokens (ms_modelUsages (selectedModelUsages lc us)))
        = opt_sum (map outputTokens ?t)"
  proof (cases "?t = []")
    case True
    then show ?thesis by (simp add: selectedModelUsages_def Let_def)
  next
    case False
    with assms have "\<not> list_ex (\<lambda>u. \<not> truthy (au_model u)) ?t"
      by (auto simp: selectedModelUsages_def Let_def split: if_splits)
    with False show ?thesis
      by (simp add: selectedModelUsages_def Let_def comp_def modelUsagesByKey_sums)
  qed
  then show "opt_sum (map inputTokens (ms_modelUsages (selectedModelUsages lc us)))
      = opt_sum (map inputTokens us)"
    and "opt_sum (map outputTokens (ms_modelUsages (selectedModelUsages lc us)))
      = opt_sum (map outputTokens us)"
    by (simp_all only: token_units_sums)
qed

lemma modelInvariant_never_fails:
  "ai_status (modelInvariant (finalizeTokenBreakdown (sumUsageUnits us)) (selectedModelUsages lc us))
   \<noteq> Failed"
  by (cases "cov_state (ms_coverage (selectedModelUsages lc us)) = Complete")
    (simp_all add: modelInvariant_def Let_def token_sums comp_def selectedModelUsages_sums)

lemma buildInvariants_never_fail:
  "ai \<in> set (buildInvariants (finalizeTokenBreakdown (sumUsageUnits us)) us (selectedModelUsages lc us))
   \<Longrightarrow> ai_status ai \<noteq> Failed"
  using modelInvariant_never_fails [of us lc]
  by (auto simp: buildInvariants_def Let_def tokenInvariant_def)

lemma measureSelected_fields [simp]:
  "tu_source (measureSelected lc tr cs s) = sc_source s"
  "tu_attributedUsageUnits (measureSelected lc tr cs s) = sc_units s"
  "tu_sourceSelection (measureSelected lc tr cs s) = Some (buildSourceSelection s cs)"
  "tu_modelUsages (measureSelected lc tr cs s) = ms_modelUsages (selectedModelUsages lc (sc_units s))"
  "inputTokens (measureSelected lc tr cs s) = opt_sum (map inputTokens (sc_units s))"
  "outputTokens (measureSelected lc tr cs s) = opt_sum (map outputTokens (sc_units s))"
  "reasoningOutputTokens (measureSelected lc tr cs s) = opt_sum (map reasoningOutputTokens (sc_units s))"
  "totalTokens (measureSelected lc tr cs s) =
     add_opt (opt_sum (map inputTokens (sc_units s))) (opt_sum (map outputTokens (sc_units s)))"
  "tu_invariants (measureSelected lc tr cs s) =
     buildInvariants (finalizeTokenBreakdown (sumUsageUnits (sc_units s))) (sc_units s)
       (selectedModelUsages lc (sc_units s))"
  "tu_coverage (measureSelected lc tr cs s) =
     deriveCoverage tr (sc_source s) (ms_coverage (selectedModelUsages lc (sc_units s)))
       (buildInvariants (finalizeTokenBreakdown (sumUsageUnits (sc_units s))) (sc_units s)
         (selectedModelUsages lc (sc_units s)))
       (sc_discardedOverlapReasons s)
       (cachedTokenMismatch (finalizeTokenBreakdown (sumUsageUnits (sc_units s))))"
  by (simp_all add: measureSelected_def Let_def token_breakdown.defs token_usage.defs token_sums)

lemma missingTokenUsage_fields [simp]:
  "tu_source (missingTokenUsage tr) = Not_reported"
  "tu_invariants (missingTokenUsage tr) = []"
  "tu_attributedUsageUnits (missingTokenUsage tr) = []"
  "tu_modelUsages (missingTokenUsage tr) = []"
  "inputTokens (missingTokenUsage tr) = None"
  "outputTokens (missingTokenUsage tr) = None"
  "reasoningOutputTokens (missingTokenUsage tr) = None"
  "totalTokens (missingTokenUsage tr) = None"
  "tu_coverage (missingTokenUsage tr) =
     \<lparr>cov_state = Unavailable, cov_reasons = [Source_not_reported]\<rparr>"
  by (simp_all add: missingTokenUsage_def token_breakdown.defs token_usage.defs)

lemma measure_trace_cases:
  obtains (missing) "classifySourceCandidates tr = []"
      "measure_trace lc tr = missingTokenUsage tr"
  | (selected) s cs where "classifySourceCandidates tr = s # cs"
      "measure_trace lc tr = measureSelected lc tr (s # cs) (enrichSelectedReasoning s (s # cs))"
  by (cases "classifySourceCandidates tr") (auto simp: measure_trace_def Let_def)

text \<open>Borrowing the reasoning count: everything else of the selected candidate is kept.\<close>

lemma enrich_keeps:
  "sc_source (enrichSelectedReasoning s cs) = sc_source s"
  "sc_discardedOverlapReasons (enrichSelectedReasoning s cs) = sc_discardedOverlapReasons s"
  "map inputTokens (sc_units (enrichSelectedReasoning s cs)) = map inputTokens (sc_units s)"
  "map outputTokens (sc_units (enrichSelectedReasoning s cs)) = map outputTokens (sc_units s)"
  by (auto simp: enrichSelectedReasoning_def Let_def split: list.splits option.splits)

lemma candidate_sources:
  "invokeAgentCandidate tr = Some c \<Longrightarrow> sc_source c = Invoke_agent"
  "chatSpanCandidate tr = Some c \<Longrightarrow> sc_source c = Chat_spans"
  "eventCandidate tr = Some c \<Longrightarrow> sc_source c = Events"
  "metricsCandidate tr = Some c \<Longrightarrow> sc_source c = Metrics"
  by (auto simp: invokeAgentCandidate_def chatSpanCandidate_def eventCandidate_def
      metricsCandidate_def Let_def split: option.splits if_splits)

lemma classify_source_reported:
  "c \<in> set (classifySourceCandidates tr) \<Longrightarrow> sc_source c \<noteq> Not_reported"
  by (auto simp: classifySourceCandidates_def dest!: sym [of "Some c"] dest: candidate_sources
      split: option.splits)

lemma dedup_events_reasons:
  "sc_discardedOverlapReasons c = rs \<Longrightarrow> c \<in> set (classifySourceCandidates tr) \<Longrightarrow>
   set rs \<subseteq> {Duplicate_overlap_discarded, Source_ambiguous}"
  by (auto simp: classifySourceCandidates_def invokeAgentCandidate_def chatSpanCandidate_def
      eventCandidate_def metricsCandidate_def eventOverlapReasons_def Let_def
      split: option.splits if_splits)

lemma model_coverage_reasons:
  "set (cov_reasons (ms_coverage (selectedModelUsages lc us))) \<subseteq> {Missing_model_attribution}"
  by (simp add: selectedModelUsages_def complete_coverage_def Let_def)

lemma model_usages_complete:
  "ms_modelUsages (selectedModelUsages lc us) \<noteq> [] \<Longrightarrow>
   cov_state (ms_coverage (selectedModelUsages lc us)) = Complete"
  by (auto simp: selectedModelUsages_def complete_coverage_def Let_def split: if_splits)

lemma no_failed_invariant:
  "\<not> list_ex (\<lambda>i. ai_status i = Failed)
     (buildInvariants (finalizeTokenBreakdown (sumUsageUnits us)) us (selectedModelUsages lc us))"
  using buildInvariants_never_fail [of _ us lc] by (auto simp: list_ex_iff)

lemma enrich_units_borrowed:
  assumes "map reasoningOutputTokens (sc_units (enrichSelectedReasoning s cs))
           \<noteq> map reasoningOutputTokens (sc_units s)"
  obtains chat u where "sc_source s = Invoke_agent" "sc_units s = [u]"
    "reasoningOutputTokens u = None" "chat \<in> set cs" "sc_source chat = Chat_spans"
    "opt_sum (map inputTokens (sc_units chat)) = inputTokens u"
    "opt_sum (map outputTokens (sc_units chat)) = outputTokens u"
    "map reasoningOutputTokens (sc_units (enrichSelectedReasoning s cs))
       = [opt_sum (map reasoningOutputTokens (sc_units chat))]"
proof -
  obtain u where u: "sc_units s = [u]"
    using assms by (auto simp: enrichSelectedReasoning_def split: list.splits)
  obtain chat where chat: "find (\<lambda>c. sc_source c = Chat_spans) cs = Some chat"
    using assms u by (auto simp: enrichSelectedReasoning_def split: option.splits if_splits)
  have "chat \<in> set cs" "sc_source chat = Chat_spans"
    using chat by (auto simp: find_Some_iff)
  then show thesis
    using assms u chat
    by (intro that [of u chat]; simp add: enrichSelectedReasoning_def Let_def token_sums split: if_splits)
qed

lemma events_source_candidate:
  assumes "tu_source (measure_trace lc tr) = Events"
  obtains s cs where "measure_trace lc tr = measureSelected lc tr (s # cs) s"
    and "eventCandidate tr = Some s"
proof (cases rule: measure_trace_cases [of tr lc])
  case missing
  with assms show ?thesis by simp
next
  case (selected s cs)
  with assms have src: "sc_source s = Events" by (simp add: enrich_keeps)
  then have "enrichSelectedReasoning s (s # cs) = s"
    by (simp add: enrichSelectedReasoning_def split: list.split)
  moreover have "s \<in> set (classifySourceCandidates tr)" by (simp add: selected)
  with src have "eventCandidate tr = Some s"
    by (auto simp: classifySourceCandidates_def dest!: sym [of "Some s"] dest: candidate_sources
        split: option.splits)
  ultimately show ?thesis using selected that by simp
qed

section \<open>Properties\<close>

text \<open>
  No accounting invariant of a measured trace ever fails. The totals of the run are the
  sums over its attributed units, and the split by model and provider, the sorting and the
  borrowing of reasoning tokens keep the input, output and total counts, for every trace and
  every collation.
\<close>

theorem measure_invariants_never_fail:
  "list_all (\<lambda>ai. ai_status ai \<noteq> Failed) (tu_invariants (measure_trace lc tr))"
  by (cases rule: measure_trace_cases [of tr lc])
    (auto simp: list_all_iff dest: buildInvariants_never_fail)

text \<open>
  C29: conservation of tokens. The reported input and output are the sums over the attributed
  units, the total is input plus output, and the per-model usages, when the measurement lists
  any, sum to the same input and output.
\<close>

theorem measure_conserves_tokens:
  "let m = measure_trace lc tr in
   inputTokens m = opt_sum (map inputTokens (tu_attributedUsageUnits m)) \<and>
   outputTokens m = opt_sum (map outputTokens (tu_attributedUsageUnits m)) \<and>
   totalTokens m = add_opt (inputTokens m) (outputTokens m) \<and>
   opt_sum (map inputTokens (tu_modelUsages m)) = (if tu_modelUsages m = [] then None else inputTokens m) \<and>
   opt_sum (map outputTokens (tu_modelUsages m)) = (if tu_modelUsages m = [] then None else outputTokens m)"
  by (cases rule: measure_trace_cases [of tr lc])
    (simp_all add: Let_def model_usages_complete selectedModelUsages_sums)

text \<open>
  The source of a measurement is the first one that reports tokens, in the order root
  span, chat spans, turn events, metrics; without any it is not reported.
\<close>

theorem measure_source_priority:
  "tu_source (measure_trace lc tr) =
     (if \<exists>s. tr_rootSpan tr = Some s \<and> hasTokenData (tokensFromAttributes (sp_attributes s))
      then Invoke_agent
      else if \<exists>s \<in> set (tr_spans tr). isChatName (sp_name s)
                \<and> hasTokenData (tokensFromAttributes (sp_attributes s))
      then Chat_spans
      else if \<exists>e \<in> set (tr_events tr). isEventTokenRecord e
                \<and> hasTokenData (tokensFromAttributes (ev_attributes e))
      then Events
      else if hasTokenData (tokensFromMetrics (tr_metrics tr)) then Metrics
      else Not_reported)"
proof -
  have m: "tokensFromMetrics (filter isUsageMetric ms) = tokensFromMetrics ms" for ms
    by (simp add: tokensFromMetrics_def)
  have s: "tu_source (measure_trace lc tr) =
      (case classifySourceCandidates tr of [] \<Rightarrow> Not_reported | c # _ \<Rightarrow> sc_source c)"
    by (cases rule: measure_trace_cases [of tr lc]) (simp_all add: enrich_keeps)
  have i: "invokeAgentCandidate tr = None \<longleftrightarrow>
      \<not> (\<exists>s. tr_rootSpan tr = Some s \<and> hasTokenData (tokensFromAttributes (sp_attributes s)))"
    by (auto simp: invokeAgentCandidate_def Let_def split: option.splits)
  have c: "chatSpanCandidate tr = None \<longleftrightarrow>
      \<not> (\<exists>s \<in> set (tr_spans tr). isChatName (sp_name s)
          \<and> hasTokenData (tokensFromAttributes (sp_attributes s)))"
    by (auto simp: chatSpanCandidate_def Let_def spansWithTokenUsage_def filter_empty_conv)
  have e: "eventCandidate tr = None \<longleftrightarrow>
      \<not> (\<exists>e \<in> set (tr_events tr). isEventTokenRecord e
          \<and> hasTokenData (tokensFromAttributes (ev_attributes e)))"
    by (auto simp: eventCandidate_def Let_def eventsWithTokenUsage_def filter_empty_conv)
  have t: "metricsCandidate tr = None \<longleftrightarrow> \<not> hasTokenData (tokensFromMetrics (tr_metrics tr))"
    by (simp add: metricsCandidate_def Let_def m)
  have "tu_source (measure_trace lc tr) =
      (if invokeAgentCandidate tr \<noteq> None then Invoke_agent
       else if chatSpanCandidate tr \<noteq> None then Chat_spans
       else if eventCandidate tr \<noteq> None then Events
       else if metricsCandidate tr \<noteq> None then Metrics else Not_reported)"
    by (auto simp: s classifySourceCandidates_def dest: candidate_sources split: option.splits)
  then show ?thesis by (simp only: i c e t not_not)
qed

text \<open>
  The coverage of a measurement. It is unavailable exactly when no source reported
  tokens, and the only integrity problem it can report (\<open>invariant_failed\<close>) is that cached
  input tokens exceed input tokens.
\<close>

theorem measure_coverage:
  "(cov_state (tu_coverage (measure_trace lc tr)) = Unavailable
      \<longleftrightarrow> tu_source (measure_trace lc tr) = Not_reported) \<and>
   (Invariant_failed \<in> set (cov_reasons (tu_coverage (measure_trace lc tr)))
      \<longleftrightarrow> cachedTokenMismatch (token_breakdown.truncate (measure_trace lc tr)))"
proof (cases rule: measure_trace_cases [of tr lc])
  case missing
  then show ?thesis
    by (simp add: cachedTokenMismatch_def missingTokenUsage_def token_breakdown.defs token_usage.defs)
next
  case (selected s cs)
  let ?s = "enrichSelectedReasoning s (s # cs)"
  have s: "s \<in> set (classifySourceCandidates tr)" by (simp add: selected)
  have d: "set (sc_discardedOverlapReasons ?s) \<subseteq> {Duplicate_overlap_discarded, Source_ambiguous}"
    using dedup_events_reasons [OF refl s] by (simp add: enrich_keeps)
  have r: "sc_source ?s \<noteq> Not_reported"
    using classify_source_reported [OF s] by (simp add: enrich_keeps)
  have b: "token_breakdown.truncate (measureSelected lc tr (s # cs) ?s)
      = finalizeTokenBreakdown (sumUsageUnits (sc_units ?s))"
    by (simp add: measureSelected_def Let_def token_breakdown.defs token_usage.defs)
  have nf: "Invariant_failed \<notin> set (sc_discardedOverlapReasons ?s)"
      "Source_not_reported \<notin> set (sc_discardedOverlapReasons ?s)"
      "Invariant_failed \<notin> set (cov_reasons (ms_coverage (selectedModelUsages lc (sc_units ?s))))"
      "Source_not_reported \<notin> set (cov_reasons (ms_coverage (selectedModelUsages lc (sc_units ?s))))"
    using d model_coverage_reasons [of lc "sc_units ?s"] by auto
  show ?thesis
    by (simp add: selected(2) b deriveCoverage_def Let_def nf r no_failed_invariant
        coverageStateFromReasons_def)
qed

text \<open>
  Reasoning tokens are borrowed only under corroboration. When a measurement reports a
  reasoning count that its selected source did not report, the source is the root span, and
  some chat-span candidate of the trace has the same input and output totals and that
  reasoning total.
\<close>

theorem measure_reasoning_corroborated:
  assumes "classifySourceCandidates tr = s # cs"
    and "reasoningOutputTokens (measure_trace lc tr) \<noteq> opt_sum (map reasoningOutputTokens (sc_units s))"
  shows "sc_source s = Invoke_agent \<and>
    (\<exists>chat \<in> set (s # cs). sc_source chat = Chat_spans \<and>
       opt_sum (map inputTokens (sc_units chat)) = inputTokens (measure_trace lc tr) \<and>
       opt_sum (map outputTokens (sc_units chat)) = outputTokens (measure_trace lc tr) \<and>
       opt_sum (map reasoningOutputTokens (sc_units chat)) = reasoningOutputTokens (measure_trace lc tr))"
proof -
  have m: "measure_trace lc tr = measureSelected lc tr (s # cs) (enrichSelectedReasoning s (s # cs))"
    using assms(1) by (simp add: measure_trace_def Let_def)
  with assms(2) have "map reasoningOutputTokens (sc_units (enrichSelectedReasoning s (s # cs)))
      \<noteq> map reasoningOutputTokens (sc_units s)" by auto
  then show ?thesis
    by (rule enrich_units_borrowed) (auto simp: m enrich_keeps)
qed

definition sample_reasoning_trace :: assembled_trace where
  "sample_reasoning_trace =
     (let sp = (\<lambda>i name attributes. \<lparr>sp_traceId = ''t1'', sp_spanId = i, sp_parentSpanId = None,
            sp_name = name, sp_startTimeUnixNano = None, sp_endTimeUnixNano = None,
            sp_attributes = attributes, sp_resourceAttributes = [], sp_status = None\<rparr>)
      in \<lparr>tr_traceId = ''t1'',
          tr_rootSpan = Some (sp ''r'' ''invoke_agent'' [(''input_tokens'', JNum 10)]),
          tr_spans = [sp ''c'' ''chat'' [(''input_tokens'', JNum 10), (''reasoning_output_tokens'', JNum 4)]],
          tr_events = [], tr_metrics = [], tr_firstSeenAt = '''', tr_lastUpdatedAt = ''''\<rparr>)"

theorem measure_reasoning_corroborated_witness:
  "reasoningOutputTokens (measure_trace code_unit_compare sample_reasoning_trace) = Some 4 \<and>
   (\<exists>s cs. classifySourceCandidates sample_reasoning_trace = s # cs \<and> sc_source s = Invoke_agent)"
proof -
  let ?tr = sample_reasoning_trace
  have e: "(reasoningOutputTokens (measure_trace code_unit_compare ?tr),
      map (\<lambda>c. opt_sum (map reasoningOutputTokens (sc_units c))) (classifySourceCandidates ?tr))
      = (Some 4, [None, Some 4])" by code_simp
  then obtain s cs where c: "classifySourceCandidates ?tr = s # cs"
    and s: "opt_sum (map reasoningOutputTokens (sc_units s)) = None" by auto
  from e have r: "reasoningOutputTokens (measure_trace code_unit_compare ?tr) = Some 4" by simp
  with s have "reasoningOutputTokens (measure_trace code_unit_compare ?tr)
      \<noteq> opt_sum (map reasoningOutputTokens (sc_units s))" by simp
  from measure_reasoning_corroborated [OF c this] c r show ?thesis by blast
qed

definition sample_turn :: "string \<Rightarrow> js_record \<Rightarrow> event_record" where
  "sample_turn name attributes =
     \<lparr>ev_traceId = Some ''t1'', ev_spanId = None, ev_name = name, ev_timeUnixNano = Some ''5'',
      ev_attributes = (''conversation.id'', JStr ''c1'') # (''turn.id'', JNum 7) # attributes,
      ev_resourceAttributes = []\<rparr>"

definition sample_trace :: assembled_trace where
  "sample_trace =
     \<lparr>tr_traceId = ''t1'', tr_rootSpan = None, tr_spans = [],
      tr_events =
        [sample_turn ''copilot_chat.agent.turn'' [(''input_tokens'', JNum 10)],
         sample_turn ''gen_ai.client.inference.operation.details''
           [(''input_tokens'', JNum 12), (''output_tokens'', JStr ''3'')]],
      tr_metrics = [], tr_firstSeenAt = '''', tr_lastUpdatedAt = ''''\<rparr>"

text \<open>
  When turn events are the source, deduplication accounts for every token-bearing event
  record: each is either the one kept for its turn or counted as discarded, no two units
  share an attribution identifier, and each unit carries the counts of a most complete record
  of its turn.
\<close>

theorem measure_events_deduplicated:
  assumes "tu_source (measure_trace lc tr) = Events"
  shows "(\<exists>sel. tu_sourceSelection (measure_trace lc tr) = Some sel \<and>
      ss_dedupedRecordCount sel + length (tu_attributedUsageUnits (measure_trace lc tr))
        = length (eventsWithTokenUsage (filter isEventTokenRecord (tr_events tr)))) \<and>
    distinct (map au_attributionId (tu_attributedUsageUnits (measure_trace lc tr))) \<and>
    (\<forall>u \<in> set (tu_attributedUsageUnits (measure_trace lc tr)).
      \<exists>(key, records) \<in> set (eventGroups tr).
        u = eventUnit tr key records \<and> eventPreferred records \<in> set records \<and>
        (\<forall>r \<in> set records. eventCompletenessScore (snd r)
           \<le> eventCompletenessScore (snd (eventPreferred records))))"
proof -
  obtain s cs where m: "measure_trace lc tr = measureSelected lc tr (s # cs) s"
    and e: "eventCandidate tr = Some s"
    using events_source_candidate [OF assms] .
  have "\<forall>u \<in> set (sc_units s). \<exists>(key, records) \<in> set (eventGroups tr).
      u = eventUnit tr key records \<and> eventPreferred records \<in> set records \<and>
      (\<forall>r \<in> set records. eventCompletenessScore (snd r)
           \<le> eventCompletenessScore (snd (eventPreferred records)))"
    using event_group(1)
    by (fastforce simp: eventCandidate_units [OF e] intro: eventPreferred_in eventPreferred_most_complete)
  with event_records_accounted [OF e] event_attribution_ids_distinct [OF e] show ?thesis
    by (simp add: m buildSourceSelection_def)
qed

theorem measure_events_deduplicated_witness:
  "tu_source (measure_trace code_unit_compare sample_trace) = Events
   \<and> length (tu_attributedUsageUnits (measure_trace code_unit_compare sample_trace)) = 1
   \<and> map au_discardedRecordKeys (tu_attributedUsageUnits (measure_trace code_unit_compare sample_trace))
     = [[''event:t1:no-span:copilot_chat.agent.turn:5'']]
   \<and> distinct (map au_attributionId
       (tu_attributedUsageUnits (measure_trace code_unit_compare sample_trace)))"
proof -
  have e: "(let m = measure_trace code_unit_compare sample_trace
      in (tu_source m, map au_discardedRecordKeys (tu_attributedUsageUnits m)))
    = (Events, [[''event:t1:no-span:copilot_chat.agent.turn:5'']])" by code_simp
  then have src: "tu_source (measure_trace code_unit_compare sample_trace) = Events"
    by (simp add: Let_def)
  from e have d: "map au_discardedRecordKeys
      (tu_attributedUsageUnits (measure_trace code_unit_compare sample_trace))
    = [[''event:t1:no-span:copilot_chat.agent.turn:5'']]" by (simp add: Let_def)
  then have "length (tu_attributedUsageUnits (measure_trace code_unit_compare sample_trace)) = 1"
    by (metis length_map length_Cons list.size(3) One_nat_def)
  with d src measure_events_deduplicated [OF src] show ?thesis by simp
qed

end
