(* ===== verification/AttributionTypes.thy ===== *)
theory AttributionTypes
  imports Types JsDate
begin

text \<open>
  The data of src/src/types.ts that commit attribution uses: the work evidence of a query, the
  commit candidates that are observed, the proof of a claim, the allocations a query's cost
  attribution holds, and work episodes. Field names are those of the source behind a prefix
  (\<open>as_\<close> artifact state, \<open>cw_\<close> causal write, \<open>mc_\<close> matched causal write, \<open>cc_\<close>
  commit candidate, \<open>pf_\<close> proof, \<open>we_\<close> work evidence, \<open>al_\<close> allocation, \<open>qa_\<close> query
  attribution, \<open>ep_\<close> episode). The reason codes of an episode or a baseline are only sorted
  and merged as strings, so they stay strings. Sequence numbers and line counts are \<open>int\<close>.
\<close>

section \<open>Evidence\<close>

datatype change_kind = Added | Modified | Deleted | Renamed | Binary

record artifact_state =
  as_artifactKey :: string
  as_previousArtifactKey :: "string option"
  as_stateKey :: "string option"
  as_worktreeStateKey :: "string option"
  as_indexStateKey :: "string option"
  as_changeKind :: change_kind
  as_observedSequence :: int

record causal_write =
  cw_artifactKey :: string
  cw_executionNodeId :: string

record matched_causal_write =
  mc_queryId :: string
  mc_artifactKey :: string
  mc_executionNodeId :: string

datatype evidence_status = Ev_active | Ev_settling | Ev_completed | Ev_resolved | Ev_expired

record work_evidence =
  we_queryId :: string
  we_runIds :: "string list"
  we_repoKey :: string
  we_epochId :: "string option"
  we_startedAt :: string
  we_completedAt :: "string option"
  we_settlingUntil :: "string option"
  we_expiresAt :: "string option"
  we_baselineTrusted :: bool
  we_baselineReasons :: "string list"
  we_headCommitAtStart :: "string option"
  we_baselineSequence :: "int option"
  we_dirtyAtStart :: bool
  we_observedChangeCount :: nat
  we_artifactKeys :: "string list"
  we_causalArtifactKeys :: "string list option"
  we_causalWriteArtifacts :: "causal_write list option"
  we_nativeRejectedCausalWriteArtifacts :: "causal_write list option"
  we_causalWriteArtifactsComplete :: "bool option"
  we_baselineArtifactStates :: "artifact_state list option"
  we_artifactStates :: "artifact_state list option"
  we_addedLines :: int
  we_deletedLines :: int
  we_firstObservedAt :: "string option"
  we_lastObservedAt :: "string option"
  we_status :: "evidence_status option"

section \<open>Decisions, candidates and proofs\<close>

datatype decision =
    Reportable | Pending_evidence | Rejected | Expired | Rewrite_pending | Superseded
  | Legacy_unverified

datatype proof_kind = Exact_content_state | Observed_deletion | Episode_inheritance

fun proof_kind_str :: "proof_kind \<Rightarrow> string" where
  "proof_kind_str Exact_content_state = ''exact_content_state''"
| "proof_kind_str Observed_deletion = ''observed_deletion''"
| "proof_kind_str Episode_inheritance = ''episode_inheritance''"

datatype transition_kind =
    Fast_forward | Branch_switch | Non_fast_forward_ref_update | Detached_head_change
  | Ref_deleted | Unknown_transition

record commit_candidate =
  cc_candidateId :: string
  cc_epochId :: string
  cc_repoKey :: string
  cc_commitHash :: string
  cc_commitMessage :: "string option"
  cc_parentHashes :: "string list"
  cc_refKey :: "string option"
  cc_observedAt :: string
  cc_committedAt :: "string option"
  cc_observedSequence :: int
  cc_artifactStates :: "artifact_state list"
  cc_transitionKind :: transition_kind
  cc_decision :: decision
  cc_reasonCodes :: "string list"

record attribution_proof =
  pf_kind :: proof_kind
  pf_anchorQueryIds :: "string list"
  pf_inheritedQueryIds :: "string list"
  pf_matchedArtifactCount :: nat
  pf_matchedCausalWriteArtifacts :: "matched_causal_write list option"
  pf_reasonCodes :: "string list"

section \<open>Allocations and attributions\<close>

datatype confidence = High | Medium | Low

datatype allocation_policy = First_claim | Unallocated_link

datatype allocation_status = Al_active | Al_rewrite_pending | Al_superseded | Al_legacy_unverified

record allocation =
  al_episodeId :: "string option"
  al_epochId :: "string option"
  al_commitHash :: string
  al_commitMessage :: "string option"
  al_parentHashes :: "string list"
  al_repoKey :: string
  al_refKey :: "string option"
  al_queryId :: string
  al_allocatedNanoUsd :: "rat option"
  al_allocationPolicy :: allocation_policy
  al_decision :: "decision option"
  al_proof :: "attribution_proof option"
  al_confidence :: "confidence option"
  al_coverage :: cost_coverage
  al_evidenceReasons :: "string list"
  al_status :: allocation_status
  al_verifiedAt :: "string option"
  al_stateChangedAt :: "string option"
  al_rewritePendingAt :: "string option"
  al_createdAt :: string

datatype attribution_status =
    Qa_unattributed | Qa_pending_commit | Qa_pending_evidence | Qa_attributed | Qa_split_linked
  | Qa_manual_review | Qa_rejected | Qa_expired | Qa_rewrite_pending | Qa_legacy_unverified

record query_attribution =
  qa_queryId :: string
  qa_runIds :: "string list"
  qa_provider :: "string option"
  qa_estimatedNanoUsd :: "rat option"
  qa_estimatedUsd :: "rat option"
  qa_estimatedAiCredits :: "rat option"
  qa_costCoverage :: cost_coverage
  qa_pricingCoverage :: "pricing_coverage option"
  qa_status :: attribution_status
  qa_evidence :: "work_evidence list"
  qa_allocations :: "allocation list"

section \<open>Episodes\<close>

datatype episode_status = Ep_open | Ep_claimed | Ep_stale | Ep_manual_review | Ep_expired

record episode =
  ep_observationSchemaVersion :: "nat option"
  ep_episodeId :: string
  ep_repoKey :: "string option"
  ep_repoKeys :: "string list option"
  ep_epochIds :: "string list option"
  ep_chatSessionId :: "string option"
  ep_queryIds :: "string list"
  ep_runIds :: "string list"
  ep_headCommitAtStart :: "string option"
  ep_startedAt :: string
  ep_lastQueryActivityAt :: "string option"
  ep_lastAgentActivityAt :: string
  ep_lastObservedChangeAt :: "string option"
  ep_status :: episode_status
  ep_evidence :: "work_evidence list"
  ep_claimedByCommitHash :: "string option"
  ep_claimedAt :: "string option"
  ep_decision :: "decision option"
  ep_confidence :: "confidence option"
  ep_confidenceReasons :: "string list option"

section \<open>Matching a state that was observed with one that was committed\<close>

text \<open>The function \<open>artifactStatesMatch\<close>, which the policy and the ledger each declare with
  the same body. \<open>x === y\<close> on optional strings is equality of the options.\<close>

definition artifactStatesMatch :: "artifact_state \<Rightarrow> artifact_state \<Rightarrow> bool" where
  "artifactStatesMatch observed committed =
     (let sameArtifact = (as_artifactKey observed = as_artifactKey committed
            \<or> Some (as_artifactKey observed) = as_previousArtifactKey committed
            \<or> as_previousArtifactKey observed = Some (as_artifactKey committed))
      in if \<not> sameArtifact then False
         else if as_changeKind observed = Deleted \<and> as_changeKind committed = Deleted then True
         else if \<not> truthy (as_stateKey committed) then False
         else as_stateKey committed = as_worktreeStateKey observed
           \<or> as_stateKey committed = as_indexStateKey observed)"

text \<open>Both also list the current causal writes of some evidence that match a commit, keyed by
  query, artifact and execution node with a separator \<open>sep\<close> (a colon in the policy, a NUL in
  the ledger), sorted by the three.\<close>

definition mc_key :: "string \<Rightarrow> matched_causal_write \<Rightarrow> string" where
  "mc_key sep p = mc_queryId p @ sep @ mc_artifactKey p @ sep @ mc_executionNodeId p"

definition mc_le :: "collation \<Rightarrow> matched_causal_write \<Rightarrow> matched_causal_write \<Rightarrow> bool" where
  "mc_le lc l r =
     (let a = lc (mc_queryId l) (mc_queryId r);
          b = lc (mc_artifactKey l) (mc_artifactKey r);
          c = lc (mc_executionNodeId l) (mc_executionNodeId r)
      in (if a \<noteq> 0 then a else if b \<noteq> 0 then b else c) \<le> 0)"

definition evidence_matched_pairs :: "work_evidence \<Rightarrow> artifact_state list \<Rightarrow> matched_causal_write list" where
  "evidence_matched_pairs item committed =
     (if we_causalWriteArtifactsComplete item \<noteq> Some True then []
      else map (\<lambda>p. \<lparr>mc_queryId = we_queryId item, mc_artifactKey = cw_artifactKey p,
                     mc_executionNodeId = cw_executionNodeId p\<rparr>)
        (filter (\<lambda>p. list_ex (\<lambda>observed. as_artifactKey observed = cw_artifactKey p
              \<and> list_ex (artifactStatesMatch observed) committed)
            (nullish (we_artifactStates item) []))
          (nullish (we_causalWriteArtifacts item) [])))"

definition matched_pairs :: "collation \<Rightarrow> string \<Rightarrow> work_evidence list \<Rightarrow> artifact_state list
    \<Rightarrow> matched_causal_write list" where
  "matched_pairs lc sep evidence committed =
     sort_by (mc_le lc) (map_values (map_from (mc_key sep)
       (concat (map (\<lambda>item. evidence_matched_pairs item committed) evidence))))"

lemma matched_pairs_sound:
  assumes "p \<in> set (matched_pairs lc sep evidence committed)"
  obtains item w observed c where "item \<in> set evidence" "we_causalWriteArtifactsComplete item = Some True"
    "mc_queryId p = we_queryId item" "w \<in> set (nullish (we_causalWriteArtifacts item) [])"
    "mc_artifactKey p = cw_artifactKey w" "mc_executionNodeId p = cw_executionNodeId w"
    "observed \<in> set (nullish (we_artifactStates item) [])" "as_artifactKey observed = mc_artifactKey p"
    "c \<in> set committed" "artifactStatesMatch observed c"
proof -
  have "p \<in> set (concat (map (\<lambda>item. evidence_matched_pairs item committed) evidence))"
    using assms map_from_values_subset by (fastforce simp: matched_pairs_def)
  then show ?thesis using that
    by (fastforce simp: evidence_matched_pairs_def list_ex_iff split: if_splits)
qed

end
