(* ===== verification/CommitAttributionPolicy.thy ===== *)
theory CommitAttributionPolicy
  imports AttributionTypes
begin

text \<open>
  Whether a commit is attributed to the queries of a work episode:
  src/src/attribution/commitAttributionPolicy.ts. \<open>evaluateCommitAttribution\<close> rejects on a
  hard failure, waits for evidence, or reports the queries the commit is charged to with the
  proof. The three sets of the input are lists of query identifiers; \<open>lc\<close> is the collation of
  \<open>localeCompare\<close>, which only orders the matched pairs of the proof.
\<close>

definition CLAIM_WINDOW_MS :: int where
  "CLAIM_WINDOW_MS = 4 * 60 * 60 * 1000"

record policy_input =
  in_candidate :: commit_candidate
  in_episode :: episode
  in_lineageVerifiedQueryIds :: "string list"
  in_activeQueryIds :: "string list"
  in_candidateAnchorQueryIds :: "string list"

record policy_result =
  res_decision :: decision
  res_queryIds :: "string list"
  res_proof :: "attribution_proof option"
  res_reasonCodes :: "string list"

definition hardFailureReason :: "commit_candidate \<Rightarrow> episode \<Rightarrow> string option" where
  "hardFailureReason candidate ep =
     (if cc_decision candidate = Legacy_unverified then Some ''legacy_candidate''
      else if ms_less (date_ms (cc_observedAt candidate)) (date_ms (ep_startedAt ep))
      then Some ''candidate_before_episode''
      else if ms_gap_exceeds (date_ms (ep_lastAgentActivityAt ep))
                (date_ms (cc_observedAt candidate)) CLAIM_WINDOW_MS
      then Some ''claim_window_expired''
      else None)"

definition attributableArtifactStates :: "work_evidence \<Rightarrow> artifact_state list" where
  "attributableArtifactStates evidence =
     (if we_causalWriteArtifactsComplete evidence \<noteq> Some True
      then nullish (we_artifactStates evidence) []
      else let artifactKeys = map cw_artifactKey (nullish (we_causalWriteArtifacts evidence) [])
           in filter (\<lambda>s. as_artifactKey s \<in> set artifactKeys) (nullish (we_artifactStates evidence) []))"

definition hasContentContinuity :: "work_evidence \<Rightarrow> artifact_state list \<Rightarrow> bool" where
  "hasContentContinuity evidence committed =
     list_ex (\<lambda>observed. list_ex (artifactStatesMatch observed) committed)
       (attributableArtifactStates evidence)"

definition proofKindFor :: "work_evidence list \<Rightarrow> artifact_state list \<Rightarrow> proof_kind" where
  "proofKindFor evidence committed =
     (let deletion = list_ex (\<lambda>item. list_ex (\<lambda>observed. list_ex (\<lambda>c.
            as_changeKind observed = Deleted \<and> as_changeKind c = Deleted
            \<and> as_artifactKey observed = as_artifactKey c) committed)
          (attributableArtifactStates item)) evidence
      in if deletion then Observed_deletion else Exact_content_state)"

definition matchedArtifactCount :: "work_evidence list \<Rightarrow> artifact_state list \<Rightarrow> nat" where
  "matchedArtifactCount evidence committed =
     length (dedup (map as_artifactKey
       (filter (\<lambda>observed. list_ex (artifactStatesMatch observed) committed)
         (concat (map attributableArtifactStates evidence)))))"

definition matchedCausalWriteArtifactsForCommit :: "collation \<Rightarrow> work_evidence list
    \<Rightarrow> artifact_state list \<Rightarrow> matched_causal_write list" where
  "matchedCausalWriteArtifactsForCommit lc evidence committed = matched_pairs lc '':'' evidence committed"

text \<open>The evidence of the candidate's repository, and of that the evidence of its epoch.\<close>

definition repositoryEvidence :: "policy_input \<Rightarrow> work_evidence list" where
  "repositoryEvidence i =
     filter (\<lambda>e. we_repoKey e = cc_repoKey (in_candidate i)) (ep_evidence (in_episode i))"

definition currentEpochEvidence :: "policy_input \<Rightarrow> work_evidence list" where
  "currentEpochEvidence i =
     filter (\<lambda>e. we_epochId e = Some (cc_epochId (in_candidate i))) (repositoryEvidence i)"

definition observed_after_baseline :: "commit_candidate \<Rightarrow> work_evidence \<Rightarrow> bool" where
  "observed_after_baseline candidate e =
     (case we_baselineSequence e of None \<Rightarrow> True | Some b \<Rightarrow> b < cc_observedSequence candidate)"

definition contentCandidates :: "policy_input \<Rightarrow> work_evidence list" where
  "contentCandidates i =
     filter (\<lambda>e. hasContentContinuity e (cc_artifactStates (in_candidate i)))
       (filter (observed_after_baseline (in_candidate i))
         (filter we_baselineTrusted (currentEpochEvidence i)))"

definition provenAnchors :: "policy_input \<Rightarrow> string list" where
  "provenAnchors i =
     unique_sorted (map we_queryId
       (filter (\<lambda>e. we_queryId e \<in> set (in_lineageVerifiedQueryIds i)) (contentCandidates i)))"

definition freshAnchors :: "policy_input \<Rightarrow> string list" where
  "freshAnchors i = filter (\<lambda>q. q \<notin> set (in_activeQueryIds i)) (provenAnchors i)"

definition retainedCandidateAnchors :: "policy_input \<Rightarrow> string list" where
  "retainedCandidateAnchors i = filter (\<lambda>q. q \<in> set (in_candidateAnchorQueryIds i)) (provenAnchors i)"

definition pendingReason :: "policy_input \<Rightarrow> string" where
  "pendingReason i =
     (if provenAnchors i \<noteq> [] then ''query_already_claimed_by_other_commit''
      else if currentEpochEvidence i \<noteq> []
           \<and> list_all (\<lambda>e. \<not> observed_after_baseline (in_candidate i) e) (currentEpochEvidence i)
      then ''candidate_before_evidence_window''
      else if contentCandidates i \<noteq> [] then ''lineage_not_verified''
      else if repositoryEvidence i \<noteq> [] then ''same_file_without_state_continuity''
      else ''no_repository_evidence'')"

text \<open>A query of the episode inherits the claim when nothing else than this candidate could
  have been its commit.\<close>

definition inheritedQueries :: "policy_input \<Rightarrow> string list" where
  "inheritedQueries i =
     (let candidate = in_candidate i; ep = in_episode i;
          episodeRepos = unique_sorted (map we_repoKey (ep_evidence ep))
      in if length episodeRepos = 1
         then filter (\<lambda>q. \<not> list_ex (\<lambda>e. we_queryId e = q
                  \<and> (we_repoKey e \<noteq> cc_repoKey candidate
                     \<or> we_epochId e \<noteq> Some (cc_epochId candidate)
                     \<or> \<not> observed_after_baseline candidate e
                     \<or> q \<notin> set (in_lineageVerifiedQueryIds i))) (ep_evidence ep))
               (filter (\<lambda>q. q \<notin> set (in_activeQueryIds i))
                 (filter (\<lambda>q. q \<notin> set (freshAnchors i)) (ep_queryIds ep)))
         else [])"

definition reportableResult :: "collation \<Rightarrow> policy_input \<Rightarrow> policy_result" where
  "reportableResult lc i =
     (let candidate = in_candidate i;
          anchors = freshAnchors i;
          inherited = inheritedQueries i;
          proofAnchorQueryIds = unique_sorted (anchors @ retainedCandidateAnchors i);
          proofEvidence =
            filter (\<lambda>e. we_queryId e \<in> set proofAnchorQueryIds) (currentEpochEvidence i);
          matched = matchedCausalWriteArtifactsForCommit lc proofEvidence (cc_artifactStates candidate)
      in \<lparr>res_decision = Reportable,
          res_queryIds = unique_sorted (anchors @ inherited),
          res_proof = Some
            \<lparr>pf_kind = proofKindFor proofEvidence (cc_artifactStates candidate),
             pf_anchorQueryIds = proofAnchorQueryIds,
             pf_inheritedQueryIds = inherited,
             pf_matchedArtifactCount = matchedArtifactCount proofEvidence (cc_artifactStates candidate),
             pf_matchedCausalWriteArtifacts = (if matched \<noteq> [] then Some matched else None),
             pf_reasonCodes = unique_sorted
               ([''active_epoch'', ''lineage_verified'', ''content_state_continuity'']
                @ (if inherited \<noteq> [] then [''unambiguous_episode_inheritance''] else []))\<rparr>,
          res_reasonCodes = [''verified_content_continuity'']\<rparr>)"

definition evaluateCommitAttribution :: "collation \<Rightarrow> policy_input \<Rightarrow> policy_result" where
  "evaluateCommitAttribution lc i =
     (if repositoryEvidence i \<noteq> [] \<and> currentEpochEvidence i = []
      then \<lparr>res_decision = Rejected, res_queryIds = [], res_proof = None,
            res_reasonCodes = [''epoch_mismatch'']\<rparr>
      else case hardFailureReason (in_candidate i) (in_episode i) of
        Some r \<Rightarrow> \<lparr>res_decision = Rejected, res_queryIds = [], res_proof = None,
                   res_reasonCodes = [r]\<rparr>
      | None \<Rightarrow>
          if freshAnchors i = [] \<and> retainedCandidateAnchors i = []
          then \<lparr>res_decision = Pending_evidence, res_queryIds = [], res_proof = None,
                res_reasonCodes = [pendingReason i]\<rparr>
          else reportableResult lc i)"

section \<open>Lemmas\<close>

lemma set_freshAnchors [simp]:
  "q \<in> set (freshAnchors i) \<longleftrightarrow> q \<in> set (provenAnchors i) \<and> q \<notin> set (in_activeQueryIds i)"
  by (auto simp: freshAnchors_def)

lemma set_retainedCandidateAnchors [simp]:
  "q \<in> set (retainedCandidateAnchors i) \<longleftrightarrow>
     q \<in> set (provenAnchors i) \<and> q \<in> set (in_candidateAnchorQueryIds i)"
  by (auto simp: retainedCandidateAnchors_def)

text \<open>What it means that a query is an anchor: the evidence that proves it.\<close>

definition anchor_evidence :: "policy_input \<Rightarrow> string \<Rightarrow> work_evidence \<Rightarrow> bool" where
  "anchor_evidence i q e \<longleftrightarrow>
     e \<in> set (ep_evidence (in_episode i)) \<and> we_queryId e = q
     \<and> we_repoKey e = cc_repoKey (in_candidate i) \<and> we_epochId e = Some (cc_epochId (in_candidate i))
     \<and> we_baselineTrusted e \<and> observed_after_baseline (in_candidate i) e
     \<and> hasContentContinuity e (cc_artifactStates (in_candidate i))"

lemma provenAnchors_iff:
  "q \<in> set (provenAnchors i) \<longleftrightarrow>
     \<not> blank q \<and> q \<in> set (in_lineageVerifiedQueryIds i) \<and> (\<exists>e. anchor_evidence i q e)"
  by (auto simp: provenAnchors_def contentCandidates_def currentEpochEvidence_def
      repositoryEvidence_def anchor_evidence_def)

lemma evaluate_reportable:
  "res_decision (evaluateCommitAttribution lc i) = Reportable \<longleftrightarrow>
     \<not> (repositoryEvidence i \<noteq> [] \<and> currentEpochEvidence i = [])
     \<and> hardFailureReason (in_candidate i) (in_episode i) = None
     \<and> (\<exists>q \<in> set (provenAnchors i). q \<notin> set (in_activeQueryIds i) \<or> q \<in> set (in_candidateAnchorQueryIds i))"
proof -
  have "freshAnchors i = [] \<and> retainedCandidateAnchors i = [] \<longleftrightarrow>
      \<not> (\<exists>q \<in> set (provenAnchors i). q \<notin> set (in_activeQueryIds i) \<or> q \<in> set (in_candidateAnchorQueryIds i))"
    by (auto simp: freshAnchors_def retainedCandidateAnchors_def filter_empty_conv)
  then show ?thesis
    by (auto simp: evaluateCommitAttribution_def reportableResult_def Let_def split: option.splits if_splits)
qed

lemma evaluate_reportable_eq:
  "res_decision (evaluateCommitAttribution lc i) = Reportable \<Longrightarrow>
   evaluateCommitAttribution lc i = reportableResult lc i"
  by (auto simp: evaluateCommitAttribution_def split: option.splits if_splits)

lemma reportable_proof:
  "\<exists>p. res_proof (reportableResult lc i) = Some p
     \<and> pf_anchorQueryIds p = unique_sorted (freshAnchors i @ retainedCandidateAnchors i)
     \<and> pf_inheritedQueryIds p = inheritedQueries i
     \<and> pf_matchedArtifactCount p = matchedArtifactCount
         (filter (\<lambda>e. we_queryId e \<in> set (unique_sorted (freshAnchors i @ retainedCandidateAnchors i)))
           (currentEpochEvidence i)) (cc_artifactStates (in_candidate i))"
  unfolding reportableResult_def Let_def
  by (intro exI conjI) (rule policy_result.select_convs, (rule attribution_proof.select_convs)+)

lemma matchedArtifactCount_pos:
  assumes "e \<in> set evidence" "hasContentContinuity e committed"
  shows "0 < matchedArtifactCount evidence committed"
proof -
  have "filter (\<lambda>observed. list_ex (artifactStatesMatch observed) committed)
      (concat (map attributableArtifactStates evidence)) \<noteq> []"
    using assms by (fastforce simp: hasContentContinuity_def list_ex_iff filter_empty_conv)
  then show ?thesis by (simp add: matchedArtifactCount_def)
qed

lemma anchor_in_proof_evidence:
  "anchor_evidence i q e \<Longrightarrow> q \<in> set qs
   \<Longrightarrow> e \<in> set (filter (\<lambda>e. we_queryId e \<in> set qs) (currentEpochEvidence i))"
  by (auto simp: anchor_evidence_def currentEpochEvidence_def repositoryEvidence_def)

lemma inheritedQueries_sound:
  assumes "q \<in> set (inheritedQueries i)"
  shows "q \<in> set (ep_queryIds (in_episode i))" "q \<notin> set (in_activeQueryIds i)"
    "\<And>e. e \<in> set (ep_evidence (in_episode i)) \<Longrightarrow> we_queryId e = q \<Longrightarrow>
       we_repoKey e = cc_repoKey (in_candidate i) \<and> we_epochId e = Some (cc_epochId (in_candidate i))
       \<and> observed_after_baseline (in_candidate i) e \<and> q \<in> set (in_lineageVerifiedQueryIds i)"
  using assms by (auto simp: inheritedQueries_def Let_def list_ex_iff split: if_splits)

section \<open>A sample input\<close>

definition sample_state :: artifact_state where
  "sample_state = \<lparr>as_artifactKey = ''a1'', as_previousArtifactKey = None, as_stateKey = Some ''s1'',
     as_worktreeStateKey = Some ''s1'', as_indexStateKey = None, as_changeKind = Modified,
     as_observedSequence = 3\<rparr>"

definition sample_evidence :: "string \<Rightarrow> work_evidence" where
  "sample_evidence q = \<lparr>we_queryId = q, we_runIds = [''r1''], we_repoKey = ''repo'',
     we_epochId = Some ''e1'', we_startedAt = ''2026-07-01T10:00:00.000Z'', we_completedAt = None,
     we_settlingUntil = None, we_expiresAt = None, we_baselineTrusted = True, we_baselineReasons = [],
     we_headCommitAtStart = None, we_baselineSequence = Some 1, we_dirtyAtStart = False,
     we_observedChangeCount = 1, we_artifactKeys = [''a1''], we_causalArtifactKeys = None,
     we_causalWriteArtifacts = Some [\<lparr>cw_artifactKey = ''a1'', cw_executionNodeId = ''n1''\<rparr>],
     we_nativeRejectedCausalWriteArtifacts = None, we_causalWriteArtifactsComplete = Some True,
     we_baselineArtifactStates = None, we_artifactStates = Some [sample_state], we_addedLines = 1,
     we_deletedLines = 0, we_firstObservedAt = None, we_lastObservedAt = None, we_status = None\<rparr>"

definition sample_candidate :: commit_candidate where
  "sample_candidate = \<lparr>cc_candidateId = ''c1'', cc_epochId = ''e1'', cc_repoKey = ''repo'',
     cc_commitHash = ''h1'', cc_commitMessage = None, cc_parentHashes = [''h0''], cc_refKey = None,
     cc_observedAt = ''2026-07-01T11:00:00.000Z'', cc_committedAt = None, cc_observedSequence = 4,
     cc_artifactStates = [sample_state], cc_transitionKind = Fast_forward,
     cc_decision = Pending_evidence, cc_reasonCodes = [''commit_seen'']\<rparr>"

definition sample_episode :: episode where
  "sample_episode = \<lparr>ep_observationSchemaVersion = Some 1, ep_episodeId = ''ep1'', ep_repoKey = Some ''repo'',
     ep_repoKeys = Some [''repo''], ep_epochIds = Some [''e1''], ep_chatSessionId = Some ''s1'',
     ep_queryIds = [''q1'', ''q2''], ep_runIds = [''r1''], ep_headCommitAtStart = None,
     ep_startedAt = ''2026-07-01T10:00:00.000Z'', ep_lastQueryActivityAt = None,
     ep_lastAgentActivityAt = ''2026-07-01T10:30:00.000Z'', ep_lastObservedChangeAt = None,
     ep_status = Ep_open, ep_evidence = [sample_evidence ''q1''], ep_claimedByCommitHash = None,
     ep_claimedAt = None, ep_decision = Some Pending_evidence, ep_confidence = None,
     ep_confidenceReasons = None\<rparr>"

definition sample_input :: policy_input where
  "sample_input = \<lparr>in_candidate = sample_candidate, in_episode = sample_episode,
     in_lineageVerifiedQueryIds = [''q1''], in_activeQueryIds = [], in_candidateAnchorQueryIds = []\<rparr>"

lemma sample_reportable:
  "res_decision (evaluateCommitAttribution code_unit_compare sample_input) = Reportable"
  by code_simp

section \<open>Properties\<close>

text \<open>
  C2: what a reportable commit guarantees. The candidate is not a legacy one, was seen no
  earlier than the episode began and no later than four hours after its last activity; no
  query that another claim holds is charged; the proof has an anchor, every anchor has a
  verified lineage and trusted evidence of the candidate's repository and epoch that was taken
  before the commit and whose content the commit contains; every charged query is an anchor or
  inherits, and an inheriting query belongs to the episode.
\<close>

theorem reportable_is_proven:
  assumes "res_decision (evaluateCommitAttribution lc i) = Reportable"
  shows "cc_decision (in_candidate i) \<noteq> Legacy_unverified
    \<and> \<not> ms_less (date_ms (cc_observedAt (in_candidate i))) (date_ms (ep_startedAt (in_episode i)))
    \<and> \<not> ms_gap_exceeds (date_ms (ep_lastAgentActivityAt (in_episode i)))
         (date_ms (cc_observedAt (in_candidate i))) CLAIM_WINDOW_MS
    \<and> set (res_queryIds (evaluateCommitAttribution lc i)) \<inter> set (in_activeQueryIds i) = {}
    \<and> (\<exists>p. res_proof (evaluateCommitAttribution lc i) = Some p
        \<and> pf_anchorQueryIds p \<noteq> [] \<and> 0 < pf_matchedArtifactCount p
        \<and> (\<forall>q \<in> set (pf_anchorQueryIds p). q \<in> set (in_lineageVerifiedQueryIds i)
             \<and> (\<exists>e. anchor_evidence i q e))
        \<and> set (res_queryIds (evaluateCommitAttribution lc i))
            \<subseteq> set (pf_anchorQueryIds p) \<union> set (pf_inheritedQueryIds p)
        \<and> set (pf_inheritedQueryIds p) \<subseteq> set (ep_queryIds (in_episode i)))"
proof -
  note r = evaluate_reportable_eq [OF assms]
  from assms obtain q where q: "q \<in> set (provenAnchors i)"
    "q \<notin> set (in_activeQueryIds i) \<or> q \<in> set (in_candidateAnchorQueryIds i)"
    and h: "hardFailureReason (in_candidate i) (in_episode i) = None"
    by (auto simp: evaluate_reportable)
  define qs where "qs = unique_sorted (freshAnchors i @ retainedCandidateAnchors i)"
  have proven: "q' \<in> set (in_lineageVerifiedQueryIds i) \<and> (\<exists>e. anchor_evidence i q' e)"
    if "q' \<in> set qs" for q' using that by (auto simp: qs_def provenAnchors_iff)
  from q have "q \<in> set qs" by (auto simp: qs_def provenAnchors_iff)
  moreover from q obtain e where e: "anchor_evidence i q e" by (auto simp: provenAnchors_iff)
  ultimately have "0 < matchedArtifactCount
      (filter (\<lambda>e. we_queryId e \<in> set qs) (currentEpochEvidence i)) (cc_artifactStates (in_candidate i))"
    by (intro matchedArtifactCount_pos [OF anchor_in_proof_evidence]) (auto simp: anchor_evidence_def)
  moreover have "set (res_queryIds (reportableResult lc i)) \<inter> set (in_activeQueryIds i) = {}"
    using inheritedQueries_sound(2) by (auto simp: reportableResult_def Let_def)
  moreover have "set (res_queryIds (reportableResult lc i)) \<subseteq> set qs \<union> set (inheritedQueries i)"
    by (auto simp: reportableResult_def Let_def qs_def)
  moreover have "set (inheritedQueries i) \<subseteq> set (ep_queryIds (in_episode i))"
    using inheritedQueries_sound(1) by blast
  moreover obtain p where p: "res_proof (reportableResult lc i) = Some p"
    "pf_anchorQueryIds p = qs" "pf_inheritedQueryIds p = inheritedQueries i"
    "pf_matchedArtifactCount p = matchedArtifactCount
      (filter (\<lambda>e. we_queryId e \<in> set qs) (currentEpochEvidence i)) (cc_artifactStates (in_candidate i))"
    using reportable_proof [of lc i] unfolding qs_def by blast
  moreover have "qs \<noteq> []" using \<open>q \<in> set qs\<close> by auto
  moreover have "cc_decision (in_candidate i) \<noteq> Legacy_unverified
    \<and> \<not> ms_less (date_ms (cc_observedAt (in_candidate i))) (date_ms (ep_startedAt (in_episode i)))
    \<and> \<not> ms_gap_exceeds (date_ms (ep_lastAgentActivityAt (in_episode i)))
         (date_ms (cc_observedAt (in_candidate i))) CLAIM_WINDOW_MS"
    using h by (simp add: hardFailureReason_def split: if_splits)
  ultimately show ?thesis using proven unfolding r p(1) by auto
qed

theorem reportable_is_proven_witness:
  "res_queryIds (evaluateCommitAttribution code_unit_compare sample_input) = [''q1'', ''q2'']
   \<and> set [''q1'', ''q2''] \<inter> set (in_activeQueryIds sample_input) = {}"
proof -
  have "res_queryIds (evaluateCommitAttribution code_unit_compare sample_input) = [''q1'', ''q2'']"
    by code_simp
  with reportable_is_proven [OF sample_reportable] show ?thesis by simp
qed

text \<open>
  The decision is total and exact. A commit is reportable exactly when the episode has
  evidence of its epoch or none of its repository, nothing rules it out, and some query that is
  free (or already anchored this candidate) has a verified lineage and proving evidence; it is
  rejected or pending otherwise, and then charges no query, carries no proof and gives exactly
  one reason.
\<close>

theorem decision_exact:
  "(let r = evaluateCommitAttribution lc i; c = in_candidate i; ep = in_episode i;
        inRepo = (\<lambda>e. e \<in> set (ep_evidence ep) \<and> we_repoKey e = cc_repoKey c)
    in (res_decision r = Reportable \<longleftrightarrow>
          ((\<exists>e. inRepo e \<and> we_epochId e = Some (cc_epochId c)) \<or> (\<nexists>e. inRepo e))
          \<and> hardFailureReason c ep = None
          \<and> (\<exists>q e. \<not> blank q \<and> q \<in> set (in_lineageVerifiedQueryIds i) \<and> anchor_evidence i q e
               \<and> (q \<notin> set (in_activeQueryIds i) \<or> q \<in> set (in_candidateAnchorQueryIds i))))
       \<and> (res_decision r = Reportable \<longleftrightarrow> res_proof r \<noteq> None)
       \<and> (res_decision r \<in> {Reportable, Pending_evidence, Rejected})
       \<and> \<not> (res_decision r \<noteq> Reportable \<and> res_queryIds r \<noteq> [])
       \<and> length (res_reasonCodes r) = 1)"
proof -
  let ?r = "evaluateCommitAttribution lc i"
  have shape: "(res_decision ?r = Reportable \<longleftrightarrow> res_proof ?r \<noteq> None)
       \<and> (res_decision ?r \<in> {Reportable, Pending_evidence, Rejected})
       \<and> \<not> (res_decision ?r \<noteq> Reportable \<and> res_queryIds ?r \<noteq> [])
       \<and> length (res_reasonCodes ?r) = 1"
    by (simp add: evaluateCommitAttribution_def reportableResult_def Let_def split: option.split)
  have "\<not> (repositoryEvidence i \<noteq> [] \<and> currentEpochEvidence i = []) \<longleftrightarrow>
      (\<exists>e. e \<in> set (ep_evidence (in_episode i)) \<and> we_repoKey e = cc_repoKey (in_candidate i)
           \<and> we_epochId e = Some (cc_epochId (in_candidate i)))
      \<or> (\<nexists>e. e \<in> set (ep_evidence (in_episode i)) \<and> we_repoKey e = cc_repoKey (in_candidate i))"
    by (auto simp: repositoryEvidence_def currentEpochEvidence_def filter_empty_conv)
  moreover have "(\<exists>q \<in> set (provenAnchors i). q \<notin> set (in_activeQueryIds i)
        \<or> q \<in> set (in_candidateAnchorQueryIds i))
      \<longleftrightarrow> (\<exists>q e. \<not> blank q \<and> q \<in> set (in_lineageVerifiedQueryIds i) \<and> anchor_evidence i q e
               \<and> (q \<notin> set (in_activeQueryIds i) \<or> q \<in> set (in_candidateAnchorQueryIds i)))"
    unfolding Bex_def provenAnchors_iff by blast
  ultimately have main: "res_decision ?r = Reportable \<longleftrightarrow>
      ((\<exists>e. e \<in> set (ep_evidence (in_episode i)) \<and> we_repoKey e = cc_repoKey (in_candidate i)
           \<and> we_epochId e = Some (cc_epochId (in_candidate i)))
        \<or> (\<nexists>e. e \<in> set (ep_evidence (in_episode i)) \<and> we_repoKey e = cc_repoKey (in_candidate i)))
      \<and> hardFailureReason (in_candidate i) (in_episode i) = None
      \<and> (\<exists>q e. \<not> blank q \<and> q \<in> set (in_lineageVerifiedQueryIds i) \<and> anchor_evidence i q e
           \<and> (q \<notin> set (in_activeQueryIds i) \<or> q \<in> set (in_candidateAnchorQueryIds i)))"
    unfolding evaluate_reportable by (simp only:)
  show ?thesis unfolding Let_def conj_assoc by (rule conjI [OF main shape])
qed

theorem decision_exact_witness:
  "res_decision (evaluateCommitAttribution code_unit_compare sample_input) = Reportable
   \<and> hardFailureReason (in_candidate sample_input) (in_episode sample_input) = None
   \<and> (\<exists>q e. q \<in> set (in_lineageVerifiedQueryIds sample_input) \<and> anchor_evidence sample_input q e)"
  using decision_exact [of code_unit_compare sample_input] sample_reportable
  unfolding Let_def by blast

text \<open>
  The causal writes a proof retains are exact. Each belongs to an anchor of the proof,
  comes from a complete census of that query in the candidate's repository and epoch, and its
  artifact was observed in a state that the commit contains.
\<close>

theorem proof_pairs_exact:
  assumes "res_proof (evaluateCommitAttribution lc i) = Some p"
    and "w \<in> set (nullish (pf_matchedCausalWriteArtifacts p) [])"
  shows "mc_queryId w \<in> set (pf_anchorQueryIds p) \<and>
    (\<exists>e \<in> set (ep_evidence (in_episode i)). we_queryId e = mc_queryId w
       \<and> we_repoKey e = cc_repoKey (in_candidate i) \<and> we_epochId e = Some (cc_epochId (in_candidate i))
       \<and> we_causalWriteArtifactsComplete e = Some True
       \<and> (\<exists>x \<in> set (nullish (we_causalWriteArtifacts e) []). cw_artifactKey x = mc_artifactKey w
            \<and> cw_executionNodeId x = mc_executionNodeId w)
       \<and> (\<exists>s \<in> set (nullish (we_artifactStates e) []). as_artifactKey s = mc_artifactKey w
            \<and> (\<exists>c \<in> set (cc_artifactStates (in_candidate i)). artifactStatesMatch s c)))"
proof -
  let ?qs = "unique_sorted (freshAnchors i @ retainedCandidateAnchors i)"
  let ?E = "filter (\<lambda>e. we_queryId e \<in> set ?qs) (currentEpochEvidence i)"
  have r: "evaluateCommitAttribution lc i = reportableResult lc i"
    using assms(1) by (auto simp: evaluateCommitAttribution_def split: option.splits if_splits)
  from assms have a: "pf_anchorQueryIds p = ?qs"
    and w: "w \<in> set (matched_pairs lc '':'' ?E (cc_artifactStates (in_candidate i)))"
    unfolding r by (auto simp: reportableResult_def Let_def matchedCausalWriteArtifactsForCommit_def
        split: if_splits)
  from w show ?thesis unfolding a
    by (rule matched_pairs_sound)
      (auto simp: currentEpochEvidence_def repositoryEvidence_def intro!: bexI)
qed

theorem proof_pairs_exact_witness:
  "\<exists>p w. res_proof (evaluateCommitAttribution code_unit_compare sample_input) = Some p
     \<and> w \<in> set (nullish (pf_matchedCausalWriteArtifacts p) [])
     \<and> mc_queryId w \<in> set (pf_anchorQueryIds p)"
proof -
  have "map_option (\<lambda>p. nullish (pf_matchedCausalWriteArtifacts p) [])
      (res_proof (evaluateCommitAttribution code_unit_compare sample_input))
    = Some [\<lparr>mc_queryId = ''q1'', mc_artifactKey = ''a1'', mc_executionNodeId = ''n1''\<rparr>]" by code_simp
  then obtain p where p: "res_proof (evaluateCommitAttribution code_unit_compare sample_input) = Some p"
    and "nullish (pf_matchedCausalWriteArtifacts p) []
      = [\<lparr>mc_queryId = ''q1'', mc_artifactKey = ''a1'', mc_executionNodeId = ''n1''\<rparr>]" by auto
  then have "\<lparr>mc_queryId = ''q1'', mc_artifactKey = ''a1'', mc_executionNodeId = ''n1''\<rparr>
      \<in> set (nullish (pf_matchedCausalWriteArtifacts p) [])" by simp
  from proof_pairs_exact [OF p this] this p show ?thesis by blast
qed

end
