(* ===== verification/PricingTables.thy ===== *)
theory PricingTables
  imports Types JsDate
begin

text \<open>
  The price catalogs: src/src/pricing/copilotPricing.ts, openaiPricing.ts, anthropicPricing.ts
  and cursorPricing.ts. A row is the source's object literal, written as an update of
  \<open>no_pricing\<close>, the object without any optional property; \<open>copilotPricing\<close> and
  \<open>cursorPricing\<close> are the source's row constructors. Prices are the decimals of the source.
  The lemmas at the end check the whole of each catalog: every pattern compiles, no price is
  negative, every row has a date, and two rows with the same pattern and the same date have
  disjoint input ranges.
\<close>

definition no_pricing :: model_pricing where
  "no_pricing = \<lparr>mp_provider = None, mp_modelPattern = [], mp_inputUsdPerMillion = 0,
     mp_outputUsdPerMillion = 0, mp_cachedInputUsdPerMillion = None,
     mp_cacheCreationUsdPerMillion = None, mp_reasoningOutputUsdPerMillion = None,
     mp_minInputTokens = None, mp_maxInputTokens = None, mp_longContextInputThreshold = None,
     mp_longContextNote = None, mp_effectiveFrom = [], mp_pricingVersion = None,
     mp_sourceUrl = None, mp_notes = None\<rparr>"

section \<open>GitHub Copilot\<close>

definition COPILOT_PRICING_VERSION :: string where
  "COPILOT_PRICING_VERSION =
     ''copilot-pricing-2026-07-01''"

definition COPILOT_PRICING_SOURCE_URL :: string where
  "COPILOT_PRICING_SOURCE_URL =
     ''https://docs.github.com/en/copilot/reference/copilot-billing/models-and-pricing''"

definition COPILOT_PRICING_EFFECTIVE_FROM :: string where
  "COPILOT_PRICING_EFFECTIVE_FROM =
     ''2026-07-01''"

definition COPILOT_PRICING_NOTE :: string where
  "COPILOT_PRICING_NOTE =
     ''GitHub Copilot per-token pricing verified from GitHub Docs on 2026-07-01. Estimates are converted to GitHub AI credits at 1 AI credit = $0.01 USD.''"

definition copilotPricing :: "model_pricing \<Rightarrow> model_pricing" where
  "copilotPricing i = i\<lparr>mp_pricingVersion := Some COPILOT_PRICING_VERSION,
     mp_effectiveFrom := COPILOT_PRICING_EFFECTIVE_FROM,
     mp_sourceUrl := Some COPILOT_PRICING_SOURCE_URL,
     mp_notes := Some (case mp_notes i of
         None \<Rightarrow> COPILOT_PRICING_NOTE
       | Some n \<Rightarrow> if n = [] then COPILOT_PRICING_NOTE else COPILOT_PRICING_NOTE @ '' '' @ n)\<rparr>"

definition COPILOT_PRICING :: "model_pricing list" where
  "COPILOT_PRICING = [
      copilotPricing (no_pricing\<lparr>mp_provider := Some ''openai'', mp_modelPattern := ''^gpt[- ]5[- ]mini$'',
         mp_inputUsdPerMillion := 0.25, mp_cachedInputUsdPerMillion := Some 0.025,
         mp_outputUsdPerMillion := 2\<rparr>),
      copilotPricing (no_pricing\<lparr>mp_provider := Some ''openai'', mp_modelPattern := pat ''^gpt[- ]5~.3[- ]codex$'',
         mp_inputUsdPerMillion := 1.75, mp_cachedInputUsdPerMillion := Some 0.175,
         mp_outputUsdPerMillion := 14\<rparr>),
      copilotPricing (no_pricing\<lparr>mp_provider := Some ''openai'', mp_modelPattern := pat ''^gpt[- ]5~.4$'',
         mp_maxInputTokens := Some 272000, mp_inputUsdPerMillion := 2.5,
         mp_cachedInputUsdPerMillion := Some 0.25, mp_outputUsdPerMillion := 15,
         mp_notes := Some ''Default tier applies at or below 272K input tokens.''\<rparr>),
      copilotPricing (no_pricing\<lparr>mp_provider := Some ''openai'', mp_modelPattern := pat ''^gpt[- ]5~.4$'',
         mp_minInputTokens := Some 272001, mp_inputUsdPerMillion := 5,
         mp_cachedInputUsdPerMillion := Some 0.5, mp_outputUsdPerMillion := 22.5,
         mp_notes := Some ''Long-context tier applies above 272K input tokens.''\<rparr>),
      copilotPricing (no_pricing\<lparr>mp_provider := Some ''openai'', mp_modelPattern := pat ''^gpt[- ]5~.4[- ]mini$'',
         mp_inputUsdPerMillion := 0.75, mp_cachedInputUsdPerMillion := Some 0.075,
         mp_outputUsdPerMillion := 4.5\<rparr>),
      copilotPricing (no_pricing\<lparr>mp_provider := Some ''openai'', mp_modelPattern := pat ''^gpt[- ]5~.4[- ]nano$'',
         mp_inputUsdPerMillion := 0.2, mp_cachedInputUsdPerMillion := Some 0.02,
         mp_outputUsdPerMillion := 1.25\<rparr>),
      copilotPricing (no_pricing\<lparr>mp_provider := Some ''openai'', mp_modelPattern := pat ''^gpt[- ]5~.5$'',
         mp_maxInputTokens := Some 272000, mp_inputUsdPerMillion := 5,
         mp_cachedInputUsdPerMillion := Some 0.5, mp_outputUsdPerMillion := 30,
         mp_notes := Some ''Default tier applies at or below 272K input tokens.''\<rparr>),
      copilotPricing (no_pricing\<lparr>mp_provider := Some ''openai'', mp_modelPattern := pat ''^gpt[- ]5~.5$'',
         mp_minInputTokens := Some 272001, mp_inputUsdPerMillion := 10,
         mp_cachedInputUsdPerMillion := Some 1, mp_outputUsdPerMillion := 45,
         mp_notes := Some ''Long-context tier applies above 272K input tokens.''\<rparr>),
      copilotPricing (no_pricing\<lparr>mp_provider := Some ''anthropic'',
         mp_modelPattern := pat ''^claude[- ]haiku[- ]4(?:~.5|-5)$'',
         mp_inputUsdPerMillion := 1, mp_cachedInputUsdPerMillion := Some 0.1,
         mp_cacheCreationUsdPerMillion := Some 1.25, mp_outputUsdPerMillion := 5\<rparr>),
      copilotPricing (no_pricing\<lparr>mp_provider := Some ''anthropic'', mp_modelPattern := ''^claude[- ]sonnet[- ]4$'',
         mp_inputUsdPerMillion := 3, mp_cachedInputUsdPerMillion := Some 0.3,
         mp_cacheCreationUsdPerMillion := Some 3.75, mp_outputUsdPerMillion := 15\<rparr>),
      copilotPricing (no_pricing\<lparr>mp_provider := Some ''anthropic'',
         mp_modelPattern := pat ''^claude[- ]sonnet[- ]4(?:~.5|-5)$'',
         mp_inputUsdPerMillion := 3, mp_cachedInputUsdPerMillion := Some 0.3,
         mp_cacheCreationUsdPerMillion := Some 3.75, mp_outputUsdPerMillion := 15\<rparr>),
      copilotPricing (no_pricing\<lparr>mp_provider := Some ''anthropic'',
         mp_modelPattern := pat ''^claude[- ]sonnet[- ]4(?:~.6|-6)$'',
         mp_inputUsdPerMillion := 3, mp_cachedInputUsdPerMillion := Some 0.3,
         mp_cacheCreationUsdPerMillion := Some 3.75, mp_outputUsdPerMillion := 15\<rparr>),
      copilotPricing (no_pricing\<lparr>mp_provider := Some ''anthropic'',
         mp_modelPattern := pat ''^claude[- ]opus[- ]4(?:~.5|-5)$'', mp_inputUsdPerMillion := 5,
         mp_cachedInputUsdPerMillion := Some 0.5, mp_cacheCreationUsdPerMillion := Some 6.25,
         mp_outputUsdPerMillion := 25\<rparr>),
      copilotPricing (no_pricing\<lparr>mp_provider := Some ''anthropic'',
         mp_modelPattern := pat ''^claude[- ]opus[- ]4(?:~.6|-6)$'', mp_inputUsdPerMillion := 5,
         mp_cachedInputUsdPerMillion := Some 0.5, mp_cacheCreationUsdPerMillion := Some 6.25,
         mp_outputUsdPerMillion := 25\<rparr>),
      copilotPricing (no_pricing\<lparr>mp_provider := Some ''anthropic'',
         mp_modelPattern := pat ''^claude[- ]opus[- ]4(?:~.7|-7)$'', mp_inputUsdPerMillion := 5,
         mp_cachedInputUsdPerMillion := Some 0.5, mp_cacheCreationUsdPerMillion := Some 6.25,
         mp_outputUsdPerMillion := 25\<rparr>),
      copilotPricing (no_pricing\<lparr>mp_provider := Some ''anthropic'',
         mp_modelPattern := pat ''^claude[- ]opus[- ]4(?:~.8|-8)$'', mp_inputUsdPerMillion := 5,
         mp_cachedInputUsdPerMillion := Some 0.5, mp_cacheCreationUsdPerMillion := Some 6.25,
         mp_outputUsdPerMillion := 25\<rparr>),
      copilotPricing (no_pricing\<lparr>mp_provider := Some ''anthropic'', mp_modelPattern := ''^claude[- ]sonnet[- ]5$'',
         mp_inputUsdPerMillion := 2, mp_cachedInputUsdPerMillion := Some 0.2,
         mp_cacheCreationUsdPerMillion := Some 2.5, mp_outputUsdPerMillion := 10,
         mp_notes := Some ''Promotional pricing applies through 2026-08-31 according to GitHub Docs.''\<rparr>),
      copilotPricing (no_pricing\<lparr>mp_provider := Some ''anthropic'',
         mp_modelPattern := pat ''^claude[- ]opus[- ]4(?:~.8|-8)(?:[- ]~(?fast(?:[- ]mode)?~)?)$'',
         mp_inputUsdPerMillion := 10, mp_cachedInputUsdPerMillion := Some 1,
         mp_cacheCreationUsdPerMillion := Some 12.5, mp_outputUsdPerMillion := 50,
         mp_notes := Some ''Preview fast-mode row from GitHub Docs.''\<rparr>),
      copilotPricing (no_pricing\<lparr>mp_provider := Some ''anthropic'', mp_modelPattern := ''^claude[- ]fable[- ]5$'',
         mp_inputUsdPerMillion := 10, mp_cachedInputUsdPerMillion := Some 1,
         mp_cacheCreationUsdPerMillion := Some 12.5, mp_outputUsdPerMillion := 50,
         mp_notes := Some ''GitHub Docs publish this price row while also marking Claude Fable 5 currently unavailable.''\<rparr>),
      copilotPricing (no_pricing\<lparr>mp_provider := Some ''google'', mp_modelPattern := pat ''^gemini[- ]2~.5[- ]pro$'',
         mp_inputUsdPerMillion := 1.25, mp_cachedInputUsdPerMillion := Some 0.125,
         mp_outputUsdPerMillion := 10\<rparr>),
      copilotPricing (no_pricing\<lparr>mp_provider := Some ''google'', mp_modelPattern := ''^gemini[- ]3[- ]flash$'',
         mp_inputUsdPerMillion := 0.5, mp_cachedInputUsdPerMillion := Some 0.05,
         mp_outputUsdPerMillion := 3\<rparr>),
      copilotPricing (no_pricing\<lparr>mp_provider := Some ''google'', mp_modelPattern := pat ''^gemini[- ]3~.1[- ]pro$'',
         mp_maxInputTokens := Some 200000, mp_inputUsdPerMillion := 2,
         mp_cachedInputUsdPerMillion := Some 0.2, mp_outputUsdPerMillion := 12,
         mp_notes := Some ''Default tier applies at or below 200K input tokens.''\<rparr>),
      copilotPricing (no_pricing\<lparr>mp_provider := Some ''google'', mp_modelPattern := pat ''^gemini[- ]3~.1[- ]pro$'',
         mp_minInputTokens := Some 200001, mp_inputUsdPerMillion := 4,
         mp_cachedInputUsdPerMillion := Some 0.4, mp_outputUsdPerMillion := 18,
         mp_notes := Some ''Long-context tier applies above 200K input tokens.''\<rparr>),
      copilotPricing (no_pricing\<lparr>mp_provider := Some ''google'', mp_modelPattern := pat ''^gemini[- ]3~.5[- ]flash$'',
         mp_inputUsdPerMillion := 1.5, mp_cachedInputUsdPerMillion := Some 0.15,
         mp_outputUsdPerMillion := 9\<rparr>),
      copilotPricing (no_pricing\<lparr>mp_provider := Some ''github'', mp_modelPattern := ''^raptor[- ]mini$'',
         mp_inputUsdPerMillion := 0.25, mp_cachedInputUsdPerMillion := Some 0.025,
         mp_outputUsdPerMillion := 2\<rparr>),
      copilotPricing (no_pricing\<lparr>mp_provider := Some ''microsoft'', mp_modelPattern := ''^mai[- ]code[- ]1[- ]flash$'',
         mp_inputUsdPerMillion := 0.75, mp_cachedInputUsdPerMillion := Some 0.075,
         mp_outputUsdPerMillion := 4.5\<rparr>)]"

section \<open>OpenAI\<close>

definition OPENAI_PRICING_VERSION :: string where
  "OPENAI_PRICING_VERSION =
     ''openai-pricing-2026-07-01-standard''"

definition OPENAI_PRICING_SOURCE_URL :: string where
  "OPENAI_PRICING_SOURCE_URL =
     ''https://developers.openai.com/api/docs/pricing''"

definition OPENAI_STANDARD_NOTE :: string where
  "OPENAI_STANDARD_NOTE =
     ''OpenAI API Standard pricing.''"

definition OPENAI_SHORT_CONTEXT_NOTE :: string where
  "OPENAI_SHORT_CONTEXT_NOTE =
     OPENAI_STANDARD_NOTE @ '' Short-context tier applies at or below 272K input tokens.''"

definition OPENAI_LONG_CONTEXT_NOTE :: string where
  "OPENAI_LONG_CONTEXT_NOTE =
     OPENAI_STANDARD_NOTE @ '' Long-context tier applies above 272K input tokens.''"

definition OPENAI_STANDARD_SHORT_CONTEXT_PRICING :: "model_pricing list" where
  "OPENAI_STANDARD_SHORT_CONTEXT_PRICING = [
      no_pricing\<lparr>mp_provider := Some ''openai'', mp_modelPattern := pat ''^gpt-5~.5$'',
         mp_maxInputTokens := Some 272000, mp_pricingVersion := Some OPENAI_PRICING_VERSION,
         mp_inputUsdPerMillion := 5, mp_cachedInputUsdPerMillion := Some 0.5,
         mp_outputUsdPerMillion := 30, mp_effectiveFrom := ''2026-05-30'',
         mp_sourceUrl := Some OPENAI_PRICING_SOURCE_URL,
         mp_notes := Some OPENAI_SHORT_CONTEXT_NOTE\<rparr>,
      no_pricing\<lparr>mp_provider := Some ''openai'', mp_modelPattern := pat ''^gpt-5~.5$'',
         mp_minInputTokens := Some 272001, mp_pricingVersion := Some OPENAI_PRICING_VERSION,
         mp_inputUsdPerMillion := 10, mp_cachedInputUsdPerMillion := Some 1,
         mp_outputUsdPerMillion := 45, mp_effectiveFrom := ''2026-07-01'',
         mp_sourceUrl := Some OPENAI_PRICING_SOURCE_URL,
         mp_notes := Some OPENAI_LONG_CONTEXT_NOTE\<rparr>,
      no_pricing\<lparr>mp_provider := Some ''openai'', mp_modelPattern := pat ''^gpt-5~.5-pro$'',
         mp_maxInputTokens := Some 272000, mp_pricingVersion := Some OPENAI_PRICING_VERSION,
         mp_inputUsdPerMillion := 30, mp_outputUsdPerMillion := 180,
         mp_effectiveFrom := ''2026-05-30'', mp_sourceUrl := Some OPENAI_PRICING_SOURCE_URL,
         mp_notes := Some OPENAI_SHORT_CONTEXT_NOTE\<rparr>,
      no_pricing\<lparr>mp_provider := Some ''openai'', mp_modelPattern := pat ''^gpt-5~.5-pro$'',
         mp_minInputTokens := Some 272001, mp_pricingVersion := Some OPENAI_PRICING_VERSION,
         mp_inputUsdPerMillion := 60, mp_outputUsdPerMillion := 270,
         mp_effectiveFrom := ''2026-07-01'', mp_sourceUrl := Some OPENAI_PRICING_SOURCE_URL,
         mp_notes := Some OPENAI_LONG_CONTEXT_NOTE\<rparr>,
      no_pricing\<lparr>mp_provider := Some ''openai'', mp_modelPattern := pat ''^gpt-5~.4$'',
         mp_maxInputTokens := Some 272000, mp_pricingVersion := Some OPENAI_PRICING_VERSION,
         mp_inputUsdPerMillion := 2.5, mp_cachedInputUsdPerMillion := Some 0.25,
         mp_outputUsdPerMillion := 15, mp_effectiveFrom := ''2026-05-30'',
         mp_sourceUrl := Some OPENAI_PRICING_SOURCE_URL,
         mp_notes := Some OPENAI_SHORT_CONTEXT_NOTE\<rparr>,
      no_pricing\<lparr>mp_provider := Some ''openai'', mp_modelPattern := pat ''^gpt-5~.4$'',
         mp_minInputTokens := Some 272001, mp_pricingVersion := Some OPENAI_PRICING_VERSION,
         mp_inputUsdPerMillion := 5, mp_cachedInputUsdPerMillion := Some 0.5,
         mp_outputUsdPerMillion := 22.5, mp_effectiveFrom := ''2026-07-01'',
         mp_sourceUrl := Some OPENAI_PRICING_SOURCE_URL,
         mp_notes := Some OPENAI_LONG_CONTEXT_NOTE\<rparr>,
      no_pricing\<lparr>mp_provider := Some ''openai'', mp_modelPattern := pat ''^gpt-5~.4-mini$'',
         mp_pricingVersion := Some OPENAI_PRICING_VERSION, mp_inputUsdPerMillion := 0.75,
         mp_cachedInputUsdPerMillion := Some 0.075, mp_outputUsdPerMillion := 4.5,
         mp_effectiveFrom := ''2026-05-30'', mp_sourceUrl := Some OPENAI_PRICING_SOURCE_URL,
         mp_notes := Some OPENAI_STANDARD_NOTE\<rparr>,
      no_pricing\<lparr>mp_provider := Some ''openai'', mp_modelPattern := pat ''^gpt-5~.4-nano$'',
         mp_pricingVersion := Some OPENAI_PRICING_VERSION, mp_inputUsdPerMillion := 0.2,
         mp_cachedInputUsdPerMillion := Some 0.02, mp_outputUsdPerMillion := 1.25,
         mp_effectiveFrom := ''2026-05-30'', mp_sourceUrl := Some OPENAI_PRICING_SOURCE_URL,
         mp_notes := Some OPENAI_STANDARD_NOTE\<rparr>,
      no_pricing\<lparr>mp_provider := Some ''openai'', mp_modelPattern := pat ''^gpt-5~.4-pro$'',
         mp_maxInputTokens := Some 272000, mp_pricingVersion := Some OPENAI_PRICING_VERSION,
         mp_inputUsdPerMillion := 30, mp_outputUsdPerMillion := 180,
         mp_effectiveFrom := ''2026-05-30'', mp_sourceUrl := Some OPENAI_PRICING_SOURCE_URL,
         mp_notes := Some OPENAI_SHORT_CONTEXT_NOTE\<rparr>,
      no_pricing\<lparr>mp_provider := Some ''openai'', mp_modelPattern := pat ''^gpt-5~.4-pro$'',
         mp_minInputTokens := Some 272001, mp_pricingVersion := Some OPENAI_PRICING_VERSION,
         mp_inputUsdPerMillion := 60, mp_outputUsdPerMillion := 270,
         mp_effectiveFrom := ''2026-07-01'', mp_sourceUrl := Some OPENAI_PRICING_SOURCE_URL,
         mp_notes := Some OPENAI_LONG_CONTEXT_NOTE\<rparr>,
      no_pricing\<lparr>mp_provider := Some ''openai'', mp_modelPattern := ''^chat-latest$'',
         mp_pricingVersion := Some OPENAI_PRICING_VERSION, mp_inputUsdPerMillion := 5,
         mp_cachedInputUsdPerMillion := Some 0.5, mp_outputUsdPerMillion := 30,
         mp_effectiveFrom := ''2026-05-30'', mp_sourceUrl := Some OPENAI_PRICING_SOURCE_URL,
         mp_notes := Some OPENAI_STANDARD_NOTE\<rparr>,
      no_pricing\<lparr>mp_provider := Some ''openai'', mp_modelPattern := pat ''^gpt-5~.3-codex$'',
         mp_pricingVersion := Some OPENAI_PRICING_VERSION, mp_inputUsdPerMillion := 1.75,
         mp_cachedInputUsdPerMillion := Some 0.175, mp_outputUsdPerMillion := 14,
         mp_effectiveFrom := ''2026-05-30'', mp_sourceUrl := Some OPENAI_PRICING_SOURCE_URL,
         mp_notes := Some OPENAI_STANDARD_NOTE\<rparr>]"

definition isOpenAiPricedModel :: "string \<Rightarrow> bool" where
  "isOpenAiPricedModel model =
     (let normalized = to_lower (trim model)
      in (starts_with normalized ''gpt-'' \<or> starts_with normalized ''o3''
          \<or> starts_with normalized ''o4'' \<or> normalized = ''chat-latest''
          \<or> str_includes normalized ''openai'')
         \<and> \<not> str_includes normalized ''claude'' \<and> \<not> str_includes normalized ''anthropic'')"

section \<open>Anthropic\<close>

definition ANTHROPIC_PRICING_VERSION :: string where
  "ANTHROPIC_PRICING_VERSION =
     ''anthropic-pricing-2026-07-01-first-party''"

definition ANTHROPIC_PRICING_SOURCE_URL :: string where
  "ANTHROPIC_PRICING_SOURCE_URL =
     ''https://platform.claude.com/docs/en/about-claude/pricing''"

definition ANTHROPIC_CACHE_DURATION_NOTE :: string where
  "ANTHROPIC_CACHE_DURATION_NOTE =
     ''Anthropic first-party Claude API pricing. Cache creation rates vary by duration and are not priced without an explicit write-duration signal.''"

definition ANTHROPIC_STANDARD_PRICING :: "model_pricing list" where
  "ANTHROPIC_STANDARD_PRICING = [
      no_pricing\<lparr>mp_provider := Some ''anthropic'', mp_modelPattern := ''^claude-fable-5$'',
         mp_inputUsdPerMillion := 10, mp_cachedInputUsdPerMillion := Some 1,
         mp_outputUsdPerMillion := 50, mp_effectiveFrom := ''2026-07-01'',
         mp_pricingVersion := Some ANTHROPIC_PRICING_VERSION,
         mp_sourceUrl := Some ANTHROPIC_PRICING_SOURCE_URL,
         mp_notes := Some ANTHROPIC_CACHE_DURATION_NOTE\<rparr>,
      no_pricing\<lparr>mp_provider := Some ''anthropic'', mp_modelPattern := ''^claude-mythos-5$'',
         mp_inputUsdPerMillion := 10, mp_cachedInputUsdPerMillion := Some 1,
         mp_outputUsdPerMillion := 50, mp_effectiveFrom := ''2026-07-01'',
         mp_pricingVersion := Some ANTHROPIC_PRICING_VERSION,
         mp_sourceUrl := Some ANTHROPIC_PRICING_SOURCE_URL,
         mp_notes := Some (ANTHROPIC_CACHE_DURATION_NOTE @ '' Claude Mythos 5 is limited availability in Anthropic's published pricing table.'')\<rparr>,
      no_pricing\<lparr>mp_provider := Some ''anthropic'',
         mp_modelPattern := pat ''^claude-opus-4(?:~.8|-8)$'', mp_inputUsdPerMillion := 5,
         mp_cachedInputUsdPerMillion := Some 0.5, mp_outputUsdPerMillion := 25,
         mp_effectiveFrom := ''2026-06-01'',
         mp_pricingVersion := Some ANTHROPIC_PRICING_VERSION,
         mp_sourceUrl := Some ANTHROPIC_PRICING_SOURCE_URL,
         mp_notes := Some ANTHROPIC_CACHE_DURATION_NOTE\<rparr>,
      no_pricing\<lparr>mp_provider := Some ''anthropic'',
         mp_modelPattern := pat ''^claude-opus-4(?:~.1|-1)$'', mp_inputUsdPerMillion := 15,
         mp_cachedInputUsdPerMillion := Some 1.5, mp_outputUsdPerMillion := 75,
         mp_effectiveFrom := ''2026-07-01'',
         mp_pricingVersion := Some ANTHROPIC_PRICING_VERSION,
         mp_sourceUrl := Some ANTHROPIC_PRICING_SOURCE_URL,
         mp_notes := Some (ANTHROPIC_CACHE_DURATION_NOTE @ '' Claude Opus 4.1 is deprecated in Anthropic's published pricing table.'')\<rparr>,
      no_pricing\<lparr>mp_provider := Some ''anthropic'',
         mp_modelPattern := pat ''^claude-opus-4(?:~.7|-7)$'', mp_inputUsdPerMillion := 5,
         mp_cachedInputUsdPerMillion := Some 0.5, mp_outputUsdPerMillion := 25,
         mp_effectiveFrom := ''2026-06-01'',
         mp_pricingVersion := Some ANTHROPIC_PRICING_VERSION,
         mp_sourceUrl := Some ANTHROPIC_PRICING_SOURCE_URL,
         mp_notes := Some ANTHROPIC_CACHE_DURATION_NOTE\<rparr>,
      no_pricing\<lparr>mp_provider := Some ''anthropic'',
         mp_modelPattern := pat ''^claude-opus-4(?:~.6|-6)$'', mp_inputUsdPerMillion := 5,
         mp_cachedInputUsdPerMillion := Some 0.5, mp_outputUsdPerMillion := 25,
         mp_effectiveFrom := ''2026-06-01'',
         mp_pricingVersion := Some ANTHROPIC_PRICING_VERSION,
         mp_sourceUrl := Some ANTHROPIC_PRICING_SOURCE_URL,
         mp_notes := Some ANTHROPIC_CACHE_DURATION_NOTE\<rparr>,
      no_pricing\<lparr>mp_provider := Some ''anthropic'',
         mp_modelPattern := pat ''^claude-opus-4(?:~.5|-5)$'', mp_inputUsdPerMillion := 5,
         mp_cachedInputUsdPerMillion := Some 0.5, mp_outputUsdPerMillion := 25,
         mp_effectiveFrom := ''2026-06-01'',
         mp_pricingVersion := Some ANTHROPIC_PRICING_VERSION,
         mp_sourceUrl := Some ANTHROPIC_PRICING_SOURCE_URL,
         mp_notes := Some ANTHROPIC_CACHE_DURATION_NOTE\<rparr>,
      no_pricing\<lparr>mp_provider := Some ''anthropic'', mp_modelPattern := ''^claude-sonnet-5$'',
         mp_inputUsdPerMillion := 3, mp_cachedInputUsdPerMillion := Some 0.3,
         mp_outputUsdPerMillion := 15, mp_effectiveFrom := ''2026-09-01'',
         mp_pricingVersion := Some ANTHROPIC_PRICING_VERSION,
         mp_sourceUrl := Some ANTHROPIC_PRICING_SOURCE_URL,
         mp_notes := Some (ANTHROPIC_CACHE_DURATION_NOTE @ '' Standard Claude Sonnet 5 pricing starts September 1, 2026.'')\<rparr>,
      no_pricing\<lparr>mp_provider := Some ''anthropic'', mp_modelPattern := ''^claude-sonnet-5$'',
         mp_inputUsdPerMillion := 2, mp_cachedInputUsdPerMillion := Some 0.2,
         mp_outputUsdPerMillion := 10, mp_effectiveFrom := ''2026-07-01'',
         mp_pricingVersion := Some ANTHROPIC_PRICING_VERSION,
         mp_sourceUrl := Some ANTHROPIC_PRICING_SOURCE_URL,
         mp_notes := Some (ANTHROPIC_CACHE_DURATION_NOTE @ '' Introductory Claude Sonnet 5 pricing is effective through August 31, 2026.'')\<rparr>,
      no_pricing\<lparr>mp_provider := Some ''anthropic'',
         mp_modelPattern := pat ''^claude-sonnet-4(?:~.6|-6)$'', mp_inputUsdPerMillion := 3,
         mp_cachedInputUsdPerMillion := Some 0.3, mp_outputUsdPerMillion := 15,
         mp_effectiveFrom := ''2026-06-01'',
         mp_pricingVersion := Some ANTHROPIC_PRICING_VERSION,
         mp_sourceUrl := Some ANTHROPIC_PRICING_SOURCE_URL,
         mp_notes := Some ANTHROPIC_CACHE_DURATION_NOTE\<rparr>,
      no_pricing\<lparr>mp_provider := Some ''anthropic'',
         mp_modelPattern := pat ''^claude-sonnet-4(?:~.5|-5)$'', mp_inputUsdPerMillion := 3,
         mp_cachedInputUsdPerMillion := Some 0.3, mp_outputUsdPerMillion := 15,
         mp_effectiveFrom := ''2026-06-01'',
         mp_pricingVersion := Some ANTHROPIC_PRICING_VERSION,
         mp_sourceUrl := Some ANTHROPIC_PRICING_SOURCE_URL,
         mp_notes := Some ANTHROPIC_CACHE_DURATION_NOTE\<rparr>,
      no_pricing\<lparr>mp_provider := Some ''anthropic'',
         mp_modelPattern := pat ''^claude-haiku-4(?:~.5|-5)$'', mp_inputUsdPerMillion := 1,
         mp_cachedInputUsdPerMillion := Some 0.1, mp_outputUsdPerMillion := 5,
         mp_effectiveFrom := ''2026-06-01'',
         mp_pricingVersion := Some ANTHROPIC_PRICING_VERSION,
         mp_sourceUrl := Some ANTHROPIC_PRICING_SOURCE_URL,
         mp_notes := Some ANTHROPIC_CACHE_DURATION_NOTE\<rparr>]"

section \<open>Cursor\<close>

definition CURSOR_PRICING_VERSION :: string where
  "CURSOR_PRICING_VERSION =
     ''cursor-pricing-2026-07-03''"

definition CURSOR_PRICING_SOURCE_URL :: string where
  "CURSOR_PRICING_SOURCE_URL =
     ''https://cursor.com/docs/models-and-pricing''"

definition CURSOR_MODEL_SOURCE_URL :: string where
  "CURSOR_MODEL_SOURCE_URL =
     ''https://cursor.com/docs/models/cursor-composer-2-5''"

definition CURSOR_PRICING_EFFECTIVE_FROM :: string where
  "CURSOR_PRICING_EFFECTIVE_FROM =
     ''2026-07-03''"

definition CURSOR_PRICING_NOTE :: string where
  "CURSOR_PRICING_NOTE =
     ''Cursor-published per-million-token pricing. Estimates do not include plan allowances, on-demand settings, routing policies, taxes, discounts, or dashboard rounding.''"

definition cursorPricing :: "model_pricing \<Rightarrow> model_pricing" where
  "cursorPricing i = i\<lparr>mp_provider := Some ''cursor'',
     mp_pricingVersion := Some CURSOR_PRICING_VERSION,
     mp_effectiveFrom := CURSOR_PRICING_EFFECTIVE_FROM,
     mp_sourceUrl := Some (nullish (mp_sourceUrl i) CURSOR_PRICING_SOURCE_URL),
     mp_notes := Some (case mp_notes i of
         None \<Rightarrow> CURSOR_PRICING_NOTE
       | Some n \<Rightarrow> if n = [] then CURSOR_PRICING_NOTE else CURSOR_PRICING_NOTE @ '' '' @ n)\<rparr>"

definition CURSOR_PRICING :: "model_pricing list" where
  "CURSOR_PRICING = [
      cursorPricing (no_pricing\<lparr>mp_modelPattern := ''^(?:cursor[- ./:])?auto$'', mp_inputUsdPerMillion := 1.25,
         mp_cacheCreationUsdPerMillion := Some 1.25, mp_cachedInputUsdPerMillion := Some 0.25,
         mp_outputUsdPerMillion := 6,
         mp_notes := Some ''Auto draws from Cursor's Auto + Composer pool.''\<rparr>),
      cursorPricing (no_pricing\<lparr>mp_modelPattern := ''^(?:cursor[- ./:])?composer[- ]1$'',
         mp_inputUsdPerMillion := 1.25, mp_cacheCreationUsdPerMillion := Some 1.25,
         mp_cachedInputUsdPerMillion := Some 0.125, mp_outputUsdPerMillion := 10,
         mp_notes := Some ''Composer 1 is hidden in Cursor's current model catalog but remains documented for historical client emissions.''\<rparr>),
      cursorPricing (no_pricing\<lparr>mp_modelPattern := pat ''^(?:cursor[- ./:])?composer[- ]1~.5$'',
         mp_inputUsdPerMillion := 3.5, mp_cacheCreationUsdPerMillion := Some 3.5,
         mp_cachedInputUsdPerMillion := Some 0.35, mp_outputUsdPerMillion := 17.5,
         mp_notes := Some ''Composer 1.5 is hidden in Cursor's current model catalog but remains documented for historical client emissions.''\<rparr>),
      cursorPricing (no_pricing\<lparr>mp_modelPattern := ''^(?:cursor[- ./:])?composer[- ]2$'', mp_inputUsdPerMillion := 0.5,
         mp_cacheCreationUsdPerMillion := Some 0.5, mp_cachedInputUsdPerMillion := Some 0.2,
         mp_outputUsdPerMillion := 2.5, mp_notes := Some ''Composer 2 standard tier.''\<rparr>),
      cursorPricing (no_pricing\<lparr>mp_modelPattern := ''^(?:cursor[- ./:])?composer[- ]2[- ]fast$'',
         mp_inputUsdPerMillion := 1.5, mp_cacheCreationUsdPerMillion := Some 1.5,
         mp_cachedInputUsdPerMillion := Some 0.35, mp_outputUsdPerMillion := 7.5,
         mp_notes := Some ''Composer 2 fast tier.''\<rparr>),
      cursorPricing (no_pricing\<lparr>mp_modelPattern := pat ''^(?:cursor[- ./:])?composer[- ]2~.5$'',
         mp_inputUsdPerMillion := 0.5, mp_cacheCreationUsdPerMillion := Some 0.5,
         mp_cachedInputUsdPerMillion := Some 0.2, mp_outputUsdPerMillion := 2.5,
         mp_sourceUrl := Some CURSOR_MODEL_SOURCE_URL,
         mp_notes := Some ''Composer 2.5 standard tier.''\<rparr>),
      cursorPricing (no_pricing\<lparr>mp_modelPattern := pat ''^(?:cursor[- ./:])?composer[- ]2~.5[- ]fast$'',
         mp_inputUsdPerMillion := 3, mp_cacheCreationUsdPerMillion := Some 3,
         mp_cachedInputUsdPerMillion := Some 0.5, mp_outputUsdPerMillion := 15,
         mp_sourceUrl := Some CURSOR_MODEL_SOURCE_URL,
         mp_notes := Some ''Composer 2.5 fast tier. Cursor documents this as the default fast variant for interactive sessions.''\<rparr>)]"

definition cursor_priced_pattern :: string where
  "cursor_priced_pattern =
     pat ''^(?:cursor[- ./:])?(?:auto|composer[- ](?:1|1~.5|2|2[- ]fast|2~.5|2~.5[- ]fast))$''"

definition isCursorPricedModel :: "string \<Rightarrow> bool" where
  "isCursorPricedModel model =
     rx_matches False cursor_priced_pattern
       (map (\<lambda>c. if c = CHR ''_'' then CHR ''-'' else c) (to_lower (trim model)))"

section \<open>The catalogs are well formed\<close>

definition row_ok :: "model_pricing \<Rightarrow> bool" where
  "row_ok p \<longleftrightarrow>
     rx_compile (mp_modelPattern p) \<noteq> None \<and> date_ms (mp_effectiveFrom p) \<noteq> None
     \<and> 0 \<le> mp_inputUsdPerMillion p \<and> 0 \<le> mp_outputUsdPerMillion p
     \<and> (case mp_cachedInputUsdPerMillion p of None \<Rightarrow> True | Some r \<Rightarrow> 0 \<le> r)
     \<and> (case mp_cacheCreationUsdPerMillion p of None \<Rightarrow> True | Some r \<Rightarrow> 0 \<le> r)"

definition rows_disjoint :: "model_pricing \<Rightarrow> model_pricing \<Rightarrow> bool" where
  "rows_disjoint p q \<longleftrightarrow>
     mp_modelPattern p \<noteq> mp_modelPattern q
     \<or> date_ms (mp_effectiveFrom p) \<noteq> date_ms (mp_effectiveFrom q)
     \<or> (case (mp_maxInputTokens p, mp_minInputTokens q) of (Some u, Some l) \<Rightarrow> u < l | _ \<Rightarrow> False)"

fun table_ok :: "model_pricing list \<Rightarrow> bool" where
  "table_ok [] = True"
| "table_ok (p # ps) = (row_ok p \<and> list_all (rows_disjoint p) ps \<and> table_ok ps)"

lemma table_ok_rows: "table_ok ps \<Longrightarrow> p \<in> set ps \<Longrightarrow> row_ok p"
  by (induction ps rule: table_ok.induct) auto

lemma copilot_table_ok: "table_ok COPILOT_PRICING"
  by code_simp

lemma openai_table_ok: "table_ok OPENAI_STANDARD_SHORT_CONTEXT_PRICING"
  by code_simp

lemma anthropic_table_ok: "table_ok ANTHROPIC_STANDARD_PRICING"
  by code_simp

lemma cursor_table_ok: "table_ok CURSOR_PRICING"
  by code_simp

end
