(* ===== verification/CostEstimation.thy ===== *)
theory CostEstimation
  imports PricingTables OtelSemantics
begin

text \<open>
  The cost of a usage slice: src/src/pricing/costEstimation.ts, class
  \<open>DefaultCostEstimation\<close>. The object's state is its catalog, which no method changes, so each
  method takes the catalog as an argument. A price row is chosen by \<open>findPricing\<close>: the rows
  in force at the start of the run, newest first, and of these the first that matches the
  provider, the model and the input size. Amounts are rationals; a component is rounded to a
  whole nano-USD as in the source.
\<close>

definition EMPTY_PRICING_CATALOG :: pricing_catalog where
  "EMPTY_PRICING_CATALOG = \<lparr>cat_billingContext = Openai_direct, cat_primaryBillingUnit = Usd,
     cat_pricingVersions = [], cat_pricingTable = []\<rparr>"

section \<open>Choosing a row\<close>

definition pricingProviderCandidates :: "string \<Rightarrow> string option \<Rightarrow> string list" where
  "pricingProviderCandidates model provider =
     (let normalizedProvider = normalizeProvider provider;
          inferredProvider = inferProviderFromModel (Some model)
      in case inferredProvider of
           Some i \<Rightarrow>
             if normalizedProvider = Some ''github'' \<and> i \<noteq> ''github'' then [i, ''github'']
             else unique_strings [nullish normalizedProvider '''', i]
         | None \<Rightarrow> unique_strings [nullish normalizedProvider '''', ''''])"

definition matchesPattern :: "string \<Rightarrow> string \<Rightarrow> bool" where
  "matchesPattern model pattern =
     (if model = pattern then True
      else case rx_compile pattern of
        Some r \<Rightarrow> rx_test True r model
      | None \<Rightarrow> str_includes (to_lower model) (to_lower pattern))"

definition matchesTokenRange :: "model_pricing \<Rightarrow> ('a token_breakdown_scheme) option \<Rightarrow> bool" where
  "matchesTokenRange pricing tokens =
     (let input = nullish (Option.bind tokens inputTokens) 0
      in (case mp_minInputTokens pricing of None \<Rightarrow> True | Some l \<Rightarrow> l \<le> input)
         \<and> (case mp_maxInputTokens pricing of None \<Rightarrow> True | Some u \<Rightarrow> input \<le> u))"

definition isLongContextUnpublished :: "model_pricing \<Rightarrow> rat \<Rightarrow> bool" where
  "isLongContextUnpublished pricing input =
     (case mp_longContextInputThreshold pricing of None \<Rightarrow> False | Some t \<Rightarrow> t < input)"

record pricing_row_match =
  pr_model :: string
  pr_pricing :: model_pricing
  pr_provider :: "string option"

text \<open>The rows in force at the start of a run with their indexes, in the order of the sort.\<close>

definition newest_first :: "nat \<times> model_pricing \<Rightarrow> nat \<times> model_pricing \<Rightarrow> bool" where
  "newest_first a b =
     (let byDate = the (date_ms (mp_effectiveFrom (snd b))) - the (date_ms (mp_effectiveFrom (snd a)))
      in if byDate \<noteq> 0 then byDate \<le> 0 else fst a \<le> fst b)"

definition pricing_candidates :: "model_pricing list \<Rightarrow> string \<Rightarrow> (nat \<times> model_pricing) list" where
  "pricing_candidates table startedAt =
     sort_by newest_first
       (filter (\<lambda>(i, p). ms_le (date_ms (mp_effectiveFrom p)) (date_ms startedAt))
          (zip [0..<length table] table))"

fun first_row :: "string \<Rightarrow> string list \<Rightarrow> ('a token_breakdown_scheme) option
    \<Rightarrow> (nat \<times> model_pricing) list \<Rightarrow> pricing_row_match option" where
  "first_row model providerCandidates tokens [] = None"
| "first_row model providerCandidates tokens ((i, pricing) # rows) =
     (let pricingProvider = normalizeProvider (mp_provider pricing);
          matchedProvider =
            find (\<lambda>c. pricingProvider = None \<or> Some c = pricingProvider) providerCandidates
      in if pricingProvider \<noteq> None \<and> matchedProvider = None
         then first_row model providerCandidates tokens rows
         else if matchesPattern model (mp_modelPattern pricing) \<and> matchesTokenRange pricing tokens
         then Some \<lparr>pr_model = model, pr_pricing = pricing,
                    pr_provider = or_else matchedProvider pricingProvider\<rparr>
         else first_row model providerCandidates tokens rows)"

fun findPricing :: "model_pricing list \<Rightarrow> string list \<Rightarrow> string \<Rightarrow> string option
    \<Rightarrow> ('a token_breakdown_scheme) option \<Rightarrow> pricing_row_match option" where
  "findPricing table [] startedAt provider tokens = None"
| "findPricing table (model # models) startedAt provider tokens =
     (case first_row model (pricingProviderCandidates model provider) tokens
             (pricing_candidates table startedAt) of
        Some m \<Rightarrow> Some m
      | None \<Rightarrow> findPricing table models startedAt provider tokens)"

section \<open>Pricing a slice\<close>

definition priceComponent :: "rat \<Rightarrow> rat option \<Rightarrow> rat \<times> bool" where
  "priceComponent tokens usdPerMillion =
     (if tokens = 0 then (0, False)
      else case usdPerMillion of
        None \<Rightarrow> (0, True)
      | Some rate \<Rightarrow> (js_round ((tokens * rate * NANO_USD_PER_USD) / 1000000), False))"

definition resolveBilledOutputTokens :: "'a token_breakdown_scheme \<Rightarrow> rat" where
  "resolveBilledOutputTokens tokens =
     (case outputTokens tokens of
        Some n \<Rightarrow> max 0 n
      | None \<Rightarrow>
          (case (totalTokens tokens, inputTokens tokens) of
             (Some t, Some i) \<Rightarrow> max 0 (t - i)
           | _ \<Rightarrow> 0))"

definition hasAnyTokenData :: "'a token_breakdown_scheme \<Rightarrow> bool" where
  "hasAnyTokenData tokens =
     list_ex (\<lambda>v. v \<noteq> None)
       [inputTokens tokens, outputTokens tokens, cacheReadInputTokens tokens,
        cacheCreationInputTokens tokens, reasoningOutputTokens tokens, totalTokens tokens]"

definition resolvePricingVersion :: "model_pricing \<Rightarrow> string \<Rightarrow> string" where
  "resolvePricingVersion pricing defaultPricingVersion =
     nullish (mp_pricingVersion pricing) defaultPricingVersion"

definition first_string :: "string list \<Rightarrow> string" where
  "first_string xs = (case xs of [] \<Rightarrow> '''' | x # _ \<Rightarrow> x)"

definition buildEstimate :: "rat \<Rightarrow> billing_context option \<Rightarrow> pricing_coverage
    \<Rightarrow> pricing_match option \<Rightarrow> string list \<Rightarrow> cost_estimate" where
  "buildEstimate nano context coverage match notes =
     \<lparr>ce_billingContext = or_else context (Option.bind match pm_billingContext),
      ce_estimatedNanoUsd = nano,
      ce_estimatedUsd = nullish (usdFromNanoUsd (Some nano)) 0,
      ce_estimatedAiCredits = nullish (aiCreditsFromNanoUsd (Some nano)) 0,
      ce_pricingVersion = nullish (map_option pm_pricingVersion match)
        (first_string (pc_pricingVersions coverage)),
      ce_matchedModel = nullish (or_else (Option.bind match pm_matchedModel)
        (Option.bind match pm_model)) '''',
      ce_pricingMatch = match,
      ce_pricingCoverage = coverage\<lparr>
        pc_reasons := dedup (pc_reasons coverage),
        pc_pricedModels := unique_strings (pc_pricedModels coverage),
        pc_unpricedModels := unique_strings (pc_unpricedModels coverage),
        pc_pricingVersions := unique_strings (pc_pricingVersions coverage),
        pc_pricingEffectiveFrom := unique_strings (pc_pricingEffectiveFrom coverage)\<rparr>,
      ce_notes = unique_strings notes\<rparr>"

definition unpriced_coverage :: "coverage_reason \<Rightarrow> string list \<Rightarrow> nat \<Rightarrow> pricing_coverage" where
  "unpriced_coverage reason unpriced missing =
     \<lparr>pc_state = Unpriced, pc_reasons = [reason], pc_pricedModels = [],
      pc_unpricedModels = unpriced, pc_missingModelSlices = missing,
      pc_pricingVersions = [], pc_pricingEffectiveFrom = []\<rparr>"

definition base_notes :: "pricing_catalog \<Rightarrow> string list" where
  "base_notes catalog =
     [''Estimated from local token telemetry and the active ''
        @ billing_context_str (cat_billingContext catalog)
        @ '' pricing catalog when rates are available.'',
      ''Billing can include policies, routing, tiers, discounts, allowances, or rounding not visible in local telemetry.'']"

text \<open>The amounts billed in each category: input that was not cached, cache reads, cache
  writes and output.\<close>

definition billed_components :: "'a token_breakdown_scheme \<Rightarrow> model_pricing \<Rightarrow> (rat \<times> rat option) list" where
  "billed_components tokens pricing =
     (let cacheRead = nullish (cacheReadInputTokens tokens) 0;
          cacheCreation = nullish (cacheCreationInputTokens tokens) 0;
          input = nullish (inputTokens tokens) 0;
          nonCachedInput = max 0 (input - cacheRead - cacheCreation)
      in [(nonCachedInput, Some (mp_inputUsdPerMillion pricing)),
          (cacheRead, mp_cachedInputUsdPerMillion pricing),
          (cacheCreation, mp_cacheCreationUsdPerMillion pricing),
          (resolveBilledOutputTokens tokens, Some (mp_outputUsdPerMillion pricing))])"

definition matched_estimate :: "pricing_catalog \<Rightarrow> string \<Rightarrow> 'a token_breakdown_scheme
    \<Rightarrow> pricing_row_match \<Rightarrow> cost_estimate" where
  "matched_estimate catalog model tokens match =
     (let pricing = pr_pricing match;
          components = map (\<lambda>(n, rate). priceComponent n rate) (billed_components tokens pricing);
          nano = sum_list (map fst components);
          missingRate = list_ex snd components;
          longContextUnpublished =
            isLongContextUnpublished pricing (nullish (inputTokens tokens) 0);
          reasons = (if missingRate then [Pricing_rate_missing] else [])
            @ (if longContextUnpublished then [Long_context_rate_unpublished] else []);
          pricingVersion =
            resolvePricingVersion pricing (first_string (cat_pricingVersions catalog));
          coverageState =
            (if reasons \<noteq> []
             then (if missingRate \<and> nano = 0 then Unpriced else Partially_priced)
             else Priced);
          coverage =
            \<lparr>pc_state = coverageState, pc_reasons = reasons, pc_pricedModels = [model],
             pc_unpricedModels = (if reasons \<noteq> [] then [model] else []),
             pc_missingModelSlices = 0, pc_pricingVersions = [pricingVersion],
             pc_pricingEffectiveFrom = [mp_effectiveFrom pricing]\<rparr>;
          pricingMatch =
            \<lparr>pm_billingContext = Some (cat_billingContext catalog),
             pm_provider = or_else (pr_provider match) (mp_provider pricing),
             pm_model = Some model, pm_matchedModel = Some (pr_model match),
             pm_pricingVersion = pricingVersion,
             pm_effectiveFrom = Some (mp_effectiveFrom pricing),
             pm_sourceUrl = mp_sourceUrl pricing,
             pm_notes = unique_strings [nullish (mp_notes pricing) '''']\<rparr>;
          notes = base_notes catalog @ [nullish (mp_notes pricing) '''']
            @ (if missingRate
               then [''Some token categories for '' @ model
                     @ '' had no matching price rate, so the estimate is partial.'']
               else [])
            @ (if longContextUnpublished
               then (case mp_longContextNote pricing of
                       None \<Rightarrow> [] | Some n \<Rightarrow> if n = '''' then [] else [n])
               else [])
      in buildEstimate nano (Some (cat_billingContext catalog)) coverage (Some pricingMatch) notes)"

definition unmatched_note :: "pricing_catalog \<Rightarrow> string option \<Rightarrow> string \<Rightarrow> string \<Rightarrow> string" where
  "unmatched_note catalog provider model startedAt =
     (case provider of
        Some p \<Rightarrow> ''No active '' @ billing_context_str (cat_billingContext catalog) @ '' '' @ p
          @ '' pricing row matched model '' @ model @ '' at '' @ startedAt @ ''.''
      | None \<Rightarrow> ''No active '' @ billing_context_str (cat_billingContext catalog)
          @ '' pricing row matched model '' @ model @ '' at '' @ startedAt
          @ ''; provider attribution was missing or ambiguous.'')"

definition estimateTokensForModel :: "pricing_catalog \<Rightarrow> string option \<Rightarrow> string option
    \<Rightarrow> 'a token_breakdown_scheme \<Rightarrow> string \<Rightarrow> cost_estimate" where
  "estimateTokensForModel catalog model provider tokens startedAt =
     (let context = Some (cat_billingContext catalog); baseNotes = base_notes catalog
      in if \<not> hasAnyTokenData tokens
         then buildEstimate 0 context (unpriced_coverage Not_applicable_reason [] 0) None baseNotes
         else case model of
           None \<Rightarrow> buildEstimate 0 context (unpriced_coverage Missing_model_attribution [] 1) None
             (baseNotes @ [''Model attribution was missing, so this usage slice could not be priced.''])
         | Some m \<Rightarrow>
             if blank m
             then buildEstimate 0 context (unpriced_coverage Missing_model_attribution [] 1) None
               (baseNotes @ [''Model attribution was missing, so this usage slice could not be priced.''])
             else let effectiveProvider =
                        or_else (normalizeProvider provider) (inferProviderFromModel (Some m))
               in case findPricing (cat_pricingTable catalog) [m] startedAt effectiveProvider
                         (Some tokens) of
                    None \<Rightarrow> buildEstimate 0 context (unpriced_coverage Model_unpriced [m] 0) None
                      (baseNotes @ [unmatched_note catalog effectiveProvider m startedAt])
                  | Some match \<Rightarrow> matched_estimate catalog m tokens match)"

definition estimate :: "pricing_catalog \<Rightarrow> string list \<Rightarrow> 'a token_breakdown_scheme \<Rightarrow> string
    \<Rightarrow> cost_estimate option" where
  "estimate catalog models tokens startedAt =
     (case models of
        [model] \<Rightarrow>
          if \<not> hasAnyTokenData tokens then None
          else let e = estimateTokensForModel catalog (Some model) None tokens startedAt
               in if pc_state (ce_pricingCoverage e) = Unpriced then None else Some e
      | _ \<Rightarrow> None)"

definition estimateModelUsage :: "pricing_catalog \<Rightarrow> model_usage \<Rightarrow> string \<Rightarrow> cost_estimate" where
  "estimateModelUsage catalog usage startedAt =
     estimateTokensForModel catalog (Some (mu_model usage)) (mu_provider usage) usage startedAt"

definition estimateAttributedUnit :: "pricing_catalog \<Rightarrow> usage_unit \<Rightarrow> string \<Rightarrow> cost_estimate" where
  "estimateAttributedUnit catalog unit startedAt =
     estimateTokensForModel catalog (au_model unit) (au_provider unit) unit startedAt"

section \<open>The row that is chosen\<close>

text \<open>Whether a row is in force, and whether it prices a call: the specification of
  \<open>findPricing\<close> for one model.\<close>

definition in_force :: "string \<Rightarrow> model_pricing \<Rightarrow> bool" where
  "in_force startedAt p = ms_le (date_ms (mp_effectiveFrom p)) (date_ms startedAt)"

definition row_applies :: "string \<Rightarrow> string option \<Rightarrow> ('a token_breakdown_scheme) option
    \<Rightarrow> model_pricing \<Rightarrow> bool" where
  "row_applies model provider tokens p \<longleftrightarrow>
     (case normalizeProvider (mp_provider p) of
        None \<Rightarrow> True | Some pp \<Rightarrow> pp \<in> set (pricingProviderCandidates model provider))
     \<and> matchesPattern model (mp_modelPattern p) \<and> matchesTokenRange p tokens"


lemma first_row_find:
  "map_option pr_pricing (first_row model (pricingProviderCandidates model provider) tokens rows)
   = map_option snd (find (row_applies model provider tokens \<circ> snd) rows)"
proof (induction rows)
  case Nil
  then show ?case by simp
next
  case (Cons r rows)
  obtain i p where r: "r = (i, p)" by fastforce
  show ?case
  proof (cases "normalizeProvider (mp_provider p)")
    case None
    with Cons show ?thesis by (simp add: r row_applies_def Let_def)
  next
    case (Some pp)
    have "find (\<lambda>c. c = pp) cs = None \<longleftrightarrow> pp \<notin> set cs" for cs
      by (auto simp: find_None_iff)
    with Cons Some show ?thesis by (auto simp: r row_applies_def Let_def)
  qed
qed

lemma findPricing_find:
  "map_option pr_pricing (findPricing table [model] startedAt provider tokens)
   = map_option snd (find (row_applies model provider tokens \<circ> snd) (pricing_candidates table startedAt))"
proof -
  have "findPricing table [model] startedAt provider tokens
      = first_row model (pricingProviderCandidates model provider) tokens
          (pricing_candidates table startedAt)"
    by (simp split: option.split)
  then show ?thesis by (simp only: first_row_find)
qed

lemma first_row_model:
  "first_row model cands tokens rows = Some m \<Longrightarrow> pr_model m = model"
  by (induction rows) (auto simp: Let_def split: if_splits)

interpretation newest: comparator newest_first
  by unfold_locales (auto simp: newest_first_def Let_def split: if_splits)

lemma sorted_find_first:
  assumes "sorted_wrt le xs" "find P xs = Some x" "y \<in> set xs" "P y" "\<And>z. le z z"
  shows "le x y"
  using assms
proof (induction xs)
  case (Cons z zs)
  then show ?case by (auto split: if_splits)
qed simp

lemma set_pricing_candidates:
  "(i, p) \<in> set (pricing_candidates table s) \<longleftrightarrow> i < length table \<and> p = table ! i \<and> in_force s p"
  by (auto simp: pricing_candidates_def in_force_def set_zip intro!: exI [of _ i])

lemma sorted_pricing_candidates: "sorted_wrt newest_first (pricing_candidates table s)"
  by (simp add: pricing_candidates_def newest.sorted_sort_by)

lemma in_force_date: "in_force s p \<Longrightarrow> \<exists>d. date_ms (mp_effectiveFrom p) = Some d"
  by (auto simp: in_force_def ms_le_def split: option.splits)

lemma findPricing_row:
  assumes "findPricing table [model] startedAt provider tokens = Some m"
  obtains i where "i < length table" "pr_pricing m = table ! i" "in_force startedAt (table ! i)"
    "row_applies model provider tokens (table ! i)"
    "\<And>j. j < length table \<Longrightarrow> in_force startedAt (table ! j)
       \<Longrightarrow> row_applies model provider tokens (table ! j) \<Longrightarrow> newest_first (i, table ! i) (j, table ! j)"
proof -
  let ?P = "row_applies model provider tokens \<circ> snd"
  let ?C = "pricing_candidates table startedAt"
  from assms findPricing_find [of table model startedAt provider tokens]
  obtain i p where f: "find ?P ?C = Some (i, p)" and m: "pr_pricing m = p"
    by (cases "find ?P ?C") (auto simp del: findPricing.simps)
  then have ip: "(i, p) \<in> set ?C" "?P (i, p)"
    unfolding find_Some_iff by (metis nth_mem)+
  have "newest_first (i, p) (j, table ! j)"
    if "j < length table" "in_force startedAt (table ! j)"
      "row_applies model provider tokens (table ! j)" for j
    using sorted_find_first [OF sorted_pricing_candidates f, of "(j, table ! j)"] that
    by (simp add: set_pricing_candidates newest_first_def)
  with ip m that show ?thesis by (auto simp: set_pricing_candidates)
qed

lemma findPricing_None:
  "findPricing table [model] startedAt provider tokens = None \<longleftrightarrow>
     (\<forall>p \<in> set table. \<not> (in_force startedAt p \<and> row_applies model provider tokens p))"
proof -
  have "findPricing table [model] startedAt provider tokens = None \<longleftrightarrow>
      find (row_applies model provider tokens \<circ> snd) (pricing_candidates table startedAt) = None"
    using findPricing_find [of table model startedAt provider tokens] by (metis map_option_is_None)
  also have "\<dots> \<longleftrightarrow> (\<forall>i < length table.
      \<not> (in_force startedAt (table ! i) \<and> row_applies model provider tokens (table ! i)))"
    by (auto simp: find_None_iff set_pricing_candidates)
  also have "\<dots> \<longleftrightarrow> (\<forall>p \<in> set table. \<not> (in_force startedAt p \<and> row_applies model provider tokens p))"
    by (metis in_set_conv_nth)
  finally show ?thesis .
qed

section \<open>The amount\<close>

lemma js_round_error: "\<bar>js_round x - x\<bar> \<le> 1 / 2"
  unfolding js_round_def by linarith

lemma component_error: "\<bar>fst (priceComponent n rate) - 1000 * (n * nullish rate 0)\<bar> \<le> 1 / 2"
proof (cases "n = 0 \<or> rate = None")
  case False
  then obtain r where r: "rate = Some r" by auto
  have e: "n * r * NANO_USD_PER_USD / 1000000 = 1000 * (n * r)" by (simp add: NANO_USD_PER_USD_def)
  then have "fst (priceComponent n rate) = js_round (1000 * (n * r))" using False by (simp add: priceComponent_def r e)
  then show ?thesis using js_round_error [of "1000 * (n * r)"] by (simp add: r)
qed (auto simp: priceComponent_def split: option.split)

lemma priceComponent_missing: "snd (priceComponent n rate) \<longleftrightarrow> n \<noteq> 0 \<and> rate = None"
  by (simp add: priceComponent_def split: option.split)

lemma priceComponent_nonneg:
  "0 \<le> n \<Longrightarrow> (\<And>r. rate = Some r \<Longrightarrow> 0 \<le> r) \<Longrightarrow> 0 \<le> fst (priceComponent n rate)"
  by (auto simp: priceComponent_def NANO_USD_PER_USD_def intro!: js_round_nonneg split: option.splits)

lemma buildEstimate_sel [simp]:
  "ce_estimatedNanoUsd (buildEstimate nano context coverage match notes) = nano"
  "ce_estimatedUsd (buildEstimate nano context coverage match notes) = nano / 1000000000"
  "ce_estimatedAiCredits (buildEstimate nano context coverage match notes) = nano / 10000000"
  "pc_state (ce_pricingCoverage (buildEstimate nano context coverage match notes)) = pc_state coverage"
  "pc_reasons (ce_pricingCoverage (buildEstimate nano context coverage match notes))
     = dedup (pc_reasons coverage)"
  "ce_pricingMatch (buildEstimate nano context coverage match notes) = match"
  by (simp_all add: buildEstimate_def usdFromNanoUsd_def aiCreditsFromNanoUsd_def
      NANO_USD_PER_USD_def NANO_USD_PER_AI_CREDIT_def)

lemma unpriced_coverage_sel [simp]:
  "pc_state (unpriced_coverage reason unpriced missing) = Unpriced"
  "pc_reasons (unpriced_coverage reason unpriced missing) = [reason]"
  by (simp_all add: unpriced_coverage_def)

text \<open>The two ways an estimate is built: without a row, or from the row that was found.\<close>

lemma estimate_cases:
  obtains (unpriced) reason unpriced missing ns where
    "estimateTokensForModel catalog model provider tokens startedAt
       = buildEstimate 0 (Some (cat_billingContext catalog))
           (unpriced_coverage reason unpriced missing) None ns"
  | (matched) m match where
    "estimateTokensForModel catalog model provider tokens startedAt
       = matched_estimate catalog m tokens match"
    "model = Some m" "hasAnyTokenData tokens"
    "findPricing (cat_pricingTable catalog) [m] startedAt
       (or_else (normalizeProvider provider) (inferProviderFromModel (Some m))) (Some tokens) = Some match"
proof -
  consider (no_data) "\<not> hasAnyTokenData tokens"
    | (no_model) "hasAnyTokenData tokens" "model = None \<or> blank (the model)"
    | (found) "hasAnyTokenData tokens" "model \<noteq> None" "\<not> blank (the model)" by blast
  then show ?thesis
  proof cases
  case no_data
  then show ?thesis by (intro unpriced) (simp add: estimateTokensForModel_def Let_def)
next
  case no_model
  then show ?thesis
    by (intro unpriced) (auto simp: estimateTokensForModel_def Let_def split: option.splits)
next
  case found
  then obtain m where m: "model = Some m" "\<not> blank m" "hasAnyTokenData tokens" by auto
  show ?thesis
  proof (cases "findPricing (cat_pricingTable catalog) [m] startedAt
       (or_else (normalizeProvider provider) (inferProviderFromModel (Some m))) (Some tokens)")
    case None
    with m show ?thesis
      by (intro unpriced) (auto simp: estimateTokensForModel_def Let_def simp del: findPricing.simps)
  next
    case (Some match)
    with m show ?thesis
      by (intro matched) (auto simp: estimateTokensForModel_def Let_def simp del: findPricing.simps)
  qed
  qed
qed

lemma sum_list_simps: "sum_list [] = 0" "sum_list (x # xs) = x + sum_list xs"
  by simp_all

lemma matched_components:
  "ce_estimatedNanoUsd (matched_estimate catalog m tokens match)
   = sum_list (map (\<lambda>(n, rate). fst (priceComponent n rate)) (billed_components tokens (pr_pricing match)))"
  by (simp add: matched_estimate_def Let_def map_map comp_def case_prod_unfold)

lemma matched_rate_missing:
  "Pricing_rate_missing \<in> set (pc_reasons (ce_pricingCoverage (matched_estimate catalog m tokens match)))
   \<longleftrightarrow> list_ex (\<lambda>(n, rate). snd (priceComponent n rate)) (billed_components tokens (pr_pricing match))"
  by (simp add: matched_estimate_def Let_def list_ex_iff case_prod_unfold)

lemma billed_nonneg:
  assumes "0 \<le> nullish (cacheReadInputTokens tokens) 0"
    and "0 \<le> nullish (cacheCreationInputTokens tokens) 0"
    and "(n, rate) \<in> set (billed_components tokens p)"
  shows "0 \<le> n"
proof -
  have "0 \<le> resolveBilledOutputTokens tokens"
    by (simp add: resolveBilledOutputTokens_def split: option.split)
  with assms show ?thesis by (auto simp: billed_components_def Let_def)
qed

lemma matched_nonneg:
  assumes "row_ok (pr_pricing match)"
    and "0 \<le> nullish (cacheReadInputTokens tokens) 0"
    and "0 \<le> nullish (cacheCreationInputTokens tokens) 0"
  shows "0 \<le> ce_estimatedNanoUsd (matched_estimate catalog m tokens match)"
proof -
  let ?p = "pr_pricing match"
  have "0 \<le> fst (priceComponent n rate)" if "(n, rate) \<in> set (billed_components tokens ?p)" for n rate
  proof (rule priceComponent_nonneg)
    show "0 \<le> n" using billed_nonneg [OF assms(2,3) that] .
    show "0 \<le> r" if "rate = Some r" for r
      using \<open>(n, rate) \<in> _\<close> that assms(1)
      by (auto simp: billed_components_def Let_def row_ok_def split: option.splits)
  qed
  then show ?thesis by (auto simp: matched_components intro!: sum_list_nonneg)
qed

text \<open>When only one row of a table applies to a call, it is chosen exactly when it is in force.\<close>

lemma findPricing_unique:
  assumes "filter (row_applies model provider tokens) table = [p]"
  shows "map_option pr_pricing (findPricing table [model] s provider tokens)
    = (if in_force s p then Some p else None)"
proof -
  have applies: "q \<in> set table \<and> row_applies model provider tokens q \<longleftrightarrow> q = p" for q
    using arg_cong [OF assms, of set] by auto
  show ?thesis
  proof (cases "findPricing table [model] s provider tokens")
    case None
    with findPricing_None [of table model s provider tokens] applies show ?thesis by auto
  next
    case (Some m)
    then obtain i where "i < length table" "pr_pricing m = table ! i" "in_force s (table ! i)"
      "row_applies model provider tokens (table ! i)" by (rule findPricing_row)
    with applies [of "table ! i"] Some show ?thesis by auto
  qed
qed

lemma row_applies_filter:
  "filter (row_applies model provider tokens) table
   = filter (\<lambda>p. matchesTokenRange p tokens)
       (filter (\<lambda>p. (case normalizeProvider (mp_provider p) of
            None \<Rightarrow> True | Some pp \<Rightarrow> pp \<in> set (pricingProviderCandidates model provider))
          \<and> matchesPattern model (mp_modelPattern p)) table)"
  by (auto simp: row_applies_def intro: filter_cong)

definition input_slice :: "int \<Rightarrow> token_breakdown" where
  "input_slice n = no_tokens\<lparr>inputTokens := Some (of_int n)\<rparr>"

lemma input_slice_range:
  "matchesTokenRange p (Some (input_slice n)) \<longleftrightarrow>
     (case mp_minInputTokens p of None \<Rightarrow> True | Some l \<Rightarrow> l \<le> of_int n)
     \<and> (case mp_maxInputTokens p of None \<Rightarrow> True | Some u \<Rightarrow> of_int n \<le> u)"
  by (simp add: matchesTokenRange_def input_slice_def Let_def)

lemma two_tiers:
  assumes rows: "map (\<lambda>p. (mp_minInputTokens p, mp_maxInputTokens p, mp_inputUsdPerMillion p,
          mp_effectiveFrom p))
        (filter (\<lambda>p. (case normalizeProvider (mp_provider p) of
            None \<Rightarrow> True | Some pp \<Rightarrow> pp \<in> set (pricingProviderCandidates model provider))
          \<and> matchesPattern model (mp_modelPattern p)) table)
      = [(None, Some (of_int u), r, d), (Some (of_int (u + 1)), None, r', d')]"
  shows "map_option (mp_inputUsdPerMillion \<circ> pr_pricing)
        (findPricing table [model] s provider (Some (input_slice n)))
      = (if n \<le> u then (if ms_le (date_ms d) (date_ms s) then Some r else None)
         else (if ms_le (date_ms d') (date_ms s) then Some r' else None))"
proof -
  let ?t = "Some (input_slice n)"
  from rows obtain p q where pq: "filter (\<lambda>p. (case normalizeProvider (mp_provider p) of
            None \<Rightarrow> True | Some pp \<Rightarrow> pp \<in> set (pricingProviderCandidates model provider))
          \<and> matchesPattern model (mp_modelPattern p)) table = [p, q]"
    and p: "mp_minInputTokens p = None" "mp_maxInputTokens p = Some (of_int u)"
      "mp_inputUsdPerMillion p = r" "mp_effectiveFrom p = d"
    and q: "mp_minInputTokens q = Some (of_int (u + 1))" "mp_maxInputTokens q = None"
      "mp_inputUsdPerMillion q = r'" "mp_effectiveFrom q = d'"
    by (auto simp: map_eq_Cons_conv)
  have "matchesTokenRange p ?t \<longleftrightarrow> n \<le> u" "matchesTokenRange q ?t \<longleftrightarrow> u + 1 \<le> n"
    by (simp_all only: input_slice_range p q option.simps of_int_le_iff simp_thms)
  then have f: "filter (row_applies model provider ?t) table = [if n \<le> u then p else q]"
    by (auto simp: row_applies_filter pq)
  show ?thesis
    using findPricing_unique [OF f, of s] p q
    by (auto simp: in_force_def option.map_comp [symmetric] simp del: findPricing.simps split: if_splits)
qed

section \<open>Properties\<close>

text \<open>
  The row that prices a call is the newest one in force. For one model, \<open>findPricing\<close>
  returns nothing exactly when no row in force applies; otherwise the row it returns is in
  force and applies, and every other such row is older, or equally old and later in the table.
\<close>

theorem findPricing_newest:
  "case findPricing table [model] startedAt provider tokens of
     None \<Rightarrow> \<forall>p \<in> set table. \<not> (in_force startedAt p \<and> row_applies model provider tokens p)
   | Some m \<Rightarrow> \<exists>i < length table. pr_pricing m = table ! i \<and> in_force startedAt (table ! i)
       \<and> row_applies model provider tokens (table ! i)
       \<and> (\<forall>j < length table. in_force startedAt (table ! j)
            \<longrightarrow> row_applies model provider tokens (table ! j)
            \<longrightarrow> the (date_ms (mp_effectiveFrom (table ! j))) < the (date_ms (mp_effectiveFrom (table ! i)))
                \<or> (date_ms (mp_effectiveFrom (table ! j)) = date_ms (mp_effectiveFrom (table ! i)) \<and> i \<le> j))"
proof (cases "findPricing table [model] startedAt provider tokens")
  case None
  show ?thesis unfolding None using None [unfolded findPricing_None] by simp
next
  case (Some m)
  obtain i where i: "i < length table" "pr_pricing m = table ! i" "in_force startedAt (table ! i)"
    "row_applies model provider tokens (table ! i)"
    "\<And>j. j < length table \<Longrightarrow> in_force startedAt (table ! j)
       \<Longrightarrow> row_applies model provider tokens (table ! j) \<Longrightarrow> newest_first (i, table ! i) (j, table ! j)"
    using findPricing_row [OF Some] by metis
  have "the (date_ms (mp_effectiveFrom (table ! j))) < the (date_ms (mp_effectiveFrom (table ! i)))
      \<or> (date_ms (mp_effectiveFrom (table ! j)) = date_ms (mp_effectiveFrom (table ! i)) \<and> i \<le> j)"
    if "j < length table" "in_force startedAt (table ! j)" "row_applies model provider tokens (table ! j)" for j
    using i(5) [OF that] in_force_date [OF that(2)] in_force_date [OF i(3)]
    by (auto simp: newest_first_def Let_def split: if_splits)
  with i show ?thesis unfolding Some by auto
qed

theorem findPricing_newest_witness:
  "case findPricing ANTHROPIC_STANDARD_PRICING [''claude-sonnet-5''] ''2026-09-02'' None
          (None :: token_breakdown option) of
     None \<Rightarrow> False
   | Some m \<Rightarrow> \<exists>i < length ANTHROPIC_STANDARD_PRICING. pr_pricing m = ANTHROPIC_STANDARD_PRICING ! i
       \<and> mp_inputUsdPerMillion (pr_pricing m) = 3"
proof -
  have e: "map_option (mp_inputUsdPerMillion \<circ> pr_pricing)
      (findPricing ANTHROPIC_STANDARD_PRICING [''claude-sonnet-5''] ''2026-09-02'' None
          (None :: token_breakdown option)) = Some 3" by code_simp
  then obtain m where m: "findPricing ANTHROPIC_STANDARD_PRICING [''claude-sonnet-5''] ''2026-09-02'' None
          (None :: token_breakdown option) = Some m" and "mp_inputUsdPerMillion (pr_pricing m) = 3"
    by (auto simp del: findPricing.simps)
  with findPricing_newest [where table = ANTHROPIC_STANDARD_PRICING and model = "''claude-sonnet-5''"
      and startedAt = "''2026-09-02''" and provider = None and tokens = "None :: token_breakdown option"]
  show ?thesis unfolding m by auto
qed

text \<open>
  What the state of an estimate means, for every catalog and slice. It is priced exactly
  when it has no reason against it; an unpriced slice never carries an amount; dollars and AI
  credits are the same amount at a hundred credits a dollar; and \<open>estimate\<close> answers
  exactly for a single model whose estimate is not unpriced.
\<close>

theorem estimate_states:
  "(let e = estimateTokensForModel catalog model provider tokens startedAt; c = ce_pricingCoverage e
    in (pc_state c = Priced \<longleftrightarrow> pc_reasons c = [])
       \<and> \<not> (pc_state c = Unpriced \<and> ce_estimatedNanoUsd e \<noteq> 0)
       \<and> ce_estimatedUsd e * 1000000000 = ce_estimatedNanoUsd e
       \<and> ce_estimatedAiCredits e = ce_estimatedUsd e * 100
       \<and> \<not> (pc_state c \<noteq> Unpriced \<and> ce_pricingMatch e = None))
   \<and> (estimate catalog models tokens startedAt \<noteq> None \<longleftrightarrow>
       (\<exists>m. models = [m] \<and>
         pc_state (ce_pricingCoverage (estimateTokensForModel catalog (Some m) None tokens startedAt)) \<noteq> Unpriced))"
proof (rule conjI)
  show "let e = estimateTokensForModel catalog model provider tokens startedAt; c = ce_pricingCoverage e
    in (pc_state c = Priced \<longleftrightarrow> pc_reasons c = [])
       \<and> \<not> (pc_state c = Unpriced \<and> ce_estimatedNanoUsd e \<noteq> 0)
       \<and> ce_estimatedUsd e * 1000000000 = ce_estimatedNanoUsd e
       \<and> ce_estimatedAiCredits e = ce_estimatedUsd e * 100
       \<and> \<not> (pc_state c \<noteq> Unpriced \<and> ce_pricingMatch e = None)"
    by (cases rule: estimate_cases [of catalog model provider tokens startedAt])
      (auto simp: matched_estimate_def Let_def)
  have "pc_state (ce_pricingCoverage (estimateTokensForModel catalog (Some m) None tokens startedAt)) = Unpriced"
    if "\<not> hasAnyTokenData tokens" for m
    using that by (simp add: estimateTokensForModel_def Let_def)
  then show "estimate catalog models tokens startedAt \<noteq> None \<longleftrightarrow>
       (\<exists>m. models = [m] \<and>
         pc_state (ce_pricingCoverage (estimateTokensForModel catalog (Some m) None tokens startedAt)) \<noteq> Unpriced)"
    by (auto simp: estimate_def Let_def split: list.splits if_splits)
qed

text \<open>
  C32: the amount. For every row that is found, the estimate is within two nano-USD of the exact price: a
  thousand nano-USD for each token and dollar per million, where cache reads are billed at the rate of
  cached input, cache writes at theirs, output (or, when it is not reported, the total without the input)
  at the rate of output, and only the rest of the input, never less than nothing, at the rate of input.
  Reasoning tokens, which are part of the output, are not billed again. A category without a rate costs
  nothing, and a missing rate is reported exactly when such a category has tokens.
\<close>

theorem estimate_amount:
  assumes "hasAnyTokenData tokens" "\<not> blank m"
    and "findPricing (cat_pricingTable catalog) [m] startedAt
          (or_else (normalizeProvider provider) (inferProviderFromModel (Some m))) (Some tokens) = Some match"
  shows "let e = estimateTokensForModel catalog (Some m) provider tokens startedAt; p = pr_pricing match;
      input = nullish (inputTokens tokens) 0; read = nullish (cacheReadInputTokens tokens) 0;
      creation = nullish (cacheCreationInputTokens tokens) 0;
      output = (case (outputTokens tokens, totalTokens tokens, inputTokens tokens) of
          (Some n, _, _) \<Rightarrow> max 0 n | (None, Some t, Some i) \<Rightarrow> max 0 (t - i) | _ \<Rightarrow> 0)
    in \<bar>ce_estimatedNanoUsd e
         - 1000 * (max 0 (input - read - creation) * mp_inputUsdPerMillion p
             + read * nullish (mp_cachedInputUsdPerMillion p) 0
             + creation * nullish (mp_cacheCreationUsdPerMillion p) 0
             + output * mp_outputUsdPerMillion p)\<bar> \<le> 2
     \<and> (Pricing_rate_missing \<in> set (pc_reasons (ce_pricingCoverage e)) \<longleftrightarrow>
          read \<noteq> 0 \<and> mp_cachedInputUsdPerMillion p = None \<or> creation \<noteq> 0 \<and> mp_cacheCreationUsdPerMillion p = None)"
proof -
  let ?p = "pr_pricing match" and ?out = "resolveBilledOutputTokens tokens"
  let ?read = "nullish (cacheReadInputTokens tokens) 0" and ?creation = "nullish (cacheCreationInputTokens tokens) 0"
  let ?rest = "max 0 (nullish (inputTokens tokens) 0 - ?read - ?creation)"
  have e: "estimateTokensForModel catalog (Some m) provider tokens startedAt = matched_estimate catalog m tokens match"
    using assms by (simp add: estimateTokensForModel_def Let_def del: findPricing.simps)
  have out: "(case (outputTokens tokens, totalTokens tokens, inputTokens tokens) of
          (Some n, _, _) \<Rightarrow> max 0 n | (None, Some t, Some i) \<Rightarrow> max 0 (t - i) | _ \<Rightarrow> 0) = ?out"
    by (simp add: resolveBilledOutputTokens_def split: option.split)
  have "ce_estimatedNanoUsd (matched_estimate catalog m tokens match) = fst (priceComponent ?rest (Some (mp_inputUsdPerMillion ?p)))
      + fst (priceComponent ?read (mp_cachedInputUsdPerMillion ?p)) + fst (priceComponent ?creation (mp_cacheCreationUsdPerMillion ?p))
      + fst (priceComponent ?out (Some (mp_outputUsdPerMillion ?p)))"
    unfolding matched_components by (simp add: billed_components_def Let_def)
  then have "\<bar>ce_estimatedNanoUsd (matched_estimate catalog m tokens match)
      - 1000 * (?rest * mp_inputUsdPerMillion ?p + ?read * nullish (mp_cachedInputUsdPerMillion ?p) 0
          + ?creation * nullish (mp_cacheCreationUsdPerMillion ?p) 0 + ?out * mp_outputUsdPerMillion ?p)\<bar> \<le> 2"
    using component_error [of ?rest "Some (mp_inputUsdPerMillion ?p)"] component_error [of ?read "mp_cachedInputUsdPerMillion ?p"]
      component_error [of ?creation "mp_cacheCreationUsdPerMillion ?p"] component_error [of ?out "Some (mp_outputUsdPerMillion ?p)"]
    unfolding distrib_left nullish_simps by linarith
  moreover have "Pricing_rate_missing \<in> set (pc_reasons (ce_pricingCoverage (matched_estimate catalog m tokens match))) \<longleftrightarrow>
      ?read \<noteq> 0 \<and> mp_cachedInputUsdPerMillion ?p = None \<or> ?creation \<noteq> 0 \<and> mp_cacheCreationUsdPerMillion ?p = None"
    unfolding matched_rate_missing by (simp add: billed_components_def Let_def priceComponent_missing)
  ultimately show ?thesis unfolding Let_def e out by blast
qed

definition sample_slice :: token_breakdown where
  "sample_slice = (input_slice 100)\<lparr>cacheReadInputTokens := Some 30, cacheCreationInputTokens := Some 20, outputTokens := Some 7\<rparr>"

theorem estimate_amount_witness:
  "\<bar>ce_estimatedNanoUsd (estimateTokensForModel
        \<lparr>cat_billingContext = Github_copilot, cat_primaryBillingUnit = AiCredits, cat_pricingVersions = [],
          cat_pricingTable = COPILOT_PRICING\<rparr> (Some ''claude-sonnet-4'') None sample_slice ''2026-09-02'')
     - 1000 * (50 * 3 + 30 * (3 / 10) + 20 * (15 / 4) + 7 * 15)\<bar> \<le> 2"
proof -
  let ?c = "\<lparr>cat_billingContext = Github_copilot, cat_primaryBillingUnit = AiCredits, cat_pricingVersions = [],
          cat_pricingTable = COPILOT_PRICING\<rparr>"
  have "hasAnyTokenData sample_slice" "\<not> blank ''claude-sonnet-4''" by code_simp+
  moreover have rates: "map_option (\<lambda>m. (mp_inputUsdPerMillion (pr_pricing m), mp_cachedInputUsdPerMillion (pr_pricing m),
        mp_cacheCreationUsdPerMillion (pr_pricing m), mp_outputUsdPerMillion (pr_pricing m)))
      (findPricing (cat_pricingTable ?c) [''claude-sonnet-4''] ''2026-09-02''
         (or_else (normalizeProvider None) (inferProviderFromModel (Some ''claude-sonnet-4''))) (Some sample_slice))
    = Some (3, Some (3 / 10), Some (15 / 4), 15)" by code_simp
  then obtain match where "findPricing (cat_pricingTable ?c) [''claude-sonnet-4''] ''2026-09-02''
         (or_else (normalizeProvider None) (inferProviderFromModel (Some ''claude-sonnet-4''))) (Some sample_slice) = Some match"
    and "mp_inputUsdPerMillion (pr_pricing match) = 3" "mp_cachedInputUsdPerMillion (pr_pricing match) = Some (3 / 10)"
      "mp_cacheCreationUsdPerMillion (pr_pricing match) = Some (15 / 4)" "mp_outputUsdPerMillion (pr_pricing match) = 15"
    by (auto simp del: findPricing.simps)
  moreover from estimate_amount [OF calculation(1,2) this(1)] this(2-)
  show ?thesis by (simp add: Let_def sample_slice_def input_slice_def)
qed

text \<open>
  The input tiers of the catalogs meet without a gap: for every whole number of input
  tokens and every date, gpt-5.4 under the Copilot catalog has the default rate up to 272000
  tokens and the long-context rate above. Under the OpenAI catalog the two tiers of gpt-5.5
  come into force a month apart, so between the dates a call above 272000 tokens has no row.
\<close>

theorem pricing_tiers:
  "map_option (mp_inputUsdPerMillion \<circ> pr_pricing)
      (findPricing COPILOT_PRICING [''gpt-5.4''] s None (Some (input_slice n)))
    = (if ms_le (date_ms ''2026-07-01'') (date_ms s)
       then Some (if n \<le> 272000 then 2.5 else 5) else None)
   \<and> map_option (mp_inputUsdPerMillion \<circ> pr_pricing)
      (findPricing OPENAI_STANDARD_SHORT_CONTEXT_PRICING [''gpt-5.5''] s None (Some (input_slice n)))
    = (if n \<le> 272000 then (if ms_le (date_ms ''2026-05-30'') (date_ms s) then Some 5 else None)
       else (if ms_le (date_ms ''2026-07-01'') (date_ms s) then Some 10 else None))"
proof -
  have "map (\<lambda>p. (mp_minInputTokens p, mp_maxInputTokens p, mp_inputUsdPerMillion p, mp_effectiveFrom p))
        (filter (\<lambda>p. (case normalizeProvider (mp_provider p) of
            None \<Rightarrow> True | Some pp \<Rightarrow> pp \<in> set (pricingProviderCandidates ''gpt-5.4'' None))
          \<and> matchesPattern ''gpt-5.4'' (mp_modelPattern p)) COPILOT_PRICING)
      = [(None, Some (of_int 272000), 2.5, ''2026-07-01''),
         (Some (of_int (272000 + 1)), None, 5, ''2026-07-01'')]" by code_simp
  note c = two_tiers [OF this, of s n]
  have "map (\<lambda>p. (mp_minInputTokens p, mp_maxInputTokens p, mp_inputUsdPerMillion p, mp_effectiveFrom p))
        (filter (\<lambda>p. (case normalizeProvider (mp_provider p) of
            None \<Rightarrow> True | Some pp \<Rightarrow> pp \<in> set (pricingProviderCandidates ''gpt-5.5'' None))
          \<and> matchesPattern ''gpt-5.5'' (mp_modelPattern p)) OPENAI_STANDARD_SHORT_CONTEXT_PRICING)
      = [(None, Some (of_int 272000), 5, ''2026-05-30''),
         (Some (of_int (272000 + 1)), None, 10, ''2026-07-01'')]" by code_simp
  note o = two_tiers [OF this, of s n]
  show ?thesis by (simp only: c o) simp
qed

end
