(* ===== verification/PricingPolicy.thy ===== *)
theory PricingPolicy
  imports CostEstimation
begin

text \<open>
  What follows an estimate: the coverage policy (src/src/pricing/pricingCoveragePolicy.ts), the
  catalog of a billing context (src/src/billing/billingContextResolver.ts) and the budget
  warnings of a run (src/src/budget/budgetWarnings.ts). The policy's \<open>sort()\<close> of reasons is
  the order of their strings.
\<close>

section \<open>Coverage policy\<close>

definition NON_DEGRADING_REASONS :: "coverage_reason list" where
  "NON_DEGRADING_REASONS = [Long_context_rate_unpublished]"

definition uniqueReasons :: "coverage_reason list \<Rightarrow> coverage_reason list" where
  "uniqueReasons rs = sort_key reason_str (dedup rs)"

definition applyPricingCoveragePolicy :: "pricing_coverage \<Rightarrow> pricing_coverage" where
  "applyPricingCoveragePolicy coverage =
     (let pricedModels = unique_sorted (pc_pricedModels coverage);
          hadNonDegradingReason =
            list_ex (\<lambda>r. r \<in> set NON_DEGRADING_REASONS) (pc_reasons coverage);
          reasons = uniqueReasons (filter (\<lambda>r. r \<notin> set NON_DEGRADING_REASONS) (pc_reasons coverage));
          policyOnlyPartial = (hadNonDegradingReason \<and> pc_state coverage = Partially_priced
            \<and> reasons = [] \<and> pc_missingModelSlices coverage = 0);
          unpricedModels =
            (if policyOnlyPartial
             then unique_sorted (filter (\<lambda>m. m \<notin> set pricedModels) (pc_unpricedModels coverage))
             else unique_sorted (pc_unpricedModels coverage))
      in coverage\<lparr>
           pc_state := (if policyOnlyPartial \<and> unpricedModels = [] then Priced else pc_state coverage),
           pc_reasons := reasons,
           pc_pricedModels := pricedModels,
           pc_unpricedModels := unpricedModels,
           pc_pricingVersions := unique_sorted (pc_pricingVersions coverage),
           pc_pricingEffectiveFrom := unique_sorted (pc_pricingEffectiveFrom coverage)\<rparr>)"

lemma set_uniqueReasons [simp]: "set (uniqueReasons rs) = set rs"
  by (simp add: uniqueReasons_def)

lemma distinct_uniqueReasons [simp]: "distinct (uniqueReasons rs)"
  by (simp add: uniqueReasons_def)

lemma uniqueReasons_eq_Nil [simp]: "uniqueReasons rs = [] \<longleftrightarrow> rs = []"
  by (metis set_empty set_uniqueReasons)

lemma uniqueReasons_idem [simp]: "uniqueReasons (uniqueReasons rs) = uniqueReasons rs"
  by (simp add: uniqueReasons_def dedup_id sort_key_id_if_sorted sorted_sort_key)

section \<open>Billing contexts\<close>

definition pricingCatalogForBillingContext :: "billing_context \<Rightarrow> pricing_catalog" where
  "pricingCatalogForBillingContext billingContext =
     (case billingContext of
        Github_copilot \<Rightarrow> \<lparr>cat_billingContext = billingContext, cat_primaryBillingUnit = AiCredits,
          cat_pricingVersions = [COPILOT_PRICING_VERSION], cat_pricingTable = COPILOT_PRICING\<rparr>
      | Openai_direct \<Rightarrow> \<lparr>cat_billingContext = billingContext, cat_primaryBillingUnit = Usd,
          cat_pricingVersions = [OPENAI_PRICING_VERSION],
          cat_pricingTable = OPENAI_STANDARD_SHORT_CONTEXT_PRICING\<rparr>
      | Anthropic_direct \<Rightarrow> \<lparr>cat_billingContext = billingContext, cat_primaryBillingUnit = Usd,
          cat_pricingVersions = [ANTHROPIC_PRICING_VERSION],
          cat_pricingTable = ANTHROPIC_STANDARD_PRICING\<rparr>
      | Cursor_billing \<Rightarrow> \<lparr>cat_billingContext = billingContext, cat_primaryBillingUnit = Usd,
          cat_pricingVersions = [CURSOR_PRICING_VERSION], cat_pricingTable = CURSOR_PRICING\<rparr>)"

record billing_resolution =
  br_billingContext :: billing_context
  br_primaryBillingUnit :: billing_unit
  br_pricingCatalog :: pricing_catalog

definition resolveBillingContext :: billing_resolution where
  "resolveBillingContext = \<lparr>br_billingContext = Github_copilot, br_primaryBillingUnit = AiCredits,
     br_pricingCatalog = pricingCatalogForBillingContext Github_copilot\<rparr>"

lemma catalog_table_ok: "table_ok (cat_pricingTable (pricingCatalogForBillingContext b))"
  by (cases b) (simp_all add: pricingCatalogForBillingContext_def copilot_table_ok openai_table_ok
      anthropic_table_ok cursor_table_ok)

section \<open>Budget warnings\<close>

text \<open>Of a run and of the totals of a period, the fields the warnings read.\<close>

record budget_run =
  bu_id :: string
  bu_totalTokens :: "rat option"
  bu_estimatedAiCredits :: "rat option"

record budget_thresholds =
  warnRunTokens :: rat
  warnRunCredits :: rat
  warnDailyCredits :: rat
  warnMonthlyCredits :: rat

datatype warning_kind = RunTokens | RunCredits | DailyCredits | MonthlyCredits

record budget_warning =
  bw_kind :: warning_kind
  bw_runId :: "string option"
  bw_message :: string

definition optional_text :: "(rat \<Rightarrow> string) \<Rightarrow> rat option \<Rightarrow> string" where
  "optional_text f x = (case x of None \<Rightarrow> ''undefined'' | Some v \<Rightarrow> f v)"

text \<open>\<open>dailyTotals\<close> and \<open>monthlyTotals\<close> stand for their \<open>estimatedAiCredits\<close>.\<close>

definition warningsForRun :: "budget_run \<Rightarrow> budget_thresholds \<Rightarrow> rat option \<Rightarrow> rat option
    \<Rightarrow> budget_warning list" where
  "warningsForRun run thresholds dailyTotals monthlyTotals =
     (if nullish (bu_totalTokens run) 0 \<ge> warnRunTokens thresholds
      then [\<lparr>bw_kind = RunTokens, bw_runId = Some (bu_id run),
             bw_message = ''Tirion run used '' @ optional_text num_to_string (bu_totalTokens run)
               @ '' reported tokens.''\<rparr>] else [])
     @ (if nullish (bu_estimatedAiCredits run) 0 \<ge> warnRunCredits thresholds
      then [\<lparr>bw_kind = RunCredits, bw_runId = Some (bu_id run),
             bw_message = ''Tirion run is estimated at ''
               @ optional_text to_fixed2 (bu_estimatedAiCredits run) @ '' AI credits.''\<rparr>] else [])
     @ (case dailyTotals of None \<Rightarrow> [] | Some c \<Rightarrow> if c \<ge> warnDailyCredits thresholds
      then [\<lparr>bw_kind = DailyCredits, bw_runId = None,
             bw_message = ''Daily Tirion usage is estimated at '' @ to_fixed2 c @ '' AI credits.''\<rparr>] else [])
     @ (case monthlyTotals of None \<Rightarrow> [] | Some c \<Rightarrow> if c \<ge> warnMonthlyCredits thresholds
      then [\<lparr>bw_kind = MonthlyCredits, bw_runId = None,
             bw_message = ''Monthly Tirion usage is estimated at '' @ to_fixed2 c @ '' AI credits.''\<rparr>] else [])"

section \<open>Properties\<close>

text \<open>
  No estimate made with one of the program's catalogs is negative, when the cache counts
  it is given are not: every rate of every row of the four catalogs is non-negative, and the
  uncached input and the billed output are never below zero.
\<close>

theorem estimate_nonneg:
  assumes "0 \<le> nullish (cacheReadInputTokens tokens) 0"
    and "0 \<le> nullish (cacheCreationInputTokens tokens) 0"
  shows "0 \<le> ce_estimatedNanoUsd
    (estimateTokensForModel (pricingCatalogForBillingContext b) model provider tokens startedAt)"
proof (cases rule: estimate_cases
    [of "pricingCatalogForBillingContext b" model provider tokens startedAt])
  case unpriced
  then show ?thesis by simp
next
  case (matched m match)
  from matched(4) obtain i where "i < length (cat_pricingTable (pricingCatalogForBillingContext b))"
    "pr_pricing match = cat_pricingTable (pricingCatalogForBillingContext b) ! i"
    by (rule findPricing_row)
  then have "row_ok (pr_pricing match)"
    using table_ok_rows [OF catalog_table_ok [of b]] by simp
  from matched_nonneg [OF this assms] show ?thesis unfolding matched(1) .
qed

theorem estimate_nonneg_witness:
  "0 \<le> ce_estimatedNanoUsd (estimateTokensForModel (pricingCatalogForBillingContext Cursor_billing)
      (Some ''composer-2'') None (input_slice 1000) ''2026-07-04'')
   \<and> ce_estimatedNanoUsd (estimateTokensForModel (pricingCatalogForBillingContext Cursor_billing)
      (Some ''composer-2'') None (input_slice 1000) ''2026-07-04'') = 500000"
  using estimate_nonneg [of "input_slice 1000" Cursor_billing "Some ''composer-2''" None "''2026-07-04''"]
  by code_simp

text \<open>
  The coverage policy can be applied any number of times with the same result; it removes
  exactly the non-degrading reasons; and the only state it changes is a partial coverage
  without a missing slice and with no reason but those, which becomes priced when every
  unpriced model is also a priced one.
\<close>

theorem coverage_policy:
  "applyPricingCoveragePolicy (applyPricingCoveragePolicy c) = applyPricingCoveragePolicy c
   \<and> set (pc_reasons (applyPricingCoveragePolicy c)) = set (pc_reasons c) - {Long_context_rate_unpublished}
   \<and> pc_state (applyPricingCoveragePolicy c)
      = (if pc_state c = Partially_priced \<and> set (pc_reasons c) = {Long_context_rate_unpublished}
            \<and> pc_missingModelSlices c = 0
            \<and> {m \<in> set (pc_unpricedModels c). \<not> blank m} \<subseteq> set (pc_pricedModels c)
         then Priced else pc_state c)"
proof (intro conjI)
  have nd: "list_ex (\<lambda>r. r \<in> set NON_DEGRADING_REASONS) rs \<longleftrightarrow> Long_context_rate_unpublished \<in> set rs" for rs
    by (auto simp: list_ex_iff NON_DEGRADING_REASONS_def)
  show "set (pc_reasons (applyPricingCoveragePolicy c)) = set (pc_reasons c) - {Long_context_rate_unpublished}"
    by (auto simp: applyPricingCoveragePolicy_def Let_def NON_DEGRADING_REASONS_def)
  have clean: "filter (\<lambda>r. r \<notin> set NON_DEGRADING_REASONS) (uniqueReasons
        (filter (\<lambda>r. r \<notin> set NON_DEGRADING_REASONS) rs))
      = uniqueReasons (filter (\<lambda>r. r \<notin> set NON_DEGRADING_REASONS) rs)" for rs
    by (auto simp: filter_id_conv)
  have none: "\<not> list_ex (\<lambda>r. r \<in> set NON_DEGRADING_REASONS) (uniqueReasons
        (filter (\<lambda>r. r \<notin> set NON_DEGRADING_REASONS) rs))" for rs
    by (auto simp: list_ex_iff)
  show "applyPricingCoveragePolicy (applyPricingCoveragePolicy c) = applyPricingCoveragePolicy c"
    by (simp add: applyPricingCoveragePolicy_def Let_def clean none)
  have empty: "unique_sorted xs = [] \<longleftrightarrow> (\<forall>x \<in> set xs. blank x)" for xs
    using set_unique_sorted [of xs] by (metis (no_types, lifting) empty_Collect_eq set_empty)
  show "pc_state (applyPricingCoveragePolicy c)
      = (if pc_state c = Partially_priced \<and> set (pc_reasons c) = {Long_context_rate_unpublished}
            \<and> pc_missingModelSlices c = 0
            \<and> {m \<in> set (pc_unpricedModels c). \<not> blank m} \<subseteq> set (pc_pricedModels c)
         then Priced else pc_state c)"
  proof (cases "pc_state c = Partially_priced \<and> set (pc_reasons c) = {Long_context_rate_unpublished}
      \<and> pc_missingModelSlices c = 0")
    case True
    then have "filter (\<lambda>r. r \<notin> set NON_DEGRADING_REASONS) (pc_reasons c) = []"
      by (simp add: filter_empty_conv NON_DEGRADING_REASONS_def)
    with True show ?thesis by (auto simp: applyPricingCoveragePolicy_def Let_def nd empty)
  next
    case False
    have "Long_context_rate_unpublished \<in> set rs \<and> (\<forall>r \<in> set rs. r \<in> set NON_DEGRADING_REASONS)
        \<longleftrightarrow> set rs = {Long_context_rate_unpublished}" for rs
      by (auto simp: NON_DEGRADING_REASONS_def)
    with False have "\<not> (Long_context_rate_unpublished \<in> set (pc_reasons c)
        \<and> pc_state c = Partially_priced
        \<and> uniqueReasons (filter (\<lambda>r. r \<notin> set NON_DEGRADING_REASONS) (pc_reasons c)) = []
        \<and> pc_missingModelSlices c = 0)" by (auto simp: filter_empty_conv)
    with False show ?thesis
      by (simp only: applyPricingCoveragePolicy_def Let_def nd pricing_coverage.simps simp_thms if_False)
        simp
  qed
qed

text \<open>
  A run gets at most one warning of each kind, in a fixed order, and each kind exactly
  when its figure reaches its threshold; a missing run figure counts as zero, a missing
  period total never warns.
\<close>

theorem warnings_exact:
  "map bw_kind (warningsForRun run th daily monthly) =
     filter (\<lambda>k. case k of
         RunTokens \<Rightarrow> warnRunTokens th \<le> nullish (bu_totalTokens run) 0
       | RunCredits \<Rightarrow> warnRunCredits th \<le> nullish (bu_estimatedAiCredits run) 0
       | DailyCredits \<Rightarrow> (case daily of None \<Rightarrow> False | Some c \<Rightarrow> warnDailyCredits th \<le> c)
       | MonthlyCredits \<Rightarrow> (case monthly of None \<Rightarrow> False | Some c \<Rightarrow> warnMonthlyCredits th \<le> c))
       [RunTokens, RunCredits, DailyCredits, MonthlyCredits]"
  by (simp add: warningsForRun_def split: option.split)

end
