(* ===== verification/RecordStore.thy ===== *)
theory RecordStore
  imports Prelude
begin

text \<open>
  What the storage classes share: results that are an error or a value, loops over them, and
  the interface \<open>record_store\<close>. A class that keeps identified records loads them all,
  computes the next list, and persists it; persisting checks every record and refuses the whole
  list if one fails. The laws of the interface are just that, and its lemmas say which ways of
  computing the next list keep every stored record valid and every identifier unique.
\<close>

section \<open>Results\<close>

definition bindE :: "'e + 'a \<Rightarrow> ('a \<Rightarrow> 'e + 'b) \<Rightarrow> 'e + 'b" where
  "bindE r f = (case r of Inl e \<Rightarrow> Inl e | Inr x \<Rightarrow> f x)"

lemma bindE_simps [simp]: "bindE (Inl e) f = Inl e" "bindE (Inr x) f = f x"
  by (simp_all add: bindE_def)

lemma bindE_Inr: "bindE r f = Inr y \<longleftrightarrow> (\<exists>x. r = Inr x \<and> f x = Inr y)"
  by (cases r) auto

fun foldE :: "('a \<Rightarrow> 's \<Rightarrow> 'e + 's) \<Rightarrow> 'a list \<Rightarrow> 's \<Rightarrow> 'e + 's" where
  "foldE f [] s = Inr s"
| "foldE f (x # xs) s = bindE (f x s) (foldE f xs)"

fun mapE :: "('a \<Rightarrow> 'e + 'b) \<Rightarrow> 'a list \<Rightarrow> 'e + 'b list" where
  "mapE f [] = Inr []"
| "mapE f (x # xs) = bindE (f x) (\<lambda>y. bindE (mapE f xs) (\<lambda>ys. Inr (y # ys)))"

text \<open>A property that one step keeps holds after the whole loop.\<close>

lemma foldE_invariant:
  assumes "foldE f xs s = Inr s'" "P s" "\<And>x s s'. x \<in> set xs \<Longrightarrow> P s \<Longrightarrow> f x s = Inr s' \<Longrightarrow> P s'"
  shows "P s'"
  using assms by (induction xs arbitrary: s) (auto simp: bindE_Inr)

lemma mapE_list_all2: "mapE f xs = Inr ys \<Longrightarrow> list_all2 (\<lambda>x y. f x = Inr y) xs ys"
  by (induction xs arbitrary: ys) (auto simp: bindE_Inr)

text \<open>\<open>xs.slice(0, n)\<close>: a negative \<open>n\<close> counts from the end.\<close>

definition slice_to :: "int \<Rightarrow> 'a list \<Rightarrow> 'a list" where
  "slice_to n xs = take (if n < 0 then length xs - nat (- n) else nat n) xs"

section \<open>The interface of a record store\<close>

locale record_store =
  fixes records :: "'s \<Rightarrow> 'q list"
    and load :: "'s \<Rightarrow> 'q list"
    and persist :: "'q list \<Rightarrow> 'e + 's"
    and ident :: "'q \<Rightarrow> 'k"
    and ok :: "'q \<Rightarrow> bool"
  assumes load_idents: "map ident (load s) = map ident (records s)"
    and persist_idents: "persist qs = Inr s \<Longrightarrow> map ident (records s) = map ident qs"
    and persist_checks: "persist qs = Inr s \<Longrightarrow> q \<in> set (records s) \<Longrightarrow> ok q"
begin

definition good :: "'s \<Rightarrow> bool" where
  "good s \<longleftrightarrow> (\<forall>q \<in> set (records s). ok q) \<and> distinct (map ident (records s))"

lemma good_persist: "persist qs = Inr s \<Longrightarrow> distinct (map ident qs) \<Longrightarrow> good s"
  by (simp add: good_def persist_idents persist_checks)

lemma distinct_load: "good s \<Longrightarrow> distinct (map ident (load s))"
  by (simp add: good_def load_idents)

lemma good_persist_map:
  "good s \<Longrightarrow> (\<And>q. ident (f q) = ident q) \<Longrightarrow> persist (map f (load s)) = Inr s' \<Longrightarrow> good s'"
  by (rule good_persist, assumption) (simp add: comp_def distinct_load)

lemma good_persist_filter:
  "good s \<Longrightarrow> persist (filter P (load s)) = Inr s' \<Longrightarrow> good s'"
  by (rule good_persist, assumption) (simp add: distinct_load distinct_map_filter)

lemma good_persist_values:
  assumes "persist (map_values m) = Inr s'" "distinct (map fst m)"
    and "\<And>k q. (k, q) \<in> set m \<Longrightarrow> ident q = k"
  shows "good s'"
proof (rule good_persist [OF assms(1)])
  have "map ident (map_values m) = map fst m"
    using assms(3) by (auto simp: map_values_def)
  with assms(2) show "distinct (map ident (map_values m))" by simp
qed

lemma good_loaded_map:
  "distinct (map fst (map_from ident (load s)))"
  "(k, q) \<in> set (map_from ident (load s)) \<Longrightarrow> ident q = k"
  using map_from_mem by fastforce+

end

end
