(* ===== verification/CommitAttributionLedger.thy ===== *)
theory CommitAttributionLedger
  imports CommitAttributionPolicy PricingPolicy RecordStore
begin

text \<open>
  The ledger of cost attributions: src/src/storage/commitAttributionLedger.ts, class
  \<open>StateBackedCommitAttributionLedger\<close>. The state is the list of stored attributions. The
  write queue of the class runs its operations one at a time, so each operation is a function
  from the state to an error or to its result and the next state; an error leaves the state as
  it was, because every operation works on a copy and stores it in one final step.

  Parameters: \<open>lc\<close> is the collation of \<open>localeCompare\<close>; \<open>pg\<close> is the injected privacy
  guard, as the list of violations it reports; \<open>now\<close> is the clock in milliseconds.
\<close>

section \<open>Results\<close>

datatype ledger_error =
    Privacy_violation "string list"
  | Multiple_active_first_claims string
  | Allocation_query_mismatch string
  | Allocates_unavailable_cost string
  | Allocation_exceeds_cost string
  | Lacks_epoch_or_proof string

type_synonym guard = "query_attribution \<Rightarrow> string list"

type_synonym store = "query_attribution list"

section \<open>Predicates on allocations\<close>

definition holds_claim :: "allocation \<Rightarrow> bool" where
  "holds_claim a \<longleftrightarrow> al_status a = Al_active \<or> al_status a = Al_rewrite_pending"

definition active_first_claim :: "allocation \<Rightarrow> bool" where
  "active_first_claim a \<longleftrightarrow> al_allocationPolicy a = First_claim \<and> holds_claim a"

definition hasActiveFirstClaim :: "query_attribution \<Rightarrow> bool" where
  "hasActiveFirstClaim q = list_ex active_first_claim (qa_allocations q)"

definition isVerifiedDecision :: "decision option \<Rightarrow> bool" where
  "isVerifiedDecision d = (d \<in> {Some Reportable, Some Rewrite_pending, Some Superseded})"

definition isVerifiedAllocation :: "allocation \<Rightarrow> bool" where
  "isVerifiedAllocation a \<longleftrightarrow> al_allocationPolicy a = First_claim \<and> al_epochId a \<noteq> None
     \<and> al_proof a \<noteq> None \<and> isVerifiedDecision (al_decision a)"

section \<open>Invariants of an attribution\<close>

fun claim_error :: "query_attribution \<Rightarrow> allocation list \<Rightarrow> ledger_error option" where
  "claim_error q [] = None"
| "claim_error q (a # as) =
     (if al_allocatedNanoUsd a \<noteq> None \<and> qa_estimatedNanoUsd q = None
      then Some (Allocates_unavailable_cost (qa_queryId q))
      else if (case (al_allocatedNanoUsd a, qa_estimatedNanoUsd q) of
                 (Some x, Some e) \<Rightarrow> e < x | _ \<Rightarrow> False)
      then Some (Allocation_exceeds_cost (qa_queryId q))
      else if al_decision a = Some Reportable \<and> (\<not> truthy (al_epochId a) \<or> al_proof a = None)
      then Some (Lacks_epoch_or_proof (qa_queryId q))
      else claim_error q as)"

definition assertAttributionInvariants :: "query_attribution \<Rightarrow> ledger_error + unit" where
  "assertAttributionInvariants q =
     (let activeFirstClaims = filter active_first_claim (qa_allocations q)
      in if length activeFirstClaims > 1 then Inl (Multiple_active_first_claims (qa_queryId q))
         else if list_ex (\<lambda>a. al_queryId a \<noteq> qa_queryId q) (qa_allocations q)
         then Inl (Allocation_query_mismatch (qa_queryId q))
         else case claim_error q activeFirstClaims of Some e \<Rightarrow> Inl e | None \<Rightarrow> Inr ())"

definition assertAttributionWritable :: "guard \<Rightarrow> query_attribution \<Rightarrow> ledger_error + unit" where
  "assertAttributionWritable pg q =
     (if pg q \<noteq> [] then Inl (Privacy_violation (pg q)) else assertAttributionInvariants q)"

section \<open>Normal form\<close>

definition uniqueMatchedCausalWriteArtifacts :: "collation \<Rightarrow> matched_causal_write list
    \<Rightarrow> matched_causal_write list" where
  "uniqueMatchedCausalWriteArtifacts lc pairs =
     sort_by (mc_le lc) (map_values (map_from (mc_key [CHR 0x00]) pairs))"

definition cw_le :: "collation \<Rightarrow> causal_write \<Rightarrow> causal_write \<Rightarrow> bool" where
  "cw_le lc l r =
     (let a = lc (cw_artifactKey l) (cw_artifactKey r);
          b = lc (cw_executionNodeId l) (cw_executionNodeId r)
      in (if a \<noteq> 0 then a else b) \<le> 0)"

definition uniqueCausalWriteArtifacts :: "collation \<Rightarrow> causal_write list \<Rightarrow> causal_write list" where
  "uniqueCausalWriteArtifacts lc artifacts =
     sort_by (cw_le lc)
       (map_values (map_from (\<lambda>a. cw_artifactKey a @ '':'' @ cw_executionNodeId a) artifacts))"

definition normalizeProof :: "collation \<Rightarrow> attribution_proof \<Rightarrow> attribution_proof" where
  "normalizeProof lc p = p\<lparr>
     pf_anchorQueryIds := unique_sorted (pf_anchorQueryIds p),
     pf_inheritedQueryIds := unique_sorted (pf_inheritedQueryIds p),
     pf_matchedCausalWriteArtifacts :=
       map_option (uniqueMatchedCausalWriteArtifacts lc) (pf_matchedCausalWriteArtifacts p),
     pf_reasonCodes := unique_sorted (pf_reasonCodes p)\<rparr>"

definition normalizeEvidence :: "collation \<Rightarrow> work_evidence \<Rightarrow> work_evidence" where
  "normalizeEvidence lc e = e\<lparr>
     we_runIds := unique_sorted (we_runIds e),
     we_baselineReasons := unique_sorted (we_baselineReasons e),
     we_artifactKeys := unique_sorted (we_artifactKeys e),
     we_causalArtifactKeys := map_option unique_sorted (we_causalArtifactKeys e),
     we_causalWriteArtifacts := map_option (uniqueCausalWriteArtifacts lc) (we_causalWriteArtifacts e),
     we_nativeRejectedCausalWriteArtifacts :=
       map_option (uniqueCausalWriteArtifacts lc) (we_nativeRejectedCausalWriteArtifacts e)\<rparr>"

definition normalizeAllocation :: "collation \<Rightarrow> bool \<Rightarrow> allocation \<Rightarrow> allocation" where
  "normalizeAllocation lc priced a = a\<lparr>
     al_coverage := (if priced \<and> al_coverage a = Partial then Complete else al_coverage a),
     al_parentHashes := unique_sorted (al_parentHashes a),
     al_evidenceReasons := unique_sorted (al_evidenceReasons a),
     al_proof := map_option (normalizeProof lc) (al_proof a)\<rparr>"

definition allocation_le :: "collation \<Rightarrow> allocation \<Rightarrow> allocation \<Rightarrow> bool" where
  "allocation_le lc a b =
     (let c = lc (al_createdAt a) (al_createdAt b)
      in (if c \<noteq> 0 then c else lc (al_commitHash a) (al_commitHash b)) \<le> 0)"

definition normalizeAttribution :: "collation \<Rightarrow> query_attribution \<Rightarrow> query_attribution" where
  "normalizeAttribution lc q =
     (let pricingCoverage = map_option applyPricingCoveragePolicy (qa_pricingCoverage q);
          priced = (map_option pc_state pricingCoverage = Some Priced)
      in q\<lparr>qa_costCoverage := (if priced then Complete else qa_costCoverage q),
           qa_pricingCoverage := pricingCoverage,
           qa_runIds := unique_sorted (qa_runIds q),
           qa_evidence := map (normalizeEvidence lc) (qa_evidence q),
           qa_allocations :=
             sort_by (allocation_le lc) (map (normalizeAllocation lc priced) (qa_allocations q))\<rparr>)"

section \<open>Loading and storing\<close>

definition loadAttributions :: "collation \<Rightarrow> store \<Rightarrow> query_attribution list" where
  "loadAttributions lc st = map (normalizeAttribution lc) st"

definition persistAttributions :: "collation \<Rightarrow> guard \<Rightarrow> query_attribution list \<Rightarrow> ledger_error + store" where
  "persistAttributions lc pg qs =
     bindE (mapE (assertAttributionWritable pg) qs) (\<lambda>_. Inr (map (normalizeAttribution lc) qs))"

section \<open>Upsert\<close>

fun replace_or_append :: "query_attribution \<Rightarrow> query_attribution list \<Rightarrow> query_attribution list" where
  "replace_or_append q [] = [q]"
| "replace_or_append q (x # xs) =
     (if qa_queryId x = qa_queryId q then q # xs else x # replace_or_append q xs)"

definition upsertQueryAttribution :: "collation \<Rightarrow> guard \<Rightarrow> query_attribution \<Rightarrow> store
    \<Rightarrow> ledger_error + store" where
  "upsertQueryAttribution lc pg q st =
     bindE (assertAttributionWritable pg q) (\<lambda>_.
       let attributions = loadAttributions lc st;
           nxt = normalizeAttribution lc q
       in if find (\<lambda>c. qa_queryId c = qa_queryId nxt) attributions = Some nxt then Inr st
          else persistAttributions lc pg (replace_or_append nxt attributions))"

section \<open>First claims\<close>

record first_claim_input =
  fc_candidate :: commit_candidate
  fc_episode :: episode
  fc_proof :: attribution_proof
  fc_queryIds :: "string list"

definition emptyAttribution :: "string \<Rightarrow> query_attribution" where
  "emptyAttribution q = \<lparr>qa_queryId = q, qa_runIds = [], qa_provider = None,
     qa_estimatedNanoUsd = None, qa_estimatedUsd = None, qa_estimatedAiCredits = None,
     qa_costCoverage = Unavailable, qa_pricingCoverage = None, qa_status = Qa_unattributed,
     qa_evidence = [], qa_allocations = []\<rparr>"

definition evidence_key :: "work_evidence \<Rightarrow> string" where
  "evidence_key e = we_queryId e @ '':'' @ we_repoKey e"

definition mergeEvidence :: "work_evidence list \<Rightarrow> work_evidence list \<Rightarrow> work_evidence list" where
  "mergeEvidence existing nxt = map_values (map_from evidence_key (existing @ nxt))"

definition proofForQuery :: "collation \<Rightarrow> attribution_proof \<Rightarrow> string \<Rightarrow> attribution_proof" where
  "proofForQuery lc p queryId =
     (let inherits = queryId \<in> set (pf_inheritedQueryIds p);
          scopedPairs =
            (if inherits then pf_matchedCausalWriteArtifacts p
             else map_option (filter (\<lambda>w. mc_queryId w = queryId)) (pf_matchedCausalWriteArtifacts p));
          scoped = (case scopedPairs of
             None \<Rightarrow> None
           | Some ws \<Rightarrow> if ws = [] then None else Some (uniqueMatchedCausalWriteArtifacts lc ws))
      in p\<lparr>pf_matchedCausalWriteArtifacts := scoped,
           pf_kind := (if inherits then Episode_inheritance else pf_kind p),
           pf_inheritedQueryIds := (if inherits then [queryId] else [])\<rparr>)"

definition allocationFromClaim :: "collation \<Rightarrow> first_claim_input \<Rightarrow> query_attribution \<Rightarrow> string
    \<Rightarrow> string \<Rightarrow> allocation" where
  "allocationFromClaim lc i q queryId verifiedAt =
     \<lparr>al_episodeId = Some (ep_episodeId (fc_episode i)),
      al_epochId = Some (cc_epochId (fc_candidate i)),
      al_commitHash = cc_commitHash (fc_candidate i),
      al_commitMessage = cc_commitMessage (fc_candidate i),
      al_parentHashes = cc_parentHashes (fc_candidate i),
      al_repoKey = cc_repoKey (fc_candidate i),
      al_refKey = cc_refKey (fc_candidate i),
      al_queryId = queryId,
      al_allocatedNanoUsd = qa_estimatedNanoUsd q,
      al_allocationPolicy = First_claim,
      al_decision = Some Reportable,
      al_proof = Some (proofForQuery lc (fc_proof i) queryId),
      al_confidence = None,
      al_coverage = qa_costCoverage q,
      al_evidenceReasons =
        unique_sorted (pf_reasonCodes (fc_proof i) @ cc_reasonCodes (fc_candidate i)),
      al_status = Al_active,
      al_verifiedAt = Some verifiedAt,
      al_stateChangedAt = Some verifiedAt,
      al_rewritePendingAt = None,
      al_createdAt = cc_observedAt (fc_candidate i)\<rparr>"

text \<open>The loop state: the attributions by query, the claimed and the skipped queries.\<close>

type_synonym claim_state = "(string, query_attribution) jsmap \<times> string list \<times> string list"

definition withClaim :: "collation \<Rightarrow> first_claim_input \<Rightarrow> string \<Rightarrow> string
    \<Rightarrow> allocation list \<Rightarrow> query_attribution \<Rightarrow> query_attribution" where
  "withClaim lc i verifiedAt queryId allocations q =
     (let q' = q\<lparr>qa_evidence := mergeEvidence (qa_evidence q)
                  (filter (\<lambda>e. we_queryId e = queryId) (ep_evidence (fc_episode i)))\<rparr>
      in q'\<lparr>qa_allocations := allocations @ [allocationFromClaim lc i q' queryId verifiedAt],
            qa_status := Qa_attributed\<rparr>)"

definition claim_one :: "collation \<Rightarrow> guard \<Rightarrow> first_claim_input \<Rightarrow> string \<Rightarrow> string \<Rightarrow> claim_state
    \<Rightarrow> ledger_error + claim_state" where
  "claim_one lc pg i verifiedAt queryId = (\<lambda>(byQuery, claimed, skipped).
     let q = nullish (map_get byQuery queryId) (emptyAttribution queryId)
     in if hasActiveFirstClaim q then Inr (byQuery, claimed, skipped @ [queryId])
        else let q' = withClaim lc i verifiedAt queryId (qa_allocations q) q
             in bindE (assertAttributionWritable pg q') (\<lambda>_.
                  Inr (map_set queryId (normalizeAttribution lc q') byQuery, claimed @ [queryId], skipped)))"

definition tryFirstClaim :: "collation \<Rightarrow> guard \<Rightarrow> int \<Rightarrow> first_claim_input \<Rightarrow> store
    \<Rightarrow> ledger_error + (string list \<times> string list) \<times> store" where
  "tryFirstClaim lc pg now i st =
     bindE (foldE (claim_one lc pg i (iso_of_ms now)) (fc_queryIds i)
              (map_from qa_queryId (loadAttributions lc st), [], []))
       (\<lambda>(byQuery, claimed, skipped).
         bindE (persistAttributions lc pg (map_values byQuery)) (\<lambda>st'. Inr ((claimed, skipped), st')))"

section \<open>Transfer after a rewrite\<close>

fun update_first :: "('a \<Rightarrow> bool) \<Rightarrow> ('a \<Rightarrow> 'a) \<Rightarrow> 'a list \<Rightarrow> 'a list" where
  "update_first P f [] = []"
| "update_first P f (x # xs) = (if P x then f x # xs else x # update_first P f xs)"

definition supersede :: "string \<Rightarrow> allocation \<Rightarrow> allocation" where
  "supersede time a = a\<lparr>al_status := Al_superseded, al_decision := Some Superseded,
     al_rewritePendingAt := None, al_stateChangedAt := Some time\<rparr>"

definition transfer_one :: "collation \<Rightarrow> guard \<Rightarrow> first_claim_input \<Rightarrow> string \<Rightarrow> string \<Rightarrow> string
    \<Rightarrow> claim_state \<Rightarrow> ledger_error + claim_state" where
  "transfer_one lc pg i supersededCommitHash verifiedAt queryId = (\<lambda>(byQuery, claimed, skipped).
     let q = nullish (map_get byQuery queryId) (emptyAttribution queryId);
         isPrevious = (\<lambda>a. al_commitHash a = supersededCommitHash \<and> holds_claim a)
     in if \<not> list_ex isPrevious (qa_allocations q) then Inr (byQuery, claimed, skipped @ [queryId])
        else let q' = withClaim lc i verifiedAt queryId
                        (update_first isPrevious (supersede verifiedAt) (qa_allocations q)) q
             in bindE (assertAttributionWritable pg q') (\<lambda>_.
                  Inr (map_set queryId (normalizeAttribution lc q') byQuery, claimed @ [queryId], skipped)))"

definition transferFirstClaim :: "collation \<Rightarrow> guard \<Rightarrow> int \<Rightarrow> first_claim_input \<Rightarrow> string \<Rightarrow> store
    \<Rightarrow> ledger_error + (string list \<times> string list) \<times> store" where
  "transferFirstClaim lc pg now i supersededCommitHash st =
     bindE (foldE (transfer_one lc pg i supersededCommitHash (iso_of_ms now)) (fc_queryIds i)
              (map_from qa_queryId (loadAttributions lc st), [], []))
       (\<lambda>(byQuery, claimed, skipped).
         bindE (persistAttributions lc pg (map_values byQuery)) (\<lambda>st'. Inr ((claimed, skipped), st')))"

section \<open>Reconciliation with native rejections\<close>

definition candidateKey :: "string \<Rightarrow> string \<Rightarrow> string \<Rightarrow> string" where
  "candidateKey repoKey epochId commitHash = repoKey @ [CHR 0x00] @ epochId @ [CHR 0x00] @ commitHash"

definition candidate_of :: "commit_candidate list \<Rightarrow> string \<Rightarrow> string \<Rightarrow> string \<Rightarrow> commit_candidate option" where
  "candidate_of candidates repoKey epochId commitHash =
     map_get (map_from (\<lambda>c. candidateKey (cc_repoKey c) (cc_epochId c) (cc_commitHash c)) candidates)
       (candidateKey repoKey epochId commitHash)"

definition containsCausalPair :: "causal_write list option \<Rightarrow> matched_causal_write \<Rightarrow> bool" where
  "containsCausalPair pairs expected =
     list_ex (\<lambda>p. cw_artifactKey p = mc_artifactKey expected
        \<and> cw_executionNodeId p = mc_executionNodeId expected) (nullish pairs [])"

definition isExplicitlyNativeRejectedPair :: "matched_causal_write \<Rightarrow> work_evidence list \<Rightarrow> bool" where
  "isExplicitlyNativeRejectedPair pair evidence =
     list_ex (\<lambda>e. we_queryId e = mc_queryId pair
        \<and> we_causalWriteArtifactsComplete e = Some True
        \<and> containsCausalPair (we_nativeRejectedCausalWriteArtifacts e) pair
        \<and> \<not> containsCausalPair (we_causalWriteArtifacts e) pair) evidence"

definition stored_pairs :: "attribution_proof \<Rightarrow> matched_causal_write list" where
  "stored_pairs p = nullish (pf_matchedCausalWriteArtifacts p) []"

definition sourceEvidenceForAllocation :: "work_evidence list \<Rightarrow> allocation \<Rightarrow> work_evidence list" where
  "sourceEvidenceForAllocation evidence a =
     (case al_proof a of
        None \<Rightarrow> []
      | Some p \<Rightarrow>
          if \<not> truthy (al_epochId a) then []
          else filter (\<lambda>e. we_queryId e \<in> set (map mc_queryId (stored_pairs p))
                 \<and> we_repoKey e = al_repoKey a \<and> we_epochId e = al_epochId a) evidence)"

definition currentMatchedCausalPairsForCandidate :: "collation \<Rightarrow> work_evidence list \<Rightarrow> commit_candidate
    \<Rightarrow> matched_causal_write list" where
  "currentMatchedCausalPairsForCandidate lc evidence candidate =
     matched_pairs lc [CHR 0x00] evidence (cc_artifactStates candidate)"

datatype reconciliation = Untouched | Revalidated | Revoked

definition reconcile_allocation :: "collation \<Rightarrow> work_evidence list \<Rightarrow> commit_candidate list \<Rightarrow> string
    \<Rightarrow> allocation \<Rightarrow> allocation \<times> reconciliation" where
  "reconcile_allocation lc evidence candidates changedAt a =
     (case (al_proof a, al_epochId a) of
        (Some p, Some epoch) \<Rightarrow>
          if \<not> active_first_claim a \<or> stored_pairs p = [] \<or> epoch = '''' then (a, Untouched)
          else (case candidate_of candidates (al_repoKey a) epoch (al_commitHash a) of
            None \<Rightarrow> (a, Untouched)
          | Some candidate \<Rightarrow>
              let sourceEvidence = sourceEvidenceForAllocation evidence a;
                  explicitlyRejected =
                    filter (\<lambda>w. isExplicitlyNativeRejectedPair w sourceEvidence) (stored_pairs p);
                  currentMatchedPairs =
                    currentMatchedCausalPairsForCandidate lc sourceEvidence candidate
              in if explicitlyRejected = [] then (a, Untouched)
                 else if currentMatchedPairs \<noteq> []
                 then (a\<lparr>al_proof := Some (p\<lparr>pf_matchedCausalWriteArtifacts := Some currentMatchedPairs\<rparr>),
                         al_stateChangedAt := Some changedAt,
                         al_evidenceReasons := unique_sorted
                           (al_evidenceReasons a @ [''native_causal_write_revalidated''])\<rparr>, Revalidated)
                 else if length explicitlyRejected \<noteq> length (stored_pairs p) then (a, Untouched)
                 else ((supersede changedAt a)\<lparr>al_evidenceReasons := unique_sorted
                           (al_evidenceReasons a @ [''native_causal_write_retracted''])\<rparr>, Revoked))
      | _ \<Rightarrow> (a, Untouched))"

record reconciliation_result =
  rr_revokedQueryIds :: "string list"
  rr_revokedCommitHashes :: "string list"
  rr_revalidatedQueryIds :: "string list"
  rr_revalidatedCommitHashes :: "string list"

definition reconcile_attribution :: "collation \<Rightarrow> work_evidence list \<Rightarrow> commit_candidate list \<Rightarrow> string
    \<Rightarrow> query_attribution \<Rightarrow> query_attribution \<times> (allocation \<times> reconciliation) list" where
  "reconcile_attribution lc evidence candidates changedAt q =
     (let outcomes = map (reconcile_allocation lc evidence candidates changedAt) (qa_allocations q);
          q' = q\<lparr>qa_allocations := map fst outcomes\<rparr>
      in (if list_ex (\<lambda>(_, r). r = Revoked) outcomes \<and> \<not> hasActiveFirstClaim q'
          then q'\<lparr>qa_status := Qa_rejected\<rparr> else q', outcomes))"

definition outcome_hashes :: "reconciliation \<Rightarrow> (allocation \<times> reconciliation) list \<Rightarrow> string list" where
  "outcome_hashes r outcomes = map (al_commitHash \<circ> fst) (filter (\<lambda>(_, r'). r' = r) outcomes)"

definition reconcileNativeRejectedCausalClaims :: "collation \<Rightarrow> guard \<Rightarrow> int \<Rightarrow> work_evidence list
    \<Rightarrow> commit_candidate list \<Rightarrow> store \<Rightarrow> ledger_error + reconciliation_result \<times> store" where
  "reconcileNativeRejectedCausalClaims lc pg now evidence candidates st =
     (let results = map (reconcile_attribution lc evidence candidates (iso_of_ms now))
            (loadAttributions lc st);
          touched = filter (\<lambda>(_, os). list_ex (\<lambda>(_, r). r \<noteq> Untouched) os) results;
          queries = (\<lambda>r. sort (dedup (map (qa_queryId \<circ> fst)
            (filter (\<lambda>(_, os). list_ex (\<lambda>(_, r'). r' = r) os) results))));
          hashes = (\<lambda>r. sort (dedup (concat (map (outcome_hashes r \<circ> snd) results))));
          result = \<lparr>rr_revokedQueryIds = queries Revoked, rr_revokedCommitHashes = hashes Revoked,
            rr_revalidatedQueryIds = queries Revalidated,
            rr_revalidatedCommitHashes = hashes Revalidated\<rparr>
      in bindE (mapE (assertAttributionWritable pg \<circ> fst) touched) (\<lambda>_.
           if touched = [] then Inr (result, st)
           else bindE (persistAttributions lc pg (map fst results)) (\<lambda>st'. Inr (result, st'))))"

section \<open>Rewrites, legacy records and retention\<close>

definition count_where :: "(allocation \<Rightarrow> bool) \<Rightarrow> query_attribution list \<Rightarrow> nat" where
  "count_where P qs = sum_list (map (\<lambda>q. length (filter P (qa_allocations q))) qs)"

text \<open>Change the allocations that satisfy \<open>P\<close>, and the status of an attribution that has one.\<close>

definition change_where :: "(allocation \<Rightarrow> bool) \<Rightarrow> (allocation \<Rightarrow> allocation) \<Rightarrow> attribution_status
    \<Rightarrow> query_attribution \<Rightarrow> query_attribution" where
  "change_where P f status q =
     (if list_ex P (qa_allocations q)
      then q\<lparr>qa_allocations := map (\<lambda>a. if P a then f a else a) (qa_allocations q), qa_status := status\<rparr>
      else q)"

definition rewrite_target :: "string \<Rightarrow> string list \<Rightarrow> allocation \<Rightarrow> bool" where
  "rewrite_target repoKey commitHashes a \<longleftrightarrow>
     al_repoKey a = repoKey \<and> al_commitHash a \<in> set commitHashes \<and> al_status a = Al_active"

definition mark_pending :: "string \<Rightarrow> allocation \<Rightarrow> allocation" where
  "mark_pending observedAt a = a\<lparr>al_status := Al_rewrite_pending, al_decision := Some Rewrite_pending,
     al_rewritePendingAt := Some observedAt, al_stateChangedAt := Some observedAt\<rparr>"

definition markRewritePending :: "collation \<Rightarrow> guard \<Rightarrow> string \<Rightarrow> string list \<Rightarrow> string \<Rightarrow> store
    \<Rightarrow> ledger_error + nat \<times> store" where
  "markRewritePending lc pg repoKey commitHashes observedAt st =
     (let attributions = loadAttributions lc st;
          P = rewrite_target repoKey commitHashes;
          changed = count_where P attributions
      in if changed > 0
         then bindE (persistAttributions lc pg
                (map (change_where P (mark_pending observedAt) Qa_rewrite_pending) attributions))
                (\<lambda>st'. Inr (changed, st'))
         else Inr (changed, st))"

definition rewrite_expired :: "string \<Rightarrow> allocation \<Rightarrow> bool" where
  "rewrite_expired before a \<longleftrightarrow> al_status a = Al_rewrite_pending \<and> truthy (al_rewritePendingAt a)
     \<and> \<not> before < the (al_rewritePendingAt a)"

definition expireRewritePending :: "collation \<Rightarrow> guard \<Rightarrow> int \<Rightarrow> string \<Rightarrow> store
    \<Rightarrow> ledger_error + nat \<times> store" where
  "expireRewritePending lc pg now before st =
     (let attributions = loadAttributions lc st;
          P = rewrite_expired before;
          changed = count_where P attributions
      in if changed > 0
         then bindE (persistAttributions lc pg
                (map (change_where P (supersede (iso_of_ms now)) Qa_expired) attributions))
                (\<lambda>st'. Inr (changed, st'))
         else Inr (changed, st))"

definition outside_epochs :: "string list option \<Rightarrow> string option \<Rightarrow> bool" where
  "outside_epochs activeEpochIds epochId \<longleftrightarrow> \<not> truthy epochId
     \<or> (case activeEpochIds of None \<Rightarrow> False | Some es \<Rightarrow> the epochId \<notin> set es)"

definition legacy_allocation :: "string list option \<Rightarrow> allocation \<Rightarrow> bool" where
  "legacy_allocation activeEpochIds a \<longleftrightarrow> outside_epochs activeEpochIds (al_epochId a)
     \<or> al_proof a = None \<or> \<not> isVerifiedDecision (al_decision a)"

definition marked_legacy :: "allocation \<Rightarrow> bool" where
  "marked_legacy a \<longleftrightarrow> al_status a = Al_legacy_unverified \<and> al_decision a = Some Legacy_unverified"

definition mark_legacy :: "allocation \<Rightarrow> allocation" where
  "mark_legacy a = a\<lparr>al_status := Al_legacy_unverified, al_decision := Some Legacy_unverified\<rparr>"

definition quarantine_attribution :: "string list option \<Rightarrow> query_attribution \<Rightarrow> query_attribution \<times> nat" where
  "quarantine_attribution activeEpochIds q =
     (let hasLegacyEvidence =
            list_ex (\<lambda>e. outside_epochs activeEpochIds (we_epochId e)) (qa_evidence q);
          P = (\<lambda>a. legacy_allocation activeEpochIds a \<and> \<not> marked_legacy a);
          n = length (filter P (qa_allocations q));
          q' = q\<lparr>qa_allocations := map (\<lambda>a. if P a then mark_legacy a else a) (qa_allocations q)\<rparr>
      in if \<not> list_ex isVerifiedAllocation (qa_allocations q')
            \<and> (qa_allocations q' \<noteq> [] \<or> hasLegacyEvidence)
         then (q'\<lparr>qa_status := Qa_legacy_unverified\<rparr>,
               n + (if qa_status q' \<noteq> Qa_legacy_unverified then 1 else 0))
         else (q', n))"

definition quarantineLegacy :: "collation \<Rightarrow> guard \<Rightarrow> string list option \<Rightarrow> store
    \<Rightarrow> ledger_error + nat \<times> store" where
  "quarantineLegacy lc pg activeEpochIds st =
     (let results = map (quarantine_attribution activeEpochIds) (loadAttributions lc st);
          changed = sum_list (map snd results)
      in if changed > 0
         then bindE (persistAttributions lc pg (map fst results)) (\<lambda>st'. Inr (changed, st'))
         else Inr (changed, st))"

definition last_string :: "string list \<Rightarrow> string" where
  "last_string xs = (case sort xs of [] \<Rightarrow> '''' | ys \<Rightarrow> last ys)"

definition latestAttributionTimestamp :: "query_attribution \<Rightarrow> string" where
  "latestAttributionTimestamp q =
     last_string (map al_createdAt (qa_allocations q)
       @ map (\<lambda>e. nullish (or_else (we_completedAt e) (we_lastObservedAt e)) (we_startedAt e)) (qa_evidence q))"

text \<open>\<open>retentionDays\<close> is \<open>None\<close> when it is not finite.\<close>

definition applyRetention :: "collation \<Rightarrow> guard \<Rightarrow> int \<Rightarrow> rat option \<Rightarrow> string list option \<Rightarrow> store
    \<Rightarrow> ledger_error + nat \<times> store" where
  "applyRetention lc pg now retentionDays retainedQueryIds st =
     (case retentionDays of
        None \<Rightarrow> Inr (0, st)
      | Some days \<Rightarrow>
          if days \<le> 0 then Inr (0, st)
          else let cutoff = of_int now - days * 24 * 60 * 60 * 1000;
                   attributions = loadAttributions lc st;
                   retained = filter (\<lambda>q. case retainedQueryIds of
                       Some qs \<Rightarrow> qa_queryId q \<in> set qs
                     | None \<Rightarrow> (case date_ms (latestAttributionTimestamp q) of
                         None \<Rightarrow> False | Some d \<Rightarrow> cutoff \<le> of_int d)) attributions;
                   removed = length attributions - length retained
               in if removed > 0
                  then bindE (persistAttributions lc pg retained) (\<lambda>st'. Inr (removed, st'))
                  else Inr (removed, st))"

definition clear :: "collation \<Rightarrow> guard \<Rightarrow> store \<Rightarrow> ledger_error + store" where
  "clear lc pg st = persistAttributions lc pg []"

end
