(* ===== verification/LedgerInvariants.thy ===== *)
theory LedgerInvariants
  imports CommitAttributionLedger
begin

text \<open>
  The invariants of the attribution ledger. \<open>claims_ok\<close> is the specification of
  \<open>assertAttributionInvariants\<close>; the normal form keeps it; the ledger is a \<open>record_store\<close>
  of attributions that satisfy it; and \<open>reachable\<close> is the set of states that any sequence of
  operations, successful or refused, leads to.
\<close>

section \<open>What the invariants of an attribution say\<close>

definition claim_ok :: "query_attribution \<Rightarrow> allocation \<Rightarrow> bool" where
  "claim_ok q a \<longleftrightarrow>
     (case al_allocatedNanoUsd a of
        None \<Rightarrow> True
      | Some x \<Rightarrow> (case qa_estimatedNanoUsd q of None \<Rightarrow> False | Some e \<Rightarrow> x \<le> e))
     \<and> \<not> (al_decision a = Some Reportable \<and> (\<not> truthy (al_epochId a) \<or> al_proof a = None))"

definition claims_ok :: "query_attribution \<Rightarrow> bool" where
  "claims_ok q \<longleftrightarrow> length (filter active_first_claim (qa_allocations q)) \<le> 1
     \<and> (\<forall>a \<in> set (qa_allocations q). al_queryId a = qa_queryId q)
     \<and> (\<forall>a \<in> set (filter active_first_claim (qa_allocations q)). claim_ok q a)"

lemma claim_error_None: "claim_error q as = None \<longleftrightarrow> (\<forall>a \<in> set as. claim_ok q a)"
  by (induction q as rule: claim_error.induct) (auto simp: claim_ok_def split: option.splits)

lemma assert_iff: "assertAttributionInvariants q = Inr () \<longleftrightarrow> claims_ok q"
  unfolding assertAttributionInvariants_def claims_ok_def Let_def claim_error_None [symmetric]
  by (auto simp: list_ex_iff split: option.splits)

lemma assertWritable_iff: "assertAttributionWritable pg q = Inr () \<longleftrightarrow> pg q = [] \<and> claims_ok q"
  by (simp add: assertAttributionWritable_def assert_iff)

lemma bindE_unit: "bindE r (\<lambda>_. Inr y) = Inr z \<longleftrightarrow> r = Inr () \<and> y = z" for r :: "'e + unit"
  by (cases r) auto

section \<open>The normal form keeps the claims\<close>

definition priced_by_policy :: "query_attribution \<Rightarrow> bool" where
  "priced_by_policy q =
     (map_option pc_state (map_option applyPricingCoveragePolicy (qa_pricingCoverage q)) = Some Priced)"

lemma normalizeAllocation_sel [simp]:
  "al_queryId (normalizeAllocation lc b a) = al_queryId a"
  "al_commitHash (normalizeAllocation lc b a) = al_commitHash a"
  "al_repoKey (normalizeAllocation lc b a) = al_repoKey a"
  "al_epochId (normalizeAllocation lc b a) = al_epochId a"
  "al_status (normalizeAllocation lc b a) = al_status a"
  "al_decision (normalizeAllocation lc b a) = al_decision a"
  "al_allocationPolicy (normalizeAllocation lc b a) = al_allocationPolicy a"
  "al_allocatedNanoUsd (normalizeAllocation lc b a) = al_allocatedNanoUsd a"
  "al_proof (normalizeAllocation lc b a) = None \<longleftrightarrow> al_proof a = None"
  by (simp_all add: normalizeAllocation_def)

lemma active_normalizeAllocation [simp]:
  "holds_claim (normalizeAllocation lc b a) = holds_claim a"
  "active_first_claim (normalizeAllocation lc b a) = active_first_claim a"
  by (simp_all add: active_first_claim_def holds_claim_def)

lemma normalizeAttribution_sel [simp]:
  "qa_queryId (normalizeAttribution lc q) = qa_queryId q"
  "qa_estimatedNanoUsd (normalizeAttribution lc q) = qa_estimatedNanoUsd q"
  "qa_status (normalizeAttribution lc q) = qa_status q"
  "qa_provider (normalizeAttribution lc q) = qa_provider q"
  by (simp_all add: normalizeAttribution_def Let_def)

lemma mset_normalize_allocations:
  "mset (qa_allocations (normalizeAttribution lc q))
   = image_mset (normalizeAllocation lc (priced_by_policy q)) (mset (qa_allocations q))"
  by (simp add: normalizeAttribution_def priced_by_policy_def Let_def)

lemma mset_normalize_active:
  "mset (filter active_first_claim (qa_allocations (normalizeAttribution lc q)))
   = image_mset (normalizeAllocation lc (priced_by_policy q))
       (mset (filter active_first_claim (qa_allocations q)))"
  by (simp add: mset_normalize_allocations filter_mset_image_mset)

lemma length_normalize_active [simp]:
  "length (filter active_first_claim (qa_allocations (normalizeAttribution lc q)))
   = length (filter active_first_claim (qa_allocations q))"
  by (metis mset_normalize_active size_image_mset size_mset)

lemma set_normalize_active:
  "set (filter active_first_claim (qa_allocations (normalizeAttribution lc q)))
   = normalizeAllocation lc (priced_by_policy q) ` set (filter active_first_claim (qa_allocations q))"
  using arg_cong [OF mset_normalize_active [of lc q], of set_mset]
  by (simp only: set_mset_mset set_image_mset)

lemma set_normalize_allocations:
  "set (qa_allocations (normalizeAttribution lc q))
   = normalizeAllocation lc (priced_by_policy q) ` set (qa_allocations q)"
  using arg_cong [OF mset_normalize_allocations [of lc q], of set_mset]
  by (simp only: set_mset_mset set_image_mset)

lemma hasActive_iff: "hasActiveFirstClaim q \<longleftrightarrow> filter active_first_claim (qa_allocations q) \<noteq> []"
  by (auto simp: hasActiveFirstClaim_def list_ex_iff filter_empty_conv)

lemma hasActive_normalize [simp]:
  "hasActiveFirstClaim (normalizeAttribution lc q) = hasActiveFirstClaim q"
  unfolding hasActive_iff using length_normalize_active [of lc q] by (metis length_0_conv)

lemma claims_ok_normalize [simp]: "claims_ok (normalizeAttribution lc q) \<longleftrightarrow> claims_ok q"
proof -
  have "claim_ok (normalizeAttribution lc q) (normalizeAllocation lc b a) \<longleftrightarrow> claim_ok q a" for b a
    by (simp add: claim_ok_def split: option.split)
  then show ?thesis
    unfolding claims_ok_def set_normalize_active set_normalize_allocations by simp
qed

section \<open>The ledger is a record store\<close>

lemma persist_Inr:
  "persistAttributions lc pg qs = Inr st \<longleftrightarrow>
     (\<forall>q \<in> set qs. pg q = [] \<and> claims_ok q) \<and> st = map (normalizeAttribution lc) qs"
proof -
  have "(\<exists>us. mapE (assertAttributionWritable pg) qs = Inr us)
      \<longleftrightarrow> (\<forall>q \<in> set qs. pg q = [] \<and> claims_ok q)"
  proof (induction qs)
    case (Cons q qs)
    have "(\<exists>u. assertAttributionWritable pg q = Inr u) \<longleftrightarrow> pg q = [] \<and> claims_ok q"
      by (simp add: assertWritable_iff)
    with Cons show ?case by (auto simp: bindE_Inr)
  qed simp
  then show ?thesis by (auto simp: persistAttributions_def bindE_Inr)
qed

interpretation attribution_store: record_store "\<lambda>st. st" "loadAttributions lc"
  "persistAttributions lc pg" qa_queryId claims_ok for lc pg
  by unfold_locales (auto simp: loadAttributions_def persist_Inr)

abbreviation ledger_ok :: "store \<Rightarrow> bool" where
  "ledger_ok \<equiv> attribution_store.good"

lemma ledger_ok_iff:
  "ledger_ok st \<longleftrightarrow> (\<forall>q \<in> set st. claims_ok q) \<and> distinct (map qa_queryId st)"
  by (simp add: attribution_store.good_def)

section \<open>Every operation keeps the ledger valid\<close>

lemma replace_or_append_ids:
  "map qa_queryId (replace_or_append q qs)
   = (if qa_queryId q \<in> qa_queryId ` set qs then map qa_queryId qs else map qa_queryId qs @ [qa_queryId q])"
  by (induction q qs rule: replace_or_append.induct) auto

lemma upsert_ok:
  assumes "ledger_ok st" "upsertQueryAttribution lc pg q st = Inr st'"
  shows "ledger_ok st'"
proof -
  have "distinct (map qa_queryId (replace_or_append (normalizeAttribution lc q) (loadAttributions lc st)))"
    using attribution_store.distinct_load [OF assms(1), of lc] by (simp add: replace_or_append_ids)
  with assms show ?thesis
    by (auto simp: upsertQueryAttribution_def bindE_Inr Let_def split: if_splits
        dest: attribution_store.good_persist)
qed

text \<open>The map of a claim loop holds each attribution under its own query.\<close>

definition keyed_by_query :: "(string, query_attribution) jsmap \<Rightarrow> bool" where
  "keyed_by_query m \<longleftrightarrow> distinct (map fst m) \<and> (\<forall>(k, q) \<in> set m. qa_queryId q = k)"

lemma keyed_by_query_load:
  "keyed_by_query (map_from qa_queryId (loadAttributions lc st))"
  using map_from_mem by (fastforce simp: keyed_by_query_def)

lemma keyed_by_query_set:
  "keyed_by_query m \<Longrightarrow> qa_queryId q = k \<Longrightarrow> keyed_by_query (map_set k q m)"
  using set_map_set_subset [of k q m]
  by (fastforce simp: keyed_by_query_def js_map.distinct_keys_put)

lemma keyed_by_query_get: "keyed_by_query m \<Longrightarrow> map_get m k = Some q \<Longrightarrow> qa_queryId q = k"
  by (auto simp: keyed_by_query_def dest: map_of_SomeD)

lemma withClaim_sel [simp]:
  "qa_queryId (withClaim lc i t k as q) = qa_queryId q"
  "qa_estimatedNanoUsd (withClaim lc i t k as q) = qa_estimatedNanoUsd q"
  "qa_status (withClaim lc i t k as q) = Qa_attributed"
  by (simp_all add: withClaim_def Let_def)

lemma current_queryId:
  "keyed_by_query m \<Longrightarrow> qa_queryId (nullish (map_get m k) (emptyAttribution k)) = k"
  by (cases "map_get m k") (auto simp: emptyAttribution_def dest: keyed_by_query_get)

lemma keyed_persist:
  "keyed_by_query m \<Longrightarrow> persistAttributions lc pg (map_values m) = Inr st \<Longrightarrow> ledger_ok st"
  by (rule attribution_store.good_persist_values) (auto simp: keyed_by_query_def)

lemma claim_one_keyed:
  "claim_one lc pg i t k s = Inr s' \<Longrightarrow> keyed_by_query (fst s) \<Longrightarrow> keyed_by_query (fst s')"
  by (cases s) (auto simp: claim_one_def Let_def bindE_Inr current_queryId
      intro!: keyed_by_query_set split: if_splits)

lemma transfer_one_keyed:
  "transfer_one lc pg i h t k s = Inr s' \<Longrightarrow> keyed_by_query (fst s) \<Longrightarrow> keyed_by_query (fst s')"
  by (cases s) (auto simp: transfer_one_def Let_def bindE_Inr current_queryId
      intro!: keyed_by_query_set split: if_splits)

lemma tryFirstClaim_ok:
  assumes "tryFirstClaim lc pg now i st = Inr (r, st')"
  shows "ledger_ok st'"
proof -
  from assms obtain byQuery claimed skipped where
    loop: "foldE (claim_one lc pg i (iso_of_ms now)) (fc_queryIds i)
        (map_from qa_queryId (loadAttributions lc st), [], []) = Inr (byQuery, claimed, skipped)"
    and st': "persistAttributions lc pg (map_values byQuery) = Inr st'"
    by (auto simp: tryFirstClaim_def bindE_Inr)
  have "keyed_by_query (fst (byQuery, claimed, skipped))"
    by (rule foldE_invariant [where P = "\<lambda>s. keyed_by_query (fst s)", OF loop])
      (auto simp: keyed_by_query_load claim_one_keyed)
  with st' show ?thesis by (simp add: keyed_persist)
qed

lemma transferFirstClaim_ok:
  assumes "transferFirstClaim lc pg now i h st = Inr (r, st')"
  shows "ledger_ok st'"
proof -
  from assms obtain byQuery claimed skipped where
    loop: "foldE (transfer_one lc pg i h (iso_of_ms now)) (fc_queryIds i)
        (map_from qa_queryId (loadAttributions lc st), [], []) = Inr (byQuery, claimed, skipped)"
    and st': "persistAttributions lc pg (map_values byQuery) = Inr st'"
    by (auto simp: transferFirstClaim_def bindE_Inr)
  have "keyed_by_query (fst (byQuery, claimed, skipped))"
    by (rule foldE_invariant [where P = "\<lambda>s. keyed_by_query (fst s)", OF loop])
      (auto simp: keyed_by_query_load transfer_one_keyed)
  with st' show ?thesis by (simp add: keyed_persist)
qed

text \<open>The other operations map or filter what they load.\<close>

lemma map_ops_queryId [simp]:
  "qa_queryId (fst (reconcile_attribution lc ev cs t q)) = qa_queryId q"
  "qa_queryId (change_where P f s q) = qa_queryId q"
  "qa_queryId (fst (quarantine_attribution es q)) = qa_queryId q"
  by (simp_all add: reconcile_attribution_def change_where_def quarantine_attribution_def Let_def)

lemma reconcile_ok:
  "ledger_ok st \<Longrightarrow> reconcileNativeRejectedCausalClaims lc pg now ev cs st = Inr (r, st') \<Longrightarrow> ledger_ok st'"
  by (auto simp: reconcileNativeRejectedCausalClaims_def Let_def bindE_Inr split: if_splits
      intro: attribution_store.good_persist_map [where f = "fst \<circ> reconcile_attribution lc ev cs (iso_of_ms now)"])

lemma mark_ok:
  "ledger_ok st \<Longrightarrow> markRewritePending lc pg rk hs t st = Inr (n, st') \<Longrightarrow> ledger_ok st'"
  by (auto simp: markRewritePending_def Let_def bindE_Inr split: if_splits
      intro: attribution_store.good_persist_map
        [where f = "change_where (rewrite_target rk hs) (mark_pending t) Qa_rewrite_pending"])

lemma expire_ok:
  "ledger_ok st \<Longrightarrow> expireRewritePending lc pg now t st = Inr (n, st') \<Longrightarrow> ledger_ok st'"
  by (auto simp: expireRewritePending_def Let_def bindE_Inr split: if_splits
      intro: attribution_store.good_persist_map
        [where f = "change_where (rewrite_expired t) (supersede (iso_of_ms now)) Qa_expired"])

lemma quarantine_ok:
  "ledger_ok st \<Longrightarrow> quarantineLegacy lc pg es st = Inr (n, st') \<Longrightarrow> ledger_ok st'"
  by (auto simp: quarantineLegacy_def Let_def bindE_Inr split: if_splits
      intro: attribution_store.good_persist_map [where f = "fst \<circ> quarantine_attribution es"])

lemma retention_ok:
  "ledger_ok st \<Longrightarrow> applyRetention lc pg now days qs st = Inr (n, st') \<Longrightarrow> ledger_ok st'"
  by (auto simp: applyRetention_def Let_def bindE_Inr split: if_splits option.splits
      intro: attribution_store.good_persist_filter)

section \<open>Sequences of operations\<close>

datatype ledger_op =
    Upsert query_attribution
  | Try_first_claim int first_claim_input
  | Transfer_first_claim int first_claim_input string
  | Reconcile int "work_evidence list" "commit_candidate list"
  | Mark_rewrite_pending string "string list" string
  | Expire_rewrite_pending int string
  | Quarantine_legacy "string list option"
  | Apply_retention int "rat option" "string list option"
  | Clear

definition run_op :: "collation \<Rightarrow> guard \<Rightarrow> ledger_op \<Rightarrow> store \<Rightarrow> ledger_error + store" where
  "run_op lc pg op st =
     (case op of
        Upsert q \<Rightarrow> upsertQueryAttribution lc pg q st
      | Try_first_claim now i \<Rightarrow> bindE (tryFirstClaim lc pg now i st) (\<lambda>(_, s). Inr s)
      | Transfer_first_claim now i h \<Rightarrow> bindE (transferFirstClaim lc pg now i h st) (\<lambda>(_, s). Inr s)
      | Reconcile now ev cs \<Rightarrow>
          bindE (reconcileNativeRejectedCausalClaims lc pg now ev cs st) (\<lambda>(_, s). Inr s)
      | Mark_rewrite_pending rk hs t \<Rightarrow> bindE (markRewritePending lc pg rk hs t st) (\<lambda>(_, s). Inr s)
      | Expire_rewrite_pending now t \<Rightarrow> bindE (expireRewritePending lc pg now t st) (\<lambda>(_, s). Inr s)
      | Quarantine_legacy es \<Rightarrow> bindE (quarantineLegacy lc pg es st) (\<lambda>(_, s). Inr s)
      | Apply_retention now days qs \<Rightarrow> bindE (applyRetention lc pg now days qs st) (\<lambda>(_, s). Inr s)
      | Clear \<Rightarrow> clear lc pg st)"

inductive ledger_step :: "collation \<Rightarrow> guard \<Rightarrow> store \<Rightarrow> ledger_op \<Rightarrow> store \<Rightarrow> bool"
  for lc pg where
  stored: "run_op lc pg op st = Inr st' \<Longrightarrow> ledger_step lc pg st op st'"
| refused: "run_op lc pg op st = Inl e \<Longrightarrow> ledger_step lc pg st op st"

inductive_cases ledger_step_elim: "ledger_step lc pg st op st'"

inductive reachable :: "collation \<Rightarrow> guard \<Rightarrow> store \<Rightarrow> bool" for lc pg where
  empty: "reachable lc pg []"
| step: "reachable lc pg st \<Longrightarrow> ledger_step lc pg st op st' \<Longrightarrow> reachable lc pg st'"

lemma ledger_ok_empty: "ledger_ok []"
  by (simp add: ledger_ok_iff)

lemma run_op_ok: "ledger_ok st \<Longrightarrow> run_op lc pg op st = Inr st' \<Longrightarrow> ledger_ok st'"
  by (cases op) (auto simp: run_op_def bindE_Inr clear_def persist_Inr ledger_ok_empty
      dest: upsert_ok tryFirstClaim_ok transferFirstClaim_ok reconcile_ok mark_ok expire_ok
        quarantine_ok retention_ok)

lemma reachable_ok: "reachable lc pg st \<Longrightarrow> ledger_ok st"
  by (induction rule: reachable.induct)
    (auto simp: ledger_ok_empty elim!: ledger_step_elim dest: run_op_ok)

end
