(* ===== verification/LedgerProperties.thy ===== *)
theory LedgerProperties
  imports LedgerInvariants
begin

text \<open>
  What the operations of the attribution ledger do: first claims, their transfer after a
  rewrite, and the reconciliation with native rejections. \<open>lookup\<close> reads the attribution of a
  query in a state.
\<close>

definition lookup :: "store \<Rightarrow> string \<Rightarrow> query_attribution option" where
  "lookup st k = find (\<lambda>q. qa_queryId q = k) st"

definition current :: "collation \<Rightarrow> store \<Rightarrow> string \<Rightarrow> query_attribution" where
  "current lc st k = nullish (map_option (normalizeAttribution lc) (lookup st k)) (emptyAttribution k)"

definition live_claims :: "query_attribution \<Rightarrow> allocation list" where
  "live_claims q = filter active_first_claim (qa_allocations q)"

lemma find_map_ident:
  "(\<And>q. qa_queryId (f q) = qa_queryId q) \<Longrightarrow>
   find (\<lambda>q. qa_queryId q = k) (map f qs) = map_option f (find (\<lambda>q. qa_queryId q = k) qs)"
  by (induction qs) auto

lemma find_map_values:
  "\<forall>(k, q) \<in> set m. qa_queryId q = k \<Longrightarrow> find (\<lambda>q. qa_queryId q = k) (map_values m) = map_get m k"
  by (induction m) (auto simp: map_values_def)

lemma find_map_of: "find (\<lambda>q. qa_queryId q = k) qs = map_of (map (\<lambda>q. (qa_queryId q, q)) qs) k"
  by (induction qs) auto

lemma loaded_get:
  assumes "distinct (map qa_queryId st)"
  shows "map_get (map_from qa_queryId (loadAttributions lc st)) k
    = map_option (normalizeAttribution lc) (lookup st k)"
proof -
  have "map_get (map_from qa_queryId (loadAttributions lc st)) k
      = find (\<lambda>q. qa_queryId q = k) (loadAttributions lc st)"
    using assms by (subst map_from_distinct) (simp_all add: find_map_of loadAttributions_def comp_def)
  then show ?thesis by (simp add: lookup_def loadAttributions_def find_map_ident)
qed

lemma lookup_persisted:
  assumes "keyed_by_query m" "persistAttributions lc pg (map_values m) = Inr st'"
  shows "lookup st' k = map_option (normalizeAttribution lc) (map_get m k)"
  using assms by (auto simp: persist_Inr lookup_def find_map_ident keyed_by_query_def find_map_values)

lemma live_claims_normalize:
  assumes "live_claims q = [a]"
  shows "live_claims (normalizeAttribution lc q) = [normalizeAllocation lc (priced_by_policy q) a]"
proof -
  have "mset (live_claims (normalizeAttribution lc q)) = {#normalizeAllocation lc (priced_by_policy q) a#}"
    using mset_normalize_active [of lc q] unfolding live_claims_def [symmetric] assms by simp
  then show ?thesis by (simp only: mset_single_iff)
qed

lemma hasActive_live: "hasActiveFirstClaim q \<longleftrightarrow> live_claims q \<noteq> []"
  by (simp add: hasActive_iff live_claims_def)

lemma allocationFromClaim_sel [simp]:
  "active_first_claim (allocationFromClaim lc i q k t)"
  "al_commitHash (allocationFromClaim lc i q k t) = cc_commitHash (fc_candidate i)"
  "al_repoKey (allocationFromClaim lc i q k t) = cc_repoKey (fc_candidate i)"
  "al_queryId (allocationFromClaim lc i q k t) = k"
  "al_allocatedNanoUsd (allocationFromClaim lc i q k t) = qa_estimatedNanoUsd q"
  by (simp_all add: allocationFromClaim_def active_first_claim_def holds_claim_def)

lemma live_claims_withClaim:
  "\<exists>a. live_claims (withClaim lc i t k as q) = filter active_first_claim as @ [a]
     \<and> al_commitHash a = cc_commitHash (fc_candidate i) \<and> al_repoKey a = cc_repoKey (fc_candidate i)
     \<and> al_allocatedNanoUsd a = qa_estimatedNanoUsd q"
  by (simp add: live_claims_def withClaim_def Let_def)

section \<open>The loops of a first claim and of a transfer\<close>

text \<open>What a claim leaves: the amount of the query is unchanged, and its only live first claim
  is that of the candidate, for that amount.\<close>

definition claimed_once :: "first_claim_input \<Rightarrow> query_attribution \<Rightarrow> query_attribution \<Rightarrow> bool" where
  "claimed_once i before after \<longleftrightarrow>
     qa_estimatedNanoUsd after = qa_estimatedNanoUsd before \<and> qa_status after = Qa_attributed
     \<and> (\<exists>a. live_claims after = [a] \<and> al_commitHash a = cc_commitHash (fc_candidate i)
           \<and> al_repoKey a = cc_repoKey (fc_candidate i)
           \<and> al_allocatedNanoUsd a = qa_estimatedNanoUsd before)"

lemma claimed_once_normalize:
  assumes "claimed_once i q q'"
  shows "claimed_once i q (normalizeAttribution lc q')"
proof -
  from assms obtain a where a: "live_claims q' = [a]" "al_commitHash a = cc_commitHash (fc_candidate i)"
    "al_repoKey a = cc_repoKey (fc_candidate i)" "al_allocatedNanoUsd a = qa_estimatedNanoUsd q"
    by (auto simp: claimed_once_def)
  with assms live_claims_normalize [OF a(1), of lc] show ?thesis by (simp add: claimed_once_def)
qed

text \<open>A round over the queries of a commit: each is skipped, or its attribution is replaced.\<close>

abbreviation entry :: "(string, query_attribution) jsmap \<Rightarrow> string \<Rightarrow> query_attribution" where
  "entry m k \<equiv> nullish (map_get m k) (emptyAttribution k)"

locale claim_round =
  fixes one :: "string \<Rightarrow> claim_state \<Rightarrow> ledger_error + claim_state"
    and eligible :: "query_attribution \<Rightarrow> bool"
    and result :: "query_attribution \<Rightarrow> query_attribution \<Rightarrow> bool"
  assumes skip: "\<not> eligible (entry m k) \<Longrightarrow> one k (m, c, s) = Inr x \<Longrightarrow> x = (m, c, s @ [k])"
    and claim: "eligible (entry m k) \<Longrightarrow> one k (m, c, s) = Inr x \<Longrightarrow>
      \<exists>q. x = (map_set k q m, c @ [k], s) \<and> qa_queryId q = qa_queryId (entry m k) \<and> result (entry m k) q"
    and result_trans: "result q q' \<Longrightarrow> result q' q'' \<Longrightarrow> result q q''"
begin

definition done_from :: "(string, query_attribution) jsmap \<Rightarrow> claim_state \<Rightarrow> bool" where
  "done_from m0 = (\<lambda>(m, claimed, skipped). keyed_by_query m
     \<and> (\<forall>k. k \<notin> set claimed \<longrightarrow> map_get m k = map_get m0 k)
     \<and> (\<forall>k \<in> set claimed. eligible (entry m0 k)
          \<and> (\<exists>q. map_get m k = Some q \<and> result (entry m0 k) q))
     \<and> (\<forall>k \<in> set skipped. k \<in> set claimed \<or> \<not> eligible (entry m0 k)))"

lemma done_step:
  assumes "done_from m0 x" "one k x = Inr x'"
  shows "done_from m0 x'"
proof -
  obtain m claimed skipped where x: "x = (m, claimed, skipped)" by (cases x)
  note d = assms(1) [unfolded x done_from_def prod.case]
  show ?thesis
  proof (cases "eligible (entry m k)")
    case False
    with skip [OF False] assms(2) have x': "x' = (m, claimed, skipped @ [k])" by (simp add: x)
    have "k \<in> set claimed \<or> \<not> eligible (entry m0 k)" using False d by auto
    with d show ?thesis by (auto simp: x' done_from_def)
  next
    case True
    obtain q where q: "x' = (map_set k q m, claimed @ [k], skipped)"
      "qa_queryId q = qa_queryId (entry m k)" "result (entry m k) q"
      using claim [OF True assms(2) [unfolded x]] by blast
    have first: "eligible (entry m0 k) \<and> result (entry m0 k) q"
    proof (cases "k \<in> set claimed")
      case True
      with d obtain q' where "map_get m k = Some q'" "eligible (entry m0 k)" "result (entry m0 k) q'"
        by auto
      with q(3) show ?thesis by (auto intro: result_trans)
    next
      case False
      with d \<open>eligible (entry m k)\<close> q(3) show ?thesis by simp
    qed
    have "qa_queryId q = k" using d q(2) by (simp add: current_queryId)
    then have "keyed_by_query (map_set k q m)" using d by (simp add: keyed_by_query_set)
    with d first show ?thesis by (auto simp: q(1) done_from_def)
  qed
qed

lemma done_loop:
  assumes "foldE one ks (m0, [], []) = Inr x" "keyed_by_query m0"
  shows "done_from m0 x"
proof (rule foldE_invariant [where P = "done_from m0", OF assms(1)])
  show "done_from m0 (m0, [], [])" by (simp add: done_from_def assms(2))
qed (rule done_step)

lemma lists_step:
  assumes "one k (m, c, s) = Inr (m', c', s')"
  shows "mset c' + mset s' = add_mset k (mset c + mset s)"
proof (cases "eligible (entry m k)")
  case True
  from claim [OF True assms] show ?thesis by auto
next
  case False
  from skip [OF False assms] show ?thesis by simp
qed

lemma lists_loop:
  "foldE one ks (m, c, s) = Inr (m', c', s') \<Longrightarrow> mset c' + mset s' = mset ks + (mset c + mset s)"
proof (induction ks arbitrary: m c s)
  case (Cons k ks)
  from Cons.prems obtain m1 c1 s1 where "one k (m, c, s) = Inr (m1, c1, s1)"
    "foldE one ks (m1, c1, s1) = Inr (m', c', s')" by (auto simp: bindE_Inr)
  with Cons.IH [of m1 c1 s1] lists_step [of k m c s m1 c1 s1] show ?case by simp
qed simp

end

lemma claimed_once_trans: "claimed_once i q q' \<Longrightarrow> claimed_once i q' q'' \<Longrightarrow> claimed_once i q q''"
  by (auto simp: claimed_once_def)

lemma claimed_once_withClaim:
  assumes "filter active_first_claim as = []"
  shows "claimed_once i q (withClaim lc i t k as q)"
  using assms live_claims_withClaim [of lc i t k as q] by (auto simp: claimed_once_def)

text \<open>The check before a transfer is stored leaves no live claim but the new one.\<close>

lemma claims_ok_withClaim:
  assumes "claims_ok (withClaim lc i t k as q)"
  shows "filter active_first_claim as = []"
  using assms live_claims_withClaim [of lc i t k as q]
  by (auto simp: claims_ok_def live_claims_def)

definition superseding :: "string \<Rightarrow> query_attribution \<Rightarrow> bool" where
  "superseding h q \<longleftrightarrow> (\<exists>a \<in> set (qa_allocations q). al_commitHash a = h \<and> holds_claim a)"

interpretation first_claims: claim_round "claim_one lc pg i t" "\<lambda>q. \<not> hasActiveFirstClaim q" "claimed_once i"
  for lc pg i t
proof
  show "claimed_once i q q' \<Longrightarrow> claimed_once i q' q'' \<Longrightarrow> claimed_once i q q''" for q q' q''
    by (rule claimed_once_trans)
  show "x = (m, c, s @ [k])"
    if "\<not> \<not> hasActiveFirstClaim (entry m k)" "claim_one lc pg i t k (m, c, s) = Inr x" for m k c s x
    using that by (simp add: claim_one_def Let_def)
  show "\<exists>q. x = (map_set k q m, c @ [k], s) \<and> qa_queryId q = qa_queryId (entry m k)
      \<and> claimed_once i (entry m k) q"
    if "\<not> hasActiveFirstClaim (entry m k)" "claim_one lc pg i t k (m, c, s) = Inr x" for m k c s x
    using that by (auto simp: claim_one_def Let_def bindE_Inr hasActive_iff
        intro!: exI claimed_once_normalize claimed_once_withClaim)
qed

interpretation transfers: claim_round "transfer_one lc pg i h t" "superseding h" "claimed_once i"
  for lc pg i h t
proof
  show "claimed_once i q q' \<Longrightarrow> claimed_once i q' q'' \<Longrightarrow> claimed_once i q q''" for q q' q''
    by (rule claimed_once_trans)
  have e: "list_ex (\<lambda>a. al_commitHash a = h \<and> holds_claim a) (qa_allocations q) \<longleftrightarrow> superseding h q" for q
    by (simp add: superseding_def list_ex_iff)
  show "x = (m, c, s @ [k])"
    if "\<not> superseding h (entry m k)" "transfer_one lc pg i h t k (m, c, s) = Inr x" for m k c s x
    using that by (simp add: transfer_one_def Let_def e)
  show "\<exists>q. x = (map_set k q m, c @ [k], s) \<and> qa_queryId q = qa_queryId (entry m k)
      \<and> claimed_once i (entry m k) q"
    if "superseding h (entry m k)" "transfer_one lc pg i h t k (m, c, s) = Inr x" for m k c s x
    using that by (auto simp: transfer_one_def Let_def e bindE_Inr assertWritable_iff
        intro!: exI claimed_once_normalize claimed_once_withClaim dest!: claims_ok_withClaim)
qed

section \<open>Samples\<close>

definition sample_proof :: attribution_proof where
  "sample_proof = \<lparr>pf_kind = Exact_content_state, pf_anchorQueryIds = [''q1''],
     pf_inheritedQueryIds = [''q2''], pf_matchedArtifactCount = 1,
     pf_matchedCausalWriteArtifacts =
       Some [\<lparr>mc_queryId = ''q1'', mc_artifactKey = ''a1'', mc_executionNodeId = ''n1''\<rparr>],
     pf_reasonCodes = [''active_epoch'']\<rparr>"

definition sample_claim :: first_claim_input where
  "sample_claim = \<lparr>fc_candidate = sample_candidate, fc_episode = sample_episode,
     fc_proof = sample_proof, fc_queryIds = [''q1'', ''q2'']\<rparr>"

definition sample_store :: store where
  "sample_store = [(emptyAttribution ''q1'')\<lparr>qa_estimatedNanoUsd := Some 500\<rparr>]"

definition no_guard :: guard where
  "no_guard q = []"

definition claimed_store :: store where
  "claimed_store = (case tryFirstClaim code_unit_compare no_guard 0 sample_claim sample_store of
     Inl e \<Rightarrow> [] | Inr (r, st) \<Rightarrow> st)"

lemma sample_store_reachable: "reachable code_unit_compare no_guard sample_store"
proof (rule reachable.step [OF reachable.empty ledger_step.stored])
  show "run_op code_unit_compare no_guard
      (Upsert ((emptyAttribution ''q1'')\<lparr>qa_estimatedNanoUsd := Some 500\<rparr>)) [] = Inr sample_store"
    by code_simp
qed

lemma sample_claimed:
  "tryFirstClaim code_unit_compare no_guard 0 sample_claim sample_store
   = Inr (([''q1'', ''q2''], []), claimed_store)"
  by code_simp

lemma claimed_store_reachable: "reachable code_unit_compare no_guard claimed_store"
  by (rule reachable.step [OF sample_store_reachable ledger_step.stored
        [where op = "Try_first_claim 0 sample_claim"]])
    (simp add: run_op_def sample_claimed)

section \<open>Properties\<close>

lemma claim_ok_iff: "claim_ok q a \<longleftrightarrow>
    (\<forall>x. al_allocatedNanoUsd a = Some x \<longrightarrow> (\<exists>e. qa_estimatedNanoUsd q = Some e \<and> x \<le> e)) \<and>
    (al_decision a = Some Reportable \<longrightarrow> truthy (al_epochId a) \<and> al_proof a \<noteq> None)"
  by (cases "al_allocatedNanoUsd a"; cases "qa_estimatedNanoUsd q") (auto simp: claim_ok_def)

text \<open>
  C1: every state of the ledger that any sequence of operations can reach, errors included,
  holds each query once, and each attribution has at most one live first claim, allocates
  only to its own query, never more than its estimated cost, and no live reportable claim
  without an epoch and a proof.
\<close>

theorem ledger_always_valid:
  assumes "reachable lc pg st"
  shows "distinct (map qa_queryId st) \<and>
    (\<forall>q \<in> set st. length (live_claims q) \<le> 1 \<and>
       (\<forall>a \<in> set (qa_allocations q). al_queryId a = qa_queryId q) \<and>
       (\<forall>a \<in> set (live_claims q).
          (\<forall>x. al_allocatedNanoUsd a = Some x \<longrightarrow> (\<exists>e. qa_estimatedNanoUsd q = Some e \<and> x \<le> e)) \<and>
          (al_decision a = Some Reportable \<longrightarrow> truthy (al_epochId a) \<and> al_proof a \<noteq> None)))"
  using reachable_ok [OF assms]
  unfolding ledger_ok_iff claims_ok_def live_claims_def claim_ok_iff [symmetric] by simp

theorem ledger_always_valid_witness:
  "length claimed_store = 2 \<and> distinct (map qa_queryId claimed_store)
   \<and> list_all (\<lambda>q. length (live_claims q) \<le> 1) claimed_store"
proof -
  have "length claimed_store = 2" by code_simp
  with ledger_always_valid [OF claimed_store_reachable] show ?thesis by (simp add: list_all_iff)
qed

text \<open>
  C28: the first claim wins. When \<open>tryFirstClaim\<close> succeeds, every requested query is reported
  once, as claimed or as skipped; a claimed query had no live first claim and now has exactly
  the candidate's, for its whole estimated cost; a skipped one was already held (or claimed
  earlier in the same request); and no other query changes, beyond its normal form.
\<close>

theorem first_claim_wins:
  assumes "distinct (map qa_queryId st)"
    and "tryFirstClaim lc pg now i st = Inr ((claimed, skipped), st')"
  shows "mset claimed + mset skipped = mset (fc_queryIds i)
    \<and> (\<forall>k \<in> set claimed. live_claims (current lc st k) = []
         \<and> (\<exists>q. lookup st' k = Some q \<and> claimed_once i (current lc st k) q))
    \<and> (\<forall>k \<in> set skipped. k \<in> set claimed \<or> live_claims (current lc st k) \<noteq> [])
    \<and> (\<forall>k. k \<notin> set claimed \<longrightarrow> lookup st' k
         = map_option (normalizeAttribution lc \<circ> normalizeAttribution lc) (lookup st k))"
proof -
  let ?m0 = "map_from qa_queryId (loadAttributions lc st)"
  from assms(2) obtain m where
    loop: "foldE (claim_one lc pg i (iso_of_ms now)) (fc_queryIds i) (?m0, [], []) = Inr (m, claimed, skipped)"
    and st': "persistAttributions lc pg (map_values m) = Inr st'"
    by (auto simp: tryFirstClaim_def bindE_Inr)
  have entry: "entry ?m0 k = current lc st k" for k
    by (simp add: current_def loaded_get [OF assms(1)])
  note d = first_claims.done_loop [OF loop keyed_by_query_load,
      unfolded first_claims.done_from_def prod.case entry, unfolded hasActive_live not_not]
  have l: "lookup st' k = map_option (normalizeAttribution lc) (map_get m k)" for k
    using d st' by (simp add: lookup_persisted)
  have "mset claimed + mset skipped = mset (fc_queryIds i)"
    using first_claims.lists_loop [OF loop] by simp
  moreover have "lookup st' k = map_option (normalizeAttribution lc \<circ> normalizeAttribution lc) (lookup st k)"
    if "k \<notin> set claimed" for k
    using d that by (simp add: l loaded_get [OF assms(1)] option.map_comp)
  moreover have "\<exists>q. lookup st' k = Some q \<and> claimed_once i (current lc st k) q"
    if "k \<in> set claimed" for k
  proof -
    from d that obtain q where "map_get m k = Some q" "claimed_once i (current lc st k) q" by blast
    then show ?thesis by (simp add: l claimed_once_normalize)
  qed
  ultimately show ?thesis using d by blast
qed

theorem first_claim_wins_witness:
  "live_claims (current code_unit_compare sample_store ''q1'') = []
   \<and> (\<exists>q. lookup claimed_store ''q1'' = Some q \<and> qa_estimatedNanoUsd q = Some 500
        \<and> claimed_once sample_claim (current code_unit_compare sample_store ''q1'') q)"
proof -
  have "distinct (map qa_queryId sample_store)" by code_simp
  from first_claim_wins [OF this sample_claimed]
  obtain q where "live_claims (current code_unit_compare sample_store ''q1'') = []"
    "lookup claimed_store ''q1'' = Some q"
    "claimed_once sample_claim (current code_unit_compare sample_store ''q1'') q" by auto
  moreover have "qa_estimatedNanoUsd (current code_unit_compare sample_store ''q1'') = Some 500" by code_simp
  ultimately show ?thesis by (auto simp: claimed_once_def)
qed

text \<open>
  A transfer moves a claim and never duplicates it. When \<open>transferFirstClaim\<close> succeeds,
  every query it reports as claimed had a live allocation of the superseded commit, and its
  only live first claim is now that of the new commit, for the same amount; a query without
  such an allocation is skipped; and no other query changes, beyond its normal form.
\<close>

theorem transfer_moves_claim:
  assumes "distinct (map qa_queryId st)"
    and "transferFirstClaim lc pg now i h st = Inr ((claimed, skipped), st')"
  shows "mset claimed + mset skipped = mset (fc_queryIds i)
    \<and> (\<forall>k \<in> set claimed. superseding h (current lc st k)
         \<and> (\<exists>q. lookup st' k = Some q \<and> claimed_once i (current lc st k) q))
    \<and> (\<forall>k \<in> set skipped. k \<in> set claimed \<or> \<not> superseding h (current lc st k))
    \<and> (\<forall>k. k \<notin> set claimed \<longrightarrow> lookup st' k
         = map_option (normalizeAttribution lc \<circ> normalizeAttribution lc) (lookup st k))"
proof -
  let ?m0 = "map_from qa_queryId (loadAttributions lc st)"
  from assms(2) obtain m where
    loop: "foldE (transfer_one lc pg i h (iso_of_ms now)) (fc_queryIds i) (?m0, [], []) = Inr (m, claimed, skipped)"
    and st': "persistAttributions lc pg (map_values m) = Inr st'"
    by (auto simp: transferFirstClaim_def bindE_Inr)
  have entry: "entry ?m0 k = current lc st k" for k
    by (simp add: current_def loaded_get [OF assms(1)])
  note d = transfers.done_loop [OF loop keyed_by_query_load,
      unfolded transfers.done_from_def prod.case entry]
  have l: "lookup st' k = map_option (normalizeAttribution lc) (map_get m k)" for k
    using d st' by (simp add: lookup_persisted)
  have "mset claimed + mset skipped = mset (fc_queryIds i)"
    using transfers.lists_loop [OF loop] by simp
  moreover have "lookup st' k = map_option (normalizeAttribution lc \<circ> normalizeAttribution lc) (lookup st k)"
    if "k \<notin> set claimed" for k
    using d that by (simp add: l loaded_get [OF assms(1)] option.map_comp)
  moreover have "\<exists>q. lookup st' k = Some q \<and> claimed_once i (current lc st k) q"
    if "k \<in> set claimed" for k
  proof -
    from d that obtain q where "map_get m k = Some q" "claimed_once i (current lc st k) q" by blast
    then show ?thesis by (simp add: l claimed_once_normalize)
  qed
  ultimately show ?thesis using d by blast
qed

definition rewritten_claim :: first_claim_input where
  "rewritten_claim = sample_claim\<lparr>fc_candidate := sample_candidate\<lparr>cc_commitHash := ''h2''\<rparr>,
     fc_queryIds := [''q1'', ''q3'']\<rparr>"

theorem transfer_moves_claim_witness:
  "\<exists>st' q. transferFirstClaim code_unit_compare no_guard 5 rewritten_claim ''h1'' claimed_store
       = Inr (([''q1''], [''q3'']), st')
     \<and> lookup st' ''q1'' = Some q \<and> map al_commitHash (live_claims q) = [''h2'']"
proof -
  have e: "(case transferFirstClaim code_unit_compare no_guard 5 rewritten_claim ''h1'' claimed_store of
      Inl e \<Rightarrow> None | Inr (r, st) \<Rightarrow> Some r) = Some ([''q1''], [''q3''])" by code_simp
  then obtain st' where t: "transferFirstClaim code_unit_compare no_guard 5 rewritten_claim ''h1'' claimed_store
      = Inr (([''q1''], [''q3'']), st')" by (auto split: sum.splits prod.splits)
  have d: "distinct (map qa_queryId claimed_store)" by code_simp
  from transfer_moves_claim [OF d t] obtain q where "lookup st' ''q1'' = Some q"
    "claimed_once rewritten_claim (current code_unit_compare claimed_store ''q1'') q" by auto
  with t show ?thesis by (auto simp: claimed_once_def rewritten_claim_def)
qed

section \<open>Reconciliation\<close>

text \<open>When an allocation is to be revoked: it is a live first claim of a known candidate, it kept
  the causal writes that justified it, each of them is explicitly rejected by a complete census,
  and nothing current still proves the candidate.\<close>

definition revocable :: "collation \<Rightarrow> work_evidence list \<Rightarrow> commit_candidate list \<Rightarrow> allocation \<Rightarrow> bool" where
  "revocable lc evidence candidates a \<longleftrightarrow> active_first_claim a \<and> truthy (al_epochId a)
     \<and> (\<exists>p c. al_proof a = Some p \<and> stored_pairs p \<noteq> []
          \<and> candidate_of candidates (al_repoKey a) (the (al_epochId a)) (al_commitHash a) = Some c
          \<and> (\<forall>w \<in> set (stored_pairs p).
               isExplicitlyNativeRejectedPair w (sourceEvidenceForAllocation evidence a))
          \<and> currentMatchedCausalPairsForCandidate lc (sourceEvidenceForAllocation evidence a) c = [])"

lemma length_filter_all: "length (filter P xs) = length xs \<longleftrightarrow> (\<forall>x \<in> set xs. P x)"
  by (metis filter_True length_filter_less nat_neq_iff)

definition reconcilable :: "commit_candidate list \<Rightarrow> allocation \<Rightarrow> attribution_proof \<Rightarrow> string
    \<Rightarrow> commit_candidate \<Rightarrow> bool" where
  "reconcilable candidates a p e c \<longleftrightarrow> al_proof a = Some p \<and> al_epochId a = Some e
     \<and> active_first_claim a \<and> stored_pairs p \<noteq> [] \<and> e \<noteq> ''''
     \<and> candidate_of candidates (al_repoKey a) e (al_commitHash a) = Some c"

lemma reconcile_not_reconcilable:
  assumes "\<nexists>p e c. reconcilable cs a p e c"
  shows "reconcile_allocation lc ev cs t a = (a, Untouched)"
proof (cases "al_proof a")
  case (Some p)
  note p = this
  show ?thesis
  proof (cases "al_epochId a")
    case (Some e)
    with p assms have "\<not> active_first_claim a \<or> stored_pairs p = [] \<or> e = ''''
        \<or> candidate_of cs (al_repoKey a) e (al_commitHash a) = None"
      unfolding reconcilable_def by blast
    then show ?thesis by (auto simp: reconcile_allocation_def p Some)
  qed (simp add: reconcile_allocation_def p)
qed (simp add: reconcile_allocation_def)

lemma reconcile_reconcilable:
  assumes "reconcilable cs a p e c"
  shows "reconcile_allocation lc ev cs t a =
     (let sourceEvidence = sourceEvidenceForAllocation ev a;
          currentMatchedPairs = currentMatchedCausalPairsForCandidate lc sourceEvidence c
      in if \<forall>w \<in> set (stored_pairs p). \<not> isExplicitlyNativeRejectedPair w sourceEvidence then (a, Untouched)
         else if currentMatchedPairs \<noteq> []
         then (a\<lparr>al_proof := Some (p\<lparr>pf_matchedCausalWriteArtifacts := Some currentMatchedPairs\<rparr>),
                 al_stateChangedAt := Some t,
                 al_evidenceReasons := unique_sorted
                   (al_evidenceReasons a @ [''native_causal_write_revalidated''])\<rparr>, Revalidated)
         else if \<not> (\<forall>w \<in> set (stored_pairs p). isExplicitlyNativeRejectedPair w sourceEvidence)
         then (a, Untouched)
         else ((supersede t a)\<lparr>al_evidenceReasons := unique_sorted
                 (al_evidenceReasons a @ [''native_causal_write_retracted''])\<rparr>, Revoked))"
  using assms by (simp add: reconcilable_def reconcile_allocation_def Let_def filter_empty_conv length_filter_all)

lemma revocable_reconcilable:
  "revocable lc ev cs a \<longleftrightarrow> (\<exists>p e c. reconcilable cs a p e c
     \<and> (\<forall>w \<in> set (stored_pairs p). isExplicitlyNativeRejectedPair w (sourceEvidenceForAllocation ev a))
     \<and> currentMatchedCausalPairsForCandidate lc (sourceEvidenceForAllocation ev a) c = [])"
  by (cases "al_epochId a") (auto simp: revocable_def reconcilable_def)

lemma revoked_iff:
  "snd (reconcile_allocation lc ev cs t a) = Revoked \<longleftrightarrow> revocable lc ev cs a"
proof (cases "\<exists>p e c. reconcilable cs a p e c")
  case False
  then show ?thesis by (simp add: reconcile_not_reconcilable revocable_reconcilable)
next
  case True
  then obtain p e c where r: "reconcilable cs a p e c" by blast
  then have "reconcilable cs a p' e' c' \<longleftrightarrow> p' = p \<and> e' = e \<and> c' = c" for p' e' c'
    by (auto simp: reconcilable_def)
  moreover obtain w where "w \<in> set (stored_pairs p)"
    using r by (cases "stored_pairs p") (auto simp: reconcilable_def)
  ultimately show ?thesis
    by (auto simp: reconcile_reconcilable [OF r] revocable_reconcilable Let_def)
qed

lemma reconcile_allocation_cases:
  obtains (untouched) "reconcile_allocation lc ev cs t a = (a, Untouched)"
  | (revalidated) a' where "reconcile_allocation lc ev cs t a = (a', Revalidated)" "al_status a' = al_status a"
      "al_queryId a' = al_queryId a" "al_allocatedNanoUsd a' = al_allocatedNanoUsd a"
      "al_commitHash a' = al_commitHash a" "al_repoKey a' = al_repoKey a"
  | (revoked) a' where "reconcile_allocation lc ev cs t a = (a', Revoked)" "al_status a' = Al_superseded"
      "al_queryId a' = al_queryId a" "al_allocatedNanoUsd a' = al_allocatedNanoUsd a"
      "al_commitHash a' = al_commitHash a" "al_repoKey a' = al_repoKey a"
proof (cases "\<exists>p e c. reconcilable cs a p e c")
  case False
  then show ?thesis by (simp add: reconcile_not_reconcilable untouched)
next
  case True
  then obtain p e c where r: "reconcilable cs a p e c" by blast
  note eq = reconcile_reconcilable [OF r, of lc ev t, unfolded Let_def]
  let ?src = "sourceEvidenceForAllocation ev a"
  consider (a) "\<forall>w \<in> set (stored_pairs p). \<not> isExplicitlyNativeRejectedPair w ?src"
    | (b) "\<not> (\<forall>w \<in> set (stored_pairs p). \<not> isExplicitlyNativeRejectedPair w ?src)"
        "currentMatchedCausalPairsForCandidate lc ?src c \<noteq> []"
    | (c) "\<not> (\<forall>w \<in> set (stored_pairs p). \<not> isExplicitlyNativeRejectedPair w ?src)"
        "\<not> currentMatchedCausalPairsForCandidate lc ?src c \<noteq> []"
        "\<not> (\<forall>w \<in> set (stored_pairs p). isExplicitlyNativeRejectedPair w ?src)"
    | (d) "\<not> (\<forall>w \<in> set (stored_pairs p). \<not> isExplicitlyNativeRejectedPair w ?src)"
        "\<not> currentMatchedCausalPairsForCandidate lc ?src c \<noteq> []"
        "\<not> \<not> (\<forall>w \<in> set (stored_pairs p). isExplicitlyNativeRejectedPair w ?src)"
    by blast
  then show ?thesis
  proof cases
    case a
    show ?thesis by (rule untouched) (simp only: eq if_P [OF a])
  next
    case b
    show ?thesis
      by (rule revalidated [OF eq [unfolded if_not_P [OF b(1)] if_P [OF b(2)]]]) simp_all
  next
    case c
    show ?thesis
      by (rule untouched) (simp only: eq if_not_P [OF c(1)] if_not_P [OF c(2)] if_P [OF c(3)])
  next
    case d
    show ?thesis
      by (rule revoked [OF eq [unfolded if_not_P [OF d(1)] if_not_P [OF d(2)] if_not_P [OF d(3)]]])
        (simp_all add: supersede_def)
  qed
qed

lemma reconcile_results:
  assumes "reconcileNativeRejectedCausalClaims lc pg now ev cs st = Inr (r, st')"
  defines "R \<equiv> map (reconcile_attribution lc ev cs (iso_of_ms now)) (loadAttributions lc st)"
  shows "rr_revokedQueryIds r = sort (dedup (map (qa_queryId \<circ> fst)
            (filter (\<lambda>(_, os). list_ex (\<lambda>(_, r'). r' = Revoked) os) R)))"
    and "rr_revalidatedQueryIds r = sort (dedup (map (qa_queryId \<circ> fst)
            (filter (\<lambda>(_, os). list_ex (\<lambda>(_, r'). r' = Revalidated) os) R)))"
    and "st' = st \<or> st' = map (normalizeAttribution lc) (map fst R)"
  using assms(1) unfolding reconcileNativeRejectedCausalClaims_def R_def [symmetric]
  by (auto simp: Let_def bindE_Inr persist_Inr split: if_splits)

lemma reconcile_mem:
  "k \<in> set (sort (dedup (map (qa_queryId \<circ> fst) (filter (\<lambda>(_, os). list_ex (\<lambda>(_, r'). r' = o') os)
      (map (reconcile_attribution lc ev cs t) qs)))))
   \<longleftrightarrow> (\<exists>q \<in> set qs. qa_queryId q = k
         \<and> (\<exists>a \<in> set (qa_allocations q). snd (reconcile_allocation lc ev cs t a) = o'))"
proof -
  have "snd (reconcile_attribution lc ev cs t q)
      = map (reconcile_allocation lc ev cs t) (qa_allocations q)" for q
    by (simp add: reconcile_attribution_def Let_def)
  then show ?thesis
    by (auto simp: filter_map comp_def case_prod_unfold list_ex_iff)
qed

lemma reconcile_untouched:
  assumes "\<And>a. a \<in> set (qa_allocations q) \<Longrightarrow> snd (reconcile_allocation lc ev cs t a) = Untouched"
  shows "fst (reconcile_attribution lc ev cs t q) = q"
proof -
  have "reconcile_allocation lc ev cs t a = (a, Untouched)" if "a \<in> set (qa_allocations q)" for a
    using assms [OF that] by (cases rule: reconcile_allocation_cases [of lc ev cs t a]) simp_all
  then have "map (reconcile_allocation lc ev cs t) (qa_allocations q)
      = map (\<lambda>a. (a, Untouched)) (qa_allocations q)" by simp
  then show ?thesis
    by (simp only: reconcile_attribution_def Let_def) (simp add: comp_def list_ex_iff)
qed

lemma lookup_loaded:
  assumes "distinct (map qa_queryId st)"
  shows "q \<in> set (loadAttributions lc st) \<and> qa_queryId q = k \<longleftrightarrow>
      map_option (normalizeAttribution lc) (lookup st k) = Some q"
proof -
  have "distinct (map fst (map (\<lambda>q. (qa_queryId q, q)) st))" using assms by (simp add: comp_def)
  then have "lookup st k = Some q0 \<longleftrightarrow> q0 \<in> set st \<and> qa_queryId q0 = k" for q0
    unfolding lookup_def find_map_of map_of_eq_Some_iff by auto
  then have m: "map_option (normalizeAttribution lc) (lookup st k) = Some q \<longleftrightarrow>
      (\<exists>q0. (q0 \<in> set st \<and> qa_queryId q0 = k) \<and> normalizeAttribution lc q0 = q)"
    by (simp only: map_option_eq_Some)
  show ?thesis unfolding m loadAttributions_def by auto
qed

lemma lookup_mem: "lookup st k = Some q \<Longrightarrow> q \<in> set st"
  by (auto simp: lookup_def find_Some_iff)

text \<open>The state is written when an allocation is touched; otherwise nothing is revocable.\<close>

lemma reconcile_state:
  assumes "distinct (map qa_queryId st)"
    and "reconcileNativeRejectedCausalClaims lc pg now ev cs st = Inr (r, st')"
  defines "R \<equiv> map (reconcile_attribution lc ev cs (iso_of_ms now)) (loadAttributions lc st)"
  shows "st' = map (normalizeAttribution lc) (map fst R)
    \<or> (st' = st \<and> (\<forall>k q. lookup st k = Some q \<longrightarrow>
         (\<forall>a \<in> set (qa_allocations (normalizeAttribution lc q)). \<not> revocable lc ev cs a)))"
proof -
  have outcomes: "snd (reconcile_attribution lc ev cs t q) = map (reconcile_allocation lc ev cs t) (qa_allocations q)" for t q
    by (simp add: reconcile_attribution_def Let_def)
  have "\<not> revocable lc ev cs a"
    if idle: "filter (\<lambda>(_, os). list_ex (\<lambda>(_, r). r \<noteq> Untouched) os) R = []"
      and q: "lookup st k = Some q" "a \<in> set (qa_allocations (normalizeAttribution lc q))" for k q a
  proof -
    have "\<not> list_ex (\<lambda>(_, r). r \<noteq> Untouched)
        (snd (reconcile_attribution lc ev cs (iso_of_ms now) (normalizeAttribution lc q)))"
      using idle lookup_mem [OF q(1)] by (auto simp: R_def loadAttributions_def filter_empty_conv case_prod_unfold)
    then have "snd (reconcile_allocation lc ev cs (iso_of_ms now) a) = Untouched"
      using q(2) by (auto simp: outcomes list_ex_iff case_prod_unfold)
    then show ?thesis using revoked_iff [of lc ev cs "iso_of_ms now" a] by simp
  qed
  then show ?thesis using assms(2) unfolding reconcileNativeRejectedCausalClaims_def R_def [symmetric]
    by (auto simp: Let_def bindE_Inr persist_Inr split: if_splits)
qed

text \<open>What identifies an allocation, with its amount, and its status.\<close>

definition allocation_view :: "allocation \<Rightarrow> (string \<times> string \<times> string \<times> rat option) \<times> allocation_status" where
  "allocation_view a = ((al_queryId a, al_repoKey a, al_commitHash a, al_allocatedNanoUsd a), al_status a)"

lemma view_status: "(fst (allocation_view a), al_status a) = allocation_view a"
  by (simp add: allocation_view_def)

lemma view_normalizeAllocation [simp]: "allocation_view (normalizeAllocation lc b a) = allocation_view a"
  by (simp add: allocation_view_def)

lemma view_normalizeAttribution:
  "image_mset allocation_view (mset (qa_allocations (normalizeAttribution lc q)))
   = image_mset allocation_view (mset (qa_allocations q))"
  by (simp add: mset_normalize_allocations image_mset.compositionality comp_def)

lemma view_reconcile:
  "allocation_view (fst (reconcile_allocation lc ev cs t a))
   = (fst (allocation_view a), if revocable lc ev cs a then Al_superseded else al_status a)"
  using revoked_iff [of lc ev cs t a]
  by (cases rule: reconcile_allocation_cases [of lc ev cs t a]) (auto simp: allocation_view_def)

text \<open>What the reconciliation leaves of an attribution: its revocable allocations are superseded, the
  others keep their status, and it is rejected when it loses its claim.\<close>

definition revocation_of :: "collation \<Rightarrow> work_evidence list \<Rightarrow> commit_candidate list
    \<Rightarrow> query_attribution \<Rightarrow> query_attribution \<Rightarrow> bool" where
  "revocation_of lc ev cs q q' \<longleftrightarrow>
     image_mset allocation_view (mset (qa_allocations q')) =
       image_mset (\<lambda>a. (fst (allocation_view a), if revocable lc ev cs a then Al_superseded else al_status a))
         (mset (qa_allocations q))
     \<and> qa_status q' = (if (\<exists>a \<in> set (qa_allocations q). revocable lc ev cs a) \<and> \<not> hasActiveFirstClaim q'
         then Qa_rejected else qa_status q)"

lemma hasActive_allocations: "qa_allocations q = qa_allocations q' \<Longrightarrow> hasActiveFirstClaim q = hasActiveFirstClaim q'"
  by (simp add: hasActiveFirstClaim_def)

lemma revocation_reconciled: "revocation_of lc ev cs q (fst (reconcile_attribution lc ev cs t q))"
proof -
  let ?kept = "q\<lparr>qa_allocations := map fst (map (reconcile_allocation lc ev cs t) (qa_allocations q))\<rparr>"
  let ?q' = "fst (reconcile_attribution lc ev cs t q)"
  have "list_ex (\<lambda>(_, r). r = Revoked) (map (reconcile_allocation lc ev cs t) (qa_allocations q))
      \<longleftrightarrow> (\<exists>a \<in> set (qa_allocations q). revocable lc ev cs a)"
    by (simp add: list_ex_iff case_prod_unfold revoked_iff)
  then have q': "?q' = (if (\<exists>a \<in> set (qa_allocations q). revocable lc ev cs a) \<and> \<not> hasActiveFirstClaim ?kept
      then ?kept\<lparr>qa_status := Qa_rejected\<rparr> else ?kept)"
    unfolding reconcile_attribution_def Let_def fst_conv by (rule arg_cong [where f = "\<lambda>b. if b \<and> _ then _ else _"])
  then have allocations: "qa_allocations ?q' = map (\<lambda>a. fst (reconcile_allocation lc ev cs t a)) (qa_allocations q)"
    by simp
  then have "hasActiveFirstClaim ?q' = hasActiveFirstClaim ?kept" by (intro hasActive_allocations) simp
  moreover from q' have "qa_status ?q' = (if (\<exists>a \<in> set (qa_allocations q). revocable lc ev cs a) \<and> \<not> hasActiveFirstClaim ?kept
      then Qa_rejected else qa_status q)" by simp
  ultimately show ?thesis
    by (simp add: revocation_of_def allocations image_mset.compositionality comp_def view_reconcile)
qed

lemma revocation_normalized: "revocation_of lc ev cs q (normalizeAttribution lc q') = revocation_of lc ev cs q q'"
  by (simp add: revocation_of_def view_normalizeAttribution)

lemma revocation_idle:
  assumes "\<forall>a \<in> set (qa_allocations (normalizeAttribution lc q)). \<not> revocable lc ev cs a"
  shows "revocation_of lc ev cs (normalizeAttribution lc q) q"
proof -
  have "image_mset allocation_view (mset (qa_allocations q)) =
      image_mset (\<lambda>a. (fst (allocation_view a), al_status a)) (mset (qa_allocations (normalizeAttribution lc q)))"
    using view_normalizeAttribution [of lc q] by (simp add: view_status)
  moreover have "\<dots> = image_mset (\<lambda>a. (fst (allocation_view a), if revocable lc ev cs a then Al_superseded else al_status a))
      (mset (qa_allocations (normalizeAttribution lc q)))"
    using assms by (intro image_mset_cong) simp
  ultimately show ?thesis using assms by (auto simp: revocation_of_def)
qed


definition rejecting_evidence :: work_evidence where
  "rejecting_evidence = (sample_evidence ''q1'')\<lparr>we_causalWriteArtifacts := Some [],
     we_nativeRejectedCausalWriteArtifacts :=
       Some [\<lparr>cw_artifactKey = ''a1'', cw_executionNodeId = ''n1''\<rparr>]\<rparr>"


end
