(* ===== verification/CommitSummaries.thy ===== *)
theory CommitSummaries
  imports LedgerProperties
begin

text \<open>
  What the ledger reports: the second half of src/src/storage/commitAttributionLedger.ts.
  Summaries by commit, publication snapshots, the queries over them and the CSV export. The
  optional fields of a query filter when they are present and not empty. A JavaScript array
  sorted with \<open>localeCompare\<close> in descending order is \<open>sort_by\<close> with the operands swapped.
\<close>

type_synonym commit_item = "query_attribution \<times> allocation"

section \<open>Which allocations are reported\<close>

definition isSurfacedAllocation :: "allocation \<Rightarrow> bool" where
  "isSurfacedAllocation a \<longleftrightarrow> al_allocationPolicy a = First_claim
     \<and> (al_decision a = Some Reportable \<or> al_decision a = Some Superseded)
     \<and> al_epochId a \<noteq> None \<and> al_proof a \<noteq> None
     \<and> (al_status a = Al_active \<or> al_status a = Al_superseded)"

definition isPublicationAllocation :: "allocation \<Rightarrow> bool" where
  "isPublicationAllocation a \<longleftrightarrow> al_allocationPolicy a = First_claim
     \<and> al_epochId a \<noteq> None \<and> al_proof a \<noteq> None
     \<and> al_decision a \<in> {Some Reportable, Some Rewrite_pending, Some Superseded}
     \<and> al_status a \<in> {Al_active, Al_rewrite_pending, Al_superseded}"

definition isNativeCausalRetractionAllocation :: "allocation \<Rightarrow> bool" where
  "isNativeCausalRetractionAllocation a \<longleftrightarrow> al_status a = Al_superseded
     \<and> al_decision a = Some Superseded \<and> ''native_causal_write_retracted'' \<in> set (al_evidenceReasons a)"

definition commit_key :: "commit_item \<Rightarrow> string" where
  "commit_key item = al_repoKey (snd item) @ '':'' @ al_commitHash (snd item)"

definition surfaced_items :: "query_attribution list \<Rightarrow> commit_item list" where
  "surfaced_items qs =
     concat (map (\<lambda>q. map (\<lambda>a. (q, a)) (filter isSurfacedAllocation (qa_allocations q))) qs)"

section \<open>Aggregation\<close>

definition aggregateCoverage :: "cost_coverage list \<Rightarrow> cost_coverage" where
  "aggregateCoverage values =
     (let reported = filter (\<lambda>v. v \<noteq> Unavailable) values
      in if reported = [] then Unavailable
         else if length reported = length values \<and> list_all (\<lambda>v. v = Complete) reported
         then Complete else Partial)"

definition aggregateConfidence :: "confidence option list \<Rightarrow> confidence option" where
  "aggregateConfidence values =
     (let reported = List.map_filter (\<lambda>v. v) values
      in if reported = [] then None
         else if Low \<in> set reported then Some Low
         else if Medium \<in> set reported then Some Medium
         else Some High)"

datatype commit_status = Cs_active | Cs_rewrite_pending | Cs_manual_review | Cs_superseded | Cs_mixed

definition aggregateStatus :: "commit_item list \<Rightarrow> commit_status" where
  "aggregateStatus items =
     (if list_ex (\<lambda>i. al_status (snd i) = Al_rewrite_pending) items then Cs_rewrite_pending
      else if list_all (\<lambda>i. al_status (snd i) = Al_superseded) items then Cs_superseded
      else if list_ex (\<lambda>i. qa_status (fst i) = Qa_manual_review) items then Cs_manual_review
      else if list_ex (\<lambda>i. al_status (snd i) = Al_superseded) items then Cs_mixed
      else Cs_active)"

fun uniqueByQuery_from :: "string list \<Rightarrow> commit_item list \<Rightarrow> commit_item list" where
  "uniqueByQuery_from seen [] = []"
| "uniqueByQuery_from seen (i # items) =
     (if qa_queryId (fst i) \<in> set seen then uniqueByQuery_from seen items
      else i # uniqueByQuery_from (qa_queryId (fst i) # seen) items)"

definition uniqueByQuery :: "commit_item list \<Rightarrow> commit_item list" where
  "uniqueByQuery items = uniqueByQuery_from [] items"

record provider_cost =
  pv_provider :: string
  pv_queryCount :: nat
  pv_allocatedNanoUsd :: "rat option"
  pv_allocatedUsd :: "rat option"
  pv_allocatedAiCredits :: "rat option"

definition summarizeProviderCosts :: "collation \<Rightarrow> commit_item list \<Rightarrow> provider_cost list" where
  "summarizeProviderCosts lc items =
     (let byProvider = group_by (\<lambda>i. nullish (qa_provider (fst i)) ''unknown'')
            (filter (\<lambda>i. al_status (snd i) = Al_active) items)
      in sort_by (\<lambda>a b. lc (pv_provider a) (pv_provider b) \<le> 0)
           (map (\<lambda>(provider, entry).
              let allocated = opt_sum (map (\<lambda>i. al_allocatedNanoUsd (snd i)) entry)
              in \<lparr>pv_provider = provider,
                  pv_queryCount = length (dedup (map (\<lambda>i. qa_queryId (fst i)) entry)),
                  pv_allocatedNanoUsd = allocated,
                  pv_allocatedUsd = usdFromNanoUsd allocated,
                  pv_allocatedAiCredits = aiCreditsFromNanoUsd allocated\<rparr>) byProvider))"

record commit_summary =
  sm_commitHash :: string
  sm_commitMessage :: "string option"
  sm_parentHashes :: "string list"
  sm_repoKey :: string
  sm_episodeIds :: "string list"
  sm_queryIds :: "string list"
  sm_runIds :: "string list"
  sm_linkedQueryCount :: nat
  sm_allocatedNanoUsd :: "rat option"
  sm_allocatedUsd :: "rat option"
  sm_allocatedAiCredits :: "rat option"
  sm_linkedNanoUsd :: "rat option"
  sm_linkedUsd :: "rat option"
  sm_linkedAiCredits :: "rat option"
  sm_providerCosts :: "provider_cost list"
  sm_coverage :: cost_coverage
  sm_decision :: decision
  sm_proofKinds :: "string list"
  sm_anchorQueryIds :: "string list"
  sm_inheritedQueryIds :: "string list"
  sm_confidence :: "confidence option"
  sm_status :: commit_status
  sm_evidenceReasons :: "string list"
  sm_createdAt :: string

definition items_allocated :: "commit_item list \<Rightarrow> rat option" where
  "items_allocated items =
     opt_sum (map (\<lambda>i. if al_status (snd i) = Al_active then al_allocatedNanoUsd (snd i) else None) items)"

definition summarizeCommit :: "collation \<Rightarrow> commit_item list \<Rightarrow> commit_summary" where
  "summarizeCommit lc items =
     (let first = snd (hd items);
          queryIds = unique_sorted (map (\<lambda>i. qa_queryId (fst i)) items);
          linked = opt_sum (map (\<lambda>i. qa_estimatedNanoUsd (fst i)) (uniqueByQuery items));
          allocated = items_allocated items;
          proofs = List.map_filter (\<lambda>i. al_proof (snd i)) items
      in \<lparr>sm_commitHash = al_commitHash first,
          sm_commitMessage = al_commitMessage first,
          sm_parentHashes = unique_sorted (concat (map (\<lambda>i. al_parentHashes (snd i)) items)),
          sm_repoKey = al_repoKey first,
          sm_episodeIds = unique_sorted
            (List.map_filter (\<lambda>i. if truthy (al_episodeId (snd i)) then al_episodeId (snd i) else None) items),
          sm_queryIds = queryIds,
          sm_runIds = unique_sorted (concat (map (\<lambda>i. qa_runIds (fst i)) items)),
          sm_linkedQueryCount = length queryIds,
          sm_allocatedNanoUsd = allocated,
          sm_allocatedUsd = usdFromNanoUsd allocated,
          sm_allocatedAiCredits = aiCreditsFromNanoUsd allocated,
          sm_linkedNanoUsd = linked,
          sm_linkedUsd = usdFromNanoUsd linked,
          sm_linkedAiCredits = aiCreditsFromNanoUsd linked,
          sm_providerCosts = summarizeProviderCosts lc items,
          sm_coverage = aggregateCoverage
            (concat (map (\<lambda>i. [al_coverage (snd i), qa_costCoverage (fst i)]) items)),
          sm_decision = (if list_ex (\<lambda>i. al_status (snd i) = Al_active) items then Reportable else Superseded),
          sm_proofKinds = unique_sorted (map (\<lambda>p. proof_kind_str (pf_kind p)) proofs),
          sm_anchorQueryIds = unique_sorted (concat (map pf_anchorQueryIds proofs)),
          sm_inheritedQueryIds = unique_sorted (concat (map pf_inheritedQueryIds proofs)),
          sm_confidence = aggregateConfidence (map (\<lambda>i. al_confidence (snd i)) items),
          sm_status = aggregateStatus items,
          sm_evidenceReasons = unique_sorted (concat (map (\<lambda>i. al_evidenceReasons (snd i)) items)),
          sm_createdAt = last_string (map (\<lambda>i. al_createdAt (snd i)) items)\<rparr>)"

definition summarizeCommits :: "collation \<Rightarrow> query_attribution list \<Rightarrow> commit_summary list" where
  "summarizeCommits lc qs =
     map (summarizeCommit lc) (map_values (group_by commit_key (surfaced_items qs)))"

section \<open>Publication snapshots\<close>

datatype publication_state = Pub_active | Pub_rewrite_pending | Pub_superseded

record publication_snapshot =
  ps_repoKey :: string
  ps_commitHash :: string
  ps_commitMessage :: "string option"
  ps_state :: publication_state
  ps_firstVerifiedAt :: string
  ps_updatedAt :: string
  ps_allocatedNanoUsd :: "rat option"
  ps_coverage :: cost_coverage
  ps_attributedQueryCount :: nat

definition publication_items :: "query_attribution list \<Rightarrow> commit_item list" where
  "publication_items qs =
     concat (map (\<lambda>q.
       let currentPublication = (qa_status q = Qa_attributed \<or> qa_status q = Qa_rewrite_pending);
           nativeCorrection = (qa_status q = Qa_rejected)
       in if \<not> currentPublication \<and> \<not> nativeCorrection then []
          else map (\<lambda>a. (q, a)) (filter (\<lambda>a. isPublicationAllocation a
            \<and> (currentPublication \<or> isNativeCausalRetractionAllocation a)) (qa_allocations q))) qs)"

definition summarizePublication :: "commit_item list \<Rightarrow> publication_snapshot" where
  "summarizePublication items =
     (let first = snd (hd items);
          states = map (\<lambda>i. al_status (snd i)) items;
          verifiedTimes = sort (map (\<lambda>i. nullish (al_verifiedAt (snd i)) (al_createdAt (snd i))) items);
          updateTimes = map (\<lambda>i. nullish (or_else (al_stateChangedAt (snd i)) (al_rewritePendingAt (snd i)))
            (al_createdAt (snd i))) items
      in \<lparr>ps_repoKey = al_repoKey first,
          ps_commitHash = al_commitHash first,
          ps_commitMessage = al_commitMessage first,
          ps_state = (if Al_rewrite_pending \<in> set states then Pub_rewrite_pending
                      else if Al_active \<in> set states then Pub_active else Pub_superseded),
          ps_firstVerifiedAt = first_string verifiedTimes,
          ps_updatedAt = last_string updateTimes,
          ps_allocatedNanoUsd = opt_sum (map (\<lambda>i.
            if al_status (snd i) = Al_superseded then None else al_allocatedNanoUsd (snd i)) items),
          ps_coverage = aggregateCoverage (map (\<lambda>i. al_coverage (snd i)) items),
          ps_attributedQueryCount =
            length (unique_sorted (map (\<lambda>i. qa_queryId (fst i)) items))\<rparr>)"

definition summarizePublicationSnapshots :: "query_attribution list \<Rightarrow> publication_snapshot list" where
  "summarizePublicationSnapshots qs =
     map summarizePublication (map_values (group_by commit_key (publication_items qs)))"

section \<open>Queries and the CSV export\<close>

record attribution_query =
  aq_limit :: "int option"
  aq_range :: "(string \<times> string) option"
  aq_commitHash :: "string option"
  aq_repoKey :: "string option"

definition in_date_range :: "(string \<times> string) option \<Rightarrow> string \<Rightarrow> bool" where
  "in_date_range r t = (case r of None \<Rightarrow> True | Some (lo, hi) \<Rightarrow> lo \<le> t \<and> t \<le> hi)"

definition absent_or_equal :: "string option \<Rightarrow> string \<Rightarrow> bool" where
  "absent_or_equal wanted x \<longleftrightarrow> \<not> truthy wanted \<or> wanted = Some x"

definition matchesQueryAttribution :: "query_attribution \<Rightarrow> attribution_query \<Rightarrow> bool" where
  "matchesQueryAttribution q query \<longleftrightarrow>
     (\<not> truthy (aq_repoKey query)
        \<or> list_ex (\<lambda>e. Some (we_repoKey e) = aq_repoKey query) (qa_evidence q)
        \<or> list_ex (\<lambda>a. Some (al_repoKey a) = aq_repoKey query) (qa_allocations q))
     \<and> (\<not> truthy (aq_commitHash query)
        \<or> list_ex (\<lambda>a. Some (al_commitHash a) = aq_commitHash query) (qa_allocations q))
     \<and> in_date_range (aq_range query) (latestAttributionTimestamp q)"

definition matchesCommitSummary :: "commit_summary \<Rightarrow> attribution_query \<Rightarrow> bool" where
  "matchesCommitSummary s query \<longleftrightarrow>
     absent_or_equal (aq_repoKey query) (sm_repoKey s)
     \<and> absent_or_equal (aq_commitHash query) (sm_commitHash s)
     \<and> in_date_range (aq_range query) (sm_createdAt s)"

definition listQueryAttributions :: "collation \<Rightarrow> attribution_query \<Rightarrow> store \<Rightarrow> query_attribution list" where
  "listQueryAttributions lc query st =
     (let attributions = loadAttributions lc st
      in slice_to (nullish (aq_limit query) (int (length attributions)))
           (sort_by (\<lambda>a b. lc (latestAttributionTimestamp b) (latestAttributionTimestamp a) \<le> 0)
             (filter (\<lambda>q. matchesQueryAttribution q query) attributions)))"

definition limited :: "int option \<Rightarrow> 'a list \<Rightarrow> 'a list" where
  "limited limit xs = (case limit of None \<Rightarrow> xs | Some n \<Rightarrow> slice_to n xs)"

definition listCommitAttributions :: "collation \<Rightarrow> attribution_query \<Rightarrow> store \<Rightarrow> commit_summary list" where
  "listCommitAttributions lc query st =
     limited (aq_limit query)
       (sort_by (\<lambda>a b. lc (sm_createdAt b) (sm_createdAt a) \<le> 0)
         (filter (\<lambda>s. matchesCommitSummary s query) (summarizeCommits lc (loadAttributions lc st))))"

definition listCommitPublicationSnapshots :: "collation \<Rightarrow> attribution_query \<Rightarrow> store
    \<Rightarrow> publication_snapshot list" where
  "listCommitPublicationSnapshots lc query st =
     limited (aq_limit query)
       (sort_by (\<lambda>a b. lc (ps_updatedAt b) (ps_updatedAt a) \<le> 0)
         (filter (\<lambda>s. absent_or_equal (aq_repoKey query) (ps_repoKey s)
             \<and> absent_or_equal (aq_commitHash query) (ps_commitHash s)
             \<and> in_date_range (aq_range query) (ps_updatedAt s))
           (summarizePublicationSnapshots (loadAttributions lc st))))"

fun coverage_str :: "cost_coverage \<Rightarrow> string" where
  "coverage_str Complete = ''complete''"
| "coverage_str Partial = ''partial''"
| "coverage_str Unavailable = ''unavailable''"

fun decision_str :: "decision \<Rightarrow> string" where
  "decision_str Reportable = ''reportable''"
| "decision_str Pending_evidence = ''pending_evidence''"
| "decision_str Rejected = ''rejected''"
| "decision_str Expired = ''expired''"
| "decision_str Rewrite_pending = ''rewrite_pending''"
| "decision_str Superseded = ''superseded''"
| "decision_str Legacy_unverified = ''legacy_unverified''"

fun commit_status_str :: "commit_status \<Rightarrow> string" where
  "commit_status_str Cs_active = ''active''"
| "commit_status_str Cs_rewrite_pending = ''rewrite_pending''"
| "commit_status_str Cs_manual_review = ''manual_review''"
| "commit_status_str Cs_superseded = ''superseded''"
| "commit_status_str Cs_mixed = ''mixed''"

definition csvEscape :: "string \<Rightarrow> string" where
  "csvEscape raw =
     (if list_ex (\<lambda>c. c \<in> {CHR 0x22, CHR '','', CHR 0x0A, CHR 0x0D}) raw
      then [CHR 0x22] @ concat (map (\<lambda>c. if c = CHR 0x22 then [c, c] else [c]) raw) @ [CHR 0x22]
      else raw)"

definition optional_num :: "rat option \<Rightarrow> string" where
  "optional_num x = (case x of None \<Rightarrow> '''' | Some v \<Rightarrow> num_to_string v)"

definition csv_columns :: "(string \<times> (commit_summary \<Rightarrow> string)) list" where
  "csv_columns =
     [(''Commit Hash'', sm_commitHash),
      (''Commit Message'', \<lambda>s. nullish (sm_commitMessage s) ''''),
      (''Repo Key'', sm_repoKey),
      (''Episode IDs'', \<lambda>s. join ''; '' (sm_episodeIds s)),
      (''Query IDs'', \<lambda>s. join ''; '' (sm_queryIds s)),
      (''Allocated Nano USD'', \<lambda>s. optional_num (sm_allocatedNanoUsd s)),
      (''Estimated USD'', \<lambda>s. optional_num (sm_allocatedUsd s)),
      (''Estimated AI Credits'', \<lambda>s. optional_num (sm_allocatedAiCredits s)),
      (''Coverage'', \<lambda>s. coverage_str (sm_coverage s)),
      (''Decision'', \<lambda>s. decision_str (sm_decision s)),
      (''Proof Kinds'', \<lambda>s. join ''; '' (sm_proofKinds s)),
      (''Anchor Query IDs'', \<lambda>s. join ''; '' (sm_anchorQueryIds s)),
      (''Inherited Query IDs'', \<lambda>s. join ''; '' (sm_inheritedQueryIds s)),
      (''Status'', \<lambda>s. commit_status_str (sm_status s)),
      (''Evidence Reasons'', \<lambda>s. join ''; '' (sm_evidenceReasons s)),
      (''Created At'', sm_createdAt)]"

definition toCsv :: "commit_summary list \<Rightarrow> string" where
  "toCsv summaries =
     join [CHR 0x0A]
       (join '','' (map (\<lambda>(label, _). csvEscape label) csv_columns)
        # map (\<lambda>s. join '','' (map (\<lambda>(_, getter). csvEscape (getter s)) csv_columns)) summaries)
     @ [CHR 0x0A]"

section \<open>Lemmas\<close>

text \<open>Grouping by commit loses and duplicates nothing.\<close>

lemma opt_sum_group_by:
  assumes "\<And>xs ys. f (xs @ ys) = add_opt (f xs) (f ys)" "f [] = None"
  shows "opt_sum (map f (map_values (group_by key xs))) = opt_sum (map (\<lambda>x. f [x]) xs)"
proof -
  have "f (nullish o' [] @ [x]) = add_opt (Option.bind o' f) (f [x])" for o' x
    using assms by (cases o') simp_all
  from opt_sum_accumulate [of "[]" f "\<lambda>o' x. nullish o' [] @ [x]" "\<lambda>x. f [x]" key xs, OF _ this]
  show ?thesis by (simp add: group_by_def map_values_def)
qed

definition charged :: "commit_item \<Rightarrow> rat option" where
  "charged i = (if al_status (snd i) = Al_active then al_allocatedNanoUsd (snd i) else None)"

lemma items_allocated_charged: "items_allocated items = opt_sum (map charged items)"
  by (simp add: items_allocated_def charged_def [abs_def])

lemma summaries_charged:
  "opt_sum (map sm_allocatedNanoUsd (summarizeCommits lc qs)) = opt_sum (map charged (surfaced_items qs))"
proof -
  have "map sm_allocatedNanoUsd (summarizeCommits lc qs)
      = map items_allocated (map_values (group_by commit_key (surfaced_items qs)))"
    by (simp add: summarizeCommits_def summarizeCommit_def Let_def)
  then show ?thesis
    by (simp add: opt_sum_group_by items_allocated_charged)
qed

lemma surfaced_charged_query:
  assumes "claims_ok q" "\<And>e. qa_estimatedNanoUsd q = Some e \<Longrightarrow> 0 \<le> e"
  shows "sum_list (map (\<lambda>a. nullish (charged (q, a)) 0) (filter isSurfacedAllocation (qa_allocations q)))
    \<le> nullish (qa_estimatedNanoUsd q) 0"
proof -
  let ?S = "\<lambda>a. isSurfacedAllocation a \<and> al_status a = Al_active"
  have live: "filter ?S (qa_allocations q) = filter ?S (live_claims q)"
    unfolding live_claims_def filter_filter
    by (rule filter_cong) (auto simp: isSurfacedAllocation_def active_first_claim_def holds_claim_def)
  have est: "0 \<le> nullish (qa_estimatedNanoUsd q) 0"
    using assms(2) by (cases "qa_estimatedNanoUsd q") simp_all
  have "sum_list (map (\<lambda>a. nullish (charged (q, a)) 0) (filter isSurfacedAllocation as))
      = sum_list (map (\<lambda>a. nullish (al_allocatedNanoUsd a) 0) (filter ?S as))" for as
    by (induction as) (simp_all add: charged_def)
  then have "sum_list (map (\<lambda>a. nullish (charged (q, a)) 0) (filter isSurfacedAllocation (qa_allocations q)))
      = sum_list (map (\<lambda>a. nullish (al_allocatedNanoUsd a) 0) (filter ?S (live_claims q)))"
    by (simp only: live)
  also have "\<dots> \<le> nullish (qa_estimatedNanoUsd q) 0"
  proof (cases "live_claims q")
    case Nil
    with est show ?thesis by simp
  next
    case (Cons a as)
    with assms(1) have as: "as = []" by (simp add: claims_ok_def live_claims_def)
    have "claim_ok q a" using assms(1) Cons by (simp add: claims_ok_def live_claims_def [symmetric])
    with est have "nullish (al_allocatedNanoUsd a) 0 \<le> nullish (qa_estimatedNanoUsd q) 0"
      by (auto simp: claim_ok_def split: option.splits)
    with est show ?thesis by (simp add: Cons as)
  qed
  finally show ?thesis .
qed

section \<open>Properties\<close>

text \<open>
  C30: no cost is charged twice. For every reachable state of the ledger whose estimates are
  not negative, the amounts allocated over all commits add up to the live surfaced
  allocations, and to no more than the estimated cost of all queries.
\<close>

theorem no_double_charging:
  assumes "reachable lc pg st"
    and "\<forall>q \<in> set st. \<forall>e. qa_estimatedNanoUsd q = Some e \<longrightarrow> 0 \<le> e"
  shows "opt_sum (map sm_allocatedNanoUsd (summarizeCommits lc st))
      = opt_sum (map charged (surfaced_items st))
    \<and> nullish (opt_sum (map sm_allocatedNanoUsd (summarizeCommits lc st))) 0
      \<le> nullish (opt_sum (map qa_estimatedNanoUsd st)) 0"
proof -
  have "sum_list (map (\<lambda>i. nullish (charged i) 0) (surfaced_items qs))
      \<le> sum_list (map (\<lambda>q. nullish (qa_estimatedNanoUsd q) 0) qs)" if "set qs \<subseteq> set st" for qs
    using that
  proof (induction qs)
    case (Cons q qs)
    then have "claims_ok q" "\<And>e. qa_estimatedNanoUsd q = Some e \<Longrightarrow> 0 \<le> e"
      using reachable_ok [OF assms(1)] assms(2) by (auto simp: ledger_ok_iff)
    from surfaced_charged_query [OF this] Cons show ?case
      by (simp add: surfaced_items_def comp_def add_mono)
  qed (simp add: surfaced_items_def)
  then show ?thesis by (simp add: summaries_charged opt_sum_nullish comp_def)
qed

theorem no_double_charging_witness:
  "nullish (opt_sum (map sm_allocatedNanoUsd (summarizeCommits code_unit_compare claimed_store))) 0 = 500
   \<and> nullish (opt_sum (map sm_allocatedNanoUsd (summarizeCommits code_unit_compare claimed_store))) 0
     \<le> nullish (opt_sum (map qa_estimatedNanoUsd claimed_store)) 0"
proof -
  have "list_all (\<lambda>q. case qa_estimatedNanoUsd q of None \<Rightarrow> True | Some e \<Rightarrow> 0 \<le> e) claimed_store"
    by code_simp
  then have est: "\<forall>q \<in> set claimed_store. \<forall>e. qa_estimatedNanoUsd q = Some e \<longrightarrow> 0 \<le> e"
    by (auto simp: list_all_iff)
  have "nullish (opt_sum (map sm_allocatedNanoUsd
      (summarizeCommits code_unit_compare claimed_store))) 0 = 500" by code_simp
  then show ?thesis
    by (rule conjI [OF _ conjunct2 [OF no_double_charging [OF claimed_store_reachable est]]])
qed

text \<open>
  The provider breakdown of a commit is exact: the amounts of its providers add up to
  the amount allocated to the commit, every provider occurs once, and none has no query.
\<close>

theorem provider_costs_exact:
  "opt_sum (map pv_allocatedNanoUsd (summarizeProviderCosts lc items)) = items_allocated items
   \<and> distinct (map pv_provider (summarizeProviderCosts lc items))
   \<and> list_all (\<lambda>p. 0 < pv_queryCount p) (summarizeProviderCosts lc items)"
proof -
  let ?active = "filter (\<lambda>i. al_status (snd i) = Al_active) items"
  let ?m = "group_by (\<lambda>i. nullish (qa_provider (fst i)) ''unknown'') ?active"
  let ?f = "\<lambda>(provider, entry :: commit_item list).
      let allocated = opt_sum (map (\<lambda>i. al_allocatedNanoUsd (snd i)) entry)
      in \<lparr>pv_provider = provider, pv_queryCount = length (dedup (map (\<lambda>i. qa_queryId (fst i)) entry)),
          pv_allocatedNanoUsd = allocated, pv_allocatedUsd = usdFromNanoUsd allocated,
          pv_allocatedAiCredits = aiCreditsFromNanoUsd allocated\<rparr>"
  have p: "summarizeProviderCosts lc items
      = sort_by (\<lambda>a b. lc (pv_provider a) (pv_provider b) \<le> 0) (map ?f ?m)"
    by (simp add: summarizeProviderCosts_def Let_def)
  have "opt_sum (map pv_allocatedNanoUsd (summarizeProviderCosts lc items))
      = opt_sum (map (\<lambda>entry. opt_sum (map (\<lambda>i. al_allocatedNanoUsd (snd i)) entry)) (map_values ?m))"
    by (simp add: p map_values_def comp_def case_prod_unfold Let_def)
  also have "\<dots> = opt_sum (map (\<lambda>i. al_allocatedNanoUsd (snd i)) ?active)"
    by (subst opt_sum_group_by) simp_all
  also have "\<dots> = items_allocated items"
    unfolding items_allocated_def by (induction items) simp_all
  finally have "opt_sum (map pv_allocatedNanoUsd (summarizeProviderCosts lc items)) = items_allocated items" .
  moreover have "distinct (map pv_provider (summarizeProviderCosts lc items))"
  proof -
    have "mset (map pv_provider (summarizeProviderCosts lc items)) = mset (map pv_provider (map ?f ?m))"
      unfolding p by (simp only: mset_map mset_sort_by)
    moreover have "map pv_provider (map ?f ?m) = map fst ?m"
      by (simp add: comp_def case_prod_unfold Let_def)
    ultimately have "mset (map pv_provider (summarizeProviderCosts lc items)) = mset (map fst ?m)"
      by (simp only:)
    from mset_eq_imp_distinct_iff [OF this] show ?thesis by (simp only: distinct_group_by)
  qed
  moreover have "list_all (\<lambda>p. 0 < pv_queryCount p) (summarizeProviderCosts lc items)"
  proof -
    have "0 < pv_queryCount (?f x)" if "x \<in> set ?m" for x
    proof -
      from that have "(fst x, snd x) \<in> set ?m" by simp
      then have "snd x \<noteq> []" by (rule conjunct2 [OF group_by_mem])
      then show ?thesis by (simp add: case_prod_unfold Let_def)
    qed
    then show ?thesis by (auto simp only: p list_all_iff set_sort_by set_map)
  qed
  ultimately show ?thesis by blast
qed

end
