(* ===== verification/RuntimeWorkScheduler.thy ===== *)
theory RuntimeWorkScheduler
  imports JsValue
begin

text \<open>
  The lanes of background work of the agent: packages/agent/src/runtimeWorkScheduler.ts. The
  class runs on one thread, so its state changes only in the synchronous stretches between two
  awaits; each stretch is one \<open>event\<close> here: a caller enqueues work, a caller starts to wait, the
  promise of a running work settles. The suspended calls of \<open>run\<close>, which the program keeps in
  pending promises, are the works in \<open>ln_executing\<close>; that there is never more than one for a
  lane is a theorem and not built in. A work and a waiting promise are opaque tokens. The lanes
  are looked up by their key, which the captured \<open>state\<close> of \<open>run\<close> and the map agree on as long
  as a lane is not deleted while it runs.
\<close>

section \<open>Lanes\<close>

type_synonym work = nat

datatype waiter = Caller nat | Round nat

record lane =
  ln_running :: bool
  ln_requested :: bool
  ln_work :: "work option"
  ln_resolvers :: "waiter list"
  ln_executing :: "work list"

record scheduler =
  sc_states :: "(string, lane) jsmap"
  sc_generation :: nat

datatype effect = Started string work | Resolved waiter

definition no_lane :: lane where
  "no_lane = \<lparr>ln_running = False, ln_requested = False, ln_work = None, ln_resolvers = [],
     ln_executing = []\<rparr>"

definition new_scheduler :: scheduler where
  "new_scheduler = \<lparr>sc_states = [], sc_generation = 0\<rparr>"

definition stateFor :: "scheduler \<Rightarrow> string \<Rightarrow> lane" where
  "stateFor s key = nullish (map_get (sc_states s) key) no_lane"

text \<open>The branch of \<open>finally\<close> that leaves the lane idle, the body of the loop up to its await,
  and \<open>finally\<close> itself. A body without work returns, which runs \<open>finally\<close> with nothing
  requested.\<close>

definition finish_run :: "lane \<Rightarrow> lane \<times> effect list" where
  "finish_run l = (l\<lparr>ln_running := False, ln_resolvers := []\<rparr>, map Resolved (ln_resolvers l))"

definition begin_run :: "string \<Rightarrow> lane \<Rightarrow> lane \<times> effect list" where
  "begin_run key l =
     (let l = l\<lparr>ln_requested := False\<rparr>
      in case ln_work l of
           None \<Rightarrow> finish_run l
         | Some w \<Rightarrow> (l\<lparr>ln_executing := ln_executing l @ [w]\<rparr>, [Started key w]))"

definition run_finally :: "string \<Rightarrow> lane \<Rightarrow> lane \<times> effect list" where
  "run_finally key l = (if \<not> ln_requested l then finish_run l else begin_run key l)"

text \<open>What follows the await: the loop condition if the work succeeded, \<open>catch\<close> and \<open>finally\<close>
  if it failed.\<close>

definition settle_run :: "string \<Rightarrow> work \<Rightarrow> bool \<Rightarrow> lane \<Rightarrow> lane \<times> effect list" where
  "settle_run key w succeeded l =
     (let l = l\<lparr>ln_executing := remove1 w (ln_executing l)\<rparr>
      in if succeeded \<and> ln_requested l then begin_run key l else run_finally key l)"

text \<open>Store the lane; an idle lane without work is deleted.\<close>

definition put_lane :: "string \<Rightarrow> lane \<Rightarrow> scheduler \<Rightarrow> scheduler" where
  "put_lane key l s =
     (if \<not> ln_running l \<and> ln_work l = None
      then s\<lparr>sc_states := filter (\<lambda>(k, _). k \<noteq> key) (sc_states s)\<rparr>
      else s\<lparr>sc_states := map_set key l (sc_states s)\<rparr>)"

section \<open>Events\<close>

datatype event = Enqueue string work | Settle string work bool | Wait string nat

definition enqueue :: "string \<Rightarrow> work \<Rightarrow> scheduler \<Rightarrow> scheduler \<times> effect list" where
  "enqueue key w s =
     (let s = s\<lparr>sc_generation := sc_generation s + 1\<rparr>;
          l = (stateFor s key)\<lparr>ln_work := Some w\<rparr>
      in if ln_running l then (put_lane key (l\<lparr>ln_requested := True\<rparr>) s, [])
         else (case begin_run key (l\<lparr>ln_running := True\<rparr>) of (l', out) \<Rightarrow> (put_lane key l' s, out)))"

definition drainKey :: "string \<Rightarrow> waiter \<Rightarrow> scheduler \<Rightarrow> scheduler \<times> effect list" where
  "drainKey key v s =
     (case map_get (sc_states s) key of
        Some l \<Rightarrow>
          if ln_running l
          then (put_lane key (l\<lparr>ln_resolvers := ln_resolvers l @ [v]\<rparr>) s, [])
          else (s, [Resolved v])
      | None \<Rightarrow> (s, [Resolved v]))"

text \<open>Only a work that is executing can settle; the event is void otherwise.\<close>

definition settle :: "string \<Rightarrow> work \<Rightarrow> bool \<Rightarrow> scheduler \<Rightarrow> scheduler \<times> effect list" where
  "settle key w succeeded s =
     (case map_get (sc_states s) key of
        Some l \<Rightarrow>
          if w \<in> set (ln_executing l)
          then (case settle_run key w succeeded l of (l', out) \<Rightarrow> (put_lane key l' s, out))
          else (s, [])
      | None \<Rightarrow> (s, []))"

fun handle :: "event \<Rightarrow> scheduler \<Rightarrow> scheduler \<times> effect list" where
  "handle (Enqueue key w) s = enqueue key w s"
| "handle (Settle key w succeeded) s = settle key w succeeded s"
| "handle (Wait key n) s = drainKey key (Caller n) s"

fun run_events :: "event list \<Rightarrow> scheduler \<Rightarrow> scheduler \<times> effect list" where
  "run_events [] s = (s, [])"
| "run_events (e # es) s =
     (case handle e s of (s1, out) \<Rightarrow> (case run_events es s1 of (s2, out') \<Rightarrow> (s2, out @ out')))"

section \<open>Draining\<close>

definition isIdle :: "scheduler \<Rightarrow> bool" where
  "isIdle s = list_all (\<lambda>l. \<not> ln_running l) (map_values (sc_states s))"

text \<open>\<open>drain\<close> of the round \<open>r\<close>: it waits on every lane of the snapshot, and is over when no lane
  holds its waiter.\<close>

definition drain :: "nat \<Rightarrow> scheduler \<Rightarrow> scheduler" where
  "drain r s = foldl (\<lambda>s key. fst (drainKey key (Round r) s)) s (map fst (sc_states s))"

definition waiting :: "nat \<Rightarrow> scheduler \<Rightarrow> bool" where
  "waiting r s = list_ex (\<lambda>l. Round r \<in> set (ln_resolvers l)) (map_values (sc_states s))"

text \<open>\<open>drainToFixedPoint\<close> in an environment: \<open>env r\<close> are the events of its round \<open>r\<close>, up to the
  check of the generation. The result is \<open>None\<close> while a round has not come to its end.\<close>

fun drain_rounds :: "nat \<Rightarrow> nat \<Rightarrow> (nat \<Rightarrow> event list) \<Rightarrow> scheduler \<Rightarrow> bool option" where
  "drain_rounds 0 r env s = Some False"
| "drain_rounds (Suc n) r env s =
     (let s' = fst (run_events (env r) (drain r s))
      in if waiting r s' then None
         else if sc_generation s = sc_generation s' \<and> isIdle s' then Some True
         else drain_rounds n (Suc r) env s')"

definition drainToFixedPoint :: "rat \<Rightarrow> (nat \<Rightarrow> event list) \<Rightarrow> scheduler \<Rightarrow> bool option" where
  "drainToFixedPoint maxRounds env s =
     (if \<not> (is_integer maxRounds \<and> \<bar>maxRounds\<bar> \<le> 2 ^ 53 - 1) \<or> maxRounds \<le> 0 then Some False
      else drain_rounds (nat \<lfloor>maxRounds\<rfloor>) 0 env s)"

section \<open>The invariant of a lane\<close>

text \<open>Every state that events and draining callers can produce.\<close>

inductive sched_step :: "scheduler \<Rightarrow> scheduler \<Rightarrow> bool" where
  event_step: "sched_step s (fst (handle e s))"
| drain_step: "sched_step s (drain r s)"

inductive sched_reachable :: "scheduler \<Rightarrow> bool" where
  init: "sched_reachable new_scheduler"
| step: "sched_reachable s \<Longrightarrow> sched_step s s' \<Longrightarrow> sched_reachable s'"

definition lane_ok :: "lane \<Rightarrow> bool" where
  "lane_ok l \<longleftrightarrow> ln_work l \<noteq> None \<and> (ln_running l = (ln_executing l \<noteq> []))
     \<and> length (ln_executing l) \<le> 1 \<and> (ln_requested l \<longrightarrow> ln_running l)
     \<and> (ln_resolvers l \<noteq> [] \<longrightarrow> ln_running l)
     \<and> (ln_running l \<and> \<not> ln_requested l \<longrightarrow> ln_executing l = [the (ln_work l)])"

definition lanes_ok :: "scheduler \<Rightarrow> bool" where
  "lanes_ok s \<longleftrightarrow> distinct (map fst (sc_states s))
     \<and> (\<forall>k l. map_get (sc_states s) k = Some l \<longrightarrow> lane_ok l)"

lemma put_lane_work [simp]:
  "ln_work l \<noteq> None \<Longrightarrow> put_lane k l s = s\<lparr>sc_states := map_set k l (sc_states s)\<rparr>"
  by (auto simp: put_lane_def)

lemma lanes_ok_put:
  assumes "lanes_ok s" "lane_ok l"
  shows "lanes_ok (s\<lparr>sc_states := map_set k l (sc_states s)\<rparr>)"
    and "lanes_ok (s\<lparr>sc_generation := n, sc_states := map_set k l (sc_states s)\<rparr>)"
  using assms by (simp_all add: lanes_ok_def js_map.distinct_keys_put)

lemma lane_ok_changes:
  "lane_ok l \<Longrightarrow> ln_running l \<Longrightarrow> lane_ok (l\<lparr>ln_work := Some w, ln_requested := True\<rparr>)"
  "lane_ok l \<Longrightarrow> ln_running l \<Longrightarrow> lane_ok (l\<lparr>ln_resolvers := vs\<rparr>)"
  "lane_ok \<lparr>ln_running = True, ln_requested = False, ln_work = Some w, ln_resolvers = [],
     ln_executing = [w]\<rparr>"
  by (simp_all add: lane_ok_def)

lemma length_le_1_cases: "length xs \<le> 1 \<Longrightarrow> xs = [] \<or> (\<exists>x. xs = [x])"
  by (cases xs) auto

text \<open>What an operation does to the lane of its key, for lanes that satisfy the invariant.\<close>

lemma enqueue_lane:
  assumes "lanes_ok s"
  obtains (busy) l where "map_get (sc_states s) key = Some l" "lane_ok l" "ln_running l"
      "enqueue key w s = (s\<lparr>sc_generation := sc_generation s + 1, sc_states := map_set key
         (l\<lparr>ln_work := Some w, ln_requested := True\<rparr>) (sc_states s)\<rparr>, [])"
    | (idle) "\<And>l. map_get (sc_states s) key = Some l \<Longrightarrow> \<not> ln_running l"
      "enqueue key w s = (s\<lparr>sc_generation := sc_generation s + 1, sc_states := map_set key
         \<lparr>ln_running = True, ln_requested = False, ln_work = Some w, ln_resolvers = [],
          ln_executing = [w]\<rparr> (sc_states s)\<rparr>, [Started key w])"
proof (cases "map_get (sc_states s) key")
  case None
  then show ?thesis
    by (intro idle) (auto simp: enqueue_def stateFor_def no_lane_def begin_run_def Let_def)
next
  case (Some l)
  with assms have ok: "lane_ok l" by (auto simp: lanes_ok_def)
  show ?thesis
  proof (cases "ln_running l")
    case True
    with Some ok show ?thesis by (intro busy) (auto simp: enqueue_def stateFor_def Let_def)
  next
    case False
    with ok have "ln_executing l = []" "ln_resolvers l = []" by (auto simp: lane_ok_def)
    with Some False show ?thesis
      by (intro idle; cases l) (auto simp: enqueue_def stateFor_def begin_run_def Let_def)
  qed
qed

text \<open>Success and failure of a work have the same effect on its lane.\<close>

lemma settle_run_cases:
  assumes "lane_ok l" "w \<in> set (ln_executing l)"
  shows "settle_run key w b l =
    (if ln_requested l
     then (l\<lparr>ln_requested := False, ln_executing := [the (ln_work l)]\<rparr>, [Started key (the (ln_work l))])
     else (l\<lparr>ln_running := False, ln_resolvers := [], ln_executing := []\<rparr>,
           map Resolved (ln_resolvers l)))"
proof -
  from assms have "ln_executing l = [w]" "ln_work l \<noteq> None"
    using length_le_1_cases [of "ln_executing l"] by (auto simp: lane_ok_def)
  then show ?thesis
    by (auto simp: settle_run_def run_finally_def begin_run_def finish_run_def Let_def)
qed

lemma lane_ok_settle: "lane_ok l \<Longrightarrow> w \<in> set (ln_executing l) \<Longrightarrow> lane_ok (fst (settle_run key w b l))"
  by (simp add: settle_run_cases) (auto simp: lane_ok_def)

lemma settle_work [simp]:
  "lane_ok l \<Longrightarrow> w \<in> set (ln_executing l) \<Longrightarrow> ln_work (fst (settle_run key w b l)) = ln_work l"
  by (simp add: settle_run_cases)

lemma settle_fires:
  assumes "lanes_ok s" "map_get (sc_states s) key = Some l" "w \<in> set (ln_executing l)"
  shows "settle key w b s = (s\<lparr>sc_states := map_set key (fst (settle_run key w b l)) (sc_states s)\<rparr>,
         snd (settle_run key w b l))"
proof -
  have ok: "lane_ok l" using assms(1,2) by (simp add: lanes_ok_def)
  then have "ln_work l \<noteq> None" by (auto simp: lane_ok_def)
  then have "put_lane key (fst (settle_run key w b l)) s
      = s\<lparr>sc_states := map_set key (fst (settle_run key w b l)) (sc_states s)\<rparr>"
    using ok assms(3) by (intro put_lane_work) simp
  with assms show ?thesis by (simp add: settle_def case_prod_beta)
qed

lemma settle_lane:
  assumes "lanes_ok s"
  obtains (void) "settle key w b s = (s, [])"
    | (fires) l where "map_get (sc_states s) key = Some l" "lane_ok l" "w \<in> set (ln_executing l)"
      "settle key w b s = (s\<lparr>sc_states := map_set key (fst (settle_run key w b l)) (sc_states s)\<rparr>,
         snd (settle_run key w b l))"
proof (cases "map_get (sc_states s) key")
  case None
  then show ?thesis by (intro void) (simp add: settle_def)
next
  case (Some l)
  with assms have ok: "lane_ok l" by (auto simp: lanes_ok_def)
  show ?thesis
  proof (cases "w \<in> set (ln_executing l)")
    case True
    with Some ok show ?thesis by (intro fires) (simp_all add: settle_fires [OF assms])
  next
    case False
    with Some show ?thesis by (intro void) (simp add: settle_def)
  qed
qed

lemma drainKey_lane:
  assumes "lanes_ok s"
  obtains (idle) "\<And>l. map_get (sc_states s) key = Some l \<Longrightarrow> \<not> ln_running l"
      "drainKey key v s = (s, [Resolved v])"
    | (busy) l where "map_get (sc_states s) key = Some l" "lane_ok l" "ln_running l"
      "drainKey key v s = (s\<lparr>sc_states := map_set key
         (l\<lparr>ln_resolvers := ln_resolvers l @ [v]\<rparr>) (sc_states s)\<rparr>, [])"
proof (cases "map_get (sc_states s) key")
  case None
  then show ?thesis by (intro idle) (auto simp: drainKey_def)
next
  case (Some l)
  with assms have ok: "lane_ok l" by (auto simp: lanes_ok_def)
  then have "ln_work (l\<lparr>ln_resolvers := ln_resolvers l @ [v]\<rparr>) \<noteq> None" by (auto simp: lane_ok_def)
  with Some ok show ?thesis
    by (cases "ln_running l") (auto simp: drainKey_def intro: idle busy)
qed

lemma lanes_ok_enqueue: "lanes_ok s \<Longrightarrow> lanes_ok (fst (enqueue key w s))"
  by (cases rule: enqueue_lane [of s key w], assumption)
    (simp_all add: lanes_ok_put lane_ok_changes)

lemma lanes_ok_settle: "lanes_ok s \<Longrightarrow> lanes_ok (fst (settle key w b s))"
  by (cases rule: settle_lane [of s key w b], assumption)
    (simp_all add: lanes_ok_put lane_ok_settle)

lemma lanes_ok_drainKey: "lanes_ok s \<Longrightarrow> lanes_ok (fst (drainKey key v s))"
  by (cases rule: drainKey_lane [of s key v], assumption)
    (simp_all add: lanes_ok_put lane_ok_changes)

lemma lanes_ok_handle: "lanes_ok s \<Longrightarrow> lanes_ok (fst (handle e s))"
  by (cases e) (simp_all add: lanes_ok_enqueue lanes_ok_settle lanes_ok_drainKey)

lemma run_events_Cons [simp]:
  "fst (run_events (e # es) s) = fst (run_events es (fst (handle e s)))"
  "snd (run_events (e # es) s) = snd (handle e s) @ snd (run_events es (fst (handle e s)))"
  by (simp_all add: case_prod_beta)

declare run_events.simps(2) [simp del]

lemma lanes_ok_run_events: "lanes_ok s \<Longrightarrow> lanes_ok (fst (run_events es s))"
proof (induction es arbitrary: s)
  case Nil
  then show ?case by simp
next
  case (Cons e es)
  then show ?case by (simp add: lanes_ok_handle)
qed

lemma lanes_ok_drain: "lanes_ok s \<Longrightarrow> lanes_ok (drain r s)"
proof -
  have "lanes_ok s \<Longrightarrow> lanes_ok (foldl (\<lambda>s key. fst (drainKey key (Round r) s)) s keys)" for keys
    by (induction keys arbitrary: s) (simp_all add: lanes_ok_drainKey)
  then show "lanes_ok s \<Longrightarrow> lanes_ok (drain r s)" by (simp add: drain_def)
qed

lemma lanes_ok_new: "lanes_ok new_scheduler"
  by (simp add: lanes_ok_def new_scheduler_def)

lemma sched_reachable_ok: "sched_reachable s \<Longrightarrow> lanes_ok s"
  by (induction rule: sched_reachable.induct)
    (auto simp: lanes_ok_new lanes_ok_handle lanes_ok_drain elim: sched_step.cases)

section \<open>What is enqueued and what is started\<close>

fun enqueued_work :: "string \<Rightarrow> event \<Rightarrow> work list" where
  "enqueued_work key (Enqueue k w) = (if k = key then [w] else [])"
| "enqueued_work key _ = []"

definition enqueued :: "string \<Rightarrow> event list \<Rightarrow> work list" where
  "enqueued key es = concat (map (enqueued_work key) es)"

fun started_work :: "string \<Rightarrow> effect \<Rightarrow> work list" where
  "started_work key (Started k w) = (if k = key then [w] else [])"
| "started_work key (Resolved v) = []"

definition started :: "string \<Rightarrow> effect list \<Rightarrow> work list" where
  "started key out = concat (map (started_work key) out)"

lemma enqueued_simps [simp]:
  "enqueued key [] = []" "enqueued key (es @ fs) = enqueued key es @ enqueued key fs"
  "enqueued key [Enqueue k w] = (if k = key then [w] else [])"
  "enqueued key [Settle k w b] = []" "enqueued key [Wait k n] = []"
  by (simp_all add: enqueued_def)

lemma started_simps [simp]:
  "started key [] = []" "started key (out @ out') = started key out @ started key out'"
  "started key [Started k w] = (if k = key then [w] else [])"
  "started key (map Resolved vs) = []" "started key [Resolved v] = []"
  by (induction vs) (simp_all add: started_def)

lemma run_events_snoc:
  "fst (run_events (es @ [e]) s) = fst (handle e (fst (run_events es s)))"
  "snd (run_events (es @ [e]) s) = snd (run_events es s) @ snd (handle e (fst (run_events es s)))"
  by (induction es arbitrary: s) simp_all

text \<open>The works of a lane against the works that were started in it.\<close>

definition accounted :: "event list \<Rightarrow> scheduler \<Rightarrow> effect list \<Rightarrow> string \<Rightarrow> bool" where
  "accounted es s out key =
     (case map_get (sc_states s) key of
        None \<Rightarrow> enqueued key es = [] \<and> started key out = []
      | Some l \<Rightarrow> enqueued key es \<noteq> [] \<and> started key out \<noteq> []
          \<and> ln_work l = Some (last (enqueued key es))
          \<and> (ln_requested l \<or> last (started key out) = last (enqueued key es))
          \<and> length (started key out) + of_bool (ln_requested l) \<le> length (enqueued key es))"

lemma accounted_handle:
  assumes ok: "lanes_ok s" and acc: "\<And>k. accounted es s out k"
  shows "accounted (es @ [e]) (fst (handle e s)) (out @ snd (handle e s)) k"
proof (cases e)
  case (Enqueue key w)
  show ?thesis using acc [of k] acc [of key]
    by (cases rule: enqueue_lane [OF ok, of key w])
      (auto simp: Enqueue accounted_def split: option.splits)
next
  case (Settle key w b)
  show ?thesis using acc [of k]
    by (cases rule: settle_lane [OF ok, of key w b])
      (auto simp: Settle accounted_def settle_run_cases split: option.splits)
next
  case (Wait key n)
  show ?thesis using acc [of k]
    by (cases rule: drainKey_lane [OF ok, of key "Caller n"])
      (auto simp: Wait accounted_def split: option.splits)
qed

lemma accounted_run:
  "accounted es (fst (run_events es new_scheduler)) (snd (run_events es new_scheduler)) k"
proof (induction es arbitrary: k rule: rev_induct)
  case Nil
  then show ?case by (simp add: accounted_def new_scheduler_def)
next
  case (snoc e es)
  show ?case unfolding run_events_snoc
    by (rule accounted_handle [OF lanes_ok_run_events [OF lanes_ok_new] snoc.IH])
qed

section \<open>Rounds of draining\<close>

definition quiet :: "event list \<Rightarrow> bool" where
  "quiet es = list_all (\<lambda>e. case e of Enqueue k w \<Rightarrow> False | _ \<Rightarrow> True) es"

text \<open>Every running lane holds the waiter of the round.\<close>

definition covered :: "nat \<Rightarrow> scheduler \<Rightarrow> bool" where
  "covered r s \<longleftrightarrow> (\<forall>k l. map_get (sc_states s) k = Some l \<longrightarrow> ln_running l
     \<longrightarrow> Round r \<in> set (ln_resolvers l))"

lemma generation_handle:
  "lanes_ok s \<Longrightarrow> sc_generation (fst (handle e s)) = sc_generation s + of_bool (\<not> quiet [e])"
proof (cases e)
  case (Enqueue key w)
  assume "lanes_ok s"
  then show ?thesis
    by (cases rule: enqueue_lane [of s key w]) (simp_all add: Enqueue quiet_def)
next
  case (Settle key w b)
  assume "lanes_ok s"
  then show ?thesis
    by (cases rule: settle_lane [of s key w b]) (simp_all add: Settle quiet_def)
next
  case (Wait key n)
  assume "lanes_ok s"
  then show ?thesis
    by (cases rule: drainKey_lane [of s key "Caller n"]) (simp_all add: Wait quiet_def)
qed

lemma generation_run:
  "lanes_ok s \<Longrightarrow> sc_generation s \<le> sc_generation (fst (run_events es s))
     \<and> (sc_generation (fst (run_events es s)) = sc_generation s \<longleftrightarrow> quiet es)"
proof (induction es arbitrary: s)
  case Nil
  then show ?case by (simp add: quiet_def)
next
  case (Cons e es)
  from Cons.IH [OF lanes_ok_handle [OF Cons.prems, of e]] generation_handle [OF Cons.prems, of e]
  show ?case by (auto simp: quiet_def split: event.splits)
qed

lemma covered_handle:
  assumes "lanes_ok s" "covered r s" "quiet [e]"
  shows "covered r (fst (handle e s))"
proof (cases e)
  case (Enqueue key w)
  with assms show ?thesis by (simp add: quiet_def)
next
  case (Settle key w b)
  show ?thesis using assms(2)
    by (cases rule: settle_lane [OF assms(1), of key w b])
      (simp_all add: Settle covered_def settle_run_cases split: if_splits)
next
  case (Wait key n)
  show ?thesis using assms(2)
    by (cases rule: drainKey_lane [OF assms(1), of key "Caller n"])
      (simp_all add: Wait covered_def)
qed

lemma covered_run:
  "lanes_ok s \<Longrightarrow> covered r s \<Longrightarrow> quiet es \<Longrightarrow> covered r (fst (run_events es s))"
proof (induction es arbitrary: s)
  case Nil
  then show ?case by simp
next
  case (Cons e es)
  then have "covered r (fst (handle e s))" by (intro covered_handle) (simp_all add: quiet_def)
  with Cons show ?case by (simp add: lanes_ok_handle quiet_def)
qed

lemma not_waiting_idle: "lanes_ok s \<Longrightarrow> covered r s \<Longrightarrow> \<not> waiting r s \<Longrightarrow> isIdle s"
  by (fastforce simp: lanes_ok_def covered_def waiting_def isIdle_def list_ex_iff list_all_iff
      map_values_def)

lemma drainKey_covers:
  assumes "lanes_ok s"
  shows "map_get (sc_states (fst (drainKey key (Round r) s))) k = Some l \<Longrightarrow> ln_running l \<Longrightarrow>
      (k \<noteq> key \<Longrightarrow> \<forall>l. map_get (sc_states s) k = Some l \<longrightarrow> ln_running l \<longrightarrow> Round r \<in> set (ln_resolvers l))
      \<Longrightarrow> Round r \<in> set (ln_resolvers l)"
    and "dom (map_get (sc_states (fst (drainKey key (Round r) s)))) = dom (map_get (sc_states s))"
    and "sc_generation (fst (drainKey key (Round r) s)) = sc_generation s"
  by (cases rule: drainKey_lane [OF assms, of key "Round r"]; auto split: if_splits)+

lemma drain_keys:
  fixes r :: nat and s :: scheduler and env :: "nat \<Rightarrow> event list"
  assumes "lanes_ok s"
  defines "t \<equiv> \<lambda>keys. foldl (\<lambda>s key. fst (drainKey key (Round r) s)) s keys"
  shows "(\<forall>k \<in> set keys. \<forall>l. map_get (sc_states (t keys)) k = Some l \<longrightarrow> ln_running l
          \<longrightarrow> Round r \<in> set (ln_resolvers l))
       \<and> dom (map_get (sc_states (t keys))) = dom (map_get (sc_states s))
       \<and> sc_generation (t keys) = sc_generation s \<and> lanes_ok (t keys)"
proof (induction keys rule: rev_induct)
  case Nil
  then show ?case using assms(1) by (simp add: t_def)
next
  case (snoc key keys)
  then have ok: "lanes_ok (t keys)" by blast
  have e: "t (keys @ [key]) = fst (drainKey key (Round r) (t keys))" by (simp add: t_def)
  show ?case unfolding e
    using snoc.IH drainKey_covers [OF ok, of key r] lanes_ok_drainKey [OF ok, of key "Round r"]
    by (auto simp del: map_of_eq_Some_iff)
qed

lemma drain_covers:
  assumes "lanes_ok s"
  shows "covered r (drain r s)" "sc_generation (drain r s) = sc_generation s"
proof -
  have dom: "set (map fst (sc_states s)) = dom (map_get (sc_states s))"
    by (simp add: dom_map_of_conv_image_fst)
  from drain_keys [OF assms, where keys = "map fst (sc_states s)" and r = r]
  show "covered r (drain r s)" "sc_generation (drain r s) = sc_generation s"
    unfolding drain_def [symmetric] dom covered_def by (blast intro: domI)+
qed

text \<open>The state before the round \<open>r + j\<close> of a drain that starts with the round \<open>r\<close>.\<close>

fun round_state :: "nat \<Rightarrow> (nat \<Rightarrow> event list) \<Rightarrow> scheduler \<Rightarrow> nat \<Rightarrow> scheduler" where
  "round_state r env s 0 = s"
| "round_state r env s (Suc j) = round_state (Suc r) env (fst (run_events (env r) (drain r s))) j"

definition round_ends :: "nat \<Rightarrow> (nat \<Rightarrow> event list) \<Rightarrow> scheduler \<Rightarrow> nat \<Rightarrow> bool" where
  "round_ends r env s j = (\<not> waiting (r + j) (round_state r env s (Suc j)))"

lemma round_ends_Suc:
  "round_ends r env s (Suc j) = round_ends (Suc r) env (fst (run_events (env r) (drain r s))) j"
  by (simp add: round_ends_def)

lemma all_le_Suc_0: "(\<forall>j \<le> Suc i. P j) \<longleftrightarrow> P 0 \<and> (\<forall>j \<le> i. P (Suc j))"
  unfolding less_Suc_eq_le [symmetric] All_less_Suc2 ..

lemma drain_round:
  fixes r :: nat and s :: scheduler and env :: "nat \<Rightarrow> event list"
  assumes "lanes_ok s"
  defines "s' \<equiv> fst (run_events (env r) (drain r s))"
  shows "lanes_ok s'"
    and "round_ends r env s 0 \<Longrightarrow> (sc_generation s = sc_generation s' \<and> isIdle s') = quiet (env r)"
proof -
  have ok: "lanes_ok (drain r s)" by (rule lanes_ok_drain [OF assms(1)])
  then show ok': "lanes_ok s'" unfolding s'_def by (rule lanes_ok_run_events)
  assume "round_ends r env s 0"
  then have over: "\<not> waiting r s'" by (simp add: round_ends_def s'_def)
  have gen: "sc_generation s = sc_generation s' \<longleftrightarrow> quiet (env r)"
    using generation_run [OF ok, of "env r"] drain_covers [OF assms(1), of r] by (auto simp: s'_def)
  have "isIdle s'" if "quiet (env r)"
    using not_waiting_idle [OF ok' _ over] covered_run [OF ok drain_covers(1) [OF assms(1)] that]
    by (simp add: s'_def)
  with gen show "(sc_generation s = sc_generation s' \<and> isIdle s') = quiet (env r)" by blast
qed

lemma drain_rounds_True:
  "lanes_ok s \<Longrightarrow> drain_rounds n r env s = Some True \<longleftrightarrow>
     (\<exists>i < n. quiet (env (r + i)) \<and> (\<forall>j \<le> i. round_ends r env s j))"
proof (induction n arbitrary: r s)
  case 0
  then show ?case by simp
next
  case (Suc n)
  note round = drain_round [OF Suc.prems, where r = r and env = env]
  show ?case unfolding Ex_less_Suc2 all_le_Suc_0 round_ends_Suc
    using Suc.IH [OF round(1), of "Suc r"] round(2)
    by (auto simp: Let_def round_ends_def)
qed

lemma drain_rounds_False:
  "lanes_ok s \<Longrightarrow> drain_rounds n r env s = Some False \<longleftrightarrow>
     (\<forall>j < n. round_ends r env s j \<and> \<not> quiet (env (r + j)))"
proof (induction n arbitrary: r s)
  case 0
  then show ?case by simp
next
  case (Suc n)
  note round = drain_round [OF Suc.prems, where r = r and env = env]
  show ?case unfolding All_less_Suc2 round_ends_Suc
    using Suc.IH [OF round(1), of "Suc r"] round(2)
    by (auto simp: Let_def round_ends_def)
qed

section \<open>Properties\<close>

text \<open>A lane with a work in flight, another one requested and a waiting caller.\<close>

definition busy_scheduler :: scheduler where
  "busy_scheduler = fst (run_events [Enqueue ''a'' 1, Wait ''a'' 0, Enqueue ''a'' 2] new_scheduler)"

lemma reachable_run_events: "sched_reachable s \<Longrightarrow> sched_reachable (fst (run_events es s))"
  by (induction es arbitrary: s) (simp_all add: sched_reachable.step event_step)

lemma busy_reachable: "sched_reachable busy_scheduler"
  unfolding busy_scheduler_def by (rule reachable_run_events [OF init])

lemma busy_lane:
  "map_get (sc_states busy_scheduler) ''a'' = Some \<lparr>ln_running = True, ln_requested = True,
     ln_work = Some 2, ln_resolvers = [Caller 0], ln_executing = [1]\<rparr>"
  by code_simp

text \<open>
  C33: a lane is serial. In every state that callers and settling works can reach, at most one
  work of a lane executes, the lane is marked as running exactly while one does, nobody waits on
  an idle lane, and unless another run is requested the work in flight is the one enqueued last.
\<close>

theorem scheduler_lanes_serial:
  assumes "sched_reachable s" "map_get (sc_states s) key = Some l"
  shows "length (ln_executing l) \<le> 1 \<and> (ln_running l \<longleftrightarrow> ln_executing l \<noteq> [])
    \<and> \<not> (\<not> ln_running l \<and> (ln_resolvers l \<noteq> [] \<or> ln_requested l))
    \<and> \<not> (ln_running l \<and> \<not> ln_requested l \<and> map Some (ln_executing l) \<noteq> [ln_work l])"
proof -
  have "lane_ok l" using sched_reachable_ok [OF assms(1)] assms(2) by (simp add: lanes_ok_def)
  then show ?thesis by (cases "ln_executing l") (auto simp: lane_ok_def)
qed

theorem scheduler_lanes_serial_witness:
  "sched_reachable busy_scheduler \<and> (\<exists>l. map_get (sc_states busy_scheduler) ''a'' = Some l
     \<and> ln_running l \<and> length (ln_executing l) \<le> 1)"
  using scheduler_lanes_serial [OF busy_reachable busy_lane] busy_reachable busy_lane
  by (intro conjI exI) (assumption | simp)+

text \<open>
  C34: no work is lost. Whatever callers did and whether works succeeded or failed, once the
  scheduler is idle the work enqueued last in a lane is also the one started last, and no lane
  started more works than were enqueued.
\<close>

theorem no_work_lost:
  assumes "run_events es new_scheduler = (s, out)" "isIdle s" "enqueued key es \<noteq> []"
  shows "started key out \<noteq> [] \<and> last (started key out) = last (enqueued key es)
    \<and> length (started key out) \<le> length (enqueued key es)"
proof -
  have acc: "accounted es s out key" and ok: "lanes_ok s"
    using accounted_run [of es key] lanes_ok_run_events [OF lanes_ok_new, of es] assms(1) by simp_all
  with assms(3) obtain l where l: "map_get (sc_states s) key = Some l"
    by (auto simp: accounted_def split: option.splits)
  then have "\<not> ln_running l"
    using assms(2) by (force simp: isIdle_def list_all_iff map_values_def dest: map_of_SomeD)
  moreover have "lane_ok l" using ok l unfolding lanes_ok_def by blast
  ultimately have "\<not> ln_requested l" by (auto simp: lane_ok_def)
  with acc l show ?thesis by (auto simp: accounted_def)
qed

theorem no_work_lost_witness:
  "\<exists>s out. run_events [Enqueue ''a'' 1, Enqueue ''a'' 2, Enqueue ''a'' 3, Settle ''a'' 1 False,
       Settle ''a'' 3 True] new_scheduler = (s, out)
     \<and> last (started ''a'' out) = 3 \<and> length (started ''a'' out) \<le> 3"
proof -
  let ?es = "[Enqueue ''a'' 1, Enqueue ''a'' 2, Enqueue ''a'' 3, Settle ''a'' 1 False,
       Settle ''a'' 3 True]"
  have idle: "isIdle (fst (run_events ?es new_scheduler))" by code_simp
  obtain s out where r: "run_events ?es new_scheduler = (s, out)" by fastforce
  have "isIdle s" using idle unfolding r by simp
  moreover have "enqueued ''a'' ?es = [1, 2, 3]" by code_simp
  ultimately have "last (started ''a'' out) = 3 \<and> length (started ''a'' out) \<le> 3"
    using no_work_lost [OF r, of "''a''"] by simp
  with r show ?thesis by blast
qed

text \<open>
  C35: a lane comes to rest. From any reachable state, the work in flight settling, and if
  another run was requested that one settling too, leaves the lane idle and resolves every caller
  that waits on it, whether the works succeed or fail.
\<close>

theorem lane_comes_to_rest:
  assumes "sched_reachable s" "map_get (sc_states s) key = Some l" "ln_running l"
    and "run_events (Settle key (hd (ln_executing l)) b #
           (if ln_requested l then [Settle key (the (ln_work l)) b'] else [])) s = (s', out)"
  shows "map_option ln_running (map_get (sc_states s') key) = Some False
    \<and> set (map Resolved (ln_resolvers l)) \<subseteq> set out"
proof -
  have ok: "lanes_ok s" "lane_ok l"
    using sched_reachable_ok [OF assms(1)] assms(2) by (auto simp: lanes_ok_def)
  let ?w = "hd (ln_executing l)"
  have w: "?w \<in> set (ln_executing l)" using ok(2) assms(3) by (auto simp: lane_ok_def)
  have s: "s' = fst (run_events (Settle key ?w b #
        (if ln_requested l then [Settle key (the (ln_work l)) b'] else [])) s)"
    "out = snd (run_events (Settle key ?w b #
        (if ln_requested l then [Settle key (the (ln_work l)) b'] else [])) s)"
    using assms(4) by simp_all
  note one = settle_fires [OF ok(1) assms(2) w, of b]
  show ?thesis
  proof (cases "ln_requested l")
    case False
    then show ?thesis by (simp add: s one settle_run_cases [OF ok(2) w])
  next
    case True
    let ?l = "fst (settle_run key ?w b l)"
    let ?s = "s\<lparr>sc_states := map_set key ?l (sc_states s)\<rparr>"
    have ok': "lanes_ok ?s" "lane_ok ?l"
      using lanes_ok_settle [OF ok(1), of key ?w b] lane_ok_settle [OF ok(2) w] by (simp_all add: one)
    have l': "?l = l\<lparr>ln_requested := False, ln_executing := [the (ln_work l)]\<rparr>"
      using True by (simp add: settle_run_cases [OF ok(2) w])
    then have w': "the (ln_work l) \<in> set (ln_executing ?l)" by simp
    have "settle key (the (ln_work l)) b' ?s = (?s\<lparr>sc_states := map_set key
        (fst (settle_run key (the (ln_work l)) b' ?l)) (sc_states ?s)\<rparr>,
        snd (settle_run key (the (ln_work l)) b' ?l))"
      by (rule settle_fires [OF ok'(1) _ w']) simp
    moreover note settle_run_cases [OF ok'(2) w', of key b', unfolded l']
    ultimately show ?thesis using True by (simp add: s one l')
  qed
qed

theorem lane_comes_to_rest_witness:
  "\<exists>s' out. run_events [Settle ''a'' 1 False, Settle ''a'' 2 True] busy_scheduler = (s', out)
     \<and> Resolved (Caller 0) \<in> set out"
proof -
  obtain s' out where "run_events [Settle ''a'' 1 False, Settle ''a'' 2 True] busy_scheduler = (s', out)"
    by fastforce
  with lane_comes_to_rest [OF busy_reachable busy_lane, of False True s' out] show ?thesis by simp
qed

text \<open>
  Draining to a fixed point is exact. For a round limit in the range the code accepts, the
  answer is true exactly when some round within the limit saw no work enqueued and it and every
  round before it came to an end; it is false exactly when every round within the limit ended but
  saw new work. So a true answer is never given while a producer is still adding work, and a
  quiet round that ends is always enough.
\<close>

theorem drain_fixed_point:
  assumes "sched_reachable s" "is_integer m" "0 < m" "m \<le> 2 ^ 53 - 1"
  shows "(drainToFixedPoint m env s = Some True \<longleftrightarrow>
      (\<exists>i < nat \<lfloor>m\<rfloor>. quiet (env i) \<and> list_all (round_ends 0 env s) [0..<Suc i]))
    \<and> (drainToFixedPoint m env s = Some False \<longleftrightarrow>
      list_all (\<lambda>j. round_ends 0 env s j \<and> \<not> quiet (env j)) [0..<nat \<lfloor>m\<rfloor>])"
proof -
  note ok = sched_reachable_ok [OF assms(1)]
  have e: "drainToFixedPoint m env s = drain_rounds (nat \<lfloor>m\<rfloor>) 0 env s"
    using assms(2-4) by (simp add: drainToFixedPoint_def)
  show ?thesis unfolding e drain_rounds_True [OF ok] drain_rounds_False [OF ok]
    by (auto simp: list_all_iff less_Suc_eq_le simp del: upt_Suc)
qed

theorem drain_fixed_point_witness:
  "drainToFixedPoint 3 (\<lambda>r. if r = 0 then [Settle ''a'' 1 True, Enqueue ''b'' 7, Settle ''a'' 2 True]
       else [Settle ''b'' 7 False]) busy_scheduler = Some True
   \<and> drainToFixedPoint 1 (\<lambda>r. [Settle ''a'' 1 True, Enqueue ''b'' 7, Settle ''a'' 2 True])
       busy_scheduler = Some False"
proof -
  let ?e = "\<lambda>r. if r = (0::nat) then [Settle ''a'' 1 True, Enqueue ''b'' 7, Settle ''a'' 2 True]
       else [Settle ''b'' 7 False]"
  let ?f = "\<lambda>r. [Settle ''a'' 1 True, Enqueue ''b'' 7, Settle ''a'' 2 True]"
  have n: "nat \<lfloor>3 :: rat\<rfloor> = 3" "nat \<lfloor>1 :: rat\<rfloor> = 1" "is_integer 3" "is_integer 1"
    by (simp_all add: is_integer_def)
  have "quiet (?e 1) \<and> list_all (round_ends 0 ?e busy_scheduler) [0..<Suc 1]" by code_simp
  then have "\<exists>i < 3. quiet (?e i) \<and> list_all (round_ends 0 ?e busy_scheduler) [0..<Suc i]"
    by (intro exI [of _ "1::nat"]) simp
  then have "drainToFixedPoint 3 ?e busy_scheduler = Some True"
    using drain_fixed_point [OF busy_reachable n(3), of ?e] n by simp
  moreover have "list_all (\<lambda>j. round_ends 0 ?f busy_scheduler j \<and> \<not> quiet (?f j)) [0..<1]"
    by code_simp
  then have "drainToFixedPoint 1 ?f busy_scheduler = Some False"
    using drain_fixed_point [OF busy_reachable n(4), of ?f] n by simp
  ultimately show ?thesis by blast
qed

end
