(* ===== verification/ExecutionNodes.thy ===== *)
theory ExecutionNodes
  imports Prelude
begin

text \<open>
  Execution nodes and runs as the agent's contract declares them
  (packages/agent-contract/src/index.ts), and the identity of tool invocations that native
  permission rejections are matched by. Unions of provider, runtime, signal and outcome names
  are strings, since the code only compares them. An optional property that is absent is
  \<open>None\<close>; a property that is present with the value \<open>undefined\<close> is not distinguished from it.
\<close>

section \<open>Types\<close>

datatype visibility = Visible | Hidden_by_policy | Disabled_at_source | Not_captured | Redacted

datatype node_kind =
  Node_prompt | Node_llm_request | Node_tool | Node_subagent | Node_skill | Node_mcp
| Node_response | Node_unknown

datatype content_kind =
  Prompt_text | Response_text | Tool_input | Tool_output | Path_content | Diff_content | File_content

record node_content =
  nc_kind :: content_kind
  nc_visibility :: visibility
  nc_text :: "string option"
  nc_preview :: "string option"

record node_atom =
  nd_nodeId :: string
  nd_queryId :: string
  nd_sessionId :: "string option"
  nd_repositoryKey :: "string option"
  nd_requestId :: "string option"
  nd_invocationId :: "string option"
  nd_provider :: string
  nd_runtime :: string
  nd_signal :: "string option"
  nd_nodeKind :: node_kind
  nd_name :: string
  nd_parentNodeId :: "string option"
  nd_outcome :: string
  nd_outcomeAuthority :: "string option"
  nd_startedAt :: string
  nd_endedAt :: "string option"
  nd_durationMs :: "rat option"
  nd_model :: "string option"
  nd_usagePurpose :: "string option"
  nd_toolName :: "string option"
  nd_artifactKeys :: "string list option"
  nd_artifactEvidence :: "string option"
  nd_inputTokens :: "rat option"
  nd_outputTokens :: "rat option"
  nd_cacheReadInputTokens :: "rat option"
  nd_cacheCreationInputTokens :: "rat option"
  nd_reasoningOutputTokens :: "rat option"
  nd_contents :: "node_content list option"

text \<open>Of a production run, the properties the projection reads.\<close>

record production_run =
  rn_runId :: string
  rn_correlationId :: string
  rn_queryId :: "string option"
  rn_sessionId :: "string option"
  rn_provider :: string
  rn_runtime :: string
  rn_promptState :: string
  rn_promptText :: "string option"
  rn_startedAt :: string
  rn_endedAt :: "string option"

text \<open>Of a safe activity, the properties of its identity.\<close>

record activity =
  ac_provider :: string
  ac_queryId :: string
  ac_kind :: string
  ac_name :: string
  ac_requestId :: "string option"
  ac_invocationId :: "string option"

section \<open>Identity of invocations\<close>

text \<open>An invocation is the pair of its request and invocation identifiers.\<close>

type_synonym invocation = "string option \<times> string option"

definition isNonEmptySafeExecutionIdentityPart :: "string option \<Rightarrow> bool" where
  "isNonEmptySafeExecutionIdentityPart v = truthy v"

declare isNonEmptySafeExecutionIdentityPart_def [simp]

definition sameSafeInvocationIdentity :: "invocation \<Rightarrow> invocation \<Rightarrow> bool" where
  "sameSafeInvocationIdentity left right =
     (let leftHasInvocation = isNonEmptySafeExecutionIdentityPart (snd left);
          rightHasInvocation = isNonEmptySafeExecutionIdentityPart (snd right)
      in if leftHasInvocation \<or> rightHasInvocation
         then leftHasInvocation \<and> rightHasInvocation \<and> snd left = snd right
         else isNonEmptySafeExecutionIdentityPart (fst left)
            \<and> isNonEmptySafeExecutionIdentityPart (fst right) \<and> fst left = fst right)"

definition hasSafeExecutionInvocationIdentity :: "invocation \<Rightarrow> bool" where
  "hasSafeExecutionInvocationIdentity node \<longleftrightarrow>
     isNonEmptySafeExecutionIdentityPart (snd node) \<or> isNonEmptySafeExecutionIdentityPart (fst node)"

definition node_invocation :: "node_atom \<Rightarrow> invocation" where
  "node_invocation n = (nd_requestId n, nd_invocationId n)"

definition isNativePermissionRejectionExecutionNode :: "node_atom \<Rightarrow> bool" where
  "isNativePermissionRejectionExecutionNode node \<longleftrightarrow>
     nd_provider node = ''claude-code'' \<and> nd_nodeKind node = Node_tool
     \<and> nd_outcome node = ''rejected''
     \<and> nd_outcomeAuthority node = Some ''native_permission_decision''
     \<and> hasSafeExecutionInvocationIdentity (node_invocation node)
     \<and> isNonEmptySafeExecutionIdentityPart (Some (nd_name node))
     \<and> isNonEmptySafeExecutionIdentityPart (nd_toolName node)"

definition hasExactNativePermissionRejectionForExecutionNode :: "node_atom \<Rightarrow> node_atom list \<Rightarrow> bool" where
  "hasExactNativePermissionRejectionForExecutionNode candidate nodes =
     (if nd_provider candidate \<noteq> ''claude-code'' \<or> nd_nodeKind candidate \<noteq> Node_tool
         \<or> \<not> hasSafeExecutionInvocationIdentity (node_invocation candidate)
         \<or> \<not> isNonEmptySafeExecutionIdentityPart (Some (nd_name candidate))
         \<or> \<not> isNonEmptySafeExecutionIdentityPart (nd_toolName candidate)
      then False
      else list_ex (\<lambda>node. isNativePermissionRejectionExecutionNode node
             \<and> nd_queryId node = nd_queryId candidate
             \<and> sameSafeInvocationIdentity (node_invocation node) (node_invocation candidate)
             \<and> nd_nodeKind node = nd_nodeKind candidate
             \<and> nd_name node = nd_name candidate
             \<and> nd_toolName node = nd_toolName candidate) nodes)"

definition sameExactSafeActivityIdentity :: "activity \<Rightarrow> activity \<Rightarrow> bool" where
  "sameExactSafeActivityIdentity left right \<longleftrightarrow>
     ac_provider left = ac_provider right \<and> ac_queryId left = ac_queryId right
     \<and> ac_kind left = ac_kind right \<and> ac_name left = ac_name right
     \<and> sameSafeInvocationIdentity (ac_requestId left, ac_invocationId left)
         (ac_requestId right, ac_invocationId right)"

text \<open>The one identifier that speaks for an invocation: its invocation identifier if it has
  one, else its request identifier.\<close>

definition invocation_identity :: "invocation \<Rightarrow> (string + string) option" where
  "invocation_identity i =
     (if truthy (snd i) then Some (Inl (the (snd i)))
      else if truthy (fst i) then Some (Inr (the (fst i))) else None)"

lemma truthy_eq: "truthy x \<Longrightarrow> truthy y \<Longrightarrow> x = y \<longleftrightarrow> the x = the y"
  by (cases x; cases y) simp_all

lemma same_invocation_iff:
  "sameSafeInvocationIdentity i j \<longleftrightarrow>
     invocation_identity i \<noteq> None \<and> invocation_identity i = invocation_identity j"
  by (auto simp: sameSafeInvocationIdentity_def invocation_identity_def truthy_eq Let_def)

text \<open>
  Identity of activities is a partial equivalence. It is symmetric and transitive, and an
  activity is the same as itself exactly when it has an invocation or a request identifier, so
  that anonymous activities are never joined, not even with themselves.
\<close>

theorem activity_identity_equivalence:
  "symp sameExactSafeActivityIdentity \<and> transp sameExactSafeActivityIdentity
   \<and> (sameExactSafeActivityIdentity a a \<longleftrightarrow>
        hasSafeExecutionInvocationIdentity (ac_requestId a, ac_invocationId a))"
  by (auto simp: sameExactSafeActivityIdentity_def same_invocation_iff symp_def transp_def
      hasSafeExecutionInvocationIdentity_def invocation_identity_def)

text \<open>
  A native rejection covers exactly its own invocation. A node counts as rejected exactly
  when some rejection node of the same query, tool and name speaks for the same identifier; a
  rejection that carries an invocation identifier never covers a node that only shares its
  request identifier.
\<close>

theorem rejection_covers_exactly:
  "hasExactNativePermissionRejectionForExecutionNode candidate nodes \<longleftrightarrow>
     (\<exists>node \<in> set nodes. isNativePermissionRejectionExecutionNode node
        \<and> nd_provider node = nd_provider candidate \<and> nd_nodeKind node = nd_nodeKind candidate
        \<and> nd_queryId node = nd_queryId candidate \<and> nd_name node = nd_name candidate
        \<and> nd_toolName node = nd_toolName candidate
        \<and> invocation_identity (node_invocation node) = invocation_identity (node_invocation candidate))"
proof -
  have "invocation_identity (node_invocation n) \<noteq> None"
    if "isNativePermissionRejectionExecutionNode n" for n
    using that by (auto simp: isNativePermissionRejectionExecutionNode_def invocation_identity_def
        hasSafeExecutionInvocationIdentity_def)
  moreover have "hasSafeExecutionInvocationIdentity i \<longleftrightarrow> invocation_identity i \<noteq> None" for i
    by (auto simp: hasSafeExecutionInvocationIdentity_def invocation_identity_def)
  ultimately show ?thesis
    unfolding hasExactNativePermissionRejectionForExecutionNode_def same_invocation_iff list_ex_iff
    by (auto simp: isNativePermissionRejectionExecutionNode_def)
qed

end
