(* ===== verification/RootedForest.thy ===== *)
theory RootedForest
  imports Main
begin

text \<open>
  Walking a forest from a root: nodes know their parent, and the children of a node are listed
  in some order. The parent links need not be free of cycles; the root has no parent. The
  locale shows that the preorder walk from the root comes to an end and what it visits, which is
  what the projections of execution trees rely on.
\<close>

section \<open>Preorder walk on fuel\<close>

fun preorder :: "('a \<Rightarrow> 'a list) \<Rightarrow> nat \<Rightarrow> 'a \<Rightarrow> 'a list option" where
  "preorder children 0 x = None"
| "preorder children (Suc n) x =
     map_option (\<lambda>yss. x # concat yss) (those (map (preorder children n) (children x)))"

lemma those_ex: "(\<exists>ys. those xs = Some ys) \<longleftrightarrow> None \<notin> set xs"
  by (induction xs) (auto split: option.splits)

lemma those_map_Some: "those (map f xs) = Some ys \<longleftrightarrow> list_all2 (\<lambda>x y. f x = Some y) xs ys"
  by (induction xs arbitrary: ys) (auto simp: list_all2_Cons1 split: option.splits)

lemma list_all2_partner: "list_all2 P xs ys \<Longrightarrow> y \<in> set ys \<Longrightarrow> \<exists>x \<in> set xs. P x y"
  by (induction rule: list_all2_induct) auto

lemma distinct_concat_parts:
  assumes "list_all2 (\<lambda>c ys. distinct ys \<and> set ys = S c) cs yss" "distinct cs"
    and "\<And>c d y. c \<in> set cs \<Longrightarrow> d \<in> set cs \<Longrightarrow> y \<in> S c \<Longrightarrow> y \<in> S d \<Longrightarrow> c = d"
  shows "distinct (concat yss) \<and> set (concat yss) = (\<Union>c \<in> set cs. S c)"
  using assms
proof (induction rule: list_all2_induct)
  case Nil
  then show ?case by simp
next
  case (Cons c cs ys yss)
  then have IH: "distinct (concat yss)" "set (concat yss) = (\<Union>c \<in> set cs. S c)" by auto
  have "set ys \<inter> set (concat yss) = {}"
    using Cons.hyps(1) Cons.prems unfolding IH(2) by (fastforce dest: Cons.prems(2))
  then show ?case using IH Cons.hyps(1) by simp
qed

text \<open>Every element of a list comes after its parent, or has its parent in \<open>seen\<close>.\<close>

fun parents_first :: "('a \<Rightarrow> 'a option) \<Rightarrow> 'a set \<Rightarrow> 'a list \<Rightarrow> bool" where
  "parents_first parent seen [] = True"
| "parents_first parent seen (x # xs) =
     (parent x \<in> Some ` seen \<and> parents_first parent (insert x seen) xs)"

lemma parents_first_append [simp]:
  "parents_first parent seen (xs @ ys) \<longleftrightarrow>
     parents_first parent seen xs \<and> parents_first parent (seen \<union> set xs) ys"
  by (induction xs arbitrary: seen) auto

lemma parents_first_mono: "parents_first parent s xs \<Longrightarrow> s \<subseteq> t \<Longrightarrow> parents_first parent t xs"
proof (induction xs arbitrary: s t)
  case Nil
  then show ?case by simp
next
  case (Cons x xs)
  have "insert x s \<subseteq> insert x t" using Cons.prems(2) by blast
  moreover have "parents_first parent (insert x s) xs" "parent x \<in> Some ` s" using Cons.prems(1) by simp_all
  ultimately show ?case using Cons.IH [of "insert x s" "insert x t"] Cons.prems(2)
    by (simp add: subsetD [OF image_mono])
qed

lemma parents_first_concat:
  "(\<And>xs. xs \<in> set xss \<Longrightarrow> parents_first parent s xs) \<Longrightarrow> s \<subseteq> t \<Longrightarrow> parents_first parent t (concat xss)"
proof (induction xss arbitrary: t)
  case Nil
  then show ?case by simp
next
  case (Cons xs xss)
  then have "parents_first parent (t \<union> set xs) (concat xss)" by (intro Cons.IH) auto
  with Cons.prems show ?case by (auto intro: parents_first_mono)
qed

section \<open>Ancestors\<close>

primrec ancestor :: "('a \<Rightarrow> 'a option) \<Rightarrow> nat \<Rightarrow> 'a \<Rightarrow> 'a option" where
  "ancestor parent 0 x = Some x"
| "ancestor parent (Suc k) x = Option.bind (parent x) (ancestor parent k)"

lemma ancestor_add:
  "ancestor parent i x = Some y \<Longrightarrow> ancestor parent (i + j) x = ancestor parent j y"
  by (induction i arbitrary: x) (auto split: bind_splits)

lemma ancestor_Suc_last:
  "ancestor parent (Suc k) x = Option.bind (ancestor parent k x) parent"
proof (induction k arbitrary: x)
  case 0
  then show ?case by (cases "parent x") simp_all
next
  case (Suc k)
  then show ?case by (cases "parent x") simp_all
qed

lemma ancestor_prefix:
  "ancestor parent k x = Some y \<Longrightarrow> i \<le> k \<Longrightarrow> \<exists>z. ancestor parent i x = Some z"
proof (induction k arbitrary: x i)
  case 0
  then show ?case by simp
next
  case (Suc k)
  then show ?case by (cases i) (auto split: bind_splits)
qed

section \<open>Rooted forests\<close>

locale rooted_forest =
  fixes parent :: "'a \<Rightarrow> 'a option"
    and children :: "'a \<Rightarrow> 'a list"
    and nodes :: "'a set"
    and root :: 'a
  assumes finite_nodes: "finite nodes"
    and root_node: "root \<in> nodes"
    and root_parent: "parent root = None"
    and parent_node: "parent x = Some y \<Longrightarrow> x \<in> nodes"
    and parent_known: "parent x = Some y \<Longrightarrow> y \<in> nodes"
    and children_parent: "set (children x) = {y. parent y = Some x}"
    and distinct_children: "distinct (children x)"
begin

definition depth :: "'a \<Rightarrow> nat \<Rightarrow> bool" where
  "depth x k \<longleftrightarrow> ancestor parent k x = Some root"

definition below :: "'a \<Rightarrow> 'a \<Rightarrow> bool" where
  "below x y \<longleftrightarrow> (\<exists>k. ancestor parent k y = Some x)"

lemma ancestor_root: "ancestor parent k root = (if k = 0 then Some root else None)"
  by (cases k) (simp_all add: root_parent)

lemma depth_unique:
  assumes "depth x i" "depth x j"
  shows "i = j"
proof -
  have "i = j" if "depth x i" "depth x j" "i \<le> j" for i j
    using that ancestor_add [of parent i x root "j - i"]
    by (auto simp: depth_def ancestor_root split: if_splits)
  with assms show ?thesis by (metis nat_le_linear)
qed

lemma depth_ancestor: "depth x k \<Longrightarrow> i \<le> k \<Longrightarrow> ancestor parent i x = Some y \<Longrightarrow> depth y (k - i)"
  using ancestor_add [of parent i x y "k - i"] by (simp add: depth_def)

lemma ancestor_node: "ancestor parent k x = Some root \<Longrightarrow> x \<in> nodes"
  by (cases k) (auto simp: root_node split: bind_splits intro: parent_node)

lemma depth_bound:
  assumes "depth x k"
  shows "k < card nodes"
proof -
  let ?a = "\<lambda>i. the (ancestor parent i x)"
  have anc: "ancestor parent i x = Some (?a i)" if "i \<le> k" for i
    using ancestor_prefix [of parent k x root i] assms that by (auto simp: depth_def)
  have d: "depth (?a i) (k - i)" if "i \<le> k" for i
    using depth_ancestor [OF assms that anc [OF that]] .
  have "inj_on ?a {..k}"
  proof (rule inj_onI)
    fix i j assume i: "i \<in> {..k}" "j \<in> {..k}" "?a i = ?a j"
    then have "depth (?a i) (k - i)" "depth (?a i) (k - j)" using d [of i] d [of j] by simp_all
    then show "i = j" using depth_unique [of "?a i"] i by fastforce
  qed
  moreover have "?a ` {..k} \<subseteq> nodes" using d ancestor_node by (auto simp: depth_def)
  ultimately have "card {..k} \<le> card nodes" using finite_nodes by (metis card_inj_on_le)
  then show ?thesis by simp
qed

lemma depth_child: "depth x k \<Longrightarrow> y \<in> set (children x) \<Longrightarrow> depth y (Suc k)"
  by (simp add: depth_def children_parent)

text \<open>As many units of fuel as there are nodes are enough.\<close>

lemma preorder_total: "depth x k \<Longrightarrow> card nodes \<le> n + k \<Longrightarrow> \<exists>ys. preorder children n x = Some ys"
proof (induction n arbitrary: x k)
  case 0
  then show ?case using depth_bound [of x k] by simp
next
  case (Suc n)
  have "preorder children n y \<noteq> None" if "y \<in> set (children x)" for y
    using Suc.IH [OF depth_child [OF Suc.prems(1) that]] Suc.prems(2) by simp
  then have "None \<notin> set (map (preorder children n) (children x))" by force
  then obtain yss where "those (map (preorder children n) (children x)) = Some yss"
    using those_ex by blast
  then show ?case by simp
qed

lemma below_child: "below x y \<longleftrightarrow> y = x \<or> (\<exists>c \<in> set (children x). below c y)"
proof
  assume "below x y"
  then obtain k where k: "ancestor parent k y = Some x" by (auto simp: below_def)
  show "y = x \<or> (\<exists>c \<in> set (children x). below c y)"
  proof (cases k)
    case 0
    with k show ?thesis by simp
  next
    case (Suc m)
    with k show ?thesis unfolding below_def children_parent
      by (auto simp: ancestor_Suc_last simp del: ancestor.simps split: bind_splits)
  qed
next
  assume "y = x \<or> (\<exists>c \<in> set (children x). below c y)"
  then show "below x y"
  proof
    assume "y = x"
    then show ?thesis unfolding below_def by (intro exI [of _ 0]) simp
  next
    assume "\<exists>c \<in> set (children x). below c y"
    then obtain c k where "parent c = Some x" "ancestor parent k y = Some c"
      by (auto simp: below_def children_parent)
    then have "ancestor parent (Suc k) y = Some x" by (simp add: ancestor_Suc_last del: ancestor.simps)
    then show ?thesis unfolding below_def by blast
  qed
qed

lemma preorder_set: "preorder children n x = Some ys \<Longrightarrow> set ys = {y. below x y}"
proof (induction n arbitrary: x ys)
  case 0
  then show ?case by simp
next
  case (Suc n)
  then obtain yss where yss: "list_all2 (\<lambda>c ys. preorder children n c = Some ys) (children x) yss"
    "ys = x # concat yss"
    by (auto simp: those_map_Some)
  have "set (concat yss) = (\<Union>c \<in> set (children x). {y. below c y})"
    using yss(1) by (induction rule: list_all2_induct) (simp_all add: Suc.IH)
  then show ?case using yss(2) below_child [of x] by auto
qed

text \<open>A node below the root is not below itself, and lies below one child at most.\<close>

lemma below_disjoint:
  assumes "depth x k" "c \<in> set (children x)" "d \<in> set (children x)" "below c y" "below d y"
  shows "c = d"
proof -
  obtain i j where ij: "ancestor parent i y = Some c" "ancestor parent j y = Some d"
    using assms(4,5) by (auto simp: below_def)
  have "depth c (Suc k)" "depth d (Suc k)" using depth_child [OF assms(1)] assms(2,3) by blast+
  then have "depth y (i + Suc k)" "depth y (j + Suc k)"
    using ancestor_add [OF ij(1), of "Suc k"] ancestor_add [OF ij(2), of "Suc k"]
    by (simp_all only: depth_def)
  then have "i = j" using depth_unique by fastforce
  with ij show ?thesis by simp
qed

lemma not_below_child:
  assumes "depth x k" "c \<in> set (children x)"
  shows "\<not> below c x"
proof
  assume "below c x"
  then obtain i where "ancestor parent i x = Some c" by (auto simp: below_def)
  moreover have "depth c (Suc k)" using depth_child [OF assms] .
  ultimately have "depth x (i + Suc k)"
    using ancestor_add [of parent i x c "Suc k"] by (simp only: depth_def)
  from depth_unique [OF assms(1) this] show False by simp
qed

lemma preorder_distinct:
  "depth x k \<Longrightarrow> preorder children n x = Some ys \<Longrightarrow> distinct ys"
proof (induction n arbitrary: x k ys)
  case 0
  then show ?case by simp
next
  case (Suc n)
  then obtain yss where yss: "list_all2 (\<lambda>c ys. preorder children n c = Some ys) (children x) yss"
    "ys = x # concat yss"
    by (auto simp: those_map_Some)
  have "list_all2 (\<lambda>c ys. distinct ys \<and> set ys = {y. below c y}) (children x) yss"
    using yss(1)
    by (rule list.rel_mono_strong)
      (use Suc.IH depth_child [OF Suc.prems(1)] preorder_set in blast)
  from distinct_concat_parts [OF this distinct_children] below_disjoint [OF Suc.prems(1)]
  have "distinct (concat yss)" "set (concat yss) = (\<Union>c \<in> set (children x). {y. below c y})" by blast+
  then show ?case using yss(2) not_below_child [OF Suc.prems(1)] by auto
qed

lemma preorder_head: "preorder children n x = Some ys \<Longrightarrow> \<exists>zs. ys = x # zs"
  by (cases n) auto

lemma preorder_parents_first:
  "preorder children n x = Some (x # ys) \<Longrightarrow> parents_first parent {x} ys"
proof (induction n arbitrary: x ys)
  case 0
  then show ?case by simp
next
  case (Suc n)
  then obtain yss where yss: "list_all2 (\<lambda>c ys. preorder children n c = Some ys) (children x) yss"
    "ys = concat yss"
    by (auto simp: those_map_Some)
  have "parents_first parent {x} zs" if "zs \<in> set yss" for zs
  proof -
    from list_all2_partner [OF yss(1) that]
    obtain c where c: "c \<in> set (children x)" "preorder children n c = Some zs" by blast
    then obtain us where us: "zs = c # us" using preorder_head by blast
    have "parent c = Some x" using c(1) by (simp add: children_parent)
    moreover have "parents_first parent {c, x} us"
      using Suc.IH [of c us] c us parents_first_mono [of parent "{c}" us "{c, x}"] by simp
    ultimately show ?thesis using us by simp
  qed
  then show ?case unfolding yss(2) by (rule parents_first_concat) simp_all
qed

text \<open>If every node but the root has a parent, the nodes that do not reach the root are due to
  cycles.\<close>

lemma reach_or_cycle:
  assumes linked: "\<And>x. x \<in> nodes \<Longrightarrow> x \<noteq> root \<Longrightarrow> parent x \<noteq> None"
  shows "(\<forall>x \<in> nodes. \<exists>k. ancestor parent k x = Some root)
    \<longleftrightarrow> (\<nexists>x k. ancestor parent (Suc k) x = Some x)"
proof (intro iffI notI ballI)
  assume reach: "\<forall>x \<in> nodes. \<exists>k. ancestor parent k x = Some root"
    and "\<exists>x k. ancestor parent (Suc k) x = Some x"
  then obtain x k where cycle: "ancestor parent (Suc k) x = Some x" by blast
  then have "parent x \<noteq> None" by (cases "parent x") simp_all
  then have "x \<in> nodes" using parent_node by blast
  with reach obtain i where i: "depth x i" unfolding depth_def by blast
  moreover have "depth x (Suc k + i)" using ancestor_add [OF cycle, of i] i by (simp only: depth_def)
  ultimately have "i = Suc k + i" by (rule depth_unique)
  then show False by simp
next
  fix x
  assume acyclic: "\<nexists>x k. ancestor parent (Suc k) x = Some x" and x: "x \<in> nodes"
  show "\<exists>k. ancestor parent k x = Some root"
  proof (rule ccontr)
    assume never: "\<nexists>k. ancestor parent k x = Some root"
    have chain: "\<exists>y \<in> nodes. ancestor parent k x = Some y" for k
    proof (induction k)
      case 0
      then show ?case using x by simp
    next
      case (Suc k)
      then obtain y where y: "y \<in> nodes" "ancestor parent k x = Some y" by blast
      moreover from this never have "y \<noteq> root" by blast
      ultimately obtain z where "parent y = Some z" using linked by blast
      with y parent_known show ?case by (auto simp: ancestor_Suc_last simp del: ancestor.simps)
    qed
    let ?a = "\<lambda>k. the (ancestor parent k x)"
    have "?a k \<in> nodes" for k using chain [of k] by auto
    then have "range ?a \<subseteq> nodes" by blast
    then have "finite (range ?a)" using finite_nodes finite_subset by blast
    then have "\<not> inj ?a" using finite_imageD by blast
    then obtain m n where mn: "?a m = ?a n" "m \<noteq> n" unfolding inj_def by blast
    define i j where "i = min m n" and "j = max m n"
    with mn have ij: "i < j" "?a i = ?a j" by (cases "m < n"; simp)+
    obtain y where y: "ancestor parent i x = Some y" using chain by blast
    have "ancestor parent (j - i) y = ancestor parent j x"
      using ancestor_add [OF y, of "j - i"]
      unfolding le_add_diff_inverse [OF less_imp_le [OF ij(1)]] by (rule sym)
    also have "\<dots> = Some y"
    proof -
      obtain z where "ancestor parent j x = Some z" using chain by blast
      then show ?thesis using ij(2) y by simp
    qed
    finally have "ancestor parent (j - i) y = Some y" .
    moreover obtain k where "j - i = Suc k" using ij(1) by (metis Suc_diff_Suc)
    ultimately show False using acyclic by metis
  qed
qed

theorem walk_from_root:
  "\<exists>ys. preorder children (card nodes) root = Some (root # ys)
     \<and> distinct (root # ys) \<and> parents_first parent {root} ys
     \<and> set (root # ys) = {y. \<exists>k. ancestor parent k y = Some root}"
proof -
  have d: "depth root 0" by (simp add: depth_def)
  then obtain zs where z: "preorder children (card nodes) root = Some zs"
    using preorder_total [of root 0] by auto
  then obtain ys where ys: "zs = root # ys" using preorder_head by blast
  have "distinct zs" using preorder_distinct [OF d z] .
  moreover have "parents_first parent {root} ys" using preorder_parents_first z ys by blast
  moreover have "set zs = {y. \<exists>k. ancestor parent k y = Some root}"
    using preorder_set [OF z] by (simp add: below_def)
  ultimately show ?thesis using z ys by blast
qed

end

end
