(* ===== verification/ExecutionTree.thy ===== *)
theory ExecutionTree
  imports ExecutionNodes RootedForest
begin

text \<open>
  The execution tree of a run: packages/engine/src/executionTreeProjection.ts. Nodes reported
  more than once are merged, nodes without a known parent are hung under the prompt, and the tree
  is written out by a recursive walk. The walk is on fuel here, which \<open>projectRunTree\<close> sets to
  the number of nodes; that this is always enough is a theorem below. \<open>lc\<close> is the collation.
\<close>

section \<open>Merging\<close>

definition latestTimestamp :: "string option \<Rightarrow> string option \<Rightarrow> string option" where
  "latestTimestamp left right =
     (if \<not> truthy left then right else if \<not> truthy right then left
      else if the right \<le> the left then left else right)"

fun rank :: "visibility \<Rightarrow> nat" where
  "rank Visible = 4"
| "rank Redacted = 3"
| "rank Hidden_by_policy = 2"
| "rank Disabled_at_source = 1"
| "rank Not_captured = 0"

definition preferContent :: "node_content \<Rightarrow> node_content \<Rightarrow> node_content" where
  "preferContent existing incoming =
     (if rank (nc_visibility existing) \<le> rank (nc_visibility incoming)
      then if truthy (nc_text incoming) \<or> truthy (nc_preview incoming) then incoming
           else incoming\<lparr>nc_text := nc_text existing,
                         nc_preview := or_else (nc_preview incoming) (nc_preview existing)\<rparr>
      else existing)"

definition mergeContents :: "node_content list option \<Rightarrow> node_content list option
    \<Rightarrow> node_content list option" where
  "mergeContents existing incoming =
     (let merged = foldl (\<lambda>m c. map_set (nc_kind c)
            (case map_get m (nc_kind c) of None \<Rightarrow> c | Some previous \<Rightarrow> preferContent previous c) m)
            [] (nullish existing [] @ nullish incoming [])
      in if merged = [] then None else Some (map_values merged))"

definition merged_duration :: "rat option \<Rightarrow> rat option \<Rightarrow> rat option" where
  "merged_duration a b = (let d = max (nullish a 0) (nullish b 0) in if d = 0 then None else Some d)"

definition mergeExecutionNode :: "node_atom \<Rightarrow> node_atom \<Rightarrow> node_atom" where
  "mergeExecutionNode existing incoming =
     \<lparr>nd_nodeId = nd_nodeId incoming, nd_queryId = nd_queryId incoming,
      nd_sessionId = or_else (nd_sessionId incoming) (nd_sessionId existing),
      nd_repositoryKey = or_else (nd_repositoryKey incoming) (nd_repositoryKey existing),
      nd_requestId = or_else (nd_requestId incoming) (nd_requestId existing),
      nd_invocationId = or_else (nd_invocationId incoming) (nd_invocationId existing),
      nd_provider = nd_provider incoming, nd_runtime = nd_runtime incoming,
      nd_signal = or_else (nd_signal incoming) (nd_signal existing),
      nd_nodeKind = nd_nodeKind incoming, nd_name = nd_name incoming,
      nd_parentNodeId = or_else (nd_parentNodeId incoming) (nd_parentNodeId existing),
      nd_outcome = nd_outcome incoming,
      nd_outcomeAuthority = or_else (nd_outcomeAuthority incoming) (nd_outcomeAuthority existing),
      nd_startedAt = nd_startedAt incoming,
      nd_endedAt = latestTimestamp (nd_endedAt existing) (nd_endedAt incoming),
      nd_durationMs = merged_duration (nd_durationMs existing) (nd_durationMs incoming),
      nd_model = or_else (nd_model incoming) (nd_model existing),
      nd_usagePurpose = or_else (nd_usagePurpose incoming) (nd_usagePurpose existing),
      nd_toolName = or_else (nd_toolName incoming) (nd_toolName existing),
      nd_artifactKeys = or_else (nd_artifactKeys incoming) (nd_artifactKeys existing),
      nd_artifactEvidence = or_else (nd_artifactEvidence incoming) (nd_artifactEvidence existing),
      nd_inputTokens = or_else (nd_inputTokens incoming) (nd_inputTokens existing),
      nd_outputTokens = or_else (nd_outputTokens incoming) (nd_outputTokens existing),
      nd_cacheReadInputTokens =
        or_else (nd_cacheReadInputTokens incoming) (nd_cacheReadInputTokens existing),
      nd_cacheCreationInputTokens =
        or_else (nd_cacheCreationInputTokens incoming) (nd_cacheCreationInputTokens existing),
      nd_reasoningOutputTokens =
        or_else (nd_reasoningOutputTokens incoming) (nd_reasoningOutputTokens existing),
      nd_contents = mergeContents (nd_contents existing) (nd_contents incoming)\<rparr>"

definition compareNodes :: "collation \<Rightarrow> node_atom \<Rightarrow> node_atom \<Rightarrow> bool" where
  "compareNodes lc l r =
     (let a = lc (nd_startedAt l) (nd_startedAt r)
      in (if a \<noteq> 0 then a else lc (nd_nodeId l) (nd_nodeId r)) \<le> 0)"

definition mergeExecutionNodes :: "collation \<Rightarrow> node_atom list \<Rightarrow> node_atom list" where
  "mergeExecutionNodes lc nodes =
     sort_by (compareNodes lc) (map_values (foldl (\<lambda>m n. map_set (nd_nodeId n)
       (case map_get m (nd_nodeId n) of None \<Rightarrow> n | Some existing \<Rightarrow> mergeExecutionNode existing n) m)
       [] nodes))"

section \<open>The tree of a run\<close>

record tree_node =
  tn_atom :: node_atom
  tn_nodeKey :: string
  tn_parentNodeKey :: "string option"
  tn_siblingOrder :: nat

record tree_snapshot =
  ts_runId :: string
  ts_queryId :: string
  ts_sessionId :: "string option"
  ts_provider :: string
  ts_runtime :: string
  ts_promptStartedAt :: string
  ts_runEndedAt :: "string option"
  ts_rootNodeKey :: string
  ts_nodes :: "tree_node list"

definition previewText :: "string option \<Rightarrow> string option" where
  "previewText v =
     (if \<not> truthy v then None
      else Some (if length (the v) \<le> 240 then the v else take 237 (the v) @ ''...''))"

definition promptNodeFor :: "production_run \<Rightarrow> node_atom" where
  "promptNodeFor run =
     (let queryId = nullish (rn_queryId run) (rn_correlationId run)
      in \<lparr>nd_nodeId = ''node_prompt_'' @ drop 4 queryId, nd_queryId = queryId,
          nd_sessionId = rn_sessionId run, nd_repositoryKey = None, nd_requestId = None,
          nd_invocationId = None, nd_provider = rn_provider run, nd_runtime = rn_runtime run,
          nd_signal = None, nd_nodeKind = Node_prompt, nd_name = ''Prompt'', nd_parentNodeId = None,
          nd_outcome = ''success'', nd_outcomeAuthority = None, nd_startedAt = rn_startedAt run,
          nd_endedAt = None, nd_durationMs = None, nd_model = None, nd_usagePurpose = None,
          nd_toolName = None, nd_artifactKeys = None, nd_artifactEvidence = None,
          nd_inputTokens = None, nd_outputTokens = None, nd_cacheReadInputTokens = None,
          nd_cacheCreationInputTokens = None, nd_reasoningOutputTokens = None,
          nd_contents = Some [\<lparr>nc_kind = Prompt_text,
            nc_visibility = (if truthy (rn_promptText run) then Visible
              else if rn_promptState run = ''disabled'' then Disabled_at_source else Not_captured),
            nc_text = rn_promptText run, nc_preview = previewText (rn_promptText run)\<rparr>]\<rparr>)"

text \<open>The local constants of \<open>projectRunTree\<close>: the nodes by identifier, the root, the nodes
  with their final parents, and the ordered children.\<close>

definition keyed_nodes :: "production_run \<Rightarrow> node_atom list \<Rightarrow> (string, node_atom) jsmap" where
  "keyed_nodes run nodes =
     map_from nd_nodeId (if list_ex (\<lambda>n. nd_nodeKind n = Node_prompt) nodes then nodes
                         else promptNodeFor run # nodes)"

definition root_of :: "collation \<Rightarrow> (string, node_atom) jsmap \<Rightarrow> node_atom" where
  "root_of lc keyed =
     (case find (\<lambda>n. nd_nodeKind n = Node_prompt) (map_values keyed) of
        Some n \<Rightarrow> n
      | None \<Rightarrow> hd (sort_by (compareNodes lc) (map_values keyed)))"

definition link_node :: "string \<Rightarrow> (string, node_atom) jsmap \<Rightarrow> node_atom \<Rightarrow> node_atom" where
  "link_node rootId keyed n =
     (if nd_nodeId n = rootId then n\<lparr>nd_parentNodeId := None\<rparr>
      else if \<not> truthy (nd_parentNodeId n) \<or> the (nd_parentNodeId n) \<notin> set (map fst keyed)
      then n\<lparr>nd_parentNodeId := Some rootId\<rparr> else n)"

definition linked_nodes :: "string \<Rightarrow> (string, node_atom) jsmap \<Rightarrow> (string, node_atom) jsmap" where
  "linked_nodes rootId keyed = map (\<lambda>(k, n). (k, link_node rootId keyed n)) keyed"

definition child_order :: "collation \<Rightarrow> (string, node_atom) jsmap \<Rightarrow> (string, node_atom list) jsmap" where
  "child_order lc linked =
     map (\<lambda>(k, ns). (k, sort_by (compareNodes lc) ns))
       (group_by (\<lambda>n. the (nd_parentNodeId n))
         (filter (\<lambda>n. truthy (nd_parentNodeId n)) (map_values linked)))"

definition children_of :: "(string, node_atom list) jsmap \<Rightarrow> string \<Rightarrow> node_atom list" where
  "children_of childOrder k = nullish (map_get childOrder k) []"

fun findIndex :: "('a \<Rightarrow> bool) \<Rightarrow> 'a list \<Rightarrow> int" where
  "findIndex P [] = -1"
| "findIndex P (x # xs) = (if P x then 0 else (let i = findIndex P xs in if i < 0 then -1 else i + 1))"

definition tree_node_of :: "(string, node_atom list) jsmap \<Rightarrow> node_atom \<Rightarrow> tree_node" where
  "tree_node_of childOrder node =
     (let siblings = (if truthy (nd_parentNodeId node)
                      then children_of childOrder (the (nd_parentNodeId node)) else [node])
      in \<lparr>tn_atom = node, tn_nodeKey = nd_nodeId node, tn_parentNodeKey = nd_parentNodeId node,
          tn_siblingOrder = nat (max 0 (findIndex (\<lambda>i. nd_nodeId i = nd_nodeId node) siblings))\<rparr>)"

fun walk :: "(string, node_atom) jsmap \<Rightarrow> (string, node_atom list) jsmap \<Rightarrow> nat \<Rightarrow> string
    \<Rightarrow> tree_node list option" where
  "walk keyed childOrder 0 nodeId = None"
| "walk keyed childOrder (Suc fuel) nodeId =
     (case map_get keyed nodeId of
        None \<Rightarrow> Some []
      | Some node \<Rightarrow>
          map_option (\<lambda>below. tree_node_of childOrder node # concat below)
            (those (map (\<lambda>child. walk keyed childOrder fuel (nd_nodeId child))
              (children_of childOrder nodeId))))"

definition projectRunTree :: "collation \<Rightarrow> production_run \<Rightarrow> node_atom list \<Rightarrow> tree_snapshot option" where
  "projectRunTree lc run nodes =
     (let keyed = keyed_nodes run nodes;
          root = root_of lc keyed;
          linked = linked_nodes (nd_nodeId root) keyed
      in map_option (\<lambda>projected.
           \<lparr>ts_runId = rn_runId run, ts_queryId = nullish (rn_queryId run) (rn_correlationId run),
            ts_sessionId = rn_sessionId run, ts_provider = rn_provider run,
            ts_runtime = rn_runtime run, ts_promptStartedAt = rn_startedAt run,
            ts_runEndedAt = rn_endedAt run, ts_rootNodeKey = nd_nodeId root,
            ts_nodes = projected\<rparr>)
         (walk linked (child_order lc linked) (length keyed) (nd_nodeId root)))"

definition project :: "collation \<Rightarrow> production_run list \<Rightarrow> node_atom list \<Rightarrow> tree_snapshot option list" where
  "project lc runs nodes =
     (let byQuery = group_by nd_queryId (mergeExecutionNodes lc nodes)
      in map (\<lambda>run. projectRunTree lc run
            (nullish (map_get byQuery (nullish (rn_queryId run) (rn_correlationId run))) [])) runs)"

section \<open>Summaries\<close>

datatype content_visibility = Full_content | Partial_content | Topology_only

definition contentVisibilityFor :: "tree_node list \<Rightarrow> content_visibility" where
  "contentVisibilityFor nodes =
     (let contents = concat (map (\<lambda>n. nullish (nd_contents (tn_atom n)) []) nodes);
          visible = length (filter (\<lambda>c. nc_visibility c = Visible) contents)
      in if contents = [] \<or> visible = 0 then Topology_only
         else if visible = length contents then Full_content else Partial_content)"

record run_summary =
  rs_runId :: string
  rs_queryId :: string
  rs_sessionId :: "string option"
  rs_provider :: string
  rs_runtime :: string
  rs_promptStartedAt :: string
  rs_runEndedAt :: "string option"
  rs_nodeCount :: nat
  rs_contentVisibility :: content_visibility

definition summaries :: "tree_snapshot list \<Rightarrow> run_summary list" where
  "summaries trees = map (\<lambda>tree.
     \<lparr>rs_runId = ts_runId tree, rs_queryId = ts_queryId tree, rs_sessionId = ts_sessionId tree,
      rs_provider = ts_provider tree, rs_runtime = ts_runtime tree,
      rs_promptStartedAt = ts_promptStartedAt tree, rs_runEndedAt = ts_runEndedAt tree,
      rs_nodeCount = length (ts_nodes tree),
      rs_contentVisibility = contentVisibilityFor (ts_nodes tree)\<rparr>) trees"

section \<open>The parent links of a run\<close>

text \<open>The nodes of a run's tree with their final parents, the parent of a node and the
  identifiers of its children.\<close>

definition run_links :: "collation \<Rightarrow> production_run \<Rightarrow> node_atom list \<Rightarrow> (string, node_atom) jsmap" where
  "run_links lc run nodes =
     (let keyed = keyed_nodes run nodes in linked_nodes (nd_nodeId (root_of lc keyed)) keyed)"

definition run_root :: "collation \<Rightarrow> production_run \<Rightarrow> node_atom list \<Rightarrow> string" where
  "run_root lc run nodes = nd_nodeId (root_of lc (keyed_nodes run nodes))"

definition link_parent :: "(string, node_atom) jsmap \<Rightarrow> string \<Rightarrow> string option" where
  "link_parent linked k =
     (case map_get linked k of
        None \<Rightarrow> None
      | Some n \<Rightarrow> if truthy (nd_parentNodeId n) then nd_parentNodeId n else None)"

definition link_children :: "collation \<Rightarrow> (string, node_atom) jsmap \<Rightarrow> string \<Rightarrow> string list" where
  "link_children lc linked k = map nd_nodeId (children_of (child_order lc linked) k)"

text \<open>A map from identifiers to the nodes that carry them.\<close>

definition by_id :: "(string, node_atom) jsmap \<Rightarrow> bool" where
  "by_id m \<longleftrightarrow> distinct (map fst m) \<and> (\<forall>k n. (k, n) \<in> set m \<longrightarrow> nd_nodeId n = k)"

lemma by_id_get: "by_id m \<Longrightarrow> map_get m k = Some n \<longleftrightarrow> n \<in> set (map_values m) \<and> nd_nodeId n = k"
  by (force simp: by_id_def map_values_def)

lemma by_id_distinct: "by_id m \<Longrightarrow> distinct (map nd_nodeId (map_values m))"
proof -
  assume "by_id m"
  then have "map nd_nodeId (map_values m) = map fst m" by (auto simp: by_id_def map_values_def)
  then show ?thesis using \<open>by_id m\<close> by (simp add: by_id_def)
qed

lemma by_id_keyed: "by_id (keyed_nodes run nodes)"
  using map_from_mem by (fastforce simp: by_id_def keyed_nodes_def)

lemma keyed_nodes_nonempty: "keyed_nodes run nodes \<noteq> []"
proof -
  have "nodes \<noteq> []" if "list_ex (\<lambda>n. nd_nodeKind n = Node_prompt) nodes" using that by auto
  then have "set (map fst (keyed_nodes run nodes)) \<noteq> {}"
    unfolding keyed_nodes_def keys_map_from by auto
  then show ?thesis by force
qed

lemma link_node_id [simp]: "nd_nodeId (link_node r m n) = nd_nodeId n"
  by (simp add: link_node_def)

lemma keys_linked [simp]: "map fst (linked_nodes r m) = map fst m"
  by (simp add: linked_nodes_def case_prod_beta comp_def)

lemma by_id_linked: "by_id m \<Longrightarrow> by_id (linked_nodes r m)"
  unfolding by_id_def keys_linked by (auto simp: linked_nodes_def)

lemma root_in_keyed:
  "m \<noteq> [] \<Longrightarrow> root_of lc m \<in> set (map_values m)"
proof -
  assume "m \<noteq> []"
  then have "map_values m \<noteq> []" by (simp add: map_values_def)
  then show ?thesis
    using hd_sort_by_in [of "map_values m" "compareNodes lc"] by (auto simp: root_of_def find_Some_iff split: option.split)
qed

lemma get_linked: "map_get (linked_nodes r m) k = map_option (link_node r m) (map_get m k)"
  by (simp add: linked_nodes_def map_of_map comp_def)

lemma map_of_map_values: "map_of (map (\<lambda>(k, v). (k, f v)) m) k = map_option f (map_of m k)"
  by (induction m) auto

lemma children_of_eq:
  "children_of (child_order lc m) k =
     sort_by (compareNodes lc) (filter (\<lambda>n. the (nd_parentNodeId n) = k)
       (filter (\<lambda>n. truthy (nd_parentNodeId n)) (map_values m)))"
proof (cases "k \<in> (\<lambda>n. the (nd_parentNodeId n)) ` set (filter (\<lambda>n. truthy (nd_parentNodeId n)) (map_values m))")
  case True
  then show ?thesis by (simp add: children_of_def child_order_def map_of_map_values group_by_get)
next
  case False
  then have "filter (\<lambda>n. the (nd_parentNodeId n) = k)
      (filter (\<lambda>n. truthy (nd_parentNodeId n)) (map_values m)) = []"
    unfolding filter_empty_conv by blast
  then show ?thesis unfolding children_of_def child_order_def map_of_map_values group_by_get
    using False by simp
qed

lemma truthy_the: "truthy x \<Longrightarrow> x = Some (the x)"
  by (cases x) simp_all

lemma link_children_set:
  assumes "by_id m"
  shows "set (link_children lc m x) = {y. link_parent m y = Some x}"
proof (rule set_eqI)
  fix y
  have "y \<in> set (link_children lc m x) \<longleftrightarrow>
      (\<exists>n \<in> set (map_values m). nd_nodeId n = y \<and> truthy (nd_parentNodeId n) \<and> the (nd_parentNodeId n) = x)"
    by (auto simp: link_children_def children_of_eq)
  also have "\<dots> \<longleftrightarrow> (\<exists>n. map_get m y = Some n \<and> truthy (nd_parentNodeId n) \<and> the (nd_parentNodeId n) = x)"
    using by_id_get [OF assms] by blast
  also have "\<dots> \<longleftrightarrow> link_parent m y = Some x"
    by (auto simp: link_parent_def dest: truthy_the split: option.splits)
  finally show "y \<in> set (link_children lc m x) \<longleftrightarrow> y \<in> {y. link_parent m y = Some x}" by simp
qed

lemma link_children_distinct:
  assumes "by_id m"
  shows "distinct (link_children lc m x)"
proof -
  let ?vs = "filter (\<lambda>n. the (nd_parentNodeId n) = x)
       (filter (\<lambda>n. truthy (nd_parentNodeId n)) (map_values m))"
  have "distinct (map nd_nodeId ?vs)" by (simp add: by_id_distinct [OF assms] distinct_map_filter)
  moreover have "mset (map nd_nodeId (sort_by (compareNodes lc) ?vs)) = mset (map nd_nodeId ?vs)"
    by simp
  ultimately show ?thesis unfolding link_children_def children_of_eq
    by (metis mset_eq_imp_distinct_iff)
qed

interpretation run_tree: rooted_forest "link_parent (run_links lc run nodes)"
  "link_children lc (run_links lc run nodes)" "set (map fst (keyed_nodes run nodes))"
  "run_root lc run nodes"
  for lc run nodes
proof
  let ?m = "keyed_nodes run nodes"
  have linked: "by_id (run_links lc run nodes)"
    by (simp add: run_links_def Let_def by_id_linked by_id_keyed)
  have root: "map_get ?m (run_root lc run nodes) = Some (root_of lc ?m)"
    using root_in_keyed [OF keyed_nodes_nonempty] by (simp add: by_id_get [OF by_id_keyed] run_root_def)
  show "finite (set (map fst ?m))" by simp
  show "run_root lc run nodes \<in> set (map fst ?m)" using root by (force dest: map_of_SomeD)
  show "link_parent (run_links lc run nodes) (run_root lc run nodes) = None"
    using root by (simp add: link_parent_def run_links_def Let_def get_linked link_node_def run_root_def)
  show "x \<in> set (map fst ?m)" if "link_parent (run_links lc run nodes) x = Some y" for x y
    using that by (auto simp: link_parent_def run_links_def Let_def get_linked dest!: map_of_SomeD
        split: option.splits intro: rev_image_eqI)
  show "y \<in> set (map fst ?m)" if "link_parent (run_links lc run nodes) x = Some y" for x y
    using that \<open>run_root lc run nodes \<in> set (map fst ?m)\<close>
    by (auto simp: link_parent_def run_links_def Let_def get_linked link_node_def run_root_def
        split: option.splits if_splits dest: truthy_the simp del: set_map)
  show "set (link_children lc (run_links lc run nodes) x) = {y. link_parent (run_links lc run nodes) y = Some x}" for x
    by (rule link_children_set [OF linked])
  show "distinct (link_children lc (run_links lc run nodes) x)" for x
    by (rule link_children_distinct [OF linked])
qed

text \<open>The walk is the preorder walk over identifiers, with a tree node for each.\<close>

lemma walk_preorder:
  assumes "\<And>k c. c \<in> set (children_of co k) \<Longrightarrow> map_get m (nd_nodeId c) \<noteq> None"
  shows "map_get m k \<noteq> None \<Longrightarrow> walk m co n k =
    map_option (map (\<lambda>k. tree_node_of co (the (map_get m k))))
      (preorder (\<lambda>k. map nd_nodeId (children_of co k)) n k)"
proof (induction n arbitrary: k)
  case 0
  then show ?case by simp
next
  case (Suc n)
  let ?f = "map (\<lambda>k. tree_node_of co (the (map_get m k)))"
  let ?p = "preorder (\<lambda>k. map nd_nodeId (children_of co k)) n"
  obtain node where node: "map_get m k = Some node" using Suc.prems by blast
  have below: "map (\<lambda>c. walk m co n (nd_nodeId c)) (children_of co k)
      = map (map_option ?f) (map ?p (map nd_nodeId (children_of co k)))"
    using Suc.IH assms by simp
  have those: "those (map (map_option g) xs) = map_option (map g) (those xs)"
    for g :: "string list \<Rightarrow> tree_node list" and xs
    by (induction xs) (auto simp: option.map_comp comp_def split: option.splits)
  have "walk m co (Suc n) k = map_option (\<lambda>below. tree_node_of co node # concat below)
      (map_option (map ?f) (those (map ?p (map nd_nodeId (children_of co k)))))"
    by (simp only: walk.simps node option.case below those)
  then show ?case by (simp add: node option.map_comp comp_def map_concat)
qed

lemma child_linked:
  assumes "c \<in> set (children_of (child_order lc m) k)" "by_id m"
  shows "map_get m (nd_nodeId c) \<noteq> None"
  using assms by (auto simp: children_of_eq by_id_get)

lemma by_id_links: "by_id (run_links lc run nodes)"
  by (simp add: run_links_def Let_def by_id_linked by_id_keyed)

lemma links_keys: "k \<in> set (map fst (keyed_nodes run nodes)) \<longleftrightarrow> map_get (run_links lc run nodes) k \<noteq> None"
proof -
  have "map fst (run_links lc run nodes) = map fst (keyed_nodes run nodes)"
    by (simp add: run_links_def Let_def)
  then have "fst ` set (run_links lc run nodes) = set (map fst (keyed_nodes run nodes))"
    by (metis set_map)
  then show ?thesis by (simp add: map_of_eq_None_iff)
qed

lemma linked_node_key:
  assumes "map_get (run_links lc run nodes) k \<noteq> None"
  shows "tn_nodeKey (tree_node_of co (the (map_get (run_links lc run nodes) k))) = k"
proof -
  obtain n where n: "map_get (run_links lc run nodes) k = Some n" using assms by blast
  then have "nd_nodeId n = k" using by_id_get [OF by_id_links] by blast
  with n show ?thesis by (simp add: tree_node_of_def Let_def)
qed

lemma reaching_linked:
  "ancestor (link_parent (run_links lc run nodes)) i k = Some (run_root lc run nodes)
     \<Longrightarrow> map_get (run_links lc run nodes) k \<noteq> None"
  by (rule iffD1 [OF links_keys run_tree.ancestor_node])

text \<open>The walk of a run ends, and writes out the nodes that reach the root.\<close>

lemma project_run:
  obtains t ks where "projectRunTree lc run nodes = Some t"
    "ts_rootNodeKey t = run_root lc run nodes"
    "ts_nodes t = map (\<lambda>k. tree_node_of (child_order lc (run_links lc run nodes))
            (the (map_get (run_links lc run nodes) k))) (run_root lc run nodes # ks)"
    "map tn_nodeKey (ts_nodes t) = run_root lc run nodes # ks"
    "distinct (run_root lc run nodes # ks)"
    "parents_first (link_parent (run_links lc run nodes)) {run_root lc run nodes} ks"
    "set (run_root lc run nodes # ks) = {k. \<exists>i.
       ancestor (link_parent (run_links lc run nodes)) i k = Some (run_root lc run nodes)}"
proof -
  let ?keyed = "keyed_nodes run nodes" and ?m = "run_links lc run nodes" and ?r = "run_root lc run nodes"
  let ?f = "\<lambda>k. tree_node_of (child_order lc ?m) (the (map_get ?m k))"
  have "card (set (map fst ?keyed)) = length ?keyed"
    using by_id_keyed [of run nodes] by (metis by_id_def distinct_card length_map)
  with run_tree.walk_from_root [of lc run nodes] obtain ks where ks:
    "preorder (link_children lc ?m) (length ?keyed) ?r = Some (?r # ks)" "distinct (?r # ks)"
    "parents_first (link_parent ?m) {?r} ks"
    "set (?r # ks) = {k. \<exists>i. ancestor (link_parent ?m) i k = Some ?r}" by auto
  have r: "map_get ?m ?r \<noteq> None" using run_tree.root_node [of lc run nodes] by (rule iffD1 [OF links_keys])
  have "(\<lambda>k. map nd_nodeId (children_of (child_order lc ?m) k)) = link_children lc ?m"
    by (rule ext) (simp add: link_children_def)
  then have "walk ?m (child_order lc ?m) (length ?keyed) ?r = map_option (map ?f) (Some (?r # ks))"
    using walk_preorder [of "child_order lc ?m" ?m ?r "length ?keyed"] child_linked [OF _ by_id_links] r ks(1)
    by metis
  then have w: "walk ?m (child_order lc ?m) (length ?keyed) ?r = Some (map ?f (?r # ks))" by simp
  have "tn_nodeKey (?f k) = k" if "k \<in> set (?r # ks)" for k
    using that reaching_linked unfolding ks(4) by (intro linked_node_key) blast
  then have "map tn_nodeKey (map ?f (?r # ks)) = ?r # ks" by (simp add: map_idI)
  moreover obtain t where "projectRunTree lc run nodes = Some t" "ts_rootNodeKey t = ?r"
    "ts_nodes t = map ?f (?r # ks)"
    using w by (simp add: projectRunTree_def Let_def run_links_def run_root_def)
  ultimately show ?thesis using that [of t ks] ks(2-4) by metis
qed

text \<open>
  C36: the projection of a run always comes to an end, also when the reported parents form
  cycles, and its tree is exact: it starts with the root, lists no node twice, lists every other
  node after its parent, and contains exactly the nodes from which the parent links lead to the
  root.
\<close>

theorem execution_tree_exact:
  "\<exists>t. projectRunTree lc run nodes = Some t \<and> ts_rootNodeKey t = run_root lc run nodes
     \<and> (let keys = map tn_nodeKey (ts_nodes t); parent = link_parent (run_links lc run nodes)
        in keys \<noteq> [] \<and> hd keys = ts_rootNodeKey t \<and> distinct keys
         \<and> parents_first parent {ts_rootNodeKey t} (tl keys)
         \<and> set keys = {k. \<exists>i. ancestor parent i k = Some (ts_rootNodeKey t)})"
proof -
  obtain t ks where t: "projectRunTree lc run nodes = Some t"
    "ts_rootNodeKey t = run_root lc run nodes" "map tn_nodeKey (ts_nodes t) = run_root lc run nodes # ks"
    and ks: "distinct (run_root lc run nodes # ks)"
    "parents_first (link_parent (run_links lc run nodes)) {run_root lc run nodes} ks"
    "set (run_root lc run nodes # ks) = {k. \<exists>i.
       ancestor (link_parent (run_links lc run nodes)) i k = Some (run_root lc run nodes)}"
    by (rule project_run)
  show ?thesis unfolding Let_def
    by (intro exI [of _ t] conjI; unfold t; (rule ks | simp add: ks(2)))
qed

lemma links_have_parents:
  assumes "run_root lc run nodes \<noteq> ''''" "x \<in> set (map fst (keyed_nodes run nodes))"
    "x \<noteq> run_root lc run nodes"
  shows "link_parent (run_links lc run nodes) x \<noteq> None"
proof -
  obtain n where n: "map_get (keyed_nodes run nodes) x = Some n"
    using assms(2) by (metis map_of_eq_None_iff not_Some_eq set_map)
  then have "nd_nodeId n = x" using by_id_get [OF by_id_keyed] by blast
  with n assms(1,3) show ?thesis
    by (auto simp: link_parent_def run_links_def Let_def get_linked link_node_def run_root_def
        dest: truthy_the)
qed

text \<open>Two tools that name each other as parent.\<close>

definition cyclic_node :: "string \<Rightarrow> string \<Rightarrow> node_atom" where
  "cyclic_node k parent = (promptNodeFor \<lparr>rn_runId = ''r1'', rn_correlationId = ''qry_1'', rn_queryId = None,
     rn_sessionId = None, rn_provider = ''codex'', rn_runtime = ''cli'', rn_promptState = ''enabled'',
     rn_promptText = None, rn_startedAt = ''2026-07-01T00:00:00.000Z'', rn_endedAt = None\<rparr>)
     \<lparr>nd_nodeId := k, nd_nodeKind := Node_tool, nd_parentNodeId := Some parent\<rparr>"

definition cyclic_run :: production_run where
  "cyclic_run = \<lparr>rn_runId = ''r1'', rn_correlationId = ''qry_1'', rn_queryId = None,
     rn_sessionId = None, rn_provider = ''codex'', rn_runtime = ''cli'', rn_promptState = ''enabled'',
     rn_promptText = None, rn_startedAt = ''2026-07-01T00:00:00.000Z'', rn_endedAt = None\<rparr>"

text \<open>
  A tree is complete exactly when the reported parents have no cycle. Every node of the
  query, with the prompt that the projection adds, is in the tree unless some nodes are their own
  ancestors; a cycle and all that hangs on it are left out without a trace.
\<close>

theorem only_cycles_are_dropped:
  assumes "run_root lc run nodes \<noteq> ''''" "projectRunTree lc run nodes = Some t"
  shows "length (ts_nodes t) = length (keyed_nodes run nodes)
    \<longleftrightarrow> (\<nexists>k i. ancestor (link_parent (run_links lc run nodes)) (Suc i) k = Some k)"
proof -
  let ?N = "set (map fst (keyed_nodes run nodes))"
  let ?reach = "{k. \<exists>i. ancestor (link_parent (run_links lc run nodes)) i k = Some (run_root lc run nodes)}"
  obtain ks where ks: "map tn_nodeKey (ts_nodes t) = run_root lc run nodes # ks"
    "distinct (run_root lc run nodes # ks)" "set (run_root lc run nodes # ks) = ?reach"
    using assms(2) by (metis option.inject project_run)
  then have "length (ts_nodes t) = card ?reach" by (metis distinct_card length_map)
  moreover have "length (keyed_nodes run nodes) = card ?N"
    using by_id_keyed [of run nodes] by (metis by_id_def distinct_card length_map)
  moreover have sub: "?reach \<subseteq> ?N" using run_tree.ancestor_node by blast
  moreover have "card ?reach = card ?N \<longleftrightarrow> ?reach = ?N"
    by (rule iffI, rule card_subset_eq [OF List.finite_set sub], assumption, rule arg_cong [of _ _ card])
  moreover have "?reach = ?N \<longleftrightarrow> (\<forall>x \<in> ?N. x \<in> ?reach)" using sub by blast
  ultimately show ?thesis
    using run_tree.reach_or_cycle [of run nodes lc] links_have_parents [OF assms(1)] by simp
qed

theorem only_cycles_are_dropped_witness:
  "\<exists>t. projectRunTree code_unit_compare cyclic_run [cyclic_node ''a'' ''b'', cyclic_node ''b'' ''a''] = Some t
     \<and> length (ts_nodes t) = 1
     \<and> (\<exists>k i. ancestor (link_parent (run_links code_unit_compare cyclic_run
           [cyclic_node ''a'' ''b'', cyclic_node ''b'' ''a''])) (Suc i) k = Some k)"
proof -
  let ?ns = "[cyclic_node ''a'' ''b'', cyclic_node ''b'' ''a'']"
  have r: "run_root code_unit_compare cyclic_run ?ns \<noteq> ''''" by code_simp
  have n: "map_option (length \<circ> ts_nodes) (projectRunTree code_unit_compare cyclic_run ?ns) = Some 1"
    "length (keyed_nodes cyclic_run ?ns) = 3" by code_simp+
  then obtain t where t: "projectRunTree code_unit_compare cyclic_run ?ns = Some t" by auto
  have "length (ts_nodes t) = 1" using n(1) unfolding t by simp
  with only_cycles_are_dropped [OF r t] n(2) t show ?thesis by auto
qed

text \<open>The contents merged so far hold, for each content seen, one of its kind that is at least as
  visible.\<close>

lemma prefer_content_rank:
  "nc_kind a = nc_kind b \<Longrightarrow> nc_kind (preferContent a b) = nc_kind b"
  "rank (nc_visibility a) \<le> rank (nc_visibility (preferContent a b))"
  "rank (nc_visibility b) \<le> rank (nc_visibility (preferContent a b))"
  by (auto simp: preferContent_def)

definition contents_kept :: "node_content list \<Rightarrow> (content_kind, node_content) jsmap \<Rightarrow> bool" where
  "contents_kept seen m \<longleftrightarrow> distinct (map fst m) \<and> (\<forall>k c. map_get m k = Some c \<longrightarrow> nc_kind c = k)
     \<and> (\<forall>c \<in> set seen. \<exists>c'. map_get m (nc_kind c) = Some c' \<and> rank (nc_visibility c) \<le> rank (nc_visibility c'))"

lemma contents_kept_step:
  assumes "contents_kept seen m"
  shows "contents_kept (seen @ [c]) (map_set (nc_kind c)
    (case map_get m (nc_kind c) of None \<Rightarrow> c | Some previous \<Rightarrow> preferContent previous c) m)"
proof (cases "map_get m (nc_kind c)")
  case None
  with assms show ?thesis by (auto simp: contents_kept_def js_map.distinct_keys_put)
next
  case (Some p)
  then have k: "nc_kind p = nc_kind c" using assms by (simp add: contents_kept_def)
  let ?p = "preferContent p c"
  have kp: "nc_kind ?p = nc_kind c" using prefer_content_rank(1) [OF k] .
  have seen: "\<exists>c'. map_get m (nc_kind d) = Some c' \<and> rank (nc_visibility d) \<le> rank (nc_visibility c')"
    if "d \<in> set seen" for d using assms that unfolding contents_kept_def by blast
  have "\<exists>c'. ((map_get m)(nc_kind c \<mapsto> ?p)) (nc_kind d) = Some c'
      \<and> rank (nc_visibility d) \<le> rank (nc_visibility c')" if d: "d \<in> set (seen @ [c])" for d
  proof (cases "nc_kind d = nc_kind c")
    case True
    have "rank (nc_visibility d) \<le> rank (nc_visibility p) \<or> d = c" using seen [of d] d True Some by auto
    then have "rank (nc_visibility d) \<le> rank (nc_visibility ?p)"
      using prefer_content_rank(2) [of p c] prefer_content_rank(3) [of c p] by auto
    with True show ?thesis by simp
  next
    case False
    with d have "d \<in> set seen" by auto
    with seen [of d] False show ?thesis by simp
  qed
  then show ?thesis using assms kp unfolding contents_kept_def Some option.case map_of_map_set
    by (intro conjI) (simp_all add: js_map.distinct_keys_put)
qed

lemma contents_kept_fold:
  "contents_kept cs (foldl (\<lambda>m c. map_set (nc_kind c)
     (case map_get m (nc_kind c) of None \<Rightarrow> c | Some previous \<Rightarrow> preferContent previous c) m) [] cs)"
proof (induction cs rule: rev_induct)
  case Nil
  then show ?case by (simp add: contents_kept_def)
next
  case (snoc c cs)
  from contents_kept_step [OF snoc.IH, of c] show ?case by simp
qed

lemma map_values_keys:
  assumes "distinct (map fst m)" "\<And>k v. map_get m k = Some v \<Longrightarrow> f v = k"
  shows "map f (map_values m) = map fst m"
  using assms by (auto simp: map_values_def)

text \<open>
  Merging reports of a node never degrades its contents. The merged contents have each kind
  at most once, and for every reported content they hold one of the same kind that is at least as
  visible.
\<close>

theorem content_never_degrades:
  assumes "c \<in> set (nullish existing [] @ nullish incoming [])"
  shows "\<exists>cs. mergeContents existing incoming = Some cs \<and> distinct (map nc_kind cs)
    \<and> (\<exists>c' \<in> set cs. nc_kind c' = nc_kind c \<and> rank (nc_visibility c) \<le> rank (nc_visibility c'))"
proof -
  define m where "m = foldl (\<lambda>m c. map_set (nc_kind c)
     (case map_get m (nc_kind c) of None \<Rightarrow> c | Some previous \<Rightarrow> preferContent previous c) m) []
     (nullish existing [] @ nullish incoming [])"
  from contents_kept_fold [of "nullish existing [] @ nullish incoming []", folded m_def] assms
  obtain c' where c': "map_get m (nc_kind c) = Some c'" "rank (nc_visibility c) \<le> rank (nc_visibility c')"
    and d: "distinct (map fst m)" and k: "\<And>k c. map_get m k = Some c \<Longrightarrow> nc_kind c = k"
    unfolding contents_kept_def by blast
  have "m \<noteq> []" using c'(1) by auto
  then have "mergeContents existing incoming = Some (map_values m)"
    unfolding mergeContents_def Let_def m_def [symmetric] by simp
  moreover have "distinct (map nc_kind (map_values m))" using map_values_keys [OF d k] d by simp
  moreover have "c' \<in> set (map_values m)" using map_of_SomeD [OF c'(1)] by (force simp: map_values_def)
  ultimately show ?thesis using c'(2) k [OF c'(1)] by blast
qed

theorem content_never_degrades_witness:
  "\<exists>cs c'. mergeContents (Some [\<lparr>nc_kind = Tool_output, nc_visibility = Visible, nc_text = Some ''t'', nc_preview = None\<rparr>])
       (Some [\<lparr>nc_kind = Tool_output, nc_visibility = Redacted, nc_text = None, nc_preview = None\<rparr>]) = Some cs
     \<and> c' \<in> set cs \<and> 4 \<le> rank (nc_visibility c')"
  using content_never_degrades [of "\<lparr>nc_kind = Tool_output, nc_visibility = Visible, nc_text = Some ''t'', nc_preview = None\<rparr>"
      "Some [\<lparr>nc_kind = Tool_output, nc_visibility = Visible, nc_text = Some ''t'', nc_preview = None\<rparr>]"
      "Some [\<lparr>nc_kind = Tool_output, nc_visibility = Redacted, nc_text = None, nc_preview = None\<rparr>]"]
  by auto

end
