(* ===== verification/DurableStore.thy ===== *)
theory DurableStore
  imports RecordStore
begin

text \<open>
  The storage classes of src/src/storage that keep a map in memory and rewrite a whole file:
  they load the file once, before the first operation (the memoised promise \<open>ensureLoaded\<close>), run
  the writing operations one at a time, change the memory and then write all of it. A failed
  load is remembered for ever, and a failed write leaves the memory changed but not the file.

  An operation is an \<open>action\<close>: a function from the state to an error or a result, and the next
  state. Unlike the results of \<open>RecordStore\<close>, an error keeps the changes made before it. A file
  holds values and not text: \<open>JSON.parse\<close> after \<open>JSON.stringify\<close> gives back the value of a plain
  object, and an undefined property is an absent one.
\<close>

section \<open>Actions\<close>

type_synonym ('s, 'e, 'a) action = "'s \<Rightarrow> ('e + 'a) \<times> 's"

definition returnA :: "'a \<Rightarrow> ('s, 'e, 'a) action" where
  "returnA x s = (Inr x, s)"

definition throwA :: "'e \<Rightarrow> ('s, 'e, 'a) action" where
  "throwA e s = (Inl e, s)"

definition bindA :: "('s, 'e, 'a) action \<Rightarrow> ('a \<Rightarrow> ('s, 'e, 'b) action) \<Rightarrow> ('s, 'e, 'b) action" where
  "bindA m f s = (case m s of (Inl e, s') \<Rightarrow> (Inl e, s') | (Inr x, s') \<Rightarrow> f x s')"

definition getsA :: "('s \<Rightarrow> 'a) \<Rightarrow> ('s, 'e, 'a) action" where
  "getsA f s = (Inr (f s), s)"

definition modifyA :: "('s \<Rightarrow> 's) \<Rightarrow> ('s, 'e, unit) action" where
  "modifyA f s = (Inr (), f s)"

fun forA :: "('a \<Rightarrow> ('s, 'e, unit) action) \<Rightarrow> 'a list \<Rightarrow> ('s, 'e, unit) action" where
  "forA f [] = returnA ()"
| "forA f (x # xs) = bindA (f x) (\<lambda>_. forA f xs)"

fun foldA :: "('a \<Rightarrow> 'b \<Rightarrow> ('s, 'e, 'b) action) \<Rightarrow> 'a list \<Rightarrow> 'b \<Rightarrow> ('s, 'e, 'b) action" where
  "foldA f [] y = returnA y"
| "foldA f (x # xs) y = bindA (f x y) (foldA f xs)"

definition whenA :: "bool \<Rightarrow> ('s, 'e, unit) action \<Rightarrow> ('s, 'e, unit) action" where
  "whenA b m = (if b then m else returnA ())"

lemma action_simps [simp]:
  "returnA x s = (Inr x, s)" "throwA e s = (Inl e, s)" "getsA f s = (Inr (f s), s)"
  "modifyA g s = (Inr (), g s)"
  by (simp_all add: returnA_def throwA_def getsA_def modifyA_def)

lemma bindA_Inr:
  "bindA m f s = (Inr y, s'') \<longleftrightarrow> (\<exists>x s'. m s = (Inr x, s') \<and> f x s' = (Inr y, s''))"
  by (auto simp: bindA_def split: prod.splits sum.splits)

lemma bindA_Inl:
  "bindA m f s = (Inl e, s'') \<longleftrightarrow>
     m s = (Inl e, s'') \<or> (\<exists>x s'. m s = (Inr x, s') \<and> f x s' = (Inl e, s''))"
  by (auto simp: bindA_def split: prod.splits sum.splits)

lemma bindA_step [simp]:
  "m s = (Inr x, s') \<Longrightarrow> bindA m f s = f x s'" "m s = (Inl e, s') \<Longrightarrow> bindA m f s = (Inl e, s')"
  by (simp_all add: bindA_def)

text \<open>What every step of an action keeps, the action and a loop of it keep.\<close>

definition keeps :: "('s \<Rightarrow> bool) \<Rightarrow> ('s, 'e, 'a) action \<Rightarrow> bool" where
  "keeps P m \<longleftrightarrow> (\<forall>s. P s \<longrightarrow> P (snd (m s)))"

named_theorems keeps_intros "what actions keep"

lemma keepsD: "keeps P m \<Longrightarrow> P s \<Longrightarrow> m s = (r, s') \<Longrightarrow> P s'"
  by (metis keeps_def snd_conv)

lemma keeps_return [keeps_intros]: "keeps P (returnA x)" "keeps P (throwA e)" "keeps P (getsA f)"
  by (simp_all add: keeps_def)

lemma keeps_bind [keeps_intros]: "keeps P m \<Longrightarrow> (\<And>x. keeps P (f x)) \<Longrightarrow> keeps P (bindA m f)"
  by (auto simp: keeps_def bindA_def split: prod.splits sum.splits)

lemma keeps_for [keeps_intros]: "(\<And>x. x \<in> set xs \<Longrightarrow> keeps P (f x)) \<Longrightarrow> keeps P (forA f xs)"
  by (induction xs) (simp_all add: keeps_intros)

lemma keeps_fold [keeps_intros]:
  "(\<And>x y. x \<in> set xs \<Longrightarrow> keeps P (f x y)) \<Longrightarrow> keeps P (foldA f xs y)"
  by (induction xs arbitrary: y) (simp_all add: keeps_intros)

lemma keeps_when [keeps_intros]: "(b \<Longrightarrow> keeps P m) \<Longrightarrow> keeps P (whenA b m)"
  by (simp add: whenA_def keeps_return)

lemma keeps_modify: "(\<And>s. P s \<Longrightarrow> P (f s)) \<Longrightarrow> keeps P (modifyA f)"
  by (simp add: keeps_def)

lemma keeps_if [keeps_intros]: "(b \<Longrightarrow> keeps P m) \<Longrightarrow> (\<not> b \<Longrightarrow> keeps P m') \<Longrightarrow> keeps P (if b then m else m')"
  by simp

text \<open>The same with a condition on the result: a partial correctness triple with one invariant.\<close>

definition ensures :: "('s \<Rightarrow> bool) \<Rightarrow> ('s, 'e, 'a) action \<Rightarrow> ('a \<Rightarrow> bool) \<Rightarrow> bool" where
  "ensures P m Q \<longleftrightarrow> (\<forall>s. P s \<longrightarrow> P (snd (m s)) \<and> (case fst (m s) of Inl e \<Rightarrow> True | Inr x \<Rightarrow> Q x))"

named_theorems ensures_intros "what actions ensure"

lemma ensuresD:
  "ensures P m Q \<Longrightarrow> P s \<Longrightarrow> m s = (r, s') \<Longrightarrow> P s' \<and> (case r of Inl e \<Rightarrow> True | Inr x \<Rightarrow> Q x)"
  unfolding ensures_def by (metis fst_conv snd_conv)

lemma ensuresI:
  assumes "\<And>s r s'. P s \<Longrightarrow> m s = (r, s') \<Longrightarrow> P s' \<and> (case r of Inl e \<Rightarrow> True | Inr x \<Rightarrow> Q x)"
  shows "ensures P m Q"
  unfolding ensures_def using assms by (metis prod.collapse)

lemma ensures_return: "Q x \<Longrightarrow> ensures P (returnA x) Q"
  by (simp add: ensures_def)

lemma ensures_throw: "ensures P (throwA e) Q"
  by (simp add: ensures_def)

lemma ensures_gets: "(\<And>s. P s \<Longrightarrow> Q (f s)) \<Longrightarrow> ensures P (getsA f) Q"
  by (simp add: ensures_def)

lemma ensures_modify: "(\<And>s. P s \<Longrightarrow> P (f s)) \<Longrightarrow> Q () \<Longrightarrow> ensures P (modifyA f) Q"
  by (simp add: ensures_def)

lemma ensures_bind:
  assumes "ensures P m Q" "\<And>x. Q x \<Longrightarrow> ensures P (f x) R"
  shows "ensures P (bindA m f) R"
proof (rule ensuresI)
  fix s r s' assume "P s" and run: "bindA m f s = (r, s')"
  obtain r1 s1 where m: "m s = (r1, s1)" by fastforce
  note one = ensuresD [OF assms(1) \<open>P s\<close> m]
  show "P s' \<and> (case r of Inl e \<Rightarrow> True | Inr x \<Rightarrow> R x)"
  proof (cases r1)
    case (Inl e)
    with run m one show ?thesis by (auto simp: bindA_def)
  next
    case (Inr x)
    with run m have "f x s1 = (r, s')" by (simp add: bindA_def)
    moreover from one Inr have "Q x" "P s1" by simp_all
    ultimately show ?thesis using ensuresD [OF assms(2)] by blast
  qed
qed

lemma ensures_for:
  "(\<And>x. x \<in> set xs \<Longrightarrow> ensures P (f x) (\<lambda>_. True)) \<Longrightarrow> ensures P (forA f xs) (\<lambda>_. True)"
  by (induction xs) (auto intro: ensures_return ensures_bind)

lemma ensures_fold:
  "(\<And>x y. x \<in> set xs \<Longrightarrow> Q y \<Longrightarrow> ensures P (f x y) Q) \<Longrightarrow> Q y \<Longrightarrow> ensures P (foldA f xs y) Q"
proof (induction xs arbitrary: y)
  case (Cons x xs)
  then show ?case by (auto intro!: ensures_bind [where Q = Q])
qed (simp add: ensures_return)

lemma ensures_if:
  "(b \<Longrightarrow> ensures P m Q) \<Longrightarrow> (\<not> b \<Longrightarrow> ensures P m' Q) \<Longrightarrow> ensures P (if b then m else m') Q"
  by simp

lemma ensures_weaken: "ensures P m Q \<Longrightarrow> (\<And>x. Q x \<Longrightarrow> R x) \<Longrightarrow> ensures P m R"
  by (auto simp: ensures_def split: sum.splits)

section \<open>Sorting what is sorted\<close>

context comparator
begin

lemma insort_by_least: "sorted_wrt le (x # xs) \<Longrightarrow> insort_by le x xs = x # xs"
  by (cases xs) auto

lemma sort_by_sorted: "sorted_wrt le xs \<Longrightarrow> sort_by le xs = xs"
  by (induction xs) (simp_all add: sort_by_Cons insort_by_least)

lemma sort_by_idem: "sort_by le (sort_by le xs) = sort_by le xs"
  by (simp add: sort_by_sorted sorted_sort_by)

end

lemma comparator_on: "comparator le \<Longrightarrow> comparator (\<lambda>x y. le (f x) (f y))"
  by (auto simp: comparator_def)

section \<open>Maps of normalised values\<close>

text \<open>The maps hold normal forms under the key of the value. \<open>normal_form\<close> is what the normalising
  functions promise: they are idempotent and keep the key.\<close>

definition keyed_normal :: "('a \<Rightarrow> 'k) \<Rightarrow> ('a \<Rightarrow> 'a) \<Rightarrow> ('k, 'a) jsmap \<Rightarrow> bool" where
  "keyed_normal key nf m \<longleftrightarrow>
     distinct (map fst m) \<and> (\<forall>(k, x) \<in> set m. key x = k \<and> nf x = x)"

lemma keyed_normal_Nil [simp]: "keyed_normal key nf []"
  by (simp add: keyed_normal_def)

lemma keyed_normal_values:
  assumes "keyed_normal key nf m"
  shows "map key (map_values m) = map fst m" "map nf (map_values m) = map_values m"
  using assms by (auto simp: keyed_normal_def map_values_def intro: map_idI)

lemma keyed_normal_get:
  "keyed_normal key nf m \<Longrightarrow> map_get m k = Some x \<Longrightarrow> key x = k \<and> nf x = x \<and> x \<in> set (map_values m)"
  by (force simp: keyed_normal_def map_values_def dest: map_of_SomeD)

lemma keyed_normal_from:
  assumes "\<And>x. x \<in> set xs \<Longrightarrow> nf x = x"
  shows "keyed_normal key nf (map_from key xs)"
  using assms map_from_mem by (fastforce simp: keyed_normal_def)

lemma keyed_normal_reload:
  assumes "keyed_normal key nf m" "mset xs = mset (map_values m)"
  shows "map_values (map_from key (map nf xs)) = xs"
proof -
  have "\<forall>x \<in> set (map_values m). nf x = x"
    using assms(1) by (auto simp: keyed_normal_def map_values_def)
  then have "\<forall>x \<in> set xs. nf x = x" using mset_eq_setD [OF assms(2)] by simp
  then have "map nf xs = xs" by (simp add: map_idI)
  moreover have "distinct (map key xs)"
    using keyed_normal_values(1) [OF assms(1)] assms
    by (metis keyed_normal_def mset_eq_imp_distinct_iff mset_map)
  ultimately show ?thesis by (simp add: map_from_distinct map_values_def comp_def)
qed

lemma keyed_normal_filtered:
  "keyed_normal key nf m \<Longrightarrow> keyed_normal key nf (map_from key (filter P (map_values m)))"
  by (rule keyed_normal_from) (auto simp: keyed_normal_def map_values_def)

locale normal_form =
  fixes key :: "'a \<Rightarrow> 'k" and nf :: "'a \<Rightarrow> 'a"
  assumes key_nf: "key (nf x) = key x"
    and nf_idem: "nf (nf x) = nf x"
begin

lemma keyed_put: "keyed_normal key nf m \<Longrightarrow> keyed_normal key nf (map_set (key x) (nf x) m)"
  using set_map_set_subset [of "key x" "nf x" m]
  by (fastforce simp: keyed_normal_def js_map.distinct_keys_put key_nf nf_idem)

lemma keyed_load: "keyed_normal key nf (map_from key (map nf xs))"
  by (rule keyed_normal_from) (auto simp: nf_idem)

lemma keyed_fold:
  "keyed_normal key nf m \<Longrightarrow>
   keyed_normal key nf (foldl (\<lambda>m x. map_set (key x) x m) m (map nf xs))"
proof (induction xs arbitrary: m)
  case (Cons x xs)
  then show ?case using keyed_put [of m x] by (simp add: key_nf)
qed simp

end

section \<open>Memory and file\<close>

datatype 'c disk = Missing | Unreadable | Content 'c

text \<open>\<open>du_load\<close> is the settled promise of the load, if there is one: an error or a result.\<close>

record ('m, 'c, 'p) durable =
  du_load :: "'p option"
  du_memory :: 'm
  du_file :: "'c disk"

text \<open>A file with a record on each line: a line that is no record of the class is \<open>None\<close>, and is
  skipped. Loading fails, for good, when the file cannot be read.\<close>

datatype jsonl_error = Record_privacy "string list" | Write_failed | Read_failed

definition jsonl_records :: "'r option list disk \<Rightarrow> 'r list option" where
  "jsonl_records f = (case f of Missing \<Rightarrow> Some [] | Unreadable \<Rightarrow> None
     | Content ls \<Rightarrow> Some (map the (filter (\<lambda>l. l \<noteq> None) ls)))"

lemma jsonl_records_simps [simp]:
  "jsonl_records Missing = Some []" "jsonl_records Unreadable = None"
  "jsonl_records (Content (map Some xs)) = Some xs"
  by (simp_all add: jsonl_records_def comp_def)

text \<open>A new object of the class over the same file.\<close>

definition restart :: "'m \<Rightarrow> ('m, 'c, 'p) durable \<Rightarrow> ('m, 'c, 'p) durable" where
  "restart fresh s = s\<lparr>du_load := None, du_memory := fresh\<rparr>"

text \<open>\<open>this.loadPromise ??= this.load()\<close>\<close>

definition once :: "(('m, 'c, 'e + 'r) durable, 'e, 'r) action \<Rightarrow> (('m, 'c, 'e + 'r) durable, 'e, 'r) action" where
  "once load s =
     (case du_load s of
        Some r \<Rightarrow> (r, s)
      | None \<Rightarrow> (case load s of (r, s') \<Rightarrow> (r, s'\<lparr>du_load := Some r\<rparr>)))"

lemma once_memory [simp]:
  "du_memory (snd (once load s)) = (if du_load s = None then du_memory (snd (load s)) else du_memory s)"
  "du_file (snd (once load s)) = (if du_load s = None then du_file (snd (load s)) else du_file s)"
  by (auto simp: once_def split: option.splits prod.splits)

lemma once_loaded: "du_load (snd (once load s)) \<noteq> None"
  by (auto simp: once_def split: option.splits prod.splits)

lemma once_restart: "once load (restart m s) = (case load (restart m s) of (r, s') \<Rightarrow> (r, s'\<lparr>du_load := Some r\<rparr>))"
  by (simp add: once_def restart_def)

definition change_memory :: "('m \<Rightarrow> 'm) \<Rightarrow> (('m, 'c, 'p) durable, 'e, unit) action" where
  "change_memory g = modifyA (\<lambda>s. s\<lparr>du_memory := g (du_memory s)\<rparr>)"

text \<open>The common body of the writing operations: load, change the memory, write everything.\<close>

definition update_all :: "(('m, 'c, 'p) durable, 'e, 'r) action \<Rightarrow> (('m, 'c, 'p) durable, 'e, unit) action
    \<Rightarrow> ('m \<Rightarrow> 'm) \<Rightarrow> (('m, 'c, 'p) durable, 'e, unit) action" where
  "update_all load save g = bindA load (\<lambda>_. bindA (change_memory g) (\<lambda>_. save))"

section \<open>The interface\<close>

text \<open>What such a class owes its callers: a write that succeeds can be read back by a new object,
  up to the \<open>view\<close> of the memory that callers have, and a write that fails changes nothing.\<close>

locale durable_store =
  fixes load :: "(('m, 'c, 'p) durable, 'e, 'r) action"
    and save :: "(('m, 'c, 'p) durable, 'e, unit) action"
    and fresh :: 'm
    and view :: "'m \<Rightarrow> 'v"
    and wf :: "'m \<Rightarrow> bool"
  assumes wf_fresh: "wf fresh"
    and wf_load: "wf (du_memory s) \<Longrightarrow> wf (du_memory (snd (load s)))"
    and write_ok: "save s = (Inr u, s') \<Longrightarrow> wf (du_memory s) \<Longrightarrow> du_memory s' = du_memory s
      \<and> (\<exists>r s''. load (restart fresh s') = (Inr r, s'') \<and> view (du_memory s'') = view (du_memory s))"
    and write_failed: "save s = (Inl e, s') \<Longrightarrow> s' = s"
begin

definition good :: "('m, 'c, 'p) durable \<Rightarrow> bool" where
  "good s \<longleftrightarrow> wf (du_memory s)"

definition synced :: "('m, 'c, 'p) durable \<Rightarrow> bool" where
  "synced s \<longleftrightarrow> (\<exists>r s'. load (restart fresh s) = (Inr r, s')
     \<and> view (du_memory s') = view (du_memory s))"

lemma good_restart: "good (restart fresh s)"
  by (simp add: good_def restart_def wf_fresh)

lemma keeps_good_load [keeps_intros]: "keeps good load"
  by (simp add: keeps_def good_def wf_load)

lemma keeps_good_save [keeps_intros]: "keeps good save"
  unfolding keeps_def good_def
proof (intro allI impI)
  fix s :: "('m, 'c, 'p) durable" assume "wf (du_memory s)"
  then show "wf (du_memory (snd (save s)))"
    by (cases "save s"; cases "fst (save s)") (auto dest: write_ok write_failed)
qed

lemma keeps_good_change [keeps_intros]: "(\<And>m. wf m \<Longrightarrow> wf (g m)) \<Longrightarrow> keeps good (change_memory g)"
  unfolding change_memory_def by (rule keeps_modify) (simp add: good_def)

lemma keeps_good_update_all [keeps_intros]:
  "(\<And>m. wf m \<Longrightarrow> wf (g m)) \<Longrightarrow> keeps good (update_all load save g)"
  unfolding update_all_def by (intro keeps_intros)

text \<open>After a write, a new object has what the memory has.\<close>

lemma synced_save: "save s = (Inr u, s') \<Longrightarrow> good s \<Longrightarrow> synced s'"
  using write_ok by (fastforce simp: good_def synced_def)

lemma synced_update_all:
  assumes "update_all load save g s = (Inr u, s')" "good s" "\<And>m. wf m \<Longrightarrow> wf (g m)"
  shows "synced s'"
proof -
  from assms(1) obtain r s1 s2 where l: "load s = (Inr r, s1)"
    and s2: "change_memory g s1 = (Inr () :: 'e + unit, s2)" and w: "save s2 = (Inr u, s')"
    by (auto simp: update_all_def bindA_Inr)
  have "good s2"
    using keepsD [OF keeps_good_change [OF assms(3)] _ s2] keepsD [OF keeps_good_load _ l] assms(2) by blast
  with w show ?thesis by (rule synced_save)
qed

text \<open>A refused write leaves the file as loading left it.\<close>

lemma update_all_failed:
  assumes "update_all load save g s = (Inl e, s')"
  shows "du_file s' = du_file (snd (load s))"
  using assms write_failed by (force simp: update_all_def change_memory_def bindA_Inl)

end

end
