(* ===== verification/RepositoryObservationStore.thy ===== *)
theory RepositoryObservationStore
  imports DurableStore AttributionTypes
begin

text \<open>
  The store of repository observations: src/src/storage/repositoryObservationStore.ts. The memory
  has the epoch of each repository, which is the cursor of its observation, and the commit
  candidates by identifier; the file has both, sorted. \<open>lc\<close> is the collation, \<open>pg\<close> the privacy
  guard, \<open>io\<close> says whether the file system accepts the write.
\<close>

section \<open>Epochs\<close>

datatype epoch_status = Epoch_active | Epoch_superseded

record attribution_epoch =
  ae_epochId :: string
  ae_repoKey :: string
  ae_startedAt :: string
  ae_initialHead :: "string option"
  ae_cursorHead :: "string option"
  ae_cursorRefKey :: "string option"
  ae_refHeads :: "(string, string) jsmap option"
  ae_nextSequence :: rat
  ae_status :: epoch_status

definition ref_le :: "collation \<Rightarrow> string \<times> string \<Rightarrow> string \<times> string \<Rightarrow> bool" where
  "ref_le lc a b \<longleftrightarrow> lc (fst a) (fst b) \<le> 0"

definition normalizeEpoch :: "collation \<Rightarrow> attribution_epoch \<Rightarrow> attribution_epoch" where
  "normalizeEpoch lc e = e\<lparr>ae_refHeads := map_option (sort_by (ref_le lc)) (ae_refHeads e),
     ae_nextSequence := max 1 (of_int \<lfloor>ae_nextSequence e\<rfloor>)\<rparr>"

definition trimmed_message :: "string option \<Rightarrow> string option" where
  "trimmed_message m = (case m of None \<Rightarrow> None | Some t \<Rightarrow> if trim t \<noteq> '''' then Some (trim t) else None)"

definition normalizeCandidate :: "commit_candidate \<Rightarrow> commit_candidate" where
  "normalizeCandidate c = c\<lparr>cc_commitMessage := trimmed_message (cc_commitMessage c),
     cc_parentHashes := unique_sorted (cc_parentHashes c),
     cc_reasonCodes := unique_sorted (cc_reasonCodes c)\<rparr>"

section \<open>State\<close>

record observation_memory =
  om_epochs :: "(string, attribution_epoch) jsmap"
  om_candidates :: "(string, commit_candidate) jsmap"
  om_recovered :: bool

type_synonym stored_observation = "attribution_epoch list \<times> commit_candidate list"

datatype observation_item =
  Item_epoch attribution_epoch | Item_candidate commit_candidate | Item_stored stored_observation

datatype observation_error =
  Observation_privacy "string list" | Observation_incomplete | Observation_io

type_synonym observation_store =
  "(observation_memory, stored_observation, unit) durable"

type_synonym observation_guard = "observation_item \<Rightarrow> string list"

type_synonym 'a observation_action = "(observation_store, observation_error, 'a) action"

definition no_observations :: observation_memory where
  "no_observations = \<lparr>om_epochs = [], om_candidates = [], om_recovered = False\<rparr>"

text \<open>Of the checks on a stored value, the types of the model leave one: an epoch has heads.\<close>

definition isEpoch :: "attribution_epoch \<Rightarrow> bool" where
  "isEpoch e = (ae_refHeads e \<noteq> None)"

definition isStoredRepositoryObservation :: "stored_observation \<Rightarrow> bool" where
  "isStoredRepositoryObservation v = list_all isEpoch (fst v)"

definition by_sequence :: "commit_candidate \<Rightarrow> commit_candidate \<Rightarrow> bool" where
  "by_sequence a b \<longleftrightarrow> cc_observedSequence a \<le> cc_observedSequence b"

definition by_repo :: "collation \<Rightarrow> attribution_epoch \<Rightarrow> attribution_epoch \<Rightarrow> bool" where
  "by_repo lc a b \<longleftrightarrow> lc (ae_repoKey a) (ae_repoKey b) \<le> 0"

section \<open>Loading and writing\<close>

definition validate :: "observation_guard \<Rightarrow> observation_item \<Rightarrow> unit observation_action" where
  "validate pg item =
     (if pg item \<noteq> [] then throwA (Observation_privacy (pg item)) else returnA ())"

definition loaded_observations :: "collation \<Rightarrow> stored_observation \<Rightarrow> observation_memory" where
  "loaded_observations lc v =
     \<lparr>om_epochs = map_from ae_repoKey (map (normalizeEpoch lc) (fst v)),
      om_candidates = map_from cc_candidateId (map normalizeCandidate (snd v)),
      om_recovered = False\<rparr>"

definition observation_load :: "collation \<Rightarrow> observation_memory \<Rightarrow> stored_observation disk
    \<Rightarrow> observation_memory" where
  "observation_load lc m f =
     (case f of
        Missing \<Rightarrow> m
      | Unreadable \<Rightarrow> m\<lparr>om_recovered := True\<rparr>
      | Content v \<Rightarrow>
          if \<not> isStoredRepositoryObservation v then m\<lparr>om_recovered := True\<rparr>
          else (loaded_observations lc v)\<lparr>om_recovered := om_recovered m\<rparr>)"

text \<open>The load catches every error, so its promise is never rejected.\<close>

definition observation_ensureLoaded :: "collation \<Rightarrow> unit observation_action" where
  "observation_ensureLoaded lc = modifyA (\<lambda>s.
     if du_load s \<noteq> None then s
     else s\<lparr>du_load := Some (), du_memory := observation_load lc (du_memory s) (du_file s)\<rparr>)"

definition stored_value :: "collation \<Rightarrow> observation_memory \<Rightarrow> stored_observation" where
  "stored_value lc m = (sort_by (by_repo lc) (map_values (om_epochs m)),
     sort_by by_sequence (map_values (om_candidates m)))"

definition observation_writeAll :: "collation \<Rightarrow> observation_guard \<Rightarrow> bool \<Rightarrow> unit observation_action" where
  "observation_writeAll lc pg io = bindA (getsA (\<lambda>s. stored_value lc (du_memory s))) (\<lambda>v.
     if \<not> isStoredRepositoryObservation v then throwA Observation_incomplete
     else bindA (validate pg (Item_stored v)) (\<lambda>_.
       if \<not> io then throwA Observation_io else modifyA (\<lambda>s. s\<lparr>du_file := Content v\<rparr>)))"

section \<open>Operations\<close>

definition put_epoch :: "collation \<Rightarrow> attribution_epoch \<Rightarrow> observation_memory \<Rightarrow> observation_memory" where
  "put_epoch lc e m = m\<lparr>om_epochs := map_set (ae_repoKey e) (normalizeEpoch lc e) (om_epochs m)\<rparr>"

definition put_candidate :: "commit_candidate \<Rightarrow> observation_memory \<Rightarrow> observation_memory" where
  "put_candidate c m =
     m\<lparr>om_candidates := map_set (cc_candidateId c) (normalizeCandidate c) (om_candidates m)\<rparr>"

definition upsertEpoch :: "collation \<Rightarrow> observation_guard \<Rightarrow> bool \<Rightarrow> attribution_epoch
    \<Rightarrow> unit observation_action" where
  "upsertEpoch lc pg io e = bindA (validate pg (Item_epoch e)) (\<lambda>_.
     update_all (observation_ensureLoaded lc) (observation_writeAll lc pg io) (put_epoch lc e))"

definition persistCandidatesAndAdvance :: "collation \<Rightarrow> observation_guard \<Rightarrow> bool \<Rightarrow> attribution_epoch
    \<Rightarrow> commit_candidate list \<Rightarrow> unit observation_action" where
  "persistCandidatesAndAdvance lc pg io e cs = bindA (validate pg (Item_epoch e)) (\<lambda>_.
     bindA (forA (\<lambda>c. validate pg (Item_candidate c)) cs) (\<lambda>_.
       update_all (observation_ensureLoaded lc) (observation_writeAll lc pg io)
         (\<lambda>m. put_epoch lc e (fold put_candidate cs m))))"

definition updateCandidate :: "collation \<Rightarrow> observation_guard \<Rightarrow> bool \<Rightarrow> commit_candidate
    \<Rightarrow> unit observation_action" where
  "updateCandidate lc pg io c = bindA (validate pg (Item_candidate c)) (\<lambda>_.
     update_all (observation_ensureLoaded lc) (observation_writeAll lc pg io) (put_candidate c))"

definition listEpochs :: "collation \<Rightarrow> attribution_epoch list observation_action" where
  "listEpochs lc = bindA (observation_ensureLoaded lc) (\<lambda>_.
     getsA (\<lambda>s. map_values (om_epochs (du_memory s))))"

definition listCandidates :: "collation \<Rightarrow> commit_candidate list observation_action" where
  "listCandidates lc = bindA (observation_ensureLoaded lc) (\<lambda>_.
     getsA (\<lambda>s. sort_by by_sequence (map_values (om_candidates (du_memory s)))))"

definition observation_initialize :: "collation
    \<Rightarrow> (attribution_epoch list \<times> commit_candidate list \<times> bool) observation_action" where
  "observation_initialize lc = bindA (observation_ensureLoaded lc) (\<lambda>_.
     bindA (listEpochs lc) (\<lambda>es. bindA (listCandidates lc) (\<lambda>cs.
       getsA (\<lambda>s. (es, cs, om_recovered (du_memory s))))))"

definition kept_candidate :: "string \<Rightarrow> commit_candidate \<Rightarrow> bool" where
  "kept_candidate retainAfter c \<longleftrightarrow> cc_decision c = Pending_evidence \<or> cc_decision c = Rewrite_pending
     \<or> retainAfter \<le> cc_observedAt c"

definition applyCandidateRetention :: "collation \<Rightarrow> observation_guard \<Rightarrow> bool \<Rightarrow> string
    \<Rightarrow> nat observation_action" where
  "applyCandidateRetention lc pg io retainAfter = bindA (observation_ensureLoaded lc) (\<lambda>_.
     bindA (getsA (\<lambda>s. map_values (om_candidates (du_memory s)))) (\<lambda>cs.
       let retained = filter (kept_candidate retainAfter) cs;
           removed = length cs - length retained
       in if removed > 0
          then bindA (change_memory (\<lambda>m. m\<lparr>om_candidates := map_from cc_candidateId retained\<rparr>)) (\<lambda>_.
            bindA (observation_writeAll lc pg io) (\<lambda>_. returnA removed))
          else returnA removed))"

definition observation_clear :: "collation \<Rightarrow> observation_guard \<Rightarrow> bool \<Rightarrow> unit observation_action" where
  "observation_clear lc pg io =
     update_all (observation_ensureLoaded lc) (observation_writeAll lc pg io) (\<lambda>_. no_observations)"

section \<open>The memory is in normal form\<close>

lemma trim_trim: "trim (trim t) = trim t"
proof -
  define u where "u = dropWhile is_ws t"
  define v where "v = rev (dropWhile is_ws (rev u))"
  have "dropWhile is_ws v = v"
  proof (cases v)
    case (Cons c cs)
    have "u = v @ rev (takeWhile is_ws (rev u))"
      unfolding v_def by (metis rev_append rev_rev_ident takeWhile_dropWhile_id)
    with Cons have "u = c # tl u" by (metis append_Cons list.sel(3))
    then have "\<not> is_ws c" unfolding u_def by (metis dropWhile_eq_Cons_conv)
    with Cons show ?thesis by simp
  qed simp
  moreover have "dropWhile is_ws (rev v) = rev v" by (simp add: v_def)
  ultimately have "trim v = v" by (simp add: trim_def)
  moreover have "trim t = v" by (simp add: trim_def u_def v_def)
  ultimately show ?thesis by simp
qed

locale collated =
  fixes lc :: collation
  assumes lc: "comparator (\<lambda>a b. lc a b \<le> 0)"
begin

lemma refs: "comparator (ref_le lc)"
  unfolding ref_le_def by (rule comparator_on [OF lc])

lemma repos: "comparator (by_repo lc)"
  unfolding by_repo_def by (rule comparator_on [OF lc])

lemma epoch_normal_form: "normal_form ae_repoKey (normalizeEpoch lc)"
  by unfold_locales (auto simp: normalizeEpoch_def comparator.sort_by_idem [OF refs] option.map_comp comp_def
      max_def)

end

interpretation sequences: comparator by_sequence
  by unfold_locales (auto simp: by_sequence_def)

interpretation candidates: normal_form cc_candidateId normalizeCandidate
  by unfold_locales (auto simp: normalizeCandidate_def trimmed_message_def trim_trim split: option.splits)

definition observations_ok :: "collation \<Rightarrow> observation_memory \<Rightarrow> bool" where
  "observations_ok lc m \<longleftrightarrow> keyed_normal ae_repoKey (normalizeEpoch lc) (om_epochs m)
     \<and> keyed_normal cc_candidateId normalizeCandidate (om_candidates m)"

text \<open>What callers see of the memory: the epochs, and the candidates in the order of observation.\<close>

definition observation_view :: "observation_memory \<Rightarrow> attribution_epoch multiset \<times> commit_candidate list" where
  "observation_view m =
     (mset (map_values (om_epochs m)), sort_by by_sequence (map_values (om_candidates m)))"

lemma observations_ok_fresh: "observations_ok lc no_observations"
  by (simp add: observations_ok_def no_observations_def)

lemma observations_ok_put_candidate:
  "observations_ok lc m \<Longrightarrow> observations_ok lc (put_candidate c m)"
  by (simp add: observations_ok_def put_candidate_def candidates.keyed_put)

lemma observations_ok_put_candidates:
  "observations_ok lc m \<Longrightarrow> observations_ok lc (fold put_candidate cs m)"
  by (induction cs arbitrary: m) (simp_all add: observations_ok_put_candidate)

lemma observations_ok_retained:
  "observations_ok lc m \<Longrightarrow> observations_ok lc
     (m\<lparr>om_candidates := map_from cc_candidateId (filter P (map_values (om_candidates m)))\<rparr>)"
  by (simp add: observations_ok_def keyed_normal_filtered)

lemma retention_unfold:
  "applyCandidateRetention lc pg io t s =
     (let s1 = snd (observation_ensureLoaded lc s); m = du_memory s1;
          retained = filter (kept_candidate t) (map_values (om_candidates m));
          removed = length (om_candidates m) - length retained
      in if removed > 0
         then bindA (observation_writeAll lc pg io) (\<lambda>_. returnA removed)
           (s1\<lparr>du_memory := m\<lparr>om_candidates := map_from cc_candidateId retained\<rparr>\<rparr>)
         else (Inr removed, s1))"
  by (simp add: applyCandidateRetention_def observation_ensureLoaded_def change_memory_def bindA_def
      Let_def map_values_def)

context collated
begin

lemma observations_ok_put_epoch: "observations_ok lc m \<Longrightarrow> observations_ok lc (put_epoch lc e m)"
  by (simp add: observations_ok_def put_epoch_def normal_form.keyed_put [OF epoch_normal_form])

lemma observations_ok_load: "observations_ok lc m \<Longrightarrow> observations_ok lc (observation_load lc m f)"
  by (auto simp: observations_ok_def observation_load_def loaded_observations_def
      candidates.keyed_load normal_form.keyed_load [OF epoch_normal_form] split: disk.splits)

lemma reload_view:
  assumes "observations_ok lc m"
  shows "observation_view (loaded_observations lc (stored_value lc m)) = observation_view m"
proof -
  from assms have "keyed_normal ae_repoKey (normalizeEpoch lc) (om_epochs m)"
    "keyed_normal cc_candidateId normalizeCandidate (om_candidates m)"
    by (simp_all add: observations_ok_def)
  from this [THEN keyed_normal_reload] show ?thesis
    by (simp add: observation_view_def loaded_observations_def stored_value_def sequences.sort_by_idem)
qed

text \<open>The store is an instance of the interface of durable stores.\<close>

lemma observation_durable:
  "durable_store (observation_ensureLoaded lc) (observation_writeAll lc pg io) no_observations
     observation_view (observations_ok lc)"
proof
  show "observations_ok lc no_observations" by (rule observations_ok_fresh)
next
  fix s :: observation_store assume "observations_ok lc (du_memory s)"
  then show "observations_ok lc (du_memory (snd (observation_ensureLoaded lc s)))"
    by (simp add: observation_ensureLoaded_def observations_ok_load)
next
  fix s u s' assume "observation_writeAll lc pg io s = (Inr u, s')" "observations_ok lc (du_memory s)"
  then have s': "s' = s\<lparr>du_file := Content (stored_value lc (du_memory s))\<rparr>"
    "isStoredRepositoryObservation (stored_value lc (du_memory s))" "observations_ok lc (du_memory s)"
    by (auto simp: observation_writeAll_def bindA_Inr validate_def split: if_splits)
  moreover have "observation_view (m\<lparr>om_recovered := b\<rparr>) = observation_view m" for m b
    by (simp add: observation_view_def)
  ultimately show "du_memory s' = du_memory s \<and> (\<exists>r s''.
      observation_ensureLoaded lc (restart no_observations s') = (Inr r, s'')
      \<and> observation_view (du_memory s'') = observation_view (du_memory s))"
    by (simp add: observation_ensureLoaded_def restart_def observation_load_def reload_view)
next
  fix s e s' assume "observation_writeAll lc pg io s = (Inl e, s')"
  then show "s' = s" by (auto simp: observation_writeAll_def bindA_Inl validate_def split: if_splits)
qed

end

sublocale collated \<subseteq> observations: durable_store "observation_ensureLoaded lc"
  "observation_writeAll lc pg io" no_observations observation_view "observations_ok lc" for pg io
  by (rule observation_durable)

interpretation code_unit_collation: collated code_unit_compare
  by unfold_locales

section \<open>Runs of the store\<close>

datatype observation_op =
    Upsert_epoch attribution_epoch
  | Persist_and_advance attribution_epoch "commit_candidate list"
  | Update_candidate commit_candidate
  | Retain_candidates string
  | Clear_observations

fun run_observation_op :: "collation \<Rightarrow> observation_guard \<Rightarrow> bool \<Rightarrow> observation_op
    \<Rightarrow> unit observation_action" where
  "run_observation_op lc pg io (Upsert_epoch e) = upsertEpoch lc pg io e"
| "run_observation_op lc pg io (Persist_and_advance e cs) = persistCandidatesAndAdvance lc pg io e cs"
| "run_observation_op lc pg io (Update_candidate c) = updateCandidate lc pg io c"
| "run_observation_op lc pg io (Retain_candidates t) =
     bindA (applyCandidateRetention lc pg io t) (\<lambda>_. returnA ())"
| "run_observation_op lc pg io Clear_observations = observation_clear lc pg io"

text \<open>From any file: operations that succeed or fail, listings, and restarts of the process.\<close>

inductive observation_reachable :: "collation \<Rightarrow> observation_guard \<Rightarrow> observation_store \<Rightarrow> bool"
  for lc pg where
  boot: "observation_reachable lc pg \<lparr>du_load = None, du_memory = no_observations, du_file = f\<rparr>"
| operation: "observation_reachable lc pg s \<Longrightarrow> run_observation_op lc pg io op s = (r, s')
    \<Longrightarrow> observation_reachable lc pg s'"
| listing: "observation_reachable lc pg s \<Longrightarrow> observation_reachable lc pg (snd (observation_ensureLoaded lc s))"
| restarting: "observation_reachable lc pg s \<Longrightarrow> observation_reachable lc pg (restart no_observations s)"

lemma keeps_validate [keeps_intros]: "keeps P (validate pg item)"
  unfolding validate_def by (intro keeps_intros)

lemma validate_state: "validate pg item s = (r, s') \<Longrightarrow> s' = s"
  by (auto simp: validate_def split: if_splits)

lemma validate_all_state: "forA (\<lambda>c. validate pg (f c)) cs s = (r, s') \<Longrightarrow> s' = s"
proof (induction cs arbitrary: s)
  case (Cons c cs)
  show ?case
  proof (cases "validate pg (f c) s")
    case (Pair r1 s1)
    with validate_state [OF Pair] Cons show ?thesis by (cases r1) (auto simp: bindA_def)
  qed
qed simp

context collated
begin

lemma put_persisted_ok:
  "observations_ok lc m \<Longrightarrow> observations_ok lc (put_epoch lc e (fold put_candidate cs m))"
  by (simp add: observations_ok_put_epoch observations_ok_put_candidates)

lemmas observation_changes = observations_ok_put_epoch observations_ok_put_candidate
  put_persisted_ok observations_ok_fresh observations_ok_retained

lemma keeps_good_retention: "keeps observations.good (applyCandidateRetention lc pg io t)"
  unfolding keeps_def
proof (intro allI impI)
  fix s assume "observations.good s"
  then have g: "observations.good (snd (observation_ensureLoaded lc s))"
    using observations.keeps_good_load by (simp add: keeps_def)
  let ?s = "snd (observation_ensureLoaded lc s)"
  have g': "observations.good (?s\<lparr>du_memory := (du_memory ?s)\<lparr>om_candidates := map_from cc_candidateId
      (filter (kept_candidate t) (map_values (om_candidates (du_memory ?s))))\<rparr>\<rparr>)"
    using g observations_ok_retained by (simp add: observations.good_def)
  have k: "keeps observations.good (bindA (observation_writeAll lc pg io) (\<lambda>_. returnA n))" for n
    by (intro keeps_intros observations.keeps_good_save)
  show "observations.good (snd (applyCandidateRetention lc pg io t s))"
    unfolding retention_unfold Let_def
    using g by (cases "length (filter (kept_candidate t) (map_values (om_candidates (du_memory ?s))))
      < length (om_candidates (du_memory ?s))")
      (simp_all, rule k [unfolded keeps_def, rule_format, OF g'])
qed

lemma keeps_good_operation: "keeps observations.good (run_observation_op lc pg io op)"
  by (cases op; simp only: run_observation_op.simps upsertEpoch_def persistCandidatesAndAdvance_def
      updateCandidate_def observation_clear_def;
      intro keeps_intros keeps_good_retention observations.keeps_good_update_all observation_changes)

lemma reachable_good: "observation_reachable lc pg s \<Longrightarrow> observations.good s"
proof (induction rule: observation_reachable.induct)
  case (boot f)
  then show ?case by (simp add: observations.good_def observations_ok_fresh)
next
  case (operation s io op r s')
  then show ?case using keepsD [OF keeps_good_operation] by blast
next
  case (listing s)
  then show ?case using observations.keeps_good_load by (simp add: keeps_def)
next
  case (restarting s)
  then show ?case by (simp add: observations.good_restart)
qed

end

section \<open>What is durable\<close>

definition is_loaded :: "observation_store \<Rightarrow> bool" where
  "is_loaded s \<longleftrightarrow> du_load s \<noteq> None"

lemma loaded_observation_load: "is_loaded (snd (observation_ensureLoaded lc s))"
  by (simp add: is_loaded_def observation_ensureLoaded_def)

lemma ensureLoaded_file [simp]: "du_file (snd (observation_ensureLoaded lc s)) = du_file s"
  by (simp add: observation_ensureLoaded_def)

lemma ensureLoaded_Inr: "observation_ensureLoaded lc s = (Inr (), snd (observation_ensureLoaded lc s))"
  by (simp add: observation_ensureLoaded_def)

lemma writeAll_Inr:
  "observation_writeAll lc pg io s = (Inr u, s') \<longleftrightarrow>
     isStoredRepositoryObservation (stored_value lc (du_memory s)) \<and> io
     \<and> pg (Item_stored (stored_value lc (du_memory s))) = []
     \<and> s' = s\<lparr>du_file := Content (stored_value lc (du_memory s))\<rparr>"
  by (auto simp: observation_writeAll_def bindA_Inr validate_def split: if_splits)

lemma writeAll_Inl: "observation_writeAll lc pg io s = (Inl e, s') \<Longrightarrow> s' = s"
  by (auto simp: observation_writeAll_def bindA_Inl validate_def split: if_splits)

text \<open>The body shared by the operations, unfolded.\<close>

lemma update_observations:
  assumes "update_all (observation_ensureLoaded lc) (observation_writeAll lc pg io) g s = (r, s')"
  shows "is_loaded s'" "du_memory s' = g (du_memory (snd (observation_ensureLoaded lc s)))"
    "case r of Inl _ \<Rightarrow> du_file s' = du_file s
       | Inr _ \<Rightarrow> du_file s' = Content (stored_value lc (du_memory s'))"
proof -
  let ?s = "snd (observation_ensureLoaded lc s)"
  let ?t = "?s\<lparr>du_memory := g (du_memory ?s)\<rparr>"
  have w: "observation_writeAll lc pg io ?t = (r, s')"
    using assms by (simp add: update_all_def change_memory_def bindA_step(1) [OF ensureLoaded_Inr] bindA_def)
  have "is_loaded ?t" using loaded_observation_load [of lc s] by (simp add: is_loaded_def)
  with w show "is_loaded s'" "du_memory s' = g (du_memory ?s)"
    "case r of Inl _ \<Rightarrow> du_file s' = du_file s
       | Inr _ \<Rightarrow> du_file s' = Content (stored_value lc (du_memory s'))"
    by (cases r; auto simp: writeAll_Inr is_loaded_def dest!: writeAll_Inl)+
qed

text \<open>Every operation writes, but a retention that finds nothing to remove.\<close>

fun op_writes :: "collation \<Rightarrow> observation_op \<Rightarrow> observation_store \<Rightarrow> bool" where
  "op_writes lc (Retain_candidates t) s =
     list_ex (\<lambda>c. \<not> kept_candidate t c) (projr (fst (listCandidates lc s)))"
| "op_writes lc op s = True"

lemma listed_after_load:
  "fst (listCandidates lc s) = Inr (sort_by by_sequence (map_values (om_candidates (du_memory (snd (observation_ensureLoaded lc s))))))"
  by (simp add: listCandidates_def bindA_step(1) [OF ensureLoaded_Inr])

lemma retention_writes:
  assumes "applyCandidateRetention lc pg io t s = (Inr n, s')" "op_writes lc (Retain_candidates t) s"
  shows "update_all (observation_ensureLoaded lc) (observation_writeAll lc pg io)
    (\<lambda>m. m\<lparr>om_candidates := map_from cc_candidateId (filter (kept_candidate t) (map_values (om_candidates m)))\<rparr>) s = (Inr (), s')"
proof -
  let ?s = "snd (observation_ensureLoaded lc s)"
  have "\<exists>c \<in> set (map_values (om_candidates (du_memory ?s))). \<not> kept_candidate t c"
    using assms(2) by (simp add: listed_after_load list_ex_iff)
  then have "length (filter (kept_candidate t) (map_values (om_candidates (du_memory ?s)))) < length (om_candidates (du_memory ?s))"
    using length_filter_less [of _ "map_values (om_candidates (du_memory ?s))"] by (auto simp: map_values_def)
  then show ?thesis using assms(1)
    by (simp add: retention_unfold Let_def update_all_def change_memory_def bindA_step(1) [OF ensureLoaded_Inr] bindA_Inr)
qed

lemma retention_idle:
  assumes "applyCandidateRetention lc pg io t s = (Inr n, s')" "\<not> op_writes lc (Retain_candidates t) s"
  shows "s' = snd (observation_ensureLoaded lc s)"
proof -
  let ?s = "snd (observation_ensureLoaded lc s)"
  have "filter (kept_candidate t) (map_values (om_candidates (du_memory ?s))) = map_values (om_candidates (du_memory ?s))"
    using assms(2) by (simp add: listed_after_load list_ex_iff)
  then have "applyCandidateRetention lc pg io t s = (Inr 0, ?s)"
    unfolding retention_unfold Let_def by (simp add: map_values_def del: filter_map)
  with assms(1) show ?thesis by simp
qed

text \<open>A successful operation that writes is its update of the memory, and a write of all of it.\<close>

lemma written_operation:
  assumes "run_observation_op lc pg io op s = (Inr (), s')" "op_writes lc op s"
  obtains g where
    "update_all (observation_ensureLoaded lc) (observation_writeAll lc pg io) g s = (Inr (), s')"
    "comparator (\<lambda>a b. lc a b \<le> 0) \<Longrightarrow> (\<And>m. observations_ok lc m \<Longrightarrow> observations_ok lc (g m))"
proof (cases op)
  case (Retain_candidates t)
  then obtain n where "applyCandidateRetention lc pg io t s = (Inr n, s')" using assms(1) by (auto simp: bindA_Inr)
  from retention_writes [OF this] assms(2) Retain_candidates show thesis
    using that collated.observation_changes [OF collated.intro] by blast
qed (use assms that collated.observation_changes [OF collated.intro] in
  \<open>auto simp: upsertEpoch_def persistCandidatesAndAdvance_def updateCandidate_def
        observation_clear_def bindA_Inr dest!: validate_state validate_all_state\<close>)

lemma listed_loaded:
  "is_loaded s \<Longrightarrow> fst (listEpochs lc s) = Inr (map_values (om_epochs (du_memory s)))"
  "is_loaded s \<Longrightarrow> fst (listCandidates lc s) =
     Inr (sort_by by_sequence (map_values (om_candidates (du_memory s))))"
  by (simp_all add: listEpochs_def listCandidates_def observation_ensureLoaded_def is_loaded_def
      bindA_def)

lemma listed_restarted:
  assumes "observation_ensureLoaded lc s = (r, s')"
  shows "fst (listEpochs lc s) = Inr (map_values (om_epochs (du_memory s')))"
    "fst (listCandidates lc s) = Inr (sort_by by_sequence (map_values (om_candidates (du_memory s'))))"
  using assms ensureLoaded_Inr [of lc s] by (simp_all add: listEpochs_def listCandidates_def bindA_def)

context collated
begin

lemma restart_lists:
  assumes "observation_reachable lc pg s"
    and "run_observation_op lc pg io op s = (Inr (), s')" "op_writes lc op s"
  shows "fst (listCandidates lc (restart no_observations s')) = fst (listCandidates lc s')
    \<and> mset (projr (fst (listEpochs lc (restart no_observations s'))))
      = mset (projr (fst (listEpochs lc s')))"
proof -
  from assms(2,3) obtain g where
    u: "update_all (observation_ensureLoaded lc) (observation_writeAll lc pg io) g s = (Inr (), s')"
    and g: "\<And>m. observations_ok lc m \<Longrightarrow> observations_ok lc (g m)"
    using lc by (metis written_operation)
  have "observations.synced s'"
    by (rule observations.synced_update_all [OF u reachable_good [OF assms(1)] g])
  then obtain r s'' where l: "observation_ensureLoaded lc (restart no_observations s') = (r, s'')"
    and v: "observation_view (du_memory s'') = observation_view (du_memory s')"
    unfolding observations.synced_def by blast
  show ?thesis using v
    by (simp add: listed_restarted [OF l] listed_loaded [OF update_observations(1) [OF u]] observation_view_def)
qed

lemma retained_lists:
  assumes "observation_reachable lc pg s"
    and "run_observation_op lc pg io (Retain_candidates t) s = (Inr (), s')"
  shows "set (projr (fst (listCandidates lc s'))) = {c \<in> set (projr (fst (listCandidates lc s))). kept_candidate t c}"
proof -
  let ?s = "snd (observation_ensureLoaded lc s)"
  obtain n where run: "applyCandidateRetention lc pg io t s = (Inr n, s')" using assms(2) by (auto simp: bindA_Inr)
  show ?thesis
  proof (cases "op_writes lc (Retain_candidates t) s")
    case True
    let ?kept = "filter (kept_candidate t) (map_values (om_candidates (du_memory ?s)))"
    have "observations.good ?s"
      using observations.keeps_good_load reachable_good [OF assms(1)] by (simp add: keeps_def)
    then have ok: "keyed_normal cc_candidateId normalizeCandidate (om_candidates (du_memory ?s))"
      by (simp add: observations.good_def observations_ok_def)
    then have "map cc_candidateId (map_values (om_candidates (du_memory ?s))) = map fst (om_candidates (du_memory ?s))"
      by (auto simp: keyed_normal_def map_values_def)
    then have "distinct (map cc_candidateId ?kept)"
      using ok by (intro distinct_map_filter) (simp add: keyed_normal_def)
    then have "map_values (map_from cc_candidateId ?kept) = ?kept"
      by (simp add: map_from_distinct map_values_def comp_def)
    moreover note u = update_observations(1,2) [OF retention_writes [OF run True]]
    ultimately have "set (projr (fst (listCandidates lc s'))) = set ?kept" by (simp add: listed_loaded [OF u(1)] u(2))
    then show ?thesis by (simp add: listed_after_load)
  next
    case False
    from retention_idle [OF run False]
    have "listCandidates lc s' = listCandidates lc s"
      by (simp add: listCandidates_def observation_ensureLoaded_def bindA_def)
    then show ?thesis using False by (auto simp: list_ex_iff)
  qed
qed

end

lemma fold_put_candidate:
  "om_epochs (fold put_candidate cs m) = om_epochs m"
  "om_candidates (fold put_candidate cs m)
     = foldl (\<lambda>m c. map_set (cc_candidateId c) (normalizeCandidate c) m) (om_candidates m) cs"
  by (induction cs arbitrary: m) (simp_all add: put_candidate_def)

lemma put_candidates_last:
  "map_get (om_candidates (fold put_candidate cs m)) k =
     (case map_get (map_from cc_candidateId cs) k of
        Some c \<Rightarrow> Some (normalizeCandidate c) | None \<Rightarrow> map_get (om_candidates m) k)"
  unfolding fold_put_candidate map_from_def
  by (induction cs rule: rev_induct) (auto split: option.splits)

lemma map_get_values: "map_get m k = Some x \<Longrightarrow> x \<in> set (map_values m)"
  by (force simp: map_values_def dest: map_of_SomeD)

text \<open>
  C37: what was written survives a restart. After any operation that succeeds and writes (all do, but a
  retention that finds nothing to remove), in any state that runs, failures and restarts can produce, a new
  process over the same file lists exactly the same candidates in the same order, and the same epochs. A
  retention leaves exactly the candidates that are pending or recent, and one that removes nothing leaves
  the file and the listings as they were.
\<close>

theorem observation_restart:
  assumes "comparator (\<lambda>a b. lc a b \<le> 0)" "observation_reachable lc pg s"
    and "run_observation_op lc pg io op s = (Inr (), s')"
  shows "(op_writes lc op s \<longrightarrow>
      fst (listCandidates lc (restart no_observations s')) = fst (listCandidates lc s')
      \<and> mset (projr (fst (listEpochs lc (restart no_observations s')))) = mset (projr (fst (listEpochs lc s'))))
    \<and> (\<not> op_writes lc op s \<longrightarrow> du_file s' = du_file s
      \<and> listCandidates lc s' = listCandidates lc s \<and> listEpochs lc s' = listEpochs lc s)
    \<and> (\<forall>t. op = Retain_candidates t \<longrightarrow>
      set (projr (fst (listCandidates lc s'))) = {c \<in> set (projr (fst (listCandidates lc s))). kept_candidate t c})"
proof (intro conjI impI allI)
  assume "op_writes lc op s"
  from collated.restart_lists [OF collated.intro [OF assms(1)] assms(2,3) this]
  show "fst (listCandidates lc (restart no_observations s')) = fst (listCandidates lc s')"
    "mset (projr (fst (listEpochs lc (restart no_observations s')))) = mset (projr (fst (listEpochs lc s')))" by blast+
next
  assume idle: "\<not> op_writes lc op s"
  then obtain t n where "op = Retain_candidates t" "applyCandidateRetention lc pg io t s = (Inr n, s')"
    using assms(3) by (cases op) (auto simp: bindA_Inr)
  with idle have s': "s' = snd (observation_ensureLoaded lc s)" using retention_idle by blast
  show "du_file s' = du_file s" "listCandidates lc s' = listCandidates lc s" "listEpochs lc s' = listEpochs lc s"
    unfolding s' by (simp_all add: listCandidates_def listEpochs_def observation_ensureLoaded_def bindA_def)
next
  fix t assume "op = Retain_candidates t"
  with collated.retained_lists [OF collated.intro [OF assms(1)] assms(2)] assms(3) show "set (projr (fst (listCandidates lc s')))
      = {c \<in> set (projr (fst (listCandidates lc s))). kept_candidate t c}" by blast
qed

definition sample_epoch :: "string \<Rightarrow> attribution_epoch" where
  "sample_epoch r = \<lparr>ae_epochId = ''e'', ae_repoKey = r, ae_startedAt = ''2026-07-01T00:00:00.000Z'',
     ae_initialHead = None, ae_cursorHead = Some ''h'', ae_cursorRefKey = None,
     ae_refHeads = Some [(''main'', ''h'')], ae_nextSequence = 2, ae_status = Epoch_active\<rparr>"

definition sample_observed :: commit_candidate where
  "sample_observed = \<lparr>cc_candidateId = ''c'', cc_epochId = ''e'', cc_repoKey = ''r'', cc_commitHash = ''h'',
     cc_commitMessage = Some '' fix '', cc_parentHashes = [''p'', ''  '', ''p''], cc_refKey = None,
     cc_observedAt = ''2026-07-01T00:00:01.000Z'', cc_committedAt = None, cc_observedSequence = 1,
     cc_artifactStates = [], cc_transitionKind = Fast_forward, cc_decision = Pending_evidence,
     cc_reasonCodes = []\<rparr>"

definition booted :: observation_store where
  "booted = \<lparr>du_load = None, du_memory = no_observations, du_file = Missing\<rparr>"

theorem observation_restart_witness:
  "\<exists>s'. persistCandidatesAndAdvance code_unit_compare (\<lambda>_. []) True (sample_epoch ''r'') [sample_observed]
       booted = (Inr (), s')
     \<and> fst (listCandidates code_unit_compare (restart no_observations s')) = Inr [normalizeCandidate sample_observed]"
proof -
  let ?op = "Persist_and_advance (sample_epoch ''r'') [sample_observed]"
  have r: "observation_reachable code_unit_compare (\<lambda>_. []) booted"
    unfolding booted_def by (rule observation_reachable.boot)
  have ok: "fst (run_observation_op code_unit_compare (\<lambda>_. []) True ?op booted) = Inr ()"
    and listed: "fst (listCandidates code_unit_compare
      (snd (run_observation_op code_unit_compare (\<lambda>_. []) True ?op booted))) = Inr [normalizeCandidate sample_observed]"
    by code_simp+
  then obtain s' where s': "run_observation_op code_unit_compare (\<lambda>_. []) True ?op booted = (Inr (), s')"
    by (metis prod.collapse)
  have "op_writes code_unit_compare ?op booted" by simp
  with observation_restart [OF code_units.comparator_axioms r s'] listed s' show ?thesis by simp
qed

lemma validate_all:
  "list_all (\<lambda>c. pg (f c) = []) cs \<Longrightarrow> forA (\<lambda>c. validate pg (f c)) cs s = (Inr (), s)"
  "\<not> list_all (\<lambda>c. pg (f c) = []) cs \<Longrightarrow> \<exists>e. forA (\<lambda>c. validate pg (f c)) cs s = (Inl e, s)"
  by (induction cs) (auto simp: validate_def bindA_def)

lemma persist_cases:
  assumes "persistCandidatesAndAdvance lc pg io e cs s = (r, s')"
  obtains (refused) er where "r = Inl er" "s' = s"
      "\<not> (pg (Item_epoch e) = [] \<and> list_all (\<lambda>c. pg (Item_candidate c) = []) cs)"
  | (tried) "update_all (observation_ensureLoaded lc) (observation_writeAll lc pg io)
      (\<lambda>m. put_epoch lc e (fold put_candidate cs m)) s = (r, s')"
  using assms validate_all(1) [of pg Item_candidate cs s] validate_all(2) [of pg Item_candidate cs s]
  by (cases "list_all (\<lambda>c. pg (Item_candidate c) = []) cs")
    (auto simp: persistCandidatesAndAdvance_def validate_def bindA_def split: if_splits)

text \<open>
  C38: the durable cursor never passes a commit that is not durable. Advancing an epoch past
  some candidates either fails and leaves the file as it was, or the file has the epoch and the
  last report of each of the candidates. A refusal after the checks of the arguments is only one
  of the file: the memory has the advanced epoch already, so the next write that succeeds makes it
  durable after all.
\<close>

theorem durable_cursor:
  assumes "persistCandidatesAndAdvance lc pg io e cs s = (r, s')"
  shows "(case r of
      Inl _ \<Rightarrow> du_file s' = du_file s
        \<and> (pg (Item_epoch e) = [] \<and> list_all (\<lambda>c. pg (Item_candidate c) = []) cs \<longrightarrow>
            map_get (om_epochs (du_memory s')) (ae_repoKey e) = Some (normalizeEpoch lc e))
    | Inr _ \<Rightarrow> \<exists>epochs stored. du_file s' = Content (epochs, stored)
        \<and> normalizeEpoch lc e \<in> set epochs
        \<and> normalizeCandidate ` set (map_values (map_from cc_candidateId cs)) \<subseteq> set stored)"
proof -
  let ?g = "\<lambda>m. put_epoch lc e (fold put_candidate cs m)"
  have epoch: "map_get (om_epochs (?g m)) (ae_repoKey e) = Some (normalizeEpoch lc e)" for m
    by (simp add: put_epoch_def)
  have cands: "normalizeCandidate ` set (map_values (map_from cc_candidateId cs))
      \<subseteq> set (map_values (om_candidates (?g m)))" for m
  proof
    fix x assume "x \<in> normalizeCandidate ` set (map_values (map_from cc_candidateId cs))"
    then obtain k c where "(k, c) \<in> set (map_from cc_candidateId cs)" "x = normalizeCandidate c"
      by (auto simp: map_values_def)
    then have "map_get (om_candidates (?g m)) k = Some x"
      by (simp add: put_epoch_def put_candidates_last map_of_is_SomeI)
    then show "x \<in> set (map_values (om_candidates (?g m)))" by (rule map_get_values)
  qed
  from assms show ?thesis
  proof (cases rule: persist_cases)
    case refused
    then show ?thesis by auto
  next
    case tried
    note u = update_observations [OF tried]
    show ?thesis
    proof (cases r)
      case (Inl er)
      with u epoch show ?thesis by simp
    next
      case (Inr x)
      let ?m = "du_memory s'"
      have "normalizeEpoch lc e \<in> set (map_values (om_epochs ?m))"
        unfolding u(2) by (rule map_get_values [OF epoch])
      moreover have "normalizeCandidate ` set (map_values (map_from cc_candidateId cs))
          \<subseteq> set (map_values (om_candidates ?m))" unfolding u(2) by (rule cands)
      ultimately show ?thesis using u(3) Inr by (simp add: stored_value_def)
    qed
  qed
qed

theorem durable_cursor_witness:
  "\<exists>s'. persistCandidatesAndAdvance code_unit_compare (\<lambda>_. []) False (sample_epoch ''r'') [sample_observed]
       booted = (Inl Observation_io, s')
     \<and> du_file s' = Missing \<and> map_get (om_epochs (du_memory s')) ''r'' \<noteq> None"
proof -
  let ?r = "persistCandidatesAndAdvance code_unit_compare (\<lambda>_. []) False (sample_epoch ''r'') [sample_observed] booted"
  have "fst ?r = Inl Observation_io" by code_simp
  then obtain s' where s': "?r = (Inl Observation_io, s')" by (metis prod.collapse)
  from durable_cursor [OF s'] s' show ?thesis by (simp add: booted_def sample_epoch_def)
qed

end
