(* ===== verification/WorkspaceEvidenceLedger.thy ===== *)
theory WorkspaceEvidenceLedger
  imports RepositoryObservationStore
begin

text \<open>
  The ledger of workspace evidence: src/src/storage/workspaceEvidenceLedger.ts. It keeps the
  evidence of a query in a repository under the text of both, one record on each line of the file.
  \<open>lc\<close>, \<open>pg\<close> and \<open>io\<close> are as in \<open>RepositoryObservationStore\<close>.
\<close>

type_synonym evidence_ledger = "((string, work_evidence) jsmap, work_evidence option list,
  jsonl_error + unit) durable"

type_synonym evidence_guard = "work_evidence \<Rightarrow> string list"

type_synonym 'a evidence_action = "(evidence_ledger, jsonl_error, 'a) action"

definition workspaceEvidenceKey :: "string \<Rightarrow> string \<Rightarrow> string" where
  "workspaceEvidenceKey queryId repoKey = queryId @ '':'' @ repoKey"

definition key_of_evidence :: "work_evidence \<Rightarrow> string" where
  "key_of_evidence e = workspaceEvidenceKey (we_queryId e) (we_repoKey e)"

definition normalizeWorkspaceEvidence :: "work_evidence \<Rightarrow> work_evidence" where
  "normalizeWorkspaceEvidence e = e\<lparr>we_runIds := unique_sorted (we_runIds e),
     we_baselineReasons := unique_sorted (we_baselineReasons e),
     we_artifactKeys := unique_sorted (we_artifactKeys e)\<rparr>"

definition evidence_load :: "unit evidence_action" where
  "evidence_load s =
     (case jsonl_records (du_file s) of
        None \<Rightarrow> (Inl Read_failed, s)
      | Some records \<Rightarrow> (Inr (), s\<lparr>du_memory := foldl (\<lambda>m e. map_set (key_of_evidence e) e m)
          (du_memory s) (map normalizeWorkspaceEvidence records)\<rparr>))"

definition evidence_ensureLoaded :: "unit evidence_action" where
  "evidence_ensureLoaded = once evidence_load"

definition by_start :: "collation \<Rightarrow> work_evidence \<Rightarrow> work_evidence \<Rightarrow> bool" where
  "by_start lc a b \<longleftrightarrow> lc (we_startedAt a) (we_startedAt b) \<le> 0"

definition checkEvidence :: "evidence_guard \<Rightarrow> work_evidence \<Rightarrow> unit evidence_action" where
  "checkEvidence pg e = (if pg e \<noteq> [] then throwA (Record_privacy (pg e)) else returnA ())"

definition evidence_writeAll :: "collation \<Rightarrow> evidence_guard \<Rightarrow> bool \<Rightarrow> unit evidence_action" where
  "evidence_writeAll lc pg io =
     bindA (getsA (\<lambda>s. sort_by (by_start lc) (map_values (du_memory s)))) (\<lambda>records.
       bindA (forA (checkEvidence pg) records) (\<lambda>_.
         if \<not> io then throwA Write_failed
         else modifyA (\<lambda>s. s\<lparr>du_file := Content (map Some records)\<rparr>)))"

section \<open>Operations\<close>

definition upsertEvidence :: "collation \<Rightarrow> evidence_guard \<Rightarrow> bool \<Rightarrow> work_evidence
    \<Rightarrow> unit evidence_action" where
  "upsertEvidence lc pg io e = bindA (checkEvidence pg e) (\<lambda>_.
     update_all evidence_ensureLoaded (evidence_writeAll lc pg io)
       (map_set (key_of_evidence e) (normalizeWorkspaceEvidence e)))"

definition listEvidence :: "string option \<Rightarrow> string option \<Rightarrow> evidence_status option
    \<Rightarrow> work_evidence list evidence_action" where
  "listEvidence queryId repoKey status = bindA evidence_ensureLoaded (\<lambda>_. getsA (\<lambda>s.
     filter (\<lambda>e. (\<not> truthy queryId \<or> Some (we_queryId e) = queryId)
         \<and> (\<not> truthy repoKey \<or> Some (we_repoKey e) = repoKey)
         \<and> (status = None \<or> we_status e = status))
       (map_values (du_memory s))))"

definition map_delete :: "'k \<Rightarrow> ('k, 'v) jsmap \<Rightarrow> ('k, 'v) jsmap" where
  "map_delete k m = filter (\<lambda>(k', _). k' \<noteq> k) m"

definition removeEvidence :: "collation \<Rightarrow> evidence_guard \<Rightarrow> bool \<Rightarrow> string \<Rightarrow> string
    \<Rightarrow> unit evidence_action" where
  "removeEvidence lc pg io queryId repoKey = bindA evidence_ensureLoaded (\<lambda>_.
     bindA (getsA (\<lambda>s. map_get (du_memory s) (workspaceEvidenceKey queryId repoKey))) (\<lambda>found.
       if found = None then returnA ()
       else bindA (change_memory (map_delete (workspaceEvidenceKey queryId repoKey)))
         (\<lambda>_. evidence_writeAll lc pg io)))"

definition evidence_applyRetention :: "collation \<Rightarrow> evidence_guard \<Rightarrow> bool \<Rightarrow> string list
    \<Rightarrow> nat evidence_action" where
  "evidence_applyRetention lc pg io retainedQueryIds = bindA evidence_ensureLoaded (\<lambda>_.
     bindA (getsA (\<lambda>s. map_values (du_memory s))) (\<lambda>items.
       let retained = filter (\<lambda>e. we_queryId e \<in> set retainedQueryIds) items;
           removed = length items - length retained
       in if removed > 0
          then bindA (change_memory (\<lambda>_. map_from key_of_evidence retained)) (\<lambda>_.
            bindA (evidence_writeAll lc pg io) (\<lambda>_. returnA removed))
          else returnA removed))"

definition evidence_clear :: "collation \<Rightarrow> evidence_guard \<Rightarrow> bool \<Rightarrow> unit evidence_action" where
  "evidence_clear lc pg io = update_all evidence_ensureLoaded (evidence_writeAll lc pg io) (\<lambda>_. [])"

section \<open>The ledger is a durable store\<close>

interpretation workspace_evidence: normal_form key_of_evidence normalizeWorkspaceEvidence
  by unfold_locales (simp_all add: key_of_evidence_def normalizeWorkspaceEvidence_def)

text \<open>Keys tell queries and repositories apart when query identifiers have no colon.\<close>

lemma colon_split:
  "CHR '':'' \<notin> set q \<Longrightarrow> CHR '':'' \<notin> set q' \<Longrightarrow> q @ '':'' @ r = q' @ '':'' @ r' \<Longrightarrow> q = q' \<and> r = r'"
proof (induction q arbitrary: q')
  case Nil
  then show ?case by (cases q') auto
next
  case (Cons c q)
  then show ?case by (cases q') auto
qed

lemma checkEvidence_state: "forA (checkEvidence pg) es s = (r, s') \<Longrightarrow> s' = s"
  by (induction es arbitrary: s) (auto simp: checkEvidence_def bindA_def split: if_splits)

interpretation evidence_store: durable_store evidence_ensureLoaded "evidence_writeAll lc pg io"
  "[]" "\<lambda>m. mset (map_values m)" "keyed_normal key_of_evidence normalizeWorkspaceEvidence" for lc pg io
proof
  show "keyed_normal key_of_evidence normalizeWorkspaceEvidence []" by simp
next
  fix s :: evidence_ledger
  assume "keyed_normal key_of_evidence normalizeWorkspaceEvidence (du_memory s)"
  then show "keyed_normal key_of_evidence normalizeWorkspaceEvidence
      (du_memory (snd (evidence_ensureLoaded s)))"
    by (auto simp: evidence_ensureLoaded_def evidence_load_def workspace_evidence.keyed_fold
        split: option.splits)
next
  fix s u and s' :: evidence_ledger
  assume w: "evidence_writeAll lc pg io s = (Inr u, s')"
    and n: "keyed_normal key_of_evidence normalizeWorkspaceEvidence (du_memory s)"
  let ?r = "sort_by (by_start lc) (map_values (du_memory s))"
  have s': "s' = s\<lparr>du_file := Content (map Some ?r)\<rparr>"
    using w by (auto simp: evidence_writeAll_def bindA_Inr split: if_splits dest: checkEvidence_state)
  then show "du_memory s' = du_memory s \<and> (\<exists>r s''. evidence_ensureLoaded (restart [] s') = (Inr r, s'')
      \<and> mset (map_values (du_memory s'')) = mset (map_values (du_memory s)))"
    using keyed_normal_reload [OF n, of ?r]
    by (simp add: evidence_ensureLoaded_def once_restart evidence_load_def)
      (simp add: restart_def flip: map_from_def)
next
  fix s e and s' :: evidence_ledger
  assume "evidence_writeAll lc pg io s = (Inl e, s')"
  then show "s' = s"
    by (auto simp: evidence_writeAll_def bindA_Inl split: if_splits dest: checkEvidence_state)
qed

end
