(* ===== verification/WorkEpisodeLedger.thy ===== *)
theory WorkEpisodeLedger
  imports RepositoryObservationStore CommitAttributionLedger
begin

text \<open>
  The ledger of work episodes: src/src/storage/workEpisodeLedger.ts. It keeps the episodes by
  identifier, one on each line of the file, and compacts the file when it is loaded: episodes of
  the same repositories, session and head are merged when they share a query, a run or a commit,
  or follow each other within four hours. \<open>pg\<close> is the privacy guard and \<open>io\<close> says whether the
  file system accepts a write.
\<close>

section \<open>Normal form\<close>

definition normalizeEpisodeEvidence :: "work_evidence \<Rightarrow> work_evidence" where
  "normalizeEpisodeEvidence e = e\<lparr>we_runIds := unique_sorted (we_runIds e),
     we_baselineReasons := unique_sorted (we_baselineReasons e),
     we_artifactKeys := unique_sorted (we_artifactKeys e)\<rparr>"

definition declared_repos :: "episode \<Rightarrow> string list" where
  "declared_repos e = nullish (ep_repoKeys e) (if truthy (ep_repoKey e) then [the (ep_repoKey e)] else [])"

definition normalizeEpisode :: "episode \<Rightarrow> episode" where
  "normalizeEpisode e = e\<lparr>
     ep_repoKeys := Some (unique_sorted (declared_repos e)),
     ep_epochIds := Some (unique_sorted (nullish (ep_epochIds e) [])),
     ep_queryIds := unique_sorted (ep_queryIds e),
     ep_runIds := unique_sorted (ep_runIds e),
     ep_evidence := map normalizeEpisodeEvidence (ep_evidence e),
     ep_confidenceReasons := map_option unique_sorted (ep_confidenceReasons e)\<rparr>"

section \<open>Queries\<close>

record episode_query =
  eq_episodeId :: "string option"
  eq_queryId :: "string option"
  eq_runId :: "string option"
  eq_chatSessionId :: "string option"
  eq_repoKey :: "string option"
  eq_commitHash :: "string option"
  eq_status :: "episode_status option"
  eq_range :: "(string \<times> string) option"
  eq_limit :: "int option"

definition any_episode :: episode_query where
  "any_episode = \<lparr>eq_episodeId = None, eq_queryId = None, eq_runId = None, eq_chatSessionId = None,
     eq_repoKey = None, eq_commitHash = None, eq_status = None, eq_range = None, eq_limit = None\<rparr>"

definition matchesQuery :: "episode \<Rightarrow> episode_query \<Rightarrow> bool" where
  "matchesQuery e q =
     (if truthy (eq_episodeId q) \<and> Some (ep_episodeId e) \<noteq> eq_episodeId q then False
      else if truthy (eq_repoKey q) \<and> ep_repoKey e \<noteq> eq_repoKey q
         \<and> the (eq_repoKey q) \<notin> set (nullish (ep_repoKeys e) []) then False
      else if truthy (eq_commitHash q) \<and> ep_claimedByCommitHash e \<noteq> eq_commitHash q then False
      else if eq_status q \<noteq> None \<and> Some (ep_status e) \<noteq> eq_status q then False
      else case eq_range q of
             Some (from_time, to_time) \<Rightarrow>
               from_time \<le> ep_lastAgentActivityAt e \<and> ep_lastAgentActivityAt e \<le> to_time
           | None \<Rightarrow> True)"

section \<open>Merging\<close>

definition evidenceKey :: "work_evidence \<Rightarrow> string" where
  "evidenceKey e = we_queryId e @ '':'' @ we_repoKey e @ '':'' @ nullish (we_epochId e) ''legacy''"

text \<open>The earliest and the latest of the strings that are defined.\<close>

definition minIsoOptional :: "string option list \<Rightarrow> string option" where
  "minIsoOptional xs = (case sort (map the (filter (\<lambda>x. x \<noteq> None) xs)) of [] \<Rightarrow> None | t # _ \<Rightarrow> Some t)"

definition maxIsoOptional :: "string option list \<Rightarrow> string option" where
  "maxIsoOptional xs = (case sort (map the (filter (\<lambda>x. x \<noteq> None) xs)) of [] \<Rightarrow> None | ts \<Rightarrow> Some (last ts))"

definition mergeArtifactStates :: "artifact_state list \<Rightarrow> artifact_state list \<Rightarrow> artifact_state list" where
  "mergeArtifactStates a b = map_values (foldl (\<lambda>m s. map_set (as_artifactKey s) s m) (map_from as_artifactKey a) b)"

definition merged_evidence :: "work_evidence \<Rightarrow> work_evidence \<Rightarrow> work_evidence" where
  "merged_evidence current item = current\<lparr>
     we_runIds := unique_sorted (we_runIds current @ we_runIds item),
     we_completedAt := maxIsoOptional [we_completedAt current, we_completedAt item],
     we_baselineTrusted := we_baselineTrusted current \<and> we_baselineTrusted item,
     we_baselineReasons := unique_sorted (we_baselineReasons current @ we_baselineReasons item),
     we_dirtyAtStart := we_dirtyAtStart current \<or> we_dirtyAtStart item,
     we_observedChangeCount := length (dedup (we_artifactKeys current @ we_artifactKeys item)),
     we_artifactKeys := unique_sorted (we_artifactKeys current @ we_artifactKeys item),
     we_artifactStates :=
       Some (mergeArtifactStates (nullish (we_artifactStates current) []) (nullish (we_artifactStates item) [])),
     we_addedLines := max (we_addedLines current) (we_addedLines item),
     we_deletedLines := max (we_deletedLines current) (we_deletedLines item),
     we_firstObservedAt := minIsoOptional [we_firstObservedAt current, we_firstObservedAt item],
     we_lastObservedAt := maxIsoOptional [we_lastObservedAt current, we_lastObservedAt item]\<rparr>"

definition mergeEpisodeEvidence :: "work_evidence list \<Rightarrow> work_evidence list \<Rightarrow> work_evidence list" where
  "mergeEpisodeEvidence a b = map_values (foldl (\<lambda>m item. map_set (evidenceKey item)
       (case map_get m (evidenceKey item) of None \<Rightarrow> item | Some current \<Rightarrow> merged_evidence current item) m)
     (map_from evidenceKey a) b)"

fun episodeStatusPriority :: "episode_status \<Rightarrow> nat" where
  "episodeStatusPriority Ep_claimed = 4"
| "episodeStatusPriority Ep_manual_review = 3"
| "episodeStatusPriority Ep_open = 2"
| "episodeStatusPriority _ = 1"

definition confidencePriority :: "confidence option \<Rightarrow> nat" where
  "confidencePriority c = (if c = Some High then 3 else if c = Some Medium then 2 else 1)"

definition mergeEpisodes :: "episode \<Rightarrow> episode \<Rightarrow> episode" where
  "mergeEpisodes a b =
     (let preferredId = (if truthy (ep_claimedByCommitHash a) then ep_episodeId a
            else if truthy (ep_claimedByCommitHash b) then ep_episodeId b else ep_episodeId a);
          claimedBy = or_else (ep_claimedByCommitHash a) (ep_claimedByCommitHash b);
          repos = unique_sorted (nullish (ep_repoKeys a) [] @ nullish (ep_repoKeys b) [])
      in normalizeEpisode (a\<lparr>
           ep_episodeId := preferredId,
           ep_repoKey := (if length repos = 1 then Some (hd repos) else None),
           ep_repoKeys := Some repos,
           ep_epochIds := Some (unique_sorted (nullish (ep_epochIds a) [] @ nullish (ep_epochIds b) [])),
           ep_queryIds := unique_sorted (ep_queryIds a @ ep_queryIds b),
           ep_runIds := unique_sorted (ep_runIds a @ ep_runIds b),
           ep_startedAt := hd (sort [ep_startedAt a, ep_startedAt b]),
           ep_lastAgentActivityAt := last (sort [ep_lastAgentActivityAt a, ep_lastAgentActivityAt b]),
           ep_lastObservedChangeAt := maxIsoOptional [ep_lastObservedChangeAt a, ep_lastObservedChangeAt b],
           ep_status := (if truthy claimedBy then Ep_claimed
             else if episodeStatusPriority (ep_status b) \<le> episodeStatusPriority (ep_status a)
             then ep_status a else ep_status b),
           ep_claimedByCommitHash := claimedBy,
           ep_claimedAt := maxIsoOptional [ep_claimedAt a, ep_claimedAt b],
           ep_evidence := mergeEpisodeEvidence (ep_evidence a) (ep_evidence b),
           ep_decision := or_else (ep_decision a) (ep_decision b),
           ep_confidence := (if confidencePriority (ep_confidence b) \<le> confidencePriority (ep_confidence a)
             then ep_confidence a else ep_confidence b),
           ep_confidenceReasons := Some (unique_sorted
             (nullish (ep_confidenceReasons a) [] @ nullish (ep_confidenceReasons b) []))\<rparr>))"

definition intersects :: "string list \<Rightarrow> string list \<Rightarrow> bool" where
  "intersects a b = list_ex (\<lambda>v. v \<in> set a) b"

text \<open>\<open>b - a <= limit\<close> on times.\<close>

definition ms_gap_within :: "int option \<Rightarrow> int option \<Rightarrow> int \<Rightarrow> bool" where
  "ms_gap_within a b limit = (case (a, b) of (Some x, Some y) \<Rightarrow> y - x \<le> limit | _ \<Rightarrow> False)"

definition shouldMergeEpisodes :: "episode \<Rightarrow> episode \<Rightarrow> bool" where
  "shouldMergeEpisodes a b =
     (if truthy (ep_claimedByCommitHash a) \<and> ep_claimedByCommitHash a = ep_claimedByCommitHash b then True
      else if intersects (ep_queryIds a) (ep_queryIds b) \<or> intersects (ep_runIds a) (ep_runIds b) then True
      else if truthy (ep_claimedByCommitHash a) \<or> truthy (ep_claimedByCommitHash b)
         \<or> ep_status a = Ep_claimed \<or> ep_status b = Ep_claimed then False
      else ms_gap_within (date_ms (ep_lastAgentActivityAt a)) (date_ms (ep_startedAt b)) (4 * 60 * 60 * 1000))"

section \<open>Compaction\<close>

definition or_text :: "string \<Rightarrow> string \<Rightarrow> string" where
  "or_text a b = (if a = '''' then b else a)"

definition episodeGroupKey :: "episode \<Rightarrow> string" where
  "episodeGroupKey e = join '':'' [
     or_text (join '','' (declared_repos e)) ''repo-unbound'',
     nullish (ep_chatSessionId e) (join '','' (ep_queryIds e)),
     nullish (ep_headCommitAtStart e) ''head-unavailable'']"

text \<open>An episode joins the first cluster of its group that it should merge with.\<close>

fun join_cluster :: "episode \<Rightarrow> episode list \<Rightarrow> episode list" where
  "join_cluster e [] = [e]"
| "join_cluster e (c # cs) =
     (if shouldMergeEpisodes c e then mergeEpisodes c e # cs else c # join_cluster e cs)"

definition compact_step :: "(string, episode list) jsmap \<Rightarrow> episode \<Rightarrow> (string, episode list) jsmap" where
  "compact_step groups e =
     (let key = episodeGroupKey e
      in map_set key (join_cluster e (nullish (map_get groups key) [])) groups)"

definition by_episode_start :: "collation \<Rightarrow> episode \<Rightarrow> episode \<Rightarrow> bool" where
  "by_episode_start lc a b \<longleftrightarrow> lc (ep_startedAt a) (ep_startedAt b) \<le> 0"

definition compactEpisodes :: "collation \<Rightarrow> episode list \<Rightarrow> episode list \<times> nat" where
  "compactEpisodes lc stored =
     (let groups = foldl compact_step [] (sort_by (by_episode_start lc) (map normalizeEpisode stored));
          episodes = concat (map_values groups)
      in (episodes, length stored - length episodes))"

section \<open>State\<close>

type_synonym episode_ledger = "((string, episode) jsmap, episode option list, jsonl_error + nat) durable"

type_synonym episode_guard = "episode \<Rightarrow> string list"

type_synonym 'a episode_action = "(episode_ledger, jsonl_error, 'a) action"

definition checkEpisode :: "episode_guard \<Rightarrow> episode \<Rightarrow> unit episode_action" where
  "checkEpisode pg e = (if pg e \<noteq> [] then throwA (Record_privacy (pg e)) else returnA ())"

definition writeEpisodes :: "episode_guard \<Rightarrow> bool \<Rightarrow> episode list \<Rightarrow> unit episode_action" where
  "writeEpisodes pg io episodes = bindA (forA (checkEpisode pg) episodes) (\<lambda>_.
     if \<not> io then throwA Write_failed
     else modifyA (\<lambda>s. s\<lparr>du_file := Content (map Some episodes)\<rparr>))"

definition episode_writeAll :: "episode_guard \<Rightarrow> bool \<Rightarrow> unit episode_action" where
  "episode_writeAll pg io = bindA (getsA (\<lambda>s. map_values (du_memory s))) (writeEpisodes pg io)"

definition loadAndCompact :: "collation \<Rightarrow> episode_guard \<Rightarrow> bool \<Rightarrow> nat episode_action" where
  "loadAndCompact lc pg io s =
     (case jsonl_records (du_file s) of
        None \<Rightarrow> (Inl Read_failed, s)
      | Some records \<Rightarrow>
          (case compactEpisodes lc (map normalizeEpisode records) of (episodes, removed) \<Rightarrow>
             bindA (change_memory (\<lambda>_. map_from ep_episodeId episodes)) (\<lambda>_.
               bindA (if removed > 0 then episode_writeAll pg io else returnA ()) (\<lambda>_. returnA removed)) s))"

definition episode_ensureLoaded :: "collation \<Rightarrow> episode_guard \<Rightarrow> bool \<Rightarrow> nat episode_action" where
  "episode_ensureLoaded lc pg io = once (loadAndCompact lc pg io)"

section \<open>Operations\<close>

definition upsertEpisode :: "collation \<Rightarrow> episode_guard \<Rightarrow> bool \<Rightarrow> episode \<Rightarrow> unit episode_action" where
  "upsertEpisode lc pg io episode = bindA (checkEpisode pg episode) (\<lambda>_.
     bindA (episode_ensureLoaded lc pg io) (\<lambda>_.
       let nxt = normalizeEpisode episode
       in bindA (getsA (\<lambda>s. map_get (du_memory s) (ep_episodeId nxt))) (\<lambda>existing.
            if existing = Some nxt then returnA ()
            else bindA (change_memory (map_set (ep_episodeId nxt) nxt)) (\<lambda>_. episode_writeAll pg io))))"

definition by_activity :: "collation \<Rightarrow> episode \<Rightarrow> episode \<Rightarrow> bool" where
  "by_activity lc a b \<longleftrightarrow> lc (ep_lastAgentActivityAt b) (ep_lastAgentActivityAt a) \<le> 0"

definition listEpisodes :: "collation \<Rightarrow> episode_guard \<Rightarrow> bool \<Rightarrow> episode_query \<Rightarrow> episode list episode_action" where
  "listEpisodes lc pg io q = bindA (episode_ensureLoaded lc pg io) (\<lambda>_. getsA (\<lambda>s.
     let filtered = sort_by (by_activity lc) (filter (\<lambda>e. matchesQuery e q) (map_values (du_memory s)))
     in case eq_limit q of Some limit \<Rightarrow> slice_to limit filtered | None \<Rightarrow> filtered))"

definition retained_episode :: "int \<Rightarrow> rat \<Rightarrow> string list option \<Rightarrow> episode \<Rightarrow> bool" where
  "retained_episode now days retainedQueryIds e =
     (case retainedQueryIds of
        Some qs \<Rightarrow> list_ex (\<lambda>q. q \<in> set qs) (ep_queryIds e)
      | None \<Rightarrow> (case date_ms (ep_lastAgentActivityAt e) of
          None \<Rightarrow> False | Some d \<Rightarrow> of_int now - days * 24 * 60 * 60 * 1000 \<le> of_int d))"

definition episode_applyRetention :: "collation \<Rightarrow> episode_guard \<Rightarrow> bool \<Rightarrow> int \<Rightarrow> rat option
    \<Rightarrow> string list option \<Rightarrow> nat episode_action" where
  "episode_applyRetention lc pg io now retentionDays retainedQueryIds =
     (case retentionDays of
        None \<Rightarrow> returnA 0
      | Some days \<Rightarrow>
          if days \<le> 0 then returnA 0
          else bindA (episode_ensureLoaded lc pg io) (\<lambda>_.
            bindA (getsA (\<lambda>s. map_values (du_memory s))) (\<lambda>episodes.
              let retained = filter (retained_episode now days retainedQueryIds) episodes;
                  removed = length episodes - length retained
              in if removed > 0
                 then bindA (change_memory (\<lambda>_. map_from ep_episodeId retained)) (\<lambda>_.
                   bindA (episode_writeAll pg io) (\<lambda>_. returnA removed))
                 else returnA removed)))"

definition episode_clear :: "collation \<Rightarrow> episode_guard \<Rightarrow> bool \<Rightarrow> unit episode_action" where
  "episode_clear lc pg io = update_all (episode_ensureLoaded lc pg io) (episode_writeAll pg io) (\<lambda>_. [])"

section \<open>What compaction keeps\<close>

lemma normalizeEpisode_sel [simp]:
  "ep_episodeId (normalizeEpisode e) = ep_episodeId e"
  "ep_repoKeys (normalizeEpisode e) = Some (unique_sorted (declared_repos e))"
  "ep_queryIds (normalizeEpisode e) = unique_sorted (ep_queryIds e)"
  "ep_runIds (normalizeEpisode e) = unique_sorted (ep_runIds e)"
  "ep_claimedByCommitHash (normalizeEpisode e) = ep_claimedByCommitHash e"
  by (simp_all add: normalizeEpisode_def)

lemma normalizeEpisodeEvidence_idem:
  "normalizeEpisodeEvidence (normalizeEpisodeEvidence e) = normalizeEpisodeEvidence e"
  by (simp add: normalizeEpisodeEvidence_def)

interpretation episodes: normal_form ep_episodeId normalizeEpisode
proof
  fix e :: episode
  have "declared_repos (normalizeEpisode e) = unique_sorted (declared_repos e)"
    by (simp add: declared_repos_def [of "normalizeEpisode e"])
  then show "normalizeEpisode (normalizeEpisode e) = normalizeEpisode e"
    by (simp add: normalizeEpisode_def normalizeEpisodeEvidence_idem option.map_comp comp_def)
qed simp

text \<open>Putting a group back replaces its episodes and leaves the others.\<close>

lemma mset_concat_map_set:
  "\<exists>rest. mset (concat (map_values m)) = mset (nullish (map_get m k) []) + rest
     \<and> mset (concat (map_values (map_set k v m))) = mset v + rest"
proof (induction k v m rule: map_set.induct)
  case (1 k v)
  then show ?case by (simp add: map_values_def)
next
  case (2 k v k' v' m)
  show ?case
  proof (cases "k = k'")
    case False
    with 2 obtain rest where "mset (concat (map_values m)) = mset (nullish (map_get m k) []) + rest"
      "mset (concat (map_values (map_set k v m))) = mset v + rest" by blast
    with False show ?thesis
      by (intro exI [of _ "mset v' + rest"]) (simp add: map_values_def)
  qed (simp add: map_values_def)
qed

text \<open>So a loop over the episodes keeps what joining a cluster keeps: \<open>P xs ys\<close> relates the
  episodes processed with those in the clusters.\<close>

lemma compact_fold_invariant:
  assumes "P {#} {#}"
    and step: "\<And>xs cs rest e. e \<in> set es \<Longrightarrow> P xs (mset cs + rest)
      \<Longrightarrow> P (add_mset e xs) (mset (join_cluster e cs) + rest)"
  shows "P (mset es) (mset (concat (map_values (foldl compact_step [] es))))"
  using step
proof (induction es rule: rev_induct)
  case Nil
  then show ?case using assms(1) by (simp add: map_values_def)
next
  case (snoc e es)
  let ?g = "foldl compact_step [] es"
  let ?cs = "nullish (map_get ?g (episodeGroupKey e)) []"
  have ih: "P (mset es) (mset (concat (map_values ?g)))"
    using snoc by (metis UnCI set_append)
  obtain rest where r: "mset (concat (map_values ?g)) = mset ?cs + rest"
    "mset (concat (map_values (map_set (episodeGroupKey e) (join_cluster e ?cs) ?g)))
       = mset (join_cluster e ?cs) + rest"
    using mset_concat_map_set [of ?g "episodeGroupKey e" "join_cluster e ?cs"] by blast
  have "P (add_mset e (mset es)) (mset (join_cluster e ?cs) + rest)"
    by (rule snoc.prems) (use ih r(1) in simp_all)
  moreover have "foldl compact_step [] (es @ [e])
      = map_set (episodeGroupKey e) (join_cluster e ?cs) ?g"
    by (simp only: foldl_append foldl_Cons foldl_Nil compact_step_def [of ?g] Let_def)
  ultimately show ?case by (simp only: mset_append mset.simps r(2)) simp
qed

definition known_queries :: "episode \<Rightarrow> string set" where
  "known_queries e = {q \<in> set (ep_queryIds e). \<not> blank q}"

definition known_runs :: "episode \<Rightarrow> string set" where
  "known_runs e = {r \<in> set (ep_runIds e). \<not> blank r}"

lemma known_normalize [simp]:
  "known_queries (normalizeEpisode e) = known_queries e" "known_runs (normalizeEpisode e) = known_runs e"
  by (auto simp: known_queries_def known_runs_def)

lemma mergeEpisodes_id: "ep_episodeId (mergeEpisodes a b) \<in> {ep_episodeId a, ep_episodeId b}"
  by (simp add: mergeEpisodes_def Let_def)

lemma known_merge:
  "known_queries (mergeEpisodes a b) = known_queries a \<union> known_queries b"
  "known_runs (mergeEpisodes a b) = known_runs a \<union> known_runs b"
  by (simp_all add: mergeEpisodes_def Let_def) (auto simp: known_queries_def known_runs_def)

lemma mergeEpisodes_normal: "normalizeEpisode (mergeEpisodes a b) = mergeEpisodes a b"
  by (simp only: mergeEpisodes_def Let_def episodes.nf_idem)

lemma join_cluster_union:
  assumes "\<And>a b. f (mergeEpisodes a b) = f a \<union> f b"
  shows "\<Union> (f ` set (join_cluster e cs)) = \<Union> (f ` set cs) \<union> f e"
  by (induction cs) (auto simp: assms)

lemma join_cluster_ids:
  "image_mset ep_episodeId (mset (join_cluster e cs)) \<subseteq># add_mset (ep_episodeId e) (image_mset ep_episodeId (mset cs))"
proof (induction cs)
  case (Cons c cs)
  have "ep_episodeId (mergeEpisodes c e) \<in> {ep_episodeId c, ep_episodeId e}" by (rule mergeEpisodes_id)
  with Cons show ?case by (auto simp: subseteq_mset_def add_mset_commute)
qed simp

lemma join_cluster_all:
  "(\<And>c. c \<in> set cs \<Longrightarrow> Q c) \<Longrightarrow> Q e \<Longrightarrow> (\<And>a b. Q a \<Longrightarrow> Q b \<Longrightarrow> Q (mergeEpisodes a b)) \<Longrightarrow>
   x \<in> set (join_cluster e cs) \<Longrightarrow> Q x"
  by (induction cs) (auto split: if_splits)

lemma evidenceKey_merged: "evidenceKey (merged_evidence a b) = evidenceKey a"
  by (simp add: evidenceKey_def merged_evidence_def)

lemma evidenceKey_normal: "evidenceKey (normalizeEpisodeEvidence e) = evidenceKey e"
  by (simp add: evidenceKey_def normalizeEpisodeEvidence_def)

text \<open>A map that is built by putting values under their own key has the keys of its values.\<close>

lemma own_keys_put:
  assumes "\<forall>(k, v) \<in> set m. key v = k" "key v = k"
  shows "\<forall>(k, v) \<in> set (map_set k v m). key v = k"
  using assms set_map_set_subset [of k v m] by auto

lemma own_keys_values: "\<forall>(k, v) \<in> set m. key v = k \<Longrightarrow> key ` set (map_values m) = set (map fst m)"
  by (force simp: map_values_def)

lemma mergeEpisodeEvidence_keys:
  "evidenceKey ` set (mergeEpisodeEvidence a b) = evidenceKey ` set a \<union> evidenceKey ` set b"
proof -
  let ?g = "\<lambda>item m. case map_get m (evidenceKey item) of None \<Rightarrow> item
    | Some current \<Rightarrow> merged_evidence current item"
  let ?f = "foldl (\<lambda>m item. map_set (evidenceKey item) (?g item m) m)"
  have own: "\<forall>(k, v) \<in> set m. evidenceKey v = k \<Longrightarrow> \<forall>(k, v) \<in> set (?f m xs). evidenceKey v = k" for m xs
  proof (induction xs arbitrary: m)
    case (Cons x xs)
    have "evidenceKey (?g x m) = evidenceKey x"
      using Cons.prems by (auto simp: evidenceKey_merged split: option.splits dest!: map_of_SomeD)
    from Cons.IH [OF own_keys_put [OF Cons.prems this]] show ?case by simp
  qed simp
  have "\<forall>(k, v) \<in> set (map_from evidenceKey a). evidenceKey v = k" using map_from_mem by fastforce
  from own_keys_values [OF own [OF this, of b]] show ?thesis
    unfolding mergeEpisodeEvidence_def js_map.set_keys_foldl keys_map_from .
qed

definition evidence_keys :: "episode \<Rightarrow> string set" where
  "evidence_keys e = evidenceKey ` set (ep_evidence e)"

lemma evidence_keys_normalize [simp]: "evidence_keys (normalizeEpisode e) = evidence_keys e"
  by (simp add: evidence_keys_def normalizeEpisode_def image_image evidenceKey_normal)

lemma evidence_keys_merge: "evidence_keys (mergeEpisodes a b) = evidence_keys a \<union> evidence_keys b"
  unfolding mergeEpisodes_def Let_def
  by (simp only: evidence_keys_normalize) (simp add: evidence_keys_def mergeEpisodeEvidence_keys)

lemma compact_union:
  fixes f :: "episode \<Rightarrow> 'x set"
  assumes "\<And>a b. f (mergeEpisodes a b) = f a \<union> f b"
  shows "\<Union> (f ` set (concat (map_values (foldl compact_step [] es)))) = \<Union> (f ` set es)"
proof -
  have "\<Union> (f ` set_mset (mset (concat (map_values (foldl compact_step [] es))))) = \<Union> (f ` set_mset (mset es))"
  proof (rule compact_fold_invariant [where P = "\<lambda>xs ys. \<Union> (f ` set_mset ys) = \<Union> (f ` set_mset xs)"])
    fix xs rest :: "episode multiset" and cs :: "episode list" and e :: episode
    assume "\<Union> (f ` set_mset (mset cs + rest)) = \<Union> (f ` set_mset xs)"
    then show "\<Union> (f ` set_mset (mset (join_cluster e cs) + rest)) = \<Union> (f ` set_mset (add_mset e xs))"
      using join_cluster_union [of f e cs, OF assms] by auto
  qed simp
  then show ?thesis by simp
qed

lemma join_cluster_ids_step:
  assumes "image_mset ep_episodeId (mset cs + rest) \<subseteq># image_mset ep_episodeId xs"
  shows "image_mset ep_episodeId (mset (join_cluster e cs) + rest) \<subseteq># image_mset ep_episodeId (add_mset e xs)"
proof -
  from assms have le: "add_mset (ep_episodeId e) (image_mset ep_episodeId (mset cs)) + image_mset ep_episodeId rest
      \<subseteq># image_mset ep_episodeId (add_mset e xs)" by simp
  show ?thesis unfolding image_mset_union
    by (rule subset_mset.order_trans [OF subset_mset.add_right_mono [OF join_cluster_ids] le])
qed

definition ids_within :: "episode multiset \<Rightarrow> episode multiset \<Rightarrow> bool" where
  "ids_within xs ys \<longleftrightarrow> image_mset ep_episodeId ys \<subseteq># image_mset ep_episodeId xs"

lemma compact_ids: "ids_within (mset es) (mset (concat (map_values (foldl compact_step [] es))))"
proof (rule compact_fold_invariant [where P = ids_within])
  show "ids_within {#} {#}" by (simp add: ids_within_def)
qed (unfold ids_within_def, rule join_cluster_ids_step)

text \<open>What every stored episode has and merging keeps, every compacted episode has.\<close>

definition all_satisfy :: "(episode \<Rightarrow> bool) \<Rightarrow> episode multiset \<Rightarrow> episode multiset \<Rightarrow> bool" where
  "all_satisfy Q xs ys \<longleftrightarrow> (\<forall>y. y \<in># ys \<longrightarrow> Q y)"

lemma compact_all:
  assumes "\<And>e. e \<in> set es \<Longrightarrow> Q e" "\<And>a b. Q a \<Longrightarrow> Q b \<Longrightarrow> Q (mergeEpisodes a b)"
  shows "all_satisfy Q (mset es) (mset (concat (map_values (foldl compact_step [] es))))"
proof (rule compact_fold_invariant [where P = "all_satisfy Q"])
  show "all_satisfy Q {#} {#}" by (simp add: all_satisfy_def)
next
  fix xs rest :: "episode multiset" and cs :: "episode list" and e :: episode
  assume e: "e \<in> set es" and n: "all_satisfy Q xs (mset cs + rest)"
  have "Q y" if "y \<in> set (join_cluster e cs)" for y
    by (rule join_cluster_all [OF _ assms(1) [OF e] assms(2) that]) (use n in \<open>simp_all add: all_satisfy_def\<close>)
  with n show "all_satisfy Q (add_mset e xs) (mset (join_cluster e cs) + rest)"
    unfolding all_satisfy_def by fastforce
qed

text \<open>
  Compaction loses nothing. Whatever episodes are merged, every query, every run and every
  piece of evidence (by query, repository and epoch) of the stored episodes is in a compacted one
  and the compacted ones have no others; the number reported as removed is exact, identifiers
  that were unique stay unique, and compacted episodes are in normal form.
\<close>

theorem compaction_conserves:
  "case compactEpisodes lc stored of (episodes, removed) \<Rightarrow>
     \<Union> (known_queries ` set episodes) = \<Union> (known_queries ` set stored)
   \<and> \<Union> (known_runs ` set episodes) = \<Union> (known_runs ` set stored)
   \<and> \<Union> (evidence_keys ` set episodes) = \<Union> (evidence_keys ` set stored)
   \<and> length episodes + removed = length stored
   \<and> image_mset ep_episodeId (mset episodes) \<subseteq># image_mset ep_episodeId (mset stored)
   \<and> map normalizeEpisode episodes = episodes"
proof -
  define es where "es = sort_by (by_episode_start lc) (map normalizeEpisode stored)"
  define c where "c = concat (map_values (foldl compact_step [] es))"
  have es: "set es = normalizeEpisode ` set stored" by (simp add: es_def)
  have c: "compactEpisodes lc stored = (c, length stored - length c)"
    by (simp only: compactEpisodes_def Let_def es_def c_def)
  have "image_mset ep_episodeId (mset es) = image_mset ep_episodeId (mset stored)"
    by (simp add: es_def image_mset.compositionality comp_def)
  then have ids: "image_mset ep_episodeId (mset c) \<subseteq># image_mset ep_episodeId (mset stored)"
    using compact_ids [of es] unfolding ids_within_def c_def by (simp only:)
  have len: "length c \<le> length stored" using size_mset_mono [OF ids] by (simp only: size_image_mset size_mset)
  have "\<And>e. e \<in> set es \<Longrightarrow> normalizeEpisode e = e" unfolding es by (auto simp: episodes.nf_idem)
  from compact_all [of es "\<lambda>e. normalizeEpisode e = e", OF this mergeEpisodes_normal]
  have norm: "map normalizeEpisode c = c"
    unfolding c_def [symmetric] all_satisfy_def set_mset_mset by (intro map_idI) blast
  note unions = compact_union [of known_queries es, OF known_merge(1), folded c_def]
    compact_union [of known_runs es, OF known_merge(2), folded c_def]
    compact_union [of evidence_keys es, OF evidence_keys_merge, folded c_def]
  have same: "known_queries ` set es = known_queries ` set stored"
    "known_runs ` set es = known_runs ` set stored" "evidence_keys ` set es = evidence_keys ` set stored"
    unfolding es image_image by simp_all
  show ?thesis unfolding c prod.case unions same
    by (intro conjI refl ids norm) (simp only: len le_add_diff_inverse)
qed

end
