(* ===== verification/WorkEpisodeTracker.thy ===== *)
theory WorkEpisodeTracker
  imports WorkEpisodeLedger
begin

text \<open>
  The tracker of work episodes: src/src/attribution/agenticWorkEpisode.ts, over the ledger of
  \<open>WorkEpisodeLedger\<close>. Its mutation queue runs the operations one at a time, so each is an action on
  the ledger, the flag \<open>running\<close> and the diagnostic events recorded so far. An episode that the
  ledger lists is a copy, so only \<open>upsert\<close> changes the ledger. \<open>uuid\<close> is what \<open>randomUUID\<close> returns.
\<close>

section \<open>State\<close>

text \<open>Of a run, the properties the tracker reads.\<close>

record observed_run =
  or_id :: string
  or_traceId :: string
  or_queryId :: string
  or_queryStartedAt :: "string option"
  or_startedAt :: "string option"
  or_endedAt :: "string option"
  or_chatSessionId :: "string option"
  or_copilotSessionId :: "string option"
  or_traceChatSessionId :: "string option"

datatype tracker_event =
    Compaction_event nat
  | Lifecycle_event episode_status string "string option" string "string option" decision nat nat nat nat
  | Decision_event string "string option" decision string

record tracker =
  tk_running :: bool
  tk_ledger :: episode_ledger
  tk_events :: "tracker_event list"

text \<open>What the tracker is constructed with, and the world its calls meet.\<close>

record tracker_world =
  tw_lc :: collation
  tw_pg :: episode_guard
  tw_io :: bool
  tw_now :: int
  tw_staleMs :: int

type_synonym 'a tracker_action = "(tracker, jsonl_error, 'a) action"

definition DEFAULT_STALE_MS :: int where
  "DEFAULT_STALE_MS = 4 * 60 * 60 * 1000"

definition on_ledger :: "'a episode_action \<Rightarrow> 'a tracker_action" where
  "on_ledger a s = (case a (tk_ledger s) of (r, l) \<Rightarrow> (r, s\<lparr>tk_ledger := l\<rparr>))"

definition recordEvent :: "tracker_event \<Rightarrow> unit tracker_action" where
  "recordEvent e = modifyA (\<lambda>s. s\<lparr>tk_events := tk_events s @ [e]\<rparr>)"

definition ledger_list :: "tracker_world \<Rightarrow> episode_query \<Rightarrow> episode list tracker_action" where
  "ledger_list w q = on_ledger (listEpisodes (tw_lc w) (tw_pg w) (tw_io w) q)"

definition lifecycle_of :: "episode \<Rightarrow> string \<Rightarrow> string option \<Rightarrow> tracker_event" where
  "lifecycle_of e reason commitHash = Lifecycle_event (ep_status e) reason (ep_chatSessionId e)
     (ep_episodeId e) commitHash (nullish (ep_decision e) Pending_evidence) (length (ep_queryIds e))
     (length (ep_runIds e)) (length (nullish (ep_repoKeys e) [])) (length (ep_evidence e))"

definition upsert :: "tracker_world \<Rightarrow> episode \<Rightarrow> string \<Rightarrow> string option \<Rightarrow> unit tracker_action" where
  "upsert w e reason commitHash =
     bindA (on_ledger (upsertEpisode (tw_lc w) (tw_pg w) (tw_io w) e)) (\<lambda>_.
       bindA (recordEvent (lifecycle_of e reason commitHash)) (\<lambda>_.
         recordEvent (Decision_event (ep_episodeId e) commitHash
           (nullish (ep_decision e) Pending_evidence) reason)))"

section \<open>Evidence\<close>

definition mergeCausalWriteArtifacts :: "collation \<Rightarrow> causal_write list \<Rightarrow> causal_write list \<Rightarrow> causal_write list" where
  "mergeCausalWriteArtifacts lc a b = sort_by (cw_le lc)
     (map_values (map_from (\<lambda>i. cw_artifactKey i @ '':'' @ cw_executionNodeId i) (a @ b)))"

definition mergeEvidenceRecord :: "collation \<Rightarrow> work_evidence \<Rightarrow> work_evidence \<Rightarrow> work_evidence" where
  "mergeEvidenceRecord lc a b =
     (let artifactStates = mergeArtifactStates (nullish (we_artifactStates a) []) (nullish (we_artifactStates b) []);
          replacesCausalAuthority = (we_causalWriteArtifactsComplete b = Some True)
      in \<lparr>we_queryId = we_queryId b,
          we_runIds = unique_sorted (we_runIds a @ we_runIds b),
          we_repoKey = we_repoKey b,
          we_epochId = or_else (we_epochId b) (we_epochId a),
          we_startedAt = we_startedAt b,
          we_completedAt = or_else (we_completedAt b) (we_completedAt a),
          we_settlingUntil = or_else (we_settlingUntil b) (we_settlingUntil a),
          we_expiresAt = or_else (we_expiresAt b) (we_expiresAt a),
          we_baselineTrusted = (we_baselineTrusted a \<and> we_baselineTrusted b),
          we_baselineReasons = unique_sorted (we_baselineReasons a @ we_baselineReasons b),
          we_headCommitAtStart = or_else (we_headCommitAtStart b) (we_headCommitAtStart a),
          we_baselineSequence = or_else (we_baselineSequence b) (we_baselineSequence a),
          we_dirtyAtStart = (we_dirtyAtStart a \<or> we_dirtyAtStart b),
          we_observedChangeCount = length artifactStates,
          we_artifactKeys = unique_sorted (we_artifactKeys a @ we_artifactKeys b),
          we_causalArtifactKeys = Some (if replacesCausalAuthority
            then unique_sorted (nullish (we_causalArtifactKeys b) [])
            else unique_sorted (nullish (we_causalArtifactKeys a) [] @ nullish (we_causalArtifactKeys b) [])),
          we_causalWriteArtifacts = (if replacesCausalAuthority then we_causalWriteArtifacts b
            else Some (mergeCausalWriteArtifacts lc
              (nullish (we_causalWriteArtifacts a) []) (nullish (we_causalWriteArtifacts b) []))),
          we_nativeRejectedCausalWriteArtifacts = (if replacesCausalAuthority
            then we_nativeRejectedCausalWriteArtifacts b
            else Some (mergeCausalWriteArtifacts lc (nullish (we_nativeRejectedCausalWriteArtifacts a) [])
              (nullish (we_nativeRejectedCausalWriteArtifacts b) []))),
          we_causalWriteArtifactsComplete = (if we_causalWriteArtifactsComplete a = Some True
              \<or> we_causalWriteArtifactsComplete b = Some True then Some True else None),
          we_baselineArtifactStates = or_else (we_baselineArtifactStates b) (we_baselineArtifactStates a),
          we_artifactStates = Some artifactStates,
          we_addedLines = max (we_addedLines a) (we_addedLines b),
          we_deletedLines = max (we_deletedLines a) (we_deletedLines b),
          we_firstObservedAt = minIsoOptional [we_firstObservedAt a, we_firstObservedAt b],
          we_lastObservedAt = maxIsoOptional [we_lastObservedAt a, we_lastObservedAt b],
          we_status = or_else (we_status b) (we_status a)\<rparr>)"

definition trackEvidence :: "collation \<Rightarrow> work_evidence list \<Rightarrow> work_evidence list \<Rightarrow> work_evidence list" where
  "trackEvidence lc existing nxt = map_values (foldl (\<lambda>m e. map_set (evidenceKey e)
       (case map_get m (evidenceKey e) of None \<Rightarrow> e | Some current \<Rightarrow> mergeEvidenceRecord lc current e) m)
     (map_from evidenceKey existing) nxt)"

section \<open>Sessions and staleness\<close>

definition sameChatSession :: "episode \<Rightarrow> observed_run \<Rightarrow> bool" where
  "sameChatSession e run \<longleftrightarrow> ep_chatSessionId e \<noteq> None \<and> or_chatSessionId run \<noteq> None
     \<and> ep_chatSessionId e = or_chatSessionId run"

definition sessionGroupingId :: "observed_run \<Rightarrow> string" where
  "sessionGroupingId run = nullish (or_else (or_chatSessionId run)
     (or_else (or_copilotSessionId run) (or_traceChatSessionId run))) (or_queryId run)"

definition sessionGroupingIdFromEpisode :: "episode \<Rightarrow> string" where
  "sessionGroupingIdFromEpisode e = nullish (ep_chatSessionId e)
     (case ep_queryIds e of [] \<Rightarrow> ep_episodeId e | q # _ \<Rightarrow> q)"

definition isStale :: "episode \<Rightarrow> string \<Rightarrow> int \<Rightarrow> bool" where
  "isStale e atTime staleMs = ms_gap_exceeds (date_ms (ep_lastAgentActivityAt e)) (date_ms atTime) staleMs"

definition maxIso :: "string \<Rightarrow> string \<Rightarrow> string" where
  "maxIso a b = (if b < a then a else b)"

section \<open>Operations\<close>

definition mark_stale :: "episode \<Rightarrow> episode" where
  "mark_stale e = e\<lparr>ep_status := Ep_stale, ep_decision := Some Expired\<rparr>"

definition start_one :: "tracker_world \<Rightarrow> episode \<Rightarrow> unit tracker_action" where
  "start_one w e =
     (if ep_observationSchemaVersion e = Some 1
      then if ep_status e = Ep_open \<and> isStale e (iso_of_ms (tw_now w)) (tw_staleMs w)
           then upsert w (mark_stale e) ''episode_stale'' None else returnA ()
      else upsert w (e\<lparr>ep_status := Ep_expired, ep_decision := Some Legacy_unverified\<rparr>)
             ''legacy_episode_quarantined'' None)"

definition start :: "tracker_world \<Rightarrow> unit tracker_action" where
  "start w = bindA (getsA tk_running) (\<lambda>running.
     if running then returnA ()
     else bindA (modifyA (\<lambda>s. s\<lparr>tk_running := True\<rparr>)) (\<lambda>_.
       bindA (on_ledger (episode_ensureLoaded (tw_lc w) (tw_pg w) (tw_io w))) (\<lambda>compacted.
         bindA (if compacted > 0 then recordEvent (Compaction_event compacted) else returnA ()) (\<lambda>_.
           bindA (ledger_list w any_episode) (forA (start_one w))))))"

definition stop :: "unit tracker_action" where
  "stop = modifyA (\<lambda>s. s\<lparr>tk_running := False\<rparr>)"

definition markStaleOpenEpisodes :: "tracker_world \<Rightarrow> string \<Rightarrow> unit tracker_action" where
  "markStaleOpenEpisodes w atTime = bindA (ledger_list w (any_episode\<lparr>eq_status := Some Ep_open\<rparr>))
     (forA (\<lambda>e. if \<not> isStale e atTime (tw_staleMs w) then returnA ()
                else upsert w (mark_stale e) ''episode_stale'' None))"

definition accepts_run :: "tracker_world \<Rightarrow> observed_run \<Rightarrow> string \<Rightarrow> episode \<Rightarrow> bool" where
  "accepts_run w run runTime e \<longleftrightarrow>
     (ep_status e = Ep_open \<or> (ep_status e = Ep_claimed
        \<and> (or_queryId run \<in> set (ep_queryIds e)
           \<or> (case ep_claimedAt e of None \<Rightarrow> True | Some c \<Rightarrow> runTime \<le> c)
           \<or> sameChatSession e run)))
     \<and> \<not> isStale e runTime (tw_staleMs w)
     \<and> sessionGroupingIdFromEpisode e = sessionGroupingId run"

definition new_episode :: "string \<Rightarrow> observed_run \<Rightarrow> string \<Rightarrow> episode" where
  "new_episode uuid run runTime = \<lparr>ep_observationSchemaVersion = Some 1, ep_episodeId = uuid,
     ep_repoKey = None, ep_repoKeys = Some [], ep_epochIds = Some [],
     ep_chatSessionId = or_chatSessionId run, ep_queryIds = [or_queryId run], ep_runIds = [or_id run],
     ep_headCommitAtStart = None, ep_startedAt = runTime, ep_lastQueryActivityAt = Some runTime,
     ep_lastAgentActivityAt = runTime, ep_lastObservedChangeAt = None, ep_status = Ep_open,
     ep_evidence = [], ep_claimedByCommitHash = None, ep_claimedAt = None,
     ep_decision = Some Pending_evidence, ep_confidence = None, ep_confidenceReasons = None\<rparr>"

definition findOrCreateEpisode :: "tracker_world \<Rightarrow> string \<Rightarrow> observed_run \<Rightarrow> string \<Rightarrow> episode tracker_action" where
  "findOrCreateEpisode w uuid run runTime =
     bindA (ledger_list w (if truthy (or_chatSessionId run)
         then any_episode\<lparr>eq_chatSessionId := or_chatSessionId run\<rparr>
         else any_episode\<lparr>eq_queryId := Some (or_queryId run)\<rparr>)) (\<lambda>episodes.
       case find (accepts_run w run runTime) episodes of
         Some existing \<Rightarrow> returnA existing
       | None \<Rightarrow> bindA (upsert w (new_episode uuid run runTime) ''episode_created'' None)
           (\<lambda>_. returnA (new_episode uuid run runTime)))"

definition extend_episode :: "observed_run \<Rightarrow> string \<Rightarrow> episode \<Rightarrow> episode" where
  "extend_episode run runTime e =
     (let queryAlreadyTracked = or_queryId run \<in> set (ep_queryIds e);
          queryActivityAt = nullish (or_else (or_endedAt run)
            (or_else (or_startedAt run) (or_queryStartedAt run))) runTime
      in e\<lparr>ep_queryIds := unique_sorted (ep_queryIds e @ [or_queryId run]),
           ep_runIds := unique_sorted (ep_runIds e @ [or_id run]),
           ep_lastQueryActivityAt := Some (maxIso
             (nullish (ep_lastQueryActivityAt e) (ep_lastAgentActivityAt e)) queryActivityAt),
           ep_lastAgentActivityAt := maxIso (ep_lastAgentActivityAt e) queryActivityAt,
           ep_decision := (if ep_status e \<noteq> Ep_claimed \<or> \<not> queryAlreadyTracked
             then Some Pending_evidence else ep_decision e)\<rparr>)"

definition observeRun :: "tracker_world \<Rightarrow> string \<Rightarrow> observed_run \<Rightarrow> unit tracker_action" where
  "observeRun w uuid run =
     (if or_queryId run = '''' then returnA ()
      else let runTime = nullish (or_else (or_queryStartedAt run) (or_startedAt run)) (iso_of_ms (tw_now w))
           in bindA (markStaleOpenEpisodes w runTime) (\<lambda>_.
             if ms_gap_exceeds (date_ms runTime) (Some (tw_now w)) (tw_staleMs w) then returnA ()
             else bindA (findOrCreateEpisode w uuid run runTime) (\<lambda>e.
               upsert w (extend_episode run runTime e) ''episode_extended'' None)))"

definition observeRunCompleted :: "tracker_world \<Rightarrow> string \<Rightarrow> observed_run \<Rightarrow> unit tracker_action" where
  "observeRunCompleted w uuid run = observeRun w uuid run"

definition bind_evidence :: "collation \<Rightarrow> work_evidence \<Rightarrow> episode \<Rightarrow> episode" where
  "bind_evidence lc item e =
     (let evidence = trackEvidence lc (filter (\<lambda>x. we_queryId x \<noteq> we_queryId item
            \<or> we_repoKey x \<noteq> we_repoKey item \<or> we_epochId x = we_epochId item) (ep_evidence e)) [item];
          repoKeys = unique_sorted (nullish (ep_repoKeys e) [] @ [we_repoKey item])
      in e\<lparr>ep_evidence := evidence,
           ep_runIds := unique_sorted (ep_runIds e @ we_runIds item),
           ep_repoKeys := Some repoKeys,
           ep_epochIds := Some (unique_sorted (map the (filter (\<lambda>x. x \<noteq> None) (map we_epochId evidence)))),
           ep_repoKey := (if length repoKeys = 1 then Some (hd repoKeys) else None),
           ep_headCommitAtStart := or_else (ep_headCommitAtStart e) (we_headCommitAtStart item),
           ep_lastObservedChangeAt := maxIsoOptional [ep_lastObservedChangeAt e,
             or_else (we_lastObservedAt item) (we_firstObservedAt item)],
           ep_lastAgentActivityAt := maxIso (ep_lastAgentActivityAt e)
             (nullish (or_else (we_completedAt item) (we_lastObservedAt item)) (we_startedAt item)),
           ep_decision := Some Pending_evidence\<rparr>)"

definition observe_item :: "tracker_world \<Rightarrow> work_evidence \<Rightarrow> unit tracker_action" where
  "observe_item w item =
     bindA (ledger_list w (any_episode\<lparr>eq_queryId := Some (we_queryId item)\<rparr>)) (\<lambda>episodes.
       case find (\<lambda>e. we_queryId item \<in> set (ep_queryIds e)) episodes of
         None \<Rightarrow> returnA ()
       | Some e \<Rightarrow> upsert w (bind_evidence (tw_lc w) item e) ''episode_evidence_bound'' None)"

definition observeWorkspaceEvidence :: "tracker_world \<Rightarrow> work_evidence list \<Rightarrow> unit tracker_action" where
  "observeWorkspaceEvidence w evidence = forA (observe_item w) evidence"

definition claim_episode :: "string \<Rightarrow> string \<Rightarrow> episode \<Rightarrow> episode" where
  "claim_episode commitHash claimedAt e = e\<lparr>ep_status := Ep_claimed, ep_decision := Some Reportable,
     ep_claimedByCommitHash := Some commitHash, ep_claimedAt := Some claimedAt\<rparr>"

definition markClaimed :: "tracker_world \<Rightarrow> string \<Rightarrow> string \<Rightarrow> string \<Rightarrow> unit tracker_action" where
  "markClaimed w episodeId commitHash claimedAt =
     bindA (ledger_list w (any_episode\<lparr>eq_episodeId := Some episodeId\<rparr>)) (\<lambda>episodes.
       case episodes of
         [] \<Rightarrow> returnA ()
       | e # _ \<Rightarrow> upsert w (claim_episode commitHash claimedAt e) ''episode_claimed'' (Some commitHash))"

definition reopen_episode :: "episode \<Rightarrow> episode" where
  "reopen_episode e = e\<lparr>ep_status := Ep_open, ep_decision := Some Rewrite_pending,
     ep_claimedByCommitHash := None, ep_claimedAt := None\<rparr>"

definition reopenSupersededCommit :: "tracker_world \<Rightarrow> string \<Rightarrow> unit tracker_action" where
  "reopenSupersededCommit w commitHash =
     bindA (ledger_list w (any_episode\<lparr>eq_commitHash := Some commitHash\<rparr>))
       (forA (\<lambda>e. upsert w (reopen_episode e) ''history_rewrite_pending'' (Some commitHash)))"

definition reset :: "tracker_world \<Rightarrow> unit tracker_action" where
  "reset w = on_ledger (episode_clear (tw_lc w) (tw_pg w) (tw_io w))"

section \<open>Claims of episodes\<close>

text \<open>An episode is marked as claimed only with its commit, and open or stale only without one.\<close>

definition claim_wf :: "episode \<Rightarrow> bool" where
  "claim_wf e \<longleftrightarrow> ep_claimedByCommitHash e \<noteq> Some ''''
     \<and> (ep_status e = Ep_claimed \<longrightarrow> ep_claimedByCommitHash e \<noteq> None)
     \<and> (ep_status e = Ep_open \<or> ep_status e = Ep_stale \<longrightarrow> ep_claimedByCommitHash e = None)"

definition ledger_wf :: "episode_ledger \<Rightarrow> bool" where
  "ledger_wf l \<longleftrightarrow> list_all claim_wf (map_values (du_memory l))
     \<and> list_all claim_wf (nullish (jsonl_records (du_file l)) [])"

definition tracker_wf :: "tracker \<Rightarrow> bool" where
  "tracker_wf s \<longleftrightarrow> ledger_wf (tk_ledger s)"

lemma claim_wf_normalize [simp]: "claim_wf (normalizeEpisode e) = claim_wf e"
  by (simp add: claim_wf_def normalizeEpisode_def)

lemma claim_wf_merge: "claim_wf a \<Longrightarrow> claim_wf b \<Longrightarrow> claim_wf (mergeEpisodes a b)"
  unfolding mergeEpisodes_def Let_def claim_wf_normalize
  by (cases "ep_claimedByCommitHash a"; cases "ep_claimedByCommitHash b")
    (auto simp: claim_wf_def)

lemma claim_wf_changes:
  "claim_wf e \<Longrightarrow> ep_status e = Ep_open \<Longrightarrow> claim_wf (mark_stale e)"
  "claim_wf e \<Longrightarrow> claim_wf (e\<lparr>ep_status := Ep_expired, ep_decision := d\<rparr>)"
  "claim_wf (new_episode uuid run t)"
  "claim_wf e \<Longrightarrow> claim_wf (extend_episode run t e)"
  "claim_wf e \<Longrightarrow> claim_wf (bind_evidence lc item e)"
  "commitHash \<noteq> '''' \<Longrightarrow> claim_wf (claim_episode commitHash t e)"
  "claim_wf (reopen_episode e)"
  by (simp_all add: claim_wf_def mark_stale_def new_episode_def extend_episode_def bind_evidence_def
      claim_episode_def reopen_episode_def Let_def)

lemma set_values_map_set: "set (map_values (map_set k v m)) \<subseteq> insert v (set (map_values m))"
  using set_map_set_subset [of k v m] by (fastforce simp: map_values_def)

lemma list_all_map_set:
  "list_all P (map_values m) \<Longrightarrow> P v \<Longrightarrow> list_all P (map_values (map_set k v m))"
  using set_values_map_set [of k v m] by (fastforce simp: list_all_iff)

lemma compaction_wf:
  assumes "list_all claim_wf stored"
  shows "list_all claim_wf (fst (compactEpisodes lc stored))"
proof -
  let ?es = "sort_by (by_episode_start lc) (map normalizeEpisode stored)"
  have "claim_wf e" if "e \<in> set ?es" for e using that assms by (auto simp: list_all_iff)
  from compact_all [of ?es claim_wf, OF this claim_wf_merge] show ?thesis
    by (simp only: all_satisfy_def set_mset_mset compactEpisodes_def Let_def fst_conv list_all_iff) blast
qed

lemma ensures_check: "ensures P (forA (checkEpisode pg) es) (\<lambda>_. True)"
  by (intro ensures_for) (simp add: checkEpisode_def ensures_if ensures_throw ensures_return)

lemma ensures_writeAll: "ensures ledger_wf (episode_writeAll pg io) (\<lambda>_. True)"
  unfolding episode_writeAll_def writeEpisodes_def
  by (rule ensures_bind [where Q = "list_all claim_wf"])
    (auto intro!: ensures_gets ensures_bind [OF ensures_check] ensures_if ensures_throw ensures_modify
      simp: ledger_wf_def)

lemma ensures_change_memory:
  "(\<And>m. list_all claim_wf (map_values m) \<Longrightarrow> list_all claim_wf (map_values (g m))) \<Longrightarrow>
   ensures ledger_wf (change_memory g) (\<lambda>_. True)"
  unfolding change_memory_def by (intro ensures_modify) (simp_all add: ledger_wf_def)

lemma ensures_loadAndCompact: "ensures ledger_wf (loadAndCompact lc pg io) (\<lambda>_. True)"
proof (rule ensuresI)
  fix s r s' assume s: "ledger_wf s" and run: "loadAndCompact lc pg io s = (r, s')"
  show "ledger_wf s' \<and> (case r of Inl e \<Rightarrow> True | Inr x \<Rightarrow> True)"
  proof (cases "jsonl_records (du_file s)")
    case None
    with s run show ?thesis by (auto simp: loadAndCompact_def)
  next
    case (Some records)
    obtain es n where c: "compactEpisodes lc (map normalizeEpisode records) = (es, n)" by fastforce
    have "list_all claim_wf (map normalizeEpisode records)"
      using s Some by (simp add: ledger_wf_def list.pred_map comp_def)
    from compaction_wf [OF this, of lc] have es: "list_all claim_wf es" by (simp add: c)
    have "ensures ledger_wf (bindA (change_memory (\<lambda>_. map_from ep_episodeId es)) (\<lambda>_.
        bindA (if n > 0 then episode_writeAll pg io else returnA ()) (\<lambda>_. returnA n))) (\<lambda>_. True)"
      using es map_from_values_subset [of ep_episodeId es]
      by (intro ensures_bind [OF ensures_change_memory] ensures_bind [OF ensures_if [OF ensures_writeAll]]
          ensures_return) (auto simp: list_all_iff)
    from ensuresD [OF this s] run show ?thesis by (simp add: loadAndCompact_def Some c)
  qed
qed

lemma ensures_ensureLoaded: "ensures ledger_wf (episode_ensureLoaded lc pg io) (\<lambda>_. True)"
proof (rule ensuresI)
  fix s r s' assume s: "ledger_wf s" and run: "episode_ensureLoaded lc pg io s = (r, s')"
  obtain r1 s1 where l: "loadAndCompact lc pg io s = (r1, s1)" by fastforce
  from ensuresD [OF ensures_loadAndCompact s l] have "ledger_wf s1" by simp
  with s run l show "ledger_wf s' \<and> (case r of Inl e \<Rightarrow> True | Inr x \<Rightarrow> True)"
    by (auto simp: episode_ensureLoaded_def once_def ledger_wf_def split: option.splits sum.splits)
qed

lemma ensures_upsertEpisode: "claim_wf e \<Longrightarrow> ensures ledger_wf (upsertEpisode lc pg io e) (\<lambda>_. True)"
  unfolding upsertEpisode_def Let_def checkEpisode_def
  by (intro ensures_bind [where Q = "\<lambda>_. True"] ensures_if ensures_throw ensures_return ensures_gets
      ensures_ensureLoaded ensures_writeAll ensures_change_memory) (simp_all add: list_all_map_set)

lemma matchesQuery_status: "matchesQuery e q \<Longrightarrow> eq_status q = Some status \<Longrightarrow> ep_status e = status"
  by (simp add: matchesQuery_def split: if_splits)

lemma list_all_limited: "list_all P xs \<Longrightarrow> list_all P (case limit of None \<Rightarrow> xs | Some n \<Rightarrow> slice_to n xs)"
  by (auto simp: list_all_iff slice_to_def split: option.splits dest: in_set_takeD)

lemma ensures_listEpisodes:
  "ensures ledger_wf (listEpisodes lc pg io q) (\<lambda>es. list_all claim_wf es
     \<and> (\<forall>status. eq_status q = Some status \<longrightarrow> list_all (\<lambda>e. ep_status e = status) es))"
  unfolding listEpisodes_def Let_def
proof (intro ensures_bind [OF ensures_ensureLoaded] ensures_gets conjI allI impI)
  fix s :: episode_ledger and status
  let ?es = "sort_by (by_activity lc) (filter (\<lambda>e. matchesQuery e q) (map_values (du_memory s)))"
  assume "ledger_wf s"
  then have "list_all claim_wf ?es" by (simp add: ledger_wf_def list_all_iff)
  then show "list_all claim_wf (case eq_limit q of None \<Rightarrow> ?es | Some n \<Rightarrow> slice_to n ?es)"
    by (rule list_all_limited)
  assume "eq_status q = Some status"
  then have "list_all (\<lambda>e. ep_status e = status) ?es" by (auto simp: list_all_iff dest: matchesQuery_status)
  then show "list_all (\<lambda>e. ep_status e = status) (case eq_limit q of None \<Rightarrow> ?es | Some n \<Rightarrow> slice_to n ?es)"
    by (rule list_all_limited)
qed

lemma ensures_clear: "ensures ledger_wf (episode_clear lc pg io) (\<lambda>_. True)"
  unfolding episode_clear_def update_all_def
  by (intro ensures_bind [where Q = "\<lambda>_. True"] ensures_ensureLoaded ensures_writeAll ensures_change_memory)
    (simp_all add: map_values_def)

lemma ensures_on_ledger: "ensures ledger_wf a Q \<Longrightarrow> ensures tracker_wf (on_ledger a) Q"
  by (auto simp: ensures_def on_ledger_def tracker_wf_def split: prod.splits)

lemma ensures_event: "ensures tracker_wf (recordEvent e) (\<lambda>_. True)"
  unfolding recordEvent_def by (intro ensures_modify) (simp_all add: tracker_wf_def)

lemma ensures_upsert: "claim_wf e \<Longrightarrow> ensures tracker_wf (upsert w e reason commitHash) (\<lambda>_. True)"
  unfolding upsert_def
  by (intro ensures_bind [where Q = "\<lambda>_. True"] ensures_on_ledger ensures_upsertEpisode ensures_event)

lemma ensures_list:
  "ensures tracker_wf (ledger_list w q) (\<lambda>es. list_all claim_wf es
     \<and> (\<forall>status. eq_status q = Some status \<longrightarrow> list_all (\<lambda>e. ep_status e = status) es))"
  unfolding ledger_list_def by (rule ensures_on_ledger [OF ensures_listEpisodes])

lemma ensures_list_wf: "ensures tracker_wf (ledger_list w q) (list_all claim_wf)"
  by (rule ensures_weaken [OF ensures_list]) simp

lemma ensures_list_for:
  assumes "\<And>e. claim_wf e \<Longrightarrow> ensures tracker_wf (f e) (\<lambda>_. True)"
  shows "ensures tracker_wf (bindA (ledger_list w q) (forA f)) (\<lambda>_. True)"
  by (rule ensures_bind [OF ensures_list_wf]) (auto intro!: ensures_for assms simp: list_all_iff)

lemma ensures_start: "ensures tracker_wf (start w) (\<lambda>_. True)"
proof -
  have "ensures tracker_wf (start_one w e) (\<lambda>_. True)" if "claim_wf e" for e
    unfolding start_one_def using that
    by (intro ensures_if ensures_upsert ensures_return claim_wf_changes) simp_all
  then show ?thesis unfolding start_def
    by (intro ensures_bind [where Q = "\<lambda>_. True"] ensures_if ensures_return ensures_gets ensures_modify
        ensures_on_ledger ensures_ensureLoaded ensures_event ensures_list_for)
      (simp_all add: tracker_wf_def)
qed

lemma ensures_markStale: "ensures tracker_wf (markStaleOpenEpisodes w t) (\<lambda>_. True)"
  unfolding markStaleOpenEpisodes_def
proof (rule ensures_bind [OF ensures_list])
  fix es
  assume es: "list_all claim_wf es \<and> (\<forall>status. eq_status (any_episode\<lparr>eq_status := Some Ep_open\<rparr>) = Some status
      \<longrightarrow> list_all (\<lambda>e. ep_status e = status) es)"
  show "ensures tracker_wf (forA (\<lambda>e. if \<not> isStale e t (tw_staleMs w) then returnA ()
      else upsert w (mark_stale e) ''episode_stale'' None) es) (\<lambda>_. True)"
    using es by (intro ensures_for ensures_if ensures_return ensures_upsert claim_wf_changes)
      (auto simp: list_all_iff)
qed

lemma ensures_findOrCreate: "ensures tracker_wf (findOrCreateEpisode w uuid run t) claim_wf"
  unfolding findOrCreateEpisode_def
proof (rule ensures_bind [OF ensures_list_wf])
  fix es assume es: "list_all claim_wf es"
  show "ensures tracker_wf (case find (accepts_run w run t) es of Some existing \<Rightarrow> returnA existing
      | None \<Rightarrow> bindA (upsert w (new_episode uuid run t) ''episode_created'' None)
          (\<lambda>_. returnA (new_episode uuid run t))) claim_wf"
  proof (cases "find (accepts_run w run t) es")
    case None
    then show ?thesis
      by (simp add: ensures_bind [OF ensures_upsert ensures_return] claim_wf_changes)
  next
    case (Some e)
    with es have "claim_wf e" by (auto simp: find_Some_iff list_all_iff)
    with Some show ?thesis by (simp add: ensures_return)
  qed
qed

lemma ensures_observeRun: "ensures tracker_wf (observeRun w uuid run) (\<lambda>_. True)"
  unfolding observeRun_def Let_def
  by (intro ensures_if ensures_return ensures_bind [OF ensures_markStale]
      ensures_bind [OF ensures_findOrCreate] ensures_upsert claim_wf_changes) simp_all

lemma ensures_observe_item: "ensures tracker_wf (observe_item w item) (\<lambda>_. True)"
  unfolding observe_item_def
proof (rule ensures_bind [OF ensures_list_wf])
  fix es assume es: "list_all claim_wf es"
  then show "ensures tracker_wf (case find (\<lambda>e. we_queryId item \<in> set (ep_queryIds e)) es of None \<Rightarrow> returnA ()
      | Some e \<Rightarrow> upsert w (bind_evidence (tw_lc w) item e) ''episode_evidence_bound'' None) (\<lambda>_. True)"
    by (auto intro!: ensures_return ensures_upsert claim_wf_changes
        simp: find_Some_iff list_all_iff split: option.splits)
qed

lemma ensures_markClaimed:
  "commitHash \<noteq> '''' \<Longrightarrow> ensures tracker_wf (markClaimed w k commitHash t) (\<lambda>_. True)"
  unfolding markClaimed_def
  by (rule ensures_bind [OF ensures_list_wf])
    (auto intro!: ensures_return ensures_upsert claim_wf_changes split: list.splits)

lemma ensures_reopen: "ensures tracker_wf (reopenSupersededCommit w commitHash) (\<lambda>_. True)"
  unfolding reopenSupersededCommit_def by (intro ensures_list_for ensures_upsert claim_wf_changes)

text \<open>Every run of the program over a ledger that starts without a file.\<close>

inductive tracker_reachable :: "tracker \<Rightarrow> bool" where
  boot: "tracker_reachable \<lparr>tk_running = False,
     tk_ledger = \<lparr>du_load = None, du_memory = [], du_file = Missing\<rparr>, tk_events = []\<rparr>"
| started: "tracker_reachable s \<Longrightarrow> tracker_reachable (snd (start w s))"
| stopped: "tracker_reachable s \<Longrightarrow> tracker_reachable (snd (stop s))"
| run_observed: "tracker_reachable s \<Longrightarrow> tracker_reachable (snd (observeRun w uuid run s))"
| evidence_observed: "tracker_reachable s \<Longrightarrow> tracker_reachable (snd (observeWorkspaceEvidence w items s))"
| claimed: "tracker_reachable s \<Longrightarrow> commitHash \<noteq> ''''
    \<Longrightarrow> tracker_reachable (snd (markClaimed w k commitHash t s))"
| reopened: "tracker_reachable s \<Longrightarrow> tracker_reachable (snd (reopenSupersededCommit w commitHash s))"
| cleared: "tracker_reachable s \<Longrightarrow> tracker_reachable (snd (reset w s))"
| restarted: "tracker_reachable s \<Longrightarrow> tracker_reachable
    \<lparr>tk_running = False, tk_ledger = restart [] (tk_ledger s), tk_events = []\<rparr>"

lemma tracker_reachable_wf: "tracker_reachable s \<Longrightarrow> tracker_wf s"
proof (induction rule: tracker_reachable.induct)
  case boot
  then show ?case by (simp add: tracker_wf_def ledger_wf_def map_values_def)
next
  case (stopped s)
  then show ?case by (simp add: stop_def tracker_wf_def)
next
  case (restarted s)
  then show ?case by (simp add: tracker_wf_def ledger_wf_def restart_def map_values_def)
next
  case (evidence_observed s w items)
  then show ?case using ensures_for [of items tracker_wf "observe_item w", OF ensures_observe_item]
    by (simp add: ensures_def observeWorkspaceEvidence_def)
next
  case (cleared s w)
  then show ?case using ensures_on_ledger [OF ensures_clear] by (simp add: ensures_def reset_def)
qed (use ensures_start ensures_observeRun ensures_markClaimed ensures_reopen in \<open>simp_all add: ensures_def\<close>)

text \<open>
  C39: the claim of an episode is well formed. Whatever runs, evidence, claims, rewrites, failures,
  restarts and compactions happened, an episode that the tracker lists as claimed has the commit
  that claimed it, and an open or stale one has none.
\<close>

theorem episode_claims_consistent:
  assumes "tracker_reachable s" "fst (ledger_list w q s) = Inr es" "e \<in> set es"
  shows "(if ep_status e = Ep_claimed then truthy (ep_claimedByCommitHash e)
    else ep_status e \<in> {Ep_open, Ep_stale} \<longrightarrow> ep_claimedByCommitHash e = None)"
proof -
  from assms(2) obtain s' where l: "ledger_list w q s = (Inr es, s')" by (metis prod.collapse)
  from ensuresD [OF ensures_list_wf tracker_reachable_wf [OF assms(1)] l] assms(3)
  have "claim_wf e" by (simp add: list_all_iff)
  then show ?thesis by (cases "ep_claimedByCommitHash e") (auto simp: claim_wf_def)
qed

definition sample_world :: tracker_world where
  "sample_world = \<lparr>tw_lc = code_unit_compare, tw_pg = (\<lambda>_. []), tw_io = True,
     tw_now = the (date_ms ''2026-07-01T00:10:00.000Z''), tw_staleMs = DEFAULT_STALE_MS\<rparr>"

definition sample_run :: observed_run where
  "sample_run = \<lparr>or_id = ''run1'', or_traceId = ''t1'', or_queryId = ''qry_1'',
     or_queryStartedAt = Some ''2026-07-01T00:00:00.000Z'', or_startedAt = None, or_endedAt = None,
     or_chatSessionId = Some ''chat'', or_copilotSessionId = None, or_traceChatSessionId = None\<rparr>"

definition tracker_boot :: tracker where
  "tracker_boot = \<lparr>tk_running = False,
     tk_ledger = \<lparr>du_load = None, du_memory = [], du_file = Missing\<rparr>, tk_events = []\<rparr>"

definition sample_tracked :: tracker where
  "sample_tracked = snd (observeRun sample_world ''ep1'' sample_run tracker_boot)"

definition sample_claimed_tracker :: tracker where
  "sample_claimed_tracker =
     snd (markClaimed sample_world ''ep1'' ''h1'' ''2026-07-01T00:05:00.000Z'' sample_tracked)"

lemma sample_trackers_reachable: "tracker_reachable sample_tracked" "tracker_reachable sample_claimed_tracker"
  using tracker_reachable.boot tracker_reachable.run_observed tracker_reachable.claimed
  by (simp_all add: sample_tracked_def sample_claimed_tracker_def tracker_boot_def)

theorem episode_claims_consistent_witness:
  "\<exists>e. fst (ledger_list sample_world any_episode sample_claimed_tracker) = Inr [e]
     \<and> ep_status e = Ep_claimed \<and> truthy (ep_claimedByCommitHash e)"
proof -
  have l: "map_sum id (map ep_status) (fst (ledger_list sample_world any_episode sample_claimed_tracker))
      = Inr [Ep_claimed]" by code_simp
  then obtain es where es: "fst (ledger_list sample_world any_episode sample_claimed_tracker) = Inr es"
    "map ep_status es = [Ep_claimed]" by (cases "fst (ledger_list sample_world any_episode sample_claimed_tracker)") auto
  then obtain e where e: "es = [e]" "ep_status e = Ep_claimed" by auto
  from episode_claims_consistent [OF sample_trackers_reachable(2) es(1), of e] e es(1) show ?thesis by simp
qed

section \<open>The census of causal writes\<close>

lemma map_set_same: "map_get m k = Some v \<Longrightarrow> map_set k v m = m"
  by (induction k v m rule: map_set.induct) (auto split: if_splits)

text \<open>A successful upsert puts the normal form of the episode into the ledger.\<close>

lemma writeAll_memory: "episode_writeAll pg io l = (r, l') \<Longrightarrow> du_memory l' = du_memory l"
proof -
  have check: "forA (checkEpisode pg) es l = (r, l') \<Longrightarrow> l' = l" for es l r l'
    by (induction es arbitrary: l) (auto simp: checkEpisode_def bindA_def split: if_splits)
  assume "episode_writeAll pg io l = (r, l')"
  then show ?thesis
    by (cases "forA (checkEpisode pg) (map_values (du_memory l)) l")
      (auto simp: episode_writeAll_def writeEpisodes_def bindA_def split: if_splits sum.splits dest: check)
qed

lemma upsertEpisode_stores:
  assumes "upsertEpisode lc pg io e l = (Inr (), l')"
  shows "map_get (du_memory l') (ep_episodeId e) = Some (normalizeEpisode e)"
proof -
  from assms obtain n l1 where l1: "episode_ensureLoaded lc pg io l = (Inr n, l1)"
    and cases: "(map_get (du_memory l1) (ep_episodeId e) = Some (normalizeEpisode e) \<and> l' = l1)
      \<or> episode_writeAll pg io (l1\<lparr>du_memory := map_set (ep_episodeId e) (normalizeEpisode e) (du_memory l1)\<rparr>)
        = (Inr (), l')"
    by (auto simp: upsertEpisode_def checkEpisode_def change_memory_def bindA_Inr Let_def split: if_splits)
  from cases show ?thesis
  proof
    assume "episode_writeAll pg io (l1\<lparr>du_memory := map_set (ep_episodeId e) (normalizeEpisode e) (du_memory l1)\<rparr>)
        = (Inr (), l')"
    from writeAll_memory [OF this] show ?thesis by simp
  qed auto
qed

lemma upsert_stores:
  assumes "upsert w e reason commitHash s = (Inr (), s')"
  shows "map_get (du_memory (tk_ledger s')) (ep_episodeId e) = Some (normalizeEpisode e)"
proof -
  from assms obtain l' where "upsertEpisode (tw_lc w) (tw_pg w) (tw_io w) e (tk_ledger s) = (Inr (), l')"
    "tk_ledger s' = l'"
    by (auto simp: upsert_def bindA_Inr on_ledger_def recordEvent_def split: prod.splits)
  then show ?thesis using upsertEpisode_stores by blast
qed

lemma filter_values_map_set:
  assumes "distinct (map fst m)" "P v" "\<And>k' x. (k', x) \<in> set m \<Longrightarrow> k' \<noteq> k \<Longrightarrow> \<not> P x"
  shows "filter P (map_values (map_set k v m)) = [v]"
  using assms
proof (induction k v m rule: map_set.induct)
  case (1 k v)
  then show ?case by (simp add: map_values_def)
next
  case (2 k v k' v' m)
  show ?case
  proof (cases "k = k'")
    case True
    then have "filter P (map snd m) = []" using 2(2,4) by (force simp: filter_empty_conv)
    with True 2(3) show ?thesis by (simp add: map_values_def)
  next
    case False
    then have "\<not> P v'" using 2(4) [of k' v'] by auto
    moreover have "filter P (map_values (map_set k v m)) = [v]"
      by (rule 2(1) [OF False]) (use 2(2-4) in auto)
    ultimately show ?thesis using False by (simp add: map_values_def)
  qed
qed

text \<open>Of the evidence of the item's query and repository, binding leaves one record.\<close>

lemma bind_evidence_one:
  fixes item e lc
  defines "ours \<equiv> \<lambda>x. we_queryId x = we_queryId item \<and> we_repoKey x = we_repoKey item"
  obtains r where "filter ours (ep_evidence (bind_evidence lc item e)) = [r]"
    "r = item \<or> (\<exists>current \<in> set (ep_evidence e). r = mergeEvidenceRecord lc current item)"
proof -
  let ?old = "filter (\<lambda>x. \<not> ours x \<or> we_epochId x = we_epochId item) (ep_evidence e)"
  let ?m = "map_from evidenceKey ?old"
  define r where "r = (case map_get ?m (evidenceKey item) of None \<Rightarrow> item
    | Some current \<Rightarrow> mergeEvidenceRecord lc current item)"
  have old: "(\<lambda>x. we_queryId x \<noteq> we_queryId item \<or> we_repoKey x \<noteq> we_repoKey item
      \<or> we_epochId x = we_epochId item) = (\<lambda>x. \<not> ours x \<or> we_epochId x = we_epochId item)"
    by (auto simp: ours_def)
  have ev: "ep_evidence (bind_evidence lc item e) = map_values (map_set (evidenceKey item) r ?m)"
    unfolding bind_evidence_def Let_def trackEvidence_def r_def old by simp
  have cases: "r = item \<or> (\<exists>current \<in> set (ep_evidence e). r = mergeEvidenceRecord lc current item)"
  proof (cases "map_get ?m (evidenceKey item)")
    case None
    show ?thesis unfolding r_def None by simp
  next
    case (Some current)
    from map_from_get [OF Some] have "current \<in> set (ep_evidence e)" by simp
    then show ?thesis unfolding r_def Some by auto
  qed
  have ours_r: "ours r"
    using cases by (rule disjE) (auto simp only: ours_def mergeEvidenceRecord_def Let_def work_evidence.simps)
  have others: "\<not> ours x" if "(k, x) \<in> set ?m" "k \<noteq> evidenceKey item" for k x
  proof
    assume "ours x"
    moreover from map_from_mem [OF that(1)] have "\<not> ours x \<or> we_epochId x = we_epochId item" "k = evidenceKey x"
      by simp_all
    ultimately have "evidenceKey x = evidenceKey item" by (simp add: ours_def evidenceKey_def)
    with that(2) \<open>k = evidenceKey x\<close> show False by simp
  qed
  have "filter ours (ep_evidence (bind_evidence lc item e)) = [r]"
    unfolding ev
    by (rule filter_values_map_set [where P = ours and v = r]; (rule distinct_map_from | rule ours_r | erule others)?)
  from that [OF this cases] show thesis .
qed

text \<open>
  A complete census of causal writes replaces the older one. When evidence that carries a
  complete census is bound to the episode of its query, the episode keeps one record for that query
  and repository, whatever it had for them before, and the causal writes and native rejections of
  that record are exactly those of the new census; nothing of an older one survives.
\<close>

theorem census_replaces:
  assumes "fst (ledger_list w (any_episode\<lparr>eq_queryId := Some (we_queryId item)\<rparr>) s) = Inr es"
    and "find (\<lambda>e. we_queryId item \<in> set (ep_queryIds e)) es = Some e"
    and "we_causalWriteArtifactsComplete item = Some True"
    and "observeWorkspaceEvidence w [item] s = (Inr (), s')"
  shows "\<exists>stored r. map_get (du_memory (tk_ledger s')) (ep_episodeId e) = Some stored
    \<and> filter (\<lambda>x. we_queryId x = we_queryId item \<and> we_repoKey x = we_repoKey item) (ep_evidence stored) = [r]
    \<and> we_causalWriteArtifacts r = we_causalWriteArtifacts item
    \<and> we_nativeRejectedCausalWriteArtifacts r = we_nativeRejectedCausalWriteArtifacts item
    \<and> we_causalWriteArtifactsComplete r = Some True"
proof -
  obtain s1 where l: "ledger_list w (any_episode\<lparr>eq_queryId := Some (we_queryId item)\<rparr>) s = (Inr es, s1)"
    using assms(1) by (metis prod.collapse)
  then have "upsert w (bind_evidence (tw_lc w) item e) ''episode_evidence_bound'' None s1 = (Inr (), s')"
    using assms(2,4) by (auto simp: observeWorkspaceEvidence_def observe_item_def bindA_Inr)
  from upsert_stores [OF this]
  have stored: "map_get (du_memory (tk_ledger s')) (ep_episodeId e)
      = Some (normalizeEpisode (bind_evidence (tw_lc w) item e))"
    by (simp add: bind_evidence_def Let_def)
  obtain r where r: "filter (\<lambda>x. we_queryId x = we_queryId item \<and> we_repoKey x = we_repoKey item)
      (ep_evidence (bind_evidence (tw_lc w) item e)) = [r]"
    "r = item \<or> (\<exists>current \<in> set (ep_evidence e). r = mergeEvidenceRecord (tw_lc w) current item)"
    by (rule bind_evidence_one)
  have "filter (\<lambda>x. we_queryId x = we_queryId item \<and> we_repoKey x = we_repoKey item)
      (ep_evidence (normalizeEpisode (bind_evidence (tw_lc w) item e))) = [normalizeEpisodeEvidence r]"
    using r(1) by (simp add: normalizeEpisode_def filter_map comp_def normalizeEpisodeEvidence_def)
  moreover have "we_causalWriteArtifacts r = we_causalWriteArtifacts item"
    "we_nativeRejectedCausalWriteArtifacts r = we_nativeRejectedCausalWriteArtifacts item"
    "we_causalWriteArtifactsComplete r = Some True"
    using r(2) assms(3) by (auto simp: mergeEvidenceRecord_def Let_def)
  ultimately show ?thesis using stored
    by (intro exI [of _ "normalizeEpisode (bind_evidence (tw_lc w) item e)"]
        exI [of _ "normalizeEpisodeEvidence r"]) (simp add: normalizeEpisodeEvidence_def)
qed

definition census :: "causal_write list \<Rightarrow> work_evidence" where
  "census writes = \<lparr>we_queryId = ''qry_1'', we_runIds = [''run1''], we_repoKey = ''r'', we_epochId = Some ''e'',
     we_startedAt = ''2026-07-01T00:01:00.000Z'', we_completedAt = None, we_settlingUntil = None,
     we_expiresAt = None, we_baselineTrusted = True, we_baselineReasons = [],
     we_headCommitAtStart = None, we_baselineSequence = None, we_dirtyAtStart = False,
     we_observedChangeCount = 1, we_artifactKeys = [''a''], we_causalArtifactKeys = None,
     we_causalWriteArtifacts = Some writes, we_nativeRejectedCausalWriteArtifacts = None,
     we_causalWriteArtifactsComplete = Some True, we_baselineArtifactStates = None,
     we_artifactStates = None, we_addedLines = 1, we_deletedLines = 0, we_firstObservedAt = None,
     we_lastObservedAt = None, we_status = None\<rparr>"

definition bound_episode :: episode where
  "bound_episode = normalizeEpisode ((new_episode ''ep1'' sample_run ''2026-07-01T00:00:00.000Z'')
     \<lparr>ep_evidence := [census [\<lparr>cw_artifactKey = ''a'', cw_executionNodeId = ''n''\<rparr>]]\<rparr>)"

definition bound_tracker :: tracker where
  "bound_tracker = \<lparr>tk_running = True, tk_ledger = \<lparr>du_load = Some (Inr 0),
     du_memory = [(''ep1'', bound_episode)], du_file = Missing\<rparr>, tk_events = []\<rparr>"

theorem census_replaces_witness:
  "\<exists>s' stored r. observeWorkspaceEvidence sample_world [census []] bound_tracker = (Inr (), s')
     \<and> map_get (du_memory (tk_ledger s')) ''ep1'' = Some stored
     \<and> r \<in> set (ep_evidence stored) \<and> we_causalWriteArtifacts r = Some []"
proof -
  have q: "we_queryId (census []) = ''qry_1''" by (simp add: census_def)
  have l: "fst (ledger_list sample_world (any_episode\<lparr>eq_queryId := Some (we_queryId (census []))\<rparr>) bound_tracker)
      = Inr [bound_episode]"
    by (simp add: ledger_list_def on_ledger_def listEpisodes_def episode_ensureLoaded_def once_def bindA_def
        bound_tracker_def map_values_def matchesQuery_def any_episode_def sort_by_def)
  have e: "find (\<lambda>e. we_queryId (census []) \<in> set (ep_queryIds e)) [bound_episode] = Some bound_episode"
    unfolding q by code_simp
  have k: "ep_episodeId bound_episode = ''ep1''" by code_simp
  have "fst (observeWorkspaceEvidence sample_world [census []] bound_tracker) = Inr ()" by code_simp
  then obtain s' where s': "observeWorkspaceEvidence sample_world [census []] bound_tracker = (Inr (), s')"
    by (metis prod.collapse)
  have c: "we_causalWriteArtifactsComplete (census []) = Some True" "we_causalWriteArtifacts (census []) = Some []"
    by (simp_all add: census_def)
  from census_replaces [OF l e c(1) s', unfolded k c(2)] obtain stored r where
    r: "map_get (du_memory (tk_ledger s')) ''ep1'' = Some stored"
    "filter (\<lambda>x. we_queryId x = we_queryId (census []) \<and> we_repoKey x = we_repoKey (census [])) (ep_evidence stored) = [r]"
    "we_causalWriteArtifacts r = Some []" by blast
  from r(2) have "r \<in> set (ep_evidence stored)" by (metis filter_is_subset list.set_intros(1) subsetD)
  with r s' show ?thesis by blast
qed

text \<open>A run that names a session of the Copilot agent but no chat is grouped by that session, while the
  episodes it creates carry no session: none of them is accepted again unless its first query has
  the name of the session.\<close>

lemma session_without_chat:
  assumes "accepts_run w run t e" "or_chatSessionId run = None" "or_copilotSessionId run = Some session"
    "ep_chatSessionId e = None" "ep_queryIds e \<noteq> []"
  shows "hd (ep_queryIds e) = session"
  using assms by (cases "ep_queryIds e")
    (simp_all add: accepts_run_def sessionGroupingId_def sessionGroupingIdFromEpisode_def)

end
