(* ===== verification/Diagnostics.thy ===== *)
theory Diagnostics
  imports Prelude
begin

text \<open>
  The parts of diagnostic events that several components record: the options of a
  \<open>constructLifecycle\<close> event (src/src/types.ts, \<open>DiagnosticEvent\<close>), whose empty strings are left out,
  and the scalars of its details.
\<close>

datatype detail = D_num int | D_text string | D_bool bool | D_null

record lifecycle_options =
  lo_episodeId :: "string option"
  lo_repoKey :: "string option"
  lo_epochId :: "string option"
  lo_commitHash :: "string option"
  lo_details :: "(string \<times> detail) list option"

definition unless_empty :: "string option \<Rightarrow> string option" where
  "unless_empty x = (if truthy x then x else None)"

definition no_options :: lifecycle_options where
  "no_options = \<lparr>lo_episodeId = None, lo_repoKey = None, lo_epochId = None, lo_commitHash = None,
     lo_details = None\<rparr>"

definition given_options :: "lifecycle_options \<Rightarrow> lifecycle_options" where
  "given_options options =
     \<lparr>lo_episodeId = unless_empty (lo_episodeId options), lo_repoKey = unless_empty (lo_repoKey options),
      lo_epochId = unless_empty (lo_epochId options), lo_commitHash = unless_empty (lo_commitHash options),
      lo_details = lo_details options\<rparr>"

definition num :: "nat \<Rightarrow> detail" where
  "num n = D_num (int n)"

definition opt_detail :: "string option \<Rightarrow> detail" where
  "opt_detail x = (case x of None \<Rightarrow> D_null | Some t \<Rightarrow> D_text t)"

end
