(* ===== verification/GitAttribution.thy ===== *)
theory GitAttribution
  imports CommitSummaries LedgerProperties RepositoryObservationStore WorkEpisodeTracker Diagnostics
begin

text \<open>
  The coordinator of attribution: src/src/attribution/gitAttribution.ts, class
  \<open>DefaultGitAttribution\<close>. It holds no attribution itself: it reads epochs and candidates from the
  repository observations (\<open>RepositoryObservationStore\<close>), episodes from the tracker
  (\<open>WorkEpisodeTracker\<close>), asks the policy (\<open>CommitAttributionPolicy\<close>) and writes claims to the
  ledger (\<open>CommitAttributionLedger\<close>). Its mutation queue runs the operations one at a time, so each
  is an action on the states of the three; an operation of one of the three that another caller
  starts in between is not modelled. The commit graph, the messages of commits, the query groups
  of the run ledger and whether \<open>resolveQueries\<close> succeeds are parameters of the world.
\<close>

section \<open>State\<close>

datatype change_notice_kind = Allocation_changed | History_rewrite | Candidate_changed

record attribution_change =
  ac_kind :: change_notice_kind
  ac_queryId :: "string option"
  ac_commitHash :: "string option"

datatype coordinator_error =
    Ledger_failed ledger_error
  | Episodes_failed jsonl_error
  | Observations_failed observation_error
  | Resolve_failed

datatype attribution_event =
    Attribution_decision "string option" "string option" string string
  | Construct_lifecycle string string string lifecycle_options
  | Reconciliation_failed coordinator_error

record coordinator =
  ga_running :: bool
  ga_subscribed :: bool
  ga_retryTimer :: bool
  ga_ledger :: store
  ga_episodes :: tracker
  ga_observations :: observation_store
  ga_handlers :: "nat list"
  ga_published :: "(nat \<times> attribution_change) list"
  ga_resolved :: "string list list"
  ga_events :: "attribution_event list"

text \<open>Of a query group and its runs, what the coordinator reads.\<close>

record group_run =
  gr_id :: string
  gr_serviceName :: "string option"

record query_group =
  qg_queryId :: string
  qg_runs :: "group_run list"
  qg_modelProviders :: "string option list"
  qg_estimatedNanoUsd :: "rat option"
  qg_estimatedUsd :: "rat option"
  qg_estimatedAiCredits :: "rat option"
  qg_costCoverage :: cost_coverage
  qg_pricingCoverage :: "pricing_coverage option"

record attribution_world =
  gw_tracker :: tracker_world
  gw_pg :: guard
  gw_observationGuard :: observation_guard
  gw_observationIo :: bool
  gw_isAncestor :: "string \<Rightarrow> string \<Rightarrow> string \<Rightarrow> bool"
  gw_commitMessage :: "string \<Rightarrow> string \<Rightarrow> string option"
  gw_groups :: "string option \<Rightarrow> query_group list"
  gw_resolves :: bool

type_synonym 'a coordinator_action = "(coordinator, coordinator_error, 'a) action"

definition gw_lc :: "attribution_world \<Rightarrow> collation" where
  "gw_lc w = tw_lc (gw_tracker w)"

definition gw_now :: "attribution_world \<Rightarrow> int" where
  "gw_now w = tw_now (gw_tracker w)"

definition CANDIDATE_TTL_MS :: int where
  "CANDIDATE_TTL_MS = 24 * 60 * 60 * 1000"

definition EPISODE_CLAIM_WINDOW_MS :: int where
  "EPISODE_CLAIM_WINDOW_MS = 4 * 60 * 60 * 1000"

definition any_attribution :: attribution_query where
  "any_attribution = \<lparr>aq_limit = None, aq_range = None, aq_commitHash = None, aq_repoKey = None\<rparr>"

section \<open>The collaborators\<close>

definition on_attributions :: "(store \<Rightarrow> ledger_error + 'a \<times> store) \<Rightarrow> 'a coordinator_action" where
  "on_attributions f s = (case f (ga_ledger s) of
       Inl e \<Rightarrow> (Inl (Ledger_failed e), s)
     | Inr (x, st) \<Rightarrow> (Inr x, s\<lparr>ga_ledger := st\<rparr>))"

definition on_episodes :: "'a tracker_action \<Rightarrow> 'a coordinator_action" where
  "on_episodes a s = (case a (ga_episodes s) of (r, t) \<Rightarrow> (map_sum Episodes_failed id r, s\<lparr>ga_episodes := t\<rparr>))"

definition on_observations :: "'a observation_action \<Rightarrow> 'a coordinator_action" where
  "on_observations a s =
     (case a (ga_observations s) of (r, t) \<Rightarrow> (map_sum Observations_failed id r, s\<lparr>ga_observations := t\<rparr>))"

definition list_attributions :: "attribution_world \<Rightarrow> attribution_query \<Rightarrow> query_attribution list coordinator_action" where
  "list_attributions w q = getsA (\<lambda>s. listQueryAttributions (gw_lc w) q (ga_ledger s))"

definition upsert_attribution :: "attribution_world \<Rightarrow> query_attribution \<Rightarrow> unit coordinator_action" where
  "upsert_attribution w q = on_attributions (\<lambda>st.
     bindE (upsertQueryAttribution (gw_lc w) (gw_pg w) q st) (\<lambda>st'. Inr ((), st')))"

definition update_candidate :: "attribution_world \<Rightarrow> commit_candidate \<Rightarrow> unit coordinator_action" where
  "update_candidate w c =
     on_observations (updateCandidate (gw_lc w) (gw_observationGuard w) (gw_observationIo w) c)"

definition resolve_queries :: "attribution_world \<Rightarrow> string list \<Rightarrow> unit coordinator_action" where
  "resolve_queries w qs = bindA (modifyA (\<lambda>s. s\<lparr>ga_resolved := ga_resolved s @ [qs]\<rparr>)) (\<lambda>_.
     if gw_resolves w then returnA () else throwA Resolve_failed)"

text \<open>Every handler gets the change; what a handler throws is dropped.\<close>

definition publish :: "attribution_change \<Rightarrow> unit coordinator_action" where
  "publish c = modifyA (\<lambda>s. s\<lparr>ga_published := ga_published s @ map (\<lambda>h. (h, c)) (ga_handlers s)\<rparr>)"

definition publish_commit :: "change_notice_kind \<Rightarrow> string \<Rightarrow> unit coordinator_action" where
  "publish_commit k commitHash = publish \<lparr>ac_kind = k, ac_queryId = None, ac_commitHash = Some commitHash\<rparr>"

definition publish_kind :: "change_notice_kind \<Rightarrow> unit coordinator_action" where
  "publish_kind k = publish \<lparr>ac_kind = k, ac_queryId = None, ac_commitHash = None\<rparr>"

definition add_event :: "attribution_event \<Rightarrow> unit coordinator_action" where
  "add_event e = modifyA (\<lambda>s. s\<lparr>ga_events := ga_events s @ [e]\<rparr>)"

definition decision_event :: "string option \<Rightarrow> string option \<Rightarrow> string \<Rightarrow> string \<Rightarrow> unit coordinator_action" where
  "decision_event episodeId commitHash status reason =
     add_event (Attribution_decision episodeId commitHash status reason)"

definition recordLifecycle :: "string \<Rightarrow> string \<Rightarrow> string \<Rightarrow> lifecycle_options \<Rightarrow> unit coordinator_action" where
  "recordLifecycle operation state reason options =
     add_event (Construct_lifecycle operation state reason (given_options options))"

definition candidate_options :: "commit_candidate \<Rightarrow> lifecycle_options" where
  "candidate_options c = \<lparr>lo_episodeId = None, lo_repoKey = Some (cc_repoKey c),
     lo_epochId = Some (cc_epochId c), lo_commitHash = Some (cc_commitHash c), lo_details = None\<rparr>"

section \<open>Groups of claims\<close>

text \<open>A map from the commit that holds a claim to the queries it holds.\<close>

type_synonym claim_groups = "(string, string list) jsmap"

definition group_push :: "string \<Rightarrow> string list \<Rightarrow> claim_groups \<Rightarrow> claim_groups" where
  "group_push h qs m = map_set h (nullish (map_get m h) [] @ qs) m"

definition grouped_queries :: "claim_groups \<Rightarrow> string list" where
  "grouped_queries m = concat (map_values m)"

definition activeFirstClaimQueryIds :: "query_attribution list \<Rightarrow> string list" where
  "activeFirstClaimQueryIds attributions = map qa_queryId
     (filter (\<lambda>q. list_ex (\<lambda>a. al_allocationPolicy a = First_claim \<and> al_status a = Al_active)
        (qa_allocations q)) attributions)"

definition hasActiveAllocationForCandidate :: "query_attribution list \<Rightarrow> commit_candidate \<Rightarrow> bool" where
  "hasActiveAllocationForCandidate attributions c =
     list_ex (\<lambda>q. list_ex (\<lambda>a. al_allocationPolicy a = First_claim \<and> holds_claim a
         \<and> al_repoKey a = cc_repoKey c \<and> al_epochId a = Some (cc_epochId c)
         \<and> al_commitHash a = cc_commitHash c) (qa_allocations q)) attributions"

definition rewritePendingGroups :: "query_attribution list \<Rightarrow> string list \<Rightarrow> string \<Rightarrow> claim_groups" where
  "rewritePendingGroups attributions queryIds replacementCommitHash =
     foldl (\<lambda>groups q. case find (\<lambda>a. al_status a = Al_rewrite_pending) (qa_allocations q) of
         Some pending \<Rightarrow> if al_commitHash pending \<noteq> replacementCommitHash
           then group_push (al_commitHash pending) [qa_queryId q] groups else groups
       | None \<Rightarrow> groups) [] (filter (\<lambda>q. qa_queryId q \<in> set queryIds) attributions)"

definition episode_claim :: "commit_candidate \<Rightarrow> episode \<Rightarrow> allocation \<Rightarrow> bool" where
  "episode_claim c e a \<longleftrightarrow> al_status a = Al_active \<and> al_decision a = Some Reportable
     \<and> al_episodeId a = Some (ep_episodeId e) \<and> al_repoKey a = cc_repoKey c
     \<and> al_epochId a = Some (cc_epochId c) \<and> al_commitHash a \<noteq> cc_commitHash c
     \<and> al_createdAt a < cc_observedAt c"

definition activeEpisodeSupersessionGroups :: "query_attribution list \<Rightarrow> commit_candidate \<Rightarrow> episode
    \<Rightarrow> claim_groups" where
  "activeEpisodeSupersessionGroups attributions c e =
     foldl (\<lambda>groups q. case find (episode_claim c e) (qa_allocations q) of
         None \<Rightarrow> groups
       | Some active \<Rightarrow> group_push (al_commitHash active) [qa_queryId q] groups)
       [] (filter (\<lambda>q. qa_queryId q \<in> set (ep_queryIds e)) attributions)"

definition activeCandidateAnchorQueryIds :: "query_attribution list \<Rightarrow> commit_candidate \<Rightarrow> episode
    \<Rightarrow> string list" where
  "activeCandidateAnchorQueryIds attributions c e = map qa_queryId
     (filter (\<lambda>q. list_ex (\<lambda>a. al_status a = Al_active \<and> al_decision a = Some Reportable
         \<and> al_commitHash a = cc_commitHash c \<and> al_episodeId a = Some (ep_episodeId e))
        (qa_allocations q)) attributions)"

definition subtractQueries :: "string list \<Rightarrow> string list \<Rightarrow> string list" where
  "subtractQueries activeQueryIds excludedQueryIds =
     filter (\<lambda>q. q \<notin> set excludedQueryIds) activeQueryIds"

definition filterClaimGroups :: "claim_groups \<Rightarrow> string list \<Rightarrow> claim_groups" where
  "filterClaimGroups groups queryIds =
     foldl (\<lambda>filtered (h, qs). let matching = filter (\<lambda>q. q \<in> set queryIds) qs
       in if matching \<noteq> [] then map_set h matching filtered else filtered) [] groups"

definition mergeClaimGroups :: "claim_groups list \<Rightarrow> claim_groups" where
  "mergeClaimGroups groups =
     foldl (foldl (\<lambda>merged (h, qs). map_set h (unique_sorted (nullish (map_get merged h) [] @ qs)) merged))
       [] groups"

section \<open>Helpers\<close>

definition episodeHasQueryActivitySinceClaim :: "episode \<Rightarrow> bool" where
  "episodeHasQueryActivitySinceClaim e =
     (if \<not> truthy (ep_claimedAt e) then True
      else ms_less (date_ms (the (ep_claimedAt e)))
        (date_ms (nullish (ep_lastQueryActivityAt e) (ep_lastAgentActivityAt e))))"

definition isExpired :: "commit_candidate \<Rightarrow> int \<Rightarrow> bool" where
  "isExpired c now = ms_gap_exceeds (date_ms (cc_observedAt c)) (Some now) CANDIDATE_TTL_MS"

definition episodeRepoKeys :: "episode \<Rightarrow> string list" where
  "episodeRepoKeys e = nullish (ep_repoKeys e)
     (if truthy (ep_repoKey e) then [the (ep_repoKey e)] else [])"

definition isObservationReasonCode :: "string \<Rightarrow> bool" where
  "isObservationReasonCode reason = ends_with reason ''_observed_after_epoch''"

definition primaryCandidateReason :: "string list \<Rightarrow> string" where
  "primaryCandidateReason reasons =
     (case find (\<lambda>r. \<not> isObservationReasonCode r) reasons of
        Some r \<Rightarrow> r
      | None \<Rightarrow> (case reasons of r # _ \<Rightarrow> r | [] \<Rightarrow> ''candidate_reconciled''))"

definition summarizeEpisodeIds :: "episode list \<Rightarrow> detail" where
  "summarizeEpisodeIds episodes =
     (if episodes = [] then D_null else D_text (join '','' (map ep_episodeId episodes)))"

definition candidateEvaluationOutcome :: "bool \<Rightarrow> bool \<Rightarrow> nat \<Rightarrow> nat \<Rightarrow> bool \<Rightarrow> string list \<Rightarrow> string \<times> string" where
  "candidateEvaluationOutcome reported wasReportable relevant freshUnbound matchingObserved reasonCodes =
     (if reported then (''matched_reportable'', ''verified_content_continuity'')
      else if wasReportable then (''reportable_retained'', ''verified_content_continuity'')
      else if relevant = 0 \<and> freshUnbound > 0
      then (''waiting_for_workspace_evidence'', ''fresh_episode_unbound_no_workspace_evidence'')
      else if relevant = 0 \<and> matchingObserved
      then (''claim_window_expired'', ''matching_repository_episode_claim_window_expired'')
      else if relevant = 0 then (''no_matching_episode'', ''no_temporally_relevant_episode'')
      else if ''query_already_claimed_by_other_commit'' \<in> set reasonCodes
      then (''blocked_by_active_claim'', ''query_already_claimed_by_other_commit'')
      else (''evaluated_no_reportable_match'', primaryCandidateReason reasonCodes))"

section \<open>Lineage\<close>

definition lineage_of :: "attribution_world \<Rightarrow> commit_candidate \<Rightarrow> work_evidence \<Rightarrow> bool" where
  "lineage_of w c item \<longleftrightarrow>
     (if \<not> truthy (we_headCommitAtStart item)
      then (case we_baselineSequence item of None \<Rightarrow> False | Some b \<Rightarrow> b < cc_observedSequence c)
      else gw_isAncestor w (cc_repoKey c) (the (we_headCommitAtStart item)) (cc_commitHash c))"

definition lineageVerifiedQueryIds :: "attribution_world \<Rightarrow> commit_candidate \<Rightarrow> episode \<Rightarrow> string list" where
  "lineageVerifiedQueryIds w c e = dedup (map we_queryId (filter (lineage_of w c)
     (filter (\<lambda>item. we_repoKey item = cc_repoKey c \<and> we_epochId item = Some (cc_epochId c))
       (ep_evidence e))))"

section \<open>Claims of one candidate\<close>

record progress =
  pr_reported :: bool
  pr_reasons :: "string list"
  pr_active :: "string list"

definition claim_input :: "commit_candidate \<Rightarrow> episode \<Rightarrow> attribution_proof \<Rightarrow> string list \<Rightarrow> first_claim_input" where
  "claim_input c e p qs = \<lparr>fc_candidate = c, fc_episode = e, fc_proof = p, fc_queryIds = qs\<rparr>"

definition episode_options :: "commit_candidate \<Rightarrow> episode \<Rightarrow> (string \<times> detail) list \<Rightarrow> lifecycle_options" where
  "episode_options c e details = (candidate_options c)
     \<lparr>lo_episodeId := Some (ep_episodeId e), lo_details := Some details\<rparr>"

definition claim_regular :: "attribution_world \<Rightarrow> commit_candidate \<Rightarrow> episode \<Rightarrow> attribution_proof
    \<Rightarrow> string list \<Rightarrow> (string list \<times> string list) coordinator_action" where
  "claim_regular w c e p queryIds =
     (if queryIds = [] then returnA ([], [])
      else on_attributions (tryFirstClaim (gw_lc w) (gw_pg w) (gw_now w) (claim_input c e p queryIds)))"

definition transfer_group :: "attribution_world \<Rightarrow> commit_candidate \<Rightarrow> episode \<Rightarrow> attribution_proof
    \<Rightarrow> string \<times> string list \<Rightarrow> string list coordinator_action" where
  "transfer_group w c e p = (\<lambda>(supersededCommitHash, queryIds).
     bindA (on_attributions (transferFirstClaim (gw_lc w) (gw_pg w) (gw_now w)
       (claim_input c e p queryIds) supersededCommitHash)) (\<lambda>(claimed, skipped). returnA claimed))"

definition transfer_rewrites :: "attribution_world \<Rightarrow> commit_candidate \<Rightarrow> episode \<Rightarrow> attribution_proof
    \<Rightarrow> claim_groups \<Rightarrow> string list coordinator_action" where
  "transfer_rewrites w c e p groups = foldA (\<lambda>g transferred.
     bindA (transfer_group w c e p g) (\<lambda>claimed. returnA (transferred @ claimed))) groups []"

definition transfer_episode :: "attribution_world \<Rightarrow> commit_candidate \<Rightarrow> episode \<Rightarrow> attribution_proof
    \<Rightarrow> claim_groups \<Rightarrow> string list \<Rightarrow> string list coordinator_action" where
  "transfer_episode w c e p groups = foldA (\<lambda>g transferred.
     bindA (transfer_group w c e p g) (\<lambda>claimed.
       bindA (whenA (claimed \<noteq> []) (recordLifecycle ''claim_transfer'' ''episode_superseded''
           ''same_episode_later_commit'' (episode_options c e
             [(''supersededCommitHash'', D_text (fst g)),
              (''transferredQueryCount'', num (length claimed))])))
         (\<lambda>_. returnA (transferred @ claimed)))) groups"

definition blocked_details :: "episode \<Rightarrow> string list \<Rightarrow> string list \<times> string list \<Rightarrow> claim_groups
    \<Rightarrow> (string \<times> detail) list" where
  "blocked_details e regular claims groups =
     [(''regularQueryCount'', num (length regular)),
      (''claimedQueryCount'', num (length (fst claims))),
      (''skippedQueryCount'', num (length (snd claims))),
      (''lastQueryActivityAt'', opt_detail (ep_lastQueryActivityAt e)),
      (''claimedAt'', opt_detail (ep_claimedAt e)),
      (''supersededCommitCount'', num (length groups)),
      (''transferableQueryCount'', num (length (grouped_queries groups)))]"

text \<open>Claim, for one episode, the queries the policy found: the free ones, those whose commit was
  rewritten, and those the same episode gave to an earlier commit, the last only if the episode
  has had new activity since. The result is the regular and the transferred claims.\<close>

definition claim_for_episode :: "attribution_world \<Rightarrow> query_attribution list \<Rightarrow> commit_candidate
    \<Rightarrow> episode \<Rightarrow> attribution_proof \<Rightarrow> string list \<Rightarrow> (string list \<times> string list) coordinator_action" where
  "claim_for_episode w attributions c e p queryIds =
     (let rewriteGroups = rewritePendingGroups attributions queryIds (cc_commitHash c);
          episodeTransferGroups =
            filterClaimGroups (activeEpisodeSupersessionGroups attributions c e) queryIds;
          transferredQueryIds = grouped_queries rewriteGroups @ grouped_queries episodeTransferGroups;
          regular = filter (\<lambda>q. q \<notin> set transferredQueryIds) queryIds
      in bindA (claim_regular w c e p regular) (\<lambda>claims.
         bindA (transfer_rewrites w c e p rewriteGroups) (\<lambda>transferred.
           if \<not> (fst claims \<noteq> [] \<or> episodeHasQueryActivitySinceClaim e) \<and> episodeTransferGroups \<noteq> []
           then bindA (recordLifecycle ''claim_transfer'' ''blocked''
                  ''episode_supersession_requires_fresh_episode_claim''
                  (episode_options c e (blocked_details e regular claims episodeTransferGroups)))
                (\<lambda>_. returnA (fst claims, transferred))
           else bindA (transfer_episode w c e p episodeTransferGroups transferred)
                (\<lambda>transferred. returnA (fst claims, transferred)))))"

definition policy_input_for :: "attribution_world \<Rightarrow> query_attribution list \<Rightarrow> commit_candidate
    \<Rightarrow> string list \<Rightarrow> episode \<Rightarrow> policy_input" where
  "policy_input_for w attributions c active e =
     \<lparr>in_candidate = c, in_episode = e,
      in_lineageVerifiedQueryIds = lineageVerifiedQueryIds w c e,
      in_activeQueryIds = subtractQueries active
        (grouped_queries (activeEpisodeSupersessionGroups attributions c e)),
      in_candidateAnchorQueryIds = activeCandidateAnchorQueryIds attributions c e\<rparr>"

definition reported_details :: "attribution_world \<Rightarrow> query_attribution list \<Rightarrow> commit_candidate \<Rightarrow> episode
    \<Rightarrow> nat \<Rightarrow> nat \<Rightarrow> string list \<Rightarrow> string list \<times> string list \<Rightarrow> string list \<Rightarrow> (string \<times> detail) list" where
  "reported_details w attributions c e relevant freshUnbound queryIds claims claimedQueryIds =
     [(''claimedQueryCount'', num (length claimedQueryIds)),
      (''regularClaimedQueryCount'', num (length (fst claims))),
      (''transferredQueryCount'', num (length (snd claims))),
      (''rewriteTransferQueryCount'', num (length (grouped_queries
         (rewritePendingGroups attributions queryIds (cc_commitHash c))))),
      (''episodeTransferQueryCount'', num (length (grouped_queries
         (filterClaimGroups (activeEpisodeSupersessionGroups attributions c e) queryIds)))),
      (''relevantEpisodeCount'', num relevant),
      (''freshUnboundEpisodeCount'', num freshUnbound),
      (''lineageVerifiedQueryCount'', num (length (lineageVerifiedQueryIds w c e)))]"

definition report_claims :: "attribution_world \<Rightarrow> commit_candidate \<Rightarrow> episode \<Rightarrow> string list
    \<Rightarrow> (string \<times> detail) list \<Rightarrow> unit coordinator_action" where
  "report_claims w c e claimedQueryIds details =
     bindA (on_episodes (markClaimed (gw_tracker w) (ep_episodeId e) (cc_commitHash c) (cc_observedAt c))) (\<lambda>_.
     bindA (resolve_queries w claimedQueryIds) (\<lambda>_.
     bindA (decision_event (Some (ep_episodeId e)) (Some (cc_commitHash c)) ''reportable''
       ''verified_content_continuity'') (\<lambda>_.
     bindA (recordLifecycle ''candidate'' ''reportable'' ''verified_content_continuity''
       (episode_options c e details)) (\<lambda>_.
     publish_commit Allocation_changed (cc_commitHash c)))))"

definition evaluate_episode :: "attribution_world \<Rightarrow> query_attribution list \<Rightarrow> commit_candidate
    \<Rightarrow> nat \<Rightarrow> nat \<Rightarrow> episode \<Rightarrow> progress \<Rightarrow> progress coordinator_action" where
  "evaluate_episode w attributions c relevant freshUnbound e pr =
     (let result = evaluateCommitAttribution (gw_lc w) (policy_input_for w attributions c (pr_active pr) e);
          pr = pr\<lparr>pr_reasons := pr_reasons pr @ res_reasonCodes result\<rparr>;
          queryIds = res_queryIds result
      in case res_proof result of
           None \<Rightarrow> returnA pr
         | Some p \<Rightarrow>
             if res_decision result \<noteq> Reportable \<or> queryIds = [] then returnA pr
             else bindA (claim_for_episode w attributions c e p queryIds) (\<lambda>claims.
               let claimedQueryIds = unique_sorted (fst claims @ snd claims)
               in if claimedQueryIds = [] then returnA pr
                  else bindA (report_claims w c e claimedQueryIds (reported_details w attributions c e
                         relevant freshUnbound queryIds claims claimedQueryIds))
                       (\<lambda>_. returnA (pr\<lparr>pr_reported := True, pr_active := pr_active pr @ claimedQueryIds\<rparr>))))"

section \<open>One candidate\<close>

definition started_before :: "commit_candidate \<Rightarrow> episode \<Rightarrow> bool" where
  "started_before c e = ms_le (date_ms (ep_startedAt e)) (date_ms (cc_observedAt c))"

definition in_claim_window :: "commit_candidate \<Rightarrow> episode \<Rightarrow> bool" where
  "in_claim_window c e =
     ms_gap_within (date_ms (ep_lastAgentActivityAt e)) (date_ms (cc_observedAt c)) EPISODE_CLAIM_WINDOW_MS"

definition kept_reasons :: "commit_candidate \<Rightarrow> string list" where
  "kept_reasons c = filter (\<lambda>r. isObservationReasonCode r \<or> r = ''native_causal_write_retracted'')
       (cc_reasonCodes c)
     @ (if cc_decision c = Reportable then [''verified_content_continuity''] else [])"

definition missing_reasons :: "nat \<Rightarrow> nat \<Rightarrow> bool \<Rightarrow> string list" where
  "missing_reasons relevant freshUnbound matchingObserved =
     (if freshUnbound > 0 then [''fresh_episode_unbound_no_workspace_evidence''] else [])
     @ (if relevant = 0 \<and> freshUnbound = 0
        then [if matchingObserved then ''matching_repository_episode_claim_window_expired''
              else ''no_temporally_relevant_episode''] else [])"

definition decided_candidate :: "attribution_world \<Rightarrow> bool \<Rightarrow> string list \<Rightarrow> commit_candidate \<Rightarrow> commit_candidate" where
  "decided_candidate w reported reasons c = c\<lparr>
     cc_decision := (if reported \<or> cc_decision c = Reportable then Reportable
       else if isExpired c (gw_now w) then Expired else Pending_evidence),
     cc_reasonCodes := unique_sorted reasons\<rparr>"

definition evaluation_details :: "commit_candidate \<Rightarrow> episode list \<Rightarrow> episode list \<Rightarrow> episode list
    \<Rightarrow> episode list \<Rightarrow> claim_groups \<Rightarrow> bool \<Rightarrow> (string \<times> detail) list" where
  "evaluation_details c candidateEpisodes temporal relevant freshUnbound transferable matchingObserved =
     [(''candidateDecision'', D_text (decision_str (cc_decision c))),
      (''candidateEpisodeCount'', num (length candidateEpisodes)),
      (''temporallyRelevantEpisodeCount'', num (length temporal)),
      (''relevantEpisodeCount'', num (length relevant)),
      (''freshUnboundEpisodeCount'', num (length freshUnbound)),
      (''episodeTransferableQueryCount'', num (length (dedup (grouped_queries transferable)))),
      (''episodeTransferableCommitCount'', num (length transferable)),
      (''matchingRepositoryEpisodeObserved'', D_bool matchingObserved),
      (''candidateEpisodeIds'', summarizeEpisodeIds candidateEpisodes),
      (''temporallyRelevantEpisodeIds'', summarizeEpisodeIds temporal),
      (''relevantEpisodeIds'', summarizeEpisodeIds relevant),
      (''freshUnboundEpisodeIds'', summarizeEpisodeIds freshUnbound),
      (''reasonCodes'', if join '','' (cc_reasonCodes c) = '''' then D_null
         else D_text (join '','' (cc_reasonCodes c)))]"

definition store_candidate :: "attribution_world \<Rightarrow> commit_candidate \<Rightarrow> nat \<Rightarrow> nat \<Rightarrow> nat
    \<Rightarrow> unit coordinator_action" where
  "store_candidate w c episodes relevant freshUnbound =
     bindA (update_candidate w c) (\<lambda>_.
     bindA (recordLifecycle ''candidate'' (decision_str (cc_decision c)) (primaryCandidateReason (cc_reasonCodes c))
       ((candidate_options c)\<lparr>lo_details := Some
         [(''candidateEpisodeCount'', num episodes), (''relevantEpisodeCount'', num relevant),
          (''freshUnboundEpisodeCount'', num freshUnbound), (''reasonCodeCount'', num (length (cc_reasonCodes c)))]\<rparr>)) (\<lambda>_.
     bindA (decision_event None (Some (cc_commitHash c)) (decision_str (cc_decision c))
       (primaryCandidateReason (cc_reasonCodes c))) (\<lambda>_.
     publish_commit Candidate_changed (cc_commitHash c))))"

definition evaluate_candidate :: "attribution_world \<Rightarrow> query_attribution list \<Rightarrow> episode list
    \<Rightarrow> commit_candidate \<Rightarrow> string list \<Rightarrow> string list coordinator_action" where
  "evaluate_candidate w attributions episodes c active =
     (let candidateEpisodes = filter (started_before c) episodes;
          temporal = filter (in_claim_window c) candidateEpisodes;
          relevant = filter (\<lambda>e. cc_repoKey c \<in> set (episodeRepoKeys e)) temporal;
          freshUnbound = filter (\<lambda>e. episodeRepoKeys e = []) temporal;
          matchingObserved = list_ex (\<lambda>e. cc_repoKey c \<in> set (episodeRepoKeys e)) candidateEpisodes;
          transferable = mergeClaimGroups (map (activeEpisodeSupersessionGroups attributions c) relevant);
          wasReportable = (cc_decision c = Reportable)
      in bindA (foldA (evaluate_episode w attributions c (length relevant) (length freshUnbound)) relevant
            \<lparr>pr_reported = False, pr_reasons = kept_reasons c, pr_active = active\<rparr>) (\<lambda>pr.
         let reasons = pr_reasons pr @ (if \<not> pr_reported pr \<and> \<not> wasReportable
               then missing_reasons (length relevant) (length freshUnbound) matchingObserved else []);
             c' = decided_candidate w (pr_reported pr) reasons c;
             evaluation = candidateEvaluationOutcome (pr_reported pr) wasReportable (length relevant)
               (length freshUnbound) matchingObserved (cc_reasonCodes c')
         in bindA (recordLifecycle ''candidate_evaluation'' (fst evaluation) (snd evaluation)
              ((candidate_options c)\<lparr>lo_details := Some (evaluation_details c' candidateEpisodes temporal
                relevant freshUnbound transferable matchingObserved)\<rparr>)) (\<lambda>_.
            bindA (whenA (cc_decision c' \<noteq> cc_decision c \<or> cc_reasonCodes c' \<noteq> cc_reasonCodes c)
                (store_candidate w c' (length candidateEpisodes) (length relevant) (length freshUnbound))) (\<lambda>_.
              returnA (pr_active pr)))))"

section \<open>Reconciliation\<close>

definition next_query_status :: "int \<Rightarrow> episode list \<Rightarrow> query_attribution \<Rightarrow> attribution_status" where
  "next_query_status now episodes q =
     (let queryEpisodes = filter (\<lambda>e. qa_queryId q \<in> set (ep_queryIds e)) episodes;
          evidence = concat (map (\<lambda>e. filter (\<lambda>i. we_queryId i = qa_queryId q) (ep_evidence e)) queryEpisodes)
      in if evidence = [] then Qa_unattributed
         else if list_all (\<lambda>e. ep_status e = Ep_stale \<or> ep_status e = Ep_expired) queryEpisodes
            \<or> list_all (\<lambda>i. truthy (we_expiresAt i) \<and> ms_le (date_ms (the (we_expiresAt i))) (Some now)) evidence
         then Qa_expired else Qa_pending_evidence)"

definition keeps_query_status :: "query_attribution \<Rightarrow> bool" where
  "keeps_query_status q \<longleftrightarrow> qa_status q = Qa_attributed \<or> qa_status q = Qa_rewrite_pending
     \<or> qa_status q = Qa_legacy_unverified \<or> qa_status q = Qa_rejected"

definition synchronize_status :: "attribution_world \<Rightarrow> episode list \<Rightarrow> query_attribution
    \<Rightarrow> string list \<times> nat \<Rightarrow> (string list \<times> nat) coordinator_action" where
  "synchronize_status w episodes q = (\<lambda>(expired, changed).
     let status = next_query_status (gw_now w) episodes q
     in if keeps_query_status q \<or> qa_status q = status then returnA (expired, changed)
        else bindA (upsert_attribution w (q\<lparr>qa_status := status\<rparr>)) (\<lambda>_.
          returnA (if status = Qa_expired then expired @ [qa_queryId q] else expired, changed + 1)))"

definition synchronizeQueryStatuses :: "attribution_world \<Rightarrow> episode list \<Rightarrow> query_attribution list
    \<Rightarrow> nat coordinator_action" where
  "synchronizeQueryStatuses w episodes attributions =
     bindA (foldA (synchronize_status w episodes) attributions ([], 0)) (\<lambda>(expired, changed).
       bindA (whenA (expired \<noteq> []) (resolve_queries w expired)) (\<lambda>_. returnA changed))"

definition retracted_candidate :: "commit_candidate \<Rightarrow> commit_candidate" where
  "retracted_candidate c = c\<lparr>cc_decision := Pending_evidence,
     cc_reasonCodes := unique_sorted (filter (\<lambda>r. r \<noteq> ''verified_content_continuity'') (cc_reasonCodes c)
       @ [''native_causal_write_retracted''])\<rparr>"

definition retract_candidate :: "attribution_world \<Rightarrow> query_attribution list \<Rightarrow> string list
    \<Rightarrow> commit_candidate \<Rightarrow> commit_candidate list \<Rightarrow> commit_candidate list coordinator_action" where
  "retract_candidate w attributions revoked c done =
     (if cc_commitHash c \<notin> set revoked \<or> hasActiveAllocationForCandidate attributions c
         \<or> retracted_candidate c = c
      then returnA (done @ [c])
      else bindA (update_candidate w (retracted_candidate c)) (\<lambda>_.
           bindA (decision_event None (Some (cc_commitHash c)) ''pending_evidence''
             ''native_causal_write_retracted'') (\<lambda>_.
           bindA (recordLifecycle ''candidate'' ''pending_evidence'' ''native_causal_write_retracted''
             (candidate_options c)) (\<lambda>_.
           bindA (publish_commit Candidate_changed (cc_commitHash c)) (\<lambda>_.
           returnA (done @ [retracted_candidate c]))))))"

definition reconcileNativeRejectedCandidateStates :: "attribution_world \<Rightarrow> commit_candidate list
    \<Rightarrow> query_attribution list \<Rightarrow> string list \<Rightarrow> commit_candidate list coordinator_action" where
  "reconcileNativeRejectedCandidateStates w candidates attributions revoked =
     foldA (retract_candidate w attributions revoked) candidates []"

definition active_epoch_ids :: "attribution_epoch list \<Rightarrow> string list" where
  "active_epoch_ids epochs = map ae_epochId (filter (\<lambda>e. ae_status e = Epoch_active) epochs)"

definition open_candidate :: "string list \<Rightarrow> commit_candidate \<Rightarrow> bool" where
  "open_candidate activeEpochIds c \<longleftrightarrow> cc_epochId c \<in> set activeEpochIds
     \<and> (cc_decision c = Pending_evidence \<or> cc_decision c = Rewrite_pending \<or> cc_decision c = Reportable)"

definition expire_rewrites :: "attribution_world \<Rightarrow> unit coordinator_action" where
  "expire_rewrites w =
     bindA (on_attributions (expireRewritePending (gw_lc w) (gw_pg w) (gw_now w)
       (iso_of_ms (gw_now w - CANDIDATE_TTL_MS)))) (\<lambda>n.
     whenA (n > 0) (decision_event None None ''superseded'' (''rewrite_pending_expired_'' @ nat_to_string n)))"

definition quarantine_epochs :: "attribution_world \<Rightarrow> string \<Rightarrow> attribution_epoch list \<Rightarrow> nat coordinator_action" where
  "quarantine_epochs w reason epochs =
     bindA (on_attributions (quarantineLegacy (gw_lc w) (gw_pg w) (Some (active_epoch_ids epochs)))) (\<lambda>n.
     bindA (whenA (n > 0) (decision_event None None ''legacy_unverified'' (reason @ nat_to_string n))) (\<lambda>_.
     returnA n))"

definition native_reconciliation :: "attribution_world \<Rightarrow> commit_candidate list \<Rightarrow> episode list
    \<Rightarrow> query_attribution list \<Rightarrow> (commit_candidate list \<times> query_attribution list) coordinator_action" where
  "native_reconciliation w candidates episodes persisted =
     bindA (on_attributions (reconcileNativeRejectedCausalClaims (gw_lc w) (gw_pg w) (gw_now w)
       (concat (map ep_evidence episodes)) candidates)) (\<lambda>r.
     bindA (if rr_revokedQueryIds r \<noteq> [] \<or> rr_revalidatedQueryIds r \<noteq> []
       then list_attributions w any_attribution else returnA persisted) (\<lambda>attributions.
     bindA (if rr_revokedCommitHashes r \<noteq> []
       then bindA (reconcileNativeRejectedCandidateStates w candidates attributions
              (rr_revokedCommitHashes r)) (\<lambda>candidates'.
            bindA (forA (publish_commit Allocation_changed) (rr_revokedCommitHashes r)) (\<lambda>_.
            returnA candidates'))
       else returnA candidates) (\<lambda>candidates'.
     bindA (forA (publish_commit Allocation_changed) (rr_revalidatedCommitHashes r)) (\<lambda>_.
     returnA (candidates', attributions)))))"

definition reconcileInternal :: "attribution_world \<Rightarrow> unit coordinator_action" where
  "reconcileInternal w =
     bindA (expire_rewrites w) (\<lambda>_.
     bindA (on_observations (listEpochs (gw_lc w))) (\<lambda>epochs.
     bindA (quarantine_epochs w ''inactive_epoch_allocations_quarantined_'' epochs) (\<lambda>quarantined.
     bindA (whenA (quarantined > 0) (publish_kind Allocation_changed)) (\<lambda>_.
     bindA (on_observations (listCandidates (gw_lc w))) (\<lambda>candidates.
     bindA (on_episodes (ledger_list (gw_tracker w) any_episode)) (\<lambda>episodes.
     bindA (list_attributions w any_attribution) (\<lambda>persisted.
     bindA (native_reconciliation w candidates episodes persisted) (\<lambda>(candidates, attributions).
     bindA (synchronizeQueryStatuses w episodes attributions) (\<lambda>synchronized.
     bindA (whenA (synchronized > 0) (publish_kind Candidate_changed)) (\<lambda>_.
     bindA (foldA (evaluate_candidate w attributions episodes)
       (filter (open_candidate (active_epoch_ids epochs)) candidates)
       (activeFirstClaimQueryIds attributions)) (\<lambda>_.
     returnA ())))))))))))"

section \<open>Costs\<close>

definition repriced :: "query_group \<Rightarrow> allocation \<Rightarrow> allocation" where
  "repriced g a =
     (if al_allocationPolicy a = First_claim \<and> al_decision a = Some Reportable \<and> holds_claim a
      then a\<lparr>al_allocatedNanoUsd := qg_estimatedNanoUsd g, al_coverage := qg_costCoverage g\<rparr> else a)"

definition group_provider :: "query_group \<Rightarrow> string option" where
  "group_provider g = normalizeProvider (or_else
     (case qg_modelProviders g of p # _ \<Rightarrow> p | [] \<Rightarrow> None)
     (case qg_runs g of r # _ \<Rightarrow> gr_serviceName r | [] \<Rightarrow> None))"

definition mergePersistedQueryCost :: "query_attribution \<Rightarrow> query_group \<Rightarrow> query_attribution" where
  "mergePersistedQueryCost q g = q\<lparr>
     qa_runIds := unique_sorted (map gr_id (qg_runs g)),
     qa_provider := group_provider g,
     qa_estimatedNanoUsd := qg_estimatedNanoUsd g,
     qa_estimatedUsd := qg_estimatedUsd g,
     qa_estimatedAiCredits := qg_estimatedAiCredits g,
     qa_costCoverage := qg_costCoverage g,
     qa_pricingCoverage := qg_pricingCoverage g,
     qa_allocations := map (repriced g) (qa_allocations q)\<rparr>"

definition findQueryAttribution :: "attribution_world \<Rightarrow> string \<Rightarrow> query_attribution option coordinator_action" where
  "findQueryAttribution w queryId = bindA (list_attributions w any_attribution) (\<lambda>qs.
     returnA (find (\<lambda>q. qa_queryId q = queryId) qs))"

definition synchronize_group :: "attribution_world \<Rightarrow> query_group \<Rightarrow> string list \<Rightarrow> string list coordinator_action" where
  "synchronize_group w g changedCommits =
     bindA (findQueryAttribution w (qg_queryId g)) (\<lambda>existing.
       let nxt = mergePersistedQueryCost (nullish existing (emptyAttribution (qg_queryId g))) g;
           changed = (if existing \<noteq> None \<and> existing \<noteq> Some nxt
             then map al_commitHash (filter active_first_claim (qa_allocations nxt)) else [])
       in bindA (upsert_attribution w nxt) (\<lambda>_. returnA (changedCommits @ changed)))"

definition synchronizePersistedCosts :: "attribution_world \<Rightarrow> string option \<Rightarrow> string list coordinator_action" where
  "synchronizePersistedCosts w queryId =
     bindA (foldA (synchronize_group w) (gw_groups w (unless_empty queryId)) [])
       (\<lambda>commits. returnA (dedup commits))"

section \<open>Rewrites of history\<close>

definition unreachable_claims :: "attribution_world \<Rightarrow> string \<Rightarrow> string \<Rightarrow> string \<Rightarrow> query_attribution list \<Rightarrow> string list" where
  "unreachable_claims w repoKey refKey head attributions =
     dedup (map al_commitHash (filter (\<lambda>a. al_status a = Al_active \<and> al_decision a = Some Reportable
         \<and> al_refKey a = Some refKey \<and> \<not> gw_isAncestor w repoKey (al_commitHash a) head)
       (concat (map qa_allocations attributions))))"

definition current_ref_head :: "attribution_epoch list \<Rightarrow> string \<Rightarrow> string \<Rightarrow> string option" where
  "current_ref_head epochs repoKey refKey =
     (case find (\<lambda>e. ae_repoKey e = repoKey \<and> ae_status e = Epoch_active) epochs of
        None \<Rightarrow> None
      | Some epoch \<Rightarrow> unless_empty (map_get (nullish (ae_refHeads epoch) []) refKey))"

definition mark_unreachable :: "attribution_world \<Rightarrow> string \<Rightarrow> string \<Rightarrow> string \<Rightarrow> string list \<Rightarrow> unit coordinator_action" where
  "mark_unreachable w repoKey refKey observedAt unreachable =
     bindA (on_attributions (markRewritePending (gw_lc w) (gw_pg w) repoKey unreachable observedAt)) (\<lambda>_.
     bindA (forA (\<lambda>h. on_episodes (reopenSupersededCommit (gw_tracker w) h)) unreachable) (\<lambda>_.
     bindA (decision_event None None ''rewrite_pending''
       (''confirmed_ref_rewrite_'' @ nat_to_string (length unreachable))) (\<lambda>_.
     bindA (recordLifecycle ''rewrite'' ''rewrite_pending'' ''confirmed_ref_rewrite''
       (no_options\<lparr>lo_repoKey := Some repoKey, lo_commitHash := Some (hd unreachable),
         lo_details := Some [(''unreachableCommitCount'', num (length unreachable)),
                             (''refKey'', D_text refKey)]\<rparr>)) (\<lambda>_.
     publish_commit History_rewrite (hd unreachable)))))"

definition markConfirmedRewrites :: "attribution_world \<Rightarrow> string \<Rightarrow> string option \<Rightarrow> string \<Rightarrow> unit coordinator_action" where
  "markConfirmedRewrites w repoKey ref observedAt =
     (case unless_empty ref of
        None \<Rightarrow> returnA ()
      | Some refKey \<Rightarrow> bindA (on_observations (listEpochs (gw_lc w))) (\<lambda>epochs.
          case current_ref_head epochs repoKey refKey of
            None \<Rightarrow> decision_event None None ''skipped'' ''rewrite_ref_cursor_unavailable''
          | Some head \<Rightarrow>
              bindA (list_attributions w (any_attribution\<lparr>aq_repoKey := Some repoKey\<rparr>)) (\<lambda>attributions.
                let unreachable = unreachable_claims w repoKey refKey head attributions
                in whenA (unreachable \<noteq> []) (mark_unreachable w repoKey refKey observedAt unreachable))))"

section \<open>Operations\<close>

text \<open>Of the observation events, the coordinator looks at the kind and, of a transition, at its
  repository, reference, kind and time.\<close>

datatype observation_event =
    Snapshot_event
  | Candidate_event
  | Transition_event string "string option" transition_kind string

definition observeRunCompleted :: "attribution_world \<Rightarrow> string \<Rightarrow> unit coordinator_action" where
  "observeRunCompleted w queryId =
     bindA (synchronizePersistedCosts w (Some queryId)) (\<lambda>_.
     bindA (reconcileInternal w) (\<lambda>_.
     publish \<lparr>ac_kind = Allocation_changed, ac_queryId = Some queryId, ac_commitHash = None\<rparr>))"

definition reconcilePersistedState :: "attribution_world \<Rightarrow> unit coordinator_action" where
  "reconcilePersistedState w =
     bindA (synchronizePersistedCosts w None) (\<lambda>pricingChangedCommits.
     bindA (on_observations (listEpochs (gw_lc w))) (\<lambda>epochs.
     bindA (quarantine_epochs w ''legacy_allocations_quarantined_'' epochs) (\<lambda>_.
     bindA (reconcileInternal w) (\<lambda>_.
     forA (publish_commit Allocation_changed) pricingChangedCommits))))"

definition observeRepositoryEvent :: "attribution_world \<Rightarrow> observation_event \<Rightarrow> unit coordinator_action" where
  "observeRepositoryEvent w e =
     (case e of
        Snapshot_event \<Rightarrow> returnA ()
      | Candidate_event \<Rightarrow> reconcileInternal w
      | Transition_event repoKey refKey kind observedAt \<Rightarrow>
          bindA (whenA (kind = Non_fast_forward_ref_update) (markConfirmedRewrites w repoKey refKey observedAt))
            (\<lambda>_. reconcileInternal w))"

definition scheduleRetry :: "unit coordinator_action" where
  "scheduleRetry = bindA (getsA ga_running) (\<lambda>running.
     whenA running (modifyA (\<lambda>s. s\<lparr>ga_retryTimer := True\<rparr>)))"

text \<open>The timer: its errors are recorded, and it is set again either way.\<close>

definition retry_fires :: "attribution_world \<Rightarrow> unit coordinator_action" where
  "retry_fires w s =
     (case reconcileInternal w s of
        (Inl e, s') \<Rightarrow> bindA (add_event (Reconciliation_failed e)) (\<lambda>_. scheduleRetry) s'
      | (Inr _, s') \<Rightarrow> scheduleRetry s')"

definition attribution_start :: "attribution_world \<Rightarrow> unit coordinator_action" where
  "attribution_start w = bindA (getsA ga_running) (\<lambda>running.
     if running then returnA ()
     else bindA (modifyA (\<lambda>s. s\<lparr>ga_running := True\<rparr>)) (\<lambda>_.
       bindA (recordLifecycle ''reconciler'' ''started'' ''git_attribution_started'' no_options) (\<lambda>_.
       bindA (modifyA (\<lambda>s. s\<lparr>ga_subscribed := True\<rparr>)) (\<lambda>_.
       bindA (reconcilePersistedState w) (\<lambda>_. scheduleRetry)))))"

definition attribution_stop :: "unit coordinator_action" where
  "attribution_stop = modifyA (\<lambda>s. s\<lparr>ga_running := False, ga_retryTimer := False, ga_subscribed := False\<rparr>)"

definition attribution_reset :: "attribution_world \<Rightarrow> unit coordinator_action" where
  "attribution_reset w = on_attributions (\<lambda>st.
     bindE (clear (gw_lc w) (gw_pg w) st) (\<lambda>st'. Inr ((), st')))"

definition onDidChange :: "nat \<Rightarrow> unit coordinator_action" where
  "onDidChange handler = modifyA (\<lambda>s. s\<lparr>ga_handlers := dedup (ga_handlers s @ [handler])\<rparr>)"

definition removeHandler :: "nat \<Rightarrow> unit coordinator_action" where
  "removeHandler handler = modifyA (\<lambda>s. s\<lparr>ga_handlers := removeAll handler (ga_handlers s)\<rparr>)"

definition list_commit_attributions :: "attribution_world \<Rightarrow> attribution_query \<Rightarrow> coordinator \<Rightarrow> commit_summary list" where
  "list_commit_attributions w query s =
     map (\<lambda>summary. if trim (nullish (sm_commitMessage summary) '''') \<noteq> '''' then summary
          else case unless_empty (gw_commitMessage w (sm_repoKey summary) (sm_commitHash summary)) of
            None \<Rightarrow> summary | Some m \<Rightarrow> summary\<lparr>sm_commitMessage := Some m\<rparr>)
       (listCommitAttributions (gw_lc w) query (ga_ledger s))"

record spend_summary =
  ss_pendingNanoUsd :: "rat option"
  ss_pendingUsd :: "rat option"
  ss_pendingAiCredits :: "rat option"
  ss_unattributedNanoUsd :: "rat option"
  ss_unattributedUsd :: "rat option"
  ss_unattributedAiCredits :: "rat option"

definition spendSummary :: "attribution_world \<Rightarrow> coordinator \<Rightarrow> spend_summary" where
  "spendSummary w s =
     (let attributions = listQueryAttributions (gw_lc w) any_attribution (ga_ledger s);
          pending = opt_sum (map qa_estimatedNanoUsd (filter (\<lambda>q. qa_status q
              \<in> {Qa_pending_commit, Qa_pending_evidence, Qa_rewrite_pending}) attributions));
          unattributed = opt_sum (map qa_estimatedNanoUsd (filter (\<lambda>q. qa_status q
              \<in> {Qa_unattributed, Qa_rejected, Qa_expired, Qa_legacy_unverified}) attributions))
      in \<lparr>ss_pendingNanoUsd = pending, ss_pendingUsd = usdFromNanoUsd pending,
          ss_pendingAiCredits = aiCreditsFromNanoUsd pending, ss_unattributedNanoUsd = unattributed,
          ss_unattributedUsd = usdFromNanoUsd unattributed,
          ss_unattributedAiCredits = aiCreditsFromNanoUsd unattributed\<rparr>)"

end
