(* ===== verification/GitAttributionProperties.thy ===== *)
theory GitAttributionProperties
  imports GitAttribution
begin

text \<open>
  What the coordinator of \<open>GitAttribution\<close> guarantees: its costs are those of the run ledger, and a
  candidate becomes reportable only with a claim in the ledger. The first section shows that it
  changes its ledger and its store of observations through their operations only, also when it fails,
  so the ledger is valid in every state that it reaches (\<open>coordinator_ledger_ok\<close>), which the theorems
  assume of the state they start from.
\<close>

section \<open>Refinement of the ledger and of the observations\<close>

datatype coordinator_op =
    Start_attribution | Stop_attribution | Run_completed string | Reconcile_persisted | Reconcile_now
  | Retry | Observe_event observation_event | Reset_attribution | Add_handler nat | Remove_handler nat

fun run_coordinator_op :: "attribution_world \<Rightarrow> coordinator_op \<Rightarrow> unit coordinator_action" where
  "run_coordinator_op w Start_attribution = attribution_start w"
| "run_coordinator_op w Stop_attribution = attribution_stop"
| "run_coordinator_op w (Run_completed queryId) = observeRunCompleted w queryId"
| "run_coordinator_op w Reconcile_persisted = reconcilePersistedState w"
| "run_coordinator_op w Reconcile_now = reconcileInternal w"
| "run_coordinator_op w Retry = retry_fires w"
| "run_coordinator_op w (Observe_event e) = observeRepositoryEvent w e"
| "run_coordinator_op w Reset_attribution = attribution_reset w"
| "run_coordinator_op w (Add_handler h) = onDidChange h"
| "run_coordinator_op w (Remove_handler h) = removeHandler h"

text \<open>The steps of the two stores: a ledger operation; an operation or a listing of the observations.\<close>

definition ledger_moves :: "attribution_world \<Rightarrow> store \<Rightarrow> store \<Rightarrow> bool" where
  "ledger_moves w st st' \<longleftrightarrow> (\<exists>op. ledger_step (gw_lc w) (gw_pg w) st op st')"

definition observation_moves :: "attribution_world \<Rightarrow> observation_store \<Rightarrow> observation_store \<Rightarrow> bool" where
  "observation_moves w t t' \<longleftrightarrow> t' = snd (observation_ensureLoaded (gw_lc w) t)
     \<or> (\<exists>op r. run_observation_op (gw_lc w) (gw_observationGuard w) (gw_observationIo w) op t = (r, t'))"

definition refines :: "attribution_world \<Rightarrow> store \<Rightarrow> observation_store \<Rightarrow> coordinator \<Rightarrow> bool" where
  "refines w st t s \<longleftrightarrow> (ledger_moves w)\<^sup>*\<^sup>* st (ga_ledger s) \<and> (observation_moves w)\<^sup>*\<^sup>* t (ga_observations s)"

text \<open>An action on the ledger is one step of it, an action on the observations one or none.\<close>

lemma keeps_on_attributions:
  assumes "\<And>st x st'. f st = Inr (x, st') \<Longrightarrow> \<exists>op. run_op (gw_lc w) (gw_pg w) op st = Inr st'"
  shows "keeps (refines w st0 t0) (on_attributions f)"
  unfolding keeps_def
proof (intro allI impI)
  fix s assume s: "refines w st0 t0 s"
  show "refines w st0 t0 (snd (on_attributions f s))"
  proof (cases "f (ga_ledger s)")
    case (Inr y)
    obtain x st' where y: "y = (x, st')" by fastforce
    from assms Inr y obtain op where "run_op (gw_lc w) (gw_pg w) op (ga_ledger s) = Inr st'" by blast
    then have "ledger_moves w (ga_ledger s) st'" unfolding ledger_moves_def by (blast intro: ledger_step.stored)
    with s have "(ledger_moves w)\<^sup>*\<^sup>* st0 st'" by (auto simp: refines_def intro: rtranclp.rtrancl_into_rtrancl)
    with s Inr y show ?thesis by (simp add: on_attributions_def refines_def)
  qed (use s in \<open>simp add: on_attributions_def\<close>)
qed

lemma keeps_on_observations:
  assumes "\<And>t. observation_moves w t (snd (a t))"
  shows "keeps (refines w st0 t0) (on_observations a)"
  unfolding keeps_def
proof (intro allI impI)
  fix s assume s: "refines w st0 t0 s"
  with assms have "(observation_moves w)\<^sup>*\<^sup>* t0 (snd (a (ga_observations s)))"
    by (auto simp: refines_def intro: rtranclp.rtrancl_into_rtrancl)
  with s show "refines w st0 t0 (snd (on_observations a s))"
    by (simp add: on_observations_def refines_def split_beta)
qed

lemma keeps_on_episodes [keeps_intros]: "keeps (refines w st0 t0) (on_episodes a)"
  by (auto simp: keeps_def refines_def on_episodes_def split: prod.splits)

lemma keeps_notices [keeps_intros]:
  "keeps (refines w st0 t0) (publish c)" "keeps (refines w st0 t0) (add_event e)"
  "keeps (refines w st0 t0) (resolve_queries w qs)"
  by (auto simp: keeps_def refines_def publish_def add_event_def resolve_queries_def bindA_def)

lemma keeps_publish_commit [keeps_intros]: "keeps (refines w st0 t0) (publish_commit k h)"
  unfolding publish_commit_def by (rule keeps_notices)

lemma keeps_publish_kind [keeps_intros]: "keeps (refines w st0 t0) (publish_kind k)"
  unfolding publish_kind_def by (rule keeps_notices)

lemma keeps_decision_event [keeps_intros]: "keeps (refines w st0 t0) (decision_event e h s r)"
  unfolding decision_event_def by (rule keeps_notices)

lemma keeps_recordLifecycle [keeps_intros]: "keeps (refines w st0 t0) (recordLifecycle a b c d)"
  unfolding recordLifecycle_def by (rule keeps_notices)

lemma keeps_list_attributions [keeps_intros]: "keeps (refines w st0 t0) (list_attributions w q)"
  unfolding list_attributions_def by (rule keeps_return)

lemma keeps_case_prod [keeps_intros]: "(\<And>x y. keeps P (f x y)) \<Longrightarrow> keeps P (case p of (x, y) \<Rightarrow> f x y)"
  by (cases p) simp

lemma keeps_case_option [keeps_intros]:
  "keeps P m \<Longrightarrow> (\<And>x. keeps P (f x)) \<Longrightarrow> keeps P (case v of None \<Rightarrow> m | Some x \<Rightarrow> f x)"
  by (cases v) simp_all

lemma keeps_let [keeps_intros]: "keeps P (f x) \<Longrightarrow> keeps P (let y = x in f y)"
  by simp

lemma keeps_flags [keeps_intros]:
  "keeps (refines w st0 t0) (modifyA (\<lambda>s. s\<lparr>ga_running := b\<rparr>))"
  "keeps (refines w st0 t0) (modifyA (\<lambda>s. s\<lparr>ga_subscribed := b\<rparr>))"
  "keeps (refines w st0 t0) (modifyA (\<lambda>s. s\<lparr>ga_retryTimer := b\<rparr>))"
  "keeps (refines w st0 t0) attribution_stop"
  "keeps (refines w st0 t0) (onDidChange h)" "keeps (refines w st0 t0) (removeHandler h)"
  by (simp_all add: keeps_def refines_def attribution_stop_def onDidChange_def removeHandler_def)

lemma listings_move:
  "observation_moves w t (snd (listEpochs (gw_lc w) t))" "observation_moves w t (snd (listCandidates (gw_lc w) t))"
  by (simp_all add: observation_moves_def listEpochs_def listCandidates_def bindA_def observation_ensureLoaded_def)

lemma keeps_listings [keeps_intros]:
  "keeps (refines w st0 t0) (on_observations (listEpochs (gw_lc w)))"
  "keeps (refines w st0 t0) (on_observations (listCandidates (gw_lc w)))"
  by (rule keeps_on_observations, rule listings_move)+

lemma keeps_update_candidate [keeps_intros]: "keeps (refines w st0 t0) (update_candidate w c)"
  unfolding update_candidate_def
proof (rule keeps_on_observations)
  fix t
  have "run_observation_op (gw_lc w) (gw_observationGuard w) (gw_observationIo w) (Update_candidate c) t
      = (fst (updateCandidate (gw_lc w) (gw_observationGuard w) (gw_observationIo w) c t),
         snd (updateCandidate (gw_lc w) (gw_observationGuard w) (gw_observationIo w) c t))" by simp
  then show "observation_moves w t (snd (updateCandidate (gw_lc w) (gw_observationGuard w) (gw_observationIo w) c t))"
    unfolding observation_moves_def by blast
qed

lemma keeps_ledger_ops [keeps_intros]:
  "keeps (refines w st0 t0) (upsert_attribution w q)"
  "keeps (refines w st0 t0) (on_attributions (tryFirstClaim (gw_lc w) (gw_pg w) now i))"
  "keeps (refines w st0 t0) (on_attributions (transferFirstClaim (gw_lc w) (gw_pg w) now i h))"
  "keeps (refines w st0 t0) (on_attributions (reconcileNativeRejectedCausalClaims (gw_lc w) (gw_pg w) now ev cs))"
  "keeps (refines w st0 t0) (on_attributions (markRewritePending (gw_lc w) (gw_pg w) rk hs t))"
  "keeps (refines w st0 t0) (on_attributions (expireRewritePending (gw_lc w) (gw_pg w) now t))"
  "keeps (refines w st0 t0) (on_attributions (quarantineLegacy (gw_lc w) (gw_pg w) es))"
  "keeps (refines w st0 t0) (attribution_reset w)"
proof -
  show "keeps (refines w st0 t0) (upsert_attribution w q)"
    unfolding upsert_attribution_def
    by (rule keeps_on_attributions, rule exI [of _ "Upsert q"]) (auto simp: run_op_def bindE_Inr)
  show "keeps (refines w st0 t0) (on_attributions (tryFirstClaim (gw_lc w) (gw_pg w) now i))"
    by (rule keeps_on_attributions, rule exI [of _ "Try_first_claim now i"]) (simp add: run_op_def)
  show "keeps (refines w st0 t0) (on_attributions (transferFirstClaim (gw_lc w) (gw_pg w) now i h))"
    by (rule keeps_on_attributions, rule exI [of _ "Transfer_first_claim now i h"]) (simp add: run_op_def)
  show "keeps (refines w st0 t0) (on_attributions (reconcileNativeRejectedCausalClaims (gw_lc w) (gw_pg w) now ev cs))"
    by (rule keeps_on_attributions, rule exI [of _ "Reconcile now ev cs"]) (simp add: run_op_def)
  show "keeps (refines w st0 t0) (on_attributions (markRewritePending (gw_lc w) (gw_pg w) rk hs t))"
    by (rule keeps_on_attributions, rule exI [of _ "Mark_rewrite_pending rk hs t"]) (simp add: run_op_def)
  show "keeps (refines w st0 t0) (on_attributions (expireRewritePending (gw_lc w) (gw_pg w) now t))"
    by (rule keeps_on_attributions, rule exI [of _ "Expire_rewrite_pending now t"]) (simp add: run_op_def)
  show "keeps (refines w st0 t0) (on_attributions (quarantineLegacy (gw_lc w) (gw_pg w) es))"
    by (rule keeps_on_attributions, rule exI [of _ "Quarantine_legacy es"]) (simp add: run_op_def)
  show "keeps (refines w st0 t0) (attribution_reset w)"
    unfolding attribution_reset_def
    by (rule keeps_on_attributions, rule exI [of _ Clear]) (auto simp: run_op_def bindE_Inr)
qed

lemma keeps_claims [keeps_intros]: "keeps (refines w st0 t0) (claim_for_episode w qs c e p ks)"
  unfolding claim_for_episode_def claim_regular_def transfer_rewrites_def transfer_episode_def
    transfer_group_def Let_def
  by (intro keeps_intros)

lemma keeps_evaluate_candidate [keeps_intros]:
  "keeps (refines w st0 t0) (evaluate_candidate w qs es c active)"
  unfolding evaluate_candidate_def evaluate_episode_def report_claims_def store_candidate_def Let_def
  by (intro keeps_intros)

lemma keeps_reconcile [keeps_intros]: "keeps (refines w st0 t0) (reconcileInternal w)"
  unfolding reconcileInternal_def expire_rewrites_def quarantine_epochs_def native_reconciliation_def
    reconcileNativeRejectedCandidateStates_def retract_candidate_def synchronizeQueryStatuses_def
    synchronize_status_def Let_def
  by (intro keeps_intros)

lemma keeps_costs [keeps_intros]: "keeps (refines w st0 t0) (synchronizePersistedCosts w k)"
  unfolding synchronizePersistedCosts_def synchronize_group_def findQueryAttribution_def Let_def
  by (intro keeps_intros)

lemma keeps_persisted [keeps_intros]: "keeps (refines w st0 t0) (reconcilePersistedState w)"
  unfolding reconcilePersistedState_def quarantine_epochs_def by (intro keeps_intros)

lemma keeps_event [keeps_intros]: "keeps (refines w st0 t0) (observeRepositoryEvent w e)"
  unfolding observeRepositoryEvent_def markConfirmedRewrites_def mark_unreachable_def Let_def
  by (cases e) (simp_all, (intro keeps_intros)+)

lemma keeps_schedule [keeps_intros]: "keeps (refines w st0 t0) scheduleRetry"
  unfolding scheduleRetry_def by (intro keeps_intros)

lemma keeps_retry: "keeps (refines w st0 t0) (retry_fires w)"
  unfolding keeps_def
proof (intro allI impI)
  fix s assume "refines w st0 t0 s"
  moreover obtain r s' where run: "reconcileInternal w s = (r, s')" by fastforce
  ultimately have s': "refines w st0 t0 s'" using keepsD [OF keeps_reconcile] by blast
  have "keeps (refines w st0 t0) (bindA (add_event (Reconciliation_failed e)) (\<lambda>_. scheduleRetry))" for e
    by (intro keeps_intros)
  with s' keeps_schedule show "refines w st0 t0 (snd (retry_fires w s))"
    by (cases r) (simp_all add: retry_fires_def run keeps_def)
qed

lemma keeps_coordinator_op: "keeps (refines w st0 t0) (run_coordinator_op w op)"
  by (cases op) (auto simp: attribution_start_def observeRunCompleted_def intro!: keeps_intros keeps_retry)

text \<open>Operations in any order, in worlds that share the two stores' collation and guards; in
  between, the observer works on its store and anyone on the episodes.\<close>

inductive coordinator_reachable :: "collation \<Rightarrow> guard \<Rightarrow> observation_guard \<Rightarrow> coordinator \<Rightarrow> bool"
  for lc pg og where
  boot: "coordinator_reachable lc pg og
    \<lparr>ga_running = False, ga_subscribed = False, ga_retryTimer = False, ga_ledger = [], ga_episodes = t,
     ga_observations = \<lparr>du_load = None, du_memory = no_observations, du_file = f\<rparr>, ga_handlers = [],
     ga_published = [], ga_resolved = [], ga_events = []\<rparr>"
| operation: "coordinator_reachable lc pg og s \<Longrightarrow> gw_lc w = lc \<Longrightarrow> gw_pg w = pg
    \<Longrightarrow> gw_observationGuard w = og \<Longrightarrow> run_coordinator_op w op s = (r, s') \<Longrightarrow> coordinator_reachable lc pg og s'"
| observed: "coordinator_reachable lc pg og s \<Longrightarrow> run_observation_op lc og io op (ga_observations s) = (r, t)
    \<Longrightarrow> coordinator_reachable lc pg og (s\<lparr>ga_observations := t\<rparr>)"
| tracked: "coordinator_reachable lc pg og s \<Longrightarrow> coordinator_reachable lc pg og (s\<lparr>ga_episodes := t\<rparr>)"

lemma run_refines:
  assumes "run_coordinator_op w op s = (r, s')"
  shows "refines w (ga_ledger s) (ga_observations s) s'"
  by (rule keepsD [OF keeps_coordinator_op _ assms]) (simp add: refines_def)

lemma refines_reachable:
  assumes "refines w st t s" "reachable (gw_lc w) (gw_pg w) st"
    and "observation_reachable (gw_lc w) (gw_observationGuard w) t"
  shows "reachable (gw_lc w) (gw_pg w) (ga_ledger s)"
    and "observation_reachable (gw_lc w) (gw_observationGuard w) (ga_observations s)"
proof -
  from assms(1) have l: "(ledger_moves w)\<^sup>*\<^sup>* st (ga_ledger s)"
    and o: "(observation_moves w)\<^sup>*\<^sup>* t (ga_observations s)" by (simp_all add: refines_def)
  from l assms(2) show "reachable (gw_lc w) (gw_pg w) (ga_ledger s)"
    by (induction rule: rtranclp_induct) (auto simp: ledger_moves_def intro: reachable.step)
  from o assms(3) show "observation_reachable (gw_lc w) (gw_observationGuard w) (ga_observations s)"
    by (induction rule: rtranclp_induct)
      (auto simp: observation_moves_def intro: observation_reachable.operation observation_reachable.listing)
qed

lemma coordinator_reachable_stores:
  "coordinator_reachable lc pg og s \<Longrightarrow>
   reachable lc pg (ga_ledger s) \<and> observation_reachable lc og (ga_observations s)"
proof (induction rule: coordinator_reachable.induct)
  case (operation s w op r s')
  then show ?case using refines_reachable [OF run_refines, of w op s r s'] by simp
qed (auto intro: reachable.empty observation_reachable.boot observation_reachable.operation)

lemma coordinator_ledger_ok: "coordinator_reachable lc pg og s \<Longrightarrow> ledger_ok (ga_ledger s)"
  by (rule reachable_ok [OF coordinator_reachable_stores [THEN conjunct1]])

section \<open>Examples\<close>

definition sample_group :: "rat \<Rightarrow> query_group" where
  "sample_group amount = \<lparr>qg_queryId = ''q1'', qg_runs = [\<lparr>gr_id = ''r1'', gr_serviceName = Some ''copilot''\<rparr>],
     qg_modelProviders = [Some ''OpenAI''], qg_estimatedNanoUsd = Some amount, qg_estimatedUsd = None,
     qg_estimatedAiCredits = None, qg_costCoverage = Complete, qg_pricingCoverage = None\<rparr>"

definition attributing_world :: "query_group list \<Rightarrow> attribution_world" where
  "attributing_world groups = \<lparr>gw_tracker = \<lparr>tw_lc = code_unit_compare, tw_pg = (\<lambda>_. []), tw_io = True,
       tw_now = 1782903600000, tw_staleMs = DEFAULT_STALE_MS\<rparr>,
     gw_pg = no_guard, gw_observationGuard = (\<lambda>_. []), gw_observationIo = True,
     gw_isAncestor = (\<lambda>_ _ _. True), gw_commitMessage = (\<lambda>_ _. None),
     gw_groups = (\<lambda>_. groups), gw_resolves = True\<rparr>"

definition coordinator_with :: "store \<Rightarrow> coordinator" where
  "coordinator_with st = \<lparr>ga_running = False, ga_subscribed = False, ga_retryTimer = False, ga_ledger = st,
     ga_episodes = \<lparr>tk_running = True, tk_ledger = \<lparr>du_load = Some (Inr 0),
       du_memory = [(''ep1'', sample_episode)], du_file = Missing\<rparr>, tk_events = []\<rparr>,
     ga_observations = \<lparr>du_load = None, du_memory = no_observations, du_file = Missing\<rparr>,
     ga_handlers = [], ga_published = [], ga_resolved = [], ga_events = []\<rparr>"

definition waiting_claim :: allocation where
  "waiting_claim = mark_pending ''2026-07-01T12:00:00.000Z''
     (allocationFromClaim code_unit_compare sample_claim (hd sample_store) ''q1'' ''2026-07-01T11:00:00.000Z'')"

definition waiting_store :: store where
  "waiting_store = [(hd sample_store)\<lparr>qa_allocations := [waiting_claim], qa_status := Qa_rewrite_pending\<rparr>]"

lemma single_ledger_ok: "assertAttributionInvariants q = Inr () \<Longrightarrow> ledger_ok [q]"
  by (simp add: ledger_ok_iff assert_iff)

lemma example_ledgers_ok: "ledger_ok sample_store" "ledger_ok waiting_store"
proof -
  have "assertAttributionInvariants (hd sample_store) = Inr ()" "sample_store = [hd sample_store]" by code_simp+
  then show "ledger_ok sample_store" using single_ledger_ok by metis
  have "assertAttributionInvariants (hd waiting_store) = Inr ()" "waiting_store = [hd waiting_store]"
    by (code_simp, simp add: waiting_store_def)
  then show "ledger_ok waiting_store" using single_ledger_ok by metis
qed

section \<open>Costs\<close>

text \<open>The stored price of a query is that of its group, and its reported claim is for that price.\<close>

definition follows_group :: "query_group \<Rightarrow> query_attribution \<Rightarrow> bool" where
  "follows_group g q \<longleftrightarrow> qa_estimatedNanoUsd q = qg_estimatedNanoUsd g \<and> qa_provider q = group_provider g
     \<and> (\<forall>a \<in> set (live_claims q). al_decision a = Some Reportable
          \<longrightarrow> al_allocatedNanoUsd a = qg_estimatedNanoUsd g)"

definition claims_of :: "query_attribution \<Rightarrow> (string \<times> string \<times> allocation_status) multiset" where
  "claims_of q = mset (map (\<lambda>a. (al_commitHash a, al_repoKey a, al_status a)) (qa_allocations q))"

definition unreported_amounts :: "query_attribution \<Rightarrow> rat option set" where
  "unreported_amounts q =
     al_allocatedNanoUsd ` {a \<in> set (live_claims q). al_decision a \<noteq> Some Reportable}"

definition stored :: "(query_attribution \<Rightarrow> 'v) \<Rightarrow> store \<Rightarrow> string \<Rightarrow> 'v" where
  "stored view st k = view (nullish (lookup st k) (emptyAttribution k))"

lemma set_live_normalize:
  "set (live_claims (normalizeAttribution lc q))
   = normalizeAllocation lc (priced_by_policy q) ` set (live_claims q)"
  unfolding live_claims_def by (rule set_normalize_active)

lemma follows_normalize [simp]: "follows_group g (normalizeAttribution lc q) = follows_group g q"
  by (simp add: follows_group_def set_live_normalize)

lemma claims_normalize [simp]: "claims_of (normalizeAttribution lc q) = claims_of q"
  by (simp add: claims_of_def mset_normalize_allocations image_mset.compositionality comp_def)

lemma amounts_normalize [simp]: "unreported_amounts (normalizeAttribution lc q) = unreported_amounts q"
  unfolding unreported_amounts_def set_live_normalize by (simp add: Compr_image_eq image_image)

lemma lookup_replace:
  "lookup (replace_or_append q qs) k = (if k = qa_queryId q then Some q else lookup qs k)"
  by (induction q qs rule: replace_or_append.induct) (auto simp: lookup_def)

lemma lookup_map_normalize:
  "lookup (map (normalizeAttribution lc) st) k = map_option (normalizeAttribution lc) (lookup st k)"
  by (simp add: lookup_def find_map_ident)

text \<open>What an upsert leaves of a property that the normal form does not see.\<close>

lemma upsert_lookup:
  assumes "upsertQueryAttribution lc pg q st = Inr st'" "\<And>q. P (normalizeAttribution lc q) = P q"
  shows "map_option P (lookup st' k) = (if k = qa_queryId q then Some (P q) else map_option P (lookup st k))"
proof -
  define nxt where "nxt = normalizeAttribution lc q"
  have twice: "map_option P (map_option (normalizeAttribution lc) x) = map_option P x" for x
    by (cases x) (simp_all add: assms(2))
  show ?thesis
  proof (cases "lookup (loadAttributions lc st) (qa_queryId nxt) = Some nxt")
    case True
    with assms(1) have "st' = st" by (auto simp: upsertQueryAttribution_def bindE_Inr Let_def nxt_def lookup_def)
    moreover from True have "map_option P (lookup st (qa_queryId q)) = Some (P q)"
      by (cases "lookup st (qa_queryId q)")
        (auto simp: loadAttributions_def lookup_map_normalize nxt_def assms(2) dest: arg_cong [where f = P])
    ultimately show ?thesis by simp
  next
    case False
    with assms(1) have "persistAttributions lc pg (replace_or_append nxt (loadAttributions lc st)) = Inr st'"
      by (auto simp: upsertQueryAttribution_def bindE_Inr Let_def nxt_def lookup_def split: if_splits)
    then show ?thesis
      by (auto simp: persist_Inr lookup_map_normalize lookup_replace loadAttributions_def twice nxt_def assms(2))
  qed
qed

lemma active_repriced [simp]: "active_first_claim (repriced g a) = active_first_claim a"
  by (simp add: repriced_def active_first_claim_def holds_claim_def)

lemma live_claims_merged:
  "live_claims (mergePersistedQueryCost q g) = map (repriced g) (live_claims q)"
  by (simp add: live_claims_def mergePersistedQueryCost_def filter_map comp_def)

lemma merged_sel [simp]:
  "qa_queryId (mergePersistedQueryCost q g) = qa_queryId q"
  "qa_estimatedNanoUsd (mergePersistedQueryCost q g) = qg_estimatedNanoUsd g"
  by (simp_all add: mergePersistedQueryCost_def)

lemma follows_merged: "follows_group g (mergePersistedQueryCost q g)"
  unfolding follows_group_def live_claims_merged
  by (auto simp: mergePersistedQueryCost_def repriced_def live_claims_def active_first_claim_def)

lemma listed_all:
  "mset (listQueryAttributions lc any_attribution st) = mset (loadAttributions lc st)"
proof -
  have "filter (\<lambda>q. matchesQueryAttribution q any_attribution) xs = xs" for xs
    by (simp add: matchesQueryAttribution_def any_attribution_def in_date_range_def)
  then show ?thesis
    by (simp add: listQueryAttributions_def Let_def slice_to_def any_attribution_def)
qed

lemma find_distinct:
  assumes "distinct (map f xs)"
  shows "find (\<lambda>x. f x = k) xs = Some y \<longleftrightarrow> y \<in> set xs \<and> f y = k"
  using assms by (induction xs) auto

lemma find_mset:
  assumes "mset xs = mset ys" "distinct (map f xs)"
  shows "find (\<lambda>x. f x = k) xs = find (\<lambda>x. f x = k) ys"
proof -
  have "distinct (map f ys)" using assms by (metis mset_eq_imp_distinct_iff mset_map)
  then have "find (\<lambda>x. f x = k) xs = Some y \<longleftrightarrow> find (\<lambda>x. f x = k) ys = Some y" for y
    using mset_eq_setD [OF assms(1)] by (simp add: find_distinct assms(2))
  then show ?thesis by (metis not_None_eq)
qed

lemma found_attribution:
  assumes "distinct (map qa_queryId (ga_ledger s))"
  shows "findQueryAttribution w k s
    = (Inr (map_option (normalizeAttribution (gw_lc w)) (lookup (ga_ledger s) k)), s)"
proof -
  let ?qs = "listQueryAttributions (gw_lc w) any_attribution (ga_ledger s)"
  have "distinct (map qa_queryId (loadAttributions (gw_lc w) (ga_ledger s)))"
    using assms by (simp add: loadAttributions_def comp_def)
  from find_mset [OF listed_all [symmetric] this, of k]
  have "find (\<lambda>q. qa_queryId q = k) ?qs = map_option (normalizeAttribution (gw_lc w)) (lookup (ga_ledger s) k)"
    by (simp add: loadAttributions_def lookup_def find_map_ident)
  then show ?thesis by (simp add: findQueryAttribution_def list_attributions_def bindA_def)
qed

lemma upsert_attribution_Inr:
  "upsert_attribution w q s = (Inr u, s') \<longleftrightarrow>
     (\<exists>st'. upsertQueryAttribution (gw_lc w) (gw_pg w) q (ga_ledger s) = Inr st' \<and> s' = s\<lparr>ga_ledger := st'\<rparr>)"
  by (auto simp: upsert_attribution_def on_attributions_def bindE_Inr split: sum.splits)

lemma synchronize_group_stores:
  assumes "synchronize_group w g cs s = (Inr cs', s')" "ledger_ok (ga_ledger s)"
  shows "ledger_ok (ga_ledger s')"
    and "\<exists>q. lookup (ga_ledger s') (qg_queryId g) = Some q \<and> follows_group g q"
    and "k \<noteq> qg_queryId g \<Longrightarrow> (\<And>q. P (normalizeAttribution (gw_lc w) q) = P q) \<Longrightarrow>
           map_option P (lookup (ga_ledger s') k) = map_option P (lookup (ga_ledger s) k)"
    and "(\<And>q. P (normalizeAttribution (gw_lc w) q) = P q) \<Longrightarrow>
           (\<And>q. P (mergePersistedQueryCost q g) = P q) \<Longrightarrow>
           stored P (ga_ledger s') k = stored P (ga_ledger s) k"
proof -
  define q where "q = nullish (map_option (normalizeAttribution (gw_lc w)) (lookup (ga_ledger s) (qg_queryId g)))
    (emptyAttribution (qg_queryId g))"
  define nxt where "nxt = mergePersistedQueryCost q g"
  have d: "distinct (map qa_queryId (ga_ledger s))" using assms(2) by (simp add: ledger_ok_iff)
  from assms(1) obtain st' where st': "upsertQueryAttribution (gw_lc w) (gw_pg w) nxt (ga_ledger s) = Inr st'"
    and s': "s' = s\<lparr>ga_ledger := st'\<rparr>"
    by (auto simp: synchronize_group_def bindA_Inr found_attribution [OF d] upsert_attribution_Inr
        nxt_def q_def Let_def)
  show "ledger_ok (ga_ledger s')" using upsert_ok [OF assms(2) st'] by (simp add: s')
  have id: "qa_queryId nxt = qg_queryId g"
  proof (cases "lookup (ga_ledger s) (qg_queryId g)")
    case (Some x)
    then have "qa_queryId x = qg_queryId g" by (auto simp: lookup_def find_Some_iff)
    with Some show ?thesis by (simp add: nxt_def q_def)
  qed (simp add: nxt_def q_def emptyAttribution_def)
  have "map_option (follows_group g) (lookup st' (qg_queryId g)) = Some True"
    using upsert_lookup [OF st', of "follows_group g" "qg_queryId g"]
    by (simp add: id follows_merged [of g q, folded nxt_def])
  then show "\<exists>q. lookup (ga_ledger s') (qg_queryId g) = Some q \<and> follows_group g q" by (auto simp: s')
  show "map_option P (lookup (ga_ledger s') k) = map_option P (lookup (ga_ledger s) k)"
    if "k \<noteq> qg_queryId g" "\<And>q. P (normalizeAttribution (gw_lc w) q) = P q"
    using upsert_lookup [OF st', of P k] that by (simp add: id s')
  show "stored P (ga_ledger s') k = stored P (ga_ledger s) k"
    if P: "\<And>q. P (normalizeAttribution (gw_lc w) q) = P q" "\<And>q. P (mergePersistedQueryCost q g) = P q"
  proof (cases "k = qg_queryId g")
    case True
    have "P nxt = stored P (ga_ledger s) (qg_queryId g)"
      by (cases "lookup (ga_ledger s) (qg_queryId g)") (simp_all add: nxt_def q_def stored_def P)
    with True upsert_lookup [OF st', of P k] P(1) show ?thesis
      by (auto simp: id s' stored_def)
  next
    case False
    with upsert_lookup [OF st', of P k] P(1) show ?thesis
      by (cases "lookup st' k"; cases "lookup (ga_ledger s) k") (auto simp: id s' stored_def)
  qed
qed

lemma synchronize_groups_others:
  assumes "foldA (synchronize_group w) gs cs s = (Inr cs', s')" "ledger_ok (ga_ledger s)"
    "k \<notin> qg_queryId ` set gs" "\<And>q. P (normalizeAttribution (gw_lc w) q) = P q"
  shows "map_option P (lookup (ga_ledger s') k) = map_option P (lookup (ga_ledger s) k)"
  using assms(1-3)
proof (induction gs arbitrary: cs s)
  case (Cons g gs)
  from Cons.prems(1) obtain cs1 s1 where one: "synchronize_group w g cs s = (Inr cs1, s1)"
    and rest: "foldA (synchronize_group w) gs cs1 s1 = (Inr cs', s')"
    by (auto simp: bindA_Inr)
  note g = synchronize_group_stores [OF one Cons.prems(2)]
  from Cons.prems(3) have "k \<noteq> qg_queryId g" "k \<notin> qg_queryId ` set gs" by auto
  with Cons.IH [OF rest g(1)] g(3) [of k P, OF _ assms(4)] show ?case by simp
qed simp

lemma synchronize_groups_keep:
  assumes "foldA (synchronize_group w) gs cs s = (Inr cs', s')" "ledger_ok (ga_ledger s)"
    "\<And>q. P (normalizeAttribution (gw_lc w) q) = P q" "\<And>q g. P (mergePersistedQueryCost q g) = P q"
  shows "ledger_ok (ga_ledger s') \<and> stored P (ga_ledger s') k = stored P (ga_ledger s) k"
  using assms(1,2)
proof (induction gs arbitrary: cs s)
  case (Cons g gs)
  from Cons.prems(1) obtain cs1 s1 where one: "synchronize_group w g cs s = (Inr cs1, s1)"
    and rest: "foldA (synchronize_group w) gs cs1 s1 = (Inr cs', s')"
    by (auto simp: bindA_Inr)
  note g = synchronize_group_stores [OF one Cons.prems(2)]
  from Cons.IH [OF rest g(1)] g(4) [of P k, OF assms(3,4)] show ?case by simp
qed simp

lemma synchronize_groups:
  assumes "foldA (synchronize_group w) gs cs s = (Inr cs', s')" "ledger_ok (ga_ledger s)"
    "distinct (map qg_queryId gs)" "g \<in> set gs"
  shows "\<exists>q. lookup (ga_ledger s') (qg_queryId g) = Some q \<and> follows_group g q"
  using assms
proof (induction gs arbitrary: cs s)
  case (Cons g' gs)
  from Cons.prems(1) obtain cs1 s1 where one: "synchronize_group w g' cs s = (Inr cs1, s1)"
    and rest: "foldA (synchronize_group w) gs cs1 s1 = (Inr cs', s')"
    by (auto simp: bindA_Inr)
  note g = synchronize_group_stores [OF one Cons.prems(2)]
  show ?case
  proof (cases "g = g'")
    case True
    with Cons.prems(3) have "qg_queryId g \<notin> qg_queryId ` set gs" by auto
    with g(2) synchronize_groups_others [OF rest g(1), of "qg_queryId g" "follows_group g"] True
    show ?thesis by force
  next
    case False
    with Cons.prems(3,4) Cons.IH [OF rest g(1)] show ?thesis by simp
  qed
qed simp

lemma claims_merged: "claims_of (mergePersistedQueryCost q g) = claims_of q"
  by (simp add: claims_of_def mergePersistedQueryCost_def repriced_def comp_def if_distrib cong: if_cong)

lemma amounts_merged: "unreported_amounts (mergePersistedQueryCost q g) = unreported_amounts q"
  unfolding unreported_amounts_def live_claims_merged by (force simp: repriced_def)

text \<open>
  C5: the costs of the ledger are those of the run ledger. After \<open>synchronizePersistedCosts\<close>
  succeeds, every query group (their identifiers being distinct) has its attribution, which
  carries the group's estimate and provider and whose reported claim is for that estimate; no
  query gains, loses or changes the status of a claim; a query without a group keeps its price.
\<close>

theorem costs_follow_groups:
  assumes "ledger_ok (ga_ledger s)"
    and "synchronizePersistedCosts w queryId s = (Inr commits, s')"
    and "distinct (map qg_queryId (gw_groups w (unless_empty queryId)))"
  shows "(\<forall>g \<in> set (gw_groups w (unless_empty queryId)). \<exists>q. lookup (ga_ledger s') (qg_queryId g) = Some q
        \<and> qa_estimatedNanoUsd q = qg_estimatedNanoUsd g \<and> qa_provider q = group_provider g
        \<and> (\<forall>a \<in> set (live_claims q). al_decision a = Some Reportable
             \<longrightarrow> al_allocatedNanoUsd a = qg_estimatedNanoUsd g))
    \<and> (\<forall>k. stored claims_of (ga_ledger s') k = stored claims_of (ga_ledger s) k)
    \<and> (\<forall>k q. lookup (ga_ledger s) k = Some q \<longrightarrow> k \<notin> qg_queryId ` set (gw_groups w (unless_empty queryId))
         \<longrightarrow> (\<exists>q'. lookup (ga_ledger s') k = Some q' \<and> qa_estimatedNanoUsd q' = qa_estimatedNanoUsd q))"
proof -
  from assms(2) obtain cs where loop:
    "foldA (synchronize_group w) (gw_groups w (unless_empty queryId)) [] s = (Inr cs, s')"
    by (auto simp: synchronizePersistedCosts_def bindA_Inr)
  have "\<exists>q'. lookup (ga_ledger s') k = Some q' \<and> qa_estimatedNanoUsd q' = qa_estimatedNanoUsd q"
    if "lookup (ga_ledger s) k = Some q" "k \<notin> qg_queryId ` set (gw_groups w (unless_empty queryId))" for k q
    using synchronize_groups_others [OF loop assms(1) that(2), of qa_estimatedNanoUsd] that(1) by force
  moreover have "stored claims_of (ga_ledger s') k = stored claims_of (ga_ledger s) k" for k
    using synchronize_groups_keep [OF loop assms(1) claims_normalize claims_merged] by blast
  moreover note synchronize_groups [OF loop assms(1) assms(3), unfolded follows_group_def]
  ultimately show ?thesis by blast
qed

theorem costs_follow_groups_witness:
  "\<exists>commits s' q. synchronizePersistedCosts (attributing_world [sample_group 400]) None (coordinator_with sample_store)
       = (Inr commits, s')
     \<and> lookup (ga_ledger s') ''q1'' = Some q \<and> qa_estimatedNanoUsd q = Some 400 \<and> qa_provider q = Some ''openai''"
proof -
  let ?w = "attributing_world [sample_group 400]"
  have "map_sum (\<lambda>_. ()) id (fst (synchronizePersistedCosts ?w None (coordinator_with sample_store))) = Inr []"
    by code_simp
  then obtain commits s' where run: "synchronizePersistedCosts ?w None (coordinator_with sample_store) = (Inr commits, s')"
    by (cases "synchronizePersistedCosts ?w None (coordinator_with sample_store)";
        cases "fst (synchronizePersistedCosts ?w None (coordinator_with sample_store))") auto
  have g: "gw_groups ?w (unless_empty None) = [sample_group 400]" by (simp add: attributing_world_def)
  have "ledger_ok (ga_ledger (coordinator_with sample_store))" by (simp add: coordinator_with_def example_ledgers_ok)
  from costs_follow_groups [OF this run] obtain q where "lookup (ga_ledger s') (qg_queryId (sample_group 400)) = Some q"
    "qa_estimatedNanoUsd q = qg_estimatedNanoUsd (sample_group 400)" "qa_provider q = group_provider (sample_group 400)"
    unfolding g by auto
  moreover have "group_provider (sample_group 400) = Some ''openai''" by code_simp
  ultimately show ?thesis using run by (auto simp: sample_group_def)
qed

text \<open>The synchronization touches the ledger only.\<close>

lemma keeps_ledger_only:
  assumes "\<And>s st. P (s\<lparr>ga_ledger := st\<rparr>) = P s"
  shows "keeps P (synchronizePersistedCosts w k)"
proof -
  have "keeps P (on_attributions f)" for f :: "store \<Rightarrow> ledger_error + 'a \<times> store"
    using assms by (auto simp: keeps_def on_attributions_def split: sum.splits)
  then show ?thesis
    unfolding synchronizePersistedCosts_def synchronize_group_def findQueryAttribution_def
      upsert_attribution_def list_attributions_def Let_def
    by (intro keeps_intros)
qed

lemma cheaper_group_refused:
  assumes "ledger_ok (ga_ledger s)" "distinct (map qg_queryId (gw_groups w None))" "g \<in> set (gw_groups w None)"
    and "lookup (ga_ledger s) (qg_queryId g) = Some q" "a \<in> set (live_claims q)"
    and "al_decision a = Some Rewrite_pending" "al_allocatedNanoUsd a = Some x"
    and "qg_estimatedNanoUsd g = Some y" "y < x"
  obtains e s' where "synchronizePersistedCosts w None s = (Inl e, s')"
proof (cases "fst (synchronizePersistedCosts w None s)")
  case (Inl e)
  with that show ?thesis by (metis prod.collapse)
next
  case (Inr commits)
  then obtain cs s' where loop: "foldA (synchronize_group w) (gw_groups w None) [] s = (Inr cs, s')"
    by (auto simp: synchronizePersistedCosts_def bindA_def unless_empty_def split: prod.splits sum.splits)
  from synchronize_groups [OF loop assms(1-3)] obtain q' where
    q': "lookup (ga_ledger s') (qg_queryId g) = Some q'" "qa_estimatedNanoUsd q' = Some y"
    using assms(8) by (auto simp: follows_group_def)
  note kept = synchronize_groups_keep [OF loop assms(1) amounts_normalize amounts_merged, of "qg_queryId g"]
  have "Some x \<in> unreported_amounts q" using assms(5-7) by (force simp: unreported_amounts_def)
  with kept q' assms(4) have "Some x \<in> unreported_amounts q'" by (simp add: stored_def)
  then obtain a' where a': "a' \<in> set (live_claims q')" "al_allocatedNanoUsd a' = Some x"
    by (auto simp: unreported_amounts_def)
  from kept q'(1) have "claims_ok q'" by (auto simp: ledger_ok_iff lookup_def find_Some_iff)
  with a' q'(2) have "x \<le> y" by (auto simp: claims_ok_def claim_ok_def live_claims_def)
  with assms(9) show ?thesis by simp
qed

text \<open>
  C40: a query whose commit was rewritten cannot be repriced downwards. While its claim waits for
  the replacement, the claim is not repriced with the query, so the ledger refuses the lower
  estimate: \<open>start\<close> fails whenever a query group is cheaper than a waiting claim of its query, and
  then leaves a coordinator that counts as running (a second \<open>start\<close> does nothing) without
  having set the timer of its retries.
\<close>

theorem cheaper_rewrite_blocks_start:
  assumes "ledger_ok (ga_ledger s)" "\<not> ga_running s"
    and "distinct (map qg_queryId (gw_groups w None))" "g \<in> set (gw_groups w None)"
    and "lookup (ga_ledger s) (qg_queryId g) = Some q" "a \<in> set (live_claims q)"
    and "al_decision a = Some Rewrite_pending" "al_allocatedNanoUsd a = Some x"
    and "qg_estimatedNanoUsd g = Some y" "y < x"
  shows "\<exists>e s'. attribution_start w s = (Inl e, s') \<and> ga_running s' \<and> ga_retryTimer s' = ga_retryTimer s
    \<and> attribution_start w s' = (Inr (), s')"
proof -
  define s1 where "s1 = snd (bindA (recordLifecycle ''reconciler'' ''started'' ''git_attribution_started'' no_options)
    (\<lambda>_. modifyA (\<lambda>s. s\<lparr>ga_subscribed := True\<rparr>)) (s\<lparr>ga_running := True\<rparr>))"
  have s1: "ga_ledger s1 = ga_ledger s" "ga_running s1" "ga_retryTimer s1 = ga_retryTimer s"
    by (simp_all add: s1_def recordLifecycle_def add_event_def bindA_def)
  have "ledger_ok (ga_ledger s1)" using assms(1) by (simp add: s1)
  then obtain e s' where run: "synchronizePersistedCosts w None s1 = (Inl e, s')"
    using cheaper_group_refused [of s1 w g] assms(3-) unfolding s1 by metis
  have "ga_running s' \<and> ga_retryTimer s' = ga_retryTimer s"
    using keepsD [OF keeps_ledger_only [of "\<lambda>s'. ga_running s' \<and> ga_retryTimer s' = ga_retryTimer s"] _ run] s1
    by simp
  moreover have "attribution_start w s = (Inl e, s')"
    using run assms(2) by (simp add: attribution_start_def reconcilePersistedState_def bindA_def s1_def
        recordLifecycle_def add_event_def)
  moreover have "attribution_start w s' = (Inr (), s')" if "ga_running s'"
    using that by (simp add: attribution_start_def bindA_def)
  ultimately show ?thesis by blast
qed

theorem cheaper_rewrite_blocks_start_witness:
  "\<exists>e s'. attribution_start (attributing_world [sample_group 400]) (coordinator_with waiting_store) = (Inl e, s')
     \<and> ga_running s' \<and> \<not> ga_retryTimer s'"
proof -
  let ?s = "coordinator_with waiting_store" and ?q = "hd waiting_store"
  have g: "gw_groups (attributing_world [sample_group 400]) None = [sample_group 400]"
    by (simp add: attributing_world_def)
  have c: "ledger_ok (ga_ledger ?s)" "\<not> ga_running ?s" "\<not> ga_retryTimer ?s" "ga_ledger ?s = [?q]"
    using example_ledgers_ok(2) by (simp_all add: coordinator_with_def) (simp add: waiting_store_def)
  have "qa_queryId ?q = ''q1''" "al_decision waiting_claim = Some Rewrite_pending"
    "al_allocatedNanoUsd waiting_claim = Some 500" "live_claims ?q = [waiting_claim]" by code_simp+
  moreover have "qg_queryId (sample_group 400) = ''q1''" "qg_estimatedNanoUsd (sample_group 400) = Some 400"
    by (simp_all add: sample_group_def)
  ultimately show ?thesis
    using cheaper_rewrite_blocks_start [OF c(1,2), of "attributing_world [sample_group 400]" "sample_group 400"
        ?q waiting_claim 500 400] c(3)
    by (auto simp: g c(4) lookup_def)
qed

section \<open>Candidates\<close>

text \<open>The commit of the candidate holds a live first claim.\<close>

definition claimed_for :: "store \<Rightarrow> commit_candidate \<Rightarrow> bool" where
  "claimed_for st c \<longleftrightarrow> (\<exists>k q a. lookup st k = Some q \<and> a \<in> set (live_claims q)
     \<and> al_commitHash a = cc_commitHash c \<and> al_repoKey a = cc_repoKey c)"

definition holds_for :: "commit_candidate \<Rightarrow> bool \<Rightarrow> coordinator \<Rightarrow> bool" where
  "holds_for c b s \<longleftrightarrow> ledger_ok (ga_ledger s) \<and> (b \<longrightarrow> claimed_for (ga_ledger s) c)"

text \<open>An action that succeeds turns the knowledge \<open>b\<close> that the commit holds a claim into the
  knowledge \<open>post\<close>, which depends on its result.\<close>

definition yields :: "commit_candidate \<Rightarrow> bool \<Rightarrow> 'a coordinator_action \<Rightarrow> ('a \<Rightarrow> bool) \<Rightarrow> bool" where
  "yields c b m post \<longleftrightarrow> (\<forall>s x s'. holds_for c b s \<longrightarrow> m s = (Inr x, s') \<longrightarrow> holds_for c (post x) s')"

lemma yieldsD: "yields c b m post \<Longrightarrow> holds_for c b s \<Longrightarrow> m s = (Inr x, s') \<Longrightarrow> holds_for c (post x) s'"
  by (simp add: yields_def)

lemma yields_return: "(post x \<Longrightarrow> b) \<Longrightarrow> yields c b (returnA x) post"
  by (auto simp: yields_def holds_for_def)

lemma yields_bind: "yields c b m mid \<Longrightarrow> (\<And>x. yields c (mid x) (f x) post) \<Longrightarrow> yields c b (bindA m f) post"
  unfolding yields_def bindA_Inr by blast

lemma yields_fold:
  "(\<And>x y. yields c (Q y) (f x y) Q) \<Longrightarrow> (Q y \<Longrightarrow> b) \<Longrightarrow> yields c b (foldA f xs y) Q"
proof (induction xs arbitrary: y b)
  case (Cons x xs)
  have "yields c b (f x y) Q" using Cons.prems unfolding yields_def holds_for_def by blast
  moreover have "yields c (Q z) (foldA f xs z) Q" for z by (rule Cons.IH [OF Cons.prems(1)])
  ultimately show ?case by (simp add: yields_bind)
qed (simp add: yields_return)

text \<open>Actions that leave the ledger alone.\<close>

definition off_ledger :: "'a coordinator_action \<Rightarrow> bool" where
  "off_ledger m \<longleftrightarrow> (\<forall>s. ga_ledger (snd (m s)) = ga_ledger s)"

lemma yields_off: "off_ledger m \<Longrightarrow> (\<And>x. post x \<Longrightarrow> b) \<Longrightarrow> yields c b m post"
  unfolding yields_def off_ledger_def holds_for_def by (metis snd_conv)

lemma yields_if: "yields c b m post \<Longrightarrow> yields c b m' post \<Longrightarrow> yields c b (if x then m else m') post"
  by simp

lemma yields_skip: "off_ledger m \<Longrightarrow> yields c b f post \<Longrightarrow> yields c b (bindA m (\<lambda>_. f)) post"
  by (rule yields_bind [OF yields_off [where post = "\<lambda>_. b"]])

lemma off_ledger_when: "off_ledger m \<Longrightarrow> off_ledger (whenA x m)"
  by (simp add: off_ledger_def whenA_def)

lemma off_ledger_keeps: "(\<And>st. keeps (\<lambda>s. ga_ledger s = st) m) \<Longrightarrow> off_ledger m"
  by (simp add: off_ledger_def keeps_def)

lemma keeps_not_ledger [keeps_intros]:
  "keeps (\<lambda>s. ga_ledger s = st) (on_episodes a)" "keeps (\<lambda>s. ga_ledger s = st) (on_observations a')"
  "keeps (\<lambda>s. ga_ledger s = st) (publish c)" "keeps (\<lambda>s. ga_ledger s = st) (add_event e)"
  "keeps (\<lambda>s. ga_ledger s = st) (resolve_queries w qs)"
  by (auto simp: keeps_def on_episodes_def on_observations_def publish_def add_event_def
      resolve_queries_def bindA_def split: prod.splits)

lemma off_ledger_lifecycle: "off_ledger (recordLifecycle a b c d)"
  by (rule off_ledger_keeps) (unfold recordLifecycle_def, intro keeps_intros)

lemma off_ledger_report: "off_ledger (report_claims w c e ks details)"
  by (rule off_ledger_keeps) (unfold report_claims_def recordLifecycle_def decision_event_def
      publish_commit_def, intro keeps_intros)

lemma off_ledger_store: "off_ledger (store_candidate w c m n f)"
  by (rule off_ledger_keeps) (unfold store_candidate_def update_candidate_def recordLifecycle_def
      decision_event_def publish_commit_def, intro keeps_intros)

text \<open>A round of claims: the claimed queries hold a claim of the candidate, the others are unchanged.\<close>

lemma claimed_for_normalized:
  assumes "lookup st k = Some q" "a \<in> set (live_claims q)"
    "al_commitHash a = cc_commitHash c" "al_repoKey a = cc_repoKey c"
    "lookup st' k = map_option (normalizeAttribution lc \<circ> normalizeAttribution lc) (lookup st k)"
  shows "claimed_for st' c"
proof -
  let ?q = "normalizeAttribution lc (normalizeAttribution lc q)"
  have "normalizeAllocation lc (priced_by_policy (normalizeAttribution lc q))
      (normalizeAllocation lc (priced_by_policy q) a) \<in> set (live_claims ?q)"
    using assms(2) by (simp add: set_live_normalize)
  moreover have "lookup st' k = Some ?q" using assms(1,5) by simp
  ultimately show ?thesis using assms(3,4) unfolding claimed_for_def
    by (metis normalizeAllocation_sel(2,3))
qed

lemma claim_round_claimed:
  assumes "distinct (map qa_queryId st)" "keyed_by_query m"
    and old: "\<forall>k. k \<notin> set claimed \<longrightarrow> map_get m k = map_get (map_from qa_queryId (loadAttributions lc st)) k"
    and new: "\<forall>k \<in> set claimed. \<exists>q0 q. map_get m k = Some q \<and> claimed_once i q0 q"
    and st': "persistAttributions lc pg (map_values m) = Inr st'"
    and b: "b \<or> claimed \<noteq> []" "b \<Longrightarrow> claimed_for st (fc_candidate i)"
  shows "claimed_for st' (fc_candidate i)"
proof (cases "claimed = []")
  case True
  with b obtain k q a where c: "lookup st k = Some q" "a \<in> set (live_claims q)"
    "al_commitHash a = cc_commitHash (fc_candidate i)" "al_repoKey a = cc_repoKey (fc_candidate i)"
    by (auto simp: claimed_for_def)
  have "lookup st' k = map_option (normalizeAttribution lc \<circ> normalizeAttribution lc) (lookup st k)"
    using old True by (simp add: lookup_persisted [OF assms(2) st'] loaded_get [OF assms(1)] option.map_comp)
  from claimed_for_normalized [OF c this] show ?thesis .
next
  case False
  then obtain k where "k \<in> set claimed" by (cases claimed) auto
  with new obtain q0 q where q: "map_get m k = Some q" "claimed_once i q0 q" by blast
  have "lookup st' k = Some (normalizeAttribution lc q)" by (simp add: q(1) lookup_persisted [OF assms(2) st'])
  moreover obtain a where "a \<in> set (live_claims (normalizeAttribution lc q))"
    "al_commitHash a = cc_commitHash (fc_candidate i)" "al_repoKey a = cc_repoKey (fc_candidate i)"
    using claimed_once_normalize [OF q(2), of lc] by (auto simp: claimed_once_def)
  ultimately show ?thesis unfolding claimed_for_def by blast
qed

lemma yields_on_attributions:
  assumes "\<And>st r st'. ledger_ok st \<Longrightarrow> f st = Inr (r, st') \<Longrightarrow> (b \<Longrightarrow> claimed_for st c)
    \<Longrightarrow> ledger_ok st' \<and> (post r \<longrightarrow> claimed_for st' c)"
  shows "yields c b (on_attributions f) post"
  unfolding yields_def
proof (intro allI impI)
  fix s x s' assume s: "holds_for c b s" and run: "on_attributions f s = (Inr x, s')"
  from run obtain st' where "f (ga_ledger s) = Inr (x, st')" "s' = s\<lparr>ga_ledger := st'\<rparr>"
    by (auto simp: on_attributions_def split: sum.splits)
  with s assms [of "ga_ledger s" x st'] show "holds_for c (post x) s'" by (simp add: holds_for_def)
qed

lemma yields_tryFirstClaim:
  "yields (fc_candidate i) b (on_attributions (tryFirstClaim lc pg now i)) (\<lambda>r. b \<or> fst r \<noteq> [])"
proof (rule yields_on_attributions)
  fix st r st' assume ok: "ledger_ok st" and run: "tryFirstClaim lc pg now i st = Inr (r, st')"
    and b: "b \<Longrightarrow> claimed_for st (fc_candidate i)"
  from run obtain m claimed skipped where
    loop: "foldE (claim_one lc pg i (iso_of_ms now)) (fc_queryIds i)
      (map_from qa_queryId (loadAttributions lc st), [], []) = Inr (m, claimed, skipped)"
    and st': "persistAttributions lc pg (map_values m) = Inr st'" and r: "r = (claimed, skipped)"
    by (auto simp: tryFirstClaim_def bindE_Inr)
  note d = first_claims.done_loop [OF loop keyed_by_query_load, unfolded first_claims.done_from_def prod.case]
  have old: "\<forall>k. k \<notin> set claimed \<longrightarrow> map_get m k = map_get (map_from qa_queryId (loadAttributions lc st)) k"
    and new: "\<forall>k \<in> set claimed. \<exists>q0 q. map_get m k = Some q \<and> claimed_once i q0 q"
    and keyed: "keyed_by_query m" using d by blast+
  have "claimed_for st' (fc_candidate i)" if "b \<or> claimed \<noteq> []"
    using claim_round_claimed [OF _ keyed old new st' that b] ok by (simp add: ledger_ok_iff)
  with tryFirstClaim_ok [OF run] show "ledger_ok st' \<and> (b \<or> fst r \<noteq> [] \<longrightarrow> claimed_for st' (fc_candidate i))"
    by (simp add: r)
qed

lemma yields_transferFirstClaim:
  "yields (fc_candidate i) b (on_attributions (transferFirstClaim lc pg now i h)) (\<lambda>r. b \<or> fst r \<noteq> [])"
proof (rule yields_on_attributions)
  fix st r st' assume ok: "ledger_ok st" and run: "transferFirstClaim lc pg now i h st = Inr (r, st')"
    and b: "b \<Longrightarrow> claimed_for st (fc_candidate i)"
  from run obtain m claimed skipped where
    loop: "foldE (transfer_one lc pg i h (iso_of_ms now)) (fc_queryIds i)
      (map_from qa_queryId (loadAttributions lc st), [], []) = Inr (m, claimed, skipped)"
    and st': "persistAttributions lc pg (map_values m) = Inr st'" and r: "r = (claimed, skipped)"
    by (auto simp: transferFirstClaim_def bindE_Inr)
  note d = transfers.done_loop [OF loop keyed_by_query_load, unfolded transfers.done_from_def prod.case]
  have old: "\<forall>k. k \<notin> set claimed \<longrightarrow> map_get m k = map_get (map_from qa_queryId (loadAttributions lc st)) k"
    and new: "\<forall>k \<in> set claimed. \<exists>q0 q. map_get m k = Some q \<and> claimed_once i q0 q"
    and keyed: "keyed_by_query m" using d by blast+
  have "claimed_for st' (fc_candidate i)" if "b \<or> claimed \<noteq> []"
    using claim_round_claimed [OF _ keyed old new st' that b] ok by (simp add: ledger_ok_iff)
  with transferFirstClaim_ok [OF run] show "ledger_ok st' \<and> (b \<or> fst r \<noteq> [] \<longrightarrow> claimed_for st' (fc_candidate i))"
    by (simp add: r)
qed

lemma yields_weaken: "yields c b m post \<Longrightarrow> (\<And>x. post' x \<Longrightarrow> post x) \<Longrightarrow> yields c b m post'"
  unfolding yields_def holds_for_def by blast

lemma yields_claim_for_episode:
  "yields c b (claim_for_episode w qs c e p ks) (\<lambda>r. b \<or> fst r \<noteq> [] \<or> snd r \<noteq> [])"
proof -
  have transfer: "yields c b (transfer_group w c e p g) (\<lambda>r. b \<or> r \<noteq> [])" for b g
    using yields_transferFirstClaim [of "claim_input c e p (snd g)" b "gw_lc w" "gw_pg w" "gw_now w" "fst g"]
    unfolding transfer_group_def claim_input_def
    by (auto simp: split_beta intro!: yields_bind yields_return)
  have regular: "yields c b (claim_regular w c e p ks) (\<lambda>r. b \<or> fst r \<noteq> [])" for ks
    using yields_tryFirstClaim [of "claim_input c e p ks" b "gw_lc w" "gw_pg w" "gw_now w"]
    unfolding claim_regular_def by (auto simp: claim_input_def intro!: yields_return)
  have rewritten: "yields c b (transfer_rewrites w c e p groups) (\<lambda>r. b \<or> r \<noteq> [])" for b groups
    unfolding transfer_rewrites_def
    by (rule yields_fold) (auto intro!: yields_bind [OF transfer] yields_return)
  have episode: "yields c (b \<or> ts \<noteq> []) (transfer_episode w c e p groups ts) (\<lambda>r. b \<or> r \<noteq> [])" for b ts groups
    unfolding transfer_episode_def
    by (rule yields_fold) (auto intro!: yields_bind [OF transfer] yields_skip yields_return
        off_ledger_when off_ledger_lifecycle)
  show ?thesis
    unfolding claim_for_episode_def Let_def
    by (intro yields_bind [OF regular] yields_bind [OF rewritten] yields_if yields_skip [OF off_ledger_lifecycle]
        yields_bind [OF episode] yields_return) auto
qed

lemma unique_sorted_nonempty: "unique_sorted xs \<noteq> [] \<Longrightarrow> xs \<noteq> []"
  by (auto simp: unique_sorted_def unique_strings_def)

lemma yields_evaluate_episode:
  "yields c (pr_reported pr) (evaluate_episode w qs c m n e pr) pr_reported"
  unfolding evaluate_episode_def Let_def
  by (auto intro!: yields_return yields_bind [OF yields_claim_for_episode] yields_skip [OF off_ledger_report]
      dest!: unique_sorted_nonempty split: option.splits)

lemma yields_evaluate_episodes:
  "yields c b (foldA (evaluate_episode w qs c m n) es pr) pr_reported" if "pr_reported pr \<Longrightarrow> b"
  using that by (rule yields_fold [OF yields_evaluate_episode])

text \<open>The claims leave the observations alone; storing the candidate changes them only.\<close>

lemma keeps_not_observations [keeps_intros]:
  "keeps (\<lambda>s. ga_observations s = st) (on_episodes a)"
  "keeps (\<lambda>s. ga_observations s = st) (publish c)" "keeps (\<lambda>s. ga_observations s = st) (add_event e)"
  "keeps (\<lambda>s. ga_observations s = st) (resolve_queries w qs)"
  "keeps (\<lambda>s. ga_observations s = st) (on_attributions f)"
  by (auto simp: keeps_def on_episodes_def on_attributions_def publish_def add_event_def
      resolve_queries_def bindA_def split: prod.splits sum.splits)

lemma keeps_evaluate_observations:
  "keeps (\<lambda>s. ga_observations s = st) (foldA (evaluate_episode w qs c m n) es pr)"
  unfolding evaluate_episode_def report_claims_def claim_for_episode_def claim_regular_def
    transfer_rewrites_def transfer_episode_def transfer_group_def recordLifecycle_def
    decision_event_def publish_commit_def Let_def
  by (intro keeps_intros)

lemma map_sum_Inr: "map_sum f id x = Inr y \<longleftrightarrow> x = Inr y"
  by (cases x) simp_all

lemma store_candidate_stores:
  assumes "store_candidate w c m n f s = (Inr (), s')"
  shows "ga_ledger s' = ga_ledger s"
    and "map_get (om_candidates (du_memory (ga_observations s'))) (cc_candidateId c) = Some (normalizeCandidate c)"
proof -
  from assms obtain t where u: "updateCandidate (gw_lc w) (gw_observationGuard w) (gw_observationIo w) c
      (ga_observations s) = (Inr (), t)" and s': "ga_observations s' = t" "ga_ledger s' = ga_ledger s"
    by (auto simp: store_candidate_def bindA_Inr update_candidate_def on_observations_def recordLifecycle_def
        decision_event_def publish_commit_def publish_def add_event_def map_sum_Inr split: prod.splits)
  then have "du_memory t = put_candidate c (du_memory (snd (observation_ensureLoaded (gw_lc w) (ga_observations s))))"
    by (auto simp: updateCandidate_def bindA_Inr dest!: validate_state update_observations(2))
  with s' show "ga_ledger s' = ga_ledger s"
    "map_get (om_candidates (du_memory (ga_observations s'))) (cc_candidateId c) = Some (normalizeCandidate c)"
    by (simp_all add: put_candidate_def)
qed

text \<open>
  C3: a commit becomes reportable only with a claim, and then stays so. Evaluating an open
  candidate changes its decision and its reasons only; the result is what the store of
  observations has then (nothing is written when nothing changed). A reportable candidate stays
  reportable; one that becomes so has a live first claim of its commit in the ledger; one that
  expires was observed more than 24 hours ago; any other is pending.
\<close>

theorem reportable_needs_claim:
  assumes "ledger_ok (ga_ledger s)"
    and "evaluate_candidate w attributions episodes c active s = (Inr active', s')"
  shows "\<exists>c'. c' = c\<lparr>cc_decision := cc_decision c', cc_reasonCodes := cc_reasonCodes c'\<rparr>
    \<and> (if c' = c then ga_observations s' = ga_observations s
       else map_get (om_candidates (du_memory (ga_observations s'))) (cc_candidateId c) = Some (normalizeCandidate c'))
    \<and> cc_decision c' \<in> {Reportable, Pending_evidence, Expired}
    \<and> (cc_decision c = Reportable \<longrightarrow> cc_decision c' = Reportable)
    \<and> (cc_decision c' = Reportable \<and> cc_decision c \<noteq> Reportable \<longrightarrow> claimed_for (ga_ledger s') c)
    \<and> (cc_decision c' = Expired \<longrightarrow> isExpired c (gw_now w))"
proof -
  from assms(2) obtain es m n pr s1 reasons lifecycle s2 k l f where
    claims: "foldA (evaluate_episode w attributions c m n) es
        \<lparr>pr_reported = False, pr_reasons = kept_reasons c, pr_active = active\<rparr> s = (Inr pr, s1)"
    and lifecycle: "add_event lifecycle s1 = (Inr (), s2)"
    and store: "whenA (cc_decision (decided_candidate w (pr_reported pr) reasons c) \<noteq> cc_decision c
        \<or> cc_reasonCodes (decided_candidate w (pr_reported pr) reasons c) \<noteq> cc_reasonCodes c)
      (store_candidate w (decided_candidate w (pr_reported pr) reasons c) k l f) s2 = (Inr (), s')"
    by (auto simp: evaluate_candidate_def Let_def bindA_Inr recordLifecycle_def)
  define c' where "c' = decided_candidate w (pr_reported pr) reasons c"
  have c': "c' = c\<lparr>cc_decision := cc_decision c', cc_reasonCodes := cc_reasonCodes c'\<rparr>"
    "cc_candidateId c' = cc_candidateId c"
    by (simp_all add: c'_def decided_candidate_def)
  have changed: "cc_decision c' \<noteq> cc_decision c \<or> cc_reasonCodes c' \<noteq> cc_reasonCodes c \<longleftrightarrow> c' \<noteq> c"
    using c'(1) by (metis commit_candidate.surjective commit_candidate.update_convs(13,14))
  have "ledger_ok (ga_ledger s)" by (rule assms(1))
  then have "holds_for c False s" by (simp add: holds_for_def)
  from yieldsD [OF yields_evaluate_episodes this claims] have held: "holds_for c (pr_reported pr) s1" by simp
  from lifecycle have s2: "ga_ledger s2 = ga_ledger s1" "ga_observations s2 = ga_observations s1"
    by (auto simp: add_event_def)
  have s1: "ga_observations s1 = ga_observations s"
    using keepsD [OF keeps_evaluate_observations refl claims] .
  note store = store [folded c'_def, unfolded changed]
  have "(if c' = c then ga_observations s' = ga_observations s
      else map_get (om_candidates (du_memory (ga_observations s'))) (cc_candidateId c) = Some (normalizeCandidate c'))
    \<and> ga_ledger s' = ga_ledger s1"
  proof (cases "c' = c")
    case True
    with store have "s' = s2" by (simp add: whenA_def)
    with True s1 s2 show ?thesis by simp
  next
    case False
    with store have "store_candidate w c' k l f s2 = (Inr (), s')" by (simp add: whenA_def)
    from store_candidate_stores [OF this] False s2 c'(2) show ?thesis by simp
  qed
  moreover have "cc_decision c' = (if pr_reported pr \<or> cc_decision c = Reportable then Reportable
      else if isExpired c (gw_now w) then Expired else Pending_evidence)"
    by (simp add: c'_def decided_candidate_def)
  ultimately show ?thesis using c'(1) held by (intro exI [of _ c']) (auto simp: holds_for_def split: if_splits)
qed

theorem reportable_needs_claim_witness:
  "\<exists>s' c'. evaluate_candidate (attributing_world []) [] [sample_episode] sample_candidate []
       (coordinator_with sample_store) = (Inr [''q1'', ''q2''], s')
     \<and> cc_decision c' = Reportable \<and> claimed_for (ga_ledger s') sample_candidate
     \<and> map_get (om_candidates (du_memory (ga_observations s'))) ''c1'' = Some (normalizeCandidate c')"
proof -
  let ?run = "evaluate_candidate (attributing_world []) [] [sample_episode] sample_candidate []
       (coordinator_with sample_store)"
  have e: "(case ?run of (r, s') \<Rightarrow> (map_sum (\<lambda>_. ()) id r,
      map cc_decision (map_values (om_candidates (du_memory (ga_observations s'))))))
    = (Inr [''q1'', ''q2''], [Reportable])" by code_simp
  obtain r s' where rs: "?run = (r, s')" by fastforce
  with e have "r = Inr [''q1'', ''q2'']" by (cases r) simp_all
  with rs have run: "?run = (Inr [''q1'', ''q2''], s')" by simp
  from e rs have d: "map cc_decision (map_values (om_candidates (du_memory (ga_observations s')))) = [Reportable]" by simp
  have c: "cc_decision sample_candidate = Pending_evidence" "cc_candidateId sample_candidate = ''c1''"
    by (simp_all add: sample_candidate_def)
  have o: "ga_observations (coordinator_with sample_store)
      = \<lparr>du_load = None, du_memory = no_observations, du_file = Missing\<rparr>" by (simp add: coordinator_with_def)
  have "ledger_ok (ga_ledger (coordinator_with sample_store))" by (simp add: coordinator_with_def example_ledgers_ok)
  from reportable_needs_claim [OF this run] obtain c' where c':
    "if c' = sample_candidate then ga_observations s' = ga_observations (coordinator_with sample_store)
     else map_get (om_candidates (du_memory (ga_observations s'))) ''c1'' = Some (normalizeCandidate c')"
    "cc_decision c' = Reportable \<longrightarrow> claimed_for (ga_ledger s') sample_candidate"
    unfolding c by (auto simp: c)
  have "c' \<noteq> sample_candidate" using c'(1) d by (auto simp: o no_observations_def map_values_def)
  with c' have get: "map_get (om_candidates (du_memory (ga_observations s'))) ''c1'' = Some (normalizeCandidate c')"
    by simp
  with d have "cc_decision (normalizeCandidate c') = Reportable"
    by (auto simp: map_values_def Cons_eq_map_conv dest!: map_of_SomeD)
  then have "cc_decision c' = Reportable" by (simp add: normalizeCandidate_def)
  with run get c'(2) show ?thesis by blast
qed

end
