(* ===== verification/HistoryRewrites.thy ===== *)
theory HistoryRewrites
  imports GitAttributionProperties
begin

text \<open>
  What a rewrite of a reference does to the claims: exactly the claims of the commits that the rewrite
  removed from the reference wait for a replacement, and the work of these commits is open again.
\<close>

section \<open>The ledger\<close>

text \<open>The allocations with \<open>P\<close> wait for a rewrite, the others keep their status.\<close>

definition suspended :: "(allocation \<Rightarrow> bool) \<Rightarrow> query_attribution \<Rightarrow> query_attribution \<Rightarrow> bool" where
  "suspended P q q' \<longleftrightarrow>
     image_mset allocation_view (mset (qa_allocations q')) =
       image_mset (\<lambda>a. (fst (allocation_view a), if P a then Al_rewrite_pending else al_status a)) (mset (qa_allocations q))
     \<and> qa_status q' = (if \<exists>a \<in> set (qa_allocations q). P a then Qa_rewrite_pending else qa_status q)"

text \<open>A condition that does not see the normal form.\<close>

definition normal_blind :: "(allocation \<Rightarrow> bool) \<Rightarrow> bool" where
  "normal_blind P \<longleftrightarrow> (\<forall>lc priced a. P (normalizeAllocation lc priced a) = P a)"

lemma suspended_normalized:
  "suspended P q (normalizeAttribution lc q') = suspended P q q'"
  "normal_blind P \<Longrightarrow> suspended P (normalizeAttribution lc q) q' = suspended P q q'"
proof -
  show "suspended P q (normalizeAttribution lc q') = suspended P q q'"
    by (simp add: suspended_def view_normalizeAttribution)
  assume "normal_blind P"
  then show "suspended P (normalizeAttribution lc q) q' = suspended P q q'"
    by (simp add: suspended_def normal_blind_def mset_normalize_allocations set_normalize_allocations
      image_mset.compositionality comp_def cong: if_cong)
qed

lemma suspended_changed: "suspended P q (change_where P (mark_pending t) Qa_rewrite_pending q)"
proof -
  have "allocation_view (if P a then mark_pending t a else a)
      = (fst (allocation_view a), if P a then Al_rewrite_pending else al_status a)" for a
    by (simp add: allocation_view_def mark_pending_def)
  moreover have "(fst (allocation_view a), if P a then Al_rewrite_pending else al_status a) = allocation_view a" if "\<not> P a" for a
    using that by (simp add: view_status)
  ultimately show ?thesis
    by (auto simp: suspended_def change_where_def list_ex_iff image_mset.compositionality comp_def intro!: image_mset_cong)
qed

lemma suspended_none: "\<forall>a \<in> set (qa_allocations q). \<not> P a \<Longrightarrow> suspended P q q"
  by (auto simp: suspended_def view_status intro!: image_mset_cong)

lemma markRewritePending_suspends:
  assumes "markRewritePending lc pg repo hs t st = Inr (n, st')"
  shows "case lookup st k of None \<Rightarrow> lookup st' k = None
    | Some q \<Rightarrow> \<exists>q'. lookup st' k = Some q' \<and> suspended (rewrite_target repo hs) q q'"
proof -
  let ?P = "rewrite_target repo hs"
  let ?F = "change_where ?P (mark_pending t) Qa_rewrite_pending"
  have blind: "normal_blind ?P" by (simp add: normal_blind_def rewrite_target_def)
  have id: "qa_queryId (?F q) = qa_queryId q" for q by (simp add: change_where_def)
  consider (written) "st' = map (normalizeAttribution lc) (map ?F (loadAttributions lc st))"
    | (idle) "st' = st" "count_where ?P (loadAttributions lc st) = 0"
    using assms by (auto simp: markRewritePending_def Let_def bindE_Inr persist_Inr split: if_splits)
  then show ?thesis
  proof cases
    case written
    have "lookup st' k = map_option (\<lambda>q. normalizeAttribution lc (?F (normalizeAttribution lc q))) (lookup st k)"
      unfolding written lookup_def loadAttributions_def map_map
      by (subst find_map_ident) (simp_all add: comp_def id)
    then show ?thesis
      using suspended_changed [THEN suspended_normalized(2) [OF blind, THEN iffD1]]
      by (auto simp: suspended_normalized(1) split: option.split)
  next
    case idle
    have "\<not> ?P a" if "lookup st k = Some q" "a \<in> set (qa_allocations q)" for q a
    proof -
      have "normalizeAttribution lc q \<in> set (loadAttributions lc st)" using lookup_mem [OF that(1)] by (simp add: loadAttributions_def)
      with idle(2) have "\<forall>b \<in> set (qa_allocations (normalizeAttribution lc q)). \<not> ?P b"
        by (simp add: count_where_def filter_empty_conv)
      then show ?thesis using that(2) blind by (simp add: set_normalize_allocations normal_blind_def)
    qed
    then show ?thesis using idle(1) by (auto intro: suspended_none split: option.split)
  qed
qed

section \<open>The episodes\<close>

text \<open>The memory of the episodes has each under its own identifier.\<close>

definition keyed_memory :: "(string, episode) jsmap \<Rightarrow> bool" where
  "keyed_memory m \<longleftrightarrow> distinct (map fst m) \<and> (\<forall>(k, e) \<in> set m. ep_episodeId e = k)"

lemma keyed_memory_put: "keyed_memory m \<Longrightarrow> ep_episodeId e = k \<Longrightarrow> keyed_memory (map_set k e m)"
  using set_map_set_subset [of k e m] by (fastforce simp: keyed_memory_def js_map.distinct_keys_put)

lemma keyed_memory_from: "keyed_memory (map_from ep_episodeId es)"
  using map_from_mem by (fastforce simp: keyed_memory_def)

definition keyed_ledger :: "episode_ledger \<Rightarrow> bool" where
  "keyed_ledger l \<longleftrightarrow> keyed_memory (du_memory l)"

definition keyed_tracker :: "tracker \<Rightarrow> bool" where
  "keyed_tracker t \<longleftrightarrow> keyed_ledger (tk_ledger t)"

lemma keyed_change: "(\<And>m. keyed_memory m \<Longrightarrow> keyed_memory (g m)) \<Longrightarrow> keeps keyed_ledger (change_memory g)"
  by (simp add: keeps_def change_memory_def keyed_ledger_def)

lemma keyed_write: "keeps keyed_ledger (episode_writeAll pg io)"
  unfolding episode_writeAll_def writeEpisodes_def checkEpisode_def
  by (intro keeps_intros keeps_modify) (simp add: keyed_ledger_def)

lemma keyed_ledger_load: "keeps keyed_ledger (episode_ensureLoaded lc pg io)"
proof -
  have "keeps keyed_ledger (bindA (change_memory (\<lambda>_. map_from ep_episodeId episodes)) (\<lambda>_.
      bindA (if removed > 0 then episode_writeAll pg io else returnA ()) (\<lambda>_. returnA removed)))" for episodes and removed :: nat
    by (intro keeps_intros keyed_change keyed_memory_from keyed_write)
  then have "keeps keyed_ledger (loadAndCompact lc pg io)"
    by (auto simp: keeps_def loadAndCompact_def split: option.split prod.split)
  then show ?thesis
    by (auto simp: keeps_def episode_ensureLoaded_def once_def keyed_ledger_def split: option.split prod.split)
qed

lemma keyed_operations:
  "keeps keyed_ledger (upsertEpisode lc pg io e)" "keeps keyed_ledger (listEpisodes lc pg io q)"
  "keeps keyed_ledger (episode_clear lc pg io)"
  unfolding upsertEpisode_def checkEpisode_def listEpisodes_def episode_clear_def update_all_def Let_def
  by (intro keeps_intros keyed_ledger_load keyed_write keyed_change keyed_memory_put refl; simp add: keyed_memory_def)+

lemma keyed_on_ledger: "keeps keyed_ledger a \<Longrightarrow> keeps keyed_tracker (on_ledger a)"
  by (auto simp: keeps_def on_ledger_def keyed_tracker_def split: prod.split)

lemma keyed_tracker_basics [keeps_intros]:
  "keeps keyed_tracker (recordEvent v)" "keeps keyed_tracker (modifyA (\<lambda>s. s\<lparr>tk_running := b\<rparr>))"
  "keeps keyed_tracker (ledger_list w q)" "keeps keyed_tracker (upsert w e r c)"
  "keeps keyed_tracker (on_ledger (episode_ensureLoaded lc pg io))" "keeps keyed_tracker (reset w)"
proof -
  show event: "keeps keyed_tracker (recordEvent v)" for v by (simp add: keeps_def recordEvent_def keyed_tracker_def)
  show "keeps keyed_tracker (modifyA (\<lambda>s. s\<lparr>tk_running := b\<rparr>))" by (simp add: keeps_def keyed_tracker_def)
  show "keeps keyed_tracker (ledger_list w q)" unfolding ledger_list_def by (intro keyed_on_ledger keyed_operations)
  show "keeps keyed_tracker (upsert w e r c)"
    unfolding upsert_def by (intro keeps_intros keyed_on_ledger keyed_operations event)
  show "keeps keyed_tracker (on_ledger (episode_ensureLoaded lc pg io))" by (intro keyed_on_ledger keyed_ledger_load)
  show "keeps keyed_tracker (reset w)" unfolding reset_def by (intro keyed_on_ledger keyed_operations)
qed

lemma keyed_start: "keeps keyed_tracker (start w)" "keeps keyed_tracker stop"
  unfolding start_def start_one_def stop_def by (intro keeps_intros)+

lemma keyed_observeRun: "keeps keyed_tracker (WorkEpisodeTracker.observeRun w uuid run)"
  unfolding observeRun_def markStaleOpenEpisodes_def findOrCreateEpisode_def Let_def by (intro keeps_intros)

lemma keyed_evidence: "keeps keyed_tracker (observeWorkspaceEvidence w items)"
  unfolding observeWorkspaceEvidence_def observe_item_def by (intro keeps_intros)

lemma keyed_claims: "keeps keyed_tracker (markClaimed w k h t)" "keeps keyed_tracker (reopenSupersededCommit w h)"
proof -
  have "keeps keyed_tracker (case es of [] \<Rightarrow> returnA ()
      | e # _ \<Rightarrow> upsert w (claim_episode h t e) ''episode_claimed'' (Some h))" for es
    by (cases es) (simp_all add: keeps_intros)
  then show "keeps keyed_tracker (markClaimed w k h t)" unfolding markClaimed_def by (intro keeps_intros)
  show "keeps keyed_tracker (reopenSupersededCommit w h)" unfolding reopenSupersededCommit_def by (intro keeps_intros)
qed

lemma tracker_reachable_keyed: "tracker_reachable t \<Longrightarrow> keyed_tracker t"
proof (induction rule: tracker_reachable.induct)
  case boot
  then show ?case by (simp add: keyed_tracker_def keyed_ledger_def keyed_memory_def)
next
  case (restarted s)
  then show ?case by (simp add: keyed_tracker_def keyed_ledger_def keyed_memory_def restart_def)
qed (use keyed_start keyed_observeRun keyed_evidence keyed_claims keyed_tracker_basics(6) in \<open>simp_all add: keeps_def\<close>)

text \<open>Reopening the work of a commit: no episode is claimed by it any more, and no other claim appears.\<close>

definition claimed_episodes :: "string \<Rightarrow> tracker \<Rightarrow> episode set" where
  "claimed_episodes h t = {e \<in> set (map_values (du_memory (tk_ledger t))). ep_claimedByCommitHash e = Some h}"

definition loaded_tracker :: "tracker \<Rightarrow> bool" where
  "loaded_tracker t \<longleftrightarrow> du_load (tk_ledger t) \<noteq> None"

lemma keyed_value: "keyed_memory m \<Longrightarrow> x \<in> set (map_values m) \<longleftrightarrow> map_get m (ep_episodeId x) = Some x"
  by (force simp: keyed_memory_def map_values_def)

lemma writeAll_keeps: "keeps (\<lambda>s. du_memory s = m \<and> du_load s = l) (episode_writeAll pg io)"
  unfolding episode_writeAll_def writeEpisodes_def checkEpisode_def by (intro keeps_intros keeps_modify) simp

lemma upsertEpisode_memory:
  assumes "upsertEpisode lc pg io e l = (Inr u, l')" "du_load l \<noteq> None"
  shows "du_load l' \<noteq> None \<and> map_get (du_memory l') k
    = (if k = ep_episodeId e then Some (normalizeEpisode e) else map_get (du_memory l) k)"
proof -
  from assms obtain n where load: "episode_ensureLoaded lc pg io l = (Inr n, l)"
    by (auto simp: upsertEpisode_def checkEpisode_def bindA_Inr episode_ensureLoaded_def once_def split: if_splits option.splits)
  have rest: "(if map_get (du_memory l) (ep_episodeId e) = Some (normalizeEpisode e) then returnA ()
      else bindA (change_memory (map_set (ep_episodeId e) (normalizeEpisode e))) (\<lambda>_. episode_writeAll pg io)) l = (Inr u, l')"
    using assms(1) by (auto simp: upsertEpisode_def checkEpisode_def bindA_Inr load Let_def split: if_splits)
  show ?thesis
  proof (cases "map_get (du_memory l) (ep_episodeId e) = Some (normalizeEpisode e)")
    case True
    with rest assms(2) show ?thesis by auto
  next
    case False
    let ?l = "l\<lparr>du_memory := map_set (ep_episodeId e) (normalizeEpisode e) (du_memory l)\<rparr>"
    from rest False have "episode_writeAll pg io ?l = (Inr u, l')" by (simp add: bindA_def change_memory_def)
    from keepsD [OF writeAll_keeps _ this, of "du_memory ?l" "du_load ?l"] assms(2) show ?thesis by simp
  qed
qed

lemma upsert_reopened:
  assumes "upsert w (reopen_episode e) r c t = (Inr u, t')" "loaded_tracker t" "keyed_tracker t"
  shows "loaded_tracker t' \<and> keyed_tracker t'
    \<and> claimed_episodes h t' \<subseteq> {x \<in> claimed_episodes h t. ep_episodeId x \<noteq> ep_episodeId e}"
proof -
  from assms(1) obtain l' where up: "upsertEpisode (tw_lc w) (tw_pg w) (tw_io w) (reopen_episode e) (tk_ledger t) = (Inr u, l')"
    and l': "tk_ledger t' = l'"
    by (auto simp: upsert_def on_ledger_def recordEvent_def bindA_Inr split: prod.splits)
  have loaded: "du_load (tk_ledger t) \<noteq> None" using assms(2) by (simp add: loaded_tracker_def)
  have keyed: "keyed_tracker t'" by (rule keepsD [OF keyed_tracker_basics(4) assms(3, 1)])
  then have m: "keyed_memory (du_memory l')" "keyed_memory (du_memory (tk_ledger t))"
    using assms(3) by (simp_all add: keyed_tracker_def keyed_ledger_def l')
  have "x \<in> claimed_episodes h t \<and> ep_episodeId x \<noteq> ep_episodeId e" if "x \<in> claimed_episodes h t'" for x
    using that upsertEpisode_memory [OF up loaded, of "ep_episodeId x"]
    by (auto simp: claimed_episodes_def l' keyed_value [OF m(1)] keyed_value [OF m(2)] reopen_episode_def split: if_splits)
  then show ?thesis using upsertEpisode_memory [OF up loaded] keyed by (auto simp: loaded_tracker_def l')
qed

lemma reopen_all:
  assumes "forA (\<lambda>e. upsert w (reopen_episode e) r c) es t = (Inr u, t')" "loaded_tracker t" "keyed_tracker t"
  shows "loaded_tracker t' \<and> keyed_tracker t' \<and> claimed_episodes h' t' \<subseteq> claimed_episodes h' t
    \<and> (claimed_episodes h t \<subseteq> set es \<longrightarrow> claimed_episodes h t' = {})"
  using assms
proof (induction es arbitrary: t)
  case (Cons e es)
  from Cons.prems(1) obtain t1 where one: "upsert w (reopen_episode e) r c t = (Inr (), t1)"
    and rest: "forA (\<lambda>e. upsert w (reopen_episode e) r c) es t1 = (Inr u, t')" by (auto simp: bindA_Inr)
  note step = upsert_reopened [OF one Cons.prems(2, 3)]
  from Cons.IH [OF rest] step have IH: "loaded_tracker t' \<and> keyed_tracker t' \<and> claimed_episodes h' t' \<subseteq> claimed_episodes h' t1
    \<and> (claimed_episodes h t1 \<subseteq> set es \<longrightarrow> claimed_episodes h t' = {})" by blast
  moreover have "claimed_episodes h t1 \<subseteq> set es" if "claimed_episodes h t \<subseteq> set (e # es)" using step [of h] that by auto
  ultimately show ?case using step [of h'] by blast
qed simp

lemma reopened_commit:
  assumes "reopenSupersededCommit w h t = (Inr u, t')" "keyed_tracker t"
  shows "loaded_tracker t' \<and> keyed_tracker t' \<and> claimed_episodes h t' = {}
    \<and> (loaded_tracker t \<longrightarrow> claimed_episodes h' t' \<subseteq> claimed_episodes h' t)"
proof -
  let ?q = "any_episode\<lparr>eq_commitHash := Some h\<rparr>"
  from assms(1) obtain es t1 where list: "ledger_list w ?q t = (Inr es, t1)"
    and loop: "forA (\<lambda>e. upsert w (reopen_episode e) ''history_rewrite_pending'' (Some h)) es t1 = (Inr u, t')"
    by (auto simp: reopenSupersededCommit_def bindA_Inr)
  from list obtain n l where load: "episode_ensureLoaded (tw_lc w) (tw_pg w) (tw_io w) (tk_ledger t) = (Inr n, l)"
    and t1: "t1 = t\<lparr>tk_ledger := l\<rparr>"
    and es: "set es = {e \<in> set (map_values (du_memory l)). matchesQuery e ?q}"
    by (auto simp: ledger_list_def on_ledger_def listEpisodes_def bindA_Inr Let_def any_episode_def split: prod.splits)
  have loaded: "loaded_tracker t1" using once_loaded [of "loadAndCompact (tw_lc w) (tw_pg w) (tw_io w)" "tk_ledger t"] load
    by (simp add: loaded_tracker_def t1 episode_ensureLoaded_def)
  have keyed: "keyed_tracker t1" by (rule keepsD [OF keyed_tracker_basics(3) assms(2) list])
  have same: "t1 = t" if "loaded_tracker t"
    using that load by (auto simp: t1 loaded_tracker_def episode_ensureLoaded_def once_def split: option.splits)
  have "claimed_episodes h t1 \<subseteq> set es"
    by (auto simp: claimed_episodes_def es t1 matchesQuery_def any_episode_def)
  with reopen_all [OF loop loaded keyed] show ?thesis using same by blast
qed

lemma reopened_commits:
  assumes "forA (reopenSupersededCommit w) hs t = (Inr u, t')" "keyed_tracker t" "h \<in> set hs \<or> (loaded_tracker t \<and> claimed_episodes h t = {})"
  shows "claimed_episodes h t' = {}"
  using assms
proof (induction hs arbitrary: t)
  case (Cons g hs)
  from Cons.prems(1) obtain t1 where one: "reopenSupersededCommit w g t = (Inr (), t1)"
    and rest: "forA (reopenSupersededCommit w) hs t1 = (Inr u, t')" by (auto simp: bindA_Inr)
  note step = reopened_commit [OF one Cons.prems(2)]
  have "h \<in> set hs \<or> (loaded_tracker t1 \<and> claimed_episodes h t1 = {})"
    using Cons.prems(3) step [of h] by (cases "h = g") auto
  with Cons.IH [OF rest] step show ?case by blast
qed simp

section \<open>Confirmed rewrites\<close>

text \<open>A commit that a rewrite removed: it holds a reported claim on the reference, of a query that
  concerns the repository, and is no ancestor of the present head of the reference.\<close>

definition concerns :: "string \<Rightarrow> query_attribution \<Rightarrow> bool" where
  "concerns repo q \<longleftrightarrow> repo = '''' \<or> (\<exists>e \<in> set (qa_evidence q). we_repoKey e = repo)
     \<or> (\<exists>a \<in> set (qa_allocations q). al_repoKey a = repo)"

definition lost_claim :: "attribution_world \<Rightarrow> string \<Rightarrow> string \<Rightarrow> string \<Rightarrow> string \<Rightarrow> allocation \<Rightarrow> bool" where
  "lost_claim w repo ref head h a \<longleftrightarrow> al_commitHash a = h \<and> al_status a = Al_active \<and> al_decision a = Some Reportable
     \<and> al_refKey a = Some ref \<and> \<not> gw_isAncestor w repo h head"

definition rewritten_commit :: "attribution_world \<Rightarrow> string \<Rightarrow> string \<Rightarrow> string \<Rightarrow> store \<Rightarrow> string \<Rightarrow> bool" where
  "rewritten_commit w repo ref head st h \<longleftrightarrow>
     (\<exists>q \<in> set st. concerns repo q \<and> (\<exists>a \<in> set (qa_allocations q). lost_claim w repo ref head h a))"

lemma rewritten_loaded: "rewritten_commit w repo ref head (loadAttributions lc st) h = rewritten_commit w repo ref head st h"
proof -
  have "lost_claim w repo ref head h (normalizeAllocation lc b a) = lost_claim w repo ref head h a" for b a
    by (simp add: lost_claim_def normalizeAllocation_def)
  moreover have "concerns repo (normalizeAttribution lc q) = concerns repo q" for q
    unfolding concerns_def set_normalize_allocations
    by (simp add: normalizeAttribution_def Let_def normalizeEvidence_def)
  ultimately show ?thesis by (simp add: rewritten_commit_def loadAttributions_def set_normalize_allocations)
qed

lemma set_unreachable:
  "set (unreachable_claims w repo ref head (listQueryAttributions lc (any_attribution\<lparr>aq_repoKey := Some repo\<rparr>) st))
   = {h. rewritten_commit w repo ref head st h}"
proof -
  have "set (listQueryAttributions lc (any_attribution\<lparr>aq_repoKey := Some repo\<rparr>) st)
      = {q \<in> set (loadAttributions lc st). concerns repo q}"
  proof -
    have "matchesQueryAttribution q (any_attribution\<lparr>aq_repoKey := Some repo\<rparr>) = concerns repo q" for q
      by (auto simp: matchesQueryAttribution_def any_attribution_def in_date_range_def concerns_def list_ex_iff)
    moreover have "length (filter P (loadAttributions lc st)) \<le> length (loadAttributions lc st)" for P by simp
    ultimately show ?thesis by (simp add: listQueryAttributions_def Let_def slice_to_def any_attribution_def)
  qed
  then show ?thesis
    unfolding rewritten_loaded [of w repo ref head lc st, symmetric]
    by (auto simp: unreachable_claims_def rewritten_commit_def lost_claim_def)
qed

lemma on_episodes_Inr:
  "on_episodes a s = (Inr x, s') \<longleftrightarrow> a (ga_episodes s) = (Inr x, ga_episodes s') \<and> s' = s\<lparr>ga_episodes := ga_episodes s'\<rparr>"
proof (cases "a (ga_episodes s)")
  case (Pair r t)
  then show ?thesis by (cases r) (auto simp: on_episodes_def)
qed

lemma loop_on_episodes:
  assumes "forA (\<lambda>h. on_episodes (f h)) hs s = (Inr u, s')"
  shows "forA f hs (ga_episodes s) = (Inr u, ga_episodes s') \<and> ga_ledger s' = ga_ledger s"
  using assms
proof (induction hs arbitrary: s)
  case (Cons h hs)
  from Cons.prems obtain s1 where one: "on_episodes (f h) s = (Inr (), s1)"
    and rest: "forA (\<lambda>h. on_episodes (f h)) hs s1 = (Inr u, s')" by (auto simp: bindA_Inr)
  from one have f: "f h (ga_episodes s) = (Inr (), ga_episodes s1)" and s1: "s1 = s\<lparr>ga_episodes := ga_episodes s1\<rparr>"
    unfolding on_episodes_Inr by blast+
  from s1 have "ga_ledger s1 = ga_ledger s" by (metis coordinator.select_convs(4) coordinator.surjective coordinator.update_convs(5))
  with Cons.IH [OF rest] f show ?case by simp
qed simp

lemma mark_unreachable_effect:
  assumes "mark_unreachable w repo ref t hs s = (Inr u, s')"
  obtains n where "markRewritePending (gw_lc w) (gw_pg w) repo hs t (ga_ledger s) = Inr (n, ga_ledger s')"
    "forA (reopenSupersededCommit (gw_tracker w)) hs (ga_episodes s) = (Inr (), ga_episodes s')"
proof -
  from assms obtain n s1 s2 where
    l: "on_attributions (markRewritePending (gw_lc w) (gw_pg w) repo hs t) s = (Inr n, s1)"
    and e: "forA (\<lambda>h. on_episodes (reopenSupersededCommit (gw_tracker w) h)) hs s1 = (Inr (), s2)"
    and s': "ga_ledger s' = ga_ledger s2" "ga_episodes s' = ga_episodes s2"
    by (auto simp: mark_unreachable_def bindA_Inr decision_event_def add_event_def recordLifecycle_def publish_commit_def publish_def)
  from l have "markRewritePending (gw_lc w) (gw_pg w) repo hs t (ga_ledger s) = Inr (n, ga_ledger s1)" "ga_episodes s1 = ga_episodes s"
    by (auto simp: on_attributions_def split: sum.splits)
  with loop_on_episodes [OF e] that s' show ?thesis by simp
qed

text \<open>
  C4: a rewrite suspends exactly the claims that it removed. When the rewrite of a reference whose head
  is known is handled with success, an active claim on the repository waits for a replacement exactly
  when its commit is a rewritten one: it holds a reported claim on the reference and is no ancestor of the
  head. Its query then waits too; all other claims, with their commits and amounts, and the status of
  all other queries stay. No episode is claimed by a rewritten commit any more; the memory of the episodes
  is keyed by their identifiers, as in every state that the tracker reaches (\<open>tracker_reachable_keyed\<close>).
\<close>

theorem rewrites_pend_exactly:
  assumes "keyed_tracker (ga_episodes s)"
    and "listEpochs (gw_lc w) (ga_observations s) = (Inr epochs, t)"
    and "ref \<noteq> ''''" "current_ref_head epochs repo ref = Some head"
    and "markConfirmedRewrites w repo (Some ref) observedAt s = (Inr (), s')"
  shows "(case lookup (ga_ledger s) k of None \<Rightarrow> lookup (ga_ledger s') k = None
      | Some q \<Rightarrow> \<exists>q'. lookup (ga_ledger s') k = Some q'
          \<and> suspended (\<lambda>a. al_repoKey a = repo \<and> rewritten_commit w repo ref head (ga_ledger s) (al_commitHash a)
              \<and> al_status a = Al_active) q q')
    \<and> (rewritten_commit w repo ref head (ga_ledger s) h \<longrightarrow> claimed_episodes h (ga_episodes s') = {})"
proof -
  let ?hs = "unreachable_claims w repo ref head
    (listQueryAttributions (gw_lc w) (any_attribution\<lparr>aq_repoKey := Some repo\<rparr>) (ga_ledger s))"
  let ?s = "s\<lparr>ga_observations := t\<rparr>"
  have P: "rewrite_target repo ?hs
      = (\<lambda>a. al_repoKey a = repo \<and> rewritten_commit w repo ref head (ga_ledger s) (al_commitHash a) \<and> al_status a = Al_active)"
    by (simp add: fun_eq_iff rewrite_target_def set_unreachable)
  have run: "whenA (?hs \<noteq> []) (mark_unreachable w repo ref observedAt ?hs) ?s = (Inr (), s')"
    using assms(5) by (simp add: markConfirmedRewrites_def unless_empty_def assms(3) on_observations_def assms(2, 4)
      list_attributions_def bindA_def Let_def)
  show ?thesis
  proof (cases "?hs = []")
    case True
    then have none: "\<not> rewritten_commit w repo ref head (ga_ledger s) h" for h
      using set_unreachable [of w repo ref head "gw_lc w" "ga_ledger s"] by auto
    moreover from run True have "ga_ledger s' = ga_ledger s" by (auto simp: whenA_def)
    ultimately show ?thesis by (auto intro: suspended_none split: option.split)
  next
    case False
    with run have "mark_unreachable w repo ref observedAt ?hs ?s = (Inr (), s')" by (simp add: whenA_def)
    then obtain n where n: "markRewritePending (gw_lc w) (gw_pg w) repo ?hs observedAt (ga_ledger s) = Inr (n, ga_ledger s')"
      and e: "forA (reopenSupersededCommit (gw_tracker w)) ?hs (ga_episodes s) = (Inr (), ga_episodes s')"
      by (rule mark_unreachable_effect) simp
    from markRewritePending_suspends [OF n, of k] reopened_commits [OF e assms(1), of h]
    show ?thesis unfolding P by (simp add: set_unreachable)
  qed
qed

text \<open>Commits h1 and h2 were claimed on the reference; after the rewrite only h2 is still in it.\<close>

definition claim_of_commit :: "string \<Rightarrow> string \<Rightarrow> first_claim_input" where
  "claim_of_commit h k = sample_claim\<lparr>fc_queryIds := [k],
     fc_candidate := sample_candidate\<lparr>cc_commitHash := h, cc_refKey := Some ''main''\<rparr>\<rparr>"

definition two_commits :: store where
  "two_commits = (case bindE (tryFirstClaim code_unit_compare no_guard 0 (claim_of_commit ''h1'' ''q1'') sample_store)
       (\<lambda>(_, st). tryFirstClaim code_unit_compare no_guard 0 (claim_of_commit ''h2'' ''q2'') st) of
     Inl e \<Rightarrow> [] | Inr (r, st) \<Rightarrow> st)"

definition rewritten_world :: attribution_world where
  "rewritten_world = (attributing_world [])\<lparr>gw_isAncestor := (\<lambda>repo h head. h \<noteq> ''h1'')\<rparr>"

definition claimed_tracker :: tracker where
  "claimed_tracker = \<lparr>tk_running = True, tk_ledger = \<lparr>du_load = Some (Inr 0), du_memory = [(''ep1'',
       sample_episode\<lparr>ep_status := Ep_claimed, ep_claimedByCommitHash := Some ''h1''\<rparr>)], du_file = Missing\<rparr>, tk_events = []\<rparr>"

definition before_rewrite :: coordinator where
  "before_rewrite = (coordinator_with two_commits)\<lparr>ga_episodes := claimed_tracker,
     ga_observations := \<lparr>du_load = None, du_memory = no_observations,
       du_file = Content ([sample_epoch ''repo''], [])\<rparr>\<rparr>"

lemma before_rewrite_facts:
  "map (\<lambda>a. (al_repoKey a, al_commitHash a, al_status a)) (qa_allocations (the (lookup two_commits ''q1''))) = [(''repo'', ''h1'', Al_active)]"
  "map (\<lambda>a. (al_repoKey a, al_commitHash a, al_status a)) (qa_allocations (the (lookup two_commits ''q2''))) = [(''repo'', ''h2'', Al_active)]"
  "lookup two_commits ''q1'' \<noteq> None" "lookup two_commits ''q2'' \<noteq> None"
  "list_ex (\<lambda>a. lost_claim rewritten_world ''repo'' ''main'' ''h'' ''h1'' a) (qa_allocations (the (lookup two_commits ''q1'')))"
  by code_simp+

lemma single_view:
  assumes "suspended P q q'" "map (\<lambda>a. (al_repoKey a, al_commitHash a, al_status a)) (qa_allocations q) = [(repo, h, st)]"
    "\<And>a. al_repoKey a = repo \<Longrightarrow> al_commitHash a = h \<Longrightarrow> al_status a = st \<Longrightarrow> P a = b"
  shows "map al_status (qa_allocations q') = [if b then Al_rewrite_pending else st]"
proof -
  from assms(2) obtain a where a: "qa_allocations q = [a]" "al_repoKey a = repo" "al_commitHash a = h" "al_status a = st" by auto
  with assms(1, 3) have "mset (map allocation_view (qa_allocations q'))
      = {#(fst (allocation_view a), if b then Al_rewrite_pending else st)#}"
    by (simp add: suspended_def)
  then have "map allocation_view (qa_allocations q') = [(fst (allocation_view a), if b then Al_rewrite_pending else st)]"
    by (simp only: mset_single_iff)
  then show ?thesis by (auto simp: allocation_view_def)
qed

text \<open>The steps of this rewrite succeed one by one.\<close>

lemma single_rewrite_runs:
  assumes "listEpochs (gw_lc w) (ga_observations s) = (Inr epochs, t)" "ref \<noteq> ''''"
    and "current_ref_head epochs repo ref = Some head"
    and "unreachable_claims w repo ref head
      (listQueryAttributions (gw_lc w) (any_attribution\<lparr>aq_repoKey := Some repo\<rparr>) (ga_ledger s)) = [h]"
    and "markRewritePending (gw_lc w) (gw_pg w) repo [h] observedAt (ga_ledger s) = Inr (n, st')"
    and "reopenSupersededCommit (gw_tracker w) h (ga_episodes s) = (Inr (), t')"
  obtains s' where "markConfirmedRewrites w repo (Some ref) observedAt s = (Inr (), s')"
proof -
  have "fst (markConfirmedRewrites w repo (Some ref) observedAt s) = Inr ()"
    by (simp add: markConfirmedRewrites_def unless_empty_def assms on_observations_def list_attributions_def bindA_def Let_def
      whenA_def mark_unreachable_def on_attributions_def on_episodes_def decision_event_def add_event_def recordLifecycle_def
      publish_commit_def publish_def)
  then show ?thesis using that by (metis prod.collapse)
qed

lemma before_rewrite_steps:
  "fst (listEpochs code_unit_compare (ga_observations before_rewrite)) = Inr [sample_epoch ''repo'']"
  "current_ref_head [sample_epoch ''repo''] ''repo'' ''main'' = Some ''h''"
  "unreachable_claims rewritten_world ''repo'' ''main'' ''h''
     (listQueryAttributions code_unit_compare (any_attribution\<lparr>aq_repoKey := Some ''repo''\<rparr>) two_commits) = [''h1'']"
  by code_simp+

lemma before_rewrite_pending:
  "map_sum (\<lambda>_. ()) fst (markRewritePending code_unit_compare no_guard ''repo'' [''h1''] ''2026-07-02T00:00:00.000Z'' two_commits) = Inr 1"
  by code_simp

lemma before_rewrite_reopened:
  "map_sum (\<lambda>_. ()) id (fst (reopenSupersededCommit (gw_tracker rewritten_world) ''h1'' claimed_tracker)) = Inr ()"
  "map ep_claimedByCommitHash (map_values (du_memory (tk_ledger claimed_tracker))) = [Some ''h1'']"
  by code_simp+

theorem rewrites_pend_exactly_witness:
  "\<exists>s' q1 q2. markConfirmedRewrites rewritten_world ''repo'' (Some ''main'') ''2026-07-02T00:00:00.000Z'' before_rewrite = (Inr (), s')
     \<and> lookup (ga_ledger s') ''q1'' = Some q1 \<and> map al_status (qa_allocations q1) = [Al_rewrite_pending]
     \<and> lookup (ga_ledger s') ''q2'' = Some q2 \<and> map al_status (qa_allocations q2) = [Al_active]
     \<and> map ep_claimedByCommitHash (map_values (du_memory (tk_ledger (ga_episodes before_rewrite)))) = [Some ''h1'']
     \<and> claimed_episodes ''h1'' (ga_episodes s') = {}"
proof -
  have w: "gw_lc rewritten_world = code_unit_compare" "gw_pg rewritten_world = no_guard"
    by (simp_all add: rewritten_world_def attributing_world_def gw_lc_def)
  have ledger: "ga_ledger before_rewrite = two_commits" and episodes: "ga_episodes before_rewrite = claimed_tracker"
    by (simp_all add: before_rewrite_def coordinator_with_def)
  obtain t where epochs: "listEpochs (gw_lc rewritten_world) (ga_observations before_rewrite) = (Inr [sample_epoch ''repo''], t)"
    using before_rewrite_steps(1) unfolding w by (metis prod.collapse)
  obtain st' where pend: "markRewritePending (gw_lc rewritten_world) (gw_pg rewritten_world) ''repo'' [''h1'']
      ''2026-07-02T00:00:00.000Z'' (ga_ledger before_rewrite) = Inr (1, st')"
    using before_rewrite_pending unfolding w ledger
    by (cases "markRewritePending code_unit_compare no_guard ''repo'' [''h1''] ''2026-07-02T00:00:00.000Z'' two_commits") auto
  obtain t' where reopen: "reopenSupersededCommit (gw_tracker rewritten_world) ''h1'' (ga_episodes before_rewrite) = (Inr (), t')"
    using before_rewrite_reopened(1) unfolding episodes
    by (cases "reopenSupersededCommit (gw_tracker rewritten_world) ''h1'' claimed_tracker";
        cases "fst (reopenSupersededCommit (gw_tracker rewritten_world) ''h1'' claimed_tracker)") auto
  have main: "''main'' \<noteq> []" by simp
  obtain s' where run: "markConfirmedRewrites rewritten_world ''repo'' (Some ''main'') ''2026-07-02T00:00:00.000Z'' before_rewrite = (Inr (), s')"
    using single_rewrite_runs [OF epochs main before_rewrite_steps(2) before_rewrite_steps(3) [folded w ledger] pend reopen] .
  have tracker: "keyed_tracker (ga_episodes before_rewrite)"
    by (simp add: episodes claimed_tracker_def keyed_tracker_def keyed_ledger_def keyed_memory_def sample_episode_def)
  note C = rewrites_pend_exactly [OF tracker epochs main before_rewrite_steps(2) run, unfolded ledger]
  let ?P = "\<lambda>a. al_repoKey a = ''repo'' \<and> rewritten_commit rewritten_world ''repo'' ''main'' ''h'' two_commits (al_commitHash a)
    \<and> al_status a = Al_active"
  obtain q where q: "lookup two_commits ''q1'' = Some q" using before_rewrite_facts(3) by auto
  have h1: "rewritten_commit rewritten_world ''repo'' ''main'' ''h'' two_commits ''h1''"
    unfolding rewritten_commit_def concerns_def using before_rewrite_facts(1, 5) q
    by (intro bexI [OF _ lookup_mem [OF q]]) (auto simp: list_ex_iff)
  have h2: "\<not> rewritten_commit rewritten_world ''repo'' ''main'' ''h'' two_commits ''h2''"
    by (simp add: rewritten_commit_def lost_claim_def rewritten_world_def)
  from C [of "''q1''", THEN conjunct1, unfolded q option.case] obtain q1 where
    q1: "lookup (ga_ledger s') ''q1'' = Some q1" and s1: "suspended ?P q q1" by blast
  have p1: "map al_status (qa_allocations q1) = [if True then Al_rewrite_pending else Al_active]"
    by (rule single_view [OF s1 before_rewrite_facts(1) [unfolded q option.sel]]) (simp add: h1)
  from before_rewrite_facts(4) obtain q' where q': "lookup two_commits ''q2'' = Some q'" by auto
  from C [of "''q2''", THEN conjunct1, unfolded q' option.case] obtain q2 where
    q2: "lookup (ga_ledger s') ''q2'' = Some q2" and s2: "suspended ?P q' q2" by blast
  have p2: "map al_status (qa_allocations q2) = [if False then Al_rewrite_pending else Al_active]"
    by (rule single_view [OF s2 before_rewrite_facts(2) [unfolded q' option.sel]]) (simp add: h2)
  have "claimed_episodes ''h1'' (ga_episodes s') = {}" by (rule C [THEN conjunct2, rule_format, OF h1])
  then show ?thesis using run q1 p1 q2 p2 before_rewrite_reopened(2) unfolding episodes
    by (intro exI [of _ s'] exI [of _ q1] exI [of _ q2] conjI) simp_all
qed

end
