(* ===== verification/RepositoryObservation.thy ===== *)
theory RepositoryObservation
  imports RepositoryObservationStore Diagnostics
begin

text \<open>
  The observer of repositories: src/src/attribution/repositoryObservation.ts, class
  \<open>DefaultRepositoryObservation\<close>. It polls git for the head, the references and the worktree of each
  repository, turns what changed into commit candidates, writes them with the cursor of the epoch
  to the store of \<open>RepositoryObservationStore\<close>, and tells its handlers. Repositories are named by
  their key. git (class \<open>GitCli\<close>, whose queries answer also when git fails, but for \<open>snapshot\<close>),
  the clock, the identifiers and whether the handlers succeed are parameters of the world; the
  poll timer is the delay it was set to.
\<close>

section \<open>The world\<close>

text \<open>Of what git returns, the fields that the observer reads.\<close>

datatype artifact_coverage = Complete_artifacts | Partial_artifacts

record git_artifact =
  gf_artifactKey :: string
  gf_previousArtifactKey :: "string option"
  gf_worktreeStateKey :: "string option"
  gf_indexStateKey :: "string option"
  gf_changeKind :: change_kind

record git_snapshot =
  gs_headCommit :: "string option"
  gs_branch :: "string option"
  gs_dirty :: bool
  gs_dirtyKnown :: bool
  gs_artifactCoverage :: artifact_coverage
  gs_capturedAt :: string
  gs_artifacts :: "git_artifact list"

record commit_diff =
  cd_commitMessage :: "string option"
  cd_parentHashes :: "string list"
  cd_capturedAt :: string
  cd_committedAt :: "string option"
  cd_artifactStates :: "artifact_state list"

record snapshot_observation =
  so_epochId :: string
  so_repoKey :: string
  so_headCommit :: "string option"
  so_refKey :: "string option"
  so_observedAt :: string
  so_observedSequence :: int
  so_dirty :: bool
  so_dirtyKnown :: bool
  so_artifactCoverage :: artifact_coverage
  so_artifactStates :: "artifact_state list"

record transition =
  tn_repoKey :: string
  tn_epochId :: string
  tn_refKey :: "string option"
  tn_previousRefKey :: "string option"
  tn_kind :: transition_kind
  tn_observedAt :: string

datatype repository_event =
  Snapshot_observed snapshot_observation | Candidate_observed commit_candidate | Transition_observed transition

type_synonym ref_heads = "(string, string) jsmap"

record observer_world =
  ow_lc :: collation
  ow_pg :: observation_guard
  ow_io :: bool
  ow_now :: int
  ow_uuid :: "string \<Rightarrow> string"
  ow_pollMs :: int
  ow_handles :: "repository_event \<Rightarrow> bool"
  ow_onSnapshot :: "snapshot_observation \<Rightarrow> bool"
  ow_repositories :: "string list"
  ow_skipped :: nat
  ow_currentHead :: "string \<Rightarrow> string option"
  ow_currentRefKey :: "string \<Rightarrow> string option"
  ow_listRefs :: "string \<Rightarrow> (string \<times> string) list"
  ow_isAncestor :: "string \<Rightarrow> string \<Rightarrow> string \<Rightarrow> bool"
  ow_commitsBetween :: "string \<Rightarrow> string \<Rightarrow> string \<Rightarrow> string list"
  ow_commitDiff :: "string \<Rightarrow> string \<Rightarrow> commit_diff option"
  ow_commitMessage :: "string \<Rightarrow> string \<Rightarrow> string option"
  ow_snapshot :: "string \<Rightarrow> git_snapshot option"

section \<open>State\<close>

datatype observer_error = Store_failed observation_error | Handler_failed | Snapshot_failed

datatype observer_event =
    Repo_discovery nat nat
  | Observer_skipped string
  | Observer_lifecycle "string option" string string string lifecycle_options
  | Scan_failed observer_error

text \<open>The signature of a snapshot is the JSON text of these values.\<close>

type_synonym snapshot_signature = "string option \<times> string option \<times> bool \<times> bool \<times> artifact_coverage
  \<times> (string \<times> string option \<times> string option \<times> string option \<times> change_kind) list"

record observer =
  ob_repositories :: "string list"
  ob_epochs :: "(string, attribution_epoch) jsmap"
  ob_snapshots :: "(string, snapshot_observation) jsmap"
  ob_signatures :: "(string, snapshot_signature) jsmap"
  ob_store :: observation_store
  ob_running :: bool
  ob_timer :: "int option"
  ob_activeUntil :: int
  ob_activePollMs :: "int option"
  ob_activeLogged :: bool
  ob_queued :: nat
  ob_queuedSince :: int
  ob_emitted :: "repository_event list"
  ob_log :: "observer_event list"

type_synonym 'a observer_action = "(observer, observer_error, 'a) action"

definition on_store :: "'a observation_action \<Rightarrow> 'a observer_action" where
  "on_store a s = (case a (ob_store s) of (r, t) \<Rightarrow> (map_sum Store_failed id r, s\<lparr>ob_store := t\<rparr>))"

definition log_event :: "observer_event \<Rightarrow> unit observer_action" where
  "log_event e = modifyA (\<lambda>s. s\<lparr>ob_log := ob_log s @ [e]\<rparr>)"

definition log_lifecycle :: "string \<Rightarrow> string \<Rightarrow> string \<Rightarrow> lifecycle_options \<Rightarrow> unit observer_action" where
  "log_lifecycle operation state reason options =
     log_event (Observer_lifecycle None operation state reason options)"

definition emit :: "observer_world \<Rightarrow> repository_event \<Rightarrow> unit observer_action" where
  "emit w e = bindA (modifyA (\<lambda>s. s\<lparr>ob_emitted := ob_emitted s @ [e]\<rparr>)) (\<lambda>_.
     if ow_handles w e then returnA () else throwA Handler_failed)"

text \<open>The epoch of a repository is one object, changed in place before it is written.\<close>

definition set_epoch :: "attribution_epoch \<Rightarrow> unit observer_action" where
  "set_epoch e = modifyA (\<lambda>s. s\<lparr>ob_epochs := map_set (ae_repoKey e) e (ob_epochs s)\<rparr>)"

definition advance :: "observer_world \<Rightarrow> attribution_epoch \<Rightarrow> commit_candidate list \<Rightarrow> unit observer_action" where
  "advance w e cs = bindA (set_epoch e) (\<lambda>_.
     on_store (persistCandidatesAndAdvance (ow_lc w) (ow_pg w) (ow_io w) e cs))"

definition write_epoch :: "observer_world \<Rightarrow> attribution_epoch \<Rightarrow> unit observer_action" where
  "write_epoch w e = bindA (set_epoch e) (\<lambda>_. on_store (upsertEpoch (ow_lc w) (ow_pg w) (ow_io w) e))"

section \<open>Epochs and references\<close>

definition refHeadMap :: "(string \<times> string) list \<Rightarrow> ref_heads" where
  "refHeadMap refs = foldl (\<lambda>m (k, h). map_set k h m) [] refs"

definition ref_delete :: "string \<Rightarrow> ref_heads \<Rightarrow> ref_heads" where
  "ref_delete k m = filter (\<lambda>(k', _). k' \<noteq> k) m"

definition sameRefHeads :: "ref_heads \<Rightarrow> ref_heads \<Rightarrow> bool" where
  "sameRefHeads a b \<longleftrightarrow> sort (map fst a) = sort (map fst b)
     \<and> list_all (\<lambda>k. map_get a k = map_get b k) (map fst a)"

definition createEpoch :: "observer_world \<Rightarrow> string \<Rightarrow> attribution_epoch" where
  "createEpoch w repo = \<lparr>ae_epochId = ow_uuid w repo, ae_repoKey = repo, ae_startedAt = iso_of_ms (ow_now w),
     ae_initialHead = ow_currentHead w repo, ae_cursorHead = ow_currentHead w repo,
     ae_cursorRefKey = ow_currentRefKey w repo, ae_refHeads = Some (refHeadMap (ow_listRefs w repo)),
     ae_nextSequence = 1, ae_status = Epoch_active\<rparr>"

definition snapshotSignature :: "git_snapshot \<Rightarrow> snapshot_signature" where
  "snapshotSignature g = (gs_headCommit g, gs_branch g, gs_dirty g, gs_dirtyKnown g, gs_artifactCoverage g,
     map (\<lambda>a. (gf_artifactKey a, gf_previousArtifactKey a, gf_worktreeStateKey a, gf_indexStateKey a,
       gf_changeKind a)) (gs_artifacts g))"

text \<open>\<open>epoch.nextSequence++\<close>\<close>

definition next_sequence :: "attribution_epoch \<Rightarrow> int" where
  "next_sequence e = \<lfloor>ae_nextSequence e\<rfloor>"

definition take_sequence :: "attribution_epoch \<Rightarrow> attribution_epoch" where
  "take_sequence e = e\<lparr>ae_nextSequence := ae_nextSequence e + 1\<rparr>"

definition candidate_of_commit :: "attribution_epoch \<Rightarrow> string option \<Rightarrow> transition_kind \<Rightarrow> string \<Rightarrow> string
    \<Rightarrow> commit_diff \<Rightarrow> commit_candidate" where
  "candidate_of_commit e ref kind reason commitHash d =
     \<lparr>cc_candidateId = ae_epochId e @ '':'' @ nullish ref ''detached'' @ '':'' @ commitHash,
      cc_epochId = ae_epochId e, cc_repoKey = ae_repoKey e, cc_commitHash = commitHash,
      cc_commitMessage = cd_commitMessage d, cc_parentHashes = cd_parentHashes d, cc_refKey = ref,
      cc_observedAt = cd_capturedAt d, cc_committedAt = cd_committedAt d,
      cc_observedSequence = next_sequence e,
      cc_artifactStates = map (\<lambda>a. a\<lparr>as_observedSequence := next_sequence e\<rparr>) (cd_artifactStates d),
      cc_transitionKind = kind, cc_decision = Pending_evidence, cc_reasonCodes = [reason]\<rparr>"

fun candidatesForCommits :: "observer_world \<Rightarrow> attribution_epoch \<Rightarrow> string option \<Rightarrow> transition_kind \<Rightarrow> string
    \<Rightarrow> string list \<Rightarrow> commit_candidate list \<times> attribution_epoch" where
  "candidatesForCommits w e ref kind reason [] = ([], e)"
| "candidatesForCommits w e ref kind reason (h # hs) =
     (case ow_commitDiff w (ae_repoKey e) h of
        None \<Rightarrow> candidatesForCommits w e ref kind reason hs
      | Some d \<Rightarrow>
          (case candidatesForCommits w (take_sequence e) ref kind reason hs of
             (cs, e') \<Rightarrow> (candidate_of_commit e ref kind reason h d # cs, e')))"

section \<open>Snapshots\<close>

definition snapshot_of :: "observer_world \<Rightarrow> attribution_epoch \<Rightarrow> git_snapshot \<Rightarrow> snapshot_observation" where
  "snapshot_of w e g =
     \<lparr>so_epochId = ae_epochId e, so_repoKey = ae_repoKey e, so_headCommit = gs_headCommit g,
      so_refKey = ow_currentRefKey w (ae_repoKey e), so_observedAt = gs_capturedAt g,
      so_observedSequence = next_sequence e, so_dirty = gs_dirty g, so_dirtyKnown = gs_dirtyKnown g,
      so_artifactCoverage = gs_artifactCoverage g,
      so_artifactStates = map (\<lambda>a. \<lparr>as_artifactKey = gf_artifactKey a,
        as_previousArtifactKey = gf_previousArtifactKey a, as_stateKey = None,
        as_worktreeStateKey = gf_worktreeStateKey a, as_indexStateKey = gf_indexStateKey a,
        as_changeKind = gf_changeKind a, as_observedSequence = next_sequence e\<rparr>) (gs_artifacts g)\<rparr>"

definition epoch_options :: "attribution_epoch \<Rightarrow> string option \<Rightarrow> (string \<times> detail) list option \<Rightarrow> lifecycle_options" where
  "epoch_options e commitHash details = \<lparr>lo_episodeId = None, lo_repoKey = Some (ae_repoKey e),
     lo_epochId = Some (ae_epochId e), lo_commitHash = commitHash, lo_details = details\<rparr>"

definition snapshot_details :: "snapshot_observation \<Rightarrow> (string \<times> detail) list" where
  "snapshot_details o' =
     [(''observedSequence'', D_num (so_observedSequence o')), (''dirty'', D_bool (so_dirty o')),
      (''dirtyKnown'', D_bool (so_dirtyKnown o')),
      (''artifactCoverage'', D_text (case so_artifactCoverage o' of
         Complete_artifacts \<Rightarrow> ''complete'' | Partial_artifacts \<Rightarrow> ''partial'')),
      (''artifactCount'', num (length (so_artifactStates o'))), (''refKey'', opt_detail (so_refKey o'))]"

definition record_snapshot :: "observer_world \<Rightarrow> attribution_epoch \<Rightarrow> bool \<Rightarrow> git_snapshot \<Rightarrow> unit observer_action" where
  "record_snapshot w e force g =
     (let observation = snapshot_of w e g; repo = ae_repoKey e
      in bindA (set_epoch (take_sequence e)) (\<lambda>_.
         bindA (modifyA (\<lambda>s. s\<lparr>ob_signatures := map_set repo (snapshotSignature g) (ob_signatures s),
           ob_snapshots := map_set repo observation (ob_snapshots s)\<rparr>)) (\<lambda>_.
         bindA (on_store (upsertEpoch (ow_lc w) (ow_pg w) (ow_io w) (take_sequence e))) (\<lambda>_.
         bindA (if ow_onSnapshot w observation then returnA () else throwA Handler_failed) (\<lambda>_.
         bindA (emit w (Snapshot_observed observation)) (\<lambda>_.
         log_lifecycle ''snapshot'' ''recorded''
           (if force then ''repository_snapshot_recorded_forced'' else ''repository_snapshot_recorded'')
           (epoch_options e (so_headCommit observation) (Some (snapshot_details observation)))))))))"

definition take_snapshot :: "observer_world \<Rightarrow> attribution_epoch \<Rightarrow> bool \<Rightarrow> unit observer_action" where
  "take_snapshot w e force =
     (case ow_snapshot w (ae_repoKey e) of
        None \<Rightarrow> throwA Snapshot_failed
      | Some g \<Rightarrow> bindA (getsA (\<lambda>s. map_get (ob_signatures s) (ae_repoKey e))) (\<lambda>signature.
          if \<not> force \<and> signature = Some (snapshotSignature g) then returnA ()
          else record_snapshot w e force g))"

definition observeSnapshot :: "observer_world \<Rightarrow> attribution_epoch \<Rightarrow> bool \<Rightarrow> unit observer_action" where
  "observeSnapshot w e force s =
     (case take_snapshot w e force s of
        (Inr u, s') \<Rightarrow> (Inr u, s')
      | (Inl _, s') \<Rightarrow>
          bindA (log_event (Observer_lifecycle (Some ''warning'') ''snapshot'' ''failed'' ''repository_snapshot_failed''
            (epoch_options e None None)))
            (\<lambda>_. log_event (Observer_skipped ''repository_snapshot_failed'')) s')"

section \<open>References that are not checked out\<close>

definition transition_of :: "observer_world \<Rightarrow> attribution_epoch \<Rightarrow> string option \<Rightarrow> string option
    \<Rightarrow> transition_kind \<Rightarrow> repository_event" where
  "transition_of w e ref previousRef kind = Transition_observed
     \<lparr>tn_repoKey = ae_repoKey e, tn_epochId = ae_epochId e, tn_refKey = ref, tn_previousRefKey = previousRef,
      tn_kind = kind, tn_observedAt = iso_of_ms (ow_now w)\<rparr>"

fun transition_str :: "transition_kind \<Rightarrow> string" where
  "transition_str Fast_forward = ''fast_forward''"
| "transition_str Branch_switch = ''branch_switch''"
| "transition_str Non_fast_forward_ref_update = ''non_fast_forward_ref_update''"
| "transition_str Detached_head_change = ''detached_head_change''"
| "transition_str Ref_deleted = ''ref_deleted''"
| "transition_str Unknown_transition = ''unknown''"

definition emit_candidate :: "observer_world \<Rightarrow> commit_candidate \<Rightarrow> unit observer_action" where
  "emit_candidate w c = bindA (emit w (Candidate_observed c)) (\<lambda>_.
     log_lifecycle ''commit_candidate'' ''observed'' ''commit_candidate_observed''
       \<lparr>lo_episodeId = None, lo_repoKey = Some (cc_repoKey c), lo_epochId = Some (cc_epochId c),
        lo_commitHash = Some (cc_commitHash c), lo_details = Some
         [(''observedSequence'', D_num (cc_observedSequence c)),
          (''transitionKind'', D_text (transition_str (cc_transitionKind c))),
          (''refKey'', opt_detail (cc_refKey c))]\<rparr>)"

definition ref_change :: "observer_world \<Rightarrow> attribution_epoch \<Rightarrow> string \<Rightarrow> transition_kind \<Rightarrow> commit_candidate list
    \<Rightarrow> string \<Rightarrow> string option \<Rightarrow> (string \<times> detail) list \<Rightarrow> unit observer_action" where
  "ref_change w e refKey kind cs reason commitHash details =
     bindA (advance w e cs) (\<lambda>_.
     bindA (emit w (transition_of w e (Some refKey) None kind)) (\<lambda>_.
     bindA (log_lifecycle ''ref_transition'' (transition_str kind) reason
       (epoch_options e commitHash (Some details))) (\<lambda>_.
     forA (emit_candidate w) cs)))"

definition ref_kind :: "observer_world \<Rightarrow> string \<Rightarrow> string \<Rightarrow> string \<Rightarrow> transition_kind" where
  "ref_kind w repo before after =
     (if ow_isAncestor w repo before after then Fast_forward else Non_fast_forward_ref_update)"

definition commits_of :: "observer_world \<Rightarrow> string \<Rightarrow> transition_kind \<Rightarrow> string \<Rightarrow> string \<Rightarrow> string list" where
  "commits_of w repo kind before after =
     (if kind = Fast_forward then ow_commitsBetween w repo before after else [after])"

definition scan_ref :: "observer_world \<Rightarrow> string option \<Rightarrow> ref_heads \<Rightarrow> string
    \<Rightarrow> attribution_epoch \<times> ref_heads \<Rightarrow> (attribution_epoch \<times> ref_heads) observer_action" where
  "scan_ref w skipRefKey current refKey = (\<lambda>(e, previous).
     let previousHead = map_get previous refKey; currentHead = map_get current refKey
     in if previousHead = currentHead \<or> Some refKey = skipRefKey then returnA (e, previous)
        else if \<not> truthy currentHead
        then let previous' = ref_delete refKey previous; e' = e\<lparr>ae_refHeads := Some previous'\<rparr>
             in bindA (ref_change w e' refKey Ref_deleted [] ''ref_transition_observed'' None
                  [(''refKey'', D_text refKey)]) (\<lambda>_. returnA (e', previous'))
        else let head = the currentHead; previous' = map_set refKey head previous
             in if \<not> truthy previousHead
                then let e' = e\<lparr>ae_refHeads := Some previous'\<rparr>
                     in bindA (ref_change w e' refKey Unknown_transition [] ''ref_transition_observed''
                          (Some head) [(''refKey'', D_text refKey)]) (\<lambda>_. returnA (e', previous'))
                else let kind = ref_kind w (ae_repoKey e) (the previousHead) head;
                         hashes = commits_of w (ae_repoKey e) kind (the previousHead) head
                     in case candidatesForCommits w e (Some refKey) kind ''ref_commit_observed_after_epoch'' hashes of
                          (cs, e1) \<Rightarrow> let e' = e1\<lparr>ae_refHeads := Some previous'\<rparr>
                            in bindA (ref_change w e' refKey kind cs ''background_ref_transition_observed''
                                 (Some head) [(''candidateCount'', num (length cs)), (''refKey'', D_text refKey)])
                                 (\<lambda>_. returnA (e', previous')))"

definition reconciled_refs :: "string option \<Rightarrow> ref_heads \<Rightarrow> ref_heads \<Rightarrow> ref_heads" where
  "reconciled_refs skipRefKey previous current =
     (if \<not> truthy skipRefKey then current
      else let skip = the skipRefKey
           in if truthy (map_get previous skip) then map_set skip (the (map_get previous skip)) current
              else ref_delete skip current)"

definition scanRefTransitions :: "observer_world \<Rightarrow> attribution_epoch \<Rightarrow> string option
    \<Rightarrow> attribution_epoch observer_action" where
  "scanRefTransitions w e skipRefKey =
     (let previous = nullish (ae_refHeads e) []; current = refHeadMap (ow_listRefs w (ae_repoKey e))
      in bindA (foldA (scan_ref w skipRefKey current) (dedup (map fst previous @ map fst current)) (e, previous))
           (\<lambda>(e, previous).
         let reconciled = reconciled_refs skipRefKey previous current
         in if sameRefHeads (nullish (ae_refHeads e) []) reconciled then returnA e
            else let e' = e\<lparr>ae_refHeads := Some reconciled\<rparr>
                 in bindA (write_epoch w e') (\<lambda>_. returnA e')))"

section \<open>The checked-out reference\<close>

definition classifyTransition :: "observer_world \<Rightarrow> attribution_epoch \<Rightarrow> string \<Rightarrow> string option \<Rightarrow> transition_kind" where
  "classifyTransition w e head ref =
     (if ae_cursorRefKey e \<noteq> ref
      then if truthy (ae_cursorRefKey e) \<and> truthy ref then Branch_switch else Detached_head_change
      else ref_kind w (ae_repoKey e) (the (ae_cursorHead e)) head)"

text \<open>The kind that the candidates get, and their commits.\<close>

definition candidate_commits :: "observer_world \<Rightarrow> attribution_epoch \<Rightarrow> string \<Rightarrow> string option
    \<Rightarrow> transition_kind \<Rightarrow> transition_kind \<times> string list" where
  "candidate_commits w e head ref kind =
     (let repo = ae_repoKey e; cursor = the (ae_cursorHead e);
          checkedOut = (if truthy ref then map_get (nullish (ae_refHeads e) []) (the ref) else None);
          candidateKind = (if kind = Branch_switch \<and> truthy checkedOut \<and> checkedOut \<noteq> Some head
            then ref_kind w repo (the checkedOut) head else kind);
          base = (if kind = Branch_switch then checkedOut else ae_cursorHead e);
          hashes = (if candidateKind = Fast_forward \<and> truthy base
            then ow_commitsBetween w repo (the base) head
            else if candidateKind = Non_fast_forward_ref_update then [head] else [])
      in if hashes = [] \<and> cursor \<noteq> head
         then (ref_kind w repo cursor head, commits_of w repo (ref_kind w repo cursor head) cursor head)
         else (candidateKind, hashes))"

definition moved_to :: "string \<Rightarrow> string option \<Rightarrow> attribution_epoch \<Rightarrow> attribution_epoch" where
  "moved_to head ref e = e\<lparr>ae_cursorHead := Some head, ae_cursorRefKey := ref,
     ae_refHeads := (if truthy ref then Some (map_set (the ref) head (nullish (ae_refHeads e) []))
       else ae_refHeads e)\<rparr>"

definition scan_rest :: "observer_world \<Rightarrow> attribution_epoch \<Rightarrow> unit observer_action" where
  "scan_rest w e = bindA (scanRefTransitions w e (ow_currentRefKey w (ae_repoKey e)))
     (\<lambda>e. observeSnapshot w e False)"

definition scan_root :: "observer_world \<Rightarrow> attribution_epoch \<Rightarrow> string \<Rightarrow> string option \<Rightarrow> unit observer_action" where
  "scan_root w e head ref =
     (case candidatesForCommits w e ref Fast_forward ''root_commit_observed_after_epoch'' [head] of (cs, e1) \<Rightarrow>
        let e' = moved_to head ref e1
        in bindA (advance w e' cs) (\<lambda>_.
           bindA (emit w (transition_of w e' ref (ae_cursorRefKey e) Fast_forward)) (\<lambda>_.
           bindA (forA (\<lambda>c. emit w (Candidate_observed c)) cs) (\<lambda>_. scan_rest w e'))))"

definition scan_moved :: "observer_world \<Rightarrow> attribution_epoch \<Rightarrow> string \<Rightarrow> string option \<Rightarrow> unit observer_action" where
  "scan_moved w e head ref =
     (let kind = classifyTransition w e head ref
      in case candidate_commits w e head ref kind of (candidateKind, hashes) \<Rightarrow>
         case candidatesForCommits w e ref candidateKind ''commit_observed_after_epoch'' hashes of (cs, e1) \<Rightarrow>
           let e' = moved_to head ref e1
           in bindA (advance w e' cs) (\<lambda>_.
              bindA (emit w (transition_of w e' ref (ae_cursorRefKey e) kind)) (\<lambda>_.
              bindA (log_lifecycle ''ref_transition'' (transition_str kind) ''checked_out_ref_transition_observed''
                (epoch_options e (Some head) (Some [(''candidateCount'', num (length cs)),
                  (''refKey'', opt_detail ref), (''previousRefKey'', opt_detail (ae_cursorRefKey e))]))) (\<lambda>_.
              bindA (forA (emit_candidate w) cs) (\<lambda>_. scan_rest w e')))))"

definition scan_reset :: "observer_world \<Rightarrow> string \<Rightarrow> unit observer_action" where
  "scan_reset w repo = bindA (write_epoch w (createEpoch w repo)) (\<lambda>_.
     observeSnapshot w (createEpoch w repo) True)"

definition scan_step :: "observer_world \<Rightarrow> string \<Rightarrow> attribution_epoch \<Rightarrow> unit observer_action" where
  "scan_step w repo e =
     (let head = ow_currentHead w repo; ref = ow_currentRefKey w repo
      in if \<not> truthy head then scan_rest w e
         else if \<not> truthy (ae_cursorHead e)
         then if \<not> truthy (ae_initialHead e) then scan_root w e (the head) ref else scan_reset w repo
         else if ae_cursorHead e \<noteq> head \<or> ae_cursorRefKey e \<noteq> ref then scan_moved w e (the head) ref
         else scan_rest w e)"

definition scanRepo :: "observer_world \<Rightarrow> string \<Rightarrow> unit observer_action" where
  "scanRepo w repo = bindA (getsA (\<lambda>s. map_get (ob_epochs s) repo)) (\<lambda>epoch.
     case epoch of None \<Rightarrow> returnA () | Some e \<Rightarrow> scan_step w repo e)"

section \<open>Scans\<close>

definition observer_lifecycle :: "string \<Rightarrow> string \<Rightarrow> string \<Rightarrow> (string \<times> detail) list option \<Rightarrow> unit observer_action" where
  "observer_lifecycle operation state reason details =
     log_lifecycle operation state reason (no_options\<lparr>lo_details := details\<rparr>)"

text \<open>A request for a scan while one runs, at the time \<open>t\<close>.\<close>

definition queue_scan :: "int \<Rightarrow> unit observer_action" where
  "queue_scan t = bindA (modifyA (\<lambda>s. s\<lparr>ob_queued := ob_queued s + 1,
       ob_queuedSince := (if ob_queuedSince s = 0 then t else ob_queuedSince s)\<rparr>)) (\<lambda>_.
     bindA (getsA ob_queued) (\<lambda>n.
     if n = 1 then observer_lifecycle ''scan'' ''queued'' ''repository_scan_queued_while_inflight''
       (Some [(''queuedRequestCount'', num n)])
     else returnA ()))"

definition drain_requests :: "observer_world \<Rightarrow> unit observer_action" where
  "drain_requests w = bindA (getsA (\<lambda>s. (ob_queued s, ob_queuedSince s))) (\<lambda>(count, since).
     bindA (modifyA (\<lambda>s. s\<lparr>ob_queued := 0, ob_queuedSince := 0\<rparr>)) (\<lambda>_.
     if count > 0 then observer_lifecycle ''scan'' ''requeued'' ''repository_scan_draining_queued_requests''
       (Some [(''queuedRequestCount'', num count),
         (''queuedDwellMs'', D_num (if since = 0 then 0 else max 0 (ow_now w - since)))])
     else returnA ()))"

text \<open>
  One turn of the loop of \<open>scanOnce\<close>. \<open>ts\<close> are the requests that come while it runs, which the
  loop reads only at its end.
\<close>

definition scan_round :: "observer_world \<Rightarrow> int list \<Rightarrow> unit observer_action" where
  "scan_round w ts = bindA (drain_requests w) (\<lambda>_. bindA (forA queue_scan ts) (\<lambda>_.
     bindA (getsA ob_repositories) (forA (scanRepo w))))"

fun scanOnce :: "observer_world \<Rightarrow> int list list \<Rightarrow> unit observer_action" where
  "scanOnce w [] = scan_round w []"
| "scanOnce w (ts # rounds) = bindA (scan_round w ts) (\<lambda>_. bindA (getsA ob_queued) (\<lambda>n.
     if n > 0 then scanOnce w rounds else returnA ()))"

section \<open>The timer\<close>

definition expire_window :: "observer_world \<Rightarrow> unit observer_action" where
  "expire_window w = bindA (getsA (\<lambda>s. (ob_activeUntil s, ob_activeLogged s))) (\<lambda>(until, logged).
     whenA (until \<le> ow_now w) (bindA
       (whenA logged (observer_lifecycle ''active_window'' ''expired'' ''active_observation_window_expired'' None))
       (\<lambda>_. modifyA (\<lambda>s. s\<lparr>ob_activeUntil := 0, ob_activePollMs := None, ob_activeLogged := False\<rparr>))))"

definition next_delay :: "observer_world \<Rightarrow> observer \<Rightarrow> int" where
  "next_delay w s = (if ob_activeUntil s > ow_now w
     then max 10 (min (ow_pollMs w) (case ob_activePollMs s of None \<Rightarrow> ow_pollMs w | Some p \<Rightarrow> p))
     else ow_pollMs w)"

definition scheduleNext :: "observer_world \<Rightarrow> unit observer_action" where
  "scheduleNext w = bindA (getsA ob_running) (\<lambda>running. whenA running
     (bindA (expire_window w) (\<lambda>_. modifyA (\<lambda>s. s\<lparr>ob_timer := Some (next_delay w s)\<rparr>))))"

definition caught :: "(observer_error \<Rightarrow> unit observer_action) \<Rightarrow> unit observer_action \<Rightarrow> unit observer_action" where
  "caught h m s = (case m s of (Inl e, s') \<Rightarrow> h e s' | (Inr u, s') \<Rightarrow> (Inr u, s'))"

text \<open>The timer goes off: it is not armed any more, and is armed again after the scan.\<close>

definition timer_fires :: "observer_world \<Rightarrow> int list list \<Rightarrow> unit observer_action" where
  "timer_fires w rounds = bindA (modifyA (\<lambda>s. s\<lparr>ob_timer := None\<rparr>)) (\<lambda>_.
     bindA (caught (\<lambda>e. log_event (Scan_failed e)) (scanOnce w rounds)) (\<lambda>_. scheduleNext w))"

definition reschedule :: "observer_world \<Rightarrow> bool \<Rightarrow> int list list \<Rightarrow> unit observer_action" where
  "reschedule w scanNow rounds = bindA (getsA ob_running) (\<lambda>running. whenA running
     (if scanNow then timer_fires w rounds
      else bindA (modifyA (\<lambda>s. s\<lparr>ob_timer := None\<rparr>)) (\<lambda>_. scheduleNext w)))"

definition requestActiveObservationWindow :: "observer_world \<Rightarrow> int \<Rightarrow> int option \<Rightarrow> unit observer_action" where
  "requestActiveObservationWindow w durationMs pollMs =
     (let poll = nullish pollMs (min (ow_pollMs w) 250)
      in whenA (durationMs > 0)
        (bindA (modifyA (\<lambda>s. s\<lparr>ob_activeUntil := max (ob_activeUntil s) (ow_now w + durationMs),
           ob_activePollMs := Some (case ob_activePollMs s of None \<Rightarrow> poll | Some p \<Rightarrow> min p poll),
           ob_activeLogged := True\<rparr>)) (\<lambda>_.
         bindA (getsA ob_activeUntil) (\<lambda>until.
         bindA (observer_lifecycle ''active_window'' ''requested'' ''active_observation_window_requested''
           (Some [(''durationMs'', D_num durationMs), (''pollMs'', D_num poll), (''activeUntilMs'', D_num until)]))
           (\<lambda>_. reschedule w False [])))))"

section \<open>Start, stop and the other operations\<close>

text \<open>The epoch of a repository at the start: the stored one, or a new one.\<close>

definition boot_epoch :: "observer_world \<Rightarrow> attribution_epoch option \<Rightarrow> string \<Rightarrow> attribution_epoch option \<times> attribution_epoch" where
  "boot_epoch w storedExisting repo =
     (let existing = (case storedExisting of None \<Rightarrow> None
            | Some e \<Rightarrow> if ae_refHeads e \<noteq> None then Some e else None);
          cursor = Option.bind existing ae_cursorHead;
          validEmpty = (case existing of None \<Rightarrow> False
            | Some e \<Rightarrow> \<not> truthy (ae_initialHead e) \<and> \<not> truthy (ae_cursorHead e))
      in (existing, if truthy cursor \<or> validEmpty \<or> \<not> truthy (ow_currentHead w repo)
            then nullish existing (createEpoch w repo) else createEpoch w repo))"

definition boot_repo :: "observer_world \<Rightarrow> bool \<Rightarrow> (string, attribution_epoch) jsmap \<Rightarrow> string \<Rightarrow> unit observer_action" where
  "boot_repo w recovered storedEpochs repo =
     (let storedExisting = (if recovered then None else map_get storedEpochs repo)
      in case boot_epoch w storedExisting repo of (existing, e) \<Rightarrow>
        bindA (whenA (\<forall>x \<in> set_option existing. ae_epochId e \<noteq> ae_epochId x)
          (bindA (on_store (upsertEpoch (ow_lc w) (ow_pg w) (ow_io w) e)) (\<lambda>_.
           log_event (Observer_skipped (if storedExisting \<noteq> None then ''repository_epoch_reset_missing_cursor''
             else ''repository_epoch_created''))))) (\<lambda>_.
        bindA (set_epoch e) (\<lambda>_. observeSnapshot w e True)))"

text \<open>
  \<open>start\<close>. A failed step leaves the observer running. With \<open>deferInitialScan\<close> the scan runs after
  \<open>start\<close> returned: it is the last step here.
\<close>

definition observer_boot :: "observer_world \<Rightarrow> unit observer_action" where
  "observer_boot w = bindA (on_store (observation_initialize (ow_lc w))) (\<lambda>(es, cs, recovered).
     bindA (modifyA (\<lambda>s. s\<lparr>ob_repositories := ow_repositories w\<rparr>)) (\<lambda>_.
     bindA (log_event (Repo_discovery (length (ow_repositories w)) (ow_skipped w))) (\<lambda>_.
     bindA (observer_lifecycle ''observer'' ''started'' ''repository_observer_started''
       (Some [(''repoCount'', num (length (ow_repositories w))), (''skippedCount'', num (ow_skipped w)),
         (''pollMs'', D_num (ow_pollMs w))])) (\<lambda>_.
     bindA (whenA recovered (log_event (Observer_skipped ''repository_observation_corrupt_new_epoch''))) (\<lambda>_.
     forA (boot_repo w recovered (map_from ae_repoKey (filter (\<lambda>e. ae_status e = Epoch_active) es)))
       (ow_repositories w))))))"

definition initial_scan :: "observer_world \<Rightarrow> bool \<Rightarrow> int list list \<Rightarrow> unit observer_action" where
  "initial_scan w deferInitialScan rounds = bindA
     (if deferInitialScan
      then caught (\<lambda>_. observer_lifecycle ''scan'' ''failed'' ''repository_initial_scan_failed'' None)
        (scanOnce w rounds)
      else scanOnce w rounds) (\<lambda>_. scheduleNext w)"

definition observer_start :: "observer_world \<Rightarrow> bool \<Rightarrow> int list list \<Rightarrow> unit observer_action" where
  "observer_start w deferInitialScan rounds = bindA (getsA ob_running) (\<lambda>running.
     if running then returnA ()
     else bindA (modifyA (\<lambda>s. s\<lparr>ob_running := True\<rparr>)) (\<lambda>_.
       bindA (observer_boot w) (\<lambda>_. initial_scan w deferInitialScan rounds)))"

definition observer_stop :: "unit observer_action" where
  "observer_stop = modifyA (\<lambda>s. s\<lparr>ob_running := False, ob_timer := None\<rparr>)"

definition observer_refresh :: "observer_world \<Rightarrow> int list list \<Rightarrow> unit observer_action" where
  "observer_refresh w rounds = bindA (getsA ob_running) (\<lambda>running. whenA running (scanOnce w rounds))"

definition observer_clear :: "observer_world \<Rightarrow> unit observer_action" where
  "observer_clear w = bindA (on_store (observation_clear (ow_lc w) (ow_pg w) (ow_io w))) (\<lambda>_.
     modifyA (\<lambda>s. s\<lparr>ob_epochs := [], ob_snapshots := [], ob_signatures := []\<rparr>))"

definition observer_reset :: "observer_world \<Rightarrow> int list list \<Rightarrow> unit observer_action" where
  "observer_reset w rounds = bindA (getsA ob_running) (\<lambda>restart.
     bindA observer_stop (\<lambda>_. bindA (observer_clear w) (\<lambda>_.
     whenA restart (observer_start w False rounds))))"

definition currentSnapshots :: "snapshot_observation list observer_action" where
  "currentSnapshots = getsA (\<lambda>s. map_values (ob_snapshots s))"

definition observer_updateCandidate :: "observer_world \<Rightarrow> commit_candidate \<Rightarrow> unit observer_action" where
  "observer_updateCandidate w c = on_store (updateCandidate (ow_lc w) (ow_pg w) (ow_io w) c)"

definition observer_applyRetention :: "observer_world \<Rightarrow> nat observer_action" where
  "observer_applyRetention w = on_store (applyCandidateRetention (ow_lc w) (ow_pg w) (ow_io w)
     (iso_of_ms (ow_now w - 24 * 60 * 60 * 1000)))"

definition observer_isAncestor :: "observer_world \<Rightarrow> string \<Rightarrow> string \<Rightarrow> string \<Rightarrow> bool observer_action" where
  "observer_isAncestor w repo ancestor descendant =
     getsA (\<lambda>s. repo \<in> set (ob_repositories s) \<and> ow_isAncestor w repo ancestor descendant)"

definition resolveCommitMessage :: "observer_world \<Rightarrow> string \<Rightarrow> string \<Rightarrow> string option observer_action" where
  "resolveCommitMessage w repo commitHash =
     getsA (\<lambda>s. if repo \<in> set (ob_repositories s) then ow_commitMessage w repo commitHash else None)"

end
