(* ===== verification/ActionLogic.thy ===== *)
theory ActionLogic
  imports DurableStore
begin

text \<open>
  Total triples for actions: \<open>after P m Q E\<close> says that \<open>m\<close>, run in a state with \<open>P\<close>, ends with \<open>Q\<close>
  of its result and its last state, or with an error in a state with \<open>E\<close>.
\<close>

definition after :: "('s \<Rightarrow> bool) \<Rightarrow> ('s, 'e, 'a) action \<Rightarrow> ('a \<Rightarrow> 's \<Rightarrow> bool) \<Rightarrow> ('s \<Rightarrow> bool) \<Rightarrow> bool" where
  "after P m Q E \<longleftrightarrow> (\<forall>s. P s \<longrightarrow> (case m s of (Inl e, s') \<Rightarrow> E s' | (Inr x, s') \<Rightarrow> Q x s'))"

named_theorems after_rules "triples of actions"

lemma afterI:
  assumes "\<And>s e s'. P s \<Longrightarrow> m s = (Inl e, s') \<Longrightarrow> E s'" "\<And>s x s'. P s \<Longrightarrow> m s = (Inr x, s') \<Longrightarrow> Q x s'"
  shows "after P m Q E"
  unfolding after_def by (auto split: prod.splits sum.splits intro: assms)

lemma after_result: "after P m Q E \<Longrightarrow> P s \<Longrightarrow> m s = (Inr x, s') \<Longrightarrow> Q x s'"
  by (drule after_def [THEN iffD1, rule_format, of P m Q E s]) simp_all

lemma after_error: "after P m Q E \<Longrightarrow> P s \<Longrightarrow> m s = (Inl e, s') \<Longrightarrow> E s'"
  by (drule after_def [THEN iffD1, rule_format, of P m Q E s]) simp_all

lemma after_both: "after P m (\<lambda>_. Q) Q \<Longrightarrow> P s \<Longrightarrow> m s = (r, s') \<Longrightarrow> Q s'"
  by (cases r) (auto dest: after_result after_error)

lemma after_pre: "after P m Q E \<Longrightarrow> (\<And>s. P' s \<Longrightarrow> P s) \<Longrightarrow> after P' m Q E"
  by (simp add: after_def)

lemma after_post: "after P m Q E \<Longrightarrow> (\<And>x s. Q x s \<Longrightarrow> Q' x s) \<Longrightarrow> after P m Q' E"
  by (fastforce simp: after_def split: prod.splits sum.splits)

lemma after_weaken:
  assumes "after P m Q E" "\<And>x s. Q x s \<Longrightarrow> Q' x s" "\<And>s. E s \<Longrightarrow> E' s"
  shows "after P m Q' E'"
  by (rule afterI) (auto intro: assms(2, 3) dest: after_result [OF assms(1)] after_error [OF assms(1)])

lemma after_bind [after_rules]:
  assumes "after P m Q E" "\<And>x. after (Q x) (f x) R E"
  shows "after P (bindA m f) R E"
  by (rule afterI) (auto simp: bindA_Inl bindA_Inr intro: after_error [OF assms(1)] after_error [OF assms(2)]
      after_result [OF assms(2)] dest: after_result [OF assms(1)])

lemma after_return [after_rules]: "(\<And>s. P s \<Longrightarrow> Q x s) \<Longrightarrow> after P (returnA x) Q E"
  by (simp add: after_def)

lemma after_throw [after_rules]: "(\<And>s. P s \<Longrightarrow> E s) \<Longrightarrow> after P (throwA e) Q E"
  by (simp add: after_def)

lemma after_gets [after_rules]: "after P (getsA f) (\<lambda>x s. x = f s \<and> P s) E"
  by (simp add: after_def)

lemma after_modify [after_rules]: "(\<And>s. P s \<Longrightarrow> Q () (f s)) \<Longrightarrow> after P (modifyA f) Q E"
  by (simp add: after_def)

lemma after_if [after_rules]:
  "(b \<Longrightarrow> after P m Q E) \<Longrightarrow> (\<not> b \<Longrightarrow> after P m' Q E) \<Longrightarrow> after P (if b then m else m') Q E"
  by simp

lemma after_when [after_rules]:
  "(b \<Longrightarrow> after P m Q E) \<Longrightarrow> (\<And>s. \<not> b \<Longrightarrow> P s \<Longrightarrow> Q () s) \<Longrightarrow> after P (whenA b m) Q E"
  by (simp add: whenA_def after_return)

lemma after_fact: "(\<And>s. P s \<Longrightarrow> b) \<Longrightarrow> (b \<Longrightarrow> after P m Q E) \<Longrightarrow> after P m Q E"
  by (simp add: after_def)

text \<open>The invariants of loops speak of the elements that are left.\<close>

lemma after_for:
  assumes "\<And>x ys. x \<in> set xs \<Longrightarrow> after (I (x # ys)) (f x) (\<lambda>_. I ys) E"
  shows "after (I xs) (forA f xs) (\<lambda>_. I []) E"
  using assms
proof (induction xs)
  case (Cons x xs)
  from Cons.prems [of x] have "after (I (x # xs)) (f x) (\<lambda>_. I xs) E" by simp
  then show ?case using Cons by (auto intro: after_bind)
qed (simp add: after_return)

lemma after_fold:
  assumes "\<And>x y. x \<in> set xs \<Longrightarrow> after (I y) (f x y) I E"
  shows "after (I y) (foldA f xs y) I E"
  using assms by (induction xs arbitrary: y) (auto intro: after_bind after_return)

lemma after_keeps: "keeps P m \<longleftrightarrow> after P m (\<lambda>_. P) P"
  by (auto simp: keeps_def after_def split_beta split: sum.splits)

end
