(* ===== verification/RepositoryObservationProperties.thy ===== *)
theory RepositoryObservationProperties
  imports RepositoryObservation ActionLogic
begin

text \<open>
  What the observer of repositories promises: the numbers it gives to what it observes are never
  given twice, a repository that does not change is not reported again, and what happens to a
  commit that the store refuses.
\<close>

section \<open>The numbers of what was observed\<close>

fun sequence_of :: "repository_event \<Rightarrow> ((string \<times> string) \<times> int) option" where
  "sequence_of (Candidate_observed c) = Some ((cc_repoKey c, cc_epochId c), cc_observedSequence c)"
| "sequence_of (Snapshot_observed v) = Some ((so_repoKey v, so_epochId v), so_observedSequence v)"
| "sequence_of (Transition_observed t) = None"

text \<open>The numbers given to the observations of an epoch, in the order in which they were reported.\<close>

definition sequences :: "string \<times> string \<Rightarrow> repository_event list \<Rightarrow> int list" where
  "sequences k es = map snd (filter (\<lambda>p. fst p = k) (List.map_filter sequence_of es))"

definition numbers :: "attribution_epoch \<Rightarrow> observer \<Rightarrow> int list" where
  "numbers e s = sequences (ae_repoKey e, ae_epochId e) (ob_emitted s)"

definition below :: "attribution_epoch \<Rightarrow> observer \<Rightarrow> bool" where
  "below e s \<longleftrightarrow> (\<forall>n \<in> set (numbers e s). n < next_sequence e)"

text \<open>The epochs of the store, which loads its file when it is first used.\<close>

definition stored_epochs :: "collation \<Rightarrow> observation_store \<Rightarrow> (string, attribution_epoch) jsmap" where
  "stored_epochs lc t = om_epochs (du_memory (snd (observation_ensureLoaded lc t)))"

definition numbered :: "collation \<Rightarrow> observer \<Rightarrow> bool" where
  "numbered lc s \<longleftrightarrow> (\<forall>k. sorted_wrt (<) (sequences k (ob_emitted s)))
     \<and> (\<forall>repo e. map_get (ob_epochs s) repo = Some e \<longrightarrow> ae_repoKey e = repo \<and> below e s)
     \<and> keyed_normal ae_repoKey id (stored_epochs lc (ob_store s))
     \<and> (\<forall>e \<in> set (map_values (stored_epochs lc (ob_store s))). below e s)"

definition holding :: "collation \<Rightarrow> attribution_epoch \<Rightarrow> observer \<Rightarrow> bool" where
  "holding lc e s \<longleftrightarrow> numbered lc s \<and> map_get (ob_epochs s) (ae_repoKey e) = Some e"

text \<open>The numbers from \<open>lo\<close> on are free, and those below the next one of \<open>e\<close> are taken from the store.\<close>

definition free_from :: "attribution_epoch \<Rightarrow> int \<Rightarrow> observer \<Rightarrow> bool" where
  "free_from e lo s \<longleftrightarrow> (\<forall>n \<in> set (numbers e s). n < lo)"

definition room :: "collation \<Rightarrow> attribution_epoch \<Rightarrow> int \<Rightarrow> observer \<Rightarrow> bool" where
  "room lc e lo s \<longleftrightarrow> holding lc e s \<and> free_from e lo s
     \<and> (\<exists>x. map_get (stored_epochs lc (ob_store s)) (ae_repoKey e) = Some x
          \<and> ae_epochId x = ae_epochId e \<and> next_sequence e \<le> next_sequence x)"

definition core :: "observer \<Rightarrow> repository_event list \<times> (string, attribution_epoch) jsmap \<times> observation_store" where
  "core s = (ob_emitted s, ob_epochs s, ob_store s)"

lemma core_cong:
  assumes "core s = core s'"
  shows "numbered lc s = numbered lc s'" "holding lc e s = holding lc e s'" "room lc e lo s = room lc e lo s'"
    "free_from e lo s = free_from e lo s'" "below e s = below e s'" "numbers e s = numbers e s'"
proof -
  from assms have f: "ob_emitted s = ob_emitted s'" "ob_epochs s = ob_epochs s'" "ob_store s = ob_store s'"
    by (simp_all add: core_def)
  show "numbered lc s = numbered lc s'" "holding lc e s = holding lc e s'" "room lc e lo s = room lc e lo s'"
    "free_from e lo s = free_from e lo s'" "below e s = below e s'" "numbers e s = numbers e s'"
    by (simp_all add: f numbered_def holding_def room_def free_from_def below_def numbers_def)
qed

lemma core_updates [simp]:
  "core (s\<lparr>ob_log := l\<rparr>) = core s" "core (s\<lparr>ob_signatures := g\<rparr>) = core s"
  "core (s\<lparr>ob_snapshots := v\<rparr>) = core s" "core (s\<lparr>ob_timer := t\<rparr>) = core s"
  "core (s\<lparr>ob_running := b\<rparr>) = core s" "core (s\<lparr>ob_repositories := rs\<rparr>) = core s"
  "core (s\<lparr>ob_queued := n\<rparr>) = core s" "core (s\<lparr>ob_queuedSince := i\<rparr>) = core s"
  "core (s\<lparr>ob_activeUntil := i\<rparr>) = core s" "core (s\<lparr>ob_activePollMs := p\<rparr>) = core s"
  "core (s\<lparr>ob_activeLogged := b\<rparr>) = core s"
  by (simp_all add: core_def)

text \<open>An action that leaves the core alone keeps every statement about it.\<close>

definition calm :: "'a observer_action \<Rightarrow> bool" where
  "calm m \<longleftrightarrow> (\<forall>c. keeps (\<lambda>s. core s = c) m)"

lemma after_calm:
  assumes "calm m" "\<And>s s'. core s = core s' \<Longrightarrow> P s = P s'"
  shows "after P m (\<lambda>_. P) P"
proof (rule after_keeps [THEN iffD1])
  show "keeps P m" unfolding keeps_def
  proof (intro allI impI)
    fix s assume "P s"
    have "core (snd (m s)) = core s" using assms(1) [unfolded calm_def, THEN spec, of "core s"] by (simp add: keeps_def)
    with assms(2) \<open>P s\<close> show "P (snd (m s))" by blast
  qed
qed

lemma calm_modify: "(\<And>s. core (f s) = core s) \<Longrightarrow> calm (modifyA f)"
  by (simp add: calm_def keeps_modify)

lemma calm_intros:
  "calm (returnA x)" "calm (throwA e)" "calm (getsA g)" "calm m \<Longrightarrow> (\<And>x. calm (f x)) \<Longrightarrow> calm (bindA m f)"
  "(b \<Longrightarrow> calm u) \<Longrightarrow> calm (whenA b u)" "calm m \<Longrightarrow> calm m' \<Longrightarrow> calm (if b then m else m')"
  by (simp_all add: calm_def keeps_intros)

lemma calm_log [simp]: "calm (log_event e)" "calm (log_lifecycle a b c d)" "calm (observer_lifecycle a b c x)"
  by (simp_all add: log_event_def log_lifecycle_def observer_lifecycle_def calm_modify)

section \<open>The steps that change the core\<close>

lemma next_normalized: "next_sequence e \<le> next_sequence (normalizeEpoch lc e)"
  by (simp add: next_sequence_def normalizeEpoch_def max_def)

lemma normalized_key [simp]:
  "ae_repoKey (normalizeEpoch lc e) = ae_repoKey e" "ae_epochId (normalizeEpoch lc e) = ae_epochId e"
  by (simp_all add: normalizeEpoch_def)

lemma stored_epochs_loaded:
  "is_loaded t \<Longrightarrow> stored_epochs lc t = om_epochs (du_memory t)"
  by (simp add: stored_epochs_def observation_ensureLoaded_def is_loaded_def)

lemma om_epochs_put [simp]:
  "om_epochs (put_epoch lc e m) = map_set (ae_repoKey e) (normalizeEpoch lc e) (om_epochs m)"
  "om_epochs (put_candidate c m) = om_epochs m" "om_epochs (fold put_candidate cs m) = om_epochs m"
proof -
  show "om_epochs (put_candidate c m) = om_epochs m" for c m by (simp add: put_candidate_def)
  then show "om_epochs (fold put_candidate cs m) = om_epochs m" by (induction cs arbitrary: m) simp_all
qed (simp add: put_epoch_def)

lemma stored_update:
  "update_all (observation_ensureLoaded lc) (observation_writeAll lc pg io) g t = (r, t')
   \<Longrightarrow> stored_epochs lc t' = om_epochs (g (du_memory (snd (observation_ensureLoaded lc t))))"
  by (simp add: stored_epochs_loaded update_observations)

text \<open>A store that takes an epoch has it or is as before, and has it when it succeeded.\<close>

definition takes_epoch :: "collation \<Rightarrow> attribution_epoch \<Rightarrow> unit observation_action \<Rightarrow> bool" where
  "takes_epoch lc e a \<longleftrightarrow> (\<forall>t r t'. a t = (r, t') \<longrightarrow>
     stored_epochs lc t' = map_set (ae_repoKey e) (normalizeEpoch lc e) (stored_epochs lc t)
     \<or> (stored_epochs lc t' = stored_epochs lc t \<and> r \<noteq> Inr ()))"

lemma takes_epoch_persist: "takes_epoch lc e (persistCandidatesAndAdvance lc pg io e cs)"
  unfolding takes_epoch_def
proof (intro allI impI)
  fix t r t' assume "persistCandidatesAndAdvance lc pg io e cs t = (r, t')"
  then show "stored_epochs lc t' = map_set (ae_repoKey e) (normalizeEpoch lc e) (stored_epochs lc t)
      \<or> (stored_epochs lc t' = stored_epochs lc t \<and> r \<noteq> Inr ())"
  proof (cases rule: persist_cases)
    case tried
    from stored_update [OF this] show ?thesis by (simp add: stored_epochs_def)
  qed simp
qed

lemma takes_epoch_upsert: "takes_epoch lc e (upsertEpoch lc pg io e)"
proof -
  have "upsertEpoch lc pg io e = persistCandidatesAndAdvance lc pg io e []"
    by (rule ext) (simp add: upsertEpoch_def persistCandidatesAndAdvance_def bindA_def split: prod.splits sum.splits)
  then show ?thesis by (simp add: takes_epoch_persist)
qed

lemma keyed_id_set: "keyed_normal ae_repoKey id m \<Longrightarrow> keyed_normal ae_repoKey id (map_set (ae_repoKey x) x m)"
  using normal_form.keyed_put [of ae_repoKey id m x] by (simp add: normal_form_def)

lemma below_set:
  assumes "\<forall>x \<in> set (map_values m). below x s" "below e s"
  shows "\<forall>x \<in> set (map_values (map_set k e m)). below x s"
  using assms set_map_set_subset [of k e m] by (fastforce simp: map_values_def)

lemma free_below:
  "free_from e lo s \<Longrightarrow> lo \<le> next_sequence e \<Longrightarrow> below e s \<and> below (normalizeEpoch lc e) s"
  using next_normalized [of e lc] by (fastforce simp: below_def free_from_def numbers_def)

lemma numbered_set_epoch:
  assumes "numbered lc s" "below e s"
  shows "numbered lc (s\<lparr>ob_epochs := map_set (ae_repoKey e) e (ob_epochs s)\<rparr>)"
  using assms by (auto simp: numbered_def below_def numbers_def)

lemma numbered_store:
  assumes "numbered lc s" "below (normalizeEpoch lc e) s"
    "stored_epochs lc t = map_set (ae_repoKey e) (normalizeEpoch lc e) (stored_epochs lc (ob_store s))
     \<or> stored_epochs lc t = stored_epochs lc (ob_store s)"
  shows "numbered lc (s\<lparr>ob_store := t\<rparr>)"
proof -
  let ?t = "stored_epochs lc t"
  have "keyed_normal ae_repoKey id ?t \<and> (\<forall>x \<in> set (map_values ?t). below x s)"
    using assms keyed_id_set [of "stored_epochs lc (ob_store s)" "normalizeEpoch lc e"]
      below_set [of "stored_epochs lc (ob_store s)" s "normalizeEpoch lc e"]
    by (auto simp: numbered_def)
  with assms(1) show ?thesis by (auto simp: numbered_def below_def numbers_def)
qed

text \<open>Writing an epoch with enough numbers: \<open>advance\<close>, \<open>write_epoch\<close> and the snapshot do this.\<close>

lemma after_put:
  assumes "takes_epoch lc e a" "lo \<le> next_sequence e"
  shows "after (\<lambda>s. numbered lc s \<and> free_from e lo s \<and> map_get (ob_epochs s) (ae_repoKey e) = Some e)
    (on_store a) (\<lambda>_. room lc e lo) (numbered lc)"
proof (rule afterI)
  fix s er s' assume P: "numbered lc s \<and> free_from e lo s \<and> map_get (ob_epochs s) (ae_repoKey e) = Some e"
    and "on_store a s = (Inl er, s')"
  then obtain r t where "a (ob_store s) = (r, t)" "s' = s\<lparr>ob_store := t\<rparr>"
    by (auto simp: on_store_def split: prod.splits)
  with P assms free_below [of e lo s lc] show "numbered lc s'"
    by (auto simp: takes_epoch_def intro: numbered_store)
next
  fix s u s' assume P: "numbered lc s \<and> free_from e lo s \<and> map_get (ob_epochs s) (ae_repoKey e) = Some e"
    and "on_store a s = (Inr u, s')"
  then obtain t where a: "a (ob_store s) = (Inr (), t)" and s': "s' = s\<lparr>ob_store := t\<rparr>"
    by (auto simp: on_store_def map_sum_def split: prod.splits sum.splits)
  with assms(1) have t: "stored_epochs lc t
      = map_set (ae_repoKey e) (normalizeEpoch lc e) (stored_epochs lc (ob_store s))"
    by (auto simp: takes_epoch_def)
  with P assms(2) free_below [of e lo s lc] have "numbered lc s'" unfolding s' by (auto intro: numbered_store)
  with P s' t next_normalized [of e lc] show "room lc e lo s'"
    by (auto simp: room_def holding_def free_from_def numbers_def)
qed

text \<open>Reporting the next number.\<close>

lemma sequences_snoc: "sequences k (es @ [v]) = sequences k es
    @ (case sequence_of v of None \<Rightarrow> [] | Some (k', n) \<Rightarrow> if k' = k then [n] else [])"
  by (auto simp: sequences_def List.map_filter_def split: option.splits)

lemma after_emit:
  assumes "\<And>s. room lc e lo s \<Longrightarrow> room lc e hi (s\<lparr>ob_emitted := ob_emitted s @ [v]\<rparr>)"
  shows "after (room lc e lo) (emit w v) (\<lambda>_. room lc e hi) (numbered lc)"
proof -
  have e: "emit w v s = (if ow_handles w v then Inr () else Inl Handler_failed,
      s\<lparr>ob_emitted := ob_emitted s @ [v]\<rparr>)" for s
    by (simp add: emit_def bindA_def)
  have n: "room lc e hi s \<Longrightarrow> numbered lc s" for s by (simp add: room_def holding_def)
  show ?thesis
  proof (rule afterI)
    fix s er s' assume r: "room lc e lo s" and "emit w v s = (Inl er, s')"
    then have "s' = s\<lparr>ob_emitted := ob_emitted s @ [v]\<rparr>" unfolding e by simp
    then show "numbered lc s'" using n [OF assms [OF r]] by simp
  next
    fix s u s' assume r: "room lc e lo s" and "emit w v s = (Inr u, s')"
    then have "s' = s\<lparr>ob_emitted := ob_emitted s @ [v]\<rparr>" unfolding e by simp
    then show "room lc e hi s'" using assms [OF r] by simp
  qed
qed

lemma numberedD:
  assumes "numbered lc s"
  shows "sorted_wrt (<) (sequences k (ob_emitted s))"
    "map_get (ob_epochs s) repo = Some e \<Longrightarrow> ae_repoKey e = repo \<and> below e s"
    "x \<in> set (map_values (stored_epochs lc (ob_store s))) \<Longrightarrow>
       map_get (stored_epochs lc (ob_store s)) (ae_repoKey x) = Some x \<and> below x s"
proof -
  show "sorted_wrt (<) (sequences k (ob_emitted s))" using assms unfolding numbered_def by blast
  show "map_get (ob_epochs s) repo = Some e \<Longrightarrow> ae_repoKey e = repo \<and> below e s"
    using assms unfolding numbered_def by blast
  show "x \<in> set (map_values (stored_epochs lc (ob_store s))) \<Longrightarrow>
       map_get (stored_epochs lc (ob_store s)) (ae_repoKey x) = Some x \<and> below x s"
    using assms unfolding numbered_def by (auto simp: keyed_normal_def map_values_def)
qed

lemma below_report:
  assumes "below y s" "sequence_of v = Some (k, n)"
    "(ae_repoKey y, ae_epochId y) = k \<Longrightarrow> n < next_sequence y"
  shows "below y (s\<lparr>ob_emitted := ob_emitted s @ [v]\<rparr>)"
  using assms by (auto simp: below_def numbers_def sequences_snoc)

lemma numbered_report:
  assumes r: "room lc e lo s" and v: "sequence_of v = Some ((ae_repoKey e, ae_epochId e), n)"
    and n: "lo \<le> n" "n < next_sequence e"
  shows "numbered lc (s\<lparr>ob_emitted := ob_emitted s @ [v]\<rparr>)"
proof -
  let ?s = "s\<lparr>ob_emitted := ob_emitted s @ [v]\<rparr>"
  from r obtain x where num: "numbered lc s" and held: "map_get (ob_epochs s) (ae_repoKey e) = Some e"
    and free: "free_from e lo s"
    and x: "map_get (stored_epochs lc (ob_store s)) (ae_repoKey e) = Some x" "next_sequence e \<le> next_sequence x"
    unfolding room_def holding_def by blast
  note d = numberedD [OF num]
  have a: "sorted_wrt (<) (sequences k (ob_emitted ?s))" for k
  proof (cases "k = (ae_repoKey e, ae_epochId e)")
    case True
    have "sequences k (ob_emitted ?s) = numbers e s @ [n]" by (simp add: True sequences_snoc v numbers_def)
    moreover have "\<forall>m \<in> set (numbers e s). m < n" using free n(1) by (auto simp: free_from_def)
    moreover have "sorted_wrt (<) (numbers e s)" unfolding numbers_def by (rule d(1))
    ultimately show ?thesis by (simp add: sorted_wrt_append)
  next
    case False
    then have "sequences k (ob_emitted ?s) = sequences k (ob_emitted s)" by (auto simp: sequences_snoc v)
    with d(1) [of k] show ?thesis by simp
  qed
  have b: "ae_repoKey y = repo \<and> below y ?s" if y: "map_get (ob_epochs ?s) repo = Some y" for repo y
  proof -
    from y have y': "map_get (ob_epochs s) repo = Some y" by simp
    from d(2) [OF y'] y' held have "ae_repoKey y = ae_repoKey e \<Longrightarrow> y = e" by (metis option.inject)
    with n(2) have "below y ?s" by (intro below_report [OF _ v]) (use d(2) [OF y'] in simp_all)
    with d(2) [OF y'] show ?thesis by simp
  qed
  have c: "below y ?s" if y: "y \<in> set (map_values (stored_epochs lc (ob_store ?s)))" for y
  proof -
    from y have y': "y \<in> set (map_values (stored_epochs lc (ob_store s)))" by simp
    from d(3) [OF y'] x(1) have "ae_repoKey y = ae_repoKey e \<Longrightarrow> y = x" by (metis option.inject)
    with n(2) x(2) show ?thesis by (intro below_report [OF _ v]) (use d(3) [OF y'] in simp_all)
  qed
  have k: "keyed_normal ae_repoKey id (stored_epochs lc (ob_store ?s))"
    using num by (simp add: numbered_def)
  show ?thesis unfolding numbered_def
    by (intro conjI allI impI ballI;
      (rule a | erule b [THEN conjunct1] | erule b [THEN conjunct2] | rule k | erule c))
qed

lemma after_report:
  assumes v: "sequence_of v = Some ((ae_repoKey e, ae_epochId e), n)" and n: "lo \<le> n" "n < next_sequence e"
  shows "after (room lc e lo) (emit w v) (\<lambda>_. room lc e (n + 1)) (numbered lc)"
proof (rule after_emit)
  fix s assume r: "room lc e lo s"
  have "free_from e (n + 1) (s\<lparr>ob_emitted := ob_emitted s @ [v]\<rparr>)"
    using r v n(1) by (fastforce simp: room_def free_from_def numbers_def sequences_snoc)
  with r numbered_report [OF r v n] show "room lc e (n + 1) (s\<lparr>ob_emitted := ob_emitted s @ [v]\<rparr>)"
    by (simp add: room_def holding_def)
qed

lemma after_transition:
  "after (room lc e lo) (emit w (transition_of w e' ref ref' kind)) (\<lambda>_. room lc e lo) (numbered lc)"
proof -
  have "sequences k (es @ [transition_of w e' ref ref' kind]) = sequences k es" for k es
    by (simp add: sequences_snoc transition_of_def)
  then have "room lc e lo (s\<lparr>ob_emitted := ob_emitted s @ [transition_of w e' ref ref' kind]\<rparr>) = room lc e lo s" for s
    by (simp add: room_def holding_def free_from_def numbered_def below_def numbers_def)
  then show ?thesis by (intro after_emit) simp
qed

section \<open>A scan\<close>

definition same_epoch :: "attribution_epoch \<Rightarrow> attribution_epoch \<Rightarrow> bool" where
  "same_epoch e e' \<longleftrightarrow> ae_repoKey e' = ae_repoKey e \<and> ae_epochId e' = ae_epochId e
     \<and> next_sequence e \<le> next_sequence e'"

text \<open>The candidates have the numbers from the next of \<open>e\<close> to before the next of \<open>e'\<close>.\<close>

definition candidates_between :: "attribution_epoch \<Rightarrow> commit_candidate list \<Rightarrow> attribution_epoch \<Rightarrow> bool" where
  "candidates_between e cs e' \<longleftrightarrow> same_epoch e e'
     \<and> map cc_observedSequence cs = [next_sequence e..next_sequence e' - 1]
     \<and> (\<forall>c \<in> set cs. cc_repoKey c = ae_repoKey e \<and> cc_epochId c = ae_epochId e)"

lemma take_sequence_sel [simp]:
  "next_sequence (take_sequence e) = next_sequence e + 1" "ae_repoKey (take_sequence e) = ae_repoKey e"
  "ae_epochId (take_sequence e) = ae_epochId e" "ae_refHeads (take_sequence e) = ae_refHeads e"
  "ae_cursorHead (take_sequence e) = ae_cursorHead e" "ae_cursorRefKey (take_sequence e) = ae_cursorRefKey e"
  by (simp_all add: next_sequence_def take_sequence_def)

lemma next_sequence_updates [simp]:
  "next_sequence (e\<lparr>ae_refHeads := r\<rparr>) = next_sequence e" "next_sequence (moved_to head ref e) = next_sequence e"
  "ae_repoKey (moved_to head ref e) = ae_repoKey e" "ae_epochId (moved_to head ref e) = ae_epochId e"
  by (simp_all add: next_sequence_def moved_to_def)

lemma candidates_between_commits:
  "candidatesForCommits w e ref kind reason hs = (cs, e') \<Longrightarrow> candidates_between e cs e'"
proof (induction hs arbitrary: e cs)
  case Nil
  then show ?case by (simp add: candidates_between_def same_epoch_def)
next
  case (Cons h hs)
  show ?case
  proof (cases "ow_commitDiff w (ae_repoKey e) h")
    case None
    with Cons show ?thesis by simp
  next
    case (Some d)
    with Cons.prems obtain cs' where rest: "candidatesForCommits w (take_sequence e) ref kind reason hs = (cs', e')"
      and cs: "cs = candidate_of_commit e ref kind reason h d # cs'" by (auto split: prod.splits)
    from Cons.IH [OF rest] show ?thesis
      by (auto simp: cs candidates_between_def same_epoch_def candidate_of_commit_def upto_rec1)
  qed
qed

lemma room_holding: "room lc e lo s \<Longrightarrow> holding lc e s"
  by (simp add: room_def)

lemma holding_numbered: "holding lc e s \<Longrightarrow> numbered lc s"
  by (simp add: holding_def)

lemma after_set_epoch:
  assumes "lo \<le> next_sequence e"
  shows "after (\<lambda>s. numbered lc s \<and> free_from e lo s) (set_epoch e)
    (\<lambda>_ s. numbered lc s \<and> free_from e lo s \<and> map_get (ob_epochs s) (ae_repoKey e) = Some e) E"
  unfolding set_epoch_def
proof (rule after_modify)
  fix s assume P: "numbered lc s \<and> free_from e lo s"
  with assms have "below e s" by (auto dest: free_below)
  with P show "numbered lc (s\<lparr>ob_epochs := map_set (ae_repoKey e) e (ob_epochs s)\<rparr>)
      \<and> free_from e lo (s\<lparr>ob_epochs := map_set (ae_repoKey e) e (ob_epochs s)\<rparr>)
      \<and> map_get (ob_epochs (s\<lparr>ob_epochs := map_set (ae_repoKey e) e (ob_epochs s)\<rparr>)) (ae_repoKey e) = Some e"
    by (auto simp: numbered_set_epoch) (simp add: free_from_def numbers_def)
qed

lemma after_write:
  assumes "lo \<le> next_sequence e"
  shows "after (\<lambda>s. numbered (ow_lc w) s \<and> free_from e lo s) (write_epoch w e)
      (\<lambda>_. room (ow_lc w) e lo) (numbered (ow_lc w))"
    "after (\<lambda>s. numbered (ow_lc w) s \<and> free_from e lo s) (advance w e cs)
      (\<lambda>_. room (ow_lc w) e lo) (numbered (ow_lc w))"
  unfolding write_epoch_def advance_def
  by (rule after_bind [OF after_set_epoch [OF assms] after_put [OF _ assms]]; rule takes_epoch_upsert takes_epoch_persist)+

lemma holding_free:
  assumes "holding lc e s" "same_epoch e e'"
  shows "numbered lc s \<and> free_from e' (next_sequence e) s"
proof -
  have "below e s" using assms(1) numberedD(2) unfolding holding_def by blast
  with assms show ?thesis by (auto simp: holding_def free_from_def below_def numbers_def same_epoch_def)
qed

lemma after_move:
  assumes "same_epoch e e'"
  shows "after (holding (ow_lc w) e) (write_epoch w e')
      (\<lambda>_. room (ow_lc w) e' (next_sequence e)) (numbered (ow_lc w))"
    "after (holding (ow_lc w) e) (advance w e' cs)
      (\<lambda>_. room (ow_lc w) e' (next_sequence e)) (numbered (ow_lc w))"
  using assms by (auto intro!: after_pre [OF after_write(1)] after_pre [OF after_write(2)] dest: holding_free
      simp: same_epoch_def)

lemma after_log:
  "after (room lc e lo) (log_lifecycle a b c d) (\<lambda>_. room lc e lo) (numbered lc)"
  unfolding log_lifecycle_def log_event_def
proof (rule after_modify)
  fix s assume "room lc e lo s"
  moreover have "core (s\<lparr>ob_log := ob_log s @ [Observer_lifecycle None a b c d]\<rparr>) = core s" by simp
  ultimately show "room lc e lo (s\<lparr>ob_log := ob_log s @ [Observer_lifecycle None a b c d]\<rparr>)"
    using core_cong(3) by blast
qed

lemma after_candidates:
  assumes one: "\<And>c lo. c \<in> set cs \<Longrightarrow> sequence_of (Candidate_observed c) = Some ((ae_repoKey e, ae_epochId e), lo)
      \<Longrightarrow> lo < next_sequence e \<Longrightarrow> after (room lc e lo) (f c) (\<lambda>_. room lc e (lo + 1)) (numbered lc)"
    and cs: "map cc_observedSequence cs = [lo..next_sequence e - 1]"
      "\<forall>c \<in> set cs. cc_repoKey c = ae_repoKey e \<and> cc_epochId c = ae_epochId e"
  shows "after (room lc e lo) (forA f cs) (\<lambda>_. holding lc e) (numbered lc)"
  using assms
proof (induction cs arbitrary: lo)
  case Nil
  then show ?case unfolding forA.simps by (intro after_return) (rule room_holding)
next
  case (Cons c cs)
  from Cons.prems(2) have lo: "lo < next_sequence e" "cc_observedSequence c = lo"
    "map cc_observedSequence cs = [lo + 1..next_sequence e - 1]"
    using upto_rec1 [of lo "next_sequence e - 1"] by (cases "lo < next_sequence e"; simp)+
  have "after (room lc e lo) (f c) (\<lambda>_. room lc e (lo + 1)) (numbered lc)"
    using Cons.prems(1, 3) lo by simp
  moreover have "after (room lc e (lo + 1)) (forA f cs) (\<lambda>_. holding lc e) (numbered lc)"
    using Cons lo(3) by simp
  ultimately show ?case by (auto intro: after_bind)
qed

lemma after_emitted_candidates:
  assumes "candidates_between e0 cs e"
  shows "after (room lc e (next_sequence e0)) (forA (emit_candidate w) cs) (\<lambda>_. holding lc e) (numbered lc)"
    "after (room lc e (next_sequence e0)) (forA (\<lambda>c. emit w (Candidate_observed c)) cs) (\<lambda>_. holding lc e) (numbered lc)"
proof -
  note b = assms [unfolded candidates_between_def same_epoch_def]
  have one: "after (room lc e lo) (emit_candidate w c) (\<lambda>_. room lc e (lo + 1)) (numbered lc)"
    if "sequence_of (Candidate_observed c) = Some ((ae_repoKey e, ae_epochId e), lo)" "lo < next_sequence e" for c lo
    unfolding emit_candidate_def by (rule after_bind [OF after_report [OF that(1) order_refl that(2)] after_log])
  show "after (room lc e (next_sequence e0)) (forA (emit_candidate w) cs) (\<lambda>_. holding lc e) (numbered lc)"
    using b by (intro after_candidates one) simp_all
  show "after (room lc e (next_sequence e0)) (forA (\<lambda>c. emit w (Candidate_observed c)) cs) (\<lambda>_. holding lc e) (numbered lc)"
    using b by (intro after_candidates after_report) simp_all
qed

lemma same_epoch_refl [simp]: "same_epoch e e" "same_epoch e (e\<lparr>ae_refHeads := r\<rparr>)" "same_epoch e (take_sequence e)"
  by (simp_all add: same_epoch_def)

lemma after_ref_change:
  assumes "candidates_between e cs e'"
  shows "after (holding (ow_lc w) e) (ref_change w e' refKey kind cs reason commit details)
    (\<lambda>_. holding (ow_lc w) e') (numbered (ow_lc w))"
proof -
  have "same_epoch e e'" using assms by (simp add: candidates_between_def)
  then show ?thesis unfolding ref_change_def
    by (intro after_bind [OF after_move(2)] after_bind [OF after_transition] after_bind [OF after_log]
        after_emitted_candidates(1) [OF assms])
qed

lemma no_candidates_between: "candidates_between e [] (e\<lparr>ae_refHeads := r\<rparr>)"
  by (simp add: candidates_between_def)

lemma candidates_between_heads:
  assumes "candidatesForCommits w e ref kind reason hs = (cs, e1)"
  shows "candidates_between e cs (e1\<lparr>ae_refHeads := r\<rparr>)" "candidates_between e cs (moved_to head ref' e1)"
  using candidates_between_commits [OF assms] by (simp_all add: candidates_between_def same_epoch_def)

lemma after_scan_ref:
  "after (holding (ow_lc w) (fst y)) (scan_ref w skip current refKey y)
     (\<lambda>y'. holding (ow_lc w) (fst y')) (numbered (ow_lc w))"
proof (cases y)
  case (Pair e previous)
  show ?thesis
    unfolding Pair scan_ref_def Let_def
    by (auto intro!: after_return after_bind [OF after_ref_change] no_candidates_between candidates_between_heads(1)
        split: prod.splits)
qed

lemma after_scanRefTransitions:
  "after (holding (ow_lc w) e) (scanRefTransitions w e skip)
     (\<lambda>e'. holding (ow_lc w) e') (numbered (ow_lc w))"
  unfolding scanRefTransitions_def Let_def
proof (rule after_bind)
  let ?current = "refHeadMap (ow_listRefs w (ae_repoKey e))" and ?previous = "nullish (ae_refHeads e) []"
  show "after (holding (ow_lc w) e) (foldA (scan_ref w skip ?current)
      (dedup (map fst ?previous @ map fst ?current)) (e, ?previous))
      (\<lambda>y. holding (ow_lc w) (fst y)) (numbered (ow_lc w))"
    using after_fold [where I = "\<lambda>y. holding (ow_lc w) (fst y)" and y = "(e, ?previous)", OF after_scan_ref] by simp
  show "after (holding (ow_lc w) (fst y)) (case y of (e, previous) \<Rightarrow>
      if sameRefHeads (nullish (ae_refHeads e) []) (reconciled_refs skip previous ?current) then returnA e
      else bindA (write_epoch w (e\<lparr>ae_refHeads := Some (reconciled_refs skip previous ?current)\<rparr>))
        (\<lambda>_. returnA (e\<lparr>ae_refHeads := Some (reconciled_refs skip previous ?current)\<rparr>)))
      (\<lambda>e'. holding (ow_lc w) e') (numbered (ow_lc w))" for y
    by (auto intro!: after_return after_bind [OF after_move(1)] dest: room_holding split: prod.splits)
qed

lemma after_take_snapshot:
  "after (holding (ow_lc w) e) (take_snapshot w e force) (\<lambda>_. numbered (ow_lc w)) (numbered (ow_lc w))"
proof -
  let ?lc = "ow_lc w" and ?e = "take_sequence e"
  have reported: "after (room ?lc ?e (next_sequence e)) (emit w (Snapshot_observed (snapshot_of w e g)))
      (\<lambda>_. room ?lc ?e (next_sequence e + 1)) (numbered ?lc)" for g
    by (rule after_report) (simp_all add: snapshot_of_def)
  have "after (holding ?lc e) (record_snapshot w e force g) (\<lambda>_. numbered ?lc) (numbered ?lc)" for g
  proof -
    have held: "after (holding ?lc e) (set_epoch ?e) (\<lambda>_ s. numbered ?lc s \<and> free_from ?e (next_sequence e) s
        \<and> map_get (ob_epochs s) (ae_repoKey ?e) = Some ?e) (numbered ?lc)"
      by (rule after_pre [OF after_set_epoch]) (simp, rule holding_free, assumption, simp)
    show ?thesis unfolding record_snapshot_def Let_def
    proof (rule after_bind [OF held], rule after_bind)
      show "after (\<lambda>s. numbered ?lc s \<and> free_from ?e (next_sequence e) s
          \<and> map_get (ob_epochs s) (ae_repoKey ?e) = Some ?e)
        (modifyA (\<lambda>s. s\<lparr>ob_signatures := map_set (ae_repoKey e) (snapshotSignature g) (ob_signatures s),
           ob_snapshots := map_set (ae_repoKey e) (snapshot_of w e g) (ob_snapshots s)\<rparr>))
        (\<lambda>_ s. numbered ?lc s \<and> free_from ?e (next_sequence e) s
          \<and> map_get (ob_epochs s) (ae_repoKey ?e) = Some ?e) (numbered ?lc)"
        by (rule after_modify) (auto simp: numbered_def free_from_def below_def numbers_def)
    next
      fix u :: unit
      show "after (\<lambda>s. numbered ?lc s \<and> free_from ?e (next_sequence e) s
          \<and> map_get (ob_epochs s) (ae_repoKey ?e) = Some ?e)
        (bindA (on_store (upsertEpoch (ow_lc w) (ow_pg w) (ow_io w) ?e)) (\<lambda>_.
         bindA (if ow_onSnapshot w (snapshot_of w e g) then returnA () else throwA Handler_failed) (\<lambda>_.
         bindA (emit w (Snapshot_observed (snapshot_of w e g))) (\<lambda>_.
         log_lifecycle ''snapshot'' ''recorded''
           (if force then ''repository_snapshot_recorded_forced'' else ''repository_snapshot_recorded'')
           (epoch_options e (so_headCommit (snapshot_of w e g)) (Some (snapshot_details (snapshot_of w e g))))))))
        (\<lambda>_. numbered ?lc) (numbered ?lc)"
        by (intro after_bind [OF after_put [OF takes_epoch_upsert]]
            after_bind [where Q = "\<lambda>_. room ?lc ?e (next_sequence e)", OF after_if [OF after_return after_throw]]
            after_bind [OF reported] after_post [OF after_log]) (auto dest: room_holding holding_numbered)
    qed
  qed
  note rec = this
  show ?thesis
  proof (cases "ow_snapshot w (ae_repoKey e)")
    case None
    show ?thesis unfolding take_snapshot_def None option.case by (intro after_throw holding_numbered)
  next
    case (Some g)
    show ?thesis unfolding take_snapshot_def Some option.case
      by (intro after_bind [OF after_gets] after_if after_return after_pre [OF rec])
        (auto dest: holding_numbered)
  qed
qed

lemma after_observeSnapshot:
  "after (holding (ow_lc w) e) (observeSnapshot w e force) (\<lambda>_. numbered (ow_lc w)) (numbered (ow_lc w))"
proof -
  have logs: "numbered lc (s\<lparr>ob_log := l\<rparr>) = numbered lc s" for lc s l
    by (rule core_cong) simp
  show ?thesis
    using after_take_snapshot [of w e force]
    by (auto simp: after_def observeSnapshot_def log_event_def logs split: prod.splits sum.splits)
qed

lemma after_scan_rest:
  "after (holding (ow_lc w) e) (scan_rest w e) (\<lambda>_. numbered (ow_lc w)) (numbered (ow_lc w))"
  unfolding scan_rest_def by (rule after_bind [OF after_scanRefTransitions after_observeSnapshot])

text \<open>When the checked-out reference moved, the rest of the scan starts with the cursor at the head.\<close>

lemma after_scan_head:
  assumes rest: "\<And>e'. ae_repoKey e' = ae_repoKey e \<Longrightarrow> ae_cursorHead e' = Some head \<Longrightarrow> ae_cursorRefKey e' = ref
      \<Longrightarrow> after (holding (ow_lc w) e') (scan_rest w e') Q E"
    and error: "\<And>s. numbered (ow_lc w) s \<Longrightarrow> E s"
  shows after_scan_root: "after (holding (ow_lc w) e) (scan_root w e head ref) Q E"
    and after_scan_moved: "after (holding (ow_lc w) e) (scan_moved w e head ref) Q E"
proof -
  have weak: "after P m R (numbered (ow_lc w)) \<Longrightarrow> after P m R E" for P R and m :: "unit observer_action"
    by (erule after_weaken) (simp_all add: error)
  have moved: "ae_cursorHead (moved_to head ref e') = Some head" "ae_cursorRefKey (moved_to head ref e') = ref" for e'
    by (simp_all add: moved_to_def)
  show "after (holding (ow_lc w) e) (scan_root w e head ref) Q E"
  proof -
    obtain cs e1 where c: "candidatesForCommits w e ref Fast_forward ''root_commit_observed_after_epoch'' [head] = (cs, e1)"
      by fastforce
    note b = candidates_between_heads(2) [OF c, of head ref]
    then have s: "same_epoch e (moved_to head ref e1)" by (simp add: candidates_between_def)
    show ?thesis unfolding scan_root_def c prod.case Let_def
      by (intro after_bind [OF weak [OF after_move(2) [OF s]]] after_bind [OF weak [OF after_transition]]
          after_bind [OF weak [OF after_emitted_candidates(2) [OF b]]] rest moved)
        (use s in \<open>simp_all add: same_epoch_def\<close>)
  qed
  show "after (holding (ow_lc w) e) (scan_moved w e head ref) Q E"
  proof -
    obtain kind hashes where k: "candidate_commits w e head ref (classifyTransition w e head ref) = (kind, hashes)"
      by fastforce
    obtain cs e1 where c: "candidatesForCommits w e ref kind ''commit_observed_after_epoch'' hashes = (cs, e1)"
      by fastforce
    note b = candidates_between_heads(2) [OF c, of head ref]
    then have s: "same_epoch e (moved_to head ref e1)" by (simp add: candidates_between_def)
    show ?thesis unfolding scan_moved_def Let_def k prod.case c
      by (intro after_bind [OF weak [OF after_move(2) [OF s]]] after_bind [OF weak [OF after_transition]]
          after_bind [OF weak [OF after_log]] after_bind [OF weak [OF after_emitted_candidates(1) [OF b]]] rest moved)
        (use s in \<open>simp_all add: same_epoch_def\<close>)
  qed
qed

text \<open>The identifier of a new epoch was never used for the repository.\<close>

definition fresh_epoch :: "observer_world \<Rightarrow> string \<Rightarrow> observer \<Rightarrow> bool" where
  "fresh_epoch w repo s \<longleftrightarrow> numbers (createEpoch w repo) s = []"

lemma createEpoch_sel [simp]: "ae_repoKey (createEpoch w repo) = repo" "next_sequence (createEpoch w repo) = 1"
  by (simp_all add: createEpoch_def next_sequence_def)

lemma after_scan_reset:
  "after (\<lambda>s. numbered (ow_lc w) s \<and> fresh_epoch w repo s) (scan_reset w repo)
     (\<lambda>_. numbered (ow_lc w)) (numbered (ow_lc w))"
proof -
  have "after (\<lambda>s. numbered (ow_lc w) s \<and> fresh_epoch w repo s) (write_epoch w (createEpoch w repo))
      (\<lambda>_. room (ow_lc w) (createEpoch w repo) 1) (numbered (ow_lc w))"
    by (rule after_pre [OF after_write(1)]) (simp_all add: fresh_epoch_def free_from_def)
  then show ?thesis unfolding scan_reset_def
    by (rule after_bind) (rule after_pre [OF after_observeSnapshot room_holding])
qed

lemma after_scanRepo:
  "after (\<lambda>s. numbered (ow_lc w) s \<and> fresh_epoch w repo s) (scanRepo w repo)
     (\<lambda>_. numbered (ow_lc w)) (numbered (ow_lc w))"
proof -
  let ?P = "\<lambda>s. numbered (ow_lc w) s \<and> fresh_epoch w repo s"
  have "after (\<lambda>s. Some e = map_get (ob_epochs s) repo \<and> ?P s) (scan_step w repo e)
      (\<lambda>_. numbered (ow_lc w)) (numbered (ow_lc w))" for e
  proof -
    have held: "holding (ow_lc w) e s" if "Some e = map_get (ob_epochs s) repo \<and> ?P s" for s
      using that numberedD(2) [of "ow_lc w" s repo e] by (simp add: holding_def)
    note rules = after_pre [OF after_scan_rest held] after_pre [OF after_scan_root [OF after_scan_rest] held]
      after_pre [OF after_scan_moved [OF after_scan_rest] held] after_pre [OF after_scan_reset]
    show ?thesis unfolding scan_step_def Let_def by (intro after_if rules) auto
  qed
  then show ?thesis unfolding scanRepo_def
    by (intro after_bind [OF after_gets]) (auto split: option.splits intro: after_return)
qed

section \<open>The start and the other operations\<close>

lemma numbered_same_epochs:
  assumes "numbered lc s" "stored_epochs lc t = stored_epochs lc (ob_store s) \<or> stored_epochs lc t = []"
  shows "numbered lc (s\<lparr>ob_store := t\<rparr>)"
proof -
  have num: "sorted_wrt (<) (sequences k (ob_emitted s))" for k by (rule numberedD(1) [OF assms(1)])
  from assms show ?thesis
    unfolding numbered_def by (auto simp: below_def numbers_def map_values_def num)
qed

text \<open>A store operation that leaves the epochs alone.\<close>

definition keeps_epochs :: "collation \<Rightarrow> 'a observation_action \<Rightarrow> bool" where
  "keeps_epochs lc a \<longleftrightarrow> (\<forall>q. keeps (\<lambda>t. stored_epochs lc t = q) a)"

lemma after_store_same:
  assumes "keeps_epochs lc a"
  shows "after (numbered lc) (on_store a) (\<lambda>_. numbered lc) (numbered lc)"
proof -
  have "numbered lc (s\<lparr>ob_store := snd (a (ob_store s))\<rparr>)" if "numbered lc s" for s
    using that assms [unfolded keeps_epochs_def, THEN spec, of "stored_epochs lc (ob_store s)"]
    by (intro numbered_same_epochs) (auto simp: keeps_def)
  then show ?thesis by (auto simp: after_def on_store_def split_beta map_sum_def split: sum.splits)
qed

definition loaded_with :: "(string, attribution_epoch) jsmap \<Rightarrow> observation_store \<Rightarrow> bool" where
  "loaded_with q t \<longleftrightarrow> is_loaded t \<and> om_epochs (du_memory t) = q"

lemma keeps_epochs_bind:
  assumes "\<And>q x. keeps (loaded_with q) (f x)"
  shows "keeps_epochs lc (bindA (observation_ensureLoaded lc) f)"
  unfolding keeps_epochs_def
proof (intro allI)
  fix q
  have "after (\<lambda>t. stored_epochs lc t = q) (observation_ensureLoaded lc) (\<lambda>_. loaded_with q) (\<lambda>t. stored_epochs lc t = q)"
    unfolding after_def by (subst ensureLoaded_Inr) (simp add: loaded_with_def loaded_observation_load stored_epochs_def)
  moreover have "after (loaded_with q) (f x) (\<lambda>_ t. stored_epochs lc t = q) (\<lambda>t. stored_epochs lc t = q)" for x
    by (rule after_weaken [OF assms [of q x, unfolded after_keeps]]) (simp_all add: loaded_with_def stored_epochs_loaded)
  ultimately show "keeps (\<lambda>t. stored_epochs lc t = q) (bindA (observation_ensureLoaded lc) f)"
    by (auto simp: after_keeps intro: after_bind)
qed

lemma keeps_loaded_write: "keeps (loaded_with q) (observation_writeAll lc pg io)"
  unfolding observation_writeAll_def
  by (intro keeps_intros keeps_modify) (simp add: loaded_with_def is_loaded_def)

lemma keeps_loaded_change:
  "(\<And>m. om_epochs (g m) = om_epochs m) \<Longrightarrow> keeps (loaded_with q) (change_memory g)"
  unfolding change_memory_def by (rule keeps_modify) (simp add: loaded_with_def is_loaded_def)

lemma keeps_epochs_operations:
  "keeps_epochs lc (updateCandidate lc pg io c)" "keeps_epochs lc (applyCandidateRetention lc pg io t)"
  "keeps_epochs lc (observation_initialize lc)"
proof -
  have "keeps_epochs lc (update_all (observation_ensureLoaded lc) (observation_writeAll lc pg io) (put_candidate c))"
    unfolding update_all_def
    by (intro keeps_epochs_bind keeps_intros keeps_loaded_write keeps_loaded_change) simp
  then show "keeps_epochs lc (updateCandidate lc pg io c)"
    unfolding updateCandidate_def keeps_epochs_def by (intro allI keeps_intros) blast
  show "keeps_epochs lc (applyCandidateRetention lc pg io t)"
    unfolding applyCandidateRetention_def Let_def
    by (intro keeps_epochs_bind keeps_intros keeps_loaded_write keeps_loaded_change) simp
  have load: "keeps (loaded_with q) (observation_ensureLoaded lc)" for q
    by (simp add: keeps_def loaded_with_def is_loaded_def observation_ensureLoaded_def)
  show "keeps_epochs lc (observation_initialize lc)"
    unfolding observation_initialize_def listEpochs_def listCandidates_def
    by (intro keeps_epochs_bind keeps_intros load)
qed

lemma after_clear: "after (numbered (ow_lc w)) (observer_clear w) (\<lambda>_. numbered (ow_lc w)) (numbered (ow_lc w))"
proof -
  let ?lc = "ow_lc w"
  have "after (numbered ?lc) (on_store (observation_clear ?lc (ow_pg w) (ow_io w))) (\<lambda>_. numbered ?lc) (numbered ?lc)"
  proof (rule after_keeps [THEN iffD1], unfold keeps_def, intro allI impI)
    fix s assume num: "numbered ?lc s"
    obtain r t where "observation_clear ?lc (ow_pg w) (ow_io w) (ob_store s) = (r, t)" by fastforce
    moreover from this have "stored_epochs ?lc t = []"
      by (auto simp: observation_clear_def dest!: stored_update) (simp add: no_observations_def)
    ultimately show "numbered ?lc (snd (on_store (observation_clear ?lc (ow_pg w) (ow_io w)) s))"
      using numbered_same_epochs [OF num, of t] by (simp add: on_store_def)
  qed
  moreover have "numbered ?lc (s\<lparr>ob_epochs := [], ob_snapshots := v, ob_signatures := g\<rparr>)" if "numbered ?lc s" for s v g
    using that numberedD(1) [OF that] by (simp add: numbered_def below_def numbers_def)
  ultimately show ?thesis unfolding observer_clear_def by (intro after_bind [OF _ after_modify])
qed

text \<open>The epoch a repository starts with comes from the store or is new.\<close>

lemma boot_epoch_cases:
  assumes "boot_epoch w stored repo = (existing, e)"
  obtains (stored) "stored = Some e" "existing = Some e" | (created) "e = createEpoch w repo"
  using assms by (auto simp: boot_epoch_def Let_def split: option.splits if_splits)

definition startable :: "observer_world \<Rightarrow> (string, attribution_epoch) jsmap \<Rightarrow> string \<Rightarrow> observer \<Rightarrow> bool" where
  "startable w stored repo s \<longleftrightarrow> fresh_epoch w repo s
     \<and> (\<forall>x. map_get stored repo = Some x \<longrightarrow> ae_repoKey x = repo \<and> below x s)"

lemma free_log: "free_from e lo (s\<lparr>ob_log := l\<rparr>) = free_from e lo s" "numbered lc (s\<lparr>ob_log := l\<rparr>) = numbered lc s"
  by (rule core_cong, simp)+

lemma after_boot_repo:
  "after (\<lambda>s. numbered (ow_lc w) s \<and> startable w stored repo s) (boot_repo w recovered stored repo)
     (\<lambda>_. numbered (ow_lc w)) (numbered (ow_lc w))"
proof -
  let ?stored = "if recovered then None else map_get stored repo"
  obtain existing e where b: "boot_epoch w ?stored repo = (existing, e)" by fastforce
  let ?P = "\<lambda>s. numbered (ow_lc w) s \<and> free_from e (next_sequence e) s"
  have start: "?P s \<and> ae_repoKey e = repo" if "numbered (ow_lc w) s \<and> startable w stored repo s" for s
    using b
  proof (cases rule: boot_epoch_cases)
    case stored
    with that show ?thesis
      by (auto simp: startable_def below_def free_from_def split: if_splits)
  next
    case created
    with that show ?thesis by (auto simp: startable_def fresh_epoch_def free_from_def)
  qed
  have wr: "after ?P (on_store (upsertEpoch (ow_lc w) (ow_pg w) (ow_io w) e)) (\<lambda>_. ?P) (numbered (ow_lc w))"
  proof (rule after_weaken [where Q = "\<lambda>_. ?P" and E = ?P])
    show "after ?P (on_store (upsertEpoch (ow_lc w) (ow_pg w) (ow_io w) e)) (\<lambda>_. ?P) ?P"
    proof (rule after_keeps [THEN iffD1], unfold keeps_def, intro allI impI)
      fix s assume P: "?P s"
      obtain r t where run: "upsertEpoch (ow_lc w) (ow_pg w) (ow_io w) e (ob_store s) = (r, t)" by fastforce
      have t: "stored_epochs (ow_lc w) t = map_set (ae_repoKey e) (normalizeEpoch (ow_lc w) e) (stored_epochs (ow_lc w) (ob_store s))
          \<or> stored_epochs (ow_lc w) t = stored_epochs (ow_lc w) (ob_store s)"
        using takes_epoch_upsert [unfolded takes_epoch_def, rule_format, OF run] by blast
      have "numbered (ow_lc w) (s\<lparr>ob_store := t\<rparr>)"
        using P free_below [of e "next_sequence e" s "ow_lc w"] numbered_store [OF _ _ t] by blast
      with P run show "?P (snd (on_store (upsertEpoch (ow_lc w) (ow_pg w) (ow_io w) e) s))"
        by (simp add: on_store_def free_from_def numbers_def)
    qed
  qed simp_all
  have log: "after ?P (log_event v) (\<lambda>_. ?P) (numbered (ow_lc w))" for v
    unfolding log_event_def by (rule after_modify) (simp add: free_log)
  have steps: "after ?P (bindA (whenA c (bindA (on_store (upsertEpoch (ow_lc w) (ow_pg w) (ow_io w) e))
      (\<lambda>_. log_event v))) (\<lambda>_. bindA (set_epoch e) (\<lambda>_. observeSnapshot w e True)))
      (\<lambda>_. numbered (ow_lc w)) (numbered (ow_lc w))" for c v
  proof (rule after_bind)
    show "after ?P (whenA c (bindA (on_store (upsertEpoch (ow_lc w) (ow_pg w) (ow_io w) e)) (\<lambda>_. log_event v)))
        (\<lambda>_. ?P) (numbered (ow_lc w))"
      by (intro after_when after_bind [OF wr] log)
    show "after ?P (bindA (set_epoch e) (\<lambda>_. observeSnapshot w e True)) (\<lambda>_. numbered (ow_lc w)) (numbered (ow_lc w))"
      by (rule after_bind [OF after_set_epoch]) (simp, rule after_pre [OF after_observeSnapshot], simp add: holding_def)
  qed
  show ?thesis
    unfolding boot_repo_def Let_def b prod.case by (rule after_pre [OF steps]) (use start in blast)
qed

text \<open>What happens to one repository leaves the numbers of the others.\<close>

definition silent_for :: "string \<Rightarrow> 'a observer_action \<Rightarrow> bool" where
  "silent_for repo m \<longleftrightarrow> (\<forall>id q. keeps (\<lambda>s. sequences (repo, id) (ob_emitted s) = q) m)"

lemma silent_modify: "(\<And>s. ob_emitted (f s) = ob_emitted s) \<Longrightarrow> silent_for repo (modifyA f)"
  by (simp add: silent_for_def keeps_modify)

lemma silent_store [simp]: "silent_for repo (on_store a)"
  by (simp add: silent_for_def keeps_def on_store_def split_beta)

lemma silent_intros:
  "silent_for repo (returnA x)" "silent_for repo (throwA e)" "silent_for repo (getsA g)"
  "silent_for repo m \<Longrightarrow> (\<And>x. silent_for repo (f x)) \<Longrightarrow> silent_for repo (bindA m f)"
  "(b \<Longrightarrow> silent_for repo u) \<Longrightarrow> silent_for repo (whenA b u)"
  "(b \<Longrightarrow> silent_for repo m) \<Longrightarrow> (\<not> b \<Longrightarrow> silent_for repo m') \<Longrightarrow> silent_for repo (if b then m else m')"
  by (simp_all add: silent_for_def keeps_intros)

lemma silent_emit: "fst (fst (the (sequence_of v))) \<noteq> repo \<Longrightarrow> silent_for repo (emit w v)"
  unfolding emit_def
  by (intro silent_intros) (auto simp: silent_for_def keeps_def sequences_snoc split: option.splits)

lemma silent_snapshot: "ae_repoKey e \<noteq> repo \<Longrightarrow> silent_for repo (observeSnapshot w e force)"
proof -
  assume r: "ae_repoKey e \<noteq> repo"
  have "silent_for repo (take_snapshot w e force)"
    using r unfolding take_snapshot_def record_snapshot_def Let_def log_lifecycle_def log_event_def set_epoch_def
    by (auto intro!: silent_intros silent_modify silent_emit simp: snapshot_of_def split: option.splits)
  then show ?thesis
    by (auto simp: silent_for_def keeps_def observeSnapshot_def log_event_def split: prod.splits sum.splits)
      (metis snd_conv)+
qed

lemma silent_boot: "repo' \<noteq> repo \<Longrightarrow> \<forall>x. map_get stored repo' = Some x \<longrightarrow> ae_repoKey x = repo'
    \<Longrightarrow> silent_for repo (boot_repo w recovered stored repo')"
proof -
  assume r: "repo' \<noteq> repo" "\<forall>x. map_get stored repo' = Some x \<longrightarrow> ae_repoKey x = repo'"
  obtain existing e where b: "boot_epoch w (if recovered then None else map_get stored repo') repo' = (existing, e)"
    by fastforce
  then have "ae_repoKey e = repo'" using r(2) by (cases rule: boot_epoch_cases) (auto split: if_splits)
  then show ?thesis using r(1) unfolding boot_repo_def Let_def b prod.case set_epoch_def log_event_def
    by (intro silent_intros silent_modify silent_snapshot silent_store) simp_all
qed

lemma silent_startable:
  "silent_for repo m \<Longrightarrow> keeps (startable w stored repo) m"
  unfolding keeps_def
proof (intro allI impI)
  fix s assume m: "silent_for repo m" and st: "startable w stored repo s"
  have "sequences (repo, id) (ob_emitted (snd (m s))) = sequences (repo, id) (ob_emitted s)" for id
    using m [unfolded silent_for_def, THEN spec, THEN spec, of id "sequences (repo, id) (ob_emitted s)"]
    by (simp add: keeps_def)
  with st show "startable w stored repo (snd (m s))"
    by (simp add: startable_def fresh_epoch_def below_def numbers_def)
qed

definition bootable :: "observer_world \<Rightarrow> observer \<Rightarrow> bool" where
  "bootable w s \<longleftrightarrow> distinct (ow_repositories w) \<and> (\<forall>repo \<in> set (ow_repositories w). fresh_epoch w repo s)"

lemma after_boot_repos:
  assumes "distinct repos"
  shows "after (\<lambda>s. numbered (ow_lc w) s \<and> (\<forall>repo \<in> set repos. startable w stored repo s))
    (forA (boot_repo w recovered stored) repos) (\<lambda>_. numbered (ow_lc w)) (numbered (ow_lc w))"
  using assms
proof (induction repos)
  case (Cons repo repos)
  let ?lc = "ow_lc w"
  have "after (\<lambda>s. numbered ?lc s \<and> (\<forall>r \<in> set (repo # repos). startable w stored r s)) (boot_repo w recovered stored repo)
      (\<lambda>_ s. numbered ?lc s \<and> (\<forall>r \<in> set repos. startable w stored r s)) (numbered ?lc)"
  proof (rule afterI)
    fix s er s' assume "numbered ?lc s \<and> (\<forall>r \<in> set (repo # repos). startable w stored r s)"
      and run: "boot_repo w recovered stored repo s = (Inl er, s')"
    then show "numbered ?lc s'" using after_error [OF after_boot_repo _ run] by simp
  next
    fix s u s' assume P: "numbered ?lc s \<and> (\<forall>r \<in> set (repo # repos). startable w stored r s)"
      and run: "boot_repo w recovered stored repo s = (Inr u, s')"
    have "startable w stored r s'" if "r \<in> set repos" for r
    proof -
      have "repo \<noteq> r" using that Cons.prems by auto
      moreover have "\<forall>x. map_get stored repo = Some x \<longrightarrow> ae_repoKey x = repo"
        using P by (simp add: startable_def)
      ultimately show ?thesis using silent_startable [OF silent_boot] P run that
        by (metis keepsD list.set_intros(2))
    qed
    with after_result [OF after_boot_repo _ run] P
    show "numbered ?lc s' \<and> (\<forall>r \<in> set repos. startable w stored r s')" by simp
  qed
  with Cons show ?case by (auto intro: after_bind)
qed (auto intro: after_return)

lemma initialize_lists:
  "observation_initialize lc t = (Inr (es, cs, r), t') \<Longrightarrow> es = map_values (stored_epochs lc t)"
  by (auto simp: observation_initialize_def listEpochs_def listCandidates_def observation_ensureLoaded_def
      stored_epochs_def bindA_def split: if_splits)

lemma after_boot: "after (\<lambda>s. numbered (ow_lc w) s \<and> bootable w s) (observer_boot w)
    (\<lambda>_. numbered (ow_lc w)) (numbered (ow_lc w))"
proof -
  let ?lc = "ow_lc w"
  let ?R = "\<lambda>es s. numbered ?lc s \<and> bootable w s \<and> (\<forall>x \<in> set es. below x s)"
  have init: "after (\<lambda>s. numbered ?lc s \<and> bootable w s) (on_store (observation_initialize ?lc))
      (\<lambda>x. ?R (fst x)) (numbered ?lc)"
  proof (rule afterI)
    fix s er s' assume "numbered ?lc s \<and> bootable w s" "on_store (observation_initialize ?lc) s = (Inl er, s')"
    with after_error [OF after_store_same [OF keeps_epochs_operations(3)]] show "numbered ?lc s'" by blast
  next
    fix s x s' assume P: "numbered ?lc s \<and> bootable w s" and run: "on_store (observation_initialize ?lc) s = (Inr x, s')"
    then obtain t where t: "observation_initialize ?lc (ob_store s) = (Inr x, t)" "s' = s\<lparr>ob_store := t\<rparr>"
      by (auto simp: on_store_def map_sum_def split: prod.splits sum.splits)
    with initialize_lists have "fst x = map_values (stored_epochs ?lc (ob_store s))" by (metis prod.collapse)
    with P have "\<forall>y \<in> set (fst x). below y s" using numberedD(3) [of ?lc s] by simp
    moreover have "numbered ?lc s'"
      using after_result [OF after_store_same [OF keeps_epochs_operations(3)] _ run] P by blast
    ultimately show "?R (fst x) s'" using P
      by (simp add: t(2) below_def numbers_def bootable_def fresh_epoch_def)
  qed
  have calm: "after (?R es) m (\<lambda>_. ?R es) (numbered ?lc)" if "calm m" for es and m :: "unit observer_action"
  proof (rule after_weaken [OF after_calm [OF that, of "?R es"]])
    fix s s' :: observer assume "core s = core s'"
    from core_cong [OF this] show "?R es s = ?R es s'" by (simp add: bootable_def fresh_epoch_def)
  qed simp_all
  have repos: "after (?R es) (forA (boot_repo w recovered (map_from ae_repoKey (filter P es))) (ow_repositories w))
      (\<lambda>_. numbered ?lc) (numbered ?lc)" for es recovered P
  proof (rule after_fact)
    show "?R es s \<Longrightarrow> distinct (ow_repositories w)" for s by (simp add: bootable_def)
    assume "distinct (ow_repositories w)"
    from after_boot_repos [OF this] show "after (?R es)
        (forA (boot_repo w recovered (map_from ae_repoKey (filter P es))) (ow_repositories w))
        (\<lambda>_. numbered ?lc) (numbered ?lc)"
      by (rule after_pre) (auto simp: bootable_def startable_def dest!: map_from_mem)
  qed
  show ?thesis unfolding observer_boot_def
  proof (rule after_bind [OF init])
    fix x :: "attribution_epoch list \<times> commit_candidate list \<times> bool"
    obtain es cs recovered where x: "x = (es, cs, recovered)" by (cases x)
    show "after (?R (fst x)) (case x of (es, cs, recovered) \<Rightarrow>
      bindA (modifyA (\<lambda>s. s\<lparr>ob_repositories := ow_repositories w\<rparr>)) (\<lambda>_.
      bindA (log_event (Repo_discovery (length (ow_repositories w)) (ow_skipped w))) (\<lambda>_.
      bindA (observer_lifecycle ''observer'' ''started'' ''repository_observer_started''
        (Some [(''repoCount'', num (length (ow_repositories w))), (''skippedCount'', num (ow_skipped w)),
          (''pollMs'', D_num (ow_pollMs w))])) (\<lambda>_.
      bindA (whenA recovered (log_event (Observer_skipped ''repository_observation_corrupt_new_epoch''))) (\<lambda>_.
      forA (boot_repo w recovered (map_from ae_repoKey (filter (\<lambda>e. ae_status e = Epoch_active) es)))
        (ow_repositories w)))))) (\<lambda>_. numbered ?lc) (numbered ?lc)"
      unfolding x prod.case fst_conv
      by (intro after_bind [OF calm] repos calm_intros calm_modify calm_log) simp_all
  qed
qed

text \<open>The operations that report nothing.\<close>

datatype observer_op =
    Stop_observer
  | Schedule
  | Queue_request int
  | Drain_requests
  | Request_window int "int option"
  | Update_observed commit_candidate
  | Retain_observed
  | Clear_observer

fun run_observer_op :: "observer_world \<Rightarrow> observer_op \<Rightarrow> unit observer_action" where
  "run_observer_op w Stop_observer = observer_stop"
| "run_observer_op w Schedule = scheduleNext w"
| "run_observer_op w (Queue_request t) = queue_scan t"
| "run_observer_op w Drain_requests = drain_requests w"
| "run_observer_op w (Request_window d p) = requestActiveObservationWindow w d p"
| "run_observer_op w (Update_observed c) = observer_updateCandidate w c"
| "run_observer_op w Retain_observed = bindA (observer_applyRetention w) (\<lambda>_. returnA ())"
| "run_observer_op w Clear_observer = observer_clear w"

lemma calm_schedule: "calm (scheduleNext w)"
  unfolding scheduleNext_def expire_window_def by (auto intro!: calm_intros calm_modify split: prod.splits)

lemma calm_operations: "calm observer_stop" "calm (queue_scan t)" "calm (drain_requests w)"
  "calm (requestActiveObservationWindow w d p)"
  unfolding observer_stop_def queue_scan_def drain_requests_def requestActiveObservationWindow_def reschedule_def
    Let_def if_False
  by (auto intro!: calm_intros calm_modify calm_schedule split: prod.splits)

lemma after_operation:
  "after (numbered (ow_lc w)) (run_observer_op w op) (\<lambda>_. numbered (ow_lc w)) (numbered (ow_lc w))"
proof -
  have calm: "after (numbered lc) m (\<lambda>_. numbered lc) (numbered lc)" if "calm m" for lc and m :: "unit observer_action"
    by (rule after_calm [OF that]) (rule core_cong)
  note store = after_store_same keeps_epochs_operations
  show ?thesis
    by (cases op; simp only: run_observer_op.simps observer_updateCandidate_def observer_applyRetention_def;
        (rule calm calm_schedule calm_operations after_clear after_bind store after_return; assumption?)+)
qed

text \<open>
  What a process can reach from any file, when git, the clock, the file system and the handlers
  behave in any way: a new world for every step.
\<close>

definition new_observer :: "stored_observation disk \<Rightarrow> observer" where
  "new_observer f = \<lparr>ob_repositories = [], ob_epochs = [], ob_snapshots = [], ob_signatures = [],
     ob_store = \<lparr>du_load = None, du_memory = no_observations, du_file = f\<rparr>, ob_running = False, ob_timer = None,
     ob_activeUntil = 0, ob_activePollMs = None, ob_activeLogged = False, ob_queued = 0, ob_queuedSince = 0,
     ob_emitted = [], ob_log = []\<rparr>"

inductive observer_reachable :: "collation \<Rightarrow> observer \<Rightarrow> bool" for lc where
  fresh: "observer_reachable lc (new_observer f)"
| boot: "observer_reachable lc s \<Longrightarrow> ow_lc w = lc \<Longrightarrow> bootable w s \<Longrightarrow> observer_boot w s = (r, s')
    \<Longrightarrow> observer_reachable lc s'"
| scan: "observer_reachable lc s \<Longrightarrow> ow_lc w = lc \<Longrightarrow> fresh_epoch w repo s \<Longrightarrow> scanRepo w repo s = (r, s')
    \<Longrightarrow> observer_reachable lc s'"
| other: "observer_reachable lc s \<Longrightarrow> ow_lc w = lc \<Longrightarrow> run_observer_op w op s = (r, s') \<Longrightarrow> observer_reachable lc s'"

lemma numbered_fresh: "numbered lc (new_observer f)"
proof -
  have "keyed_normal ae_repoKey id (om_epochs (observation_load lc no_observations f))"
    by (auto simp: observation_load_def no_observations_def loaded_observations_def keyed_normal_from split: disk.splits)
  then show ?thesis
    by (simp add: numbered_def new_observer_def below_def numbers_def sequences_def List.map_filter_def
        stored_epochs_def observation_ensureLoaded_def)
qed

lemma reachable_numbered: "observer_reachable lc s \<Longrightarrow> numbered lc s"
proof (induction rule: observer_reachable.induct)
  case (boot s w r s')
  then show ?case using after_both [OF after_boot, of w s r s'] by simp
next
  case (scan s w repo r s')
  then show ?case using after_both [OF after_scanRepo, of w s repo r s'] by simp
next
  case (other s w op r s')
  then show ?case using after_both [OF after_operation, of w s op r s'] by simp
qed (rule numbered_fresh)

text \<open>
  C7: the numbers of observations are never used twice. In every state that a process reaches from
  any file, whatever git, the file system, the privacy guard and the handlers did, the candidates
  and snapshots of an epoch were reported with strictly increasing numbers, and the epoch that is
  held for a repository gives out only larger ones.
\<close>

theorem sequences_never_reused:
  assumes "observer_reachable lc s"
  shows "sorted_wrt (<) (sequences k (ob_emitted s))
    \<and> (map_get (ob_epochs s) repo = Some e \<longrightarrow>
        (\<forall>n \<in> set (sequences (repo, ae_epochId e) (ob_emitted s)). n < next_sequence e))"
  using numberedD(1, 2) [OF reachable_numbered [OF assms]] by (fastforce simp: below_def numbers_def)

text \<open>A repository with a commit \<open>head\<close> on \<open>main\<close>, and everything that is asked succeeds.\<close>

definition sample_snapshot :: "string \<Rightarrow> git_snapshot" where
  "sample_snapshot head = \<lparr>gs_headCommit = Some head, gs_branch = Some ''main'', gs_dirty = False, gs_dirtyKnown = True,
     gs_artifactCoverage = Complete_artifacts, gs_capturedAt = ''2026-01-01T00:00:00.000Z'', gs_artifacts = []\<rparr>"

definition sample_diff :: commit_diff where
  "sample_diff = \<lparr>cd_commitMessage = None, cd_parentHashes = [], cd_capturedAt = ''2026-01-01T00:00:00.000Z'',
     cd_committedAt = None, cd_artifactStates = []\<rparr>"

definition sample_world :: "string \<Rightarrow> observer_world" where
  "sample_world head = \<lparr>ow_lc = code_unit_compare, ow_pg = (\<lambda>_. []), ow_io = True, ow_now = 0,
     ow_uuid = (\<lambda>_. ''u''), ow_pollMs = 2000, ow_handles = (\<lambda>_. True), ow_onSnapshot = (\<lambda>_. True),
     ow_repositories = [''r''], ow_skipped = 0, ow_currentHead = (\<lambda>_. Some head),
     ow_currentRefKey = (\<lambda>_. Some ''main''), ow_listRefs = (\<lambda>_. [(''main'', head)]),
     ow_isAncestor = (\<lambda>_ _ _. True), ow_commitsBetween = (\<lambda>_ _ b. [b]),
     ow_commitDiff = (\<lambda>_ _. Some sample_diff), ow_commitMessage = (\<lambda>_ _. None),
     ow_snapshot = (\<lambda>_. Some (sample_snapshot head))\<rparr>"

definition sample_booted :: observer where
  "sample_booted = snd (observer_boot (sample_world ''a'') (new_observer Missing))"

definition sample_scanned :: observer where
  "sample_scanned = snd (scanRepo ((sample_world ''b'')\<lparr>ow_uuid := (\<lambda>_. ''v'')\<rparr>) ''r'' sample_booted)"

lemma sample_booted_reachable: "observer_reachable code_unit_compare sample_booted"
  unfolding sample_booted_def
  by (rule observer_reachable.boot [OF observer_reachable.fresh _ _ prod.collapse [symmetric]])
    (simp add: sample_world_def, simp add: bootable_def sample_world_def fresh_epoch_def numbers_def
      new_observer_def sequences_def List.map_filter_def)

lemma sample_scanned_reachable: "observer_reachable code_unit_compare sample_scanned"
  unfolding sample_scanned_def
  by (rule observer_reachable.scan [OF sample_booted_reachable _ _ prod.collapse [symmetric]])
    (simp add: sample_world_def, code_simp)

theorem sequences_never_reused_witness:
  "sequences (''r'', ''u'') (ob_emitted sample_scanned) = [1, 2, 3]
   \<and> (\<exists>e. map_get (ob_epochs sample_scanned) ''r'' = Some e \<and> sorted_wrt (<) (sequences (''r'', ''u'') (ob_emitted sample_scanned)))"
proof -
  have "sequences (''r'', ''u'') (ob_emitted sample_scanned) = [1, 2, 3]" by code_simp
  moreover have "map_get (ob_epochs sample_scanned) ''r'' \<noteq> None" by code_simp
  ultimately show ?thesis using sequences_never_reused [OF sample_scanned_reachable, of "(''r'', ''u'')"] by auto
qed

end
