(* ===== verification/RepositoryScans.thy ===== *)
theory RepositoryScans
  imports RepositoryObservationProperties
begin

text \<open>
  Scans that follow each other: a repository that did not change is not reported again, and a scan
  that failed is not made up for.
\<close>

section \<open>References at rest\<close>

definition quiet_refs :: "observer_world \<Rightarrow> string option \<Rightarrow> attribution_epoch \<Rightarrow> bool" where
  "quiet_refs w skip e \<longleftrightarrow>
     (let previous = nullish (ae_refHeads e) []; current = refHeadMap (ow_listRefs w (ae_repoKey e))
      in (\<forall>k. map_get previous k = map_get current k \<or> Some k = skip)
        \<and> sameRefHeads previous (reconciled_refs skip previous current))"

lemma sameRefHeads_refl: "sameRefHeads m m"
  by (simp add: sameRefHeads_def list_all_iff)

lemma sameRefHeads_get:
  assumes "sameRefHeads a b"
  shows "map_get a k = map_get b k"
proof (cases "k \<in> set (map fst a)")
  case True
  with assms show ?thesis by (auto simp: sameRefHeads_def list_all_iff)
next
  case False
  from assms have "set (sort (map fst a)) = set (sort (map fst b))" by (simp only: sameRefHeads_def)
  then have "set (map fst a) = set (map fst b)" by (simp only: set_sort)
  with False have "map_get a k = None" "map_get b k = None" by (simp_all add: map_of_eq_None_iff)
  then show ?thesis by simp
qed

lemma ref_delete_get: "map_get (ref_delete k m) k' = (if k' = k then None else map_get m k')"
  by (induction m) (auto simp: ref_delete_def)

lemma ref_delete_absent: "map_get m k = None \<Longrightarrow> ref_delete k m = m"
  by (induction m) (auto simp: ref_delete_def split: if_splits)

lemma reconciled_get: "Some k \<noteq> skip \<Longrightarrow> map_get (reconciled_refs skip previous current) k = map_get current k"
  by (cases skip) (auto simp: reconciled_refs_def Let_def ref_delete_get)

lemma reconciled_again:
  "reconciled_refs skip (reconciled_refs skip previous current) current = reconciled_refs skip previous current"
proof (cases skip)
  case (Some k)
  then show ?thesis
    by (cases "map_get previous k") (auto simp: reconciled_refs_def Let_def ref_delete_get)
qed (simp add: reconciled_refs_def)

lemma reconciled_same:
  assumes "\<forall>k. map_get current k \<noteq> Some ''''"
  shows "sameRefHeads current (reconciled_refs skip current current)"
proof (cases "truthy skip")
  case True
  then obtain k where k: "skip = Some k" by (cases skip) auto
  show ?thesis
  proof (cases "map_get current k")
    case None
    then show ?thesis using k by (simp add: reconciled_refs_def Let_def ref_delete_absent sameRefHeads_refl)
  next
    case (Some h)
    with assms have "truthy (Some h)" by (metis truthy_simps(2))
    moreover have "k \<in> set (map fst current)" using Some by (metis map_of_eq_None_iff option.simps(3) set_map)
    ultimately show ?thesis using True k Some
      by (auto simp: reconciled_refs_def Let_def sameRefHeads_def list_all_iff keys_map_set)
  qed
qed (simp add: reconciled_refs_def sameRefHeads_refl)

lemma quiet_refs_reconciled:
  assumes "previous = nullish (ae_refHeads e) []" "current = refHeadMap (ow_listRefs w (ae_repoKey e))"
  shows "sameRefHeads previous (reconciled_refs skip previous current) \<Longrightarrow> quiet_refs w skip e"
    "quiet_refs w skip (e\<lparr>ae_refHeads := Some (reconciled_refs skip previous' current)\<rparr>)"
  using assms reconciled_get [of _ skip] sameRefHeads_get
  by (auto simp: quiet_refs_def Let_def reconciled_again sameRefHeads_refl) (metis+)?

lemma quiet_fold:
  assumes "\<forall>k. map_get previous k = map_get current k \<or> Some k = skip"
  shows "foldA (scan_ref w skip current) ks (e, previous) s = (Inr (e, previous), s)"
proof (induction ks)
  case (Cons k ks)
  have "scan_ref w skip current k (e, previous) s = (Inr (e, previous), s)"
    using assms by (auto simp: scan_ref_def Let_def)
  with Cons show ?case by simp
qed simp

lemma quiet_transitions:
  assumes "quiet_refs w skip e"
  shows "scanRefTransitions w e skip s = (Inr e, s)"
proof -
  from assms have q: "\<forall>k. map_get (nullish (ae_refHeads e) []) k
      = map_get (refHeadMap (ow_listRefs w (ae_repoKey e))) k \<or> Some k = skip"
    and same: "sameRefHeads (nullish (ae_refHeads e) [])
      (reconciled_refs skip (nullish (ae_refHeads e) []) (refHeadMap (ow_listRefs w (ae_repoKey e))))"
    unfolding quiet_refs_def Let_def by blast+
  show ?thesis using same unfolding scanRefTransitions_def Let_def
    by (subst bindA_step(1) [OF quiet_fold [OF q]]) simp
qed

section \<open>A repository that rests\<close>

text \<open>The cursor of the epoch is at the head and the reference of git, when there is a head.\<close>

definition cursor_at :: "observer_world \<Rightarrow> attribution_epoch \<Rightarrow> bool" where
  "cursor_at w e \<longleftrightarrow> \<not> truthy (ow_currentHead w (ae_repoKey e))
     \<or> (ae_cursorHead e = ow_currentHead w (ae_repoKey e) \<and> ae_cursorRefKey e = ow_currentRefKey w (ae_repoKey e))"

definition settled :: "observer_world \<Rightarrow> string \<Rightarrow> observer \<Rightarrow> bool" where
  "settled w repo s \<longleftrightarrow> (\<exists>e. map_get (ob_epochs s) repo = Some e \<and> ae_repoKey e = repo \<and> cursor_at w e
     \<and> quiet_refs w (ow_currentRefKey w repo) e
     \<and> map_get (ob_signatures s) repo = map_option snapshotSignature (ow_snapshot w repo))"

lemma candidates_of_commits:
  "candidatesForCommits w e ref kind reason hs = (cs, e') \<Longrightarrow>
     ae_cursorHead e' = ae_cursorHead e \<and> ae_cursorRefKey e' = ae_cursorRefKey e \<and> ae_repoKey e' = ae_repoKey e
     \<and> (\<forall>c \<in> set cs. cc_refKey c = ref)"
proof (induction hs arbitrary: e cs)
  case (Cons h hs)
  then show ?case
    by (fastforce simp: candidate_of_commit_def split: option.splits prod.splits)
qed simp

lemma ensures_transitions:
  "ensures (\<lambda>_. True) (scanRefTransitions w e skip) (\<lambda>e'. quiet_refs w skip e' \<and> ae_repoKey e' = ae_repoKey e
     \<and> ae_cursorHead e' = ae_cursorHead e \<and> ae_cursorRefKey e' = ae_cursorRefKey e)"
proof -
  let ?current = "refHeadMap (ow_listRefs w (ae_repoKey e))"
  let ?Q = "\<lambda>(e', previous). previous = nullish (ae_refHeads e') [] \<and> ae_repoKey e' = ae_repoKey e
    \<and> ae_cursorHead e' = ae_cursorHead e \<and> ae_cursorRefKey e' = ae_cursorRefKey e"
  have skip: "ensures (\<lambda>_. True) m (\<lambda>_. True)" for m :: "unit observer_action"
    by (auto simp: ensures_def split: sum.splits)
  have one: "ensures (\<lambda>_. True) (scan_ref w skip ?current k y) ?Q" if "?Q y" for k y
    using that unfolding scan_ref_def Let_def
    by (auto intro!: ensures_return ensures_bind [OF skip] split: prod.splits dest: candidates_of_commits)
  have all: "ensures (\<lambda>_. True) (foldA (scan_ref w skip ?current) ks y) ?Q" if "?Q y" for ks y
    by (rule ensures_fold) (rule one, assumption, rule that)
  show ?thesis unfolding scanRefTransitions_def Let_def
    by (rule ensures_bind [OF all])
      (auto intro!: ensures_return ensures_bind [OF skip] quiet_refs_reconciled(1)
        quiet_refs_reconciled(2) [OF refl] split: prod.splits)
qed

text \<open>A snapshot that git could take leaves its signature, even when it could not be stored.\<close>

lemma snapshot_leaves:
  assumes "ow_snapshot w repo = Some g"
  shows "after (\<lambda>s. map_get (ob_epochs s) repo = Some e \<and> ae_repoKey e = repo) (observeSnapshot w e force)
    (\<lambda>_ s. map_get (ob_epochs s) repo \<in> {Some e, Some (take_sequence e)}
      \<and> map_get (ob_signatures s) repo = Some (snapshotSignature g)) (\<lambda>_. False)"
proof -
  let ?R = "\<lambda>s. map_get (ob_epochs s) repo \<in> {Some e, Some (take_sequence e)}
      \<and> map_get (ob_signatures s) repo = Some (snapshotSignature g)"
  have keep: "keeps ?R (on_store a)" "keeps ?R (log_event v)" "keeps ?R (emit w x)" for a :: "unit observation_action" and v x
    by (auto simp: keeps_def on_store_def log_event_def emit_def bindA_def split: prod.splits)
  have "after (\<lambda>s. map_get (ob_epochs s) repo = Some e \<and> ae_repoKey e = repo) (record_snapshot w e force g) (\<lambda>_. ?R) ?R"
    unfolding record_snapshot_def Let_def
  proof (rule after_bind [where Q = "\<lambda>_ s. map_get (ob_epochs s) repo = Some (take_sequence e) \<and> ae_repoKey e = repo"], goal_cases)
    case 1
    show ?case unfolding set_epoch_def by (rule after_modify) auto
  next
    case 2
    show ?case
    proof (rule after_bind [where Q = "\<lambda>_. ?R"], goal_cases)
      case 1
      show ?case by (rule after_modify) auto
    next
      case 2
      show ?case unfolding after_keeps [symmetric] log_lifecycle_def by (intro keeps_intros keep)
    qed
  qed
  note rec = this
  have taken: "take_snapshot w e force s = (if \<not> force \<and> map_get (ob_signatures s) repo = Some (snapshotSignature g)
      then (Inr (), s) else record_snapshot w e force g s)" if "ae_repoKey e = repo" for s
    using that assms by (simp add: take_snapshot_def bindA_def)
  have "after (\<lambda>s. map_get (ob_epochs s) repo = Some e \<and> ae_repoKey e = repo) (take_snapshot w e force) (\<lambda>_. ?R) ?R"
  proof (rule afterI)
    fix s er s' assume P: "map_get (ob_epochs s) repo = Some e \<and> ae_repoKey e = repo"
      and "take_snapshot w e force s = (Inl er, s')"
    with taken have "record_snapshot w e force g s = (Inl er, s')" by (simp split: if_splits)
    with after_error [OF rec] P show "?R s'" by blast
  next
    fix s u s' assume P: "map_get (ob_epochs s) repo = Some e \<and> ae_repoKey e = repo"
      and run: "take_snapshot w e force s = (Inr u, s')"
    show "?R s'"
    proof (cases "record_snapshot w e force g s = (Inr u, s')")
      case True
      with after_result [OF rec] P show ?thesis by blast
    next
      case False
      with P run taken [of s] show ?thesis by (auto split: if_splits)
    qed
  qed
  then show ?thesis
    by (auto simp: after_def observeSnapshot_def log_event_def split: prod.splits sum.splits)
qed

lemma settled_snapshot:
  assumes "ow_snapshot w (ae_repoKey e) = Some g" "cursor_at w e" "quiet_refs w (ow_currentRefKey w (ae_repoKey e)) e"
  shows "after (\<lambda>s. map_get (ob_epochs s) (ae_repoKey e) = Some e) (observeSnapshot w e force)
    (\<lambda>_. settled w (ae_repoKey e)) (\<lambda>_. True)"
proof (rule after_weaken [OF after_pre [OF snapshot_leaves [OF assms(1)]]])
  fix s :: observer
  show "map_get (ob_epochs s) (ae_repoKey e) = Some e \<Longrightarrow>
      map_get (ob_epochs s) (ae_repoKey e) = Some e \<and> ae_repoKey e = ae_repoKey e" by simp
  have "quiet_refs w r (take_sequence e) = quiet_refs w r e" "cursor_at w (take_sequence e) = cursor_at w e" for r
    by (simp_all add: quiet_refs_def cursor_at_def)
  with assms show "map_get (ob_epochs s) (ae_repoKey e) \<in> {Some e, Some (take_sequence e)}
      \<and> map_get (ob_signatures s) (ae_repoKey e) = Some (snapshotSignature g) \<Longrightarrow> settled w (ae_repoKey e) s"
    by (auto simp: settled_def)
qed simp

lemma settled_rest:
  assumes "ow_snapshot w (ae_repoKey e) = Some g" "cursor_at w e"
  shows "after (holding (ow_lc w) e) (scan_rest w e) (\<lambda>_. settled w (ae_repoKey e)) (\<lambda>_. True)"
proof -
  let ?ref = "ow_currentRefKey w (ae_repoKey e)"
  let ?Q = "\<lambda>e' s. map_get (ob_epochs s) (ae_repoKey e') = Some e' \<and> quiet_refs w ?ref e' \<and> ae_repoKey e' = ae_repoKey e
    \<and> ae_cursorHead e' = ae_cursorHead e \<and> ae_cursorRefKey e' = ae_cursorRefKey e"
  have "after (holding (ow_lc w) e) (scanRefTransitions w e ?ref) ?Q (\<lambda>_. True)"
  proof (rule afterI)
    fix s e' s' assume "holding (ow_lc w) e s" and run: "scanRefTransitions w e ?ref s = (Inr e', s')"
    with after_result [OF after_scanRefTransitions _ run] ensuresD [OF ensures_transitions _ run]
    show "?Q e' s'" by (auto simp: holding_def)
  qed simp
  moreover have "after (?Q e') (observeSnapshot w e' False) (\<lambda>_. settled w (ae_repoKey e)) (\<lambda>_. True)" for e'
  proof (rule after_fact)
    show "?Q e' s \<Longrightarrow> quiet_refs w ?ref e' \<and> ae_repoKey e' = ae_repoKey e \<and> ae_cursorHead e' = ae_cursorHead e
        \<and> ae_cursorRefKey e' = ae_cursorRefKey e" for s by simp
    assume a: "quiet_refs w ?ref e' \<and> ae_repoKey e' = ae_repoKey e \<and> ae_cursorHead e' = ae_cursorHead e
        \<and> ae_cursorRefKey e' = ae_cursorRefKey e"
    with assms have "cursor_at w e'" by (simp add: cursor_at_def)
    from after_pre [OF settled_snapshot [of w e' g, OF _ this]] a assms(1)
    show "after (?Q e') (observeSnapshot w e' False) (\<lambda>_. settled w (ae_repoKey e)) (\<lambda>_. True)" by auto
  qed
  ultimately show ?thesis unfolding scan_rest_def by (rule after_bind)
qed

text \<open>git does not list a reference without its commit (\<open>for-each-ref\<close> with \<open>%(objectname)\<close>).\<close>

definition listed_commits :: "observer_world \<Rightarrow> string \<Rightarrow> bool" where
  "listed_commits w repo \<longleftrightarrow> (\<forall>(ref, head) \<in> set (ow_listRefs w repo). head \<noteq> '''')"

lemma refHeadMap_get: "map_get (refHeadMap refs) k = Some h \<Longrightarrow> (k, h) \<in> set refs"
proof -
  have "map_get (foldl (\<lambda>m (k, h). map_set k h m) m refs) k = Some h \<Longrightarrow> map_get m k = Some h \<or> (k, h) \<in> set refs"
    for m by (induction refs arbitrary: m) (fastforce split: if_splits)+
  then show "map_get (refHeadMap refs) k = Some h \<Longrightarrow> (k, h) \<in> set refs" by (fastforce simp: refHeadMap_def)
qed

lemma settled_reset:
  assumes "ow_snapshot w repo = Some g" "listed_commits w repo"
  shows "after (\<lambda>s. numbered (ow_lc w) s \<and> fresh_epoch w repo s) (scan_reset w repo) (\<lambda>_. settled w repo) (\<lambda>_. True)"
proof -
  let ?e = "createEpoch w repo" and ?P = "\<lambda>s. numbered (ow_lc w) s \<and> fresh_epoch w repo s"
  have "\<forall>k. map_get (refHeadMap (ow_listRefs w repo)) k \<noteq> Some ''''"
    using assms(2) by (auto simp: listed_commits_def dest: refHeadMap_get)
  then have "quiet_refs w (ow_currentRefKey w repo) ?e"
    by (intro quiet_refs_reconciled(1) [OF refl refl]) (simp add: createEpoch_def reconciled_same)
  moreover have "cursor_at w ?e" by (simp add: cursor_at_def createEpoch_def)
  ultimately have seen: "after (\<lambda>s. map_get (ob_epochs s) repo = Some ?e) (observeSnapshot w ?e True)
      (\<lambda>_. settled w repo) (\<lambda>_. True)"
    using settled_snapshot [of w ?e g True] assms(1) by simp
  have "after ?P (write_epoch w ?e) (\<lambda>_. room (ow_lc w) ?e 1) (\<lambda>_. True)"
    by (rule after_weaken [OF after_pre [OF after_write(1)]]) (simp_all add: fresh_epoch_def free_from_def)
  then show ?thesis unfolding scan_reset_def
    by (rule after_bind) (rule after_pre [OF seen], simp add: room_def holding_def)
qed

lemma settled_step:
  assumes "ow_snapshot w repo = Some g" "listed_commits w repo"
  shows "after (\<lambda>s. holding (ow_lc w) e s \<and> fresh_epoch w (ae_repoKey e) s \<and> ae_repoKey e = repo) (scan_step w repo e)
    (\<lambda>_. settled w repo) (\<lambda>_. True)"
proof (rule after_fact)
  assume repo: "ae_repoKey e = repo"
  have rest: "after (holding (ow_lc w) e') (scan_rest w e') (\<lambda>_. settled w repo) (\<lambda>_. True)"
    if "ae_repoKey e' = repo" "cursor_at w e'" for e'
    using settled_rest [of w e' g] assms that by simp
  have head: "after (holding (ow_lc w) e') (scan_rest w e') (\<lambda>_. settled w repo) (\<lambda>_. True)"
    if "truthy (ow_currentHead w repo)" "ae_repoKey e' = ae_repoKey e"
      "ae_cursorHead e' = Some (the (ow_currentHead w repo))" "ae_cursorRefKey e' = ow_currentRefKey w repo" for e'
    using rest [of e'] that repo by (cases "ow_currentHead w repo") (simp_all add: cursor_at_def)
  show "after (\<lambda>s. holding (ow_lc w) e s \<and> fresh_epoch w (ae_repoKey e) s \<and> ae_repoKey e = repo) (scan_step w repo e)
      (\<lambda>_. settled w repo) (\<lambda>_. True)"
    unfolding scan_step_def Let_def
    by (intro after_if after_pre [OF rest] after_pre [OF after_scan_root [OF head]]
        after_pre [OF after_scan_moved [OF head]] after_pre [OF settled_reset [OF assms]])
      (auto simp: repo cursor_at_def holding_def)
qed simp

text \<open>A world in which git answers as before, at another time, and the store and handlers may behave otherwise.\<close>

definition same_git :: "observer_world \<Rightarrow> observer_world \<Rightarrow> string \<Rightarrow> bool" where
  "same_git w w' repo \<longleftrightarrow> ow_currentHead w' repo = ow_currentHead w repo
     \<and> ow_currentRefKey w' repo = ow_currentRefKey w repo \<and> ow_listRefs w' repo = ow_listRefs w repo
     \<and> map_option snapshotSignature (ow_snapshot w' repo) = map_option snapshotSignature (ow_snapshot w repo)"

lemma settled_quiet:
  assumes "settled w repo s" "ow_snapshot w repo = Some g" "same_git w w' repo"
  shows "scanRepo w' repo s = (Inr (), s)"
proof -
  from assms(1) obtain e where e: "map_get (ob_epochs s) repo = Some e" "ae_repoKey e = repo" "cursor_at w e"
    "quiet_refs w (ow_currentRefKey w repo) e" "map_get (ob_signatures s) repo = map_option snapshotSignature (ow_snapshot w repo)"
    unfolding settled_def by blast
  with assms(3) have quiet: "quiet_refs w' (ow_currentRefKey w' repo) e" by (simp add: quiet_refs_def same_git_def)
  have "take_snapshot w' e False s = (Inr (), s)"
    using e assms by (auto simp: take_snapshot_def same_git_def bindA_def)
  then have "scan_rest w' e s = (Inr (), s)"
    using quiet_transitions [OF quiet] e(2) by (simp add: scan_rest_def observeSnapshot_def)
  moreover have "scan_step w' repo e = scan_rest w' e"
    using e(2, 3) assms(3) by (auto simp: scan_step_def cursor_at_def same_git_def Let_def)
  ultimately show ?thesis using e(1) by (simp add: scanRepo_def bindA_def)
qed

text \<open>
  C8: a repository that did not change is not reported again. When a scan of a repository came to
  its end and git could take a snapshot, another scan in which git answers the same succeeds and
  changes nothing: it reports nothing, gives out no number and does not write, even if the store
  or the handlers would refuse.
\<close>

theorem quiet_repository_not_reported:
  assumes "observer_reachable (ow_lc w) s" "fresh_epoch w repo s" "scanRepo w repo s = (Inr (), s1)"
    and "ow_snapshot w repo = Some g" "listed_commits w repo" "same_git w w' repo"
  shows "scanRepo w' repo s1 = (Inr (), s1)"
proof (cases "map_get (ob_epochs s) repo")
  case None
  with assms(3) show ?thesis by (simp add: scanRepo_def bindA_def)
next
  case (Some e)
  note num = reachable_numbered [OF assms(1)]
  from Some num have "holding (ow_lc w) e s \<and> fresh_epoch w (ae_repoKey e) s \<and> ae_repoKey e = repo"
    using numberedD(2) [OF num Some] assms(2) by (simp add: holding_def)
  moreover from Some assms(3) have "scan_step w repo e s = (Inr (), s1)" by (simp add: scanRepo_def bindA_def)
  ultimately have "settled w repo s1" using after_result [OF settled_step [OF assms(4, 5)]] by blast
  from settled_quiet [OF this assms(4, 6)] show ?thesis .
qed

definition second_world :: observer_world where
  "second_world = (sample_world ''b'')\<lparr>ow_uuid := (\<lambda>_. ''v'')\<rparr>"

theorem quiet_repository_not_reported_witness:
  "length (ob_emitted sample_scanned) = 4
   \<and> scanRepo (second_world\<lparr>ow_now := 9, ow_io := False\<rparr>) ''r'' sample_scanned = (Inr (), sample_scanned)"
proof
  show "length (ob_emitted sample_scanned) = 4" by code_simp
  have r: "observer_reachable (ow_lc second_world) sample_booted"
    using sample_booted_reachable by (simp add: second_world_def sample_world_def)
  have f: "fresh_epoch second_world ''r'' sample_booted" by code_simp
  have "fst (scanRepo second_world ''r'' sample_booted) = Inr ()" by code_simp
  then have s: "scanRepo second_world ''r'' sample_booted = (Inr (), sample_scanned)"
    by (metis prod.collapse sample_scanned_def second_world_def)
  show "scanRepo (second_world\<lparr>ow_now := 9, ow_io := False\<rparr>) ''r'' sample_scanned = (Inr (), sample_scanned)"
    by (rule quiet_repository_not_reported [OF r f s])
      (simp_all add: second_world_def sample_world_def listed_commits_def same_git_def)
qed

section \<open>A scan that failed\<close>

text \<open>The epoch that is held for a repository has the cursor at \<open>head\<close> and \<open>ref\<close>.\<close>

definition at_cursor :: "string option \<Rightarrow> string option \<Rightarrow> attribution_epoch \<Rightarrow> bool" where
  "at_cursor head ref e \<longleftrightarrow> ae_cursorHead e = head \<and> ae_cursorRefKey e = ref"

definition held_at :: "string \<Rightarrow> string option \<Rightarrow> string option \<Rightarrow> observer \<Rightarrow> bool" where
  "held_at repo head ref s \<longleftrightarrow>
     (\<exists>e. map_get (ob_epochs s) repo = Some e \<and> ae_repoKey e = repo \<and> at_cursor head ref e)"

lemma held_core:
  "keeps (held_at repo h r) (on_store a)" "keeps (held_at repo h r) (log_event v)"
  "keeps (held_at repo h r) (log_lifecycle x y z u)" "keeps (held_at repo h r) (emit w e)"
  by (simp_all add: keeps_def on_store_def log_event_def log_lifecycle_def emit_def bindA_def held_at_def split_beta)

lemma held_set_epoch:
  "ae_repoKey e = repo \<Longrightarrow> at_cursor h r e \<Longrightarrow> after P (set_epoch e) (\<lambda>_. held_at repo h r) E"
  "ae_repoKey e = repo \<Longrightarrow> at_cursor h r e \<Longrightarrow> keeps (held_at repo h r) (set_epoch e)"
  by (auto simp: set_epoch_def held_at_def keeps_def intro: after_modify)

lemma held_candidates:
  "keeps (held_at repo h r) (forA (emit_candidate w) cs)"
  "keeps (held_at repo h r) (forA (\<lambda>c. emit w (Candidate_observed c)) cs)"
  unfolding emit_candidate_def by (intro keeps_intros held_core)+

lemma held_ref_change:
  assumes "ae_repoKey e = repo" "at_cursor h r e"
  shows "keeps (held_at repo h r) (ref_change w e refKey kind cs reason commit details)"
  unfolding ref_change_def advance_def
  by (intro keeps_intros held_core held_set_epoch(2) held_candidates assms)

text \<open>What keeps a statement of the state and gives results with another one.\<close>

lemma ensures_keeps: "keeps P m \<Longrightarrow> ensures P m (\<lambda>_. True)"
  by (auto simp: keeps_def ensures_def split: sum.splits)

lemma held_scan_ref:
  assumes "ae_repoKey (fst y) = repo" "at_cursor h r (fst y)"
  shows "ensures (held_at repo h r) (scan_ref w skip current k y)
    (\<lambda>y'. ae_repoKey (fst y') = repo \<and> at_cursor h r (fst y'))"
  using assms unfolding scan_ref_def Let_def
  by (auto intro!: ensures_return ensures_bind [OF ensures_keeps [OF held_ref_change]] split: prod.splits
      dest!: candidates_of_commits simp: at_cursor_def)

lemma held_transitions:
  assumes "ae_repoKey e = repo" "at_cursor h r e"
  shows "ensures (held_at repo h r) (scanRefTransitions w e skip) (\<lambda>e'. ae_repoKey e' = repo \<and> at_cursor h r e')"
  unfolding scanRefTransitions_def Let_def
proof (rule ensures_bind)
  let ?Q = "\<lambda>y. ae_repoKey (fst y) = repo \<and> at_cursor h r (fst y)"
  show "ensures (held_at repo h r) (foldA (scan_ref w skip (refHeadMap (ow_listRefs w (ae_repoKey e))))
      (dedup (map fst (nullish (ae_refHeads e) []) @ map fst (refHeadMap (ow_listRefs w (ae_repoKey e)))))
      (e, nullish (ae_refHeads e) [])) ?Q"
    by (rule ensures_fold) (auto intro: held_scan_ref simp: assms)
  show "?Q y \<Longrightarrow> ensures (held_at repo h r) (case y of (e', previous) \<Rightarrow>
      if sameRefHeads (nullish (ae_refHeads e') [])
           (reconciled_refs skip previous (refHeadMap (ow_listRefs w (ae_repoKey e)))) then returnA e'
      else bindA (write_epoch w (e'\<lparr>ae_refHeads := Some (reconciled_refs skip previous
             (refHeadMap (ow_listRefs w (ae_repoKey e))))\<rparr>))
        (\<lambda>_. returnA (e'\<lparr>ae_refHeads := Some (reconciled_refs skip previous
             (refHeadMap (ow_listRefs w (ae_repoKey e))))\<rparr>)))
      (\<lambda>e'. ae_repoKey e' = repo \<and> at_cursor h r e')" for y
    unfolding write_epoch_def
    by (auto intro!: ensures_return ensures_bind [OF ensures_keeps] keeps_bind held_core held_set_epoch(2)
        simp: at_cursor_def split: prod.splits)
qed

lemma held_snapshot:
  assumes "ae_repoKey e = repo" "at_cursor h r e"
  shows "keeps (held_at repo h r) (observeSnapshot w e force)"
proof -
  have "at_cursor h r (take_sequence e)" using assms(2) by (simp add: at_cursor_def)
  then have "keeps (held_at repo h r) (record_snapshot w e force g)" for g
    unfolding record_snapshot_def Let_def
    by (intro keeps_intros held_core held_set_epoch(2) keeps_modify) (simp_all add: assms(1) held_at_def)
  then have "keeps (held_at repo h r) (take_snapshot w e force)"
    unfolding take_snapshot_def by (auto intro!: keeps_intros split: option.splits)
  then show ?thesis
    by (auto simp: keeps_def observeSnapshot_def log_event_def held_at_def split: prod.splits sum.splits)
qed

lemma held_rest:
  assumes "ae_repoKey e = repo" "at_cursor h r e"
  shows "keeps (held_at repo h r) (scan_rest w e)"
proof -
  have "ensures (held_at repo h r) (scan_rest w e) (\<lambda>_. True)"
    unfolding scan_rest_def
    by (rule ensures_bind [OF held_transitions [OF assms]]) (auto intro: ensures_keeps held_snapshot)
  then show ?thesis by (simp add: ensures_def keeps_def)
qed

lemma held_head:
  assumes "ae_repoKey e = repo"
  shows "after (\<lambda>_. True) (scan_root w e head ref) (\<lambda>_. held_at repo (Some head) ref) (held_at repo (Some head) ref)"
    "after (\<lambda>_. True) (scan_moved w e head ref) (\<lambda>_. held_at repo (Some head) ref) (held_at repo (Some head) ref)"
proof -
  let ?H = "held_at repo (Some head) ref"
  have moved: "ae_repoKey (moved_to head ref e1) = repo \<and> at_cursor (Some head) ref (moved_to head ref e1)"
    if "candidatesForCommits w e ref kind reason hs = (cs, e1)" for kind reason hs cs e1
    using candidates_of_commits [OF that] assms by (simp add: at_cursor_def moved_to_def)
  have adv: "after (\<lambda>_. True) (advance w e' cs) (\<lambda>_. ?H) ?H" if "ae_repoKey e' = repo \<and> at_cursor (Some head) ref e'" for e' cs
    unfolding advance_def using that
    by (intro after_bind [OF held_set_epoch(1) held_core(1) [unfolded after_keeps]]) simp_all
  show "after (\<lambda>_. True) (scan_root w e head ref) (\<lambda>_. ?H) ?H"
  proof -
    obtain cs e1 where c: "candidatesForCommits w e ref Fast_forward ''root_commit_observed_after_epoch'' [head] = (cs, e1)"
      by fastforce
    show ?thesis unfolding scan_root_def c prod.case Let_def
      by (rule after_bind [OF adv [OF moved [OF c]]], unfold after_keeps [symmetric])
        (intro keeps_intros held_core held_candidates held_rest;
          simp add: moved [OF c] candidates_of_commits [OF c] assms)
  qed
  show "after (\<lambda>_. True) (scan_moved w e head ref) (\<lambda>_. ?H) ?H"
  proof -
    obtain kind hashes where k: "candidate_commits w e head ref (classifyTransition w e head ref) = (kind, hashes)"
      by fastforce
    obtain cs e1 where c: "candidatesForCommits w e ref kind ''commit_observed_after_epoch'' hashes = (cs, e1)"
      by fastforce
    show ?thesis unfolding scan_moved_def Let_def k prod.case c
      by (rule after_bind [OF adv [OF moved [OF c]]], unfold after_keeps [symmetric])
        (intro keeps_intros held_core held_candidates held_rest;
          simp add: moved [OF c] candidates_of_commits [OF c] assms)
  qed
qed

lemma held_step:
  assumes "truthy (ow_currentHead w repo)"
  shows "after (\<lambda>s. map_get (ob_epochs s) repo = Some e \<and> ae_repoKey e = repo) (scan_step w repo e)
    (\<lambda>_. held_at repo (ow_currentHead w repo) (ow_currentRefKey w repo))
    (held_at repo (ow_currentHead w repo) (ow_currentRefKey w repo))"
proof (rule after_fact)
  let ?H = "held_at repo (ow_currentHead w repo) (ow_currentRefKey w repo)"
  assume e: "ae_repoKey e = repo"
  from assms obtain head where h: "ow_currentHead w repo = Some head" by (cases "ow_currentHead w repo") auto
  have new: "ae_repoKey (createEpoch w repo) = repo \<and> at_cursor (ow_currentHead w repo) (ow_currentRefKey w repo) (createEpoch w repo)"
    by (simp add: createEpoch_def at_cursor_def)
  have "after (\<lambda>_. True) (write_epoch w (createEpoch w repo)) (\<lambda>_. ?H) ?H"
    unfolding write_epoch_def using new
    by (intro after_bind [OF held_set_epoch(1) held_core(1) [unfolded after_keeps]]) simp_all
  then have reset: "after (\<lambda>_. True) (scan_reset w repo) (\<lambda>_. ?H) ?H"
    unfolding scan_reset_def using held_snapshot [unfolded after_keeps] new by (auto intro: after_bind)
  have rest: "after ?H (scan_rest w e) (\<lambda>_. ?H) ?H" if "at_cursor (ow_currentHead w repo) (ow_currentRefKey w repo) e"
    using held_rest [OF e that] by (simp add: after_keeps)
  show "after (\<lambda>s. map_get (ob_epochs s) repo = Some e \<and> ae_repoKey e = repo) (scan_step w repo e) (\<lambda>_. ?H) ?H"
    using assms unfolding scan_step_def Let_def h option.sel
    by (intro after_if after_pre [OF held_head(1) [OF e]] after_pre [OF held_head(2) [OF e]]
        after_pre [OF reset [unfolded h]] after_pre [OF rest [unfolded h]])
      (auto simp: at_cursor_def held_at_def)
qed simp

text \<open>A candidate that was reported for a repository as a commit of the reference.\<close>

fun reported_on :: "string \<Rightarrow> string option \<Rightarrow> repository_event \<Rightarrow> bool" where
  "reported_on repo ref (Candidate_observed c) \<longleftrightarrow> cc_repoKey c = repo \<and> cc_refKey c = ref"
| "reported_on repo ref v \<longleftrightarrow> False"

definition reports :: "string \<Rightarrow> string option \<Rightarrow> observer \<Rightarrow> repository_event list" where
  "reports repo ref s = filter (reported_on repo ref) (ob_emitted s)"

lemma mute_core:
  "keeps (\<lambda>s. reports repo ref s = q) (on_store a)" "keeps (\<lambda>s. reports repo ref s = q) (log_event v)"
  "keeps (\<lambda>s. reports repo ref s = q) (log_lifecycle x y z u)" "keeps (\<lambda>s. reports repo ref s = q) (set_epoch e)"
  "\<not> reported_on repo ref ev \<Longrightarrow> keeps (\<lambda>s. reports repo ref s = q) (emit w ev)"
  by (simp_all add: keeps_def on_store_def log_event_def log_lifecycle_def emit_def bindA_def set_epoch_def
      reports_def split_beta)

lemma mute_scan_ref:
  "keeps (\<lambda>s. reports repo skip s = q) (scan_ref w skip current k y)"
proof -
  have change: "keeps (\<lambda>s. reports repo skip s = q) (ref_change w e k kind cs reason commit details)"
    if "Some k \<noteq> skip" "\<forall>c \<in> set cs. cc_refKey c = Some k" for e kind cs reason commit details
    unfolding ref_change_def advance_def emit_candidate_def
    using that by (intro keeps_intros mute_core) (auto simp: transition_of_def)
  show ?thesis unfolding scan_ref_def Let_def
    by (auto intro!: keeps_intros change dest: candidates_of_commits split: prod.splits)
qed

lemma mute_rest:
  "keeps (\<lambda>s. reports repo (ow_currentRefKey w (ae_repoKey e)) s = q) (scan_rest w e)"
proof -
  let ?ref = "ow_currentRefKey w (ae_repoKey e)"
  have "keeps (\<lambda>s. reports repo r s = q) (record_snapshot w e force g)" for r e force g
    unfolding record_snapshot_def Let_def
    by (intro keeps_intros mute_core keeps_modify) (simp_all add: reports_def)
  then have "keeps (\<lambda>s. reports repo r s = q) (take_snapshot w e force)" for r e force
    unfolding take_snapshot_def by (auto intro!: keeps_intros split: option.splits)
  then have snap: "keeps (\<lambda>s. reports repo r s = q) (observeSnapshot w e force)" for r e force
    by (auto simp: keeps_def observeSnapshot_def log_event_def reports_def split: prod.splits sum.splits) (metis snd_conv)+
  have "keeps (\<lambda>s. reports repo ?ref s = q) (scanRefTransitions w e ?ref)"
    unfolding scanRefTransitions_def Let_def write_epoch_def
    by (auto intro!: keeps_intros mute_scan_ref mute_core split: prod.splits)
  then show ?thesis unfolding scan_rest_def by (intro keeps_bind snap)
qed

text \<open>Scans of a repository that find the same head and reference, in any worlds, that succeed or fail.\<close>

inductive scans_at :: "string \<Rightarrow> string option \<Rightarrow> string option \<Rightarrow> observer \<Rightarrow> observer \<Rightarrow> bool"
  for repo head ref where
  none: "scans_at repo head ref s s"
| again: "scans_at repo head ref s s1 \<Longrightarrow> ow_currentHead w repo = head \<Longrightarrow> ow_currentRefKey w repo = ref
    \<Longrightarrow> scanRepo w repo s1 = (r, s2) \<Longrightarrow> scans_at repo head ref s s2"

lemma held_scan:
  assumes "held_at repo (ow_currentHead w repo) (ow_currentRefKey w repo) s" "truthy (ow_currentHead w repo)"
    and "scanRepo w repo s = (r, s')"
  shows "held_at repo (ow_currentHead w repo) (ow_currentRefKey w repo) s'
    \<and> reports repo (ow_currentRefKey w repo) s' = reports repo (ow_currentRefKey w repo) s"
proof
  from assms(1) obtain e where e: "map_get (ob_epochs s) repo = Some e" "ae_repoKey e = repo"
    "at_cursor (ow_currentHead w repo) (ow_currentRefKey w repo) e"
    by (auto simp: held_at_def)
  have "scan_step w repo e = scan_rest w e"
    using e(3) assms(2) by (simp add: scan_step_def at_cursor_def Let_def)
  with e(1) assms(3) have run: "scan_rest w e s = (r, s')" by (simp add: scanRepo_def bindA_def)
  show "held_at repo (ow_currentHead w repo) (ow_currentRefKey w repo) s'"
    by (rule keepsD [OF held_rest [OF e(2, 3)] assms(1) run])
  have "keeps (\<lambda>s'. reports repo (ow_currentRefKey w repo) s' = reports repo (ow_currentRefKey w repo) s) (scan_rest w e)"
    using mute_rest [of repo w e] e(2) by simp
  from keepsD [OF this refl run]
  show "reports repo (ow_currentRefKey w repo) s' = reports repo (ow_currentRefKey w repo) s" .
qed

lemma held_scans:
  assumes "scans_at repo head ref s s'" "held_at repo head ref s" "truthy head"
  shows "held_at repo head ref s' \<and> reports repo ref s' = reports repo ref s"
  using assms
proof (induction rule: scans_at.induct)
  case (again s s1 w r s2)
  then show ?case using held_scan [of repo w s1 r s2] by simp
qed simp

text \<open>
  C6: a scan that failed is not made up for, although the observer says that it will be retried.
  When a scan of a repository that has a head failed, because the store refused the candidates or
  a handler failed, the cursor that is held is at that head and its reference nevertheless. It stays
  there however often the repository is scanned again while git gives this head and reference, in
  worlds where everything else may be different, and no such scan reports a candidate of the
  checked-out reference.
\<close>

theorem failed_scan_not_made_up:
  assumes "observer_reachable lc s" "scanRepo w repo s = (Inl er, s1)" "truthy (ow_currentHead w repo)"
    and "scans_at repo (ow_currentHead w repo) (ow_currentRefKey w repo) s1 s2"
  shows "held_at repo (ow_currentHead w repo) (ow_currentRefKey w repo) s1
    \<and> held_at repo (ow_currentHead w repo) (ow_currentRefKey w repo) s2
    \<and> reports repo (ow_currentRefKey w repo) s2 = reports repo (ow_currentRefKey w repo) s1"
proof -
  from assms(2) obtain e where e: "map_get (ob_epochs s) repo = Some e" "scan_step w repo e s = (Inl er, s1)"
    by (auto simp: scanRepo_def bindA_def split: option.splits)
  moreover have "ae_repoKey e = repo"
    using numberedD(2) [OF reachable_numbered [OF assms(1)] e(1)] by simp
  ultimately have "held_at repo (ow_currentHead w repo) (ow_currentRefKey w repo) s1"
    using after_error [OF held_step [OF assms(3)]] by blast
  with held_scans [OF assms(4) this assms(3)] show ?thesis by blast
qed

text \<open>The guard refuses the candidate of commit b, and accepts it at the next two scans.\<close>

definition refusing_world :: observer_world where
  "refusing_world = (sample_world ''b'')\<lparr>ow_pg :=
     (\<lambda>i. case i of Item_candidate c \<Rightarrow> [''refused''] | _ \<Rightarrow> [])\<rparr>"

definition refused_scan :: observer where
  "refused_scan = snd (scanRepo refusing_world ''r'' sample_booted)"

definition retried_scan :: observer where
  "retried_scan = snd (scanRepo (sample_world ''b'') ''r'' refused_scan)"

definition retried_twice :: observer where
  "retried_twice = snd (scanRepo (sample_world ''b'') ''r'' retried_scan)"

theorem failed_scan_not_made_up_witness:
  "fst (scanRepo refusing_world ''r'' sample_booted) = Inl (Store_failed (Observation_privacy [''refused'']))
   \<and> held_at ''r'' (Some ''b'') (Some ''main'') refused_scan
   \<and> fst (scanRepo (sample_world ''b'') ''r'' refused_scan) = Inr ()
   \<and> reports ''r'' (Some ''main'') retried_twice = reports ''r'' (Some ''main'') refused_scan
   \<and> reports ''r'' (Some ''main'') retried_twice = []
   \<and> (case du_file (ob_store retried_twice) of Content (epochs, candidates) \<Rightarrow>
        map ae_cursorHead epochs = [Some ''b''] \<and> candidates = [] | _ \<Rightarrow> False)"
proof (intro conjI)
  show f: "fst (scanRepo refusing_world ''r'' sample_booted) = Inl (Store_failed (Observation_privacy [''refused'']))"
    by code_simp
  show "fst (scanRepo (sample_world ''b'') ''r'' refused_scan) = Inr ()" by code_simp
  from f have run: "scanRepo refusing_world ''r'' sample_booted
      = (Inl (Store_failed (Observation_privacy [''refused''])), refused_scan)"
    by (metis prod.collapse refused_scan_def)
  have world: "ow_currentHead refusing_world ''r'' = Some ''b''" "ow_currentRefKey refusing_world ''r'' = Some ''main''"
    "ow_currentHead (sample_world ''b'') ''r'' = Some ''b''" "ow_currentRefKey (sample_world ''b'') ''r'' = Some ''main''"
    by (simp_all add: refusing_world_def sample_world_def)
  have "scans_at ''r'' (Some ''b'') (Some ''main'') refused_scan retried_twice"
    unfolding retried_twice_def retried_scan_def
    by (rule again [OF again [OF none world(3, 4) prod.collapse [symmetric]] world(3, 4) prod.collapse [symmetric]])
  with failed_scan_not_made_up [OF sample_booted_reachable run, of retried_twice]
  show "held_at ''r'' (Some ''b'') (Some ''main'') refused_scan"
    "reports ''r'' (Some ''main'') retried_twice = reports ''r'' (Some ''main'') refused_scan"
    by (simp_all add: world)
  show "reports ''r'' (Some ''main'') retried_twice = []" by code_simp
  show "case du_file (ob_store retried_twice) of Content (epochs, candidates) \<Rightarrow>
      map ae_cursorHead epochs = [Some ''b''] \<and> candidates = [] | _ \<Rightarrow> False" by code_simp
qed

end
