(* ===== verification/RunRecords.thy ===== *)
theory RunRecords
  imports Types
begin

text \<open>
  The records of a run: the accounting of a trace, the run that is stored, and the groups of runs
  that are listed (src/src/types.ts). A stored line of any version is read as a \<open>run\<close>, which is the
  cast \<open>raw as AgenticRunRecord\<close> of the code: a missing array is the empty list and a missing query
  identifier or start the empty string, which the code reads alike, and the other fields that older
  versions do not have are options.
\<close>

section \<open>Accounting\<close>

record priced_usage = model_usage +
  pu_estimatedNanoUsd :: "rat option"
  pu_estimatedUsd :: "rat option"
  pu_pricingVersion :: "string option"
  pu_matchedModel :: "string option"
  pu_pricingCoverage :: "pricing_coverage option"

record tool_summary = token_breakdown +
  tl_name :: string
  tl_count :: nat
  tl_failures :: nat
  tl_totalDurationMs :: "rat option"

record priced_unit = usage_unit +
  un_queryId :: "string option"
  un_chatSessionId :: "string option"
  un_toolName :: "string option"
  un_estimatedNanoUsd :: "rat option"
  un_pricing :: "pricing_match option"
  un_pricingCoverage :: "pricing_coverage option"

record model_summary = token_breakdown +
  am_model :: string
  am_provider :: "string option"
  am_attributionIds :: "string list"
  am_estimatedNanoUsd :: "rat option"
  am_pricing :: "pricing_match option"
  am_pricingCoverage :: "pricing_coverage option"
  am_coverage :: accounting_coverage
  am_warnings :: "string list"

record tool_accounting = tool_summary +
  ta_attributionIds :: "string list"
  ta_estimatedNanoUsd :: "rat option"
  ta_pricing :: "pricing_match option"
  ta_pricingCoverage :: "pricing_coverage option"
  ta_coverage :: accounting_coverage
  ta_warnings :: "string list"

record span_summary = token_breakdown +
  sa_spanId :: string
  sa_parentSpanId :: "string option"
  sa_traceId :: string
  sa_queryId :: "string option"
  sa_chatSessionId :: "string option"
  sa_kind :: span_kind
  sa_name :: string
  sa_model :: "string option"
  sa_provider :: "string option"
  sa_toolName :: "string option"
  sa_attributionIds :: "string list"
  sa_estimatedNanoUsd :: "rat option"
  sa_pricing :: "pricing_match option"
  sa_pricingCoverage :: "pricing_coverage option"
  sa_coverage :: accounting_coverage
  sa_warnings :: "string list"

record priced_invariant = accounting_invariant +
  iv_expectedNanoUsd :: "rat option"
  iv_actualNanoUsd :: "rat option"

record accounting_totals = token_breakdown +
  at_estimatedNanoUsd :: "rat option"
  at_pricingCoverage :: "pricing_coverage option"
  at_coverage :: accounting_coverage
  at_warnings :: "string list"

record trace_accounting =
  ac_sourceSelection :: source_selection
  ac_attributedUsageUnits :: "priced_unit list"
  ac_modelSummaries :: "model_summary list"
  ac_toolSummaries :: "tool_accounting list"
  ac_spanSummaries :: "span_summary list"
  ac_totals :: accounting_totals
  ac_pricingMatches :: "pricing_match list"
  ac_invariants :: "priced_invariant list"
  ac_coverage :: accounting_coverage
  ac_warnings :: "string list"

section \<open>Runs\<close>

datatype run_status = Run_running | Run_completed | Run_error | Run_cancelled | Run_unknown

datatype query_state = Captured | Pending | Query_unavailable

datatype trace_role = Role_main | Role_helper | Role_unknown

record run = token_breakdown +
  rn_schemaVersion :: nat
  rn_id :: string
  rn_traceId :: string
  rn_sessionId :: "string option"
  rn_startedAt :: string
  rn_endedAt :: "string option"
  rn_durationMs :: "rat option"
  rn_status :: run_status
  rn_agentName :: "string option"
  rn_serviceName :: "string option"
  rn_mode :: "string option"
  rn_models :: "string list"
  rn_estimatedNanoUsd :: "rat option"
  rn_estimatedUsd :: "rat option"
  rn_estimatedAiCredits :: "rat option"
  rn_pricingVersion :: "string option"
  rn_llmCallCount :: nat
  rn_toolCallCount :: nat
  rn_tools :: "tool_summary list"
  rn_warnings :: "string list"
  rn_billingContext :: "billing_context option"
  rn_repoKey :: "string option"
  rn_queryId :: string
  rn_queryStartedAt :: string
  rn_chatSessionId :: "string option"
  rn_copilotSessionId :: "string option"
  rn_traceChatSessionId :: "string option"
  rn_traceRole :: "trace_role option"
  rn_initialQueryText :: "string option"
  rn_initialQueryState :: "query_state option"
  rn_tokenUsageSource :: "token_usage_source option"
  rn_accounting :: "trace_accounting option"
  rn_pricingCoverage :: "pricing_coverage option"
  rn_costCoverage :: "cost_coverage option"
  rn_modelUsages :: "priced_usage list"

text \<open>A run of the third version has its accounting.\<close>

definition authoritative :: "run \<Rightarrow> trace_accounting option" where
  "authoritative r = (if rn_schemaVersion r = 3 then rn_accounting r else None)"

section \<open>Groups\<close>

datatype cost_label = All_estimated | Priced_models_only | Partial_estimate | Cost_unavailable

record run_group = token_breakdown +
  rg_queryId :: string
  rg_chatSessionId :: "string option"
  rg_copilotSessionId :: "string option"
  rg_startedAt :: string
  rg_endedAt :: "string option"
  rg_durationMs :: "rat option"
  rg_initialQueryText :: "string option"
  rg_initialQueryState :: query_state
  rg_runCount :: nat
  rg_models :: "string list"
  rg_modelUsages :: "priced_usage list"
  rg_toolCallCount :: nat
  rg_tools :: "tool_summary list"
  rg_tokenSources :: "token_usage_source list"
  rg_estimatedNanoUsd :: "rat option"
  rg_estimatedUsd :: "rat option"
  rg_estimatedAiCredits :: "rat option"
  rg_billingContext :: "billing_context option"
  rg_billingContexts :: "billing_context list"
  rg_pricingVersion :: "string option"
  rg_pricingCoverage :: pricing_coverage
  rg_costCoverage :: cost_coverage
  rg_accountingCoverage :: accounting_coverage
  rg_pricingVersions :: "string list"
  rg_pricingEffectiveFrom :: "string list"
  rg_unpricedSliceCount :: nat
  rg_unavailableSliceCount :: nat
  rg_legacyRunCount :: nat
  rg_hasNonOpenAiModels :: bool
  rg_costLabel :: cost_label
  rg_runs :: "run list"
  rg_warnings :: "string list"

record chat_session = token_breakdown +
  cs_chatSessionId :: string
  cs_copilotSessionId :: "string option"
  cs_startedAt :: string
  cs_endedAt :: "string option"
  cs_durationMs :: "rat option"
  cs_queryCount :: nat
  cs_runCount :: nat
  cs_models :: "string list"
  cs_tokenSources :: "token_usage_source list"
  cs_estimatedNanoUsd :: "rat option"
  cs_estimatedUsd :: "rat option"
  cs_estimatedAiCredits :: "rat option"
  cs_billingContext :: "billing_context option"
  cs_billingContexts :: "billing_context list"
  cs_pricingCoverage :: pricing_coverage
  cs_costCoverage :: cost_coverage
  cs_accountingCoverage :: accounting_coverage
  cs_pricingVersions :: "string list"
  cs_pricingEffectiveFrom :: "string list"
  cs_unpricedSliceCount :: nat
  cs_unavailableSliceCount :: nat
  cs_legacyRunCount :: nat
  cs_costLabel :: cost_label
  cs_queries :: "run_group list"
  cs_warnings :: "string list"

record usage_totals =
  ut_runCount :: nat
  ut_inputTokens :: rat
  ut_outputTokens :: rat
  ut_reasoningOutputTokens :: rat
  ut_cachedTokens :: rat
  ut_totalTokens :: rat
  ut_tokenSources :: "token_usage_source list"
  ut_estimatedNanoUsd :: rat
  ut_estimatedUsd :: rat
  ut_estimatedAiCredits :: rat
  ut_billingContext :: "billing_context option"
  ut_billingContexts :: "billing_context list"
  ut_pricingCoverage :: pricing_coverage
  ut_costCoverage :: cost_coverage
  ut_accountingCoverage :: accounting_coverage
  ut_pricingVersions :: "string list"
  ut_pricingEffectiveFrom :: "string list"
  ut_unpricedSliceCount :: nat
  ut_unavailableSliceCount :: nat
  ut_legacyRunCount :: nat

end
