(* ===== verification/RunCoverage.thy ===== *)
theory RunCoverage
  imports RunRecords PricingPolicy
begin

text \<open>
  How the run ledger reads and combines the coverage of prices: the second half of
  src/src/storage/runLedger.ts, from \<open>uniqueDefined\<close> to \<open>isLikelyNonOpenAiModel\<close>.
\<close>

section \<open>Helpers\<close>

definition uniqueDefined :: "string option list \<Rightarrow> string list" where
  "uniqueDefined xs = unique_strings (List.map_filter id xs)"

definition firstDefined :: "string option list \<Rightarrow> string option" where
  "firstDefined xs = find (\<lambda>x. \<not> blank x) (List.map_filter id xs)"

definition pickString :: "string option \<Rightarrow> string option \<Rightarrow> string option" where
  "pickString preferred fallback =
     (case preferred of Some p \<Rightarrow> if \<not> blank p then Some p
          else (case fallback of Some f \<Rightarrow> if \<not> blank f then Some f else None | None \<Rightarrow> None)
      | None \<Rightarrow> (case fallback of Some f \<Rightarrow> if \<not> blank f then Some f else None | None \<Rightarrow> None))"

definition isLikelyNonOpenAiModel :: "string \<Rightarrow> bool" where
  "isLikelyNonOpenAiModel model =
     (let normalized = to_lower model
      in if str_includes normalized ''claude'' \<or> str_includes normalized ''anthropic'' then True
         else \<not> (starts_with normalized ''gpt-'' \<or> starts_with normalized ''o3''
           \<or> starts_with normalized ''o4'' \<or> normalized = ''chat-latest'' \<or> str_includes normalized ''openai''))"

definition normalizedEstimatedNanoUsd :: "rat option \<Rightarrow> rat option \<Rightarrow> rat option" where
  "normalizedEstimatedNanoUsd nano usd = or_else nano (nanoUsdFromUsd usd)"

definition usage_nano :: "priced_usage \<Rightarrow> rat option" where
  "usage_nano u = normalizedEstimatedNanoUsd (pu_estimatedNanoUsd u) (pu_estimatedUsd u)"

section \<open>Price coverage\<close>

definition emptyPricingCoverage :: pricing_coverage where
  "emptyPricingCoverage = \<lparr>pc_state = Priced, pc_reasons = [], pc_pricedModels = [], pc_unpricedModels = [],
     pc_missingModelSlices = 0, pc_pricingVersions = [], pc_pricingEffectiveFrom = []\<rparr>"

text \<open>The second argument of \<open>normalizePricingCoverage\<close>: what a coverage can be derived from.\<close>

record pricing_value =
  pv_estimatedNanoUsd :: "rat option"
  pv_estimatedUsd :: "rat option"
  pv_model :: "string option"
  pv_models :: "string list option"
  pv_modelUsages :: "priced_usage list"
  pv_pricingVersion :: "string option"
  pv_tokenUsageSource :: "token_usage_source option"

definition clean_coverage :: "pricing_coverage \<Rightarrow> pricing_coverage" where
  "clean_coverage pc = applyPricingCoveragePolicy
     \<lparr>pc_state = pc_state pc, pc_reasons = dedup (pc_reasons pc),
      pc_pricedModels = unique_strings (pc_pricedModels pc),
      pc_unpricedModels = unique_strings (pc_unpricedModels pc),
      pc_missingModelSlices = pc_missingModelSlices pc,
      pc_pricingVersions = unique_strings (pc_pricingVersions pc),
      pc_pricingEffectiveFrom = unique_strings (pc_pricingEffectiveFrom pc)\<rparr>"

text \<open>
  \<open>deriveStoredPricingCoverage\<close> on usages that are normalised already. The code normalises them
  with the function that calls this one, but for a usage there are no usages below it.
\<close>

definition derive_coverage :: "pricing_value \<Rightarrow> priced_usage list \<Rightarrow> pricing_coverage" where
  "derive_coverage v usages =
     (let nano = normalizedEstimatedNanoUsd (pv_estimatedNanoUsd v) (pv_estimatedUsd v);
          models = unique_strings (nullish (pv_models v)
            (if truthy (pv_model v) then [the (pv_model v)] else []));
          pricedModels = unique_strings (concat (map (\<lambda>u. case pu_pricingCoverage u of
              Some pc \<Rightarrow> pc_pricedModels pc | None \<Rightarrow> if usage_nano u \<noteq> None then [mu_model u] else []) usages));
          unpricedModels = unique_strings (concat (map (\<lambda>u. case pu_pricingCoverage u of
              Some pc \<Rightarrow> pc_unpricedModels pc | None \<Rightarrow> if usage_nano u = None then [mu_model u] else []) usages));
          unmatched = filter (\<lambda>m. m \<notin> set pricedModels) models;
          legacy = (pv_tokenUsageSource v = Some Legacy)
      in \<lparr>pc_state = (if nano = None then Unpriced
            else if unmatched \<noteq> [] \<or> legacy then Partially_priced else Priced),
          pc_reasons =
            (if nano = None
             then [if list_ex isLikelyNonOpenAiModel models then Model_unpriced else Missing_model_attribution]
             else if unmatched \<noteq> []
             then [if list_ex isLikelyNonOpenAiModel unmatched then Model_unpriced else Missing_model_attribution]
             else []) @ (if legacy then [Legacy_schema] else []),
          pc_pricedModels = (if pricedModels \<noteq> [] then pricedModels
            else if nano \<noteq> None \<and> length models = 1 \<and> \<not> list_ex isLikelyNonOpenAiModel models then models else []),
          pc_unpricedModels = (if nano = None then models else unpricedModels),
          pc_missingModelSlices = (if nano = None \<and> models = [] then 1 else 0),
          pc_pricingVersions = unique_strings (if truthy (pv_pricingVersion v) then [the (pv_pricingVersion v)] else []),
          pc_pricingEffectiveFrom = unique_strings (concat (map (\<lambda>u. case pu_pricingCoverage u of
            Some pc \<Rightarrow> pc_pricingEffectiveFrom pc | None \<Rightarrow> []) usages))\<rparr>)"

definition value_of_usage :: "priced_usage \<Rightarrow> pricing_value" where
  "value_of_usage u = \<lparr>pv_estimatedNanoUsd = pu_estimatedNanoUsd u, pv_estimatedUsd = pu_estimatedUsd u,
     pv_model = Some (mu_model u), pv_models = None, pv_modelUsages = [],
     pv_pricingVersion = pu_pricingVersion u, pv_tokenUsageSource = None\<rparr>"

definition normalizeStoredModelUsage :: "priced_usage \<Rightarrow> priced_usage" where
  "normalizeStoredModelUsage u =
     u\<lparr>pu_estimatedNanoUsd := usage_nano u,
       pu_estimatedUsd := or_else (usdFromNanoUsd (usage_nano u)) (pu_estimatedUsd u),
       pu_pricingCoverage := Some (case pu_pricingCoverage u of
         Some pc \<Rightarrow> clean_coverage pc | None \<Rightarrow> derive_coverage (value_of_usage u) [])\<rparr>"

definition deriveStoredPricingCoverage :: "pricing_value \<Rightarrow> pricing_coverage" where
  "deriveStoredPricingCoverage v = derive_coverage v (map normalizeStoredModelUsage (pv_modelUsages v))"

definition normalizePricingCoverage :: "pricing_coverage option \<Rightarrow> pricing_value option \<Rightarrow> pricing_coverage" where
  "normalizePricingCoverage pc v =
     (case pc of
        Some c \<Rightarrow> clean_coverage c
      | None \<Rightarrow> (case v of Some x \<Rightarrow> deriveStoredPricingCoverage x | None \<Rightarrow> emptyPricingCoverage))"

definition aggregatePricingCoverage :: "pricing_coverage list \<Rightarrow> pricing_coverage" where
  "aggregatePricingCoverage cs =
     (if cs = [] then emptyPricingCoverage
      else let pricedModels = unique_strings (concat (map pc_pricedModels cs));
               unpricedModels = unique_strings (concat (map pc_unpricedModels cs));
               missingModelSlices = sum_list (map pc_missingModelSlices cs);
               hasPriced = (pricedModels \<noteq> [] \<or> list_ex (\<lambda>c. pc_state c = Priced \<or> pc_state c = Partially_priced) cs);
               hasUnpriced = (unpricedModels \<noteq> [] \<or> missingModelSlices > 0
                 \<or> list_ex (\<lambda>c. pc_state c = Partially_priced \<or> pc_state c = Unpriced) cs)
           in \<lparr>pc_state = (if hasPriced then (if hasUnpriced then Partially_priced else Priced) else Unpriced),
               pc_reasons = dedup (concat (map pc_reasons cs)),
               pc_pricedModels = pricedModels, pc_unpricedModels = unpricedModels,
               pc_missingModelSlices = missingModelSlices,
               pc_pricingVersions = unique_strings (concat (map pc_pricingVersions cs)),
               pc_pricingEffectiveFrom = unique_strings (concat (map pc_pricingEffectiveFrom cs))\<rparr>)"

section \<open>Cost coverage\<close>

definition deriveStoredRunCostCoverage :: "rat option \<Rightarrow> string list \<Rightarrow> priced_usage list \<Rightarrow> cost_coverage" where
  "deriveStoredRunCostCoverage nano models modelUsages =
     (if nano = None then Unavailable
      else if length models \<le> 1 \<and> modelUsages = [] then Complete
      else if modelUsages = [] then Partial
      else if length (unique_strings models) \<le> length modelUsages \<and> list_all (\<lambda>u. usage_nano u \<noteq> None) modelUsages
      then Complete else Partial)"

text \<open>\<open>normalizeCostCoverage\<close> with the run whose coverage it is, and without one.\<close>

definition run_nano :: "run \<Rightarrow> rat option" where
  "run_nano r = normalizedEstimatedNanoUsd (rn_estimatedNanoUsd r) (rn_estimatedUsd r)"

definition normalizeCostCoverage :: "cost_coverage option \<Rightarrow> run \<Rightarrow> cost_coverage" where
  "normalizeCostCoverage coverage r =
     (case rn_pricingCoverage r of
        Some pc \<Rightarrow> costCoverageFromPricingCoverage (Some (clean_coverage pc))
      | None \<Rightarrow> (case coverage of Some c \<Rightarrow> c
          | None \<Rightarrow> deriveStoredRunCostCoverage (run_nano r) (rn_models r) (rn_modelUsages r)))"

text \<open>An item of \<open>aggregateCostCoverage\<close>.\<close>

record cost_item =
  ci_costCoverage :: cost_coverage
  ci_estimatedNanoUsd :: "rat option"
  ci_estimatedUsd :: "rat option"
  ci_pricingCoverage :: "pricing_coverage option"

definition item_coverage :: "cost_item \<Rightarrow> pricing_coverage" where
  "item_coverage i = normalizePricingCoverage (ci_pricingCoverage i) (Some
     \<lparr>pv_estimatedNanoUsd = ci_estimatedNanoUsd i, pv_estimatedUsd = ci_estimatedUsd i, pv_model = None,
      pv_models = None, pv_modelUsages = [], pv_pricingVersion = None, pv_tokenUsageSource = None\<rparr>)"

definition aggregateCostCoverage :: "cost_item list \<Rightarrow> cost_coverage" where
  "aggregateCostCoverage items =
     (if list_ex (\<lambda>i. ci_pricingCoverage i \<noteq> None) items
      then costCoverageFromPricingCoverage (Some (aggregatePricingCoverage (map item_coverage items)))
      else if items = [] then Complete
      else if list_all (\<lambda>i. ci_costCoverage i = Complete) items then Complete
      else if list_ex (\<lambda>i. normalizedEstimatedNanoUsd (ci_estimatedNanoUsd i) (ci_estimatedUsd i) \<noteq> None) items
      then Partial else Unavailable)"

section \<open>Ranks\<close>

fun costCoverageRank :: "cost_coverage \<Rightarrow> nat" where
  "costCoverageRank Complete = 2" | "costCoverageRank Partial = 1" | "costCoverageRank Unavailable = 0"

fun pricingCoverageStateRank :: "pricing_state \<Rightarrow> nat" where
  "pricingCoverageStateRank Priced = 2" | "pricingCoverageStateRank Partially_priced = 1"
| "pricingCoverageStateRank Unpriced = 0"

fun tokenUsageSourceRank :: "token_usage_source \<Rightarrow> nat" where
  "tokenUsageSourceRank Invoke_agent = 5" | "tokenUsageSourceRank Chat_spans = 4"
| "tokenUsageSourceRank Events = 3" | "tokenUsageSourceRank Metrics = 2"
| "tokenUsageSourceRank Not_reported = 1" | "tokenUsageSourceRank Legacy = 0"

definition normalizeInitialQueryState :: "query_state option \<Rightarrow> string option \<Rightarrow> query_state" where
  "normalizeInitialQueryState state text = nullish state
     (if pickString text None \<noteq> None then Captured else Query_unavailable)"

fun query_state_rank :: "query_state \<Rightarrow> nat" where
  "query_state_rank Captured = 100" | "query_state_rank Pending = 10" | "query_state_rank Query_unavailable = 0"

definition initialQueryStateRank :: "query_state option \<Rightarrow> nat" where
  "initialQueryStateRank state = query_state_rank (normalizeInitialQueryState state None)"

definition hasReportedTokens :: "'a token_breakdown_scheme \<Rightarrow> bool" where
  "hasReportedTokens u \<longleftrightarrow> inputTokens u \<noteq> None \<or> outputTokens u \<noteq> None \<or> cacheReadInputTokens u \<noteq> None
     \<or> cacheCreationInputTokens u \<noteq> None \<or> cachedTokens u \<noteq> None \<or> reasoningOutputTokens u \<noteq> None
     \<or> totalTokens u \<noteq> None"

end
