(* ===== verification/RunNormalization.thy ===== *)
theory RunNormalization
  imports RunCoverage CostEstimation
begin

text \<open>
  Reading a stored run: \<open>normalizeStoredRun\<close> of src/src/storage/runLedger.ts and what it calls. The
  versions 1 and 2 have no accounting; version 3 has one, or it is reconstructed from the totals.
  The optional \<open>CostEstimation\<close> is the optional catalog that it is made from; it reprices what has
  no price.
\<close>

section \<open>Small readers\<close>

text \<open>\<open>pickNumber\<close> is \<open>or_else\<close>; these are the seven counts of one record or else of another.\<close>

definition pick_tokens :: "'a token_breakdown_scheme \<Rightarrow> 'b token_breakdown_scheme
    \<Rightarrow> 'c token_breakdown_scheme \<Rightarrow> 'c token_breakdown_scheme" where
  "pick_tokens a b r = r\<lparr>inputTokens := or_else (inputTokens a) (inputTokens b),
     outputTokens := or_else (outputTokens a) (outputTokens b),
     cacheReadInputTokens := or_else (cacheReadInputTokens a) (cacheReadInputTokens b),
     cacheCreationInputTokens := or_else (cacheCreationInputTokens a) (cacheCreationInputTokens b),
     cachedTokens := or_else (cachedTokens a) (cachedTokens b),
     reasoningOutputTokens := or_else (reasoningOutputTokens a) (reasoningOutputTokens b),
     totalTokens := or_else (totalTokens a) (totalTokens b)\<rparr>"

definition normalizeTokenUsageSource :: "token_usage_source option \<Rightarrow> token_usage_source" where
  "normalizeTokenUsageSource source = nullish source Legacy"

definition firstBillingContext :: "billing_context option list \<Rightarrow> billing_context option" where
  "firstBillingContext xs = Option.bind (find (\<lambda>x. x \<noteq> None) xs) id"

definition legacySchemaWarning :: "nat \<Rightarrow> string" where
  "legacySchemaWarning version = (if version = 1
     then ''Read from legacy schema v1 run without authoritative accounting; per-span attribution is unavailable.''
     else ''Read from legacy schema v2 run without authoritative accounting; per-span attribution is unavailable.'')"

definition value_of_run :: "run \<Rightarrow> pricing_value" where
  "value_of_run r = \<lparr>pv_estimatedNanoUsd = rn_estimatedNanoUsd r, pv_estimatedUsd = rn_estimatedUsd r,
     pv_model = None, pv_models = Some (rn_models r), pv_modelUsages = rn_modelUsages r,
     pv_pricingVersion = rn_pricingVersion r, pv_tokenUsageSource = rn_tokenUsageSource r\<rparr>"

definition modelUsageFromAccountingSummary :: "model_summary \<Rightarrow> priced_usage" where
  "modelUsageFromAccountingSummary s = \<lparr>inputTokens = inputTokens s, outputTokens = outputTokens s,
     cacheReadInputTokens = cacheReadInputTokens s, cacheCreationInputTokens = cacheCreationInputTokens s,
     cachedTokens = cachedTokens s, reasoningOutputTokens = reasoningOutputTokens s, totalTokens = totalTokens s,
     mu_model = am_model s, mu_provider = am_provider s, mu_notes = unique_strings (am_warnings s),
     pu_estimatedNanoUsd = am_estimatedNanoUsd s, pu_estimatedUsd = usdFromNanoUsd (am_estimatedNanoUsd s),
     pu_pricingVersion = map_option pm_pricingVersion (am_pricing s),
     pu_matchedModel = Option.bind (am_pricing s) pm_matchedModel, pu_pricingCoverage = am_pricingCoverage s\<rparr>"

definition toolSummaryToTool :: "tool_accounting \<Rightarrow> tool_summary" where
  "toolSummaryToTool t = tool_summary.truncate t"

definition modelsFromStoredAccounting :: "trace_accounting \<Rightarrow> string list" where
  "modelsFromStoredAccounting ac = unique_strings (map am_model (ac_modelSummaries ac)
     @ (case at_pricingCoverage (ac_totals ac) of None \<Rightarrow> [] | Some pc \<Rightarrow> pc_pricedModels pc)
     @ (case at_pricingCoverage (ac_totals ac) of None \<Rightarrow> [] | Some pc \<Rightarrow> pc_unpricedModels pc))"

section \<open>Repricing\<close>

definition shouldRepriceMissingSchemaV3Pricing :: "run \<Rightarrow> bool" where
  "shouldRepriceMissingSchemaV3Pricing r =
     (case rn_accounting r of
        Some ac \<Rightarrow> at_estimatedNanoUsd (ac_totals ac) = None
          \<or> map_option pc_state (at_pricingCoverage (ac_totals ac)) = Some Unpriced
      | None \<Rightarrow> run_nano r = None \<or> map_option pc_state (rn_pricingCoverage r) = Some Unpriced)"

definition maybeRepriceStoredModelUsages :: "priced_usage list \<Rightarrow> string \<Rightarrow> pricing_catalog option \<Rightarrow> priced_usage list" where
  "maybeRepriceStoredModelUsages usages startedAt ce =
     (case ce of
        None \<Rightarrow> usages
      | Some catalog \<Rightarrow> map (\<lambda>u.
          if usage_nano u \<noteq> None \<and> map_option pc_state (pu_pricingCoverage u) \<noteq> Some Unpriced then u
          else let e = estimateTokensForModel catalog (Some (mu_model u)) (mu_provider u) u startedAt
               in u\<lparr>pu_estimatedNanoUsd := Some (ce_estimatedNanoUsd e), pu_estimatedUsd := Some (ce_estimatedUsd e),
                   pu_pricingVersion := (if ce_pricingVersion e = '''' then None else Some (ce_pricingVersion e)),
                   pu_matchedModel := (if ce_matchedModel e = '''' then None else Some (ce_matchedModel e)),
                   pu_pricingCoverage := Some (ce_pricingCoverage e)\<rparr>) usages)"

text \<open>The value is the run that is priced, as the object that is spread into the coverage.\<close>

definition maybeRepriceStoredRunPricing :: "pricing_value \<Rightarrow> token_breakdown \<Rightarrow> pricing_coverage option
    \<Rightarrow> priced_usage list \<Rightarrow> string \<Rightarrow> pricing_catalog option \<Rightarrow> rat option \<times> pricing_coverage" where
  "maybeRepriceStoredRunPricing v tokens pc usages startedAt ce =
     (let nano = normalizedEstimatedNanoUsd (pv_estimatedNanoUsd v) (pv_estimatedUsd v);
          stored = (nano, normalizePricingCoverage pc (Some (v\<lparr>pv_estimatedNanoUsd := nano, pv_modelUsages := usages\<rparr>)))
      in if nano \<noteq> None \<and> map_option pc_state pc \<noteq> Some Unpriced then stored
         else case ce of
           None \<Rightarrow> stored
         | Some catalog \<Rightarrow>
             if usages \<noteq> []
             then (opt_sum (map usage_nano usages),
                   aggregatePricingCoverage (map (\<lambda>u. normalizePricingCoverage (pu_pricingCoverage u)
                     (Some ((value_of_usage u)\<lparr>pv_estimatedNanoUsd := usage_nano u, pv_modelUsages := [u]\<rparr>))) usages))
             else case estimate catalog (unique_strings (nullish (pv_models v) [])) tokens startedAt of
                 Some e \<Rightarrow> (Some (ce_estimatedNanoUsd e), ce_pricingCoverage e)
               | None \<Rightarrow> stored)"

definition repriceStoredAttributedUsageUnit :: "string \<Rightarrow> pricing_catalog \<Rightarrow> priced_unit \<Rightarrow> priced_unit" where
  "repriceStoredAttributedUsageUnit startedAt catalog u =
     (if \<not> truthy (au_model u) then u
      else let e = estimateTokensForModel catalog (au_model u) (au_provider u) u startedAt
           in u\<lparr>un_estimatedNanoUsd := Some (ce_estimatedNanoUsd e), un_pricing := ce_pricingMatch e,
               un_pricingCoverage := Some (ce_pricingCoverage e)\<rparr>)"

definition repriceStoredAccountingModelSummary :: "string \<Rightarrow> pricing_catalog \<Rightarrow> model_summary \<Rightarrow> model_summary" where
  "repriceStoredAccountingModelSummary startedAt catalog s =
     (let e = estimateTokensForModel catalog (Some (am_model s)) (am_provider s) s startedAt
      in s\<lparr>am_estimatedNanoUsd := Some (ce_estimatedNanoUsd e), am_pricing := ce_pricingMatch e,
          am_pricingCoverage := Some (ce_pricingCoverage e)\<rparr>)"

definition repriceStoredSpanSummary :: "string \<Rightarrow> pricing_catalog \<Rightarrow> span_summary \<Rightarrow> span_summary" where
  "repriceStoredSpanSummary startedAt catalog s =
     (if \<not> truthy (sa_model s) then s
      else let e = estimateTokensForModel catalog (sa_model s) (sa_provider s) s startedAt
           in s\<lparr>sa_estimatedNanoUsd := Some (ce_estimatedNanoUsd e), sa_pricing := ce_pricingMatch e,
               sa_pricingCoverage := Some (ce_pricingCoverage e)\<rparr>)"

text \<open>The JSON text of an array of strings is its key.\<close>

definition match_key :: "pricing_match \<Rightarrow> string list" where
  "match_key m = [nullish (map_option billing_context_str (pm_billingContext m)) '''', nullish (pm_provider m) '''',
     nullish (pm_model m) '''', nullish (pm_matchedModel m) '''', pm_pricingVersion m,
     nullish (pm_effectiveFrom m) '''', nullish (pm_sourceUrl m) ''''] @ pm_notes m"

fun uniquePricingMatches :: "pricing_match list \<Rightarrow> pricing_match list" where
  "uniquePricingMatches [] = []"
| "uniquePricingMatches (m # ms) = m # filter (\<lambda>n. match_key n \<noteq> match_key m) (uniquePricingMatches ms)"

definition repriceStoredAccounting :: "trace_accounting \<Rightarrow> run \<Rightarrow> string \<Rightarrow> pricing_catalog \<Rightarrow> trace_accounting" where
  "repriceStoredAccounting ac r startedAt catalog =
     (let units = map (repriceStoredAttributedUsageUnit startedAt catalog) (ac_attributedUsageUnits ac);
          models = map (repriceStoredAccountingModelSummary startedAt catalog) (ac_modelSummaries ac);
          spans = map (repriceStoredSpanSummary startedAt catalog) (ac_spanSummaries ac);
          totals = ac_totals ac;
          nano = or_else (at_estimatedNanoUsd totals) (run_nano r);
          v = \<lparr>pv_estimatedNanoUsd = nano, pv_estimatedUsd = or_else (usdFromNanoUsd nano) (rn_estimatedUsd r),
               pv_model = None, pv_models = Some (unique_strings (rn_models r @ map am_model models)),
               pv_modelUsages = [], pv_pricingVersion = None, pv_tokenUsageSource = None\<rparr>;
          repriced = maybeRepriceStoredRunPricing v (pick_tokens totals r no_tokens)
            (or_else (at_pricingCoverage totals) (rn_pricingCoverage r))
            (map modelUsageFromAccountingSummary models) startedAt (Some catalog)
      in ac\<lparr>ac_attributedUsageUnits := units, ac_modelSummaries := models, ac_spanSummaries := spans,
           ac_totals := totals\<lparr>at_estimatedNanoUsd := fst repriced, at_pricingCoverage := Some (snd repriced)\<rparr>,
           ac_pricingMatches := uniquePricingMatches (ac_pricingMatches ac
             @ List.map_filter un_pricing units @ List.map_filter am_pricing models
             @ List.map_filter sa_pricing spans)\<rparr>)"

section \<open>The accounting of a stored run\<close>

definition reconstruction_warning :: string where
  "reconstruction_warning = ''Schema v3 row was missing the authoritative accounting payload; reconstructed from stored run totals.''"

definition reconstructed_accounting :: "run \<Rightarrow> pricing_coverage \<Rightarrow> trace_accounting" where
  "reconstructed_accounting r pc =
     (let coverage = \<lparr>cov_state = normalizeCostCoverage (rn_costCoverage r) r, cov_reasons = []\<rparr>;
          warnings = unique_strings (rn_warnings r @ [reconstruction_warning])
      in \<lparr>ac_sourceSelection = \<lparr>ss_selectedTokenUsageSource = normalizeTokenUsageSource (rn_tokenUsageSource r),
            ss_corroboratingSources = [], ss_dedupedRecordCount = 0, ss_discardedOverlapReasons = []\<rparr>,
          ac_attributedUsageUnits = [], ac_modelSummaries = [], ac_toolSummaries = [], ac_spanSummaries = [],
          ac_totals = \<lparr>inputTokens = inputTokens r, outputTokens = outputTokens r,
            cacheReadInputTokens = cacheReadInputTokens r, cacheCreationInputTokens = cacheCreationInputTokens r,
            cachedTokens = cachedTokens r, reasoningOutputTokens = reasoningOutputTokens r, totalTokens = totalTokens r,
            at_estimatedNanoUsd = run_nano r, at_pricingCoverage = Some pc, at_coverage = coverage,
            at_warnings = warnings\<rparr>,
          ac_pricingMatches = [], ac_invariants = [], ac_coverage = coverage, ac_warnings = warnings\<rparr>)"

definition normalized_accounting :: "trace_accounting \<Rightarrow> run \<Rightarrow> pricing_coverage \<Rightarrow> trace_accounting" where
  "normalized_accounting ac r pc =
     (let totals = ac_totals ac
      in ac\<lparr>ac_totals := (pick_tokens totals r totals)
             \<lparr>at_estimatedNanoUsd := or_else (at_estimatedNanoUsd totals) (run_nano r),
              at_pricingCoverage := Some pc,
              at_warnings := unique_strings (at_warnings totals @ ac_warnings ac)\<rparr>,
           ac_warnings := unique_strings (ac_warnings ac)\<rparr>)"

definition normalizeStoredAccounting :: "trace_accounting option \<Rightarrow> run \<Rightarrow> string \<Rightarrow> pricing_catalog option
    \<Rightarrow> trace_accounting" where
  "normalizeStoredAccounting accounting r startedAt ce =
     (let pc = normalizePricingCoverage
            (or_else (Option.bind accounting (\<lambda>a. at_pricingCoverage (ac_totals a))) (rn_pricingCoverage r))
            (Some ((value_of_run r)\<lparr>pv_estimatedNanoUsd := run_nano r\<rparr>));
          stored = (case accounting of None \<Rightarrow> reconstructed_accounting r pc | Some ac \<Rightarrow> normalized_accounting ac r pc)
      in case ce of None \<Rightarrow> stored | Some catalog \<Rightarrow> repriceStoredAccounting stored r startedAt catalog)"

section \<open>The three versions\<close>

definition common_fields :: "run \<Rightarrow> rat option \<Rightarrow> pricing_coverage \<Rightarrow> run" where
  "common_fields r nano pc = r\<lparr>
     rn_queryId := (if rn_queryId r \<noteq> '''' then rn_queryId r else rn_traceId r),
     rn_queryStartedAt := (if rn_queryStartedAt r \<noteq> '''' then rn_queryStartedAt r else rn_startedAt r),
     rn_initialQueryState := Some (normalizeInitialQueryState (rn_initialQueryState r) (rn_initialQueryText r)),
     rn_estimatedNanoUsd := nano,
     rn_estimatedUsd := or_else (usdFromNanoUsd nano) (rn_estimatedUsd r),
     rn_estimatedAiCredits := or_else (aiCreditsFromNanoUsd nano) (rn_estimatedAiCredits r),
     rn_pricingCoverage := Some pc,
     rn_costCoverage := Some (costCoverageFromPricingCoverage (Some pc))\<rparr>"

definition normalize_v3 :: "pricing_catalog option \<Rightarrow> run \<Rightarrow> run" where
  "normalize_v3 ce r =
     (let modelUsages = map normalizeStoredModelUsage (rn_modelUsages r);
          nano = run_nano r;
          ac = normalizeStoredAccounting (rn_accounting r)
            (r\<lparr>rn_estimatedNanoUsd := nano, rn_modelUsages := modelUsages\<rparr>) (rn_startedAt r)
            (if shouldRepriceMissingSchemaV3Pricing r then ce else None);
          acUsages = map modelUsageFromAccountingSummary (ac_modelSummaries ac);
          acTools = map toolSummaryToTool (ac_toolSummaries ac);
          acModels = modelsFromStoredAccounting ac;
          models = (if acModels \<noteq> [] then acModels else rn_models r);
          usages = (if acUsages \<noteq> [] then acUsages else modelUsages);
          source = ss_selectedTokenUsageSource (ac_sourceSelection ac);
          acNano = or_else (at_estimatedNanoUsd (ac_totals ac)) nano;
          pc = normalizePricingCoverage (or_else (at_pricingCoverage (ac_totals ac)) (rn_pricingCoverage r))
            (Some ((value_of_run r)\<lparr>pv_tokenUsageSource := Some source, pv_models := Some models,
              pv_estimatedNanoUsd := acNano, pv_modelUsages := usages\<rparr>))
      in pick_tokens (ac_totals ac) r ((common_fields r acNano pc)\<lparr>
          rn_billingContext := or_else (rn_billingContext r)
            (firstBillingContext (map pm_billingContext (ac_pricingMatches ac))),
          rn_tokenUsageSource := Some source,
          rn_models := models,
          rn_pricingVersion := or_else (firstDefined (map Some (pc_pricingVersions pc)))
            (or_else (firstDefined (map (\<lambda>m. Some (pm_pricingVersion m)) (ac_pricingMatches ac))) (rn_pricingVersion r)),
          rn_accounting := Some ac,
          rn_modelUsages := usages,
          rn_toolCallCount := (if acTools \<noteq> [] then sum_list (map tl_count acTools) else rn_toolCallCount r),
          rn_tools := (if acTools \<noteq> [] then acTools else rn_tools r),
          rn_warnings := unique_strings (rn_warnings r @ ac_warnings ac)\<rparr>))"

definition normalize_v2 :: "pricing_catalog option \<Rightarrow> run \<Rightarrow> run" where
  "normalize_v2 ce r =
     (let modelUsages = maybeRepriceStoredModelUsages (map normalizeStoredModelUsage (rn_modelUsages r)) (rn_startedAt r) ce;
          repriced = maybeRepriceStoredRunPricing (value_of_run r) (token_breakdown.truncate r) (rn_pricingCoverage r)
            modelUsages (rn_startedAt r) ce
      in (common_fields r (fst repriced) (snd repriced))\<lparr>
          rn_tokenUsageSource := Some (normalizeTokenUsageSource (rn_tokenUsageSource r)),
          rn_pricingVersion := or_else (firstDefined (map Some (pc_pricingVersions (snd repriced))))
            (or_else (firstDefined (map pu_pricingVersion modelUsages)) (rn_pricingVersion r)),
          rn_modelUsages := modelUsages,
          rn_warnings := unique_strings (rn_warnings r @ [legacySchemaWarning 2])\<rparr>)"

definition legacyModelUsages :: "run \<Rightarrow> priced_usage list" where
  "legacyModelUsages r =
     (if length (rn_models r) \<noteq> 1 \<or> (inputTokens r = None \<and> outputTokens r = None) then []
      else [\<lparr>inputTokens = inputTokens r, outputTokens = outputTokens r,
        cacheReadInputTokens = cacheReadInputTokens r, cacheCreationInputTokens = cacheCreationInputTokens r,
        cachedTokens = cachedTokens r, reasoningOutputTokens = reasoningOutputTokens r, totalTokens = totalTokens r,
        mu_model = hd (rn_models r), mu_provider = None, mu_notes = [''Read from legacy schema v1 run totals.''],
        pu_estimatedNanoUsd = run_nano r, pu_estimatedUsd = rn_estimatedUsd r,
        pu_pricingVersion = rn_pricingVersion r, pu_matchedModel = None, pu_pricingCoverage = None\<rparr>])"

definition normalize_v1 :: "run \<Rightarrow> run" where
  "normalize_v1 r =
     (let nano = run_nano r;
          pc = normalizePricingCoverage None (Some ((value_of_run r)\<lparr>pv_estimatedNanoUsd := nano,
            pv_tokenUsageSource := Some Legacy, pv_modelUsages := legacyModelUsages r\<rparr>))
      in (common_fields r nano pc)\<lparr>
          rn_schemaVersion := 2, rn_queryId := rn_traceId r, rn_queryStartedAt := rn_startedAt r,
          rn_initialQueryState := Some Query_unavailable, rn_tokenUsageSource := Some Legacy,
          rn_modelUsages := legacyModelUsages r,
          rn_warnings := unique_strings (rn_warnings r @ [legacySchemaWarning 1])\<rparr>)"

definition normalizeStoredRun :: "pricing_catalog option \<Rightarrow> run \<Rightarrow> run option" where
  "normalizeStoredRun ce r =
     (if rn_schemaVersion r = 3 then Some (normalize_v3 ce r)
      else if rn_schemaVersion r = 2 then Some (normalize_v2 ce r)
      else if rn_schemaVersion r = 1 then Some (normalize_v1 r)
      else None)"

end
