(* ===== verification/RunGroups.thy ===== *)
theory RunGroups
  imports RunNormalization CommitSummaries TokenMeasurement
begin

text \<open>
  The groups that the run ledger lists: the runs of a query, the queries of a chat session, the
  totals of a period and the CSV export (src/src/storage/runLedger.ts). A run that is not of
  version 3 has no accounting of its own; one is made from its totals, models and tools.
\<close>

section \<open>The accounting that is aggregated\<close>

record aggregated =
  ag_billingContext :: "billing_context option"
  ag_sourceSelection :: source_selection
  ag_modelSummaries :: "model_summary list"
  ag_toolSummaries :: "tool_accounting list"
  ag_spanSummaries :: "span_summary list"
  ag_totals :: accounting_totals
  ag_coverage :: accounting_coverage
  ag_pricingMatches :: "pricing_match list"
  ag_warnings :: "string list"
  ag_legacySchema :: bool

definition accountingModelSummaryFromUsage :: "priced_usage \<Rightarrow> model_summary" where
  "accountingModelSummaryFromUsage u =
     (let pc = normalizePricingCoverage (pu_pricingCoverage u) (Some
            \<lparr>pv_estimatedNanoUsd = usage_nano u, pv_estimatedUsd = pu_estimatedUsd u, pv_model = Some (mu_model u),
             pv_models = None, pv_modelUsages = [u], pv_pricingVersion = None, pv_tokenUsageSource = None\<rparr>)
      in \<lparr>inputTokens = inputTokens u, outputTokens = outputTokens u,
          cacheReadInputTokens = cacheReadInputTokens u, cacheCreationInputTokens = cacheCreationInputTokens u,
          cachedTokens = cachedTokens u, reasoningOutputTokens = reasoningOutputTokens u, totalTokens = totalTokens u,
          am_model = mu_model u, am_provider = mu_provider u, am_attributionIds = [],
          am_estimatedNanoUsd = usage_nano u,
          am_pricing = (if truthy (pu_pricingVersion u)
            then Some \<lparr>pm_billingContext = None, pm_provider = mu_provider u, pm_model = Some (mu_model u),
              pm_matchedModel = pu_matchedModel u, pm_pricingVersion = the (pu_pricingVersion u),
              pm_effectiveFrom = None, pm_sourceUrl = None, pm_notes = []\<rparr>
            else None),
          am_pricingCoverage = Some pc,
          am_coverage = \<lparr>cov_state = costCoverageFromPricingCoverage (Some pc), cov_reasons = dedup (pc_reasons pc)\<rparr>,
          am_warnings = unique_strings (mu_notes u)\<rparr>)"

definition accountingToolSummaryFromTool :: "accounting_coverage \<Rightarrow> tool_summary \<Rightarrow> tool_accounting" where
  "accountingToolSummaryFromTool parent t = tool_summary.extend t (tool_accounting.fields [] None None None
     (if hasReportedTokens t then parent
      else \<lparr>cov_state = (if cov_state parent = Complete then Partial else cov_state parent),
            cov_reasons = dedup (cov_reasons parent @ [Missing_tool_attribution])\<rparr>)
     [])"

definition legacy_accounting :: "run \<Rightarrow> aggregated" where
  "legacy_accounting r =
     (let pc = normalizePricingCoverage (rn_pricingCoverage r) (Some (value_of_run r));
          warnings = unique_strings (rn_warnings r);
          legacy = (rn_tokenUsageSource r = Some Legacy);
          coverage = \<lparr>cov_state = normalizeCostCoverage (rn_costCoverage r) r,
            cov_reasons = dedup (pc_reasons pc @ (if legacy then [Legacy_schema] else []))\<rparr>
      in \<lparr>ag_billingContext = rn_billingContext r,
          ag_sourceSelection = \<lparr>ss_selectedTokenUsageSource = normalizeTokenUsageSource (rn_tokenUsageSource r),
            ss_corroboratingSources = [], ss_dedupedRecordCount = 0,
            ss_discardedOverlapReasons = (if legacy then [Legacy_schema] else [])\<rparr>,
          ag_modelSummaries = map accountingModelSummaryFromUsage (rn_modelUsages r),
          ag_toolSummaries = map (accountingToolSummaryFromTool coverage) (rn_tools r),
          ag_spanSummaries = [],
          ag_totals = \<lparr>inputTokens = inputTokens r, outputTokens = outputTokens r,
            cacheReadInputTokens = cacheReadInputTokens r, cacheCreationInputTokens = cacheCreationInputTokens r,
            cachedTokens = cachedTokens r, reasoningOutputTokens = reasoningOutputTokens r, totalTokens = totalTokens r,
            at_estimatedNanoUsd = run_nano r, at_pricingCoverage = Some pc, at_coverage = coverage,
            at_warnings = warnings\<rparr>,
          ag_coverage = coverage, ag_pricingMatches = [], ag_warnings = warnings, ag_legacySchema = True\<rparr>)"

definition accountingForAggregation :: "run \<Rightarrow> aggregated" where
  "accountingForAggregation r =
     (case authoritative r of
        Some ac \<Rightarrow> \<lparr>ag_billingContext = or_else (rn_billingContext r)
              (firstBillingContext (map pm_billingContext (ac_pricingMatches ac))),
            ag_sourceSelection = ac_sourceSelection ac, ag_modelSummaries = ac_modelSummaries ac,
            ag_toolSummaries = ac_toolSummaries ac, ag_spanSummaries = ac_spanSummaries ac,
            ag_totals = ac_totals ac, ag_coverage = ac_coverage ac, ag_pricingMatches = ac_pricingMatches ac,
            ag_warnings = unique_strings (rn_warnings r @ ac_warnings ac @ at_warnings (ac_totals ac)),
            ag_legacySchema = False\<rparr>
      | None \<Rightarrow> legacy_accounting r)"

definition pricingCoverageFromAggregatedAccounting :: "aggregated \<Rightarrow> pricing_coverage" where
  "pricingCoverageFromAggregatedAccounting ag = normalizePricingCoverage (at_pricingCoverage (ag_totals ag)) (Some
     \<lparr>pv_estimatedNanoUsd = at_estimatedNanoUsd (ag_totals ag), pv_estimatedUsd = None, pv_model = None,
      pv_models = Some (unique_strings (map am_model (ag_modelSummaries ag))),
      pv_modelUsages = map modelUsageFromAccountingSummary (ag_modelSummaries ag), pv_pricingVersion = None,
      pv_tokenUsageSource = Some (ss_selectedTokenUsageSource (ag_sourceSelection ag))\<rparr>)"

definition modelsFromAggregatedAccounting :: "aggregated \<Rightarrow> string list" where
  "modelsFromAggregatedAccounting ag =
     (let pc = pricingCoverageFromAggregatedAccounting ag
      in unique_strings (map am_model (ag_modelSummaries ag) @ pc_pricedModels pc @ pc_unpricedModels pc))"

definition countUnpricedSlices :: "aggregated \<Rightarrow> nat" where
  "countUnpricedSlices ag =
     length (filter (\<lambda>s. map_option pc_state (am_pricingCoverage s) \<noteq> Some Priced) (ag_modelSummaries ag))
     + (case at_pricingCoverage (ag_totals ag) of Some pc \<Rightarrow> pc_missingModelSlices pc | None \<Rightarrow> 0)"

definition countUnavailableSlices :: "aggregated \<Rightarrow> nat" where
  "countUnavailableSlices ag =
     (let unavailableSpans = length (filter (\<lambda>s. cov_state (sa_coverage s) = Unavailable) (ag_spanSummaries ag))
      in if unavailableSpans > 0 then unavailableSpans
         else if cov_state (ag_coverage ag) = Unavailable then 1 else 0)"

section \<open>What is aggregated\<close>

definition uniqueTokenSources :: "token_usage_source option list \<Rightarrow> token_usage_source list" where
  "uniqueTokenSources xs = dedup (map normalizeTokenUsageSource xs)"

definition uniqueBillingContexts :: "billing_context option list \<Rightarrow> billing_context list" where
  "uniqueBillingContexts xs = dedup (List.map_filter id xs)"

record aggregate_summary =
  su_billingContext :: "billing_context option"
  su_billingContexts :: "billing_context list"
  su_pricingCoverage :: pricing_coverage
  su_accountingCoverage :: accounting_coverage
  su_pricingVersions :: "string list"
  su_pricingEffectiveFrom :: "string list"
  su_unpricedSliceCount :: nat
  su_unavailableSliceCount :: nat
  su_legacyRunCount :: nat

definition aggregateRunAccountings :: "aggregated list \<Rightarrow> aggregate_summary" where
  "aggregateRunAccountings ags =
     (let pc = aggregatePricingCoverage (map pricingCoverageFromAggregatedAccounting ags);
          contexts = uniqueBillingContexts (map ag_billingContext ags)
      in \<lparr>su_billingContext = (if length contexts = 1 then Some (hd contexts) else None),
          su_billingContexts = contexts,
          su_pricingCoverage = pc,
          su_accountingCoverage =
            \<lparr>cov_state = aggregateCostCoverage (map (\<lambda>ag. \<lparr>ci_costCoverage = cov_state (ag_coverage ag),
                ci_estimatedNanoUsd = at_estimatedNanoUsd (ag_totals ag),
                ci_estimatedUsd = usdFromNanoUsd (at_estimatedNanoUsd (ag_totals ag)),
                ci_pricingCoverage = Some (pricingCoverageFromAggregatedAccounting ag)\<rparr>) ags),
             cov_reasons = dedup (concat (map (\<lambda>ag. cov_reasons (ag_coverage ag)) ags) @ pc_reasons pc)\<rparr>,
          su_pricingVersions = unique_strings (pc_pricingVersions pc
            @ concat (map (\<lambda>ag. map pm_pricingVersion (ag_pricingMatches ag)) ags)),
          su_pricingEffectiveFrom = unique_strings (pc_pricingEffectiveFrom pc
            @ concat (map (\<lambda>ag. List.map_filter pm_effectiveFrom (ag_pricingMatches ag)) ags)),
          su_unpricedSliceCount = sum_list (map countUnpricedSlices ags),
          su_unavailableSliceCount = sum_list (map countUnavailableSlices ags),
          su_legacyRunCount = length (filter ag_legacySchema ags)\<rparr>)"

definition aggregateGroupAccountings :: "run_group list \<Rightarrow> aggregate_summary" where
  "aggregateGroupAccountings gs =
     (let pc = aggregatePricingCoverage (map (\<lambda>g. clean_coverage (rg_pricingCoverage g)) gs);
          contexts = uniqueBillingContexts (concat (map (\<lambda>g. map Some (rg_billingContexts g)) gs))
      in \<lparr>su_billingContext = (if length contexts = 1 then Some (hd contexts) else None),
          su_billingContexts = contexts,
          su_pricingCoverage = pc,
          su_accountingCoverage =
            \<lparr>cov_state = aggregateCostCoverage (map (\<lambda>g. \<lparr>ci_costCoverage = cov_state (rg_accountingCoverage g),
                ci_estimatedNanoUsd = normalizedEstimatedNanoUsd (rg_estimatedNanoUsd g) (rg_estimatedUsd g),
                ci_estimatedUsd = rg_estimatedUsd g,
                ci_pricingCoverage = Some (clean_coverage (rg_pricingCoverage g))\<rparr>) gs),
             cov_reasons = dedup (concat (map (\<lambda>g. cov_reasons (rg_accountingCoverage g)) gs) @ pc_reasons pc)\<rparr>,
          su_pricingVersions = unique_strings (pc_pricingVersions pc @ concat (map rg_pricingVersions gs)),
          su_pricingEffectiveFrom = unique_strings (pc_pricingEffectiveFrom pc @ concat (map rg_pricingEffectiveFrom gs)),
          su_unpricedSliceCount = sum_list (map rg_unpricedSliceCount gs),
          su_unavailableSliceCount = sum_list (map rg_unavailableSliceCount gs),
          su_legacyRunCount = sum_list (map rg_legacyRunCount gs)\<rparr>)"

text \<open>\<open>mergeBreakdown\<close> changes its first argument; here it returns it.\<close>

definition mergeBreakdown :: "'a token_breakdown_scheme \<Rightarrow> 'b token_breakdown_scheme \<Rightarrow> 'a token_breakdown_scheme" where
  "mergeBreakdown target usage = target\<lparr>
     inputTokens := add_opt (inputTokens target) (inputTokens usage),
     outputTokens := add_opt (outputTokens target) (outputTokens usage),
     cacheReadInputTokens := add_opt (cacheReadInputTokens target) (cacheReadInputTokens usage),
     cacheCreationInputTokens := add_opt (cacheCreationInputTokens target) (cacheCreationInputTokens usage),
     cachedTokens := add_opt (cachedTokens target) (cachedTokens usage),
     reasoningOutputTokens := add_opt (reasoningOutputTokens target) (reasoningOutputTokens usage),
     totalTokens := add_opt (totalTokens target) (totalTokens usage)\<rparr>"

definition sumTokenBreakdowns :: "'a token_breakdown_scheme list \<Rightarrow> token_breakdown" where
  "sumTokenBreakdowns us = foldl mergeBreakdown no_tokens us"

section \<open>Models and tools of a group\<close>

definition new_usage :: "priced_usage \<Rightarrow> priced_usage" where
  "new_usage u = \<lparr>inputTokens = None, outputTokens = None, cacheReadInputTokens = None,
     cacheCreationInputTokens = None, cachedTokens = None, reasoningOutputTokens = None, totalTokens = None,
     mu_model = mu_model u, mu_provider = mu_provider u, mu_notes = [], pu_estimatedNanoUsd = None,
     pu_estimatedUsd = None, pu_pricingVersion = None, pu_matchedModel = None, pu_pricingCoverage = None\<rparr>"

definition merge_usage :: "priced_usage option \<Rightarrow> priced_usage \<Rightarrow> priced_usage" where
  "merge_usage stored u =
     (let current = nullish stored (new_usage u);
          nano = add_opt (pu_estimatedNanoUsd current) (usage_nano u);
          merged = (mergeBreakdown current u)\<lparr>
            pu_estimatedNanoUsd := nano,
            pu_estimatedUsd := or_else (usdFromNanoUsd nano) (add_opt (pu_estimatedUsd current) (pu_estimatedUsd u)),
            pu_pricingVersion := or_else (pu_pricingVersion current) (pu_pricingVersion u),
            pu_matchedModel := or_else (pu_matchedModel current) (pu_matchedModel u)\<rparr>
      in merged\<lparr>
           pu_pricingCoverage := Some (aggregatePricingCoverage
             [normalizePricingCoverage (pu_pricingCoverage merged) (Some (value_of_usage merged)),
              normalizePricingCoverage (pu_pricingCoverage u) (Some (value_of_usage u))]),
           mu_notes := unique_strings (mu_notes current @ mu_notes u)\<rparr>)"

definition usage_key :: "priced_usage \<Rightarrow> string" where
  "usage_key u = modelProviderKey (mu_model u) (mu_provider u)"

definition usages_by_key :: "priced_usage list \<Rightarrow> (string, priced_usage) jsmap" where
  "usages_by_key us = foldl (\<lambda>m u. map_set (usage_key u) (merge_usage (map_get m (usage_key u)) u) m) [] us"

definition usage_le :: "collation \<Rightarrow> priced_usage \<Rightarrow> priced_usage \<Rightarrow> bool" where
  "usage_le lc a b =
     (let d = nullish (totalTokens b) 0 - nullish (totalTokens a) 0;
          c = lc (mu_model a) (mu_model b)
      in if d \<noteq> 0 then d \<le> 0 else if c \<noteq> 0 then c \<le> 0
         else lc (nullish (mu_provider a) '''') (nullish (mu_provider b) '''') \<le> 0)"

definition mergeModelUsages :: "collation \<Rightarrow> priced_usage list \<Rightarrow> priced_usage list" where
  "mergeModelUsages lc us = sort_by (usage_le lc) (map_values (usages_by_key us))"

definition merge_tool :: "tool_summary option \<Rightarrow> tool_summary \<Rightarrow> tool_summary" where
  "merge_tool stored t =
     (let current = nullish stored \<lparr>inputTokens = None, outputTokens = None, cacheReadInputTokens = None,
            cacheCreationInputTokens = None, cachedTokens = None, reasoningOutputTokens = None, totalTokens = None,
            tl_name = tl_name t, tl_count = 0, tl_failures = 0, tl_totalDurationMs = Some 0\<rparr>
      in (mergeBreakdown current t)\<lparr>tl_count := tl_count current + tl_count t,
           tl_failures := tl_failures current + tl_failures t,
           tl_totalDurationMs := add_opt (tl_totalDurationMs current) (tl_totalDurationMs t)\<rparr>)"

definition tools_by_name :: "tool_summary list \<Rightarrow> (string, tool_summary) jsmap" where
  "tools_by_name ts = foldl (\<lambda>m t. map_set (tl_name t) (merge_tool (map_get m (tl_name t)) t) m) [] ts"

definition tool_le :: "collation \<Rightarrow> tool_summary \<Rightarrow> tool_summary \<Rightarrow> bool" where
  "tool_le lc a b = (if tl_count b \<noteq> tl_count a then tl_count b \<le> tl_count a else lc (tl_name a) (tl_name b) \<le> 0)"

definition mergeTools :: "collation \<Rightarrow> tool_summary list \<Rightarrow> tool_summary list" where
  "mergeTools lc ts = sort_by (tool_le lc) (map_values (tools_by_name ts))"

section \<open>The first query text of a group\<close>

definition preferredInitialQueryState :: "query_state option \<Rightarrow> query_state option \<Rightarrow> query_state" where
  "preferredInitialQueryState preferred fallback =
     (let p = normalizeInitialQueryState preferred None; f = normalizeInitialQueryState fallback None
      in if initialQueryStateRank (Some f) \<le> initialQueryStateRank (Some p) then p else f)"

definition text_rank :: "run \<Rightarrow> nat" where
  "text_rank r = initialQueryStateRank (Some (normalizeInitialQueryState (rn_initialQueryState r) (rn_initialQueryText r)))"

definition has_query_text :: "run \<Rightarrow> bool" where
  "has_query_text r \<longleftrightarrow> pickString (rn_initialQueryText r) None \<noteq> None"

definition preferredInitialQueryText :: "run \<Rightarrow> run \<Rightarrow> string option" where
  "preferredInitialQueryText preferred fallback =
     (case sort_by (\<lambda>a b. text_rank b \<le> text_rank a) (filter has_query_text [preferred, fallback]) of
        [] \<Rightarrow> None | r # _ \<Rightarrow> rn_initialQueryText r)"

definition groupInitialQueryState :: "run list \<Rightarrow> query_state" where
  "groupInitialQueryState runs =
     foldl (\<lambda>best r. preferredInitialQueryState (rn_initialQueryState r) (Some best)) Query_unavailable runs"

definition groupInitialQueryText :: "run list \<Rightarrow> string option" where
  "groupInitialQueryText runs = Option.bind
     (foldl (\<lambda>best r. if \<not> has_query_text r then best
        else (case best of None \<Rightarrow> Some r
          | Some b \<Rightarrow> if preferredInitialQueryText r b = rn_initialQueryText r then Some r else best)) None runs)
     rn_initialQueryText"

section \<open>Groups of runs\<close>

definition latestDefined :: "string option list \<Rightarrow> string option" where
  "latestDefined xs =
     (let defined = sort (filter (\<lambda>x. \<not> blank x) (List.map_filter id xs))
      in if defined = [] then None else Some (last defined))"

definition groupDurationMs :: "string \<Rightarrow> string option \<Rightarrow> rat option" where
  "groupDurationMs startedAt endedAt =
     (if \<not> truthy endedAt then None
      else case (date_ms startedAt, date_ms (the endedAt)) of
          (Some start, Some end) \<Rightarrow> if start \<le> end then Some (of_int (end - start)) else None
        | _ \<Rightarrow> None)"

definition costLabel :: "cost_coverage \<Rightarrow> pricing_coverage \<Rightarrow> cost_label" where
  "costLabel coverage pc =
     (case coverage of
        Unavailable \<Rightarrow> Cost_unavailable
      | Partial \<Rightarrow> if list_ex (\<lambda>m. m \<notin> set (pc_pricedModels pc)) (pc_unpricedModels pc)
                   then Priced_models_only else Partial_estimate
      | Complete \<Rightarrow> All_estimated)"

definition group_of_runs :: "collation \<Rightarrow> string \<times> run list \<Rightarrow> run_group" where
  "group_of_runs lc kv =
     (let sortedRuns = sort_by (\<lambda>a b. lc (rn_startedAt a) (rn_startedAt b) \<le> 0) (snd kv);
          ags = map accountingForAggregation sortedRuns;
          breakdown = sumTokenBreakdowns (map ag_totals ags);
          su = aggregateRunAccountings ags;
          models = unique_strings (concat (map modelsFromAggregatedAccounting ags));
          nano = opt_sum (map (\<lambda>ag. at_estimatedNanoUsd (ag_totals ag)) ags);
          pc = su_pricingCoverage su;
          cost = costCoverageFromPricingCoverage (Some pc);
          firstRun = hd sortedRuns;
          endedAt = latestDefined (map rn_endedAt sortedRuns)
      in \<lparr>inputTokens = inputTokens breakdown, outputTokens = outputTokens breakdown,
          cacheReadInputTokens = cacheReadInputTokens breakdown,
          cacheCreationInputTokens = cacheCreationInputTokens breakdown, cachedTokens = cachedTokens breakdown,
          reasoningOutputTokens = reasoningOutputTokens breakdown, totalTokens = totalTokens breakdown,
          rg_queryId = fst kv,
          rg_chatSessionId = firstDefined (map rn_chatSessionId sortedRuns),
          rg_copilotSessionId = firstDefined (map rn_copilotSessionId sortedRuns),
          rg_startedAt = rn_queryStartedAt firstRun,
          rg_endedAt = endedAt,
          rg_durationMs = groupDurationMs (rn_queryStartedAt firstRun) endedAt,
          rg_initialQueryText = groupInitialQueryText sortedRuns,
          rg_initialQueryState = groupInitialQueryState sortedRuns,
          rg_runCount = length sortedRuns,
          rg_models = models,
          rg_modelUsages = mergeModelUsages lc (concat (map (\<lambda>ag. map modelUsageFromAccountingSummary (ag_modelSummaries ag)) ags)),
          rg_toolCallCount = sum_list (map rn_toolCallCount sortedRuns),
          rg_tools = mergeTools lc (concat (map (\<lambda>ag. map toolSummaryToTool (ag_toolSummaries ag)) ags)),
          rg_tokenSources = uniqueTokenSources (map (\<lambda>ag. Some (ss_selectedTokenUsageSource (ag_sourceSelection ag))) ags),
          rg_estimatedNanoUsd = nano,
          rg_estimatedUsd = usdFromNanoUsd nano,
          rg_estimatedAiCredits = aiCreditsFromNanoUsd nano,
          rg_billingContext = su_billingContext su,
          rg_billingContexts = su_billingContexts su,
          rg_pricingVersion = firstDefined (map Some (su_pricingVersions su)),
          rg_pricingCoverage = pc,
          rg_costCoverage = cost,
          rg_accountingCoverage = su_accountingCoverage su,
          rg_pricingVersions = su_pricingVersions su,
          rg_pricingEffectiveFrom = su_pricingEffectiveFrom su,
          rg_unpricedSliceCount = su_unpricedSliceCount su,
          rg_unavailableSliceCount = su_unavailableSliceCount su,
          rg_legacyRunCount = su_legacyRunCount su,
          rg_hasNonOpenAiModels = list_ex isLikelyNonOpenAiModel models,
          rg_costLabel = costLabel cost pc,
          rg_runs = rev sortedRuns,
          rg_warnings = unique_strings (concat (map rn_warnings sortedRuns) @ concat (map ag_warnings ags))\<rparr>)"

definition groupRuns :: "collation \<Rightarrow> run list \<Rightarrow> run_group list" where
  "groupRuns lc runs = map (group_of_runs lc) (group_by rn_queryId runs)"

section \<open>Chat sessions\<close>

definition UNKNOWN_CHAT_SESSION_ID :: string where
  "UNKNOWN_CHAT_SESSION_ID = ''session unavailable''"

definition sessionCostLabel :: "cost_coverage \<Rightarrow> run_group list \<Rightarrow> cost_label" where
  "sessionCostLabel coverage gs =
     (case coverage of
        Unavailable \<Rightarrow> Cost_unavailable
      | Complete \<Rightarrow> All_estimated
      | Partial \<Rightarrow>
          if list_ex (\<lambda>g. rg_costLabel g = Partial_estimate \<or> rg_costLabel g = Cost_unavailable) gs
          then Partial_estimate
          else if list_ex (\<lambda>g. rg_costLabel g = Priced_models_only) gs then Priced_models_only
          else Partial_estimate)"

definition group_nano :: "run_group \<Rightarrow> rat option" where
  "group_nano g = normalizedEstimatedNanoUsd (rg_estimatedNanoUsd g) (rg_estimatedUsd g)"

definition session_of_groups :: "collation \<Rightarrow> string \<times> run_group list \<Rightarrow> chat_session" where
  "session_of_groups lc kv =
     (let sessionGroups = snd kv;
          sortedGroups = sort_by (\<lambda>a b. lc (rg_startedAt b) (rg_startedAt a) \<le> 0) sessionGroups;
          oldest = hd (sort_by (\<lambda>a b. lc (rg_startedAt a) (rg_startedAt b) \<le> 0) sessionGroups);
          endedAt = latestDefined (map rg_endedAt sessionGroups);
          nano = opt_sum (map group_nano sessionGroups);
          su = aggregateGroupAccountings sessionGroups;
          cost = costCoverageFromPricingCoverage (Some (su_pricingCoverage su));
          breakdown = sumTokenBreakdowns sortedGroups
      in \<lparr>inputTokens = inputTokens breakdown, outputTokens = outputTokens breakdown,
          cacheReadInputTokens = cacheReadInputTokens breakdown,
          cacheCreationInputTokens = cacheCreationInputTokens breakdown, cachedTokens = cachedTokens breakdown,
          reasoningOutputTokens = reasoningOutputTokens breakdown, totalTokens = totalTokens breakdown,
          cs_chatSessionId = fst kv,
          cs_copilotSessionId = firstDefined (map rg_copilotSessionId sortedGroups),
          cs_startedAt = rg_startedAt oldest,
          cs_endedAt = endedAt,
          cs_durationMs = groupDurationMs (rg_startedAt oldest) endedAt,
          cs_queryCount = length sortedGroups,
          cs_runCount = sum_list (map rg_runCount sortedGroups),
          cs_models = unique_strings (concat (map rg_models sortedGroups)),
          cs_tokenSources = uniqueTokenSources (map Some (concat (map rg_tokenSources sortedGroups))),
          cs_estimatedNanoUsd = nano,
          cs_estimatedUsd = usdFromNanoUsd nano,
          cs_estimatedAiCredits = aiCreditsFromNanoUsd nano,
          cs_billingContext = su_billingContext su,
          cs_billingContexts = su_billingContexts su,
          cs_pricingCoverage = su_pricingCoverage su,
          cs_costCoverage = cost,
          cs_accountingCoverage = su_accountingCoverage su,
          cs_pricingVersions = su_pricingVersions su,
          cs_pricingEffectiveFrom = su_pricingEffectiveFrom su,
          cs_unpricedSliceCount = su_unpricedSliceCount su,
          cs_unavailableSliceCount = su_unavailableSliceCount su,
          cs_legacyRunCount = su_legacyRunCount su,
          cs_costLabel = sessionCostLabel cost sortedGroups,
          cs_queries = sortedGroups,
          cs_warnings = unique_strings (concat (map rg_warnings sortedGroups))\<rparr>)"

definition session_key :: "run_group \<Rightarrow> string" where
  "session_key g = nullish (pickString (rg_chatSessionId g) None) UNKNOWN_CHAT_SESSION_ID"

definition groupChatSessions :: "collation \<Rightarrow> run_group list \<Rightarrow> chat_session list" where
  "groupChatSessions lc gs = map (session_of_groups lc) (group_by session_key gs)"

definition sessionSortKey :: "chat_session \<Rightarrow> string" where
  "sessionSortKey s = nullish (latestDefined (map (\<lambda>g. Some (nullish (rg_endedAt g) (rg_startedAt g))) (cs_queries s)))
     (cs_startedAt s)"

end
