(* ===== verification/RunLedger.thy ===== *)
theory RunLedger
  imports RunGroups DurableStore JsDate
begin

text \<open>
  The run ledger (\<open>JsonlRunLedger\<close> of src/src/storage/runLedger.ts): a file with a run on each
  line. Every operation reads the whole file; the writing ones run one at a time
  (\<open>enqueueWrite\<close>), so each is one action on the file. A line that is not an object is \<open>None\<close>.
  Parameters: \<open>ce\<close> is the catalog of the optional cost estimation, \<open>lc\<close> is \<open>localeCompare\<close>,
  \<open>io\<close> says whether the file system accepts a write, and \<open>same\<close> whether two runs have the same JSON
  text, which depends on the order of their keys too.
\<close>

section \<open>Merging two records of a run\<close>

definition accountingQualityScore :: "aggregated \<Rightarrow> nat" where
  "accountingQualityScore ag =
     (if ag_legacySchema ag then 0 else 10)
     + costCoverageRank (cov_state (ag_coverage ag)) * 6
     + pricingCoverageStateRank (pc_state (pricingCoverageFromAggregatedAccounting ag)) * 5
     + length (ag_modelSummaries ag) * 2 + length (ag_toolSummaries ag) + length (ag_spanSummaries ag)
     + (if at_estimatedNanoUsd (ag_totals ag) \<noteq> None then 4 else 0)"

definition runScore :: "run \<Rightarrow> nat" where
  "runScore r =
     (let ag = accountingForAggregation r
      in (if rn_schemaVersion r = 3 then 100 else 0)
         + accountingQualityScore ag * 20
         + initialQueryStateRank (rn_initialQueryState r)
         + tokenUsageSourceRank (ss_selectedTokenUsageSource (ag_sourceSelection ag)) * 2
         + costCoverageRank (cov_state (ag_coverage ag)) * 6
         + length (ag_modelSummaries ag) * 6 + length (ag_toolSummaries ag) * 4 + length (ag_spanSummaries ag)
         + rn_llmCallCount r + rn_toolCallCount r
         + (if totalTokens (ag_totals ag) \<noteq> None then 5 else 0)
         + (if truthy (rn_endedAt r) then 1 else 0))"

definition with_warnings :: "trace_accounting \<Rightarrow> trace_accounting list \<Rightarrow> trace_accounting" where
  "with_warnings best acs = best\<lparr>
     ac_totals := (ac_totals best)\<lparr>at_warnings :=
       unique_strings (at_warnings (ac_totals best) @ concat (map (\<lambda>a. at_warnings (ac_totals a)) acs))\<rparr>,
     ac_warnings := unique_strings (ac_warnings best @ concat (map ac_warnings acs))\<rparr>"

definition mergeStoredAccounting :: "run \<Rightarrow> run \<Rightarrow> trace_accounting option" where
  "mergeStoredAccounting preferred fallback =
     (let candidates = sort_by (\<lambda>a b. accountingQualityScore (accountingForAggregation b)
              \<le> accountingQualityScore (accountingForAggregation a))
            (filter (\<lambda>r. authoritative r \<noteq> None) [preferred, fallback]);
          acs = List.map_filter authoritative candidates
      in case acs of [] \<Rightarrow> None | best # _ \<Rightarrow> Some (with_warnings best acs))"

definition pickTokenUsageSource :: "token_usage_source option \<Rightarrow> token_usage_source option \<Rightarrow> token_usage_source" where
  "pickTokenUsageSource preferred fallback =
     (let p = normalizeTokenUsageSource preferred; f = normalizeTokenUsageSource fallback
      in if tokenUsageSourceRank f \<le> tokenUsageSourceRank p then p else f)"

definition longer :: "'a list \<Rightarrow> 'a list \<Rightarrow> 'a list" where
  "longer xs ys = (if length ys \<le> length xs then xs else ys)"

definition merged_coverage :: "trace_accounting option \<Rightarrow> run \<Rightarrow> run \<Rightarrow> pricing_coverage" where
  "merged_coverage accounting p f =
     (case Option.bind accounting (\<lambda>a. at_pricingCoverage (ac_totals a)) of
        Some c \<Rightarrow> clean_coverage c
      | None \<Rightarrow> aggregatePricingCoverage [normalizePricingCoverage (rn_pricingCoverage p) (Some (value_of_run p)),
          normalizePricingCoverage (rn_pricingCoverage f) (Some (value_of_run f))])"

text \<open>The fields that the accounting decides when there is one; without one it has no counts.\<close>

definition accounting_tokens :: "trace_accounting option \<Rightarrow> token_breakdown" where
  "accounting_tokens accounting =
     (case accounting of Some a \<Rightarrow> token_breakdown.truncate (ac_totals a) | None \<Rightarrow> no_tokens)"

definition merge_into :: "trace_accounting option \<Rightarrow> run \<Rightarrow> run \<Rightarrow> run" where
  "merge_into accounting p f =
     (let nano = or_else (Option.bind accounting (\<lambda>a. at_estimatedNanoUsd (ac_totals a))) (or_else (run_nano p) (run_nano f));
          pc = merged_coverage accounting p f
      in pick_tokens (accounting_tokens accounting) (pick_tokens p f no_tokens) (p\<lparr>
          rn_schemaVersion := (if accounting = None then 2 else 3),
          rn_agentName := or_else (rn_agentName p) (rn_agentName f),
          rn_repoKey := or_else (rn_repoKey p) (rn_repoKey f),
          rn_billingContext := or_else (rn_billingContext p) (or_else (rn_billingContext f)
            (firstBillingContext (case accounting of None \<Rightarrow> [] | Some a \<Rightarrow> map pm_billingContext (ac_pricingMatches a)))),
          rn_initialQueryText := preferredInitialQueryText p f,
          rn_initialQueryState := Some (preferredInitialQueryState (rn_initialQueryState p) (rn_initialQueryState f)),
          rn_queryId := nullish (pickString (Some (rn_queryId p)) (Some (rn_queryId f))) (rn_traceId p),
          rn_queryStartedAt := nullish (pickString (Some (rn_queryStartedAt p)) (Some (rn_queryStartedAt f))) (rn_startedAt p),
          rn_chatSessionId := pickString (rn_chatSessionId p) (rn_chatSessionId f),
          rn_copilotSessionId := pickString (rn_copilotSessionId p) (rn_copilotSessionId f),
          rn_traceChatSessionId := pickString (rn_traceChatSessionId p) (rn_traceChatSessionId f),
          rn_traceRole := or_else (rn_traceRole p) (rn_traceRole f),
          rn_tokenUsageSource := Some (case accounting of
              Some a \<Rightarrow> ss_selectedTokenUsageSource (ac_sourceSelection a)
            | None \<Rightarrow> pickTokenUsageSource (rn_tokenUsageSource p) (rn_tokenUsageSource f)),
          rn_startedAt := nullish (pickString (Some (rn_startedAt p)) (Some (rn_startedAt f))) (rn_startedAt f),
          rn_endedAt := pickString (rn_endedAt p) (rn_endedAt f),
          rn_sessionId := pickString (rn_sessionId p) (rn_sessionId f),
          rn_serviceName := pickString (rn_serviceName p) (rn_serviceName f),
          rn_mode := or_else (rn_mode p) (rn_mode f),
          rn_models := (case accounting of Some a \<Rightarrow> modelsFromStoredAccounting a
            | None \<Rightarrow> longer (rn_models p) (rn_models f)),
          rn_modelUsages := (case accounting of Some a \<Rightarrow> map modelUsageFromAccountingSummary (ac_modelSummaries a)
            | None \<Rightarrow> longer (rn_modelUsages p) (rn_modelUsages f)),
          rn_tools := (case accounting of Some a \<Rightarrow> map toolSummaryToTool (ac_toolSummaries a)
            | None \<Rightarrow> longer (rn_tools p) (rn_tools f)),
          rn_warnings := unique_strings (rn_warnings f @ rn_warnings p
            @ (case accounting of None \<Rightarrow> [] | Some a \<Rightarrow> ac_warnings a @ at_warnings (ac_totals a))),
          rn_accounting := (case accounting of Some a \<Rightarrow> Some a | None \<Rightarrow> or_else (rn_accounting p) (rn_accounting f)),
          rn_estimatedNanoUsd := nano,
          rn_estimatedUsd := or_else (usdFromNanoUsd nano) (or_else (rn_estimatedUsd p) (rn_estimatedUsd f)),
          rn_estimatedAiCredits := or_else (aiCreditsFromNanoUsd nano) (or_else (rn_estimatedAiCredits p) (rn_estimatedAiCredits f)),
          rn_pricingVersion := or_else (firstDefined (map Some (pc_pricingVersions pc)))
            (pickString (rn_pricingVersion p) (rn_pricingVersion f)),
          rn_pricingCoverage := Some pc,
          rn_costCoverage := Some (costCoverageFromPricingCoverage (Some pc)),
          rn_llmCallCount := max (rn_llmCallCount p) (rn_llmCallCount f),
          rn_toolCallCount := (case accounting of Some a \<Rightarrow> sum_list (map tl_count (ac_toolSummaries a))
            | None \<Rightarrow> max (rn_toolCallCount p) (rn_toolCallCount f)),
          rn_durationMs := or_else (rn_durationMs p) (rn_durationMs f)\<rparr>))"

definition mergeRun :: "run \<Rightarrow> run \<Rightarrow> run" where
  "mergeRun existing incoming =
     (if runScore existing \<le> runScore incoming
      then merge_into (mergeStoredAccounting incoming existing) incoming existing
      else merge_into (mergeStoredAccounting existing incoming) existing incoming)"

section \<open>The file\<close>

type_synonym runs_file = "run option list disk"
type_synonym 'a run_action = "(runs_file, jsonl_error, 'a) action"

text \<open>An entry is the stored record with what it is read as; a malformed line is \<open>None\<close>.\<close>

definition read_entry :: "pricing_catalog option \<Rightarrow> run option \<Rightarrow> (run \<times> run) option" where
  "read_entry ce line = Option.bind line (\<lambda>raw. map_option (\<lambda>n. (raw, n)) (normalizeStoredRun ce raw))"

definition readStoredEntries :: "pricing_catalog option \<Rightarrow> ((run \<times> run) option list) run_action" where
  "readStoredEntries ce f =
     (case f of
        Missing \<Rightarrow> (Inr [], f)
      | Unreadable \<Rightarrow> (Inl Read_failed, f)
      | Content ls \<Rightarrow> (Inr (map (read_entry ce) ls), f))"

definition readAll :: "pricing_catalog option \<Rightarrow> (run list) run_action" where
  "readAll ce = bindA (readStoredEntries ce) (\<lambda>es. returnA (map snd (List.map_filter id es)))"

definition writeRuns :: "bool \<Rightarrow> run list \<Rightarrow> unit run_action" where
  "writeRuns io runs = (if io then modifyA (\<lambda>_. Content (map Some runs)) else throwA Write_failed)"

definition append_line :: "run \<Rightarrow> runs_file \<Rightarrow> runs_file" where
  "append_line r f = (case f of Content ls \<Rightarrow> Content (ls @ [Some r]) | _ \<Rightarrow> Content [Some r])"

definition append_run :: "pricing_catalog option \<Rightarrow> (run \<Rightarrow> run \<Rightarrow> bool) \<Rightarrow> bool \<Rightarrow> run \<Rightarrow> unit run_action" where
  "append_run ce same io r = bindA (readStoredEntries ce) (\<lambda>entries.
     let existing = List.map_filter id entries
     in case find (\<lambda>e. rn_id (snd e) = rn_id r) existing of
          None \<Rightarrow>
            if list_all (\<lambda>e. e \<noteq> None) entries
            then (if io then modifyA (append_line r) else throwA Write_failed)
            else writeRuns io (map fst existing @ [r])
        | Some duplicate \<Rightarrow>
            (let merged = mergeRun (snd duplicate) r
             in if same merged (fst duplicate) then returnA ()
                else writeRuns io (map (\<lambda>e. if rn_id (snd e) = rn_id r then merged else fst e) existing)))"

definition clear_runs :: "bool \<Rightarrow> unit run_action" where
  "clear_runs io = writeRuns io []"

definition retained_entry :: "int \<Rightarrow> rat \<Rightarrow> run \<times> run \<Rightarrow> bool" where
  "retained_entry now days e =
     (case date_ms (rn_startedAt (snd e)) of
        None \<Rightarrow> False
      | Some t \<Rightarrow> of_int now - days * 24 * 60 * 60 * 1000 \<le> (of_int t :: rat))"

text \<open>A number of days that is not finite is \<open>None\<close>.\<close>

definition applyRetention_runs :: "pricing_catalog option \<Rightarrow> bool \<Rightarrow> int \<Rightarrow> rat option \<Rightarrow> nat run_action" where
  "applyRetention_runs ce io now retentionDays =
     (case retentionDays of
        None \<Rightarrow> returnA 0
      | Some days \<Rightarrow>
          if days \<le> 0 then returnA 0
          else bindA (readStoredEntries ce) (\<lambda>entries.
            let valid = List.map_filter id entries;
                retained = filter (retained_entry now days) valid;
                removed = length valid - length retained
            in bindA (whenA (removed > 0) (writeRuns io (map fst retained))) (\<lambda>_. returnA removed)))"

section \<open>Reading\<close>

record run_query =
  rq_limit :: "int option"
  rq_range :: "(string \<times> string) option"
  rq_queryId :: "string option"
  rq_model :: "string option"
  rq_status :: "run_status option"

definition any_run :: run_query where
  "any_run = \<lparr>rq_limit = None, rq_range = None, rq_queryId = None, rq_model = None, rq_status = None\<rparr>"

definition matchesRunQuery :: "run_query \<Rightarrow> run \<Rightarrow> bool" where
  "matchesRunQuery query r \<longleftrightarrow>
     absent_or_equal (rq_queryId query) (rn_queryId r)
     \<and> (case rq_status query of None \<Rightarrow> True | Some s \<Rightarrow> rn_status r = s)
     \<and> (\<not> truthy (rq_model query)
        \<or> list_ex (\<lambda>m. str_includes (to_lower m) (to_lower (the (rq_model query)))) (rn_models r))
     \<and> in_date_range (rq_range query) (rn_startedAt r)"

definition newest_runs :: "collation \<Rightarrow> run_query \<Rightarrow> run list \<Rightarrow> run list" where
  "newest_runs lc query runs =
     sort_by (\<lambda>a b. lc (rn_startedAt b) (rn_startedAt a) \<le> 0) (filter (matchesRunQuery query) runs)"

definition list_runs :: "collation \<Rightarrow> pricing_catalog option \<Rightarrow> run_query \<Rightarrow> (run list) run_action" where
  "list_runs lc ce query =
     bindA (readAll ce) (\<lambda>runs. returnA (limited (rq_limit query) (newest_runs lc query runs)))"

definition query_groups :: "collation \<Rightarrow> run_query \<Rightarrow> run list \<Rightarrow> run_group list" where
  "query_groups lc query runs = limited (rq_limit query)
     (sort_by (\<lambda>a b. lc (rg_startedAt b) (rg_startedAt a) \<le> 0) (groupRuns lc (newest_runs lc query runs)))"

definition listQueryGroups :: "collation \<Rightarrow> pricing_catalog option \<Rightarrow> run_query \<Rightarrow> (run_group list) run_action" where
  "listQueryGroups lc ce query = bindA (readAll ce) (\<lambda>runs. returnA (query_groups lc query runs))"

definition chat_sessions :: "collation \<Rightarrow> run_query \<Rightarrow> run list \<Rightarrow> chat_session list" where
  "chat_sessions lc query runs = limited (rq_limit query)
     (sort_by (\<lambda>a b. lc (sessionSortKey b) (sessionSortKey a) \<le> 0)
       (groupChatSessions lc (groupRuns lc (newest_runs lc query runs))))"

definition listChatSessionGroups :: "collation \<Rightarrow> pricing_catalog option \<Rightarrow> run_query \<Rightarrow> (chat_session list) run_action" where
  "listChatSessionGroups lc ce query = bindA (readAll ce) (\<lambda>runs. returnA (chat_sessions lc query runs))"

definition totals_of_runs :: "run list \<Rightarrow> usage_totals" where
  "totals_of_runs runs =
     (let ags = map accountingForAggregation runs;
          breakdown = sumTokenBreakdowns (map ag_totals ags);
          su = aggregateRunAccountings ags;
          nano = nullish (opt_sum (map (\<lambda>ag. at_estimatedNanoUsd (ag_totals ag)) ags)) 0
      in \<lparr>ut_runCount = length runs,
          ut_inputTokens = nullish (inputTokens breakdown) 0,
          ut_outputTokens = nullish (outputTokens breakdown) 0,
          ut_reasoningOutputTokens = nullish (reasoningOutputTokens breakdown) 0,
          ut_cachedTokens = nullish (cachedTokens breakdown) 0,
          ut_totalTokens = nullish (totalTokens breakdown) 0,
          ut_tokenSources = uniqueTokenSources (map (\<lambda>ag. Some (ss_selectedTokenUsageSource (ag_sourceSelection ag))) ags),
          ut_estimatedNanoUsd = nano,
          ut_estimatedUsd = nullish (usdFromNanoUsd (Some nano)) 0,
          ut_estimatedAiCredits = nullish (aiCreditsFromNanoUsd (Some nano)) 0,
          ut_billingContext = su_billingContext su,
          ut_billingContexts = su_billingContexts su,
          ut_pricingCoverage = su_pricingCoverage su,
          ut_costCoverage = costCoverageFromPricingCoverage (Some (su_pricingCoverage su)),
          ut_accountingCoverage = su_accountingCoverage su,
          ut_pricingVersions = su_pricingVersions su,
          ut_pricingEffectiveFrom = su_pricingEffectiveFrom su,
          ut_unpricedSliceCount = su_unpricedSliceCount su,
          ut_unavailableSliceCount = su_unavailableSliceCount su,
          ut_legacyRunCount = su_legacyRunCount su\<rparr>)"

definition totals :: "collation \<Rightarrow> pricing_catalog option \<Rightarrow> string \<times> string \<Rightarrow> usage_totals run_action" where
  "totals lc ce period =
     bindA (list_runs lc ce (any_run\<lparr>rq_range := Some period\<rparr>)) (\<lambda>runs. returnA (totals_of_runs runs))"

end
