(* ===== verification/Groupings.thy ===== *)
theory Groupings
  imports Prelude
begin

text \<open>
  Grouping by a key, \<open>m.set(key, [...(m.get(key) ?? []), x])\<close>, is a partition: every element is in one
  group, and two elements are in the same group when they have the same key.
\<close>

lemma mset_map_set_snoc:
  assumes "distinct (map fst m)"
  shows "mset (concat (map snd (map_set k (nullish (map_get m k) [] @ [x]) m)))
    = add_mset x (mset (concat (map snd m)))"
proof (cases "map_get m k")
  case None
  then have "k \<notin> set (map fst m)" by (simp add: map_of_eq_None_iff)
  then show ?thesis by (simp add: None map_set_fresh)
next
  case (Some w)
  then obtain a b where m: "m = a @ (k, w) # b" and e: "map_set k (w @ [x]) m = a @ (k, w @ [x]) # b"
    using map_set_split [OF assms, of k w "w @ [x]"] by blast
  from e have "map_set k (nullish (map_get m k) [] @ [x]) m = a @ (k, w @ [x]) # b"
    by (simp only: Some nullish_simps)
  then show ?thesis by (simp only: m) simp
qed

lemma mset_group_by: "mset (concat (map snd (group_by key xs))) = mset xs"
proof (induction xs rule: rev_induct)
  case Nil
  then show ?case by (simp add: group_by_def)
next
  case (snoc x xs)
  have "group_by key (xs @ [x])
      = map_set (key x) (nullish (map_get (group_by key xs) (key x)) [] @ [x]) (group_by key xs)"
    by (simp add: group_by_def)
  then have "mset (concat (map snd (group_by key (xs @ [x]))))
      = add_mset x (mset (concat (map snd (group_by key xs))))"
    by (simp only: mset_map_set_snoc [OF distinct_group_by])
  then show ?case by (simp only: snoc) simp
qed

lemma mset_group_values: "mset (concat (map_values (group_by key xs))) = mset xs"
  by (simp add: map_values_def mset_group_by)

lemma group_value_ne: "ys \<in> set (map_values (group_by key xs)) \<Longrightarrow> ys \<noteq> []"
  by (auto simp: map_values_def dest: group_by_mem)

lemma group_value_key: "ys \<in> set (map_values (group_by key xs)) \<Longrightarrow> \<exists>k. ys = filter (\<lambda>x. key x = k) xs"
  unfolding map_values_def using group_by_mem by force

lemma same_group:
  "(\<exists>ys \<in> set (map_values (group_by key xs)). x \<in> set ys \<and> y \<in> set ys) \<longleftrightarrow> x \<in> set xs \<and> y \<in> set xs \<and> key x = key y"
proof
  assume "\<exists>ys \<in> set (map_values (group_by key xs)). x \<in> set ys \<and> y \<in> set ys"
  then show "x \<in> set xs \<and> y \<in> set xs \<and> key x = key y" by (auto dest: group_value_key)
next
  assume a: "x \<in> set xs \<and> y \<in> set xs \<and> key x = key y"
  then have "map_get (group_by key xs) (key x) = Some (filter (\<lambda>z. key z = key x) xs)" by (auto simp: group_by_get)
  then have "filter (\<lambda>z. key z = key x) xs \<in> set (map_values (group_by key xs))"
    by (force simp: map_values_def dest: map_of_SomeD)
  then show "\<exists>ys \<in> set (map_values (group_by key xs)). x \<in> set ys \<and> y \<in> set ys"
    by (rule bexI [rotated]) (use a in simp)
qed

text \<open>Sums over the groups.\<close>

lemma sum_list_mset_cong: "mset xs = mset ys \<Longrightarrow> sum_list (map f xs) = sum_list (map f (ys :: 'a list))" for f :: "'a \<Rightarrow> 'b::comm_monoid_add"
  by (metis mset_map sum_mset_sum_list)

end
