(* ===== verification/RunReconciliation.thy ===== *)
theory RunReconciliation
  imports RunLedger Groupings
begin

text \<open>
  Runs, query groups, chat sessions and totals account for the same runs: every run is in exactly
  one group and every group in exactly one session, and the counts, tokens and costs add up.
\<close>

section \<open>Sums over groups\<close>

lemma opt_sum_concat: "opt_sum (map f (concat xss)) = opt_sum (map (\<lambda>xs. opt_sum (map f xs)) xss)"
  by (induction xss) simp_all

lemma opt_sum_partition:
  assumes "mset (concat xss) = mset xs"
  shows "opt_sum (map (\<lambda>ys. opt_sum (map f ys)) xss) = opt_sum (map f xs)"
proof -
  have "mset (map f (concat xss)) = mset (map f xs)" using assms by simp
  from opt_sum_mset [OF this] show ?thesis by (simp only: opt_sum_concat)
qed

lemma sum_list_mset: "mset xs = mset ys \<Longrightarrow> sum_list (map f xs) = (sum_list (map f ys) :: nat)"
  by (metis mset_map sum_mset_sum_list)

lemma sum_list_partition:
  assumes "mset (concat xss) = mset xs"
  shows "sum_list (map (\<lambda>ys. sum_list (map f ys)) xss) = (sum_list (map f xs) :: nat)"
proof -
  have "sum_list (map f (concat xss)) = sum_list (map (\<lambda>ys. sum_list (map f ys)) xss)"
    by (induction xss) simp_all
  with sum_list_mset [OF assms, of f] show ?thesis by simp
qed

lemma sum_list_sort_by [simp]: "sum_list (map f (sort_by le xs)) = (sum_list (map f xs) :: nat)"
  by (rule sum_list_mset) simp

lemma length_filter_sum: "length (filter P xs) = sum_list (map (\<lambda>x. if P x then 1 else 0) xs)"
  by (induction xs) simp_all

section \<open>Sums of token counts\<close>

lemma foldl_mergeBreakdown:
  "inputTokens (foldl mergeBreakdown z us) = add_opt (inputTokens z) (opt_sum (map inputTokens us))"
  "outputTokens (foldl mergeBreakdown z us) = add_opt (outputTokens z) (opt_sum (map outputTokens us))"
  "cacheReadInputTokens (foldl mergeBreakdown z us)
     = add_opt (cacheReadInputTokens z) (opt_sum (map cacheReadInputTokens us))"
  "cacheCreationInputTokens (foldl mergeBreakdown z us)
     = add_opt (cacheCreationInputTokens z) (opt_sum (map cacheCreationInputTokens us))"
  "cachedTokens (foldl mergeBreakdown z us) = add_opt (cachedTokens z) (opt_sum (map cachedTokens us))"
  "reasoningOutputTokens (foldl mergeBreakdown z us)
     = add_opt (reasoningOutputTokens z) (opt_sum (map reasoningOutputTokens us))"
  "totalTokens (foldl mergeBreakdown z us) = add_opt (totalTokens z) (opt_sum (map totalTokens us))"
  by (induction us arbitrary: z) (simp_all add: mergeBreakdown_def add_opt_assoc)

lemma sumTokenBreakdowns_fields [simp]:
  "inputTokens (sumTokenBreakdowns us) = opt_sum (map inputTokens us)"
  "outputTokens (sumTokenBreakdowns us) = opt_sum (map outputTokens us)"
  "cacheReadInputTokens (sumTokenBreakdowns us) = opt_sum (map cacheReadInputTokens us)"
  "cacheCreationInputTokens (sumTokenBreakdowns us) = opt_sum (map cacheCreationInputTokens us)"
  "cachedTokens (sumTokenBreakdowns us) = opt_sum (map cachedTokens us)"
  "reasoningOutputTokens (sumTokenBreakdowns us) = opt_sum (map reasoningOutputTokens us)"
  "totalTokens (sumTokenBreakdowns us) = opt_sum (map totalTokens us)"
  by (simp_all add: sumTokenBreakdowns_def foldl_mergeBreakdown)

section \<open>Groups\<close>

abbreviation run_totals :: "run \<Rightarrow> accounting_totals" where
  "run_totals r \<equiv> ag_totals (accountingForAggregation r)"

lemma group_of_runs_fields [simp]:
  "rg_queryId (group_of_runs lc kv) = fst kv"
  "mset (rg_runs (group_of_runs lc kv)) = mset (snd kv)"
  "set (rg_runs (group_of_runs lc kv)) = set (snd kv)"
  "rg_runCount (group_of_runs lc kv) = length (snd kv)"
  "rg_toolCallCount (group_of_runs lc kv) = sum_list (map rn_toolCallCount (snd kv))"
  "rg_unpricedSliceCount (group_of_runs lc kv) = sum_list (map (\<lambda>r. countUnpricedSlices (accountingForAggregation r)) (snd kv))"
  "rg_unavailableSliceCount (group_of_runs lc kv) = sum_list (map (\<lambda>r. countUnavailableSlices (accountingForAggregation r)) (snd kv))"
  "rg_legacyRunCount (group_of_runs lc kv) = length (filter (\<lambda>r. ag_legacySchema (accountingForAggregation r)) (snd kv))"
  by (simp_all add: group_of_runs_def aggregateRunAccountings_def Let_def comp_def filter_map)

lemma group_of_runs_amounts [simp]:
  "rg_estimatedNanoUsd (group_of_runs lc kv) = opt_sum (map (\<lambda>r. at_estimatedNanoUsd (run_totals r)) (snd kv))"
  "rg_estimatedUsd (group_of_runs lc kv) = usdFromNanoUsd (rg_estimatedNanoUsd (group_of_runs lc kv))"
  "inputTokens (group_of_runs lc kv) = opt_sum (map (\<lambda>r. inputTokens (run_totals r)) (snd kv))"
  "outputTokens (group_of_runs lc kv) = opt_sum (map (\<lambda>r. outputTokens (run_totals r)) (snd kv))"
  "cachedTokens (group_of_runs lc kv) = opt_sum (map (\<lambda>r. cachedTokens (run_totals r)) (snd kv))"
  "reasoningOutputTokens (group_of_runs lc kv) = opt_sum (map (\<lambda>r. reasoningOutputTokens (run_totals r)) (snd kv))"
  "totalTokens (group_of_runs lc kv) = opt_sum (map (\<lambda>r. totalTokens (run_totals r)) (snd kv))"
  by (simp_all add: group_of_runs_def Let_def comp_def)

lemma totals_of_runs_fields [simp]:
  "ut_runCount (totals_of_runs runs) = length runs"
  "ut_inputTokens (totals_of_runs runs) = nullish (opt_sum (map (\<lambda>r. inputTokens (run_totals r)) runs)) 0"
  "ut_outputTokens (totals_of_runs runs) = nullish (opt_sum (map (\<lambda>r. outputTokens (run_totals r)) runs)) 0"
  "ut_cachedTokens (totals_of_runs runs) = nullish (opt_sum (map (\<lambda>r. cachedTokens (run_totals r)) runs)) 0"
  "ut_reasoningOutputTokens (totals_of_runs runs)
     = nullish (opt_sum (map (\<lambda>r. reasoningOutputTokens (run_totals r)) runs)) 0"
  "ut_totalTokens (totals_of_runs runs) = nullish (opt_sum (map (\<lambda>r. totalTokens (run_totals r)) runs)) 0"
  "ut_estimatedNanoUsd (totals_of_runs runs)
     = nullish (opt_sum (map (\<lambda>r. at_estimatedNanoUsd (run_totals r)) runs)) 0"
  "ut_unpricedSliceCount (totals_of_runs runs) = sum_list (map (\<lambda>r. countUnpricedSlices (accountingForAggregation r)) runs)"
  "ut_unavailableSliceCount (totals_of_runs runs) = sum_list (map (\<lambda>r. countUnavailableSlices (accountingForAggregation r)) runs)"
  "ut_legacyRunCount (totals_of_runs runs) = length (filter (\<lambda>r. ag_legacySchema (accountingForAggregation r)) runs)"
  by (simp_all add: totals_of_runs_def aggregateRunAccountings_def Let_def comp_def filter_map)

lemma sum_amounts_grouped:
  assumes "\<And>kv. F (g kv) = opt_sum (map f (snd kv))"
  shows "opt_sum (map F (map g (group_by key xs))) = opt_sum (map f xs)"
proof -
  have "opt_sum (map F (map g (group_by key xs))) = opt_sum (map (\<lambda>ys. opt_sum (map f ys)) (map snd (group_by key xs)))"
    by (simp add: assms comp_def)
  then show ?thesis by (simp only: opt_sum_partition [OF mset_group_by])
qed

lemma sum_counts_grouped:
  assumes "\<And>kv. F (g kv) = sum_list (map f (snd kv))"
  shows "sum_list (map F (map g (group_by key xs))) = (sum_list (map f xs) :: nat)"
proof -
  have "sum_list (map F (map g (group_by key xs))) = sum_list (map (\<lambda>ys. sum_list (map f ys)) (map snd (group_by key xs)))"
    by (simp add: assms comp_def)
  then show ?thesis by (simp only: sum_list_partition [OF mset_group_by])
qed

lemma members_grouped:
  assumes "\<And>kv. mset (F (g kv)) = mset (snd kv)"
  shows "mset (concat (map F (map g (group_by key xs)))) = mset xs"
proof -
  have "mset (concat (map F (map g ms))) = mset (concat (map snd ms))" for ms
    by (induction ms) (simp_all add: assms)
  then show ?thesis by (simp only: mset_group_by)
qed

lemma groupRuns_amounts:
  "opt_sum (map rg_estimatedNanoUsd (groupRuns lc runs)) = opt_sum (map (\<lambda>r. at_estimatedNanoUsd (run_totals r)) runs)"
  "opt_sum (map inputTokens (groupRuns lc runs)) = opt_sum (map (\<lambda>r. inputTokens (run_totals r)) runs)"
  "opt_sum (map outputTokens (groupRuns lc runs)) = opt_sum (map (\<lambda>r. outputTokens (run_totals r)) runs)"
  "opt_sum (map cachedTokens (groupRuns lc runs)) = opt_sum (map (\<lambda>r. cachedTokens (run_totals r)) runs)"
  "opt_sum (map reasoningOutputTokens (groupRuns lc runs)) = opt_sum (map (\<lambda>r. reasoningOutputTokens (run_totals r)) runs)"
  "opt_sum (map totalTokens (groupRuns lc runs)) = opt_sum (map (\<lambda>r. totalTokens (run_totals r)) runs)"
  unfolding groupRuns_def by (rule sum_amounts_grouped, simp)+

lemma groupRuns_counts:
  "sum_list (map rg_runCount (groupRuns lc runs)) = length runs"
  "sum_list (map rg_toolCallCount (groupRuns lc runs)) = sum_list (map rn_toolCallCount runs)"
  "sum_list (map rg_unpricedSliceCount (groupRuns lc runs)) = sum_list (map (\<lambda>r. countUnpricedSlices (accountingForAggregation r)) runs)"
  "sum_list (map rg_unavailableSliceCount (groupRuns lc runs)) = sum_list (map (\<lambda>r. countUnavailableSlices (accountingForAggregation r)) runs)"
  "sum_list (map rg_legacyRunCount (groupRuns lc runs)) = length (filter (\<lambda>r. ag_legacySchema (accountingForAggregation r)) runs)"
proof -
  show "sum_list (map rg_runCount (groupRuns lc runs)) = length runs"
    using sum_counts_grouped [of rg_runCount "group_of_runs lc" "\<lambda>_. 1" rn_queryId runs]
    by (simp add: groupRuns_def sum_list_triv)
  show "sum_list (map rg_legacyRunCount (groupRuns lc runs)) = length (filter (\<lambda>r. ag_legacySchema (accountingForAggregation r)) runs)"
    unfolding groupRuns_def length_filter_sum by (rule sum_counts_grouped) (simp add: length_filter_sum)
qed (simp only: groupRuns_def, rule sum_counts_grouped, simp)+

lemma groupRuns_members: "mset (concat (map rg_runs (groupRuns lc runs))) = mset runs"
  unfolding groupRuns_def by (rule members_grouped) simp

lemma groupRuns_keys: "map rg_queryId (groupRuns lc runs) = map fst (group_by rn_queryId runs)"
  by (simp add: groupRuns_def)

lemma distinct_groupRuns: "distinct (map rg_queryId (groupRuns lc runs))"
  by (simp add: groupRuns_keys distinct_group_by)

lemma groupRuns_runs:
  assumes "g \<in> set (groupRuns lc runs)"
  shows "set (rg_runs g) = {r \<in> set runs. rn_queryId r = rg_queryId g}" "rg_runs g \<noteq> []"
proof -
  obtain k ys where "(k, ys) \<in> set (group_by rn_queryId runs)" and g: "g = group_of_runs lc (k, ys)"
    using assms by (auto simp: groupRuns_def)
  then have ys: "ys = filter (\<lambda>x. rn_queryId x = k) runs" "ys \<noteq> []" by (auto dest: group_by_mem)
  then show "set (rg_runs g) = {r \<in> set runs. rn_queryId r = rg_queryId g}" by (auto simp: g)
  have "set (rg_runs g) = set ys" by (simp add: g)
  with ys(2) have "set (rg_runs g) \<noteq> {}" by (simp only: set_empty) blast
  then show "rg_runs g \<noteq> []" by auto
qed

section \<open>Sessions\<close>

lemma session_of_groups_fields [simp]:
  "cs_chatSessionId (session_of_groups lc kv) = fst kv"
  "mset (cs_queries (session_of_groups lc kv)) = mset (snd kv)"
  "cs_queryCount (session_of_groups lc kv) = length (snd kv)"
  "cs_runCount (session_of_groups lc kv) = sum_list (map rg_runCount (snd kv))"
  "cs_unpricedSliceCount (session_of_groups lc kv) = sum_list (map rg_unpricedSliceCount (snd kv))"
  "cs_unavailableSliceCount (session_of_groups lc kv) = sum_list (map rg_unavailableSliceCount (snd kv))"
  "cs_legacyRunCount (session_of_groups lc kv) = sum_list (map rg_legacyRunCount (snd kv))"
  "cs_estimatedNanoUsd (session_of_groups lc kv) = opt_sum (map group_nano (snd kv))"
  "inputTokens (session_of_groups lc kv) = opt_sum (map inputTokens (snd kv))"
  "outputTokens (session_of_groups lc kv) = opt_sum (map outputTokens (snd kv))"
  "cachedTokens (session_of_groups lc kv) = opt_sum (map cachedTokens (snd kv))"
  "reasoningOutputTokens (session_of_groups lc kv) = opt_sum (map reasoningOutputTokens (snd kv))"
  "totalTokens (session_of_groups lc kv) = opt_sum (map totalTokens (snd kv))"
  by (simp_all add: session_of_groups_def aggregateGroupAccountings_def Let_def)

lemma groupChatSessions_amounts:
  "opt_sum (map cs_estimatedNanoUsd (groupChatSessions lc gs)) = opt_sum (map group_nano gs)"
  "opt_sum (map inputTokens (groupChatSessions lc gs)) = opt_sum (map inputTokens gs)"
  "opt_sum (map outputTokens (groupChatSessions lc gs)) = opt_sum (map outputTokens gs)"
  "opt_sum (map cachedTokens (groupChatSessions lc gs)) = opt_sum (map cachedTokens gs)"
  "opt_sum (map reasoningOutputTokens (groupChatSessions lc gs)) = opt_sum (map reasoningOutputTokens gs)"
  "opt_sum (map totalTokens (groupChatSessions lc gs)) = opt_sum (map totalTokens gs)"
  unfolding groupChatSessions_def by (rule sum_amounts_grouped, simp)+

lemma groupChatSessions_counts:
  "sum_list (map cs_queryCount (groupChatSessions lc gs)) = length gs"
  "sum_list (map cs_runCount (groupChatSessions lc gs)) = sum_list (map rg_runCount gs)"
  "sum_list (map cs_unpricedSliceCount (groupChatSessions lc gs)) = sum_list (map rg_unpricedSliceCount gs)"
  "sum_list (map cs_unavailableSliceCount (groupChatSessions lc gs)) = sum_list (map rg_unavailableSliceCount gs)"
  "sum_list (map cs_legacyRunCount (groupChatSessions lc gs)) = sum_list (map rg_legacyRunCount gs)"
proof -
  show "sum_list (map cs_queryCount (groupChatSessions lc gs)) = length gs"
    using sum_counts_grouped [of cs_queryCount "session_of_groups lc" "\<lambda>_. 1" session_key gs]
    by (simp add: groupChatSessions_def sum_list_triv)
qed (simp only: groupChatSessions_def, rule sum_counts_grouped, simp)+

lemma groupChatSessions_members: "mset (concat (map cs_queries (groupChatSessions lc gs))) = mset gs"
  unfolding groupChatSessions_def by (rule members_grouped) simp

lemma distinct_groupChatSessions: "distinct (map cs_chatSessionId (groupChatSessions lc gs))"
  by (simp add: groupChatSessions_def comp_def distinct_group_by)

text \<open>The amount of a group is the one it has in nano-USD: the one in USD is computed from it.\<close>

lemma group_nano_of_runs: "group_nano (group_of_runs lc kv) = rg_estimatedNanoUsd (group_of_runs lc kv)"
proof (cases "rg_estimatedNanoUsd (group_of_runs lc kv)")
  case None
  then show ?thesis
    by (simp only: group_nano_def group_of_runs_amounts(2) normalizedEstimatedNanoUsd_def)
      (simp add: usdFromNanoUsd_def nanoUsdFromUsd_def)
next
  case (Some n)
  then show ?thesis by (simp only: group_nano_def normalizedEstimatedNanoUsd_def or_else_simps)
qed

lemma group_nano_groupRuns: "map group_nano (groupRuns lc runs) = map rg_estimatedNanoUsd (groupRuns lc runs)"
  by (simp only: groupRuns_def map_map comp_def group_nano_of_runs)

section \<open>Properties\<close>

text \<open>
  C10: query groups account for the runs they are made of: every run is in the group of its query and
  in no other, every query has one group, the groups are not empty, and the number of runs, the
  tokens, the cost and the numbers of unpriced, unavailable and legacy records that the groups
  report add up to the totals of the same runs.
\<close>

theorem groups_reconcile:
  "mset (concat (map rg_runs (groupRuns lc runs))) = mset runs
   \<and> distinct (map rg_queryId (groupRuns lc runs))
   \<and> list_all (\<lambda>g. rg_runs g \<noteq> [] \<and> list_all (\<lambda>r. rn_queryId r = rg_queryId g) (rg_runs g)) (groupRuns lc runs)
   \<and> sum_list (map rg_runCount (groupRuns lc runs)) = ut_runCount (totals_of_runs runs)
   \<and> nullish (opt_sum (map rg_estimatedNanoUsd (groupRuns lc runs))) 0 = ut_estimatedNanoUsd (totals_of_runs runs)
   \<and> nullish (opt_sum (map inputTokens (groupRuns lc runs))) 0 = ut_inputTokens (totals_of_runs runs)
   \<and> nullish (opt_sum (map outputTokens (groupRuns lc runs))) 0 = ut_outputTokens (totals_of_runs runs)
   \<and> nullish (opt_sum (map cachedTokens (groupRuns lc runs))) 0 = ut_cachedTokens (totals_of_runs runs)
   \<and> nullish (opt_sum (map reasoningOutputTokens (groupRuns lc runs))) 0 = ut_reasoningOutputTokens (totals_of_runs runs)
   \<and> nullish (opt_sum (map totalTokens (groupRuns lc runs))) 0 = ut_totalTokens (totals_of_runs runs)
   \<and> sum_list (map rg_unpricedSliceCount (groupRuns lc runs)) = ut_unpricedSliceCount (totals_of_runs runs)
   \<and> sum_list (map rg_unavailableSliceCount (groupRuns lc runs)) = ut_unavailableSliceCount (totals_of_runs runs)
   \<and> sum_list (map rg_legacyRunCount (groupRuns lc runs)) = ut_legacyRunCount (totals_of_runs runs)"
proof -
  have "list_all (\<lambda>g. rg_runs g \<noteq> [] \<and> list_all (\<lambda>r. rn_queryId r = rg_queryId g) (rg_runs g)) (groupRuns lc runs)"
    using groupRuns_runs by (fastforce simp: list_all_iff)
  then show ?thesis
    by (simp only: groupRuns_members distinct_groupRuns groupRuns_amounts groupRuns_counts totals_of_runs_fields)
qed

text \<open>
  C1: chat sessions account for the query groups: every group is in one session, every session
  identifier occurs once, and the number of queries and runs, the tokens and the cost of the
  sessions add up to those of the groups, and so to the totals of the runs.
\<close>

theorem sessions_reconcile:
  "mset (concat (map cs_queries (groupChatSessions lc (groupRuns lc runs)))) = mset (groupRuns lc runs)
   \<and> distinct (map cs_chatSessionId (groupChatSessions lc (groupRuns lc runs)))
   \<and> sum_list (map cs_queryCount (groupChatSessions lc (groupRuns lc runs))) = length (groupRuns lc runs)
   \<and> sum_list (map cs_runCount (groupChatSessions lc (groupRuns lc runs))) = ut_runCount (totals_of_runs runs)
   \<and> nullish (opt_sum (map cs_estimatedNanoUsd (groupChatSessions lc (groupRuns lc runs)))) 0
       = ut_estimatedNanoUsd (totals_of_runs runs)
   \<and> nullish (opt_sum (map inputTokens (groupChatSessions lc (groupRuns lc runs)))) 0 = ut_inputTokens (totals_of_runs runs)
   \<and> nullish (opt_sum (map outputTokens (groupChatSessions lc (groupRuns lc runs)))) 0 = ut_outputTokens (totals_of_runs runs)
   \<and> nullish (opt_sum (map cachedTokens (groupChatSessions lc (groupRuns lc runs)))) 0 = ut_cachedTokens (totals_of_runs runs)
   \<and> nullish (opt_sum (map totalTokens (groupChatSessions lc (groupRuns lc runs)))) 0 = ut_totalTokens (totals_of_runs runs)
   \<and> sum_list (map cs_unpricedSliceCount (groupChatSessions lc (groupRuns lc runs))) = ut_unpricedSliceCount (totals_of_runs runs)
   \<and> sum_list (map cs_unavailableSliceCount (groupChatSessions lc (groupRuns lc runs)))
       = ut_unavailableSliceCount (totals_of_runs runs)
   \<and> sum_list (map cs_legacyRunCount (groupChatSessions lc (groupRuns lc runs))) = ut_legacyRunCount (totals_of_runs runs)"
  by (simp only: groupChatSessions_members distinct_groupChatSessions groupChatSessions_amounts
      groupChatSessions_counts group_nano_groupRuns groupRuns_amounts groupRuns_counts totals_of_runs_fields)

section \<open>The coverage of merged model usages\<close>

text \<open>A coverage that no reading of it makes complete.\<close>

definition not_complete :: "pricing_coverage \<Rightarrow> bool" where
  "not_complete c \<longleftrightarrow> pc_state c \<noteq> Priced \<and> (Model_unpriced \<in> set (pc_reasons c) \<or> Missing_model_attribution \<in> set (pc_reasons c))"

lemma clean_not_complete: "not_complete c \<Longrightarrow> not_complete (clean_coverage c)"
  by (auto simp: not_complete_def clean_coverage_def applyPricingCoveragePolicy_def NON_DEGRADING_REASONS_def Let_def
      filter_empty_conv)

lemma aggregate_not_complete: "not_complete c \<Longrightarrow> not_complete (aggregatePricingCoverage [c, d])"
  by (cases "pc_state c") (auto simp: not_complete_def aggregatePricingCoverage_def Let_def)

lemma derived_not_complete:
  assumes "\<not> blank (mu_model u)"
  shows "not_complete (derive_coverage (value_of_usage u) [])"
proof -
  have "unique_strings [mu_model u] = [mu_model u]" using assms by (simp add: unique_strings_def)
  moreover have "mu_model u \<noteq> ''''" using assms by auto
  ultimately show ?thesis
    by (auto simp: not_complete_def derive_coverage_def value_of_usage_def Let_def unique_strings_def)
qed

definition usage_not_complete :: "priced_usage \<Rightarrow> bool" where
  "usage_not_complete u \<longleftrightarrow> blank (mu_model u) \<or> (\<exists>c. pu_pricingCoverage u = Some c \<and> not_complete c)"

lemma merge_usage_model:
  "mu_model (merge_usage stored u) = mu_model (nullish stored u)"
  by (cases stored) (simp_all add: merge_usage_def new_usage_def mergeBreakdown_def Let_def)

lemma merge_usage_not_complete:
  assumes "\<And>w. stored = Some w \<Longrightarrow> usage_not_complete w"
  shows "usage_not_complete (merge_usage stored u)"
proof (cases "blank (mu_model (merge_usage stored u))")
  case True
  then show ?thesis by (simp add: usage_not_complete_def)
next
  case False
  let ?current = "nullish stored (new_usage u)"
  define merged where "merged = (mergeBreakdown ?current u)\<lparr>
      pu_estimatedNanoUsd := add_opt (pu_estimatedNanoUsd ?current) (usage_nano u),
      pu_estimatedUsd := or_else (usdFromNanoUsd (add_opt (pu_estimatedNanoUsd ?current) (usage_nano u)))
        (add_opt (pu_estimatedUsd ?current) (pu_estimatedUsd u)),
      pu_pricingVersion := or_else (pu_pricingVersion ?current) (pu_pricingVersion u),
      pu_matchedModel := or_else (pu_matchedModel ?current) (pu_matchedModel u)\<rparr>"
  have model: "mu_model merged = mu_model (nullish stored u)"
    by (cases stored) (simp_all add: merged_def mergeBreakdown_def new_usage_def)
  then have nb: "\<not> blank (mu_model merged)" using False by (simp add: merge_usage_model)
  have "not_complete (normalizePricingCoverage (pu_pricingCoverage merged) (Some (value_of_usage merged)))"
  proof (cases stored)
    case None
    then have "pu_pricingCoverage merged = None" by (simp add: merged_def mergeBreakdown_def new_usage_def)
    moreover have "pv_modelUsages (value_of_usage merged) = []" by (simp add: value_of_usage_def)
    ultimately show ?thesis
      using derived_not_complete [OF nb] by (simp add: normalizePricingCoverage_def deriveStoredPricingCoverage_def)
  next
    case (Some w)
    then have "mu_model w = mu_model merged" "pu_pricingCoverage merged = pu_pricingCoverage w"
      using model by (simp_all add: merged_def mergeBreakdown_def)
    with assms [OF Some] nb show ?thesis
      by (auto simp: usage_not_complete_def normalizePricingCoverage_def clean_not_complete)
  qed
  then show ?thesis
    unfolding usage_not_complete_def merge_usage_def Let_def merged_def [symmetric]
    by (simp add: aggregate_not_complete)
qed

lemma usages_by_key_not_complete: "x \<in> set (map_values (usages_by_key us)) \<Longrightarrow> usage_not_complete x"
proof (induction us arbitrary: x rule: rev_induct)
  case Nil
  then show ?case by (simp add: usages_by_key_def map_values_def)
next
  case (snoc u us)
  let ?m = "usages_by_key us"
  have "usage_not_complete w" if "map_get ?m k = Some w" for k w
    using that snoc.IH by (force simp: map_values_def dest: map_of_SomeD)
  then have new: "usage_not_complete (merge_usage (map_get ?m (usage_key u)) u)"
    by (blast intro: merge_usage_not_complete)
  have "usages_by_key (us @ [u]) = map_set (usage_key u) (merge_usage (map_get ?m (usage_key u)) u) ?m"
    by (simp add: usages_by_key_def)
  with snoc.prems have "x \<in> snd ` set (map_set (usage_key u) (merge_usage (map_get ?m (usage_key u)) u) ?m)"
    by (simp add: map_values_def)
  then have "x = merge_usage (map_get ?m (usage_key u)) u \<or> x \<in> snd ` set ?m"
    using set_map_set_subset [of "usage_key u" "merge_usage (map_get ?m (usage_key u)) u" ?m] by fastforce
  with new snoc.IH [of x] show ?case by (auto simp: map_values_def)
qed

text \<open>
  The models of a query group never show as priced. Whatever the coverages of the merged
  usages are, also when every one of them is fully priced, the coverage that \<open>mergeModelUsages\<close>
  gives a named model is partial or unpriced: the first usage of a model is combined with the
  coverage derived from an entry that has no usages.
\<close>

theorem merged_usage_never_priced:
  "list_all (\<lambda>u. map_option pc_state (pu_pricingCoverage u) \<in> {Some Partially_priced, Some Unpriced})
     (filter (\<lambda>u. \<not> blank (mu_model u)) (mergeModelUsages lc us))"
proof -
  have "map_option pc_state (pu_pricingCoverage u) \<in> {Some Partially_priced, Some Unpriced}"
    if "u \<in> set (mergeModelUsages lc us)" "\<not> blank (mu_model u)" for u
  proof -
    have "usage_not_complete u"
      using that(1) usages_by_key_not_complete by (auto simp: mergeModelUsages_def)
    with that(2) obtain c where "pu_pricingCoverage u = Some c" "pc_state c \<noteq> Priced"
      by (auto simp: usage_not_complete_def not_complete_def)
    then show ?thesis by (cases "pc_state c") simp_all
  qed
  then show ?thesis by (simp add: list_all_iff)
qed

end
