(* ===== verification/RunLedgerProperties.thy ===== *)
theory RunLedgerProperties
  imports RunLedger
begin

text \<open>
  What the file of the run ledger keeps: one record for each run, the records of other runs as
  they were written, and of two records of a run everything that either has.
\<close>

section \<open>Reading and normalisation\<close>

text \<open>The records that the ledger can read, as they are stored.\<close>

definition known_version :: "run \<Rightarrow> bool" where
  "known_version r \<longleftrightarrow> rn_schemaVersion r = 1 \<or> rn_schemaVersion r = 2 \<or> rn_schemaVersion r = 3"

fun lines_of :: "runs_file \<Rightarrow> run option list" where
  "lines_of (Content ls) = ls"
| "lines_of _ = []"

definition known_records :: "runs_file \<Rightarrow> run list" where
  "known_records f = filter known_version (List.map_filter id (lines_of f))"

lemma known_records_simps [simp]:
  "known_records Missing = []" "known_records Unreadable = []"
  "known_records (Content []) = []"
  "known_records (Content (map Some rs)) = filter known_version rs"
  by (simp_all add: known_records_def List.map_filter_def comp_def)

lemma pick_tokens_run [simp]:
  "rn_id (pick_tokens a b r) = rn_id r" "rn_startedAt (pick_tokens a b r) = rn_startedAt r"
  "rn_schemaVersion (pick_tokens a b r) = rn_schemaVersion r"
  "rn_traceId (pick_tokens a b r) = rn_traceId r" "rn_warnings (pick_tokens a b r) = rn_warnings r"
  "rn_endedAt (pick_tokens a b r) = rn_endedAt r" "rn_llmCallCount (pick_tokens a b r) = rn_llmCallCount r"
  "rn_initialQueryText (pick_tokens a b r) = rn_initialQueryText r"
  "rn_initialQueryState (pick_tokens a b r) = rn_initialQueryState r"
  "rn_accounting (pick_tokens a b r) = rn_accounting r"
  "rn_estimatedNanoUsd (pick_tokens a b r) = rn_estimatedNanoUsd r"
  "rn_estimatedUsd (pick_tokens a b r) = rn_estimatedUsd r"
  by (simp_all add: pick_tokens_def)

lemma pick_tokens_counts [simp]:
  "inputTokens (pick_tokens a b r) = or_else (inputTokens a) (inputTokens b)"
  "outputTokens (pick_tokens a b r) = or_else (outputTokens a) (outputTokens b)"
  "cacheReadInputTokens (pick_tokens a b r) = or_else (cacheReadInputTokens a) (cacheReadInputTokens b)"
  "cacheCreationInputTokens (pick_tokens a b r) = or_else (cacheCreationInputTokens a) (cacheCreationInputTokens b)"
  "cachedTokens (pick_tokens a b r) = or_else (cachedTokens a) (cachedTokens b)"
  "reasoningOutputTokens (pick_tokens a b r) = or_else (reasoningOutputTokens a) (reasoningOutputTokens b)"
  "totalTokens (pick_tokens a b r) = or_else (totalTokens a) (totalTokens b)"
  by (simp_all add: pick_tokens_def)

definition normalized :: "pricing_catalog option \<Rightarrow> run \<Rightarrow> run" where
  "normalized ce r = the (normalizeStoredRun ce r)"

lemma normalizeStoredRun_Some: "normalizeStoredRun ce r = (if known_version r then Some (normalized ce r) else None)"
  by (auto simp: normalizeStoredRun_def known_version_def normalized_def)

lemma normalized_fields:
  "known_version r \<Longrightarrow> rn_id (normalized ce r) = rn_id r"
  "known_version r \<Longrightarrow> rn_startedAt (normalized ce r) = rn_startedAt r"
  by (auto simp: known_version_def normalized_def normalizeStoredRun_def normalize_v3_def normalize_v2_def
      normalize_v1_def common_fields_def Let_def)

lemma entries_known:
  "List.map_filter id (map (read_entry ce) ls)
     = map (\<lambda>r. (r, normalized ce r)) (filter known_version (List.map_filter id ls))"
  by (induction ls) (auto simp: read_entry_def normalizeStoredRun_Some List.map_filter_def split: option.split)

lemma readStoredEntries_Inr:
  "readStoredEntries ce f = (Inr es, g) \<longleftrightarrow> g = f \<and> f \<noteq> Unreadable \<and> es = map (read_entry ce) (lines_of f)"
  by (cases f) (auto simp: readStoredEntries_def)

lemma readStoredEntries_Inl: "readStoredEntries ce f = (Inl e, g) \<longleftrightarrow> g = f \<and> f = Unreadable \<and> e = Read_failed"
  by (cases f) (auto simp: readStoredEntries_def)

lemma readStoredEntries_run:
  "bindA (readStoredEntries ce) k f
     = (if f = Unreadable then (Inl Read_failed, f) else k (map (read_entry ce) (lines_of f)) f)"
  by (cases f) (simp_all add: bindA_def readStoredEntries_def)

lemma readAll_known: "f \<noteq> Unreadable \<Longrightarrow> readAll ce f = (Inr (map (normalized ce) (known_records f)), f)"
  by (simp add: readAll_def readStoredEntries_run entries_known known_records_def returnA_def comp_def)

section \<open>Merging\<close>

lemma merge_into_fields [simp]:
  "rn_id (merge_into ac p f) = rn_id p" "rn_traceId (merge_into ac p f) = rn_traceId p"
  "rn_schemaVersion (merge_into ac p f) = (if ac = None then 2 else 3)"
  "rn_llmCallCount (merge_into ac p f) = max (rn_llmCallCount p) (rn_llmCallCount f)"
  "rn_initialQueryText (merge_into ac p f) = preferredInitialQueryText p f"
  "rn_initialQueryState (merge_into ac p f)
     = Some (preferredInitialQueryState (rn_initialQueryState p) (rn_initialQueryState f))"
  "rn_endedAt (merge_into ac p f) = pickString (rn_endedAt p) (rn_endedAt f)"
  by (simp_all add: merge_into_def Let_def)

lemma mergeRun_version: "rn_schemaVersion (mergeRun a b) = 2 \<or> rn_schemaVersion (mergeRun a b) = 3"
  by (simp add: mergeRun_def)

lemma mergeRun_known [simp]: "known_version (mergeRun a b)"
  using mergeRun_version by (auto simp: known_version_def)

lemma mergeRun_id: "rn_id a = rn_id b \<Longrightarrow> rn_id (mergeRun a b) = rn_id b"
  by (simp add: mergeRun_def)

section \<open>Appending\<close>

definition upsert_record :: "pricing_catalog option \<Rightarrow> run \<Rightarrow> run list \<Rightarrow> run list" where
  "upsert_record ce r rs =
     (if rn_id r \<in> rn_id ` set rs
      then map (\<lambda>s. if rn_id s = rn_id r then mergeRun (normalized ce s) r else s) rs
      else rs @ [r])"

lemma find_SomeD: "find P xs = Some x \<Longrightarrow> x \<in> set xs \<and> P x"
  by (induction xs) (auto split: if_splits)

lemma known_records_id: "s \<in> set (known_records f) \<Longrightarrow> rn_id (normalized ce s) = rn_id s"
  by (simp add: known_records_def normalized_fields)

lemma append_line_known:
  "known_version r \<Longrightarrow> f \<noteq> Unreadable \<Longrightarrow> known_records (append_line r f) = known_records f @ [r]"
  by (cases f) (simp_all add: append_line_def known_records_def List.map_filter_def)

lemma append_new:
  assumes "append_run ce same io r f = (Inr (), f')" "known_version r"
    and "rn_id r \<notin> rn_id ` set (known_records f)"
  shows "known_records f' = known_records f @ [r]"
proof -
  let ?ls = "map (read_entry ce) (lines_of f)"
  have u: "f \<noteq> Unreadable" using assms(1) by (auto simp: append_run_def readStoredEntries_run)
  have es: "List.map_filter id ?ls = map (\<lambda>s. (s, normalized ce s)) (known_records f)"
    by (simp only: entries_known known_records_def)
  have "find (\<lambda>e. rn_id (snd e) = rn_id r) (List.map_filter id ?ls) = None"
    unfolding es find_None_iff using assms(3) known_records_id [of _ f ce] by (auto simp: image_iff)
  with assms(1) u have "f' = append_line r f \<or> f' = Content (map Some (known_records f @ [r]))"
    by (auto simp: append_run_def readStoredEntries_run es comp_def writeRuns_def modifyA_def throwA_def split: if_splits)
  moreover have "filter known_version (known_records f @ [r]) = known_records f @ [r]"
    using assms(2) by (simp add: known_records_def)
  ultimately show ?thesis
    using append_line_known [OF assms(2) u] by (metis known_records_simps(4))
qed

lemma append_known:
  assumes "append_run ce same io r f = (Inr (), f')" "known_version r"
    and same: "\<And>a b. same a b \<Longrightarrow> a = b"
    and d: "distinct (map rn_id (known_records f))"
    and "rn_id r \<in> rn_id ` set (known_records f)"
  shows "known_records f' = map (\<lambda>s. if rn_id s = rn_id r then mergeRun (normalized ce s) r else s) (known_records f)"
proof -
  let ?ks = "known_records f" and ?P = "\<lambda>e. rn_id (snd e) = rn_id r"
  have u: "f \<noteq> Unreadable" using assms(1) by (auto simp: append_run_def readStoredEntries_run)
  have es: "List.map_filter id (map (read_entry ce) (lines_of f)) = map (\<lambda>s. (s, normalized ce s)) ?ks"
    by (simp only: entries_known known_records_def)
  have known: "known_version s" if "s \<in> set ?ks" for s using that by (simp add: known_records_def)
  have nid: "rn_id (normalized ce s) = rn_id s" if "s \<in> set ?ks" for s
    using known [OF that] by (rule normalized_fields)
  obtain s where s: "s \<in> set ?ks" "rn_id s = rn_id r" using assms(5) by auto
  then have "find ?P (map (\<lambda>s. (s, normalized ce s)) ?ks) \<noteq> None"
    using nid by (auto simp: find_None_iff)
  then obtain e where e: "find ?P (map (\<lambda>s. (s, normalized ce s)) ?ks) = Some e" by blast
  then have "e \<in> set (map (\<lambda>s. (s, normalized ce s)) ?ks)" "?P e"
    by (blast dest: find_SomeD)+
  then have "e = (s, normalized ce s)"
    using s nid d by (auto simp: distinct_map inj_on_def)
  with e have fs: "find ?P (map (\<lambda>s. (s, normalized ce s)) ?ks) = Some (s, normalized ce s)" by simp
  have only: "t = s" if "t \<in> set ?ks" "rn_id t = rn_id r" for t
    using that s d by (auto simp: distinct_map inj_on_def)
  let ?m = "mergeRun (normalized ce s) r"
  have step: "append_run ce same io r f = (if same ?m s then (Inr (), f)
      else writeRuns io (map (\<lambda>e. if rn_id (snd e) = rn_id r then ?m else fst e) (map (\<lambda>s. (s, normalized ce s)) ?ks)) f)"
    using u by (simp add: append_run_def readStoredEntries_run es fs returnA_def)
  have ms: "map (\<lambda>t. if rn_id t = rn_id r then mergeRun (normalized ce t) r else t) ?ks
      = map (\<lambda>t. if rn_id t = rn_id r then ?m else t) ?ks"
    using only by (auto intro: map_cong)
  show ?thesis
  proof (cases "same ?m s")
    case True
    then have "?m = s" "f' = f" using same assms(1) step by auto
    moreover have "map (\<lambda>t. if rn_id t = rn_id r then s else t) ?ks = ?ks"
      using only by (auto intro: map_idI)
    ultimately show ?thesis by (simp only: ms)
  next
    case False
    then have w: "writeRuns io (map (\<lambda>e. if rn_id (snd e) = rn_id r then ?m else fst e) (map (\<lambda>s. (s, normalized ce s)) ?ks)) f
        = (Inr (), f')"
      using assms(1) step by simp
    have "map (\<lambda>e. if rn_id (snd e) = rn_id r then ?m else fst e) (map (\<lambda>s. (s, normalized ce s)) ?ks)
        = map (\<lambda>t. if rn_id t = rn_id r then ?m else t) ?ks"
      using nid by simp
    with w have "f' = Content (map Some (map (\<lambda>t. if rn_id t = rn_id r then ?m else t) ?ks))"
      by (simp only: writeRuns_def) (simp add: modifyA_def throwA_def split: if_splits)
    then have "known_records f' = filter known_version (map (\<lambda>t. if rn_id t = rn_id r then ?m else t) ?ks)"
      by (simp only: known_records_simps)
    also have "\<dots> = map (\<lambda>t. if rn_id t = rn_id r then ?m else t) ?ks"
      using known by (auto simp: filter_id_conv)
    finally show ?thesis by (simp only: ms)
  qed
qed

lemma upsert_ids:
  "map rn_id (upsert_record ce r rs)
     = (if rn_id r \<in> rn_id ` set rs then map rn_id rs else map rn_id rs @ [rn_id r])"
  if "\<And>s. s \<in> set rs \<Longrightarrow> known_version s"
  using that by (auto simp: upsert_record_def mergeRun_id normalized_fields)

lemma append_upserts_records:
  assumes "append_run ce same io r f = (Inr (), f')" "known_version r"
    and "\<And>a b. same a b \<Longrightarrow> a = b" "distinct (map rn_id (known_records f))"
  shows "known_records f' = upsert_record ce r (known_records f)"
  using append_new [OF assms(1,2)] append_known [OF assms] by (simp add: upsert_record_def)

lemma append_failed: "append_run ce same io r f = (Inl e, f') \<Longrightarrow> f' = f"
  by (auto simp: append_run_def readStoredEntries_run writeRuns_def modifyA_def throwA_def returnA_def Let_def
      split: if_splits option.splits)

lemma append_readable: "append_run ce same io r f = (Inr u, f') \<Longrightarrow> f \<noteq> Unreadable"
  by (auto simp: append_run_def readStoredEntries_run)

lemma append_file: "append_run ce same io r f = (Inr u, f') \<Longrightarrow> f' \<noteq> Unreadable"
  by (auto simp: append_run_def readStoredEntries_run writeRuns_def modifyA_def throwA_def returnA_def Let_def
      append_line_def split: if_splits option.splits disk.splits)

section \<open>Retention\<close>

definition in_retention :: "int \<Rightarrow> rat \<Rightarrow> run \<Rightarrow> bool" where
  "in_retention now days r =
     (case date_ms (rn_startedAt r) of
        None \<Rightarrow> False
      | Some t \<Rightarrow> of_int now - days * 24 * 60 * 60 * 1000 \<le> (of_int t :: rat))"

lemma retained_known:
  "filter (retained_entry now days) (map (\<lambda>s. (s, normalized ce s)) (known_records f))
     = map (\<lambda>s. (s, normalized ce s)) (filter (in_retention now days) (known_records f))"
proof -
  have "retained_entry now days (s, normalized ce s) = in_retention now days s" if "s \<in> set (known_records f)" for s
    using that by (simp add: retained_entry_def in_retention_def known_records_def normalized_fields)
  then show ?thesis by (simp add: filter_map comp_def cong: filter_cong)
qed

lemma retention_result:
  assumes "applyRetention_runs ce io now (Some days) f = (Inr k, f')" "0 < days"
  shows "k = length (filter (\<lambda>r. \<not> in_retention now days r) (known_records f))"
    "f' = (if k = 0 then f else Content (map Some (filter (in_retention now days) (known_records f))))"
proof -
  let ?ks = "known_records f" and ?kept = "filter (in_retention now days) (known_records f)"
  have es: "List.map_filter id (map (read_entry ce) (lines_of f)) = map (\<lambda>s. (s, normalized ce s)) ?ks"
    by (simp only: entries_known known_records_def)
  have u: "f \<noteq> Unreadable" using assms by (auto simp: applyRetention_runs_def readStoredEntries_run)
  let ?n = "length ?ks - length ?kept"
  have run: "applyRetention_runs ce io now (Some days) f
      = bindA (whenA (?n > 0) (writeRuns io ?kept)) (\<lambda>_. returnA ?n) f"
    using assms(2) u by (simp add: applyRetention_runs_def readStoredEntries_run es retained_known Let_def comp_def)
  have k: "k = ?n" "f' = (if ?n = 0 then f else Content (map Some ?kept))"
    using assms(1) unfolding run
    by (auto simp: whenA_def writeRuns_def bindA_def modifyA_def throwA_def returnA_def split: if_splits)
  have "?n = length (filter (\<lambda>r. \<not> in_retention now days r) ?ks)"
    using sum_length_filter_compl [of "in_retention now days" ?ks] by simp
  with k show "k = length (filter (\<lambda>r. \<not> in_retention now days r) ?ks)"
    "f' = (if k = 0 then f else Content (map Some ?kept))" by simp_all
qed

lemma retention_records:
  assumes "applyRetention_runs ce io now (Some days) f = (Inr k, f')" "0 < days"
  shows "known_records f' = filter (in_retention now days) (known_records f)"
proof (cases "k = 0")
  case True
  with retention_result [OF assms] have "filter (\<lambda>r. \<not> in_retention now days r) (known_records f) = []" "f' = f"
    by simp_all
  then show ?thesis by (simp add: filter_empty_conv filter_id_conv)
next
  case False
  with retention_result(2) [OF assms] have "known_records f' = filter known_version (filter (in_retention now days) (known_records f))"
    by (simp only: known_records_simps) simp
  then show ?thesis by (simp add: known_records_def filter_filter conj_commute)
qed

lemma retention_off: "days \<le> 0 \<Longrightarrow> applyRetention_runs ce io now (Some days) f = (Inr 0, f)"
  "applyRetention_runs ce io now None f = (Inr 0, f)"
  by (simp_all add: applyRetention_runs_def returnA_def)

lemma retention_succeeds: "f \<noteq> Unreadable \<Longrightarrow> \<exists>k f'. applyRetention_runs ce True now ds f = (Inr k, f')"
  by (cases ds) (auto simp: applyRetention_runs_def readStoredEntries_run whenA_def writeRuns_def modifyA_def
      returnA_def Let_def)

lemma retention_failed:
  assumes "applyRetention_runs ce io now ds f = (Inl e, f')"
  shows "f' = f"
  using assms
  by (cases f) (auto simp: applyRetention_runs_def readStoredEntries_def whenA_def writeRuns_def bindA_def modifyA_def
      throwA_def returnA_def Let_def split: option.splits if_splits)

section \<open>Files that the ledger writes\<close>

inductive ledger_file :: "(run \<Rightarrow> run \<Rightarrow> bool) \<Rightarrow> pricing_catalog option \<Rightarrow> runs_file \<Rightarrow> bool"
  for same :: "run \<Rightarrow> run \<Rightarrow> bool" and ce :: "pricing_catalog option" where
  no_file: "ledger_file same ce Missing"
| appended: "ledger_file same ce f \<Longrightarrow> known_version r \<Longrightarrow> append_run ce same io r f = (res, f') \<Longrightarrow> ledger_file same ce f'"
| cleared: "ledger_file same ce f \<Longrightarrow> clear_runs io f = (res, f') \<Longrightarrow> ledger_file same ce f'"
| retained: "ledger_file same ce f \<Longrightarrow> applyRetention_runs ce io now ds f = (res', f') \<Longrightarrow> ledger_file same ce f'"

lemma ledger_file_distinct:
  assumes "ledger_file same ce f" and same: "\<And>a b. same a b \<Longrightarrow> a = b"
  shows "f \<noteq> Unreadable \<and> distinct (map rn_id (known_records f))"
  using assms(1)
proof induction
  case no_file
  then show ?case by simp
next
  case (appended f r io res f')
  show ?case
  proof (cases res)
    case (Inl e)
    with appended append_failed have "f' = f" by blast
    with appended show ?thesis by simp
  next
    case (Inr u)
    with appended have a: "append_run ce same io r f = (Inr (), f')" by simp
    have "known_records f' = upsert_record ce r (known_records f)"
      using append_upserts_records [OF a] appended same by blast
    moreover have "distinct (map rn_id (upsert_record ce r (known_records f)))"
      using appended.IH by (subst upsert_ids) (auto simp: known_records_def)
    ultimately show ?thesis using append_file [OF a] by simp
  qed
next
  case (cleared f io res f')
  then show ?case by (cases io) (auto simp: clear_runs_def writeRuns_def modifyA_def throwA_def)
next
  case (retained f io now ds res' f')
  show ?case
  proof (cases res')
    case (Inl e)
    with retained retention_failed have "f' = f" by blast
    with retained show ?thesis by simp
  next
    case (Inr k)
    show ?thesis
    proof (cases "\<exists>days. ds = Some days \<and> 0 < days")
      case True
      then obtain days where d: "ds = Some days" "0 < days" by blast
      then have r: "applyRetention_runs ce io now (Some days) f = (Inr k, f')" using retained Inr by simp
      then have "known_records f' = filter (in_retention now days) (known_records f)"
        using d by (blast intro: retention_records)
      moreover have "f' \<noteq> Unreadable" using retention_result(2) [OF r d(2)] retained.IH by simp
      ultimately show ?thesis using retained.IH by (simp add: distinct_map_filter)
    next
      case False
      then have "f' = f" using retained Inr by (cases ds) (auto simp: retention_off not_less)
      then show ?thesis using retained.IH by simp
    qed
  qed
qed

section \<open>Properties\<close>

text \<open>A record of version 2, for the witnesses.\<close>

definition sample_run :: "string \<Rightarrow> string \<Rightarrow> run" where
  "sample_run ident startedAt = \<lparr>inputTokens = Some 100, outputTokens = Some 20, cacheReadInputTokens = None,
     cacheCreationInputTokens = None, cachedTokens = None, reasoningOutputTokens = None, totalTokens = Some 120,
     rn_schemaVersion = 2, rn_id = ident, rn_traceId = ident, rn_sessionId = None, rn_startedAt = startedAt,
     rn_endedAt = None, rn_durationMs = None, rn_status = Run_completed, rn_agentName = None, rn_serviceName = None,
     rn_mode = None, rn_models = [''gpt-5''], rn_estimatedNanoUsd = Some 1000, rn_estimatedUsd = None,
     rn_estimatedAiCredits = None, rn_pricingVersion = None, rn_llmCallCount = 1, rn_toolCallCount = 0,
     rn_tools = [], rn_warnings = [], rn_billingContext = None, rn_repoKey = None, rn_queryId = ''q1'',
     rn_queryStartedAt = startedAt, rn_chatSessionId = None, rn_copilotSessionId = None,
     rn_traceChatSessionId = None, rn_traceRole = None, rn_initialQueryText = None, rn_initialQueryState = None,
     rn_tokenUsageSource = Some Chat_spans, rn_accounting = None, rn_pricingCoverage = None,
     rn_costCoverage = Some Complete, rn_modelUsages = []\<rparr>"

text \<open>
  C9: the file of the run ledger refines a map from identifiers to runs. For every file that the
  ledger can have written, an append that succeeds puts the run at the end when its identifier is
  new, and otherwise replaces the record of that identifier by the merge of both, leaving every
  other record as it was stored; the identifiers stay unique and the next read gives these records.
\<close>

theorem append_upserts:
  assumes "ledger_file same ce f" and "append_run ce same io r f = (Inr (), f')"
    and "known_version r" and "\<forall>a b. same a b \<longrightarrow> a = b"
  shows "known_records f' = upsert_record ce r (known_records f)
    \<and> distinct (map rn_id (known_records f'))
    \<and> readAll ce f' = (Inr (map (normalized ce) (upsert_record ce r (known_records f))), f')"
proof -
  have same: "\<And>a b. same a b \<Longrightarrow> a = b" using assms(4) by blast
  have "known_records f' = upsert_record ce r (known_records f)"
    using append_upserts_records [OF assms(2,3) same] ledger_file_distinct [OF assms(1) same] by blast
  moreover have "f' \<noteq> Unreadable \<and> distinct (map rn_id (known_records f'))"
    using ledger_file_distinct [OF ledger_file.appended [OF assms(1,3,2)] same] by blast
  ultimately show ?thesis by (simp add: readAll_known)
qed

theorem append_upserts_witness:
  "known_records (snd (append_run None (=) True (sample_run ''b'' ''2026-01-01'') (Content [Some (sample_run ''a'' ''2026-01-01'')])))
     = [sample_run ''a'' ''2026-01-01'', sample_run ''b'' ''2026-01-01'']"
proof -
  let ?a = "sample_run ''a'' ''2026-01-01''" and ?b = "sample_run ''b'' ''2026-01-01''"
  have known: "known_version ?a" "known_version ?b" by (simp_all add: known_version_def sample_run_def)
  have a: "append_run None (=) True ?a Missing = (Inr (), Content [Some ?a])"
    by (simp add: append_run_def readStoredEntries_run List.map_filter_def modifyA_def append_line_def)
  then have f: "ledger_file (=) None (Content [Some ?a])"
    by (rule ledger_file.appended [OF ledger_file.no_file known(1)])
  have plain: "rn_id ?a = ''a''" "rn_id ?b = ''b''" by (simp_all add: sample_run_def)
  then have ids: "rn_id (normalized None ?a) = ''a''" "rn_id ?b = ''b''"
    using normalized_fields(1) [OF known(1), of None] by simp_all
  have "append_run None (=) True ?b (Content [Some ?a]) = (Inr (), Content [Some ?a, Some ?b])"
    by (simp add: append_run_def readStoredEntries_run List.map_filter_def read_entry_def normalizeStoredRun_Some
        known ids modifyA_def append_line_def)
  moreover from append_upserts [OF f this known(2)]
  have "known_records (Content [Some ?a, Some ?b]) = upsert_record None ?b (known_records (Content [Some ?a]))" by simp
  ultimately show ?thesis
    by (simp add: upsert_record_def known_records_def List.map_filter_def known plain)
qed

text \<open>
  Retention removes exactly what is too old. With a positive number of days the records that
  remain are those that started within it, in their order, an unreadable start counting as too old,
  and the result is the number of records that were removed; when there is none the file, with
  whatever lines it has, is not touched.
\<close>

theorem run_retention_exact:
  assumes "applyRetention_runs ce io now (Some days) f = (Inr k, f')" and "0 < days"
  shows "known_records f' = filter (in_retention now days) (known_records f)
    \<and> k = length (filter (\<lambda>r. \<not> in_retention now days r) (known_records f))
    \<and> (k = 0 \<longrightarrow> f' = f)"
  using retention_records [OF assms] retention_result [OF assms] by simp

theorem run_retention_exact_witness:
  "known_records (snd (applyRetention_runs None True 1767225600000 (Some 1)
     (Content [Some (sample_run ''a'' ''2025-01-01''), None, Some (sample_run ''b'' ''2026-01-01'')])))
     = [sample_run ''b'' ''2026-01-01'']"
proof -
  let ?a = "sample_run ''a'' ''2025-01-01''" and ?b = "sample_run ''b'' ''2026-01-01''"
  let ?f = "Content [Some ?a, None, Some ?b]"
  have known: "known_version ?a" "known_version ?b" by (simp_all add: known_version_def sample_run_def)
  have d: "date_ms ''2025-01-01'' = Some 1735689600000" "date_ms ''2026-01-01'' = Some 1767225600000" by code_simp+
  have ret: "\<not> in_retention 1767225600000 1 ?a" "in_retention 1767225600000 1 ?b"
    by (simp_all add: in_retention_def sample_run_def d)
  obtain k f' where r: "applyRetention_runs None True 1767225600000 (Some 1) ?f = (Inr k, f')"
    using retention_succeeds [of ?f None 1767225600000 "Some 1"] by blast
  from run_retention_exact [OF r] have "known_records f' = filter (in_retention 1767225600000 1) (known_records ?f)"
    by simp
  then show ?thesis by (simp add: r known_records_def List.map_filter_def known ret)
qed

end
