(* ===== verification/RunMerging.thy ===== *)
theory RunMerging
  imports RunLedgerProperties
begin

text \<open>
  What merging two records of a run keeps, field by field: each field of the merged record is the one of
  the first source that reports it, of its accounting, the preferred record and the other one.
\<close>

section \<open>What a record reports\<close>

datatype count = Input_count | Output_count | Cache_read_count | Cache_creation_count | Cached_count
  | Reasoning_count | Total_count

text \<open>The counts of a run and those of the totals of an accounting are read the same way.\<close>

fun reported_count :: "count \<Rightarrow> 'a token_breakdown_scheme \<Rightarrow> rat option" where
  "reported_count Input_count r = inputTokens r"
| "reported_count Output_count r = outputTokens r"
| "reported_count Cache_read_count r = cacheReadInputTokens r"
| "reported_count Cache_creation_count r = cacheCreationInputTokens r"
| "reported_count Cached_count r = cachedTokens r"
| "reported_count Reasoning_count r = reasoningOutputTokens r"
| "reported_count Total_count r = totalTokens r"

datatype text_field = End_time | Session_text | Chat_text | Copilot_text | Trace_chat_text | Service_text

fun text_field_of :: "text_field \<Rightarrow> run \<Rightarrow> string option" where
  "text_field_of End_time r = rn_endedAt r"
| "text_field_of Session_text r = rn_sessionId r"
| "text_field_of Chat_text r = rn_chatSessionId r"
| "text_field_of Copilot_text r = rn_copilotSessionId r"
| "text_field_of Trace_chat_text r = rn_traceChatSessionId r"
| "text_field_of Service_text r = rn_serviceName r"

text \<open>A blank text reports nothing.\<close>

definition reported_text :: "text_field \<Rightarrow> run \<Rightarrow> string option" where
  "reported_text t r = (case text_field_of t r of None \<Rightarrow> None | Some s \<Rightarrow> if blank s then None else Some s)"

definition first_reported :: "'a option list \<Rightarrow> 'a option" where
  "first_reported xs = (case filter (\<lambda>x. x \<noteq> None) xs of [] \<Rightarrow> None | x # _ \<Rightarrow> x)"

lemma first_reported_simps [simp]:
  "first_reported [] = None" "first_reported (x # xs) = or_else x (first_reported xs)"
  by (cases x; simp add: first_reported_def)+

lemma or_else_None [simp]: "or_else a b = None \<longleftrightarrow> a = None \<and> b = None" "or_else a None = a"
  by (cases a; simp)+

definition accounting_amount :: "(accounting_totals \<Rightarrow> 'v option) \<Rightarrow> trace_accounting option \<Rightarrow> 'v option" where
  "accounting_amount field ac = Option.bind ac (\<lambda>a. field (ac_totals a))"

lemma accounting_amount_simps [simp]: "accounting_amount field None = None" "accounting_amount field (Some a) = field (ac_totals a)"
  by (simp_all add: accounting_amount_def)

text \<open>An accounting without the warnings that it lists.\<close>

definition without_warnings :: "trace_accounting \<Rightarrow> trace_accounting" where
  "without_warnings a = a\<lparr>ac_totals := (ac_totals a)\<lparr>at_warnings := []\<rparr>, ac_warnings := []\<rparr>"

definition accounting_warnings :: "trace_accounting option \<Rightarrow> string set" where
  "accounting_warnings ac = (case ac of None \<Rightarrow> {} | Some a \<Rightarrow> set (ac_warnings a) \<union> set (at_warnings (ac_totals a)))"

definition accounting_quality :: "run \<Rightarrow> nat" where
  "accounting_quality r = accountingQualityScore (accountingForAggregation r)"

text \<open>The accounting of the two that is better; the one of the preferred record when they are equally good.\<close>

definition better_accounting :: "run \<Rightarrow> run \<Rightarrow> trace_accounting option" where
  "better_accounting p f =
     (if authoritative p \<noteq> None \<and> (authoritative f = None \<or> accounting_quality f \<le> accounting_quality p)
      then authoritative p else authoritative f)"

section \<open>The merged record\<close>

lemma merge_into_count:
  "reported_count c (merge_into ac p f) = first_reported [accounting_amount (reported_count c) ac, reported_count c p, reported_count c f]"
  by (cases c; cases ac) (simp_all add: merge_into_def Let_def accounting_tokens_def token_breakdown.defs)

lemma merge_into_text: "reported_text t (merge_into ac p f) = first_reported [reported_text t p, reported_text t f]"
  by (cases t) (auto simp: reported_text_def merge_into_def pick_tokens_def Let_def pickString_def split: option.splits)

lemma merge_into_rest:
  "run_nano (merge_into ac p f) = first_reported [accounting_amount at_estimatedNanoUsd ac, run_nano p, run_nano f]"
  "rn_mode (merge_into ac p f) = first_reported [rn_mode p, rn_mode f]"
  "rn_durationMs (merge_into ac p f) = first_reported [rn_durationMs p, rn_durationMs f]"
  "rn_toolCallCount (merge_into ac p f) = (case ac of
     Some a \<Rightarrow> sum_list (map tl_count (ac_toolSummaries a)) | None \<Rightarrow> max (rn_toolCallCount p) (rn_toolCallCount f))"
  by (cases ac; auto simp: merge_into_def pick_tokens_def Let_def run_nano_def normalizedEstimatedNanoUsd_def or_else_def
    usdFromNanoUsd_def split: option.splits)+

lemma merge_into_accounting: "authoritative (merge_into ac p f) = ac"
  by (cases ac) (simp_all add: authoritative_def merge_into_def Let_def)

lemma sort_by_pair:
  "sort_by le [x, y] = (if le x y then [x, y] else [y, x])" "sort_by le [x] = [x]"
  by (simp_all add: sort_by_def)

lemma merged_text:
  "preferredInitialQueryText p f = (if has_query_text p \<and> (\<not> has_query_text f \<or> text_rank f \<le> text_rank p)
     then rn_initialQueryText p else if has_query_text f then rn_initialQueryText f else None)"
  by (auto simp: preferredInitialQueryText_def sort_by_pair)

lemma merged_accounting:
  "map_option without_warnings (mergeStoredAccounting p f) = map_option without_warnings (better_accounting p f)"
  by (auto simp: better_accounting_def mergeStoredAccounting_def sort_by_pair List.map_filter_def Let_def accounting_quality_def
    without_warnings_def with_warnings_def)

lemma preferred_state_rank:
  "initialQueryStateRank (Some (preferredInitialQueryState p f)) = max (initialQueryStateRank p) (initialQueryStateRank f)"
  by (cases p; cases f) (auto simp: preferredInitialQueryState_def initialQueryStateRank_def normalizeInitialQueryState_def
      pickString_def Let_def max_def)

lemma merged_accounting_warnings:
  "{w \<in> accounting_warnings (mergeStoredAccounting p f). \<not> blank w} =
   {w \<in> accounting_warnings (authoritative p) \<union> accounting_warnings (authoritative f). \<not> blank w}"
  by (auto simp: mergeStoredAccounting_def sort_by_pair List.map_filter_def Let_def with_warnings_def accounting_warnings_def)

lemma merge_into_warnings:
  "set (rn_warnings (merge_into ac p f)) =
     {w \<in> set (rn_warnings p) \<union> set (rn_warnings f) \<union> accounting_warnings ac. \<not> blank w}"
  by (cases ac) (auto simp: merge_into_def Let_def accounting_warnings_def)

text \<open>The merged record of a preferred record and another one.\<close>

definition merged_of :: "run \<Rightarrow> run \<Rightarrow> run \<Rightarrow> bool" where
  "merged_of p f m \<longleftrightarrow>
     rn_id m = rn_id p
     \<and> map_option without_warnings (authoritative m) = map_option without_warnings (better_accounting p f)
     \<and> (\<forall>c. reported_count c m
         = first_reported [accounting_amount (reported_count c) (authoritative m), reported_count c p, reported_count c f])
     \<and> run_nano m = first_reported [accounting_amount at_estimatedNanoUsd (authoritative m), run_nano p, run_nano f]
     \<and> (\<forall>t. reported_text t m = first_reported [reported_text t p, reported_text t f])
     \<and> rn_mode m = first_reported [rn_mode p, rn_mode f]
     \<and> rn_durationMs m = first_reported [rn_durationMs p, rn_durationMs f]
     \<and> rn_initialQueryText m = (if has_query_text p \<and> (\<not> has_query_text f \<or> text_rank f \<le> text_rank p)
         then rn_initialQueryText p else if has_query_text f then rn_initialQueryText f else None)
     \<and> rn_toolCallCount m = (case authoritative m of
         Some a \<Rightarrow> sum_list (map tl_count (ac_toolSummaries a)) | None \<Rightarrow> max (rn_toolCallCount p) (rn_toolCallCount f))"

lemma merged_of_merge_into: "merged_of p f (merge_into (mergeStoredAccounting p f) p f)"
  unfolding merged_of_def merge_into_accounting merge_into_count merge_into_text merge_into_rest merged_accounting
  by (simp add: merged_text)


end
