(* ===== verification/RunExport.thy ===== *)
theory RunExport
  imports RunLedger
begin

text \<open>
  The export of the run ledger: the groups as they are, which the code writes with
  \<open>JSON.stringify\<close>, or a table with a row for each run (\<open>toCsv\<close> of src/src/storage/runLedger.ts).
\<close>

fun run_status_str :: "run_status \<Rightarrow> string" where
  "run_status_str Run_running = ''running''"
| "run_status_str Run_completed = ''completed''"
| "run_status_str Run_error = ''error''"
| "run_status_str Run_cancelled = ''cancelled''"
| "run_status_str Run_unknown = ''unknown''"

fun trace_role_str :: "trace_role \<Rightarrow> string" where
  "trace_role_str Role_main = ''main''"
| "trace_role_str Role_helper = ''helper''"
| "trace_role_str Role_unknown = ''unknown''"

fun token_source_str :: "token_usage_source \<Rightarrow> string" where
  "token_source_str Invoke_agent = ''invoke_agent''"
| "token_source_str Chat_spans = ''chat_spans''"
| "token_source_str Events = ''events''"
| "token_source_str Metrics = ''metrics''"
| "token_source_str Not_reported = ''not_reported''"
| "token_source_str Legacy = ''legacy''"

fun pricing_state_str :: "pricing_state \<Rightarrow> string" where
  "pricing_state_str Priced = ''priced''"
| "pricing_state_str Partially_priced = ''partial''"
| "pricing_state_str Unpriced = ''unpriced''"

fun cost_label_str :: "cost_label \<Rightarrow> string" where
  "cost_label_str All_estimated = ''All estimated''"
| "cost_label_str Priced_models_only = ''Priced models only''"
| "cost_label_str Partial_estimate = ''Partial estimate''"
| "cost_label_str Cost_unavailable = ''Unavailable''"

definition formatModelUsage :: "priced_usage list \<Rightarrow> string" where
  "formatModelUsage us = join ''; '' (map (\<lambda>u.
     (if truthy (mu_provider u) then the (mu_provider u) @ ''/'' else '''') @ mu_model u
     @ '': input '' @ textOrNa (inputTokens u) @ '', output '' @ textOrNa (outputTokens u)
     @ '', total '' @ textOrNa (totalTokens u)
     @ '', credits '' @ optional_num (aiCreditsFromNanoUsd (usage_nano u))
     @ '', usd '' @ optional_num (pu_estimatedUsd u)) us)"

definition formatTools :: "tool_summary list \<Rightarrow> string" where
  "formatTools ts = join ''; '' (map (\<lambda>t. tl_name t @ '': calls '' @ nat_to_string (tl_count t)
     @ '', input '' @ textOrNa (inputTokens t) @ '', output '' @ textOrNa (outputTokens t)
     @ '', total '' @ textOrNa (totalTokens t)) ts)"

definition run_coverage :: "run \<Rightarrow> pricing_coverage" where
  "run_coverage r = normalizePricingCoverage (rn_pricingCoverage r) (Some (value_of_run r))"

definition optional_context :: "billing_context option \<Rightarrow> string" where
  "optional_context c = nullish (map_option billing_context_str c) ''''"

definition run_columns :: "(string \<times> (run_group \<Rightarrow> run \<Rightarrow> string)) list" where
  "run_columns =
     [(''Query Started At'', \<lambda>g r. rg_startedAt g),
      (''Initial Query'', \<lambda>g r. nullish (rg_initialQueryText g) ''''),
      (''Chat Session ID'', \<lambda>g r. nullish (rg_chatSessionId g) ''''),
      (''Run Started At'', \<lambda>g r. rn_startedAt r),
      (''Ended At'', \<lambda>g r. nullish (rn_endedAt r) ''''),
      (''Query ID'', \<lambda>g r. rg_queryId g),
      (''Trace ID'', \<lambda>g r. rn_traceId r),
      (''Trace Role'', \<lambda>g r. nullish (map_option trace_role_str (rn_traceRole r)) ''''),
      (''Trace Chat Session ID'', \<lambda>g r. nullish (rn_traceChatSessionId r) ''''),
      (''Mode'', \<lambda>g r. nullish (rn_mode r) ''''),
      (''Billing Context'', \<lambda>g r. optional_context (rn_billingContext r)),
      (''Models'', \<lambda>g r. join ''; '' (rn_models r)),
      (''Token Source'', \<lambda>g r. nullish (map_option token_source_str (rn_tokenUsageSource r)) ''''),
      (''Model Usage'', \<lambda>g r. formatModelUsage (rn_modelUsages r)),
      (''Input'', \<lambda>g r. optional_num (inputTokens r)),
      (''Output'', \<lambda>g r. optional_num (outputTokens r)),
      (''Cached'', \<lambda>g r. optional_num (cachedTokens r)),
      (''Total'', \<lambda>g r. optional_num (totalTokens r)),
      (''Est. Credits'', \<lambda>g r. optional_num (rn_estimatedAiCredits r)),
      (''Est. USD'', \<lambda>g r. optional_num (rn_estimatedUsd r)),
      (''Run Cost Coverage'', \<lambda>g r. nullish (map_option coverage_str (rn_costCoverage r)) ''''),
      (''Run Pricing Coverage'', \<lambda>g r. pricing_state_str (pc_state (run_coverage r))),
      (''Run Pricing Versions'', \<lambda>g r. join ''; '' (pc_pricingVersions (run_coverage r))),
      (''Run Pricing Effective From'', \<lambda>g r. join ''; '' (pc_pricingEffectiveFrom (run_coverage r))),
      (''Run Legacy Schema'', \<lambda>g r. if rn_schemaVersion r = 3 then ''no'' else ''yes''),
      (''Cost Scope'', \<lambda>g r. cost_label_str (rg_costLabel g)),
      (''Query Billing Context'', \<lambda>g r. optional_context (rg_billingContext g)),
      (''Query Billing Contexts'', \<lambda>g r. join ''; '' (map billing_context_str (rg_billingContexts g))),
      (''Query Accounting Coverage'', \<lambda>g r. coverage_str (cov_state (rg_accountingCoverage g))),
      (''Query Pricing Coverage'', \<lambda>g r. pricing_state_str (pc_state (rg_pricingCoverage g))),
      (''Query Pricing Versions'', \<lambda>g r. join ''; '' (rg_pricingVersions g)),
      (''Query Pricing Effective From'', \<lambda>g r. join ''; '' (rg_pricingEffectiveFrom g)),
      (''Query Unpriced Slices'', \<lambda>g r. nat_to_string (rg_unpricedSliceCount g)),
      (''Query Unavailable Slices'', \<lambda>g r. nat_to_string (rg_unavailableSliceCount g)),
      (''Query Legacy Runs'', \<lambda>g r. nat_to_string (rg_legacyRunCount g)),
      (''Tools'', \<lambda>g r. formatTools (rn_tools r)),
      (''Tool Calls'', \<lambda>g r. nat_to_string (rn_toolCallCount r)),
      (''Duration Ms'', \<lambda>g r. optional_num (rn_durationMs r)),
      (''Status'', \<lambda>g r. run_status_str (rn_status r)),
      (''Warnings'', \<lambda>g r. join ''; '' (rn_warnings r))]"

definition csv_row :: "run_group \<Rightarrow> run \<Rightarrow> string list" where
  "csv_row g r = map (\<lambda>(_, getter). getter g r) run_columns"

definition csv_rows :: "run_group list \<Rightarrow> string list list" where
  "csv_rows gs = map fst run_columns # concat (map (\<lambda>g. map (csv_row g) (rg_runs g)) gs)"

definition runs_toCsv :: "run_group list \<Rightarrow> string" where
  "runs_toCsv gs = join [CHR 0x0A] (map (\<lambda>row. join '','' (map csvEscape row)) (csv_rows gs)) @ [CHR 0x0A]"

datatype export_format = Json_format | Csv_format

datatype export_content = Json_groups "run_group list" | Csv_text string

definition export_content_of :: "export_format \<Rightarrow> run_group list \<Rightarrow> export_content" where
  "export_content_of fmt gs = (case fmt of Json_format \<Rightarrow> Json_groups gs | Csv_format \<Rightarrow> Csv_text (runs_toCsv gs))"

definition export_runs :: "collation \<Rightarrow> pricing_catalog option \<Rightarrow> export_format \<Rightarrow> run_query
    \<Rightarrow> (export_content \<times> nat) run_action" where
  "export_runs lc ce fmt query =
     bindA (listQueryGroups lc ce query) (\<lambda>gs. returnA (export_content_of fmt gs, length gs))"

end
