(* ===== verification/RunExportProperties.thy ===== *)
theory RunExportProperties
  imports RunExport
begin

text \<open>
  The export can be read back: a reader of comma separated values as RFC 4180 describes them, as a
  machine over the characters, returns the cells that were written, whatever they contain.
\<close>

section \<open>A reader of comma separated values\<close>

datatype csv_state = At_start | In_plain | In_quotes | After_quote

abbreviation "quote_char \<equiv> CHR 0x22"
abbreviation "newline_char \<equiv> CHR 0x0A"

fun read_csv :: "csv_state \<Rightarrow> string \<Rightarrow> string list \<Rightarrow> string \<Rightarrow> string list list" where
  "read_csv st cell row [] = (if st = At_start \<and> cell = [] \<and> row = [] then [] else [row @ [cell]])"
| "read_csv st cell row (c # cs) =
     (if st = In_quotes
      then (if c = quote_char then read_csv After_quote cell row cs else read_csv In_quotes (cell @ [c]) row cs)
      else if c = CHR '','' then read_csv At_start [] (row @ [cell]) cs
      else if c = newline_char then (row @ [cell]) # read_csv At_start [] [] cs
      else if c = quote_char
      then (if st = After_quote then read_csv In_quotes (cell @ [c]) row cs else read_csv In_quotes cell row cs)
      else read_csv In_plain (cell @ [c]) row cs)"

definition special :: "char \<Rightarrow> bool" where
  "special c \<longleftrightarrow> c \<in> {quote_char, CHR '','', newline_char, CHR 0x0D}"

definition csv_delimiter :: "char \<Rightarrow> bool" where
  "csv_delimiter c \<longleftrightarrow> c = CHR '','' \<or> c = newline_char"

lemma read_plain:
  assumes "\<not> list_ex special s" and "st = At_start \<or> st = In_plain" and "csv_delimiter d"
  shows "read_csv st cell row (s @ d # rest)
    = (if d = CHR '','' then read_csv At_start [] (row @ [cell @ s]) rest else (row @ [cell @ s]) # read_csv At_start [] [] rest)"
  using assms
proof (induction s arbitrary: st cell)
  case Nil
  then show ?case by (auto simp: csv_delimiter_def)
next
  case (Cons c s)
  then have "read_csv st cell row ((c # s) @ d # rest) = read_csv In_plain (cell @ [c]) row (s @ d # rest)"
    by (auto simp: special_def)
  with Cons.IH [of In_plain "cell @ [c]"] Cons.prems show ?case by simp
qed

lemma read_quoted:
  "read_csv In_quotes cell row (concat (map (\<lambda>c. if c = quote_char then [c, c] else [c]) s) @ quote_char # rest)
     = read_csv After_quote (cell @ s) row rest"
  if "rest = d # rest'" "d \<noteq> quote_char"
  using that by (induction s arbitrary: cell) auto

lemma read_cell:
  assumes "csv_delimiter d"
  shows "read_csv At_start [] row (csvEscape s @ d # rest)
    = (if d = CHR '','' then read_csv At_start [] (row @ [s]) rest else (row @ [s]) # read_csv At_start [] [] rest)"
proof (cases "list_ex special s")
  case True
  then have e: "csvEscape s = quote_char # concat (map (\<lambda>c. if c = quote_char then [c, c] else [c]) s) @ [quote_char]"
    by (simp add: csvEscape_def special_def [abs_def])
  have "d \<noteq> quote_char" using assms by (auto simp: csv_delimiter_def)
  with read_quoted [of "d # rest" d rest "[]" row s] assms show ?thesis
    by (auto simp: e csv_delimiter_def)
next
  case False
  then have "csvEscape s = s" by (simp add: csvEscape_def special_def [abs_def])
  with read_plain [OF False _ assms, of At_start "[]" row rest] show ?thesis by simp
qed

lemma read_row:
  assumes "cells \<noteq> []"
  shows "read_csv At_start [] row (join '','' (map csvEscape cells) @ newline_char # rest)
    = (row @ cells) # read_csv At_start [] [] rest"
  using assms
proof (induction cells arbitrary: row rule: induct_list012)
  case 1
  then show ?case by simp
next
  case (2 x)
  then show ?case using read_cell [of newline_char row x rest] by (simp add: csv_delimiter_def)
next
  case (3 x y zs)
  have "read_csv At_start [] row (csvEscape x @ CHR '','' # join '','' (map csvEscape (y # zs)) @ newline_char # rest)
      = read_csv At_start [] (row @ [x]) (join '','' (map csvEscape (y # zs)) @ newline_char # rest)"
    using read_cell [of "CHR '',''" row x] by (simp add: csv_delimiter_def)
  with 3 show ?case by simp
qed

lemma read_table:
  assumes "rows \<noteq> []" and "\<And>r. r \<in> set rows \<Longrightarrow> r \<noteq> []"
  shows "read_csv At_start [] [] (join [newline_char] (map (\<lambda>r. join '','' (map csvEscape r)) rows) @ [newline_char]) = rows"
  using assms
proof (induction rows rule: induct_list012)
  case 1
  then show ?case by simp
next
  case (2 x)
  then show ?case using read_row [of x "[]" "[]"] by simp
next
  case (3 x y zs)
  then show ?case using read_row [of x "[]"] by simp
qed

section \<open>Properties\<close>

text \<open>
  C12: the CSV export can be read back. For every list of groups, whatever their queries, models
  and warnings contain, a reader of comma separated values gets the header and one row of forty
  cells for each run, each cell as it was.
\<close>

theorem csv_roundtrip:
  "read_csv At_start [] [] (runs_toCsv gs) = csv_rows gs
   \<and> list_all (\<lambda>row. length row = 40) (csv_rows gs)
   \<and> length (csv_rows gs) = 1 + sum_list (map (\<lambda>g. length (rg_runs g)) gs)"
proof -
  have "length row = 40" if "row \<in> set (csv_rows gs)" for row
    using that by (auto simp: csv_rows_def csv_row_def run_columns_def)
  moreover from this have "row \<noteq> []" if "row \<in> set (csv_rows gs)" for row
    using that by fastforce
  moreover have "csv_rows gs \<noteq> []" by (simp add: csv_rows_def)
  ultimately show ?thesis
    using read_table [of "csv_rows gs"]
    by (auto simp: runs_toCsv_def list_all_iff csv_rows_def length_concat comp_def)
qed

end
