(* ===== verification/TraceAccounting.thy ===== *)
theory TraceAccounting
  imports RunGroups
begin

text \<open>
  The accounting of a trace: \<open>buildAuthoritativeAccounting\<close> of
  src/src/aggregation/agentRunAssembler.ts and what it calls. The attributed units of token
  measurement are priced, summed by model and by tool call, and checked.

  The search for the tool call that owns a unit follows the parents of its span with no guard
  against a cycle of parents: it is a partial function whose result \<open>None\<close> means that it does not
  return, and so is what calls it.
\<close>

section \<open>Pricing the units\<close>

definition priced_unit_of :: "usage_unit \<Rightarrow> cost_estimate \<Rightarrow> priced_unit" where
  "priced_unit_of u cost = usage_unit.extend u (priced_unit.fields None None None
     (if pc_state (ce_pricingCoverage cost) = Unpriced then None else Some (ce_estimatedNanoUsd cost))
     (ce_pricingMatch cost) (Some (ce_pricingCoverage cost)))"

definition priceAttributedUsageUnits :: "pricing_catalog \<Rightarrow> string \<Rightarrow> usage_unit list \<Rightarrow> priced_unit list" where
  "priceAttributedUsageUnits catalog startedAt units =
     map (\<lambda>u. priced_unit_of u (estimateAttributedUnit catalog u startedAt)) units"

section \<open>Coverage\<close>

definition accountingCoverageState :: "coverage_reason list \<Rightarrow> pricing_coverage option \<Rightarrow> cost_coverage" where
  "accountingCoverageState reasons pc =
     (if Source_not_reported \<in> set reasons then Unavailable
      else if map_option pc_state pc \<in> {Some Partially_priced, Some Unpriced} then Partial
      else if reasons \<noteq> [] then Partial else Complete)"

definition coverage_reasons :: "pricing_coverage option \<Rightarrow> coverage_reason list" where
  "coverage_reasons pc = (case pc of None \<Rightarrow> [] | Some c \<Rightarrow> pc_reasons c)"

definition aggregateAccountingCoverage :: "accounting_coverage list \<Rightarrow> pricing_coverage option \<Rightarrow> accounting_coverage" where
  "aggregateAccountingCoverage coverages pc =
     (let reasons = dedup (concat (map cov_reasons coverages) @ coverage_reasons pc)
      in \<lparr>cov_state = accountingCoverageState reasons pc, cov_reasons = reasons\<rparr>)"

definition from_coverages :: "(pricing_coverage \<Rightarrow> 'a list) \<Rightarrow> pricing_coverage option list \<Rightarrow> 'a list" where
  "from_coverages f pcs = concat (map (\<lambda>pc. case pc of None \<Rightarrow> [] | Some c \<Rightarrow> f c) pcs)"

definition aggregateUnitPricingCoverage :: "priced_unit list \<Rightarrow> pricing_coverage" where
  "aggregateUnitPricingCoverage units =
     (let pcs = map un_pricingCoverage units;
          pricedModels = unique_strings (from_coverages pc_pricedModels pcs);
          unpricedModels = unique_strings (from_coverages pc_unpricedModels pcs);
          missingModelSlices = sum_list (from_coverages (\<lambda>c. [pc_missingModelSlices c]) pcs);
          states = map (map_option pc_state) pcs;
          hasPriced = (pricedModels \<noteq> [] \<or> list_ex (\<lambda>s. s = Some Priced \<or> s = Some Partially_priced) states);
          hasUnpriced = (unpricedModels \<noteq> [] \<or> missingModelSlices > 0
            \<or> list_ex (\<lambda>s. s = Some Partially_priced \<or> s = Some Unpriced) states)
      in \<lparr>pc_state = (if hasPriced then (if hasUnpriced then Partially_priced else Priced) else Unpriced),
          pc_reasons = dedup (from_coverages pc_reasons pcs),
          pc_pricedModels = pricedModels, pc_unpricedModels = unpricedModels,
          pc_missingModelSlices = missingModelSlices,
          pc_pricingVersions = unique_strings (from_coverages pc_pricingVersions pcs),
          pc_pricingEffectiveFrom = unique_strings (from_coverages pc_pricingEffectiveFrom pcs)\<rparr>)"

section \<open>Price matches\<close>

definition pricingMatchKey :: "pricing_match \<Rightarrow> string" where
  "pricingMatchKey m = join ''::'' [nullish (map_option billing_context_str (pm_billingContext m)) '''',
     nullish (pm_provider m) '''', nullish (pm_model m) '''', nullish (pm_matchedModel m) '''',
     pm_pricingVersion m, nullish (pm_effectiveFrom m) '''', nullish (pm_sourceUrl m) '''']"

fun unique_matches :: "pricing_match list \<Rightarrow> pricing_match list" where
  "unique_matches [] = []"
| "unique_matches (m # ms) = m # filter (\<lambda>n. pricingMatchKey n \<noteq> pricingMatchKey m) (unique_matches ms)"

definition singlePricingMatch :: "pricing_match option list \<Rightarrow> pricing_match option" where
  "singlePricingMatch matches =
     (case List.map_filter id matches of
        [] \<Rightarrow> None
      | first # rest \<Rightarrow> if list_all (\<lambda>m. pricingMatchKey m = pricingMatchKey first) rest then Some first else None)"

section \<open>Models\<close>

definition unit_model_key :: "priced_unit \<Rightarrow> string" where
  "unit_model_key u = modelProviderKey (nullish (au_model u) '''') (au_provider u)"

definition unit_breakdown :: "priced_unit list \<Rightarrow> token_breakdown" where
  "unit_breakdown units = finalizeTokenBreakdown (sumTokenBreakdowns units)"

definition model_summary_of :: "priced_unit list \<Rightarrow> model_summary" where
  "model_summary_of units =
     (let pc = aggregateUnitPricingCoverage units
      in token_breakdown.extend (unit_breakdown units) (model_summary.fields
           (nullish (au_model (hd units)) '''')
           (firstDefined (map au_provider units))
           (map au_attributionId units)
           (opt_sum (map un_estimatedNanoUsd units))
           (singlePricingMatch (map un_pricing units))
           (Some pc)
           (aggregateAccountingCoverage (map au_coverage units) (Some pc))
           (unique_strings (concat (map au_warnings units)))))"

definition summary_le :: "collation \<Rightarrow> model_summary \<Rightarrow> model_summary \<Rightarrow> bool" where
  "summary_le lc a b =
     (let d = nullish (totalTokens b) 0 - nullish (totalTokens a) 0;
          c = lc (am_model a) (am_model b)
      in if d \<noteq> 0 then d \<le> 0 else if c \<noteq> 0 then c \<le> 0
         else lc (nullish (am_provider a) '''') (nullish (am_provider b) '''') \<le> 0)"

definition buildAccountingModelSummaries :: "collation \<Rightarrow> priced_unit list \<Rightarrow> model_summary list" where
  "buildAccountingModelSummaries lc units = sort_by (summary_le lc)
     (map model_summary_of (map_values (group_by unit_model_key (filter (\<lambda>u. truthy (au_model u)) units))))"

definition modelUsagesFromAccounting :: "model_summary list \<Rightarrow> priced_usage list" where
  "modelUsagesFromAccounting summaries =
     map (\<lambda>s. (modelUsageFromAccountingSummary s)\<lparr>mu_notes :=
       unique_strings (am_warnings s @ map reason_str (cov_reasons (am_coverage s)))\<rparr>) summaries"

section \<open>Tool calls\<close>

record tool_call =
  tc_key :: string
  tc_name :: string
  tc_count :: nat
  tc_failures :: nat
  tc_totalDurationMs :: "rat option"
  tc_spanIds :: "string list"
  tc_warnings :: "string list"

definition add_call :: "string \<Rightarrow> string \<Rightarrow> string option \<Rightarrow> bool \<Rightarrow> rat option
    \<Rightarrow> (string, tool_call) jsmap \<Rightarrow> (string, tool_call) jsmap" where
  "add_call key name spanId failed duration m =
     (let current = nullish (map_get m key) \<lparr>tc_key = key, tc_name = name, tc_count = 0, tc_failures = 0,
            tc_totalDurationMs = Some 0, tc_spanIds = [], tc_warnings = []\<rparr>
      in map_set key (current\<lparr>tc_count := tc_count current + 1,
           tc_failures := tc_failures current + (if failed then 1 else 0),
           tc_totalDurationMs := (if duration = None then tc_totalDurationMs current
             else add_opt (tc_totalDurationMs current) duration),
           tc_spanIds := (case spanId of None \<Rightarrow> tc_spanIds current
             | Some s \<Rightarrow> unique_strings (tc_spanIds current @ [s]))\<rparr>) m)"

definition span_call :: "span_record \<Rightarrow> (string, tool_call) jsmap \<Rightarrow> (string, tool_call) jsmap" where
  "span_call s = add_call
     (if truthy (extractToolCallId (Span s)) then ''call:'' @ the (extractToolCallId (Span s)) else ''span:'' @ sp_spanId s)
     (extractToolName s) (Some (sp_spanId s)) (isErrorStatus (sp_status s)) (extractSpanDurationMs s)"

definition event_call :: "event_record \<Rightarrow> (string, tool_call) jsmap \<Rightarrow> (string, tool_call) jsmap" where
  "event_call e = add_call
     (if truthy (extractToolCallId (Event e)) then ''call:'' @ the (extractToolCallId (Event e))
      else ''event:'' @ nullish (ev_traceId e) '''' @ '':'' @ nullish (ev_spanId e) '''' @ '':'' @ nullish (ev_timeUnixNano e) '''')
     (case js_prop (ev_attributes e) ''gen_ai.tool.name'' of JStr s \<Rightarrow> s | _ \<Rightarrow> ''unknown'')
     (if truthy (ev_spanId e) then ev_spanId e else None)
     (js_prop (ev_attributes e) ''success'' = JBool False)
     (case js_prop (ev_attributes e) ''duration_ms'' of JNum d \<Rightarrow> Some d | _ \<Rightarrow> None)"

definition call_le :: "collation \<Rightarrow> tool_call \<Rightarrow> tool_call \<Rightarrow> bool" where
  "call_le lc a b = (if tc_count b \<noteq> tc_count a then tc_count b \<le> tc_count a else lc (tc_name a) (tc_name b) \<le> 0)"

definition collectToolCallMetadata :: "collation \<Rightarrow> assembled_trace \<Rightarrow> tool_call list" where
  "collectToolCallMetadata lc tr = sort_by (call_le lc) (map_values
     (fold event_call (filter (\<lambda>e. ev_name e = ''copilot_chat.tool.call'') (tr_events tr))
       (fold span_call (filter (\<lambda>s. isExecuteToolName (sp_name s)) (tr_spans tr)) [])))"

definition parent_by_span :: "assembled_trace \<Rightarrow> (string, string option) jsmap" where
  "parent_by_span tr = fold (\<lambda>s. map_set (sp_spanId s) (sp_parentSpanId s)) (tr_spans tr) []"

definition tool_key_by_span :: "tool_call list \<Rightarrow> (string, string) jsmap" where
  "tool_key_by_span calls = fold (\<lambda>c. fold (\<lambda>s. map_set s (tc_key c)) (tc_spanIds c)) calls []"

partial_function (option) owning_key :: "(string, string option) jsmap \<Rightarrow> (string, string) jsmap \<Rightarrow> string option
    \<Rightarrow> string option option" where
  [code]: "owning_key parents keys sid =
     (if \<not> truthy sid then Some None
      else if truthy (map_get keys (the sid)) then Some (map_get keys (the sid))
      else owning_key parents keys (Option.bind (map_get parents (the sid)) id))"

definition owningToolKeyForUnit :: "(string, string option) jsmap \<Rightarrow> (string, string) jsmap \<Rightarrow> priced_unit
    \<Rightarrow> string option option" where
  "owningToolKeyForUnit parents keys u = owning_key parents keys (au_spanId u)"

definition units_by_tool :: "(priced_unit \<times> string option) list \<Rightarrow> (string, priced_unit list) jsmap" where
  "units_by_tool owned = map (\<lambda>(k, us). (k, map fst us))
     (group_by (\<lambda>(u, k). the k) (filter (\<lambda>(u, k). truthy k) owned))"

definition tool_summary_of :: "token_usage_source \<Rightarrow> tool_call \<Rightarrow> priced_unit list \<Rightarrow> tool_accounting" where
  "tool_summary_of source call units =
     (let breakdown = unit_breakdown units;
          pc = (if units \<noteq> [] then Some (aggregateUnitPricingCoverage units) else None);
          reasons = dedup ((if units = []
              then [if source = Not_reported then Source_not_reported else Missing_tool_attribution] else [])
            @ concat (map (\<lambda>u. cov_reasons (au_coverage u)) units) @ coverage_reasons pc);
          warnings = tc_warnings call @ concat (map au_warnings units)
            @ (if units = []
               then [if source = Not_reported
                     then ''Tool token attribution is unavailable because token usage was not reported for this run.''
                     else ''Selected token source could not attribute token usage to this tool call.'']
               else [])
      in tool_summary.extend
           (token_breakdown.extend breakdown (tool_summary.fields (tc_name call) (tc_count call)
             (tc_failures call) (tc_totalDurationMs call)))
           (tool_accounting.fields (map au_attributionId units) (opt_sum (map un_estimatedNanoUsd units))
             (singlePricingMatch (map un_pricing units)) pc
             \<lparr>cov_state = accountingCoverageState reasons pc, cov_reasons = reasons\<rparr>
             (unique_strings warnings)))"

definition buildAccountingToolSummaries :: "collation \<Rightarrow> assembled_trace \<Rightarrow> priced_unit list \<Rightarrow> token_usage_source
    \<Rightarrow> tool_accounting list option" where
  "buildAccountingToolSummaries lc tr units source =
     (let calls = collectToolCallMetadata lc tr
      in if calls = [] then Some []
         else map_option
           (\<lambda>owners. let byKey = units_by_tool (zip units owners)
              in map (\<lambda>c. tool_summary_of source c (nullish (map_get byKey (tc_key c)) [])) calls)
           (those (map (owningToolKeyForUnit (parent_by_span tr) (tool_key_by_span calls)) units)))"

section \<open>Spans, invariants and totals\<close>

definition span_summary_of :: "pricing_coverage \<Rightarrow> priced_unit \<Rightarrow> span_summary" where
  "span_summary_of pc u = \<lparr>inputTokens = inputTokens u, outputTokens = outputTokens u,
     cacheReadInputTokens = cacheReadInputTokens u, cacheCreationInputTokens = cacheCreationInputTokens u,
     cachedTokens = cachedTokens u, reasoningOutputTokens = reasoningOutputTokens u, totalTokens = totalTokens u,
     sa_spanId = nullish (au_spanId u) (au_attributionId u), sa_parentSpanId = au_parentSpanId u,
     sa_traceId = au_traceId u, sa_queryId = un_queryId u, sa_chatSessionId = un_chatSessionId u,
     sa_kind = au_spanKind u, sa_name = au_name u, sa_model = au_model u, sa_provider = au_provider u,
     sa_toolName = un_toolName u, sa_attributionIds = [au_attributionId u],
     sa_estimatedNanoUsd = un_estimatedNanoUsd u, sa_pricing = un_pricing u,
     sa_pricingCoverage = un_pricingCoverage u,
     sa_coverage = aggregateAccountingCoverage [au_coverage u] (Some (nullish (un_pricingCoverage u) pc)),
     sa_warnings = unique_strings (au_warnings u)\<rparr>"

definition buildSafeSpanSummaries :: "priced_unit list \<Rightarrow> pricing_coverage \<Rightarrow> span_summary list" where
  "buildSafeSpanSummaries units pc = map (span_summary_of pc) units"

definition price_invariant :: "rat option \<Rightarrow> rat option \<Rightarrow> priced_invariant" where
  "price_invariant priced estimated =
     (if priced = None \<and> estimated = None
      then \<lparr>ai_name = Priced_nano_usd_matches_run, ai_status = Not_applicable,
            ai_message = Some ''No attributed usage unit matched pricing for this run.'', ai_expected = None,
            ai_actual = None, iv_expectedNanoUsd = None, iv_actualNanoUsd = None\<rparr>
      else if priced = estimated
      then \<lparr>ai_name = Priced_nano_usd_matches_run, ai_status = Passed, ai_message = None, ai_expected = None,
            ai_actual = None, iv_expectedNanoUsd = estimated, iv_actualNanoUsd = priced\<rparr>
      else \<lparr>ai_name = Priced_nano_usd_matches_run, ai_status = Failed,
            ai_message = Some ''Priced attributed-unit USD did not reconcile with the run estimate.'', ai_expected = None,
            ai_actual = None, iv_expectedNanoUsd = estimated, iv_actualNanoUsd = priced\<rparr>)"

definition finalizeAccountingInvariants :: "accounting_invariant list \<Rightarrow> priced_unit list \<Rightarrow> rat option
    \<Rightarrow> priced_invariant list" where
  "finalizeAccountingInvariants invariants units estimated =
     map (\<lambda>i. accounting_invariant.extend i (priced_invariant.fields None None))
       (filter (\<lambda>i. ai_name i \<noteq> Priced_nano_usd_matches_run) invariants)
     @ [price_invariant (opt_sum (map un_estimatedNanoUsd units)) estimated]"

definition pricingReasonsFromTokenUsage :: "token_usage \<Rightarrow> coverage_reason list" where
  "pricingReasonsFromTokenUsage usage = filter
     (\<lambda>r. r \<in> {Source_ambiguous, Model_not_reported, Missing_model_attribution, Metrics_only_trace,
       Event_only_trace, Invariant_failed}) (cov_reasons (tu_coverage usage))"

definition deriveRunPricingCoverage :: "token_usage \<Rightarrow> priced_unit list \<Rightarrow> priced_usage list \<Rightarrow> pricing_coverage" where
  "deriveRunPricingCoverage usage units modelUsages =
     (let pcs = map pu_pricingCoverage modelUsages; upcs = map un_pricingCoverage units;
          pricedModels = unique_strings (from_coverages pc_pricedModels pcs);
          unpricedModels = unique_strings (from_coverages pc_unpricedModels pcs);
          missingModelSlices = sum_list (from_coverages (\<lambda>c. [pc_missingModelSlices c]) upcs);
          reasons = dedup (from_coverages pc_reasons pcs @ from_coverages pc_reasons upcs
            @ pricingReasonsFromTokenUsage usage);
          hasUnpriced = (unpricedModels \<noteq> [] \<or> missingModelSlices > 0 \<or> reasons \<noteq> [])
      in \<lparr>pc_state = (if pricedModels \<noteq> [] then (if hasUnpriced then Partially_priced else Priced) else Unpriced),
          pc_reasons = reasons, pc_pricedModels = pricedModels, pc_unpricedModels = unpricedModels,
          pc_missingModelSlices = missingModelSlices,
          pc_pricingVersions = unique_strings (from_coverages pc_pricingVersions pcs),
          pc_pricingEffectiveFrom = unique_strings (from_coverages pc_pricingEffectiveFrom pcs)\<rparr>)"

definition missingSourceSelection :: source_selection where
  "missingSourceSelection = \<lparr>ss_selectedTokenUsageSource = Not_reported, ss_corroboratingSources = [],
     ss_dedupedRecordCount = 0, ss_discardedOverlapReasons = []\<rparr>"

text \<open>The accounting once its tool summaries are known.\<close>

definition accounting_of :: "collation \<Rightarrow> token_usage \<Rightarrow> priced_unit list \<Rightarrow> tool_accounting list \<Rightarrow> trace_accounting" where
  "accounting_of lc usage units tools =
     (let models = buildAccountingModelSummaries lc units;
          pc = deriveRunPricingCoverage usage units (modelUsagesFromAccounting models);
          spans = buildSafeSpanSummaries units pc;
          nano = opt_sum (map am_estimatedNanoUsd models);
          warnings = unique_strings (tu_warnings usage @ concat (map am_warnings models)
            @ concat (map ta_warnings tools) @ concat (map sa_warnings spans));
          coverage = aggregateAccountingCoverage (tu_coverage usage # map ta_coverage tools @ map sa_coverage spans) (Some pc)
      in \<lparr>ac_sourceSelection = nullish (tu_sourceSelection usage) missingSourceSelection,
          ac_attributedUsageUnits = units, ac_modelSummaries = models, ac_toolSummaries = tools, ac_spanSummaries = spans,
          ac_totals = token_breakdown.extend (token_breakdown.truncate usage)
            (accounting_totals.fields nano (Some pc) coverage warnings),
          ac_pricingMatches = unique_matches (List.map_filter un_pricing units
            @ List.map_filter am_pricing models @ List.map_filter ta_pricing tools),
          ac_invariants = finalizeAccountingInvariants (tu_invariants usage) units nano,
          ac_coverage = coverage, ac_warnings = warnings\<rparr>)"

definition buildAuthoritativeAccounting :: "collation \<Rightarrow> assembled_trace \<Rightarrow> token_usage \<Rightarrow> priced_unit list \<Rightarrow> string
    \<Rightarrow> string option \<Rightarrow> trace_accounting option" where
  "buildAuthoritativeAccounting lc tr usage pricedUnits queryId chatSessionId =
     (let units = map (\<lambda>u. u\<lparr>un_queryId := Some queryId, un_chatSessionId := chatSessionId\<rparr>) pricedUnits
      in map_option (accounting_of lc usage units)
           (buildAccountingToolSummaries lc tr units (tu_source usage)))"

end
