(* ===== verification/JsonText.thy ===== *)
theory JsonText
  imports JsValue
begin

text \<open>
  JSON texts: how \<open>JSON.stringify\<close> writes a string and the other values without parts, and
  \<open>JSON.parse\<close>, which is \<open>None\<close> where it throws. A text is of characters up to 255, as everywhere in
  the development, so an escape of a larger code unit is read modulo 256. A number that no double
  holds is an infinity. Of two members of an object with the same name the later value counts.

  Reading a value either consumes a character or goes from the elements of an array, or the members of
  an object, to a value, so two units of fuel for each character are enough.
\<close>

section \<open>Writing\<close>

definition hex_digit :: "nat \<Rightarrow> char" where
  "hex_digit d = char_of (if d < 10 then 48 + d else 87 + d)"

definition json_char :: "char \<Rightarrow> string" where
  "json_char c =
     (if c = CHR 0x22 then [CHR 0x5C, CHR 0x22]
      else if c = CHR 0x5C then [CHR 0x5C, CHR 0x5C]
      else if c = CHR 0x08 then CHR 0x5C # ''b''
      else if c = CHR 0x09 then CHR 0x5C # ''t''
      else if c = CHR 0x0A then CHR 0x5C # ''n''
      else if c = CHR 0x0C then CHR 0x5C # ''f''
      else if c = CHR 0x0D then CHR 0x5C # ''r''
      else if (of_char c :: nat) < 32
      then CHR 0x5C # ''u00'' @ [hex_digit (of_char c div 16), hex_digit (of_char c mod 16)]
      else [c])"

definition json_string :: "string \<Rightarrow> string" where
  "json_string s = CHR 0x22 # concat (map json_char s) @ [CHR 0x22]"

text \<open>\<open>JSON.stringify(value ?? null)\<close> on a value that is neither an array nor an object. It throws on
  a \<open>BigInt\<close>, which telemetry read from JSON or from a database row does not hold: its digits stand
  for it here.\<close>

fun json_scalar :: "js \<Rightarrow> string" where
  "json_scalar (JBool b) = (if b then ''true'' else ''false'')"
| "json_scalar (JNum q) = num_to_string q"
| "json_scalar (JBigInt i) = int_to_string i"
| "json_scalar (JStr s) = json_string s"
| "json_scalar _ = ''null''"

section \<open>Reading\<close>

definition skip_json_ws :: "string \<Rightarrow> string" where
  "skip_json_ws s = dropWhile (\<lambda>c. c \<in> {CHR 0x20, CHR 0x09, CHR 0x0A, CHR 0x0D}) s"

definition json_escape :: "char \<Rightarrow> char option" where
  "json_escape e =
     (if e = CHR 0x22 \<or> e = CHR 0x5C \<or> e = CHR ''/'' then Some e
      else if e = CHR ''b'' then Some (CHR 0x08)
      else if e = CHR ''f'' then Some (CHR 0x0C)
      else if e = CHR ''n'' then Some (CHR 0x0A)
      else if e = CHR ''r'' then Some (CHR 0x0D)
      else if e = CHR ''t'' then Some (CHR 0x09)
      else None)"

definition hex_code :: "string \<Rightarrow> nat" where
  "hex_code ds = foldl (\<lambda>n c. 16 * n + radix_digit c) 0 ds"

text \<open>The characters up to the closing quote, and what follows it.\<close>

fun json_chars :: "string \<Rightarrow> (string \<times> string) option" where
  "json_chars [] = None"
| "json_chars (c # s) =
     (if c = CHR 0x22 then Some ([], s)
      else if c = CHR 0x5C then
        (case s of
           [] \<Rightarrow> None
         | e # r \<Rightarrow>
             if e = CHR ''u'' then
               (if 4 \<le> length r \<and> list_all (\<lambda>d. radix_digit d < 16) (take 4 r)
                then map_option (\<lambda>(t, u). (char_of (hex_code (take 4 r)) # t, u)) (json_chars (drop 4 r))
                else None)
             else (case json_escape e of
                     None \<Rightarrow> None
                   | Some d \<Rightarrow> map_option (\<lambda>(t, u). (d # t, u)) (json_chars r)))
      else if (of_char c :: nat) < 32 then None
      else map_option (\<lambda>(t, u). (c # t, u)) (json_chars s))"

definition json_number :: "string \<Rightarrow> (js \<times> string) option" where
  "json_number s =
     (let text = takeWhile (\<lambda>c. is_digit c \<or> c \<in> set ''+-.eE'') s;
          rest = dropWhile (\<lambda>c. is_digit c \<or> c \<in> set ''+-.eE'') s;
          neg = (text \<noteq> [] \<and> hd text = CHR ''-'');
          body = (if neg then tl text else text);
          ip = takeWhile is_digit body; tail = dropWhile is_digit body
      in if ip = [] \<or> (length ip > 1 \<and> hd ip = CHR ''0'')
            \<or> (tail \<noteq> [] \<and> hd tail = CHR ''.'' \<and> (tl tail = [] \<or> \<not> is_digit (hd (tl tail))))
         then None
         else map_option (\<lambda>q. (if finite_double q then JNum (if neg then - q else q) else JNonFinite, rest))
                (parse_decimal body))"

definition json_literal :: "string \<Rightarrow> (js \<times> string) option" where
  "json_literal s =
     (if starts_with s ''true'' then Some (JBool True, drop 4 s)
      else if starts_with s ''false'' then Some (JBool False, drop 5 s)
      else if starts_with s ''null'' then Some (JNull, drop 4 s)
      else json_number s)"

definition object_of :: "(string \<times> js) list \<Rightarrow> js" where
  "object_of members = JObj (fold (\<lambda>(k, v). map_set k v) members [])"

fun json_value :: "nat \<Rightarrow> string \<Rightarrow> (js \<times> string) option"
  and json_elements :: "nat \<Rightarrow> string \<Rightarrow> (js list \<times> string) option"
  and json_members :: "nat \<Rightarrow> string \<Rightarrow> ((string \<times> js) list \<times> string) option" where
  "json_value 0 s = None"
| "json_value (Suc n) s =
     (case skip_json_ws s of
        [] \<Rightarrow> None
      | c # r \<Rightarrow>
          if c = CHR 0x22 then map_option (\<lambda>(t, u). (JStr t, u)) (json_chars r)
          else if c = CHR ''['' then
            (case skip_json_ws r of
               [] \<Rightarrow> None
             | d # u \<Rightarrow> if d = CHR '']'' then Some (JArr [], u)
                 else map_option (\<lambda>(vs, w). (JArr vs, w)) (json_elements n r))
          else if c = CHR ''{'' then
            (case skip_json_ws r of
               [] \<Rightarrow> None
             | d # u \<Rightarrow> if d = CHR ''}'' then Some (JObj [], u)
                 else map_option (\<lambda>(ms, w). (object_of ms, w)) (json_members n r))
          else json_literal (c # r))"
| "json_elements 0 s = None"
| "json_elements (Suc n) s =
     (case json_value n s of
        None \<Rightarrow> None
      | Some (v, r) \<Rightarrow>
          (case skip_json_ws r of
             [] \<Rightarrow> None
           | c # u \<Rightarrow>
               if c = CHR '']'' then Some ([v], u)
               else if c = CHR '','' then map_option (\<lambda>(vs, w). (v # vs, w)) (json_elements n u)
               else None))"
| "json_members 0 s = None"
| "json_members (Suc n) s =
     (case skip_json_ws s of
        [] \<Rightarrow> None
      | q # r \<Rightarrow>
          if q \<noteq> CHR 0x22 then None
          else (case json_chars r of
             None \<Rightarrow> None
           | Some (k, r1) \<Rightarrow>
               (case skip_json_ws r1 of
                  [] \<Rightarrow> None
                | colon # r2 \<Rightarrow>
                    if colon \<noteq> CHR '':'' then None
                    else (case json_value n r2 of
                       None \<Rightarrow> None
                     | Some (v, r3) \<Rightarrow>
                         (case skip_json_ws r3 of
                            [] \<Rightarrow> None
                          | c # u \<Rightarrow>
                              if c = CHR ''}'' then Some ([(k, v)], u)
                              else if c = CHR '','' then map_option (\<lambda>(ms, w). ((k, v) # ms, w)) (json_members n u)
                              else None)))))"

definition JSON_parse :: "string \<Rightarrow> js option" where
  "JSON_parse s =
     (case json_value (2 * length s + 2) s of
        None \<Rightarrow> None
      | Some (v, r) \<Rightarrow> if skip_json_ws r = [] then Some v else None)"

section \<open>A string that is written is read back\<close>

lemma json_escapes:
  "json_escape (CHR 0x22) = Some (CHR 0x22)" "json_escape (CHR 0x5C) = Some (CHR 0x5C)"
  "json_escape (CHR ''b'') = Some (CHR 0x08)" "json_escape (CHR ''t'') = Some (CHR 0x09)"
  "json_escape (CHR ''n'') = Some (CHR 0x0A)" "json_escape (CHR ''f'') = Some (CHR 0x0C)"
  "json_escape (CHR ''r'') = Some (CHR 0x0D)"
  by (simp_all add: json_escape_def)

lemma control_escape:
  assumes "(of_char c :: nat) < 32"
  shows "list_all (\<lambda>d. radix_digit d < 16) (''00'' @ [hex_digit (of_char c div 16), hex_digit (of_char c mod 16)])
    \<and> char_of (hex_code (''00'' @ [hex_digit (of_char c div 16), hex_digit (of_char c mod 16)])) = c"
proof -
  have "list_all (\<lambda>n. list_all (\<lambda>d. radix_digit d < 16) (''00'' @ [hex_digit (n div 16), hex_digit (n mod 16)])
    \<and> hex_code (''00'' @ [hex_digit (n div 16), hex_digit (n mod 16)]) = n) [0..<32]"
    by code_simp
  with assms have "list_all (\<lambda>d. radix_digit d < 16) (''00'' @ [hex_digit (of_char c div 16), hex_digit (of_char c mod 16)])
    \<and> hex_code (''00'' @ [hex_digit (of_char c div 16), hex_digit (of_char c mod 16)]) = of_char c"
    by (auto simp: list_all_iff)
  then show ?thesis by simp
qed

lemma json_chars_char:
  "json_chars (json_char c @ s) = map_option (\<lambda>(t, u). (c # t, u)) (json_chars s)"
proof (cases "(of_char c :: nat) < 32")
  case True
  show ?thesis using control_escape [OF True] True
    by (simp add: json_char_def json_escapes)
next
  case False
  then show ?thesis by (simp add: json_char_def json_escapes)
qed

lemma json_chars_string: "json_chars (concat (map json_char s) @ CHR 0x22 # r) = Some (s, r)"
  by (induction s) (simp_all add: json_chars_char)

lemma JSON_parse_string: "JSON_parse (json_string s) = Some (JStr s)"
  using json_chars_string [of s "[]"]
  by (simp add: JSON_parse_def json_string_def skip_json_ws_def numeral_2_eq_2)

end
