(* ===== verification/ActiveTraces.thy ===== *)
theory ActiveTraces
  imports TraceAccounting JsonText
begin

text \<open>
  The traces that the run assembler holds: the first half of
  src/src/aggregation/agentRunAssembler.ts. A record is put into its trace (\<open>upsertRecord\<close>), the
  root of the trace is chosen again, and so is the text of the user's first query.

  The walks towards the root of a trace keep the parents they have seen, so they end on any parents:
  the measure of \<open>descends_from\<close> and \<open>nested_path\<close> is the number of parents not seen yet.
  The score \<open>Number.NEGATIVE_INFINITY\<close> is \<open>None\<close>.
\<close>

section \<open>The key of a record\<close>

lemma size_prop_member: "x \<in> set r \<Longrightarrow> (k, v) = x \<Longrightarrow> size v < size (JObj r)"
  by (induction r) auto

function stableRecordValue :: "collation \<Rightarrow> js \<Rightarrow> string" where
  "stableRecordValue lc jv =
     (case jv of
        JArr vs \<Rightarrow> ''['' @ join '','' (map (stableRecordValue lc) vs) @ '']''
      | JObj r \<Rightarrow> ''{'' @ join '',''
          (map (\<lambda>(k, text). json_string k @ '':'' @ text)
            (sort_by (\<lambda>a b. lc (fst a) (fst b) \<le> 0)
              (map (\<lambda>(k, v). (k, stableRecordValue lc v)) r))) @ ''}''
      | _ \<Rightarrow> json_scalar jv)"
  by pat_completeness auto
termination
  by (relation "measure (\<lambda>(lc, v). size v)")
    (simp_all only: in_measure prod.case wf_measure size_list_member size_prop_member)

declare stableRecordValue.simps [simp del]

definition recordKey :: "collation \<Rightarrow> otel_record \<Rightarrow> string" where
  "recordKey lc r =
     (case r of
        Span s \<Rightarrow> ''span:'' @ sp_traceId s @ '':'' @ sp_spanId s @ '':'' @ nullish (sp_endTimeUnixNano s) ''''
      | Event e \<Rightarrow> ''event:'' @ nullish (ev_traceId e) '''' @ '':'' @ nullish (ev_spanId e) '''' @ '':'' @ ev_name e
          @ '':'' @ nullish (ev_timeUnixNano e) '''' @ '':'' @ stableRecordValue lc (JObj (ev_attributes e))
      | Metric m \<Rightarrow> ''metric:'' @ nullish (me_traceId m) '''' @ '':'' @ nullish (me_spanId m) '''' @ '':'' @ me_name m
          @ '':'' @ nullish (me_timeUnixNano m) '''' @ '':'' @ nullish (map_option num_to_string (me_value m)) '''')"

section \<open>Traces\<close>

record query_candidate =
  qc_text :: string
  qc_score :: rat
  qc_record :: otel_record

record active_trace = assembled_trace +
  tv_seenKeys :: "string list"
  tv_initialQueryText :: "string option"
  tv_initialQueryCandidate :: "query_candidate option"
  tv_initialQueryScore :: "rat option"
  tv_queryIdOverride :: "string option"

definition newActiveTrace :: "int \<Rightarrow> string \<Rightarrow> active_trace" where
  "newActiveTrace now traceId = \<lparr>tr_traceId = traceId, tr_rootSpan = None, tr_spans = [], tr_events = [],
     tr_metrics = [], tr_firstSeenAt = iso_of_ms now, tr_lastUpdatedAt = iso_of_ms now, tv_seenKeys = [],
     tv_initialQueryText = None, tv_initialQueryCandidate = None, tv_initialQueryScore = None,
     tv_queryIdOverride = None\<rparr>"

definition addRecord :: "active_trace \<Rightarrow> otel_record \<Rightarrow> active_trace" where
  "addRecord tr r =
     (case r of
        Span s \<Rightarrow> tr\<lparr>tr_spans := tr_spans tr @ [s]\<rparr>
      | Event e \<Rightarrow> tr\<lparr>tr_events := tr_events tr @ [e]\<rparr>
      | Metric m \<Rightarrow> tr\<lparr>tr_metrics := tr_metrics tr @ [m]\<rparr>)"

text \<open>The JSON texts of two spans are compared, which is to compare the spans.\<close>

definition sameSpan :: "span_record \<Rightarrow> span_record \<Rightarrow> bool" where
  "sameSpan a b = (a = b)"

fun span_index :: "string \<Rightarrow> span_record list \<Rightarrow> nat option" where
  "span_index spanId [] = None"
| "span_index spanId (s # ss) =
     (if sp_spanId s = spanId then Some 0 else map_option Suc (span_index spanId ss))"

text \<open>\<open>upsertRecord\<close>: the trace with the record, or \<open>None\<close> where the code answers false.\<close>

definition upsertRecord :: "collation \<Rightarrow> active_trace \<Rightarrow> otel_record \<Rightarrow> active_trace option" where
  "upsertRecord lc tr r =
     (case r of
        Span s \<Rightarrow>
          (case span_index (sp_spanId s) (tr_spans tr) of
             None \<Rightarrow> Some (tr\<lparr>tr_spans := tr_spans tr @ [s]\<rparr>)
           | Some i \<Rightarrow>
               if sameSpan (tr_spans tr ! i) s then None
               else Some (tr\<lparr>tr_spans := (tr_spans tr)[i := s]\<rparr>))
      | _ \<Rightarrow>
          if recordKey lc r \<in> set (tv_seenKeys tr) then None
          else Some (addRecord (tr\<lparr>tv_seenKeys := tv_seenKeys tr @ [recordKey lc r]\<rparr>) r))"

definition traceSettled :: "int \<Rightarrow> active_trace \<Rightarrow> int \<Rightarrow> bool" where
  "traceSettled now tr completionSettleMs =
     (case date_ms (tr_lastUpdatedAt tr) of None \<Rightarrow> False | Some t \<Rightarrow> completionSettleMs \<le> now - t)"

definition spanById :: "'a assembled_trace_scheme \<Rightarrow> (string, span_record) jsmap" where
  "spanById tr = map_from sp_spanId (tr_spans tr)"

definition allTraceRecords :: "'a assembled_trace_scheme \<Rightarrow> otel_record list" where
  "allTraceRecords tr = map Span (tr_spans tr) @ map Event (tr_events tr) @ map Metric (tr_metrics tr)"

definition compareTimestamp :: "collation \<Rightarrow> string option \<Rightarrow> string option \<Rightarrow> int" where
  "compareTimestamp lc a b =
     (if \<not> truthy a \<and> \<not> truthy b then 0 else if \<not> truthy a then 1 else if \<not> truthy b then -1
      else lc (the a) (the b))"

definition chooseRootInvokeAgent :: "collation \<Rightarrow> span_record list \<Rightarrow> span_record option" where
  "chooseRootInvokeAgent lc spans =
     (case sort_by (\<lambda>a b. compareTimestamp lc (sp_startTimeUnixNano a) (sp_startTimeUnixNano b) \<le> 0)
         (filter (\<lambda>s. isInvokeAgentName (sp_name s) \<and> \<not> truthy (sp_parentSpanId s)) spans) of
        [] \<Rightarrow> None
      | s # _ \<Rightarrow> Some s)"

section \<open>Walking to the root\<close>

text \<open>\<open>descends_from\<close> is the loop of \<open>isDescendantOf\<close> and \<open>nested_path\<close> the loop of
  \<open>pathContainsToolOrNestedInvoke\<close>: \<open>cur\<close> is the span that the walk is at.\<close>

definition unseen_parents :: "(string, span_record) jsmap \<Rightarrow> string list \<Rightarrow> nat" where
  "unseen_parents spans seen = card (set (List.map_filter sp_parentSpanId (map_values spans)) - set seen)"

definition walk_left :: "(string, span_record) jsmap \<Rightarrow> string list \<Rightarrow> span_record option \<Rightarrow> nat" where
  "walk_left spans seen cur = unseen_parents spans seen
     + (case cur of None \<Rightarrow> 0 | Some s \<Rightarrow> if s \<in> set (map_values spans) then 0 else 1)"

lemma held_span_value: "map_get spans k = Some s \<Longrightarrow> s \<in> set (map_values spans)"
  by (force simp: map_values_def dest: map_of_SomeD)

lemma unseen_parents_mono: "unseen_parents spans (seen @ [p]) \<le> unseen_parents spans seen"
  unfolding unseen_parents_def by (rule card_mono) auto

lemma unseen_parents_decreases:
  assumes "s \<in> set (map_values spans)" "sp_parentSpanId s = Some p" "p \<notin> set seen"
  shows "unseen_parents spans (seen @ [p]) < unseen_parents spans seen"
proof -
  have p: "p \<in> set (List.map_filter sp_parentSpanId (map_values spans)) - set seen"
    using assms by (force simp: List.map_filter_def)
  then have "set (List.map_filter sp_parentSpanId (map_values spans)) - set (seen @ [p])
      \<subset> set (List.map_filter sp_parentSpanId (map_values spans)) - set seen"
    by auto
  then show ?thesis
    unfolding unseen_parents_def by (rule psubset_card_mono [rotated]) simp
qed

lemma walk_left_decreases:
  assumes "truthy (sp_parentSpanId s)" "the (sp_parentSpanId s) \<notin> set seen"
  shows "walk_left spans (seen @ [the (sp_parentSpanId s)]) (map_get spans (the (sp_parentSpanId s)))
    < walk_left spans seen (Some s)"
proof -
  obtain p where p: "sp_parentSpanId s = Some p"
    using assms(1) by (cases "sp_parentSpanId s") auto
  have "walk_left spans (seen @ [p]) (map_get spans p) = unseen_parents spans (seen @ [p])"
    by (auto simp: walk_left_def dest: held_span_value split: option.split)
  then show ?thesis
    using p assms(2) unseen_parents_decreases [of s spans p seen] unseen_parents_mono [of spans seen p]
    by (auto simp: walk_left_def)
qed

function descends_from :: "(string, span_record) jsmap \<Rightarrow> string \<Rightarrow> string list \<Rightarrow> span_record option \<Rightarrow> bool" where
  "descends_from spans ancestorSpanId seen cur =
     (case cur of
        None \<Rightarrow> False
      | Some s \<Rightarrow>
          if \<not> truthy (sp_parentSpanId s) then False
          else if the (sp_parentSpanId s) = ancestorSpanId then True
          else if the (sp_parentSpanId s) \<in> set seen then False
          else descends_from spans ancestorSpanId (seen @ [the (sp_parentSpanId s)])
                 (map_get spans (the (sp_parentSpanId s))))"
  by pat_completeness auto
termination
  by (relation "measure (\<lambda>(spans, a, seen, cur). walk_left spans seen cur)")
    (simp_all add: walk_left_decreases)

definition isDescendantOf :: "'a assembled_trace_scheme \<Rightarrow> string \<Rightarrow> string \<Rightarrow> bool" where
  "isDescendantOf tr spanId ancestorSpanId =
     descends_from (spanById tr) ancestorSpanId [] (map_get (spanById tr) spanId)"

function nested_path :: "(string, span_record) jsmap \<Rightarrow> string option \<Rightarrow> string list \<Rightarrow> span_record option \<Rightarrow> bool" where
  "nested_path spans rootSpanId seen cur =
     (case cur of
        None \<Rightarrow> False
      | Some s \<Rightarrow>
          if isExecuteToolName (sp_name s) then True
          else if isInvokeAgentName (sp_name s) \<and> Some (sp_spanId s) \<noteq> rootSpanId \<and> truthy (sp_parentSpanId s)
          then True
          else if \<not> truthy (sp_parentSpanId s) \<or> Some (sp_spanId s) = rootSpanId
            \<or> the (sp_parentSpanId s) \<in> set seen then False
          else nested_path spans rootSpanId (seen @ [the (sp_parentSpanId s)])
                 (map_get spans (the (sp_parentSpanId s))))"
  by pat_completeness auto
termination
  by (relation "measure (\<lambda>(spans, r, seen, cur). walk_left spans seen cur)")
    (simp_all add: walk_left_decreases)

declare descends_from.simps [simp del] nested_path.simps [simp del]

definition pathContainsToolOrNestedInvoke :: "'a assembled_trace_scheme \<Rightarrow> span_record \<Rightarrow> span_record option \<Rightarrow> bool" where
  "pathContainsToolOrNestedInvoke tr owner rootSpan =
     nested_path (spanById tr) (map_option sp_spanId rootSpan) [] (Some owner)"

section \<open>The first query of the user\<close>

definition looksLikeGeneratedHelperPrompt :: "string \<Rightarrow> bool" where
  "looksLikeGeneratedHelperPrompt text =
     (let normalized = trim text
      in normalized = ''''
         \<or> starts_with normalized ''Find relevant code snippets for:''
           \<and> str_includes normalized ''Current working directory:''
           \<and> str_includes normalized ''More detailed instructions:''
         \<or> starts_with normalized ''Summarize the following content in a SINGLE sentence'')"

definition isCompatibleChatSession :: "otel_record \<Rightarrow> otel_record \<Rightarrow> bool" where
  "isCompatibleChatSession a b =
     (let ca = extractCopilotChatSessionId a; cb = extractCopilotChatSessionId b
      in \<not> truthy ca \<or> \<not> truthy cb \<or> ca = cb)"

definition isEventWithinRootTiming :: "collation \<Rightarrow> event_record \<Rightarrow> span_record \<Rightarrow> bool" where
  "isEventWithinRootTiming lc e rootSpan =
     (if truthy (ev_timeUnixNano e) \<and> truthy (sp_startTimeUnixNano rootSpan)
         \<and> compareTimestamp lc (ev_timeUnixNano e) (sp_startTimeUnixNano rootSpan) < 0 then False
      else \<not> (truthy (ev_timeUnixNano e) \<and> truthy (sp_endTimeUnixNano rootSpan)
         \<and> compareTimestamp lc (ev_timeUnixNano e) (sp_endTimeUnixNano rootSpan) > 0))"

definition isValidUserMessagePromptEvent :: "collation \<Rightarrow> event_record \<Rightarrow> 'a assembled_trace_scheme \<Rightarrow> bool" where
  "isValidUserMessagePromptEvent lc e tr =
     (if \<not> truthy (ev_spanId e) then False
      else case map_get (spanById tr) (the (ev_spanId e)) of
        None \<Rightarrow> False
      | Some owner \<Rightarrow>
          if \<not> isCompatibleChatSession (Event e) (Span owner) then False
          else case tr_rootSpan tr of
            None \<Rightarrow> \<not> isSpawnedHelperTraceRoot (Span owner) \<and> \<not> pathContainsToolOrNestedInvoke tr owner None
          | Some rootSpan \<Rightarrow>
              if \<not> isCompatibleChatSession (Event e) (Span rootSpan) \<or> isSpawnedHelperTraceRoot (Span rootSpan) then False
              else if \<not> isEventWithinRootTiming lc e rootSpan then False
              else if ev_spanId e = Some (sp_spanId rootSpan) then True
              else if \<not> isDescendantOf tr (the (ev_spanId e)) (sp_spanId rootSpan) then False
              else \<not> pathContainsToolOrNestedInvoke tr owner (Some rootSpan))"

definition userMessagePromptScore :: "collation \<Rightarrow> event_record \<Rightarrow> 'a assembled_trace_scheme \<Rightarrow> rat option" where
  "userMessagePromptScore lc e tr =
     (if \<not> isValidUserMessagePromptEvent lc e tr then None
      else case tr_rootSpan tr of
        None \<Rightarrow> Some 800
      | Some rootSpan \<Rightarrow> if ev_spanId e = Some (sp_spanId rootSpan) then Some 1000 else Some 900)"

definition text_score :: "string \<Rightarrow> rat" where
  "text_score text = of_nat (min (length text) 200) / 10"

definition helper_root :: "'a assembled_trace_scheme \<Rightarrow> bool" where
  "helper_root tr = (case tr_rootSpan tr of None \<Rightarrow> False | Some rootSpan \<Rightarrow> isSpawnedHelperTraceRoot (Span rootSpan))"

definition promptCandidateScore :: "collation \<Rightarrow> otel_record \<Rightarrow> string \<Rightarrow> 'a assembled_trace_scheme \<Rightarrow> rat option" where
  "promptCandidateScore lc r text tr =
     (if looksLikeGeneratedHelperPrompt text then None
      else if helper_root tr then None
      else case r of
        Event e \<Rightarrow> if isUserMessageEvent r then userMessagePromptScore lc e tr else Some (text_score text)
      | Metric m \<Rightarrow> Some (text_score text)
      | Span s \<Rightarrow>
          if tr_rootSpan tr = None \<and> \<not> truthy (sp_parentSpanId s) \<and> isSpawnedHelperTraceRoot r then None
          else Some ((if map_option sp_spanId (tr_rootSpan tr) = Some (sp_spanId s) then 100 else 0)
            + (if truthy (sp_parentSpanId s) then 0 else 20)
            + (if isInvokeAgentName (sp_name s) then 10 else 0) + text_score text))"

definition compareInitialQueryCandidates :: "collation \<Rightarrow> query_candidate \<Rightarrow> query_candidate \<Rightarrow> rat" where
  "compareInitialQueryCandidates lc a b =
     (let time = compareTimestamp lc (recordTimestamp (qc_record b)) (recordTimestamp (qc_record a));
          len = of_nat (length (qc_text b)) - of_nat (length (qc_text a))
      in if qc_score a \<noteq> qc_score b then qc_score b - qc_score a
         else if isUserMessageEvent (qc_record a) \<and> isUserMessageEvent (qc_record b) \<and> time \<noteq> 0 then of_int time
         else if len \<noteq> 0 then len
         else of_int (compareTimestamp lc (recordTimestamp (qc_record a)) (recordTimestamp (qc_record b))))"

definition query_candidate_of :: "collation \<Rightarrow> 'a assembled_trace_scheme \<Rightarrow> otel_record \<Rightarrow> query_candidate option" where
  "query_candidate_of lc tr r =
     (case extractInitialQueryText r of
        None \<Rightarrow> None
      | Some text \<Rightarrow>
          if text = '''' then None
          else map_option (\<lambda>score. \<lparr>qc_text = text, qc_score = score, qc_record = r\<rparr>)
                 (promptCandidateScore lc r text tr))"

definition bestInitialQueryCandidate :: "collation \<Rightarrow> 'a assembled_trace_scheme \<Rightarrow> query_candidate option" where
  "bestInitialQueryCandidate lc tr =
     (case sort_by (\<lambda>a b. compareInitialQueryCandidates lc a b \<le> 0)
         (List.map_filter (query_candidate_of lc tr) (allTraceRecords tr)) of
        [] \<Rightarrow> None
      | c # _ \<Rightarrow> Some c)"

definition preservedInitialQueryCandidate :: "collation \<Rightarrow> query_candidate option \<Rightarrow> 'a assembled_trace_scheme
    \<Rightarrow> query_candidate option" where
  "preservedInitialQueryCandidate lc candidate tr =
     (case candidate of
        None \<Rightarrow> None
      | Some c \<Rightarrow>
          if looksLikeGeneratedHelperPrompt (qc_text c) then None
          else if helper_root tr then None
          else case qc_record c of
            Event e \<Rightarrow>
              if isUserMessageEvent (qc_record c) \<and> isValidUserMessagePromptEvent lc e tr then Some c else None
          | Metric m \<Rightarrow> None
          | Span s \<Rightarrow>
              (case tr_rootSpan tr of
                 None \<Rightarrow> if truthy (sp_parentSpanId s) then None else Some c
               | Some rootSpan \<Rightarrow> if sp_spanId s = sp_spanId rootSpan then Some c else None))"

definition updateInitialQueryCandidate :: "collation \<Rightarrow> active_trace \<Rightarrow> active_trace" where
  "updateInitialQueryCandidate lc tr =
     (let candidate = or_else (bestInitialQueryCandidate lc tr)
            (preservedInitialQueryCandidate lc (tv_initialQueryCandidate tr) tr)
      in tr\<lparr>tv_initialQueryScore := map_option qc_score candidate,
            tv_initialQueryText := map_option qc_text candidate,
            tv_initialQueryCandidate := candidate\<rparr>)"

end
