(* ===== verification/RunAssembler.thy ===== *)
theory RunAssembler
  imports ActiveTraces
begin

text \<open>
  The run assembler (\<open>DefaultAgentRunAssembler\<close> of src/src/aggregation/agentRunAssembler.ts): a map
  from trace identifiers to the traces under construction. \<open>ingestMany\<close> puts records into their
  traces and answers a run for every trace touched, \<open>evictStale\<close> gives the runs of the traces that are
  complete or old and forgets them.

  \<open>assembler_config\<close> holds what the constructor is given and the collation of the runtime; token
  measurement and cost estimation are those of TokenMeasurement and CostEstimation. The clock is the
  argument \<open>now\<close>. An operation that builds a run is an option: \<open>None\<close> is an operation that does not
  return, because the search of TraceAccounting for the tool call of a unit does not.
\<close>

record assembler_config =
  cg_collation :: collation
  cg_catalog :: pricing_catalog
  cg_completionSettleMs :: int
  cg_billingContext :: "billing_context option"

type_synonym traces = "(string, active_trace) jsmap"

section \<open>What a run says of its trace\<close>

definition hasEventOnlyAgentRun :: "'a assembled_trace_scheme \<Rightarrow> bool" where
  "hasEventOnlyAgentRun tr = list_ex
     (\<lambda>e. ev_name e = ''copilot_chat.session.start'' \<or> ev_name e = ''copilot_chat.agent.turn'') (tr_events tr)"

definition eventStartIso :: "collation \<Rightarrow> 'a assembled_trace_scheme \<Rightarrow> string option" where
  "eventStartIso lc tr =
     (case sort_by (\<lambda>a b. lc (nullish (ev_timeUnixNano a) '''') (nullish (ev_timeUnixNano b) '''') \<le> 0) (tr_events tr) of
        [] \<Rightarrow> None
      | e # _ \<Rightarrow> unixNanoToIso (string_js (ev_timeUnixNano e)))"

definition eventEndIso :: "collation \<Rightarrow> 'a assembled_trace_scheme \<Rightarrow> string option" where
  "eventEndIso lc tr =
     (case sort_by (\<lambda>a b. lc (nullish (ev_timeUnixNano b) '''') (nullish (ev_timeUnixNano a) '''') \<le> 0) (tr_events tr) of
        [] \<Rightarrow> None
      | e # _ \<Rightarrow> unixNanoToIso (string_js (ev_timeUnixNano e)))"

definition eventDurationMs :: "'a assembled_trace_scheme \<Rightarrow> rat option" where
  "eventDurationMs tr =
     (let timestamps = sort (List.map_filter ev_timeUnixNano (tr_events tr))
      in if length timestamps < 2 then None
         else case (string_to_number (hd timestamps), string_to_number (last timestamps)) of
           (Some s, Some e) \<Rightarrow> if e < s then None else Some (js_round ((e - s) / 1000000))
         | _ \<Rightarrow> None)"

definition inferMode :: "span_record option \<Rightarrow> string" where
  "inferMode sp =
     (case sp of
        None \<Rightarrow> ''unknown''
      | Some s \<Rightarrow>
          let a = js_prop (sp_attributes s) ''mode'';
              b = (if is_nullish a then js_prop (sp_attributes s) ''copilot.mode'' else a);
              c = (if is_nullish b then js_prop (sp_attributes s) ''agent.mode'' else b)
          in if c \<in> set (map JStr [''ask'', ''edit'', ''agent'', ''plan'', ''cli'', ''claude''])
             then (case c of JStr m \<Rightarrow> m | _ \<Rightarrow> ''unknown'')
             else if isInvokeAgentName (sp_name s) then ''agent'' else ''unknown'')"

definition deriveQueryId :: "active_trace \<Rightarrow> string" where
  "deriveQueryId tr = nullish (tv_queryIdOverride tr) (nullish (map_option sp_traceId (tr_rootSpan tr)) (tr_traceId tr))"

datatype fallback_status = Fallback_running | Fallback_completed | Fallback_unknown

definition deriveInitialQueryState :: "active_trace \<Rightarrow> fallback_status \<Rightarrow> query_state" where
  "deriveInitialQueryState tr st =
     (if truthy (map_option trim (tv_initialQueryText tr)) then Captured
      else if st = Fallback_running then Pending else Query_unavailable)"

definition deriveTraceRole :: "span_record option \<Rightarrow> string option \<Rightarrow> string option \<Rightarrow> trace_role" where
  "deriveTraceRole sp copilotSessionId traceChatSessionId =
     (if sp = None then Role_unknown
      else if copilotSessionId \<noteq> None \<and> traceChatSessionId \<noteq> None
      then (if copilotSessionId \<noteq> traceChatSessionId then Role_helper else Role_main)
      else Role_unknown)"

definition run_status_of :: "fallback_status \<Rightarrow> span_record option \<Rightarrow> run_status" where
  "run_status_of st sp =
     (case st of
        Fallback_completed \<Rightarrow>
          (case extractStatus sp of Span_completed \<Rightarrow> Run_completed | Span_error \<Rightarrow> Run_error | Span_unknown \<Rightarrow> Run_unknown)
      | Fallback_unknown \<Rightarrow> Run_completed
      | Fallback_running \<Rightarrow> Run_running)"

definition deriveRunModels :: "trace_accounting \<Rightarrow> 'a assembled_trace_scheme \<Rightarrow> token_usage_source \<Rightarrow> string list" where
  "deriveRunModels ac tr source =
     (let pc = at_pricingCoverage (ac_totals ac);
          accountingModels = unique_strings (map am_model (ac_modelSummaries ac)
            @ from_coverages pc_pricedModels [pc] @ from_coverages pc_unpricedModels [pc])
      in if accountingModels \<noteq> [] \<or> source \<noteq> Not_reported then accountingModels
         else uniqueDefined (map (extractModel \<circ> Span) (tr_spans tr) @ map (extractModel \<circ> Event) (tr_events tr)))"

definition deriveLlmCallCount :: "token_usage \<Rightarrow> priced_unit list \<Rightarrow> nat" where
  "deriveLlmCallCount usage units =
     (if tu_source usage = Invoke_agent \<or> tu_source usage = Metrics then (if units \<noteq> [] then 1 else 0)
      else length (filter (\<lambda>u. au_kind u = Kind_model) units))"

definition toolsFromAccounting :: "tool_accounting list \<Rightarrow> tool_summary list" where
  "toolsFromAccounting summaries = map tool_summary.truncate summaries"

text \<open>The first identifier that an extractor finds in the spans and then in the events.\<close>

definition first_extracted :: "(otel_record \<Rightarrow> string option) \<Rightarrow> 'a assembled_trace_scheme \<Rightarrow> string option" where
  "first_extracted f tr = firstDefined (map (f \<circ> Span) (tr_spans tr) @ map (f \<circ> Event) (tr_events tr))"

section \<open>The run of a trace\<close>

definition run_started_at :: "collation \<Rightarrow> active_trace \<Rightarrow> string" where
  "run_started_at lc tr =
     (case tr_rootSpan tr of
        Some s \<Rightarrow> nullish (unixNanoToIso (string_js (sp_startTimeUnixNano s))) (tr_firstSeenAt tr)
      | None \<Rightarrow> nullish (eventStartIso lc tr) (tr_firstSeenAt tr))"

definition run_chat_session :: "active_trace \<Rightarrow> string option" where
  "run_chat_session tr =
     firstDefined [first_extracted extractCopilotSessionId tr, first_extracted extractCopilotChatSessionId tr]"

definition run_warnings :: "token_usage \<Rightarrow> trace_accounting \<Rightarrow> string list" where
  "run_warnings usage ac = unique_strings (ac_warnings ac
     @ (if ac_modelSummaries ac = [] then [''Model name was not reported.''] else [])
     @ (if costCoverageFromPricingCoverage (at_pricingCoverage (ac_totals ac)) = Partial
        then [''Estimated cost is partial and covers only attributed model slices with matched pricing.''] else [])
     @ (if at_estimatedNanoUsd (ac_totals ac) = None \<and> totalTokens usage \<noteq> None
        then [''Estimated cost is unavailable because no attributed model slice could be matched to pricing.''] else []))"

definition run_of_accounting :: "assembler_config \<Rightarrow> active_trace \<Rightarrow> fallback_status \<Rightarrow> token_usage \<Rightarrow> trace_accounting \<Rightarrow> run" where
  "run_of_accounting cfg tr st usage ac =
     (let sp = tr_rootSpan tr;
          startedAt = run_started_at (cg_collation cfg) tr;
          copilotSessionId = first_extracted extractCopilotSessionId tr;
          traceChatSessionId = first_extracted extractCopilotChatSessionId tr;
          legacySessionId = first_extracted extractSessionId tr;
          pc = at_pricingCoverage (ac_totals ac);
          nano = at_estimatedNanoUsd (ac_totals ac);
          tools = toolsFromAccounting (ac_toolSummaries ac)
      in token_breakdown.extend (token_breakdown.truncate usage)
         \<lparr>rn_schemaVersion = 3, rn_id = tr_traceId tr, rn_traceId = tr_traceId tr,
          rn_sessionId = firstDefined [copilotSessionId, legacySessionId, traceChatSessionId],
          rn_startedAt = startedAt,
          rn_endedAt = (case sp of Some s \<Rightarrow> unixNanoToIso (string_js (sp_endTimeUnixNano s))
            | None \<Rightarrow> eventEndIso (cg_collation cfg) tr),
          rn_durationMs = (case sp of Some s \<Rightarrow> extractSpanDurationMs s | None \<Rightarrow> eventDurationMs tr),
          rn_status = run_status_of st sp, rn_agentName = None,
          rn_serviceName = first_extracted extractServiceName tr, rn_mode = Some (inferMode sp),
          rn_models = deriveRunModels ac tr (tu_source usage),
          rn_estimatedNanoUsd = nano, rn_estimatedUsd = usdFromNanoUsd nano, rn_estimatedAiCredits = aiCreditsFromNanoUsd nano,
          rn_pricingVersion = firstDefined (map (Some \<circ> pm_pricingVersion) (ac_pricingMatches ac)),
          rn_llmCallCount = deriveLlmCallCount usage (ac_attributedUsageUnits ac),
          rn_toolCallCount = sum_list (map tl_count tools), rn_tools = tools,
          rn_warnings = run_warnings usage ac,
          rn_billingContext = or_else (firstBillingContext (map pm_billingContext (ac_pricingMatches ac))) (cg_billingContext cfg),
          rn_repoKey = None, rn_queryId = deriveQueryId tr, rn_queryStartedAt = startedAt,
          rn_chatSessionId = run_chat_session tr, rn_copilotSessionId = copilotSessionId,
          rn_traceChatSessionId = traceChatSessionId,
          rn_traceRole = Some (deriveTraceRole sp copilotSessionId traceChatSessionId),
          rn_initialQueryText = tv_initialQueryText tr, rn_initialQueryState = Some (deriveInitialQueryState tr st),
          rn_tokenUsageSource = Some (tu_source usage), rn_accounting = Some ac, rn_pricingCoverage = pc,
          rn_costCoverage = Some (costCoverageFromPricingCoverage pc),
          rn_modelUsages = modelUsagesFromAccounting (ac_modelSummaries ac)\<rparr>)"

text \<open>\<open>buildRun\<close> measures the trace, prices its units and accounts for them.\<close>

definition trace_usage :: "assembler_config \<Rightarrow> active_trace \<Rightarrow> token_usage" where
  "trace_usage cfg tr = measure_trace (cg_collation cfg) (assembled_trace.truncate tr)"

definition trace_units :: "assembler_config \<Rightarrow> active_trace \<Rightarrow> priced_unit list" where
  "trace_units cfg tr = priceAttributedUsageUnits (cg_catalog cfg) (run_started_at (cg_collation cfg) tr)
     (tu_attributedUsageUnits (trace_usage cfg tr))"

definition buildRun :: "assembler_config \<Rightarrow> active_trace \<Rightarrow> fallback_status \<Rightarrow> run option" where
  "buildRun cfg tr st =
     map_option (run_of_accounting cfg tr st (trace_usage cfg tr))
       (buildAuthoritativeAccounting (cg_collation cfg) (assembled_trace.truncate tr) (trace_usage cfg tr)
          (trace_units cfg tr) (deriveQueryId tr) (run_chat_session tr))"

section \<open>Ingestion\<close>

definition owner_le :: "collation \<Rightarrow> active_trace \<Rightarrow> active_trace \<Rightarrow> bool" where
  "owner_le lc a b = (compareTimestamp lc (Option.bind (tr_rootSpan b) sp_startTimeUnixNano)
     (Option.bind (tr_rootSpan a) sp_startTimeUnixNano) \<le> 0)"

definition owns :: "collation \<Rightarrow> active_trace \<Rightarrow> string option \<Rightarrow> active_trace \<Rightarrow> bool" where
  "owns lc tr sessionId c =
     (tr_traceId c \<noteq> tr_traceId tr \<and> tr_rootSpan c \<noteq> None \<and> \<not> helper_root c
      \<and> Option.bind (tr_rootSpan c) (extractCopilotSessionId \<circ> Span) = sessionId \<and> owner_le lc tr c)"

definition findOwnerTrace :: "collation \<Rightarrow> traces \<Rightarrow> active_trace \<Rightarrow> active_trace option" where
  "findOwnerTrace lc m tr =
     (let sessionId = Option.bind (tr_rootSpan tr) (extractCopilotSessionId \<circ> Span)
      in if \<not> truthy sessionId then None
         else case sort_by (owner_le lc) (filter (owns lc tr sessionId) (map_values m)) of
           [] \<Rightarrow> None
         | c # _ \<Rightarrow> Some c)"

definition updateQueryOwnership :: "collation \<Rightarrow> traces \<Rightarrow> active_trace \<Rightarrow> active_trace" where
  "updateQueryOwnership lc m tr =
     (if \<not> helper_root tr then tr
      else case findOwnerTrace lc m tr of
        None \<Rightarrow> tr
      | Some c \<Rightarrow> tr\<lparr>tv_queryIdOverride := Some (nullish (tv_queryIdOverride c) (tr_traceId c))\<rparr>)"

text \<open>One turn of the loop over the records: the traces and the identifiers of those touched.\<close>

definition ingest_record :: "assembler_config \<Rightarrow> int \<Rightarrow> traces \<Rightarrow> otel_record \<Rightarrow> traces \<times> string list" where
  "ingest_record cfg now m r =
     (let lc = cg_collation cfg; traceId = rec_traceId r
      in if \<not> truthy traceId then (m, [])
         else case upsertRecord lc (nullish (map_get m (the traceId)) (newActiveTrace now (the traceId))) r of
           None \<Rightarrow> (m, [])
         | Some tr \<Rightarrow>
             let rooted = tr\<lparr>tr_rootSpan := chooseRootInvokeAgent lc (tr_spans tr)\<rparr>;
                 owned = updateQueryOwnership lc m rooted;
                 queried = updateInitialQueryCandidate lc owned
             in (map_set (the traceId) (queried\<lparr>tr_lastUpdatedAt := iso_of_ms now\<rparr>) m, [the traceId]))"

fun ingest_records :: "assembler_config \<Rightarrow> int \<Rightarrow> traces \<Rightarrow> otel_record list \<Rightarrow> traces \<times> string list" where
  "ingest_records cfg now m [] = (m, [])"
| "ingest_records cfg now m (r # rs) =
     (let (m1, t1) = ingest_record cfg now m r; (m2, t2) = ingest_records cfg now m1 rs in (m2, t1 @ t2))"

datatype run_update = Completed_update run active_trace | Running_update run active_trace

definition remove_trace :: "string \<Rightarrow> traces \<Rightarrow> traces" where
  "remove_trace traceId m = filter (\<lambda>(k, tr). k \<noteq> traceId) m"

definition terminal_root :: "'a assembled_trace_scheme \<Rightarrow> bool" where
  "terminal_root tr = (case tr_rootSpan tr of None \<Rightarrow> False | Some s \<Rightarrow> isTerminalSpan s)"

text \<open>\<open>updateForTrace\<close>: the outer \<open>None\<close> is the call that does not return, the inner one \<open>null\<close>.\<close>

definition updateForTrace :: "assembler_config \<Rightarrow> int \<Rightarrow> traces \<Rightarrow> string \<Rightarrow> (traces \<times> run_update option) option" where
  "updateForTrace cfg now m traceId =
     (case map_get m traceId of
        None \<Rightarrow> Some (m, None)
      | Some tr \<Rightarrow>
          if tr_rootSpan tr = None \<and> \<not> hasEventOnlyAgentRun tr then Some (m, None)
          else if terminal_root tr \<and> (cg_completionSettleMs cfg = 0 \<or> traceSettled now tr (cg_completionSettleMs cfg))
          then map_option (\<lambda>r. (remove_trace traceId m, Some (Completed_update r tr))) (buildRun cfg tr Fallback_completed)
          else map_option (\<lambda>r. (m, Some (Running_update r tr))) (buildRun cfg tr Fallback_running))"

fun update_traces :: "assembler_config \<Rightarrow> int \<Rightarrow> traces \<Rightarrow> string list \<Rightarrow> (traces \<times> run_update list) option" where
  "update_traces cfg now m [] = Some (m, [])"
| "update_traces cfg now m (t # ts) =
     (case updateForTrace cfg now m t of
        None \<Rightarrow> None
      | Some (m1, u) \<Rightarrow> map_option (\<lambda>(m2, us). (m2, (case u of None \<Rightarrow> us | Some x \<Rightarrow> x # us))) (update_traces cfg now m1 ts))"

definition ingestMany :: "assembler_config \<Rightarrow> int \<Rightarrow> traces \<Rightarrow> otel_record list \<Rightarrow> (traces \<times> run_update list) option" where
  "ingestMany cfg now m rs =
     (let (m1, touched) = ingest_records cfg now m rs in update_traces cfg now m1 (dedup touched))"

definition ingest :: "assembler_config \<Rightarrow> int \<Rightarrow> traces \<Rightarrow> otel_record \<Rightarrow> (traces \<times> run_update option) option" where
  "ingest cfg now m r =
     map_option (\<lambda>(m1, us). (m1, (case us of [] \<Rightarrow> None | u # _ \<Rightarrow> Some u))) (ingestMany cfg now m [r])"

definition activeTraceCount :: "traces \<Rightarrow> nat" where
  "activeTraceCount m = length m"

section \<open>Eviction\<close>

definition older_than :: "int \<Rightarrow> 'a assembled_trace_scheme \<Rightarrow> int \<Rightarrow> bool" where
  "older_than now tr maxAgeMs =
     (case date_ms (tr_lastUpdatedAt tr) of None \<Rightarrow> True | Some t \<Rightarrow> \<not> now - t \<le> maxAgeMs)"

definition evictable :: "assembler_config \<Rightarrow> int \<Rightarrow> int \<Rightarrow> active_trace \<Rightarrow> bool" where
  "evictable cfg now maxAgeMs tr =
     (if \<not> older_than now tr maxAgeMs \<or> tr_rootSpan tr = None \<and> \<not> hasEventOnlyAgentRun tr
      then terminal_root tr \<and> traceSettled now tr (cg_completionSettleMs cfg) else True)"

fun evict_traces :: "assembler_config \<Rightarrow> int \<Rightarrow> int \<Rightarrow> traces \<Rightarrow> (traces \<times> run list) option" where
  "evict_traces cfg now maxAgeMs [] = Some ([], [])"
| "evict_traces cfg now maxAgeMs ((k, tr) # m) =
     (if evictable cfg now maxAgeMs tr
      then (case buildRun cfg tr (if terminal_root tr then Fallback_completed else Fallback_unknown) of
              None \<Rightarrow> None
            | Some r \<Rightarrow> map_option (\<lambda>(m', rs). (m', r # rs)) (evict_traces cfg now maxAgeMs m))
      else map_option (\<lambda>(m', rs). ((k, tr) # m', rs)) (evict_traces cfg now maxAgeMs m))"

definition evictStale :: "assembler_config \<Rightarrow> int \<Rightarrow> int \<Rightarrow> traces \<Rightarrow> (traces \<times> run list) option" where
  "evictStale cfg now maxAgeMs m = evict_traces cfg now maxAgeMs m"

section \<open>The order in which a file is ingested\<close>

definition is_terminal_root :: "otel_record \<Rightarrow> bool" where
  "is_terminal_root r = (case r of Span s \<Rightarrow> isInvokeAgentName (sp_name s) \<and> isTerminalSpan s | _ \<Rightarrow> False)"

definition assembly_order :: "collation \<Rightarrow> otel_record \<Rightarrow> otel_record \<Rightarrow> int" where
  "assembly_order lc a b =
     (if is_terminal_root a \<and> is_terminal_root b
      then lc (nullish (recordTimestamp b) '''') (nullish (recordTimestamp a) '''')
      else if is_terminal_root a \<noteq> is_terminal_root b then (if is_terminal_root a then 1 else -1)
      else lc (nullish (recordTimestamp a) '''') (nullish (recordTimestamp b) ''''))"

definition sortForTraceAssembly :: "collation \<Rightarrow> otel_record list \<Rightarrow> otel_record list" where
  "sortForTraceAssembly lc records = sort_by (\<lambda>a b. assembly_order lc a b \<le> 0) records"

end
