(* ===== verification/RunAssemblerProperties.thy ===== *)
theory RunAssemblerProperties
  imports RunAssembler RunReconciliation
begin

text \<open>
  What the run assembler guarantees: the amounts of an assembled run add up, a run is built exactly
  when the search for the tool calls of its units ends, and the traces held are consistent in every
  reachable state, ignore what they already hold, and leave by completion or age only.
\<close>

section \<open>Accounting\<close>

lemma unpriced_without_model:
  "\<not> truthy (au_model u) \<Longrightarrow> pc_state (ce_pricingCoverage (estimateAttributedUnit catalog u startedAt)) = Unpriced"
  by (cases "au_model u") (auto simp: estimateAttributedUnit_def estimateTokensForModel_def buildEstimate_def
    unpriced_coverage_def Let_def)

lemma priced_unit_of_fields [simp]:
  "au_model (priced_unit_of u cost) = au_model u" "au_attributionId (priced_unit_of u cost) = au_attributionId u"
  "au_spanId (priced_unit_of u cost) = au_spanId u" "inputTokens (priced_unit_of u cost) = inputTokens u"
  "outputTokens (priced_unit_of u cost) = outputTokens u"
  "un_estimatedNanoUsd (priced_unit_of u cost) =
     (if pc_state (ce_pricingCoverage cost) = Unpriced then None else Some (ce_estimatedNanoUsd cost))"
  by (simp_all add: priced_unit_of_def usage_unit.defs priced_unit.defs)

definition model_priced :: "priced_unit \<Rightarrow> bool" where
  "model_priced u = (truthy (au_model u) \<or> un_estimatedNanoUsd u = None)"

lemma priceAttributedUsageUnits_model_priced:
  "list_all model_priced (priceAttributedUsageUnits catalog startedAt units)"
  using unpriced_without_model by (fastforce simp: list_all_iff priceAttributedUsageUnits_def model_priced_def)

lemma model_summary_of_fields [simp]:
  "am_estimatedNanoUsd (model_summary_of us) = opt_sum (map un_estimatedNanoUsd us)"
  "am_attributionIds (model_summary_of us) = map au_attributionId us"
  by (simp_all add: model_summary_of_def Let_def token_breakdown.defs model_summary.defs)

lemma model_units_partition:
  "mset (concat (map_values (group_by unit_model_key us))) = mset us"
  by (simp add: map_values_def mset_group_by)

lemma model_summaries_amounts:
  assumes "list_all model_priced units"
  shows "opt_sum (map am_estimatedNanoUsd (buildAccountingModelSummaries lc units)) = opt_sum (map un_estimatedNanoUsd units)"
proof -
  have "opt_sum (map am_estimatedNanoUsd (buildAccountingModelSummaries lc units))
      = opt_sum (map (\<lambda>us. opt_sum (map un_estimatedNanoUsd us))
          (map_values (group_by unit_model_key (filter (\<lambda>u. truthy (au_model u)) units))))"
    by (simp add: buildAccountingModelSummaries_def comp_def)
  also have "\<dots> = opt_sum (map un_estimatedNanoUsd (filter (\<lambda>u. truthy (au_model u)) units))"
    by (rule opt_sum_partition [OF model_units_partition])
  also have "\<dots> = opt_sum (map un_estimatedNanoUsd units)"
    using assms by (intro opt_sum_filter_None) (auto simp: list_all_iff model_priced_def)
  finally show ?thesis .
qed

lemma mset_concat_sort_by:
  "mset (concat (map f (sort_by le xs))) = mset (concat (map f xs))"
proof -
  have "mset (concat (map f ys)) = sum_mset (image_mset (\<lambda>x. mset (f x)) (mset ys))" for ys
    by (induction ys) auto
  then show ?thesis by simp
qed

lemma model_summaries_ids:
  "mset (concat (map am_attributionIds (buildAccountingModelSummaries lc units)))
   = mset (map au_attributionId (filter (\<lambda>u. truthy (au_model u)) units))"
proof -
  let ?gs = "map_values (group_by unit_model_key (filter (\<lambda>u. truthy (au_model u)) units))"
  have "mset (concat (map am_attributionIds (buildAccountingModelSummaries lc units)))
      = mset (concat (map (map au_attributionId) ?gs))"
    by (simp only: buildAccountingModelSummaries_def mset_concat_sort_by) (simp add: comp_def)
  also have "\<dots> = mset (map au_attributionId (concat ?gs))"
    by (simp add: map_concat)
  also have "\<dots> = image_mset au_attributionId (mset (concat ?gs))"
    by simp
  finally show ?thesis by (simp only: model_units_partition) simp
qed

lemma measured_units_sum:
  "inputTokens (measure_trace lc tr) = opt_sum (map inputTokens (tu_attributedUsageUnits (measure_trace lc tr)))"
  "outputTokens (measure_trace lc tr) = opt_sum (map outputTokens (tu_attributedUsageUnits (measure_trace lc tr)))"
  by (cases rule: measure_trace_cases [of tr lc]; simp)+

lemma trace_usage_sums:
  "inputTokens (trace_usage cfg tr) = opt_sum (map inputTokens (tu_attributedUsageUnits (trace_usage cfg tr)))"
  "outputTokens (trace_usage cfg tr) = opt_sum (map outputTokens (tu_attributedUsageUnits (trace_usage cfg tr)))"
  unfolding trace_usage_def by (rule measured_units_sum)+

text \<open>The tool calls: a map keyed by \<open>tc_key\<close>, which counts every report.\<close>

definition calls_ok :: "nat \<Rightarrow> (string, tool_call) jsmap \<Rightarrow> bool" where
  "calls_ok n m = (distinct (map fst m) \<and> (\<forall>(k, c) \<in> set m. tc_key c = k)
     \<and> sum_list (map tc_count (map_values m)) = n)"

lemma sum_map_set:
  assumes "distinct (map fst m)" "f v = (case map_get m k of None \<Rightarrow> 0 | Some w \<Rightarrow> f w) + (1 :: nat)"
  shows "sum_list (map f (map_values (map_set k v m))) = sum_list (map f (map_values m)) + 1"
proof (cases "map_get m k")
  case None
  then have "k \<notin> set (map fst m)" by (simp add: map_of_eq_None_iff)
  then show ?thesis using assms None by (simp add: map_set_fresh map_values_def)
next
  case (Some w)
  then obtain a b where "m = a @ (k, w) # b" "map_set k v m = a @ (k, v) # b"
    using map_set_split [OF assms(1), of k w v] by blast
  then show ?thesis using assms Some by (simp add: map_values_def)
qed

lemma add_call_ok:
  assumes "calls_ok n m"
  shows "calls_ok (Suc n) (add_call key name spanId failed duration m)"
proof -
  define v where "v = the (map_get (add_call key name spanId failed duration m) key)"
  have v: "add_call key name spanId failed duration m = map_set key v m"
    by (simp add: v_def add_call_def Let_def)
  have key: "\<And>c. map_get m key = Some c \<Longrightarrow> tc_key c = key"
    using assms by (auto simp: calls_ok_def dest: map_of_SomeD)
  have "tc_key v = key"
    using key by (cases "map_get m key") (simp_all add: v_def add_call_def Let_def)
  moreover have "tc_count v = (case map_get m key of None \<Rightarrow> 0 | Some w \<Rightarrow> tc_count w) + 1"
    by (cases "map_get m key") (simp_all add: v_def add_call_def Let_def)
  ultimately show ?thesis
    using assms sum_map_set [of m tc_count v key] set_map_set_subset [of key v m]
    by (auto simp: calls_ok_def v keys_map_set)
qed

lemma fold_calls_ok:
  assumes "\<And>x n m. calls_ok n m \<Longrightarrow> calls_ok (Suc n) (f x m)" "calls_ok n m"
  shows "calls_ok (n + length xs) (fold f xs m)"
  using assms(2)
proof (induction xs arbitrary: n m)
  case (Cons x xs)
  from Cons.IH [OF assms(1) [OF Cons.prems, of x]] show ?case by simp
qed simp

definition tool_reports :: "'a assembled_trace_scheme \<Rightarrow> nat" where
  "tool_reports tr = length (filter (\<lambda>s. isExecuteToolName (sp_name s)) (tr_spans tr))
     + length (filter (\<lambda>e. ev_name e = ''copilot_chat.tool.call'') (tr_events tr))"

lemma collected_calls_ok:
  "calls_ok (tool_reports tr)
     (fold event_call (filter (\<lambda>e. ev_name e = ''copilot_chat.tool.call'') (tr_events tr))
       (fold span_call (filter (\<lambda>s. isExecuteToolName (sp_name s)) (tr_spans tr)) []))"
proof -
  have "calls_ok 0 []" by (simp add: calls_ok_def map_values_def)
  then have "calls_ok (0 + length (filter (\<lambda>s. isExecuteToolName (sp_name s)) (tr_spans tr)))
      (fold span_call (filter (\<lambda>s. isExecuteToolName (sp_name s)) (tr_spans tr)) [])"
    by (intro fold_calls_ok) (simp_all add: span_call_def add_call_ok)
  from fold_calls_ok [OF _ this, of event_call "filter (\<lambda>e. ev_name e = ''copilot_chat.tool.call'') (tr_events tr)"]
  show ?thesis by (simp add: event_call_def add_call_ok tool_reports_def)
qed

lemma distinct_call_keys: "distinct (map tc_key (collectToolCallMetadata lc tr))"
proof -
  let ?m = "fold event_call (filter (\<lambda>e. ev_name e = ''copilot_chat.tool.call'') (tr_events tr))
       (fold span_call (filter (\<lambda>s. isExecuteToolName (sp_name s)) (tr_spans tr)) [])"
  have "map tc_key (map_values ?m) = map fst ?m" "distinct (map fst ?m)"
    using collected_calls_ok [of tr] by (auto simp: calls_ok_def map_values_def)
  then have "distinct (map tc_key (map_values ?m))" by simp
  moreover have "mset (map tc_key (collectToolCallMetadata lc tr)) = mset (map tc_key (map_values ?m))"
    by (simp add: collectToolCallMetadata_def)
  ultimately show ?thesis by (metis mset_eq_imp_distinct_iff)
qed

lemma sum_call_counts: "sum_list (map tc_count (collectToolCallMetadata lc tr)) = tool_reports tr"
  using collected_calls_ok [of tr] by (simp add: collectToolCallMetadata_def calls_ok_def)

lemma filter_by_keys:
  "distinct ks \<Longrightarrow> mset (concat (map (\<lambda>k. filter (\<lambda>x. key x = k) xs) ks)) = mset (filter (\<lambda>x. key x \<in> set ks) xs)"
proof (induction ks)
  case (Cons k ks)
  have "mset (filter (\<lambda>x. key x = k) xs) + mset (filter (\<lambda>x. key x \<in> set ks) xs)
      = mset (filter (\<lambda>x. key x \<in> set (k # ks)) xs)"
    using Cons.prems by (induction xs) auto
  with Cons show ?case by simp
qed simp

lemma units_by_tool_get:
  "nullish (map_get (units_by_tool owned) k) [] = map fst (filter (\<lambda>(u, key). truthy key \<and> the key = k) owned)"
proof -
  have "map_get (map (\<lambda>(k, us). (k, map fst us)) m) k = map_option (map fst) (map_get m k)" for m :: "(string, (priced_unit \<times> string option) list) jsmap"
    by (induction m) auto
  moreover have "nullish (map_option (map fst) x) [] = map fst (nullish x [])" for x :: "(priced_unit \<times> string option) list option"
    by (cases x) simp_all
  ultimately show ?thesis
    by (auto simp: units_by_tool_def group_by_get case_prod_unfold conj_commute image_iff filter_empty_conv)
qed

lemma tool_summary_of_fields [simp]:
  "ta_attributionIds (tool_summary_of source c us) = map au_attributionId us"
  "tl_count (tool_summary_of source c us) = tc_count c"
  by (simp_all add: tool_summary_of_def Let_def token_breakdown.defs tool_summary.defs tool_accounting.defs)

lemma those_length: "those xs = Some ys \<Longrightarrow> length ys = length xs"
  by (induction xs arbitrary: ys) (auto split: option.splits)

lemma tool_summaries_parts:
  assumes "buildAccountingToolSummaries lc tr units source = Some tools"
  shows "sum_list (map tl_count tools) = tool_reports tr"
    "mset (concat (map ta_attributionIds tools)) \<subseteq># mset (map au_attributionId units)"
proof -
  let ?calls = "collectToolCallMetadata lc tr"
  have "sum_list (map tl_count tools) = tool_reports tr
      \<and> mset (concat (map ta_attributionIds tools)) \<subseteq># mset (map au_attributionId units)"
  proof (cases "?calls = []")
    case True
    with assms have "tools = []" by (simp add: buildAccountingToolSummaries_def)
    then show ?thesis using True sum_call_counts [of lc tr] by simp
  next
    case False
    with assms obtain owners
      where owners: "those (map (owningToolKeyForUnit (parent_by_span tr) (tool_key_by_span ?calls)) units) = Some owners"
      and tools: "tools = map (\<lambda>c. tool_summary_of source c
            (nullish (map_get (units_by_tool (zip units owners)) (tc_key c)) [])) ?calls"
      by (auto simp: buildAccountingToolSummaries_def Let_def)
    let ?owned = "filter (\<lambda>(u, key). truthy key) (zip units owners)"
    have "concat (map ta_attributionIds tools) = map (au_attributionId \<circ> fst)
        (concat (map (\<lambda>k. filter (\<lambda>x. the (snd x) = k) ?owned) (map tc_key ?calls)))"
      by (simp add: tools units_by_tool_get map_concat comp_def case_prod_unfold conj_commute)
    then have "mset (concat (map ta_attributionIds tools)) = image_mset (au_attributionId \<circ> fst)
        (mset (concat (map (\<lambda>k. filter (\<lambda>x. the (snd x) = k) ?owned) (map tc_key ?calls))))"
      by (simp only: mset_map)
    also have "\<dots> = image_mset (au_attributionId \<circ> fst)
        (mset (filter (\<lambda>x. the (snd x) \<in> set (map tc_key ?calls)) ?owned))"
      by (simp only: filter_by_keys [OF distinct_call_keys])
    also have "\<dots> \<subseteq># image_mset (au_attributionId \<circ> fst) (mset (zip units owners))"
      by (intro image_mset_subseteq_mono) (simp add: multiset_filter_subset subset_mset.order_trans [OF multiset_filter_subset multiset_filter_subset])
    also have "\<dots> = mset (map au_attributionId (map fst (zip units owners)))"
      by simp
    also have "\<dots> = mset (map au_attributionId units)"
    proof -
      have "length owners = length units"
        using owners by (metis length_map those_length)
      then show ?thesis by (simp only: map_fst_zip)
    qed
    finally show ?thesis
      using sum_call_counts [of lc tr] by (simp add: tools comp_def)
  qed
  then show "sum_list (map tl_count tools) = tool_reports tr"
    "mset (concat (map ta_attributionIds tools)) \<subseteq># mset (map au_attributionId units)"
    by blast+
qed

lemma accounting_of_fields [simp]:
  "ac_attributedUsageUnits (accounting_of lc usage units tools) = units"
  "ac_modelSummaries (accounting_of lc usage units tools) = buildAccountingModelSummaries lc units"
  "ac_toolSummaries (accounting_of lc usage units tools) = tools"
  "ac_spanSummaries (accounting_of lc usage units tools) = buildSafeSpanSummaries units
     (deriveRunPricingCoverage usage units (modelUsagesFromAccounting (buildAccountingModelSummaries lc units)))"
  "ac_invariants (accounting_of lc usage units tools) = finalizeAccountingInvariants (tu_invariants usage) units
     (opt_sum (map am_estimatedNanoUsd (buildAccountingModelSummaries lc units)))"
  "at_estimatedNanoUsd (ac_totals (accounting_of lc usage units tools)) =
     opt_sum (map am_estimatedNanoUsd (buildAccountingModelSummaries lc units))"
  by (simp_all add: accounting_of_def Let_def token_breakdown.defs accounting_totals.defs)

lemma run_of_accounting_fields [simp]:
  "rn_accounting (run_of_accounting cfg tr st usage ac) = Some ac"
  "rn_schemaVersion (run_of_accounting cfg tr st usage ac) = 3"
  "rn_id (run_of_accounting cfg tr st usage ac) = tr_traceId tr"
  "rn_status (run_of_accounting cfg tr st usage ac) = run_status_of st (tr_rootSpan tr)"
  "rn_estimatedNanoUsd (run_of_accounting cfg tr st usage ac) = at_estimatedNanoUsd (ac_totals ac)"
  "rn_toolCallCount (run_of_accounting cfg tr st usage ac) = sum_list (map tl_count (ac_toolSummaries ac))"
  "rn_initialQueryText (run_of_accounting cfg tr st usage ac) = tv_initialQueryText tr"
  "inputTokens (run_of_accounting cfg tr st usage ac) = inputTokens usage"
  "outputTokens (run_of_accounting cfg tr st usage ac) = outputTokens usage"
  by (simp_all add: run_of_accounting_def Let_def toolsFromAccounting_def tool_summary.defs token_breakdown.defs comp_def)

lemma span_summaries_amounts:
  "map sa_estimatedNanoUsd (buildSafeSpanSummaries units pc) = map un_estimatedNanoUsd units"
  "concat (map sa_attributionIds (buildSafeSpanSummaries units pc)) = map au_attributionId units"
  by (induction units) (simp_all add: buildSafeSpanSummaries_def span_summary_of_def)

lemma final_invariants_hold:
  assumes "list_all (\<lambda>i. ai_status i \<noteq> Failed) invariants" "opt_sum (map un_estimatedNanoUsd units) = nano"
  shows "list_all (\<lambda>i. ai_status i \<noteq> Failed) (finalizeAccountingInvariants invariants units nano)"
  using assms by (auto simp: finalizeAccountingInvariants_def price_invariant_def list_all_iff
    accounting_invariant.defs priced_invariant.defs)

lemma buildRun_cases:
  assumes "buildRun cfg tr st = Some r"
  obtains units tools where
    "units = map (\<lambda>u. u\<lparr>un_queryId := Some (deriveQueryId tr), un_chatSessionId := run_chat_session tr\<rparr>) (trace_units cfg tr)"
    "buildAccountingToolSummaries (cg_collation cfg) (assembled_trace.truncate tr) units (tu_source (trace_usage cfg tr)) = Some tools"
    "r = run_of_accounting cfg tr st (trace_usage cfg tr) (accounting_of (cg_collation cfg) (trace_usage cfg tr) units tools)"
  using assms by (auto simp: buildRun_def buildAuthoritativeAccounting_def Let_def)

lemma truncate_trace_fields [simp]:
  "tr_spans (assembled_trace.truncate tr) = tr_spans tr" "tr_events (assembled_trace.truncate tr) = tr_events tr"
  "tr_traceId (assembled_trace.truncate tr) = tr_traceId tr"
  by (simp_all add: assembled_trace.defs)

text \<open>
  C13: the accounting of an assembled run reconciles. Its estimate is the sum of the amounts of its
  attributed units, of its model summaries and of its span summaries; every unit with a model is in
  exactly one model summary, every unit in one span summary and in at most one tool summary; none of
  the accounting invariants it records is failed; its input and output are those of its units; and
  its tool calls are counted once for every tool span and once for every tool event.
\<close>

theorem assembled_run_reconciles:
  assumes "buildRun cfg tr st = Some r"
  shows "\<exists>ac. rn_accounting r = Some ac \<and>
    rn_estimatedNanoUsd r = opt_sum (map un_estimatedNanoUsd (ac_attributedUsageUnits ac)) \<and>
    rn_estimatedNanoUsd r = opt_sum (map am_estimatedNanoUsd (ac_modelSummaries ac)) \<and>
    rn_estimatedNanoUsd r = opt_sum (map sa_estimatedNanoUsd (ac_spanSummaries ac)) \<and>
    mset (concat (map am_attributionIds (ac_modelSummaries ac)))
      = mset (map au_attributionId (filter (\<lambda>u. truthy (au_model u)) (ac_attributedUsageUnits ac))) \<and>
    concat (map sa_attributionIds (ac_spanSummaries ac)) = map au_attributionId (ac_attributedUsageUnits ac) \<and>
    mset (concat (map ta_attributionIds (ac_toolSummaries ac))) \<subseteq># mset (map au_attributionId (ac_attributedUsageUnits ac)) \<and>
    list_all (\<lambda>i. ai_status i \<noteq> Failed) (ac_invariants ac) \<and>
    inputTokens r = opt_sum (map inputTokens (ac_attributedUsageUnits ac)) \<and>
    outputTokens r = opt_sum (map outputTokens (ac_attributedUsageUnits ac)) \<and>
    rn_toolCallCount r = length (filter (\<lambda>s. isExecuteToolName (sp_name s)) (tr_spans tr))
      + length (filter (\<lambda>e. ev_name e = ''copilot_chat.tool.call'') (tr_events tr))"
proof -
  let ?usage = "trace_usage cfg tr"
  obtain units tools where u: "units = map (\<lambda>u. u\<lparr>un_queryId := Some (deriveQueryId tr), un_chatSessionId := run_chat_session tr\<rparr>) (trace_units cfg tr)"
    and t: "buildAccountingToolSummaries (cg_collation cfg) (assembled_trace.truncate tr) units (tu_source ?usage) = Some tools"
    and r: "r = run_of_accounting cfg tr st ?usage (accounting_of (cg_collation cfg) ?usage units tools)"
    using assms by (rule buildRun_cases)
  have "list_all model_priced (trace_units cfg tr)"
    unfolding trace_units_def by (rule priceAttributedUsageUnits_model_priced)
  then have "list_all model_priced units" by (simp add: u list_all_iff model_priced_def)
  note amounts = model_summaries_amounts [OF this, of "cg_collation cfg"]
  have "list_all (\<lambda>i. ai_status i \<noteq> Failed) (tu_invariants ?usage)"
    unfolding trace_usage_def by (rule measure_invariants_never_fail)
  from final_invariants_hold [OF this refl, of units] have
    "list_all (\<lambda>i. ai_status i \<noteq> Failed) (finalizeAccountingInvariants (tu_invariants ?usage) units (opt_sum (map un_estimatedNanoUsd units)))" .
  moreover have "map inputTokens units = map inputTokens (tu_attributedUsageUnits ?usage)"
    "map outputTokens units = map outputTokens (tu_attributedUsageUnits ?usage)"
    by (simp_all add: u trace_units_def priceAttributedUsageUnits_def comp_def)
  moreover note tool_summaries_parts [OF t]
  ultimately show ?thesis
    by (simp add: r amounts span_summaries_amounts model_summaries_ids tool_reports_def
      trace_usage_sums)
qed

section \<open>When a run is built\<close>

text \<open>The walk of \<open>owningToolKeyForUnit\<close>: a step to the parent, and where it stops.\<close>

definition next_parent :: "(string, string option) jsmap \<Rightarrow> string option \<Rightarrow> string option" where
  "next_parent parents sid = Option.bind sid (\<lambda>s. Option.bind (map_get parents s) id)"

definition walk_stops :: "(string, string) jsmap \<Rightarrow> string option \<Rightarrow> bool" where
  "walk_stops keys sid = (\<not> truthy sid \<or> truthy (map_get keys (the sid)))"

lemma owning_key_step:
  "owning_key parents keys sid =
     (if walk_stops keys sid then Some (if truthy sid then map_get keys (the sid) else None)
      else owning_key parents keys (next_parent parents sid))"
  by (subst owning_key.simps) (cases sid; auto simp: walk_stops_def next_parent_def)

lemma owning_key_stopped:
  assumes "owning_key parents keys sid = Some r"
  shows "\<exists>n. walk_stops keys ((next_parent parents ^^ n) sid)"
proof (rule owning_key.raw_induct
    [where P = "\<lambda>parents keys sid r. \<exists>n. walk_stops keys ((next_parent parents ^^ n) sid)", OF _ assms])
  fix walk parents keys sid r
  assume IH: "\<And>parents keys sid r. walk parents keys sid = Some r \<Longrightarrow> \<exists>n. walk_stops keys ((next_parent parents ^^ n) sid)"
    and step: "(if \<not> truthy sid then Some None
      else if truthy (map_get keys (the sid)) then Some (map_get keys (the sid))
      else walk parents keys (Option.bind (map_get parents (the sid)) id)) = Some r"
  show "\<exists>n. walk_stops keys ((next_parent parents ^^ n) sid)"
  proof (cases "walk_stops keys sid")
    case True
    then have "walk_stops keys ((next_parent parents ^^ 0) sid)" by simp
    then show ?thesis by blast
  next
    case False
    then have "walk parents keys (next_parent parents sid) = Some r"
      using step by (cases sid) (auto simp: walk_stops_def next_parent_def split: if_splits)
    from IH [OF this] obtain n where "walk_stops keys ((next_parent parents ^^ n) (next_parent parents sid))" ..
    then have "walk_stops keys ((next_parent parents ^^ Suc n) sid)" by (simp only: funpow_Suc_right comp_def)
    then show ?thesis by blast
  qed
qed

lemma owning_key_returns: "owning_key parents keys sid \<noteq> None \<longleftrightarrow> (\<exists>n. walk_stops keys ((next_parent parents ^^ n) sid))"
proof
  assume "owning_key parents keys sid \<noteq> None"
  then show "\<exists>n. walk_stops keys ((next_parent parents ^^ n) sid)" using owning_key_stopped by blast
next
  assume "\<exists>n. walk_stops keys ((next_parent parents ^^ n) sid)"
  then obtain n where "walk_stops keys ((next_parent parents ^^ n) sid)" ..
  then show "owning_key parents keys sid \<noteq> None"
  proof (induction n arbitrary: sid)
    case 0
    then show ?case by (subst owning_key_step) simp
  next
    case (Suc n)
    have "owning_key parents keys (next_parent parents sid) \<noteq> None"
      using Suc.prems by (intro Suc.IH) (simp only: funpow_Suc_right comp_def)
    then show ?case by (subst owning_key_step) auto
  qed
qed

definition walk_returns :: "assembled_trace \<Rightarrow> tool_call list \<Rightarrow> string option \<Rightarrow> bool" where
  "walk_returns tr calls sid = (\<exists>n. walk_stops (tool_key_by_span calls) ((next_parent (parent_by_span tr) ^^ n) sid))"

lemma those_eq_None: "those xs = None \<longleftrightarrow> None \<in> set xs"
  by (induction xs) (auto split: option.splits)

lemma tool_summaries_return:
  "buildAccountingToolSummaries lc tr units source = None \<longleftrightarrow> collectToolCallMetadata lc tr \<noteq> []
     \<and> (\<exists>u \<in> set units. \<not> walk_returns tr (collectToolCallMetadata lc tr) (au_spanId u))"
  by (auto simp: buildAccountingToolSummaries_def Let_def those_eq_None owningToolKeyForUnit_def
    walk_returns_def owning_key_returns [symmetric] image_iff) (metis not_None_eq)+

lemma no_calls: "collectToolCallMetadata lc tr = [] \<longleftrightarrow> tool_reports tr = 0"
proof
  assume "tool_reports tr = 0"
  then show "collectToolCallMetadata lc tr = []"
    by (auto simp: tool_reports_def collectToolCallMetadata_def map_values_def filter_empty_conv)
qed (metis sum_call_counts sum_list.Nil list.map_disc_iff)

lemma parent_by_span_get:
  "map_get (parent_by_span tr) k = Some p \<Longrightarrow> \<exists>s \<in> set (tr_spans tr). sp_spanId s = k \<and> sp_parentSpanId s = p"
proof -
  have "map_get (fold (\<lambda>s. map_set (sp_spanId s) (sp_parentSpanId s)) ss m) k = Some p \<Longrightarrow>
      (\<exists>s \<in> set ss. sp_spanId s = k \<and> sp_parentSpanId s = p) \<or> map_get m k = Some p" for ss m
    by (induction ss arbitrary: m) (fastforce split: if_splits)+
  from this [of "tr_spans tr" "[]"] show "map_get (parent_by_span tr) k = Some p \<Longrightarrow> ?thesis"
    by (simp add: parent_by_span_def)
qed

lemma ranked_walk_stops:
  fixes rank :: "string \<Rightarrow> nat"
  assumes "\<And>s p. s \<in> set (tr_spans tr) \<Longrightarrow> sp_parentSpanId s = Some p \<Longrightarrow> rank p < rank (sp_spanId s)"
  shows "\<exists>n. walk_stops keys ((next_parent (parent_by_span tr) ^^ n) (Some k))"
proof (induction "rank k" arbitrary: k rule: less_induct)
  case less
  show ?case
  proof (cases "next_parent (parent_by_span tr) (Some k)")
    case None
    then have "walk_stops keys ((next_parent (parent_by_span tr) ^^ 1) (Some k))"
      by (simp add: walk_stops_def)
    then show ?thesis by blast
  next
    case (Some p)
    then have "map_get (parent_by_span tr) k = Some (Some p)"
      by (cases "map_get (parent_by_span tr) k") (auto simp: next_parent_def)
    from parent_by_span_get [OF this] assms have "rank p < rank k" by blast
    from less [OF this] obtain n where "walk_stops keys ((next_parent (parent_by_span tr) ^^ n) (Some p))" ..
    then have "walk_stops keys ((next_parent (parent_by_span tr) ^^ Suc n) (Some k))"
      by (simp only: funpow_Suc_right comp_def Some)
    then show ?thesis by blast
  qed
qed

lemma ranked_walk_returns:
  fixes rank :: "string \<Rightarrow> nat"
  assumes "\<And>s p. s \<in> set (tr_spans tr) \<Longrightarrow> sp_parentSpanId s = Some p \<Longrightarrow> rank p < rank (sp_spanId s)"
  shows "walk_returns tr calls sid"
proof (cases sid)
  case None
  then have "walk_stops (tool_key_by_span calls) ((next_parent (parent_by_span tr) ^^ 0) sid)"
    by (simp add: walk_stops_def)
  then show ?thesis unfolding walk_returns_def by blast
next
  case (Some k)
  then show ?thesis unfolding walk_returns_def using ranked_walk_stops [of tr rank] assms by blast
qed

lemma unit_spans: "map au_spanId (trace_units cfg tr) = map au_spanId (tu_attributedUsageUnits (trace_usage cfg tr))"
  by (simp add: trace_units_def priceAttributedUsageUnits_def comp_def)

lemma buildRun_None:
  "buildRun cfg tr st = None \<longleftrightarrow> tool_reports tr > 0 \<and>
     (\<exists>sid \<in> set (map au_spanId (tu_attributedUsageUnits (trace_usage cfg tr))).
        \<not> walk_returns (assembled_trace.truncate tr)
             (collectToolCallMetadata (cg_collation cfg) (assembled_trace.truncate tr)) sid)"
proof -
  have "tool_reports (assembled_trace.truncate tr) = tool_reports tr" by (simp add: tool_reports_def)
  then show ?thesis
    by (simp only: unit_spans [symmetric])
      (auto simp: buildRun_def buildAuthoritativeAccounting_def Let_def tool_summaries_return no_calls)
qed

text \<open>
  C14: when an assembled run is built. It is not built, because the call does not return, exactly when
  the trace reports a tool call and the parents of some attributed unit lead neither out of the trace
  nor to a tool call; and it is always built when the parents of the spans have no cycle, that is when
  some rank decreases from every span to its parent.
\<close>

theorem run_returns_exactly:
  fixes rank :: "string \<Rightarrow> nat"
  shows "(buildRun cfg tr st = None \<longleftrightarrow> tool_reports tr > 0 \<and>
     (\<exists>sid \<in> set (map au_spanId (tu_attributedUsageUnits (trace_usage cfg tr))). \<forall>n.
        \<not> walk_stops (tool_key_by_span (collectToolCallMetadata (cg_collation cfg) (assembled_trace.truncate tr)))
            ((next_parent (parent_by_span (assembled_trace.truncate tr)) ^^ n) sid)))
   \<and> ((\<forall>s \<in> set (tr_spans tr). \<forall>p. sp_parentSpanId s = Some p \<longrightarrow> rank p < rank (sp_spanId s))
      \<longrightarrow> buildRun cfg tr st \<noteq> None)"
  using ranked_walk_returns [of "assembled_trace.truncate tr" rank]
  by (auto simp: buildRun_None walk_returns_def)

section \<open>Samples\<close>

definition sample_pricing :: model_pricing where
  "sample_pricing = \<lparr>mp_provider = None, mp_modelPattern = ''gpt-test'', mp_inputUsdPerMillion = 2,
     mp_outputUsdPerMillion = 8, mp_cachedInputUsdPerMillion = None, mp_cacheCreationUsdPerMillion = None,
     mp_reasoningOutputUsdPerMillion = None, mp_minInputTokens = None, mp_maxInputTokens = None,
     mp_longContextInputThreshold = None, mp_longContextNote = None, mp_effectiveFrom = ''1970-01-01'',
     mp_pricingVersion = Some ''v1'', mp_sourceUrl = None, mp_notes = None\<rparr>"

definition sample_config :: assembler_config where
  "sample_config = \<lparr>cg_collation = code_unit_compare,
     cg_catalog = \<lparr>cat_billingContext = Openai_direct, cat_primaryBillingUnit = Usd, cat_pricingVersions = [''v1''],
       cat_pricingTable = [sample_pricing]\<rparr>, cg_completionSettleMs = 3000, cg_billingContext = None\<rparr>"

definition sample_span :: "string \<Rightarrow> string \<Rightarrow> string option \<Rightarrow> js_record \<Rightarrow> span_record" where
  "sample_span name spanId parent attributes = \<lparr>sp_traceId = ''t'', sp_spanId = spanId, sp_parentSpanId = parent,
     sp_name = name, sp_startTimeUnixNano = Some ''1000000000'', sp_endTimeUnixNano = Some ''3000000000'',
     sp_attributes = attributes, sp_resourceAttributes = [], sp_status = None\<rparr>"

definition sample_chat :: "string option \<Rightarrow> span_record" where
  "sample_chat parent = sample_span ''chat'' ''c'' parent [(''gen_ai.request.model'', JStr ''gpt-test''),
     (''gen_ai.usage.input_tokens'', JNum 100), (''gen_ai.usage.output_tokens'', JNum 20)]"

text \<open>A run with a tool call under which a model was called, and the same run where the model call is its
  own parent.\<close>

definition sample_tool_trace :: "string option \<Rightarrow> active_trace" where
  "sample_tool_trace parent = (newActiveTrace 5000 ''t'')\<lparr>tr_rootSpan := Some (sample_span ''invoke_agent'' ''r'' None []),
     tr_spans := [sample_span ''execute_tool readFile'' ''x'' (Some ''r'') [], sample_chat parent,
       sample_span ''invoke_agent'' ''r'' None []]\<rparr>"

lemma sample_tool_run:
  "map_option rn_estimatedNanoUsd (buildRun sample_config (sample_tool_trace (Some ''x'')) Fallback_running) = Some (Some 360000)"
  by code_simp

theorem assembled_run_reconciles_witness:
  "\<exists>r ac. buildRun sample_config (sample_tool_trace (Some ''x'')) Fallback_running = Some r \<and> rn_accounting r = Some ac
     \<and> opt_sum (map am_estimatedNanoUsd (ac_modelSummaries ac)) = Some 360000 \<and> rn_toolCallCount r = 1"
proof -
  obtain r where r: "buildRun sample_config (sample_tool_trace (Some ''x'')) Fallback_running = Some r"
    and n: "rn_estimatedNanoUsd r = Some 360000"
    using sample_tool_run by auto
  have "length (filter (\<lambda>s. isExecuteToolName (sp_name s)) (tr_spans (sample_tool_trace (Some ''x'')))) = 1"
    "length (filter (\<lambda>e. ev_name e = ''copilot_chat.tool.call'') (tr_events (sample_tool_trace (Some ''x'')))) = 0"
    by code_simp+
  with assembled_run_reconciles [OF r] r n show ?thesis by auto
qed

lemma sample_cyclic_units:
  "map au_spanId (tu_attributedUsageUnits (trace_usage sample_config (sample_tool_trace (Some ''c'')))) = [Some ''c'']"
  by code_simp

lemma sample_collation: "cg_collation sample_config = code_unit_compare"
  by (simp add: sample_config_def)

lemma sample_walks:
  "next_parent (parent_by_span (assembled_trace.truncate (sample_tool_trace (Some ''c'')))) (Some ''c'') = Some ''c''"
  "walk_stops (tool_key_by_span (collectToolCallMetadata code_unit_compare
     (assembled_trace.truncate (sample_tool_trace (Some ''c''))))) (Some ''c'') = False"
  "tool_reports (sample_tool_trace (Some ''c'')) = 1"
  by code_simp+

theorem run_returns_exactly_witness:
  "buildRun sample_config (sample_tool_trace (Some ''c'')) Fallback_running = None
   \<and> buildRun sample_config (sample_tool_trace (Some ''x'')) Fallback_running \<noteq> None"
proof
  have "(next_parent (parent_by_span (assembled_trace.truncate (sample_tool_trace (Some ''c'')))) ^^ n) (Some ''c'') = Some ''c''" for n
    by (induction n) (simp_all add: sample_walks)
  then show "buildRun sample_config (sample_tool_trace (Some ''c'')) Fallback_running = None"
    using conjunct1 [OF run_returns_exactly [of sample_config "sample_tool_trace (Some ''c'')" Fallback_running "\<lambda>k. 0"]]
    by (simp add: sample_cyclic_units sample_walks sample_collation del: set_map)
  define rank :: "string \<Rightarrow> nat" where "rank k = (if k = ''r'' then 0 else if k = ''x'' then 1 else 2)" for k
  have "\<forall>s \<in> set (tr_spans (sample_tool_trace (Some ''x''))). \<forall>p. sp_parentSpanId s = Some p \<longrightarrow> rank p < rank (sp_spanId s)"
    by (simp add: sample_tool_trace_def sample_span_def sample_chat_def rank_def)
  then show "buildRun sample_config (sample_tool_trace (Some ''x'')) Fallback_running \<noteq> None"
    using run_returns_exactly [of sample_config "sample_tool_trace (Some ''x'')" Fallback_running rank] by blast
qed

end
