(* ===== verification/TraceStates.thy ===== *)
theory TraceStates
  imports RunAssemblerProperties
begin

text \<open>
  The traces that the run assembler holds, in every state that ingestions and evictions reach: they
  hold the records of their own trace once each, the root and the first query follow from the records,
  and a trace leaves when its run is complete or old.
\<close>

section \<open>Reachable states\<close>

inductive assembler_reaches :: "assembler_config \<Rightarrow> traces \<Rightarrow> bool" for cfg where
  start: "assembler_reaches cfg []"
| ingested: "assembler_reaches cfg m \<Longrightarrow> ingestMany cfg now m rs = Some (m', us) \<Longrightarrow> assembler_reaches cfg m'"
| evicted: "assembler_reaches cfg m \<Longrightarrow> evictStale cfg now maxAgeMs m = Some (m', runs) \<Longrightarrow> assembler_reaches cfg m'"

definition records_valid :: "collation \<Rightarrow> string \<Rightarrow> active_trace \<Rightarrow> bool" where
  "records_valid lc k tr = (tr_traceId tr = k \<and> list_all (\<lambda>r. rec_traceId r = Some k) (allTraceRecords tr)
     \<and> distinct (map sp_spanId (tr_spans tr)) \<and> distinct (tv_seenKeys tr)
     \<and> mset (tv_seenKeys tr) = mset (map (recordKey lc) (map Event (tr_events tr) @ map Metric (tr_metrics tr))))"

definition query_valid :: "active_trace \<Rightarrow> bool" where
  "query_valid tr = (tv_initialQueryText tr = map_option qc_text (tv_initialQueryCandidate tr)
     \<and> (case tv_initialQueryCandidate tr of None \<Rightarrow> True
        | Some c \<Rightarrow> \<not> looksLikeGeneratedHelperPrompt (qc_text c) \<and> \<not> helper_root tr))"

definition trace_valid :: "collation \<Rightarrow> string \<Rightarrow> active_trace \<Rightarrow> bool" where
  "trace_valid lc k tr = (k \<noteq> '''' \<and> records_valid lc k tr
     \<and> tr_rootSpan tr = chooseRootInvokeAgent lc (tr_spans tr) \<and> query_valid tr)"

definition traces_valid :: "collation \<Rightarrow> traces \<Rightarrow> bool" where
  "traces_valid lc m = (distinct (map fst m) \<and> (\<forall>(k, tr) \<in> set m. trace_valid lc k tr))"

section \<open>Putting a record into its trace\<close>

lemma span_index_None: "span_index i ss = None \<longleftrightarrow> i \<notin> set (map sp_spanId ss)"
  by (induction ss) auto

lemma span_index_Some: "span_index i ss = Some n \<Longrightarrow> n < length ss \<and> sp_spanId (ss ! n) = i"
  by (induction ss arbitrary: n) (auto split: if_splits)

lemma same_ids: "n < length ss \<Longrightarrow> sp_spanId (ss ! n) = sp_spanId s \<Longrightarrow> map sp_spanId (ss[n := s]) = map sp_spanId ss"
  by (simp add: map_update list_update_same_conv)

lemma upsert_records_valid:
  assumes v: "records_valid lc k tr" and k: "rec_traceId r = Some k" and u: "upsertRecord lc tr r = Some tr'"
  shows "records_valid lc k tr'"
proof (cases r)
  case (Span s)
  show ?thesis
  proof (cases "span_index (sp_spanId s) (tr_spans tr)")
    case None
    with u Span have t: "tr' = tr\<lparr>tr_spans := tr_spans tr @ [s]\<rparr>" by (simp add: upsertRecord_def)
    from None have "sp_spanId s \<notin> set (map sp_spanId (tr_spans tr))" by (metis span_index_None)
    then show ?thesis using v k Span by (auto simp: t records_valid_def allTraceRecords_def)
  next
    case (Some n)
    with u Span have t: "tr' = tr\<lparr>tr_spans := (tr_spans tr)[n := s]\<rparr>"
      by (auto simp: upsertRecord_def split: if_splits)
    from same_ids [OF span_index_Some [OF Some, THEN conjunct1] span_index_Some [OF Some, THEN conjunct2]]
    moreover have "\<forall>x \<in> set ((tr_spans tr)[n := s]). sp_traceId x = k"
      using v k Span set_update_subset_insert [of "tr_spans tr" n s]
      by (force simp: records_valid_def allTraceRecords_def list_all_iff)
    ultimately show ?thesis using v
      by (auto simp: t records_valid_def allTraceRecords_def list_all_iff)
  qed
next
  case (Event e)
  then show ?thesis using assms
    by (auto simp: upsertRecord_def records_valid_def allTraceRecords_def addRecord_def split: if_splits dest: mset_eq_setD)
next
  case (Metric e)
  then show ?thesis using assms
    by (auto simp: upsertRecord_def records_valid_def allTraceRecords_def addRecord_def split: if_splits dest: mset_eq_setD)
qed

lemma held_record_ignored:
  assumes v: "records_valid lc k tr" and r: "r \<in> set (allTraceRecords tr)"
  shows "upsertRecord lc tr r = None"
proof (cases r)
  case (Span s)
  with r have s: "s \<in> set (tr_spans tr)" by (auto simp: allTraceRecords_def)
  then obtain n where n: "span_index (sp_spanId s) (tr_spans tr) = Some n"
    by (cases "span_index (sp_spanId s) (tr_spans tr)") (auto simp: span_index_None)
  have "tr_spans tr ! n = s"
    using v s span_index_Some [OF n] by (auto simp: records_valid_def distinct_map dest: inj_onD)
  then show ?thesis using n Span by (simp add: upsertRecord_def sameSpan_def)
next
  case (Event e)
  with r have "recordKey lc r \<in> set (map (recordKey lc) (map Event (tr_events tr) @ map Metric (tr_metrics tr)))"
    by (auto simp: allTraceRecords_def)
  then have "recordKey lc r \<in> set (tv_seenKeys tr)"
    using v unfolding records_valid_def by (metis mset_eq_setD)
  then show ?thesis using Event by (simp add: upsertRecord_def)
next
  case (Metric e)
  with r have "recordKey lc r \<in> set (map (recordKey lc) (map Event (tr_events tr) @ map Metric (tr_metrics tr)))"
    by (auto simp: allTraceRecords_def)
  then have "recordKey lc r \<in> set (tv_seenKeys tr)"
    using v unfolding records_valid_def by (metis mset_eq_setD)
  then show ?thesis using Metric by (simp add: upsertRecord_def)
qed

section \<open>Root, ownership and first query\<close>

lemma score_valid:
  "promptCandidateScore lc r text tr = Some x \<Longrightarrow> \<not> looksLikeGeneratedHelperPrompt text \<and> \<not> helper_root tr"
  by (auto simp: promptCandidateScore_def split: if_splits)

lemma best_candidate_valid:
  assumes "bestInitialQueryCandidate lc tr = Some c"
  shows "\<not> looksLikeGeneratedHelperPrompt (qc_text c) \<and> \<not> helper_root tr"
proof -
  let ?cs = "sort_by (\<lambda>a b. compareInitialQueryCandidates lc a b \<le> 0) (List.map_filter (query_candidate_of lc tr) (allTraceRecords tr))"
  from assms obtain cs where "?cs = c # cs" by (auto simp: bestInitialQueryCandidate_def split: list.splits)
  then have "c \<in> set ?cs" by (simp only: list.set_intros)
  then obtain r where "query_candidate_of lc tr r = Some c" by (auto simp: List.map_filter_def)
  then show ?thesis by (auto simp: query_candidate_of_def dest: score_valid split: option.splits if_splits)
qed

lemma preserved_candidate_valid:
  "preservedInitialQueryCandidate lc x tr = Some c \<Longrightarrow> \<not> looksLikeGeneratedHelperPrompt (qc_text c) \<and> \<not> helper_root tr"
  by (cases x) (auto simp: preservedInitialQueryCandidate_def split: if_splits otel_record.splits option.splits)

lemma updateInitialQueryCandidate_valid: "query_valid (updateInitialQueryCandidate lc tr)"
proof (cases "or_else (bestInitialQueryCandidate lc tr) (preservedInitialQueryCandidate lc (tv_initialQueryCandidate tr) tr)")
  case None
  then show ?thesis by (simp add: updateInitialQueryCandidate_def query_valid_def Let_def)
next
  case (Some c)
  then have "\<not> looksLikeGeneratedHelperPrompt (qc_text c) \<and> \<not> helper_root tr"
    by (cases "bestInitialQueryCandidate lc tr") (auto dest: best_candidate_valid preserved_candidate_valid)
  with Some show ?thesis by (simp add: updateInitialQueryCandidate_def query_valid_def Let_def helper_root_def)
qed

lemma updateInitialQueryCandidate_keeps [simp]:
  "records_valid lc k (updateInitialQueryCandidate lc' tr) = records_valid lc k tr"
  "tr_rootSpan (updateInitialQueryCandidate lc' tr) = tr_rootSpan tr"
  "tr_spans (updateInitialQueryCandidate lc' tr) = tr_spans tr"
  by (simp_all add: updateInitialQueryCandidate_def records_valid_def allTraceRecords_def Let_def)

lemma updateQueryOwnership_keeps [simp]:
  "records_valid lc k (updateQueryOwnership lc' m tr) = records_valid lc k tr"
  "tr_rootSpan (updateQueryOwnership lc' m tr) = tr_rootSpan tr"
  "tr_spans (updateQueryOwnership lc' m tr) = tr_spans tr"
  by (simp_all add: updateQueryOwnership_def records_valid_def allTraceRecords_def split: option.split)

lemma new_trace_valid: "records_valid lc k (newActiveTrace now k)"
  by (simp add: newActiveTrace_def records_valid_def allTraceRecords_def)

lemma records_valid_updates [simp]:
  "records_valid lc k (tr\<lparr>tr_rootSpan := x\<rparr>) = records_valid lc k tr"
  "records_valid lc k (tr\<lparr>tr_lastUpdatedAt := y\<rparr>) = records_valid lc k tr"
  "query_valid (tr\<lparr>tr_lastUpdatedAt := y\<rparr>) = query_valid tr"
  by (simp_all add: records_valid_def allTraceRecords_def query_valid_def helper_root_def split: option.split)

section \<open>Ingestion\<close>

lemma ingest_record_cases:
  obtains (ignored) "ingest_record cfg now m r = (m, [])"
  | (put) k tr0 tr where "rec_traceId r = Some k" "k \<noteq> ''''" "tr0 = nullish (map_get m k) (newActiveTrace now k)"
      "upsertRecord (cg_collation cfg) tr0 r = Some tr"
      "ingest_record cfg now m r = (map_set k (updateInitialQueryCandidate (cg_collation cfg)
         (updateQueryOwnership (cg_collation cfg) m (tr\<lparr>tr_rootSpan := chooseRootInvokeAgent (cg_collation cfg) (tr_spans tr)\<rparr>))
           \<lparr>tr_lastUpdatedAt := iso_of_ms now\<rparr>) m, [k])"
proof (cases "truthy (rec_traceId r)")
  case False
  then show ?thesis using ignored by (simp add: ingest_record_def Let_def)
next
  case True
  then obtain k where k: "rec_traceId r = Some k" "k \<noteq> ''''" by (cases "rec_traceId r") auto
  show ?thesis
  proof (cases "upsertRecord (cg_collation cfg) (nullish (map_get m k) (newActiveTrace now k)) r")
    case None
    then show ?thesis using ignored k by (simp add: ingest_record_def Let_def)
  next
    case (Some tr)
    then show ?thesis using put [OF k refl Some] k by (simp add: ingest_record_def Let_def)
  qed
qed

lemma traces_valid_get: "traces_valid lc m \<Longrightarrow> map_get m k = Some tr \<Longrightarrow> trace_valid lc k tr"
  by (auto simp: traces_valid_def dest: map_of_SomeD)

lemma traces_valid_put:
  "traces_valid lc m \<Longrightarrow> trace_valid lc k tr \<Longrightarrow> traces_valid lc (map_set k tr m)"
  using set_map_set_subset [of k tr m] by (auto simp: traces_valid_def keys_map_set)

lemma ingest_record_valid:
  assumes "traces_valid (cg_collation cfg) m"
  shows "traces_valid (cg_collation cfg) (fst (ingest_record cfg now m r))"
proof (cases rule: ingest_record_cases [of cfg now m r])
  case ignored
  with assms show ?thesis by simp
next
  case (put k tr0 tr)
  have "records_valid (cg_collation cfg) k tr0"
    using put(3) assms traces_valid_get [of "cg_collation cfg" m k]
    by (cases "map_get m k") (auto simp: new_trace_valid trace_valid_def)
  then have "records_valid (cg_collation cfg) k tr"
    by (rule upsert_records_valid [OF _ put(1,4)])
  then show ?thesis using assms put(2)
    by (simp add: put(5) traces_valid_put trace_valid_def updateInitialQueryCandidate_valid)
qed

lemma ingest_records_valid:
  "traces_valid (cg_collation cfg) m \<Longrightarrow> traces_valid (cg_collation cfg) (fst (ingest_records cfg now m rs))"
proof (induction rs arbitrary: m)
  case (Cons r rs)
  from Cons.IH [OF ingest_record_valid [OF Cons.prems, of now r]] show ?case
    by (auto simp: case_prod_unfold Let_def)
qed simp

section \<open>Updates\<close>

lemma remove_trace_get: "map_get (remove_trace t m) k = (if k = t then None else map_get m k)"
  by (induction m) (auto simp: remove_trace_def)

lemma remove_trace_valid: "traces_valid lc m \<Longrightarrow> traces_valid lc (remove_trace t m)"
  by (induction m) (auto simp: traces_valid_def remove_trace_def image_iff)

text \<open>What one update does: it answers for the trace it is asked about, and may remove it.\<close>

definition update_ok :: "assembler_config \<Rightarrow> int \<Rightarrow> traces \<Rightarrow> traces \<Rightarrow> run_update \<Rightarrow> bool" where
  "update_ok cfg now m m' u =
     (case u of
        Completed_update r tr \<Rightarrow> map_get m (tr_traceId tr) = Some tr \<and> buildRun cfg tr Fallback_completed = Some r
          \<and> terminal_root tr \<and> (cg_completionSettleMs cfg = 0 \<or> traceSettled now tr (cg_completionSettleMs cfg))
          \<and> map_get m' (tr_traceId tr) = None
      | Running_update r tr \<Rightarrow> map_get m (tr_traceId tr) = Some tr \<and> buildRun cfg tr Fallback_running = Some r
          \<and> \<not> (terminal_root tr \<and> (cg_completionSettleMs cfg = 0 \<or> traceSettled now tr (cg_completionSettleMs cfg)))
          \<and> map_get m' (tr_traceId tr) = Some tr)"

definition update_trace :: "run_update \<Rightarrow> active_trace" where
  "update_trace u = (case u of Completed_update r tr \<Rightarrow> tr | Running_update r tr \<Rightarrow> tr)"

lemma updateForTrace_valid:
  assumes "updateForTrace cfg now m t = Some (m1, u)" "traces_valid lc m"
  shows "traces_valid lc m1" "\<And>k. k \<noteq> t \<Longrightarrow> map_get m1 k = map_get m k" "\<And>k. map_get m1 k \<in> {None, map_get m k}"
    "\<And>x. u = Some x \<Longrightarrow> update_ok cfg now m m1 x \<and> tr_traceId (update_trace x) = t"
proof -
  have "map_get m t = Some tr \<Longrightarrow> tr_traceId tr = t" for tr
    using traces_valid_get [OF assms(2)] by (auto simp: trace_valid_def records_valid_def)
  then show "traces_valid lc m1" "\<And>k. k \<noteq> t \<Longrightarrow> map_get m1 k = map_get m k" "\<And>k. map_get m1 k \<in> {None, map_get m k}"
    "\<And>x. u = Some x \<Longrightarrow> update_ok cfg now m m1 x \<and> tr_traceId (update_trace x) = t"
    using assms
    by (auto simp: updateForTrace_def remove_trace_get remove_trace_valid update_ok_def update_trace_def
      split: option.splits if_splits)
qed

lemma update_ok_trans:
  assumes "update_ok cfg now m m1 u" "map_get m2 (tr_traceId (update_trace u)) = map_get m1 (tr_traceId (update_trace u))"
  shows "update_ok cfg now m m2 u"
  using assms by (auto simp: update_ok_def update_trace_def split: run_update.splits)

lemma update_ok_before:
  assumes "update_ok cfg now m1 m2 u" "map_get m1 (tr_traceId (update_trace u)) = map_get m (tr_traceId (update_trace u))"
  shows "update_ok cfg now m m2 u"
  using assms by (auto simp: update_ok_def update_trace_def split: run_update.splits)

lemma update_traces_ok:
  assumes "update_traces cfg now m ts = Some (m', us)" "traces_valid lc m" "distinct ts"
  shows "traces_valid lc m' \<and> (\<forall>k. k \<notin> set ts \<longrightarrow> map_get m' k = map_get m k)
    \<and> (\<forall>u \<in> set us. update_ok cfg now m m' u \<and> tr_traceId (update_trace u) \<in> set ts)
    \<and> distinct (map (tr_traceId \<circ> update_trace) us)"
  using assms
proof (induction ts arbitrary: m us)
  case (Cons t ts)
  from Cons.prems(1) obtain m1 u us' where u: "updateForTrace cfg now m t = Some (m1, u)"
    and us': "update_traces cfg now m1 ts = Some (m', us')" and us: "us = (case u of None \<Rightarrow> us' | Some x \<Rightarrow> x # us')"
    by (auto split: option.splits)
  note step = updateForTrace_valid [OF u Cons.prems(2)]
  have ts: "t \<notin> set ts" "distinct ts" using Cons.prems(3) by simp_all
  note rest = Cons.IH [OF us' step(1) ts(2)]
  have later: "update_ok cfg now m m' x \<and> tr_traceId (update_trace x) \<in> set ts" if "x \<in> set us'" for x
  proof -
    have x: "update_ok cfg now m1 m' x" "tr_traceId (update_trace x) \<in> set ts" using rest that by blast+
    then have "tr_traceId (update_trace x) \<noteq> t" using ts(1) by blast
    from update_ok_before [OF x(1) step(2) [OF this]] x(2) show ?thesis by blast
  qed
  have "update_ok cfg now m m' x \<and> tr_traceId (update_trace x) = t" if "u = Some x" for x
    using step(4) [OF that] rest ts(1) update_ok_trans [of cfg now m m1 x m'] by auto
  then show ?case
    using rest step(2) later ts(1) by (cases u) (auto simp: us)
qed simp

lemma ingestMany_cases:
  assumes "ingestMany cfg now m rs = Some (m', us)"
  obtains m1 touched where "ingest_records cfg now m rs = (m1, touched)" "update_traces cfg now m1 (dedup touched) = Some (m', us)"
  using assms by (auto simp: ingestMany_def case_prod_unfold Let_def prod_eq_iff)

lemma ingestMany_ok:
  assumes "ingestMany cfg now m rs = Some (m', us)" "traces_valid (cg_collation cfg) m"
  obtains m1 where "m1 = fst (ingest_records cfg now m rs)" "traces_valid (cg_collation cfg) m'"
    "\<forall>u \<in> set us. update_ok cfg now m1 m' u \<and> tr_traceId (update_trace u) \<in> set (snd (ingest_records cfg now m rs))"
    "distinct (map (tr_traceId \<circ> update_trace) us)"
proof -
  obtain m1 touched where i: "ingest_records cfg now m rs = (m1, touched)"
    and u: "update_traces cfg now m1 (dedup touched) = Some (m', us)"
    using assms(1) by (rule ingestMany_cases)
  have "traces_valid (cg_collation cfg) m1"
    using ingest_records_valid [OF assms(2), of now rs] by (simp add: i)
  from update_traces_ok [OF u this distinct_dedup] that [of m1] show ?thesis by (simp add: i)
qed

section \<open>Eviction\<close>

lemma evict_traces_spec:
  "evict_traces cfg now age m = Some (m', runs) \<Longrightarrow>
     m' = filter (\<lambda>(k, tr). \<not> evictable cfg now age tr) m
     \<and> map Some runs = map (\<lambda>(k, tr). buildRun cfg tr (if terminal_root tr then Fallback_completed else Fallback_unknown))
         (filter (\<lambda>(k, tr). evictable cfg now age tr) m)"
  by (induction cfg now age m arbitrary: m' runs rule: evict_traces.induct) (auto split: if_splits option.splits)

lemma traces_valid_filter: "traces_valid lc m \<Longrightarrow> traces_valid lc (filter P m)"
  by (simp add: traces_valid_def distinct_map_filter)

lemma reaches_valid: "assembler_reaches cfg m \<Longrightarrow> traces_valid (cg_collation cfg) m"
proof (induction rule: assembler_reaches.induct)
  case start
  then show ?case by (simp add: traces_valid_def)
next
  case (ingested m now rs m' us)
  show ?case using ingestMany_ok [OF ingested.hyps(2) ingested.IH] by blast
next
  case (evicted m now maxAgeMs m' runs)
  from evict_traces_spec [OF evicted.hyps(2) [unfolded evictStale_def]] traces_valid_filter [OF evicted.IH]
  show ?case by simp
qed

section \<open>Freshness\<close>

lemma ingest_record_fresh:
  assumes "t \<in> set (snd (ingest_record cfg now m r)) \<or> map_option tr_lastUpdatedAt (map_get m t) = Some (iso_of_ms now)"
  shows "map_option tr_lastUpdatedAt (map_get (fst (ingest_record cfg now m r)) t) = Some (iso_of_ms now)"
  using assms by (cases rule: ingest_record_cases [of cfg now m r]) auto

lemma ingest_records_fresh:
  "t \<in> set (snd (ingest_records cfg now m rs)) \<or> map_option tr_lastUpdatedAt (map_get m t) = Some (iso_of_ms now) \<Longrightarrow>
   map_option tr_lastUpdatedAt (map_get (fst (ingest_records cfg now m rs)) t) = Some (iso_of_ms now)"
proof (induction rs arbitrary: m)
  case (Cons r rs)
  have "t \<in> set (snd (ingest_records cfg now (fst (ingest_record cfg now m r)) rs))
      \<or> map_option tr_lastUpdatedAt (map_get (fst (ingest_record cfg now m r)) t) = Some (iso_of_ms now)"
    using Cons.prems ingest_record_fresh [of t cfg now m r] by (auto simp: case_prod_unfold Let_def)
  from Cons.IH [OF this] show ?case by (simp add: case_prod_unfold Let_def)
qed simp

lemma fresh_not_settled:
  assumes "map_option tr_lastUpdatedAt (Some tr) = Some (iso_of_ms now)" "date_ms (iso_of_ms now) = Some now" "0 < settleMs"
  shows "\<not> traceSettled now tr settleMs"
  using assms by (simp add: traceSettled_def)

definition held :: "traces \<Rightarrow> otel_record \<Rightarrow> bool" where
  "held m r = (case map_get m (nullish (rec_traceId r) '''') of None \<Rightarrow> False | Some tr \<Rightarrow> r \<in> set (allTraceRecords tr))"

lemma ingest_held:
  assumes "traces_valid (cg_collation cfg) m" "held m r"
  shows "ingest_record cfg now m r = (m, [])"
proof (cases rule: ingest_record_cases [of cfg now m r])
  case (put k tr0 tr)
  from assms(2) put(1) obtain c where c: "map_get m k = Some c" "r \<in> set (allTraceRecords c)"
    by (auto simp: held_def split: option.splits)
  then have "records_valid (cg_collation cfg) k c"
    using traces_valid_get [OF assms(1)] by (auto simp: trace_valid_def)
  from held_record_ignored [OF this c(2)] have False using put c(1) by simp
  then show ?thesis ..
qed

lemma ingest_all_held:
  "traces_valid (cg_collation cfg) m \<Longrightarrow> list_all (held m) rs \<Longrightarrow> ingest_records cfg now m rs = (m, [])"
  by (induction rs) (simp_all add: ingest_held)

lemma ran_status:
  "buildRun cfg tr Fallback_running = Some r \<Longrightarrow> rn_id r = tr_traceId tr \<and> rn_status r = Run_running"
  "buildRun cfg tr Fallback_unknown = Some r \<Longrightarrow> rn_id r = tr_traceId tr \<and> rn_status r = Run_completed"
  "buildRun cfg tr Fallback_completed = Some r \<Longrightarrow> terminal_root tr \<Longrightarrow>
     rn_id r = tr_traceId tr \<and> rn_status r \<in> {Run_completed, Run_error}"
proof -
  have ran: "rn_id r = tr_traceId tr \<and> rn_status r = run_status_of st (tr_rootSpan tr)" if "buildRun cfg tr st = Some r" for st
    using that by (elim buildRun_cases) simp
  show "buildRun cfg tr Fallback_running = Some r \<Longrightarrow> rn_id r = tr_traceId tr \<and> rn_status r = Run_running"
    "buildRun cfg tr Fallback_unknown = Some r \<Longrightarrow> rn_id r = tr_traceId tr \<and> rn_status r = Run_completed"
    using ran by (simp_all add: run_status_of_def)
  assume b: "buildRun cfg tr Fallback_completed = Some r" "terminal_root tr"
  then obtain s where s: "tr_rootSpan tr = Some s" "extractStatus (Some s) \<noteq> Span_unknown"
    by (auto simp: terminal_root_def terminal_span_has_status split: option.splits)
  then show "rn_id r = tr_traceId tr \<and> rn_status r \<in> {Run_completed, Run_error}"
    using ran [OF b(1)] by (cases "extractStatus (Some s)") (simp_all add: run_status_of_def)
qed

lemma trace_valid_facts:
  assumes "trace_valid lc k tr"
  shows "k \<noteq> '''' \<and> tr_traceId tr = k \<and> (\<forall>r \<in> set (allTraceRecords tr). rec_traceId r = Some k) \<and>
    distinct (map sp_spanId (tr_spans tr)) \<and>
    distinct (map (recordKey lc) (map Event (tr_events tr) @ map Metric (tr_metrics tr))) \<and>
    tr_rootSpan tr = chooseRootInvokeAgent lc (tr_spans tr) \<and>
    (\<forall>text. tv_initialQueryText tr = Some text \<longrightarrow> \<not> looksLikeGeneratedHelperPrompt text \<and> \<not> helper_root tr)"
proof -
  have "distinct (map (recordKey lc) (map Event (tr_events tr) @ map Metric (tr_metrics tr)))"
    using assms unfolding trace_valid_def records_valid_def by (metis mset_eq_imp_distinct_iff)
  moreover have "\<forall>text. tv_initialQueryText tr = Some text \<longrightarrow> \<not> looksLikeGeneratedHelperPrompt text \<and> \<not> helper_root tr"
    using assms by (cases "tv_initialQueryCandidate tr") (auto simp: trace_valid_def query_valid_def)
  ultimately show ?thesis using assms
    unfolding trace_valid_def records_valid_def list_all_iff by blast
qed

section \<open>Properties\<close>

text \<open>
  C15: in every state the assembler reaches, a trace is held once, under its own identifier; every record
  it holds is of that trace; no span identifier and no event or metric is held twice; its root is the one
  chosen from its spans; and the text of the first query, if there is one, is not a prompt generated
  for a helper, and is not of a helper trace.
\<close>

theorem traces_consistent:
  assumes "assembler_reaches cfg m"
  shows "distinct (map fst m) \<and> (\<forall>(k, tr) \<in> set m.
    k \<noteq> '''' \<and> tr_traceId tr = k \<and> (\<forall>r \<in> set (allTraceRecords tr). rec_traceId r = Some k) \<and>
    distinct (map sp_spanId (tr_spans tr)) \<and>
    distinct (map (recordKey (cg_collation cfg)) (map Event (tr_events tr) @ map Metric (tr_metrics tr))) \<and>
    tr_rootSpan tr = chooseRootInvokeAgent (cg_collation cfg) (tr_spans tr) \<and>
    (\<forall>text. tv_initialQueryText tr = Some text \<longrightarrow> \<not> looksLikeGeneratedHelperPrompt text \<and> \<not> helper_root tr))"
proof -
  have "distinct (map fst m)" "\<forall>(k, tr) \<in> set m. trace_valid (cg_collation cfg) k tr"
    using reaches_valid [OF assms] by (simp_all add: traces_valid_def)
  then show ?thesis by (fastforce dest: trace_valid_facts)
qed

text \<open>
  C16: ingestion is idempotent. In every reachable state, records that the traces hold already, ingested
  again in any number and order, change nothing and are answered by no update.
\<close>

theorem replay_ignored:
  assumes "assembler_reaches cfg m" and "list_all (held m) rs"
  shows "ingestMany cfg now m rs = Some (m, [])"
  using ingest_all_held [OF reaches_valid [OF assms(1)] assms(2)] by (simp add: ingestMany_def)

text \<open>
  C17: what an ingestion answers. Every trace has at most one update; a completed update is of a trace
  whose root has ended, has the outcome of the root, and its trace is forgotten; a running update is of a
  trace that stays as it is reported. When the time to settle is positive, an ingestion completes nothing,
  as every trace it touches was updated now: completion is left to the eviction.
\<close>

theorem updates_exact:
  assumes "assembler_reaches cfg m" and "ingestMany cfg now m rs = Some (m', us)"
  shows "distinct (map (tr_traceId \<circ> update_trace) us) \<and>
    (\<forall>u \<in> set us. case u of
       Completed_update r tr \<Rightarrow> terminal_root tr \<and> rn_id r = tr_traceId tr \<and> rn_status r \<in> {Run_completed, Run_error}
         \<and> map_get m' (tr_traceId tr) = None
     | Running_update r tr \<Rightarrow> rn_id r = tr_traceId tr \<and> rn_status r = Run_running
         \<and> map_get m' (tr_traceId tr) = Some tr) \<and>
    (date_ms (iso_of_ms now) = Some now \<and> 0 < cg_completionSettleMs cfg \<longrightarrow>
       (\<forall>u \<in> set us. \<exists>r tr. u = Running_update r tr))"
proof -
  obtain m1 where m1: "m1 = fst (ingest_records cfg now m rs)"
    and us: "\<forall>u \<in> set us. update_ok cfg now m1 m' u \<and> tr_traceId (update_trace u) \<in> set (snd (ingest_records cfg now m rs))"
    and d: "distinct (map (tr_traceId \<circ> update_trace) us)"
    using ingestMany_ok [OF assms(2) reaches_valid [OF assms(1)]] by blast
  have "\<exists>r tr. u = Running_update r tr" if u: "u \<in> set us" and t: "date_ms (iso_of_ms now) = Some now \<and> 0 < cg_completionSettleMs cfg" for u
  proof (cases u)
    case (Completed_update r tr)
    with us u have c: "map_get m1 (tr_traceId tr) = Some tr" "traceSettled now tr (cg_completionSettleMs cfg)"
      "tr_traceId tr \<in> set (snd (ingest_records cfg now m rs))"
      using t by (auto simp: update_ok_def update_trace_def)
    from ingest_records_fresh [of "tr_traceId tr" cfg now m rs] c t show ?thesis
      using fresh_not_settled [of tr now "cg_completionSettleMs cfg"] by (simp add: m1)
  qed simp
  moreover have "case u of
       Completed_update r tr \<Rightarrow> terminal_root tr \<and> rn_id r = tr_traceId tr \<and> rn_status r \<in> {Run_completed, Run_error}
         \<and> map_get m' (tr_traceId tr) = None
     | Running_update r tr \<Rightarrow> rn_id r = tr_traceId tr \<and> rn_status r = Run_running
         \<and> map_get m' (tr_traceId tr) = Some tr" if "u \<in> set us" for u
    using us that ran_status by (cases u) (fastforce simp: update_ok_def)+
  ultimately show ?thesis using d by blast
qed

text \<open>
  What an eviction does. It forgets exactly the traces that are evictable, in order, and answers their
  runs; a trace whose ended root has settled is always evictable; and a trace without a root span and
  without an agent event is never evicted, however old it is.
\<close>

theorem eviction_exact:
  assumes "evictStale cfg now maxAgeMs m = Some (m', runs)"
  shows "m' = filter (\<lambda>(k, tr). \<not> evictable cfg now maxAgeMs tr) m \<and>
    map rn_id runs = map (tr_traceId \<circ> snd) (filter (\<lambda>(k, tr). evictable cfg now maxAgeMs tr) m) \<and>
    (\<forall>r \<in> set runs. rn_status r \<in> {Run_completed, Run_error}) \<and>
    (\<forall>(k, tr) \<in> set m. terminal_root tr \<and> traceSettled now tr (cg_completionSettleMs cfg) \<longrightarrow> evictable cfg now maxAgeMs tr) \<and>
    (\<forall>(k, tr) \<in> set m. tr_rootSpan tr = None \<and> \<not> hasEventOnlyAgentRun tr \<longrightarrow> (k, tr) \<in> set m')"
proof -
  let ?out = "filter (\<lambda>(k, tr). evictable cfg now maxAgeMs tr) m"
  let ?run = "\<lambda>(k :: string, tr). buildRun cfg tr (if terminal_root tr then Fallback_completed else Fallback_unknown)"
  have m': "m' = filter (\<lambda>(k, tr). \<not> evictable cfg now maxAgeMs tr) m" and runs: "map Some runs = map ?run ?out"
    using evict_traces_spec [OF assms [unfolded evictStale_def]] by auto
  have ran: "rn_id r = tr_traceId tr \<and> rn_status r \<in> {Run_completed, Run_error}" if "?run (k, tr) = Some r" for k tr r
    using that ran_status by (cases "terminal_root tr") auto
  have "map rn_id rs = map (tr_traceId \<circ> snd) xs \<and> (\<forall>r \<in> set rs. rn_status r \<in> {Run_completed, Run_error})"
    if "map Some rs = map ?run xs" for rs xs
    using that
  proof (induction rs arbitrary: xs)
    case (Cons r rs)
    then obtain k tr xs' where x: "xs = (k, tr) # xs'" by (cases xs) auto
    with Cons.prems have "?run (k, tr) = Some r" "map Some rs = map ?run xs'" by (simp_all add: case_prod_unfold)
    with ran [OF this(1)] Cons.IH [of xs'] x show ?case by simp
  qed simp
  note answered = this [OF runs]
  have settled: "evictable cfg now maxAgeMs tr" if "terminal_root tr \<and> traceSettled now tr (cg_completionSettleMs cfg)" for tr
    using that by (simp add: evictable_def)
  have "\<not> evictable cfg now maxAgeMs tr" if "tr_rootSpan tr = None \<and> \<not> hasEventOnlyAgentRun tr" for tr
    using that by (simp add: evictable_def terminal_root_def)
  then have "\<forall>(k, tr) \<in> set m. tr_rootSpan tr = None \<and> \<not> hasEventOnlyAgentRun tr \<longrightarrow> (k, tr) \<in> set m'"
    by (auto simp: m')
  then show ?thesis using m' answered settled by blast
qed

section \<open>Samples\<close>

definition sample_pair :: "otel_record list" where
  "sample_pair = [Span (sample_chat (Some ''r'')), Span (sample_span ''invoke_agent'' ''r'' None [])]"

lemma sample_ingestion:
  "(case ingestMany sample_config 5000 [] sample_pair of
      None \<Rightarrow> False
    | Some (m, us) \<Rightarrow> list_all (held m) sample_pair \<and> map fst m = [''t''] \<and> length us = 1)"
  by code_simp

lemma sample_reached:
  obtains m us where "ingestMany sample_config 5000 [] sample_pair = Some (m, us)" "assembler_reaches sample_config m"
    "list_all (held m) sample_pair" "map fst m = [''t'']" "length us = 1"
proof (cases "ingestMany sample_config 5000 [] sample_pair")
  case None
  then show ?thesis using sample_ingestion by simp
next
  case (Some x)
  then obtain m us where i: "ingestMany sample_config 5000 [] sample_pair = Some (m, us)" by (cases x) auto
  from assembler_reaches.ingested [OF assembler_reaches.start i] that [OF i] show ?thesis
    using sample_ingestion by (auto simp: i)
qed

theorem traces_consistent_witness:
  "\<exists>m tr. assembler_reaches sample_config m \<and> m = [(''t'', tr)] \<and> tr_traceId tr = ''t''
     \<and> tr_rootSpan tr = chooseRootInvokeAgent code_unit_compare (tr_spans tr)"
proof -
  obtain m us where m: "assembler_reaches sample_config m" "map fst m = [''t'']"
    by (rule sample_reached)
  then obtain tr where "m = [(''t'', tr)]" by auto
  with traces_consistent [OF m(1)] m(1) show ?thesis by (auto simp: sample_collation)
qed

theorem replay_ignored_witness:
  "\<exists>m. map fst m = [''t''] \<and> ingestMany sample_config 6000 m (rev sample_pair) = Some (m, [])"
proof -
  obtain m us where m: "assembler_reaches sample_config m" "list_all (held m) sample_pair" "map fst m = [''t'']"
    by (rule sample_reached)
  from m(2) have "list_all (held m) (rev sample_pair)" by simp
  from m(3) replay_ignored [OF m(1) this, of 6000] show ?thesis by (intro exI conjI)
qed

theorem updates_exact_witness:
  "\<exists>m r tr. ingestMany sample_config 5000 [] sample_pair = Some (m, [Running_update r tr])
     \<and> rn_status r = Run_running \<and> map_get m (tr_traceId tr) = Some tr"
proof -
  obtain m us where i: "ingestMany sample_config 5000 [] sample_pair = Some (m, us)" and u: "length us = 1"
    by (rule sample_reached)
  have "date_ms (iso_of_ms 5000) = Some 5000" "0 < cg_completionSettleMs sample_config" by code_simp+
  with updates_exact [OF assembler_reaches.start i]
  have *: "\<forall>u \<in> set us. \<exists>r tr. u = Running_update r tr"
    "\<forall>u \<in> set us. case u of Running_update r tr \<Rightarrow> rn_status r = Run_running \<and> map_get m (tr_traceId tr) = Some tr | _ \<Rightarrow> True"
    by (fastforce split: run_update.splits)+
  from u obtain x where x: "us = [x]" by (cases us) auto
  with * obtain r tr where "x = Running_update r tr" by auto
  with * x i show ?thesis by auto
qed

definition sample_held :: traces where
  "sample_held = [(''t'', (newActiveTrace 5000 ''t'')\<lparr>tr_spans := [sample_span ''invoke_agent'' ''r'' None []],
       tr_rootSpan := Some (sample_span ''invoke_agent'' ''r'' None [])\<rparr>),
     (''o'', (newActiveTrace 5000 ''o'')\<lparr>tr_spans := [sample_chat None]\<rparr>)]"

lemma sample_evicted: "evictStale sample_config 100000000000 60000 sample_held \<noteq> None"
  "map (\<lambda>(k, tr). evictable sample_config 100000000000 60000 tr) sample_held = [True, False]"
  by code_simp+

theorem eviction_exact_witness:
  "\<exists>runs. evictStale sample_config 100000000000 60000 sample_held = Some (drop 1 sample_held, runs)
     \<and> map rn_id runs = [''t'']"
proof -
  obtain m runs where e: "evictStale sample_config 100000000000 60000 sample_held = Some (m, runs)"
    using sample_evicted(1) by (cases "evictStale sample_config 100000000000 60000 sample_held") auto
  from eviction_exact [OF e] e sample_evicted(2) show ?thesis
    by (simp add: sample_held_def newActiveTrace_def)
qed

end
