(* ===== verification/TelemetryNormalizer.thy ===== *)
theory TelemetryNormalizer
  imports OtelSemantics JsonText
begin

text \<open>
  The telemetry normalizer (src/src/normalization/telemetryNormalizer.ts): it reads spans, metrics and
  events from the JSON of an OTLP export, of an SDK, or of a row of Copilot's span database, and passes
  on records that are canonical already. A member of an object is one of its own; the members that
  every JavaScript object inherits are not modelled.

  A canonical record is returned as it is by a cast; here its fields are read, where a field of another
  type than the declared one is absent.
\<close>

section \<open>Reading values\<close>

definition readArray :: "js \<Rightarrow> js list" where
  "readArray v = (case v of JArr vs \<Rightarrow> vs | _ \<Rightarrow> [])"

fun readPath :: "js \<Rightarrow> string list \<Rightarrow> js" where
  "readPath v [] = v"
| "readPath v (k # ks) = (case v of JObj r \<Rightarrow> readPath (js_prop r k) ks | _ \<Rightarrow> JUndefined)"

text \<open>\<open>a ?? b\<close> on unknown values.\<close>

definition js_or :: "js \<Rightarrow> js \<Rightarrow> js" where
  "js_or a b = (if is_nullish a then b else a)"

definition msToUnixNano :: "js \<Rightarrow> string option" where
  "msToUnixNano v = map_option (\<lambda>ms. num_to_string (js_round (ms * 1000000))) (toNumber v)"

text \<open>\<open>/^-?\d+(\.\d+)?$/\<close>\<close>

definition plain_decimal :: "string \<Rightarrow> bool" where
  "plain_decimal s =
     (let body = (if starts_with s ''-'' then tl s else s); tail = dropWhile is_digit body
      in takeWhile is_digit body \<noteq> [] \<and> (tail = [] \<or> hd tail = CHR ''.'' \<and> tl tail \<noteq> [] \<and> list_all is_digit (tl tail)))"

definition parseSpanDbValue :: "js \<Rightarrow> js" where
  "parseSpanDbValue v =
     (case v of
        JStr s \<Rightarrow>
          let trimmed = trim s
          in if trimmed = '''' then JStr ''''
             else if starts_with trimmed ''{'' \<and> ends_with trimmed ''}'' \<or> starts_with trimmed ''['' \<and> ends_with trimmed '']''
             then nullish (JSON_parse trimmed) v
             else if string_to_number trimmed \<noteq> None \<and> plain_decimal trimmed then JNum (the (string_to_number trimmed))
             else if trimmed = ''true'' then JBool True
             else if trimmed = ''false'' then JBool False
             else v
      | _ \<Rightarrow> v)"

definition parseJsonObject :: "js \<Rightarrow> js_record" where
  "parseJsonObject v = (case parseSpanDbValue v of JObj r \<Rightarrow> r | _ \<Rightarrow> [])"

definition normalizeStatus :: "js \<Rightarrow> string option" where
  "normalizeStatus v =
     (case v of
        JObj r \<Rightarrow>
          let code = toNumber (js_prop r ''code'')
          in if code = Some 2 then Some ''STATUS_CODE_ERROR''
             else if code = Some 1 then Some ''STATUS_CODE_OK''
             else if code = Some 0 then Some ''STATUS_CODE_UNSET''
             else firstString [js_prop r ''code'', js_prop r ''message'']
      | _ \<Rightarrow> firstString [v])"

definition statusFromDb :: "js \<Rightarrow> js \<Rightarrow> string option" where
  "statusFromDb code message =
     (if toNumber code = Some 2 then Some ''STATUS_CODE_ERROR''
      else if toNumber code = Some 1 then Some ''STATUS_CODE_OK''
      else firstString [message])"

definition readMetricValue :: "js_record \<Rightarrow> rat option" where
  "readMetricValue point = or_else (toNumber (js_prop point ''asDouble'')) (or_else (toNumber (js_prop point ''asInt''))
     (or_else (toNumber (js_prop point ''value''))
       (or_else (case js_prop point ''value'' of JObj r \<Rightarrow> toNumber (js_prop r ''sum'') | _ \<Rightarrow> None)
         (or_else (toNumber (js_prop point ''sum'')) (toNumber (js_prop point ''count''))))))"

definition objects_of :: "js list \<Rightarrow> js_record list" where
  "objects_of vs = List.map_filter (\<lambda>v. case v of JObj r \<Rightarrow> Some r | _ \<Rightarrow> None) vs"

definition collectDataPoints :: "js_record \<Rightarrow> js_record list" where
  "collectDataPoints metric = objects_of (readArray (js_prop metric ''dataPoints''))
     @ concat (map (\<lambda>c. objects_of (readArray (js_prop c ''dataPoints'')))
         (objects_of (map (js_prop metric) [''sum'', ''gauge'', ''histogram'', ''exponentialHistogram'', ''summary''])))"

section \<open>Spans, events and metrics\<close>

definition normalizeSpan :: "js_record \<Rightarrow> js \<Rightarrow> span_record option" where
  "normalizeSpan resourceAttributes v =
     (case v of
        JObj r \<Rightarrow>
          let traceId = firstString [js_prop r ''traceId'', readPath v [''spanContext'', ''traceId'']];
              spanId = firstString [js_prop r ''spanId'', readPath v [''spanContext'', ''spanId'']];
              name = firstString [js_prop r ''name'', js_prop r ''spanName'']
          in if \<not> truthy traceId \<or> \<not> truthy spanId \<or> \<not> truthy name then None
             else Some \<lparr>sp_traceId = the traceId, sp_spanId = the spanId,
               sp_parentSpanId = firstString [js_prop r ''parentSpanId'', readPath v [''parentSpanContext'', ''spanId'']],
               sp_name = the name,
               sp_startTimeUnixNano = firstString [js_prop r ''startTimeUnixNano'', js_prop r ''startTime'', js_prop r ''start_time_unix_nano''],
               sp_endTimeUnixNano = firstString [js_prop r ''endTimeUnixNano'', js_prop r ''endTime'', js_prop r ''end_time_unix_nano''],
               sp_attributes = otelAttributesToRecord (js_prop r ''attributes''),
               sp_resourceAttributes = resourceAttributes, sp_status = normalizeStatus (js_prop r ''status'')\<rparr>
      | _ \<Rightarrow> None)"

definition normalizeEvent :: "js_record \<Rightarrow> js \<Rightarrow> event_record option" where
  "normalizeEvent resourceAttributes v =
     (case v of
        JObj r \<Rightarrow>
          let attributes = otelAttributesToRecord (js_prop r ''attributes'');
              body = unwrapOtelValue (js_or (js_prop r ''body'') (js_prop r ''_body''));
              name = firstString [js_prop r ''name'', js_prop attributes ''event.name'',
                (case body of JStr s \<Rightarrow> body | _ \<Rightarrow> JUndefined)]
          in if \<not> truthy name then None
             else Some \<lparr>ev_traceId = firstString [js_prop r ''traceId'', js_prop attributes ''traceId'',
                 readPath v [''spanContext'', ''traceId'']],
               ev_spanId = firstString [js_prop r ''spanId'', js_prop attributes ''spanId'', readPath v [''spanContext'', ''spanId'']],
               ev_name = the name,
               ev_timeUnixNano = firstString [js_prop r ''timeUnixNano'', js_prop r ''observedTimeUnixNano'', js_prop r ''time'',
                 string_js (hrTimeToUnixNano (js_prop r ''hrTime''))],
               ev_attributes = attributes, ev_resourceAttributes = resourceAttributes\<rparr>
      | _ \<Rightarrow> None)"

definition metric_of_point :: "string \<Rightarrow> js_record \<Rightarrow> js_record \<Rightarrow> metric_record" where
  "metric_of_point name resourceAttributes point =
     (let attributes = otelAttributesToRecord (js_prop point ''attributes'')
      in \<lparr>me_name = name, me_traceId = firstString [js_prop point ''traceId'', js_prop attributes ''traceId''],
          me_spanId = firstString [js_prop point ''spanId'', js_prop attributes ''spanId''],
          me_timeUnixNano = firstString [js_prop point ''timeUnixNano'', js_prop point ''startTimeUnixNano'',
            string_js (hrTimeToUnixNano (js_prop point ''endTime'')), string_js (hrTimeToUnixNano (js_prop point ''startTime''))],
          me_value = readMetricValue point, me_attributes = attributes, me_resourceAttributes = resourceAttributes\<rparr>)"

definition normalizeDirectMetric :: "js_record \<Rightarrow> js \<Rightarrow> metric_record list" where
  "normalizeDirectMetric resourceAttributes v =
     (case v of
        JObj r \<Rightarrow>
          let name = firstString [js_prop r ''name'', readPath v [''descriptor'', ''name'']]; points = collectDataPoints r
          in if \<not> truthy name then []
             else if points = []
             then [\<lparr>me_name = the name, me_traceId = firstString [js_prop r ''traceId''], me_spanId = firstString [js_prop r ''spanId''],
                    me_timeUnixNano = firstString [js_prop r ''timeUnixNano'', js_prop r ''time''],
                    me_value = toNumber (js_prop r ''value''), me_attributes = otelAttributesToRecord (js_prop r ''attributes''),
                    me_resourceAttributes = resourceAttributes\<rparr>]
             else map (metric_of_point (the name) resourceAttributes) points
      | _ \<Rightarrow> [])"

section \<open>Exports\<close>

definition resource_of :: "js_record \<Rightarrow> js_record" where
  "resource_of r = otelAttributesToRecord (readPath (JObj r) [''resource'', ''attributes''])"

text \<open>The nested loops over resources, scopes and items that three methods share: \<open>scopes\<close> and
  \<open>items\<close> are the names of the members, each with the one that is read where it is absent.\<close>

definition scoped_items :: "string \<times> string \<Rightarrow> string \<times> string \<Rightarrow> (js_record \<Rightarrow> js \<Rightarrow> 'a list) \<Rightarrow> js \<Rightarrow> 'a list" where
  "scoped_items scopes items f v =
     concat (map (\<lambda>resource. concat (map (\<lambda>scope.
         concat (map (f (resource_of resource)) (readArray (js_or (js_prop scope (fst items)) (js_prop scope (snd items))))))
       (objects_of (readArray (js_or (js_prop resource (fst scopes)) (js_prop resource (snd scopes)))))))
     (objects_of (readArray v)))"

definition option_list :: "'a option \<Rightarrow> 'a list" where
  "option_list x = (case x of None \<Rightarrow> [] | Some y \<Rightarrow> [y])"

definition normalizeResourceSpans :: "js \<Rightarrow> span_record list" where
  "normalizeResourceSpans v = scoped_items (''scopeSpans'', ''instrumentationLibrarySpans'') (''spans'', ''spans'')
     (\<lambda>ra x. option_list (normalizeSpan ra x)) v"

definition normalizeResourceMetrics :: "js \<Rightarrow> metric_record list" where
  "normalizeResourceMetrics v = scoped_items (''scopeMetrics'', ''instrumentationLibraryMetrics'') (''metrics'', ''metrics'')
     normalizeDirectMetric v"

definition normalizeResourceLogs :: "js \<Rightarrow> event_record list" where
  "normalizeResourceLogs v = scoped_items (''scopeLogs'', ''instrumentationLibraryLogs'') (''logRecords'', ''events'')
     (\<lambda>ra x. option_list (normalizeEvent ra x)) v"

definition normalizeSdkScopeMetrics :: "js_record \<Rightarrow> metric_record list" where
  "normalizeSdkScopeMetrics raw =
     concat (map (\<lambda>scope. concat (map (normalizeDirectMetric (resource_of raw)) (readArray (js_prop scope ''metrics''))))
       (objects_of (readArray (js_prop raw ''scopeMetrics''))))"

section \<open>Rows of the span database\<close>

definition addAttribute :: "string \<times> js \<Rightarrow> js_record \<Rightarrow> js_record" where
  "addAttribute kv attributes =
     (if is_nullish (snd kv) \<or> snd kv = JStr '''' then attributes
      else map_set (fst kv) (parseSpanDbValue (snd kv)) attributes)"

definition span_columns :: "(string \<times> string) list" where
  "span_columns = [
     (''gen_ai.operation.name'', ''operation_name''), (''gen_ai.provider.name'', ''provider_name''),
     (''gen_ai.agent.name'', ''agent_name''), (''gen_ai.conversation.id'', ''conversation_id''),
     (''copilot_chat.session_id'', ''conversation_id''), (''gen_ai.request.model'', ''request_model''),
     (''gen_ai.response.model'', ''response_model''), (''gen_ai.usage.input_tokens'', ''input_tokens''),
     (''gen_ai.usage.output_tokens'', ''output_tokens''), (''gen_ai.usage.cache_read.input_tokens'', ''cached_tokens''),
     (''gen_ai.usage.reasoning.output_tokens'', ''reasoning_tokens''), (''gen_ai.tool.name'', ''tool_name''),
     (''gen_ai.tool.call.id'', ''tool_call_id''), (''gen_ai.tool.type'', ''tool_type''),
     (''copilot_chat.chat_session_id'', ''chat_session_id''), (''turn.index'', ''turn_index''),
     (''copilot_chat.time_to_first_token'', ''ttft_ms'')]"

definition spanColumnAttributes :: "js_record \<Rightarrow> js_record" where
  "spanColumnAttributes row = fold addAttribute (map (\<lambda>(k, c). (k, js_prop row c)) span_columns) []"

definition spanDbAttributes :: "js \<Rightarrow> js_record" where
  "spanDbAttributes v = fold
     (\<lambda>row attributes. case firstString [js_prop row ''key''] of
        None \<Rightarrow> attributes
      | Some k \<Rightarrow> map_set k (parseSpanDbValue (js_prop row ''value'')) attributes)
     (objects_of (readArray v)) []"

definition db_event :: "string \<Rightarrow> string \<Rightarrow> js_record \<Rightarrow> js_record \<Rightarrow> event_record option" where
  "db_event traceId spanId resourceAttributes event = map_option
     (\<lambda>name. \<lparr>ev_traceId = Some traceId, ev_spanId = Some spanId, ev_name = name,
        ev_timeUnixNano = msToUnixNano (js_or (js_prop event ''timestamp_ms'') (js_prop event ''timestampMs'')),
        ev_attributes = parseJsonObject (js_prop event ''attributes''), ev_resourceAttributes = resourceAttributes\<rparr>)
     (firstString [js_prop event ''name''])"

definition db_records :: "js_record \<Rightarrow> js_record \<Rightarrow> string \<Rightarrow> string \<Rightarrow> string \<Rightarrow> otel_record list" where
  "db_records raw row traceId spanId name =
     (let resourceAttributes = [(''service.name'', JStr ''github-copilot'')]
      in Span \<lparr>sp_traceId = traceId, sp_spanId = spanId,
           sp_parentSpanId = firstString [js_prop row ''parent_span_id'', js_prop row ''parentSpanId''], sp_name = name,
           sp_startTimeUnixNano = msToUnixNano (js_or (js_prop row ''start_time_ms'') (js_prop row ''startTimeMs'')),
           sp_endTimeUnixNano = msToUnixNano (js_or (js_prop row ''end_time_ms'') (js_prop row ''endTimeMs'')),
           sp_attributes = fold (\<lambda>(k, v). map_set k v) (spanDbAttributes (js_prop raw ''attributes'')) (spanColumnAttributes row),
           sp_resourceAttributes = resourceAttributes,
           sp_status = statusFromDb (js_prop row ''status_code'') (js_prop row ''status_message'')\<rparr>
         # map Event (List.map_filter (db_event traceId spanId resourceAttributes) (objects_of (readArray (js_prop raw ''events'')))))"

definition normalizeCopilotSpanDbRecord :: "js_record \<Rightarrow> otel_record list" where
  "normalizeCopilotSpanDbRecord raw =
     (if js_prop raw ''tirionSource'' \<noteq> JStr ''copilot-span-db'' then []
      else case js_prop raw ''span'' of
        JObj row \<Rightarrow>
          (case (firstString [js_prop row ''trace_id'', js_prop row ''traceId''],
                 firstString [js_prop row ''span_id'', js_prop row ''spanId''], firstString [js_prop row ''name'']) of
             (Some traceId, Some spanId, Some name) \<Rightarrow> db_records raw row traceId spanId name
           | _ \<Rightarrow> [])
      | _ \<Rightarrow> [])"

section \<open>Any input\<close>

definition isCanonical :: "js_record \<Rightarrow> bool" where
  "isCanonical r = (js_prop r ''kind'' \<in> {JStr ''span'', JStr ''metric'', JStr ''event''})"

definition js_text :: "js \<Rightarrow> string option" where
  "js_text v = (case v of JStr s \<Rightarrow> Some s | _ \<Rightarrow> None)"

definition js_object :: "js \<Rightarrow> js_record" where
  "js_object v = (case v of JObj r \<Rightarrow> r | _ \<Rightarrow> [])"

definition canonical_record :: "js_record \<Rightarrow> otel_record" where
  "canonical_record r =
     (if js_prop r ''kind'' = JStr ''span''
      then Span \<lparr>sp_traceId = nullish (js_text (js_prop r ''traceId'')) '''', sp_spanId = nullish (js_text (js_prop r ''spanId'')) '''',
             sp_parentSpanId = js_text (js_prop r ''parentSpanId''), sp_name = nullish (js_text (js_prop r ''name'')) '''',
             sp_startTimeUnixNano = js_text (js_prop r ''startTimeUnixNano''), sp_endTimeUnixNano = js_text (js_prop r ''endTimeUnixNano''),
             sp_attributes = js_object (js_prop r ''attributes''), sp_resourceAttributes = js_object (js_prop r ''resourceAttributes''),
             sp_status = js_text (js_prop r ''status'')\<rparr>
      else if js_prop r ''kind'' = JStr ''event''
      then Event \<lparr>ev_traceId = js_text (js_prop r ''traceId''), ev_spanId = js_text (js_prop r ''spanId''),
             ev_name = nullish (js_text (js_prop r ''name'')) '''', ev_timeUnixNano = js_text (js_prop r ''timeUnixNano''),
             ev_attributes = js_object (js_prop r ''attributes''), ev_resourceAttributes = js_object (js_prop r ''resourceAttributes'')\<rparr>
      else Metric \<lparr>me_name = nullish (js_text (js_prop r ''name'')) '''', me_traceId = js_text (js_prop r ''traceId''),
             me_spanId = js_text (js_prop r ''spanId''), me_timeUnixNano = js_text (js_prop r ''timeUnixNano''),
             me_value = (case js_prop r ''value'' of JNum q \<Rightarrow> Some q | _ \<Rightarrow> None),
             me_attributes = js_object (js_prop r ''attributes''), me_resourceAttributes = js_object (js_prop r ''resourceAttributes'')\<rparr>)"

definition exported_records :: "js_record \<Rightarrow> otel_record list" where
  "exported_records raw = map Span (normalizeResourceSpans (js_prop raw ''resourceSpans''))
     @ map Metric (normalizeResourceMetrics (js_prop raw ''resourceMetrics''))
     @ map Event (normalizeResourceLogs (js_or (js_prop raw ''resourceLogs'') (js_prop raw ''resourceEvents'')))
     @ map Metric (normalizeSdkScopeMetrics raw)"

definition direct_records :: "js_record \<Rightarrow> otel_record list" where
  "direct_records raw =
     (case normalizeSpan [] (JObj raw) of
        Some s \<Rightarrow> [Span s]
      | None \<Rightarrow>
          if normalizeDirectMetric [] (JObj raw) \<noteq> [] then map Metric (normalizeDirectMetric [] (JObj raw))
          else map Event (option_list (normalizeEvent (resource_of raw) (JObj raw))))"

definition normalize_object :: "js_record \<Rightarrow> otel_record list" where
  "normalize_object raw =
     (if isCanonical raw then [canonical_record raw]
      else if normalizeCopilotSpanDbRecord raw \<noteq> [] then normalizeCopilotSpanDbRecord raw
      else if exported_records raw \<noteq> [] then exported_records raw
      else direct_records raw)"

fun normalizeMany :: "js \<Rightarrow> otel_record list" where
  "normalizeMany (JArr vs) = concat (map normalizeMany vs)"
| "normalizeMany (JObj raw) = normalize_object raw"
| "normalizeMany _ = []"

definition normalize :: "js \<Rightarrow> otel_record option" where
  "normalize raw = (case normalizeMany raw of [] \<Rightarrow> None | r # _ \<Rightarrow> Some r)"

end
