(* ===== verification/NormalizerProperties.thy ===== *)
theory NormalizerProperties
  imports TelemetryNormalizer
begin

text \<open>
  What the telemetry normalizer answers: every record that it makes has a name and identifiers that are
  not blank, and the spans of an OTLP export come out as they were exported.
\<close>

declare firstString.simps [simp del] readPath.simps [simp del]

section \<open>Records that are made\<close>

definition not_blank :: "string option \<Rightarrow> bool" where
  "not_blank x = (case x of None \<Rightarrow> True | Some s \<Rightarrow> trim s \<noteq> '''')"

definition identified :: "otel_record \<Rightarrow> bool" where
  "identified r = (trim (rec_name r) \<noteq> '''' \<and> not_blank (rec_traceId r) \<and> not_blank (rec_spanId r))"

lemma not_blank_firstString [simp]: "not_blank (firstString vs)"
  by (auto simp: not_blank_def dest: firstString_not_blank split: option.split)

lemma trim_Nil [simp]: "trim [] = []"
  by (simp add: trim_def)

lemma firstString_the: "truthy (firstString vs) \<Longrightarrow> trim (the (firstString vs)) \<noteq> ''''"
  by (cases "firstString vs") (auto dest: firstString_not_blank)

lemma normalizeSpan_identified: "normalizeSpan ra v = Some s \<Longrightarrow> identified (Span s)"
  by (auto simp: normalizeSpan_def identified_def not_blank_def Let_def firstString_the split: js.splits if_splits)

lemma normalizeEvent_identified: "normalizeEvent ra v = Some e \<Longrightarrow> identified (Event e)"
  by (cases v) (auto simp: normalizeEvent_def identified_def Let_def firstString_the split: if_splits)

lemma metric_of_point_fields [simp]:
  "me_name (metric_of_point name ra p) = name"
  "not_blank (me_traceId (metric_of_point name ra p))" "not_blank (me_spanId (metric_of_point name ra p))"
  by (simp_all add: metric_of_point_def Let_def)

lemma normalizeDirectMetric_identified: "m \<in> set (normalizeDirectMetric ra v) \<Longrightarrow> identified (Metric m)"
  by (cases v) (auto simp: normalizeDirectMetric_def identified_def Let_def firstString_the split: if_splits)

lemma scoped_items_set:
  "x \<in> set (scoped_items scopes items f v) \<Longrightarrow> \<exists>ra item. x \<in> set (f ra item)"
  by (auto simp: scoped_items_def)

lemma set_option_list [simp]: "x \<in> set (option_list y) \<longleftrightarrow> y = Some x"
  by (auto simp: option_list_def split: option.split)

lemma exported_identified: "r \<in> set (exported_records raw) \<Longrightarrow> identified r"
  by (auto simp: exported_records_def normalizeResourceSpans_def normalizeResourceMetrics_def normalizeResourceLogs_def
    normalizeSdkScopeMetrics_def dest!: scoped_items_set
    intro: normalizeSpan_identified normalizeEvent_identified normalizeDirectMetric_identified)

lemma direct_identified: "r \<in> set (direct_records raw) \<Longrightarrow> identified r"
  by (auto simp: direct_records_def intro: normalizeSpan_identified normalizeEvent_identified
    normalizeDirectMetric_identified split: option.splits if_splits)

lemma db_records_identified:
  assumes "trim traceId \<noteq> ''''" "trim spanId \<noteq> ''''" "trim name \<noteq> ''''"
  shows "r \<in> set (db_records raw row traceId spanId name) \<Longrightarrow> identified r"
  using assms by (auto simp: db_records_def Let_def identified_def not_blank_def List.map_filter_def db_event_def
    dest: firstString_not_blank split: if_splits)

lemma spanDb_identified: "r \<in> set (normalizeCopilotSpanDbRecord raw) \<Longrightarrow> identified r"
  by (auto simp: normalizeCopilotSpanDbRecord_def intro: db_records_identified
    dest: firstString_not_blank [OF sym] split: if_splits js.splits option.splits)

fun objects_in :: "js \<Rightarrow> js_record list" where
  "objects_in (JArr vs) = concat (map objects_in vs)"
| "objects_in (JObj raw) = [raw]"
| "objects_in _ = []"

lemma concat_map_concat: "concat (map f (concat xss)) = concat (map (\<lambda>xs. concat (map f xs)) xss)"
  by (induction xss) simp_all

lemma normalizeMany_objects: "normalizeMany v = concat (map normalize_object (objects_in v))"
  by (induction v rule: normalizeMany.induct)
    (auto simp: concat_map_concat intro!: arg_cong [where f = concat])

text \<open>
  C24: what the normalizer makes of any input. It reads the objects in the input, which arrays may nest,
  one by one; a record is either one that was canonical already, or has a name that is not blank, and no
  identifier of it is a blank text, so the assembler finds the trace of every span.
\<close>

theorem normalized_identified:
  "normalizeMany v = concat (map normalize_object (objects_in v)) \<and>
   (\<forall>r \<in> set (normalizeMany v). (\<exists>raw \<in> set (objects_in v). isCanonical raw \<and> r = canonical_record raw) \<or>
      trim (rec_name r) \<noteq> '''' \<and> (\<forall>t. rec_traceId r = Some t \<longrightarrow> trim t \<noteq> '''') \<and> (\<forall>t. rec_spanId r = Some t \<longrightarrow> trim t \<noteq> ''''))"
proof -
  have "(\<exists>raw \<in> set (objects_in v). isCanonical raw \<and> r = canonical_record raw) \<or> identified r" if "r \<in> set (normalizeMany v)" for r
  proof -
    from that obtain raw where raw: "raw \<in> set (objects_in v)" "r \<in> set (normalize_object raw)"
      by (auto simp: normalizeMany_objects)
    then show ?thesis
      by (auto simp: normalize_object_def intro: spanDb_identified exported_identified direct_identified split: if_splits)
  qed
  moreover have "trim (rec_name r) \<noteq> '''' \<and> (\<forall>t. rec_traceId r = Some t \<longrightarrow> trim t \<noteq> '''')
      \<and> (\<forall>t. rec_spanId r = Some t \<longrightarrow> trim t \<noteq> '''')" if "identified r" for r
    using that by (simp add: identified_def not_blank_def split: option.splits)
  ultimately show ?thesis using normalizeMany_objects by blast
qed

definition sample_input :: js where
  "sample_input = JArr [JNum 1, JObj [(''traceId'', JStr ''t1''), (''spanId'', JStr ''s1''), (''name'', JStr ''chat gpt-5'')]]"

theorem normalized_identified_witness:
  "length (normalizeMany sample_input) = 1 \<and> trim (rec_name (hd (normalizeMany sample_input))) \<noteq> ''''"
proof -
  have one: "length (normalizeMany sample_input) = 1" by code_simp
  then have hd: "hd (normalizeMany sample_input) \<in> set (normalizeMany sample_input)" by (cases "normalizeMany sample_input") auto
  have "\<not> (\<exists>raw \<in> set (objects_in sample_input). isCanonical raw)" by code_simp
  with hd normalized_identified [of sample_input] one show ?thesis by blast
qed

section \<open>Values of the protocol\<close>

text \<open>
  A value of OTLP, \<open>AnyValue\<close>, and its JSON as the protocol fixes it: an object with one member that names
  the type; a 64-bit integer is a text of decimal digits, bytes are a text in base 64, and an array or a
  list of keyed values is an object with a member \<open>values\<close>. The value that it means is \<open>meant\<close>. An attribute
  list is a list of objects \<open>{key, value}\<close>.
\<close>

datatype otlp_value =
    Otlp_string string
  | Otlp_bool bool
  | Otlp_int int
  | Otlp_double rat
  | Otlp_bytes string
  | Otlp_array "otlp_value list"
  | Otlp_kvlist "(string \<times> otlp_value) list"

type_synonym otlp_attributes = "(string \<times> otlp_value) list"

fun encode_value :: "otlp_value \<Rightarrow> js" where
  "encode_value (Otlp_string s) = JObj [(''stringValue'', JStr s)]"
| "encode_value (Otlp_bool b) = JObj [(''boolValue'', JBool b)]"
| "encode_value (Otlp_int i) = JObj [(''intValue'', JStr (int_to_string i))]"
| "encode_value (Otlp_double q) = JObj [(''doubleValue'', JNum q)]"
| "encode_value (Otlp_bytes s) = JObj [(''bytesValue'', JStr s)]"
| "encode_value (Otlp_array vs) = JObj [(''arrayValue'', JObj [(''values'', JArr (map encode_value vs))])]"
| "encode_value (Otlp_kvlist kvs) = JObj [(''kvlistValue'', JObj [(''values'',
     JArr (map (\<lambda>(k, v). JObj [(''key'', JStr k), (''value'', encode_value v)]) kvs))])]"

definition encode_attributes :: "otlp_attributes \<Rightarrow> js" where
  "encode_attributes kvs = JArr (map (\<lambda>(k, v). JObj [(''key'', JStr k), (''value'', encode_value v)]) kvs)"

fun meant :: "otlp_value \<Rightarrow> js" where
  "meant (Otlp_string s) = JStr s"
| "meant (Otlp_bool b) = JBool b"
| "meant (Otlp_int i) = JNum (of_int i)"
| "meant (Otlp_double q) = JNum q"
| "meant (Otlp_bytes s) = JStr s"
| "meant (Otlp_array vs) = JArr (map meant vs)"
| "meant (Otlp_kvlist kvs) = JObj (map (\<lambda>(k, v). (k, meant v)) kvs)"

definition meant_attributes :: "otlp_attributes \<Rightarrow> js_record" where
  "meant_attributes kvs = map (\<lambda>(k, v). (k, meant v)) kvs"

text \<open>Keys occur once, as the protocol demands, and integers are those that a JavaScript number can hold.\<close>

fun valid_value :: "otlp_value \<Rightarrow> bool" where
  "valid_value (Otlp_int i) = (\<bar>i\<bar> \<le> 9007199254740991)"
| "valid_value (Otlp_array vs) = list_all valid_value vs"
| "valid_value (Otlp_kvlist kvs) = (distinct (map fst kvs) \<and> list_all (\<lambda>(k, v). valid_value v) kvs)"
| "valid_value _ = True"

definition valid_attributes :: "otlp_attributes \<Rightarrow> bool" where
  "valid_attributes kvs = (distinct (map fst kvs) \<and> list_all (\<lambda>(k, v). valid_value v) kvs)"

lemma trim_not_Nil: "trim s \<noteq> '''' \<Longrightarrow> s \<noteq> ''''"
  by auto

lemma js_prop_Cons: "js_prop ((k, v) # r) k' = (if k' = k then v else js_prop r k')" "js_prop [] k' = JUndefined"
  by (simp_all add: js_prop_def)

lemma digit_not_ws: "is_digit c \<Longrightarrow> \<not> is_ws c"
  by (auto simp: is_digit_def is_ws_def)

lemma trim_no_ws: "\<forall>c \<in> set s. \<not> is_ws c \<Longrightarrow> trim s = s"
proof -
  have id: "dropWhile is_ws xs = xs" if "\<forall>c \<in> set xs. \<not> is_ws c" for xs
    using that by (cases xs) simp_all
  assume "\<forall>c \<in> set s. \<not> is_ws c"
  then show ?thesis by (simp add: trim_def id)
qed

lemma parse_decimal_nat: "parse_decimal (nat_to_string n) = Some (of_nat n)"
proof -
  have digits: "takeWhile is_digit (nat_to_string n) = nat_to_string n" "dropWhile is_digit (nat_to_string n) = []"
    using nat_to_string_digits [of n] by (auto simp: takeWhile_eq_all_conv dropWhile_eq_Nil_conv)
  show ?thesis by (simp add: parse_decimal_def digits)
qed

lemma minus_not_digit: "\<not> is_digit CHR ''-''" "\<not> is_ws CHR ''-''" "\<not> is_digit CHR ''+''"
  by (simp_all add: is_digit_def is_ws_def)

lemma lower_digit: "is_digit c \<Longrightarrow> lower_char c = c"
  by (simp add: is_digit_def lower_char_def)

lemma no_radix: "\<forall>c \<in> set (tl s). is_digit c \<Longrightarrow> to_lower (take 2 s) \<notin> {''0x'', ''0o'', ''0b''}"
  by (cases s rule: list.exhaust [case_names Nil Cons]; cases "tl s")
    (auto simp: to_lower_def lower_digit is_digit_def numeral_2_eq_2)

lemma string_to_int:
  assumes "\<bar>i\<bar> \<le> 9007199254740991"
  shows "string_to_number (int_to_string i) = Some (of_int i)"
proof -
  let ?s = "int_to_string i"
  have "\<forall>c \<in> set ?s. \<not> is_ws c" using nat_to_string_digits digit_not_ws minus_not_digit by (auto simp: int_to_string_def)
  then have trim: "trim ?s = ?s" by (rule trim_no_ws)
  have ne: "?s \<noteq> []" by (simp add: int_to_string_def)
  have "\<forall>c \<in> set (tl ?s). is_digit c" using nat_to_string_digits
    by (auto simp: int_to_string_def) (metis list.set_sel(2) nat_to_string_not_Nil)
  then have radix: "to_lower (take 2 ?s) \<noteq> ''0x''" "to_lower (take 2 ?s) \<noteq> ''0o''" "to_lower (take 2 ?s) \<noteq> ''0b''"
    using no_radix by blast+
  have "\<bar>rat_of_int i\<bar> \<le> 9007199254740991" using assms by linarith
  then have fin: "finite_double (of_int i)" by (simp add: finite_double_code)
  have "hd (nat_to_string n) \<noteq> CHR ''-''" "hd (nat_to_string n) \<noteq> CHR ''+''" for n
    using nat_to_string_digits [of n] hd_in_set [of "nat_to_string n"] minus_not_digit by force+
  then have "(if hd ?s = CHR ''-'' then map_option uminus (parse_decimal (tl ?s))
      else if hd ?s = CHR ''+'' then parse_decimal (tl ?s) else parse_decimal ?s) = Some (of_int i)"
    by (auto simp: int_to_string_def parse_decimal_nat)
  then show ?thesis unfolding string_to_number_def Let_def trim using ne radix fin by auto
qed

lemma number_of_int: "\<bar>i\<bar> \<le> 9007199254740991 \<Longrightarrow> toNumber (JStr (int_to_string i)) = Some (of_int i)"
proof -
  have "\<forall>c \<in> set (int_to_string i). \<not> is_ws c" using nat_to_string_digits digit_not_ws minus_not_digit by (auto simp: int_to_string_def)
  then have "trim (int_to_string i) \<noteq> []" using trim_no_ws by (simp add: int_to_string_def)
  then show "\<bar>i\<bar> \<le> 9007199254740991 \<Longrightarrow> ?thesis" by (simp add: toNumber_def string_to_int)
qed

lemma prop_of_keyed: "keyed_item (JObj [(''key'', JStr k), (''value'', v)]) = Some (k, v)"
  by (simp add: js_prop_Cons)

lemma fold_keyed:
  assumes "distinct (map fst (a @ kvs))" "\<And>k v. (k, v) \<in> set kvs \<Longrightarrow> unwrapOtelValue (encode_value v) = meant v"
  shows "fold (\<lambda>item attributes. case keyed_item item of None \<Rightarrow> attributes
        | Some (k, v) \<Rightarrow> map_set k (unwrapOtelValue v) attributes)
      (map (\<lambda>(k, v). JObj [(''key'', JStr k), (''value'', encode_value v)]) kvs) (map (\<lambda>(k, v). (k, meant v)) a)
    = map (\<lambda>(k, v). (k, meant v)) (a @ kvs)"
  using assms
proof (induction kvs arbitrary: a)
  case (Cons kv kvs)
  obtain k v where kv: "kv = (k, v)" by (cases kv)
  have "k \<notin> set (map fst (map (\<lambda>(k, v). (k, meant v)) a))" using Cons.prems(1) by (force simp: kv)
  then have put: "map_set k (meant v) (map (\<lambda>(k, v). (k, meant v)) a) = map (\<lambda>(k, v). (k, meant v)) (a @ [kv])"
    by (simp add: map_set_fresh kv)
  have "fold (\<lambda>item attributes. case keyed_item item of None \<Rightarrow> attributes
        | Some (k, v) \<Rightarrow> map_set k (unwrapOtelValue v) attributes)
      (map (\<lambda>(k, v). JObj [(''key'', JStr k), (''value'', encode_value v)]) kvs) (map (\<lambda>(k, v). (k, meant v)) (a @ [kv]))
    = map (\<lambda>(k, v). (k, meant v)) ((a @ [kv]) @ kvs)"
    using Cons.prems by (intro Cons.IH) auto
  then show ?case using put Cons.prems(2) [of k v] by (simp add: kv prop_of_keyed del: map_append keyed_item.simps)
qed simp

lemma unwrap_encoded: "valid_value v \<Longrightarrow> unwrapOtelValue (encode_value v) = meant v"
proof (induction v rule: encode_value.induct)
  case (3 i)
  then show ?case by (simp add: unwrapOtelValue.simps has_prop_def js_prop_Cons number_or_self_def number_of_int)
next
  case (6 vs)
  then have "map unwrapOtelValue (map encode_value vs) = map meant vs" by (simp add: list_all_iff)
  then show ?case by (simp add: unwrapOtelValue.simps [of "JObj _"] has_prop_def js_prop_Cons)
next
  case (7 kvs)
  have "distinct (map fst kvs)" "unwrapOtelValue (encode_value v) = meant v" if "(k, v) \<in> set kvs" for k v
    using 7 that by (auto simp: list_all_iff)
  then have "otelAttributesToRecord (JArr (map (\<lambda>(k, v). JObj [(''key'', JStr k), (''value'', encode_value v)]) kvs))
      = map (\<lambda>(k, v). (k, meant v)) kvs"
    using fold_keyed [of "[]" kvs] 7(2) by (simp add: otelAttributesToRecord.simps)
  then show ?case by (simp add: unwrapOtelValue.simps [of "JObj _"] has_prop_def js_prop_Cons)
qed (simp_all add: unwrapOtelValue.simps has_prop_def js_prop_Cons number_or_self_def)

lemma attributes_encoded: "valid_attributes kvs \<Longrightarrow> otelAttributesToRecord (encode_attributes kvs) = meant_attributes kvs"
  using fold_keyed [of "[]" kvs] unwrap_encoded
  by (auto simp: otelAttributesToRecord.simps encode_attributes_def meant_attributes_def valid_attributes_def list_all_iff)

section \<open>Exported spans\<close>

text \<open>
  The JSON of an export of spans: resources with their attributes, under them the scopes, under these the
  spans. A member that a span does not have is left out. The status has a numeric code.
\<close>

datatype otlp_code = Otlp_unset | Otlp_ok | Otlp_error

record otlp_span =
  os_traceId :: string
  os_spanId :: string
  os_parentSpanId :: "string option"
  os_name :: string
  os_kind :: int
  os_startTimeUnixNano :: "string option"
  os_endTimeUnixNano :: "string option"
  os_attributes :: otlp_attributes
  os_status :: "(otlp_code \<times> string option) option"

text \<open>The attributes of a resource, and its scopes with their names and spans.\<close>

type_synonym otlp_resource = "otlp_attributes \<times> (string \<times> otlp_span list) list"

definition text_member :: "string \<Rightarrow> string option \<Rightarrow> js_record" where
  "text_member k x = (case x of None \<Rightarrow> [] | Some t \<Rightarrow> [(k, JStr t)])"

fun code_number :: "otlp_code \<Rightarrow> rat" where
  "code_number Otlp_unset = 0"
| "code_number Otlp_ok = 1"
| "code_number Otlp_error = 2"

definition status_member :: "(otlp_code \<times> string option) option \<Rightarrow> js_record" where
  "status_member x = (case x of None \<Rightarrow> []
     | Some (c, message) \<Rightarrow> [(''status'', JObj ((''code'', JNum (code_number c)) # text_member ''message'' message))])"

definition encode_span :: "otlp_span \<Rightarrow> js" where
  "encode_span s = JObj ([(''traceId'', JStr (os_traceId s)), (''spanId'', JStr (os_spanId s))]
     @ text_member ''parentSpanId'' (os_parentSpanId s)
     @ [(''name'', JStr (os_name s)), (''kind'', JNum (of_int (os_kind s)))]
     @ text_member ''startTimeUnixNano'' (os_startTimeUnixNano s) @ text_member ''endTimeUnixNano'' (os_endTimeUnixNano s)
     @ [(''attributes'', encode_attributes (os_attributes s))] @ status_member (os_status s))"

definition encode_scope :: "string \<times> otlp_span list \<Rightarrow> js" where
  "encode_scope g = JObj [(''scope'', JObj [(''name'', JStr (fst g))]), (''spans'', JArr (map encode_span (snd g)))]"

definition encode_resource :: "otlp_resource \<Rightarrow> js" where
  "encode_resource g = JObj [(''resource'', JObj [(''attributes'', encode_attributes (fst g))]),
     (''scopeSpans'', JArr (map encode_scope (snd g)))]"

definition otlp_export :: "otlp_resource list \<Rightarrow> js" where
  "otlp_export gs = JObj [(''resourceSpans'', JArr (map encode_resource gs))]"

text \<open>The record that a span means; the parent of a root span may be written as an empty text.\<close>

fun code_name :: "otlp_code \<Rightarrow> string" where
  "code_name Otlp_unset = ''STATUS_CODE_UNSET''"
| "code_name Otlp_ok = ''STATUS_CODE_OK''"
| "code_name Otlp_error = ''STATUS_CODE_ERROR''"

definition text_or_none :: "string option \<Rightarrow> string option" where
  "text_or_none x = (case x of None \<Rightarrow> None | Some t \<Rightarrow> if trim t = [] then None else Some t)"

definition meant_span :: "otlp_attributes \<Rightarrow> otlp_span \<Rightarrow> span_record" where
  "meant_span resource s = \<lparr>sp_traceId = os_traceId s, sp_spanId = os_spanId s,
     sp_parentSpanId = text_or_none (os_parentSpanId s), sp_name = os_name s,
     sp_startTimeUnixNano = text_or_none (os_startTimeUnixNano s), sp_endTimeUnixNano = text_or_none (os_endTimeUnixNano s),
     sp_attributes = meant_attributes (os_attributes s), sp_resourceAttributes = meant_attributes resource,
     sp_status = map_option (\<lambda>st. code_name (fst st)) (os_status s)\<rparr>"

definition valid_span :: "otlp_span \<Rightarrow> bool" where
  "valid_span s = (trim (os_traceId s) \<noteq> [] \<and> trim (os_spanId s) \<noteq> [] \<and> trim (os_name s) \<noteq> []
     \<and> valid_attributes (os_attributes s))"

definition valid_resource :: "otlp_resource \<Rightarrow> bool" where
  "valid_resource g = (valid_attributes (fst g) \<and> list_all (\<lambda>sc. list_all valid_span (snd sc)) (snd g))"

lemma js_prop_member [simp]:
  "js_prop (text_member k x @ r) k' = (if k' = k \<and> x \<noteq> None then JStr (the x) else js_prop r k')"
  "js_prop (status_member st) k' = (if k' = ''status''
     then (case st of None \<Rightarrow> JUndefined | Some (c, m) \<Rightarrow> JObj ((''code'', JNum (code_number c)) # text_member ''message'' m))
     else JUndefined)"
  by (auto simp: text_member_def status_member_def js_prop_Cons split: option.split)

lemma span_members:
  "js_prop ([(k1, v1), (k2, v2)] @ r) k = (if k = k1 then v1 else if k = k2 then v2 else js_prop r k)"
  "js_prop ([(k1, v1)] @ r) k = (if k = k1 then v1 else js_prop r k)"
  by (simp_all add: js_prop_Cons)

lemma firstString_JStr: "trim t \<noteq> '''' \<Longrightarrow> firstString (JStr t # vs) = Some t"
  by (simp add: firstString.simps non_blank_string_def)

lemma firstString_skip: "firstString (JUndefined # vs) = firstString vs"
  by (simp add: firstString.simps non_blank_string_def)

lemma firstString_string_js: "not_blank x \<Longrightarrow> firstString (string_js x # vs) = or_else x (firstString vs)"
  by (cases x) (simp_all add: string_js_def firstString_JStr firstString_skip not_blank_def)

lemma firstString_text:
  "text_or_none None = None" "text_or_none (Some t) = firstString [JStr t]"
  "firstString (JStr t # JUndefined # vs) = firstString (JStr t # vs)"
  by (simp_all add: firstString.simps non_blank_string_def text_or_none_def)

lemma normalizeStatus_encoded:
  "normalizeStatus (case st of None \<Rightarrow> JUndefined | Some (c, m) \<Rightarrow> JObj ((''code'', JNum (code_number c)) # text_member ''message'' m))
    = map_option (\<lambda>x. code_name (fst x)) st"
proof (cases st)
  case (Some x)
  then show ?thesis by (cases x; cases "fst x") (auto simp: normalizeStatus_def js_prop_Cons toNumber_def)
qed (simp add: normalizeStatus_def firstString.simps non_blank_string_def)

lemma normalizeSpan_encoded:
  assumes "valid_span s"
  shows "normalizeSpan (meant_attributes ra) (encode_span s) = Some (meant_span ra s)"
proof -
  have attributes: "otelAttributesToRecord (encode_attributes (os_attributes s)) = meant_attributes (os_attributes s)"
    using assms by (simp add: valid_span_def attributes_encoded)
  have ids: "firstString (JStr (os_traceId s) # vs) = Some (os_traceId s)" "firstString (JStr (os_spanId s) # vs) = Some (os_spanId s)"
    "firstString (JStr (os_name s) # vs) = Some (os_name s)" "os_traceId s \<noteq> []" "os_spanId s \<noteq> []" "os_name s \<noteq> []" for vs
    using assms by (auto simp: valid_span_def firstString_JStr)
  show ?thesis
    unfolding normalizeSpan_def encode_span_def Let_def
    by (cases "os_parentSpanId s"; cases "os_startTimeUnixNano s"; cases "os_endTimeUnixNano s")
      (simp_all add: span_members readPath.simps ids attributes normalizeStatus_encoded firstString_text firstString_skip
        firstString.simps(1) meant_span_def del: append_Cons)
qed

lemma no_other_members:
  "exported_records [(''resourceSpans'', v)] = map Span (normalizeResourceSpans v)"
  "normalizeCopilotSpanDbRecord [(''resourceSpans'', v)] = []" "\<not> isCanonical [(''resourceSpans'', v)]"
  "direct_records [(''resourceSpans'', v)] = []"
  by (simp_all add: exported_records_def normalizeCopilotSpanDbRecord_def isCanonical_def direct_records_def js_prop_Cons
    normalizeResourceMetrics_def normalizeResourceLogs_def normalizeSdkScopeMetrics_def scoped_items_def js_or_def
    readArray_def objects_of_def normalizeSpan_def normalizeDirectMetric_def normalizeEvent_def readPath.simps
    firstString_skip firstString.simps(1) otelAttributesToRecord.simps unwrapOtelValue.simps option_list_def)

definition resource_members :: "otlp_resource \<Rightarrow> js_record" where
  "resource_members g = [(''resource'', JObj [(''attributes'', encode_attributes (fst g))]),
     (''scopeSpans'', JArr (map encode_scope (snd g)))]"

definition scope_members :: "string \<times> otlp_span list \<Rightarrow> js_record" where
  "scope_members g = [(''scope'', JObj [(''name'', JStr (fst g))]), (''spans'', JArr (map encode_span (snd g)))]"

lemma objects_of_encoded:
  "objects_of (map encode_resource gs) = map resource_members gs" "objects_of (map encode_scope cs) = map scope_members cs"
  by (induction gs) (simp_all add: objects_of_def List.map_filter_simps encode_resource_def resource_members_def,
    induction cs, simp_all add: objects_of_def List.map_filter_simps encode_scope_def scope_members_def)

lemma resource_of_members: "valid_attributes (fst g) \<Longrightarrow> resource_of (resource_members g) = meant_attributes (fst g)"
  by (simp add: resource_members_def resource_of_def readPath.simps js_prop_Cons attributes_encoded)

lemma scopes_of_members:
  "objects_of (readArray (js_or (js_prop (resource_members g) ''scopeSpans'') v)) = map scope_members (snd g)"
  by (simp add: resource_members_def js_or_def js_prop_Cons readArray_def objects_of_encoded)

lemma spans_of_members:
  "readArray (js_or (js_prop (scope_members c) ''spans'') v) = map encode_span (snd c)"
  by (simp add: scope_members_def js_or_def js_prop_Cons readArray_def)

lemma scope_decoded:
  "list_all valid_span ss \<Longrightarrow>
    concat (map (\<lambda>s. option_list (normalizeSpan (meant_attributes ra) (encode_span s))) ss) = map (meant_span ra) ss"
  by (induction ss) (simp_all add: normalizeSpan_encoded option_list_def)

lemma resource_decoded:
  assumes "valid_resource g"
  shows "concat (map (\<lambda>scope. concat (map (\<lambda>x. option_list (normalizeSpan (resource_of (resource_members g)) x))
        (readArray (js_or (js_prop scope ''spans'') (js_prop scope ''spans'')))))
      (objects_of (readArray (js_or (js_prop (resource_members g) ''scopeSpans'') (js_prop (resource_members g) ''instrumentationLibrarySpans'')))))
    = concat (map (\<lambda>sc. map (meant_span (fst g)) (snd sc)) (snd g))"
proof -
  have "list_all valid_span (snd sc)" if "sc \<in> set (snd g)" for sc using assms that by (simp add: valid_resource_def list_all_iff)
  moreover have "resource_of (resource_members g) = meant_attributes (fst g)"
    using assms by (simp add: valid_resource_def resource_of_members)
  ultimately show ?thesis
    unfolding scopes_of_members map_map comp_def spans_of_members
    by (intro arg_cong [where f = concat] map_cong refl) (simp only: scope_decoded)
qed

text \<open>
  C23: an OTLP export of spans is read as the protocol means it. For every export whose names and
  identifiers are not blank, whose keys occur once in a list and whose integers a JavaScript number can
  hold, normalizing its JSON gives one record for each span, in order: with its identifiers and times, with
  the values that its attributes and those of its resource mean, at any nesting of arrays and keyed lists,
  and with the name of its status code.
\<close>

theorem otlp_roundtrip:
  assumes "list_all valid_resource gs"
  shows "normalizeMany (otlp_export gs)
    = map Span (concat (map (\<lambda>(ra, scopes). concat (map (\<lambda>(name, spans). map (meant_span ra) spans) scopes)) gs))"
proof -
  have "normalizeResourceSpans (JArr (map encode_resource gs))
      = concat (map (\<lambda>g. concat (map (\<lambda>sc. map (meant_span (fst g)) (snd sc)) (snd g))) gs)"
    unfolding normalizeResourceSpans_def scoped_items_def readArray_def [of "JArr _"] js.case objects_of_encoded map_map comp_def fst_conv snd_conv
    using assms by (intro arg_cong [where f = concat] map_cong refl resource_decoded) (simp add: list_all_iff)
  then show ?thesis by (simp add: otlp_export_def normalize_object_def no_other_members case_prod_unfold)
qed

definition sample_otlp_span :: otlp_span where
  "sample_otlp_span = \<lparr>os_traceId = ''t'', os_spanId = ''r'', os_parentSpanId = Some [], os_name = ''invoke_agent'', os_kind = 1,
     os_startTimeUnixNano = Some ''1'', os_endTimeUnixNano = None,
     os_attributes = [(''turn.index'', Otlp_int (- 12)), (''tags'', Otlp_array [Otlp_string ''a'', Otlp_kvlist [(''k'', Otlp_bool True)]])],
     os_status = Some (Otlp_error, Some ''failed'')\<rparr>"

theorem otlp_roundtrip_witness:
  "normalizeMany (otlp_export [([(''service.name'', Otlp_string ''agent'')], [(''scope'', [sample_otlp_span])])])
   = [Span \<lparr>sp_traceId = ''t'', sp_spanId = ''r'', sp_parentSpanId = None, sp_name = ''invoke_agent'',
        sp_startTimeUnixNano = Some ''1'', sp_endTimeUnixNano = None,
        sp_attributes = [(''turn.index'', JNum (- 12)), (''tags'', JArr [JStr ''a'', JObj [(''k'', JBool True)]])],
        sp_resourceAttributes = [(''service.name'', JStr ''agent'')], sp_status = Some ''STATUS_CODE_ERROR''\<rparr>]"
  by (subst otlp_roundtrip) (simp_all add: valid_resource_def valid_span_def valid_attributes_def sample_otlp_span_def meant_span_def
    meant_attributes_def text_or_none_def trim_def is_ws_def)

end
