(* ===== verification/PrivacyGuard.thy ===== *)
theory PrivacyGuard
  imports OtelSemantics JsonText
begin

text \<open>
  The privacy guard (src/src/privacy/privacyGuard.ts), first part: which attributes of a record are
  kept, how the first query of the user is read from captured messages, and the violations that are
  found in a run or in an attribution, as paths of member names.
\<close>

section \<open>Patterns\<close>

definition INITIAL_USER_QUERY_ATTRIBUTE :: string where
  "INITIAL_USER_QUERY_ATTRIBUTE = ''tirion.initial_user_query''"

text \<open>The patterns of content attributes: whether the case is ignored, and the expression.\<close>

definition CONTENT_ATTRIBUTE_PATTERNS :: "(bool \<times> string) list" where
  "CONTENT_ATTRIBUTE_PATTERNS = [
     (True, ''^content$''), (False, pat ''^gen_ai~.input~.messages$''), (False, pat ''^gen_ai~.output~.messages$''),
     (True, ''prompt''), (True, ''completion''), (True, pat ''response~.text''), (True, ''tool.*args''),
     (True, ''tool.*arguments''), (True, ''tool.*schema''), (True, ''tool.*result''), (True, ''file.*content''),
     (True, ''file.*path''), (True, ''system.*message''), (True, pat ''message~.content''), (True, ''code_snippet'')]"

definition ATTRIBUTION_FORBIDDEN_KEY_PATTERNS :: "(bool \<times> string) list" where
  "ATTRIBUTION_FORBIDDEN_KEY_PATTERNS = map (Pair True) [''path'', ''diff'', ''content'', ''prompt'', ''response'',
     ''tool.*args'', ''tool.*arguments'', ''tool.*result'', ''code_snippet'']"

definition some_pattern :: "(bool \<times> string) list \<Rightarrow> string \<Rightarrow> bool" where
  "some_pattern ps key = list_ex (\<lambda>(ci, p). rx_matches ci p key) ps"

definition isContentAttribute :: "string \<Rightarrow> bool" where
  "isContentAttribute key = some_pattern CONTENT_ATTRIBUTE_PATTERNS key"

definition isAttributionForbiddenKey :: "string \<Rightarrow> bool" where
  "isAttributionForbiddenKey key = some_pattern ATTRIBUTION_FORBIDDEN_KEY_PATTERNS key"

section \<open>The first query in captured messages\<close>

text \<open>\<open>/<userRequest>([\s\S]*?)<\/userRequest>/i\<close>: the text after the first opening tag that has a
  closing tag after it, up to the first closing tag.\<close>

fun before_closing :: "string \<Rightarrow> string option" where
  "before_closing s =
     (if starts_with (to_lower s) ''</userrequest>'' then Some ''''
      else case s of [] \<Rightarrow> None | c # r \<Rightarrow> map_option (Cons c) (before_closing r))"

fun user_request :: "string \<Rightarrow> string option" where
  "user_request [] = None"
| "user_request (c # s) =
     (if starts_with (to_lower (c # s)) ''<userrequest>''
      then or_else (before_closing (drop (length ''<userrequest>'') (c # s))) (user_request s)
      else user_request s)"

text \<open>\<open>value.replace(/e/g, t)\<close> for an expression that is a text.\<close>

function replace_all :: "string \<Rightarrow> string \<Rightarrow> string \<Rightarrow> string" where
  "replace_all e t s =
     (case s of
        [] \<Rightarrow> []
      | c # r \<Rightarrow> if e \<noteq> [] \<and> starts_with s e then t @ replace_all e t (drop (length e) s) else c # replace_all e t r)"
  by pat_completeness auto
termination
  by (relation "measure (\<lambda>(e, t, s). length s)") (auto simp: neq_Nil_conv)

definition decodeBasicXmlEntities :: "string \<Rightarrow> string" where
  "decodeBasicXmlEntities s = replace_all ''&amp;'' ''&'' (replace_all ''&#39;'' [CHR 0x27]
     (replace_all ''&quot;'' [CHR 0x22] (replace_all ''&gt;'' ''>'' (replace_all ''&lt;'' ''<'' s))))"

definition extractPromptEnvelopeUserRequest :: "string \<Rightarrow> string option" where
  "extractPromptEnvelopeUserRequest s =
     (case user_request s of
        None \<Rightarrow> None
      | Some t \<Rightarrow> let text = trim (decodeBasicXmlEntities t) in if text = '''' then None else Some text)"

definition looksLikeStructuredPromptEnvelope :: "string \<Rightarrow> bool" where
  "looksLikeStructuredPromptEnvelope s =
     (rx_matches False ''<[^>]+>'' s
      \<and> rx_matches True ''<environment_info>|<workspace_info>|<userRequest>|<attachments>|<context>'' s)"

definition extractPlainStringQuery :: "string \<Rightarrow> string option" where
  "extractPlainStringQuery s =
     (let trimmed = trim s
      in if trimmed = '''' then None else if looksLikeStructuredPromptEnvelope trimmed then None else Some trimmed)"

definition normalizeCandidateQueryText :: "string \<Rightarrow> string option" where
  "normalizeCandidateQueryText s =
     (case or_else (extractPromptEnvelopeUserRequest s) (extractPlainStringQuery s) of
        None \<Rightarrow> None
      | Some text \<Rightarrow> if trim text = '''' then None else Some (trim text))"

definition joined_texts :: "string list \<Rightarrow> string" where
  "joined_texts texts = join [CHR 0x0A] (filter (\<lambda>t. trim t \<noteq> '''') texts)"

definition member_text :: "js_record \<Rightarrow> string" where
  "member_text r =
     (case js_prop r ''text'' of JStr s \<Rightarrow> s | _ \<Rightarrow>
       (case js_prop r ''content'' of JStr s \<Rightarrow> s | _ \<Rightarrow>
         (case js_prop r ''value'' of JStr s \<Rightarrow> s | _ \<Rightarrow> '''')))"

lemma parts_smaller: "js_prop r k = JArr vs \<Longrightarrow> v \<in> set vs \<Longrightarrow> size v < size (JObj r)"
  using size_js_prop [of r k] size_list_member [of v vs] by simp

function textFromMessageContent :: "js \<Rightarrow> string" where
  "textFromMessageContent content =
     (case content of
        JStr s \<Rightarrow> s
      | JArr vs \<Rightarrow> joined_texts (map textFromMessageContent vs)
      | JObj r \<Rightarrow>
          (case js_prop r ''parts'' of
             JArr vs \<Rightarrow> joined_texts (map textFromMessageContent vs)
           | _ \<Rightarrow> member_text r)
      | _ \<Rightarrow> '''')"
  by pat_completeness auto
termination
  by (relation "measure size") (simp_all only: in_measure wf_measure size_list_member parts_smaller)

declare textFromMessageContent.simps [simp del] replace_all.simps [simp del] before_closing.simps [simp del]

definition message_content :: "js_record \<Rightarrow> js" where
  "message_content r =
     (let content = js_prop r ''content''; contents = js_prop r ''contents''; text = js_prop r ''text''
      in if \<not> is_nullish content then content else if \<not> is_nullish contents then contents
         else if \<not> is_nullish text then text else js_prop r ''parts'')"

definition messages_of :: "js \<Rightarrow> (string \<times> js) list" where
  "messages_of v =
     (case v of
        JArr items \<Rightarrow> List.map_filter
          (\<lambda>item. case item of
             JObj r \<Rightarrow> Some (case js_prop r ''role'' of JStr s \<Rightarrow> s | _ \<Rightarrow> '''', message_content r)
           | _ \<Rightarrow> None) items
      | _ \<Rightarrow> [])"

text \<open>\<open>normalizeMessages\<close> parses a text again and again while it is the JSON of a text, which is
  shorter each time.\<close>

fun unquoted :: "nat \<Rightarrow> string \<Rightarrow> js" where
  "unquoted 0 s = JUndefined"
| "unquoted (Suc n) s =
     (case JSON_parse s of None \<Rightarrow> JUndefined | Some (JStr t) \<Rightarrow> unquoted n t | Some v \<Rightarrow> v)"

definition normalizeMessages :: "js \<Rightarrow> (string \<times> js) list" where
  "normalizeMessages v = (case v of JStr s \<Rightarrow> messages_of (unquoted (Suc (length s)) s) | _ \<Rightarrow> messages_of v)"

definition extractInitialUserQueryText :: "js \<Rightarrow> string option" where
  "extractInitialUserQueryText v =
     (let messages = normalizeMessages v
      in if messages = [] then (case v of JStr s \<Rightarrow> normalizeCandidateQueryText s | _ \<Rightarrow> None)
         else normalizeCandidateQueryText (textFromMessageContent (snd
           (nullish (find (\<lambda>m. to_lower (fst m) = ''user'') messages) (hd messages)))))"

definition extractPromptContentText :: "js \<Rightarrow> string option" where
  "extractPromptContentText v =
     normalizeCandidateQueryText (case v of JStr s \<Rightarrow> s | _ \<Rightarrow> textFromMessageContent v)"

definition extractUserMessageEventQuery :: "otel_record \<Rightarrow> string option" where
  "extractUserMessageEventQuery r =
     (case r of
        Event e \<Rightarrow> if ev_name e \<noteq> ''user_message'' then None
          else extractPromptContentText (js_prop (ev_attributes e) ''content'')
      | _ \<Rightarrow> None)"

section \<open>Sanitizing a record\<close>

definition sanitize_attribute :: "string \<times> js \<Rightarrow> js_record \<Rightarrow> js_record" where
  "sanitize_attribute kv sanitized =
     (if fst kv = ''gen_ai.input.messages''
      then let q = extractInitialUserQueryText (snd kv)
           in if truthy q \<and> \<not> js_truthy (js_prop sanitized INITIAL_USER_QUERY_ATTRIBUTE)
              then map_set INITIAL_USER_QUERY_ATTRIBUTE (JStr (the q)) sanitized else sanitized
      else if isContentAttribute (fst kv) then sanitized
      else map_set (fst kv) (snd kv) sanitized)"

definition sanitizeAttributes :: "js_record \<Rightarrow> string option \<Rightarrow> js_record" where
  "sanitizeAttributes attributes initialQueryOverride =
     fold sanitize_attribute attributes
       (if truthy initialQueryOverride then [(INITIAL_USER_QUERY_ATTRIBUTE, JStr (the initialQueryOverride))] else [])"

definition sanitize :: "otel_record \<Rightarrow> otel_record" where
  "sanitize r =
     (case r of
        Span s \<Rightarrow> Span (s\<lparr>sp_attributes := sanitizeAttributes (sp_attributes s) (extractUserMessageEventQuery r),
          sp_resourceAttributes := sanitizeAttributes (sp_resourceAttributes s) None\<rparr>)
      | Event e \<Rightarrow> Event (e\<lparr>ev_attributes := sanitizeAttributes (ev_attributes e) (extractUserMessageEventQuery r),
          ev_resourceAttributes := sanitizeAttributes (ev_resourceAttributes e) None\<rparr>)
      | Metric m \<Rightarrow> Metric (m\<lparr>me_attributes := sanitizeAttributes (me_attributes m) (extractUserMessageEventQuery r),
          me_resourceAttributes := sanitizeAttributes (me_resourceAttributes m) None\<rparr>))"

section \<open>Violations\<close>

definition item_path :: "string \<Rightarrow> nat \<Rightarrow> string" where
  "item_path path index = path @ ''['' @ nat_to_string index @ '']''"

definition member_path :: "string \<Rightarrow> string \<Rightarrow> string" where
  "member_path path key = (if path \<noteq> '''' then path @ ''.'' @ key else key)"

text \<open>The walk that the three collectors share: \<open>visit\<close> says of a member whether its violations are
  given (\<open>Some\<close>) or those of its parts (\<open>None\<close>).\<close>

fun collect :: "(string \<Rightarrow> js \<Rightarrow> string \<Rightarrow> string list option) \<Rightarrow> js \<Rightarrow> string \<Rightarrow> string list"
  and collect_items :: "(string \<Rightarrow> js \<Rightarrow> string \<Rightarrow> string list option) \<Rightarrow> js list \<Rightarrow> nat \<Rightarrow> string \<Rightarrow> string list"
  and collect_members :: "(string \<Rightarrow> js \<Rightarrow> string \<Rightarrow> string list option) \<Rightarrow> (string \<times> js) list \<Rightarrow> string \<Rightarrow> string list" where
  "collect visit (JArr vs) path = collect_items visit vs 0 path"
| "collect visit (JObj r) path = collect_members visit r path"
| "collect visit _ path = []"
| "collect_items visit [] index path = []"
| "collect_items visit (v # vs) index path =
     collect visit v (item_path path index) @ collect_items visit vs (Suc index) path"
| "collect_members visit [] path = []"
| "collect_members visit ((key, child) # r) path =
     (case visit key child (member_path path key) of
        Some violations \<Rightarrow> violations
      | None \<Rightarrow> collect visit child (member_path path key)) @ collect_members visit r path"

definition collectContentKeyViolations :: "js \<Rightarrow> string \<Rightarrow> string list" where
  "collectContentKeyViolations = collect (\<lambda>key child path.
     if key = ''initialQueryText'' \<or> key = INITIAL_USER_QUERY_ATTRIBUTE then Some []
     else if isContentAttribute key then Some [path] else None)"

definition collectAttributionKeyViolations :: "js \<Rightarrow> string \<Rightarrow> string list" where
  "collectAttributionKeyViolations = collect (\<lambda>key child path.
     if isAttributionForbiddenKey key then Some [path] else None)"

definition MAX_CAUSAL_WRITE_ARTIFACTS :: nat where
  "MAX_CAUSAL_WRITE_ARTIFACTS = 100"

definition MAX_OPAQUE_CAUSAL_WRITE_IDENTIFIER_LENGTH :: nat where
  "MAX_OPAQUE_CAUSAL_WRITE_IDENTIFIER_LENGTH = 200"

definition opaque_char :: "char \<Rightarrow> bool" where
  "opaque_char c = (c \<in> set word_chars \<or> c = CHR ''-'')"

definition isOpaqueCausalWriteIdentifier :: "js \<Rightarrow> bool" where
  "isOpaqueCausalWriteIdentifier v =
     (case v of
        JStr s \<Rightarrow> length s > 0 \<and> length s \<le> MAX_OPAQUE_CAUSAL_WRITE_IDENTIFIER_LENGTH \<and> list_all opaque_char s
      | _ \<Rightarrow> False)"

definition js_str :: "js \<Rightarrow> string" where
  "js_str v = (case v of JStr s \<Rightarrow> s | _ \<Rightarrow> '''')"

text \<open>The loop of \<open>validateCausalWriteArtifacts\<close> and of \<open>validateMatchedCausalWriteArtifacts\<close>, which
  differ in the names \<open>names\<close> of the identifiers only; \<open>pairs\<close> are the texts seen so far.\<close>

fun validate_items :: "string list \<Rightarrow> string \<Rightarrow> nat \<Rightarrow> string list \<Rightarrow> js list \<Rightarrow> string list" where
  "validate_items names path index pairs [] = []"
| "validate_items names path index pairs (item # items) =
     (case item of
        JObj r \<Rightarrow>
          if length r \<noteq> length names \<or> \<not> list_all (has_prop r) names
          then item_path path index # validate_items names path (Suc index) pairs items
          else let bad = filter (\<lambda>f. \<not> isOpaqueCausalWriteIdentifier (js_prop r f)) names;
                   pair = join '':'' (map (\<lambda>f. js_str (js_prop r f)) names)
               in map (\<lambda>f. item_path path index @ ''.'' @ f) bad
                  @ (if bad = [] \<and> pair \<in> set pairs then [item_path path index] else [])
                  @ validate_items names path (Suc index) (if bad = [] then pairs @ [pair] else pairs) items
      | _ \<Rightarrow> item_path path index # validate_items names path (Suc index) pairs items)"

definition validate_artifacts :: "string list \<Rightarrow> js \<Rightarrow> string \<Rightarrow> string list" where
  "validate_artifacts names v path =
     (case v of
        JUndefined \<Rightarrow> []
      | JArr items \<Rightarrow>
          if length items > MAX_CAUSAL_WRITE_ARTIFACTS then [path @ ''.length'']
          else validate_items names path 0 [] items
      | _ \<Rightarrow> [path])"

definition validateCausalWriteArtifacts :: "js \<Rightarrow> string \<Rightarrow> string list" where
  "validateCausalWriteArtifacts = validate_artifacts [''artifactKey'', ''executionNodeId'']"

definition validateMatchedCausalWriteArtifacts :: "js \<Rightarrow> string \<Rightarrow> string list" where
  "validateMatchedCausalWriteArtifacts = validate_artifacts [''queryId'', ''artifactKey'', ''executionNodeId'']"

definition collectCausalWriteArtifactViolations :: "js \<Rightarrow> string \<Rightarrow> string list" where
  "collectCausalWriteArtifactViolations = collect (\<lambda>key child path.
     if key = ''causalWriteArtifacts'' \<or> key = ''nativeRejectedCausalWriteArtifacts''
     then Some (validateCausalWriteArtifacts child path)
     else if key = ''matchedCausalWriteArtifacts'' then Some (validateMatchedCausalWriteArtifacts child path)
     else None)"

text \<open>A result is the list of its violations; \<open>ok\<close> says that it is empty.\<close>

definition validateRun :: "js \<Rightarrow> string list" where
  "validateRun v = collectContentKeyViolations v ''''"

definition validateAttribution :: "js \<Rightarrow> string list" where
  "validateAttribution v = collectAttributionKeyViolations v '''' @ collectCausalWriteArtifactViolations v ''''"

end
