(* ===== verification/PublicationGuard.thy ===== *)
theory PublicationGuard
  imports PrivacyGuard
begin

text \<open>
  The privacy guard (src/src/privacy/privacyGuard.ts), second part: what may leave the machine, as a
  publication intent or as one of four webhook events, each with the names of its members and a test of
  every member. \<open>url\<close> is the protocol that the platform's \<open>URL\<close> reads from a text, \<open>None\<close> where it
  throws. \<open>path.isAbsolute\<close> is that of POSIX.
\<close>

section \<open>Scalars\<close>

definition one_of :: "js \<Rightarrow> string list \<Rightarrow> bool" where
  "one_of v texts = (v \<in> set (map JStr texts))"

definition absent_or :: "(js \<Rightarrow> bool) \<Rightarrow> js \<Rightarrow> bool" where
  "absent_or test v = (is_nullish v \<or> test v)"

definition js_num :: "js \<Rightarrow> rat" where
  "js_num v = (case v of JNum q \<Rightarrow> q | _ \<Rightarrow> 0)"

definition is_text :: "(string \<Rightarrow> bool) \<Rightarrow> js \<Rightarrow> bool" where
  "is_text test v = (case v of JStr s \<Rightarrow> test s | _ \<Rightarrow> False)"

definition safe_integer :: "rat \<Rightarrow> bool" where
  "safe_integer q = (is_integer q \<and> \<bar>q\<bar> \<le> 9007199254740991)"

definition isPositiveSafeInteger :: "js \<Rightarrow> bool" where
  "isPositiveSafeInteger v = (case v of JNum q \<Rightarrow> safe_integer q \<and> q > 0 | _ \<Rightarrow> False)"

definition isNonNegativeSafeInteger :: "js \<Rightarrow> bool" where
  "isNonNegativeSafeInteger v = (case v of JNum q \<Rightarrow> safe_integer q \<and> q \<ge> 0 | _ \<Rightarrow> False)"

definition isTimestamp :: "js \<Rightarrow> bool" where
  "isTimestamp v = is_text (\<lambda>s. date_ms s \<noteq> None) v"

text \<open>\<open>a >= b\<close> on two texts.\<close>

definition not_before :: "js \<Rightarrow> js \<Rightarrow> bool" where
  "not_before a b = (js_str b \<le> js_str a)"

text \<open>\<open>!/[\r\n\t]/.test(s)\<close>\<close>

definition one_line :: "string \<Rightarrow> bool" where
  "one_line s = list_all (\<lambda>c. c \<notin> {CHR 0x0D, CHR 0x0A, CHR 0x09}) s"

definition made_of :: "(char \<Rightarrow> bool) \<Rightarrow> string \<Rightarrow> bool" where
  "made_of ok s = (s \<noteq> '''' \<and> list_all ok s)"

definition is_hex :: "nat \<Rightarrow> string \<Rightarrow> bool" where
  "is_hex shortest s = (shortest \<le> length s \<and> length s \<le> 64 \<and> list_all (\<lambda>c. radix_digit c < 16) s)"

definition isPublicationSlug :: "js \<Rightarrow> bool" where
  "isPublicationSlug v = is_text (\<lambda>s. length s \<le> 100 \<and> made_of (\<lambda>c. c \<in> set word_chars \<or> c \<in> set ''.-'') s) v"

definition isWebhookOpaqueId :: "js \<Rightarrow> bool" where
  "isWebhookOpaqueId v = is_text (\<lambda>s. length s > 0 \<and> length s \<le> 200 \<and> one_line s) v"

definition isWebhookHarness :: "js \<Rightarrow> bool" where
  "isWebhookHarness v = one_of v [''github-copilot'', ''claude-code'', ''codex'', ''cursor'']"

definition isWebhookRuntime :: "js \<Rightarrow> bool" where
  "isWebhookRuntime v = is_text (\<lambda>s. length (trim s) > 0 \<and> length s \<le> 200 \<and> one_line s) v"

definition isWebhookSenderText :: "js \<Rightarrow> bool" where
  "isWebhookSenderText v = is_text (\<lambda>s. length (trim s) > 0 \<and> length s \<le> 200 \<and> one_line s) v"

definition isCommitMessage :: "js \<Rightarrow> bool" where
  "isCommitMessage v = is_text (\<lambda>s. length s \<le> 1000) v"

definition isCostCoverage :: "js \<Rightarrow> bool" where
  "isCostCoverage v = one_of v [''complete'', ''partial'', ''unavailable'']"

definition isCostBasis :: "js \<Rightarrow> bool" where
  "isCostBasis v = one_of v [''catalog_estimate'', ''provider_reported_estimate'', ''unavailable'']"

definition isPublicationState :: "js \<Rightarrow> bool" where
  "isPublicationState v = one_of v [''active'', ''rewrite_pending'', ''superseded'']"

definition isUsageCoverage :: "js \<Rightarrow> bool" where
  "isUsageCoverage v = one_of v [''none'', ''partial'', ''complete_so_far'', ''final'']"

definition only_keys :: "string list \<Rightarrow> js_record \<Rightarrow> bool" where
  "only_keys ks r = list_all (\<lambda>(k, v). k \<in> set ks) r"

definition is_object :: "(js_record \<Rightarrow> bool) \<Rightarrow> js \<Rightarrow> bool" where
  "is_object test v = (case v of JObj r \<Rightarrow> test r | _ \<Rightarrow> False)"

definition is_array :: "(js \<Rightarrow> bool) \<Rightarrow> js \<Rightarrow> bool" where
  "is_array test v = (case v of JArr vs \<Rightarrow> list_all test vs | _ \<Rightarrow> False)"

section \<open>Paths\<close>

fun split_at :: "char \<Rightarrow> string \<Rightarrow> string list" where
  "split_at d [] = [[]]"
| "split_at d (c # s) =
     (if c = d then [] # split_at d s
      else case split_at d s of [] \<Rightarrow> [[c]] | w # ws \<Rightarrow> (c # w) # ws)"

definition drive_path :: "string \<Rightarrow> bool" where
  "drive_path s = (case s of
     a # b # c # _ \<Rightarrow> is_alnum a \<and> \<not> is_digit a \<and> b = CHR '':'' \<and> (c = backslash \<or> c = CHR ''/'')
   | _ \<Rightarrow> False)"

definition isRepoRelativePath :: "js \<Rightarrow> bool" where
  "isRepoRelativePath v = is_text (\<lambda>s.
     if trim s = '''' \<or> length s > 1000 \<or> \<not> one_line s then False
     else let normalized = map (\<lambda>c. if c = backslash then CHR ''/'' else c) s
          in if starts_with normalized ''/'' \<or> starts_with normalized ''../'' \<or> str_includes normalized ''/../''
                \<or> normalized = ''..'' \<or> drive_path s \<or> starts_with s ''/''
             then False
             else list_all (\<lambda>w. w \<noteq> '''' \<and> w \<noteq> ''.'' \<and> w \<noteq> ''..'') (split_at (CHR ''/'') normalized)) v"

section \<open>Parts of an event\<close>

definition isWebhookStringArray :: "js \<Rightarrow> bool" where
  "isWebhookStringArray v = is_array (is_text (\<lambda>s. length s \<le> 200 \<and> one_line s)) v"

definition isWebhookIdArray :: "js \<Rightarrow> bool" where
  "isWebhookIdArray v = is_array isWebhookOpaqueId v"

definition isRepoRelativePathArray :: "js \<Rightarrow> bool" where
  "isRepoRelativePathArray v = is_array isRepoRelativePath v"

definition isWebhookEvidenceBasis :: "js \<Rightarrow> bool" where
  "isWebhookEvidenceBasis v = one_of v [''prompt_hook'', ''session_hook'', ''tool_hook'', ''subagent_hook'', ''stop_hook'',
     ''root_span'', ''trace_span'', ''otel_event'', ''provider_metric'', ''span_db_replay'', ''usage_projection'', ''inactivity'']"

definition isConfidence :: "js \<Rightarrow> bool" where
  "isConfidence v = one_of v [''high'', ''medium'']"

definition EVIDENCE_KEYS :: "string list" where
  "EVIDENCE_KEYS = [''basis'', ''sourceId'', ''profileVersion'', ''observedAt'', ''delayed'', ''identityConfidence'', ''timingConfidence'']"

definition isWebhookEvidence :: "js \<Rightarrow> bool" where
  "isWebhookEvidence v = is_object (\<lambda>r. only_keys EVIDENCE_KEYS r \<and> isWebhookEvidenceBasis (js_prop r ''basis'')
     \<and> isWebhookOpaqueId (js_prop r ''sourceId'') \<and> isWebhookRuntime (js_prop r ''profileVersion'')
     \<and> isTimestamp (js_prop r ''observedAt'') \<and> js_prop r ''delayed'' \<in> {JBool True, JBool False}
     \<and> isConfidence (js_prop r ''identityConfidence'') \<and> isConfidence (js_prop r ''timingConfidence'')) v"

definition COVERAGE_KEYS :: "string list" where
  "COVERAGE_KEYS = [''usageCoverage'', ''activityCoverage'', ''costCoverage'']"

definition isWebhookCoverage :: "js \<Rightarrow> bool" where
  "isWebhookCoverage v = is_object (\<lambda>r. only_keys COVERAGE_KEYS r \<and> isUsageCoverage (js_prop r ''usageCoverage'')
     \<and> one_of (js_prop r ''activityCoverage'') [''none'', ''partial'', ''complete_for_reported_surface'']
     \<and> isCostCoverage (js_prop r ''costCoverage'')) v"

definition SENDER_KEYS :: "string list" where
  "SENDER_KEYS = [''installationId'', ''name'', ''team'', ''imageUrl'']"

definition isWebhookImageUrl :: "(string \<Rightarrow> string option) \<Rightarrow> js \<Rightarrow> bool" where
  "isWebhookImageUrl url v = is_text (\<lambda>s. length s \<le> 2000 \<and> one_line s \<and> url s \<in> {Some ''https:'', Some ''http:''}) v"

definition isWebhookSender :: "(string \<Rightarrow> string option) \<Rightarrow> js \<Rightarrow> bool" where
  "isWebhookSender url v = is_object (\<lambda>r. only_keys SENDER_KEYS r \<and> isWebhookOpaqueId (js_prop r ''installationId'')
     \<and> absent_or isWebhookSenderText (js_prop r ''name'') \<and> absent_or isWebhookSenderText (js_prop r ''team'')
     \<and> absent_or (isWebhookImageUrl url) (js_prop r ''imageUrl'')) v"

definition REPOSITORY_KEYS :: "string list" where
  "REPOSITORY_KEYS = [''repoKey'', ''owner'', ''name'', ''fullName'']"

definition isRepositoryNamePart :: "js \<Rightarrow> bool" where
  "isRepositoryNamePart v = is_text (\<lambda>s. length (trim s) > 0 \<and> length s \<le> 200
     \<and> made_of (\<lambda>c. c \<in> set word_chars \<or> c \<in> set ''. -'') s) v"

definition isRepositoryFullName :: "js \<Rightarrow> bool" where
  "isRepositoryFullName v = is_text (\<lambda>s. length (trim s) > 0 \<and> length s \<le> 401
     \<and> made_of (\<lambda>c. c \<in> set word_chars \<or> c \<in> set ''. /-'') s \<and> str_includes s ''/'') v"

definition isWebhookRepository :: "js \<Rightarrow> bool" where
  "isWebhookRepository v = is_object (\<lambda>r. only_keys REPOSITORY_KEYS r \<and> isWebhookOpaqueId (js_prop r ''repoKey'')
     \<and> isRepositoryNamePart (js_prop r ''owner'') \<and> isRepositoryNamePart (js_prop r ''name'')
     \<and> isRepositoryFullName (js_prop r ''fullName'')) v"

definition CONTEXT_KEYS :: "string list" where
  "CONTEXT_KEYS = [''schemaVersion'', ''accumulatedInputTokens'', ''initialInputContextTokens'', ''latestInputContextTokens'',
     ''peakInputContextTokens'', ''cacheReadInputTokens'', ''cacheCreationInputTokens'', ''observedLlmRequestCount'',
     ''contextGrowthInputTokens'', ''contextGrowthRatio'', ''basis'', ''coverage'']"

definition isWebhookContextFootprint :: "string option \<Rightarrow> js \<Rightarrow> bool" where
  "isWebhookContextFootprint requiredCoverage v = is_object (\<lambda>r. only_keys CONTEXT_KEYS r \<and> js_prop r ''schemaVersion'' = JNum 1
     \<and> isNonNegativeSafeInteger (js_prop r ''accumulatedInputTokens'')
     \<and> absent_or isNonNegativeSafeInteger (js_prop r ''initialInputContextTokens'')
     \<and> absent_or isNonNegativeSafeInteger (js_prop r ''latestInputContextTokens'')
     \<and> absent_or isNonNegativeSafeInteger (js_prop r ''peakInputContextTokens'')
     \<and> isNonNegativeSafeInteger (js_prop r ''cacheReadInputTokens'')
     \<and> isNonNegativeSafeInteger (js_prop r ''cacheCreationInputTokens'')
     \<and> isNonNegativeSafeInteger (js_prop r ''observedLlmRequestCount'')
     \<and> absent_or isNonNegativeSafeInteger (js_prop r ''contextGrowthInputTokens'')
     \<and> absent_or (\<lambda>x. case x of JNum q \<Rightarrow> q \<ge> 0 | _ \<Rightarrow> False) (js_prop r ''contextGrowthRatio'')
     \<and> one_of (js_prop r ''basis'') [''provider_reported_input_tokens'', ''derived_from_usage_atoms'',
         ''derived_from_execution_nodes'', ''unavailable'']
     \<and> isUsageCoverage (js_prop r ''coverage'')
     \<and> (requiredCoverage = None \<or> js_prop r ''coverage'' = JStr (the requiredCoverage))) v"

definition webhookUsageCoverage :: "js \<Rightarrow> string option" where
  "webhookUsageCoverage v =
     (case v of JObj r \<Rightarrow> (case js_prop r ''usageCoverage'' of JStr s \<Rightarrow> Some s | _ \<Rightarrow> None) | _ \<Rightarrow> None)"

section \<open>Activities\<close>

definition isWebhookActivityKind :: "js \<Rightarrow> bool" where
  "isWebhookActivityKind v = one_of v [''llm_request'', ''tool'', ''subagent'', ''skill'', ''mcp'', ''hook'', ''unknown'']"

definition ACTIVITY_KEYS :: "string list" where
  "ACTIVITY_KEYS = [''activityId'', ''parentActivityId'', ''kind'', ''name'', ''outcome'', ''count'', ''failureCount'',
     ''rejectedCount'', ''unknownCount'', ''startedAt'', ''endedAt'', ''durationMs'', ''resultSizeBytes'',
     ''providerReportedResultTokens'', ''inputTokens'', ''outputTokens'', ''cacheReadInputTokens'', ''cacheCreationInputTokens'',
     ''reasoningOutputTokens'', ''totalTokens'', ''usageAttributionBasis'', ''usageCoverage'', ''evidence'']"

text \<open>The counts of an activity are within its count, and what is rejected is a failure.\<close>

definition activity_counts :: "js_record \<Rightarrow> bool" where
  "activity_counts r =
     (let count = js_prop r ''count''; failures = js_prop r ''failureCount'';
          rejected = js_prop r ''rejectedCount''; unknown = js_prop r ''unknownCount''
      in absent_or isPositiveSafeInteger count
         \<and> absent_or (\<lambda>x. isNonNegativeSafeInteger x \<and> isPositiveSafeInteger count \<and> js_num x \<le> js_num count) failures
         \<and> absent_or (\<lambda>x. isNonNegativeSafeInteger x \<and> isPositiveSafeInteger count \<and> js_num x \<le> js_num failures) rejected
         \<and> absent_or (\<lambda>x. isNonNegativeSafeInteger x \<and> isPositiveSafeInteger count \<and> js_num x \<le> js_num count
             \<and> js_num failures + js_num x \<le> js_num count) unknown)"

definition activity_tokens :: "js_record \<Rightarrow> bool" where
  "activity_tokens r = (list_all (\<lambda>k. absent_or isNonNegativeSafeInteger (js_prop r k))
       [''durationMs'', ''resultSizeBytes'', ''providerReportedResultTokens'', ''inputTokens'', ''outputTokens'',
        ''cacheReadInputTokens'', ''cacheCreationInputTokens'', ''reasoningOutputTokens'', ''totalTokens'']
     \<and> (is_nullish (js_prop r ''totalTokens'') \<or> is_nullish (js_prop r ''inputTokens'') \<and> is_nullish (js_prop r ''outputTokens'')
        \<or> js_prop r ''totalTokens'' = JNum (js_num (js_prop r ''inputTokens'') + js_num (js_prop r ''outputTokens''))))"

definition isWebhookActivity :: "js \<Rightarrow> bool" where
  "isWebhookActivity v = is_object (\<lambda>r. only_keys ACTIVITY_KEYS r \<and> isWebhookOpaqueId (js_prop r ''activityId'')
     \<and> absent_or isWebhookOpaqueId (js_prop r ''parentActivityId'') \<and> isWebhookActivityKind (js_prop r ''kind'')
     \<and> isWebhookRuntime (js_prop r ''name'') \<and> one_of (js_prop r ''outcome'') [''success'', ''failure'', ''rejected'', ''unknown'']
     \<and> activity_counts r \<and> isTimestamp (js_prop r ''startedAt'')
     \<and> absent_or (\<lambda>x. isTimestamp x \<and> not_before x (js_prop r ''startedAt'')) (js_prop r ''endedAt'')
     \<and> activity_tokens r
     \<and> absent_or (\<lambda>x. one_of x [''provider_reported'', ''trace_descendant'', ''activity_only'', ''unavailable'']) (js_prop r ''usageAttributionBasis'')
     \<and> absent_or (\<lambda>x. one_of x [''complete'', ''partial'', ''unavailable'']) (js_prop r ''usageCoverage'')
     \<and> isWebhookEvidence (js_prop r ''evidence'')) v"

definition isWebhookActivityArray :: "js \<Rightarrow> bool" where
  "isWebhookActivityArray v = is_array isWebhookActivity v"

definition USAGE_FIELDS :: "string list" where
  "USAGE_FIELDS = [''inputTokens'', ''outputTokens'', ''cacheReadInputTokens'', ''cacheCreationInputTokens'',
     ''reasoningOutputTokens'', ''totalTokens'']"

definition activity_amount :: "string \<Rightarrow> js \<Rightarrow> rat" where
  "activity_amount f item =
     (case item of JObj r \<Rightarrow> if isNonNegativeSafeInteger (js_prop r f) then js_num (js_prop r f) else 0 | _ \<Rightarrow> 0)"

definition webhookActivityConservesUsage :: "js \<Rightarrow> js_record \<Rightarrow> bool" where
  "webhookActivityConservesUsage activity r =
     (case activity of
        JArr items \<Rightarrow> list_all (\<lambda>f. js_prop r f = JNum (sum_list (map (activity_amount f) items))) USAGE_FIELDS
      | _ \<Rightarrow> False)"

section \<open>Events\<close>

definition PUBLICATION_INTENT_KEYS :: "string list" where
  "PUBLICATION_INTENT_KEYS = [''schemaVersion'', ''owner'', ''repository'', ''commitSha'', ''publicationVersion'', ''state'',
     ''estimatedNanoUsd'', ''coverage'', ''attributedQueryCount'', ''commitMessage'', ''firstVerifiedAt'', ''updatedAt'']"

definition isStrictPublicationIntent :: "js \<Rightarrow> bool" where
  "isStrictPublicationIntent v = is_object (\<lambda>r. only_keys PUBLICATION_INTENT_KEYS r \<and> js_prop r ''schemaVersion'' = JNum 1
     \<and> isPublicationSlug (js_prop r ''owner'') \<and> isPublicationSlug (js_prop r ''repository'')
     \<and> is_text (is_hex 40) (js_prop r ''commitSha'') \<and> isPositiveSafeInteger (js_prop r ''publicationVersion'')
     \<and> isPublicationState (js_prop r ''state'') \<and> absent_or isNonNegativeSafeInteger (js_prop r ''estimatedNanoUsd'')
     \<and> isCostCoverage (js_prop r ''coverage'') \<and> isNonNegativeSafeInteger (js_prop r ''attributedQueryCount'')
     \<and> absent_or isCommitMessage (js_prop r ''commitMessage'') \<and> isTimestamp (js_prop r ''firstVerifiedAt'')
     \<and> isTimestamp (js_prop r ''updatedAt'')) v"

text \<open>What the three events of a run have in common.\<close>

definition RUN_KEYS :: "string list" where
  "RUN_KEYS = [''schemaVersion'', ''eventType'', ''eventId'', ''runId'', ''sessionId'', ''traceIds'', ''sender'', ''repository'',
     ''codingHarness'', ''runtime'', ''startedAt'', ''evidence'', ''coverage'']"

definition run_event :: "(string \<Rightarrow> string option) \<Rightarrow> string \<Rightarrow> js_record \<Rightarrow> bool" where
  "run_event url eventType r = (js_prop r ''schemaVersion'' = JNum 1 \<and> js_prop r ''eventType'' = JStr eventType
     \<and> isWebhookOpaqueId (js_prop r ''eventId'') \<and> isWebhookOpaqueId (js_prop r ''runId'')
     \<and> isWebhookOpaqueId (js_prop r ''sessionId'') \<and> isWebhookIdArray (js_prop r ''traceIds'')
     \<and> isWebhookSender url (js_prop r ''sender'') \<and> isWebhookRepository (js_prop r ''repository'')
     \<and> isWebhookHarness (js_prop r ''codingHarness'') \<and> isWebhookRuntime (js_prop r ''runtime'')
     \<and> isTimestamp (js_prop r ''startedAt'') \<and> isWebhookEvidence (js_prop r ''evidence'')
     \<and> isWebhookCoverage (js_prop r ''coverage''))"

definition USAGE_KEYS :: "string list" where
  "USAGE_KEYS = USAGE_FIELDS @ [''llmModels'', ''estimatedNanoUsd'', ''usageValueNanoUsd'', ''costEstimateBasis'', ''costCoverage'']"

definition event_usage :: "js_record \<Rightarrow> bool" where
  "event_usage r = (list_all (\<lambda>f. isNonNegativeSafeInteger (js_prop r f)) USAGE_FIELDS
     \<and> js_prop r ''totalTokens'' = JNum (js_num (js_prop r ''inputTokens'') + js_num (js_prop r ''outputTokens''))
     \<and> isWebhookStringArray (js_prop r ''llmModels'') \<and> isNonNegativeSafeInteger (js_prop r ''estimatedNanoUsd'')
     \<and> absent_or isNonNegativeSafeInteger (js_prop r ''usageValueNanoUsd'') \<and> isCostBasis (js_prop r ''costEstimateBasis'')
     \<and> isCostCoverage (js_prop r ''costCoverage'')
     \<and> is_object (\<lambda>c. js_prop c ''costCoverage'' = js_prop r ''costCoverage'') (js_prop r ''coverage''))"

definition RUN_STARTED_WEBHOOK_KEYS :: "string list" where
  "RUN_STARTED_WEBHOOK_KEYS = RUN_KEYS @ [''sequence'', ''updatedAt'', ''state'', ''llmModels'']"

definition isStrictRunStartedWebhookEvent :: "(string \<Rightarrow> string option) \<Rightarrow> js \<Rightarrow> bool" where
  "isStrictRunStartedWebhookEvent url v = is_object (\<lambda>r. only_keys RUN_STARTED_WEBHOOK_KEYS r \<and> run_event url ''run.start'' r
     \<and> isPositiveSafeInteger (js_prop r ''sequence'') \<and> isTimestamp (js_prop r ''updatedAt'')
     \<and> not_before (js_prop r ''updatedAt'') (js_prop r ''startedAt'') \<and> js_prop r ''state'' = JStr ''running''
     \<and> isWebhookStringArray (js_prop r ''llmModels'')) v"

definition RUN_UPDATED_WEBHOOK_KEYS :: "string list" where
  "RUN_UPDATED_WEBHOOK_KEYS = RUN_KEYS @ [''sequence'', ''updatedAt'', ''state''] @ USAGE_KEYS @ [''context'', ''activity'']"

definition isStrictRunUpdatedWebhookEvent :: "(string \<Rightarrow> string option) \<Rightarrow> js \<Rightarrow> bool" where
  "isStrictRunUpdatedWebhookEvent url v = is_object (\<lambda>r. only_keys RUN_UPDATED_WEBHOOK_KEYS r \<and> run_event url ''run.update'' r
     \<and> isPositiveSafeInteger (js_prop r ''sequence'') \<and> isTimestamp (js_prop r ''updatedAt'')
     \<and> not_before (js_prop r ''updatedAt'') (js_prop r ''startedAt'') \<and> one_of (js_prop r ''state'') [''running'', ''settling'']
     \<and> event_usage r \<and> absent_or (isWebhookContextFootprint None) (js_prop r ''context'')
     \<and> isWebhookActivityArray (js_prop r ''activity'') \<and> webhookActivityConservesUsage (js_prop r ''activity'') r) v"

definition isRunCompletionOutcome :: "js \<Rightarrow> bool" where
  "isRunCompletionOutcome v = one_of v [''success'', ''failure'', ''unknown'']"

definition terminal_evidence :: "bool \<Rightarrow> js \<Rightarrow> bool" where
  "terminal_evidence delayed v = is_object (\<lambda>r. js_prop r ''delayed'' = JBool delayed
     \<and> js_prop r ''identityConfidence'' = JStr ''high'' \<and> js_prop r ''timingConfidence'' = JStr ''high''
     \<and> one_of (js_prop r ''basis'') [''stop_hook'', ''session_hook'', ''root_span'', ''otel_event'']) v"

definition isExplicitTerminalWebhookEvidence :: "js \<Rightarrow> bool" where
  "isExplicitTerminalWebhookEvidence v = terminal_evidence False v"

definition isDelayedOutcomeTerminalWebhookEvidence :: "js \<Rightarrow> bool" where
  "isDelayedOutcomeTerminalWebhookEvidence v = terminal_evidence True v"

definition isZeroUsageTerminal :: "js_record \<Rightarrow> bool" where
  "isZeroUsageTerminal r = (list_all (\<lambda>f. js_prop r f = JNum 0) USAGE_FIELDS \<and> js_prop r ''llmModels'' = JArr [])"

definition isPermittedTerminalUsageCoverage :: "js \<Rightarrow> js \<Rightarrow> js \<Rightarrow> js_record \<Rightarrow> bool" where
  "isPermittedTerminalUsageCoverage usageCoverage evidence outcome terminal =
     (if usageCoverage = JStr ''final'' then True
      else if one_of usageCoverage [''none'', ''partial'', ''complete_so_far''] \<and> isExplicitTerminalWebhookEvidence evidence then True
      else usageCoverage = JStr ''none'' \<and> isRunCompletionOutcome outcome
        \<and> isDelayedOutcomeTerminalWebhookEvidence evidence \<and> isZeroUsageTerminal terminal)"

definition RUN_ENDED_WEBHOOK_KEYS :: "string list" where
  "RUN_ENDED_WEBHOOK_KEYS = RUN_KEYS @ [''version'', ''outcome'', ''endedAt''] @ USAGE_KEYS
     @ [''filesChanged'', ''context'', ''activity'', ''state'']"

definition isStrictRunEndedWebhookEvent :: "(string \<Rightarrow> string option) \<Rightarrow> js \<Rightarrow> bool" where
  "isStrictRunEndedWebhookEvent url v = is_object (\<lambda>r. only_keys RUN_ENDED_WEBHOOK_KEYS r \<and> run_event url ''run.ended'' r
     \<and> absent_or isPositiveSafeInteger (js_prop r ''version'') \<and> absent_or isRunCompletionOutcome (js_prop r ''outcome'')
     \<and> isTimestamp (js_prop r ''endedAt'') \<and> not_before (js_prop r ''endedAt'') (js_prop r ''startedAt'')
     \<and> event_usage r \<and> isRepoRelativePathArray (js_prop r ''filesChanged'')
     \<and> is_object (\<lambda>c. isPermittedTerminalUsageCoverage (js_prop c ''usageCoverage'') (js_prop r ''evidence'') (js_prop r ''outcome'') r)
         (js_prop r ''coverage'')
     \<and> absent_or (isWebhookContextFootprint (webhookUsageCoverage (js_prop r ''coverage''))) (js_prop r ''context'')
     \<and> absent_or (\<lambda>x. isWebhookActivityArray x \<and> webhookActivityConservesUsage x r) (js_prop r ''activity'')
     \<and> js_prop r ''state'' = JStr ''completed'') v"

definition COMMIT_ATTRIBUTED_WEBHOOK_KEYS :: "string list" where
  "COMMIT_ATTRIBUTED_WEBHOOK_KEYS = [''schemaVersion'', ''eventType'', ''eventId'', ''sender'', ''repository'', ''commitSha'',
     ''commitMessage'', ''traceIds'', ''runIds'', ''estimatedNanoUsd'', ''usageValueNanoUsd'', ''costCoverage'', ''state'', ''version'',
     ''firstVerifiedAt'', ''updatedAt'']"

definition isStrictCommitAttributedWebhookEvent :: "(string \<Rightarrow> string option) \<Rightarrow> js \<Rightarrow> bool" where
  "isStrictCommitAttributedWebhookEvent url v = is_object (\<lambda>r. only_keys COMMIT_ATTRIBUTED_WEBHOOK_KEYS r
     \<and> js_prop r ''schemaVersion'' = JNum 1 \<and> js_prop r ''eventType'' = JStr ''commit.attributed''
     \<and> isWebhookOpaqueId (js_prop r ''eventId'') \<and> isWebhookSender url (js_prop r ''sender'')
     \<and> isWebhookRepository (js_prop r ''repository'') \<and> is_text (is_hex 7) (js_prop r ''commitSha'')
     \<and> absent_or isCommitMessage (js_prop r ''commitMessage'') \<and> isWebhookIdArray (js_prop r ''traceIds'')
     \<and> isWebhookIdArray (js_prop r ''runIds'') \<and> isNonNegativeSafeInteger (js_prop r ''estimatedNanoUsd'')
     \<and> absent_or isNonNegativeSafeInteger (js_prop r ''usageValueNanoUsd'') \<and> isCostCoverage (js_prop r ''costCoverage'')
     \<and> isPublicationState (js_prop r ''state'') \<and> isPositiveSafeInteger (js_prop r ''version'')
     \<and> isTimestamp (js_prop r ''firstVerifiedAt'') \<and> isTimestamp (js_prop r ''updatedAt'')) v"

definition isStrictWebhookEvent :: "(string \<Rightarrow> string option) \<Rightarrow> js \<Rightarrow> bool" where
  "isStrictWebhookEvent url v = (isStrictRunStartedWebhookEvent url v \<or> isStrictRunUpdatedWebhookEvent url v
     \<or> isStrictRunEndedWebhookEvent url v \<or> isStrictCommitAttributedWebhookEvent url v)"

definition validatePublication :: "(string \<Rightarrow> string option) \<Rightarrow> js \<Rightarrow> string list" where
  "validatePublication url v = (if isStrictPublicationIntent v \<or> isStrictWebhookEvent url v then []
     else [''Publication intent is outside the outbound allowlist.''])"

end
