(* ===== verification/PrivacyProperties.thy ===== *)
theory PrivacyProperties
  imports PublicationGuard
begin

text \<open>
  What the privacy guard guarantees: a sanitized record has no content attribute, and every other
  attribute keeps its value but the first query, which is determined exactly; a run has no violation
  exactly when no content key is in it at any depth; and the lists of causal writes that pass are those of
  distinct opaque identifiers.
\<close>

section \<open>Sanitizing\<close>

lemma initial_query_no_content: "isContentAttribute INITIAL_USER_QUERY_ATTRIBUTE = False"
  by code_simp

lemma input_messages_content: "isContentAttribute ''gen_ai.input.messages'' = True"
  by code_simp

lemma content_content: "isContentAttribute ''content'' = True"
  by code_simp

text \<open>A query that was captured: in a prompt event or in the input messages.\<close>

definition captured_query :: "js_record \<Rightarrow> string option \<Rightarrow> js \<Rightarrow> bool" where
  "captured_query attributes q v = (\<exists>t. v = JStr t \<and> (q = Some t
     \<or> (\<exists>m. (''gen_ai.input.messages'', m) \<in> set attributes \<and> extractInitialUserQueryText m = Some t)))"

definition kept_attribute :: "js_record \<Rightarrow> string option \<Rightarrow> string \<Rightarrow> js \<Rightarrow> bool" where
  "kept_attribute attributes q k v = (\<not> isContentAttribute k \<and> (k, v) \<in> set attributes
     \<or> k = INITIAL_USER_QUERY_ATTRIBUTE \<and> captured_query attributes q v)"

definition clean :: "js_record \<Rightarrow> string option \<Rightarrow> js_record \<Rightarrow> bool" where
  "clean attributes q a = (distinct (map fst a) \<and> (\<forall>(k, v) \<in> set a. kept_attribute attributes q k v))"

lemma clean_put: "clean attributes q a \<Longrightarrow> kept_attribute attributes q k v \<Longrightarrow> clean attributes q (map_set k v a)"
  using set_map_set_subset [of k v a] by (auto simp: clean_def keys_map_set)

lemma truthy_Some: "truthy x \<Longrightarrow> x = Some (the x)"
  by (cases x) simp_all

lemma sanitize_attribute_clean:
  assumes "clean attributes q a" "(k, v) \<in> set attributes"
  shows "clean attributes q (sanitize_attribute (k, v) a)"
proof -
  have "captured_query attributes q (JStr (the (extractInitialUserQueryText v)))"
    if "k = ''gen_ai.input.messages''" "truthy (extractInitialUserQueryText v)"
    using that assms(2) truthy_Some unfolding captured_query_def by blast
  then show ?thesis using assms by (auto simp: sanitize_attribute_def Let_def kept_attribute_def intro!: clean_put)
qed

lemma fold_clean:
  "set kvs \<subseteq> set attributes \<Longrightarrow> clean attributes q a \<Longrightarrow> clean attributes q (fold sanitize_attribute kvs a)"
  by (induction kvs arbitrary: a) (auto simp: sanitize_attribute_clean)

lemma clean_start: "clean attributes q (if truthy q then [(INITIAL_USER_QUERY_ATTRIBUTE, JStr (the q))] else [])"
  by (auto simp: clean_def kept_attribute_def captured_query_def dest: truthy_Some)

lemma sanitizeAttributes_clean: "clean attributes q (sanitizeAttributes attributes q)"
  unfolding sanitizeAttributes_def by (rule fold_clean [OF subset_refl clean_start])

lemma fold_sanitize_get:
  assumes "\<not> isContentAttribute k" "k \<noteq> INITIAL_USER_QUERY_ATTRIBUTE"
  shows "distinct (map fst kvs) \<Longrightarrow>
    map_get (fold sanitize_attribute kvs a) k = (case map_get kvs k of None \<Rightarrow> map_get a k | Some v \<Rightarrow> Some v)"
proof (induction kvs arbitrary: a)
  case (Cons kv kvs)
  obtain k' v where kv: "kv = (k', v)" by (cases kv)
  have "map_get kvs k = None" if "k = k'"
    using Cons.prems that kv by (auto simp: map_of_eq_None_iff)
  then show ?case using Cons.IH [of "sanitize_attribute kv a"] Cons.prems assms input_messages_content
    by (auto simp: kv sanitize_attribute_def Let_def split: option.split)
qed simp

lemma sanitizeAttributes_get:
  assumes "\<not> isContentAttribute k" "k \<noteq> INITIAL_USER_QUERY_ATTRIBUTE" "distinct (map fst attributes)"
  shows "js_prop (sanitizeAttributes attributes q) k = js_prop attributes k"
  using fold_sanitize_get [OF assms]
  by (auto simp: sanitizeAttributes_def js_prop_def assms(2) split: option.split)

lemma fold_sanitize_id:
  "(\<forall>(k, v) \<in> set kvs. \<not> isContentAttribute k) \<Longrightarrow> distinct (map fst (a @ kvs)) \<Longrightarrow> fold sanitize_attribute kvs a = a @ kvs"
proof (induction kvs arbitrary: a)
  case (Cons kv kvs)
  obtain k v where kv: "kv = (k, v)" by (cases kv)
  have "k \<noteq> ''gen_ai.input.messages''" using Cons.prems(1) kv input_messages_content by auto
  then have "sanitize_attribute kv a = a @ [kv]"
    using Cons.prems kv by (auto simp: sanitize_attribute_def map_set_fresh)
  then show ?case using Cons.IH [of "a @ [kv]"] Cons.prems by simp
qed simp

lemma clean_again:
  assumes "clean attributes q a"
  shows "sanitizeAttributes a None = a"
proof -
  have "\<forall>(k, v) \<in> set a. \<not> isContentAttribute k" "distinct (map fst ([] @ a))"
    using assms initial_query_no_content unfolding clean_def kept_attribute_def by fastforce+
  from fold_sanitize_id [OF this] show ?thesis by (simp add: sanitizeAttributes_def truthy_def)
qed

lemmas sanitizeAttributes_again = clean_again [OF sanitizeAttributes_clean]

lemma content_removed: "isContentAttribute k \<Longrightarrow> js_prop (sanitizeAttributes attributes q) k = JUndefined"
proof -
  assume "isContentAttribute k"
  then have "k \<notin> fst ` set (sanitizeAttributes attributes q)"
    using sanitizeAttributes_clean [of attributes q] initial_query_no_content by (fastforce simp: clean_def kept_attribute_def)
  then have "map_get (sanitizeAttributes attributes q) k = None" by (simp add: map_of_eq_None_iff)
  then show ?thesis by (simp add: js_prop_def)
qed

lemmas no_content_left = content_removed [OF content_content [THEN eqTrueE]]

lemma no_prompt_text: "extractPromptContentText JUndefined = None"
  by code_simp

lemma sanitize_again: "sanitize (sanitize r) = sanitize r"
  by (cases r) (simp_all add: sanitize_def extractUserMessageEventQuery_def sanitizeAttributes_again no_content_left no_prompt_text)

lemma sanitize_attributes:
  "rec_attributes (sanitize r) = sanitizeAttributes (rec_attributes r) (extractUserMessageEventQuery r)"
  "rec_resourceAttributes (sanitize r) = sanitizeAttributes (rec_resourceAttributes r) None"
  by (cases r; simp add: sanitize_def)+

lemma kept_sanitized: "(k, v) \<in> set (sanitizeAttributes attributes q) \<Longrightarrow> kept_attribute attributes q k v"
  using sanitizeAttributes_clean [of attributes q] by (auto simp: clean_def)

text \<open>
  The first query that is left. A record without the attribute gets the text of a prompt event or else of
  its captured messages; one that has it keeps its value, unless this is empty and captured messages come
  after it.
\<close>

definition messages_text :: "js_record \<Rightarrow> string option" where
  "messages_text attributes = (case map_get attributes ''gen_ai.input.messages'' of None \<Rightarrow> None | Some m \<Rightarrow> extractInitialUserQueryText m)"

definition query_left :: "js_record \<Rightarrow> string option \<Rightarrow> js" where
  "query_left attributes q = (case map_get attributes INITIAL_USER_QUERY_ATTRIBUTE of
     None \<Rightarrow> if truthy q then JStr (the q)
       else if truthy (messages_text attributes) then JStr (the (messages_text attributes)) else JUndefined
   | Some v \<Rightarrow> (let later = messages_text (dropWhile (\<lambda>kv. fst kv \<noteq> INITIAL_USER_QUERY_ATTRIBUTE) attributes)
       in if js_truthy v \<or> \<not> truthy later then v else JStr (the later)))"

lemma messages_text_Cons:
  "messages_text ((k, v) # r) = (if k = ''gen_ai.input.messages'' then extractInitialUserQueryText v else messages_text r)"
  "messages_text [] = None"
  by (simp_all add: messages_text_def)

lemma messages_text_absent: "''gen_ai.input.messages'' \<notin> set (map fst r) \<Longrightarrow> messages_text r = None"
  by (simp add: messages_text_def map_of_eq_None_iff [THEN iffD2])

lemma js_prop_map_set: "js_prop (map_set k v r) k' = (if k' = k then v else js_prop r k')"
  by (simp add: js_prop_def)

lemma query_not_messages: "INITIAL_USER_QUERY_ATTRIBUTE \<noteq> ''gen_ai.input.messages''"
  using initial_query_no_content input_messages_content by metis

lemma fold_sanitize_query:
  "distinct (map fst kvs) \<Longrightarrow> js_prop (fold sanitize_attribute kvs a) INITIAL_USER_QUERY_ATTRIBUTE =
    (case map_get kvs INITIAL_USER_QUERY_ATTRIBUTE of
       None \<Rightarrow> if js_truthy (js_prop a INITIAL_USER_QUERY_ATTRIBUTE) \<or> \<not> truthy (messages_text kvs)
         then js_prop a INITIAL_USER_QUERY_ATTRIBUTE else JStr (the (messages_text kvs))
     | Some v \<Rightarrow> query_left kvs None)"
proof (induction kvs arbitrary: a)
  case (Cons kv kvs)
  obtain k v where kv: "kv = (k, v)" by (cases kv)
  have IH: "js_prop (fold sanitize_attribute (kv # kvs) a) INITIAL_USER_QUERY_ATTRIBUTE =
    (case map_get kvs INITIAL_USER_QUERY_ATTRIBUTE of
       None \<Rightarrow> if js_truthy (js_prop (sanitize_attribute kv a) INITIAL_USER_QUERY_ATTRIBUTE) \<or> \<not> truthy (messages_text kvs)
         then js_prop (sanitize_attribute kv a) INITIAL_USER_QUERY_ATTRIBUTE else JStr (the (messages_text kvs))
     | Some v \<Rightarrow> query_left kvs None)"
    using Cons.IH [of "sanitize_attribute kv a"] Cons.prems by simp
  consider (messages) "k = ''gen_ai.input.messages''" | (query) "k = INITIAL_USER_QUERY_ATTRIBUTE"
    | (other) "k \<noteq> ''gen_ai.input.messages''" "k \<noteq> INITIAL_USER_QUERY_ATTRIBUTE" by blast
  then show ?case
  proof cases
    case messages
    then have "messages_text kvs = None" using Cons.prems kv by (intro messages_text_absent) auto
    then show ?thesis unfolding IH using messages query_not_messages
      by (auto simp: kv sanitize_attribute_def Let_def js_prop_map_set messages_text_Cons query_left_def split: option.split)
  next
    case query
    then have "map_get kvs INITIAL_USER_QUERY_ATTRIBUTE = None" using Cons.prems kv by (auto simp: map_of_eq_None_iff)
    then show ?thesis unfolding IH using query query_not_messages initial_query_no_content
      by (simp add: kv sanitize_attribute_def js_prop_map_set messages_text_Cons query_left_def)
  next
    case other
    then show ?thesis unfolding IH
      by (auto simp: kv sanitize_attribute_def js_prop_map_set messages_text_Cons query_left_def split: option.split)
  qed
qed (simp add: messages_text_Cons)

lemma sanitizeAttributes_query:
  assumes "distinct (map fst attributes)"
  shows "js_prop (sanitizeAttributes attributes q) INITIAL_USER_QUERY_ATTRIBUTE = query_left attributes q"
  using fold_sanitize_query [OF assms]
  by (auto simp: sanitizeAttributes_def query_left_def js_prop_def truthy_def split: option.split)

lemma sanitizeAttributes_exact:
  assumes "distinct (map fst attributes)"
  shows "js_prop (sanitizeAttributes attributes q) k =
    (if k = INITIAL_USER_QUERY_ATTRIBUTE then query_left attributes q
     else if isContentAttribute k then JUndefined else js_prop attributes k)"
  using assms by (simp add: sanitizeAttributes_query content_removed sanitizeAttributes_get)

text \<open>
  C25: the sanitizer of records is exact. It removes every attribute that holds content, of the record and
  of its resource, and every other attribute keeps its value, but the first query of the user: this is the
  attribute that the record had, or the text of its prompt event, or that of its captured messages, which
  also replaces an empty attribute before them. Nothing is left but the attributes that the record had and
  that query, and sanitizing a record again changes nothing.
\<close>

theorem sanitize_exact:
  assumes "distinct (map fst (rec_attributes r))" "distinct (map fst (rec_resourceAttributes r))"
  shows "list_all (\<lambda>(k, v). kept_attribute (rec_attributes r) (extractUserMessageEventQuery r) k v) (rec_attributes (sanitize r))
    \<and> list_all (\<lambda>(k, v). kept_attribute (rec_resourceAttributes r) None k v) (rec_resourceAttributes (sanitize r))
    \<and> (\<forall>k. js_prop (rec_attributes (sanitize r)) k =
        (if k = INITIAL_USER_QUERY_ATTRIBUTE then query_left (rec_attributes r) (extractUserMessageEventQuery r)
         else if isContentAttribute k then JUndefined else js_prop (rec_attributes r) k)
      \<and> js_prop (rec_resourceAttributes (sanitize r)) k =
        (if k = INITIAL_USER_QUERY_ATTRIBUTE then query_left (rec_resourceAttributes r) None
         else if isContentAttribute k then JUndefined else js_prop (rec_resourceAttributes r) k))
    \<and> sanitize (sanitize r) = sanitize r"
  using assms by (auto simp: sanitize_attributes list_all_iff kept_sanitized sanitize_again sanitizeAttributes_exact)

definition sample_prompt :: otel_record where
  "sample_prompt = Event \<lparr>ev_traceId = None, ev_spanId = None, ev_name = ''user_message'', ev_timeUnixNano = None,
     ev_attributes = [(''content'', JStr ''fix it''), (''gen_ai.request.model'', JStr ''gpt-5'')], ev_resourceAttributes = []\<rparr>"

theorem sanitize_exact_witness:
  "js_prop (rec_attributes (sanitize sample_prompt)) ''gen_ai.request.model'' = JStr ''gpt-5''
   \<and> js_prop (rec_attributes (sanitize sample_prompt)) ''content'' = JUndefined
   \<and> js_prop (rec_attributes (sanitize sample_prompt)) INITIAL_USER_QUERY_ATTRIBUTE = JStr ''fix it''"
proof -
  have distinct: "distinct (map fst (rec_attributes sample_prompt))" "distinct (map fst (rec_resourceAttributes sample_prompt))"
    by code_simp+
  have "\<not> isContentAttribute ''gen_ai.request.model''" "''gen_ai.request.model'' \<noteq> INITIAL_USER_QUERY_ATTRIBUTE"
    "''content'' \<noteq> INITIAL_USER_QUERY_ATTRIBUTE" "js_prop (rec_attributes sample_prompt) ''gen_ai.request.model'' = JStr ''gpt-5''"
    "query_left (rec_attributes sample_prompt) (extractUserMessageEventQuery sample_prompt) = JStr ''fix it''"
    by code_simp+
  then show ?thesis using sanitize_exact [OF distinct] content_content by simp
qed

section \<open>Violations\<close>

inductive exposes :: "(string \<Rightarrow> bool) \<Rightarrow> (string \<Rightarrow> bool) \<Rightarrow> js \<Rightarrow> bool" for exempt forbidden where
  member: "(k, c) \<in> set r \<Longrightarrow> \<not> exempt k \<Longrightarrow> forbidden k \<Longrightarrow> exposes exempt forbidden (JObj r)"
| deeper: "(k, c) \<in> set r \<Longrightarrow> \<not> exempt k \<Longrightarrow> exposes exempt forbidden c \<Longrightarrow> exposes exempt forbidden (JObj r)"
| item: "c \<in> set vs \<Longrightarrow> exposes exempt forbidden c \<Longrightarrow> exposes exempt forbidden (JArr vs)"

inductive_simps exposes_simps:
  "exposes exempt forbidden JUndefined" "exposes exempt forbidden JNull" "exposes exempt forbidden (JBool b)"
  "exposes exempt forbidden (JNum q)" "exposes exempt forbidden JNonFinite" "exposes exempt forbidden (JBigInt i)"
  "exposes exempt forbidden (JStr s)" "exposes exempt forbidden (JArr vs)" "exposes exempt forbidden (JObj r)"

text \<open>The walk of the collectors that test a name.\<close>

definition named :: "(string \<Rightarrow> bool) \<Rightarrow> (string \<Rightarrow> bool) \<Rightarrow> string \<Rightarrow> js \<Rightarrow> string \<Rightarrow> string list option" where
  "named exempt forbidden key child path = (if exempt key then Some [] else if forbidden key then Some [path] else None)"

lemma collect_exposes:
  "collect (named exempt forbidden) v p = [] \<longleftrightarrow> \<not> exposes exempt forbidden v"
  "collect_items (named exempt forbidden) vs i p = [] \<longleftrightarrow> (\<forall>v \<in> set vs. \<not> exposes exempt forbidden v)"
  "collect_members (named exempt forbidden) r p = [] \<longleftrightarrow> \<not> exposes exempt forbidden (JObj r)"
  by (induction "named exempt forbidden" v p and "named exempt forbidden" vs i p and "named exempt forbidden" r p
    rule: collect_collect_items_collect_members.induct) (auto simp: exposes_simps named_def)

lemma collectContentKeyViolations_named:
  "collectContentKeyViolations = collect (named (\<lambda>k. k = ''initialQueryText'' \<or> k = INITIAL_USER_QUERY_ATTRIBUTE) isContentAttribute)"
  unfolding collectContentKeyViolations_def by (intro arg_cong [where f = collect] ext) (simp add: named_def)

section \<open>Causal writes\<close>

definition colon_free :: "string \<Rightarrow> bool" where
  "colon_free s = (CHR '':'' \<notin> set s)"

lemma append_colon_inject:
  assumes "colon_free x" "colon_free x'"
  shows "x @ CHR '':'' # y = x' @ CHR '':'' # y' \<longleftrightarrow> x = x' \<and> y = y'"
proof -
  have take: "takeWhile (\<lambda>c. c \<noteq> CHR '':'') (s @ CHR '':'' # r) = s" if "colon_free s" for s r
    using that unfolding colon_free_def by (subst takeWhile_append2) auto
  show ?thesis using take [OF assms(1), of y] take [OF assms(2), of y'] by auto
qed

lemma join_colon_inject:
  "length xs = length ys \<Longrightarrow> list_all colon_free xs \<Longrightarrow> list_all colon_free ys \<Longrightarrow> join '':'' xs = join '':'' ys \<longleftrightarrow> xs = ys"
proof (induction xs ys rule: list_induct2)
  case (Cons x xs y ys)
  then show ?case by (cases xs; cases ys) (simp_all add: append_colon_inject)
qed simp

lemma opaque_char_colon: "\<not> opaque_char CHR '':''"
  by code_simp

lemma opaque_colon_free: "isOpaqueCausalWriteIdentifier v \<Longrightarrow> colon_free (js_str v)"
  by (auto simp: isOpaqueCausalWriteIdentifier_def js_str_def colon_free_def list_all_iff opaque_char_colon split: js.splits)

text \<open>A causal write: an object that has the identifiers, which are opaque, and nothing else.\<close>

definition causal_write :: "string list \<Rightarrow> js \<Rightarrow> bool" where
  "causal_write names v = (\<exists>r. v = JObj r \<and> length r = length names
     \<and> (\<forall>f \<in> set names. has_prop r f \<and> isOpaqueCausalWriteIdentifier (js_prop r f)))"

definition write_ids :: "string list \<Rightarrow> js \<Rightarrow> string list" where
  "write_ids names v = (case v of JObj r \<Rightarrow> map (\<lambda>f. js_str (js_prop r f)) names | _ \<Rightarrow> [])"

lemma validate_items_ok:
  "validate_items names path i pairs items = [] \<longleftrightarrow>
     (\<forall>v \<in> set items. causal_write names v) \<and> distinct (map (join '':'' \<circ> write_ids names) items)
     \<and> set (map (join '':'' \<circ> write_ids names) items) \<inter> set pairs = {}"
proof (induction items arbitrary: i pairs)
  case (Cons item items)
  show ?case
  proof (cases "causal_write names item")
    case True
    then obtain r where "item = JObj r" "length r = length names" "list_all (has_prop r) names"
      "filter (\<lambda>f. \<not> isOpaqueCausalWriteIdentifier (js_prop r f)) names = []"
      by (auto simp: causal_write_def list_all_iff filter_empty_conv)
    moreover from this have "map (\<lambda>f. js_str (js_prop r f)) names = write_ids names item" by (simp add: write_ids_def)
    ultimately have "validate_items names path i pairs (item # items) = [] \<longleftrightarrow> join '':'' (write_ids names item) \<notin> set pairs
        \<and> validate_items names path (Suc i) (pairs @ [join '':'' (write_ids names item)]) items = []"
      by (simp add: Let_def)
    then show ?thesis using Cons.IH [of "Suc i" "pairs @ [join '':'' (write_ids names item)]"] True by auto
  next
    case False
    then have "validate_items names path i pairs (item # items) \<noteq> []"
      by (auto simp: causal_write_def list_all_iff Let_def filter_empty_conv split: js.split)
    then show ?thesis using False by simp
  qed
qed simp

lemma write_ids_inject:
  assumes "causal_write names v" "causal_write names w"
  shows "join '':'' (write_ids names v) = join '':'' (write_ids names w) \<longleftrightarrow> write_ids names v = write_ids names w"
  using assms by (intro join_colon_inject) (auto simp: causal_write_def write_ids_def list_all_iff opaque_colon_free)

lemma distinct_joined:
  assumes "\<forall>v \<in> set items. causal_write names v"
  shows "distinct (map (join '':'' \<circ> write_ids names) items) \<longleftrightarrow> distinct (map (write_ids names) items)"
  using assms write_ids_inject [of names] by (auto simp: distinct_map inj_on_def)

definition causal_writes :: "string list \<Rightarrow> js \<Rightarrow> bool" where
  "causal_writes names v = (v = JUndefined \<or> (\<exists>items. v = JArr items \<and> length items \<le> MAX_CAUSAL_WRITE_ARTIFACTS
     \<and> (\<forall>w \<in> set items. causal_write names w) \<and> distinct (map (write_ids names) items)))"

lemma validate_artifacts_ok: "validate_artifacts names v path = [] \<longleftrightarrow> causal_writes names v"
  by (auto simp: validate_artifacts_def causal_writes_def validate_items_ok distinct_joined simp del: map_map split: js.split)

text \<open>
  C27: a list of causal writes passes the guard exactly when it is absent, or it has at most a hundred items,
  each of which is an object with the two identifiers and nothing else, the identifiers are opaque, and no
  two items have the same pair; the same holds of the matched writes, which have the identifier of a query
  too. The guard compares the pairs as texts, which is right because an opaque identifier has no colon.
\<close>

theorem causal_artifacts_exact:
  "(validateCausalWriteArtifacts v path = [] \<longleftrightarrow> causal_writes [''artifactKey'', ''executionNodeId''] v)
   \<and> (validateMatchedCausalWriteArtifacts v path = [] \<longleftrightarrow> causal_writes [''queryId'', ''artifactKey'', ''executionNodeId''] v)"
  by (simp add: validateCausalWriteArtifacts_def validateMatchedCausalWriteArtifacts_def validate_artifacts_ok)

text \<open>
  A run has no violation exactly when no member at any depth of it, outside the texts of the first
  query, has the name of a content attribute.
\<close>

theorem run_violations_exact:
  "validateRun v = [] \<longleftrightarrow>
     \<not> exposes (\<lambda>k. k = ''initialQueryText'' \<or> k = INITIAL_USER_QUERY_ATTRIBUTE) isContentAttribute v"
  by (simp add: validateRun_def collectContentKeyViolations_named collect_exposes)

end
