(* ===== verification/PublicationProperties.thy ===== *)
theory PublicationProperties
  imports PrivacyProperties
begin

text \<open>
  What the publication guard guarantees: nothing that may be published has a name of content, or of what an
  attribution may not hold, at any depth. A name is checked against the letters that the patterns begin with.
\<close>

section \<open>Publications\<close>

definition private_key :: "string \<Rightarrow> bool" where
  "private_key k = (isContentAttribute k \<or> isAttributionForbiddenKey k)"

definition public :: "js \<Rightarrow> bool" where
  "public v = (\<not> exposes (\<lambda>_. False) private_key v)"

text \<open>An object of JavaScript has a name once.\<close>

fun unique_keys :: "js \<Rightarrow> bool" where
  "unique_keys (JArr vs) = list_all unique_keys vs"
| "unique_keys (JObj r) = (distinct (map fst r) \<and> list_all (\<lambda>(k, v). unique_keys v) r)"
| "unique_keys _ = True"

lemma unique_keys_prop: "unique_keys (JObj r) \<Longrightarrow> unique_keys (js_prop r k)"
  by (cases "map_get r k") (auto simp: js_prop_def list_all_iff dest!: map_of_SomeD)

lemma public_array: "is_array test v \<Longrightarrow> (\<And>x. test x \<Longrightarrow> unique_keys x \<Longrightarrow> public x) \<Longrightarrow> unique_keys v \<Longrightarrow> public v"
  by (auto simp: is_array_def public_def exposes_simps list_all_iff split: js.splits)

lemma public_scalars [simp]:
  "public JUndefined" "public JNull" "public (JBool b)" "public (JNum q)" "public (JStr s)" "public (JArr [])"
  by (simp_all add: public_def exposes_simps)

lemma public_text: "is_text test v \<Longrightarrow> public v"
  by (cases v) (simp_all add: is_text_def)

lemma public_one_of: "one_of v texts \<Longrightarrow> public v"
  by (auto simp: one_of_def)

lemma public_absent_or: "absent_or test v \<Longrightarrow> (test v \<Longrightarrow> public v) \<Longrightarrow> public v"
  by (cases v) (auto simp: absent_or_def)

lemma public_numbers: "isPositiveSafeInteger v \<Longrightarrow> public v" "isNonNegativeSafeInteger v \<Longrightarrow> public v"
  by (cases v; simp add: isPositiveSafeInteger_def isNonNegativeSafeInteger_def)+

text \<open>The tests of texts.\<close>

lemma public_tests:
  "isTimestamp v \<Longrightarrow> public v" "isPublicationSlug v \<Longrightarrow> public v" "isWebhookOpaqueId v \<Longrightarrow> public v"
  "isWebhookHarness v \<Longrightarrow> public v" "isWebhookRuntime v \<Longrightarrow> public v" "isWebhookSenderText v \<Longrightarrow> public v"
  "isCommitMessage v \<Longrightarrow> public v" "isCostCoverage v \<Longrightarrow> public v" "isCostBasis v \<Longrightarrow> public v"
  "isPublicationState v \<Longrightarrow> public v" "isUsageCoverage v \<Longrightarrow> public v" "isRepoRelativePath v \<Longrightarrow> public v"
  "isWebhookEvidenceBasis v \<Longrightarrow> public v" "isConfidence v \<Longrightarrow> public v" "isWebhookImageUrl url v \<Longrightarrow> public v"
  "isRepositoryNamePart v \<Longrightarrow> public v" "isRepositoryFullName v \<Longrightarrow> public v" "isWebhookActivityKind v \<Longrightarrow> public v"
  "isRunCompletionOutcome v \<Longrightarrow> public v"
  unfolding isTimestamp_def isPublicationSlug_def isWebhookOpaqueId_def isWebhookHarness_def isWebhookRuntime_def
    isWebhookSenderText_def isCommitMessage_def isCostCoverage_def isCostBasis_def isPublicationState_def
    isUsageCoverage_def isRepoRelativePath_def isWebhookEvidenceBasis_def isConfidence_def isWebhookImageUrl_def
    isRepositoryNamePart_def isRepositoryFullName_def isWebhookActivityKind_def isRunCompletionOutcome_def
  by (blast intro: public_text public_one_of)+

lemma public_arrays:
  "isWebhookStringArray v \<Longrightarrow> unique_keys v \<Longrightarrow> public v" "isWebhookIdArray v \<Longrightarrow> unique_keys v \<Longrightarrow> public v"
  "isRepoRelativePathArray v \<Longrightarrow> unique_keys v \<Longrightarrow> public v"
  unfolding isWebhookStringArray_def isWebhookIdArray_def isRepoRelativePathArray_def
  by (erule public_array, blast intro: public_text public_tests, assumption)+

text \<open>No name of the lists of allowed names is private: a match of a pattern has the letters that the
  pattern begins with, and three of the names only have such letters.\<close>

fun first_letters :: "rx \<Rightarrow> string" where
  "first_letters (SeqR (Chr c) r) = lower_char c # first_letters r"
| "first_letters (SeqR Bol r) = first_letters r"
| "first_letters _ = []"

lemma rests_first_letters: "rx_rests ci n r s \<noteq> [] \<Longrightarrow> starts_with (to_lower s) (first_letters r)"
proof (induction r arbitrary: s rule: first_letters.induct)
  case (1 c r)
  then show ?case by (cases s) (auto simp: to_lower_def same_char_def split: if_splits)
next
  case (2 r)
  then show ?case by (auto split: if_splits)
qed simp_all

lemma suffix_includes: "t \<in> set (suffixes_from s) \<Longrightarrow> starts_with (to_lower t) p \<Longrightarrow> str_includes (to_lower s) p"
proof (induction s)
  case Nil
  then show ?case by (cases p) (simp_all add: to_lower_def)
qed (auto simp: to_lower_def)

lemma test_first_letters: "rx_test ci r s \<Longrightarrow> str_includes (to_lower s) (first_letters r)"
  by (auto simp: rx_test_def list_ex_iff intro: suffix_includes rests_first_letters)

definition letters_of :: "(bool \<times> string) list \<Rightarrow> string list" where
  "letters_of ps = map (\<lambda>(ci, p). first_letters (the (rx_compile p))) ps"

lemma some_pattern_letters: "some_pattern ps key \<Longrightarrow> list_ex (str_includes (to_lower key)) (letters_of ps)"
  by (force simp: some_pattern_def letters_of_def list_ex_iff rx_matches_def split: option.splits
    dest!: test_first_letters)

lemma pattern_letters:
  "letters_of (CONTENT_ATTRIBUTE_PATTERNS @ ATTRIBUTION_FORBIDDEN_KEY_PATTERNS)
     = [''content'', ''gen_ai'', ''gen_ai'', ''prompt'', ''completion'', ''response'', ''tool'', ''tool'', ''tool'', ''tool'', ''file'', ''file'',
        ''system'', ''message'', ''code_snippet'', ''path'', ''diff'', ''content'', ''prompt'', ''response'', ''tool'', ''tool'', ''tool'', ''code_snippet'']"
  by code_simp

lemma private_letters:
  assumes "private_key k"
  shows "list_ex (str_includes (to_lower k)) [''content'', ''gen_ai'', ''prompt'', ''completion'', ''response'', ''tool'',
    ''file'', ''system'', ''message'', ''code_snippet'', ''path'', ''diff'']"
  using assms some_pattern_letters [of "CONTENT_ATTRIBUTE_PATTERNS @ ATTRIBUTION_FORBIDDEN_KEY_PATTERNS" k] pattern_letters
  unfolding private_key_def isContentAttribute_def isAttributionForbiddenKey_def some_pattern_def by auto

definition harmless :: "string \<Rightarrow> bool" where
  "harmless k = (k \<in> {''filesChanged'', ''commitMessage'', ''profileVersion''} \<or> \<not> list_ex (str_includes (to_lower k))
     [''content'', ''gen_ai'', ''prompt'', ''completion'', ''response'', ''tool'', ''file'', ''system'', ''message'',
      ''code_snippet'', ''path'', ''diff''])"

lemma three_names: "\<not> private_key ''filesChanged''" "\<not> private_key ''commitMessage''" "\<not> private_key ''profileVersion''"
  by code_simp+

lemma harmless_public: "harmless k \<Longrightarrow> \<not> private_key k"
  using private_letters [of k] three_names unfolding harmless_def by auto

lemma public_names:
  "list_all harmless EVIDENCE_KEYS" "list_all harmless COVERAGE_KEYS" "list_all harmless SENDER_KEYS"
  "list_all harmless REPOSITORY_KEYS" "list_all harmless CONTEXT_KEYS" "list_all harmless ACTIVITY_KEYS"
  "list_all harmless PUBLICATION_INTENT_KEYS" "list_all harmless COMMIT_ATTRIBUTED_WEBHOOK_KEYS"
  "list_all harmless RUN_STARTED_WEBHOOK_KEYS" "list_all harmless RUN_UPDATED_WEBHOOK_KEYS"
  "list_all harmless RUN_ENDED_WEBHOOK_KEYS"
  by code_simp+

lemma public_object:
  assumes "only_keys ks r" "list_all harmless ks" "unique_keys (JObj r)"
    "list_all (\<lambda>k. unique_keys (js_prop r k) \<longrightarrow> public (js_prop r k)) ks"
  shows "public (JObj r)"
proof -
  have "\<not> private_key k \<and> public c" if "(k, c) \<in> set r" for k c
  proof -
    have "js_prop r k = c" using that assms(3) by (simp add: js_prop_def map_of_eq_Some_iff)
    then show ?thesis using that assms unique_keys_prop [OF assms(3), of k] by (auto simp: only_keys_def list_all_iff harmless_public)
  qed
  then show ?thesis by (auto simp: public_def exposes_simps)
qed

lemma public_is_object:
  assumes "is_object test v" "unique_keys v" "\<And>r. v = JObj r \<Longrightarrow> test r \<Longrightarrow> only_keys ks r" "list_all harmless ks"
    "\<And>r. v = JObj r \<Longrightarrow> test r \<Longrightarrow> list_all (\<lambda>k. unique_keys (js_prop r k) \<longrightarrow> public (js_prop r k)) ks"
  shows "public v"
  using assms by (cases v) (auto simp: is_object_def intro: public_object)

lemma public_absent:
  "absent_or isNonNegativeSafeInteger v \<Longrightarrow> public v" "absent_or isPositiveSafeInteger v \<Longrightarrow> public v"
  "absent_or isWebhookSenderText v \<Longrightarrow> public v" "absent_or isCommitMessage v \<Longrightarrow> public v"
  "absent_or (isWebhookImageUrl url) v \<Longrightarrow> public v" "absent_or isWebhookOpaqueId v \<Longrightarrow> public v"
  "absent_or isRunCompletionOutcome v \<Longrightarrow> public v" "absent_or (\<lambda>x. one_of x texts) v \<Longrightarrow> public v"
  "absent_or (\<lambda>x. isTimestamp x \<and> P x) v \<Longrightarrow> public v"
  "absent_or (\<lambda>x. case x of JNum q \<Rightarrow> q \<ge> 0 | _ \<Rightarrow> False) v \<Longrightarrow> public v"
  "absent_or (\<lambda>x. isNonNegativeSafeInteger x \<and> P x) v \<Longrightarrow> public v"
  by (erule public_absent_or; auto dest: public_tests public_numbers public_one_of split: js.splits)+

lemmas public_dests = public_text public_numbers public_tests public_arrays public_one_of public_absent

text \<open>The parts of an event.\<close>

text \<open>The parts of an event.\<close>

lemma public_evidence: "isWebhookEvidence v \<Longrightarrow> unique_keys v \<Longrightarrow> public v"
  unfolding isWebhookEvidence_def
  by (erule public_is_object [OF _ _ _ public_names(1)]) (auto simp: EVIDENCE_KEYS_def dest: public_dests)

lemma public_coverage: "isWebhookCoverage v \<Longrightarrow> unique_keys v \<Longrightarrow> public v"
  unfolding isWebhookCoverage_def
  by (erule public_is_object [OF _ _ _ public_names(2)]) (auto simp: COVERAGE_KEYS_def dest: public_dests)

lemma public_sender: "isWebhookSender url v \<Longrightarrow> unique_keys v \<Longrightarrow> public v"
  unfolding isWebhookSender_def
  by (erule public_is_object [OF _ _ _ public_names(3)]) (auto simp: SENDER_KEYS_def dest: public_dests)

lemma public_repository: "isWebhookRepository v \<Longrightarrow> unique_keys v \<Longrightarrow> public v"
  unfolding isWebhookRepository_def
  by (erule public_is_object [OF _ _ _ public_names(4)]) (auto simp: REPOSITORY_KEYS_def dest: public_dests)

lemma public_context: "isWebhookContextFootprint c v \<Longrightarrow> unique_keys v \<Longrightarrow> public v"
  unfolding isWebhookContextFootprint_def
  by (erule public_is_object [OF _ _ _ public_names(5)]) (auto simp: CONTEXT_KEYS_def dest: public_dests)

lemma public_counts:
  assumes "activity_counts r"
  shows "public (js_prop r ''count'')" "public (js_prop r ''failureCount'')" "public (js_prop r ''rejectedCount'')"
    "public (js_prop r ''unknownCount'')"
  using assms unfolding activity_counts_def Let_def by (auto dest: public_dests)

lemma public_tokens:
  assumes "activity_tokens r"
  shows "list_all (\<lambda>k. public (js_prop r k)) [''durationMs'', ''resultSizeBytes'', ''providerReportedResultTokens'',
    ''inputTokens'', ''outputTokens'', ''cacheReadInputTokens'', ''cacheCreationInputTokens'', ''reasoningOutputTokens'', ''totalTokens'']"
  using assms by (auto simp: activity_tokens_def dest: public_dests)

lemma public_activity: "isWebhookActivity v \<Longrightarrow> unique_keys v \<Longrightarrow> public v"
  unfolding isWebhookActivity_def
  by (erule public_is_object [OF _ _ _ public_names(6)])
    (auto simp: ACTIVITY_KEYS_def dest: public_dests public_counts public_tokens public_evidence)

lemma public_activities: "isWebhookActivityArray v \<Longrightarrow> unique_keys v \<Longrightarrow> public v"
  unfolding isWebhookActivityArray_def by (erule public_array) (rule public_activity)

lemma public_absent_parts:
  "absent_or (isWebhookContextFootprint c) v \<Longrightarrow> unique_keys v \<Longrightarrow> public v"
  "absent_or (\<lambda>x. isWebhookActivityArray x \<and> P x) v \<Longrightarrow> unique_keys v \<Longrightarrow> public v"
  by (erule public_absent_or; auto dest: public_context public_activities)+

lemmas public_parts = public_dests public_evidence public_coverage public_sender public_repository public_activities public_absent_parts

section \<open>Events\<close>

lemma public_run_event:
  assumes "run_event url eventType r"
  shows "list_all (\<lambda>k. unique_keys (js_prop r k) \<longrightarrow> public (js_prop r k)) RUN_KEYS"
  using assms by (auto simp: run_event_def RUN_KEYS_def dest: public_parts)

lemma public_event_usage:
  assumes "event_usage r"
  shows "list_all (\<lambda>k. unique_keys (js_prop r k) \<longrightarrow> public (js_prop r k)) USAGE_KEYS"
  using assms by (auto simp: event_usage_def USAGE_KEYS_def USAGE_FIELDS_def dest: public_dests)

lemma public_intent: "isStrictPublicationIntent v \<Longrightarrow> unique_keys v \<Longrightarrow> public v"
  unfolding isStrictPublicationIntent_def
  by (erule public_is_object [OF _ _ _ public_names(7)]) (auto simp: PUBLICATION_INTENT_KEYS_def dest: public_dests)

lemma public_commit: "isStrictCommitAttributedWebhookEvent url v \<Longrightarrow> unique_keys v \<Longrightarrow> public v"
  unfolding isStrictCommitAttributedWebhookEvent_def
  by (erule public_is_object [OF _ _ _ public_names(8)])
    (auto simp: COMMIT_ATTRIBUTED_WEBHOOK_KEYS_def dest: public_dests public_sender public_repository)

lemma public_started: "isStrictRunStartedWebhookEvent url v \<Longrightarrow> unique_keys v \<Longrightarrow> public v"
  unfolding isStrictRunStartedWebhookEvent_def
  by (erule public_is_object [OF _ _ _ public_names(9)])
    (auto simp: RUN_STARTED_WEBHOOK_KEYS_def list_all_append public_run_event dest: public_dests)

lemma public_updated: "isStrictRunUpdatedWebhookEvent url v \<Longrightarrow> unique_keys v \<Longrightarrow> public v"
  unfolding isStrictRunUpdatedWebhookEvent_def
  by (erule public_is_object [OF _ _ _ public_names(10)])
    (auto simp: RUN_UPDATED_WEBHOOK_KEYS_def list_all_append public_run_event public_event_usage
      dest: public_dests public_activities public_absent_parts)

lemma public_ended: "isStrictRunEndedWebhookEvent url v \<Longrightarrow> unique_keys v \<Longrightarrow> public v"
  unfolding isStrictRunEndedWebhookEvent_def
  by (erule public_is_object [OF _ _ _ public_names(11)])
    (auto simp: RUN_ENDED_WEBHOOK_KEYS_def list_all_append public_run_event public_event_usage
      dest: public_dests public_activities public_absent_parts)

lemma published_public: "validatePublication url v = [] \<Longrightarrow> unique_keys v \<Longrightarrow> public v"
  by (auto simp: validatePublication_def isStrictWebhookEvent_def split: if_splits
    intro: public_intent public_commit public_started public_updated public_ended)

text \<open>
  C26: nothing private is published. A publication intent or a webhook event that passes the guard has, at
  any depth, no member whose name is that of a content attribute or matches a pattern that attributions
  forbid; so no prompt, no response, no path of a file, no diff and no argument or result of a tool can be
  in it under such a name.
\<close>

theorem publication_has_no_content:
  assumes "validatePublication url v = []" "unique_keys v"
  shows "\<not> exposes (\<lambda>_. False) (\<lambda>k. isContentAttribute k \<or> isAttributionForbiddenKey k) v"
proof -
  have "private_key = (\<lambda>k. isContentAttribute k \<or> isAttributionForbiddenKey k)" by (simp add: fun_eq_iff private_key_def)
  then show ?thesis using published_public [OF assms] by (simp add: public_def)
qed

definition sample_publication :: js where
  "sample_publication = JObj [(''schemaVersion'', JNum 1), (''owner'', JStr ''o''), (''repository'', JStr ''r''),
     (''commitSha'', JStr (replicate 40 CHR ''a'')), (''publicationVersion'', JNum 1), (''state'', JStr ''active''),
     (''coverage'', JStr ''complete''), (''attributedQueryCount'', JNum 2),
     (''firstVerifiedAt'', JStr ''2025-01-01T00:00:00.000Z''), (''updatedAt'', JStr ''2025-01-01T00:00:00.000Z'')]"

theorem publication_has_no_content_witness:
  "\<not> exposes (\<lambda>_. False) (\<lambda>k. isContentAttribute k \<or> isAttributionForbiddenKey k) sample_publication"
proof (rule publication_has_no_content [of "\<lambda>_. None"])
  show "validatePublication (\<lambda>_. None) sample_publication = []" by code_simp
  show "unique_keys sample_publication" by (simp add: sample_publication_def)
qed

end
