(* ===== verification/UsageAtoms.thy ===== *)
theory UsageAtoms
  imports ExecutionNodes JsDate Types
begin

text \<open>
  What the usage pipeline of the engine reads and makes, as the agent's contract declares it
  (packages/agent-contract/src/index.ts), and the classification of models by their provider
  (packages/engine/src/modelProviderResolution.ts). Unions of names are strings, as in
  \<open>ExecutionNodes\<close>; literal fields (the schema version, \<open>shadow\<close>, \<open>production\<close>) are left out. The six
  token counts of a run are one record, as the code spreads them from one object.
\<close>

section \<open>Evidence\<close>

record usage_atom =
  ua_atomId :: string
  ua_correlationId :: string
  ua_queryId :: "string option"
  ua_sessionId :: "string option"
  ua_requestId :: "string option"
  ua_owningActivityId :: "string option"
  ua_ownershipConflictActivityIds :: "string list option"
  ua_signal :: "string option"
  ua_sourceId :: "string option"
  ua_profileVersion :: "string option"
  ua_provider :: string
  ua_runtime :: string
  ua_kind :: "string option"
  ua_authority :: string
  ua_completionMode :: "string option"
  ua_usagePurpose :: "string option"
  ua_billingContext :: "string option"
  ua_providerReportedNanoUsd :: "rat option"
  ua_model :: "string option"
  ua_modelProvider :: "string option"
  ua_modelProviderBasis :: "string option"
  ua_modelProviderClassificationVersion :: "string option"
  ua_inputTokens :: "rat option"
  ua_outputTokens :: "rat option"
  ua_cacheReadInputTokens :: "rat option"
  ua_cacheCreationInputTokens :: "rat option"
  ua_reasoningOutputTokens :: "rat option"
  ua_startedAt :: string
  ua_endedAt :: "string option"

record activity_atom =
  aa_activityId :: string
  aa_queryId :: string
  aa_sessionId :: "string option"
  aa_requestId :: "string option"
  aa_invocationId :: "string option"
  aa_childSessionId :: "string option"
  aa_provider :: string
  aa_kind :: string
  aa_name :: string
  aa_outcome :: string
  aa_outcomeAuthority :: "string option"
  aa_durationMs :: "rat option"
  aa_resultSizeBytes :: "rat option"
  aa_providerReportedResultTokens :: "rat option"
  aa_sensitiveAuditEvidence :: "string list option"
  aa_evidenceBasis :: "string option"
  aa_evidenceSourceId :: "string option"
  aa_startedAt :: string
  aa_endedAt :: "string option"

record occurrence =
  oc_queryId :: string
  oc_sessionId :: string
  oc_lifecycleVisibility :: "string option"
  oc_provider :: string
  oc_runtime :: string
  oc_startedAt :: string
  oc_completedAt :: "string option"
  oc_completionEvidence :: "string option"
  oc_completionOutcome :: "string option"
  oc_repositoryKey :: "string option"
  oc_promptState :: string
  oc_promptText :: "string option"
  oc_evidence :: string

section \<open>Runs\<close>

record token_totals =
  tk_inputTokens :: rat
  tk_outputTokens :: rat
  tk_cacheReadInputTokens :: rat
  tk_cacheCreationInputTokens :: rat
  tk_reasoningOutputTokens :: rat
  tk_totalTokens :: rat

record breakdown_row =
  bd_breakdownId :: string
  bd_parentBreakdownId :: "string option"
  bd_kind :: string
  bd_name :: string
  bd_count :: rat
  bd_failureCount :: rat
  bd_rejectedCount :: "rat option"
  bd_unknownCount :: "rat option"
  bd_totalDurationMs :: "rat option"
  bd_resultSizeBytes :: "rat option"
  bd_providerReportedResultTokens :: "rat option"
  bd_sensitiveAuditEvidence :: "string list option"
  bd_inputTokens :: "rat option"
  bd_outputTokens :: "rat option"
  bd_cacheReadInputTokens :: "rat option"
  bd_cacheCreationInputTokens :: "rat option"
  bd_reasoningOutputTokens :: "rat option"
  bd_totalTokens :: "rat option"
  bd_attributionBasis :: string
  bd_coverage :: string

record context_footprint =
  cf_accumulatedInputTokens :: rat
  cf_initialInputContextTokens :: "rat option"
  cf_latestInputContextTokens :: "rat option"
  cf_peakInputContextTokens :: "rat option"
  cf_cacheReadInputTokens :: rat
  cf_cacheCreationInputTokens :: rat
  cf_observedLlmRequestCount :: rat
  cf_contextGrowthInputTokens :: "rat option"
  cf_contextGrowthRatio :: "rat option"
  cf_basis :: string
  cf_coverage :: string

record shadow_run =
  sr_runId :: string
  sr_correlationId :: string
  sr_queryId :: "string option"
  sr_sessionId :: "string option"
  sr_repositoryKey :: "string option"
  sr_promptState :: string
  sr_promptText :: "string option"
  sr_provider :: string
  sr_runtime :: string
  sr_model :: "string option"
  sr_models :: "string list option"
  sr_modelProvider :: "string option"
  sr_modelProviderBasis :: "string option"
  sr_modelProviderClassificationVersion :: "string option"
  sr_authority :: string
  sr_tokens :: token_totals
  sr_estimatedNanoUsd :: "rat option"
  sr_usageValueNanoUsd :: "rat option"
  sr_costEstimateBasis :: "string option"
  sr_pricingVersion :: "string option"
  sr_billingContext :: string
  sr_costCoverage :: string
  sr_evidenceGrade :: string
  sr_toolCallCount :: "rat option"
  sr_breakdown :: "breakdown_row list option"
  sr_context :: "context_footprint option"
  sr_completionEvidence :: "string option"
  sr_completionOutcome :: "string option"
  sr_startedAt :: string
  sr_endedAt :: "string option"
  sr_warnings :: "string list"

record shadow_totals =
  ts_runCount :: rat
  ts_tokens :: token_totals
  ts_estimatedNanoUsd :: rat
  ts_usageValueNanoUsd :: rat
  ts_pricedRunCount :: rat
  ts_unpricedRunCount :: rat

record comparison_values =
  cv_runCount :: rat
  cv_inputTokens :: rat
  cv_outputTokens :: rat
  cv_totalTokens :: rat
  cv_estimatedNanoUsd :: rat

record shadow_comparison =
  sc_expected :: comparison_values
  sc_actual :: comparison_values
  sc_matches :: bool
  sc_reasonCodes :: "string list"

text \<open>\<open>atom.queryId ?? atom.correlationId\<close>, of an atom and of a run.\<close>

definition atom_query :: "usage_atom \<Rightarrow> string" where
  "atom_query a = nullish (ua_queryId a) (ua_correlationId a)"

definition query_of_run :: "shadow_run \<Rightarrow> string" where
  "query_of_run r = nullish (sr_queryId r) (sr_correlationId r)"

definition or0 :: "rat option \<Rightarrow> rat" where
  "or0 x = nullish x 0"

lemma or0_simps [simp]: "or0 None = 0" "or0 (Some x) = x"
  by (simp_all add: or0_def)

section \<open>The provider of a model\<close>

definition MODEL_PROVIDER_CLASSIFICATION_VERSION :: string where
  "MODEL_PROVIDER_CLASSIFICATION_VERSION = ''model-provider-rules-2026-06-15''"

record provider_resolution =
  pr_modelProvider :: string
  pr_modelProviderBasis :: string
  pr_modelProviderClassificationVersion :: string

definition KNOWN_PROVIDERS :: "string list" where
  "KNOWN_PROVIDERS = [''anthropic'', ''openai'', ''google'', ''microsoft'', ''github'', ''cursor'', ''unknown'']"

definition normalizeKnownProvider :: "string option \<Rightarrow> string option" where
  "normalizeKnownProvider value =
     (if \<not> truthy value then None
      else let normalized = map (\<lambda>c. if c = CHR ''_'' then CHR ''-'' else c) (to_lower (trim (the value)));
               candidate = nullish (map_of [(''azure-openai'', ''openai''), (''google-ai'', ''google''),
                 (''google-vertex-ai'', ''google'')] normalized) normalized
           in if candidate \<in> set KNOWN_PROVIDERS then Some candidate else None)"

definition MODEL_RULES :: "(string \<times> string) list" where
  "MODEL_RULES = [
     (''^(?:anthropic[./:-])?claude(?:[./:-]|$)'', ''anthropic''),
     (''^(?:google[./:-])?gemini(?:[./:-]|$)'', ''google''),
     (''^(?:openai[./:-])?(?:gpt(?:[ ./:-]|$)|o[1345](?:[./:-]|$)|chat-latest$)'', ''openai''),
     (''^(?:microsoft[./:-])?mai-code(?:[./:-]|$)'', ''microsoft''),
     (''^(?:github[./:-])?raptor(?:[./:-]|$)'', ''github''),
     (''^(?:cursor[./:-])?(?:auto|composer)(?:[ ./:-]|$)'', ''cursor'')]"

definition inferModelProvider :: "string option \<Rightarrow> string option" where
  "inferModelProvider model =
     (if \<not> truthy model then None
      else map_option snd (find (\<lambda>(p, _). rx_matches False p (to_lower (trim (the model)))) MODEL_RULES))"

definition resolution :: "string \<Rightarrow> string \<Rightarrow> provider_resolution" where
  "resolution provider basis = \<lparr>pr_modelProvider = provider, pr_modelProviderBasis = basis,
     pr_modelProviderClassificationVersion = MODEL_PROVIDER_CLASSIFICATION_VERSION\<rparr>"

definition resolveModelProvider :: "string option \<Rightarrow> string option \<Rightarrow> provider_resolution" where
  "resolveModelProvider model reportedProvider =
     (let reported = normalizeKnownProvider reportedProvider; inferred = inferModelProvider model
      in if truthy reported \<and> reported \<noteq> Some ''unknown''
         then if truthy inferred \<and> inferred \<noteq> reported
              then if reported = Some ''github'' then resolution (the inferred) ''model_name_rule''
                   else resolution ''unknown'' ''conflict''
              else resolution (the reported) ''telemetry_reported''
         else if truthy inferred then resolution (the inferred) ''model_name_rule'' else resolution ''unknown'' ''unknown'')"

end
