(* ===== verification/UsageSurfaces.thy ===== *)
theory UsageSurfaces
  imports UsageAtoms
begin

text \<open>
  Which evidence of usage counts (packages/engine/src/shadowUsage.ts): the order of authorities, the
  surface of a provider that is preferred, the revisions of one request, the enrichment of a run of
  Copilot, and the footprint of the context. \<open>{...fallback, ...atom}\<close> takes an optional property from
  the fallback when the atom does not have it.
\<close>

section \<open>Authorities and surfaces\<close>

definition authorityPriority :: "string \<Rightarrow> string list" where
  "authorityPriority provider =
     (if provider = ''github-copilot'' then [''run'', ''request'', ''turn'', ''model'', ''event'']
      else if provider = ''claude-code'' then [''request'', ''turn'', ''model'', ''event'', ''run'']
      else [''turn'', ''request'', ''model'', ''event'', ''run''])"

fun index_of :: "'a \<Rightarrow> 'a list \<Rightarrow> int" where
  "index_of x [] = -1"
| "index_of x (y # ys) = (if x = y then 0 else let i = index_of x ys in if i < 0 then -1 else i + 1)"

text \<open>\<open>[...atoms].sort((a, b) => priority.indexOf(a.authority) - priority.indexOf(b.authority))[0].authority\<close>\<close>

definition first_authority :: "string \<Rightarrow> usage_atom list \<Rightarrow> string" where
  "first_authority provider atoms =
     ua_authority (hd (sort_by (\<lambda>a b. index_of (ua_authority a) (authorityPriority provider)
        \<le> index_of (ua_authority b) (authorityPriority provider)) atoms))"

definition tokenSum :: "(usage_atom \<Rightarrow> rat option) \<Rightarrow> usage_atom list \<Rightarrow> rat" where
  "tokenSum field atoms = sum_list (map (\<lambda>a. or0 (field a)) atoms)"

definition usageRevisionWeight :: "usage_atom \<Rightarrow> rat" where
  "usageRevisionWeight a = or0 (ua_inputTokens a) + or0 (ua_outputTokens a) + or0 (ua_cacheReadInputTokens a)
     + or0 (ua_cacheCreationInputTokens a) + or0 (ua_reasoningOutputTokens a)"

definition compareClaudeUsageRevision :: "collation \<Rightarrow> usage_atom \<Rightarrow> usage_atom \<Rightarrow> rat" where
  "compareClaudeUsageRevision lc left right =
     (let ended = lc (nullish (ua_endedAt left) '''') (nullish (ua_endedAt right) '''');
          usage = usageRevisionWeight left - usageRevisionWeight right
      in if ended \<noteq> 0 then of_int ended else if usage \<noteq> 0 then usage
         else of_int (lc (ua_atomId left) (ua_atomId right)))"

definition revision_key :: "usage_atom \<Rightarrow> string" where
  "revision_key a = (if truthy (ua_requestId a) then ''request:'' @ the (ua_requestId a) else ''atom:'' @ ua_atomId a)"

definition truthy_texts :: "(usage_atom \<Rightarrow> string option) \<Rightarrow> usage_atom list \<Rightarrow> string list" where
  "truthy_texts field atoms = List.map_filter (\<lambda>a. if truthy (field a) then field a else None) atoms"

definition conflict_ids :: "usage_atom list \<Rightarrow> string list" where
  "conflict_ids atoms = concat (map (\<lambda>a. nullish (ua_ownershipConflictActivityIds a) []) atoms)"

definition reconcile_revisions :: "collation \<Rightarrow> usage_atom list \<Rightarrow> usage_atom" where
  "reconcile_revisions lc revisions =
     (let preferred = last (sort_by (\<lambda>l r. compareClaudeUsageRevision lc l r \<le> 0) revisions);
          explicitConflicts = conflict_ids revisions;
          resolvedOwners = truthy_texts ua_owningActivityId revisions;
          ownerIds = take 8 (sort (dedup (explicitConflicts @ resolvedOwners)))
      in if explicitConflicts \<noteq> [] \<or> length (dedup resolvedOwners) > 1
         then preferred\<lparr>ua_owningActivityId := None, ua_ownershipConflictActivityIds := Some ownerIds\<rparr>
         else if resolvedOwners \<noteq> [] \<and> \<not> truthy (ua_owningActivityId preferred)
         then preferred\<lparr>ua_owningActivityId := Some (hd resolvedOwners)\<rparr> else preferred)"

definition reconcileClaudeRequestRevisions :: "collation \<Rightarrow> usage_atom list \<Rightarrow> usage_atom list" where
  "reconcileClaudeRequestRevisions lc atoms = map (reconcile_revisions lc) (map_values (group_by revision_key atoms))"

definition trace_surface :: "string \<Rightarrow> string \<Rightarrow> usage_atom \<Rightarrow> bool" where
  "trace_surface profile source a = (ua_signal a = Some ''traces'' \<or> ua_profileVersion a = Some profile \<or> ua_sourceId a = Some source)"

text \<open>\<open>{...fallback, ...atom, providerReportedNanoUsd: ..., startedAt: ..., endedAt: ...}\<close>\<close>

definition with_fallback :: "usage_atom \<Rightarrow> usage_atom \<Rightarrow> usage_atom" where
  "with_fallback fallback a = \<lparr>
     ua_atomId = ua_atomId a, ua_correlationId = ua_correlationId a,
     ua_queryId = or_else (ua_queryId a) (ua_queryId fallback),
     ua_sessionId = or_else (ua_sessionId a) (ua_sessionId fallback),
     ua_requestId = or_else (ua_requestId a) (ua_requestId fallback),
     ua_owningActivityId = or_else (ua_owningActivityId a) (ua_owningActivityId fallback),
     ua_ownershipConflictActivityIds = or_else (ua_ownershipConflictActivityIds a) (ua_ownershipConflictActivityIds fallback),
     ua_signal = or_else (ua_signal a) (ua_signal fallback),
     ua_sourceId = or_else (ua_sourceId a) (ua_sourceId fallback),
     ua_profileVersion = or_else (ua_profileVersion a) (ua_profileVersion fallback),
     ua_provider = ua_provider a, ua_runtime = ua_runtime a,
     ua_kind = or_else (ua_kind a) (ua_kind fallback),
     ua_authority = ua_authority a,
     ua_completionMode = or_else (ua_completionMode a) (ua_completionMode fallback),
     ua_usagePurpose = or_else (ua_usagePurpose a) (ua_usagePurpose fallback),
     ua_billingContext = or_else (ua_billingContext a) (ua_billingContext fallback),
     ua_providerReportedNanoUsd = or_else (ua_providerReportedNanoUsd a) (ua_providerReportedNanoUsd fallback),
     ua_model = or_else (ua_model a) (ua_model fallback),
     ua_modelProvider = or_else (ua_modelProvider a) (ua_modelProvider fallback),
     ua_modelProviderBasis = or_else (ua_modelProviderBasis a) (ua_modelProviderBasis fallback),
     ua_modelProviderClassificationVersion =
       or_else (ua_modelProviderClassificationVersion a) (ua_modelProviderClassificationVersion fallback),
     ua_inputTokens = or_else (ua_inputTokens a) (ua_inputTokens fallback),
     ua_outputTokens = or_else (ua_outputTokens a) (ua_outputTokens fallback),
     ua_cacheReadInputTokens = or_else (ua_cacheReadInputTokens a) (ua_cacheReadInputTokens fallback),
     ua_cacheCreationInputTokens = or_else (ua_cacheCreationInputTokens a) (ua_cacheCreationInputTokens fallback),
     ua_reasoningOutputTokens = or_else (ua_reasoningOutputTokens a) (ua_reasoningOutputTokens fallback),
     ua_startedAt = (if ua_startedAt fallback < ua_startedAt a then ua_startedAt fallback else ua_startedAt a),
     ua_endedAt = or_else (ua_endedAt a) (ua_endedAt fallback)\<rparr>"

text \<open>The Claude branch of \<open>preferProviderUsageSurface\<close>.\<close>

definition claude_surface :: "collation \<Rightarrow> usage_atom list \<Rightarrow> usage_atom list" where
  "claude_surface lc atoms =
     (let is_trace = trace_surface ''claude-code-enhanced-traces-beta-v1'' ''otlp_claude_code_traces'';
          traceAtoms = filter is_trace atoms
      in if traceAtoms = [] then reconcileClaudeRequestRevisions lc atoms
         else let reconciledLogs = reconcileClaudeRequestRevisions lc (filter (\<lambda>a. \<not> is_trace a) atoms);
                  reconciledTraces = reconcileClaudeRequestRevisions lc traceAtoms;
                  logsByRequest = map_from (\<lambda>a. the (ua_requestId a)) (filter (\<lambda>a. truthy (ua_requestId a)) reconciledLogs);
                  traceRequests = truthy_texts ua_requestId reconciledTraces;
                  enriched = map (\<lambda>a. if truthy (ua_requestId a)
                    then (case map_get logsByRequest (the (ua_requestId a)) of None \<Rightarrow> a | Some fallback \<Rightarrow> with_fallback fallback a)
                    else a) reconciledTraces;
                  unmatchedLogs = filter (\<lambda>a. \<not> truthy (ua_requestId a) \<or> the (ua_requestId a) \<notin> set traceRequests) reconciledLogs
              in reconcileClaudeRequestRevisions lc (enriched @ unmatchedLogs))"

definition preferProviderUsageSurface :: "collation \<Rightarrow> string \<Rightarrow> usage_atom list \<Rightarrow> usage_atom list" where
  "preferProviderUsageSurface lc provider atoms =
     (if provider = ''github-copilot''
      then let traceAtoms = filter (trace_surface ''copilot-otlp-traces-v1'' ''otlp_github_copilot_traces'') atoms
           in if traceAtoms \<noteq> [] then traceAtoms else atoms
      else if provider = ''codex''
      then let traceAtoms = filter (trace_surface ''codex-otel-traces-v1'' ''otlp_codex_traces'') atoms
           in if traceAtoms \<noteq> [] then traceAtoms else atoms
      else if provider \<noteq> ''claude-code'' then atoms
      else claude_surface lc atoms)"

section \<open>Enriching a run of Copilot\<close>

definition atom_resolution :: "usage_atom \<Rightarrow> provider_resolution" where
  "atom_resolution a = \<lparr>pr_modelProvider = the (ua_modelProvider a),
     pr_modelProviderBasis = nullish (ua_modelProviderBasis a) ''unknown'',
     pr_modelProviderClassificationVersion = nullish (ua_modelProviderClassificationVersion a) ''unknown''\<rparr>"

text \<open>\<open>(x ?? 0) > 0 ? x : sum || x\<close>\<close>

definition positive_or :: "rat option \<Rightarrow> rat \<Rightarrow> rat option" where
  "positive_or x s = (if or0 x > 0 then x else if s \<noteq> 0 then Some s else x)"

definition enrich_run_atom :: "usage_atom \<Rightarrow> usage_atom list \<Rightarrow> string list \<Rightarrow> usage_atom" where
  "enrich_run_atom runAtom corroborating models =
     (let resolutions = map atom_resolution (filter (\<lambda>a. truthy (ua_modelProvider a)) corroborating);
          providers = dedup (map pr_modelProvider resolutions);
          provider = (if length providers = 1 then find (\<lambda>x. pr_modelProvider x = hd providers) resolutions else None);
          unresolved = (ua_modelProvider runAtom = None \<or> ua_modelProvider runAtom = Some ''unknown'')
      in runAtom\<lparr>ua_model := or_else (ua_model runAtom) (if models = [] then None else Some (hd models)),
           ua_modelProvider := (if unresolved then or_else (map_option pr_modelProvider provider) (ua_modelProvider runAtom)
             else ua_modelProvider runAtom),
           ua_modelProviderBasis := (if unresolved then or_else (map_option pr_modelProviderBasis provider) (ua_modelProviderBasis runAtom)
             else ua_modelProviderBasis runAtom),
           ua_modelProviderClassificationVersion := (if unresolved
             then or_else (map_option pr_modelProviderClassificationVersion provider) (ua_modelProviderClassificationVersion runAtom)
             else ua_modelProviderClassificationVersion runAtom),
           ua_cacheReadInputTokens := positive_or (ua_cacheReadInputTokens runAtom) (tokenSum ua_cacheReadInputTokens corroborating),
           ua_cacheCreationInputTokens := positive_or (ua_cacheCreationInputTokens runAtom) (tokenSum ua_cacheCreationInputTokens corroborating),
           ua_reasoningOutputTokens := positive_or (ua_reasoningOutputTokens runAtom) (tokenSum ua_reasoningOutputTokens corroborating)\<rparr>)"

definition enrichCopilotRunSelection :: "collation \<Rightarrow> usage_atom list \<Rightarrow> usage_atom list \<Rightarrow> usage_atom list" where
  "enrichCopilotRunSelection lc selected accountingAtoms =
     (case selected of
        [] \<Rightarrow> selected
      | runAtom # _ \<Rightarrow>
          let corroborating = preferProviderUsageSurface lc ''github-copilot''
                (filter (\<lambda>a. ua_authority a = ''model'' \<or> ua_authority a = ''turn'') accountingAtoms);
              models = dedup (truthy_texts ua_model corroborating)
          in if corroborating = [] then selected
             else if tokenSum ua_inputTokens selected \<noteq> tokenSum ua_inputTokens corroborating
               \<or> tokenSum ua_outputTokens selected \<noteq> tokenSum ua_outputTokens corroborating then selected
             else if length models > 1 \<or> (truthy (ua_model runAtom) \<and> length models = 1 \<and> hd models \<noteq> the (ua_model runAtom))
             then selected
             else [enrich_run_atom runAtom corroborating models])"

definition enrichProviderUsageSurface :: "collation \<Rightarrow> string \<Rightarrow> string \<Rightarrow> usage_atom list \<Rightarrow> usage_atom list \<Rightarrow> usage_atom list" where
  "enrichProviderUsageSurface lc provider authority selected accountingAtoms =
     (if provider \<noteq> ''github-copilot'' \<or> authority \<noteq> ''run'' \<or> length selected \<noteq> 1 then selected
      else enrichCopilotRunSelection lc selected accountingAtoms)"

definition billingContext :: "usage_atom list \<Rightarrow> string" where
  "billingContext atoms =
     (let contexts = dedup (map (\<lambda>a. nullish (ua_billingContext a)
            (if ua_provider a = ''github-copilot'' then ''github-copilot'' else ''unknown'')) atoms)
      in if length contexts = 1 then hd contexts else ''unknown'')"

section \<open>The footprint of the context\<close>

definition inputContextFootprint :: "usage_atom \<Rightarrow> rat" where
  "inputContextFootprint a = or0 (ua_inputTokens a) + or0 (ua_cacheReadInputTokens a) + or0 (ua_cacheCreationInputTokens a)"

definition safe_count :: "rat option \<Rightarrow> bool" where
  "safe_count x = (case x of None \<Rightarrow> False | Some q \<Rightarrow> is_integer q \<and> 0 \<le> q \<and> q \<le> 9007199254740991)"

definition hasReportedInputContext :: "usage_atom \<Rightarrow> bool" where
  "hasReportedInputContext a = (safe_count (ua_inputTokens a) \<or> safe_count (ua_cacheReadInputTokens a)
     \<or> safe_count (ua_cacheCreationInputTokens a))"

definition context_le :: "collation \<Rightarrow> usage_atom \<Rightarrow> usage_atom \<Rightarrow> bool" where
  "context_le lc left right =
     (let c1 = lc (ua_startedAt left) (ua_startedAt right);
          c2 = lc (nullish (ua_endedAt left) '''') (nullish (ua_endedAt right) '''');
          c3 = lc (nullish (ua_requestId left) '''') (nullish (ua_requestId right) '''');
          c4 = lc (ua_atomId left) (ua_atomId right)
      in if c1 \<noteq> 0 then c1 \<le> 0 else if c2 \<noteq> 0 then c2 \<le> 0 else if c3 \<noteq> 0 then c3 \<le> 0 else if c4 \<noteq> 0 then c4 \<le> 0
         else inputContextFootprint left \<le> inputContextFootprint right)"

definition snapshot_key :: "usage_atom \<Rightarrow> string" where
  "snapshot_key a = join ''|'' [ua_atomId a, num_to_string (or0 (ua_inputTokens a)),
     num_to_string (or0 (ua_cacheReadInputTokens a)), num_to_string (or0 (ua_cacheCreationInputTokens a))]"

fun first_snapshots :: "string list \<Rightarrow> usage_atom list \<Rightarrow> usage_atom list" where
  "first_snapshots seen [] = []"
| "first_snapshots seen (a # atoms) =
     (if snapshot_key a \<in> set seen then first_snapshots seen atoms
      else a # first_snapshots (seen @ [snapshot_key a]) atoms)"

definition dedupeContextSnapshots :: "usage_atom list \<Rightarrow> usage_atom list" where
  "dedupeContextSnapshots atoms = first_snapshots [] atoms"

definition contextUsageSurface :: "collation \<Rightarrow> string \<Rightarrow> string \<Rightarrow> usage_atom list \<Rightarrow> usage_atom list \<Rightarrow> usage_atom list \<Rightarrow> usage_atom list" where
  "contextUsageSurface lc provider authority selected accountingAtoms contextAtoms =
     (let rawCandidates = filter (\<lambda>a. ua_authority a = authority) (filter (\<lambda>a. ua_kind a \<noteq> Some ''lifecycle'') contextAtoms);
          enriched = enrichProviderUsageSurface lc provider authority
            (preferProviderUsageSurface lc provider rawCandidates) accountingAtoms
      in dedupeContextSnapshots (if enriched \<noteq> [] then enriched else selected))"

definition contextFootprintFromUsageAtoms :: "collation \<Rightarrow> rat \<Rightarrow> rat \<Rightarrow> rat \<Rightarrow> string \<Rightarrow> usage_atom list \<Rightarrow> context_footprint option" where
  "contextFootprintFromUsageAtoms lc accumulated cacheRead cacheCreation coverage contextAtoms =
     (let requests = sort_by (context_le lc) (filter hasReportedInputContext contextAtoms);
          footprints = map inputContextFootprint requests;
          initial = hd footprints; peak = Max (set footprints)
      in if requests = [] then None
         else Some \<lparr>cf_accumulatedInputTokens = accumulated,
           cf_initialInputContextTokens = Some initial, cf_latestInputContextTokens = Some (last footprints),
           cf_peakInputContextTokens = Some peak,
           cf_cacheReadInputTokens = cacheRead, cf_cacheCreationInputTokens = cacheCreation,
           cf_observedLlmRequestCount = of_nat (length requests),
           cf_contextGrowthInputTokens = Some (max 0 (peak - initial)),
           cf_contextGrowthRatio = (if initial > 0 then Some (peak / initial) else None),
           cf_basis = ''derived_from_usage_atoms'', cf_coverage = coverage\<rparr>)"

end
