(* ===== verification/ActivityMerging.thy ===== *)
theory ActivityMerging
  imports UsageAtoms "HOL-Library.Monad_Syntax"
begin

text \<open>
  The preferred activities of the engine (packages/engine/src/shadowUsage.ts): reports of one activity are
  found by a union-find over the keys that they share, and each component is merged into one activity. The
  loop of \<open>find\<close> is a partial function on the list of parents, which it shortens as it goes.
\<close>

section \<open>Identity of activities\<close>

definition activity_identity :: "activity_atom \<Rightarrow> activity" where
  "activity_identity a = \<lparr>ac_provider = aa_provider a, ac_queryId = aa_queryId a, ac_kind = aa_kind a,
     ac_name = aa_name a, ac_requestId = aa_requestId a, ac_invocationId = aa_invocationId a\<rparr>"

definition same_exact :: "activity_atom \<Rightarrow> activity_atom \<Rightarrow> bool" where
  "same_exact a b = sameExactSafeActivityIdentity (activity_identity a) (activity_identity b)"

definition sameExactActivityIdentity :: "activity_atom list \<Rightarrow> activity_atom \<Rightarrow> bool" where
  "sameExactActivityIdentity activities candidate = list_all (\<lambda>a. same_exact a candidate) activities"

definition isNativePermissionRejection :: "activity_atom \<Rightarrow> bool" where
  "isNativePermissionRejection a = (aa_outcome a = ''rejected'' \<and> aa_outcomeAuthority a = Some ''native_permission_decision'')"

definition activity_scope :: "activity_atom \<Rightarrow> string" where
  "activity_scope a = aa_provider a @ ''|'' @ aa_queryId a"

definition activityOwnershipKey :: "activity_atom \<Rightarrow> string" where
  "activityOwnershipKey a = activity_scope a @ ''|'' @ aa_activityId a"

definition safeActivityInvocationIdentityKey :: "activity_atom \<Rightarrow> string option" where
  "safeActivityInvocationIdentityKey a =
     (if truthy (aa_invocationId a) then Some (''invocation|'' @ the (aa_invocationId a))
      else if truthy (aa_requestId a) then Some (''request|'' @ the (aa_requestId a)) else None)"

definition nativePermissionDecisionGroupKey :: "activity_atom \<Rightarrow> string option" where
  "nativePermissionDecisionGroupKey a =
     (if \<not> isNativePermissionRejection a then None
      else Some (case safeActivityInvocationIdentityKey a of
          Some identity \<Rightarrow> activity_scope a @ ''|'' @ identity @ ''|semantic|'' @ aa_kind a @ ''|'' @ aa_name a
        | None \<Rightarrow> activity_scope a @ ''|activity|'' @ aa_activityId a))"

definition nativePermissionDecisionGroupForActivity :: "activity_atom \<Rightarrow> activity_atom list \<Rightarrow> string option" where
  "nativePermissionDecisionGroupForActivity a decisions =
     (case nativePermissionDecisionGroupKey a of
        Some own \<Rightarrow> Some own
      | None \<Rightarrow> (case find (\<lambda>d. same_exact d a) decisions of
            None \<Rightarrow> None
          | Some d \<Rightarrow> nativePermissionDecisionGroupKey d))"

definition activity_keys :: "activity_atom list \<Rightarrow> activity_atom \<Rightarrow> string list" where
  "activity_keys decisions a =
     (let componentScope = (case nativePermissionDecisionGroupForActivity a decisions of
            Some g \<Rightarrow> ''native_permission_decision|'' @ g | None \<Rightarrow> ''generic'');
          prefix = activity_scope a @ ''|'' @ componentScope
      in [prefix @ ''|activity|'' @ aa_activityId a]
         @ (case safeActivityInvocationIdentityKey a of Some k \<Rightarrow> [prefix @ ''|identity|'' @ k] | None \<Rightarrow> [])
         @ (if truthy (aa_childSessionId a) then [prefix @ ''|child|'' @ the (aa_childSessionId a)] else []))"

section \<open>Union and find\<close>

text \<open>The position is out of the list of parents only in a state that the code does not reach.\<close>

partial_function (option) uf_find :: "nat list \<Rightarrow> nat \<Rightarrow> (nat list \<times> nat) option" where
  "uf_find parents index =
     (if parents ! index = index then Some (parents, index)
      else let parents' = parents[index := parents ! (parents ! index)]
           in uf_find parents' (parents' ! index))"

definition uf_union :: "nat list \<Rightarrow> nat \<Rightarrow> nat \<Rightarrow> nat list option" where
  "uf_union parents left right = do {
     (p1, leftRoot) \<leftarrow> uf_find parents left;
     (p2, rightRoot) \<leftarrow> uf_find p1 right;
     Some (if leftRoot \<noteq> rightRoot then p2[rightRoot := leftRoot] else p2) }"

type_synonym uf_state = "nat list \<times> (string, nat) jsmap"

fun join_keys :: "nat \<Rightarrow> string list \<Rightarrow> uf_state \<Rightarrow> uf_state option" where
  "join_keys index [] st = Some st"
| "join_keys index (key # ks) (parents, owners) = do {
     parents' \<leftarrow> (case map_get owners key of None \<Rightarrow> Some parents | Some owner \<Rightarrow> uf_union parents index owner);
     join_keys index ks (parents', map_set key index owners) }"

fun join_activities :: "(nat \<times> string list) list \<Rightarrow> uf_state \<Rightarrow> uf_state option" where
  "join_activities [] st = Some st"
| "join_activities ((index, ks) # rest) st = do { st' \<leftarrow> join_keys index ks st; join_activities rest st' }"

fun group_roots :: "(nat \<times> activity_atom) list \<Rightarrow> nat list \<Rightarrow> (nat, activity_atom list) jsmap \<Rightarrow> (nat, activity_atom list) jsmap option" where
  "group_roots [] parents grouped = Some grouped"
| "group_roots ((index, a) # rest) parents grouped = do {
     (parents', rt) \<leftarrow> uf_find parents index;
     group_roots rest parents' (map_set rt (nullish (map_get grouped rt) [] @ [a]) grouped) }"

text \<open>The components, in the order of their first activities.\<close>

definition activity_components :: "activity_atom list \<Rightarrow> activity_atom list list option" where
  "activity_components activities =
     (let n = length activities; decisions = filter isNativePermissionRejection activities
      in do {
        (parents, owners) \<leftarrow> join_activities (zip [0..<n] (map (activity_keys decisions) activities)) ([0..<n], []);
        grouped \<leftarrow> group_roots (zip [0..<n] activities) parents [];
        Some (map_values grouped) })"

section \<open>Merging a component\<close>

definition isExactSubagentLifecycleActivity :: "activity_atom \<Rightarrow> bool" where
  "isExactSubagentLifecycleActivity a = (aa_kind a = ''subagent'' \<and> aa_evidenceBasis a = Some ''subagent_hook''
     \<and> aa_evidenceSourceId a = Some ''hook_claude_code_lifecycle'')"

definition isExactClaudeAgentLaunchActivity :: "activity_atom \<Rightarrow> bool" where
  "isExactClaudeAgentLaunchActivity a = (aa_provider a = ''claude-code'' \<and> aa_kind a = ''subagent''
     \<and> truthy (aa_childSessionId a) \<and> aa_evidenceBasis a = Some ''subagent_hook''
     \<and> aa_evidenceSourceId a = Some ''hook_claude_code_tools'')"

definition activityPreference :: "activity_atom \<Rightarrow> nat" where
  "activityPreference a =
     (if aa_evidenceBasis a = Some ''subagent_hook'' then 16 else if aa_evidenceBasis a = Some ''tool_hook'' then 12
      else if aa_evidenceBasis a = Some ''trace_span'' then 8 else 0)
     + (if truthy (aa_endedAt a) then 4 else 0)
     + (if aa_outcome a = ''failure'' \<or> aa_outcome a = ''rejected'' then 2 else if aa_outcome a = ''success'' then 1 else 0)"

definition preferred_activity :: "activity_atom list \<Rightarrow> activity_atom" where
  "preferred_activity activities =
     foldl (\<lambda>c a. if activityPreference c \<le> activityPreference a then a else c) (hd activities) (tl activities)"

definition rejectedNativePermissionDecision :: "activity_atom \<Rightarrow> activity_atom" where
  "rejectedNativePermissionDecision d = d\<lparr>aa_requestId := (if truthy (aa_requestId d) then aa_requestId d else None),
     aa_childSessionId := None, aa_outcome := ''rejected'', aa_outcomeAuthority := Some ''native_permission_decision'',
     aa_durationMs := None, aa_resultSizeBytes := None, aa_providerReportedResultTokens := None,
     aa_sensitiveAuditEvidence := None, aa_endedAt := None\<rparr>"

text \<open>\<open>Math.max(...values) || undefined\<close>\<close>

definition max_or_none :: "(activity_atom \<Rightarrow> rat option) \<Rightarrow> activity_atom list \<Rightarrow> rat option" where
  "max_or_none field activities =
     (let m = Max (set (map (\<lambda>a. or0 (field a)) activities)) in if m = 0 then None else Some m)"

definition first_text :: "(activity_atom \<Rightarrow> string option) \<Rightarrow> activity_atom list \<Rightarrow> string option" where
  "first_text field activities = Option.bind (find (\<lambda>a. truthy (field a)) activities) field"

definition merged_outcome :: "activity_atom list \<Rightarrow> activity_atom option \<Rightarrow> string" where
  "merged_outcome activities semanticAuthority =
     (if list_ex (\<lambda>a. aa_outcome a = ''rejected'' \<and> sameExactActivityIdentity activities a) activities then ''rejected''
      else if list_ex (\<lambda>a. aa_outcome a = ''failure'') activities then ''failure''
      else case semanticAuthority of
          Some s \<Rightarrow> aa_outcome s
        | None \<Rightarrow> if list_ex (\<lambda>a. aa_outcome a = ''success'') activities then ''success'' else ''unknown'')"

definition merge_reports :: "activity_atom list \<Rightarrow> activity_atom" where
  "merge_reports activities =
     (let preferred = preferred_activity activities;
          trace = find (\<lambda>a. aa_evidenceBasis a = Some ''trace_span'') activities;
          childLifecycle = find isExactSubagentLifecycleActivity activities;
          agentLaunch = find isExactClaudeAgentLaunchActivity activities;
          semanticAuthority = or_else childLifecycle agentLaunch;
          canonical = nullish (or_else semanticAuthority trace) preferred;
          rejected = find (\<lambda>a. aa_outcome a = ''rejected'' \<and> sameExactActivityIdentity activities a) activities;
          timing = (if childLifecycle \<noteq> None then filter isExactSubagentLifecycleActivity activities
            else if agentLaunch \<noteq> None then filter isExactClaudeAgentLaunchActivity activities else activities);
          semantic = nullish semanticAuthority preferred;
          rejectedAuthority = Option.bind rejected aa_outcomeAuthority;
          ends = sort (List.map_filter (\<lambda>a. if truthy (aa_endedAt a) then aa_endedAt a else None) timing)
      in canonical\<lparr>aa_activityId := aa_activityId (nullish trace canonical),
           aa_name := aa_name semantic, aa_kind := aa_kind semantic,
           aa_outcome := merged_outcome activities semanticAuthority,
           aa_outcomeAuthority := (if truthy rejectedAuthority then rejectedAuthority else None),
           aa_requestId := or_else (aa_requestId preferred) (aa_requestId canonical),
           aa_invocationId := or_else (or_else (aa_invocationId preferred) (aa_invocationId canonical))
             (first_text aa_invocationId activities),
           aa_childSessionId := or_else (or_else (or_else (Option.bind semanticAuthority aa_childSessionId)
             (aa_childSessionId preferred)) (aa_childSessionId canonical)) (first_text aa_childSessionId activities),
           aa_startedAt := (if timing = [] then aa_startedAt canonical else hd (sort (map aa_startedAt timing))),
           aa_endedAt := (if ends = [] then None else Some (last ends)),
           aa_durationMs := max_or_none aa_durationMs timing,
           aa_resultSizeBytes := max_or_none aa_resultSizeBytes activities,
           aa_providerReportedResultTokens := max_or_none aa_providerReportedResultTokens activities\<rparr>)"

definition mergeActivityEvidence :: "activity_atom list \<Rightarrow> activity_atom" where
  "mergeActivityEvidence activities =
     (case find (\<lambda>a. isNativePermissionRejection a \<and> sameExactActivityIdentity activities a) activities of
        Some decision \<Rightarrow> rejectedNativePermissionDecision decision
      | None \<Rightarrow> merge_reports activities)"

definition activityOwnershipConflict :: "activity_atom list \<Rightarrow> bool" where
  "activityOwnershipConflict activities =
     (length (dedup (List.map_filter (\<lambda>a. if truthy (aa_childSessionId a) then aa_childSessionId a else None) activities)) > 1
      \<or> length (dedup (map (\<lambda>a. aa_kind a @ ''|'' @ aa_name a) activities)) > 1)"

record preferred_projection =
  pj_activities :: "activity_atom list"
  pj_ownershipAliases :: "(string, string list) jsmap"
  pj_ownershipConflicts :: "string list"

definition component_aliases :: "activity_atom list \<Rightarrow> string list" where
  "component_aliases component =
     (if isNativePermissionRejection (mergeActivityEvidence component) then [] else sort (dedup (map aa_activityId component)))"

definition component_key :: "activity_atom list \<Rightarrow> string" where
  "component_key component = activityOwnershipKey (mergeActivityEvidence component)"

definition projection_of_components :: "activity_atom list list \<Rightarrow> preferred_projection" where
  "projection_of_components components = \<lparr>pj_activities = map mergeActivityEvidence components,
     pj_ownershipAliases = fold (\<lambda>c m. map_set (component_key c) (component_aliases c) m) components [],
     pj_ownershipConflicts = dedup (map component_key (filter activityOwnershipConflict components))\<rparr>"

definition projectPreferredSafeActivities :: "activity_atom list \<Rightarrow> preferred_projection option" where
  "projectPreferredSafeActivities activities = map_option projection_of_components (activity_components activities)"

definition preferredSafeActivities :: "activity_atom list \<Rightarrow> activity_atom list option" where
  "preferredSafeActivities activities = map_option pj_activities (projectPreferredSafeActivities activities)"

end
