(* ===== verification/RunBreakdowns.thy ===== *)
theory RunBreakdowns
  imports UsageSurfaces ActivityMerging
begin

text \<open>
  The breakdown of a run by its activities (packages/engine/src/shadowUsage.ts): every group of activities
  of one kind and name gets the usage of the atoms that its activities own, as long as the allocations stay
  within the totals of the run, and what is left is a row of its own. \<open>hash\<close> is the hexadecimal SHA-256 of
  a text.
\<close>

section \<open>Tokens\<close>

definition emptyTokenTotals :: token_totals where
  "emptyTokenTotals = \<lparr>tk_inputTokens = 0, tk_outputTokens = 0, tk_cacheReadInputTokens = 0,
     tk_cacheCreationInputTokens = 0, tk_reasoningOutputTokens = 0, tk_totalTokens = 0\<rparr>"

text \<open>The five sums over atoms, with their total.\<close>

definition atom_totals :: "usage_atom list \<Rightarrow> token_totals" where
  "atom_totals atoms = \<lparr>tk_inputTokens = tokenSum ua_inputTokens atoms, tk_outputTokens = tokenSum ua_outputTokens atoms,
     tk_cacheReadInputTokens = tokenSum ua_cacheReadInputTokens atoms,
     tk_cacheCreationInputTokens = tokenSum ua_cacheCreationInputTokens atoms,
     tk_reasoningOutputTokens = tokenSum ua_reasoningOutputTokens atoms,
     tk_totalTokens = tokenSum ua_inputTokens atoms + tokenSum ua_outputTokens atoms\<rparr>"

definition tokenTotalsFromBreakdown :: "breakdown_row \<Rightarrow> token_totals" where
  "tokenTotalsFromBreakdown row = \<lparr>tk_inputTokens = or0 (bd_inputTokens row), tk_outputTokens = or0 (bd_outputTokens row),
     tk_cacheReadInputTokens = or0 (bd_cacheReadInputTokens row),
     tk_cacheCreationInputTokens = or0 (bd_cacheCreationInputTokens row),
     tk_reasoningOutputTokens = or0 (bd_reasoningOutputTokens row),
     tk_totalTokens = nullish (bd_totalTokens row) (or0 (bd_inputTokens row) + or0 (bd_outputTokens row))\<rparr>"

definition addTokenTotals :: "token_totals \<Rightarrow> token_totals \<Rightarrow> token_totals" where
  "addTokenTotals target v =
     (let i = tk_inputTokens target + tk_inputTokens v; out = tk_outputTokens target + tk_outputTokens v
      in \<lparr>tk_inputTokens = i, tk_outputTokens = out,
          tk_cacheReadInputTokens = tk_cacheReadInputTokens target + tk_cacheReadInputTokens v,
          tk_cacheCreationInputTokens = tk_cacheCreationInputTokens target + tk_cacheCreationInputTokens v,
          tk_reasoningOutputTokens = tk_reasoningOutputTokens target + tk_reasoningOutputTokens v,
          tk_totalTokens = i + out\<rparr>)"

definition addTokenTotalsToBreakdown :: "breakdown_row \<Rightarrow> token_totals \<Rightarrow> breakdown_row" where
  "addTokenTotalsToBreakdown target v =
     (let i = or0 (bd_inputTokens target) + tk_inputTokens v; out = or0 (bd_outputTokens target) + tk_outputTokens v
      in target\<lparr>bd_inputTokens := Some i, bd_outputTokens := Some out,
          bd_cacheReadInputTokens := Some (or0 (bd_cacheReadInputTokens target) + tk_cacheReadInputTokens v),
          bd_cacheCreationInputTokens := Some (or0 (bd_cacheCreationInputTokens target) + tk_cacheCreationInputTokens v),
          bd_reasoningOutputTokens := Some (or0 (bd_reasoningOutputTokens target) + tk_reasoningOutputTokens v),
          bd_totalTokens := Some (i + out)\<rparr>)"

definition subtractTokenTotals :: "token_totals \<Rightarrow> token_totals \<Rightarrow> token_totals" where
  "subtractTokenTotals t allocated =
     (let i = max 0 (tk_inputTokens t - tk_inputTokens allocated); out = max 0 (tk_outputTokens t - tk_outputTokens allocated)
      in \<lparr>tk_inputTokens = i, tk_outputTokens = out,
          tk_cacheReadInputTokens = max 0 (tk_cacheReadInputTokens t - tk_cacheReadInputTokens allocated),
          tk_cacheCreationInputTokens = max 0 (tk_cacheCreationInputTokens t - tk_cacheCreationInputTokens allocated),
          tk_reasoningOutputTokens = max 0 (tk_reasoningOutputTokens t - tk_reasoningOutputTokens allocated),
          tk_totalTokens = i + out\<rparr>)"

definition hasTokenTotals :: "token_totals \<Rightarrow> bool" where
  "hasTokenTotals v = (tk_inputTokens v > 0 \<or> tk_outputTokens v > 0 \<or> tk_cacheReadInputTokens v > 0
     \<or> tk_cacheCreationInputTokens v > 0 \<or> tk_reasoningOutputTokens v > 0)"

section \<open>Conflicts of ownership\<close>

definition atom_owners :: "usage_atom list \<Rightarrow> string list" where
  "atom_owners revisions = dedup (concat (map (\<lambda>a. (if truthy (ua_owningActivityId a) then [the (ua_owningActivityId a)] else [])
     @ nullish (ua_ownershipConflictActivityIds a) []) revisions))"

definition has_conflict :: "usage_atom \<Rightarrow> bool" where
  "has_conflict a = (nullish (ua_ownershipConflictActivityIds a) [] \<noteq> [])"

text \<open>Of Claude, the requests whose revisions have more than one owner.\<close>

definition disputed_requests :: "usage_atom list \<Rightarrow> (string \<times> usage_atom list) list" where
  "disputed_requests atoms =
     filter (\<lambda>(_, revisions). list_ex has_conflict revisions \<or> length (atom_owners revisions) > 1)
       (group_by (\<lambda>a. the (ua_requestId a)) (filter (\<lambda>a. truthy (ua_requestId a)) atoms))"

definition conflictingRequestIds :: "string \<Rightarrow> usage_atom list \<Rightarrow> string list" where
  "conflictingRequestIds provider atoms =
     List.map_filter ua_requestId (filter has_conflict atoms)
     @ (if provider = ''claude-code'' then map fst (disputed_requests atoms) else [])"

definition conflictingOwnerIds :: "string \<Rightarrow> usage_atom list \<Rightarrow> string list" where
  "conflictingOwnerIds provider atoms =
     conflict_ids atoms @ (if provider = ''claude-code'' then concat (map (atom_owners \<circ> snd) (disputed_requests atoms)) else [])"

section \<open>The row of a group\<close>

text \<open>What a breakdown is made for; \<open>ownership\<close> has the aliases and the conflicts of the activities.\<close>

record breakdown_input =
  bi_collation :: collation
  bi_hash :: "string \<Rightarrow> string"
  bi_queryId :: string
  bi_provider :: string
  bi_atoms :: "usage_atom list"
  bi_totals :: token_totals
  bi_aliases :: "(string, string list) jsmap"
  bi_conflicts :: "string list"

definition breakdownId :: "(string \<Rightarrow> string) \<Rightarrow> string \<Rightarrow> string \<Rightarrow> string" where
  "breakdownId hash queryId key = ''brk_'' @ hash (queryId @ ''|'' @ key)"

definition ownership_ids :: "breakdown_input \<Rightarrow> activity_atom \<Rightarrow> string list" where
  "ownership_ids bi a =
     (if activityOwnershipKey a \<in> set (bi_conflicts bi) then []
      else nullish (map_get (bi_aliases bi) (activityOwnershipKey a)) [aa_activityId a])"

text \<open>The atoms that the activities of a group own, of the best authority.\<close>

definition group_selected :: "breakdown_input \<Rightarrow> activity_atom list \<Rightarrow> usage_atom list" where
  "group_selected bi acts =
     (let ids = concat (map (ownership_ids bi) acts);
          conflicting = conflictingRequestIds (bi_provider bi) (bi_atoms bi);
          candidates = filter (\<lambda>a. truthy (ua_owningActivityId a) \<and> the (ua_owningActivityId a) \<in> set ids
            \<and> (case ua_requestId a of None \<Rightarrow> True | Some r \<Rightarrow> r \<notin> set conflicting)) (bi_atoms bi)
      in if candidates = [] then []
         else preferProviderUsageSurface (bi_collation bi) (bi_provider bi)
           (filter (\<lambda>a. ua_authority a = first_authority (bi_provider bi) candidates) candidates))"

definition within_totals :: "token_totals \<Rightarrow> token_totals \<Rightarrow> token_totals \<Rightarrow> bool" where
  "within_totals allocated usage t = (tk_inputTokens allocated + tk_inputTokens usage \<le> tk_inputTokens t
     \<and> tk_outputTokens allocated + tk_outputTokens usage \<le> tk_outputTokens t
     \<and> tk_cacheReadInputTokens allocated + tk_cacheReadInputTokens usage \<le> tk_cacheReadInputTokens t
     \<and> tk_cacheCreationInputTokens allocated + tk_cacheCreationInputTokens usage \<le> tk_cacheCreationInputTokens t
     \<and> tk_reasoningOutputTokens allocated + tk_reasoningOutputTokens usage \<le> tk_reasoningOutputTokens t)"

definition child_sessions :: "activity_atom list \<Rightarrow> string list" where
  "child_sessions acts = dedup (List.map_filter (\<lambda>a. if truthy (aa_childSessionId a) then aa_childSessionId a else None) acts)"

definition everyExactChildOwned :: "breakdown_input \<Rightarrow> activity_atom list \<Rightarrow> usage_atom list \<Rightarrow> bool" where
  "everyExactChildOwned bi acts selected =
     (\<not> list_ex (\<lambda>a. truthy (aa_childSessionId a)) acts
      \<or> length (child_sessions acts) = length acts
        \<and> list_all (\<lambda>a. list_ex (\<lambda>i. i \<in> set (truthy_texts ua_owningActivityId selected)) (ownership_ids bi a)) acts)"

definition row_coverage :: "breakdown_input \<Rightarrow> activity_atom list \<Rightarrow> usage_atom list \<Rightarrow> bool \<Rightarrow> string" where
  "row_coverage bi acts selected attributed =
     (if \<not> attributed then ''unavailable''
      else if list_ex (\<lambda>i. i \<in> set (conflictingOwnerIds (bi_provider bi) (bi_atoms bi))) (concat (map (ownership_ids bi) acts))
        \<or> aa_kind (hd acts) = ''subagent'' \<and> \<not> everyExactChildOwned bi acts selected
      then ''partial'' else ''complete'')"

definition count_of :: "(activity_atom \<Rightarrow> bool) \<Rightarrow> activity_atom list \<Rightarrow> rat" where
  "count_of test acts = of_nat (length (filter test acts))"

definition group_row :: "breakdown_input \<Rightarrow> string \<Rightarrow> activity_atom list \<Rightarrow> token_totals \<Rightarrow> breakdown_row" where
  "group_row bi key acts allocated =
     (let selected = group_selected bi acts; usage = atom_totals selected;
          attributed = (selected \<noteq> [] \<and> within_totals allocated usage (bi_totals bi));
          amount = (\<lambda>f. if attributed then Some (f usage) else None);
          rejected = count_of (\<lambda>a. aa_outcome a = ''rejected'') acts
      in \<lparr>bd_breakdownId = breakdownId (bi_hash bi) (bi_queryId bi) key, bd_parentBreakdownId = None,
          bd_kind = aa_kind (hd acts), bd_name = aa_name (hd acts), bd_count = of_nat (length acts),
          bd_failureCount = count_of (\<lambda>a. aa_outcome a = ''failure'' \<or> aa_outcome a = ''rejected'') acts,
          bd_rejectedCount = (if rejected > 0 then Some rejected else None),
          bd_unknownCount = Some (count_of (\<lambda>a. aa_outcome a = ''unknown'') acts),
          bd_totalDurationMs = opt_sum (map aa_durationMs acts),
          bd_resultSizeBytes = opt_sum (map aa_resultSizeBytes acts),
          bd_providerReportedResultTokens = opt_sum (map aa_providerReportedResultTokens acts),
          bd_sensitiveAuditEvidence = Some (concat (map (\<lambda>a. nullish (aa_sensitiveAuditEvidence a) []) acts)),
          bd_inputTokens = amount tk_inputTokens, bd_outputTokens = amount tk_outputTokens,
          bd_cacheReadInputTokens = amount tk_cacheReadInputTokens,
          bd_cacheCreationInputTokens = amount tk_cacheCreationInputTokens,
          bd_reasoningOutputTokens = amount tk_reasoningOutputTokens, bd_totalTokens = amount tk_totalTokens,
          bd_attributionBasis = (if attributed then ''trace_descendant'' else ''activity_only''),
          bd_coverage = row_coverage bi acts selected attributed\<rparr>)"

section \<open>The rows of a run\<close>

text \<open>The loop over the groups; what a row allocates is what it holds.\<close>

fun group_rows :: "breakdown_input \<Rightarrow> (string \<times> activity_atom list) list \<Rightarrow> token_totals \<Rightarrow> breakdown_row list \<times> token_totals" where
  "group_rows bi [] allocated = ([], allocated)"
| "group_rows bi ((key, acts) # rest) allocated =
     (let row = group_row bi key acts allocated;
          (rows, final) = group_rows bi rest (addTokenTotals allocated (tokenTotalsFromBreakdown row))
      in (row # rows, final))"

definition unallocated_row :: "breakdown_input \<Rightarrow> token_totals \<Rightarrow> bool \<Rightarrow> breakdown_row" where
  "unallocated_row bi left activities = \<lparr>bd_breakdownId = breakdownId (bi_hash bi) (bi_queryId bi) ''unallocated'',
     bd_parentBreakdownId = None, bd_kind = ''unallocated'', bd_name = ''Unallocated run usage'', bd_count = 1,
     bd_failureCount = 0, bd_rejectedCount = None, bd_unknownCount = None, bd_totalDurationMs = None,
     bd_resultSizeBytes = None, bd_providerReportedResultTokens = None, bd_sensitiveAuditEvidence = None,
     bd_inputTokens = Some (tk_inputTokens left), bd_outputTokens = Some (tk_outputTokens left),
     bd_cacheReadInputTokens = Some (tk_cacheReadInputTokens left),
     bd_cacheCreationInputTokens = Some (tk_cacheCreationInputTokens left),
     bd_reasoningOutputTokens = Some (tk_reasoningOutputTokens left),
     bd_totalTokens = Some (tk_inputTokens left + tk_outputTokens left),
     bd_attributionBasis = ''unavailable'', bd_coverage = (if activities then ''partial'' else ''unavailable'')\<rparr>"

definition row_le :: "collation \<Rightarrow> breakdown_row \<Rightarrow> breakdown_row \<Rightarrow> bool" where
  "row_le lc a b =
     (if bd_kind a = ''unallocated'' then False else if bd_kind b = ''unallocated'' then True
      else if bd_count a \<noteq> bd_count b then bd_count b < bd_count a else lc (bd_name a) (bd_name b) \<le> 0)"

definition runBreakdown :: "breakdown_input \<Rightarrow> activity_atom list \<Rightarrow> breakdown_row list" where
  "runBreakdown bi activities =
     (let deduped = map_values (map_from aa_activityId activities);
          (rows, allocated) = group_rows bi (group_by (\<lambda>a. aa_kind a @ '':'' @ aa_name a) deduped) emptyTokenTotals;
          left = subtractTokenTotals (bi_totals bi) allocated
      in sort_by (row_le (bi_collation bi))
           (rows @ (if tk_totalTokens left > 0 \<or> tk_cacheReadInputTokens left > 0 \<or> tk_cacheCreationInputTokens left > 0
                      \<or> tk_reasoningOutputTokens left > 0
                    then [unallocated_row bi left (activities \<noteq> [])] else [])))"

end
