(* ===== verification/UsagePricing.thy ===== *)
theory UsagePricing
  imports UsageSurfaces
begin

text \<open>
  Pricing of usage in the engine (packages/engine/src/shadowUsage.ts): the table of rates, the rate of an
  atom in a billing context, the price of the selected atoms and their value outside a subscription.
\<close>

section \<open>Rates\<close>

record rate =
  rt_context :: string
  rt_version :: string
  rt_ignoreCase :: bool
  rt_pattern :: string
  rt_input :: rat
  rt_output :: rat
  rt_cacheRead :: "rat option"
  rt_cacheCreation :: "rat option"
  rt_reasoningOutput :: "rat option"
  rt_minInputTokens :: "rat option"
  rt_maxInputTokens :: "rat option"
  rt_effectiveFrom :: "string option"
  rt_effectiveUntil :: "string option"

definition ENGINE_COPILOT_VERSION :: string where
  "ENGINE_COPILOT_VERSION = ''copilot-pricing-2026-07-01''"

definition ENGINE_OPENAI_VERSION :: string where
  "ENGINE_OPENAI_VERSION = ''openai-pricing-2026-07-01-standard''"

definition ENGINE_ANTHROPIC_VERSION :: string where
  "ENGINE_ANTHROPIC_VERSION = ''anthropic-pricing-2026-07-01-first-party''"

definition ENGINE_CURSOR_VERSION :: string where
  "ENGINE_CURSOR_VERSION = ''cursor-pricing-2026-07-03''"

text \<open>A row with the required members only.\<close>

definition catalog_rate :: "string \<Rightarrow> string \<Rightarrow> bool \<Rightarrow> string \<Rightarrow> rat \<Rightarrow> rat \<Rightarrow> rate" where
  "catalog_rate context version ignoreCase p input output = \<lparr>rt_context = context, rt_version = version,
     rt_ignoreCase = ignoreCase, rt_pattern = p, rt_input = input, rt_output = output, rt_cacheRead = None,
     rt_cacheCreation = None, rt_reasoningOutput = None, rt_minInputTokens = None, rt_maxInputTokens = None,
     rt_effectiveFrom = None, rt_effectiveUntil = None\<rparr>"

text \<open>The rows by context, in the order of the table; eight digits, which it writes with a repetition, are
  written out.\<close>

definition OPENAI_RATES :: "rate list" where
  "OPENAI_RATES = [
     (catalog_rate ''openai-direct'' ENGINE_OPENAI_VERSION False (pat ''^gpt-5~.5$'') (5) (30))\<lparr>rt_cacheRead := Some (1 / 2), rt_maxInputTokens := Some (272000)\<rparr>,
     (catalog_rate ''openai-direct'' ENGINE_OPENAI_VERSION False (pat ''^gpt-5~.5$'') (10) (45))\<lparr>rt_cacheRead := Some (1), rt_minInputTokens := Some (272001)\<rparr>,
     (catalog_rate ''openai-direct'' ENGINE_OPENAI_VERSION False (pat ''^gpt-5~.5-pro$'') (30) (180))\<lparr>rt_maxInputTokens := Some (272000)\<rparr>,
     (catalog_rate ''openai-direct'' ENGINE_OPENAI_VERSION False (pat ''^gpt-5~.5-pro$'') (60) (270))\<lparr>rt_minInputTokens := Some (272001)\<rparr>,
     (catalog_rate ''openai-direct'' ENGINE_OPENAI_VERSION False (pat ''^gpt-5~.4$'') (5 / 2) (15))\<lparr>rt_cacheRead := Some (1 / 4), rt_maxInputTokens := Some (272000)\<rparr>,
     (catalog_rate ''openai-direct'' ENGINE_OPENAI_VERSION False (pat ''^gpt-5~.4$'') (5) (45 / 2))\<lparr>rt_cacheRead := Some (1 / 2), rt_minInputTokens := Some (272001)\<rparr>,
     (catalog_rate ''openai-direct'' ENGINE_OPENAI_VERSION False (pat ''^gpt-5~.4-mini$'') (3 / 4) (9 / 2))\<lparr>rt_cacheRead := Some (3 / 40)\<rparr>,
     (catalog_rate ''openai-direct'' ENGINE_OPENAI_VERSION False (pat ''^gpt-5~.4-nano$'') (1 / 5) (5 / 4))\<lparr>rt_cacheRead := Some (1 / 50)\<rparr>,
     (catalog_rate ''openai-direct'' ENGINE_OPENAI_VERSION False (pat ''^gpt-5~.4-pro$'') (30) (180))\<lparr>rt_maxInputTokens := Some (272000)\<rparr>,
     (catalog_rate ''openai-direct'' ENGINE_OPENAI_VERSION False (pat ''^gpt-5~.4-pro$'') (60) (270))\<lparr>rt_minInputTokens := Some (272001)\<rparr>,
     (catalog_rate ''openai-direct'' ENGINE_OPENAI_VERSION False (pat ''^chat-latest$'') (5) (30))\<lparr>rt_cacheRead := Some (1 / 2)\<rparr>,
     (catalog_rate ''openai-direct'' ENGINE_OPENAI_VERSION False (pat ''^gpt-5~.3-codex$'') (7 / 4) (14))\<lparr>rt_cacheRead := Some (7 / 40)\<rparr>]"

definition ANTHROPIC_RATES :: "rate list" where
  "ANTHROPIC_RATES = [
     (catalog_rate ''anthropic-direct'' ENGINE_ANTHROPIC_VERSION False (pat ''^claude-fable-5$'') (10) (50))\<lparr>rt_cacheRead := Some (1)\<rparr>,
     (catalog_rate ''anthropic-direct'' ENGINE_ANTHROPIC_VERSION False (pat ''^claude-mythos-5$'') (10) (50))\<lparr>rt_cacheRead := Some (1)\<rparr>,
     (catalog_rate ''anthropic-direct'' ENGINE_ANTHROPIC_VERSION False (pat ''^claude-opus-4(?:~.8|-8|~.7|-7|~.6|-6|~.5|-5)$'') (5) (25))\<lparr>rt_cacheRead := Some (1 / 2)\<rparr>,
     (catalog_rate ''anthropic-direct'' ENGINE_ANTHROPIC_VERSION False (pat ''^claude-opus-4(?:~.1|-1)$'') (15) (75))\<lparr>rt_cacheRead := Some (3 / 2)\<rparr>,
     (catalog_rate ''anthropic-direct'' ENGINE_ANTHROPIC_VERSION False (pat ''^claude-sonnet-5$'') (3) (15))\<lparr>rt_cacheRead := Some (3 / 10), rt_effectiveFrom := Some ''2026-09-01''\<rparr>,
     (catalog_rate ''anthropic-direct'' ENGINE_ANTHROPIC_VERSION False (pat ''^claude-sonnet-5$'') (2) (10))\<lparr>rt_cacheRead := Some (1 / 5), rt_effectiveFrom := Some ''2026-07-01'', rt_effectiveUntil := Some ''2026-09-01''\<rparr>,
     (catalog_rate ''anthropic-direct'' ENGINE_ANTHROPIC_VERSION False (pat ''^claude-sonnet-4(?:~.5|-5|~.6|-6)?$'') (3) (15))\<lparr>rt_cacheRead := Some (3 / 10)\<rparr>,
     (catalog_rate ''anthropic-direct'' ENGINE_ANTHROPIC_VERSION False (pat ''^claude-haiku-4(?:~.5|-5)?(?:-~d~d~d~d~d~d~d~d)?$'') (1) (5))\<lparr>rt_cacheRead := Some (1 / 10)\<rparr>]"

definition COPILOT_RATES :: "rate list" where
  "COPILOT_RATES = [
     (catalog_rate ''github-copilot'' ENGINE_COPILOT_VERSION True (pat ''^gpt[- ]5[- ]mini$'') (1 / 4) (2))\<lparr>rt_cacheRead := Some (1 / 40)\<rparr>,
     (catalog_rate ''github-copilot'' ENGINE_COPILOT_VERSION True (pat ''^gpt[- ]5~.3[- ]codex$'') (7 / 4) (14))\<lparr>rt_cacheRead := Some (7 / 40)\<rparr>,
     (catalog_rate ''github-copilot'' ENGINE_COPILOT_VERSION True (pat ''^gpt[- ]5~.4$'') (5 / 2) (15))\<lparr>rt_cacheRead := Some (1 / 4), rt_maxInputTokens := Some (272000)\<rparr>,
     (catalog_rate ''github-copilot'' ENGINE_COPILOT_VERSION True (pat ''^gpt[- ]5~.4$'') (5) (45 / 2))\<lparr>rt_cacheRead := Some (1 / 2), rt_minInputTokens := Some (272001)\<rparr>,
     (catalog_rate ''github-copilot'' ENGINE_COPILOT_VERSION True (pat ''^gpt[- ]5~.4[- ]mini$'') (3 / 4) (9 / 2))\<lparr>rt_cacheRead := Some (3 / 40)\<rparr>,
     (catalog_rate ''github-copilot'' ENGINE_COPILOT_VERSION True (pat ''^gpt[- ]5~.4[- ]nano$'') (1 / 5) (5 / 4))\<lparr>rt_cacheRead := Some (1 / 50)\<rparr>,
     (catalog_rate ''github-copilot'' ENGINE_COPILOT_VERSION True (pat ''^gpt[- ]5~.5$'') (5) (30))\<lparr>rt_cacheRead := Some (1 / 2), rt_maxInputTokens := Some (272000)\<rparr>,
     (catalog_rate ''github-copilot'' ENGINE_COPILOT_VERSION True (pat ''^gpt[- ]5~.5$'') (10) (45))\<lparr>rt_cacheRead := Some (1), rt_minInputTokens := Some (272001)\<rparr>,
     (catalog_rate ''github-copilot'' ENGINE_COPILOT_VERSION True (pat ''^claude[- ]haiku[- ]4(?:~.5|-5)$'') (1) (5))\<lparr>rt_cacheRead := Some (1 / 10), rt_cacheCreation := Some (5 / 4)\<rparr>,
     (catalog_rate ''github-copilot'' ENGINE_COPILOT_VERSION True (pat ''^claude[- ]sonnet[- ]4$'') (3) (15))\<lparr>rt_cacheRead := Some (3 / 10), rt_cacheCreation := Some (15 / 4)\<rparr>,
     (catalog_rate ''github-copilot'' ENGINE_COPILOT_VERSION True (pat ''^claude[- ]sonnet[- ]4(?:~.5|-5)$'') (3) (15))\<lparr>rt_cacheRead := Some (3 / 10), rt_cacheCreation := Some (15 / 4)\<rparr>,
     (catalog_rate ''github-copilot'' ENGINE_COPILOT_VERSION True (pat ''^claude[- ]sonnet[- ]4(?:~.6|-6)$'') (3) (15))\<lparr>rt_cacheRead := Some (3 / 10), rt_cacheCreation := Some (15 / 4)\<rparr>,
     (catalog_rate ''github-copilot'' ENGINE_COPILOT_VERSION True (pat ''^claude[- ]opus[- ]4(?:~.5|-5|~.6|-6|~.7|-7|~.8|-8)$'') (5) (25))\<lparr>rt_cacheRead := Some (1 / 2), rt_cacheCreation := Some (25 / 4)\<rparr>,
     (catalog_rate ''github-copilot'' ENGINE_COPILOT_VERSION True (pat ''^claude[- ]sonnet[- ]5$'') (2) (10))\<lparr>rt_cacheRead := Some (1 / 5), rt_cacheCreation := Some (5 / 2)\<rparr>,
     (catalog_rate ''github-copilot'' ENGINE_COPILOT_VERSION True (pat ''^claude[- ]opus[- ]4(?:~.8|-8)(?:[- ]~(?fast(?:[- ]mode)?~)?)$'') (10) (50))\<lparr>rt_cacheRead := Some (1), rt_cacheCreation := Some (25 / 2)\<rparr>,
     (catalog_rate ''github-copilot'' ENGINE_COPILOT_VERSION True (pat ''^claude[- ]fable[- ]5$'') (10) (50))\<lparr>rt_cacheRead := Some (1), rt_cacheCreation := Some (25 / 2)\<rparr>,
     (catalog_rate ''github-copilot'' ENGINE_COPILOT_VERSION True (pat ''^gemini[- ]2~.5[- ]pro$'') (5 / 4) (10))\<lparr>rt_cacheRead := Some (1 / 8)\<rparr>,
     (catalog_rate ''github-copilot'' ENGINE_COPILOT_VERSION True (pat ''^gemini[- ]3[- ]flash$'') (1 / 2) (3))\<lparr>rt_cacheRead := Some (1 / 20)\<rparr>,
     (catalog_rate ''github-copilot'' ENGINE_COPILOT_VERSION True (pat ''^gemini[- ]3~.1[- ]pro$'') (2) (12))\<lparr>rt_cacheRead := Some (1 / 5), rt_maxInputTokens := Some (200000)\<rparr>,
     (catalog_rate ''github-copilot'' ENGINE_COPILOT_VERSION True (pat ''^gemini[- ]3~.1[- ]pro$'') (4) (18))\<lparr>rt_cacheRead := Some (2 / 5), rt_minInputTokens := Some (200001)\<rparr>,
     (catalog_rate ''github-copilot'' ENGINE_COPILOT_VERSION True (pat ''^gemini[- ]3~.5[- ]flash$'') (3 / 2) (9))\<lparr>rt_cacheRead := Some (3 / 20)\<rparr>,
     (catalog_rate ''github-copilot'' ENGINE_COPILOT_VERSION True (pat ''^raptor[- ]mini$'') (1 / 4) (2))\<lparr>rt_cacheRead := Some (1 / 40)\<rparr>,
     (catalog_rate ''github-copilot'' ENGINE_COPILOT_VERSION True (pat ''^mai[- ]code[- ]1[- ]flash$'') (3 / 4) (9 / 2))\<lparr>rt_cacheRead := Some (3 / 40)\<rparr>]"

definition CURSOR_RATES :: "rate list" where
  "CURSOR_RATES = [
     (catalog_rate ''cursor'' ENGINE_CURSOR_VERSION True (pat ''^(?:cursor[- ./:])?auto$'') (5 / 4) (6))\<lparr>rt_cacheRead := Some (1 / 4), rt_cacheCreation := Some (5 / 4)\<rparr>,
     (catalog_rate ''cursor'' ENGINE_CURSOR_VERSION True (pat ''^(?:cursor[- ./:])?composer[- ]1$'') (5 / 4) (10))\<lparr>rt_cacheRead := Some (1 / 8), rt_cacheCreation := Some (5 / 4)\<rparr>,
     (catalog_rate ''cursor'' ENGINE_CURSOR_VERSION True (pat ''^(?:cursor[- ./:])?composer[- ]1~.5$'') (7 / 2) (35 / 2))\<lparr>rt_cacheRead := Some (7 / 20), rt_cacheCreation := Some (7 / 2)\<rparr>,
     (catalog_rate ''cursor'' ENGINE_CURSOR_VERSION True (pat ''^(?:cursor[- ./:])?composer[- ]2$'') (1 / 2) (5 / 2))\<lparr>rt_cacheRead := Some (1 / 5), rt_cacheCreation := Some (1 / 2)\<rparr>,
     (catalog_rate ''cursor'' ENGINE_CURSOR_VERSION True (pat ''^(?:cursor[- ./:])?composer[- ]2[- ]fast$'') (3 / 2) (15 / 2))\<lparr>rt_cacheRead := Some (7 / 20), rt_cacheCreation := Some (3 / 2)\<rparr>,
     (catalog_rate ''cursor'' ENGINE_CURSOR_VERSION True (pat ''^(?:cursor[- ./:])?composer[- ]2~.5$'') (1 / 2) (5 / 2))\<lparr>rt_cacheRead := Some (1 / 5), rt_cacheCreation := Some (1 / 2)\<rparr>,
     (catalog_rate ''cursor'' ENGINE_CURSOR_VERSION True (pat ''^(?:cursor[- ./:])?composer[- ]2~.5[- ]fast$'') (3) (15))\<lparr>rt_cacheRead := Some (1 / 2), rt_cacheCreation := Some (3)\<rparr>]"

definition RATES :: "rate list" where
  "RATES = OPENAI_RATES @ ANTHROPIC_RATES @ COPILOT_RATES @ CURSOR_RATES"

section \<open>The rate of an atom\<close>

text \<open>A time that is not a number is \<open>None\<close>; a bound that is not a date is never passed.\<close>

definition rateEffectiveAt :: "rate \<Rightarrow> int option \<Rightarrow> bool" where
  "rateEffectiveAt r startedAtMs =
     (case startedAtMs of
        None \<Rightarrow> True
      | Some ms \<Rightarrow>
          (\<not> truthy (rt_effectiveFrom r) \<or> (case date_ms (the (rt_effectiveFrom r)) of None \<Rightarrow> False | Some lo \<Rightarrow> lo \<le> ms))
          \<and> (\<not> truthy (rt_effectiveUntil r) \<or> (case date_ms (the (rt_effectiveUntil r)) of None \<Rightarrow> False | Some hi \<Rightarrow> ms < hi)))"

definition rate_applies :: "string \<Rightarrow> usage_atom \<Rightarrow> rate \<Rightarrow> bool" where
  "rate_applies context a r = (rt_context r = context
     \<and> rx_matches (rt_ignoreCase r) (rt_pattern r) (the (ua_model a))
     \<and> (case rt_minInputTokens r of None \<Rightarrow> True | Some lo \<Rightarrow> lo \<le> or0 (ua_inputTokens a))
     \<and> (case rt_maxInputTokens r of None \<Rightarrow> True | Some hi \<Rightarrow> or0 (ua_inputTokens a) \<le> hi)
     \<and> rateEffectiveAt r (date_ms (ua_startedAt a)))"

definition rateForAtom :: "string \<Rightarrow> usage_atom \<Rightarrow> rate option" where
  "rateForAtom context a = (if \<not> truthy (ua_model a) then None else find (rate_applies context a) RATES)"

section \<open>The price of atoms\<close>

text \<open>Whether every component has a price, and the sum of the prices.\<close>

type_synonym priced = "bool \<times> rat"

definition price_component :: "rat \<times> rat option \<Rightarrow> priced \<Rightarrow> priced" where
  "price_component component acc =
     (if fst component > 0 \<and> snd component = None then (False, snd acc)
      else (fst acc, snd acc + js_round ((fst component * or0 (snd component) * 1000000000) / 1000000)))"

definition rate_components :: "usage_atom \<Rightarrow> rate \<Rightarrow> (rat \<times> rat option) list" where
  "rate_components a r =
     (let cacheRead = or0 (ua_cacheReadInputTokens a); cacheCreation = or0 (ua_cacheCreationInputTokens a)
      in [(max 0 (or0 (ua_inputTokens a) - cacheRead - cacheCreation), Some (rt_input r)),
          (cacheRead, rt_cacheRead r), (cacheCreation, rt_cacheCreation r),
          (or0 (ua_outputTokens a), Some (rt_output r)),
          (or0 (ua_reasoningOutputTokens a), Some (nullish (rt_reasoningOutput r) (rt_output r)))])"

definition priceAtomWithRate :: "usage_atom \<Rightarrow> rate \<Rightarrow> priced" where
  "priceAtomWithRate a r = fold price_component (rate_components a r) (True, 0)"

record price_projection =
  pp_complete :: bool
  pp_estimatedNanoUsd :: rat
  pp_pricingVersion :: "string option"
  pp_costEstimateBasis :: string

text \<open>The step of the two loops over atoms; \<open>acc\<close> has the versions of the rates too.\<close>

definition price_step :: "(usage_atom \<Rightarrow> rate option) \<Rightarrow> usage_atom \<Rightarrow> priced \<times> string list \<Rightarrow> priced \<times> string list" where
  "price_step rate_of a acc =
     (case rate_of a of
        None \<Rightarrow> ((False, snd (fst acc)), snd acc)
      | Some r \<Rightarrow> let p = priceAtomWithRate a r
          in ((fst (fst acc) \<and> fst p, snd (fst acc) + snd p), snd acc @ [rt_version r]))"

definition priceAtoms :: "usage_atom list \<Rightarrow> string \<Rightarrow> price_projection" where
  "priceAtoms atoms context =
     (if atoms = [] then \<lparr>pp_complete = False, pp_estimatedNanoUsd = 0, pp_pricingVersion = None, pp_costEstimateBasis = ''unavailable''\<rparr>
      else let reported = map ua_providerReportedNanoUsd atoms
           in if list_ex (\<lambda>v. v \<noteq> None) reported
              then \<lparr>pp_complete = list_all (\<lambda>v. v \<noteq> None) reported, pp_estimatedNanoUsd = sum_list (map or0 reported),
                pp_pricingVersion = Some ''provider-reported-v1'', pp_costEstimateBasis = ''provider_reported_estimate''\<rparr>
              else let ((complete, estimated), vs) = fold (price_step (rateForAtom context)) atoms ((True, 0), []);
                       versions = dedup vs
                   in \<lparr>pp_complete = complete, pp_estimatedNanoUsd = estimated,
                     pp_pricingVersion = (if length versions = 1 then Some (hd versions) else None),
                     pp_costEstimateBasis = (if versions \<noteq> [] then ''catalog_estimate'' else ''unavailable'')\<rparr>)"

section \<open>The value of usage\<close>

definition usageValueContexts :: "usage_atom \<Rightarrow> string list" where
  "usageValueContexts a =
     (if ua_billingContext a \<in> {Some ''openai-direct'', Some ''anthropic-direct'', Some ''cursor''}
      then [the (ua_billingContext a)]
      else let provider = (if truthy (ua_modelProvider a) \<and> ua_modelProvider a \<noteq> Some ''unknown'' then the (ua_modelProvider a)
                 else pr_modelProvider (resolveModelProvider (ua_model a) None))
           in if provider = ''openai'' then [''openai-direct''] else if provider = ''anthropic'' then [''anthropic-direct'']
              else if provider = ''cursor'' then [''cursor''] else [])"

definition usageValueRate :: "usage_atom \<Rightarrow> rate option" where
  "usageValueRate a =
     (if \<not> truthy (ua_model a) then None
      else case List.map_filter (\<lambda>context. rateForAtom context a) (usageValueContexts a) of [] \<Rightarrow> None | r # _ \<Rightarrow> Some r)"

definition usageValueAtoms :: "usage_atom list \<Rightarrow> price_projection \<Rightarrow> priced" where
  "usageValueAtoms atoms price =
     (if atoms = [] then (False, 0)
      else if pp_complete price \<and> pp_costEstimateBasis price = ''provider_reported_estimate'' then (True, pp_estimatedNanoUsd price)
      else fst (fold (price_step usageValueRate) atoms ((True, 0), [])))"

end
