(* ===== verification/UsageProjection.thy ===== *)
theory UsageProjection
  imports RunBreakdowns UsagePricing
begin

text \<open>
  The projection of runs from usage evidence (packages/engine/src/shadowUsage.ts): which evidence counts,
  when a run is complete, the run of a group of atoms, and the run of an occurrence without usage. The times
  that \<open>Date.parse\<close> cannot read are \<open>None\<close>; \<open>now\<close> is the clock in milliseconds.
\<close>

section \<open>Completion\<close>

definition INACTIVITY_COMPLETION_MS :: int where
  "INACTIVITY_COMPLETION_MS = 30 * 1000"

definition durableCompletionBoundary :: "occurrence option \<Rightarrow> string option" where
  "durableCompletionBoundary occ =
     (case occ of
        None \<Rightarrow> None
      | Some oc \<Rightarrow>
          if oc_lifecycleVisibility oc = Some ''internal'' \<or> \<not> truthy (oc_completedAt oc)
             \<or> oc_completionEvidence oc \<notin> {Some ''stop_hook'', Some ''session_hook'', Some ''closed_root_span'', Some ''provider_completed_event''}
          then None
          else case (date_ms (oc_startedAt oc), date_ms (the (oc_completedAt oc))) of
              (Some s, Some c) \<Rightarrow> if s \<le> c then oc_completedAt oc else None
            | _ \<Rightarrow> None)"

definition evidenceStartedWithinCompletionBoundary :: "string \<Rightarrow> occurrence option \<Rightarrow> bool" where
  "evidenceStartedWithinCompletionBoundary startedAt occ =
     (case durableCompletionBoundary occ of
        None \<Rightarrow> True
      | Some boundary \<Rightarrow> (case (date_ms startedAt, date_ms boundary) of (Some s, Some b) \<Rightarrow> s \<le> b | _ \<Rightarrow> False))"

definition isTraceUsageSurface :: "usage_atom \<Rightarrow> bool" where
  "isTraceUsageSurface a = (ua_signal a = Some ''traces''
     \<or> ua_sourceId a \<in> {Some ''otlp_codex_traces'', Some ''otlp_github_copilot_traces'', Some ''otlp_cursor_traces''}
     \<or> ua_profileVersion a \<in> {Some ''codex-otel-traces-v1'', Some ''copilot-otlp-traces-v1'', Some ''cursor-otel-traces-v1''})"

definition isClosedAuthoritativeRunBoundaryAtom :: "usage_atom \<Rightarrow> bool" where
  "isClosedAuthoritativeRunBoundaryAtom a =
     (if ua_completionMode a \<noteq> Some ''explicit'' \<or> \<not> truthy (ua_endedAt a) \<or> \<not> isTraceUsageSurface a then False
      else if ua_provider a = ''github-copilot'' then ua_authority a = ''run''
      else if ua_provider a = ''codex'' \<or> ua_provider a = ''cursor'' then ua_authority a = ''turn'' else False)"

definition requiresRunLevelSettling :: "usage_atom list \<Rightarrow> bool" where
  "requiresRunLevelSettling atoms = (atoms \<noteq> [] \<and> list_all (\<lambda>a. ua_provider a = ''codex'' \<and> ua_authority a = ''event''
     \<and> trace_surface ''codex-otel-traces-v1'' ''otlp_codex_traces'' a) atoms)"

definition latest_end :: "usage_atom list \<Rightarrow> string option" where
  "latest_end atoms = (let ends = sort (truthy_texts ua_endedAt atoms) in if ends = [] then None else Some (last ends))"

definition completedAt :: "usage_atom list \<Rightarrow> int \<Rightarrow> bool \<Rightarrow> occurrence option \<Rightarrow> string option" where
  "completedAt atoms now hasAccounting occ =
     (if \<not> hasAccounting then None
      else let latestClosedBoundary = latest_end (filter isClosedAuthoritativeRunBoundaryAtom atoms);
               allAccountingEnded = list_all (\<lambda>a. truthy (ua_endedAt a)) atoms;
               latest = latest_end atoms
           in if durableCompletionBoundary occ \<noteq> None
              then if \<not> allAccountingEnded \<or> latest = None then None else durableCompletionBoundary occ
              else if map_option oc_evidence occ = Some ''submission_hook'' then latestClosedBoundary
              else if \<not> allAccountingEnded \<or> latest = None then None
              else if (list_ex (\<lambda>a. ua_completionMode a = Some ''inactivity'') atoms \<or> requiresRunLevelSettling atoms)
                \<and> (case date_ms (the latest) of None \<Rightarrow> False | Some ms \<Rightarrow> ms + INACTIVITY_COMPLETION_MS > now)
              then None else latest)"

definition isAuthoritativeOutcomeOccurrence :: "occurrence \<Rightarrow> bool" where
  "isAuthoritativeOutcomeOccurrence oc = (oc_lifecycleVisibility oc \<noteq> Some ''internal'' \<and> oc_completedAt oc \<noteq> None
     \<and> (case (date_ms (oc_startedAt oc), date_ms (the (oc_completedAt oc))) of (Some s, Some c) \<Rightarrow> s \<le> c | _ \<Rightarrow> False)
     \<and> oc_completionEvidence oc \<noteq> None \<and> oc_completionEvidence oc \<noteq> Some ''inactivity'' \<and> oc_completionOutcome oc \<noteq> None)"

section \<open>The run of a group of atoms\<close>

text \<open>What the projections of one call share.\<close>

record projection_env =
  pe_collation :: collation
  pe_hash :: "string \<Rightarrow> string"
  pe_now :: int
  pe_aliases :: "(string, string list) jsmap"
  pe_conflicts :: "string list"

definition accounting_atoms :: "usage_atom list \<Rightarrow> usage_atom list" where
  "accounting_atoms atoms = filter (\<lambda>a. ua_kind a \<noteq> Some ''lifecycle'') atoms"

definition selected_authority :: "string \<Rightarrow> usage_atom list \<Rightarrow> string" where
  "selected_authority provider atoms =
     first_authority provider (if accounting_atoms atoms \<noteq> [] then accounting_atoms atoms else atoms)"

definition selected_atoms :: "collation \<Rightarrow> usage_atom list \<Rightarrow> usage_atom list" where
  "selected_atoms lc atoms =
     (let provider = ua_provider (hd atoms); authority = selected_authority provider atoms
      in enrichProviderUsageSurface lc provider authority
           (preferProviderUsageSurface lc provider (filter (\<lambda>a. ua_authority a = authority) (accounting_atoms atoms)))
           (accounting_atoms atoms))"

definition model_resolutions :: "usage_atom list \<Rightarrow> provider_resolution list" where
  "model_resolutions selected =
     (if selected = [] then [resolveModelProvider None None]
      else map (\<lambda>a. if truthy (ua_modelProvider a) then atom_resolution a else resolveModelProvider (ua_model a) None) selected)"

definition group_warnings :: "usage_atom list \<Rightarrow> usage_atom list \<Rightarrow> string list \<Rightarrow> price_projection \<Rightarrow> bool \<Rightarrow> bool \<Rightarrow> string list" where
  "group_warnings atoms selected models price auxiliaryExcluded sessionUnknown =
     (let context = billingContext selected
      in dedup ((if auxiliaryExcluded then [''auxiliary_session_title_excluded''] else [])
        @ (if length (accounting_atoms atoms) > length selected then [''lower_authority_overlap_discarded''] else [])
        @ (if accounting_atoms atoms = [] then [''no_usage_atoms''] else [])
        @ (if length models \<noteq> 1 then [''model_unavailable''] else [])
        @ (if context = ''unknown'' then [''billing_context_unavailable''] else [])
        @ (if context = ''subscription'' then [''subscription_usage_only''] else [])
        @ (if pp_costEstimateBasis price = ''provider_reported_estimate'' then [''provider_reported_estimate''] else [])
        @ (if \<not> pp_complete price \<and> context \<noteq> ''unknown'' \<and> context \<noteq> ''subscription'' then [''pricing_unavailable''] else [])
        @ (if sessionUnknown then [''session_identity_unavailable''] else [])))"

text \<open>\<open>atoms\<close> are not empty: they are those of one query.\<close>

definition projectGroup :: "projection_env \<Rightarrow> string \<Rightarrow> usage_atom list \<Rightarrow> occurrence option \<Rightarrow> activity_atom list
    \<Rightarrow> usage_atom list \<Rightarrow> bool \<Rightarrow> shadow_run" where
  "projectGroup pe queryId atoms occ activities contextAtoms auxiliaryExcluded =
     (let lc = pe_collation pe; provider = ua_provider (hd atoms); accounting = accounting_atoms atoms;
          authority = selected_authority provider atoms; selected = selected_atoms lc atoms;
          models = dedup (truthy_texts ua_model selected);
          resolutions = model_resolutions selected;
          modelProviders = dedup (map pr_modelProvider resolutions);
          modelProvider = (if length modelProviders = 1 then hd modelProviders else ''unknown'');
          matching = find (\<lambda>x. pr_modelProvider x = modelProvider) resolutions;
          tokens = atom_totals selected; context = billingContext selected;
          price = priceAtoms selected context; usageValue = usageValueAtoms selected price;
          starts = sort (filter (\<lambda>s. s \<noteq> '''') ((case occ of None \<Rightarrow> [] | Some oc \<Rightarrow> [oc_startedAt oc]) @ map ua_startedAt atoms));
          sessionIds = dedup (truthy_texts ua_sessionId atoms);
          endedAt = completedAt (if selected \<noteq> [] then selected else if accounting \<noteq> [] then accounting else atoms)
            (pe_now pe) (accounting \<noteq> []) occ;
          priced = (pp_complete price \<or> pp_estimatedNanoUsd price > 0);
          outcome = (case occ of Some oc \<Rightarrow> isAuthoritativeOutcomeOccurrence oc | None \<Rightarrow> False)
      in \<lparr>sr_runId = ''shadow_'' @ drop 4 queryId, sr_correlationId = queryId, sr_queryId = Some queryId,
          sr_sessionId = Some (case occ of Some oc \<Rightarrow> oc_sessionId oc
            | None \<Rightarrow> if length sessionIds = 1 then hd sessionIds else queryId),
          sr_repositoryKey = (case occ of Some oc \<Rightarrow> if truthy (oc_repositoryKey oc) then oc_repositoryKey oc else None | None \<Rightarrow> None),
          sr_promptState = (case occ of Some oc \<Rightarrow> oc_promptState oc | None \<Rightarrow> ''unavailable''),
          sr_promptText = Option.bind occ oc_promptText, sr_provider = provider, sr_runtime = ua_runtime (hd atoms),
          sr_model = (if length models = 1 then Some (hd models) else None),
          sr_models = (if models \<noteq> [] then Some models else None),
          sr_modelProvider = Some modelProvider,
          sr_modelProviderBasis = Some (nullish (map_option pr_modelProviderBasis matching) ''conflict''),
          sr_modelProviderClassificationVersion = Some (nullish (map_option pr_modelProviderClassificationVersion matching) ''unknown''),
          sr_authority = authority, sr_tokens = tokens,
          sr_estimatedNanoUsd = (if priced then Some (pp_estimatedNanoUsd price) else None),
          sr_usageValueNanoUsd = (if fst usageValue then Some (snd usageValue) else None),
          sr_costEstimateBasis = Some (pp_costEstimateBasis price),
          sr_pricingVersion = (if priced then pp_pricingVersion price else None),
          sr_billingContext = context,
          sr_costCoverage = (if pp_complete price then ''complete'' else if pp_estimatedNanoUsd price > 0 then ''partial'' else ''unavailable''),
          sr_evidenceGrade = ''estimated_usage_cost_unattributed'', sr_toolCallCount = Some (of_nat (length activities)),
          sr_breakdown = Some (runBreakdown \<lparr>bi_collation = lc, bi_hash = pe_hash pe, bi_queryId = queryId, bi_provider = provider,
            bi_atoms = atoms, bi_totals = tokens, bi_aliases = pe_aliases pe, bi_conflicts = pe_conflicts pe\<rparr> activities),
          sr_context = contextFootprintFromUsageAtoms lc
            (tk_inputTokens tokens + tk_cacheReadInputTokens tokens + tk_cacheCreationInputTokens tokens)
            (tk_cacheReadInputTokens tokens) (tk_cacheCreationInputTokens tokens)
            (if truthy endedAt then ''final'' else ''complete_so_far'')
            (contextUsageSurface lc provider authority selected accounting contextAtoms),
          sr_completionEvidence = (if outcome then oc_completionEvidence (the occ) else None),
          sr_completionOutcome = (if outcome then oc_completionOutcome (the occ) else None),
          sr_startedAt = (if starts = [] then '''' else hd starts), sr_endedAt = endedAt,
          sr_warnings = group_warnings atoms selected models price auxiliaryExcluded
            (length sessionIds \<noteq> 1 \<and> list_ex (\<lambda>a. truthy (ua_queryId a)) atoms)\<rparr>)"

text \<open>The run of an occurrence with an outcome and without usage; its breakdown has no aliases.\<close>

definition projectOccurrenceOnlyGroup :: "projection_env \<Rightarrow> occurrence \<Rightarrow> activity_atom list \<Rightarrow> bool \<Rightarrow> shadow_run" where
  "projectOccurrenceOnlyGroup pe oc activities auxiliaryExcluded =
     \<lparr>sr_runId = ''shadow_'' @ drop 4 (oc_queryId oc), sr_correlationId = oc_queryId oc, sr_queryId = Some (oc_queryId oc),
      sr_sessionId = Some (oc_sessionId oc),
      sr_repositoryKey = (if truthy (oc_repositoryKey oc) then oc_repositoryKey oc else None),
      sr_promptState = oc_promptState oc, sr_promptText = (if truthy (oc_promptText oc) then oc_promptText oc else None),
      sr_provider = oc_provider oc, sr_runtime = oc_runtime oc, sr_model = None, sr_models = None, sr_modelProvider = None,
      sr_modelProviderBasis = None, sr_modelProviderClassificationVersion = None, sr_authority = ''event'',
      sr_tokens = emptyTokenTotals, sr_estimatedNanoUsd = None, sr_usageValueNanoUsd = None,
      sr_costEstimateBasis = Some ''unavailable'', sr_pricingVersion = None, sr_billingContext = ''unknown'',
      sr_costCoverage = ''unavailable'', sr_evidenceGrade = ''estimated_usage_cost_unattributed'',
      sr_toolCallCount = Some (of_nat (length activities)),
      sr_breakdown = Some (runBreakdown \<lparr>bi_collation = pe_collation pe, bi_hash = pe_hash pe, bi_queryId = oc_queryId oc,
        bi_provider = oc_provider oc, bi_atoms = [], bi_totals = emptyTokenTotals, bi_aliases = [], bi_conflicts = []\<rparr> activities),
      sr_context = None, sr_completionEvidence = oc_completionEvidence oc, sr_completionOutcome = oc_completionOutcome oc,
      sr_startedAt = oc_startedAt oc, sr_endedAt = oc_completedAt oc,
      sr_warnings = (if auxiliaryExcluded then [''auxiliary_session_title_excluded''] else [])
        @ [''no_usage_atoms'', ''model_unavailable'', ''billing_context_unavailable'']\<rparr>"

end
