(* ===== verification/LinkedRuns.thy ===== *)
theory LinkedRuns
  imports UsageProjection
begin

text \<open>
  Linked subagent runs, and the two pipelines (packages/engine/src/shadowUsage.ts): the run of a child
  session is merged into the run whose activity started it, and the remaining runs are reported. A merge
  visits no query twice on its way down, so it runs on as much fuel as there are runs.
\<close>

section \<open>Merging the context of two runs\<close>

definition inputContextTokensForRun :: "shadow_run \<Rightarrow> rat" where
  "inputContextTokensForRun r = tk_inputTokens (sr_tokens r) + tk_cacheReadInputTokens (sr_tokens r) + tk_cacheCreationInputTokens (sr_tokens r)"

type_synonym context_entry = "shadow_run \<times> context_footprint"

definition context_entries :: "shadow_run list \<Rightarrow> context_entry list" where
  "context_entries runs = List.map_filter (\<lambda>r. map_option (Pair r) (sr_context r)) runs"

definition only_value :: "rat list \<Rightarrow> rat option" where
  "only_value vs = (if length (dedup vs) = 1 then Some (hd vs) else None)"

definition linkedInitialInputContextTokens :: "context_entry list \<Rightarrow> rat option" where
  "linkedInitialInputContextTokens entries =
     (let candidates = filter (\<lambda>e. cf_initialInputContextTokens (snd e) \<noteq> None) entries;
          earliest = hd (sort (map (sr_startedAt \<circ> fst) candidates))
      in if candidates = [] then None
         else only_value (List.map_filter (cf_initialInputContextTokens \<circ> snd) (filter (\<lambda>e. sr_startedAt (fst e) = earliest) candidates)))"

definition linkedLatestInputContextTokens :: "context_entry list \<Rightarrow> rat option" where
  "linkedLatestInputContextTokens entries =
     (if list_ex (\<lambda>e. cf_observedLlmRequestCount (snd e) > 0 \<and> cf_latestInputContextTokens (snd e) = None) entries then None
      else let values = List.map_filter (cf_latestInputContextTokens \<circ> snd) entries
           in if values = [] then None else only_value values)"

definition linkedContextCoverage :: "shadow_run \<Rightarrow> shadow_run \<Rightarrow> string" where
  "linkedContextCoverage parent child =
     (let missing = list_ex (\<lambda>r. sr_context r = None \<and> (inputContextTokensForRun r > 0 \<or> tk_outputTokens (sr_tokens r) > 0
            \<or> tk_reasoningOutputTokens (sr_tokens r) > 0)) [parent, child];
          coverages = List.map_filter (\<lambda>r. map_option cf_coverage (sr_context r)) [parent, child]
      in if missing \<or> list_ex (\<lambda>c. c = ''none'' \<or> c = ''partial'') coverages then ''partial''
         else if truthy (sr_endedAt parent) \<and> truthy (sr_endedAt child) \<and> list_all (\<lambda>c. c = ''final'') coverages
         then ''final'' else ''complete_so_far'')"

definition mergeLinkedSubagentContext :: "shadow_run \<Rightarrow> shadow_run \<Rightarrow> context_footprint option" where
  "mergeLinkedSubagentContext parent child =
     (let entries = context_entries [parent, child]; footprints = map snd entries;
          initial = linkedInitialInputContextTokens entries; latest = linkedLatestInputContextTokens entries;
          peaks = concat (map (\<lambda>c. List.map_filter (\<lambda>x. x) [cf_initialInputContextTokens c, cf_latestInputContextTokens c, cf_peakInputContextTokens c]) footprints);
          peak = (if peaks = [] then None else Some (Max (set peaks)));
          bases = dedup (map cf_basis footprints)
      in if entries = [] then None
         else Some \<lparr>cf_accumulatedInputTokens = inputContextTokensForRun parent + inputContextTokensForRun child,
           cf_initialInputContextTokens = initial, cf_latestInputContextTokens = latest, cf_peakInputContextTokens = peak,
           cf_cacheReadInputTokens = tk_cacheReadInputTokens (sr_tokens parent) + tk_cacheReadInputTokens (sr_tokens child),
           cf_cacheCreationInputTokens = tk_cacheCreationInputTokens (sr_tokens parent) + tk_cacheCreationInputTokens (sr_tokens child),
           cf_observedLlmRequestCount = sum_list (map cf_observedLlmRequestCount footprints),
           cf_contextGrowthInputTokens = (if initial \<noteq> None \<and> peak \<noteq> None then Some (max 0 (the peak - the initial)) else None),
           cf_contextGrowthRatio = (if or0 initial \<noteq> 0 \<and> peak \<noteq> None then Some (the peak / the initial) else None),
           cf_basis = (if length bases = 1 then hd bases else ''derived_from_usage_atoms''),
           cf_coverage = linkedContextCoverage parent child\<rparr>)"

section \<open>Merging the breakdown of two runs\<close>

definition new_subagent_row :: "(string \<Rightarrow> string) \<Rightarrow> string \<Rightarrow> activity_atom \<Rightarrow> breakdown_row" where
  "new_subagent_row hash queryId a = \<lparr>bd_breakdownId = breakdownId hash queryId (''subagent:'' @ aa_name a),
     bd_parentBreakdownId = None, bd_kind = ''subagent'', bd_name = aa_name a, bd_count = 1,
     bd_failureCount = (if aa_outcome a = ''failure'' \<or> aa_outcome a = ''rejected'' then 1 else 0),
     bd_rejectedCount = (if aa_outcome a = ''rejected'' then Some 1 else None),
     bd_unknownCount = Some (if aa_outcome a = ''unknown'' then 1 else 0),
     bd_totalDurationMs = None, bd_resultSizeBytes = None, bd_providerReportedResultTokens = None,
     bd_sensitiveAuditEvidence = None, bd_inputTokens = None, bd_outputTokens = None, bd_cacheReadInputTokens = None,
     bd_cacheCreationInputTokens = None, bd_reasoningOutputTokens = None, bd_totalTokens = None,
     bd_attributionBasis = ''activity_only'', bd_coverage = ''unavailable''\<rparr>"

fun first_index :: "('a \<Rightarrow> bool) \<Rightarrow> 'a list \<Rightarrow> nat option" where
  "first_index P [] = None"
| "first_index P (x # xs) = (if P x then Some 0 else map_option Suc (first_index P xs))"

text \<open>A row of the child: what the child could not allocate goes to the row of the subagent, which is at
  index \<open>i\<close>, and every other row becomes a part of it.\<close>

definition merge_child_row :: "(string \<Rightarrow> string) \<Rightarrow> string \<Rightarrow> activity_atom \<Rightarrow> nat \<Rightarrow> breakdown_row
    \<Rightarrow> breakdown_row list \<times> token_totals \<Rightarrow> breakdown_row list \<times> token_totals" where
  "merge_child_row hash queryId a i childRow acc =
     (let (rows, allocated) = acc; usage = tokenTotalsFromBreakdown childRow
      in (if bd_kind childRow = ''unallocated'' then rows[i := addTokenTotalsToBreakdown (rows ! i) usage]
          else rows @ [childRow\<lparr>bd_breakdownId := breakdownId hash queryId (aa_activityId a @ ''|'' @ bd_breakdownId childRow),
            bd_parentBreakdownId := Some (bd_breakdownId (rows ! i))\<rparr>],
          addTokenTotals allocated usage))"

definition settle_subagent_row :: "breakdown_row list \<Rightarrow> breakdown_row \<Rightarrow> breakdown_row" where
  "settle_subagent_row childRows row =
     (if hasTokenTotals (tokenTotalsFromBreakdown row)
      then row\<lparr>bd_attributionBasis := ''unavailable'',
        bd_coverage := (if list_ex (\<lambda>c. bd_kind c \<noteq> ''unallocated'' \<and> hasTokenTotals (tokenTotalsFromBreakdown c)) childRows
          then ''partial'' else ''unavailable'')\<rparr>
      else row)"

definition mergeSubagentBreakdown :: "(string \<Rightarrow> string) \<Rightarrow> shadow_run \<Rightarrow> shadow_run \<Rightarrow> activity_atom \<Rightarrow> breakdown_row list" where
  "mergeSubagentBreakdown hash parent child a =
     (let queryId = query_of_run parent; parentRows = nullish (sr_breakdown parent) []; childRows = nullish (sr_breakdown child) [];
          is_row = (\<lambda>r. bd_kind r = ''subagent'' \<and> bd_name r = aa_name a);
          rows0 = (if first_index is_row parentRows = None then parentRows @ [new_subagent_row hash queryId a] else parentRows);
          i = nullish (first_index is_row parentRows) (length parentRows);
          (rows, allocated) = fold (merge_child_row hash queryId a i) childRows (rows0, emptyTokenTotals);
          residual = subtractTokenTotals (sr_tokens child) allocated;
          rows' = (if hasTokenTotals residual then rows[i := addTokenTotalsToBreakdown (rows ! i) residual] else rows)
      in rows'[i := settle_subagent_row childRows (rows' ! i)])"

section \<open>Merging two runs\<close>

definition optionalPairSum :: "rat option \<Rightarrow> rat option \<Rightarrow> rat option" where
  "optionalPairSum left right = (if left = None \<and> right = None then None else Some (or0 left + or0 right))"

definition combinedCostCoverage :: "string \<Rightarrow> string \<Rightarrow> string" where
  "combinedCostCoverage left right =
     (if left = ''complete'' \<and> right = ''complete'' then ''complete''
      else if left = ''unavailable'' \<and> right = ''unavailable'' then ''unavailable'' else ''partial'')"

definition run_models :: "shadow_run \<Rightarrow> string list" where
  "run_models r = nullish (sr_models r) (if truthy (sr_model r) then [the (sr_model r)] else [])"

text \<open>The sum of the tokens of two runs, field by field.\<close>

definition sum_tokens :: "token_totals \<Rightarrow> token_totals \<Rightarrow> token_totals" where
  "sum_tokens a b = \<lparr>tk_inputTokens = tk_inputTokens a + tk_inputTokens b, tk_outputTokens = tk_outputTokens a + tk_outputTokens b,
     tk_cacheReadInputTokens = tk_cacheReadInputTokens a + tk_cacheReadInputTokens b,
     tk_cacheCreationInputTokens = tk_cacheCreationInputTokens a + tk_cacheCreationInputTokens b,
     tk_reasoningOutputTokens = tk_reasoningOutputTokens a + tk_reasoningOutputTokens b,
     tk_totalTokens = tk_totalTokens a + tk_totalTokens b\<rparr>"

definition mergeLinkedSubagentRun :: "(string \<Rightarrow> string) \<Rightarrow> shadow_run \<Rightarrow> shadow_run \<Rightarrow> activity_atom \<Rightarrow> shadow_run" where
  "mergeLinkedSubagentRun hash parent child a =
     (let models = dedup (run_models parent @ run_models child);
          providers = dedup (map the (filter truthy [sr_modelProvider parent, sr_modelProvider child]));
          context = mergeLinkedSubagentContext parent child
      in parent\<lparr>sr_model := (if length models = 1 then Some (hd models) else None),
           sr_models := (if models \<noteq> [] then Some models else sr_models parent),
           sr_modelProvider := Some (if length providers = 1 then hd providers else ''unknown''),
           sr_modelProviderBasis := (if length providers = 1 then sr_modelProviderBasis parent else Some ''conflict''),
           sr_tokens := sum_tokens (sr_tokens parent) (sr_tokens child),
           sr_estimatedNanoUsd := optionalPairSum (sr_estimatedNanoUsd parent) (sr_estimatedNanoUsd child),
           sr_usageValueNanoUsd := optionalPairSum (sr_usageValueNanoUsd parent) (sr_usageValueNanoUsd child),
           sr_context := (if context \<noteq> None then context else sr_context parent),
           sr_costCoverage := combinedCostCoverage (sr_costCoverage parent) (sr_costCoverage child),
           sr_toolCallCount := Some (or0 (sr_toolCallCount parent) + or0 (sr_toolCallCount child)),
           sr_breakdown := Some (mergeSubagentBreakdown hash parent child a),
           sr_startedAt := (if sr_startedAt parent < sr_startedAt child then sr_startedAt parent else sr_startedAt child),
           sr_endedAt := (if truthy (sr_endedAt parent) \<and> truthy (sr_endedAt child)
             then (if the (sr_endedAt child) < the (sr_endedAt parent) then sr_endedAt parent else sr_endedAt child) else None),
           sr_warnings := dedup (sr_warnings parent @ sr_warnings child)\<rparr>)"

section \<open>Links\<close>

record linked_subagent =
  lk_parentQueryId :: string
  lk_childQueryId :: string
  lk_activity :: activity_atom

definition runs_by_query :: "shadow_run list \<Rightarrow> (string, shadow_run) jsmap" where
  "runs_by_query runs = map_from query_of_run runs"

definition link_candidate :: "shadow_run list \<Rightarrow> activity_atom \<Rightarrow> linked_subagent option" where
  "link_candidate runs a =
     (if aa_kind a \<noteq> ''subagent'' \<or> \<not> truthy (aa_childSessionId a) then None
      else case filter (\<lambda>r. truthy (sr_sessionId r) \<and> sr_sessionId r = aa_childSessionId a) runs of
          [child] \<Rightarrow>
            if query_of_run child = aa_queryId a then None
            else (case map_get (runs_by_query runs) (aa_queryId a) of
                None \<Rightarrow> None
              | Some parent \<Rightarrow>
                  if truthy (sr_repositoryKey parent) \<and> truthy (sr_repositoryKey child) \<and> sr_repositoryKey parent \<noteq> sr_repositoryKey child
                  then None
                  else Some \<lparr>lk_parentQueryId = aa_queryId a, lk_childQueryId = query_of_run child, lk_activity = a\<rparr>)
        | _ \<Rightarrow> None)"

definition link_candidates :: "shadow_run list \<Rightarrow> activity_atom list \<Rightarrow> linked_subagent list" where
  "link_candidates runs activities = List.map_filter (link_candidate runs) activities"

definition parents_of :: "linked_subagent list \<Rightarrow> string \<Rightarrow> string list" where
  "parents_of candidates child = dedup (map lk_parentQueryId (filter (\<lambda>l. lk_childQueryId l = child) candidates))"

text \<open>The links that are followed: a child with two parents is not merged.\<close>

definition subagent_links :: "shadow_run list \<Rightarrow> activity_atom list \<Rightarrow> linked_subagent list" where
  "subagent_links runs activities =
     (let candidates = link_candidates runs activities
      in filter (\<lambda>l. length (parents_of candidates (lk_childQueryId l)) = 1) candidates)"

definition finalizeLinkedSubagentBreakdown :: "shadow_run \<Rightarrow> linked_subagent list \<Rightarrow> shadow_run" where
  "finalizeLinkedSubagentBreakdown r links =
     (if links = [] then r
      else case sr_breakdown r of
          None \<Rightarrow> r
        | Some rows \<Rightarrow> r\<lparr>sr_breakdown := Some (map (\<lambda>row.
            let linkedCount = length (filter (\<lambda>l. aa_name (lk_activity l) = bd_name row) links)
            in if bd_kind row \<noteq> ''subagent'' \<or> truthy (bd_parentBreakdownId row) \<or> linkedCount = 0
                 \<or> of_nat linkedCount \<noteq> bd_count row \<or> \<not> hasTokenTotals (tokenTotalsFromBreakdown row)
               then row else row\<lparr>bd_attributionBasis := ''trace_descendant'', bd_coverage := ''complete''\<rparr>) rows)\<rparr>)"

definition direct_links :: "linked_subagent list \<Rightarrow> string \<Rightarrow> linked_subagent list" where
  "direct_links links queryId = filter (\<lambda>l. lk_parentQueryId l = queryId) links"

fun merge_linked :: "(string \<Rightarrow> string) \<Rightarrow> shadow_run list \<Rightarrow> linked_subagent list \<Rightarrow> nat \<Rightarrow> shadow_run \<Rightarrow> string list \<Rightarrow> shadow_run" where
  "merge_linked hash runs links 0 r visiting = r"
| "merge_linked hash runs links (Suc n) r visiting =
     (if query_of_run r \<in> set visiting then r
      else let direct = direct_links links (query_of_run r)
           in finalizeLinkedSubagentBreakdown
                (fold (\<lambda>l parent. case map_get (runs_by_query runs) (lk_childQueryId l) of
                     None \<Rightarrow> parent
                   | Some child \<Rightarrow> mergeLinkedSubagentRun hash parent
                       (merge_linked hash runs links n child (query_of_run r # visiting)) (lk_activity l)) direct r)
                direct)"

definition aggregateLinkedSubagentRuns :: "(string \<Rightarrow> string) \<Rightarrow> shadow_run list \<Rightarrow> activity_atom list \<Rightarrow> shadow_run list" where
  "aggregateLinkedSubagentRuns hash runs activities =
     (let links = subagent_links runs activities
      in map (\<lambda>r. merge_linked hash runs links (Suc (length runs)) r [])
           (filter (\<lambda>r. query_of_run r \<notin> set (map lk_childQueryId links)) runs))"

end
