(* ===== verification/UsagePipelines.thy ===== *)
theory UsagePipelines
  imports LinkedRuns
begin

text \<open>
  The classes \<open>DefaultShadowUsagePipeline\<close> and \<open>DefaultProductionUsagePipeline\<close>
  (packages/engine/src/shadowUsage.ts): the evidence that counts, the runs, and their totals.
\<close>

section \<open>The evidence that counts\<close>

definition occurrence_of :: "occurrence list \<Rightarrow> string \<Rightarrow> occurrence option" where
  "occurrence_of occurrences queryId = map_get (map_from oc_queryId occurrences) queryId"

definition internal_queries :: "occurrence list \<Rightarrow> string list" where
  "internal_queries occurrences = map oc_queryId (filter (\<lambda>oc. oc_lifecycleVisibility oc = Some ''internal'') occurrences)"

definition visible_atoms :: "usage_atom list \<Rightarrow> occurrence list \<Rightarrow> usage_atom list" where
  "visible_atoms atoms occurrences = filter (\<lambda>a. atom_query a \<notin> set (internal_queries occurrences)
     \<and> evidenceStartedWithinCompletionBoundary (ua_startedAt a) (occurrence_of occurrences (atom_query a))) atoms"

definition isExplicitAuxiliarySessionTitleUsage :: "usage_atom \<Rightarrow> bool" where
  "isExplicitAuxiliarySessionTitleUsage a = (ua_usagePurpose a = Some ''auxiliary_session_title'')"

definition auxiliary_requests :: "usage_atom list \<Rightarrow> string list" where
  "auxiliary_requests visible = List.map_filter ua_requestId (filter isExplicitAuxiliarySessionTitleUsage visible)"

definition isAuxiliarySessionTitleUsage :: "string list \<Rightarrow> usage_atom \<Rightarrow> bool" where
  "isAuxiliarySessionTitleUsage requestIds a = (isExplicitAuxiliarySessionTitleUsage a
     \<or> (case ua_requestId a of None \<Rightarrow> False | Some r \<Rightarrow> r \<in> set requestIds))"

definition customer_atoms :: "usage_atom list \<Rightarrow> usage_atom list" where
  "customer_atoms visible = filter (\<lambda>a. \<not> isAuxiliarySessionTitleUsage (auxiliary_requests visible) a) visible"

definition auxiliary_queries :: "usage_atom list \<Rightarrow> string list" where
  "auxiliary_queries visible = map atom_query (filter (isAuxiliarySessionTitleUsage (auxiliary_requests visible)) visible)"

definition visible_activities :: "activity_atom list \<Rightarrow> occurrence list \<Rightarrow> activity_atom list" where
  "visible_activities activities occurrences = filter (\<lambda>a. aa_queryId a \<notin> set (internal_queries occurrences)
     \<and> evidenceStartedWithinCompletionBoundary (aa_startedAt a) (occurrence_of occurrences (aa_queryId a))) activities"

section \<open>The shadow pipeline\<close>

definition of_query :: "(string, 'a list) jsmap \<Rightarrow> string \<Rightarrow> 'a list" where
  "of_query m q = nullish (map_get m q) []"

text \<open>The runs before the children are merged: one for each query with usage, and one for each occurrence
  with an outcome and without usage.\<close>

definition unlinked_runs :: "projection_env \<Rightarrow> usage_atom list \<Rightarrow> occurrence list \<Rightarrow> activity_atom list \<Rightarrow> shadow_run list" where
  "unlinked_runs pe atoms occurrences preferred =
     (let visible = visible_atoms atoms occurrences; customer = customer_atoms visible;
          groups = group_by atom_query (map_values (map_from ua_atomId customer));
          contextGroups = group_by atom_query customer;
          byQuery = group_by aa_queryId preferred
      in map (\<lambda>(q, g). projectGroup pe q g (occurrence_of occurrences q) (of_query byQuery q)
             (nullish (map_get contextGroups q) g) (q \<in> set (auxiliary_queries visible))) groups
         @ map (\<lambda>oc. projectOccurrenceOnlyGroup pe oc (of_query byQuery (oc_queryId oc)) (oc_queryId oc \<in> set (auxiliary_queries visible)))
             (filter (\<lambda>oc. oc_queryId oc \<notin> atom_query ` set customer \<and> isAuthoritativeOutcomeOccurrence oc)
               (map_values (map_from oc_queryId occurrences))))"

text \<open>\<open>None\<close> is a call that does not return.\<close>

definition shadow_project :: "collation \<Rightarrow> (string \<Rightarrow> string) \<Rightarrow> usage_atom list \<Rightarrow> int \<Rightarrow> occurrence list \<Rightarrow> activity_atom list
    \<Rightarrow> shadow_run list option" where
  "shadow_project lc hash atoms now occurrences activities = do {
     pj \<leftarrow> projectPreferredSafeActivities (visible_activities activities occurrences);
     linkable \<leftarrow> preferredSafeActivities (pj_activities pj);
     let pe = \<lparr>pe_collation = lc, pe_hash = hash, pe_now = now, pe_aliases = pj_ownershipAliases pj,
       pe_conflicts = pj_ownershipConflicts pj\<rparr>;
     let runs = unlinked_runs pe atoms occurrences (pj_activities pj);
     Some (sort_by (\<lambda>a b. lc (sr_startedAt b) (sr_startedAt a) \<le> 0) (aggregateLinkedSubagentRuns hash runs linkable)) }"

definition run_sum :: "(token_totals \<Rightarrow> rat) \<Rightarrow> shadow_run list \<Rightarrow> rat" where
  "run_sum field runs = sum_list (map (\<lambda>r. field (sr_tokens r)) runs)"

definition totals_of_runs :: "shadow_run list \<Rightarrow> shadow_totals" where
  "totals_of_runs runs = \<lparr>ts_runCount = of_nat (length runs),
     ts_tokens = \<lparr>tk_inputTokens = run_sum tk_inputTokens runs, tk_outputTokens = run_sum tk_outputTokens runs,
       tk_cacheReadInputTokens = run_sum tk_cacheReadInputTokens runs,
       tk_cacheCreationInputTokens = run_sum tk_cacheCreationInputTokens runs,
       tk_reasoningOutputTokens = run_sum tk_reasoningOutputTokens runs, tk_totalTokens = run_sum tk_totalTokens runs\<rparr>,
     ts_estimatedNanoUsd = sum_list (map (\<lambda>r. or0 (sr_estimatedNanoUsd r)) runs),
     ts_usageValueNanoUsd = sum_list (map (\<lambda>r. or0 (sr_usageValueNanoUsd r)) runs),
     ts_pricedRunCount = of_nat (length (filter (\<lambda>r. sr_estimatedNanoUsd r \<noteq> None) runs)),
     ts_unpricedRunCount = of_nat (length (filter (\<lambda>r. sr_estimatedNanoUsd r = None) runs))\<rparr>"

definition compared_values :: "shadow_totals \<Rightarrow> comparison_values" where
  "compared_values t = \<lparr>cv_runCount = ts_runCount t, cv_inputTokens = tk_inputTokens (ts_tokens t),
     cv_outputTokens = tk_outputTokens (ts_tokens t), cv_totalTokens = tk_totalTokens (ts_tokens t),
     cv_estimatedNanoUsd = ts_estimatedNanoUsd t\<rparr>"

definition compare_totals :: "comparison_values \<Rightarrow> shadow_totals \<Rightarrow> shadow_comparison" where
  "compare_totals expected t =
     (let actual = compared_values t;
          reasons = (if cv_runCount expected \<noteq> cv_runCount actual then [''run_count_mismatch''] else [])
            @ (if cv_inputTokens expected \<noteq> cv_inputTokens actual then [''input_tokens_mismatch''] else [])
            @ (if cv_outputTokens expected \<noteq> cv_outputTokens actual then [''output_tokens_mismatch''] else [])
            @ (if cv_totalTokens expected \<noteq> cv_totalTokens actual then [''total_tokens_mismatch''] else [])
            @ (if cv_estimatedNanoUsd expected \<noteq> cv_estimatedNanoUsd actual then [''estimated_cost_mismatch''] else [])
      in \<lparr>sc_expected = expected, sc_actual = actual, sc_matches = (reasons = []), sc_reasonCodes = reasons\<rparr>)"

section \<open>The production pipeline\<close>

definition production_visible :: "occurrence list \<Rightarrow> shadow_run \<Rightarrow> bool" where
  "production_visible occurrences r =
     (if sr_provider r \<noteq> ''claude-code'' then True
      else case occurrence_of occurrences (query_of_run r) of
          None \<Rightarrow> False
        | Some oc \<Rightarrow> oc_lifecycleVisibility oc \<noteq> Some ''internal'' \<and> oc_evidence oc = ''submission_hook'')"

definition production_project :: "collation \<Rightarrow> (string \<Rightarrow> string) \<Rightarrow> usage_atom list \<Rightarrow> int \<Rightarrow> occurrence list \<Rightarrow> activity_atom list
    \<Rightarrow> shadow_run list option" where
  "production_project lc hash atoms now occurrences activities =
     map_option (\<lambda>runs. map (\<lambda>r. r\<lparr>sr_runId := ''run_'' @ drop 4 (query_of_run r)\<rparr>) (filter (production_visible occurrences) runs))
       (shadow_project lc hash atoms now occurrences activities)"

definition production_totals :: "shadow_run list \<Rightarrow> shadow_totals" where
  "production_totals runs = totals_of_runs runs"

end
