(* ===== verification/RunConservation.thy ===== *)
theory RunConservation
  imports UsagePipelines Groupings
begin

text \<open>
  Tokens are conserved by the projection of the engine: the rows of the breakdown of every run add up to
  the tokens of the run, also after the runs of subagents were merged into it, and merging moves tokens
  between runs and neither loses nor doubles them when the links form a forest.
\<close>

section \<open>Sums of tokens\<close>

definition tokens_sum :: "token_totals list \<Rightarrow> token_totals" where
  "tokens_sum ts = foldr sum_tokens ts emptyTokenTotals"

lemma tokens_eqI:
  assumes "tk_inputTokens a = tk_inputTokens b" "tk_outputTokens a = tk_outputTokens b"
    "tk_cacheReadInputTokens a = tk_cacheReadInputTokens b" "tk_cacheCreationInputTokens a = tk_cacheCreationInputTokens b"
    "tk_reasoningOutputTokens a = tk_reasoningOutputTokens b" "tk_totalTokens a = tk_totalTokens b"
  shows "a = (b :: token_totals)"
  using assms by (cases a; cases b) simp

lemma sum_tokens_ac:
  "sum_tokens a b = sum_tokens b a" "sum_tokens (sum_tokens a b) c = sum_tokens a (sum_tokens b c)"
  "sum_tokens b (sum_tokens a c) = sum_tokens a (sum_tokens b c)"
  by (simp_all add: sum_tokens_def add_ac)

lemma sum_tokens_empty [simp]: "sum_tokens emptyTokenTotals a = a" "sum_tokens a emptyTokenTotals = a"
  by (simp_all add: sum_tokens_def emptyTokenTotals_def)

lemma tokens_sum_simps [simp]:
  "tokens_sum [] = emptyTokenTotals" "tokens_sum (t # ts) = sum_tokens t (tokens_sum ts)"
  by (simp_all add: tokens_sum_def)

lemma tokens_sum_append [simp]: "tokens_sum (xs @ ys) = sum_tokens (tokens_sum xs) (tokens_sum ys)"
  by (induction xs) (simp_all add: sum_tokens_ac)

lemma tokens_sum_mset: "mset xs = mset ys \<Longrightarrow> tokens_sum xs = tokens_sum ys"
proof (induction xs arbitrary: ys)
  case (Cons x xs)
  then obtain as bs where ys: "ys = as @ x # bs" by (metis list.set_intros(1) mset_eq_setD split_list)
  then have "mset xs = mset (as @ bs)" using Cons.prems by simp
  then show ?case using Cons.IH [of "as @ bs"] by (simp add: ys sum_tokens_ac)
qed simp

text \<open>A total that is the sum of input and output.\<close>

definition summed :: "token_totals \<Rightarrow> bool" where
  "summed t = (tk_totalTokens t = tk_inputTokens t + tk_outputTokens t)"

lemma summed_simps [simp]:
  "summed emptyTokenTotals" "summed a \<Longrightarrow> summed b \<Longrightarrow> summed (sum_tokens a b)" "summed (atom_totals atoms)"
  by (simp_all add: summed_def emptyTokenTotals_def sum_tokens_def atom_totals_def)

lemma addTokenTotals_sum: "summed a \<Longrightarrow> summed b \<Longrightarrow> addTokenTotals a b = sum_tokens a b"
  by (simp add: addTokenTotals_def sum_tokens_def summed_def Let_def)

abbreviation row_tokens :: "breakdown_row \<Rightarrow> token_totals" where
  "row_tokens \<equiv> tokenTotalsFromBreakdown"

lemma addToBreakdown_tokens:
  "summed (row_tokens row) \<Longrightarrow> summed v \<Longrightarrow> row_tokens (addTokenTotalsToBreakdown row v) = sum_tokens (row_tokens row) v"
  by (simp add: addTokenTotalsToBreakdown_def tokenTotalsFromBreakdown_def sum_tokens_def summed_def Let_def)

text \<open>The rows of a breakdown add up to \<open>t\<close>.\<close>

definition adds_up :: "breakdown_row list \<Rightarrow> token_totals \<Rightarrow> bool" where
  "adds_up rows t = (tokens_sum (map row_tokens rows) = t \<and> list_all (\<lambda>r. summed (row_tokens r)) rows)"

lemma adds_up_append: "adds_up xs s \<Longrightarrow> adds_up ys t \<Longrightarrow> adds_up (xs @ ys) (sum_tokens s t)"
  by (auto simp: adds_up_def)

lemma adds_up_summed: "adds_up rows t \<Longrightarrow> summed t"
proof -
  have "list_all (\<lambda>r. summed (row_tokens r)) rows \<Longrightarrow> summed (tokens_sum (map row_tokens rows))"
    by (induction rows) simp_all
  then show "adds_up rows t \<Longrightarrow> summed t" by (auto simp: adds_up_def)
qed

lemma tokens_sum_update:
  "i < length xs \<Longrightarrow> tokens_sum (xs[i := sum_tokens (xs ! i) v]) = sum_tokens (tokens_sum xs) v"
proof (induction xs arbitrary: i)
  case (Cons x xs)
  then show ?case by (cases i) (simp_all add: sum_tokens_ac)
qed simp

lemma adds_up_update:
  assumes "adds_up rows t" "i < length rows" "summed v" "row_tokens row = sum_tokens (row_tokens (rows ! i)) v"
  shows "adds_up (rows[i := row]) (sum_tokens t v)"
proof -
  have "summed (row_tokens row)" using assms by (simp add: adds_up_def list_all_length)
  then have "list_all (\<lambda>r. summed (row_tokens r)) (rows[i := row])"
    using assms(1) by (auto simp: adds_up_def list_all_iff dest!: set_update_subset_insert [THEN subsetD])
  moreover have "map row_tokens (rows[i := row]) = (map row_tokens rows)[i := sum_tokens (map row_tokens rows ! i) v]"
    using assms(2,4) by (simp add: map_update)
  ultimately show ?thesis using assms(1,2) tokens_sum_update [of i "map row_tokens rows" v] by (simp add: adds_up_def)
qed

section \<open>The breakdown of a run\<close>

definition nonneg_tokens :: "token_totals \<Rightarrow> bool" where
  "nonneg_tokens t = (tk_inputTokens t \<ge> 0 \<and> tk_outputTokens t \<ge> 0 \<and> tk_cacheReadInputTokens t \<ge> 0
     \<and> tk_cacheCreationInputTokens t \<ge> 0 \<and> tk_reasoningOutputTokens t \<ge> 0)"

text \<open>What was allocated so far is within the totals.\<close>

abbreviation fits :: "token_totals \<Rightarrow> token_totals \<Rightarrow> bool" where
  "fits a t \<equiv> within_totals a emptyTokenTotals t"

lemma group_row_tokens:
  "row_tokens (group_row bi key acts allocated)
    = (if group_selected bi acts \<noteq> [] \<and> within_totals allocated (atom_totals (group_selected bi acts)) (bi_totals bi)
       then atom_totals (group_selected bi acts) else emptyTokenTotals)"
  by (simp add: group_row_def tokenTotalsFromBreakdown_def Let_def emptyTokenTotals_def)

lemma within_add: "within_totals a b t = fits (sum_tokens a b) t"
  by (simp add: within_totals_def sum_tokens_def emptyTokenTotals_def)

lemma group_rows_add_up:
  "group_rows bi gs a = (rows, final) \<Longrightarrow> summed a \<Longrightarrow> fits a (bi_totals bi) \<Longrightarrow>
     \<exists>t. adds_up rows t \<and> final = sum_tokens a t \<and> fits final (bi_totals bi)"
proof (induction gs arbitrary: a rows final)
  case Nil
  then show ?case by (intro exI [of _ emptyTokenTotals]) (simp add: adds_up_def)
next
  case (Cons kg rest)
  obtain key acts where kg: "kg = (key, acts)" by (cases kg)
  define row where "row = group_row bi key acts a"
  have row: "summed (row_tokens row)" "fits (sum_tokens a (row_tokens row)) (bi_totals bi)"
    using Cons.prems(3) by (simp_all add: row_def group_row_tokens within_add [of a "atom_totals s" for s])
  have add: "addTokenTotals a (row_tokens row) = sum_tokens a (row_tokens row)"
    by (rule addTokenTotals_sum [OF Cons.prems(2) row(1)])
  obtain rs f where r: "group_rows bi rest (sum_tokens a (row_tokens row)) = (rs, f)" by fastforce
  from Cons.IH [OF r summed_simps(2) [OF Cons.prems(2) row(1)] row(2)]
  obtain t where t: "adds_up rs t" "f = sum_tokens (sum_tokens a (row_tokens row)) t" "fits f (bi_totals bi)" by blast
  have rows: "rows = row # rs" "final = f"
    using Cons.prems(1) unfolding kg group_rows.simps Let_def row_def [symmetric] add r by simp_all
  have "adds_up (row # rs) (sum_tokens (row_tokens row) t)" using t(1) row(1) by (simp add: adds_up_def)
  moreover have "f = sum_tokens a (sum_tokens (row_tokens row) t)" by (simp only: t(2) sum_tokens_ac(2))
  ultimately show ?case using t(3) unfolding rows by blast
qed

lemma left_over:
  assumes "fits a t" "summed a" "summed t"
  shows "sum_tokens a (subtractTokenTotals t a) = t" "summed (subtractTokenTotals t a)" "nonneg_tokens (subtractTokenTotals t a)"
  using assms by (auto intro!: tokens_eqI simp: within_totals_def sum_tokens_def subtractTokenTotals_def emptyTokenTotals_def
    summed_def nonneg_tokens_def Let_def)

lemma nothing_left:
  assumes "nonneg_tokens v" "summed v" "\<not> (tk_totalTokens v > 0 \<or> tk_cacheReadInputTokens v > 0
    \<or> tk_cacheCreationInputTokens v > 0 \<or> tk_reasoningOutputTokens v > 0)"
  shows "v = emptyTokenTotals"
  using assms by (intro tokens_eqI) (auto simp: nonneg_tokens_def summed_def emptyTokenTotals_def)

lemma unallocated_row_tokens: "summed v \<Longrightarrow> row_tokens (unallocated_row bi v b) = v"
  by (rule tokens_eqI) (simp_all add: unallocated_row_def tokenTotalsFromBreakdown_def summed_def)

lemma runBreakdown_adds_up:
  assumes "nonneg_tokens (bi_totals bi)" "summed (bi_totals bi)"
  shows "adds_up (runBreakdown bi activities) (bi_totals bi)"
proof -
  define gs where "gs = group_by (\<lambda>a. aa_kind a @ '':'' @ aa_name a) (map_values (map_from aa_activityId activities))"
  obtain rows a where g: "group_rows bi gs emptyTokenTotals = (rows, a)" by fastforce
  have "fits emptyTokenTotals (bi_totals bi)" using assms(1) by (simp add: within_totals_def nonneg_tokens_def emptyTokenTotals_def)
  from group_rows_add_up [OF g summed_simps(1) this] have a: "adds_up rows a" "fits a (bi_totals bi)" by auto
  define left where "left = subtractTokenTotals (bi_totals bi) a"
  have left: "sum_tokens a left = bi_totals bi" "summed left" "nonneg_tokens left"
    using left_over [OF a(2) adds_up_summed [OF a(1)] assms(2)] by (simp_all add: left_def)
  define rest where "rest = (if tk_totalTokens left > 0 \<or> tk_cacheReadInputTokens left > 0 \<or> tk_cacheCreationInputTokens left > 0
    \<or> tk_reasoningOutputTokens left > 0 then [unallocated_row bi left (activities \<noteq> [])] else [])"
  have "adds_up rest left"
    using nothing_left [OF left(3,2)] left(2) by (auto simp: rest_def adds_up_def unallocated_row_tokens)
  from adds_up_append [OF a(1) this] have sum: "adds_up (rows @ rest) (bi_totals bi)" by (simp add: left(1))
  have rb: "runBreakdown bi activities = sort_by (row_le (bi_collation bi)) (rows @ rest)"
    using g by (simp add: runBreakdown_def Let_def gs_def left_def rest_def)
  have "tokens_sum (map row_tokens (sort_by le xs)) = tokens_sum (map row_tokens xs)" for le xs
    by (rule tokens_sum_mset) simp
  then show ?thesis using sum unfolding rb adds_up_def by (simp add: list_all_iff)
qed

end
