(* ===== verification/LinkedConservation.thy ===== *)
theory LinkedConservation
  imports RunConservation
begin

text \<open>
  Merging the runs of subagents conserves tokens: the breakdown of a merged run adds up to its tokens, and
  the reported runs have together the tokens that all runs had, when every child is linked once and no chain
  of links is a cycle.
\<close>

section \<open>Merging breakdowns\<close>

lemma first_index_Some: "first_index P xs = Some i \<Longrightarrow> i < length xs \<and> P (xs ! i)"
  by (induction xs arbitrary: i) (auto split: if_splits)

lemma list_all_summed_sum: "list_all (\<lambda>r. summed (row_tokens r)) rows \<Longrightarrow> adds_up rows (tokens_sum (map row_tokens rows))"
  by (simp add: adds_up_def)

lemma merge_child_row_adds_up:
  assumes "adds_up rows t" "summed allocated" "i < length rows" "summed (row_tokens c)"
    and "merge_child_row hash q a i c (rows, allocated) = (rows', allocated')"
  shows "adds_up rows' (sum_tokens t (row_tokens c)) \<and> allocated' = sum_tokens allocated (row_tokens c) \<and> i < length rows'"
proof (cases "bd_kind c = ''unallocated''")
  case True
  have "summed (row_tokens (rows ! i))" using assms(1,3) by (simp add: adds_up_def list_all_length)
  from addToBreakdown_tokens [OF this assms(4)] have "adds_up (rows[i := addTokenTotalsToBreakdown (rows ! i) (row_tokens c)]) (sum_tokens t (row_tokens c))"
    by (rule adds_up_update [OF assms(1,3,4)])
  then show ?thesis using True assms by (auto simp: merge_child_row_def Let_def addTokenTotals_sum)
next
  case False
  have same: "row_tokens (c\<lparr>bd_breakdownId := x, bd_parentBreakdownId := y\<rparr>) = row_tokens c" for x y
    by (simp add: tokenTotalsFromBreakdown_def)
  have "adds_up [c\<lparr>bd_breakdownId := x, bd_parentBreakdownId := y\<rparr>] (row_tokens c)" for x y
    using assms(4) by (simp add: adds_up_def same)
  from adds_up_append [OF assms(1) this] show ?thesis using False assms by (auto simp: merge_child_row_def Let_def addTokenTotals_sum)
qed

lemma merge_child_rows_add_up:
  "list_all (\<lambda>r. summed (row_tokens r)) cs \<Longrightarrow> adds_up rows t \<Longrightarrow> summed allocated \<Longrightarrow> i < length rows \<Longrightarrow>
    fold (merge_child_row hash q a i) cs (rows, allocated) = (rows', allocated') \<Longrightarrow>
    adds_up rows' (sum_tokens t (tokens_sum (map row_tokens cs)))
    \<and> allocated' = sum_tokens allocated (tokens_sum (map row_tokens cs)) \<and> i < length rows'"
proof (induction cs arbitrary: rows t allocated)
  case (Cons c cs)
  obtain r1 a1 where m: "merge_child_row hash q a i c (rows, allocated) = (r1, a1)" by fastforce
  from Cons.prems(1) have c: "summed (row_tokens c)" "list_all (\<lambda>r. summed (row_tokens r)) cs" by simp_all
  from merge_child_row_adds_up [OF Cons.prems(2,3,4) c(1) m]
  have 1: "adds_up r1 (sum_tokens t (row_tokens c))" "a1 = sum_tokens allocated (row_tokens c)" "i < length r1" by simp_all
  have "summed a1" using 1(2) Cons.prems(3) c(1) by simp
  from Cons.IH [OF c(2) 1(1) this 1(3)] Cons.prems(5) m show ?case by (simp add: 1(2) sum_tokens_ac)
qed simp

lemma no_residual: "\<not> hasTokenTotals (subtractTokenTotals t t)"
  by (simp add: hasTokenTotals_def subtractTokenTotals_def Let_def)

lemma settle_tokens: "row_tokens (settle_subagent_row cs row) = row_tokens row"
  by (simp add: settle_subagent_row_def tokenTotalsFromBreakdown_def)

lemma new_row_adds_up: "adds_up [new_subagent_row hash q a] emptyTokenTotals"
  by (simp add: adds_up_def new_subagent_row_def tokenTotalsFromBreakdown_def emptyTokenTotals_def sum_tokens_def summed_def)

text \<open>A run whose breakdown adds up to its tokens.\<close>

definition balanced :: "shadow_run \<Rightarrow> bool" where
  "balanced r = (\<exists>rows. sr_breakdown r = Some rows \<and> adds_up rows (sr_tokens r))"

lemma merged_breakdown_adds_up:
  assumes "balanced parent" "balanced child"
  shows "adds_up (mergeSubagentBreakdown hash parent child a) (sum_tokens (sr_tokens parent) (sr_tokens child))"
proof -
  obtain prows crows where rows: "sr_breakdown parent = Some prows" "adds_up prows (sr_tokens parent)"
    "sr_breakdown child = Some crows" "adds_up crows (sr_tokens child)" using assms by (auto simp: balanced_def)
  define q where "q = query_of_run parent"
  define is_row :: "breakdown_row \<Rightarrow> bool" where "is_row = (\<lambda>r. bd_kind r = ''subagent'' \<and> bd_name r = aa_name a)"
  define rows0 where "rows0 = (if first_index is_row prows = None then prows @ [new_subagent_row hash q a] else prows)"
  define i where "i = nullish (first_index is_row prows) (length prows)"
  have r0: "adds_up rows0 (sr_tokens parent)" "i < length rows0"
    using rows(2) adds_up_append [OF rows(2) new_row_adds_up [of hash q a]] first_index_Some [of is_row prows]
    by (auto simp: rows0_def i_def split: option.splits)
  obtain rs al where f: "fold (merge_child_row hash q a i) crows (rows0, emptyTokenTotals) = (rs, al)" by fastforce
  have crows: "tokens_sum (map row_tokens crows) = sr_tokens child" "list_all (\<lambda>r. summed (row_tokens r)) crows"
    using rows(4) by (simp_all add: adds_up_def)
  from merge_child_rows_add_up [OF crows(2) r0(1) summed_simps(1) r0(2) f] crows(1)
  have m: "adds_up rs (sum_tokens (sr_tokens parent) (sr_tokens child))" "al = sr_tokens child" "i < length rs" by simp_all
  have "mergeSubagentBreakdown hash parent child a = rs[i := settle_subagent_row crows (rs ! i)]"
    using f unfolding mergeSubagentBreakdown_def rows(1,3) nullish_simps Let_def is_row_def [symmetric] q_def [symmetric]
      rows0_def [symmetric] i_def [symmetric] by (simp add: m(2) no_residual)
  then show ?thesis
    using adds_up_update [OF m(1,3) summed_simps(1), of "settle_subagent_row crows (rs ! i)"] by (simp add: settle_tokens)
qed

lemma merged_run:
  "sr_tokens (mergeLinkedSubagentRun hash parent child a) = sum_tokens (sr_tokens parent) (sr_tokens child)"
  "query_of_run (mergeLinkedSubagentRun hash parent child a) = query_of_run parent"
  "balanced parent \<Longrightarrow> balanced child \<Longrightarrow> balanced (mergeLinkedSubagentRun hash parent child a)"
  by (simp_all add: mergeLinkedSubagentRun_def Let_def query_of_run_def balanced_def)
    (use merged_breakdown_adds_up [of parent child hash a] in \<open>simp add: balanced_def\<close>)

lemma finalized_run:
  "sr_tokens (finalizeLinkedSubagentBreakdown r links) = sr_tokens r"
  "query_of_run (finalizeLinkedSubagentBreakdown r links) = query_of_run r"
  by (simp_all add: finalizeLinkedSubagentBreakdown_def query_of_run_def split: option.split)

lemma finalized_balanced: "balanced r \<Longrightarrow> balanced (finalizeLinkedSubagentBreakdown r links)"
proof -
  assume b: "balanced r"
  then obtain rows where rows: "sr_breakdown r = Some rows" "adds_up rows (sr_tokens r)" by (auto simp: balanced_def)
  have "map row_tokens (map f rows) = map row_tokens rows" "list_all (\<lambda>x. summed (row_tokens x)) (map f rows) = list_all (\<lambda>x. summed (row_tokens x)) rows"
    if "\<And>x. row_tokens (f x) = row_tokens x" for f
    using that by (simp_all add: list_all_iff)
  then have "adds_up (map f rows) (sr_tokens r)" if "\<And>x. row_tokens (f x) = row_tokens x" for f
    using that rows(2) unfolding adds_up_def by presburger
  from this [of "\<lambda>row. let linkedCount = length (filter (\<lambda>l. aa_name (lk_activity l) = bd_name row) links)
            in if bd_kind row \<noteq> ''subagent'' \<or> truthy (bd_parentBreakdownId row) \<or> linkedCount = 0
                 \<or> of_nat linkedCount \<noteq> bd_count row \<or> \<not> hasTokenTotals (tokenTotalsFromBreakdown row)
               then row else row\<lparr>bd_attributionBasis := ''trace_descendant'', bd_coverage := ''complete''\<rparr>"]
  show ?thesis using b rows by (auto simp: finalizeLinkedSubagentBreakdown_def balanced_def tokenTotalsFromBreakdown_def Let_def)
qed

section \<open>Following the links\<close>

text \<open>One link: the run of the child, if there is one, is merged.\<close>

definition follow :: "(string \<Rightarrow> string) \<Rightarrow> shadow_run list \<Rightarrow> (shadow_run \<Rightarrow> shadow_run) \<Rightarrow> linked_subagent \<Rightarrow> shadow_run \<Rightarrow> shadow_run" where
  "follow hash runs m l parent = (case map_get (runs_by_query runs) (lk_childQueryId l) of
     None \<Rightarrow> parent | Some child \<Rightarrow> mergeLinkedSubagentRun hash parent (m child) (lk_activity l))"

lemma merge_linked_Suc:
  "merge_linked hash runs links (Suc n) r visiting =
     (if query_of_run r \<in> set visiting then r
      else finalizeLinkedSubagentBreakdown
        (fold (follow hash runs (\<lambda>c. merge_linked hash runs links n c (query_of_run r # visiting))) (direct_links links (query_of_run r)) r)
        (direct_links links (query_of_run r)))"
  by (simp add: Let_def follow_def [abs_def])

declare merge_linked.simps(2) [simp del]

lemma run_by_query: "map_get (runs_by_query runs) q = Some r \<Longrightarrow> r \<in> set runs \<and> query_of_run r = q"
  unfolding runs_by_query_def by (rule map_from_get)

lemma run_by_query_ex: "q \<in> query_of_run ` set runs \<Longrightarrow> \<exists>r. map_get (runs_by_query runs) q = Some r"
  unfolding runs_by_query_def
  by (metis (no_types, lifting) keys_map_from map_of_eq_None_iff not_None_eq set_map)

lemma fold_follow_tokens:
  "sr_tokens (fold (follow hash runs m) ls r) = sum_tokens (sr_tokens r)
     (tokens_sum (map (\<lambda>l. case map_get (runs_by_query runs) (lk_childQueryId l) of None \<Rightarrow> emptyTokenTotals | Some c \<Rightarrow> sr_tokens (m c)) ls))"
  by (induction ls arbitrary: r) (auto simp: follow_def merged_run sum_tokens_ac split: option.split)

lemma fold_follow_query: "query_of_run (fold (follow hash runs m) ls r) = query_of_run r"
  by (induction ls arbitrary: r) (auto simp: follow_def merged_run split: option.split)

lemma fold_follow_balanced:
  "(\<And>c. c \<in> set runs \<Longrightarrow> balanced (m c)) \<Longrightarrow> balanced r \<Longrightarrow> balanced (fold (follow hash runs m) ls r)"
  by (induction ls arbitrary: r) (auto simp: follow_def merged_run dest: run_by_query split: option.split)

lemma merge_linked_query: "query_of_run (merge_linked hash runs links n r visiting) = query_of_run r"
  by (cases n) (simp_all add: merge_linked_Suc finalized_run fold_follow_query)

lemma merge_linked_balanced:
  "(\<And>c. c \<in> set runs \<Longrightarrow> balanced c) \<Longrightarrow> balanced r \<Longrightarrow> balanced (merge_linked hash runs links n r visiting)"
  by (induction n arbitrary: r visiting) (auto simp: merge_linked_Suc intro!: finalized_balanced fold_follow_balanced)

section \<open>Enough fuel\<close>

text \<open>The queries that a merge may still visit.\<close>

definition unvisited :: "shadow_run list \<Rightarrow> string list \<Rightarrow> nat" where
  "unvisited runs visiting = card (query_of_run ` set runs - set visiting)"

lemma unvisited_less: "q \<in> query_of_run ` set runs \<Longrightarrow> q \<notin> set visiting \<Longrightarrow> unvisited runs (q # visiting) < unvisited runs visiting"
  unfolding unvisited_def by (intro psubset_card_mono) auto

lemma fold_follow_cong:
  "(\<And>c. c \<in> set runs \<Longrightarrow> m c = m' c) \<Longrightarrow> fold (follow hash runs m) ls r = fold (follow hash runs m') ls r"
  by (induction ls arbitrary: r) (auto simp: follow_def dest: run_by_query split: option.split)

lemma merge_fuel:
  "unvisited runs visiting < n \<Longrightarrow> unvisited runs visiting < m \<Longrightarrow> r \<in> set runs \<Longrightarrow>
    merge_linked hash runs links n r visiting = merge_linked hash runs links m r visiting"
proof (induction n arbitrary: m r visiting)
  case (Suc n)
  then obtain m' where m: "m = Suc m'" by (cases m) auto
  show ?case
  proof (cases "query_of_run r \<in> set visiting")
    case False
    then have "unvisited runs (query_of_run r # visiting) < unvisited runs visiting" using Suc.prems(3) by (simp add: unvisited_less)
    then have "unvisited runs (query_of_run r # visiting) < n" "unvisited runs (query_of_run r # visiting) < m'"
      using Suc.prems(1,2) m by linarith+
    then have "merge_linked hash runs links n c (query_of_run r # visiting) = merge_linked hash runs links m' c (query_of_run r # visiting)"
      if "c \<in> set runs" for c using that by (rule Suc.IH)
    from fold_follow_cong [OF this] show ?thesis using False by (simp add: m merge_linked_Suc)
  qed (simp add: m merge_linked_Suc)
qed simp

lemma unvisited_le: "unvisited runs visiting \<le> length runs"
  unfolding unvisited_def by (meson Diff_subset card_image_le card_length card_mono finite_imageI finite_set le_trans)

section \<open>Links that form a forest\<close>

definition link_edges :: "linked_subagent list \<Rightarrow> (string \<times> string) set" where
  "link_edges links = (\<lambda>l. (lk_childQueryId l, lk_parentQueryId l)) ` set links"

abbreviation (input) full_merge :: "(string \<Rightarrow> string) \<Rightarrow> shadow_run list \<Rightarrow> linked_subagent list \<Rightarrow> shadow_run \<Rightarrow> shadow_run" where
  "full_merge hash runs links r \<equiv> merge_linked hash runs links (Suc (length runs)) r []"

lemma fold_follow_cong_links:
  assumes "\<And>l c. l \<in> set ls \<Longrightarrow> map_get (runs_by_query runs) (lk_childQueryId l) = Some c \<Longrightarrow> m c = m' c"
  shows "fold (follow hash runs m) ls r = fold (follow hash runs m') ls r"
  using assms by (intro fold_cong ext) (auto simp: follow_def split: option.split)

text \<open>Without cycles a merge does not meet what is being visited.\<close>

lemma merge_visiting:
  assumes "acyclic (link_edges links)"
  shows "r \<in> set runs \<Longrightarrow> (\<forall>v \<in> set visiting. (query_of_run r, v) \<in> (link_edges links)\<^sup>+) \<Longrightarrow> unvisited runs visiting < n \<Longrightarrow>
    merge_linked hash runs links n r visiting = full_merge hash runs links r"
proof -
  have "wf (link_edges links)" using assms by (intro finite_acyclic_wf) (simp_all add: link_edges_def)
  then show "r \<in> set runs \<Longrightarrow> (\<forall>v \<in> set visiting. (query_of_run r, v) \<in> (link_edges links)\<^sup>+) \<Longrightarrow> unvisited runs visiting < n \<Longrightarrow>
    merge_linked hash runs links n r visiting = full_merge hash runs links r"
  proof (induction "query_of_run r" arbitrary: r visiting n rule: wf_induct_rule)
    case less
    let ?q = "query_of_run r"
    obtain n' where n: "n = Suc n'" using less.prems(3) by (cases n) auto
    have q: "?q \<notin> set visiting" using assms less.prems(2) by (auto simp: acyclic_def)
    have child: "merge_linked hash runs links k c (?q # vs) = full_merge hash runs links c"
      if "l \<in> set (direct_links links ?q)" "map_get (runs_by_query runs) (lk_childQueryId l) = Some c"
        "\<forall>v \<in> set vs. (?q, v) \<in> (link_edges links)\<^sup>+" "?q \<notin> set vs" "unvisited runs vs \<le> k" for l c k vs
    proof -
      have c: "c \<in> set runs" "query_of_run c = lk_childQueryId l" using that(2) run_by_query by blast+
      have e: "(query_of_run c, ?q) \<in> link_edges links" using that(1) c(2) by (auto simp: direct_links_def link_edges_def)
      then have "\<forall>v \<in> set (?q # vs). (query_of_run c, v) \<in> (link_edges links)\<^sup>+" using that(3) by (auto intro: trancl_into_trancl2)
      moreover have "unvisited runs (?q # vs) < k" using unvisited_less [of ?q runs vs] less.prems(1) that(4,5) by simp
      ultimately show ?thesis using less.hyps [OF e c(1)] by blast
    qed
    have "fold (follow hash runs (\<lambda>c. merge_linked hash runs links n' c (?q # visiting))) (direct_links links ?q) r
        = fold (follow hash runs (full_merge hash runs links)) (direct_links links ?q) r"
      using child less.prems(2,3) q n by (intro fold_follow_cong_links) simp
    moreover have "fold (follow hash runs (\<lambda>c. merge_linked hash runs links (length runs) c [?q])) (direct_links links ?q) r
        = fold (follow hash runs (full_merge hash runs links)) (direct_links links ?q) r"
      using child [of _ _ "[]"] unvisited_le [of runs "[]"] by (intro fold_follow_cong_links) simp
    ultimately show ?case using q by (simp add: n merge_linked_Suc)
  qed
qed

text \<open>The tokens that a query reports together with all that is linked below it.\<close>

definition below :: "(string \<Rightarrow> string) \<Rightarrow> shadow_run list \<Rightarrow> linked_subagent list \<Rightarrow> string \<Rightarrow> token_totals" where
  "below hash runs links q = (case map_get (runs_by_query runs) q of
     None \<Rightarrow> emptyTokenTotals | Some c \<Rightarrow> sr_tokens (full_merge hash runs links c))"

lemma full_merge_tokens:
  assumes "acyclic (link_edges links)" "r \<in> set runs"
  shows "sr_tokens (full_merge hash runs links r) = sum_tokens (sr_tokens r)
     (tokens_sum (map (below hash runs links \<circ> lk_childQueryId) (direct_links links (query_of_run r))))"
proof -
  let ?q = "query_of_run r"
  have "sr_tokens (merge_linked hash runs links (length runs) c [?q]) = sr_tokens (full_merge hash runs links c)"
    if "l \<in> set (direct_links links ?q)" "map_get (runs_by_query runs) (lk_childQueryId l) = Some c" for l c
  proof -
    have c: "c \<in> set runs" "query_of_run c = lk_childQueryId l" using that(2) run_by_query by blast+
    have "(query_of_run c, ?q) \<in> link_edges links" using that(1) c(2) by (auto simp: direct_links_def link_edges_def)
    then have "\<forall>v \<in> set [?q]. (query_of_run c, v) \<in> (link_edges links)\<^sup>+" by simp
    moreover have "unvisited runs [?q] < length runs"
      using unvisited_less [of ?q runs "[]"] unvisited_le [of runs "[]"] assms(2) by simp
    ultimately show ?thesis using merge_visiting [OF assms(1) c(1)] by simp
  qed
  then have "map (\<lambda>l. case map_get (runs_by_query runs) (lk_childQueryId l) of None \<Rightarrow> emptyTokenTotals
      | Some c \<Rightarrow> sr_tokens (merge_linked hash runs links (length runs) c [?q])) (direct_links links ?q)
    = map (below hash runs links \<circ> lk_childQueryId) (direct_links links ?q)"
    by (auto simp: below_def split: option.split)
  then show ?thesis by (simp add: merge_linked_Suc finalized_run fold_follow_tokens cong: map_cong)
qed

lemma tokens_sum_map_add:
  "tokens_sum (map (\<lambda>x. sum_tokens (f x) (g x)) xs) = sum_tokens (tokens_sum (map f xs)) (tokens_sum (map g xs))"
  by (induction xs) (simp_all add: sum_tokens_ac)

lemma tokens_sum_concat: "tokens_sum (concat xss) = tokens_sum (map tokens_sum xss)"
  by (induction xss) simp_all

lemma sum_tokens_cancel: "sum_tokens a c = sum_tokens b c \<longleftrightarrow> a = b"
proof
  assume "sum_tokens a c = sum_tokens b c"
  then show "a = b" by (intro tokens_eqI) (auto simp: sum_tokens_def)
qed simp

lemma tokens_sum_filter:
  "tokens_sum (map f xs) = sum_tokens (tokens_sum (map f (filter P xs))) (tokens_sum (map f (filter (\<lambda>x. \<not> P x) xs)))"
  by (induction xs) (simp_all add: sum_tokens_ac)

text \<open>Every link is a direct link of its parent.\<close>

lemma mset_direct_links:
  assumes "distinct qs" "\<forall>l \<in> set links. lk_parentQueryId l \<in> set qs"
  shows "mset (concat (map (direct_links links) qs)) = mset links"
  using assms
proof (induction qs arbitrary: links)
  case (Cons q qs)
  let ?rest = "filter (\<lambda>l. lk_parentQueryId l \<noteq> q) links"
  have "direct_links ?rest p = direct_links links p" if "p \<in> set qs" for p
    using that Cons.prems(1) by (auto simp: direct_links_def intro!: filter_cong)
  then have "concat (map (direct_links links) qs) = concat (map (direct_links ?rest) qs)"
    by (metis (mono_tags, lifting) map_cong)
  moreover have "mset (concat (map (direct_links ?rest) qs)) = mset ?rest"
    using Cons.IH [of ?rest] Cons.prems by auto
  moreover have "mset (direct_links links q) + mset ?rest = mset links"
    unfolding direct_links_def mset_filter by (rule multiset_partition [symmetric])
  ultimately show ?case by simp
qed simp

lemma forest_conserves:
  assumes "distinct (map query_of_run runs)" "distinct (map lk_childQueryId links)" "acyclic (link_edges links)"
    and "\<forall>l \<in> set links. lk_parentQueryId l \<in> query_of_run ` set runs \<and> lk_childQueryId l \<in> query_of_run ` set runs"
  shows "tokens_sum (map (\<lambda>r. sr_tokens (full_merge hash runs links r))
      (filter (\<lambda>r. query_of_run r \<notin> set (map lk_childQueryId links)) runs)) = tokens_sum (map sr_tokens runs)"
proof -
  let ?W = "below hash runs links" and ?cs = "map lk_childQueryId links"
  let ?is_child = "\<lambda>r. query_of_run r \<in> set ?cs"
  have get: "map_get (runs_by_query runs) (query_of_run r) = Some r" if "r \<in> set runs" for r
    using run_by_query_ex [of "query_of_run r" runs] run_by_query that assms(1)
    by (metis distinct_map imageI inj_onD)
  have W: "?W (query_of_run r) = sr_tokens (full_merge hash runs links r)" if "r \<in> set runs" for r
    using get [OF that] by (simp add: below_def)
  have own: "tokens_sum (map (?W \<circ> query_of_run) runs)
      = sum_tokens (tokens_sum (map sr_tokens runs)) (tokens_sum (map (?W \<circ> lk_childQueryId) links))"
  proof -
    have "map (?W \<circ> query_of_run) runs = map (\<lambda>r. sum_tokens (sr_tokens r)
        (tokens_sum (map (?W \<circ> lk_childQueryId) (direct_links links (query_of_run r))))) runs"
      using W full_merge_tokens [OF assms(3)] by simp
    then have "tokens_sum (map (?W \<circ> query_of_run) runs) = sum_tokens (tokens_sum (map sr_tokens runs))
        (tokens_sum (concat (map (\<lambda>r. map (?W \<circ> lk_childQueryId) (direct_links links (query_of_run r))) runs)))"
      by (simp only: tokens_sum_map_add tokens_sum_concat map_map comp_def)
    moreover have "concat (map (\<lambda>r. map (?W \<circ> lk_childQueryId) (direct_links links (query_of_run r))) runs)
        = map (?W \<circ> lk_childQueryId) (concat (map (direct_links links) (map query_of_run runs)))"
      by (simp add: map_concat comp_def)
    moreover have "mset (concat (map (direct_links links) (map query_of_run runs))) = mset links"
      using assms(1,4) by (intro mset_direct_links) auto
    then have "tokens_sum (map (?W \<circ> lk_childQueryId) (concat (map (direct_links links) (map query_of_run runs))))
        = tokens_sum (map (?W \<circ> lk_childQueryId) links)"
      by (intro tokens_sum_mset) (metis mset_map)
    ultimately show ?thesis by simp
  qed
  have children: "tokens_sum (map (?W \<circ> query_of_run) (filter ?is_child runs)) = tokens_sum (map (?W \<circ> lk_childQueryId) links)"
  proof -
    have "mset (map query_of_run (filter ?is_child runs)) = mset ?cs"
    proof (rule set_eq_iff_mset_eq_distinct [THEN iffD1])
      show "distinct (map query_of_run (filter ?is_child runs))" using assms(1) by (rule distinct_map_filter)
      have "set (map query_of_run (filter ?is_child runs)) = query_of_run ` set runs \<inter> set ?cs" by auto
      then show "set (map query_of_run (filter ?is_child runs)) = set ?cs" using assms(4) by auto
    qed (rule assms(2))
    then have "mset (map ?W (map query_of_run (filter ?is_child runs))) = mset (map ?W ?cs)" by (metis mset_map)
    from tokens_sum_mset [OF this] show ?thesis by simp
  qed
  have "tokens_sum (map (?W \<circ> query_of_run) (filter (\<lambda>r. \<not> ?is_child r) runs)) = tokens_sum (map sr_tokens runs)"
    using own tokens_sum_filter [of "?W \<circ> query_of_run" runs ?is_child] children
    by (metis sum_tokens_ac(1) sum_tokens_cancel)
  moreover have "map (?W \<circ> query_of_run) (filter (\<lambda>r. \<not> ?is_child r) runs)
      = map (\<lambda>r. sr_tokens (full_merge hash runs links r)) (filter (\<lambda>r. \<not> ?is_child r) runs)"
    using W by simp
  ultimately show ?thesis by (simp only:)
qed

section \<open>The reported runs\<close>

lemma link_candidate_ends:
  "link_candidate runs a = Some l \<Longrightarrow> lk_parentQueryId l \<in> query_of_run ` set runs \<and> lk_childQueryId l \<in> query_of_run ` set runs"
proof -
  assume l: "link_candidate runs a = Some l"
  then obtain child parent where c: "filter (\<lambda>r. truthy (sr_sessionId r) \<and> sr_sessionId r = aa_childSessionId a) runs = [child]"
    "map_get (runs_by_query runs) (aa_queryId a) = Some parent"
    "l = \<lparr>lk_parentQueryId = aa_queryId a, lk_childQueryId = query_of_run child, lk_activity = a\<rparr>"
    by (auto simp: link_candidate_def split: if_splits list.splits option.splits)
  have "child \<in> set (filter (\<lambda>r. truthy (sr_sessionId r) \<and> sr_sessionId r = aa_childSessionId a) runs)" unfolding c(1) by simp
  then show ?thesis using c(2,3) run_by_query by force
qed

lemma subagent_link_ends:
  "l \<in> set (subagent_links runs activities) \<Longrightarrow>
    lk_parentQueryId l \<in> query_of_run ` set runs \<and> lk_childQueryId l \<in> query_of_run ` set runs"
proof -
  assume "l \<in> set (subagent_links runs activities)"
  then obtain a where "link_candidate runs a = Some l"
    by (auto simp: subagent_links_def link_candidates_def List.map_filter_def Let_def)
  then show ?thesis by (rule link_candidate_ends)
qed

lemma aggregate_balanced:
  "(\<And>r. r \<in> set runs \<Longrightarrow> balanced r) \<Longrightarrow> r \<in> set (aggregateLinkedSubagentRuns hash runs activities) \<Longrightarrow> balanced r"
  by (auto simp: aggregateLinkedSubagentRuns_def Let_def simp del: merge_linked.simps intro!: merge_linked_balanced)

text \<open>
  C19: merging the runs of subagents conserves tokens. The reported queries are those of the runs that no
  link names as a child. When the queries are different, every child is linked once and no chain of links is
  a cycle, the reported runs have together, for every kind of token, exactly the tokens that all runs had;
  of a cycle of links no run is reported, so its tokens are lost.
\<close>

theorem linked_runs_conserve:
  "map query_of_run (aggregateLinkedSubagentRuns hash runs activities)
     = filter (\<lambda>q. q \<notin> set (map lk_childQueryId (subagent_links runs activities))) (map query_of_run runs)
   \<and> (distinct (map query_of_run runs) \<and> distinct (map lk_childQueryId (subagent_links runs activities))
       \<and> acyclic (link_edges (subagent_links runs activities)) \<longrightarrow>
      tokens_sum (map sr_tokens (aggregateLinkedSubagentRuns hash runs activities)) = tokens_sum (map sr_tokens runs))"
proof -
  let ?links = "subagent_links runs activities"
  have "map query_of_run (aggregateLinkedSubagentRuns hash runs activities)
      = filter (\<lambda>q. q \<notin> set (map lk_childQueryId ?links)) (map query_of_run runs)"
    by (simp add: aggregateLinkedSubagentRuns_def Let_def merge_linked_query filter_map comp_def del: merge_linked.simps)
  moreover have "tokens_sum (map sr_tokens (aggregateLinkedSubagentRuns hash runs activities)) = tokens_sum (map sr_tokens runs)"
    if "distinct (map query_of_run runs)" "distinct (map lk_childQueryId ?links)" "acyclic (link_edges ?links)"
    using forest_conserves [OF that, of hash] subagent_link_ends
    by (simp add: aggregateLinkedSubagentRuns_def Let_def comp_def del: merge_linked.simps)
  ultimately show ?thesis by blast
qed

definition sample_occurrence :: "string \<Rightarrow> string \<Rightarrow> occurrence" where
  "sample_occurrence q s = \<lparr>oc_queryId = q, oc_sessionId = s, oc_lifecycleVisibility = None, oc_provider = ''claude-code'',
     oc_runtime = ''cli'', oc_startedAt = ''2026-07-01T10:00:00Z'', oc_completedAt = None, oc_completionEvidence = None,
     oc_completionOutcome = None, oc_repositoryKey = None, oc_promptState = ''disabled'', oc_promptText = None,
     oc_evidence = ''submission_hook''\<rparr>"

definition sample_env :: projection_env where
  "sample_env = \<lparr>pe_collation = code_unit_compare, pe_hash = (\<lambda>s. s), pe_now = 0, pe_aliases = [], pe_conflicts = []\<rparr>"

definition sample_shadow_run :: "string \<Rightarrow> string \<Rightarrow> rat \<Rightarrow> shadow_run" where
  "sample_shadow_run q s n = projectOccurrenceOnlyGroup sample_env (sample_occurrence q s) [] False
     \<lparr>sr_tokens := \<lparr>tk_inputTokens = n, tk_outputTokens = 1, tk_cacheReadInputTokens = 0, tk_cacheCreationInputTokens = 0,
       tk_reasoningOutputTokens = 0, tk_totalTokens = n + 1\<rparr>\<rparr>"

definition sample_launch :: activity_atom where
  "sample_launch = \<lparr>aa_activityId = ''a1'', aa_queryId = ''qry_p'', aa_sessionId = None, aa_requestId = None,
     aa_invocationId = Some ''tool-1'', aa_childSessionId = Some ''child'', aa_provider = ''claude-code'', aa_kind = ''subagent'',
     aa_name = ''Explore'', aa_outcome = ''success'', aa_outcomeAuthority = None, aa_durationMs = None, aa_resultSizeBytes = None,
     aa_providerReportedResultTokens = None, aa_sensitiveAuditEvidence = None, aa_evidenceBasis = Some ''subagent_hook'',
     aa_evidenceSourceId = Some ''hook_claude_code_tools'', aa_startedAt = ''2026-07-01T10:00:00Z'', aa_endedAt = None\<rparr>"

definition sample_shadow_runs :: "shadow_run list" where
  "sample_shadow_runs = [sample_shadow_run ''qry_p'' ''parent'' 10, sample_shadow_run ''qry_c'' ''child'' 5]"

lemma sample_links:
  "map (\<lambda>l. (lk_childQueryId l, lk_parentQueryId l)) (subagent_links sample_shadow_runs [sample_launch]) = [(''qry_c'', ''qry_p'')]"
  by code_simp

theorem linked_runs_conserve_witness:
  "tk_totalTokens (tokens_sum (map sr_tokens (aggregateLinkedSubagentRuns (\<lambda>s. s) sample_shadow_runs [sample_launch]))) = 17"
proof -
  let ?links = "subagent_links sample_shadow_runs [sample_launch]"
  have "map fst (map (\<lambda>l. (lk_childQueryId l, lk_parentQueryId l)) ?links) = [''qry_c'']" unfolding sample_links by simp
  then have "distinct (map lk_childQueryId ?links)" by (simp add: comp_def)
  moreover have "link_edges ?links = {(''qry_c'', ''qry_p'')}"
    using arg_cong [OF sample_links, of set] by (simp add: link_edges_def)
  then have "acyclic (link_edges ?links)" by (simp add: acyclic_insert, simp add: acyclic_def)
  moreover have "distinct (map query_of_run sample_shadow_runs)" by code_simp
  moreover have "tk_totalTokens (tokens_sum (map sr_tokens sample_shadow_runs)) = 17" by code_simp
  ultimately show ?thesis using linked_runs_conserve [of "\<lambda>s. s" sample_shadow_runs "[sample_launch]"] by simp
qed

end
