(* ===== verification/ActivityComponents.thy ===== *)
theory ActivityComponents
  imports ActivityMerging
begin

text \<open>
  The union-find of the preferred activities is right: \<open>find\<close> always returns, because a parent never has a
  smaller index than its child, and two activities end in one component exactly when a chain of activities
  that share keys connects them.
\<close>

section \<open>Roots\<close>

text \<open>Parents while the activity with index \<open>k\<close> is processed.\<close>

definition uf_upto :: "nat \<Rightarrow> nat list \<Rightarrow> bool" where
  "uf_upto k p = (\<forall>i < length p. i \<le> p ! i \<and> p ! i \<le> max i k \<and> p ! i < length p)"

function uf_root :: "nat list \<Rightarrow> nat \<Rightarrow> nat" where
  "uf_root p i = (if i < length p \<and> i < p ! i then uf_root p (p ! i) else i)"
  by pat_completeness auto
termination
  by (relation "measure (\<lambda>(p, i). length p - i)") auto

declare uf_root.simps [simp del]

lemma uf_upto_mono: "uf_upto k p \<Longrightarrow> k \<le> l \<Longrightarrow> uf_upto l p"
  unfolding uf_upto_def by (meson max.mono order_refl order_trans)

lemma root_step: "uf_upto k p \<Longrightarrow> i < length p \<Longrightarrow> uf_root p (p ! i) = uf_root p i"
  by (metis le_neq_implies_less uf_root.simps uf_upto_def)

lemma root_of_root [simp]: "i < length p \<Longrightarrow> p ! i = i \<Longrightarrow> uf_root p i = i"
  by (simp add: uf_root.simps)

lemma root_bounds:
  "uf_upto k p \<Longrightarrow> i < length p \<Longrightarrow> i \<le> uf_root p i \<and> uf_root p i \<le> max i k \<and> uf_root p i < length p \<and> p ! uf_root p i = uf_root p i"
proof (induction p i rule: uf_root.induct)
  case (1 p i)
  show ?case
  proof (cases "i < p ! i")
    case True
    then have "p ! i < length p" "p ! i \<le> max i k" using "1.prems" by (auto simp: uf_upto_def)
    then show ?thesis using "1.IH" "1.prems" True by (subst (1 2 3 4 5) uf_root.simps) (auto simp: max_def split: if_splits)
  next
    case False
    then have "p ! i = i" using "1.prems" by (simp add: uf_upto_def le_antisym)
    then show ?thesis using "1.prems" by simp
  qed
qed

text \<open>Descending induction on indices.\<close>

lemma descending_induct [consumes 1, case_names step]:
  assumes "i < (n::nat)" "\<And>i. i < n \<Longrightarrow> (\<And>j. i < j \<Longrightarrow> j < n \<Longrightarrow> P j) \<Longrightarrow> P i"
  shows "P i"
  using assms(1) by (induction "n - i" arbitrary: i rule: less_induct) (simp add: assms(2) diff_less_mono2)

lemma halve:
  assumes "uf_upto k p" "i < length p" "p ! i \<noteq> i"
  defines "p' \<equiv> p[i := p ! (p ! i)]"
  shows "uf_upto k p'" "\<And>j. j < length p \<Longrightarrow> uf_root p' j = uf_root p j"
proof -
  have i: "i < p ! i" "p ! i < length p" "p ! i \<le> max i k" using assms(1,2,3) unfolding uf_upto_def by (metis le_neq_implies_less)+
  then have pp: "p ! i \<le> p ! (p ! i)" "p ! (p ! i) \<le> max (p ! i) k" "p ! (p ! i) < length p" using assms(1) by (auto simp: uf_upto_def)
  have "p ! (p ! i) \<le> max i k" using i(3) pp(2) by linarith
  then show u: "uf_upto k p'" using assms(1) i pp unfolding uf_upto_def p'_def by (auto simp: nth_list_update)
  fix j assume "j < length p"
  then show "uf_root p' j = uf_root p j"
  proof (induction j rule: descending_induct)
    case (step j)
    have "uf_root p' j = uf_root p' (p' ! j)" using root_step [OF u] step by (simp add: p'_def)
    also have "\<dots> = uf_root p j"
    proof (cases "j = i")
      case True
      then show ?thesis using step(2) [of "p ! (p ! i)"] i pp assms(2) root_step [OF assms(1), of i] root_step [OF assms(1), of "p ! i"]
        by (simp add: p'_def)
    next
      case False
      then have "p' ! j = p ! j" by (simp add: p'_def)
      moreover have "uf_root p' (p ! j) = uf_root p (p ! j)"
      proof (cases "p ! j = j")
        case True
        then show ?thesis using \<open>p' ! j = p ! j\<close> step(1) by (simp add: p'_def)
      next
        case False
        then show ?thesis using step assms(1) unfolding uf_upto_def by (metis le_neq_implies_less)
      qed
      ultimately show ?thesis using root_step [OF assms(1) step(1)] by simp
    qed
    finally show ?case .
  qed
qed

lemma find_root:
  "uf_upto k p \<Longrightarrow> i < length p \<Longrightarrow>
    \<exists>p'. uf_find p i = Some (p', uf_root p i) \<and> uf_upto k p' \<and> length p' = length p \<and> (\<forall>j < length p. uf_root p' j = uf_root p j)"
proof (induction "length p - i" arbitrary: p i rule: less_induct)
  case less
  show ?case
  proof (cases "p ! i = i")
    case True
    then show ?thesis using less.prems by (simp add: uf_find.simps)
  next
    case False
    define p' where "p' = p[i := p ! (p ! i)]"
    have h: "uf_upto k p'" "\<And>j. j < length p \<Longrightarrow> uf_root p' j = uf_root p j" "length p' = length p"
      using halve [OF less.prems False] by (simp_all add: p'_def)
    have pi: "i < p ! i" "p ! i < length p" using less.prems False unfolding uf_upto_def by (metis le_neq_implies_less)+
    then have "i < p' ! i" "p' ! i < length p'" using less.prems by (auto simp: p'_def uf_upto_def intro: less_le_trans)
    moreover have "uf_find p i = uf_find p' (p' ! i)" using False by (subst uf_find.simps) (simp add: p'_def Let_def)
    moreover have "uf_root p' (p' ! i) = uf_root p i" using root_step [OF h(1)] h less.prems by simp
    ultimately show ?thesis using less.hyps [of p' "p' ! i"] h less.prems by (simp add: diff_less_mono2)
  qed
qed

lemma link:
  assumes "uf_upto k p" "k < length p" "p ! k = k" "r < length p" "p ! r = r" "r < k"
  defines "p' \<equiv> p[r := k]"
  shows "uf_upto k p'" "\<And>j. j < length p \<Longrightarrow> uf_root p' j = (if uf_root p j = r then k else uf_root p j)"
proof -
  show u: "uf_upto k p'" using assms(1,2,6) unfolding uf_upto_def p'_def by (auto simp: nth_list_update)
  fix j assume "j < length p"
  then show "uf_root p' j = (if uf_root p j = r then k else uf_root p j)"
  proof (induction j rule: descending_induct)
    case (step j)
    show ?case
    proof (cases "j = r")
      case True
      then have "uf_root p' j = uf_root p' k" using root_step [OF u, of j] step by (simp add: p'_def)
      then show ?thesis using True assms(2,3,4,5,6) by (simp add: p'_def)
    next
      case False
      then have pj: "p' ! j = p ! j" by (simp add: p'_def)
      show ?thesis
      proof (cases "p ! j = j")
        case True
        then show ?thesis using step(1) pj False by (simp add: p'_def)
      next
        case ne: False
        then have "j < p ! j" "p ! j < length p" using step(1) assms(1) unfolding uf_upto_def by (metis le_neq_implies_less)+
        then have "uf_root p' (p ! j) = (if uf_root p (p ! j) = r then k else uf_root p (p ! j))" by (rule step(2))
        moreover have "uf_root p' (p ! j) = uf_root p' j" using root_step [OF u, of j] pj step(1) by (simp add: p'_def)
        ultimately show ?thesis unfolding root_step [OF assms(1) step(1)] by simp
      qed
    qed
  qed
qed

text \<open>A union at \<open>k\<close> with an older index joins the two classes.\<close>

lemma union_roots:
  assumes "uf_upto k p" "k < length p" "i \<le> k"
  shows "\<exists>p'. uf_union p k i = Some p' \<and> uf_upto k p' \<and> length p' = length p
    \<and> (\<forall>j < length p. uf_root p' j = (if uf_root p j = uf_root p i then k else uf_root p j))"
proof -
  have k: "p ! k = k" using assms(1,2) by (auto simp: uf_upto_def le_antisym)
  obtain p1 where p1: "uf_find p k = Some (p1, k)" "uf_upto k p1" "length p1 = length p" "\<forall>j < length p. uf_root p1 j = uf_root p j"
    using find_root [OF assms(1,2)] k assms(2) by auto
  have i: "i < length p1" using assms p1(3) by simp
  obtain p2 where p2: "uf_find p1 i = Some (p2, uf_root p i)" "uf_upto k p2" "length p2 = length p" "\<forall>j < length p. uf_root p2 j = uf_root p j"
    using find_root [OF p1(2) i] p1(3,4) i by auto
  define r where "r = uf_root p i"
  have r: "r \<le> k" "r < length p2" "p2 ! r = r"
    using root_bounds [OF p2(2), of i] p2(3,4) assms(3) i p1(3) by (auto simp: r_def)
  show ?thesis
  proof (cases "r = k")
    case True
    then show ?thesis using p1 p2 by (simp add: uf_union_def r_def)
  next
    case False
    have k2: "p2 ! k = k" using p2(2,3) assms(2) by (auto simp: uf_upto_def le_antisym)
    from False r have rk: "r < k" by simp
    have "uf_union p k i = Some (p2[r := k])" using p1(1) p2(1) False by (simp add: uf_union_def r_def)
    then show ?thesis using link [OF p2(2) _ k2 r(2,3) rk] p2(3,4) assms(2) by (simp add: r_def)
  qed
qed

section \<open>Connected activities\<close>

text \<open>The pairs of indices that have a key in common, of the keys seen so far.\<close>

definition shares :: "(nat \<times> string) list \<Rightarrow> (nat \<times> nat) set" where
  "shares ps = {(i, j). \<exists>key. (i, key) \<in> set ps \<and> (j, key) \<in> set ps}"

lemma shares_append:
  "shares (ps @ [(k, key)]) \<subseteq> insert (k, k) (shares ps \<union> {(k, j) | j. (j, key) \<in> set ps} \<union> {(j, k) | j. (j, key) \<in> set ps})"
  "shares ps \<subseteq> shares (ps @ [(k, key)])"
  by (auto simp: shares_def)

lemma connected_new:
  assumes "\<And>j. (j, key) \<notin> set ps"
  shows "(shares (ps @ [(k, key)]))\<^sup>* = (shares ps)\<^sup>*"
proof -
  have "shares (ps @ [(k, key)]) \<subseteq> (shares ps)\<^sup>*"
    using shares_append(1) [of ps k key] assms by auto
  then show ?thesis using shares_append(2) [of ps k key] by (metis rtrancl_subset)
qed

lemma sym_shares: "sym ((shares ps)\<^sup>*)"
  by (intro sym_rtrancl symI) (auto simp: shares_def)

lemma connected_old:
  assumes "(i, key) \<in> set ps"
  shows "(x, y) \<in> (shares (ps @ [(k, key)]))\<^sup>* \<longleftrightarrow> (x, y) \<in> (shares ps)\<^sup>*
     \<or> (x, k) \<in> (shares ps)\<^sup>* \<and> (i, y) \<in> (shares ps)\<^sup>* \<or> (x, i) \<in> (shares ps)\<^sup>* \<and> (k, y) \<in> (shares ps)\<^sup>*"
proof -
  let ?S = "shares ps" and ?T = "shares (ps @ [(k, key)])"
  let ?E = "insert (k, i) (insert (i, k) ?S)"
  have "(k, i) \<in> ?T" "(i, k) \<in> ?T" using assms by (auto simp: shares_def)
  then have "?E \<subseteq> ?T" using shares_append(2) by auto
  moreover have "?T \<subseteq> ?E\<^sup>*"
  proof -
    have "(k, j) \<in> ?E\<^sup>*" "(j, k) \<in> ?E\<^sup>*" if "(j, key) \<in> set ps" for j
    proof -
      have "(i, j) \<in> ?S" "(j, i) \<in> ?S" using that assms by (auto simp: shares_def)
      then show "(k, j) \<in> ?E\<^sup>*" "(j, k) \<in> ?E\<^sup>*"
        by (meson insertI1 insertI2 r_into_rtrancl rtrancl_into_rtrancl)+
    qed
    then show ?thesis using shares_append(1) [of ps k key] by blast
  qed
  ultimately have "?T\<^sup>* = ?E\<^sup>*" by (metis rtrancl_subset)
  then show ?thesis using sym_shares [of ps] unfolding rtrancl_insert sym_def by (auto intro: rtrancl_trans)
qed

section \<open>The loop over activities\<close>

text \<open>What holds while the keys of the activity \<open>k\<close> are joined: \<open>ps\<close> are the pairs of an index and a key
  that were seen, and the owner of a key has it.\<close>

definition owners_ok :: "nat \<Rightarrow> (nat \<times> string) list \<Rightarrow> (string, nat) jsmap \<Rightarrow> bool" where
  "owners_ok k ps owners = (\<forall>key. (map_get owners key = None \<longrightarrow> (\<forall>j. (j, key) \<notin> set ps))
     \<and> (\<forall>i. map_get owners key = Some i \<longrightarrow> (i, key) \<in> set ps \<and> i \<le> k))"

lemma owners_ok_put: "owners_ok k ps owners \<Longrightarrow> owners_ok k (ps @ [(k, key)]) (map_set key k owners)"
  unfolding owners_ok_def by simp

definition uf_inv :: "nat \<Rightarrow> nat \<Rightarrow> (nat \<times> string) list \<Rightarrow> uf_state \<Rightarrow> bool" where
  "uf_inv n k ps st = (uf_upto k (fst st) \<and> length (fst st) = n
     \<and> (\<forall>i < n. \<forall>j < n. uf_root (fst st) i = uf_root (fst st) j \<longleftrightarrow> (i, j) \<in> (shares ps)\<^sup>*)
     \<and> owners_ok k ps (snd st))"

lemma uf_inv_join:
  assumes "uf_inv n k ps (p, owners)" "k < n"
  shows "\<exists>p'. (case map_get owners key of None \<Rightarrow> Some p | Some i \<Rightarrow> uf_union p k i) = Some p'
    \<and> uf_inv n k (ps @ [(k, key)]) (p', map_set key k owners)"
proof (cases "map_get owners key")
  case None
  then have "\<And>j. (j, key) \<notin> set ps" using assms(1) by (simp add: uf_inv_def owners_ok_def)
  then have "(shares (ps @ [(k, key)]))\<^sup>* = (shares ps)\<^sup>*" by (rule connected_new)
  then have "uf_inv n k (ps @ [(k, key)]) (p, map_set key k owners)"
    using assms by (simp add: uf_inv_def owners_ok_put)
  then show ?thesis using None by simp
next
  case (Some i)
  then have i: "(i, key) \<in> set ps" "i \<le> k" using assms(1) by (simp_all add: uf_inv_def owners_ok_def)
  have len: "length p = n" and u: "uf_upto k p" using assms(1) by (auto simp: uf_inv_def)
  have rk: "uf_root p k = k" using u len assms(2) by (auto simp: uf_upto_def le_antisym)
  obtain p' where p': "uf_union p k i = Some p'" "uf_upto k p'" "length p' = n"
    "\<forall>j < n. uf_root p' j = (if uf_root p j = uf_root p i then k else uf_root p j)"
    using union_roots [OF u _ i(2)] len assms(2) by auto
  have same: "uf_root p x = uf_root p y \<longleftrightarrow> (x, y) \<in> (shares ps)\<^sup>*" if "x < n" "y < n" for x y
    using assms(1) that by (auto simp: uf_inv_def)
  have "uf_root p' x = uf_root p' y \<longleftrightarrow> (x, y) \<in> (shares (ps @ [(k, key)]))\<^sup>*" if xy: "x < n" "y < n" for x y
  proof -
    have n: "i < n" using i(2) assms(2) by simp
    have "uf_root p' x = (if uf_root p x = uf_root p i then k else uf_root p x)"
      "uf_root p' y = (if uf_root p y = uf_root p i then k else uf_root p y)" using p'(4) xy by blast+
    then have "uf_root p' x = uf_root p' y \<longleftrightarrow> uf_root p x = uf_root p y
        \<or> uf_root p x = uf_root p k \<and> uf_root p i = uf_root p y \<or> uf_root p x = uf_root p i \<and> uf_root p k = uf_root p y"
      unfolding rk by (simp split: if_split)
    then show ?thesis unfolding connected_old [OF i(1)] same [OF xy] same [OF xy(1) assms(2)] same [OF n xy(2)]
      same [OF xy(1) n] same [OF assms(2) xy(2)] .
  qed
  then have "uf_inv n k (ps @ [(k, key)]) (p', map_set key k owners)"
    using assms p' by (simp add: uf_inv_def owners_ok_put)
  then show ?thesis using p'(1) Some by simp
qed

lemma join_keys_inv:
  "uf_inv n k ps st \<Longrightarrow> k < n \<Longrightarrow> \<exists>st'. join_keys k ks st = Some st' \<and> uf_inv n k (ps @ map (Pair k) ks) st'"
proof (induction ks arbitrary: ps st)
  case (Cons key ks)
  obtain p owners where st: "st = (p, owners)" by (cases st)
  from uf_inv_join [OF Cons.prems [unfolded st], of key] obtain p' where
    "(case map_get owners key of None \<Rightarrow> Some p | Some i \<Rightarrow> uf_union p k i) = Some p'"
    "uf_inv n k (ps @ [(k, key)]) (p', map_set key k owners)" by blast
  with Cons.IH [OF this(2) Cons.prems(2)] show ?case by (simp add: st)
qed simp

lemma owners_ok_mono: "owners_ok k ps owners \<Longrightarrow> k \<le> l \<Longrightarrow> owners_ok l ps owners"
  unfolding owners_ok_def by (meson order_trans)

lemma uf_inv_mono: "uf_inv n k ps st \<Longrightarrow> k \<le> l \<Longrightarrow> uf_inv n l ps st"
  unfolding uf_inv_def by (auto intro: uf_upto_mono owners_ok_mono)

definition key_pairs :: "(nat \<times> string list) list \<Rightarrow> (nat \<times> string) list" where
  "key_pairs xs = concat (map (\<lambda>(k, ks). map (Pair k) ks) xs)"

lemma join_activities_inv:
  "uf_inv n k ps st \<Longrightarrow> sorted_wrt (\<lambda>x y. fst x \<le> fst y) ((k, []) # xs) \<Longrightarrow> (\<forall>x \<in> set xs. fst x < n) \<Longrightarrow>
    \<exists>st' l. join_activities xs st = Some st' \<and> uf_inv n l (ps @ key_pairs xs) st'"
proof (induction xs arbitrary: k ps st)
  case (Cons x xs)
  obtain l ks where x: "x = (l, ks)" by (cases x)
  have "uf_inv n l ps st" "l < n" using Cons.prems x by (auto intro: uf_inv_mono)
  from join_keys_inv [OF this, of ks] obtain st' where st': "join_keys l ks st = Some st'" "uf_inv n l (ps @ map (Pair l) ks) st'"
    by blast
  have "sorted_wrt (\<lambda>x y. fst x \<le> fst y) ((l, []) # xs)" using Cons.prems(2) x by simp
  from Cons.IH [OF st'(2) this] Cons.prems(3) show ?case using st' x by (auto simp: key_pairs_def)
qed (auto simp: key_pairs_def)

lemma uf_inv_start: "uf_inv n 0 [] ([0..<n], [])"
proof -
  have "uf_upto 0 [0..<n]" by (simp add: uf_upto_def)
  moreover have "uf_root [0..<n] i = i" if "i < n" for i using that by simp
  moreover have "shares [] = {}" by (simp add: shares_def)
  ultimately show ?thesis by (auto simp: uf_inv_def owners_ok_def)
qed

section \<open>Components\<close>

definition put_root :: "nat list \<Rightarrow> (nat, activity_atom list) jsmap \<Rightarrow> nat \<times> activity_atom \<Rightarrow> (nat, activity_atom list) jsmap" where
  "put_root p m x = map_set (uf_root p (fst x)) (nullish (map_get m (uf_root p (fst x))) [] @ [snd x]) m"

lemma group_roots_from:
  "uf_upto k p \<Longrightarrow> (\<forall>x \<in> set xs. fst x < length p) \<Longrightarrow> group_roots xs p g = Some (foldl (put_root p) g xs)"
proof (induction xs arbitrary: p g)
  case (Cons x xs)
  obtain i a where x: "x = (i, a)" by (cases x)
  from find_root [OF Cons.prems(1), of i] Cons.prems(2) x obtain p' where p':
    "uf_find p i = Some (p', uf_root p i)" "uf_upto k p'" "length p' = length p" "\<forall>j < length p. uf_root p' j = uf_root p j" by auto
  have "foldl (put_root p') g' xs = foldl (put_root p) g' xs" for g'
    using Cons.prems(2) p'(4) by (intro foldl_cong) (auto simp: put_root_def)
  moreover have "group_roots xs p' g' = Some (foldl (put_root p') g' xs)" for g'
    using Cons.IH [OF p'(2)] Cons.prems(2) p'(3) by simp
  ultimately show ?case using p'(1) x by (simp add: put_root_def [of p g])
qed simp

text \<open>Grouping elements by the root of their index is grouping the indices.\<close>

lemma map_of_map_snd: "map_get (map (\<lambda>(k, v). (k, f v)) m) k = map_option f (map_get m k)"
  by (induction m) auto

lemma map_set_map_snd: "map_set k (f v) (map (\<lambda>(k, v). (k, f v)) m) = map (\<lambda>(k, v). (k, f v)) (map_set k v m)"
  by (induction m) auto

lemma put_roots_group:
  assumes "\<forall>x \<in> set xs. snd x = f (fst x)"
  shows "foldl (put_root p) (map (\<lambda>(k, is). (k, map f is)) m) xs =
    map (\<lambda>(k, is). (k, map f is)) (foldl (\<lambda>m i. map_set (uf_root p i) (nullish (map_get m (uf_root p i)) [] @ [i]) m) m (map fst xs))"
  using assms
proof (induction xs arbitrary: m)
  case (Cons x xs)
  have "put_root p (map (\<lambda>(k, is). (k, map f is)) m) x
      = map (\<lambda>(k, is). (k, map f is)) (map_set (uf_root p (fst x)) (nullish (map_get m (uf_root p (fst x))) [] @ [fst x]) m)"
    using Cons.prems unfolding map_set_map_snd [symmetric] put_root_def map_of_map_snd
    by (cases "map_get m (uf_root p (fst x))") simp_all
  then show ?case using Cons by simp
qed simp

text \<open>Two activities are linked when they have a key in common.\<close>

definition linked :: "activity_atom list \<Rightarrow> (nat \<times> nat) set" where
  "linked as = {(i, j). i < length as \<and> j < length as
     \<and> set (activity_keys (filter isNativePermissionRejection as) (as ! i))
       \<inter> set (activity_keys (filter isNativePermissionRejection as) (as ! j)) \<noteq> {}}"

lemma shares_linked:
  "shares (key_pairs (zip [0..<length as] (map (activity_keys (filter isNativePermissionRejection as)) as))) = linked as"
proof -
  let ?ks = "map (activity_keys (filter isNativePermissionRejection as)) as"
  have "(i, key) \<in> set (key_pairs (zip [0..<length as] ?ks)) \<longleftrightarrow> i < length as \<and> key \<in> set (?ks ! i)" for i key
    by (force simp: key_pairs_def set_zip)
  then show ?thesis by (auto simp: shares_def linked_def)
qed

lemma zip_upt_sorted: "sorted_wrt (\<lambda>x y. fst x \<le> fst y) ((0::nat, []) # zip [0..<n] ys)"
proof -
  have "sorted (map fst (zip [0..<n] ys))" by (simp add: map_fst_zip_take)
  then show ?thesis by (simp add: sorted_map)
qed

lemma components_found:
  "\<exists>p. activity_components as = Some (map (map (nth as)) (map_values (group_by (uf_root p) [0..<length as])))
     \<and> (\<forall>i < length as. \<forall>j < length as. uf_root p i = uf_root p j \<longleftrightarrow> (i, j) \<in> (linked as)\<^sup>*)"
proof -
  let ?n = "length as" and ?ks = "map (activity_keys (filter isNativePermissionRejection as)) as"
  have "\<forall>x \<in> set (zip [0..<?n] ?ks). fst x < ?n" by (auto simp: set_zip)
  from join_activities_inv [OF uf_inv_start zip_upt_sorted this] obtain p owners l where
    j: "join_activities (zip [0..<?n] ?ks) ([0..<?n], []) = Some (p, owners)" "uf_inv ?n l (key_pairs (zip [0..<?n] ?ks)) (p, owners)"
    by auto
  have len: "length p = ?n" and u: "uf_upto l p" using j(2) by (auto simp: uf_inv_def)
  have "\<forall>x \<in> set (zip [0..<?n] as). fst x < length p" "\<forall>x \<in> set (zip [0..<?n] as). snd x = as ! fst x"
    by (auto simp: set_zip len)
  then have "group_roots (zip [0..<?n] as) p [] = Some (map (\<lambda>(k, is). (k, map (nth as) is)) (group_by (uf_root p) [0..<?n]))"
    using group_roots_from [OF u, of "zip [0..<?n] as" "[]"] put_roots_group [of "zip [0..<?n] as" "nth as" p "[]"]
    by (simp add: group_by_def)
  then have "activity_components as = Some (map (map (nth as)) (map_values (group_by (uf_root p) [0..<?n])))"
    using j(1) by (simp add: activity_components_def Let_def map_values_def comp_def case_prod_unfold)
  moreover have "\<forall>i < ?n. \<forall>j < ?n. uf_root p i = uf_root p j \<longleftrightarrow> (i, j) \<in> (linked as)\<^sup>*"
    using j(2) unfolding uf_inv_def shares_linked by simp
  ultimately show ?thesis by blast
qed

end
