(* ===== verification/ProjectionProperties.thy ===== *)
theory ProjectionProperties
  imports LinkedConservation ActivityComponents
begin

text \<open>
  What the usage pipelines of the engine guarantee: a projection always returns, the breakdown of every run
  that it reports adds up to its tokens, every request of Claude counts once whatever the number of its
  revisions and surfaces, and work that is internal to a harness is not reported.
\<close>

section \<open>Revisions of a request\<close>

text \<open>An atom with other owners.\<close>

definition owned_as :: "usage_atom \<Rightarrow> usage_atom \<Rightarrow> bool" where
  "owned_as a b = (\<exists>x c. a = b\<lparr>ua_owningActivityId := x, ua_ownershipConflictActivityIds := c\<rparr>)"

lemma reconcile_revisions_owned:
  assumes "rs \<noteq> []"
  shows "\<exists>a \<in> set rs. owned_as (reconcile_revisions lc rs) a"
proof -
  let ?p = "last (sort_by (\<lambda>l r. compareClaudeUsageRevision lc l r \<le> 0) rs)"
  have "?p \<in> set rs" using assms by (metis last_in_set set_sort_by sort_by_eq_Nil)
  moreover have "owned_as (reconcile_revisions lc rs) ?p"
  proof -
    have "owned_as (b\<lparr>ua_owningActivityId := x, ua_ownershipConflictActivityIds := c\<rparr>) b" for b x c by (auto simp: owned_as_def)
    moreover have "owned_as (b\<lparr>ua_owningActivityId := x\<rparr>) b" for b x
      unfolding owned_as_def by (rule exI [of _ x], rule exI [of _ "ua_ownershipConflictActivityIds b"]) (cases b, simp)
    moreover have "owned_as b b" for b
      unfolding owned_as_def by (rule exI [of _ "ua_owningActivityId b"], rule exI [of _ "ua_ownershipConflictActivityIds b"]) simp
    ultimately show ?thesis by (simp add: reconcile_revisions_def Let_def)
  qed
  ultimately show ?thesis by blast
qed

lemma owned_as_key: "owned_as a b \<Longrightarrow> revision_key a = revision_key b"
  by (auto simp: owned_as_def revision_key_def)

lemma reconcile_keys: "map revision_key (reconcileClaudeRequestRevisions lc atoms) = map fst (group_by revision_key atoms)"
proof -
  have "revision_key (reconcile_revisions lc rs) = k" if kr: "(k, rs) \<in> set (group_by revision_key atoms)" for k rs
  proof -
    note rs = conjunct1 [OF group_by_mem [OF kr]] conjunct2 [OF group_by_mem [OF kr]]
    from reconcile_revisions_owned [OF rs(2)] obtain a where "a \<in> set rs" "owned_as (reconcile_revisions lc rs) a" by blast
    moreover from this(1) have "revision_key a = k" using rs(1) by auto
    ultimately show ?thesis by (simp add: owned_as_key)
  qed
  then show ?thesis by (auto simp: reconcileClaudeRequestRevisions_def map_values_def)
qed

lemma reconcile_key_set: "revision_key ` set (reconcileClaudeRequestRevisions lc atoms) = revision_key ` set atoms"
  using arg_cong [OF reconcile_keys, of set lc atoms] by (simp add: keys_group_by del: set_map) (simp add: keys_group_by)

lemma with_fallback_key: "truthy (ua_requestId a) \<Longrightarrow> revision_key (with_fallback f a) = revision_key a"
  by (cases "ua_requestId a") (auto simp: revision_key_def with_fallback_def)

text \<open>The surface of Claude: the reports are reconciled, or, when there are traces, the reconciled traces,
  completed by the logs of their requests, and the other logs.\<close>

lemma enriched_by_fallback:
  assumes "enrich = (\<lambda>a. if truthy (ua_requestId a)
    then (case map_get (map_from (\<lambda>a. the (ua_requestId a)) (filter (\<lambda>a. truthy (ua_requestId a)) logs)) (the (ua_requestId a)) of
      None \<Rightarrow> a | Some fallback \<Rightarrow> with_fallback fallback a) else a)"
  shows "enrich a = a \<or> (\<exists>f \<in> set logs. truthy (ua_requestId a) \<and> enrich a = with_fallback f a)"
proof (cases "map_get (map_from (\<lambda>a. the (ua_requestId a)) (filter (\<lambda>a. truthy (ua_requestId a)) logs)) (the (ua_requestId a))")
  case (Some f)
  have "f \<in> set logs" using conjunct1 [OF map_from_get [OF Some]] by simp
  then show ?thesis unfolding assms Some by auto
qed (simp add: assms del: map_of_eq_Some_iff)

lemma claude_surface_split:
  obtains (reconciled) "claude_surface lc atoms = reconcileClaudeRequestRevisions lc atoms"
  | (traced) is_trace traces logs unmatched enrich where
      "claude_surface lc atoms = reconcileClaudeRequestRevisions lc (map enrich traces @ unmatched)"
      "traces = reconcileClaudeRequestRevisions lc (filter is_trace atoms)"
      "logs = reconcileClaudeRequestRevisions lc (filter (\<lambda>a. \<not> is_trace a) atoms)"
      "unmatched = filter (\<lambda>a. \<not> truthy (ua_requestId a) \<or> the (ua_requestId a) \<notin> set (truthy_texts ua_requestId traces)) logs"
      "\<And>a. enrich a = a \<or> (\<exists>f \<in> set logs. truthy (ua_requestId a) \<and> enrich a = with_fallback f a)"
proof (cases "filter (trace_surface ''claude-code-enhanced-traces-beta-v1'' ''otlp_claude_code_traces'') atoms = []")
  case True
  then have "claude_surface lc atoms = reconcileClaudeRequestRevisions lc atoms" unfolding claude_surface_def Let_def by (rule if_P)
  then show thesis by (rule reconciled)
next
  case False
  let ?t = "trace_surface ''claude-code-enhanced-traces-beta-v1'' ''otlp_claude_code_traces''"
  define traces where "traces = reconcileClaudeRequestRevisions lc (filter ?t atoms)"
  define logs where "logs = reconcileClaudeRequestRevisions lc (filter (\<lambda>a. \<not> ?t a) atoms)"
  define enrich where "enrich = (\<lambda>a. if truthy (ua_requestId a)
    then (case map_get (map_from (\<lambda>a. the (ua_requestId a)) (filter (\<lambda>a. truthy (ua_requestId a)) logs)) (the (ua_requestId a)) of
      None \<Rightarrow> a | Some fallback \<Rightarrow> with_fallback fallback a) else a)"
  show thesis
  proof (rule traced [OF _ traces_def logs_def refl])
    show "claude_surface lc atoms = reconcileClaudeRequestRevisions lc (map enrich traces
        @ filter (\<lambda>a. \<not> truthy (ua_requestId a) \<or> the (ua_requestId a) \<notin> set (truthy_texts ua_requestId traces)) logs)"
      unfolding claude_surface_def Let_def traces_def [symmetric] logs_def [symmetric] enrich_def [symmetric] using False by (rule if_not_P)
  qed (rule enriched_by_fallback [OF enrich_def])
qed

lemma matched_request:
  assumes "truthy (ua_requestId a)" "the (ua_requestId a) \<in> set (truthy_texts ua_requestId traces)"
  shows "revision_key a \<in> revision_key ` set traces"
proof -
  obtain b where "b \<in> set traces" "truthy (ua_requestId b)" "ua_requestId b = ua_requestId a"
    using assms by (auto simp: truthy_texts_def List.map_filter_def split: if_splits) (metis option.collapse truthy_simps(1))
  then show ?thesis using assms(1) by (metis imageI revision_key_def)
qed

text \<open>
  C20: every request of Claude counts exactly once. The surface that is preferred for Claude has one atom for
  every request of the evidence, and one for every atom without a request, and nothing else: revisions of a
  request are reduced to one, a request that is in the logs and in the traces is not counted twice, and none
  is lost.
\<close>

theorem claude_requests_once:
  "distinct (map revision_key (preferProviderUsageSurface lc ''claude-code'' atoms))
   \<and> revision_key ` set (preferProviderUsageSurface lc ''claude-code'' atoms) = revision_key ` set atoms"
proof -
  have surface: "preferProviderUsageSurface lc ''claude-code'' atoms = claude_surface lc atoms"
    by (simp add: preferProviderUsageSurface_def)
  have once: "distinct (map revision_key (reconcileClaudeRequestRevisions lc xs))" for xs
    unfolding reconcile_keys by (rule distinct_group_by)
  show ?thesis unfolding surface
  proof (cases rule: claude_surface_split [of lc atoms])
    case reconciled
    then show "distinct (map revision_key (claude_surface lc atoms)) \<and> revision_key ` set (claude_surface lc atoms) = revision_key ` set atoms"
      using once reconcile_key_set by simp
  next
    case (traced is_trace traces logs unmatched enrich)
    have "revision_key (enrich a) = revision_key a" for a using traced(5) [of a] with_fallback_key by metis
    then have e: "revision_key ` set (map enrich traces) = revision_key ` set traces" by (simp add: image_image)
    have "set unmatched \<subseteq> set logs" "\<forall>a \<in> set logs. a \<notin> set unmatched \<longrightarrow> revision_key a \<in> revision_key ` set traces"
      using matched_request unfolding traced(4) by auto
    then have "revision_key ` set (map enrich traces @ unmatched) = revision_key ` set traces \<union> revision_key ` set logs"
      unfolding set_append image_Un e by blast
    moreover have "revision_key ` set traces \<union> revision_key ` set logs = revision_key ` set atoms"
      unfolding traced(2,3) reconcile_key_set by auto
    ultimately show "distinct (map revision_key (claude_surface lc atoms)) \<and> revision_key ` set (claude_surface lc atoms) = revision_key ` set atoms"
      unfolding traced(1) using once reconcile_key_set by simp
  qed
qed

section \<open>Counts that are not negative\<close>

definition counted :: "usage_atom \<Rightarrow> bool" where
  "counted a = (0 \<le> or0 (ua_inputTokens a) \<and> 0 \<le> or0 (ua_outputTokens a) \<and> 0 \<le> or0 (ua_cacheReadInputTokens a)
     \<and> 0 \<le> or0 (ua_cacheCreationInputTokens a) \<and> 0 \<le> or0 (ua_reasoningOutputTokens a))"

lemma counted_owned: "owned_as a b \<Longrightarrow> counted b \<Longrightarrow> counted a"
  by (auto simp: owned_as_def counted_def)

lemma counted_or_else: "0 \<le> or0 x \<Longrightarrow> 0 \<le> or0 y \<Longrightarrow> 0 \<le> or0 (or_else x y)"
  by (cases x) simp_all

lemma counted_fallback: "counted a \<Longrightarrow> counted f \<Longrightarrow> counted (with_fallback f a)"
  by (simp add: counted_def with_fallback_def counted_or_else)

lemma counted_reconcile:
  "\<forall>a \<in> set atoms. counted a \<Longrightarrow> \<forall>a \<in> set (reconcileClaudeRequestRevisions lc atoms). counted a"
proof
  fix a assume c: "\<forall>a \<in> set atoms. counted a" and "a \<in> set (reconcileClaudeRequestRevisions lc atoms)"
  then obtain rs where rs: "rs \<in> set (map_values (group_by revision_key atoms))" "a = reconcile_revisions lc rs"
    by (auto simp: reconcileClaudeRequestRevisions_def)
  have "set rs \<subseteq> set atoms" using group_value_key [OF rs(1)] by auto
  then show "counted a" using reconcile_revisions_owned [OF group_value_ne [OF rs(1)], of lc] rs(2) c by (auto intro: counted_owned)
qed

lemma counted_claude:
  assumes "\<forall>a \<in> set atoms. counted a"
  shows "\<forall>a \<in> set (claude_surface lc atoms). counted a"
proof (cases rule: claude_surface_split [of lc atoms])
  case reconciled
  then show ?thesis using counted_reconcile [OF assms] by simp
next
  case (traced is_trace traces logs unmatched enrich)
  have tl: "\<forall>a \<in> set traces. counted a" "\<forall>a \<in> set logs. counted a"
    unfolding traced(2,3) using assms by (intro counted_reconcile; simp)+
  then have "counted (enrich a)" if "a \<in> set traces" for a using that traced(5) [of a] counted_fallback by metis
  then show ?thesis unfolding traced(1) using tl(2) by (intro counted_reconcile) (auto simp: traced(4))
qed

lemma counted_prefer:
  "\<forall>a \<in> set atoms. counted a \<Longrightarrow> \<forall>a \<in> set (preferProviderUsageSurface lc provider atoms). counted a"
  by (simp add: preferProviderUsageSurface_def Let_def counted_claude)

lemma tokenSum_nonneg: "\<forall>a \<in> set atoms. 0 \<le> or0 (f a) \<Longrightarrow> 0 \<le> tokenSum f atoms"
  by (auto simp: tokenSum_def intro!: sum_list_nonneg)

lemma positive_or_nonneg: "0 \<le> or0 x \<Longrightarrow> 0 \<le> s \<Longrightarrow> 0 \<le> or0 (positive_or x s)"
  by (simp add: positive_or_def)

lemma counted_enrich_run: "counted a \<Longrightarrow> \<forall>b \<in> set bs. counted b \<Longrightarrow> counted (enrich_run_atom a bs models)"
  by (simp add: enrich_run_atom_def Let_def counted_def positive_or_nonneg tokenSum_nonneg)

lemma counted_enrich:
  assumes "\<forall>a \<in> set selected. counted a" "\<forall>a \<in> set atoms. counted a"
  shows "\<forall>a \<in> set (enrichProviderUsageSurface lc provider authority selected atoms). counted a"
proof (cases selected)
  case Nil
  then show ?thesis by (simp add: enrichProviderUsageSurface_def)
next
  case (Cons a rest)
  let ?c = "preferProviderUsageSurface lc ''github-copilot'' (filter (\<lambda>a. ua_authority a = ''model'' \<or> ua_authority a = ''turn'') atoms)"
  have "counted (enrich_run_atom a ?c (dedup (truthy_texts ua_model ?c)))"
    using assms Cons by (intro counted_enrich_run counted_prefer) simp_all
  moreover have "enrichProviderUsageSurface lc provider authority selected atoms \<in> {selected, [enrich_run_atom a ?c (dedup (truthy_texts ua_model ?c))]}"
    unfolding enrichProviderUsageSurface_def enrichCopilotRunSelection_def Let_def Cons by simp
  ultimately show ?thesis using assms(1) by auto
qed

lemma counted_selected: "\<forall>a \<in> set atoms. counted a \<Longrightarrow> \<forall>a \<in> set (selected_atoms lc atoms). counted a"
  unfolding selected_atoms_def Let_def accounting_atoms_def by (intro counted_enrich counted_prefer) simp_all

lemma counted_totals: "\<forall>a \<in> set atoms. counted a \<Longrightarrow> nonneg_tokens (atom_totals atoms)"
  by (simp add: nonneg_tokens_def atom_totals_def tokenSum_nonneg counted_def)

section \<open>Projected runs\<close>

lemma projectGroup_balanced:
  assumes "\<forall>a \<in> set atoms. counted a"
  shows "balanced (projectGroup pe q atoms occ acts ctx aux)"
proof -
  have "nonneg_tokens (atom_totals (selected_atoms (pe_collation pe) atoms))"
    by (rule counted_totals [OF counted_selected [OF assms]])
  from runBreakdown_adds_up [of "\<lparr>bi_collation = pe_collation pe, bi_hash = pe_hash pe, bi_queryId = q, bi_provider = ua_provider (hd atoms),
    bi_atoms = atoms, bi_totals = atom_totals (selected_atoms (pe_collation pe) atoms), bi_aliases = pe_aliases pe, bi_conflicts = pe_conflicts pe\<rparr>" acts] this
  show ?thesis by (simp add: balanced_def projectGroup_def Let_def)
qed

lemma occurrence_balanced: "balanced (projectOccurrenceOnlyGroup pe oc acts aux)"
proof -
  have "nonneg_tokens emptyTokenTotals" by (simp add: nonneg_tokens_def emptyTokenTotals_def)
  from runBreakdown_adds_up [of "\<lparr>bi_collation = pe_collation pe, bi_hash = pe_hash pe, bi_queryId = oc_queryId oc,
        bi_provider = oc_provider oc, bi_atoms = [], bi_totals = emptyTokenTotals, bi_aliases = [], bi_conflicts = []\<rparr>" acts] this
  show ?thesis by (simp add: balanced_def projectOccurrenceOnlyGroup_def)
qed

lemma unlinked_run_sources:
  assumes "r \<in> set (unlinked_runs pe atoms occurrences preferred)"
  obtains (usage) q g acts ctx aux where "r = projectGroup pe q g (occurrence_of occurrences q) acts ctx aux"
      "set g \<subseteq> set (customer_atoms (visible_atoms atoms occurrences))" "g \<noteq> []" "\<forall>a \<in> set g. atom_query a = q"
  | (outcome) oc acts aux where "r = projectOccurrenceOnlyGroup pe oc acts aux" "oc \<in> set occurrences"
      "isAuthoritativeOutcomeOccurrence oc" "oc_queryId oc \<notin> atom_query ` set (customer_atoms (visible_atoms atoms occurrences))"
proof -
  let ?c = "customer_atoms (visible_atoms atoms occurrences)"
  from assms consider q g where "(q, g) \<in> set (group_by atom_query (map_values (map_from ua_atomId ?c)))"
      "\<exists>acts ctx aux. r = projectGroup pe q g (occurrence_of occurrences q) acts ctx aux"
    | oc where "oc \<in> set (map_values (map_from oc_queryId occurrences))" "oc_queryId oc \<notin> atom_query ` set ?c"
      "isAuthoritativeOutcomeOccurrence oc" "\<exists>acts aux. r = projectOccurrenceOnlyGroup pe oc acts aux"
    unfolding unlinked_runs_def Let_def by fastforce
  then show thesis
  proof cases
    case 1
    have "g = filter (\<lambda>a. atom_query a = q) (map_values (map_from ua_atomId ?c))" "g \<noteq> []"
      using group_by_mem [OF 1(1)] by blast+
    moreover have "set (map_values (map_from ua_atomId ?c)) \<subseteq> set ?c" by (rule map_from_values_subset)
    ultimately have "set g \<subseteq> set ?c" "g \<noteq> []" "\<forall>a \<in> set g. atom_query a = q" by auto
    then show thesis using 1(2) usage by blast
  next
    case 2
    then show thesis using map_from_values_subset [of oc_queryId occurrences] outcome by blast
  qed
qed

lemma unlinked_run_balanced:
  "\<forall>a \<in> set atoms. counted a \<Longrightarrow> r \<in> set (unlinked_runs pe atoms occurrences preferred) \<Longrightarrow> balanced r"
proof (erule unlinked_run_sources)
  fix q g acts ctx aux
  assume "\<forall>a \<in> set atoms. counted a" "r = projectGroup pe q g (occurrence_of occurrences q) acts ctx aux"
    "set g \<subseteq> set (customer_atoms (visible_atoms atoms occurrences))"
  moreover have "set (customer_atoms (visible_atoms atoms occurrences)) \<subseteq> set atoms" by (auto simp: customer_atoms_def visible_atoms_def)
  ultimately show "balanced r" using projectGroup_balanced by blast
qed (simp add: occurrence_balanced)

lemma preferred_found: "\<exists>xs. preferredSafeActivities as = Some xs" "\<exists>pj. projectPreferredSafeActivities as = Some pj"
  using components_found [of as] by (auto simp: preferredSafeActivities_def projectPreferredSafeActivities_def)

lemma shadow_project_found:
  obtains pe preferred linkable where "shadow_project lc hash atoms now occurrences activities
    = Some (sort_by (\<lambda>a b. lc (sr_startedAt b) (sr_startedAt a) \<le> 0)
        (aggregateLinkedSubagentRuns hash (unlinked_runs pe atoms occurrences preferred) linkable))"
proof -
  obtain pj where pj: "projectPreferredSafeActivities (visible_activities activities occurrences) = Some pj" using preferred_found(2) by blast
  obtain xs where xs: "preferredSafeActivities (pj_activities pj) = Some xs" using preferred_found(1) by blast
  show thesis by (rule that) (simp only: shadow_project_def pj xs Option.bind.simps Let_def)
qed

text \<open>
  C18: the projection of usage always returns, and the breakdown of every run that it reports adds up, for
  each kind of token, to exactly the tokens of the run; whatever the activities, their aliases and the links
  between runs are, and whatever the number of rows, provided that no count of the evidence is negative.
\<close>

theorem projected_runs_add_up:
  assumes "\<forall>a \<in> set atoms. counted a"
  shows "\<exists>runs. shadow_project lc hash atoms now occurrences activities = Some runs
    \<and> map (\<lambda>r. map_option (\<lambda>rows. tokens_sum (map tokenTotalsFromBreakdown rows)) (sr_breakdown r)) runs
      = map (\<lambda>r. Some (sr_tokens r)) runs"
proof -
  obtain pe preferred linkable where p: "shadow_project lc hash atoms now occurrences activities
    = Some (sort_by (\<lambda>a b. lc (sr_startedAt b) (sr_startedAt a) \<le> 0)
        (aggregateLinkedSubagentRuns hash (unlinked_runs pe atoms occurrences preferred) linkable))"
    by (rule shadow_project_found)
  have "balanced r" if "r \<in> set (aggregateLinkedSubagentRuns hash (unlinked_runs pe atoms occurrences preferred) linkable)" for r
    by (rule aggregate_balanced [OF _ that]) (rule unlinked_run_balanced [OF assms])
  then show ?thesis unfolding p by (auto simp: balanced_def adds_up_def)
qed

definition sample_usage :: usage_atom where
  "sample_usage = \<lparr>ua_atomId = ''atom-1'', ua_correlationId = ''c1'', ua_queryId = Some ''qry_1'', ua_sessionId = Some ''s1'',
     ua_requestId = Some ''req-1'', ua_owningActivityId = None, ua_ownershipConflictActivityIds = None, ua_signal = Some ''logs'',
     ua_sourceId = None, ua_profileVersion = None, ua_provider = ''claude-code'', ua_runtime = ''cli'', ua_kind = Some ''model_call'',
     ua_authority = ''model'', ua_completionMode = None, ua_usagePurpose = None, ua_billingContext = None,
     ua_providerReportedNanoUsd = None, ua_model = Some ''claude-sonnet-4-5'', ua_modelProvider = None, ua_modelProviderBasis = None,
     ua_modelProviderClassificationVersion = None, ua_inputTokens = Some 100, ua_outputTokens = Some 20,
     ua_cacheReadInputTokens = Some 5, ua_cacheCreationInputTokens = None, ua_reasoningOutputTokens = None,
     ua_startedAt = ''2026-07-01T10:00:00Z'', ua_endedAt = Some ''2026-07-01T10:00:05Z''\<rparr>"

theorem projected_runs_add_up_witness:
  "\<exists>runs. shadow_project code_unit_compare (\<lambda>s. s) [sample_usage, sample_usage\<lparr>ua_atomId := ''atom-2''\<rparr>] 0
      [sample_occurrence ''qry_1'' ''s1''] [sample_launch] = Some runs
    \<and> map (\<lambda>r. map_option (\<lambda>rows. tokens_sum (map tokenTotalsFromBreakdown rows)) (sr_breakdown r)) runs
      = map (\<lambda>r. Some (sr_tokens r)) runs"
  by (rule projected_runs_add_up) (simp add: counted_def sample_usage_def)

section \<open>Reported runs\<close>

lemma projected_query [simp]:
  "query_of_run (projectGroup pe q g occ acts ctx aux) = q" "query_of_run (projectOccurrenceOnlyGroup pe oc acts aux) = oc_queryId oc"
  by (simp_all add: query_of_run_def projectGroup_def projectOccurrenceOnlyGroup_def Let_def)

lemma unlinked_queries:
  assumes "distinct (map oc_queryId occurrences)"
  shows "map query_of_run (unlinked_runs pe atoms occurrences preferred)
    = map fst (group_by atom_query (map_values (map_from ua_atomId (customer_atoms (visible_atoms atoms occurrences)))))
      @ map oc_queryId (filter (\<lambda>oc. oc_queryId oc \<notin> atom_query ` set (customer_atoms (visible_atoms atoms occurrences))
          \<and> isAuthoritativeOutcomeOccurrence oc) occurrences)"
proof -
  have "map_values (map_from oc_queryId occurrences) = occurrences"
    using map_from_distinct [OF assms] by (simp add: map_values_def comp_def)
  then show ?thesis unfolding unlinked_runs_def Let_def map_append map_map comp_def case_prod_unfold projected_query by simp
qed

lemma unlinked_queries_distinct:
  assumes "distinct (map oc_queryId occurrences)"
  shows "distinct (map query_of_run (unlinked_runs pe atoms occurrences preferred))"
proof -
  define c where "c = customer_atoms (visible_atoms atoms occurrences)"
  have "set (map fst (group_by atom_query (map_values (map_from ua_atomId c)))) \<subseteq> atom_query ` set c"
    unfolding keys_group_by using map_from_values_subset [of ua_atomId c] by blast
  then show ?thesis unfolding unlinked_queries [OF assms] c_def [symmetric] distinct_append
    using distinct_group_by distinct_map_filter [OF assms] by auto
qed

lemma aggregated_queries: "map query_of_run (aggregateLinkedSubagentRuns hash runs acts)
  = filter (\<lambda>q. q \<notin> set (map lk_childQueryId (subagent_links runs acts))) (map query_of_run runs)"
  by (simp add: aggregateLinkedSubagentRuns_def Let_def merge_linked_query filter_map comp_def del: merge_linked.simps)

lemma shadow_queries:
  assumes "distinct (map query_of_run runs)"
  shows "distinct (map query_of_run (sort_by le (aggregateLinkedSubagentRuns hash runs acts)))
    \<and> query_of_run ` set (sort_by le (aggregateLinkedSubagentRuns hash runs acts)) \<subseteq> query_of_run ` set runs"
proof -
  have "mset (map query_of_run (sort_by le (aggregateLinkedSubagentRuns hash runs acts)))
      = mset (filter (\<lambda>q. q \<notin> set (map lk_childQueryId (subagent_links runs acts))) (map query_of_run runs))"
    unfolding mset_map mset_sort_by unfolding mset_map [symmetric] aggregated_queries ..
  from mset_eq_imp_distinct_iff [OF this] mset_eq_setD [OF this] show ?thesis using assms by auto
qed

lemma unlinked_queries_visible:
  "query_of_run ` set (unlinked_runs pe atoms occurrences preferred) \<subseteq> atom_query ` set (customer_atoms (visible_atoms atoms occurrences))
      \<union> oc_queryId ` set (filter isAuthoritativeOutcomeOccurrence occurrences)"
proof
  fix q assume "q \<in> query_of_run ` set (unlinked_runs pe atoms occurrences preferred)"
  then obtain r where r: "r \<in> set (unlinked_runs pe atoms occurrences preferred)" "q = query_of_run r" by blast
  from r(1) show "q \<in> atom_query ` set (customer_atoms (visible_atoms atoms occurrences))
    \<union> oc_queryId ` set (filter isAuthoritativeOutcomeOccurrence occurrences)"
  proof (cases rule: unlinked_run_sources)
    case (usage q' g acts ctx aux)
    then have "hd g \<in> set g" "atom_query (hd g) = q" using r(2) by simp_all
    then show ?thesis using usage(2) by blast
  next
    case (outcome oc acts aux)
    then show ?thesis using r(2) by simp
  qed
qed

lemma visible_not_internal:
  assumes "distinct (map oc_queryId occurrences)"
  shows "(atom_query ` set (customer_atoms (visible_atoms atoms occurrences))
      \<union> oc_queryId ` set (filter isAuthoritativeOutcomeOccurrence occurrences)) \<inter> set (internal_queries occurrences) = {}"
proof -
  have "inj_on oc_queryId (set occurrences)" using assms by (simp add: distinct_map)
  then have "oc_queryId oc \<notin> set (internal_queries occurrences)" if "oc \<in> set occurrences" "isAuthoritativeOutcomeOccurrence oc" for oc
    using that by (auto simp: internal_queries_def isAuthoritativeOutcomeOccurrence_def dest: inj_onD)
  then show ?thesis by (auto simp: customer_atoms_def visible_atoms_def)
qed

lemma visible_claude_hook:
  assumes "production_visible occurrences r" "sr_provider r = ''claude-code''"
  shows "query_of_run r \<in> oc_queryId ` set (filter (\<lambda>oc. oc_evidence oc = ''submission_hook'') occurrences)"
proof -
  obtain oc where "occurrence_of occurrences (query_of_run r) = Some oc" "oc_evidence oc = ''submission_hook''"
    using assms by (auto simp: production_visible_def split: option.splits)
  then show ?thesis using map_from_get [of oc_queryId occurrences "query_of_run r" oc] by (force simp: occurrence_of_def)
qed

text \<open>
  C22: what is reported is visible. The reported runs have different queries, and none is a query that is
  internal to a harness: each has usage that counts or an outcome that is certain. A run of Claude Code is
  reported only when a hook saw the submission of its query.
\<close>

theorem reported_runs_visible:
  assumes "production_project lc hash atoms now occurrences activities = Some runs" "distinct (map oc_queryId occurrences)"
  shows "distinct (map query_of_run runs) \<and> query_of_run ` set runs \<inter> set (internal_queries occurrences) = {}
    \<and> query_of_run ` set runs \<subseteq> atom_query ` set (customer_atoms (visible_atoms atoms occurrences))
        \<union> oc_queryId ` set (filter isAuthoritativeOutcomeOccurrence occurrences)
    \<and> query_of_run ` set (filter (\<lambda>r. sr_provider r = ''claude-code'') runs)
        \<subseteq> oc_queryId ` set (filter (\<lambda>oc. oc_evidence oc = ''submission_hook'') occurrences)"
proof -
  obtain pe preferred linkable where p: "shadow_project lc hash atoms now occurrences activities
    = Some (sort_by (\<lambda>a b. lc (sr_startedAt b) (sr_startedAt a) \<le> 0)
        (aggregateLinkedSubagentRuns hash (unlinked_runs pe atoms occurrences preferred) linkable))"
    by (rule shadow_project_found)
  define shadow where "shadow = sort_by (\<lambda>a b. lc (sr_startedAt b) (sr_startedAt a) \<le> 0)
    (aggregateLinkedSubagentRuns hash (unlinked_runs pe atoms occurrences preferred) linkable)"
  have runs: "runs = map (\<lambda>r. r\<lparr>sr_runId := ''run_'' @ drop 4 (query_of_run r)\<rparr>) (filter (production_visible occurrences) shadow)"
    using assms(1) unfolding production_project_def p shadow_def [symmetric] option.map option.inject by (rule sym)
  have [simp]: "query_of_run (r\<lparr>sr_runId := x\<rparr>) = query_of_run r" for r x by (simp add: query_of_run_def)
  have shadow: "distinct (map query_of_run shadow)" "query_of_run ` set shadow \<subseteq> query_of_run ` set (unlinked_runs pe atoms occurrences preferred)"
    using shadow_queries [OF unlinked_queries_distinct [OF assms(2)]] unfolding shadow_def by blast+
  have "map query_of_run runs = map query_of_run (filter (production_visible occurrences) shadow)"
    unfolding runs by simp
  then have "distinct (map query_of_run runs)" using distinct_map_filter [OF shadow(1)] by simp
  moreover have "query_of_run ` set runs \<subseteq> query_of_run ` set (unlinked_runs pe atoms occurrences preferred)"
    using shadow(2) by (auto simp: runs)
  moreover have "query_of_run ` set (filter (\<lambda>r. sr_provider r = ''claude-code'') runs)
      \<subseteq> oc_queryId ` set (filter (\<lambda>oc. oc_evidence oc = ''submission_hook'') occurrences)"
    using visible_claude_hook by (auto simp: runs)
  moreover note unlinked_queries_visible [of pe atoms occurrences preferred] visible_not_internal [OF assms(2), of atoms]
  ultimately show ?thesis by (intro conjI) (assumption | blast)+
qed

theorem reported_runs_visible_witness:
  "\<exists>runs. production_project code_unit_compare (\<lambda>s. s) [sample_usage, sample_usage\<lparr>ua_queryId := Some ''qry_i''\<rparr>] 0
      [sample_occurrence ''qry_1'' ''s1'', (sample_occurrence ''qry_i'' ''s2'')\<lparr>oc_lifecycleVisibility := Some ''internal''\<rparr>] [] = Some runs
    \<and> distinct (map query_of_run runs) \<and> ''qry_i'' \<notin> query_of_run ` set runs"
proof -
  let ?atoms = "[sample_usage, sample_usage\<lparr>ua_queryId := Some ''qry_i''\<rparr>]"
  let ?os = "[sample_occurrence ''qry_1'' ''s1'', (sample_occurrence ''qry_i'' ''s2'')\<lparr>oc_lifecycleVisibility := Some ''internal''\<rparr>]"
  obtain runs where r: "production_project code_unit_compare (\<lambda>s. s) ?atoms 0 ?os [] = Some runs"
    by (rule shadow_project_found [of code_unit_compare "\<lambda>s. s" ?atoms 0 ?os "[]"]) (simp add: production_project_def)
  have "distinct (map oc_queryId ?os)" by code_simp
  from reported_runs_visible [OF r this]
  have "distinct (map query_of_run runs)" "query_of_run ` set runs \<inter> set (internal_queries ?os) = {}" by blast+
  moreover have "internal_queries ?os = [''qry_i'']" by code_simp
  ultimately show ?thesis using r by auto
qed

section \<open>Merged activities\<close>

text \<open>
  C21: reports of activities are merged exactly as far as they are linked. The merge always returns; every
  report goes into exactly one merged activity, and two reports go into the same one exactly when a chain of
  reports, each sharing an identity key with the next, leads from the one to the other.
\<close>

theorem activities_merged_exactly:
  "\<exists>gs. preferredSafeActivities as = Some (map (\<lambda>g. mergeActivityEvidence (map (nth as) g)) gs)
     \<and> mset (concat gs) = mset [0..<length as] \<and> [] \<notin> set gs
     \<and> (\<forall>i < length as. \<forall>j < length as. (\<exists>g \<in> set gs. i \<in> set g \<and> j \<in> set g) \<longleftrightarrow> (i, j) \<in> (linked as)\<^sup>*)"
proof -
  obtain p where p:
    "activity_components as = Some (map (map (nth as)) (map_values (group_by (uf_root p) [0..<length as])))"
    "\<forall>i < length as. \<forall>j < length as. uf_root p i = uf_root p j \<longleftrightarrow> (i, j) \<in> (linked as)\<^sup>*"
    using components_found [of as] by (elim exE conjE) (rule that; assumption)
  define gs where "gs = map_values (group_by (uf_root p) [0..<length as])"
  have "preferredSafeActivities as = Some (map (\<lambda>g. mergeActivityEvidence (map (nth as) g)) gs)"
    unfolding preferredSafeActivities_def projectPreferredSafeActivities_def p(1) gs_def by (simp add: projection_of_components_def)
  moreover have "mset (concat gs) = mset [0..<length as]" unfolding gs_def by (rule mset_group_values)
  moreover have "[] \<notin> set gs" using group_value_ne unfolding gs_def by blast
  moreover have "\<forall>i < length as. \<forall>j < length as. (\<exists>g \<in> set gs. i \<in> set g \<and> j \<in> set g) \<longleftrightarrow> (i, j) \<in> (linked as)\<^sup>*"
    unfolding gs_def same_group using p(2) by simp
  ultimately show ?thesis by (intro exI [of _ gs] conjI)
qed

theorem activities_merged_exactly_witness:
  "\<exists>gs. preferredSafeActivities [sample_launch, sample_launch\<lparr>aa_activityId := ''a2''\<rparr>]
      = Some (map (\<lambda>g. mergeActivityEvidence (map (nth [sample_launch, sample_launch\<lparr>aa_activityId := ''a2''\<rparr>]) g)) gs)
    \<and> (\<exists>g \<in> set gs. 0 \<in> set g \<and> 1 \<in> set g)"
proof -
  let ?as = "[sample_launch, sample_launch\<lparr>aa_activityId := ''a2''\<rparr>]"
  have "list_ex (\<lambda>k. k \<in> set (activity_keys (filter isNativePermissionRejection ?as) (?as ! 1)))
    (activity_keys (filter isNativePermissionRejection ?as) (?as ! 0))" by code_simp
  then have "set (activity_keys (filter isNativePermissionRejection ?as) (?as ! 0))
    \<inter> set (activity_keys (filter isNativePermissionRejection ?as) (?as ! 1)) \<noteq> {}" unfolding list_ex_iff by blast
  then have "(0, 1) \<in> linked ?as" unfolding linked_def by (simp only: mem_Collect_eq case_prod_conv) simp
  then have "(0, 1) \<in> (linked ?as)\<^sup>*" by (rule r_into_rtrancl)
  moreover have "0 < length ?as" "1 < length ?as" by simp_all
  moreover obtain gs where gs: "preferredSafeActivities ?as = Some (map (\<lambda>g. mergeActivityEvidence (map (nth ?as) g)) gs)"
    "\<forall>i < length ?as. \<forall>j < length ?as. (\<exists>g \<in> set gs. i \<in> set g \<and> j \<in> set g) \<longleftrightarrow> (i, j) \<in> (linked ?as)\<^sup>*"
    using activities_merged_exactly [of ?as] by (elim exE conjE) (rule that; assumption)
  ultimately have "\<exists>g \<in> set gs. 0 \<in> set g \<and> 1 \<in> set g" by blast
  with gs(1) show ?thesis by (intro exI [of _ gs] conjI)
qed

end
