(* ===== verification/Spec2Isabelle.thy ===== *)
theory Spec2Isabelle
  imports TokenMeasurement CommitSummaries RuntimeWorkScheduler ExecutionTree
    WorkspaceEvidenceLedger HistoryRewrites RepositoryScans RunReconciliation RunMerging
    RunExportProperties RunAssemblerProperties TraceStates NormalizerProperties PublicationProperties
    ProjectionProperties
begin

text \<open>
  Tirion Watch reads the telemetry of AI coding agents, measures the tokens of each run, prices
  them, and attributes the cost of the queries to the commits that contain their work. This
  library models the core of it, in the order in which data flows through the program:

    telemetry input \<rightarrow> normalized and sanitized records \<rightarrow> traces and runs \<rightarrow> token measurement \<rightarrow> cost estimate \<rightarrow> attribution policy
    \<rightarrow> attribution ledger \<rightarrow> commit summaries and publication snapshots.

  \<^bold>\<open>Foundations.\<close> \<open>Prelude\<close> has what the components share: strings, \<open>Set\<close> and \<open>Map\<close> of
  JavaScript in insertion order (\<open>dedup\<close>, \<open>map_set\<close>, \<open>group_by\<close>), stable sorting by a comparator,
  optional sums. \<open>JsValue\<close> has dynamic values and the reading and printing of numbers,
  \<open>JsRegex\<close> the regular expressions that occur in the price tables, \<open>JsDate\<close> the ISO dates of
  \<open>new Date\<close>. The records of src/src/types.ts are in \<open>Types\<close> and \<open>AttributionTypes\<close>. \<open>Groupings\<close>
  shows that grouping by a key is a partition, which the sums over runs, traces and activities rest on.

  \<^bold>\<open>Input and output.\<close> \<open>JsonText\<close> writes and parses JSON; its parser descends with fuel from the
  length of the text. \<open>TelemetryNormalizer\<close> models src/src/normalization/telemetryNormalizer.ts, which
  makes records of OTLP exports, of the rows of a span database and of single objects;
  \<open>NormalizerProperties\<close> encodes exports of spans as the OTLP protocol writes them (lists of keyed
  values, numeric status codes) and shows that they are read as they were meant, and that every
  record made has a name and no blank identifier. \<open>PrivacyGuard\<close> and \<open>PublicationGuard\<close> model
  src/src/privacy/privacyGuard.ts: what is removed from a record, what counts as a violation in a run or
  an attribution, and which events may be published. \<open>PrivacyProperties\<close> shows the value
  of every attribute after sanitizing, the first query included, and that sanitizing is idempotent, that the violations of a run are the content names at any depth, and which lists of
  causal writes pass; \<open>PublicationProperties\<close> that no allowed event has a private name at any depth.

  \<^bold>\<open>Measurement.\<close> \<open>OtelSemantics\<close> models src/src/normalization/otelValues.ts and
  src/src/aggregation/otelSemantics.ts; \<open>TokenSources\<close> and \<open>TokenMeasurement\<close> model
  src/src/aggregation/tokenMeasurement.ts: the four candidate sources, the deduplication of
  events, and \<open>measure_trace\<close>, the method \<open>measure\<close>. The lemmas show that reported tokens are the
  sums over units and over models, that the source is the first in a fixed order, that every
  event record is either kept or listed as discarded, that reasoning tokens are borrowed only
  from agreeing chat spans, and that the accounting invariants cannot fail.

  \<^bold>\<open>Pricing.\<close> \<open>PricingTables\<close> holds the four catalogs of src/src/pricing, \<open>CostEstimation\<close> the
  class of costEstimation.ts, \<open>PricingPolicy\<close> the coverage policy, the catalog of a billing
  context and the budget warnings. The lemmas show which row is used, how far the rounded
  amount is from the price of each kind of token by the row, which states an estimate can be in, and where the tiers of the
  tables meet or leave a gap.

  \<^bold>\<open>Attribution.\<close> \<open>CommitAttributionPolicy\<close> models \<open>evaluateCommitAttribution\<close>, split along its
  local constants. \<open>CommitAttributionLedger\<close> models the class \<open>StateBackedCommitAttributionLedger\<close>:
  the state is the stored list of attributions (\<open>store\<close>), each operation a function from it to an
  error (\<open>ledger_error\<close>, \<open>Inl\<close>) or its result and the next state. The write queue of the class
  runs operations one at a time, so an operation is one step of \<open>ledger_step\<close> in
  \<open>LedgerInvariants\<close>, and an operation that throws leaves the stored state as it was.
  \<open>RecordStore\<close> states, as a locale, what a store with a check on every write keeps; the ledger is
  an instance of it. \<open>LedgerProperties\<close> has the loop of a claim as a second locale, of which first
  claims and transfers are instances, and the exact effect of claims, transfers and revocations.
  \<open>CommitSummaries\<close> models the summaries, publication snapshots, queries and the CSV export.

  \<^bold>\<open>Durable stores.\<close> \<open>DurableStore\<close> has the state of the classes that keep a map in memory and
  rewrite a whole file: operations are actions on that state, an error keeps the changes made
  before it, and a load is remembered. Its locale \<open>durable_store\<close> says what loading and writing owe
  each other; \<open>RepositoryObservationStore\<close> (repositoryObservationStore.ts), \<open>WorkspaceEvidenceLedger\<close>
  (workspaceEvidenceLedger.ts) and \<open>WorkEpisodeLedger\<close> (workEpisodeLedger.ts) are instances. The
  lemmas show what a new process reads after a write, that a cursor never passes a commit that is
  not stored, and that compaction loses no query, run or evidence. \<open>WorkEpisodeTracker\<close> models
  src/src/attribution/agenticWorkEpisode.ts over that ledger; the lemmas show that claimed episodes
  have their commit and how a complete census replaces older evidence.

  \<^bold>\<open>Coordination.\<close> \<open>GitAttribution\<close> models src/src/attribution/gitAttribution.ts: the state has the
  attribution ledger, the tracker and the observations, and an operation is an action on all of
  them that runs the policy and the operations of the three in the order of the code, with the
  events and changes it publishes. \<open>GitAttributionProperties\<close> shows that it changes the ledger and
  the observation store through their operations only, that costs follow the run ledger, that a
  reportable candidate has its claim, and that a claim waiting for a rewritten commit blocks a lower
  price; \<open>HistoryRewrites\<close> shows which claims a rewrite suspends and that the work of their commits is
  open again.

  \<^bold>\<open>Observation.\<close> \<open>RepositoryObservation\<close> models src/src/attribution/repositoryObservation.ts: the
  state has the epochs, snapshots and signatures that the class holds and the store, and git, the
  clock, the handlers and the file system are a record \<open>observer_world\<close>, a new one for every step.
  \<open>RepositoryObservationProperties\<close> shows with the triples of \<open>ActionLogic\<close> that the numbers of
  observations are never used twice; \<open>RepositoryScans\<close> that a repository at rest is not reported
  again, and that a scan which failed is not made up for by any number of later ones.
  \<open>Diagnostics\<close> has the options of the events that the observer and the coordinator record.

  \<^bold>\<open>Agent.\<close> \<open>RuntimeWorkScheduler\<close> models packages/agent/src/runtimeWorkScheduler.ts as a machine
  of events (enqueue, a work that settles, a caller that waits), with the scheduler's map of lanes
  as its state; the lemmas show that a lane runs one work at a time, loses none, comes to rest,
  and what \<open>drainToFixedPoint\<close> answers. \<open>ExecutionNodes\<close> has the execution nodes of
  packages/agent-contract/src/index.ts and the identity of tool invocations; \<open>ExecutionTree\<close> models
  packages/engine/src/executionTreeProjection.ts, on the rooted forests of \<open>RootedForest\<close>, a locale
  whose traversal is proved to end within as many levels as there are nodes.

  \<^bold>\<open>Run ledger.\<close> \<open>RunRecords\<close>, \<open>RunCoverage\<close>, \<open>RunNormalization\<close>, \<open>RunGroups\<close>, \<open>RunLedger\<close> and
  \<open>RunExport\<close> model src/src/storage/runLedger.ts: the records of a run, the combination of coverages,
  the reading of the stored versions with repricing, the groups, sessions and totals, the file with
  its operations, and the CSV export. \<open>RunReconciliation\<close> shows that groups and sessions account
  for the same runs, tokens and costs as the totals, and that a merged model usage never shows as
  priced; \<open>RunLedgerProperties\<close> that the file refines a map of runs and what retention removes;
  \<open>RunMerging\<close> which record each field of a merged one is from; \<open>RunExportProperties\<close> that the CSV
  can be read back.

  \<^bold>\<open>Run assembler.\<close> \<open>TraceAccounting\<close>, \<open>ActiveTraces\<close> and \<open>RunAssembler\<close> model
  src/src/aggregation/agentRunAssembler.ts: the accounting of a trace, the traces under construction
  with their root and first query, and ingestion, runs and eviction over the map of traces.
  \<open>RunAssemblerProperties\<close> shows that the accounting of an assembled run adds up, on the partition
  lemmas of \<open>Groupings\<close>, and when a run is built at all: the search for the tool call of a
  unit is a partial function, as it does not return on a cycle of parents. \<open>TraceStates\<close> has the
  invariant of the reachable states, that ingestion is idempotent, and what leaves the map and when.

  \<^bold>\<open>Usage pipelines.\<close> The agent has a pipeline of its own, packages/engine/src/shadowUsage.ts, from atoms of
  usage and activity to the runs it reports. \<open>UsageAtoms\<close> has the records of the contract and the
  resolution of model providers (modelProviderResolution.ts), \<open>UsageSurfaces\<close> the choice among reports
  that overlap, \<open>UsagePricing\<close> the rate table and the prices, \<open>ActivityMerging\<close> the union-find that merges
  reports of one activity, \<open>RunBreakdowns\<close> the rows of a run, \<open>UsageProjection\<close> the run of a group of
  atoms, \<open>LinkedRuns\<close> the merge of subagent runs into their parents and \<open>UsagePipelines\<close> the two classes.
  \<open>ActivityComponents\<close> shows that the union-find returns and finds the connected components;
  \<open>RunConservation\<close> that the rows of a run add up to its tokens; \<open>LinkedConservation\<close> that merging runs
  along a forest of links keeps all tokens; \<open>ProjectionProperties\<close> that a projection always returns, that
  its runs add up, that a request of Claude counts once and that internal work is not reported. The fuel
  of \<open>merge_linked\<close> is one more than the number of runs, enough because each level visits another query
  (lemma \<open>merge_fuel\<close>).

  \<^bold>\<open>Modelling.\<close> A number of the program is an exact rational; the rounding of IEEE doubles is
  not modelled (\<open>JNonFinite\<close> stands for the infinities and NaN). \<open>undefined\<close> is \<open>None\<close>. The order
  of \<open>localeCompare\<close> depends on the host and is the parameter \<open>lc\<close>; the clock is the parameter
  \<open>now\<close> in milliseconds; the injected privacy guard is the parameter \<open>pg\<close> of the ledgers, the
  list of violations it reports of a typed record (\<open>PrivacyGuard\<close> models the guard on dynamic values). Hashes are opaque strings. Comparing the JSON texts of two attributions in
  \<open>upsertQueryAttribution\<close> is comparing the records. The parser of regular expressions runs on
  fuel \<open>3 * length + 3\<close>: every call of it either consumes a character or goes one level down
  from alternation to sequence to item, so at most three calls happen for a character; the
  matching itself is by recursion on the expression.

  Operations of one class do not interleave with each other, because each class has a queue; that
  callers of two classes interleave is modelled between operations and not within one.

  \<^bold>\<open>Not modelled.\<close> File and database access, HTTP, git processes and the user interfaces; the
  classification of the records of each provider (packages/engine/src/telemetryClassification.ts), whose
  atoms are the input of the usage pipelines; the services of the agent, its SQL
  workers and the webhook dispatch, whose steps are requests and database transactions; the command line
  and the installers.
\<close>

end
